(* ===== verification/EU_Prelude.thy ===== *)
theory EU_Prelude imports Complex_Main "HOL-Library.AList" "HOL-Library.List_Lexorder"
  "HOL-Library.Char_ord" "HOL-Library.Sublist" "HOL-Library.Multiset"
begin

text \<open>
  The JavaScript base the components share.

  A JavaScript string is the list of its UTF-8 bytes (\<open>string\<close>), so the labels the
  application shows in Korean appear as byte lists; an absent value (\<open>undefined\<close> or
  \<open>null\<close>) is \<open>None\<close>; a \<open>Map\<close> is an association list in insertion order, as
  \<open>Map.prototype.set\<close> keeps it (\<open>AList.update\<close>); \<open>Array.prototype.sort\<close> is the
  stable insertion sort \<open>sort_by\<close> over the comparator's less-or-equal relation;
  instants are integers, milliseconds since the epoch; other numbers are integers where
  the code only counts and rationals where it divides.

  The locale \<open>total_preorder\<close> is the contract of a comparator: under it the sort returns
  an ordered permutation and keeps equal elements in their order.
\<close>

named_theorems js_simps \<open>evaluation rules of the JavaScript string, map and list primitives\<close>

section \<open>Strings\<close>

definition truthy :: "string option \<Rightarrow> bool" where
  "truthy v \<longleftrightarrow> (case v of None \<Rightarrow> False | Some s \<Rightarrow> s \<noteq> [])"

lemma conj3: "A \<Longrightarrow> B \<Longrightarrow> C \<Longrightarrow> A \<and> B \<and> C"
  by blast

lemma truthy_simps [simp]: "truthy None = False" "truthy (Some s) = (s \<noteq> [])"
  by (simp_all add: truthy_def)

definition starts_with :: "string \<Rightarrow> string \<Rightarrow> bool" where
  "starts_with p s \<longleftrightarrow> take (length p) s = p"

lemma starts_with_prefix: "starts_with p s \<longleftrightarrow> prefix p s"
  unfolding starts_with_def prefix_def by (metis append_eq_conv_conj append_take_drop_id)

fun str_includes :: "string \<Rightarrow> string \<Rightarrow> bool" where
  "str_includes p [] \<longleftrightarrow> p = []"
| "str_includes p (c # s) \<longleftrightarrow> starts_with p (c # s) \<or> str_includes p s"

definition lower_char :: "char \<Rightarrow> char" where
  "lower_char c = (if CHR ''A'' \<le> c \<and> c \<le> CHR ''Z'' then char_of (of_char c + (32 :: nat)) else c)"

text \<open>\<open>toLowerCase\<close> on the ASCII letters; every other byte is kept.\<close>

definition to_lower :: "string \<Rightarrow> string" where
  "to_lower s = map lower_char s"

text \<open>\<open>s.split(c)\<close> for a one-character separator: never the empty list.\<close>

fun split_on :: "char \<Rightarrow> string \<Rightarrow> string list" where
  "split_on c [] = [[]]"
| "split_on c (x # xs) =
     (if x = c then [] # split_on c xs
      else case split_on c xs of [] \<Rightarrow> [[x]] | p # ps \<Rightarrow> (x # p) # ps)"

lemma split_on_nonempty [simp]: "split_on c s \<noteq> []"
  by (cases s) (auto split: list.splits)

lemma split_on_free: "c \<notin> set s \<Longrightarrow> split_on c s = [s]"
  by (induction s) auto

lemma split_on_append: "c \<notin> set s \<Longrightarrow> split_on c (s @ c # t) = s # split_on c t"
  by (induction s) auto

fun join_with :: "string \<Rightarrow> string list \<Rightarrow> string" where
  "join_with sep [] = []"
| "join_with sep [x] = x"
| "join_with sep (x # y # xs) = x @ sep @ join_with sep (y # xs)"

lemma split_join:
  assumes "xs \<noteq> []" and "list_all (\<lambda>x. c \<notin> set x) xs"
  shows "split_on c (join_with [c] xs) = xs"
  using assms
proof (induction "[c]" xs rule: join_with.induct)
  case (3 x y xs)
  then show ?case by (simp add: split_on_append)
qed (simp_all add: split_on_free)

section \<open>Numbers in text\<close>

definition digit_char :: "nat \<Rightarrow> char" where
  "digit_char d = char_of (48 + d)"

fun show_nat :: "nat \<Rightarrow> string" where
  "show_nat n = (if n < 10 then [digit_char n] else show_nat (n div 10) @ [digit_char (n mod 10)])"

declare show_nat.simps [simp del]

definition show_int :: "int \<Rightarrow> string" where
  "show_int i = (if i < 0 then CHR ''-'' # show_nat (nat (- i)) else show_nat (nat i))"

definition is_digit :: "char \<Rightarrow> bool" where
  "is_digit c \<longleftrightarrow> CHR ''0'' \<le> c \<and> c \<le> CHR ''9''"

definition digit_val :: "char \<Rightarrow> nat" where
  "digit_val c = of_char c - 48"

definition parse_nat :: "string \<Rightarrow> nat option" where
  "parse_nat s = (if s \<noteq> [] \<and> list_all is_digit s
     then Some (foldl (\<lambda>n c. 10 * n + digit_val c) 0 s) else None)"

lemma of_char_digit: "d < 10 \<Longrightarrow> of_char (digit_char d) = 48 + d"
  by (simp add: digit_char_def)

lemma digit_val_char [simp]: "d < 10 \<Longrightarrow> digit_val (digit_char d) = d"
  by (simp add: digit_val_def of_char_digit)

lemma is_digit_char [simp]: "d < 10 \<Longrightarrow> is_digit (digit_char d)"
  by (simp add: is_digit_def less_eq_char_def of_char_digit)

lemma show_nat_nonempty [simp]: "show_nat n \<noteq> []"
  by (subst show_nat.simps) simp

lemma show_nat_digits: "list_all is_digit (show_nat n)"
proof (induction n rule: show_nat.induct)
  case (1 n)
  then show ?case by (cases "n < 10") (simp_all add: show_nat.simps [of n])
qed

lemma show_nat_value: "foldl (\<lambda>n c. 10 * n + digit_val c) 0 (show_nat n) = n"
proof (induction n rule: show_nat.induct)
  case (1 n)
  then show ?case by (cases "n < 10") (simp_all add: show_nat.simps [of n])
qed

lemma parse_show_nat [simp]: "parse_nat (show_nat n) = Some n"
  by (simp add: parse_nat_def show_nat_digits show_nat_value)

lemma show_nat_inject: "show_nat m = show_nat n \<longleftrightarrow> m = n"
  by (metis parse_show_nat option.inject)

text \<open>\<open>Math.round\<close> and \<open>toFixed\<close>: ties go up.\<close>

definition math_round :: "rat \<Rightarrow> int" where
  "math_round x = \<lfloor>x + 1 / 2\<rfloor>"

lemma math_round_int [simp]: "math_round (of_int n) = n"
  by (simp add: math_round_def floor_add2 [symmetric] floor_unique)

lemma math_round_mono: "x \<le> y \<Longrightarrow> math_round x \<le> math_round y"
  by (simp add: math_round_def floor_mono)

definition pad_left :: "nat \<Rightarrow> char \<Rightarrow> string \<Rightarrow> string" where
  "pad_left n c s = replicate (n - length s) c @ s"

definition to_fixed :: "nat \<Rightarrow> rat \<Rightarrow> string" where
  "to_fixed k x =
     (let n = nat (math_round (\<bar>x\<bar> * 10 ^ k)); s = pad_left (Suc k) CHR ''0'' (show_nat n);
          i = length s - k; body = (if k = 0 then s else take i s @ ''.'' @ drop i s)
      in if x < 0 then CHR ''-'' # body else body)"

section \<open>Arrays\<close>

definition find_index :: "('a \<Rightarrow> bool) \<Rightarrow> 'a list \<Rightarrow> nat option" where
  "find_index p xs = find (\<lambda>i. p (xs ! i)) [0..<length xs]"

text \<open>\<open>const i = xs.findIndex(p); if (i !== -1) xs.splice(i, 1)\<close>.\<close>

fun splice_first :: "('a \<Rightarrow> bool) \<Rightarrow> 'a list \<Rightarrow> 'a list" where
  "splice_first p [] = []"
| "splice_first p (x # xs) = (if p x then xs else x # splice_first p xs)"

text \<open>\<open>const x = xs.find(p); if (x) \<dots>mutate x\<dots>\<close>: the first match is changed in place.\<close>

fun update_first :: "('a \<Rightarrow> bool) \<Rightarrow> ('a \<Rightarrow> 'a) \<Rightarrow> 'a list \<Rightarrow> 'a list" where
  "update_first p f [] = []"
| "update_first p f (x # xs) = (if p x then f x # xs else x # update_first p f xs)"

lemma length_update_first [simp]: "length (update_first p f xs) = length xs"
  by (induction xs) auto

lemma find_update_first:
  assumes "\<And>x. p x \<Longrightarrow> p (f x)"
  shows "find p (update_first p f xs) = map_option f (find p xs)"
  using assms by (induction xs) auto

lemma map_update_first:
  assumes "\<And>x. g (f x) = g x"
  shows "map g (update_first p f xs) = map g xs"
  using assms by (induction xs) auto

lemma update_first_none: "find p xs = None \<Longrightarrow> update_first p f xs = xs"
  by (induction xs) (auto split: if_splits)

lemma splice_first_none: "find p xs = None \<Longrightarrow> splice_first p xs = xs"
  by (induction xs) (auto split: if_splits)

lemma set_splice_first: "set (splice_first p xs) \<subseteq> set xs"
  by (induction xs) auto

lemma set_update_first: "set (update_first p f xs) \<subseteq> set xs \<union> f ` {x \<in> set xs. p x}"
  by (induction xs) auto

lemma splice_first_distinct:
  "distinct (map k xs) \<Longrightarrow> splice_first (\<lambda>x. k x = a) xs = filter (\<lambda>x. k x \<noteq> a) xs"
  by (induction xs) (auto intro!: filter_True [symmetric], metis image_eqI)

lemma distinct_map_splice: "distinct (map k xs) \<Longrightarrow> distinct (map k (splice_first p xs))"
  by (induction xs) (use set_splice_first in fastforce)+

lemma map_k_append [js_simps]: "map k (xs @ [x]) = map k xs @ [k x]"
  by simp

lemma find_Some_iff_set: "find p xs = Some x \<Longrightarrow> x \<in> set xs \<and> p x"
  by (induction xs) (auto split: if_splits)

text \<open>\<open>xs.slice(a, b)\<close> for non-negative bounds.\<close>

definition slice :: "nat \<Rightarrow> nat \<Rightarrow> 'a list \<Rightarrow> 'a list" where
  "slice a b xs = take (b - a) (drop a xs)"

lemma set_slice: "set (slice a b xs) \<subseteq> set xs"
  by (auto simp: slice_def dest: in_set_takeD in_set_dropD)

lemma length_slice: "length (slice a b xs) \<le> b - a"
  by (simp add: slice_def)

section \<open>Stable sorting by a comparator\<close>

fun insert_by :: "('a \<Rightarrow> 'a \<Rightarrow> bool) \<Rightarrow> 'a \<Rightarrow> 'a list \<Rightarrow> 'a list" where
  "insert_by le x [] = [x]"
| "insert_by le x (y # ys) = (if le x y then x # y # ys else y # insert_by le x ys)"

text \<open>\<open>le x y\<close> stands for \<open>compare(x, y) <= 0\<close>.\<close>

definition sort_by :: "('a \<Rightarrow> 'a \<Rightarrow> bool) \<Rightarrow> 'a list \<Rightarrow> 'a list" where
  "sort_by le xs = foldr (insert_by le) xs []"

lemma sort_by_simps [simp]:
  "sort_by le [] = []"
  "sort_by le (x # xs) = insert_by le x (sort_by le xs)"
  by (simp_all add: sort_by_def)

lemma mset_insert_by [simp]: "mset (insert_by le x xs) = add_mset x (mset xs)"
  by (induction xs) auto

lemma mset_sort_by [simp]: "mset (sort_by le xs) = mset xs"
  by (induction xs) auto

lemma set_sort_by [simp]: "set (sort_by le xs) = set xs"
  by (metis mset_sort_by set_mset_mset)

lemma set_insert_by [simp]: "set (insert_by le x xs) = insert x (set xs)"
  by (induction xs) auto

lemma length_sort_by [simp]: "length (sort_by le xs) = length xs"
  by (metis mset_sort_by size_mset)

lemma distinct_sort_by [simp]: "distinct (sort_by le xs) = distinct xs"
  by (metis mset_sort_by mset_eq_imp_distinct_iff)

lemma sort_by_empty_iff [simp]: "sort_by le xs = [] \<longleftrightarrow> xs = []"
  by (metis length_0_conv length_sort_by)

locale total_preorder =
  fixes le :: "'a \<Rightarrow> 'a \<Rightarrow> bool"
  assumes total: "le x y \<or> le y x"
    and trans: "le x y \<Longrightarrow> le y z \<Longrightarrow> le x z"
begin

lemma insert_by_sorted: "sorted_wrt le xs \<Longrightarrow> sorted_wrt le (insert_by le x xs)"
proof (induction xs)
  case (Cons y ys)
  then show ?case using total trans by (auto intro: trans)
qed simp

lemma sorted_sort: "sorted_wrt le (sort_by le xs)"
  by (induction xs) (simp_all add: insert_by_sorted)

definition tied :: "'a \<Rightarrow> 'a \<Rightarrow> bool" where
  "tied x y \<longleftrightarrow> le x y \<and> le y x"

lemma filter_insert_tied:
  assumes "sorted_wrt le xs"
  shows "filter (tied a) (insert_by le x xs) = filter (tied a) (x # xs)"
  using assms
proof (induction xs)
  case (Cons y ys)
  show ?case
  proof (cases "le x y")
    case False
    then have "\<not> (tied a x \<and> tied a y)" by (meson tied_def trans)
    with False Cons show ?thesis by auto
  qed simp
qed simp

text \<open>Elements the comparator ties keep their order.\<close>

lemma sort_stable: "filter (tied a) (sort_by le xs) = filter (tied a) xs"
proof (induction xs)
  case (Cons x xs)
  then show ?case using filter_insert_tied [OF sorted_sort] by simp
qed simp

lemma hd_sort_least: "x \<in> set xs \<Longrightarrow> le (hd (sort_by le xs)) x"
proof -
  assume x: "x \<in> set xs"
  then have x': "x \<in> set (sort_by le xs)" by simp
  show ?thesis using sorted_sort [of xs] x' total [of x x]
    by (cases "sort_by le xs") auto
qed

end

text \<open>Comparators \<open>(a, b) => key(a) - key(b)\<close> and their reverse.\<close>

definition by_key :: "('a \<Rightarrow> 'k :: linorder) \<Rightarrow> 'a \<Rightarrow> 'a \<Rightarrow> bool" where
  "by_key f x y \<longleftrightarrow> f x \<le> f y"

definition by_key_desc :: "('a \<Rightarrow> 'k :: linorder) \<Rightarrow> 'a \<Rightarrow> 'a \<Rightarrow> bool" where
  "by_key_desc f x y \<longleftrightarrow> f y \<le> f x"

text \<open>\<open>compare1(a, b) || compare2(a, b)\<close>: the second decides the first's ties.\<close>

definition or_else :: "('a \<Rightarrow> 'a \<Rightarrow> bool) \<Rightarrow> ('a \<Rightarrow> 'a \<Rightarrow> bool) \<Rightarrow> 'a \<Rightarrow> 'a \<Rightarrow> bool" where
  "or_else le1 le2 x y \<longleftrightarrow> le1 x y \<and> (le1 y x \<longrightarrow> le2 x y)"

interpretation asc: total_preorder "by_key f"
  by unfold_locales (auto simp: by_key_def)

interpretation desc: total_preorder "by_key_desc f"
  by unfold_locales (auto simp: by_key_desc_def)

interpretation lex_asc: total_preorder "or_else (by_key f) (by_key g)"
  by unfold_locales (auto simp: or_else_def by_key_def)

interpretation lex_desc: total_preorder "or_else (by_key_desc f) (by_key_desc g)"
  by unfold_locales (auto simp: or_else_def by_key_desc_def)

section \<open>Maps in insertion order\<close>

text \<open>
  \<open>m.set(k, v)\<close> is \<open>AList.update k v m\<close>, \<open>m.get(k)\<close> is \<open>map_of m k\<close>, \<open>m.delete(k)\<close> is
  \<open>AList.delete k m\<close>, and \<open>[...m.values()]\<close> is \<open>map snd m\<close>.
\<close>

lemma map_of_update [simp, js_simps]: "map_of (AList.update k v m) j = (if j = k then Some v else map_of m j)"
  by (simp add: AList.update_conv' fun_upd_def)

lemma map_of_adelete [simp, js_simps]: "map_of (AList.delete k m) j = (if j = k then None else map_of m j)"
  by (simp add: AList.delete_conv')

lemma distinct_fst_update [simp]: "distinct (map fst m) \<Longrightarrow> distinct (map fst (AList.update k v m))"
  by (rule AList.distinct_update)

lemma fst_update: "fst ` set (AList.update k v m) = insert k (fst ` set m)"
  by (induction m) auto

text \<open>\<open>new Map(pairs)\<close>: later pairs overwrite earlier ones in place.\<close>

definition map_from :: "('k \<times> 'v) list \<Rightarrow> ('k \<times> 'v) list" where
  "map_from ps = foldl (\<lambda>m (k, v). AList.update k v m) [] ps"

lemma foldl_update_lookup:
  "map_of (foldl (\<lambda>m (k, v). AList.update k v m) m ps) j =
     (case map_of (rev ps) j of None \<Rightarrow> map_of m j | Some v \<Rightarrow> Some v)"
  by (induction ps arbitrary: m) (auto simp: map_add_def split: option.splits)

lemma map_of_map_from: "map_of (map_from ps) j = map_of (rev ps) j"
  by (simp add: map_from_def foldl_update_lookup split: option.splits)

lemma foldl_update_keys:
  "fst ` set (foldl (\<lambda>m (k, v). AList.update k v m) m ps) = fst ` set m \<union> fst ` set ps"
proof (induction ps arbitrary: m)
  case (Cons p ps)
  then show ?case by (cases p) (simp add: fst_update)
qed simp

lemma map_from_keys: "fst ` set (map_from ps) = fst ` set ps"
  by (simp add: map_from_def foldl_update_keys)

lemma foldl_update_distinct:
  "distinct (map fst m) \<Longrightarrow> distinct (map fst (foldl (\<lambda>m (k, v). AList.update k v m) m ps))"
  by (induction ps arbitrary: m) auto

lemma map_from_distinct [simp]: "distinct (map fst (map_from ps))"
  by (simp add: map_from_def foldl_update_distinct)

text \<open>\<open>new Set(xs)\<close>, iterated in insertion order: the first occurrence of each element.\<close>

definition set_from :: "'a list \<Rightarrow> 'a list" where
  "set_from xs = foldl (\<lambda>acc x. if x \<in> set acc then acc else acc @ [x]) [] xs"

lemma foldl_set_from:
  "distinct acc \<Longrightarrow>
   distinct (foldl (\<lambda>acc x. if x \<in> set acc then acc else acc @ [x]) acc xs) \<and>
   set (foldl (\<lambda>acc x. if x \<in> set acc then acc else acc @ [x]) acc xs) = set acc \<union> set xs"
  by (induction xs arbitrary: acc) auto

lemma set_from_set [simp]: "set (set_from xs) = set xs"
  using foldl_set_from [of "[]" xs] by (simp add: set_from_def)

lemma set_from_distinct [simp]: "distinct (set_from xs)"
  using foldl_set_from [of "[]" xs] by (simp add: set_from_def)

end
