(* ===== verification/EU_Errors.thy ===== *)
theory EU_Errors imports EU_Prelude
begin

text \<open>
  \<open>utils/errors.ts\<close>: the structured API error and the message shown for any thrown value.
  The messages are Korean, as UTF-8 bytes.

  A function that may throw returns \<open>thrown + 'a\<close>: \<open>and_then\<close> runs the next statement
  when nothing was thrown, \<open>map_try\<close> is \<open>Array.prototype.map\<close> with a callback that may throw.
\<close>

text \<open>A thrown value: an \<open>ApiError\<close>, another \<open>Error\<close> (its name and message), or anything else.\<close>

datatype thrown =
    ApiError (err_message: string) (err_code: string) (err_status: "int option")
  | JsError string string
  | ThrownValue

definition and_then :: "thrown + 'a \<Rightarrow> ('a \<Rightarrow> thrown + 'b) \<Rightarrow> thrown + 'b" where
  "and_then r f = (case r of Inl e \<Rightarrow> Inl e | Inr x \<Rightarrow> f x)"

lemma and_then_simps [simp]: "and_then (Inl e) f = Inl e" "and_then (Inr x) f = f x"
  by (simp_all add: and_then_def)

lemma and_then_Inr: "and_then r f = Inr y \<longleftrightarrow> (\<exists>x. r = Inr x \<and> f x = Inr y)"
  by (cases r) auto

fun map_try :: "('a \<Rightarrow> thrown + 'b) \<Rightarrow> 'a list \<Rightarrow> thrown + 'b list" where
  "map_try f [] = Inr []"
| "map_try f (x # xs) = and_then (f x) (\<lambda>y. and_then (map_try f xs) (\<lambda>ys. Inr (y # ys)))"

lemma map_try_Inr: "map_try f xs = Inr ys \<longleftrightarrow> list_all2 (\<lambda>x y. f x = Inr y) xs ys"
proof (induction xs arbitrary: ys)
  case (Cons x xs)
  then show ?case by (cases ys) (auto simp: and_then_Inr)
qed auto

lemma map_try_total: "(\<And>x. x \<in> set xs \<Longrightarrow> f x = Inr (g x)) \<Longrightarrow> map_try f xs = Inr (map g xs)"
  by (induction xs) auto

definition ERROR_MESSAGES :: "(string \<times> string) list" where
  "ERROR_MESSAGES = [
    (''DATABASE_ERROR'', ([CHR 0xEC, CHR 0x84, CHR 0x9C, CHR 0xEB, CHR 0xB2, CHR 0x84] @ '' '' @ [CHR 0xEC, CHR 0x98, CHR 0xA4, CHR 0xEB, CHR 0xA5, CHR 0x98, CHR 0xEA, CHR 0xB0, CHR 0x80] @ '' '' @ [CHR 0xEB, CHR 0xB0, CHR 0x9C, CHR 0xEC, CHR 0x83, CHR 0x9D, CHR 0xED, CHR 0x96, CHR 0x88, CHR 0xEC, CHR 0x8A, CHR 0xB5, CHR 0xEB, CHR 0x8B, CHR 0x88, CHR 0xEB, CHR 0x8B, CHR 0xA4] @ ''.'')),
    (''FETCH_ERROR'', ([CHR 0xEB, CHR 0x8D, CHR 0xB0, CHR 0xEC, CHR 0x9D, CHR 0xB4, CHR 0xED, CHR 0x84, CHR 0xB0, CHR 0xEB, CHR 0xA5, CHR 0xBC] @ '' '' @ [CHR 0xEB, CHR 0xB6, CHR 0x88, CHR 0xEB, CHR 0x9F, CHR 0xAC, CHR 0xEC, CHR 0x98, CHR 0xA4, CHR 0xEC, CHR 0xA7, CHR 0x80] @ '' '' @ [CHR 0xEB, CHR 0xAA, CHR 0xBB, CHR 0xED, CHR 0x96, CHR 0x88, CHR 0xEC, CHR 0x8A, CHR 0xB5, CHR 0xEB, CHR 0x8B, CHR 0x88, CHR 0xEB, CHR 0x8B, CHR 0xA4] @ ''.'')),
    (''CREATE_ERROR'', ([CHR 0xEC, CHR 0x83, CHR 0x9D, CHR 0xEC, CHR 0x84, CHR 0xB1, CHR 0xEC, CHR 0x97, CHR 0x90] @ '' '' @ [CHR 0xEC, CHR 0x8B, CHR 0xA4, CHR 0xED, CHR 0x8C, CHR 0xA8, CHR 0xED, CHR 0x96, CHR 0x88, CHR 0xEC, CHR 0x8A, CHR 0xB5, CHR 0xEB, CHR 0x8B, CHR 0x88, CHR 0xEB, CHR 0x8B, CHR 0xA4] @ ''.'')),
    (''UPDATE_ERROR'', ([CHR 0xEC, CHR 0x88, CHR 0x98, CHR 0xEC, CHR 0xA0, CHR 0x95, CHR 0xEC, CHR 0x97, CHR 0x90] @ '' '' @ [CHR 0xEC, CHR 0x8B, CHR 0xA4, CHR 0xED, CHR 0x8C, CHR 0xA8, CHR 0xED, CHR 0x96, CHR 0x88, CHR 0xEC, CHR 0x8A, CHR 0xB5, CHR 0xEB, CHR 0x8B, CHR 0x88, CHR 0xEB, CHR 0x8B, CHR 0xA4] @ ''.'')),
    (''DELETE_ERROR'', ([CHR 0xEC, CHR 0x82, CHR 0xAD, CHR 0xEC, CHR 0xA0, CHR 0x9C, CHR 0xEC, CHR 0x97, CHR 0x90] @ '' '' @ [CHR 0xEC, CHR 0x8B, CHR 0xA4, CHR 0xED, CHR 0x8C, CHR 0xA8, CHR 0xED, CHR 0x96, CHR 0x88, CHR 0xEC, CHR 0x8A, CHR 0xB5, CHR 0xEB, CHR 0x8B, CHR 0x88, CHR 0xEB, CHR 0x8B, CHR 0xA4] @ ''.'')),
    (''TOGGLE_ERROR'', ([CHR 0xEC, CHR 0x83, CHR 0x81, CHR 0xED, CHR 0x83, CHR 0x9C] @ '' '' @ [CHR 0xEB, CHR 0xB3, CHR 0x80, CHR 0xEA, CHR 0xB2, CHR 0xBD, CHR 0xEC, CHR 0x97, CHR 0x90] @ '' '' @ [CHR 0xEC, CHR 0x8B, CHR 0xA4, CHR 0xED, CHR 0x8C, CHR 0xA8, CHR 0xED, CHR 0x96, CHR 0x88, CHR 0xEC, CHR 0x8A, CHR 0xB5, CHR 0xEB, CHR 0x8B, CHR 0x88, CHR 0xEB, CHR 0x8B, CHR 0xA4] @ ''.'')),
    (''SECRET_ERROR'', ([CHR 0xEB, CHR 0xB3, CHR 0xB4, CHR 0xEC, CHR 0x95, CHR 0x88] @ '' '' @ [CHR 0xEC, CHR 0xB2, CHR 0x98, CHR 0xEB, CHR 0xA6, CHR 0xAC, CHR 0xEC, CHR 0x97, CHR 0x90] @ '' '' @ [CHR 0xEC, CHR 0x8B, CHR 0xA4, CHR 0xED, CHR 0x8C, CHR 0xA8, CHR 0xED, CHR 0x96, CHR 0x88, CHR 0xEC, CHR 0x8A, CHR 0xB5, CHR 0xEB, CHR 0x8B, CHR 0x88, CHR 0xEB, CHR 0x8B, CHR 0xA4] @ ''.'')),
    (''HASH_ERROR'', ([CHR 0xEC, CHR 0x9D, CHR 0xB8, CHR 0xEC, CHR 0xA6, CHR 0x9D] @ '' '' @ [CHR 0xEC, CHR 0xA0, CHR 0x95, CHR 0xEB, CHR 0xB3, CHR 0xB4] @ '' '' @ [CHR 0xEC, CHR 0xB2, CHR 0x98, CHR 0xEB, CHR 0xA6, CHR 0xAC, CHR 0xEC, CHR 0x97, CHR 0x90] @ '' '' @ [CHR 0xEC, CHR 0x8B, CHR 0xA4, CHR 0xED, CHR 0x8C, CHR 0xA8, CHR 0xED, CHR 0x96, CHR 0x88, CHR 0xEC, CHR 0x8A, CHR 0xB5, CHR 0xEB, CHR 0x8B, CHR 0x88, CHR 0xEB, CHR 0x8B, CHR 0xA4] @ ''.'')),
    (''TOKEN_ERROR'', ([CHR 0xEC, CHR 0x9D, CHR 0xB8, CHR 0xEC, CHR 0xA6, CHR 0x9D] @ '' '' @ [CHR 0xED, CHR 0x86, CHR 0xA0, CHR 0xED, CHR 0x81, CHR 0xB0] @ '' '' @ [CHR 0xEC, CHR 0x83, CHR 0x9D, CHR 0xEC, CHR 0x84, CHR 0xB1, CHR 0xEC, CHR 0x97, CHR 0x90] @ '' '' @ [CHR 0xEC, CHR 0x8B, CHR 0xA4, CHR 0xED, CHR 0x8C, CHR 0xA8, CHR 0xED, CHR 0x96, CHR 0x88, CHR 0xEC, CHR 0x8A, CHR 0xB5, CHR 0xEB, CHR 0x8B, CHR 0x88, CHR 0xEB, CHR 0x8B, CHR 0xA4] @ ''.'')),
    (''SEND_ERROR'', ([CHR 0xEC, CHR 0x95, CHR 0x8C, CHR 0xEB, CHR 0xA6, CHR 0xBC] @ '' '' @ [CHR 0xEC, CHR 0xA0, CHR 0x84, CHR 0xEC, CHR 0x86, CHR 0xA1, CHR 0xEC, CHR 0x97, CHR 0x90] @ '' '' @ [CHR 0xEC, CHR 0x8B, CHR 0xA4, CHR 0xED, CHR 0x8C, CHR 0xA8, CHR 0xED, CHR 0x96, CHR 0x88, CHR 0xEC, CHR 0x8A, CHR 0xB5, CHR 0xEB, CHR 0x8B, CHR 0x88, CHR 0xEB, CHR 0x8B, CHR 0xA4] @ ''.'')),
    (''QUERY_ERROR'', ([CHR 0xEB, CHR 0x8D, CHR 0xB0, CHR 0xEC, CHR 0x9D, CHR 0xB4, CHR 0xED, CHR 0x84, CHR 0xB0] @ '' '' @ [CHR 0xEC, CHR 0xA1, CHR 0xB0, CHR 0xED, CHR 0x9A, CHR 0x8C, CHR 0xEC, CHR 0x97, CHR 0x90] @ '' '' @ [CHR 0xEC, CHR 0x8B, CHR 0xA4, CHR 0xED, CHR 0x8C, CHR 0xA8, CHR 0xED, CHR 0x96, CHR 0x88, CHR 0xEC, CHR 0x8A, CHR 0xB5, CHR 0xEB, CHR 0x8B, CHR 0x88, CHR 0xEB, CHR 0x8B, CHR 0xA4] @ ''.'')),
    (''INVALID_REQUEST'', ([CHR 0xEC, CHR 0x9E, CHR 0x98, CHR 0xEB, CHR 0xAA, CHR 0xBB, CHR 0xEB, CHR 0x90, CHR 0x9C] @ '' '' @ [CHR 0xEC, CHR 0x9A, CHR 0x94, CHR 0xEC, CHR 0xB2, CHR 0xAD, CHR 0xEC, CHR 0x9E, CHR 0x85, CHR 0xEB, CHR 0x8B, CHR 0x88, CHR 0xEB, CHR 0x8B, CHR 0xA4] @ ''.'')),
    (''INVALID_INPUT'', ([CHR 0xEC, CHR 0x9E, CHR 0x85, CHR 0xEB, CHR 0xA0, CHR 0xA5, CHR 0xEA, CHR 0xB0, CHR 0x92, CHR 0xEC, CHR 0x9D, CHR 0xB4] @ '' '' @ [CHR 0xEC, CHR 0x98, CHR 0xAC, CHR 0xEB, CHR 0xB0, CHR 0x94, CHR 0xEB, CHR 0xA5, CHR 0xB4, CHR 0xEC, CHR 0xA7, CHR 0x80] @ '' '' @ [CHR 0xEC, CHR 0x95, CHR 0x8A, CHR 0xEC, CHR 0x8A, CHR 0xB5, CHR 0xEB, CHR 0x8B, CHR 0x88, CHR 0xEB, CHR 0x8B, CHR 0xA4] @ ''.'')),
    (''VALIDATION_ERROR'', ([CHR 0xEC, CHR 0x9E, CHR 0x85, CHR 0xEB, CHR 0xA0, CHR 0xA5, CHR 0xEA, CHR 0xB0, CHR 0x92] @ '' '' @ [CHR 0xEA, CHR 0xB2, CHR 0x80, CHR 0xEC, CHR 0xA6, CHR 0x9D, CHR 0xEC, CHR 0x97, CHR 0x90] @ '' '' @ [CHR 0xEC, CHR 0x8B, CHR 0xA4, CHR 0xED, CHR 0x8C, CHR 0xA8, CHR 0xED, CHR 0x96, CHR 0x88, CHR 0xEC, CHR 0x8A, CHR 0xB5, CHR 0xEB, CHR 0x8B, CHR 0x88, CHR 0xEB, CHR 0x8B, CHR 0xA4] @ ''.'')),
    (''NOT_FOUND'', ([CHR 0xEC, CHR 0x9A, CHR 0x94, CHR 0xEC, CHR 0xB2, CHR 0xAD, CHR 0xED, CHR 0x95, CHR 0x9C] @ '' '' @ [CHR 0xED, CHR 0x95, CHR 0xAD, CHR 0xEB, CHR 0xAA, CHR 0xA9, CHR 0xEC, CHR 0x9D, CHR 0x84] @ '' '' @ [CHR 0xEC, CHR 0xB0, CHR 0xBE, CHR 0xEC, CHR 0x9D, CHR 0x84] @ '' '' @ [CHR 0xEC, CHR 0x88, CHR 0x98] @ '' '' @ [CHR 0xEC, CHR 0x97, CHR 0x86, CHR 0xEC, CHR 0x8A, CHR 0xB5, CHR 0xEB, CHR 0x8B, CHR 0x88, CHR 0xEB, CHR 0x8B, CHR 0xA4] @ ''.'')),
    (''FORBIDDEN'', ([CHR 0xEC, CHR 0x9D, CHR 0xB4] @ '' '' @ [CHR 0xEC, CHR 0x9E, CHR 0x91, CHR 0xEC, CHR 0x97, CHR 0x85, CHR 0xEC, CHR 0x9D, CHR 0x84] @ '' '' @ [CHR 0xEC, CHR 0x88, CHR 0x98, CHR 0xED, CHR 0x96, CHR 0x89, CHR 0xED, CHR 0x95, CHR 0xA0] @ '' '' @ [CHR 0xEA, CHR 0xB6, CHR 0x8C, CHR 0xED, CHR 0x95, CHR 0x9C, CHR 0xEC, CHR 0x9D, CHR 0xB4] @ '' '' @ [CHR 0xEC, CHR 0x97, CHR 0x86, CHR 0xEC, CHR 0x8A, CHR 0xB5, CHR 0xEB, CHR 0x8B, CHR 0x88, CHR 0xEB, CHR 0x8B, CHR 0xA4] @ ''.'')),
    (''CONFIG_UNAVAILABLE'', ([CHR 0xEC, CHR 0x84, CHR 0x9C, CHR 0xEB, CHR 0xB2, CHR 0x84] @ '' '' @ [CHR 0xEC, CHR 0x84, CHR 0xA4, CHR 0xEC, CHR 0xA0, CHR 0x95, CHR 0xEC, CHR 0x9D, CHR 0x84] @ '' '' @ [CHR 0xEB, CHR 0xB6, CHR 0x88, CHR 0xEB, CHR 0x9F, CHR 0xAC, CHR 0xEC, CHR 0x98, CHR 0xAC] @ '' '' @ [CHR 0xEC, CHR 0x88, CHR 0x98] @ '' '' @ [CHR 0xEC, CHR 0x97, CHR 0x86, CHR 0xEC, CHR 0x8A, CHR 0xB5, CHR 0xEB, CHR 0x8B, CHR 0x88, CHR 0xEB, CHR 0x8B, CHR 0xA4] @ ''.'')),
    (''UPDATE_FAILED'', ([CHR 0xEC, CHR 0x84, CHR 0xA4, CHR 0xEC, CHR 0xA0, CHR 0x95] @ '' '' @ [CHR 0xEC, CHR 0xA0, CHR 0x80, CHR 0xEC, CHR 0x9E, CHR 0xA5, CHR 0xEC, CHR 0x97, CHR 0x90] @ '' '' @ [CHR 0xEC, CHR 0x8B, CHR 0xA4, CHR 0xED, CHR 0x8C, CHR 0xA8, CHR 0xED, CHR 0x96, CHR 0x88, CHR 0xEC, CHR 0x8A, CHR 0xB5, CHR 0xEB, CHR 0x8B, CHR 0x88, CHR 0xEB, CHR 0x8B, CHR 0xA4] @ ''.'')),
    (''UNAUTHORIZED'', ([CHR 0xEC, CHR 0x9D, CHR 0xB8, CHR 0xEC, CHR 0xA6, CHR 0x9D, CHR 0xEC, CHR 0x9D, CHR 0xB4] @ '' '' @ [CHR 0xED, CHR 0x95, CHR 0x84, CHR 0xEC, CHR 0x9A, CHR 0x94, CHR 0xED, CHR 0x95, CHR 0xA9, CHR 0xEB, CHR 0x8B, CHR 0x88, CHR 0xEB, CHR 0x8B, CHR 0xA4] @ ''.'')),
    (''INVALID_CREDENTIALS'', ([CHR 0xEC, CHR 0x82, CHR 0xAC, CHR 0xEC, CHR 0x9A, CHR 0xA9, CHR 0xEC, CHR 0x9E, CHR 0x90, CHR 0xEB, CHR 0xAA, CHR 0x85] @ '' '' @ [CHR 0xEB, CHR 0x98, CHR 0x90, CHR 0xEB, CHR 0x8A, CHR 0x94] @ '' '' @ [CHR 0xEB, CHR 0xB9, CHR 0x84, CHR 0xEB, CHR 0xB0, CHR 0x80, CHR 0xEB, CHR 0xB2, CHR 0x88, CHR 0xED, CHR 0x98, CHR 0xB8, CHR 0xEA, CHR 0xB0, CHR 0x80] @ '' '' @ [CHR 0xEC, CHR 0x98, CHR 0xAC, CHR 0xEB, CHR 0xB0, CHR 0x94, CHR 0xEB, CHR 0xA5, CHR 0xB4, CHR 0xEC, CHR 0xA7, CHR 0x80] @ '' '' @ [CHR 0xEC, CHR 0x95, CHR 0x8A, CHR 0xEC, CHR 0x8A, CHR 0xB5, CHR 0xEB, CHR 0x8B, CHR 0x88, CHR 0xEB, CHR 0x8B, CHR 0xA4] @ ''.'')),
    (''ALREADY_SETUP'', ([CHR 0xEC, CHR 0x9D, CHR 0xB4, CHR 0xEB, CHR 0xAF, CHR 0xB8] @ '' '' @ [CHR 0xEC, CHR 0xB4, CHR 0x88, CHR 0xEA, CHR 0xB8, CHR 0xB0] @ '' '' @ [CHR 0xEC, CHR 0x84, CHR 0xA4, CHR 0xEC, CHR 0xA0, CHR 0x95, CHR 0xEC, CHR 0x9D, CHR 0xB4] @ '' '' @ [CHR 0xEC, CHR 0x99, CHR 0x84, CHR 0xEB, CHR 0xA3, CHR 0x8C, CHR 0xEB, CHR 0x90, CHR 0x98, CHR 0xEC, CHR 0x97, CHR 0x88, CHR 0xEC, CHR 0x8A, CHR 0xB5, CHR 0xEB, CHR 0x8B, CHR 0x88, CHR 0xEB, CHR 0x8B, CHR 0xA4] @ ''.'')),
    (''HOST_NOT_FOUND'', ([CHR 0xED, CHR 0x98, CHR 0xB8, CHR 0xEC, CHR 0x8A, CHR 0xA4, CHR 0xED, CHR 0x8A, CHR 0xB8, CHR 0xEB, CHR 0xA5, CHR 0xBC] @ '' '' @ [CHR 0xEC, CHR 0xB0, CHR 0xBE, CHR 0xEC, CHR 0x9D, CHR 0x84] @ '' '' @ [CHR 0xEC, CHR 0x88, CHR 0x98] @ '' '' @ [CHR 0xEC, CHR 0x97, CHR 0x86, CHR 0xEC, CHR 0x8A, CHR 0xB5, CHR 0xEB, CHR 0x8B, CHR 0x88, CHR 0xEB, CHR 0x8B, CHR 0xA4] @ ''.'')),
    (''SERVICE_NOT_FOUND'', ([CHR 0xEC, CHR 0x84, CHR 0x9C, CHR 0xEB, CHR 0xB9, CHR 0x84, CHR 0xEC, CHR 0x8A, CHR 0xA4, CHR 0xEB, CHR 0xA5, CHR 0xBC] @ '' '' @ [CHR 0xEC, CHR 0xB0, CHR 0xBE, CHR 0xEC, CHR 0x9D, CHR 0x84] @ '' '' @ [CHR 0xEC, CHR 0x88, CHR 0x98] @ '' '' @ [CHR 0xEC, CHR 0x97, CHR 0x86, CHR 0xEC, CHR 0x8A, CHR 0xB5, CHR 0xEB, CHR 0x8B, CHR 0x88, CHR 0xEB, CHR 0x8B, CHR 0xA4] @ ''.'')),
    (''PROJECT_NOT_FOUND'', ([CHR 0xEA, CHR 0xB7, CHR 0xB8, CHR 0xEB, CHR 0xA3, CHR 0xB9, CHR 0xEC, CHR 0x9D, CHR 0x84] @ '' '' @ [CHR 0xEC, CHR 0xB0, CHR 0xBE, CHR 0xEC, CHR 0x9D, CHR 0x84] @ '' '' @ [CHR 0xEC, CHR 0x88, CHR 0x98] @ '' '' @ [CHR 0xEC, CHR 0x97, CHR 0x86, CHR 0xEC, CHR 0x8A, CHR 0xB5, CHR 0xEB, CHR 0x8B, CHR 0x88, CHR 0xEB, CHR 0x8B, CHR 0xA4] @ ''.'')),
    (''OBSERVED_SERVICE_NOT_FOUND'', (''Observed Service'' @ [CHR 0xEB, CHR 0xA5, CHR 0xBC] @ '' '' @ [CHR 0xEC, CHR 0xB0, CHR 0xBE, CHR 0xEC, CHR 0x9D, CHR 0x84] @ '' '' @ [CHR 0xEC, CHR 0x88, CHR 0x98] @ '' '' @ [CHR 0xEC, CHR 0x97, CHR 0x86, CHR 0xEC, CHR 0x8A, CHR 0xB5, CHR 0xEB, CHR 0x8B, CHR 0x88, CHR 0xEB, CHR 0x8B, CHR 0xA4] @ ''.'')),
    (''INFRASTRUCTURE_RESOURCE_NOT_FOUND'', ([CHR 0xEC, CHR 0x9D, CHR 0xB8, CHR 0xED, CHR 0x94, CHR 0x84, CHR 0xEB, CHR 0x9D, CHR 0xBC] @ '' '' @ [CHR 0xEB, CHR 0xA6, CHR 0xAC, CHR 0xEC, CHR 0x86, CHR 0x8C, CHR 0xEC, CHR 0x8A, CHR 0xA4, CHR 0xEB, CHR 0xA5, CHR 0xBC] @ '' '' @ [CHR 0xEC, CHR 0xB0, CHR 0xBE, CHR 0xEC, CHR 0x9D, CHR 0x84] @ '' '' @ [CHR 0xEC, CHR 0x88, CHR 0x98] @ '' '' @ [CHR 0xEC, CHR 0x97, CHR 0x86, CHR 0xEC, CHR 0x8A, CHR 0xB5, CHR 0xEB, CHR 0x8B, CHR 0x88, CHR 0xEB, CHR 0x8B, CHR 0xA4] @ ''.'')),
    (''INFRASTRUCTURE_PROJECT_NOT_FOUND'', ([CHR 0xEC, CHR 0x9D, CHR 0xB8, CHR 0xED, CHR 0x94, CHR 0x84, CHR 0xEB, CHR 0x9D, CHR 0xBC] @ '' '' @ [CHR 0xEB, CHR 0xA6, CHR 0xAC, CHR 0xEC, CHR 0x86, CHR 0x8C, CHR 0xEC, CHR 0x8A, CHR 0xA4, CHR 0xEC, CHR 0x97, CHR 0x90] @ '' '' @ [CHR 0xEB, CHR 0xB0, CHR 0xB0, CHR 0xEC, CHR 0xA0, CHR 0x95, CHR 0xED, CHR 0x95, CHR 0xA0] @ '' '' @ [CHR 0xEA, CHR 0xB7, CHR 0xB8, CHR 0xEB, CHR 0xA3, CHR 0xB9, CHR 0xEC, CHR 0x9D, CHR 0x84] @ '' '' @ [CHR 0xEC, CHR 0xB0, CHR 0xBE, CHR 0xEC, CHR 0x9D, CHR 0x84] @ '' '' @ [CHR 0xEC, CHR 0x88, CHR 0x98] @ '' '' @ [CHR 0xEC, CHR 0x97, CHR 0x86, CHR 0xEC, CHR 0x8A, CHR 0xB5, CHR 0xEB, CHR 0x8B, CHR 0x88, CHR 0xEB, CHR 0x8B, CHR 0xA4] @ ''.'')),
    (''HOST_EXISTS'', ([CHR 0xEC, CHR 0x9D, CHR 0xB4, CHR 0xEB, CHR 0xAF, CHR 0xB8] @ '' '' @ [CHR 0xEC, CHR 0xA1, CHR 0xB4, CHR 0xEC, CHR 0x9E, CHR 0xAC, CHR 0xED, CHR 0x95, CHR 0x98, CHR 0xEB, CHR 0x8A, CHR 0x94] @ '' '' @ [CHR 0xED, CHR 0x98, CHR 0xB8, CHR 0xEC, CHR 0x8A, CHR 0xA4, CHR 0xED, CHR 0x8A, CHR 0xB8] @ '' ID'' @ [CHR 0xEC, CHR 0x9E, CHR 0x85, CHR 0xEB, CHR 0x8B, CHR 0x88, CHR 0xEB, CHR 0x8B, CHR 0xA4] @ ''.'')),
    (''SERVICE_EXISTS'', ([CHR 0xEC, CHR 0x9D, CHR 0xB4, CHR 0xEB, CHR 0xAF, CHR 0xB8] @ '' '' @ [CHR 0xEC, CHR 0xA1, CHR 0xB4, CHR 0xEC, CHR 0x9E, CHR 0xAC, CHR 0xED, CHR 0x95, CHR 0x98, CHR 0xEB, CHR 0x8A, CHR 0x94] @ '' '' @ [CHR 0xEC, CHR 0x84, CHR 0x9C, CHR 0xEB, CHR 0xB9, CHR 0x84, CHR 0xEC, CHR 0x8A, CHR 0xA4] @ '' ID'' @ [CHR 0xEC, CHR 0x9E, CHR 0x85, CHR 0xEB, CHR 0x8B, CHR 0x88, CHR 0xEB, CHR 0x8B, CHR 0xA4] @ ''.'')),
    (''SSRF_BLOCKED'', ([CHR 0xEB, CHR 0xB3, CHR 0xB4, CHR 0xEC, CHR 0x95, CHR 0x88, CHR 0xEC, CHR 0x83, CHR 0x81] @ '' '' @ [CHR 0xED, CHR 0x97, CHR 0x88, CHR 0xEC, CHR 0x9A, CHR 0xA9, CHR 0xEB, CHR 0x90, CHR 0x98, CHR 0xEC, CHR 0xA7, CHR 0x80] @ '' '' @ [CHR 0xEC, CHR 0x95, CHR 0x8A, CHR 0xEB, CHR 0x8A, CHR 0x94] @ '' '' @ [CHR 0xEC, CHR 0xA3, CHR 0xBC, CHR 0xEC, CHR 0x86, CHR 0x8C, CHR 0xEC, CHR 0x9E, CHR 0x85, CHR 0xEB, CHR 0x8B, CHR 0x88, CHR 0xEB, CHR 0x8B, CHR 0xA4] @ ''.'')),
    (''NO_COLLECTOR'', (''Collector'' @ [CHR 0xEA, CHR 0xB0, CHR 0x80] @ '' '' @ [CHR 0xEB, CHR 0x93, CHR 0xB1, CHR 0xEB, CHR 0xA1, CHR 0x9D, CHR 0xEB, CHR 0x90, CHR 0x98, CHR 0xEC, CHR 0xA7, CHR 0x80] @ '' '' @ [CHR 0xEC, CHR 0x95, CHR 0x8A, CHR 0xEC, CHR 0x95, CHR 0x98, CHR 0xEC, CHR 0x8A, CHR 0xB5, CHR 0xEB, CHR 0x8B, CHR 0x88, CHR 0xEB, CHR 0x8B, CHR 0xA4] @ ''.'')),
    (''COLLECT_FAILED'', ([CHR 0xEC, CHR 0x8B, CHR 0x9C, CHR 0xEC, CHR 0x8A, CHR 0xA4, CHR 0xED, CHR 0x85, CHR 0x9C] @ '' '' @ [CHR 0xEC, CHR 0xA0, CHR 0x95, CHR 0xEB, CHR 0xB3, CHR 0xB4] @ '' '' @ [CHR 0xEC, CHR 0x88, CHR 0x98, CHR 0xEC, CHR 0xA7, CHR 0x91, CHR 0xEC, CHR 0x97, CHR 0x90] @ '' '' @ [CHR 0xEC, CHR 0x8B, CHR 0xA4, CHR 0xED, CHR 0x8C, CHR 0xA8, CHR 0xED, CHR 0x96, CHR 0x88, CHR 0xEC, CHR 0x8A, CHR 0xB5, CHR 0xEB, CHR 0x8B, CHR 0x88, CHR 0xEB, CHR 0x8B, CHR 0xA4] @ ''.'')),
    (''UNKNOWN_ERROR'', ([CHR 0xEC, CHR 0x95, CHR 0x8C] @ '' '' @ [CHR 0xEC, CHR 0x88, CHR 0x98] @ '' '' @ [CHR 0xEC, CHR 0x97, CHR 0x86, CHR 0xEB, CHR 0x8A, CHR 0x94] @ '' '' @ [CHR 0xEC, CHR 0x98, CHR 0xA4, CHR 0xEB, CHR 0xA5, CHR 0x98, CHR 0xEA, CHR 0xB0, CHR 0x80] @ '' '' @ [CHR 0xEB, CHR 0xB0, CHR 0x9C, CHR 0xEC, CHR 0x83, CHR 0x9D, CHR 0xED, CHR 0x96, CHR 0x88, CHR 0xEC, CHR 0x8A, CHR 0xB5, CHR 0xEB, CHR 0x8B, CHR 0x88, CHR 0xEB, CHR 0x8B, CHR 0xA4] @ ''.''))]"

definition unknown_error_message :: string where
  "unknown_error_message = (case map_of ERROR_MESSAGES ''UNKNOWN_ERROR'' of Some m \<Rightarrow> m | None \<Rightarrow> [])"

definition getErrorMessage :: "thrown \<Rightarrow> string" where
  "getErrorMessage e =
     (case e of
        ApiError m c _ \<Rightarrow>
          if c \<noteq> [] then (case map_of ERROR_MESSAGES c of Some t \<Rightarrow> t | None \<Rightarrow> m) else m
      | JsError _ m \<Rightarrow> m
      | ThrownValue \<Rightarrow> unknown_error_message)"

lemma unknown_error_message_known: "map_of ERROR_MESSAGES ''UNKNOWN_ERROR'' = Some unknown_error_message"
  by (simp add: unknown_error_message_def ERROR_MESSAGES_def)

lemma error_messages_nonempty: "map_of ERROR_MESSAGES c = Some m \<Longrightarrow> m \<noteq> []"
proof -
  have "list_all (\<lambda>p. snd p \<noteq> []) ERROR_MESSAGES" by (simp add: ERROR_MESSAGES_def)
  then show "map_of ERROR_MESSAGES c = Some m \<Longrightarrow> m \<noteq> []"
    by (auto dest!: map_of_SomeD simp: list_all_iff)
qed

lemma error_codes_distinct: "distinct (map fst ERROR_MESSAGES)"
  by (simp add: ERROR_MESSAGES_def)

lemma error_codes_nonempty: "map_of ERROR_MESSAGES [] = None"
  by (simp add: ERROR_MESSAGES_def)

end
