(* ===== verification/EU_Json.thy ===== *)
theory EU_Json imports EU_Prelude
begin

text \<open>
  JSON values and \<open>JSON.stringify\<close>.

  An object is the list of its properties in insertion order; \<open>undefined\<close> properties are
  never in the list, as \<open>JSON.stringify\<close> leaves them out (\<open>jopt\<close>). A number is an integer
  or the decimal text \<open>Number.prototype.toString\<close> prints for a fraction.
\<close>

datatype json =
    JNull
  | JBool bool
  | JInt int
  | JDec string
  | JStr string
  | JArr "json list"
  | JObj "(string \<times> json) list"

definition json_escape_char :: "char \<Rightarrow> string" where
  "json_escape_char c =
     (if c = CHR 0x22 then [CHR 0x5C, CHR 0x22]
      else if c = CHR 0x5C then [CHR 0x5C, CHR 0x5C]
      else if c = CHR 0x08 then [CHR 0x5C, CHR ''b'']
      else if c = CHR 0x0C then [CHR 0x5C, CHR ''f'']
      else if c = CHR 0x0A then [CHR 0x5C, CHR ''n'']
      else if c = CHR 0x0D then [CHR 0x5C, CHR ''r'']
      else if c = CHR 0x09 then [CHR 0x5C, CHR ''t'']
      else if (of_char c :: nat) < 32
        then [CHR 0x5C, CHR ''u'', CHR ''0'', CHR ''0'', digit_char (of_char c div 16),
              (if (of_char c :: nat) mod 16 < 10 then digit_char (of_char c mod 16)
               else char_of (87 + (of_char c :: nat) mod 16))]
      else [c])"

definition json_quote :: "string \<Rightarrow> string" where
  "json_quote s = CHR 0x22 # concat (map json_escape_char s) @ [CHR 0x22]"

fun stringify :: "json \<Rightarrow> string" where
  "stringify JNull = ''null''"
| "stringify (JBool b) = (if b then ''true'' else ''false'')"
| "stringify (JInt i) = show_int i"
| "stringify (JDec t) = t"
| "stringify (JStr s) = json_quote s"
| "stringify (JArr xs) = ''['' @ join_with '','' (map stringify xs) @ '']''"
| "stringify (JObj ps) = ''{'' @ join_with '','' (map (\<lambda>(k, v). json_quote k @ CHR '':'' # stringify v) ps) @ ''}''"

text \<open>An object literal's property with a value that may be \<open>undefined\<close>.\<close>

definition jopt :: "string \<Rightarrow> json option \<Rightarrow> (string \<times> json) list" where
  "jopt k v = (case v of None \<Rightarrow> [] | Some j \<Rightarrow> [(k, j)])"

lemma jopt_simps [simp]: "jopt k None = []" "jopt k (Some j) = [(k, j)]"
  by (simp_all add: jopt_def)

text \<open>\<open>parsed.k\<close> of a parsed body: \<open>None\<close> when the value is no object or lacks the property.\<close>

definition jget :: "json \<Rightarrow> string \<Rightarrow> json option" where
  "jget j k = (case j of JObj ps \<Rightarrow> map_of ps k | _ \<Rightarrow> None)"

lemma jget_obj [simp, js_simps]: "jget (JObj ps) k = map_of ps k"
  by (simp add: jget_def)

end
