(* ===== verification/EU_Url.thy ===== *)
theory EU_Url imports EU_Prelude
begin

text \<open>
  The parts of the URL standard library the client and the demo server use:
  \<open>encodeURIComponent\<close>, \<open>decodeURIComponent\<close>, \<open>URLSearchParams\<close> and the path patterns
  the server matches endpoints with.

  Strings are UTF-8 byte lists, so percent-encoding works byte by byte; an escape that
  decodes to bytes that are not UTF-8 is outside the string type. \<open>URLSearchParams\<close> is its
  list of name/value pairs; the serializer and the parser follow the
  \<open>application/x-www-form-urlencoded\<close> rules.
\<close>

section \<open>Percent-encoding\<close>

definition is_alnum :: "char \<Rightarrow> bool" where
  "is_alnum c \<longleftrightarrow> (CHR ''A'' \<le> c \<and> c \<le> CHR ''Z'') \<or> (CHR ''a'' \<le> c \<and> c \<le> CHR ''z'') \<or> is_digit c"

definition uri_unreserved :: "char \<Rightarrow> bool" where
  "uri_unreserved c \<longleftrightarrow> is_alnum c \<or> c \<in> set [CHR ''-'', CHR ''_'', CHR ''.'', CHR ''!'', CHR ''~'', CHR ''*'', CHR 0x27, CHR ''('', CHR '')'']"

definition form_unreserved :: "char \<Rightarrow> bool" where
  "form_unreserved c \<longleftrightarrow> is_alnum c \<or> c \<in> set [CHR ''*'', CHR ''-'', CHR ''.'', CHR ''_'']"

definition hex_char :: "nat \<Rightarrow> char" where
  "hex_char d = (if d < 10 then char_of (48 + d) else char_of (55 + d))"

definition hex_val :: "char \<Rightarrow> nat option" where
  "hex_val c =
     (if is_digit c then Some (of_char c - 48)
      else if CHR ''A'' \<le> c \<and> c \<le> CHR ''F'' then Some (of_char c - 55)
      else if CHR ''a'' \<le> c \<and> c \<le> CHR ''f'' then Some (of_char c - 87)
      else None)"

definition pct_escape :: "char \<Rightarrow> string" where
  "pct_escape c = [CHR ''%'', hex_char (of_char c div 16), hex_char (of_char c mod 16)]"

definition pct_encode_char :: "(char \<Rightarrow> bool) \<Rightarrow> char \<Rightarrow> string" where
  "pct_encode_char keep c = (if keep c then [c] else pct_escape c)"

definition encodeURIComponent :: "string \<Rightarrow> string" where
  "encodeURIComponent s = concat (map (pct_encode_char uri_unreserved) s)"

text \<open>\<open>None\<close> is the \<open>URIError\<close> of a malformed escape.\<close>

fun decodeURIComponent :: "string \<Rightarrow> string option" where
  "decodeURIComponent [] = Some []"
| "decodeURIComponent (c # s) =
     (if c = CHR ''%''
      then case s of
          h # l # s' \<Rightarrow>
            (case (hex_val h, hex_val l) of
               (Some a, Some b) \<Rightarrow> map_option (\<lambda>t. char_of (16 * a + b) # t) (decodeURIComponent s')
             | _ \<Rightarrow> None)
        | _ \<Rightarrow> None
      else map_option (\<lambda>t. c # t) (decodeURIComponent s))"

text \<open>The form parser's decoder leaves a malformed escape as it is.\<close>

fun form_decode :: "string \<Rightarrow> string" where
  "form_decode [] = []"
| "form_decode (c # s) =
     (if c = CHR ''%''
      then case s of
          h # l # s' \<Rightarrow>
            (case (hex_val h, hex_val l) of
               (Some a, Some b) \<Rightarrow> char_of (16 * a + b) # form_decode s'
             | _ \<Rightarrow> c # form_decode s)
        | _ \<Rightarrow> c # form_decode s
      else if c = CHR ''+'' then CHR '' '' # form_decode s
      else c # form_decode s)"

definition form_encode_char :: "char \<Rightarrow> string" where
  "form_encode_char c = (if c = CHR '' '' then ''+'' else pct_encode_char form_unreserved c)"

definition form_encode :: "string \<Rightarrow> string" where
  "form_encode s = concat (map form_encode_char s)"

lemma hex_round: "list_all (\<lambda>d. hex_val (hex_char d) = Some d) [0..<16]"
  by code_simp

lemma hex_val_char [simp]: "d < 16 \<Longrightarrow> hex_val (hex_char d) = Some d"
  using hex_round by (simp add: list_all_iff)

lemma of_char_bound: "(of_char c :: nat) < 256"
  by simp

lemma char_split [simp]: "char_of (16 * (of_char c div 16) + of_char c mod 16 :: nat) = c"
  by simp

lemma of_char_div16 [simp]: "(of_char c :: nat) div 16 < 16"
  using of_char_bound [of c] by linarith

lemma decode_escape [simp]:
  "decodeURIComponent (pct_escape c @ s) = map_option (\<lambda>t. c # t) (decodeURIComponent s)"
  by (simp add: pct_escape_def)

lemma unreserved_not_pct: "uri_unreserved c \<Longrightarrow> c \<noteq> CHR ''%''"
  by (auto simp: uri_unreserved_def is_alnum_def is_digit_def less_eq_char_def)

lemma decode_encode_char:
  "decodeURIComponent (pct_encode_char uri_unreserved c @ s) = map_option (\<lambda>t. c # t) (decodeURIComponent s)"
  using unreserved_not_pct [of c] by (simp add: pct_encode_char_def)

lemma encodeURIComponent_simps [simp]:
  "encodeURIComponent [] = []"
  "encodeURIComponent (c # s) = pct_encode_char uri_unreserved c @ encodeURIComponent s"
  by (simp_all add: encodeURIComponent_def)

lemma decode_encode [simp]: "decodeURIComponent (encodeURIComponent s) = Some s"
  by (induction s) (simp_all add: decode_encode_char)

lemma encode_inject: "encodeURIComponent s = encodeURIComponent t \<longleftrightarrow> s = t"
  by (metis decode_encode option.inject)

lemma encode_empty_iff [simp]: "encodeURIComponent s = [] \<longleftrightarrow> s = []"
  by (cases s) (simp_all add: pct_encode_char_def pct_escape_def)

lemma hex_char_safe: "list_all (\<lambda>d. is_alnum (hex_char d)) [0..<16]"
  by code_simp

lemma is_alnum_hex: "d < 16 \<Longrightarrow> is_alnum (hex_char d)"
  using hex_char_safe by (simp add: list_all_iff)

lemma set_encode: "c \<in> set (encodeURIComponent s) \<Longrightarrow> uri_unreserved c \<or> c = CHR ''%''"
  by (induction s)
     (auto simp: pct_encode_char_def pct_escape_def uri_unreserved_def is_alnum_hex split: if_splits)

text \<open>The characters that delimit a path segment, a query or a fragment.\<close>

definition url_delimiters :: "char list" where
  "url_delimiters = [CHR ''/'', CHR ''?'', CHR ''#'', CHR ''&'', CHR ''='', CHR '' '', CHR ''+'']"

lemma encode_no_delimiter: "c \<in> set url_delimiters \<Longrightarrow> c \<notin> set (encodeURIComponent s)"
  by (auto dest!: set_encode simp: url_delimiters_def uri_unreserved_def is_alnum_def is_digit_def less_eq_char_def)

section \<open>URLSearchParams\<close>

type_synonym search_params = "(string \<times> string) list"

fun sp_get :: "search_params \<Rightarrow> string \<Rightarrow> string option" where
  "sp_get [] k = None"
| "sp_get ((n, v) # ps) k = (if n = k then Some v else sp_get ps k)"

definition sp_has :: "search_params \<Rightarrow> string \<Rightarrow> bool" where
  "sp_has ps k \<longleftrightarrow> k \<in> fst ` set ps"

definition sp_delete :: "string \<Rightarrow> search_params \<Rightarrow> search_params" where
  "sp_delete k ps = filter (\<lambda>(n, v). n \<noteq> k) ps"

text \<open>\<open>set\<close> changes the first pair of that name and drops the others; \<open>append\<close> adds a pair.\<close>

fun sp_set :: "string \<Rightarrow> string \<Rightarrow> search_params \<Rightarrow> search_params" where
  "sp_set k v [] = [(k, v)]"
| "sp_set k v ((n, w) # ps) = (if n = k then (k, v) # sp_delete k ps else (n, w) # sp_set k v ps)"

definition sp_append :: "string \<Rightarrow> string \<Rightarrow> search_params \<Rightarrow> search_params" where
  "sp_append k v ps = ps @ [(k, v)]"

definition sp_pair_string :: "string \<times> string \<Rightarrow> string" where
  "sp_pair_string p = form_encode (fst p) @ CHR ''='' # form_encode (snd p)"

definition sp_to_string :: "search_params \<Rightarrow> string" where
  "sp_to_string ps = join_with ''&'' (map sp_pair_string ps)"

definition cut_at :: "char \<Rightarrow> string \<Rightarrow> string \<times> string" where
  "cut_at c s = (takeWhile (\<lambda>x. x \<noteq> c) s, drop 1 (dropWhile (\<lambda>x. x \<noteq> c) s))"

definition sp_parse_pair :: "string \<Rightarrow> string \<times> string" where
  "sp_parse_pair s = (let (n, v) = cut_at CHR ''='' s in (form_decode n, form_decode v))"

definition sp_parse :: "string \<Rightarrow> search_params" where
  "sp_parse s =
     (let body = (case s of c # r \<Rightarrow> if c = CHR ''?'' then r else s | [] \<Rightarrow> s)
      in map sp_parse_pair (filter (\<lambda>p. p \<noteq> []) (split_on CHR ''&'' body)))"

lemma sp_get_set [simp, js_simps]: "sp_get (sp_set k v ps) j = (if j = k then Some v else sp_get ps j)"
proof -
  have del: "j \<noteq> k \<Longrightarrow> sp_get (sp_delete k qs) j = sp_get qs j" for qs
    by (induction qs) (auto simp: sp_delete_def)
  then show ?thesis by (induction ps) auto
qed

lemma sp_get_delete [simp, js_simps]: "sp_get (sp_delete k ps) j = (if j = k then None else sp_get ps j)"
  by (induction ps) (auto simp: sp_delete_def)

lemma sp_has_get: "sp_has ps k \<longleftrightarrow> sp_get ps k \<noteq> None"
  by (induction ps) (auto simp: sp_has_def)

lemma form_unreserved_safe: "form_unreserved c \<Longrightarrow> c \<noteq> CHR ''%'' \<and> c \<noteq> CHR ''+'' \<and> c \<noteq> CHR ''='' \<and> c \<noteq> CHR ''&'' \<and> c \<noteq> CHR ''?'' "
  by (auto simp: form_unreserved_def is_alnum_def is_digit_def less_eq_char_def)

lemma form_encode_simps [simp]:
  "form_encode [] = []" "form_encode (c # s) = form_encode_char c @ form_encode s"
  by (simp_all add: form_encode_def)

lemma form_decode_encode_char: "form_decode (form_encode_char c @ s) = c # form_decode s"
  using form_unreserved_safe [of c]
  by (simp add: form_encode_char_def pct_encode_char_def pct_escape_def)

lemma form_decode_encode [simp]: "form_decode (form_encode s) = s"
  by (induction s) (simp_all add: form_decode_encode_char)

lemma alnum_delims: "is_alnum c \<Longrightarrow> c \<noteq> CHR ''&'' \<and> c \<noteq> CHR ''='' \<and> c \<noteq> CHR ''?'' "
  by (auto simp: is_alnum_def is_digit_def less_eq_char_def)

lemma hex_char_delims [simp]:
  assumes "d < 16"
  shows "hex_char d \<noteq> CHR ''&''" "hex_char d \<noteq> CHR ''=''" "hex_char d \<noteq> CHR ''?''"
  using alnum_delims [OF is_alnum_hex [OF assms]] by simp_all

lemma form_encode_char_safe: "c \<in> set (form_encode_char d) \<Longrightarrow> c \<noteq> CHR ''&'' \<and> c \<noteq> CHR ''='' \<and> c \<noteq> CHR ''?'' "
  by (auto simp: form_encode_char_def pct_encode_char_def pct_escape_def dest: form_unreserved_safe
      split: if_splits)

lemma form_encode_safe:
  "CHR ''&'' \<notin> set (form_encode s)" "CHR ''='' \<notin> set (form_encode s)" "CHR ''?'' \<notin> set (form_encode s)"
  by (induction s) (auto dest: form_encode_char_safe)

lemma cut_at_free: "c \<notin> set s \<Longrightarrow> cut_at c (s @ c # t) = (s, t)"
proof -
  assume "c \<notin> set s"
  then have "\<forall>x\<in>set s. x \<noteq> c" by auto
  then show ?thesis by (simp add: cut_at_def takeWhile_append2 dropWhile_append2)
qed

lemma sp_parse_pair_string [simp]: "sp_parse_pair (sp_pair_string p) = p"
  by (simp add: sp_parse_pair_def sp_pair_string_def cut_at_free form_encode_safe)

lemma sp_pair_string_nonempty [simp]: "sp_pair_string p \<noteq> []"
  by (simp add: sp_pair_string_def)

lemma sp_pair_string_safe: "CHR ''&'' \<notin> set (sp_pair_string p)" "CHR ''?'' \<notin> set (sp_pair_string p)"
  by (auto simp: sp_pair_string_def form_encode_safe)

lemma set_join_with: "c \<in> set (join_with sep xs) \<Longrightarrow> c \<in> set sep \<or> (\<exists>x\<in>set xs. c \<in> set x)"
  by (induction sep xs rule: join_with.induct) auto

lemma sp_to_string_no_question: "CHR ''?'' \<notin> set (sp_to_string ps)"
  by (auto simp: sp_to_string_def sp_pair_string_safe dest!: set_join_with)

lemma form_encode_char_slash: "CHR ''/'' \<notin> set (form_encode_char d)"
proof -
  have a: "\<not> is_alnum CHR ''/''" by (simp add: is_alnum_def is_digit_def less_eq_char_def)
  have h: "n < 16 \<Longrightarrow> hex_char n \<noteq> CHR ''/''" for n using is_alnum_hex a by metis
  show ?thesis
    by (auto simp: form_encode_char_def pct_encode_char_def pct_escape_def form_unreserved_def a h h [symmetric])
qed

lemma sp_to_string_no_slash: "CHR ''/'' \<notin> set (sp_to_string ps)"
proof -
  have "CHR ''/'' \<notin> set (form_encode s)" for s by (induction s) (auto simp: form_encode_char_slash)
  then show ?thesis by (auto simp: sp_to_string_def sp_pair_string_def dest!: set_join_with)
qed

lemma split_sp_to_string: "ps \<noteq> [] \<Longrightarrow> split_on CHR ''&'' (sp_to_string ps) = map sp_pair_string ps"
  unfolding sp_to_string_def by (rule split_join) (simp_all add: list_all_iff sp_pair_string_safe)

lemma sp_parse_to_string [simp]: "sp_parse (sp_to_string ps) = ps"
proof (cases "ps = []")
  case True
  then show ?thesis by (simp add: sp_parse_def sp_to_string_def)
next
  case False
  have q: "(case sp_to_string ps of c # r \<Rightarrow> if c = CHR ''?'' then r else sp_to_string ps | [] \<Rightarrow> sp_to_string ps) = sp_to_string ps"
    using sp_to_string_no_question [of ps] by (auto split: list.splits)
  have f: "filter (\<lambda>p. p \<noteq> []) (map sp_pair_string ps) = map sp_pair_string ps"
    by (induction ps) auto
  have m: "map sp_parse_pair (map sp_pair_string ps) = ps" by (induction ps) auto
  show ?thesis by (simp only: sp_parse_def q Let_def split_sp_to_string [OF False] f m)
qed

section \<open>Endpoints\<close>

text \<open>
  \<open>endpoint.split('?')[1] ?? ''\<close> and the path before it. A client endpoint is a path
  followed, when it has parameters, by \<open>?\<close> and their text.
\<close>

definition endpoint_query :: "string \<Rightarrow> search_params" where
  "endpoint_query e = (case split_on CHR ''?'' e of _ # q # _ \<Rightarrow> sp_parse q | _ \<Rightarrow> sp_parse [])"

definition with_query :: "string \<Rightarrow> search_params \<Rightarrow> string" where
  "with_query p ps = p @ CHR ''?'' # sp_to_string ps"

lemma endpoint_query_with: "CHR ''?'' \<notin> set p \<Longrightarrow> endpoint_query (with_query p ps) = ps"
  by (simp add: endpoint_query_def with_query_def split_on_append split_on_free sp_to_string_no_question)

text \<open>
  The server's path patterns. Every regular expression the server matches endpoints with is
  anchored at the start and is a sequence of literals, alternatives of literals and
  captures \<open>([^/]+)\<close> or \<open>([^/?]+)\<close>, ended by \<open>$\<close>, by \<open>(?:\?|$)\<close> or by nothing. In
  all of them what follows a capture starts with a character the capture excludes, so
  taking the longest run is what the backtracking matcher does.
\<close>

datatype path_item =
    Lit string
  | Cap "char list"
  | Alt "string list"
  | End
  | EndOrQuery

function (sequential) path_match :: "path_item list \<Rightarrow> string \<Rightarrow> string list option" where
  "path_match [] s = Some []"
| "path_match (Lit l # ps) s = (if starts_with l s then path_match ps (drop (length l) s) else None)"
| "path_match (Cap ex # ps) s =
     (let x = takeWhile (\<lambda>c. c \<notin> set ex) s
      in if x = [] then None else map_option (\<lambda>r. x # r) (path_match ps (dropWhile (\<lambda>c. c \<notin> set ex) s)))"
| "path_match (Alt [] # ps) s = None"
| "path_match (Alt (l # ls) # ps) s =
     (case (if starts_with l s then path_match ps (drop (length l) s) else None) of
        Some r \<Rightarrow> Some (l # r)
      | None \<Rightarrow> path_match (Alt ls # ps) s)"
| "path_match (End # ps) s = (if s = [] then path_match ps s else None)"
| "path_match (EndOrQuery # ps) s =
     (case s of [] \<Rightarrow> path_match ps s | c # r \<Rightarrow> if c = CHR ''?'' then path_match ps r else None)"
  by pat_completeness auto
termination
  by (relation "measures [\<lambda>(ps, s). length ps, \<lambda>(ps, s). case ps of Alt ls # _ \<Rightarrow> length ls | _ \<Rightarrow> 0]") auto

abbreviation seg :: path_item where
  "seg \<equiv> Cap [CHR ''/'']"

abbreviation segq :: path_item where
  "segq \<equiv> Cap [CHR ''/'', CHR ''?'']"

lemma starts_with_append [simp]: "starts_with l (l @ s)"
  by (simp add: starts_with_def)

lemma starts_with_Nil [simp]: "starts_with [] s"
  by (simp add: starts_with_def)

lemma starts_with_Cons [simp]: "starts_with (c # l) s \<longleftrightarrow> (case s of [] \<Rightarrow> False | d # r \<Rightarrow> d = c \<and> starts_with l r)"
  by (auto simp: starts_with_def split: list.splits)

lemma path_match_Lit_append: "path_match (Lit l # ps) (l @ s) = path_match ps s"
  by simp

text \<open>A segment: a non-empty string with no slash and no question mark, as ids are.\<close>

definition is_segment :: "string \<Rightarrow> bool" where
  "is_segment s \<longleftrightarrow> s \<noteq> [] \<and> CHR ''/'' \<notin> set s \<and> CHR ''?'' \<notin> set s"

lemma is_segment_encode: "is_segment (encodeURIComponent k) \<longleftrightarrow> k \<noteq> []"
  using encode_no_delimiter by (auto simp: is_segment_def url_delimiters_def)

lemma takeWhile_seg:
  assumes "\<forall>c\<in>set x. P c" and "s = [] \<or> \<not> P (hd s)"
  shows "takeWhile P (x @ s) = x" "dropWhile P (x @ s) = s"
  using assms by (induction x) (cases s; auto)+

lemma path_match_seg [js_simps]:
  assumes "is_segment x"
  shows "path_match (seg # ps) (x @ CHR ''/'' # s) = map_option (\<lambda>r. x # r) (path_match ps (CHR ''/'' # s))"
    and "path_match (seg # ps) x = map_option (\<lambda>r. x # r) (path_match ps [])"
    and "path_match (segq # ps) x = map_option (\<lambda>r. x # r) (path_match ps [])"
    and "path_match (segq # ps) (x @ CHR ''?'' # s) = map_option (\<lambda>r. x # r) (path_match ps (CHR ''?'' # s))"
    and "path_match (segq # ps) (x @ CHR ''/'' # s) = map_option (\<lambda>r. x # r) (path_match ps (CHR ''/'' # s))"
proof -
  let ?P = "\<lambda>c. c \<notin> set [CHR ''/'']" and ?Q = "\<lambda>c. c \<notin> set [CHR ''/'', CHR ''?'']"
  have p: "\<forall>c\<in>set x. ?P c" and q: "\<forall>c\<in>set x. ?Q c" and ne: "x \<noteq> []"
    using assms by (auto simp: is_segment_def)
  note tp = takeWhile_seg [where P = ?P, OF p] and tq = takeWhile_seg [where P = ?Q, OF q]
  show "path_match (seg # ps) (x @ CHR ''/'' # s) = map_option (\<lambda>r. x # r) (path_match ps (CHR ''/'' # s))"
    using tp [of "CHR ''/'' # s"] ne by (simp add: Let_def)
  show "path_match (seg # ps) x = map_option (\<lambda>r. x # r) (path_match ps [])"
    using p ne by (simp add: Let_def takeWhile_eq_all_conv [THEN iffD2] dropWhile_eq_Nil_conv [THEN iffD2])
  show "path_match (segq # ps) x = map_option (\<lambda>r. x # r) (path_match ps [])"
    using q ne by (simp add: Let_def takeWhile_eq_all_conv [THEN iffD2] dropWhile_eq_Nil_conv [THEN iffD2])
  show "path_match (segq # ps) (x @ CHR ''?'' # s) = map_option (\<lambda>r. x # r) (path_match ps (CHR ''?'' # s))"
    using tq [of "CHR ''?'' # s"] ne by (simp add: Let_def)
  show "path_match (segq # ps) (x @ CHR ''/'' # s) = map_option (\<lambda>r. x # r) (path_match ps (CHR ''/'' # s))"
    using tq [of "CHR ''/'' # s"] ne by (simp add: Let_def)
qed

text \<open>From here on segments are matched by these rules; a concrete endpoint is evaluated with \<open>path_match.simps\<close>.\<close>

declare path_match.simps(3) [simp del]

end
