(* ===== verification/EU_Request.thy ===== *)
theory EU_Request imports EU_Errors EU_Json EU_Url
begin

text \<open>
  \<open>services/api/base.ts\<close> and \<open>config/env.ts\<close>: the one function every API call goes
  through. The network is a parameter (\<open>fetch\<close>: what the browser's \<open>fetch\<close> resolves or
  rejects with for a URL and its options), the demo server another (\<open>mock\<close>). A body is
  the JSON value \<open>JSON.stringify\<close> was applied to. What \<open>request\<close> does to the browser, the
  stored user and the location, is the state \<open>browser\<close>.
\<close>

record vite_env =
  VITE_USE_MOCK :: "string option"
  VITE_DEMO_MODE :: "string option"
  VITE_API_BASE_URL :: "string option"

record env =
  useMock :: bool
  isDemoMode :: bool
  apiBaseUrl :: string

definition make_env :: "vite_env \<Rightarrow> env" where
  "make_env v =
     \<lparr>useMock = (VITE_USE_MOCK v = Some ''true''),
      isDemoMode = (VITE_DEMO_MODE v = Some ''true''),
      apiBaseUrl = (case VITE_API_BASE_URL v of
          Some u \<Rightarrow> if u \<noteq> [] then u else ''/api/v1'' | None \<Rightarrow> ''/api/v1'')\<rparr>"

record request_options =
  ro_method :: "string option"
  ro_body :: "json option"
  ro_headers :: "(string \<times> string) list option"

definition no_options :: request_options where
  "no_options = \<lparr>ro_method = None, ro_body = None, ro_headers = None\<rparr>"

text \<open>
  The second argument of \<open>fetch\<close>: the literal's \<open>credentials\<close> and \<open>headers\<close>, then the
  spread of \<open>options\<close>, whose own properties overwrite them.
\<close>

record fetch_init =
  fi_credentials :: string
  fi_headers :: "(string \<times> string) list"
  fi_method :: "string option"
  fi_body :: "json option"

definition fetch_init_of :: "request_options option \<Rightarrow> fetch_init" where
  "fetch_init_of opts =
     (let own = (case opts of None \<Rightarrow> None | Some r \<Rightarrow> ro_headers r);
          merged = foldl (\<lambda>h (k, v). AList.update k v h) [(''Content-Type'', ''application/json'')]
                     (case own of None \<Rightarrow> [] | Some h \<Rightarrow> h)
      in \<lparr>fi_credentials = ''include'',
          fi_headers = (case own of None \<Rightarrow> merged | Some h \<Rightarrow> h),
          fi_method = (case opts of None \<Rightarrow> None | Some r \<Rightarrow> ro_method r),
          fi_body = (case opts of None \<Rightarrow> None | Some r \<Rightarrow> ro_body r)\<rparr>)"

text \<open>The server's envelope, and a reply whose body may not be JSON.\<close>

record 'a api_response =
  rs_success :: bool
  rs_data :: "'a option"
  rs_error :: "(string \<times> string) option"

record 'a http_reply =
  rp_status :: int
  rp_json :: "'a api_response option"

record browser =
  localStorage :: "(string \<times> string) list"
  location_href :: string

definition nonempty_or :: "string option \<Rightarrow> string \<Rightarrow> string" where
  "nonempty_or v d = (case v of Some s \<Rightarrow> if s \<noteq> [] then s else d | None \<Rightarrow> d)"

definition handle_reply :: "browser \<Rightarrow> 'a http_reply \<Rightarrow> browser \<times> (thrown + 'a option)" where
  "handle_reply b r =
     (if rp_status r = 401
      then (b\<lparr>localStorage := AList.delete ''everyup_user'' (localStorage b), location_href := ''/login''\<rparr>,
            Inl (ApiError ''Unauthorized'' ''UNAUTHORIZED'' (Some 401)))
      else if rp_status r = 204 then (b, Inr None)
      else case rp_json r of
          None \<Rightarrow> (b, Inl (ApiError (''HTTP Error: '' @ show_int (rp_status r)) ''UNKNOWN_ERROR'' (Some (rp_status r))))
        | Some j \<Rightarrow>
            if \<not> rs_success j
            then (b, Inl (ApiError (nonempty_or (map_option snd (rs_error j)) ''API Error'')
                                   (nonempty_or (map_option fst (rs_error j)) ''UNKNOWN_ERROR'')
                                   (Some (rp_status r))))
            else (b, Inr (rs_data j)))"

definition request ::
  "env \<Rightarrow> (string \<Rightarrow> string option \<Rightarrow> json option \<Rightarrow> thrown + 'a option)
   \<Rightarrow> (string \<Rightarrow> fetch_init \<Rightarrow> thrown + 'a http_reply)
   \<Rightarrow> browser \<Rightarrow> string \<Rightarrow> request_options option \<Rightarrow> browser \<times> (thrown + 'a option)" where
  "request env mock fetch b endpoint opts =
     (if useMock env
      then (b, mock endpoint (case opts of None \<Rightarrow> None | Some r \<Rightarrow> ro_method r)
                             (case opts of None \<Rightarrow> None | Some r \<Rightarrow> ro_body r))
      else case fetch (apiBaseUrl env @ endpoint) (fetch_init_of opts) of
          Inl e \<Rightarrow> (b, Inl e)
        | Inr r \<Rightarrow> handle_reply b r)"

section \<open>What a reply does\<close>

lemma handle_reply_401:
  "rp_status r = 401 \<Longrightarrow>
   handle_reply b r =
     (b\<lparr>localStorage := AList.delete ''everyup_user'' (localStorage b), location_href := ''/login''\<rparr>,
      Inl (ApiError ''Unauthorized'' ''UNAUTHORIZED'' (Some 401)))"
  by (simp add: handle_reply_def)

lemma handle_reply_browser: "rp_status r \<noteq> 401 \<Longrightarrow> fst (handle_reply b r) = b"
  by (simp add: handle_reply_def split: option.split)

lemma handle_reply_error_code:
  "handle_reply b r = (b', Inl e) \<Longrightarrow> \<exists>m c. e = ApiError m c (Some (rp_status r)) \<and> c \<noteq> [] \<and> m \<noteq> []"
  by (auto simp: handle_reply_def nonempty_or_def split: if_splits option.splits)

lemma handle_reply_ok:
  "snd (handle_reply b r) = Inr v \<longleftrightarrow>
   rp_status r \<noteq> 401 \<and>
   (if rp_status r = 204 then v = None
    else (\<exists>j. rp_json r = Some j \<and> rs_success j \<and> rs_data j = v))"
  by (auto simp: handle_reply_def split: option.splits)

section \<open>Every outcome of a request\<close>

lemma shown_message: "c \<noteq> [] \<Longrightarrow> m \<noteq> [] \<Longrightarrow> getErrorMessage (ApiError m c st) \<noteq> []"
  by (auto simp: getErrorMessage_def error_messages_nonempty split: option.split)

text \<open>C7: When the server answers, a request either gives the data of a successful reply (nothing
  for 204) or throws an ApiError that carries the reply's status and a message the page can
  show; 401 alone removes the stored user and goes to the login page, every other reply leaves
  the browser as it was.\<close>

theorem request_outcome:
  assumes "\<not> useMock env" and "fetch (apiBaseUrl env @ e) (fetch_init_of opts) = Inr r"
    and "request env mock fetch b e opts = (b', res)"
  shows "(if rp_status r = 401 then map_of (localStorage b') ''everyup_user'' = None \<and> location_href b' = ''/login''
      \<and> res = Inl (ApiError ''Unauthorized'' ''UNAUTHORIZED'' (Some 401)) else b' = b)
    \<and> (res = Inr v \<longleftrightarrow> rp_status r \<noteq> 401 \<and>
        (if rp_status r = 204 then v = None else (\<exists>j. rp_json r = Some j \<and> rs_success j \<and> rs_data j = v)))
    \<and> (res = Inl x \<longrightarrow> (\<exists>m c. x = ApiError m c (Some (rp_status r)) \<and> getErrorMessage x \<noteq> []))"
proof -
  have h: "handle_reply b r = (b', res)" using assms by (simp add: request_def)
  show ?thesis
  proof (intro conj3 impI)
    show "if rp_status r = 401 then map_of (localStorage b') ''everyup_user'' = None \<and> location_href b' = ''/login''
        \<and> res = Inl (ApiError ''Unauthorized'' ''UNAUTHORIZED'' (Some 401)) else b' = b"
      using h handle_reply_401 [of r b] handle_reply_browser [of r b] by auto
    show "res = Inr v \<longleftrightarrow> rp_status r \<noteq> 401 \<and>
        (if rp_status r = 204 then v = None else (\<exists>j. rp_json r = Some j \<and> rs_success j \<and> rs_data j = v))"
      using handle_reply_ok [of b r v] h by simp
    assume "res = Inl x"
    with handle_reply_error_code [of b r b' x] h
    show "\<exists>m c. x = ApiError m c (Some (rp_status r)) \<and> getErrorMessage x \<noteq> []"
      using shown_message by auto
  qed
qed

definition demo_env :: env where
  "demo_env = \<lparr>useMock = False, isDemoMode = False, apiBaseUrl = ''/api/v1''\<rparr>"

definition demo_browser :: browser where
  "demo_browser = \<lparr>localStorage = [(''everyup_user'', ''{}'')], location_href = ''/projects''\<rparr>"

definition demo_denied :: "string \<Rightarrow> fetch_init \<Rightarrow> thrown + int http_reply" where
  "demo_denied url init = Inr \<lparr>rp_status = 401, rp_json = None\<rparr>"

lemma request_outcome_witness:
  "location_href (fst (request demo_env (\<lambda>_ _ _. Inr None) demo_denied demo_browser ''/projects'' None)) = ''/login''"
  using request_outcome [of demo_env demo_denied "''/projects''" None "\<lparr>rp_status = 401, rp_json = None\<rparr>"
      "\<lambda>_ _ _. Inr None" demo_browser, OF _ _ prod.collapse [symmetric]]
  by (simp add: demo_env_def demo_denied_def)

end
