(* ===== verification/EU_TelemetryTypes.thy ===== *)
theory EU_TelemetryTypes imports EU_Json
begin

text \<open>
  The data of \<open>web/frontend/src/services/api/telemetry.ts\<close>: one record per interface (\<open>extends\<close> is
  record extension), one datatype per union of string literals with the function to its
  text. A field \<open>x?: T\<close> or \<open>x: T | null\<close> is an \<open>option\<close>, one that may be both is an
  \<open>option option\<close>; counts, ids and statuses are integers, measured values rationals.
  Every record's fields carry a short prefix of their own, since Isabelle's field names
  are global.
\<close>

datatype metric_type = MT_gauge | MT_sum | MT_histogram

fun metric_type_text :: "metric_type \<Rightarrow> string" where
  "metric_type_text MT_gauge = ''gauge''"
| "metric_type_text MT_sum = ''sum''"
| "metric_type_text MT_histogram = ''histogram''"

record otel_metric_name =
  mn_metricName :: "string"
  mn_metricType :: "metric_type"
  mn_unit :: "string option"
  mn_lastAt :: "string"
  mn_lastReceivedAt :: "string option"
  mn_description :: "string option"
  mn_breached :: "bool option"
  mn_conflicting :: "bool option"
  mn_freshSeries :: "int option"

record otel_metric_health =
  mh_metrics :: "otel_metric_name list"
  mh_checkedAt :: "string"
  mh_freshnessSeconds :: "int"

record observed_service_metric_name = otel_metric_name +
  om_serviceId :: "string"

record metric_scope =
  scope_name :: "string option"
  scope_version :: "string option"

record otel_metric_point =
  mp_id :: "int"
  mp_metricName :: "string"
  mp_metricType :: "string"
  mp_unit :: "string option"
  mp_attributes :: "((string \<times> json) list) option"
  mp_value :: "rat"
  mp_count :: "int option"
  mp_total :: "rat option"
  mp_createdAt :: "string"
  mp_receivedAt :: "string option"
  mp_description :: "string option"
  mp_resource :: "((string \<times> string) list) option"
  mp_scope :: "metric_scope option"
  mp_streamKey :: "string option"
  mp_streamLabel :: "string option"
  mp_temporality :: "int option"
  mp_isMonotonic :: "bool option"
  mp_startTimeUnixNano :: "int option"

record metric_query =
  mq_name :: "string"
  mq_from :: "string option"
  mq_to :: "string option"
  mq_type :: "string option"
  mq_unit :: "string option"
  mq_attributes :: "string option"
  mq_series :: "string option"

record metric_series_ref =
  msr_id :: string
  msr_attributes :: "(string \<times> json) list"
  msr_streamKey :: "string option"
  msr_streamLabel :: "string option"

record metric_query_result =
  mr_points :: "otel_metric_point list"
  mr_series :: "metric_series_ref list"
  mr_selectedSeries :: "string list"
  mr_seriesTruncated :: "bool"
  mr_pointsTruncated :: "bool"
  mr_pointLimit :: "int"

record metric_exemplar =
  ex_traceId :: "string"
  ex_spanId :: "string option"
  ex_value :: "rat"
  ex_time :: "string"

record otel_histogram_quantiles =
  hq_truncated :: "bool option"
  hq_metricName :: "string"
  hq_unit :: "string option"
  hq_count :: "int"
  hq_p50 :: "rat"
  hq_p95 :: "rat"
  hq_p99 :: "rat"
  hq_exemplars :: "(metric_exemplar list) option"

record trace_summary =
  ts_traceId :: "string"
  ts_name :: "string"
  ts_kind :: "string"
  ts_serviceName :: "string option"
  ts_startTime :: "string"
  ts_durationMs :: "rat"
  ts_spanCount :: "int"
  ts_errorCount :: "int"

datatype trace_sort = Sort_recent | Sort_slowest

fun trace_sort_text :: "trace_sort \<Rightarrow> string" where
  "trace_sort_text Sort_recent = ''recent''"
| "trace_sort_text Sort_slowest = ''slowest''"

record trace_list_query =
  tq_from :: "string option"
  tq_to :: "string option"
  tq_minDurationMs :: "int option"
  tq_errorsOnly :: "bool option"
  tq_sort :: "trace_sort option"
  tq_limit :: "int option"

record otel_service_metric =
  sm_serviceId :: "string option"
  sm_serviceName :: "string"
  sm_metricName :: "string"
  sm_metricType :: "string"
  sm_unit :: "string option"
  sm_value :: "rat"

record api_request_stat_bucket =
  sb_time :: "string"
  sb_count :: "int"
  sb_errorCount :: "int"
  sb_p50 :: "rat"
  sb_p95 :: "rat"
  sb_p99 :: "rat"
  sb_timed :: "int"

record api_request_stats =
  rs_buckets :: "api_request_stat_bucket list"
  rs_truncated :: "bool"

record api_request_status_summary =
  ss_count2xx :: "int"
  ss_count3xx :: "int"
  ss_count4xx :: "int"
  ss_count5xx :: "int"
  ss_countOther :: "int"
  ss_top5xxMethod :: "string option"
  ss_top5xxPath :: "string option"
  ss_top5xxCount :: "int option"

end
