(* ===== verification/EU_ServiceTypes.thy ===== *)
theory EU_ServiceTypes imports EU_Json
begin

text \<open>
  The data of \<open>web/frontend/src/services/api/services.ts\<close>: one record per interface (\<open>extends\<close> is
  record extension), one datatype per union of string literals with the function to its
  text. A field \<open>x?: T\<close> or \<open>x: T | null\<close> is an \<open>option\<close>, one that may be both is an
  \<open>option option\<close>; counts, ids and statuses are integers, measured values rationals.
  Every record's fields carry a short prefix of their own, since Isabelle's field names
  are global.
\<close>

datatype log_level = L_error | L_warn | L_info | L_debug | L_trace

fun log_level_text :: "log_level \<Rightarrow> string" where
  "log_level_text L_error = ''error''"
| "log_level_text L_warn = ''warn''"
| "log_level_text L_info = ''info''"
| "log_level_text L_debug = ''debug''"
| "log_level_text L_trace = ''trace''"

record log_histogram_bucket =
  hb_time :: "string"
  hb_error :: "int"
  hb_warn :: "int"
  hb_info :: "int"
  hb_debug :: "int"
  hb_trace :: "int"

record log_sample =
  lsa_level :: "log_level"
  lsa_message :: "string"
  lsa_createdAt :: "string"

record log_service_summary =
  lss_serviceId :: "string option"
  lss_agentId :: "string option"
  lss_serviceName :: "string"
  lss_error :: "int"
  lss_warn :: "int"
  lss_latest :: "log_sample option"
  lss_lastReceivedAt :: "string option"
  lss_buckets :: "log_histogram_bucket list"

record log_pattern =
  lp_fingerprint :: "string"
  lp_level :: "log_level"
  lp_serviceId :: "string option"
  lp_agentId :: "string option"
  lp_serviceName :: "string"
  lp_message :: "string"
  lp_count :: "int"
  lp_firstSeen :: "string"
  lp_lastSeen :: "string"

record linked_request =
  lr_id :: "int"
  lr_method :: "string"
  lr_path :: "string"
  lr_statusCode :: "int"
  lr_isError :: "bool"

datatype log_source = LS_internal | LS_otlp

fun log_source_text :: "log_source \<Rightarrow> string" where
  "log_source_text LS_internal = ''internal''"
| "log_source_text LS_otlp = ''otlp''"

record log_entry =
  log_id :: "int"
  log_serviceId :: "string"
  log_agentId :: "string option"
  log_serviceName :: "string option"
  log_level :: "log_level"
  log_message :: "string"
  log_metadata :: "((string \<times> json) list) option"
  log_source :: "log_source option"
  log_fingerprint :: "string option"
  log_traceId :: "string option"
  log_spanId :: "string option"
  log_createdAt :: "string"
  log_linkedRequest :: "linked_request option"

record api_request =
  req_id :: "int"
  req_serviceId :: "string"
  req_requestId :: "string"
  req_method :: "string"
  req_path :: "string"
  req_pathTemplate :: "string"
  req_route :: "string option"
  req_serviceName :: "string option"
  req_traceId :: "string option"
  req_spanId :: "string option"
  req_statusCode :: "int"
  req_durationMs :: "rat"
  req_clientIp :: "string option"
  req_error :: "string option"
  req_isError :: "bool"
  req_createdAt :: "string"

record trace_span_event =
  ev_name :: "string"
  ev_timeUnixNano :: "int option"
  ev_attributes :: "((string \<times> json) list) option"

record trace_span =
  sp_id :: "int"
  sp_serviceId :: "string option"
  sp_serviceName :: "string option"
  sp_traceId :: "string"
  sp_spanId :: "string"
  sp_parentSpanId :: "string option"
  sp_name :: "string"
  sp_kind :: "string"
  sp_startUnixNano :: "int"
  sp_endUnixNano :: "int"
  sp_durationMs :: "rat"
  sp_statusCode :: "string option"
  sp_statusMessage :: "string option"
  sp_attributes :: "((string \<times> json) list) option"
  sp_events :: "(trace_span_event list) option"
  sp_resource :: "((string \<times> json) list) option"
  sp_createdAt :: "string"

record trace_detail =
  td_traceId :: "string"
  td_spans :: "trace_span list"
  td_logs :: "log_entry list"
  td_apiRequests :: "api_request list"

record audit_event =
  au_id :: "int"
  au_userId :: "int"
  au_username :: "string"
  au_action :: "string"
  au_traceId :: "string option"
  au_metadata :: "string option"
  au_createdAt :: "string"

datatype uptime_monitor_type = M_http | M_tcp

fun uptime_monitor_type_text :: "uptime_monitor_type \<Rightarrow> string" where
  "uptime_monitor_type_text M_http = ''http''"
| "uptime_monitor_type_text M_tcp = ''tcp''"

datatype uptime_monitor_status = S_healthy | S_unhealthy | S_unknown

fun uptime_monitor_status_text :: "uptime_monitor_status \<Rightarrow> string" where
  "uptime_monitor_status_text S_healthy = ''healthy''"
| "uptime_monitor_status_text S_unhealthy = ''unhealthy''"
| "uptime_monitor_status_text S_unknown = ''unknown''"

record uptime_monitor =
  um_id :: "string"
  um_name :: "string"
  um_projectId :: "string option"
  um_type :: "uptime_monitor_type"
  um_isActive :: "bool"
  um_url :: "string"
  um_port :: "int option"
  um_method :: "string"
  um_expectedStatus :: "int"
  um_timeout :: "int"
  um_interval :: "int"
  um_status :: "uptime_monitor_status"
  um_lastCheckAt :: "string option"
  um_uptime :: "rat option"
  um_responseTime :: "rat option"
  um_latencyHistory :: "(rat list) option"
  um_certExpiresAt :: "string option"

record uptime_monitor_input =
  ui_name :: "string"
  ui_type :: "uptime_monitor_type"
  ui_url :: "string option"
  ui_host :: "string option"
  ui_port :: "int option"
  ui_method :: "string option"
  ui_expectedStatus :: "int option"
  ui_timeout :: "int option"
  ui_interval :: "int option"
  ui_isActive :: "bool option"

datatype check_status = Check_success | Check_failure

fun check_status_text :: "check_status \<Rightarrow> string" where
  "check_status_text Check_success = ''success''"
| "check_status_text Check_failure = ''failure''"

record uptime_monitor_metric =
  umm_id :: "int"
  umm_serviceId :: "string"
  umm_status :: "check_status"
  umm_responseTime :: "rat"
  umm_statusCode :: "int option"
  umm_errorMessage :: "string option"
  umm_checkedAt :: "string"

record uptime_monitor_summary =
  ums_serviceId :: "string"
  ums_totalChecks :: "int"
  ums_successfulChecks :: "int"
  ums_failedChecks :: "int"
  ums_uptime :: "rat"
  ums_avgResponseTime :: "rat"
  ums_minResponseTime :: "rat"
  ums_maxResponseTime :: "rat"

datatype day_status = Day_up | Day_partial | Day_down

fun day_status_text :: "day_status \<Rightarrow> string" where
  "day_status_text Day_up = ''up''"
| "day_status_text Day_partial = ''partial''"
| "day_status_text Day_down = ''down''"

record uptime_monitor_day =
  umd_date :: "string"
  umd_status :: "day_status"
  umd_uptime :: "rat"

record uptime_monitor_history =
  umh_percentage :: "rat"
  umh_days :: "uptime_monitor_day list"

end
