(* ===== verification/EU_HostTypes.thy ===== *)
theory EU_HostTypes imports EU_Json
begin

text \<open>
  The data of \<open>web/frontend/src/services/api/hosts.ts\<close>: one record per interface (\<open>extends\<close> is
  record extension), one datatype per union of string literals with the function to its
  text. A field \<open>x?: T\<close> or \<open>x: T | null\<close> is an \<open>option\<close>, one that may be both is an
  \<open>option option\<close>; counts, ids and statuses are integers, measured values rationals.
  Every record's fields carry a short prefix of their own, since Isabelle's field names
  are global.
\<close>

record cpu_info =
  cpu_cores :: int
  cpu_usage :: rat

record memory_info =
  mem_total :: rat
  mem_used :: rat
  mem_usage :: rat

record disk_info =
  disk_total :: rat
  disk_used :: rat
  disk_usage :: rat
  disk_readSpeed :: rat
  disk_writeSpeed :: rat

record network_info =
  net_in :: rat
  net_out :: rat

record system_info =
  si_hostname :: "string"
  si_os :: "string"
  si_platform :: "string"
  si_kernel :: "string option"
  si_uptime :: "rat"
  si_ip :: "string"
  si_cpu :: "cpu_info"
  si_memory :: "memory_info"
  si_disk :: "disk_info"
  si_network :: "network_info"

record system_metric_point =
  smp_timestamp :: "string"
  smp_cpu :: "rat"
  smp_memUsage :: "rat"
  smp_diskUsage :: "rat"
  smp_netIn :: "rat"
  smp_netOut :: "rat"

record system_metrics_history =
  smh_range :: "string"
  smh_points :: "system_metric_point list"

datatype infrastructure_adapter = Ad_everyup_agent | Ad_otel_collector

fun infrastructure_adapter_text :: "infrastructure_adapter \<Rightarrow> string" where
  "infrastructure_adapter_text Ad_everyup_agent = ''everyup-agent''"
| "infrastructure_adapter_text Ad_otel_collector = ''otel-collector''"

record infrastructure_resource =
  ir_id :: "string"
  ir_name :: "string"
  ir_projectId :: "string option"
  ir_adapter :: "infrastructure_adapter"
  ir_isActive :: "bool"
  ir_apiKeyMasked :: "string option"
  ir_lastSeenAt :: "string option"
  ir_cpuUsage :: "rat option"
  ir_memoryUsage :: "rat option"
  ir_diskUsage :: "rat option"
  ir_createdAt :: "string"
  ir_updatedAt :: "string"

record infrastructure_resource_input =
  iri_name :: "string"
  iri_projectId :: "string option"

record infrastructure_resource_setup = infrastructure_resource +
  irs_apiKey :: "string"

end
