(* ===== verification/EU_AgentTypes.thy ===== *)
theory EU_AgentTypes imports EU_Json
begin

text \<open>
  The data of \<open>web/frontend/src/services/api/agents.ts\<close>: one record per interface (\<open>extends\<close> is
  record extension), one datatype per union of string literals with the function to its
  text. A field \<open>x?: T\<close> or \<open>x: T | null\<close> is an \<open>option\<close>, one that may be both is an
  \<open>option option\<close>; counts, ids and statuses are integers, measured values rationals.
  Every record's fields carry a short prefix of their own, since Isabelle's field names
  are global.
\<close>

datatype agent_collection_capability = Cap_uptime | Cap_logs | Cap_infrastructure | Cap_api | Cap_metrics

fun agent_collection_capability_text :: "agent_collection_capability \<Rightarrow> string" where
  "agent_collection_capability_text Cap_uptime = ''uptime''"
| "agent_collection_capability_text Cap_logs = ''logs''"
| "agent_collection_capability_text Cap_infrastructure = ''infrastructure''"
| "agent_collection_capability_text Cap_api = ''api''"
| "agent_collection_capability_text Cap_metrics = ''metrics''"

datatype agent_profile_kind = PK_all_in_one | PK_basic | PK_custom

fun agent_profile_kind_text :: "agent_profile_kind \<Rightarrow> string" where
  "agent_profile_kind_text PK_all_in_one = ''all-in-one''"
| "agent_profile_kind_text PK_basic = ''basic''"
| "agent_profile_kind_text PK_custom = ''custom''"

record agent_profile =
  pf_kind :: "agent_profile_kind"
  pf_capabilities :: "agent_collection_capability list"

datatype agent_capability_state = St_available | St_degraded | St_unavailable

fun agent_capability_state_text :: "agent_capability_state \<Rightarrow> string" where
  "agent_capability_state_text St_available = ''available''"
| "agent_capability_state_text St_degraded = ''degraded''"
| "agent_capability_state_text St_unavailable = ''unavailable''"

record agent_capability_status =
  cs_state :: "agent_capability_state"
  cs_reason :: "string option"
  cs_detail :: "string option"

record capability_host =
  host_os :: "string option"
  host_arch :: "string option"
  host_kernelVersion :: "string option"
  host_btf :: bool
  host_lockdown :: "string option"

record agent_capability_report =
  cr_checkedAt :: "string"
  cr_host :: "capability_host"
  cr_containerMonitoring :: "agent_capability_status"
  cr_hostMetrics :: "agent_capability_status"
  cr_automaticTracing :: "agent_capability_status"
  cr_contextPropagation :: "agent_capability_status"

record connected_agent =
  ag_id :: "string"
  ag_name :: "string"
  ag_projectId :: "string option"
  ag_version :: "string option"
  ag_lastSeenAt :: "string"
  ag_createdAt :: "string"
  ag_updatedAt :: "string"
  ag_profile :: "agent_profile option"
  ag_capabilities :: "agent_capability_report option"

record agent_join_code =
  jc_joinCode :: "string"
  jc_expiresAt :: "string"

record signal_receipt =
  sr_serviceName :: "string"
  sr_signal :: "string"
  sr_firstReceivedAt :: "string"
  sr_lastReceivedAt :: "string"

record collector_setup_status =
  css_connected :: "bool"
  css_lastContactAt :: "string option"
  css_lastEnrolledAt :: "string option"
  css_desiredHash :: "string"
  css_appliedHash :: "string"
  css_configApplied :: "bool"
  css_profile :: "agent_profile"
  css_signals :: "signal_receipt list"

record agent_service_snapshot =
  sv_agentId :: "string"
  sv_key :: "string"
  sv_name :: "string"
  sv_checkType :: "string"
  sv_endpoint :: "string"
  sv_runtime :: "string option"
  sv_image :: "string option"
  sv_restartCount :: "int option"
  sv_startedAt :: "string option"
  sv_healthy :: "bool"
  sv_seen :: "bool"
  sv_silenced :: "bool"
  sv_lastError :: "string option"
  sv_lastStatus :: "int option"
  sv_lastLatency :: "string option"
  sv_updatedAt :: "string option"
  sv_observedAt :: "string"

record agent_service_flat = agent_service_snapshot +
  sf_agentName :: "string"

record agent_event =
  ae_id :: "int"
  ae_agentId :: "string"
  ae_time :: "string"
  ae_type :: "string"
  ae_serviceName :: "string option"
  ae_targetKey :: "string option"
  ae_message :: "string option"
  ae_metadata :: "((string \<times> json) list) option"
  ae_createdAt :: "string"

record service_history_point =
  hp_time :: "string"
  hp_latencyMs :: "rat"
  hp_uptimePct :: "rat"
  hp_total :: "int"

record service_uptime_day =
  sud_date :: "string"
  sud_uptimePct :: "rat"
  sud_healthyChecks :: "int"
  sud_totalChecks :: "int"

record agent_overview =
  ao_agentId :: "string"
  ao_uptimePct :: "rat option"
  ao_activeIncidents :: "int"
  ao_requests24h :: "int"
  ao_p95Ms :: "rat option"

record agent_incident =
  ai_agentId :: "string option"
  ai_key :: "string"
  ai_serviceName :: "string"
  ai_startedAt :: "string"
  ai_endedAt :: "string option"
  ai_durationSec :: "int"
  ai_active :: "bool"

datatype incident_source = Src_uptime | Src_docker

fun incident_source_text :: "incident_source \<Rightarrow> string" where
  "incident_source_text Src_uptime = ''uptime''"
| "incident_source_text Src_docker = ''docker''"

record timeline_incident =
  ti_source :: "incident_source"
  ti_targetName :: "string"
  ti_targetPath :: "string"
  ti_startedAt :: "string"
  ti_endedAt :: "string option"
  ti_durationSec :: "int"
  ti_active :: "bool"
  ti_message :: "string option"

end
