(* ===== verification/EU_ProjectTypes.thy ===== *)
theory EU_ProjectTypes imports EU_Json
begin

text \<open>
  The data of \<open>web/frontend/src/services/api/projects.ts\<close>: one record per interface (\<open>extends\<close> is
  record extension), one datatype per union of string literals with the function to its
  text. A field \<open>x?: T\<close> or \<open>x: T | null\<close> is an \<open>option\<close>, one that may be both is an
  \<open>option option\<close>; counts, ids and statuses are integers, measured values rationals.
  Every record's fields carry a short prefix of their own, since Isabelle's field names
  are global.
\<close>

record project =
  pr_id :: "string"
  pr_name :: "string"
  pr_description :: "string option"
  pr_agentCount :: "int"
  pr_monitorCount :: "int"
  pr_observedServiceCount :: "int"
  pr_infrastructureResourceCount :: "int"
  pr_createdAt :: "string"
  pr_updatedAt :: "string"

record project_input =
  pri_name :: "string"
  pri_description :: "string option"

end
