(* ===== verification/EU_ObservedTypes.thy ===== *)
theory EU_ObservedTypes imports EU_Json EU_ServiceTypes
begin

text \<open>
  The data of \<open>web/frontend/src/services/api/observedServices.ts\<close>: one record per interface (\<open>extends\<close> is
  record extension), one datatype per union of string literals with the function to its
  text. A field \<open>x?: T\<close> or \<open>x: T | null\<close> is an \<open>option\<close>, one that may be both is an
  \<open>option option\<close>; counts, ids and statuses are integers, measured values rationals.
  Every record's fields carry a short prefix of their own, since Isabelle's field names
  are global.
\<close>

datatype telemetry_signal = Sig_logs | Sig_metrics | Sig_traces

fun telemetry_signal_text :: "telemetry_signal \<Rightarrow> string" where
  "telemetry_signal_text Sig_logs = ''logs''"
| "telemetry_signal_text Sig_metrics = ''metrics''"
| "telemetry_signal_text Sig_traces = ''traces''"

record observed_service =
  os_id :: "string"
  os_name :: "string"
  os_projectId :: "string option"
  os_signals :: "telemetry_signal list"
  os_logLevelFilter :: "(log_level list) option"
  os_apiExcludePaths :: "(string list) option"
  os_isActive :: "bool"
  os_apiKeyMasked :: "string option"
  os_lastSeenAt :: "string option"
  os_createdAt :: "string"
  os_updatedAt :: "string"

record observed_service_input =
  osi_name :: "string"
  osi_projectId :: "string option"
  osi_signals :: "telemetry_signal list"

record observed_service_setup = observed_service +
  oss_apiKey :: "string"

record direct_log_query =
  dl_level :: "log_level option"
  dl_search :: "string option"
  dl_attrKey :: "string option"
  dl_attrValue :: "string option"
  dl_traceId :: "string option"
  dl_fingerprint :: "string option"
  dl_from :: "string option"
  dl_to :: "string option"
  dl_limit :: "int option"
  dl_offset :: "int option"

record direct_metric_point_query =
  dm_name :: "string"
  dm_from :: "string option"
  dm_to :: "string option"
  dm_limit :: "int option"

record direct_api_request_query =
  dr_search :: "string option"
  dr_errorsOnly :: "bool option"
  dr_traceId :: "string option"
  dr_from :: "string option"
  dr_to :: "string option"
  dr_minStatus :: "int option"
  dr_maxStatus :: "int option"
  dr_limit :: "int option"
  dr_offset :: "int option"

end
