(* ===== verification/EU_AlertTypes.thy ===== *)
theory EU_AlertTypes imports EU_Json
begin

text \<open>
  The data of \<open>web/frontend/src/services/api/alerts.ts\<close>: one record per interface (\<open>extends\<close> is
  record extension), one datatype per union of string literals with the function to its
  text. A field \<open>x?: T\<close> or \<open>x: T | null\<close> is an \<open>option\<close>, one that may be both is an
  \<open>option option\<close>; counts, ids and statuses are integers, measured values rationals.
  Every record's fields carry a short prefix of their own, since Isabelle's field names
  are global.
\<close>

datatype alert_rule_type = RT_resource | RT_service | RT_log | RT_system | RT_request

fun alert_rule_type_text :: "alert_rule_type \<Rightarrow> string" where
  "alert_rule_type_text RT_resource = ''resource''"
| "alert_rule_type_text RT_service = ''service''"
| "alert_rule_type_text RT_log = ''log''"
| "alert_rule_type_text RT_system = ''system''"
| "alert_rule_type_text RT_request = ''request''"

datatype alert_metric = Me_cpu | Me_memory | Me_disk | Me_status_change | Me_http_status | Me_response_time | Me_log_level | Me_api_status_code | Me_otel_metric | Me_error_rate | Me_latency_p95 | Me_latency_p99

fun alert_metric_text :: "alert_metric \<Rightarrow> string" where
  "alert_metric_text Me_cpu = ''cpu''"
| "alert_metric_text Me_memory = ''memory''"
| "alert_metric_text Me_disk = ''disk''"
| "alert_metric_text Me_status_change = ''status_change''"
| "alert_metric_text Me_http_status = ''http_status''"
| "alert_metric_text Me_response_time = ''response_time''"
| "alert_metric_text Me_log_level = ''log_level''"
| "alert_metric_text Me_api_status_code = ''api_status_code''"
| "alert_metric_text Me_otel_metric = ''otel_metric''"
| "alert_metric_text Me_error_rate = ''error_rate''"
| "alert_metric_text Me_latency_p95 = ''latency_p95''"
| "alert_metric_text Me_latency_p99 = ''latency_p99''"

datatype alert_operator = Op_gt | Op_lt | Op_gte | Op_lte | Op_eq

fun alert_operator_text :: "alert_operator \<Rightarrow> string" where
  "alert_operator_text Op_gt = ''gt''"
| "alert_operator_text Op_lt = ''lt''"
| "alert_operator_text Op_gte = ''gte''"
| "alert_operator_text Op_lte = ''lte''"
| "alert_operator_text Op_eq = ''eq''"

datatype alert_severity = Sev_critical | Sev_warning | Sev_info

fun alert_severity_text :: "alert_severity \<Rightarrow> string" where
  "alert_severity_text Sev_critical = ''critical''"
| "alert_severity_text Sev_warning = ''warning''"
| "alert_severity_text Sev_info = ''info''"

record alert_rule =
  ar_id :: "string"
  ar_name :: "string"
  ar_type :: "alert_rule_type"
  ar_agentId :: "(string option) option"
  ar_serviceKey :: "(string option) option"
  ar_serviceId :: "(string option) option"
  ar_metric :: "alert_metric"
  ar_metricName :: "string option"
  ar_operator :: "alert_operator"
  ar_threshold :: "rat"
  ar_duration :: "int"
  ar_severity :: "alert_severity"
  ar_isEnabled :: "bool"
  ar_isSystem :: "bool"
  ar_cooldown :: "int"
  ar_message :: "string option"
  ar_channelIds :: "string list"
  ar_lastTriggeredAt :: "string option"
  ar_createdAt :: "string"
  ar_updatedAt :: "string"

record create_alert_rule_data =
  car_name :: "string"
  car_type :: "alert_rule_type"
  car_agentId :: "(string option) option"
  car_serviceKey :: "(string option) option"
  car_serviceId :: "(string option) option"
  car_metric :: "alert_metric"
  car_metricName :: "string option"
  car_operator :: "alert_operator option"
  car_threshold :: "rat"
  car_duration :: "int option"
  car_severity :: "alert_severity option"
  car_isEnabled :: "bool option"
  car_cooldown :: "int option"
  car_message :: "string option"
  car_channelIds :: "(string list) option"

record update_alert_rule_data =
  uar_name :: "string option"
  uar_agentId :: "(string option) option"
  uar_serviceKey :: "(string option) option"
  uar_serviceId :: "(string option) option"
  uar_metric :: "alert_metric option"
  uar_metricName :: "string option"
  uar_operator :: "alert_operator option"
  uar_threshold :: "rat option"
  uar_duration :: "int option"
  uar_severity :: "alert_severity option"
  uar_isEnabled :: "bool option"
  uar_cooldown :: "int option"
  uar_message :: "string option"
  uar_channelIds :: "(string list) option"

datatype channel_type = Ch_telegram | Ch_discord | Ch_slack

fun channel_type_text :: "channel_type \<Rightarrow> string" where
  "channel_type_text Ch_telegram = ''telegram''"
| "channel_type_text Ch_discord = ''discord''"
| "channel_type_text Ch_slack = ''slack''"

record notification_channel =
  nc_id :: "string"
  nc_name :: "string"
  nc_type :: "channel_type"
  nc_config :: "string"
  nc_isEnabled :: "bool"
  nc_createdAt :: "string"

record telegram_config =
  tg_botToken :: "string"
  tg_chatId :: "string"

record discord_config =
  dc_webhookUrl :: "string"

record slack_config =
  sl_webhookUrl :: "string"

datatype channel_config = Telegram_config telegram_config | Discord_config discord_config | Slack_config slack_config

record create_notification_channel_data =
  cnc_name :: "string"
  cnc_type :: "channel_type"
  cnc_config :: "channel_config"

record notification_channel_health =
  nch_channelId :: "string"
  nch_lastSentAt :: "string option"
  nch_successCount :: "int"
  nch_failedCount :: "int"
  nch_ruleCount :: "int"

datatype notification_status = NS_sent | NS_failed | NS_pending

fun notification_status_text :: "notification_status \<Rightarrow> string" where
  "notification_status_text NS_sent = ''sent''"
| "notification_status_text NS_failed = ''failed''"
| "notification_status_text NS_pending = ''pending''"

datatype notification_alert_type = NA_resource | NA_healthcheck | NA_log | NA_scheduled | NA_endpoint

fun notification_alert_type_text :: "notification_alert_type \<Rightarrow> string" where
  "notification_alert_type_text NA_resource = ''resource''"
| "notification_alert_type_text NA_healthcheck = ''healthcheck''"
| "notification_alert_type_text NA_log = ''log''"
| "notification_alert_type_text NA_scheduled = ''scheduled''"
| "notification_alert_type_text NA_endpoint = ''endpoint''"

record notification_history =
  nh_id :: "int"
  nh_ruleId :: "string option"
  nh_channelId :: "string"
  nh_channelName :: "string"
  nh_channelType :: "string"
  nh_alertType :: "notification_alert_type"
  nh_severity :: "string option"
  nh_hostId :: "string option"
  nh_hostName :: "string option"
  nh_serviceId :: "string option"
  nh_serviceName :: "string option"
  nh_message :: "string"
  nh_status :: "notification_status"
  nh_errorMessage :: "string option"
  nh_retryCount :: "int"
  nh_createdAt :: "string"
  nh_sentAt :: "string option"

record notification_history_filter =
  nhf_channel_id :: "string option"
  nhf_alert_type :: "string option"
  nhf_status :: "string option"
  nhf_q :: "string option"
  nhf_from :: "string option"
  nhf_to :: "string option"
  nhf_limit :: "int option"
  nhf_offset :: "int option"

record notification_history_response =
  nhr_items :: "notification_history list"
  nhr_total :: "int"
  nhr_limit :: "int"
  nhr_offset :: "int"

record notification_stats =
  ns_totalSent :: "int"
  ns_totalFailed :: "int"
  ns_successRate :: "rat"
  ns_byChannel :: "(string \<times> int) list"
  ns_byAlertType :: "(string \<times> int) list"

record settings_alerts =
  sa_consecutiveFailures :: int

record settings_retention =
  sret_metrics :: string
  sret_logs :: string

record settings_system =
  ssys_collectInterval :: int

record app_settings =
  as_alerts :: "settings_alerts"
  as_retention :: "settings_retention"
  as_system :: "settings_system"

end
