(* ===== verification/EU_Client.thy ===== *)
theory EU_Client imports EU_Request EU_TelemetryTypes EU_ServiceTypes EU_HostTypes EU_AgentTypes
  EU_ProjectTypes EU_ObservedTypes EU_AlertTypes
begin

text \<open>
  The API client: every operation of \<open>services/api/*.ts\<close> as the call it hands to
  \<open>request\<close>: the endpoint it builds, the method and the body. The type argument of
  \<open>api_call\<close> is the type \<open>request\<close> is instantiated with. \<open>call_options\<close> gives the
  \<open>RequestInit\<close> the call passes (an \<open>AbortSignal\<close> is not part of it: it never reaches the
  server). A query is built by a sequence of guarded \<open>set\<close>s (\<open>build\<close>): a value that is
  empty, zero, false or absent is not sent.
\<close>

datatype 'a api_call = ApiCall (ac_endpoint: string) (ac_method: "string option") (ac_body: "json option")

definition get :: "string \<Rightarrow> 'a api_call" where
  "get e = ApiCall e None None"

definition send :: "string \<Rightarrow> string \<Rightarrow> 'a api_call" where
  "send m e = ApiCall e (Some m) None"

definition send_json :: "string \<Rightarrow> string \<Rightarrow> json \<Rightarrow> 'a api_call" where
  "send_json m e j = ApiCall e (Some m) (Some j)"

definition call_options :: "'a api_call \<Rightarrow> request_options option" where
  "call_options c = (if ac_method c = None \<and> ac_body c = None then None
     else Some \<lparr>ro_method = ac_method c, ro_body = ac_body c, ro_headers = None\<rparr>)"

definition or_default :: "'a option \<Rightarrow> 'a \<Rightarrow> 'a" where
  "or_default v d = (case v of Some x \<Rightarrow> x | None \<Rightarrow> d)"

lemma get_sel [simp]: "ac_endpoint (get e) = e" "ac_method (get e) = None" "ac_body (get e) = None"
  by (simp_all add: get_def)

lemma send_sel [simp]: "ac_endpoint (send m e) = e" "ac_method (send m e) = Some m" "ac_body (send m e) = None"
  by (simp_all add: send_def)

lemma send_json_sel [simp]:
  "ac_endpoint (send_json m e j) = e" "ac_method (send_json m e j) = Some m" "ac_body (send_json m e j) = Some j"
  by (simp_all add: send_json_def)

lemma or_default_simps [simp]: "or_default (Some x) d = x" "or_default None d = d"
  by (simp_all add: or_default_def)

text \<open>\<open>if (v) query.set(k, v)\<close> for strings, numbers and flags.\<close>

definition set_str :: "string \<Rightarrow> string option \<Rightarrow> search_params \<Rightarrow> search_params" where
  "set_str k v ps = (if truthy v then sp_set k (the v) ps else ps)"

definition set_num :: "string \<Rightarrow> int option \<Rightarrow> search_params \<Rightarrow> search_params" where
  "set_num k v ps = (case v of Some n \<Rightarrow> if n \<noteq> 0 then sp_set k (show_int n) ps else ps | None \<Rightarrow> ps)"

definition set_flag :: "string \<Rightarrow> bool option \<Rightarrow> search_params \<Rightarrow> search_params" where
  "set_flag k v ps = (if v = Some True then sp_set k ''true'' ps else ps)"

definition set_attr :: "string option \<Rightarrow> string option \<Rightarrow> search_params \<Rightarrow> search_params" where
  "set_attr k v ps = (if truthy k then sp_set ''attrValue'' (or_default v []) (sp_set ''attrKey'' (the k) ps) else ps)"

definition append_str :: "string \<Rightarrow> string option \<Rightarrow> search_params \<Rightarrow> search_params" where
  "append_str k v ps = (if truthy v then sp_append k (the v) ps else ps)"

definition append_num :: "string \<Rightarrow> int option \<Rightarrow> search_params \<Rightarrow> search_params" where
  "append_num k v ps = (case v of Some n \<Rightarrow> if n \<noteq> 0 then sp_append k (show_int n) ps else ps | None \<Rightarrow> ps)"

definition build :: "(search_params \<Rightarrow> search_params) list \<Rightarrow> search_params" where
  "build fs = foldl (\<lambda>ps f. f ps) [] fs"

definition opt_pair :: "string \<Rightarrow> string option \<Rightarrow> search_params" where
  "opt_pair k v = (case v of Some x \<Rightarrow> [(k, x)] | None \<Rightarrow> [])"

text \<open>What a guarded \<open>set\<close> leaves to read: the value when it is truthy, else what was there.\<close>

lemma sp_get_set_str [simp, js_simps]:
  "sp_get (set_str k v ps) j = (if j = k \<and> truthy v then v else sp_get ps j)"
  by (cases v) (simp_all add: set_str_def)

lemma sp_get_set_num [simp, js_simps]:
  "sp_get (set_num k v ps) j =
     (if j = k then (case v of Some n \<Rightarrow> if n \<noteq> 0 then Some (show_int n) else sp_get ps j | None \<Rightarrow> sp_get ps j)
      else sp_get ps j)"
  by (simp add: set_num_def split: option.split)

lemma sp_get_set_flag [simp, js_simps]:
  "sp_get (set_flag k v ps) j = (if j = k \<and> v = Some True then Some ''true'' else sp_get ps j)"
  by (simp add: set_flag_def)

lemma sp_get_set_attr [simp, js_simps]:
  "sp_get (set_attr k v ps) j =
     (if truthy k then (if j = ''attrValue'' then Some (or_default v []) else if j = ''attrKey'' then k else sp_get ps j)
      else sp_get ps j)"
  by (cases k) (simp_all add: set_attr_def)

lemma sp_get_opt_pair [simp]: "sp_get (opt_pair k v @ ps) j = (if j = k \<and> v \<noteq> None then v else sp_get ps j)"
  by (simp add: opt_pair_def split: option.split)

lemma build_simps [simp]: "build [] = []" "build (fs @ [f]) = f (build fs)"
  by (simp_all add: build_def)

lemma build_get: "sp_get (build fs) j = sp_get (foldl (\<lambda>ps f. f ps) [] fs) j"
  by (simp add: build_def)

section \<open>Uptime monitors, logs and traces (services.ts)\<close>

definition uptime_monitor_input_json :: "uptime_monitor_input \<Rightarrow> json" where
  "uptime_monitor_input_json d = JObj
     ([(''name'', JStr (ui_name d)), (''type'', JStr (uptime_monitor_type_text (ui_type d)))]
      @ jopt ''url'' (map_option JStr (ui_url d)) @ jopt ''host'' (map_option JStr (ui_host d))
      @ jopt ''port'' (map_option JInt (ui_port d)) @ jopt ''method'' (map_option JStr (ui_method d))
      @ jopt ''expectedStatus'' (map_option JInt (ui_expectedStatus d))
      @ jopt ''timeout'' (map_option JInt (ui_timeout d)) @ jopt ''interval'' (map_option JInt (ui_interval d))
      @ jopt ''isActive'' (map_option JBool (ui_isActive d)))"

definition getUptimeMonitors :: "(uptime_monitor list) api_call" where
  "getUptimeMonitors =
     get ''/services?type=http,tcp''"

definition getUptimeMonitor :: "string \<Rightarrow> (uptime_monitor) api_call" where
  "getUptimeMonitor i =
     get (''/services/'' @ i)"

text \<open>A parameter with a default, \<open>(id, limit = 100)\<close>, is an option.\<close>

definition getUptimeMonitorMetrics :: "string \<Rightarrow> int option \<Rightarrow> (uptime_monitor_metric list) api_call" where
  "getUptimeMonitorMetrics i limit =
     get (''/services/'' @ i @ ''/metrics?limit='' @ show_int (or_default limit 100))"

definition getUptimeMonitorSummary :: "string \<Rightarrow> string option \<Rightarrow> (uptime_monitor_summary option) api_call" where
  "getUptimeMonitorSummary i duration =
     get (''/services/'' @ i @ ''/metrics/summary?duration='' @ or_default duration ''30d'')"

definition getUptimeMonitorHistory :: "string \<Rightarrow> int option \<Rightarrow> (uptime_monitor_history) api_call" where
  "getUptimeMonitorHistory i days =
     get (''/services/'' @ i @ ''/uptime?days='' @ show_int (or_default days 90))"

datatype bucket_range = Range_1h | Range_6h | Range_24h

fun bucket_range_text :: "bucket_range \<Rightarrow> string" where
  "bucket_range_text Range_1h = ''1h''"
| "bucket_range_text Range_6h = ''6h''"
| "bucket_range_text Range_24h = ''24h''"

definition getUptimeMonitorBuckets :: "string \<Rightarrow> bucket_range \<Rightarrow> (service_history_point list) api_call" where
  "getUptimeMonitorBuckets i rng =
     get (''/services/'' @ i @ ''/metrics/history?range='' @ bucket_range_text rng)"

definition getUptimeMonitorIncidents :: "string \<Rightarrow> int option \<Rightarrow> int option \<Rightarrow> (timeline_incident list) api_call" where
  "getUptimeMonitorIncidents i days limit =
     get (''/services/'' @ i @ ''/incidents?days='' @ show_int (or_default days 90) @ ''&limit='' @ show_int (or_default limit 20))"

definition getUptimeMonitorFailures :: "string \<Rightarrow> int option \<Rightarrow> int option \<Rightarrow> (uptime_monitor_metric list) api_call" where
  "getUptimeMonitorFailures i days limit =
     get (''/services/'' @ i @ ''/failures?days='' @ show_int (or_default days 90) @ ''&limit='' @ show_int (or_default limit 50))"

definition createUptimeMonitor :: "uptime_monitor_input \<Rightarrow> (uptime_monitor) api_call" where
  "createUptimeMonitor d =
     send_json ''POST'' ''/services'' (uptime_monitor_input_json d)"

definition updateUptimeMonitor :: "string \<Rightarrow> uptime_monitor_input \<Rightarrow> (uptime_monitor) api_call" where
  "updateUptimeMonitor i d =
     send_json ''PUT'' (''/services/'' @ i) (uptime_monitor_input_json d)"

definition deleteUptimeMonitor :: "string \<Rightarrow> (unit) api_call" where
  "deleteUptimeMonitor i =
     send ''DELETE'' (''/services/'' @ i)"

definition getLogSummary :: "(log_service_summary list) api_call" where
  "getLogSummary =
     get ''/logs/summary''"

definition getLogPatterns :: "string option \<Rightarrow> int option \<Rightarrow> (log_pattern list) api_call" where
  "getLogPatterns agentId limit =
     get (''/logs/patterns?limit='' @ show_int (or_default limit 10)
        @ (case agentId of Some a \<Rightarrow> if a \<noteq> [] then ''&agentId='' @ encodeURIComponent a else [] | None \<Rightarrow> []))"

definition getTrace :: "string \<Rightarrow> (trace_detail) api_call" where
  "getTrace t =
     get (''/traces/'' @ t)"

definition getAuditEvents :: "string option \<Rightarrow> int option \<Rightarrow> (audit_event list) api_call" where
  "getAuditEvents action limit =
     (let qs = sp_to_string (build [set_str ''action'' action, set_num ''limit'' limit])
      in get (''/audit'' @ (if qs \<noteq> [] then ''?'' @ qs else [])))"

section \<open>Hosts and infrastructure resources (hosts.ts)\<close>

definition infrastructure_resource_input_json :: "infrastructure_resource_input \<Rightarrow> json" where
  "infrastructure_resource_input_json d = JObj
     ((''name'', JStr (iri_name d)) # jopt ''projectId'' (map_option JStr (iri_projectId d)))"

definition getSystemInfo :: "string \<Rightarrow> (system_info) api_call" where
  "getSystemInfo h =
     get (''/hosts/'' @ h @ ''/system/info'')"

definition getSystemMetricsHistory :: "string \<Rightarrow> string option \<Rightarrow> (system_metrics_history) api_call" where
  "getSystemMetricsHistory h rng =
     (let query = (case rng of Some r \<Rightarrow> if r \<noteq> [] then ''?range='' @ r else [] | None \<Rightarrow> [])
      in get (''/hosts/'' @ h @ ''/system/metrics'' @ query))"

definition getInfrastructureResources :: "(infrastructure_resource list) api_call" where
  "getInfrastructureResources =
     get ''/infrastructure-resources''"

definition getInfrastructureResource :: "string \<Rightarrow> (infrastructure_resource) api_call" where
  "getInfrastructureResource i =
     get (''/infrastructure-resources/'' @ i)"

definition createInfrastructureResource :: "infrastructure_resource_input \<Rightarrow> (infrastructure_resource_setup) api_call" where
  "createInfrastructureResource d =
     send_json ''POST'' ''/infrastructure-resources'' (infrastructure_resource_input_json d)"

definition updateInfrastructureResource :: "string \<Rightarrow> infrastructure_resource_input \<Rightarrow> (infrastructure_resource) api_call" where
  "updateInfrastructureResource i d =
     send_json ''PUT'' (''/infrastructure-resources/'' @ i) (infrastructure_resource_input_json d)"

definition rotateInfrastructureResourceKey :: "string \<Rightarrow> (infrastructure_resource_setup) api_call" where
  "rotateInfrastructureResourceKey i =
     send ''POST'' (''/infrastructure-resources/'' @ i @ ''/rotate-key'')"

definition revokeInfrastructureResourceKey :: "string \<Rightarrow> (infrastructure_resource) api_call" where
  "revokeInfrastructureResourceKey i =
     send ''POST'' (''/infrastructure-resources/'' @ i @ ''/revoke-key'')"

definition deleteInfrastructureResource :: "string \<Rightarrow> (unit) api_call" where
  "deleteInfrastructureResource i =
     send ''DELETE'' (''/infrastructure-resources/'' @ i)"

section \<open>Projects (projects.ts)\<close>

definition project_input_json :: "project_input \<Rightarrow> json" where
  "project_input_json d = JObj ((''name'', JStr (pri_name d)) # jopt ''description'' (map_option JStr (pri_description d)))"

definition getProjects :: "(project list) api_call" where
  "getProjects =
     get ''/projects''"

definition createProject :: "project_input \<Rightarrow> (project) api_call" where
  "createProject d =
     send_json ''POST'' ''/projects'' (project_input_json d)"

definition updateProject :: "string \<Rightarrow> project_input \<Rightarrow> (project) api_call" where
  "updateProject i d =
     send_json ''PUT'' (''/projects/'' @ i) (project_input_json d)"

definition deleteProject :: "string \<Rightarrow> (unit) api_call" where
  "deleteProject i =
     send ''DELETE'' (''/projects/'' @ i)"

definition assignAgent :: "string \<Rightarrow> string \<Rightarrow> (unit) api_call" where
  "assignAgent p x =
     send ''PUT'' (''/projects/'' @ p @ ''/agents/'' @ x)"

definition unassignAgent :: "string \<Rightarrow> string \<Rightarrow> (unit) api_call" where
  "unassignAgent p x =
     send ''DELETE'' (''/projects/'' @ p @ ''/agents/'' @ x)"

definition assignMonitor :: "string \<Rightarrow> string \<Rightarrow> (unit) api_call" where
  "assignMonitor p x =
     send ''PUT'' (''/projects/'' @ p @ ''/monitors/'' @ x)"

definition unassignMonitor :: "string \<Rightarrow> string \<Rightarrow> (unit) api_call" where
  "unassignMonitor p x =
     send ''DELETE'' (''/projects/'' @ p @ ''/monitors/'' @ x)"

section \<open>Agents and their services (agents.ts, instrumentationApi.ts)\<close>

definition agent_profile_json :: "agent_profile \<Rightarrow> json" where
  "agent_profile_json p = JObj
     [(''kind'', JStr (agent_profile_kind_text (pf_kind p))),
      (''capabilities'', JArr (map (\<lambda>c. JStr (agent_collection_capability_text c)) (pf_capabilities p)))]"

definition levels_json :: "string list \<Rightarrow> json" where
  "levels_json ls = JObj [(''levels'', JArr (map JStr ls))]"

definition metricQueryString :: "metric_query \<Rightarrow> search_params" where
  "metricQueryString q =
     [(''name'', mq_name q)] @ opt_pair ''from'' (mq_from q) @ opt_pair ''to'' (mq_to q) @ opt_pair ''type'' (mq_type q)
      @ opt_pair ''unit'' (mq_unit q) @ opt_pair ''attributes'' (mq_attributes q) @ opt_pair ''series'' (mq_series q)"

definition traceQuery :: "trace_list_query option \<Rightarrow> search_params" where
  "traceQuery q =
     build [set_str ''from'' (Option.bind q tq_from), set_str ''to'' (Option.bind q tq_to),
            set_num ''minDurationMs'' (Option.bind q tq_minDurationMs),
            set_flag ''errorsOnly'' (Option.bind q tq_errorsOnly),
            (if Option.bind q tq_sort = Some Sort_slowest then sp_set ''sort'' ''slowest'' else id),
            set_num ''limit'' (Option.bind q tq_limit)]"

text \<open>The common head \<open>/agents/${agentId}/services/${encodeURIComponent(key)}\<close> of the keyed calls.\<close>

definition service_base :: "string \<Rightarrow> string \<Rightarrow> string" where
  "service_base a k = ''/agents/'' @ a @ ''/services/'' @ encodeURIComponent k"

definition getCollectorSetupStatus :: "string \<Rightarrow> (collector_setup_status) api_call" where
  "getCollectorSetupStatus a =
     get (''/agents/'' @ a @ ''/setup-status'')"

definition updateAgentProfile :: "string \<Rightarrow> agent_profile \<Rightarrow> (agent_profile) api_call" where
  "updateAgentProfile a p =
     send_json ''PUT'' (''/agents/'' @ a @ ''/profile'') (agent_profile_json p)"

text \<open>\<open>createAgent\<close> answers the new agent's id, name and profile with its join code.\<close>

record created_agent = agent_join_code +
  ca_id :: string
  ca_name :: string
  ca_profile :: agent_profile

definition createAgent :: "string \<Rightarrow> agent_profile \<Rightarrow> (created_agent) api_call" where
  "createAgent name p =
     send_json ''POST'' ''/agents'' (JObj [(''name'', JStr name), (''profile'', agent_profile_json p)])"

definition createAgentJoinCode :: "string \<Rightarrow> (agent_join_code) api_call" where
  "createAgentJoinCode a =
     send ''POST'' (''/agents/'' @ a @ ''/join-code'')"

definition deleteAgent :: "string \<Rightarrow> (unit) api_call" where
  "deleteAgent a =
     send ''DELETE'' (''/agents/'' @ a)"

definition getAgentKey :: "string \<Rightarrow> (string \<times> bool) api_call" where
  "getAgentKey a =
     get (''/agents/'' @ a @ ''/key'')"

definition rotateAgentKey :: "string \<Rightarrow> (string) api_call" where
  "rotateAgentKey a =
     send ''POST'' (''/agents/'' @ a @ ''/rotate-key'')"

definition getAgents :: "(connected_agent list) api_call" where
  "getAgents =
     get ''/agents''"

definition getAgentsOverview :: "(agent_overview list) api_call" where
  "getAgentsOverview =
     get ''/agents/overview''"

definition getAgentServices :: "string \<Rightarrow> (agent_service_snapshot list) api_call" where
  "getAgentServices a =
     get (''/agents/'' @ a @ ''/services'')"

definition getAgentEvents :: "string \<Rightarrow> int option \<Rightarrow> (agent_event list) api_call" where
  "getAgentEvents a limit =
     get (''/agents/'' @ a @ ''/events?limit='' @ show_int (or_default limit 100))"

definition getAgentDeploys :: "string \<Rightarrow> string \<Rightarrow> string option \<Rightarrow> (agent_event list) api_call" where
  "getAgentDeploys a since key =
     get (with_query (''/agents/'' @ a @ ''/deploys'') (set_str ''key'' key [(''from'', since)]))"

definition getAllAgentServicesFlat :: "(agent_service_flat list) api_call" where
  "getAllAgentServicesFlat =
     get ''/agents/services/all''"

definition getAgentServiceHistory :: "string \<Rightarrow> string \<Rightarrow> string option \<Rightarrow> (service_history_point list) api_call" where
  "getAgentServiceHistory a k rng =
     get (service_base a k @ ''/history?range='' @ or_default rng ''24h'')"

definition getAgentServiceUptime :: "string \<Rightarrow> string \<Rightarrow> int option \<Rightarrow> (service_uptime_day list) api_call" where
  "getAgentServiceUptime a k days =
     get (service_base a k @ ''/uptime?days='' @ show_int (or_default days 90))"

definition getAgentServiceKeyEvents :: "string \<Rightarrow> string \<Rightarrow> int option \<Rightarrow> (agent_event list) api_call" where
  "getAgentServiceKeyEvents a k limit =
     get (service_base a k @ ''/events?limit='' @ show_int (or_default limit 50))"

record agent_log_params =
  al_level :: "string option"
  al_search :: "string option"
  al_attrKey :: "string option"
  al_attrValue :: "string option"
  al_traceId :: "string option"
  al_fingerprint :: "string option"
  al_from :: "string option"
  al_to :: "string option"
  al_limit :: "int option"
  al_offset :: "int option"

record 'a rows =
  rows_data :: "'a list"
  rows_total :: int

definition getAgentServiceLogs :: "string \<Rightarrow> string \<Rightarrow> agent_log_params option \<Rightarrow> (log_entry rows) api_call" where
  "getAgentServiceLogs a k q =
     get (with_query (service_base a k @ ''/logs'') (build
        [sp_set ''limit'' (show_int (or_default (Option.bind q al_limit) 100)),
         set_num ''offset'' (Option.bind q al_offset), set_str ''level'' (Option.bind q al_level),
         set_str ''search'' (Option.bind q al_search),
         set_attr (Option.bind q al_attrKey) (Option.bind q al_attrValue),
         set_str ''traceId'' (Option.bind q al_traceId), set_str ''fingerprint'' (Option.bind q al_fingerprint),
         set_str ''from'' (Option.bind q al_from), set_str ''to'' (Option.bind q al_to)]))"

record agent_histogram_params =
  ah_level :: "string option"
  ah_search :: "string option"
  ah_attrKey :: "string option"
  ah_attrValue :: "string option"
  ah_fingerprint :: "string option"
  ah_from :: "string option"
  ah_to :: "string option"
  ah_bucketMins :: "int option"

definition getAgentServiceLogHistogram :: "string \<Rightarrow> string \<Rightarrow> agent_histogram_params option \<Rightarrow> (log_histogram_bucket list) api_call" where
  "getAgentServiceLogHistogram a k q =
     get (with_query (service_base a k @ ''/log-histogram'') (build
        [set_str ''level'' (Option.bind q ah_level), set_str ''search'' (Option.bind q ah_search),
         set_attr (Option.bind q ah_attrKey) (Option.bind q ah_attrValue),
         set_str ''fingerprint'' (Option.bind q ah_fingerprint),
         set_str ''from'' (Option.bind q ah_from), set_str ''to'' (Option.bind q ah_to),
         set_num ''bucketMins'' (Option.bind q ah_bucketMins)]))"

record agent_request_params =
  arq_search :: "string option"
  arq_errorsOnly :: "bool option"
  arq_traceId :: "string option"
  arq_from :: "string option"
  arq_to :: "string option"
  arq_limit :: "int option"
  arq_offset :: "int option"

definition getAgentServiceRequests :: "string \<Rightarrow> string \<Rightarrow> agent_request_params option \<Rightarrow> (api_request rows) api_call" where
  "getAgentServiceRequests a k q =
     get (with_query (service_base a k @ ''/requests'') (build
        [sp_set ''limit'' (show_int (or_default (Option.bind q arq_limit) 100)),
         set_num ''offset'' (Option.bind q arq_offset), set_str ''search'' (Option.bind q arq_search),
         set_flag ''errorsOnly'' (Option.bind q arq_errorsOnly), set_str ''traceId'' (Option.bind q arq_traceId),
         set_str ''from'' (Option.bind q arq_from), set_str ''to'' (Option.bind q arq_to)]))"

record window_params =
  wp_from :: "string option"
  wp_to :: "string option"
  wp_bucketMins :: "int option"

definition window_query :: "window_params option \<Rightarrow> search_params" where
  "window_query q = build
     [set_str ''from'' (Option.bind q wp_from), set_str ''to'' (Option.bind q wp_to),
      set_num ''bucketMins'' (Option.bind q wp_bucketMins)]"

record span_params =
  spn_from :: "string option"
  spn_to :: "string option"

definition span_query :: "span_params option \<Rightarrow> search_params" where
  "span_query q = build [set_str ''from'' (Option.bind q spn_from), set_str ''to'' (Option.bind q spn_to)]"

definition getAgentServiceRequestStats :: "string \<Rightarrow> string \<Rightarrow> window_params option \<Rightarrow> (api_request_stats) api_call" where
  "getAgentServiceRequestStats a k q =
     get (with_query (service_base a k @ ''/request-stats'') (window_query q))"

definition getAgentRequestStats :: "string \<Rightarrow> window_params option \<Rightarrow> (api_request_stats) api_call" where
  "getAgentRequestStats a q =
     get (with_query (''/agents/'' @ a @ ''/request-stats'') (window_query q))"

definition getRequestStatusSummary :: "string \<Rightarrow> string option \<Rightarrow> span_params option \<Rightarrow> (api_request_status_summary) api_call" where
  "getRequestStatusSummary a key q =
     (let base = (if truthy key then service_base a (the key) @ ''/request-status-summary''
                  else ''/agents/'' @ a @ ''/request-status-summary'')
      in get (with_query base (span_query q)))"

definition getAgentUptime :: "string \<Rightarrow> int option \<Rightarrow> (service_uptime_day list) api_call" where
  "getAgentUptime a days =
     get (''/agents/'' @ a @ ''/uptime?days='' @ show_int (or_default days 90))"

definition getIncidentTimeline :: "int option \<Rightarrow> int option \<Rightarrow> (timeline_incident list) api_call" where
  "getIncidentTimeline days limit =
     get (''/incidents/timeline?days='' @ show_int (or_default days 7) @ ''&limit='' @ show_int (or_default limit 20))"

definition getAgentIncidents :: "string \<Rightarrow> int option \<Rightarrow> int option \<Rightarrow> (agent_incident list) api_call" where
  "getAgentIncidents a days limit =
     get (''/agents/'' @ a @ ''/incidents?days='' @ show_int (or_default days 30) @ ''&limit='' @ show_int (or_default limit 20))"

definition getAgentServiceMetrics :: "string \<Rightarrow> (otel_service_metric list) api_call" where
  "getAgentServiceMetrics a =
     get (''/agents/'' @ a @ ''/service-metrics'')"

definition getAgentServiceMetricHealth :: "string \<Rightarrow> string \<Rightarrow> (otel_metric_health) api_call" where
  "getAgentServiceMetricHealth a k =
     get (service_base a k @ ''/otel-metrics/health'')"

definition getAgentServiceOtelMetricNames :: "string \<Rightarrow> string \<Rightarrow> (otel_metric_name list) api_call" where
  "getAgentServiceOtelMetricNames a k =
     get (service_base a k @ ''/otel-metrics'')"

definition getAgentServiceOtelMetricPoints :: "string \<Rightarrow> string \<Rightarrow> direct_metric_point_query \<Rightarrow> (otel_metric_point list) api_call" where
  "getAgentServiceOtelMetricPoints a k q =
     get (with_query (service_base a k @ ''/otel-metrics/points'') (build
        [sp_set ''name'' (dm_name q), set_str ''from'' (dm_from q), set_str ''to'' (dm_to q), set_num ''limit'' (dm_limit q)]))"

definition queryAgentServiceMetric :: "string \<Rightarrow> string \<Rightarrow> metric_query \<Rightarrow> (metric_query_result) api_call" where
  "queryAgentServiceMetric a k q =
     get (with_query (service_base a k @ ''/otel-metrics/query'') (metricQueryString q))"

definition getAgentServiceTraces :: "string \<Rightarrow> string \<Rightarrow> trace_list_query option \<Rightarrow> (trace_summary list) api_call" where
  "getAgentServiceTraces a k q =
     get (with_query (service_base a k @ ''/traces'') (traceQuery q))"

definition getAgentServiceOtelMetricQuantiles :: "string \<Rightarrow> string \<Rightarrow> metric_query \<Rightarrow> (otel_histogram_quantiles option) api_call" where
  "getAgentServiceOtelMetricQuantiles a k q =
     get (with_query (service_base a k @ ''/otel-metrics/quantiles'') (metricQueryString q))"

definition getAgentServiceLogFilter :: "string \<Rightarrow> string \<Rightarrow> (string list) api_call" where
  "getAgentServiceLogFilter a k =
     get (service_base a k @ ''/log-filter'')"

definition setAgentServiceLogFilter :: "string \<Rightarrow> string \<Rightarrow> string list \<Rightarrow> (string list) api_call" where
  "setAgentServiceLogFilter a k ls =
     send_json ''PUT'' (service_base a k @ ''/log-filter'') (levels_json ls)"

datatype run_status = Run_planned | Run_applying | Run_verified | Run_failed | Run_rolled_back | Run_rollback_failed

record run_target =
  rt_key :: string
  rt_name :: string
  rt_runtime :: string

record instrumentation_run =
  run_id :: string
  run_agentId :: string
  run_project :: string
  run_targets :: "run_target list"
  run_captureBodies :: bool
  run_status :: run_status
  run_reason :: string
  run_createdAt :: string
  run_updatedAt :: string
  run_startedAt :: "string option"
  run_signals :: "signal_receipt list"

definition createInstrumentationRun :: "string \<Rightarrow> string \<Rightarrow> string list \<Rightarrow> bool \<Rightarrow> (instrumentation_run) api_call" where
  "createInstrumentationRun a project keys captureBodies =
     send_json ''POST'' (''/agents/'' @ a @ ''/instrumentation-runs'')
        (JObj [(''project'', JStr project), (''keys'', JArr (map JStr keys)), (''captureBodies'', JBool captureBodies)])"

section \<open>Observed services (observedServices.ts)\<close>

definition observed_service_input_json :: "observed_service_input \<Rightarrow> json" where
  "observed_service_input_json d = JObj
     ((''name'', JStr (osi_name d)) # jopt ''projectId'' (map_option JStr (osi_projectId d))
      @ [(''signals'', JArr (map (\<lambda>s. JStr (telemetry_signal_text s)) (osi_signals d)))])"

definition paths_json :: "string list \<Rightarrow> json" where
  "paths_json ps = JObj [(''paths'', JArr (map JStr ps))]"

definition logQuery :: "direct_log_query option \<Rightarrow> search_params" where
  "logQuery q =
     build
       [sp_set ''limit'' (show_int (or_default (Option.bind q dl_limit) 100)),
        set_num ''offset'' (Option.bind q dl_offset),
        set_str ''level'' (map_option log_level_text (Option.bind q dl_level)),
        set_str ''search'' (Option.bind q dl_search),
        set_attr (Option.bind q dl_attrKey) (Option.bind q dl_attrValue),
        set_str ''traceId'' (Option.bind q dl_traceId), set_str ''fingerprint'' (Option.bind q dl_fingerprint),
        set_str ''from'' (Option.bind q dl_from), set_str ''to'' (Option.bind q dl_to)]"

definition apiRequestQuery :: "direct_api_request_query option \<Rightarrow> search_params" where
  "apiRequestQuery q =
     build
       [sp_set ''limit'' (show_int (or_default (Option.bind q dr_limit) 100)),
        set_num ''offset'' (Option.bind q dr_offset), set_str ''search'' (Option.bind q dr_search),
        set_flag ''errorsOnly'' (Option.bind q dr_errorsOnly), set_str ''traceId'' (Option.bind q dr_traceId),
        set_str ''from'' (Option.bind q dr_from), set_str ''to'' (Option.bind q dr_to),
        set_num ''minStatus'' (Option.bind q dr_minStatus), set_num ''maxStatus'' (Option.bind q dr_maxStatus)]"

definition getObservedServices :: "telemetry_signal option \<Rightarrow> (observed_service list) api_call" where
  "getObservedServices s =
     get (''/observed-services'' @ (case s of Some x \<Rightarrow> ''?signal='' @ telemetry_signal_text x | None \<Rightarrow> []))"

definition getObservedService :: "string \<Rightarrow> (observed_service) api_call" where
  "getObservedService i =
     get (''/observed-services/'' @ i)"

definition createObservedService :: "observed_service_input \<Rightarrow> (observed_service_setup) api_call" where
  "createObservedService d =
     send_json ''POST'' ''/observed-services'' (observed_service_input_json d)"

definition updateObservedService :: "string \<Rightarrow> observed_service_input \<Rightarrow> (observed_service) api_call" where
  "updateObservedService i d =
     send_json ''PUT'' (''/observed-services/'' @ i) (observed_service_input_json d)"

definition deleteObservedService :: "string \<Rightarrow> (unit) api_call" where
  "deleteObservedService i =
     send ''DELETE'' (''/observed-services/'' @ i)"

definition rotateObservedServiceKey :: "string \<Rightarrow> (observed_service_setup) api_call" where
  "rotateObservedServiceKey i =
     send ''POST'' (''/observed-services/'' @ i @ ''/rotate-key'')"

definition revokeObservedServiceKey :: "string \<Rightarrow> (observed_service) api_call" where
  "revokeObservedServiceKey i =
     send ''POST'' (''/observed-services/'' @ i @ ''/revoke-key'')"

definition getObservedServiceLogs :: "string \<Rightarrow> direct_log_query option \<Rightarrow> (log_entry rows) api_call" where
  "getObservedServiceLogs i q =
     get (with_query (''/observed-services/'' @ i @ ''/logs'') (logQuery q))"

text \<open>
  The histogram's parameters are \<open>DirectLogQuery\<close> less \<open>traceId\<close>, \<open>limit\<close> and \<open>offset\<close>, so those
  three are absent from the query \<open>logQuery\<close> sees.
\<close>

definition direct_histogram_params :: "direct_log_query \<Rightarrow> direct_log_query" where
  "direct_histogram_params q = q\<lparr>dl_traceId := None, dl_limit := None, dl_offset := None\<rparr>"

definition getObservedServiceLogHistogram :: "string \<Rightarrow> (direct_log_query \<times> int option) option \<Rightarrow> (log_histogram_bucket list) api_call" where
  "getObservedServiceLogHistogram i q =
     (let query = sp_delete ''limit'' (logQuery (map_option (\<lambda>p. direct_histogram_params (fst p)) q))
      in get (with_query (''/observed-services/'' @ i @ ''/log-histogram'') (set_num ''bucketMins'' (Option.bind q snd) query)))"

definition getObservedServiceLogFilter :: "string \<Rightarrow> (log_level list) api_call" where
  "getObservedServiceLogFilter i =
     get (''/observed-services/'' @ i @ ''/log-filter'')"

definition setObservedServiceLogFilter :: "string \<Rightarrow> log_level list \<Rightarrow> (log_level list) api_call" where
  "setObservedServiceLogFilter i ls =
     send_json ''PUT'' (''/observed-services/'' @ i @ ''/log-filter'') (levels_json (map log_level_text ls))"

definition getObservedServiceMetrics :: "(otel_service_metric list) api_call" where
  "getObservedServiceMetrics =
     get ''/observed-services/service-metrics''"

definition getObservedServiceMetricCatalog :: "(observed_service_metric_name list) api_call" where
  "getObservedServiceMetricCatalog =
     get ''/observed-services/metric-catalog''"

definition getObservedServiceMetricHealth :: "string \<Rightarrow> (otel_metric_health) api_call" where
  "getObservedServiceMetricHealth i =
     get (''/observed-services/'' @ i @ ''/otel-metrics/health'')"

definition getObservedServiceOtelMetricNames :: "string \<Rightarrow> (otel_metric_name list) api_call" where
  "getObservedServiceOtelMetricNames i =
     get (''/observed-services/'' @ i @ ''/otel-metrics'')"

definition getObservedServiceOtelMetricPoints :: "string \<Rightarrow> direct_metric_point_query \<Rightarrow> (otel_metric_point list) api_call" where
  "getObservedServiceOtelMetricPoints i q =
     get (with_query (''/observed-services/'' @ i @ ''/otel-metrics/points'') (build
        [sp_set ''name'' (dm_name q), set_str ''from'' (dm_from q), set_str ''to'' (dm_to q), set_num ''limit'' (dm_limit q)]))"

definition queryObservedServiceMetric :: "string \<Rightarrow> metric_query \<Rightarrow> (metric_query_result) api_call" where
  "queryObservedServiceMetric i q =
     get (with_query (''/observed-services/'' @ i @ ''/otel-metrics/query'') (metricQueryString q))"

definition getObservedServiceTraces :: "string \<Rightarrow> trace_list_query option \<Rightarrow> (trace_summary list) api_call" where
  "getObservedServiceTraces i q =
     (let query = build [set_str ''from'' (Option.bind q tq_from), set_str ''to'' (Option.bind q tq_to),
            set_num ''minDurationMs'' (Option.bind q tq_minDurationMs),
            set_flag ''errorsOnly'' (Option.bind q tq_errorsOnly),
            (if Option.bind q tq_sort = Some Sort_slowest then sp_set ''sort'' ''slowest'' else id),
            set_num ''limit'' (Option.bind q tq_limit)]
      in get (with_query (''/observed-services/'' @ i @ ''/traces'') query))"

definition getObservedServiceOtelMetricQuantiles :: "string \<Rightarrow> metric_query \<Rightarrow> (otel_histogram_quantiles option) api_call" where
  "getObservedServiceOtelMetricQuantiles i q =
     get (with_query (''/observed-services/'' @ i @ ''/otel-metrics/quantiles'') (metricQueryString q))"

definition getObservedServiceRequests :: "string \<Rightarrow> direct_api_request_query option \<Rightarrow> (api_request rows) api_call" where
  "getObservedServiceRequests i q =
     get (with_query (''/observed-services/'' @ i @ ''/requests'') (apiRequestQuery q))"

definition getObservedServiceRequestStats :: "string \<Rightarrow> window_params option \<Rightarrow> (api_request_stats) api_call" where
  "getObservedServiceRequestStats i q =
     get (with_query (''/observed-services/'' @ i @ ''/request-stats'') (window_query q))"

definition getObservedServiceRequestStatusSummary :: "string \<Rightarrow> span_params option \<Rightarrow> (api_request_status_summary) api_call" where
  "getObservedServiceRequestStatusSummary i q =
     get (with_query (''/observed-services/'' @ i @ ''/request-status-summary'') (span_query q))"

definition getObservedServiceApiExclusions :: "string \<Rightarrow> (string list) api_call" where
  "getObservedServiceApiExclusions i =
     get (''/observed-services/'' @ i @ ''/api-exclusions'')"

definition setObservedServiceApiExclusions :: "string \<Rightarrow> string list \<Rightarrow> (string list) api_call" where
  "setObservedServiceApiExclusions i ps =
     send_json ''PUT'' (''/observed-services/'' @ i @ ''/api-exclusions'') (paths_json ps)"

section \<open>Alert rules, channels, history and settings (alerts.ts)\<close>

text \<open>
  A property that may be absent or \<open>null\<close> is an \<open>option option\<close>; a fractional threshold is
  written as \<open>num_text\<close> gives it, the text \<open>Number.prototype.toString\<close> prints.
\<close>

definition jnum :: "(rat \<Rightarrow> string) \<Rightarrow> rat \<Rightarrow> json" where
  "jnum num_text x = (if of_int \<lfloor>x\<rfloor> = x then JInt \<lfloor>x\<rfloor> else JDec (num_text x))"

definition jnullable :: "string option option \<Rightarrow> json option" where
  "jnullable v = map_option (\<lambda>w. case w of None \<Rightarrow> JNull | Some s \<Rightarrow> JStr s) v"

definition create_alert_rule_json :: "(rat \<Rightarrow> string) \<Rightarrow> create_alert_rule_data \<Rightarrow> json" where
  "create_alert_rule_json nt d = JObj
     ([(''name'', JStr (car_name d)), (''type'', JStr (alert_rule_type_text (car_type d)))]
      @ jopt ''agentId'' (jnullable (car_agentId d)) @ jopt ''serviceKey'' (jnullable (car_serviceKey d))
      @ jopt ''serviceId'' (jnullable (car_serviceId d))
      @ [(''metric'', JStr (alert_metric_text (car_metric d)))]
      @ jopt ''metricName'' (map_option JStr (car_metricName d))
      @ jopt ''operator'' (map_option (\<lambda>x. JStr (alert_operator_text x)) (car_operator d))
      @ [(''threshold'', jnum nt (car_threshold d))]
      @ jopt ''duration'' (map_option JInt (car_duration d))
      @ jopt ''severity'' (map_option (\<lambda>x. JStr (alert_severity_text x)) (car_severity d))
      @ jopt ''isEnabled'' (map_option JBool (car_isEnabled d))
      @ jopt ''cooldown'' (map_option JInt (car_cooldown d))
      @ jopt ''message'' (map_option JStr (car_message d))
      @ jopt ''channelIds'' (map_option (\<lambda>cs. JArr (map JStr cs)) (car_channelIds d)))"

definition update_alert_rule_json :: "(rat \<Rightarrow> string) \<Rightarrow> update_alert_rule_data \<Rightarrow> json" where
  "update_alert_rule_json nt d = JObj
     (jopt ''name'' (map_option JStr (uar_name d))
      @ jopt ''agentId'' (jnullable (uar_agentId d)) @ jopt ''serviceKey'' (jnullable (uar_serviceKey d))
      @ jopt ''serviceId'' (jnullable (uar_serviceId d))
      @ jopt ''metric'' (map_option (\<lambda>x. JStr (alert_metric_text x)) (uar_metric d))
      @ jopt ''metricName'' (map_option JStr (uar_metricName d))
      @ jopt ''operator'' (map_option (\<lambda>x. JStr (alert_operator_text x)) (uar_operator d))
      @ jopt ''threshold'' (map_option (jnum nt) (uar_threshold d))
      @ jopt ''duration'' (map_option JInt (uar_duration d))
      @ jopt ''severity'' (map_option (\<lambda>x. JStr (alert_severity_text x)) (uar_severity d))
      @ jopt ''isEnabled'' (map_option JBool (uar_isEnabled d))
      @ jopt ''cooldown'' (map_option JInt (uar_cooldown d))
      @ jopt ''message'' (map_option JStr (uar_message d))
      @ jopt ''channelIds'' (map_option (\<lambda>cs. JArr (map JStr cs)) (uar_channelIds d)))"

fun channel_config_json :: "channel_config \<Rightarrow> json" where
  "channel_config_json (Telegram_config c) = JObj [(''botToken'', JStr (tg_botToken c)), (''chatId'', JStr (tg_chatId c))]"
| "channel_config_json (Discord_config c) = JObj [(''webhookUrl'', JStr (dc_webhookUrl c))]"
| "channel_config_json (Slack_config c) = JObj [(''webhookUrl'', JStr (sl_webhookUrl c))]"

definition create_channel_json :: "create_notification_channel_data \<Rightarrow> json" where
  "create_channel_json d = JObj
     [(''name'', JStr (cnc_name d)), (''type'', JStr (channel_type_text (cnc_type d))),
      (''config'', channel_config_json (cnc_config d))]"

text \<open>\<open>Partial<AppSettings>\<close>: each section present or not.\<close>

record settings_patch =
  spt_alerts :: "settings_alerts option"
  spt_retention :: "settings_retention option"
  spt_system :: "settings_system option"

definition settings_patch_json :: "settings_patch \<Rightarrow> json" where
  "settings_patch_json d = JObj
     (jopt ''alerts'' (map_option (\<lambda>a. JObj [(''consecutiveFailures'', JInt (sa_consecutiveFailures a))]) (spt_alerts d))
      @ jopt ''retention'' (map_option (\<lambda>r. JObj [(''metrics'', JStr (sret_metrics r)), (''logs'', JStr (sret_logs r))]) (spt_retention d))
      @ jopt ''system'' (map_option (\<lambda>s. JObj [(''collectInterval'', JInt (ssys_collectInterval s))]) (spt_system d)))"

text \<open>\<open>const data = await request(...); return data || []\<close>: a missing list reads as the empty one.\<close>

definition data_or_empty :: "'a list option \<Rightarrow> 'a list" where
  "data_or_empty v = (case v of Some xs \<Rightarrow> xs | None \<Rightarrow> [])"

definition getAlertRules :: "(alert_rule list) api_call" where
  "getAlertRules =
     get ''/alert-rules''"

definition getAlertRuleById :: "string \<Rightarrow> (alert_rule) api_call" where
  "getAlertRuleById i =
     get (''/alert-rules/'' @ i)"

definition createAlertRule :: "(rat \<Rightarrow> string) \<Rightarrow> create_alert_rule_data \<Rightarrow> (alert_rule) api_call" where
  "createAlertRule nt d =
     send_json ''POST'' ''/alert-rules'' (create_alert_rule_json nt d)"

definition updateAlertRule :: "(rat \<Rightarrow> string) \<Rightarrow> string \<Rightarrow> update_alert_rule_data \<Rightarrow> (alert_rule) api_call" where
  "updateAlertRule nt i d =
     send_json ''PUT'' (''/alert-rules/'' @ i) (update_alert_rule_json nt d)"

definition deleteAlertRule :: "string \<Rightarrow> (unit) api_call" where
  "deleteAlertRule i =
     send ''DELETE'' (''/alert-rules/'' @ i)"

definition toggleAlertRule :: "string \<Rightarrow> (string \<times> bool) api_call" where
  "toggleAlertRule i =
     send ''POST'' (''/alert-rules/'' @ i @ ''/toggle'')"

definition getNotificationChannels :: "(notification_channel list) api_call" where
  "getNotificationChannels =
     get ''/notifications''"

definition getNotificationChannelHealth :: "int option \<Rightarrow> (notification_channel_health list) api_call" where
  "getNotificationChannelHealth days =
     get (''/notifications/health?days='' @ show_int (or_default days 7))"

definition createNotificationChannel :: "create_notification_channel_data \<Rightarrow> (notification_channel) api_call" where
  "createNotificationChannel d =
     send_json ''POST'' ''/notifications'' (create_channel_json d)"

definition updateNotificationChannel :: "string \<Rightarrow> create_notification_channel_data \<Rightarrow> (notification_channel) api_call" where
  "updateNotificationChannel i d =
     send_json ''PUT'' (''/notifications/'' @ i) (create_channel_json d)"

definition toggleNotificationChannel :: "string \<Rightarrow> (string \<times> bool) api_call" where
  "toggleNotificationChannel i =
     send ''POST'' (''/notifications/'' @ i @ ''/toggle'')"

definition testNotificationChannel :: "string \<Rightarrow> (string) api_call" where
  "testNotificationChannel i =
     send ''POST'' (''/notifications/'' @ i @ ''/test'')"

definition testNotificationChannelConfig :: "create_notification_channel_data \<Rightarrow> (string) api_call" where
  "testNotificationChannelConfig d =
     send_json ''POST'' ''/notifications/test'' (create_channel_json d)"

definition deleteNotificationChannel :: "string \<Rightarrow> (unit) api_call" where
  "deleteNotificationChannel i =
     send ''DELETE'' (''/notifications/'' @ i)"

definition getNotificationHistory :: "notification_history_filter option \<Rightarrow> (notification_history_response) api_call" where
  "getNotificationHistory f =
     (let qs = sp_to_string (build
        [append_str ''channel_id'' (Option.bind f nhf_channel_id), append_str ''alert_type'' (Option.bind f nhf_alert_type),
         append_str ''status'' (Option.bind f nhf_status), append_str ''q'' (Option.bind f nhf_q),
         append_str ''from'' (Option.bind f nhf_from), append_str ''to'' (Option.bind f nhf_to),
         append_num ''limit'' (Option.bind f nhf_limit), append_num ''offset'' (Option.bind f nhf_offset)])
      in get (if qs \<noteq> [] then ''/notification-history?'' @ qs else ''/notification-history''))"

definition getNotificationHistoryStats :: "int option \<Rightarrow> (notification_stats) api_call" where
  "getNotificationHistoryStats days =
     get (''/notification-history/stats?days='' @ show_int (or_default days 7))"

definition getNotificationHistoryById :: "int \<Rightarrow> (notification_history) api_call" where
  "getNotificationHistoryById i =
     get (''/notification-history/'' @ show_int i)"

definition cleanupNotificationHistory :: "int option \<Rightarrow> (int) api_call" where
  "cleanupNotificationHistory days =
     send ''DELETE'' (''/notification-history/cleanup?days='' @ show_int (or_default days 30))"

definition getSettings :: "(app_settings) api_call" where
  "getSettings =
     get ''/settings''"

definition updateSettings :: "settings_patch \<Rightarrow> (app_settings) api_call" where
  "updateSettings d =
     send_json ''PUT'' ''/settings'' (settings_patch_json d)"

definition resetAccount :: "(unit) api_call" where
  "resetAccount =
     send ''POST'' ''/auth/reset''"

end
