(* ===== verification/EU_Time.thy ===== *)
theory EU_Time imports EU_Prelude
begin

text \<open>
  Instants as text: \<open>Date.prototype.toISOString\<close> for the years 0 to 9999 and \<open>Date.parse\<close>
  on the RFC 3339 texts the server sends (a date, a time, an optional fraction of any
  length read to the millisecond, and \<open>Z\<close> or an offset); any other text is \<open>NaN\<close>,
  here \<open>None\<close>. The calendar is the proleptic Gregorian one: \<open>split_year\<close> walks at most
  400 years from the start of the 400-year cycle.
\<close>

section \<open>The calendar\<close>

definition leap :: "nat \<Rightarrow> bool" where
  "leap y \<longleftrightarrow> (4 dvd y \<and> \<not> 100 dvd y) \<or> 400 dvd y"

definition year_len :: "nat \<Rightarrow> nat" where
  "year_len y = (if leap y then 366 else 365)"

lemma year_len_pos [simp]: "0 < year_len y"
  by (simp add: year_len_def)

definition month_lens :: "nat \<Rightarrow> nat list" where
  "month_lens y = [31, if leap y then 29 else 28, 31, 30, 31, 30, 31, 31, 30, 31, 30, 31]"

lemma sum_month_lens: "sum_list (month_lens y) = year_len y"
  by (simp add: month_lens_def year_len_def)

lemma length_month_lens [simp]: "length (month_lens y) = 12"
  by (simp add: month_lens_def)

text \<open>Days from the first of January of year 0 to the first of January of year \<open>y\<close>.\<close>

definition year_start :: "nat \<Rightarrow> nat" where
  "year_start y = 365 * y + (y + 3) div 4 + (y + 399) div 400 - (y + 99) div 100"

function split_year :: "nat \<Rightarrow> nat \<Rightarrow> nat \<times> nat" where
  "split_year y n = (if n < year_len y then (y, n) else split_year (Suc y) (n - year_len y))"
  by pat_completeness auto
termination
  by (relation "measure snd") (auto simp: year_len_def split: if_splits)

declare split_year.simps [simp del]

definition year_and_day :: "nat \<Rightarrow> nat \<times> nat" where
  "year_and_day n = split_year (400 * (n div 146097)) (n mod 146097)"

fun split_month :: "nat list \<Rightarrow> nat \<Rightarrow> nat \<times> nat" where
  "split_month [] n = (0, n)"
| "split_month (l # ls) n = (if n < l then (0, n) else (case split_month ls (n - l) of (m, d) \<Rightarrow> (Suc m, d)))"

lemma dvd_mod_succ: "Suc (y + k) mod Suc k = 0 \<longleftrightarrow> Suc k dvd (y :: nat)"
proof -
  have "Suc (y + k) mod Suc k = y mod Suc k" by (metis add_Suc_right mod_add_self2)
  then show ?thesis by (simp add: dvd_eq_mod_eq_0)
qed

lemma div_step: "(Suc y + k) div Suc k = (y + k) div Suc k + (if Suc k dvd y then 1 else 0)"
  using dvd_mod_succ [of y k] by (simp add: div_Suc)

lemma year_start_Suc: "year_start (Suc y) = year_start y + year_len y"
proof -
  have a: "(Suc y + 3) div 4 = (y + 3) div 4 + (if 4 dvd y then 1 else 0)"
    using div_step [of y 3] by (simp only: Suc_numeral semiring_norm)
  have b: "(Suc y + 99) div 100 = (y + 99) div 100 + (if 100 dvd y then 1 else 0)"
    using div_step [of y 99] by (simp only: Suc_numeral semiring_norm)
  have c: "(Suc y + 399) div 400 = (y + 399) div 400 + (if 400 dvd y then 1 else 0)"
    using div_step [of y 399] by (simp only: Suc_numeral semiring_norm)
  have d: "(400 :: nat) dvd y \<Longrightarrow> 100 dvd y" "(100 :: nat) dvd y \<Longrightarrow> 4 dvd y"
    by (auto elim!: dvdE)
  have e: "(y + 99) div 100 \<le> 365 * y + (y + 3) div 4 + (y + 399) div 400" by linarith
  define A B C where "A = (y + 3) div 4" and "B = (y + 399) div 400" and "C = (y + 99) div 100"
  have "C \<le> 365 * y + A + B" using e by (simp only: A_def B_def C_def)
  then show ?thesis
    unfolding year_start_def year_len_def leap_def a b c A_def [symmetric] B_def [symmetric] C_def [symmetric]
    using d by auto
qed

lemma year_start_cycle: "year_start (400 * k) = 146097 * k"
  by (simp add: year_start_def)

lemma split_year_spec:
  "split_year y n = (y', n') \<Longrightarrow> year_start y' + n' = year_start y + n \<and> n' < year_len y'"
proof (induction y n rule: split_year.induct)
  case (1 y n)
  then show ?case
    by (cases "n < year_len y") (auto simp: split_year.simps [of y n] year_start_Suc)
qed

lemma year_and_day_spec:
  "year_and_day n = (y, d) \<Longrightarrow> year_start y + d = n \<and> d < year_len y"
  using split_year_spec [of "400 * (n div 146097)" "n mod 146097" y d]
  by (simp add: year_and_day_def year_start_cycle)

lemma split_month_spec:
  "split_month ls n = (m, d) \<Longrightarrow> n < sum_list ls \<Longrightarrow>
   m < length ls \<and> d < ls ! m \<and> sum_list (take m ls) + d = n"
proof (induction ls arbitrary: n m)
  case (Cons l ls)
  show ?case
  proof (cases "n < l")
    case False
    obtain m' d' where md: "split_month ls (n - l) = (m', d')" by (cases "split_month ls (n - l)")
    with False Cons.prems have m: "m = Suc m'" and d: "d' = d" by auto
    from Cons.prems False have "n - l < sum_list ls" by auto
    from Cons.IH [OF md [unfolded d] this] m False show ?thesis by auto
  qed (use Cons.prems in auto)
qed simp

section \<open>Formatting and parsing\<close>

definition padded :: "nat \<Rightarrow> nat \<Rightarrow> string" where
  "padded w n = pad_left w CHR ''0'' (show_nat n)"

lemma show_nat_length: "n < 10 ^ Suc w \<Longrightarrow> length (show_nat n) \<le> Suc w"
proof (induction w arbitrary: n)
  case 0
  then show ?case by (subst show_nat.simps) simp
next
  case (Suc w)
  show ?case
  proof (cases "n < 10")
    case True
    then show ?thesis by (subst show_nat.simps) simp
  next
    case False
    have "n div 10 < 10 ^ Suc w" using Suc.prems by (simp add: div_less_iff_less_mult)
    from Suc.IH [OF this] False show ?thesis by (subst show_nat.simps) simp
  qed
qed

lemma length_padded: "0 < w \<Longrightarrow> n < 10 ^ w \<Longrightarrow> length (padded w n) = w"
  using show_nat_length [of n "w - 1"] by (simp add: padded_def pad_left_def)

lemma zeros_value [simp]: "foldl (\<lambda>n c. 10 * n + digit_val c) 0 (replicate k CHR ''0'') = 0"
  by (induction k) (simp_all add: digit_val_def)

lemma is_digit_zero [simp]: "is_digit CHR ''0''"
  by (simp add: is_digit_def)

lemma padded_digits: "list_all is_digit (padded w n)"
  using show_nat_digits [of n]
  by (auto simp: padded_def pad_left_def list_all_iff set_replicate_conv_if split: if_splits)

lemma parse_padded [simp]: "parse_nat (padded w n) = Some n"
  using padded_digits [of w n]
  by (simp add: parse_nat_def padded_def pad_left_def show_nat_value)

definition epoch_day :: int where
  "epoch_day = 719528"

definition ms_per_day :: int where
  "ms_per_day = 86400000"

definition iso_string :: "int \<Rightarrow> string" where
  "iso_string t =
     (let days = nat (t div ms_per_day + epoch_day); r = nat (t mod ms_per_day);
          (y, n) = year_and_day days; (m, d) = split_month (month_lens y) n
      in padded 4 y @ ''-'' @ padded 2 (Suc m) @ ''-'' @ padded 2 (Suc d) @ ''T''
         @ padded 2 (r div 3600000) @ '':'' @ padded 2 (r div 60000 mod 60) @ '':''
         @ padded 2 (r div 1000 mod 60) @ ''.'' @ padded 3 (r mod 1000) @ ''Z'')"

definition time_of :: "nat \<Rightarrow> nat \<Rightarrow> nat \<Rightarrow> nat \<Rightarrow> nat \<Rightarrow> nat \<Rightarrow> nat \<Rightarrow> int option" where
  "time_of y mo d h mi s ms =
     (if 1 \<le> mo \<and> mo \<le> 12 \<and> 1 \<le> d \<and> d \<le> month_lens y ! (mo - 1) \<and> h < 24 \<and> mi < 60 \<and> s < 60
      then Some ((int (year_start y + sum_list (take (mo - 1) (month_lens y)) + (d - 1)) - epoch_day) * ms_per_day
                 + int (h * 3600000 + mi * 60000 + s * 1000 + ms))
      else None)"

text \<open>The zone: \<open>Z\<close>, or an offset to subtract, in milliseconds.\<close>

definition parse_zone :: "string \<Rightarrow> int option" where
  "parse_zone z =
     (if z = ''Z'' then Some 0
      else if length z = 6 \<and> z ! 3 = CHR '':'' \<and> (z ! 0 = CHR ''+'' \<or> z ! 0 = CHR ''-'')
      then (case (parse_nat (slice 1 3 z), parse_nat (slice 4 6 z)) of
              (Some h, Some m) \<Rightarrow> Some ((if z ! 0 = CHR ''+'' then 1 else - 1) * int (h * 3600000 + m * 60000))
            | _ \<Rightarrow> None)
      else None)"

text \<open>The fraction, read to the millisecond, and what follows it.\<close>

definition parse_fraction :: "string \<Rightarrow> (nat \<times> string) option" where
  "parse_fraction r =
     (case r of [] \<Rightarrow> Some (0, r)
      | c # f \<Rightarrow> if c = CHR ''.''
          then map_option (\<lambda>ms. (ms, dropWhile is_digit f))
                 (if takeWhile is_digit f = [] then None
                  else parse_nat (take 3 (takeWhile is_digit f @ ''00'')))
          else Some (0, r))"

definition date_parse :: "string \<Rightarrow> int option" where
  "date_parse s =
     (if 20 \<le> length s \<and> s ! 4 = CHR ''-'' \<and> s ! 7 = CHR ''-'' \<and> s ! 10 = CHR ''T''
         \<and> s ! 13 = CHR '':'' \<and> s ! 16 = CHR '':''
      then (case (parse_nat (slice 0 4 s), parse_nat (slice 5 7 s), parse_nat (slice 8 10 s),
                  parse_nat (slice 11 13 s), parse_nat (slice 14 16 s), parse_nat (slice 17 19 s)) of
              (Some y, Some mo, Some d, Some h, Some mi, Some sec) \<Rightarrow>
                (case parse_fraction (drop 19 s) of
                   Some (ms, z) \<Rightarrow>
                     (case (time_of y mo d h mi sec ms, parse_zone z) of
                        (Some t, Some off) \<Rightarrow> Some (t - off)
                      | _ \<Rightarrow> None)
                 | None \<Rightarrow> None)
            | _ \<Rightarrow> None)
      else None)"

text \<open>The instants whose year has four digits: 0000-01-01 to 9999-12-31.\<close>

definition iso_range :: "int \<Rightarrow> bool" where
  "iso_range t \<longleftrightarrow> - epoch_day * ms_per_day \<le> t \<and> t < (int (year_start 10000) - epoch_day) * ms_per_day"

lemma year_start_mono: "x \<le> y \<Longrightarrow> year_start x \<le> year_start y"
proof (induction y)
  case (Suc y)
  then show ?case using year_start_Suc [of y] by (cases "x = Suc y") auto
qed simp

lemma date_fields:
  fixes r :: string
  assumes "length a = 4" "length b = 2" "length c = 2" "length d = 2" "length e = 2" "length f = 2"
  defines "s \<equiv> a @ ''-'' @ b @ ''-'' @ c @ ''T'' @ d @ '':'' @ e @ '':'' @ f @ r"
  shows "slice 0 4 s = a" "slice 5 7 s = b" "slice 8 10 s = c" "slice 11 13 s = d" "slice 14 16 s = e"
    "slice 17 19 s = f" "drop 19 s = r"
    "s ! 4 = CHR ''-''" "s ! 7 = CHR ''-''" "s ! 10 = CHR ''T''" "s ! 13 = CHR '':''" "s ! 16 = CHR '':''"
  using assms by (simp_all add: slice_def nth_append)

lemma fraction_padded: "n < 1000 \<Longrightarrow> parse_fraction (CHR ''.'' # padded 3 n @ ''Z'') = Some (n, ''Z'')"
proof -
  assume n: "n < 1000"
  have l: "length (padded 3 n) = 3" using n by (intro length_padded) auto
  have d: "\<forall>c\<in>set (padded 3 n). is_digit c" using padded_digits [of 3 n] by (simp add: list_all_iff)
  have z: "\<not> is_digit CHR ''Z''" by (simp add: is_digit_def less_eq_char_def)
  have t: "takeWhile is_digit (padded 3 n @ ''Z'') = padded 3 n" "dropWhile is_digit (padded 3 n @ ''Z'') = ''Z''"
    using d z by (simp_all add: takeWhile_append2 dropWhile_append2)
  have ne: "padded 3 n \<noteq> []" using l by auto
  show ?thesis using ne l by (simp add: parse_fraction_def t)
qed

lemma date_parse_fields:
  assumes "length a = 4" "length b = 2" "length c = 2" "length d = 2" "length e = 2" "length f = 2"
    and "parse_nat a = Some y" "parse_nat b = Some mo" "parse_nat c = Some dd"
      "parse_nat d = Some h" "parse_nat e = Some mi" "parse_nat f = Some sec"
    and "r \<noteq> []" and "parse_fraction r = Some (ms, ''Z'')"
  shows "date_parse (a @ ''-'' @ b @ ''-'' @ c @ ''T'' @ d @ '':'' @ e @ '':'' @ f @ r) = time_of y mo dd h mi sec ms"
proof -
  define s where "s = a @ ''-'' @ b @ ''-'' @ c @ ''T'' @ d @ '':'' @ e @ '':'' @ f @ r"
  note fields = date_fields [OF assms(1-6), of r, folded s_def]
  have "20 \<le> length s" using assms(1-6,13) by (cases r) (simp_all add: s_def)
  then have "date_parse s = time_of y mo dd h mi sec ms"
    by (simp add: date_parse_def fields assms(7-14) parse_zone_def split: option.split)
  then show ?thesis by (simp only: s_def)
qed

lemma ms_split:
  fixes r :: nat
  shows "r div 3600000 * 3600000 + r div 60000 mod 60 * 60000 + r div 1000 mod 60 * 1000 + r mod 1000 = r"
proof -
  define a where "a = r div 1000"
  define b where "b = a div 60"
  have e: "r div 60000 = b" "r div 3600000 = b div 60"
    by (simp_all add: a_def b_def div_mult2_eq [symmetric])
  have "r = a * 1000 + r mod 1000" "a = b * 60 + a mod 60" "b = b div 60 * 60 + b mod 60"
    by (simp_all add: a_def b_def)
  then show ?thesis unfolding e a_def [symmetric] by linarith
qed

lemma ms_split_int:
  "int (r div 3600000) * 3600000 + int (r div 60000 mod 60) * 60000 + int (r div 1000 mod 60) * 1000 + int (r mod 1000) = int r"
proof -
  have "int (r div 3600000 * 3600000 + r div 60000 mod 60 * 60000 + r div 1000 mod 60 * 1000 + r mod 1000) = int r"
    by (simp only: ms_split)
  then show ?thesis by (simp only: of_nat_add of_nat_mult of_nat_numeral)
qed

lemma iso_year_bound:
  assumes "iso_range t" and "year_and_day (nat (t div ms_per_day + epoch_day)) = (y, n)"
  shows "y < 10000"
proof (rule ccontr)
  assume "\<not> y < 10000"
  then have "year_start 10000 \<le> year_start y" by (intro year_start_mono) simp
  moreover from year_and_day_spec [OF assms(2)] have "year_start y \<le> nat (t div ms_per_day + epoch_day)"
    by simp
  moreover have "nat (t div ms_per_day + epoch_day) < year_start 10000"
    using assms(1) by (simp add: iso_range_def ms_per_day_def epoch_day_def year_start_def) linarith
  ultimately show False by simp
qed

lemma date_parse_iso: "iso_range t \<Longrightarrow> date_parse (iso_string t) = Some t"
proof -
  assume range: "iso_range t"
  define days where "days = nat (t div ms_per_day + epoch_day)"
  define r where "r = nat (t mod ms_per_day)"
  obtain y n where yn: "year_and_day days = (y, n)" by (cases "year_and_day days")
  obtain m d where md: "split_month (month_lens y) n = (m, d)" by (cases "split_month (month_lens y) n")
  have y: "y < 10000" using iso_year_bound [OF range] yn by (simp add: days_def)
  from year_and_day_spec [OF yn] have ys: "year_start y + n = days" "n < sum_list (month_lens y)"
    by (simp_all add: sum_month_lens)
  from split_month_spec [OF md ys(2)] have m: "m < 12" "d < month_lens y ! m" "sum_list (take m (month_lens y)) + d = n"
    by auto
  have "month_lens y ! m \<le> 31" using m(1) by (auto simp: month_lens_def less_Suc_eq numeral_eq_Suc)
  with m(2) have d: "d < 31" by simp
  have nonneg: "0 \<le> t div ms_per_day + epoch_day"
    using range by (simp add: iso_range_def ms_per_day_def epoch_day_def) linarith
  have r: "r < 86400000" by (simp add: r_def ms_per_day_def nat_less_iff)
  have iso: "iso_string t = padded 4 y @ ''-'' @ padded 2 (Suc m) @ ''-'' @ padded 2 (Suc d) @ ''T''
      @ padded 2 (r div 3600000) @ '':'' @ padded 2 (r div 60000 mod 60) @ '':''
      @ padded 2 (r div 1000 mod 60) @ (CHR ''.'' # padded 3 (r mod 1000) @ ''Z'')"
    by (simp add: iso_string_def days_def [symmetric] r_def [symmetric] yn md)
  have "date_parse (iso_string t) =
      time_of y (Suc m) (Suc d) (r div 3600000) (r div 60000 mod 60) (r div 1000 mod 60) (r mod 1000)"
    unfolding iso
  proof (rule date_parse_fields)
    show "length (padded 2 (r div 3600000)) = 2" using r by (intro length_padded) (simp_all add: div_less_iff_less_mult)
    show "length (padded 2 (r div 60000 mod 60)) = 2" "length (padded 2 (r div 1000 mod 60)) = 2"
      using pos_mod_bound by (auto intro!: length_padded order.strict_trans2 [OF mod_less_divisor])
    show "length (padded 4 y) = 4" "length (padded 2 (Suc m)) = 2" "length (padded 2 (Suc d)) = 2"
      using y m d by (auto intro!: length_padded)
    show "parse_fraction (CHR ''.'' # padded 3 (r mod 1000) @ ''Z'') = Some (r mod 1000, ''Z'')"
      by (rule fraction_padded) simp
  qed simp_all
  also have "\<dots> = Some ((int days - epoch_day) * ms_per_day + int r)"
  proof -
    have "r div 3600000 < 24" using r by (simp add: div_less_iff_less_mult)
    moreover have "int (year_start y) + int (sum_list (take m (month_lens y))) + int d = int days"
      using m ys by linarith
    ultimately show ?thesis using m(1,2) by (simp add: time_of_def ms_split_int)
  qed
  also have "\<dots> = Some t"
    using nonneg by (simp add: days_def r_def iso_range_def ms_per_day_def epoch_day_def)
  finally show ?thesis .
qed

end
