(* ===== verification/EU_Number.thy ===== *)
theory EU_Number imports EU_Url EU_Json
begin

text \<open>
  Conversions of the JavaScript library: \<open>Number(text)\<close>, \<open>String(value)\<close>, \<open>slice\<close> with any
  integer bounds, percentiles of a sorted array as the demo server computes them, and
  \<open>JSON.parse\<close>. \<open>Number\<close> is \<open>None\<close> where JavaScript has \<open>NaN\<close> or an infinity.
\<close>

section \<open>Number and String\<close>

text \<open>\<open>Number(text)\<close>, \<open>None\<close> for \<open>NaN\<close> and the infinities.\<close>

definition js_space :: "char \<Rightarrow> bool" where
  "js_space c \<longleftrightarrow> c \<in> set [CHR 0x09, CHR 0x0A, CHR 0x0B, CHR 0x0C, CHR 0x0D, CHR '' '']"

definition js_trim :: "string \<Rightarrow> string" where
  "js_trim s = rev (dropWhile js_space (rev (dropWhile js_space s)))"

definition digits_value :: "string \<Rightarrow> nat" where
  "digits_value s = foldl (\<lambda>n c. 10 * n + digit_val c) 0 s"

definition js_exponent :: "string \<Rightarrow> int option" where
  "js_exponent s =
     (case s of [] \<Rightarrow> Some 0
      | c # r \<Rightarrow>
          if c = CHR ''e'' \<or> c = CHR ''E''
          then (case r of
              [] \<Rightarrow> None
            | d # q \<Rightarrow>
                if d = CHR ''-'' then map_option (\<lambda>n. - int n) (parse_nat q)
                else if d = CHR ''+'' then map_option int (parse_nat q)
                else map_option int (parse_nat r))
          else None)"

definition js_decimal :: "string \<Rightarrow> rat option" where
  "js_decimal s =
     (let i = takeWhile is_digit s; r = dropWhile is_digit s;
          f = (case r of c # q \<Rightarrow> if c = CHR ''.'' then takeWhile is_digit q else [] | [] \<Rightarrow> []);
          e = (case r of c # q \<Rightarrow> if c = CHR ''.'' then dropWhile is_digit q else r | [] \<Rightarrow> [])
      in if i = [] \<and> f = [] then None
         else map_option (\<lambda>x. of_nat (digits_value (i @ f)) * 10 powi (x - int (length f))) (js_exponent e))"

definition js_radix :: "nat \<Rightarrow> string \<Rightarrow> rat option" where
  "js_radix b s =
     (if s \<noteq> [] \<and> list_all (\<lambda>c. case hex_val c of Some d \<Rightarrow> d < b | None \<Rightarrow> False) s
      then Some (of_nat (foldl (\<lambda>n c. b * n + the (hex_val c)) 0 s)) else None)"

definition js_number :: "string \<Rightarrow> rat option" where
  "js_number text =
     (let s = js_trim text; p = to_lower (take 2 s) in
      if s = [] then Some 0
      else if p = ''0x'' then js_radix 16 (drop 2 s)
      else if p = ''0o'' then js_radix 8 (drop 2 s)
      else if p = ''0b'' then js_radix 2 (drop 2 s)
      else if hd s = CHR ''-'' then map_option uminus (js_decimal (tl s))
      else if hd s = CHR ''+'' then js_decimal (tl s)
      else js_decimal s)"

lemma digits_value_show [simp]: "digits_value (show_nat n) = n"
  by (simp add: digits_value_def show_nat_value)

lemma digit_not_space: "is_digit c \<Longrightarrow> \<not> js_space c"
  by (auto simp: is_digit_def js_space_def less_eq_char_def)

lemma dropWhile_digits: "list_all is_digit s \<Longrightarrow> dropWhile js_space s = s"
  by (cases s) (auto dest: digit_not_space)

lemma js_trim_digits: "list_all is_digit s \<Longrightarrow> js_trim s = s"
  by (simp add: js_trim_def dropWhile_digits)

lemma js_decimal_digits: "list_all is_digit s \<Longrightarrow> s \<noteq> [] \<Longrightarrow> js_decimal s = Some (of_nat (digits_value s))"
  by (simp add: js_decimal_def js_exponent_def list_all_iff takeWhile_eq_all_conv [THEN iffD2]
      dropWhile_eq_Nil_conv [THEN iffD2] Let_def)

lemma digit_values: "is_digit c \<longleftrightarrow> c \<in> set ''0123456789''"
  unfolding is_digit_def by (cases c) (auto simp: less_eq_char_def)

lemma to_lower_digits: "list_all is_digit s \<Longrightarrow> to_lower s = s"
  by (induction s) (auto simp: to_lower_def lower_char_def digit_values)

lemma js_number_digits:
  assumes "list_all is_digit s" "s \<noteq> []"
  shows "js_number s = Some (of_nat (digits_value s))"
proof -
  have t: "to_lower (take 2 s) = take 2 s"
    using assms(1) by (intro to_lower_digits) (auto simp: list_all_iff dest: in_set_takeD)
  have "\<And>c. c \<in> set (take 2 s) \<Longrightarrow> is_digit c" using assms(1) by (auto simp: list_all_iff dest: in_set_takeD)
  then have d: "take 2 s = [a, b] \<Longrightarrow> is_digit b" for a b by simp
  have "take 2 s \<noteq> ''0x'' \<and> take 2 s \<noteq> ''0o'' \<and> take 2 s \<noteq> ''0b''"
    by (intro conjI notI; drule d; simp add: digit_values)
  moreover have "hd s \<noteq> CHR ''-'' \<and> hd s \<noteq> CHR ''+''"
    using assms by (cases s) (auto simp: digit_values)
  ultimately show ?thesis
    using assms by (simp add: js_number_def js_trim_digits t js_decimal_digits Let_def)
qed

text \<open>\<open>Number(query.get(k) ?? d)\<close> and \<open>Number(query.get(k))\<close>, where \<open>Number(null)\<close> is 0.\<close>

definition number_or :: "rat \<Rightarrow> string option \<Rightarrow> rat option" where
  "number_or d v = (case v of None \<Rightarrow> Some d | Some s \<Rightarrow> js_number s)"

lemma js_number_show_int: "0 \<le> n \<Longrightarrow> js_number (show_int n) = Some (of_int n)"
  using js_number_digits [of "show_nat (nat n)"] by (simp add: show_int_def show_nat_digits)

lemma number_or_Some [simp]: "number_or d (Some s) = js_number s" "number_or d None = Some d"
  by (simp_all add: number_or_def)

text \<open>\<open>ToIntegerOrInfinity\<close>, the conversion \<open>slice\<close> applies: \<open>NaN\<close> is 0, a fraction is cut.\<close>

definition to_integer :: "rat option \<Rightarrow> int" where
  "to_integer v = (case v of None \<Rightarrow> 0 | Some x \<Rightarrow> if x < 0 then \<lceil>x\<rceil> else \<lfloor>x\<rfloor>)"

lemma to_integer_of_int [simp]: "to_integer (Some (of_int n)) = n"
  by (simp add: to_integer_def)

definition slice_bound :: "int \<Rightarrow> 'a list \<Rightarrow> nat" where
  "slice_bound i xs = (if i < 0 then nat (int (length xs) + i) else min (nat i) (length xs))"

definition js_slice :: "int \<Rightarrow> int \<Rightarrow> 'a list \<Rightarrow> 'a list" where
  "js_slice a b xs = slice (slice_bound a xs) (slice_bound b xs) xs"

lemma js_slice_nonneg: "0 \<le> a \<Longrightarrow> 0 \<le> n \<Longrightarrow> js_slice a (a + n) xs = take (nat n) (drop (nat a) xs)"
  by (cases "nat a \<le> length xs") (auto simp: js_slice_def slice_bound_def slice_def min_def nat_add_distrib)

lemma set_js_slice: "set (js_slice a b xs) \<subseteq> set xs"
  by (simp add: js_slice_def set_slice)

text \<open>\<open>String(v)\<close> of a parsed value.\<close>

fun js_string :: "json \<Rightarrow> string" where
  "js_string JNull = ''null''"
| "js_string (JBool b) = (if b then ''true'' else ''false'')"
| "js_string (JInt i) = show_int i"
| "js_string (JDec t) = t"
| "js_string (JStr s) = s"
| "js_string (JArr xs) = join_with '','' (map (\<lambda>x. if x = JNull then [] else js_string x) xs)"
| "js_string (JObj ps) = ''[object Object]''"

section \<open>Percentiles\<close>

text \<open>\<open>values[Math.max(0, Math.ceil(values.length * p) - 1)]\<close> of ascending values, as the demo server reads them.\<close>

definition percentile :: "rat list \<Rightarrow> rat \<Rightarrow> rat option" where
  "percentile vs p =
     (let i = nat (max 0 (\<lceil>of_nat (length vs) * p\<rceil> - 1)) in if i < length vs then Some (vs ! i) else None)"

lemma percentile_mono:
  assumes "sorted vs" "p \<le> q" and "percentile vs p = Some x" "percentile vs q = Some y"
  shows "x \<le> y"
proof -
  have "(of_nat (length vs) :: rat) * p \<le> of_nat (length vs) * q"
    using assms(2) by (intro mult_left_mono) auto
  then have "\<lceil>of_nat (length vs) * p\<rceil> \<le> \<lceil>of_nat (length vs) * q\<rceil>" by (rule ceiling_mono)
  then have "nat (max 0 (\<lceil>of_nat (length vs) * p\<rceil> - 1)) \<le> nat (max 0 (\<lceil>of_nat (length vs) * q\<rceil> - 1))"
    by (intro nat_mono) linarith
  with assms(1,3,4) show ?thesis
    by (auto simp: percentile_def Let_def split: if_splits intro: sorted_nth_mono)
qed

lemma percentile_some:
  assumes "vs \<noteq> []" "p \<le> 1"
  shows "\<exists>x. percentile vs p = Some x \<and> x \<in> set vs"
proof -
  have "(of_nat (length vs) :: rat) * p \<le> of_nat (length vs) * 1"
    using assms(2) by (intro mult_left_mono) auto
  then have "\<lceil>of_nat (length vs) * p\<rceil> \<le> int (length vs)" by (simp add: ceiling_le_iff)
  then have "nat (max 0 (\<lceil>of_nat (length vs) * p\<rceil> - 1)) < length vs" using assms(1) by (cases vs) auto
  then show ?thesis by (simp add: percentile_def Let_def)
qed

lemma percentile_Nil [simp]: "percentile [] p = None"
  by (simp add: percentile_def)

section \<open>JSON.parse\<close>

text \<open>
  A recursive-descent parser with the text's length as fuel: every value consumes at least
  one character. A number is kept as its text unless it is an integer, which is what
  \<open>Number.prototype.toString\<close> prints for the texts \<open>JSON.stringify\<close> writes.
\<close>

definition json_space :: "char \<Rightarrow> bool" where
  "json_space c \<longleftrightarrow> c \<in> set [CHR 0x20, CHR 0x0A, CHR 0x0D, CHR 0x09]"

definition skip_space :: "string \<Rightarrow> string" where
  "skip_space s = dropWhile json_space s"

definition utf8 :: "nat \<Rightarrow> string" where
  "utf8 n =
     (if n < 128 then [char_of n]
      else if n < 2048 then [char_of (192 + n div 64), char_of (128 + n mod 64)]
      else [char_of (224 + n div 4096), char_of (128 + n div 64 mod 64), char_of (128 + n mod 64)])"

definition unescape :: "char \<Rightarrow> string option" where
  "unescape c = map_of
     [(CHR 0x22, [CHR 0x22]), (CHR 0x5C, [CHR 0x5C]), (CHR ''/'', [CHR ''/'']), (CHR ''b'', [CHR 0x08]),
      (CHR ''f'', [CHR 0x0C]), (CHR ''n'', [CHR 0x0A]), (CHR ''r'', [CHR 0x0D]), (CHR ''t'', [CHR 0x09])] c"

text \<open>The rest of a string after its opening quote, and what follows its closing one.\<close>

fun parse_chars :: "string \<Rightarrow> (string \<times> string) option" where
  "parse_chars [] = None"
| "parse_chars (c # s) =
     (if c = CHR 0x22 then Some ([], s)
      else if (of_char c :: nat) < 32 then None
      else if c = CHR 0x5C then
        (case s of
           [] \<Rightarrow> None
         | e # r \<Rightarrow>
             if e = CHR ''u'' then
               (case r of
                  a # b # x # y # q \<Rightarrow>
                    (case (hex_val a, hex_val b, hex_val x, hex_val y) of
                       (Some i, Some j, Some k, Some l) \<Rightarrow>
                         map_option (\<lambda>(t, z). (utf8 (4096 * i + 256 * j + 16 * k + l) @ t, z)) (parse_chars q)
                     | _ \<Rightarrow> None)
                | _ \<Rightarrow> None)
             else (case unescape e of
                Some u \<Rightarrow> map_option (\<lambda>(t, z). (u @ t, z)) (parse_chars r)
              | None \<Rightarrow> None))
      else map_option (\<lambda>(t, z). (c # t, z)) (parse_chars s))"

definition number_char :: "char \<Rightarrow> bool" where
  "number_char c \<longleftrightarrow> is_digit c \<or> c \<in> set [CHR ''-'', CHR ''+'', CHR ''.'', CHR ''e'', CHR ''E'']"

definition parse_number :: "string \<Rightarrow> json option" where
  "parse_number t =
     (let neg = (t \<noteq> [] \<and> hd t = CHR ''-''); u = (if neg then tl t else t); i = takeWhile is_digit u in
      if i = [] \<or> (length i > 1 \<and> hd i = CHR ''0'') then None
      else if (case drop (length i) u of c # q \<Rightarrow> c = CHR ''.'' \<and> takeWhile is_digit q = [] | [] \<Rightarrow> False) then None
      else (case js_decimal u of
          Some x \<Rightarrow> if of_int \<lfloor>x\<rfloor> = x then Some (JInt (if neg then - \<lfloor>x\<rfloor> else \<lfloor>x\<rfloor>)) else Some (JDec t)
        | None \<Rightarrow> None))"

fun parse_value :: "nat \<Rightarrow> string \<Rightarrow> (json \<times> string) option"
  and parse_items :: "nat \<Rightarrow> string \<Rightarrow> (json list \<times> string) option"
  and parse_members :: "nat \<Rightarrow> string \<Rightarrow> ((string \<times> json) list \<times> string) option" where
  "parse_value 0 s = None"
| "parse_value (Suc n) s =
     (case skip_space s of
        [] \<Rightarrow> None
      | c # r \<Rightarrow>
          if c = CHR 0x22 then map_option (\<lambda>(t, z). (JStr t, z)) (parse_chars r)
          else if c = CHR ''['' then
            (case skip_space r of
               d # q \<Rightarrow> if d = CHR '']'' then Some (JArr [], q) else map_option (\<lambda>(xs, z). (JArr xs, z)) (parse_items n r)
             | [] \<Rightarrow> None)
          else if c = CHR ''{'' then
            (case skip_space r of
               d # q \<Rightarrow> if d = CHR ''}'' then Some (JObj [], q) else map_option (\<lambda>(ps, z). (JObj (map_from ps), z)) (parse_members n r)
             | [] \<Rightarrow> None)
          else if starts_with ''null'' (c # r) then Some (JNull, drop 4 (c # r))
          else if starts_with ''true'' (c # r) then Some (JBool True, drop 4 (c # r))
          else if starts_with ''false'' (c # r) then Some (JBool False, drop 5 (c # r))
          else map_option (\<lambda>v. (v, dropWhile number_char (c # r))) (parse_number (takeWhile number_char (c # r))))"
| "parse_items 0 s = None"
| "parse_items (Suc n) s =
     (case parse_value n s of
        None \<Rightarrow> None
      | Some (v, r) \<Rightarrow>
          (case skip_space r of
             [] \<Rightarrow> None
           | c # q \<Rightarrow> if c = CHR '']'' then Some ([v], q)
                       else if c = CHR '','' then map_option (\<lambda>(vs, z). (v # vs, z)) (parse_items n q)
                       else None))"
| "parse_members 0 s = None"
| "parse_members (Suc n) s =
     (case skip_space s of
        [] \<Rightarrow> None
      | c # r \<Rightarrow>
          if c \<noteq> CHR 0x22 then None
          else (case parse_chars r of
             None \<Rightarrow> None
           | Some (k, r1) \<Rightarrow>
               (case skip_space r1 of
                  [] \<Rightarrow> None
                | d # r2 \<Rightarrow>
                    if d \<noteq> CHR '':'' then None
                    else (case parse_value n r2 of
                       None \<Rightarrow> None
                     | Some (v, r3) \<Rightarrow>
                         (case skip_space r3 of
                            [] \<Rightarrow> None
                          | e # q \<Rightarrow> if e = CHR ''}'' then Some ([(k, v)], q)
                                      else if e = CHR '','' then map_option (\<lambda>(ps, z). ((k, v) # ps, z)) (parse_members n q)
                                      else None)))))"

text \<open>Later properties of the same name overwrite earlier ones (\<open>map_from\<close>).\<close>

definition json_parse :: "string \<Rightarrow> json option" where
  "json_parse s =
     (case parse_value (2 * length s + 2) s of
        Some (v, r) \<Rightarrow> if skip_space r = [] then Some v else None
      | None \<Rightarrow> None)"

end
