(* ===== verification/EU_Nav.thy ===== *)
theory EU_Nav imports EU_Client EU_Time EU_Number
begin

text \<open>
  Paths and queries of the pages: \<open>components/layout/navSections.ts\<close> (which menu section a
  path belongs to), \<open>hooks/useGroupTrail.ts\<close> (a target opened from a group),
  \<open>utils/listReturnTo.ts\<close>, \<open>features/alerts/alertTarget.ts\<close> and \<open>useAlertThresholds.ts\<close>,
  \<open>components/common/timeRange.ts\<close>, and the query state of the request, metric and list
  views. A hook's URL state is its \<open>URLSearchParams\<close>; \<open>now\<close> stands for \<open>Date.now()\<close>.
\<close>

section \<open>Menu sections\<close>

record nav_target =
  nt_to :: string
  nt_label :: string
  nt_icon :: string

datatype nav_group = Group_menu | Group_overview | Group_manage
datatype nav_mobile = Mobile_bottom | Mobile_more

record nav_section = nav_target +
  nv_group :: "nav_group option"
  nv_mobile :: nav_mobile
  nv_description :: "string option"
  nv_aliases :: "string list option"

definition nav :: "string \<Rightarrow> string \<Rightarrow> string \<Rightarrow> nav_group option \<Rightarrow> nav_mobile \<Rightarrow> string option \<Rightarrow> string list option \<Rightarrow> nav_section" where
  "nav to label icon grp mobile desc aliases =
     \<lparr>nt_to = to, nt_label = label, nt_icon = icon, nv_group = grp, nv_mobile = mobile,
      nv_description = desc, nv_aliases = aliases\<rparr>"

definition NAV_SECTIONS :: "nav_section list" where
  "NAV_SECTIONS =
     [nav ''/'' [CHR 0xEA, CHR 0xB0, CHR 0x9C, CHR 0xEC, CHR 0x9A, CHR 0x94] ''dashboard'' None Mobile_bottom None None,
      nav ''/uptime'' [CHR 0xEC, CHR 0x97, CHR 0x85, CHR 0xED, CHR 0x83, CHR 0x80, CHR 0xEC, CHR 0x9E, CHR 0x84] ''monitor_heart'' (Some Group_menu) Mobile_more (Some ([CHR 0xEC, CHR 0x84, CHR 0x9C, CHR 0xEB, CHR 0xB9, CHR 0x84, CHR 0xEC, CHR 0x8A, CHR 0xA4] @ '' '' @ [CHR 0xEC, CHR 0x9D, CHR 0x91, CHR 0xEB, CHR 0x8B, CHR 0xB5, CHR 0xEA, CHR 0xB3, CHR 0xBC] @ '' '' @ [CHR 0xEC, CHR 0x9E, CHR 0xA5, CHR 0xEC, CHR 0x95, CHR 0xA0] @ '' '' @ [CHR 0xEB, CHR 0x8C, CHR 0x80, CHR 0xEC, CHR 0x83, CHR 0x81, CHR 0xEC, CHR 0x9D, CHR 0x84] @ '' '' @ [CHR 0xED, CHR 0x99, CHR 0x95, CHR 0xEC, CHR 0x9D, CHR 0xB8, CHR 0xED, CHR 0x95, CHR 0xA9, CHR 0xEB, CHR 0x8B, CHR 0x88, CHR 0xEB, CHR 0x8B, CHR 0xA4] @ ''.'')) None,
      nav ''/logs'' [CHR 0xEB, CHR 0xA1, CHR 0x9C, CHR 0xEA, CHR 0xB7, CHR 0xB8] ''article'' (Some Group_menu) Mobile_more (Some ([CHR 0xEC, CHR 0x84, CHR 0x9C, CHR 0xEB, CHR 0xB9, CHR 0x84, CHR 0xEC, CHR 0x8A, CHR 0xA4, CHR 0xEB, CHR 0xB3, CHR 0x84] @ '' '' @ [CHR 0xEC, CHR 0x98, CHR 0xA4, CHR 0xEB, CHR 0xA5, CHR 0x98, CHR 0xC2, CHR 0xB7, CHR 0xEA, CHR 0xB2, CHR 0xBD, CHR 0xEA, CHR 0xB3, CHR 0xA0, CHR 0xEB, CHR 0xA5, CHR 0xBC] @ '' '' @ [CHR 0xEB, CHR 0xB3, CHR 0xB4, CHR 0xEA, CHR 0xB3, CHR 0xA0] @ '' '' @ [CHR 0xEB, CHR 0xA1, CHR 0x9C, CHR 0xEA, CHR 0xB7, CHR 0xB8, CHR 0xEB, CHR 0xA5, CHR 0xBC] @ '' '' @ [CHR 0xEA, CHR 0xB2, CHR 0x80, CHR 0xEC, CHR 0x83, CHR 0x89, CHR 0xED, CHR 0x95, CHR 0xA9, CHR 0xEB, CHR 0x8B, CHR 0x88, CHR 0xEB, CHR 0x8B, CHR 0xA4] @ ''.'')) None,
      nav ''/infrastructure'' [CHR 0xEC, CHR 0x9D, CHR 0xB8, CHR 0xED, CHR 0x94, CHR 0x84, CHR 0xEB, CHR 0x9D, CHR 0xBC] ''memory'' (Some Group_menu) Mobile_more (Some ([CHR 0xEC, CHR 0x84, CHR 0x9C, CHR 0xEB, CHR 0xB2, CHR 0x84, CHR 0xEC, CHR 0x9D, CHR 0x98] @ '' CPU, '' @ [CHR 0xEB, CHR 0xA9, CHR 0x94, CHR 0xEB, CHR 0xAA, CHR 0xA8, CHR 0xEB, CHR 0xA6, CHR 0xAC] @ '', '' @ [CHR 0xEB, CHR 0x94, CHR 0x94, CHR 0xEC, CHR 0x8A, CHR 0xA4, CHR 0xED, CHR 0x81, CHR 0xAC] @ '' '' @ [CHR 0xEC, CHR 0x83, CHR 0x81, CHR 0xED, CHR 0x83, CHR 0x9C, CHR 0xEB, CHR 0xA5, CHR 0xBC] @ '' '' @ [CHR 0xED, CHR 0x99, CHR 0x95, CHR 0xEC, CHR 0x9D, CHR 0xB8, CHR 0xED, CHR 0x95, CHR 0xA9, CHR 0xEB, CHR 0x8B, CHR 0x88, CHR 0xEB, CHR 0x8B, CHR 0xA4] @ ''.'')) None,
      nav ''/api'' (''API '' @ [CHR 0xEC, CHR 0x9A, CHR 0x94, CHR 0xEC, CHR 0xB2, CHR 0xAD]) ''api'' (Some Group_menu) Mobile_more (Some ([CHR 0xEC, CHR 0x9A, CHR 0x94, CHR 0xEC, CHR 0xB2, CHR 0xAD] @ '' '' @ [CHR 0xEC, CHR 0x83, CHR 0x81, CHR 0xED, CHR 0x83, CHR 0x9C, CHR 0xEC, CHR 0x99, CHR 0x80] @ '' '' @ [CHR 0xEC, CHR 0x98, CHR 0xA4, CHR 0xEB, CHR 0xA5, CHR 0x98, CHR 0xEB, CHR 0xA5, CHR 0xBC] @ '' '' @ [CHR 0xED, CHR 0x99, CHR 0x95, CHR 0xEC, CHR 0x9D, CHR 0xB8, CHR 0xED, CHR 0x95, CHR 0xA9, CHR 0xEB, CHR 0x8B, CHR 0x88, CHR 0xEB, CHR 0x8B, CHR 0xA4] @ ''.'')) None,
      nav ''/metrics'' [CHR 0xEB, CHR 0xA9, CHR 0x94, CHR 0xED, CHR 0x8A, CHR 0xB8, CHR 0xEB, CHR 0xA6, CHR 0xAD] ''monitoring'' (Some Group_menu) Mobile_more (Some (''OpenTelemetry '' @ [CHR 0xEB, CHR 0xA9, CHR 0x94, CHR 0xED, CHR 0x8A, CHR 0xB8, CHR 0xEB, CHR 0xA6, CHR 0xAD, CHR 0xEC, CHR 0x9D, CHR 0x84] @ '' '' @ [CHR 0xED, CHR 0x99, CHR 0x95, CHR 0xEC, CHR 0x9D, CHR 0xB8, CHR 0xED, CHR 0x95, CHR 0xA9, CHR 0xEB, CHR 0x8B, CHR 0x88, CHR 0xEB, CHR 0x8B, CHR 0xA4] @ ''.'')) None,
      nav ''/environments'' (''Docker '' @ [CHR 0xED, CHR 0x99, CHR 0x98, CHR 0xEA, CHR 0xB2, CHR 0xBD]) ''dns'' (Some Group_overview) Mobile_more
        (Some (''Collector '' @ [CHR 0xEC, CHR 0x97, CHR 0xB0, CHR 0xEA, CHR 0xB2, CHR 0xB0, CHR 0xEA, CHR 0xB3, CHR 0xBC] @ '' '' @ [CHR 0xEB, CHR 0xB0, CHR 0x9C, CHR 0xEA, CHR 0xB2, CHR 0xAC, CHR 0xEB, CHR 0x90, CHR 0x9C] @ '' '' @ [CHR 0xEC, CHR 0x84, CHR 0x9C, CHR 0xEB, CHR 0xB9, CHR 0x84, CHR 0xEC, CHR 0x8A, CHR 0xA4, CHR 0xEB, CHR 0xA5, CHR 0xBC] @ '' '' @ [CHR 0xEA, CHR 0xB4, CHR 0x80, CHR 0xEB, CHR 0xA6, CHR 0xAC, CHR 0xED, CHR 0x95, CHR 0xA9, CHR 0xEB, CHR 0x8B, CHR 0x88, CHR 0xEB, CHR 0x8B, CHR 0xA4] @ ''.'')) (Some [''/agents'', ''/services'']),
      nav ''/projects'' [CHR 0xEA, CHR 0xB7, CHR 0xB8, CHR 0xEB, CHR 0xA3, CHR 0xB9] ''folder_open'' (Some Group_overview) Mobile_bottom None None,
      nav ''/alerts'' [CHR 0xEC, CHR 0x95, CHR 0x8C, CHR 0xEB, CHR 0xA6, CHR 0xBC] ''notifications'' (Some Group_manage) Mobile_bottom None None,
      nav ''/settings'' ([CHR 0xED, CHR 0x99, CHR 0x98, CHR 0xEA, CHR 0xB2, CHR 0xBD] @ '' '' @ [CHR 0xEC, CHR 0x84, CHR 0xA4, CHR 0xEC, CHR 0xA0, CHR 0x95]) ''settings'' (Some Group_manage) Mobile_more (Some (''EveryUp '' @ [CHR 0xED, CHR 0x99, CHR 0x98, CHR 0xEA, CHR 0xB2, CHR 0xBD, CHR 0xEC, CHR 0x9D, CHR 0x84] @ '' '' @ [CHR 0xEC, CHR 0x84, CHR 0xA4, CHR 0xEC, CHR 0xA0, CHR 0x95, CHR 0xED, CHR 0x95, CHR 0xA9, CHR 0xEB, CHR 0x8B, CHR 0x88, CHR 0xEB, CHR 0x8B, CHR 0xA4] @ ''.'')) None]"

definition MORE_TARGET :: nav_target where
  "MORE_TARGET = \<lparr>nt_to = ''/more'', nt_label = [CHR 0xEB, CHR 0x8D, CHR 0x94, CHR 0xEB, CHR 0xB3, CHR 0xB4, CHR 0xEA, CHR 0xB8, CHR 0xB0], nt_icon = ''apps''\<rparr>"

definition PREFIXES :: "(string \<times> nav_target) list" where
  "PREFIXES =
     concat (map (\<lambda>s. map (\<lambda>p. (p, nav_target.truncate s))
                        (nt_to s # (case nv_aliases s of Some a \<Rightarrow> a | None \<Rightarrow> []))) NAV_SECTIONS)
     @ [(nt_to MORE_TARGET, MORE_TARGET)]"

definition path_within :: "string \<Rightarrow> string \<Rightarrow> bool" where
  "path_within pathname path \<longleftrightarrow> pathname = path \<or> starts_with (path @ ''/'') pathname"

definition section_matches :: "string \<Rightarrow> (string \<times> nav_target) list" where
  "section_matches pathname = filter (\<lambda>(p, t). p \<noteq> ''/'' \<and> path_within pathname p) PREFIXES"

definition sectionFor :: "string \<Rightarrow> nav_target option" where
  "sectionFor pathname =
     (if pathname = ''/'' then Some (nav_target.truncate (NAV_SECTIONS ! 0))
      else case sort_by (by_key_desc (\<lambda>p. length (fst p))) (section_matches pathname) of
          [] \<Rightarrow> None
        | p # _ \<Rightarrow> Some (snd p))"

lemma path_within_prefix: "path_within pathname path \<Longrightarrow> prefix path pathname"
  by (auto simp: path_within_def starts_with_prefix dest: append_prefixD)

lemma sectionFor_None: "sectionFor pathname = None \<longleftrightarrow> pathname \<noteq> ''/'' \<and> section_matches pathname = []"
  by (auto simp: sectionFor_def split: list.split dest: arg_cong [where f = set])

text \<open>The winning prefix is a longest one.\<close>

lemma sectionFor_longest:
  assumes "pathname \<noteq> ''/''" and "sectionFor pathname = Some t"
  shows "\<exists>p. (p, t) \<in> set (section_matches pathname) \<and> (\<forall>(q, u) \<in> set (section_matches pathname). length q \<le> length p)"
proof -
  let ?s = "sort_by (by_key_desc (\<lambda>p :: string \<times> nav_target. length (fst p))) (section_matches pathname)"
  obtain p ps where s: "?s = p # ps" and t: "t = snd p"
    using assms by (auto simp: sectionFor_def split: list.splits)
  have "p \<in> set (section_matches pathname)" using s by (metis list.set_intros(1) set_sort_by)
  moreover have "length (fst q) \<le> length (fst p)" if "q \<in> set (section_matches pathname)" for q
    using desc.hd_sort_least [OF that, of "\<lambda>p. length (fst p)"] s by (simp add: by_key_desc_def)
  ultimately show ?thesis using t by (intro exI [of _ "fst p"]) auto
qed

lemma prefixes_distinct: "distinct (map fst PREFIXES)"
  by (simp add: PREFIXES_def NAV_SECTIONS_def nav_def MORE_TARGET_def)

section \<open>A target opened from a group\<close>

record group_trail =
  gt_id :: string
  gt_name :: string
  gt_path :: string

text \<open>
  \<open>sessionStorage\<close> under the trail's key: blocked, or the trail it holds. \<open>trail_visit\<close> is a
  render of \<open>useGroupTrail\<close> at a path with the effect that follows it: the active trail, and
  the storage after a stale trail is removed.
\<close>

datatype trail_store = Blocked | Stored "group_trail option"

fun read_trail :: "trail_store \<Rightarrow> group_trail option" where
  "read_trail Blocked = None"
| "read_trail (Stored t) = t"

fun openFromGroup :: "group_trail \<Rightarrow> trail_store \<Rightarrow> trail_store" where
  "openFromGroup t Blocked = Blocked"
| "openFromGroup t (Stored u) = Stored (Some t)"

fun remove_trail :: "trail_store \<Rightarrow> trail_store" where
  "remove_trail Blocked = Blocked"
| "remove_trail (Stored t) = Stored None"

definition trail_visit :: "string \<Rightarrow> trail_store \<Rightarrow> group_trail option \<times> trail_store" where
  "trail_visit pathname store =
     (let trail = read_trail store;
          active = (case trail of Some t \<Rightarrow> if path_within pathname (gt_path t) then Some t else None | None \<Rightarrow> None);
          stale = (case trail of Some t \<Rightarrow> active = None \<and> pathname \<noteq> ''/projects/'' @ gt_id t | None \<Rightarrow> False)
      in (active, if stale then remove_trail store else store))"

definition GROUP_SECTION :: "nav_target option" where
  "GROUP_SECTION = map_option nav_target.truncate (find (\<lambda>s. nt_to s = ''/projects'') NAV_SECTIONS)"

definition useCurrentSection :: "string \<Rightarrow> trail_store \<Rightarrow> nav_target option" where
  "useCurrentSection pathname store =
     (if fst (trail_visit pathname store) \<noteq> None then GROUP_SECTION else sectionFor pathname)"

definition visits :: "string list \<Rightarrow> trail_store \<Rightarrow> trail_store" where
  "visits ps store = foldl (\<lambda>s p. snd (trail_visit p s)) store ps"

text \<open>A path keeps the trail when it is inside the target or is the group's own page.\<close>

definition keeps_trail :: "group_trail \<Rightarrow> string \<Rightarrow> bool" where
  "keeps_trail t p \<longleftrightarrow> path_within p (gt_path t) \<or> p = ''/projects/'' @ gt_id t"

lemma visit_cases:
  "read_trail (snd (trail_visit p store)) =
     (case read_trail store of Some t \<Rightarrow> if keeps_trail t p then Some t else None | None \<Rightarrow> None)"
  by (cases store) (auto simp: trail_visit_def keeps_trail_def Let_def split: option.split)

lemma visits_trail:
  "read_trail (visits ps store) =
     (case read_trail store of Some t \<Rightarrow> if list_all (keeps_trail t) ps then Some t else None | None \<Rightarrow> None)"
proof (induction ps arbitrary: store)
  case (Cons p ps)
  have "visits (p # ps) store = visits ps (snd (trail_visit p store))" by (simp add: visits_def)
  with Cons [of "snd (trail_visit p store)"] show ?case
    by (auto simp: visit_cases split: option.split)
qed (auto simp: visits_def split: option.split)

lemma visit_active:
  "fst (trail_visit p store) = Some t \<longleftrightarrow> read_trail store = Some t \<and> path_within p (gt_path t)"
  by (auto simp: trail_visit_def Let_def split: option.split)

section \<open>Return links\<close>

text \<open>\<open>state\<close> is the router's location state, any value.\<close>

definition listReturnTo :: "json \<Rightarrow> string \<Rightarrow> string" where
  "listReturnTo state fallback =
     (case jget state ''returnTo'' of
        Some (JStr c) \<Rightarrow> if c = fallback \<or> starts_with (fallback @ ''?'') c then c else fallback
      | _ \<Rightarrow> fallback)"

lemma listReturnTo_same_page:
  "listReturnTo state fallback = fallback \<or> (\<exists>q. listReturnTo state fallback = fallback @ ''?'' @ q)"
  by (auto simp: listReturnTo_def starts_with_prefix prefix_def split: option.split json.split)

section \<open>Alert targets\<close>

datatype alert_target =
    AT_direct string
  | AT_agent string string
  | AT_infrastructure string

definition param :: "search_params \<Rightarrow> string \<Rightarrow> string" where
  "param ps k = (case sp_get ps k of Some v \<Rightarrow> v | None \<Rightarrow> [])"

definition parseAlertTarget :: "search_params \<Rightarrow> alert_target option" where
  "parseAlertTarget ps =
     (if sp_get ps ''target'' = Some ''direct'' \<and> truthy (sp_get ps ''serviceId'')
      then Some (AT_direct (param ps ''serviceId''))
      else if sp_get ps ''target'' = Some ''agent'' \<and> truthy (sp_get ps ''agentId'') \<and> truthy (sp_get ps ''serviceKey'')
      then Some (AT_agent (param ps ''agentId'') (param ps ''serviceKey''))
      else if sp_get ps ''target'' = Some ''infrastructure'' \<and> truthy (sp_get ps ''resourceId'')
      then Some (AT_infrastructure (param ps ''resourceId''))
      else None)"

fun alert_target_kind :: "alert_target \<Rightarrow> string" where
  "alert_target_kind (AT_direct s) = ''direct''"
| "alert_target_kind (AT_agent a k) = ''agent''"
| "alert_target_kind (AT_infrastructure r) = ''infrastructure''"

definition alertRulesPath :: "alert_target \<Rightarrow> string" where
  "alertRulesPath t =
     (let ps = [(''tab'', ''rules''), (''target'', alert_target_kind t)];
          ps = (case t of
              AT_direct s \<Rightarrow> sp_set ''serviceId'' s ps
            | AT_infrastructure r \<Rightarrow> sp_set ''resourceId'' r ps
            | AT_agent a k \<Rightarrow> sp_set ''serviceKey'' k (sp_set ''agentId'' a ps))
      in ''/alerts?'' @ sp_to_string ps)"

definition same_value :: "string option option \<Rightarrow> string \<Rightarrow> bool" where
  "same_value v s \<longleftrightarrow> v = Some (Some s)"

definition falsy_value :: "string option option \<Rightarrow> bool" where
  "falsy_value v \<longleftrightarrow> (case v of Some w \<Rightarrow> \<not> truthy w | None \<Rightarrow> True)"

fun matchesAlertTarget :: "alert_rule \<Rightarrow> alert_target \<Rightarrow> bool" where
  "matchesAlertTarget r (AT_direct s) \<longleftrightarrow> same_value (ar_serviceId r) s"
| "matchesAlertTarget r (AT_infrastructure i) \<longleftrightarrow> same_value (ar_agentId r) i \<and> falsy_value (ar_serviceKey r)"
| "matchesAlertTarget r (AT_agent a k) \<longleftrightarrow> same_value (ar_agentId r) a \<and> same_value (ar_serviceKey r) k"

text \<open>The rules \<open>useAlertThresholds\<close> draws, from the rules it loaded.\<close>

definition useAlertThresholds :: "alert_rule list \<Rightarrow> alert_target \<Rightarrow> alert_metric list \<Rightarrow> string option \<Rightarrow> alert_rule list" where
  "useAlertThresholds rules target metrics metricName =
     filter (\<lambda>r. ar_isEnabled r \<and> ar_metric r \<in> set metrics
                 \<and> (metricName = None \<or> ar_metricName r = metricName)
                 \<and> matchesAlertTarget r target) rules"

fun alert_target_ok :: "alert_target \<Rightarrow> bool" where
  "alert_target_ok (AT_direct s) \<longleftrightarrow> s \<noteq> []"
| "alert_target_ok (AT_agent a k) \<longleftrightarrow> a \<noteq> [] \<and> k \<noteq> []"
| "alert_target_ok (AT_infrastructure r) \<longleftrightarrow> r \<noteq> []"

lemma alertRulesPath_query:
  "\<exists>ps. alertRulesPath t = with_query ''/alerts'' ps \<and> endpoint_query (alertRulesPath t) = ps
     \<and> (alert_target_ok t \<longrightarrow> parseAlertTarget ps = Some t)"
proof (cases t)
  case (AT_direct s)
  let ?ps = "sp_set ''serviceId'' s [(''tab'', ''rules''), (''target'', ''direct'')]"
  have "alertRulesPath t = with_query ''/alerts'' ?ps" by (simp add: alertRulesPath_def with_query_def AT_direct)
  moreover have "parseAlertTarget ?ps = Some t" if "alert_target_ok t"
    using that by (simp add: parseAlertTarget_def param_def AT_direct)
  ultimately show ?thesis using endpoint_query_with [of "''/alerts''" ?ps] by auto
next
  case (AT_agent a k)
  let ?ps = "sp_set ''serviceKey'' k (sp_set ''agentId'' a [(''tab'', ''rules''), (''target'', ''agent'')])"
  have "alertRulesPath t = with_query ''/alerts'' ?ps" by (simp add: alertRulesPath_def with_query_def AT_agent)
  moreover have "parseAlertTarget ?ps = Some t" if "alert_target_ok t"
    using that by (simp add: parseAlertTarget_def param_def AT_agent)
  ultimately show ?thesis using endpoint_query_with [of "''/alerts''" ?ps] by auto
next
  case (AT_infrastructure r)
  let ?ps = "sp_set ''resourceId'' r [(''tab'', ''rules''), (''target'', ''infrastructure'')]"
  have "alertRulesPath t = with_query ''/alerts'' ?ps" by (simp add: alertRulesPath_def with_query_def AT_infrastructure)
  moreover have "parseAlertTarget ?ps = Some t" if "alert_target_ok t"
    using that by (simp add: parseAlertTarget_def param_def AT_infrastructure)
  ultimately show ?thesis using endpoint_query_with [of "''/alerts''" ?ps] by auto
qed

text \<open>No rule is drawn on the charts of two different targets of one kind.\<close>

lemma matches_one_target:
  "matchesAlertTarget r t \<Longrightarrow> matchesAlertTarget r u \<Longrightarrow> alert_target_kind t = alert_target_kind u \<Longrightarrow> t = u"
  by (cases t; cases u) (auto simp: same_value_def)

lemma matches_infra_not_agent:
  "matchesAlertTarget r (AT_infrastructure i) \<Longrightarrow> k \<noteq> [] \<Longrightarrow> \<not> matchesAlertTarget r (AT_agent a k)"
  by (auto simp: same_value_def falsy_value_def)

section \<open>Time windows and query state\<close>

datatype global_time_range = GR_1h | GR_6h | GR_24h

fun range_text :: "global_time_range \<Rightarrow> string" where
  "range_text GR_1h = ''1h''"
| "range_text GR_6h = ''6h''"
| "range_text GR_24h = ''24h''"

text \<open>\<open>Number.parseInt(range)\<close>.\<close>

fun range_hours :: "global_time_range \<Rightarrow> int" where
  "range_hours GR_1h = 1"
| "range_hours GR_6h = 6"
| "range_hours GR_24h = 24"

definition parseTimeRange :: "string option \<Rightarrow> global_time_range option" where
  "parseTimeRange v =
     (if v = Some ''1h'' then Some GR_1h else if v = Some ''6h'' then Some GR_6h
      else if v = Some ''24h'' then Some GR_24h else None)"

definition requestRange :: "string option \<Rightarrow> global_time_range" where
  "requestRange v = (if v = Some ''1h'' then GR_1h else if v = Some ''24h'' then GR_24h else GR_6h)"

record request_window =
  rw_from :: string
  rw_to :: string

definition createWindow :: "int \<Rightarrow> global_time_range \<Rightarrow> request_window" where
  "createWindow now r = \<lparr>rw_from = iso_string (now - range_hours r * 3600000), rw_to = iso_string now\<rparr>"

record metric_window =
  mw_range :: global_time_range
  mw_from :: string
  mw_to :: string

definition createMetricWindow :: "int \<Rightarrow> global_time_range \<Rightarrow> metric_window" where
  "createMetricWindow now r =
     \<lparr>mw_range = r, mw_from = iso_string (now - range_hours r * 3600000), mw_to = iso_string now\<rparr>"

lemma parseTimeRange_text [simp]: "parseTimeRange (Some (range_text r)) = Some r"
  by (cases r) (simp_all add: parseTimeRange_def)

lemma requestRange_text [simp]: "requestRange (Some (range_text r)) = r"
  by (cases r) (simp_all add: requestRange_def)

text \<open>\<open>for (const [key, value] of Object.entries(changes)) if (value) next.set(key, value); else next.delete(key);\<close>\<close>

definition update_params :: "(string \<times> string option) list \<Rightarrow> search_params \<Rightarrow> search_params" where
  "update_params changes current =
     foldl (\<lambda>next (k, v). if truthy v then sp_set k (the v) next else sp_delete k next) current changes"

lemma update_params_get:
  "distinct (map fst changes) \<Longrightarrow>
   sp_get (update_params changes ps) k =
     (case map_of changes k of Some v \<Rightarrow> if truthy v then v else None | None \<Rightarrow> sp_get ps k)"
proof (induction changes arbitrary: ps)
  case (Cons c changes)
  obtain j v where c: "c = (j, v)" by (cases c)
  have "map_of changes j = None" using Cons.prems c by (simp add: map_of_eq_None_iff)
  then show ?case
    using Cons.IH [of "if truthy v then sp_set j (the v) ps else sp_delete j ps"] Cons.prems c
    by (cases v) (auto simp: update_params_def split: option.split)
qed (simp add: update_params_def)

definition safe_page :: "string option \<Rightarrow> int" where
  "safe_page v =
     (case (case v of None \<Rightarrow> Some 0 | Some s \<Rightarrow> js_number s) of
        Some n \<Rightarrow> if of_int \<lfloor>n\<rfloor> = n \<and> \<bar>n\<bar> \<le> 2 ^ 53 - 1 \<and> n > 0 then \<lfloor>n\<rfloor> else 1
      | None \<Rightarrow> 1)"

datatype request_tab = Tab_requests | Tab_traces

record request_query =
  rq_range :: global_time_range
  rq_tab :: request_tab
  rq_search :: string
  rq_errorsOnly :: bool
  rq_page :: int
  rq_traceId :: "string option"
  rq_traceSort :: trace_sort
  rq_traceErrorsOnly :: bool

definition useRequestQuery :: "search_params \<Rightarrow> request_query" where
  "useRequestQuery ps =
     \<lparr>rq_range = requestRange (sp_get ps ''range''),
      rq_tab = (if sp_get ps ''tab'' = Some ''traces'' then Tab_traces else Tab_requests),
      rq_search = or_default (sp_get ps ''q'') [],
      rq_errorsOnly = (sp_get ps ''errorsOnly'' = Some ''true''),
      rq_page = safe_page (sp_get ps ''page''),
      rq_traceId = (if truthy (sp_get ps ''traceId'') then sp_get ps ''traceId'' else None),
      rq_traceSort = (if sp_get ps ''traceSort'' = Some ''slowest'' then Sort_slowest else Sort_recent),
      rq_traceErrorsOnly = (sp_get ps ''traceErrorsOnly'' = Some ''true'')\<rparr>"

lemma safe_page_pos: "1 \<le> safe_page v"
  by (auto simp: safe_page_def split: option.split)

datatype metric_mode_param = MM_rate | MM_raw

record metric_query_state =
  mqs_range :: global_time_range
  mqs_search :: string
  mqs_metric :: "string option"
  mqs_metricType :: "string option"
  mqs_metricUnit :: "string option"
  mqs_attributes :: string
  mqs_series :: string
  mqs_mode :: "metric_mode_param option"

definition useMetricQuery :: "search_params \<Rightarrow> metric_query_state" where
  "useMetricQuery ps =
     \<lparr>mqs_range = or_default (parseTimeRange (sp_get ps ''range'')) GR_6h,
      mqs_search = or_default (sp_get ps ''metricSearch'') [],
      mqs_metric = sp_get ps ''metric'',
      mqs_metricType = sp_get ps ''metricType'',
      mqs_metricUnit = sp_get ps ''metricUnit'',
      mqs_attributes = or_default (sp_get ps ''metricAttributes'') [],
      mqs_series = or_default (sp_get ps ''metricSeries'') [],
      mqs_mode = (if sp_get ps ''metricMode'' = Some ''rate'' then Some MM_rate
                  else if sp_get ps ''metricMode'' = Some ''raw'' then Some MM_raw else None)\<rparr>"

datatype list_view = View_card | View_grid

definition list_view_of :: "search_params \<Rightarrow> list_view" where
  "list_view_of ps = (if sp_get ps ''view'' = Some ''card'' then View_card else View_grid)"

definition set_list_view :: "list_view \<Rightarrow> search_params \<Rightarrow> search_params" where
  "set_list_view v current = (if v = View_card then sp_set ''view'' ''card'' current else sp_delete ''view'' current)"

lemma list_view_set [simp]: "list_view_of (set_list_view v ps) = v"
  by (cases v) (simp_all add: list_view_of_def set_list_view_def)

section \<open>Navigation as a whole\<close>

text \<open>The section highlighted for a path other than the root is one with the longest prefix
  that the path is within; no section is shown only when no prefix but the root's fits.\<close>

theorem section_longest_prefix:
  assumes "pathname \<noteq> ''/''"
  shows "(case sectionFor pathname of
      Some t \<Rightarrow> (\<exists>p. (p, t) \<in> set PREFIXES \<and> path_within pathname p \<and>
        list_all (\<lambda>(q, u). \<not> path_within pathname q \<or> q = ''/'' \<or> length q \<le> length p) PREFIXES)
    | None \<Rightarrow> list_all (\<lambda>(q, u). \<not> path_within pathname q \<or> q = ''/'') PREFIXES)"
proof (cases "sectionFor pathname")
  case None
  then show ?thesis
    using sectionFor_None [of pathname] assms by (auto simp: section_matches_def list_all_iff filter_empty_conv)
next
  case (Some t)
  then show ?thesis
    using sectionFor_longest [OF assms, of t] by (fastforce simp: section_matches_def list_all_iff)
qed

lemma section_longest_prefix_witness:
  "(case sectionFor ''/unknown'' of
      Some t \<Rightarrow> (\<exists>p. (p, t) \<in> set PREFIXES \<and> path_within ''/unknown'' p)
    | None \<Rightarrow> list_all (\<lambda>(q, u). \<not> path_within ''/unknown'' q \<or> q = ''/'') PREFIXES)"
  using section_longest_prefix [of "''/unknown''"] by (auto split: option.splits)

text \<open>C12: A target opened from a group keeps the group's trail through any sequence of pages as
  long as every page is inside the target or is the group's own page; one page elsewhere ends
  it for good.\<close>

theorem trail_lasts:
  "read_trail (visits ps (openFromGroup t (Stored u))) = (if list_all (keeps_trail t) ps then Some t else None)"
  by (simp add: visits_trail)

text \<open>A return link leads to the list page itself or to that page with a query, whatever the
  navigation state holds.\<close>

theorem return_stays_on_list:
  "listReturnTo state fallback = fallback \<or> (\<exists>q. listReturnTo state fallback = fallback @ ''?'' @ q)"
  by (rule listReturnTo_same_page)

text \<open>C13: The alerts page opened for a target reads back exactly that target from its address,
  whatever characters the ids contain.\<close>

theorem alert_target_roundtrip:
  assumes "alert_target_ok t"
  shows "parseAlertTarget (endpoint_query (alertRulesPath t)) = Some t"
  using alertRulesPath_query [of t] assms by auto

lemma alert_target_roundtrip_witness:
  "parseAlertTarget (endpoint_query (alertRulesPath (AT_agent ''agent_01'' ''web/api & co''))) = Some (AT_agent ''agent_01'' ''web/api & co'')"
  by (rule alert_target_roundtrip) simp

text \<open>Updating the address's parameters sets each changed parameter to its new value, removes
  those given no value, and leaves every other parameter.\<close>

theorem params_updated:
  assumes "distinct (map fst changes)"
  shows "sp_get (update_params changes ps) k =
     (case map_of changes k of Some v \<Rightarrow> if truthy v then v else None | None \<Rightarrow> sp_get ps k)"
  by (rule update_params_get [OF assms])

lemma params_updated_witness:
  "sp_get (update_params [(''page'', None), (''q'', Some ''api'')] [(''page'', ''3''), (''range'', ''1h'')]) ''page'' = None"
  by (subst params_updated) simp_all

end
