(* ===== verification/EU_Mock.thy ===== *)
theory EU_Mock imports EU_Client EU_Nav EU_Number EU_Time
begin

text \<open>
  The demo server's data and queries, \<open>services/mockRouter.ts\<close> lines 512-972 with
  \<open>mocks/metricQuery.ts\<close> and the two queries of \<open>mocks/serviceTelemetry.ts\<close>.

  \<open>fixtures\<close> holds the constants the module builds once (the generated telemetry, the
  incidents, \<open>nowAgent\<close>), \<open>db\<close> the arrays and maps its requests change. The fixtures are
  arguments of everything, so what is proved holds for any. \<open>fx_sin\<close> and \<open>fx_cos\<close> are
  \<open>Math.sin\<close> and \<open>Math.cos\<close>. Timestamps compare as strings where the code compares
  strings. Formatting an unreadable date throws \<open>RangeError\<close>, a malformed escape \<open>URIError\<close>.
\<close>

section \<open>State\<close>

record demo_telemetry =
  dt_logs :: "log_entry list"
  dt_requests :: "api_request list"
  dt_traces :: "trace_detail list"
  dt_metricNames :: "otel_metric_name list"
  dt_metricPoints :: "(string \<times> otel_metric_point list) list"

record monitor_data =
  md_metrics :: "uptime_monitor_metric list"
  md_summary :: uptime_monitor_summary
  md_history :: uptime_monitor_history
  md_incidents :: "timeline_incident list"
  md_failures :: "uptime_monitor_metric list"

record fixtures =
  fx_nowAgent :: int
  fx_telemetry :: "(string \<times> demo_telemetry) list"
  fx_monitorData :: "(string \<times> monitor_data) list"
  fx_alertRules :: "alert_rule list"
  fx_channels :: "notification_channel list"
  fx_incidents :: "agent_incident list"
  fx_events :: "agent_event list"
  fx_deploys :: "agent_event list"
  fx_agentUptime :: "service_uptime_day list"
  fx_overview :: "agent_overview list"
  fx_settings :: app_settings
  fx_history :: "notification_history list"
  fx_stats :: notification_stats
  fx_systemInfo :: system_info
  fx_systemPoints :: "system_metric_point list"
  fx_initialAgents :: "string list"
  fx_initialMonitors :: "string list"
  fx_initialObserved :: "string list"
  fx_initialInfrastructure :: "string list"
  fx_sin :: "rat \<Rightarrow> rat"
  fx_cos :: "rat \<Rightarrow> rat"

record db =
  db_agents :: "connected_agent list"
  db_services :: "agent_service_flat list"
  db_monitors :: "uptime_monitor list"
  db_observed :: "observed_service list"
  db_infrastructure :: "infrastructure_resource list"
  db_projects :: "project list"
  db_logFilters :: "(string \<times> string list) list"
  db_apiExclusions :: "(string \<times> string list) list"
  db_pendingProfiles :: "string list"
  db_runs :: "(string \<times> instrumentation_run) list"

datatype mock_scenario = Scen_attention | Scen_normal | Scen_empty | Scen_partial_failure

definition range_error :: thrown where
  "range_error = JsError ''RangeError'' ''Invalid time value''"

definition uri_error :: thrown where
  "uri_error = JsError ''URIError'' ''URI malformed''"

definition decode_key :: "string \<Rightarrow> thrown + string" where
  "decode_key s = (case decodeURIComponent s of Some k \<Rightarrow> Inr k | None \<Rightarrow> Inl uri_error)"

lemma decode_key_encode [simp]: "decode_key (encodeURIComponent k) = Inr k"
  by (simp add: decode_key_def)

text \<open>\<open>new Date(ms).toISOString()\<close> of a fractional instant cuts the fraction.\<close>

definition iso_of :: "rat \<Rightarrow> string" where
  "iso_of ms = iso_string (to_integer (Some ms))"

section \<open>Filters and pages\<close>

fun mask_digits_fuel :: "nat \<Rightarrow> string \<Rightarrow> string" where
  "mask_digits_fuel 0 s = []"
| "mask_digits_fuel (Suc n) s =
     (case s of
        [] \<Rightarrow> []
      | c # r \<Rightarrow> if is_digit c then CHR ''#'' # mask_digits_fuel n (dropWhile is_digit r)
                  else c # mask_digits_fuel n r)"

text \<open>\<open>message.replace(/\d+/g, '#')\<close>; each step consumes a character, so the length is enough fuel.\<close>

definition mask_digits :: "string \<Rightarrow> string" where
  "mask_digits s = mask_digits_fuel (length s) s"

definition mockFingerprint :: "log_level \<Rightarrow> string \<Rightarrow> string" where
  "mockFingerprint level message = log_level_text level @ '':'' @ mask_digits message"

definition log_attributes :: "log_entry \<Rightarrow> (string \<times> json) list option" where
  "log_attributes entry =
     (case log_metadata entry of
        None \<Rightarrow> None
      | Some md \<Rightarrow> (case map_of md ''attributes'' of Some (JObj ps) \<Rightarrow> Some ps | _ \<Rightarrow> None))"

definition matches_attribute :: "string option \<Rightarrow> string \<Rightarrow> log_entry \<Rightarrow> bool" where
  "matches_attribute attrKey attrValue entry =
     (if \<not> truthy attrKey then True
      else case log_attributes entry of
          None \<Rightarrow> False
        | Some ps \<Rightarrow> (case map_of ps (the attrKey) of None \<Rightarrow> False | Some v \<Rightarrow> js_string v = attrValue))"

definition when_set :: "string option \<Rightarrow> (string \<Rightarrow> bool) \<Rightarrow> bool" where
  "when_set v p \<longleftrightarrow> (if truthy v then p (the v) else True)"

definition filterMockLogs :: "log_entry list \<Rightarrow> string \<Rightarrow> log_entry list" where
  "filterMockLogs rows endpoint =
     (let query = endpoint_query endpoint in
      filter (\<lambda>entry.
        when_set (sp_get query ''level'') (\<lambda>l. log_level_text (log_level entry) = l)
        \<and> when_set (map_option to_lower (sp_get query ''search'')) (\<lambda>s. str_includes s (to_lower (log_message entry)))
        \<and> when_set (sp_get query ''traceId'') (\<lambda>t. log_traceId entry = Some t)
        \<and> when_set (sp_get query ''fingerprint'') (\<lambda>f. mockFingerprint (log_level entry) (log_message entry) = f)
        \<and> matches_attribute (sp_get query ''attrKey'') (or_default (sp_get query ''attrValue'') []) entry
        \<and> when_set (sp_get query ''from'') (\<lambda>f. f \<le> log_createdAt entry)) rows)"

definition pageMockRows :: "'a list \<Rightarrow> string \<Rightarrow> 'a rows" where
  "pageMockRows xs endpoint =
     (let query = endpoint_query endpoint;
          offset = number_or 0 (sp_get query ''offset'');
          limit = number_or 100 (sp_get query ''limit'')
      in \<lparr>rows_data = js_slice (to_integer offset)
                       (to_integer (case (offset, limit) of (Some o1, Some l1) \<Rightarrow> Some (o1 + l1) | _ \<Rightarrow> None)) xs,
          rows_total = int (length xs)\<rparr>)"

definition status_bound :: "rat option \<Rightarrow> (rat \<Rightarrow> bool) \<Rightarrow> bool" where
  "status_bound v p \<longleftrightarrow> (case v of Some n \<Rightarrow> if n \<noteq> 0 then p n else True | None \<Rightarrow> True)"

definition filterMockRequests :: "api_request list \<Rightarrow> string \<Rightarrow> api_request list" where
  "filterMockRequests rows endpoint =
     (let query = endpoint_query endpoint;
          errorsOnly = (sp_get query ''errorsOnly'' = Some ''true'');
          minStatus = number_or 0 (sp_get query ''minStatus'');
          maxStatus = number_or 0 (sp_get query ''maxStatus'')
      in filter (\<lambda>r.
        (\<not> errorsOnly \<or> req_isError r)
        \<and> when_set (sp_get query ''traceId'') (\<lambda>t. req_traceId r = Some t)
        \<and> when_set (map_option to_lower (sp_get query ''search'')) (\<lambda>s. str_includes s (to_lower (req_path r)))
        \<and> when_set (sp_get query ''from'') (\<lambda>f. f \<le> req_createdAt r)
        \<and> when_set (sp_get query ''to'') (\<lambda>t. req_createdAt r \<le> t)
        \<and> status_bound minStatus (\<lambda>n. n \<le> of_int (req_statusCode r))
        \<and> status_bound maxStatus (\<lambda>n. of_int (req_statusCode r) \<le> n)) rows)"

section \<open>Statistics\<close>

record bucket_start =
  bs_width :: rat
  bs_last :: rat
  bs_count :: int

definition nonzero_or :: "rat option \<Rightarrow> rat \<Rightarrow> rat" where
  "nonzero_or v d = (case v of Some x \<Rightarrow> if x \<noteq> 0 then x else d | None \<Rightarrow> d)"

definition mockBucketStart :: "fixtures \<Rightarrow> string \<Rightarrow> rat \<Rightarrow> bucket_start" where
  "mockBucketStart fx endpoint fallbackMins =
     (let query = endpoint_query endpoint;
          mins = nonzero_or (number_or 0 (sp_get query ''bucketMins'')) fallbackMins;
          width = mins * 60000;
          to = nonzero_or (map_option of_int (date_parse (or_default (sp_get query ''to'') []))) (of_int (fx_nowAgent fx))
      in \<lparr>bs_width = width, bs_last = of_int \<lfloor>to / width\<rfloor> * width, bs_count = math_round (6 * 60 / mins)\<rparr>)"

text \<open>\<open>grouped.get(k) ... push\<close>: the rows of each key, keys in the order they first appear.\<close>

definition group_by :: "('a \<Rightarrow> 'k) \<Rightarrow> 'a list \<Rightarrow> ('k \<times> 'a list) list" where
  "group_by key xs =
     foldl (\<lambda>m x. AList.update (key x) ((case map_of m (key x) of Some g \<Rightarrow> g | None \<Rightarrow> []) @ [x]) m) [] xs"

definition stat_bucket :: "rat \<Rightarrow> api_request list \<Rightarrow> api_request_stat_bucket" where
  "stat_bucket start batch =
     (let vs = sort_by (by_key (\<lambda>x. x)) (filter (\<lambda>v. v > 0) (map req_durationMs batch)) in
      \<lparr>sb_time = iso_of start, sb_count = int (length batch),
       sb_errorCount = int (length (filter req_isError batch)),
       sb_p50 = or_default (percentile vs (1 / 2)) 0, sb_p95 = or_default (percentile vs (95 / 100)) 0,
       sb_p99 = or_default (percentile vs (99 / 100)) 0, sb_timed = int (length vs)\<rparr>)"

definition row_start :: "rat \<Rightarrow> api_request \<Rightarrow> rat option" where
  "row_start width r = map_option (\<lambda>t. of_int \<lfloor>of_int t / width\<rfloor> * width) (date_parse (req_createdAt r))"

definition mockRequestStats :: "fixtures \<Rightarrow> api_request list \<Rightarrow> string \<Rightarrow> thrown + api_request_stats" where
  "mockRequestStats fx rows endpoint =
     (if length rows > 100000 then Inr \<lparr>rs_buckets = [], rs_truncated = True\<rparr>
      else let width = bs_width (mockBucketStart fx endpoint 5);
               grouped = group_by (row_start width) rows;
               entries = sort_by (by_key (\<lambda>e. the (fst e))) grouped
           in if list_ex (\<lambda>e. fst e = None) grouped then Inl range_error
              else Inr \<lparr>rs_buckets = map (\<lambda>(start, batch). stat_bucket (the start) batch) entries, rs_truncated = False\<rparr>)"

definition level_count :: "log_level \<Rightarrow> log_entry list \<Rightarrow> int" where
  "level_count l logs = int (length (filter (\<lambda>x. log_level x = l) logs))"

definition level_bucket :: "string \<Rightarrow> log_entry list \<Rightarrow> log_histogram_bucket" where
  "level_bucket time logs =
     \<lparr>hb_time = time, hb_error = level_count L_error logs, hb_warn = level_count L_warn logs,
      hb_info = level_count L_info logs, hb_debug = level_count L_debug logs, hb_trace = level_count L_trace logs\<rparr>"

definition logs_between :: "rat \<Rightarrow> rat \<Rightarrow> log_entry list \<Rightarrow> log_entry list" where
  "logs_between a b rows =
     filter (\<lambda>entry. case date_parse (log_createdAt entry) of Some t \<Rightarrow> a \<le> of_int t \<and> of_int t < b | None \<Rightarrow> False) rows"

definition mockLogHistogram :: "fixtures \<Rightarrow> log_entry list \<Rightarrow> string \<Rightarrow> log_histogram_bucket list" where
  "mockLogHistogram fx rows endpoint =
     (let b = mockBucketStart fx endpoint 10; width = bs_width b; lst = bs_last b in
      map (\<lambda>i. level_bucket (iso_of (lst - of_int i * width))
                 (logs_between (lst - of_int i * width) (lst - (of_int i - 1) * width) rows))
        (rev [0..bs_count b]))"

section \<open>Telemetry of an endpoint\<close>

definition endpointTelemetry :: "fixtures \<Rightarrow> string \<Rightarrow> thrown + demo_telemetry option" where
  "endpointTelemetry fx endpoint =
     (case path_match [Lit ''/observed-services/'', segq] endpoint of
        Some [i] \<Rightarrow> Inr (map_of (fx_telemetry fx) i)
      | _ \<Rightarrow>
          (case path_match [Lit ''/agents/'', seg, Lit ''/services/'', segq] endpoint of
             Some [a, k] \<Rightarrow> and_then (decode_key k) (\<lambda>key. Inr (map_of (fx_telemetry fx) (a @ ''/'' @ key)))
           | _ \<Rightarrow> Inr None))"

definition telemetry_logs :: "demo_telemetry option \<Rightarrow> log_entry list" where
  "telemetry_logs d = (case d of Some t \<Rightarrow> dt_logs t | None \<Rightarrow> [])"

definition endpointRequests :: "fixtures \<Rightarrow> db \<Rightarrow> string \<Rightarrow> thrown + api_request list" where
  "endpointRequests fx d endpoint =
     and_then (endpointTelemetry fx endpoint) (\<lambda>scoped.
       case scoped of
         Some t \<Rightarrow> Inr (filterMockRequests (dt_requests t) endpoint)
       | None \<Rightarrow>
           if str_includes ''/services/'' endpoint then Inr []
           else (let agent = (case path_match [Lit ''/agents/'', seg, Lit ''/''] endpoint of Some [a] \<Rightarrow> Some a | _ \<Rightarrow> None)
                 in Inr (filterMockRequests
                      (concat (map (\<lambda>s. case map_of (fx_telemetry fx) (or_default agent ''undefined'' @ ''/'' @ sv_key s) of
                                          Some t \<Rightarrow> dt_requests t | None \<Rightarrow> [])
                                 (filter (\<lambda>s. Some (sv_agentId s) = agent) (db_services d)))) endpoint)))"

definition in_class :: "int \<Rightarrow> int \<Rightarrow> api_request list \<Rightarrow> int" where
  "in_class lo hi rows = int (length (filter (\<lambda>r. lo \<le> req_statusCode r \<and> req_statusCode r < hi) rows))"

definition status_summary :: "api_request list \<Rightarrow> api_request_status_summary" where
  "status_summary rows =
     (let errors = filter (\<lambda>r. 500 \<le> req_statusCode r) rows;
          paths = group_by (\<lambda>r. req_method r @ '' '' @ req_pathTemplate r) errors;
          top = (case sort_by (by_key_desc length) (map snd paths) of g # _ \<Rightarrow> Some g | [] \<Rightarrow> None)
      in \<lparr>ss_count2xx = in_class 200 300 rows, ss_count3xx = in_class 300 400 rows, ss_count4xx = in_class 400 500 rows,
          ss_count5xx = int (length errors),
          ss_countOther = int (length (filter (\<lambda>r. req_statusCode r < 200) rows)),
          ss_top5xxMethod = map_option (\<lambda>g. req_method (hd g)) top,
          ss_top5xxPath = map_option (\<lambda>g. req_pathTemplate (hd g)) top,
          ss_top5xxCount = map_option (\<lambda>g. int (length g)) top\<rparr>)"

definition mockRequestStatusSummary :: "fixtures \<Rightarrow> db \<Rightarrow> string \<Rightarrow> thrown + api_request_status_summary" where
  "mockRequestStatusSummary fx d endpoint = and_then (endpointRequests fx d endpoint) (\<lambda>rows. Inr (status_summary rows))"

end
