(* ===== verification/EU_MockScenario.thy ===== *)
theory EU_MockScenario imports EU_Mock
begin

text \<open>
  The rest of the demo server's derived data (\<open>services/mockRouter.ts\<close> lines 586-1093): the
  log page's summaries and patterns, response-time buckets, host data, trace and metric
  queries, the checks behind a service's history, and what each demo scenario shows of the
  state. \<open>now\<close> is \<open>Date.now()\<close>, the same throughout a request.
\<close>

section \<open>Log summaries and patterns\<close>

text \<open>A scope of the logs page: a Docker service (agent and name) or a direct service (id and name).\<close>

record log_scope =
  sco_agentId :: "string option"
  sco_serviceId :: "string option"
  sco_serviceName :: string
  sco_data :: "demo_telemetry option"

definition mockLogScopes :: "fixtures \<Rightarrow> agent_service_flat list \<Rightarrow> observed_service list \<Rightarrow> log_scope list" where
  "mockLogScopes fx services observed =
     map (\<lambda>s. \<lparr>sco_agentId = Some (sv_agentId s), sco_serviceId = None, sco_serviceName = sv_name s,
                sco_data = map_of (fx_telemetry fx) (sv_agentId s @ ''/'' @ sv_key s)\<rparr>) services
     @ map (\<lambda>s. \<lparr>sco_agentId = None, sco_serviceId = Some (os_id s), sco_serviceName = os_name s,
                  sco_data = map_of (fx_telemetry fx) (os_id s)\<rparr>)
         (filter (\<lambda>s. Sig_logs \<in> set (os_signals s)) observed)"

definition since :: "int \<Rightarrow> log_entry \<Rightarrow> bool" where
  "since t entry \<longleftrightarrow> (case date_parse (log_createdAt entry) of Some tm \<Rightarrow> t \<le> tm | None \<Rightarrow> False)"

definition hour_of :: "log_entry \<Rightarrow> string" where
  "hour_of entry = (case date_parse (log_createdAt entry) of Some tm \<Rightarrow> iso_string (tm div 3600000 * 3600000) | None \<Rightarrow> [])"

definition log_sample_of :: "log_entry \<Rightarrow> log_sample" where
  "log_sample_of e = \<lparr>lsa_level = log_level e, lsa_message = log_message e, lsa_createdAt = log_createdAt e\<rparr>"

definition first_of_level :: "log_level \<Rightarrow> log_entry list \<Rightarrow> log_entry option" where
  "first_of_level l rows = find (\<lambda>e. log_level e = l) rows"

definition log_summary :: "fixtures \<Rightarrow> log_scope \<Rightarrow> log_service_summary" where
  "log_summary fx scope =
     (let rows = telemetry_logs (sco_data scope);
          recent = filter (since (fx_nowAgent fx - 86400000)) rows;
          buckets = map (\<lambda>(time, logs). level_bucket time logs) (group_by hour_of recent)
      in \<lparr>lss_serviceId = sco_serviceId scope, lss_agentId = sco_agentId scope, lss_serviceName = sco_serviceName scope,
          lss_error = level_count L_error recent, lss_warn = level_count L_warn recent,
          lss_latest = map_option log_sample_of
            (case first_of_level L_error recent of Some e \<Rightarrow> Some e | None \<Rightarrow> first_of_level L_warn recent),
          lss_lastReceivedAt = (case rows of e # _ \<Rightarrow> Some (log_createdAt e) | [] \<Rightarrow> None),
          lss_buckets = sort_by (by_key hb_time) buckets\<rparr>)"

definition mockLogSummary :: "fixtures \<Rightarrow> log_scope list \<Rightarrow> log_service_summary list" where
  "mockLogSummary fx scopes = map (log_summary fx) scopes"

definition pattern_step :: "log_scope \<Rightarrow> (string \<times> log_pattern) list \<Rightarrow> log_entry \<Rightarrow> (string \<times> log_pattern) list" where
  "pattern_step scope groups e =
     (let fingerprint = mockFingerprint (log_level e) (log_message e) in
      case map_of groups fingerprint of
        Some p \<Rightarrow> AList.update fingerprint (p\<lparr>lp_count := lp_count p + 1, lp_firstSeen := log_createdAt e\<rparr>) groups
      | None \<Rightarrow> AList.update fingerprint
          \<lparr>lp_fingerprint = fingerprint, lp_level = log_level e, lp_serviceId = sco_serviceId scope,
           lp_agentId = sco_agentId scope, lp_serviceName = sco_serviceName scope, lp_message = log_message e,
           lp_count = 1, lp_firstSeen = log_createdAt e, lp_lastSeen = log_createdAt e\<rparr> groups)"

text \<open>The rows a pattern counts: errors and warnings not older than a day (an unreadable date is kept).\<close>

definition pattern_rows :: "fixtures \<Rightarrow> log_scope \<Rightarrow> log_entry list" where
  "pattern_rows fx scope =
     filter (\<lambda>e. (log_level e = L_error \<or> log_level e = L_warn)
        \<and> (case date_parse (log_createdAt e) of Some tm \<Rightarrow> \<not> tm < fx_nowAgent fx - 86400000 | None \<Rightarrow> True))
       (telemetry_logs (sco_data scope))"

definition scope_patterns :: "fixtures \<Rightarrow> log_scope \<Rightarrow> log_pattern list" where
  "scope_patterns fx scope = map snd (foldl (pattern_step scope) [] (pattern_rows fx scope))"

definition pattern_rank :: "log_pattern \<Rightarrow> nat" where
  "pattern_rank p = (if lp_level p = L_error then 1 else 0)"

definition mockLogPatterns :: "fixtures \<Rightarrow> log_scope list \<Rightarrow> string \<Rightarrow> log_pattern list" where
  "mockLogPatterns fx scopes agentId =
     sort_by (or_else (by_key_desc pattern_rank) (by_key_desc lp_count))
       (concat (map (scope_patterns fx) (filter (\<lambda>s. or_default (sco_agentId s) [] = agentId) scopes)))"

section \<open>Uptime buckets\<close>

record uptime_bucket =
  ub_time :: string
  ub_total :: int
  ub_sum :: rat
  ub_ok :: int

definition bucket_window :: "string \<Rightarrow> int \<times> int" where
  "bucket_window rng = (if rng = ''1h'' then (1, 120000) else if rng = ''6h'' then (6, 300000) else (24, 1200000))"

definition uptime_step :: "int \<Rightarrow> (int \<times> uptime_bucket) list \<Rightarrow> uptime_monitor_metric \<times> int \<Rightarrow> (int \<times> uptime_bucket) list" where
  "uptime_step bucketMs buckets mt =
     (let (m, tm) = mt; t = tm - tm mod bucketMs;
          b = (case map_of buckets t of Some b \<Rightarrow> b | None \<Rightarrow> \<lparr>ub_time = iso_string t, ub_total = 0, ub_sum = 0, ub_ok = 0\<rparr>);
          b = b\<lparr>ub_total := ub_total b + 1\<rparr>;
          b = (if umm_status m = Check_success then b\<lparr>ub_ok := ub_ok b + 1, ub_sum := ub_sum b + umm_responseTime m\<rparr> else b)
      in AList.update t b buckets)"

definition bucket_point :: "uptime_bucket \<Rightarrow> service_history_point" where
  "bucket_point b =
     \<lparr>hp_time = ub_time b, hp_latencyMs = (if ub_ok b \<noteq> 0 then ub_sum b / of_int (ub_ok b) else 0),
      hp_uptimePct = of_int (ub_ok b) / of_int (ub_total b) * 100, hp_total = ub_total b\<rparr>"

text \<open>Instants are after 1970, where JavaScript's \<open>%\<close> is \<open>mod\<close>; an unreadable one throws.\<close>

definition metric_times :: "uptime_monitor_metric list \<Rightarrow> thrown + (uptime_monitor_metric \<times> int) list" where
  "metric_times ms = map_try (\<lambda>m. case date_parse (umm_checkedAt m) of Some tm \<Rightarrow> Inr (m, tm) | None \<Rightarrow> Inl range_error) ms"

definition mockUptimeBuckets :: "fixtures \<Rightarrow> string \<Rightarrow> uptime_monitor_metric list \<Rightarrow> thrown + service_history_point list" where
  "mockUptimeBuckets fx rng metrics =
     (let (hours, bucketMs) = bucket_window rng in
      and_then (metric_times (rev metrics)) (\<lambda>timed.
        Inr (map (\<lambda>e. bucket_point (snd e)) (foldl (uptime_step bucketMs) []
               (filter (\<lambda>(m, tm). \<not> tm < fx_nowAgent fx - hours * 3600000) timed)))))"

section \<open>Hosts\<close>

definition index_of :: "('a \<Rightarrow> bool) \<Rightarrow> 'a list \<Rightarrow> int" where
  "index_of p xs = (case find_index p xs of Some i \<Rightarrow> int i | None \<Rightarrow> - 1)"

definition table_at :: "rat list \<Rightarrow> int \<Rightarrow> rat \<Rightarrow> rat" where
  "table_at xs i d = (if 0 \<le> i \<and> nat i < length xs then xs ! nat i else d)"

definition round2 :: "rat \<Rightarrow> rat" where
  "round2 x = of_int (math_round (x * 100)) / 100"

definition mockHostInfo :: "fixtures \<Rightarrow> db \<Rightarrow> string \<Rightarrow> system_info" where
  "mockHostInfo fx d i =
     (let resource = find (\<lambda>r. ir_id r = i) (db_infrastructure d);
          agent = find (\<lambda>a. ag_id a = i) (db_agents d);
          index = (case resource of
              Some r \<Rightarrow> index_of (\<lambda>r. ir_id r = i) (db_infrastructure d)
            | None \<Rightarrow> max 0 (index_of (\<lambda>a. ag_id a = i) (db_agents d)));
          cpu = or_default (Option.bind resource ir_cpuUsage) (table_at [674 / 10, 185 / 10, 761 / 10, 284 / 10] index 25);
          memory = or_default (Option.bind resource ir_memoryUsage) (table_at [728 / 10, 318 / 10, 624 / 10, 421 / 10] index 40);
          disk = or_default (Option.bind resource ir_diskUsage) (table_at [412 / 10, 221 / 10, 357 / 10, 283 / 10] index 30);
          totalMemory = (if index = 1 then 32 else 16);
          info = fx_systemInfo fx
      in info\<lparr>si_hostname := (case resource of Some r \<Rightarrow> ir_name r
                               | None \<Rightarrow> (case agent of Some a \<Rightarrow> ag_name a | None \<Rightarrow> si_hostname info)),
             si_ip := ''10.42.'' @ (if resource \<noteq> None then ''1'' else ''2'') @ ''.'' @ show_int (10 + index),
             si_cpu := \<lparr>cpu_cores = (if index = 1 then 16 else 8), cpu_usage = cpu\<rparr>,
             si_memory := \<lparr>mem_total = totalMemory, mem_used = round2 (totalMemory * memory / 100), mem_usage = memory\<rparr>,
             si_disk := (si_disk info)\<lparr>disk_used := 500 * disk / 100, disk_usage := disk\<rparr>\<rparr>)"

definition clamp100 :: "rat \<Rightarrow> rat" where
  "clamp100 x = max 0 (min 100 x)"

definition mockHostMetrics :: "fixtures \<Rightarrow> db \<Rightarrow> string \<Rightarrow> string \<Rightarrow> system_metrics_history" where
  "mockHostMetrics fx d i endpoint =
     (let info = mockHostInfo fx d i;
          rng = or_default (sp_get (endpoint_query endpoint) ''range'') ''6h'';
          hours = (if rng = ''1h'' then 1 else if rng = ''24h'' then 24 else 6)
      in \<lparr>smh_range = rng, smh_points = map (\<lambda>(n, p). p\<lparr>
            smp_timestamp := iso_of (of_int (fx_nowAgent fx) - (71 - of_nat n) * hours * 3600000 / 71),
            smp_cpu := clamp100 (cpu_usage (si_cpu info) + fx_sin fx ((of_nat n - 71) / 8) * 12),
            smp_memUsage := clamp100 (mem_usage (si_memory info) + fx_sin fx ((of_nat n - 71) / 10) * 4),
            smp_diskUsage := disk_usage (si_disk info) - (71 - of_nat n) * (8 / 1000),
            smp_netIn := 18 / 10 + fx_sin fx (of_nat n / 7),
            smp_netOut := 8 / 10 + fx_cos fx (of_nat n / 9) * (4 / 10)\<rparr>) (enumerate 0 (fx_systemPoints fx))\<rparr>)"

section \<open>Traces and metrics\<close>

definition type_error :: "string \<Rightarrow> thrown" where
  "type_error field = JsError ''TypeError'' (''Cannot read properties of undefined (reading '' @ [CHR 0x27] @ field @ [CHR 0x27] @ '')'')"

definition trace_summary_of :: "trace_detail \<Rightarrow> thrown + trace_summary" where
  "trace_summary_of t =
     (case td_spans t of
        [] \<Rightarrow> Inl (type_error ''name'')
      | sp0 # _ \<Rightarrow> Inr
          \<lparr>ts_traceId = td_traceId t, ts_name = sp_name sp0, ts_kind = sp_kind sp0, ts_serviceName = sp_serviceName sp0,
           ts_startTime = sp_createdAt sp0, ts_durationMs = sp_durationMs sp0, ts_spanCount = int (length (td_spans t)),
           ts_errorCount = int (length (filter (\<lambda>s. sp_statusCode s = Some ''ERROR'') (td_spans t)))\<rparr>)"

definition telemetryTraces :: "demo_telemetry \<Rightarrow> thrown + trace_summary list" where
  "telemetryTraces data = map_try trace_summary_of (dt_traces data)"

definition trace_matches :: "search_params \<Rightarrow> trace_summary \<Rightarrow> bool" where
  "trace_matches query r \<longleftrightarrow>
     (sp_get query ''errorsOnly'' \<noteq> Some ''true'' \<or> ts_errorCount r > 0)
     \<and> (case number_or 0 (sp_get query ''minDurationMs'') of Some m \<Rightarrow> m \<le> ts_durationMs r | None \<Rightarrow> False)
     \<and> when_set (sp_get query ''from'') (\<lambda>f. f \<le> ts_startTime r)
     \<and> when_set (sp_get query ''to'') (\<lambda>t. ts_startTime r \<le> t)"

definition scopedTraceList :: "fixtures \<Rightarrow> string \<Rightarrow> thrown + trace_summary list" where
  "scopedTraceList fx endpoint =
     and_then (endpointTelemetry fx endpoint) (\<lambda>data.
     and_then (case data of Some t \<Rightarrow> telemetryTraces t | None \<Rightarrow> Inr []) (\<lambda>traces.
       let query = endpoint_query endpoint;
           rows = filter (trace_matches query) traces;
           sorted_rows = (if sp_get query ''sort'' = Some ''slowest'' then sort_by (by_key_desc ts_durationMs) rows
                          else sort_by (by_key_desc ts_startTime) rows)
       in Inr (js_slice 0 (to_integer (number_or 100 (sp_get query ''limit''))) sorted_rows)))"

definition seriesID :: "otel_metric_point \<Rightarrow> string" where
  "seriesID p =
     (let attrs = JObj (or_default (mp_attributes p) []) in
      if truthy (mp_streamKey p) then stringify (JObj [(''stream'', JStr (the (mp_streamKey p))), (''attributes'', attrs)])
      else stringify attrs)"

definition json_strings :: "json \<Rightarrow> string list" where
  "json_strings j = (case j of JArr xs \<Rightarrow> concat (map (\<lambda>x. case x of JStr s \<Rightarrow> [s] | _ \<Rightarrow> []) xs) | _ \<Rightarrow> [])"

definition syntax_error :: thrown where
  "syntax_error = JsError ''SyntaxError'' []"

definition parse_or_throw :: "string \<Rightarrow> thrown + json" where
  "parse_or_throw s = (case json_parse s of Some j \<Rightarrow> Inr j | None \<Rightarrow> Inl syntax_error)"

text \<open>\<open>Date.parse(a) >= Date.parse(b)\<close>: false when either is \<open>NaN\<close>.\<close>

definition date_le :: "string \<Rightarrow> string \<Rightarrow> bool" where
  "date_le a b \<longleftrightarrow> (case (date_parse a, date_parse b) of (Some x, Some y) \<Rightarrow> x \<le> y | _ \<Rightarrow> False)"

text \<open>\<open>===\<close> of two parsed values: two objects or arrays are never the same one.\<close>

fun js_primitive :: "json \<Rightarrow> bool" where
  "js_primitive (JArr xs) = False"
| "js_primitive (JObj ps) = False"
| "js_primitive v = True"

definition metric_point_matches ::
  "search_params \<Rightarrow> (string \<times> json) list \<Rightarrow> string list option \<Rightarrow> bool \<Rightarrow> otel_metric_point \<Rightarrow> bool" where
  "metric_point_matches query attributes selected applySeries p \<longleftrightarrow>
     when_set (sp_get query ''from'') (\<lambda>f. date_le f (mp_createdAt p))
     \<and> when_set (sp_get query ''to'') (\<lambda>t. date_le (mp_createdAt p) t)
     \<and> when_set (sp_get query ''type'') (\<lambda>t. mp_metricType p = t
         \<and> or_default (mp_unit p) [] = or_default (sp_get query ''unit'') [])
     \<and> list_all (\<lambda>(k, v). js_primitive v \<and> map_of (or_default (mp_attributes p) []) k = Some v) attributes
     \<and> (\<not> applySeries \<or> selected = None \<or> seriesID p \<in> set (the selected))"

definition query_attributes :: "search_params \<Rightarrow> thrown + (string \<times> json) list" where
  "query_attributes query =
     and_then (parse_or_throw (let a = or_default (sp_get query ''attributes'') [] in if a \<noteq> [] then a else ''{}''))
       (\<lambda>j. Inr (case j of JObj ps \<Rightarrow> ps | _ \<Rightarrow> []))"

definition query_series :: "search_params \<Rightarrow> thrown + string list option" where
  "query_series query =
     (case sp_get query ''series'' of
        None \<Rightarrow> Inr None
      | Some s \<Rightarrow> and_then (parse_or_throw s) (\<lambda>j. Inr (Some (json_strings j))))"

definition filterMetricPoints :: "otel_metric_point list \<Rightarrow> search_params \<Rightarrow> bool \<Rightarrow> thrown + otel_metric_point list" where
  "filterMetricPoints points query applySeries =
     and_then (query_attributes query) (\<lambda>attributes.
       and_then (query_series query) (\<lambda>selected.
         Inr (filter (metric_point_matches query attributes selected applySeries) points)))"

text \<open>By \<open>Date.parse\<close> then id; \<open>NaN\<close> differences leave the ids.\<close>

definition point_le :: "otel_metric_point \<Rightarrow> otel_metric_point \<Rightarrow> bool" where
  "point_le x y \<longleftrightarrow>
     (case (date_parse (mp_createdAt x), date_parse (mp_createdAt y)) of
        (Some a, Some b) \<Rightarrow> if a - b \<noteq> 0 then a - b \<le> 0 else mp_id x - mp_id y \<le> 0
      | _ \<Rightarrow> mp_id x - mp_id y \<le> 0)"

definition mockMetricQuery :: "otel_metric_point list \<Rightarrow> search_params \<Rightarrow> thrown + metric_query_result" where
  "mockMetricQuery points query =
     and_then (filterMetricPoints points query False) (\<lambda>scoped.
       and_then (query_series query) (\<lambda>asked.
         let ids = sort_by (by_key (\<lambda>x. x)) (set_from (map seriesID scoped));
             selectedSeries = (case asked of Some s \<Rightarrow> s | None \<Rightarrow> take 6 ids);
             selected = sort_by point_le (filter (\<lambda>p. seriesID p \<in> set selectedSeries) scoped)
         in Inr \<lparr>mr_points = drop (length selected - 5000) selected,
                 mr_series = concat (map (\<lambda>i. case find (\<lambda>p. seriesID p = i) scoped of
                    Some p \<Rightarrow> [\<lparr>msr_id = i, msr_attributes = or_default (mp_attributes p) [],
                               msr_streamKey = mp_streamKey p, msr_streamLabel = mp_streamLabel p\<rparr>]
                  | None \<Rightarrow> []) (take 200 ids)),
                 mr_selectedSeries = selectedSeries,
                 mr_seriesTruncated = (length ids > 200),
                 mr_pointsTruncated = (length selected > 5000),
                 mr_pointLimit = 5000\<rparr>))"

definition quantile_values :: "otel_metric_point list \<Rightarrow> rat list" where
  "quantile_values points =
     sort_by (by_key (\<lambda>x. x)) (concat (map (\<lambda>p. mp_value p * (1 / 2) # replicate 18 (mp_value p) @ [mp_value p * (3 / 2)]) points))"

definition telemetryQuantiles :: "demo_telemetry \<Rightarrow> string \<Rightarrow> search_params \<Rightarrow> thrown + otel_histogram_quantiles option" where
  "telemetryQuantiles data name query =
     (case find (\<lambda>m. mn_metricName m = name) (dt_metricNames data) of
        None \<Rightarrow> Inr None
      | Some metric \<Rightarrow>
          if mn_metricType metric \<noteq> MT_histogram then Inr None
          else and_then (filterMetricPoints (or_default (map_of (dt_metricPoints data) name) []) query True) (\<lambda>points.
            let vs = quantile_values points in
            if vs = [] then Inr None
            else Inr (Some \<lparr>hq_truncated = None, hq_metricName = name, hq_unit = mn_unit metric, hq_count = int (length vs),
                           hq_p50 = or_default (percentile vs (1 / 2)) 0, hq_p95 = or_default (percentile vs (95 / 100)) 0,
                           hq_p99 = or_default (percentile vs (99 / 100)) 0, hq_exemplars = None\<rparr>)))"

section \<open>A service's checks\<close>

record check_counts =
  cc_totalChecks :: int
  cc_healthyChecks :: int
  cc_uptimePct :: rat

text \<open>The failed milliseconds of one incident inside the window; \<open>None\<close> for \<open>NaN\<close>.\<close>

definition incident_overlap :: "int \<Rightarrow> rat \<Rightarrow> rat \<Rightarrow> agent_incident \<Rightarrow> rat option" where
  "incident_overlap shift start fin inc =
     (case (if truthy (ai_endedAt inc) then map_option (\<lambda>t. of_int (t + shift)) (date_parse (the (ai_endedAt inc))) else Some fin,
            date_parse (ai_startedAt inc)) of
        (Some e, Some s) \<Rightarrow> Some (max 0 (min fin e - max start (of_int (s + shift))))
      | _ \<Rightarrow> None)"

fun sum_opt :: "rat option list \<Rightarrow> rat option" where
  "sum_opt [] = Some 0"
| "sum_opt (v # vs) = (case (v, sum_opt vs) of (Some x, Some s) \<Rightarrow> Some (x + s) | _ \<Rightarrow> None)"

definition serviceChecks ::
  "fixtures \<Rightarrow> int \<Rightarrow> string \<Rightarrow> string \<Rightarrow> rat \<Rightarrow> rat \<Rightarrow> mock_scenario \<Rightarrow> check_counts option" where
  "serviceChecks fx now agentId key start fin scenario =
     (let shift = now - fx_nowAgent fx;
          incidents = filter (\<lambda>i. ai_agentId i = Some agentId \<and> ai_key i = key \<and> (scenario \<noteq> Scen_normal \<or> \<not> ai_active i)) (fx_incidents fx)
      in map_option (\<lambda>failedMs.
           let totalChecks = max 1 (math_round ((fin - start) / 30000));
               failedChecks = min totalChecks (math_round (failedMs / 30000))
           in \<lparr>cc_totalChecks = totalChecks, cc_healthyChecks = totalChecks - failedChecks,
               cc_uptimePct = of_int (totalChecks - failedChecks) / of_int totalChecks * 100\<rparr>)
         (sum_opt (map (incident_overlap shift start fin) incidents)))"

text \<open>\<open>parseFloat(text) || 5000\<close> of a latency such as \<open>42ms\<close>.\<close>

definition parse_float :: "string \<Rightarrow> rat option" where
  "parse_float s =
     (let i = takeWhile is_digit s; r = dropWhile is_digit s;
          f = (case r of c # q \<Rightarrow> if c = CHR ''.'' then takeWhile is_digit q else [] | [] \<Rightarrow> [])
      in if i = [] \<and> f = [] then None else Some (of_nat (digits_value (i @ f)) / 10 ^ length f))"

definition endpoint_part :: "string \<Rightarrow> nat \<Rightarrow> string" where
  "endpoint_part endpoint i = (let ps = split_on CHR ''/'' endpoint in if i < length ps then ps ! i else [])"

definition traverse :: "('a \<Rightarrow> 'b option) \<Rightarrow> 'a list \<Rightarrow> 'b list option" where
  "traverse f xs = foldr (\<lambda>x r. case (f x, r) of (Some y, Some ys) \<Rightarrow> Some (y # ys) | _ \<Rightarrow> None) xs (Some [])"

definition serviceHistory ::
  "fixtures \<Rightarrow> db \<Rightarrow> int \<Rightarrow> string \<Rightarrow> mock_scenario \<Rightarrow> thrown + service_history_point list option" where
  "serviceHistory fx d now endpoint scenario =
     (if scenario = Scen_empty then Inr (Some [])
      else and_then (decode_key (endpoint_part endpoint 4)) (\<lambda>key.
        let agentId = endpoint_part endpoint 2;
            rng = or_default (sp_get (endpoint_query endpoint) ''range'') ''24h'';
            windowMs = (if rng = ''1h'' then 1 else if rng = ''6h'' then 6 else 24) * 3600000;
            bucketMs = windowMs / 24;
            service = find (\<lambda>s. sv_agentId s = agentId \<and> sv_key s = key) (db_services d);
            failedLatency = nonzero_or (parse_float (or_default (Option.bind service sv_lastLatency) [])) 5000
        in Inr (traverse (\<lambda>i.
             let fin = of_int now - (23 - of_nat i) * bucketMs in
             map_option (\<lambda>c. \<lparr>hp_time = iso_of fin,
               hp_latencyMs = (if cc_uptimePct c < 100 then failedLatency else 30 + fx_sin fx (of_nat i / 4) * 5),
               hp_uptimePct = cc_uptimePct c, hp_total = cc_totalChecks c\<rparr>)
             (serviceChecks fx now agentId key (fin - bucketMs) fin scenario)) [0..<24])))"

definition requested_days :: "string \<Rightarrow> rat" where
  "requested_days endpoint = min 90 (max 1 (nonzero_or (number_or 0 (sp_get (endpoint_query endpoint) ''days'')) 90))"

definition serviceUptime ::
  "fixtures \<Rightarrow> int \<Rightarrow> string \<Rightarrow> mock_scenario \<Rightarrow> thrown + service_uptime_day list option" where
  "serviceUptime fx now endpoint scenario =
     (if scenario = Scen_empty then Inr (Some [])
      else and_then (decode_key (endpoint_part endpoint 4)) (\<lambda>key.
        let agentId = endpoint_part endpoint 2;
            days = requested_days endpoint;
            today = of_int (now div 86400000 * 86400000)
        in Inr (traverse (\<lambda>i.
             let start = today - (days - of_nat i - 1) * 86400000 in
             map_option (\<lambda>c. \<lparr>sud_date = take 10 (iso_of start), sud_uptimePct = cc_uptimePct c,
               sud_healthyChecks = cc_healthyChecks c, sud_totalChecks = cc_totalChecks c\<rparr>)
             (serviceChecks fx now agentId key start (min (start + 86400000) (of_int now)) scenario)) [0..<nat \<lfloor>days\<rfloor>])))"

section \<open>Scenarios\<close>

definition fixtureTime :: "fixtures \<Rightarrow> int \<Rightarrow> string \<Rightarrow> thrown + string" where
  "fixtureTime fx now ts =
     (case date_parse ts of Some t \<Rightarrow> Inr (iso_string (t + now - fx_nowAgent fx)) | None \<Rightarrow> Inl range_error)"

definition fixture_opt :: "fixtures \<Rightarrow> int \<Rightarrow> string option \<Rightarrow> thrown + string option" where
  "fixture_opt fx now ts =
     (if truthy ts then and_then (fixtureTime fx now (the ts)) (\<lambda>t. Inr (Some t)) else Inr None)"

definition fresh_time :: "int \<Rightarrow> string" where
  "fresh_time now = iso_string (now - 20000)"

definition scenarioAgents :: "fixtures \<Rightarrow> db \<Rightarrow> int \<Rightarrow> mock_scenario \<Rightarrow> thrown + connected_agent list" where
  "scenarioAgents fx d now scenario =
     map_try (\<lambda>a.
       if ag_id a \<in> set (fx_initialAgents fx)
       then (if scenario = Scen_normal
             then Inr (a\<lparr>ag_lastSeenAt := fresh_time now, ag_updatedAt := fresh_time now\<rparr>)
             else and_then (fixtureTime fx now (ag_lastSeenAt a)) (\<lambda>l.
                  and_then (fixtureTime fx now (ag_updatedAt a)) (\<lambda>u.
                  Inr (a\<lparr>ag_lastSeenAt := l, ag_updatedAt := u\<rparr>))))
       else Inr a)
     (if scenario = Scen_empty then filter (\<lambda>a. ag_id a \<notin> set (fx_initialAgents fx)) (db_agents d) else db_agents d)"

definition normal_service :: "int \<Rightarrow> agent_service_flat \<Rightarrow> agent_service_flat" where
  "normal_service now s = s\<lparr>sv_healthy := True,
     sv_lastStatus := Some (if sv_checkType s = ''http'' then 200 else 0),
     sv_lastLatency := Some (if sv_checkType s = ''http'' then ''42ms'' else ''5ms''),
     sv_lastError := None, sv_updatedAt := Some (fresh_time now), sv_observedAt := fresh_time now\<rparr>"

definition scenarioServices :: "fixtures \<Rightarrow> db \<Rightarrow> int \<Rightarrow> mock_scenario \<Rightarrow> thrown + agent_service_flat list" where
  "scenarioServices fx d now scenario =
     (if scenario = Scen_empty then Inr []
      else if scenario \<noteq> Scen_normal
      then map_try (\<lambda>s. and_then (fixtureTime fx now (sv_observedAt s)) (\<lambda>t.
                        and_then (fixture_opt fx now (sv_updatedAt s)) (\<lambda>u.
                        Inr (s\<lparr>sv_observedAt := t, sv_updatedAt := u\<rparr>)))) (db_services d)
      else Inr (map (normal_service now) (db_services d)))"

definition scenarioMonitors :: "fixtures \<Rightarrow> db \<Rightarrow> mock_scenario \<Rightarrow> uptime_monitor list" where
  "scenarioMonitors fx d scenario =
     (if scenario = Scen_empty then filter (\<lambda>m. um_id m \<notin> set (fx_initialMonitors fx)) (db_monitors d) else db_monitors d)"

definition docker_incident :: "fixtures \<Rightarrow> int \<Rightarrow> agent_incident \<Rightarrow> thrown + timeline_incident" where
  "docker_incident fx now i =
     and_then (fixtureTime fx now (ai_startedAt i)) (\<lambda>s.
     and_then (fixture_opt fx now (ai_endedAt i)) (\<lambda>e.
     Inr \<lparr>ti_source = Src_docker, ti_targetName = ai_serviceName i,
          ti_targetPath = ''/services/'' @ or_default (ai_agentId i) ''undefined'' @ ''/'' @ encodeURIComponent (ai_key i),
          ti_startedAt = s, ti_endedAt = e, ti_durationSec = ai_durationSec i, ti_active = ai_active i, ti_message = None\<rparr>))"

definition scenarioTimeline :: "fixtures \<Rightarrow> db \<Rightarrow> int \<Rightarrow> mock_scenario \<Rightarrow> thrown + timeline_incident list" where
  "scenarioTimeline fx d now scenario =
     (if scenario = Scen_empty then Inr []
      else let uptime = concat (map (\<lambda>m. case map_of (fx_monitorData fx) (um_id m) of Some md \<Rightarrow> md_incidents md | None \<Rightarrow> [])
                                  (scenarioMonitors fx d scenario)) in
        and_then (map_try (docker_incident fx now) (filter (\<lambda>i. scenario \<noteq> Scen_normal \<or> \<not> ai_active i) (fx_incidents fx))) (\<lambda>docker.
          Inr (sort_by (by_key_desc ti_startedAt)
            (filter (\<lambda>i. case date_parse (ti_startedAt i) of Some t \<Rightarrow> fx_nowAgent fx - 7 * 86400000 \<le> t | None \<Rightarrow> False)
              (uptime @ docker)))))"

definition scenarioObservedServices :: "fixtures \<Rightarrow> db \<Rightarrow> int \<Rightarrow> mock_scenario \<Rightarrow> thrown + observed_service list" where
  "scenarioObservedServices fx d now scenario =
     map_try (\<lambda>s.
       if os_id s \<in> set (fx_initialObserved fx)
       then and_then (if scenario = Scen_normal then Inr (Some (fresh_time now)) else fixture_opt fx now (os_lastSeenAt s)) (\<lambda>l.
            and_then (fixtureTime fx now (os_updatedAt s)) (\<lambda>u.
            Inr (s\<lparr>os_lastSeenAt := l, os_updatedAt := u\<rparr>)))
       else Inr s)
     (if scenario = Scen_empty then filter (\<lambda>s. os_id s \<notin> set (fx_initialObserved fx)) (db_observed d) else db_observed d)"

definition scenarioInfrastructureResources ::
  "fixtures \<Rightarrow> db \<Rightarrow> int \<Rightarrow> mock_scenario \<Rightarrow> thrown + infrastructure_resource list" where
  "scenarioInfrastructureResources fx d now scenario =
     map_try (\<lambda>r.
       if ir_id r \<in> set (fx_initialInfrastructure fx)
       then and_then (if scenario = Scen_normal then Inr (Some (fresh_time now)) else fixture_opt fx now (ir_lastSeenAt r)) (\<lambda>l.
            and_then (fixtureTime fx now (ir_updatedAt r)) (\<lambda>u.
            Inr (r\<lparr>ir_lastSeenAt := l, ir_updatedAt := u\<rparr>)))
       else Inr r)
     (if scenario = Scen_empty then filter (\<lambda>r. ir_id r \<notin> set (fx_initialInfrastructure fx)) (db_infrastructure d)
      else db_infrastructure d)"

record profile_input =
  pin_kind :: "string option"
  pin_capabilities :: "string list option"

definition ALL_CAPABILITIES :: "agent_collection_capability list" where
  "ALL_CAPABILITIES = [Cap_uptime, Cap_logs, Cap_infrastructure, Cap_api, Cap_metrics]"

text \<open>The argument is what a client may send: any strings where the type has literals.\<close>

definition normalizeMockAgentProfile :: "profile_input option \<Rightarrow> agent_profile" where
  "normalizeMockAgentProfile profile =
     (if Option.bind profile pin_kind = Some ''basic''
      then \<lparr>pf_kind = PK_basic, pf_capabilities = [Cap_uptime, Cap_logs]\<rparr>
      else if Option.bind profile pin_kind \<noteq> Some ''custom''
      then \<lparr>pf_kind = PK_all_in_one, pf_capabilities = ALL_CAPABILITIES\<rparr>
      else let selected = set_from (or_default (Option.bind profile pin_capabilities) []);
               selected = (if ''logs'' \<in> set selected \<or> ''api'' \<in> set selected
                           then (if ''uptime'' \<in> set selected then selected else selected @ [''uptime'']) else selected)
           in \<lparr>pf_kind = PK_custom,
               pf_capabilities = filter (\<lambda>c. agent_collection_capability_text c \<in> set selected) ALL_CAPABILITIES\<rparr>)"

end
