(* ===== verification/EU_Router.thy ===== *)
theory EU_Router imports EU_MockScenario
begin

text \<open>
  The demo server's requests that change its state, \<open>mockRouter\<close> in
  \<open>services/mockRouter.ts\<close> lines 1115-1413: instrumentation runs, collector profiles, the
  connection keys, and the create, update, assign and delete operations of every target.

  Each operation is a definition from the state (and the parsed body) to the new state and
  the value returned; \<open>mutation\<close> dispatches on the method and the endpoint in the code's
  order. A body is the JSON value the client stringified (no body reads as \<open>{}\<close>).
  \<open>Object.assign\<close> copies every property the body names, the \<open>id\<close> included; the model copies every
  property of the target's declared type, at a value of that property's type (a \<open>null\<close> clears an
  optional one). \<open>ctx\<close> is what a request reads from outside: the clock, the scenario, and the
  random hex digits.
\<close>

section \<open>Requests and replies\<close>

record ctx =
  ctx_now :: int
  ctx_scenario :: mock_scenario
  ctx_random :: "nat \<Rightarrow> string"

datatype mock_reply =
    Undefined
  | Null
  | R_publicUrl string
  | R_setup collector_setup_status
  | R_receipts "signal_receipt list"
  | R_profile agent_profile
  | R_run instrumentation_run
  | R_agents "connected_agent list"
  | R_createdAgent created_agent
  | R_joinCode agent_join_code
  | R_apiKey string
  | R_apiKeyAvailable string bool
  | R_levels "string list"
  | R_paths "string list"
  | R_resource infrastructure_resource
  | R_resourceSetup infrastructure_resource_setup
  | R_resources "infrastructure_resource list"
  | R_observed observed_service
  | R_observedSetup observed_service_setup
  | R_observedList "observed_service list"
  | R_project project
  | R_projects "project list"
  | R_monitor uptime_monitor
  | R_monitors "uptime_monitor list"
  | R_services "agent_service_flat list"
  | R_overview "agent_overview list"
  | R_metricNames "otel_metric_name list"
  | R_catalog "observed_service_metric_name list"
  | R_serviceMetrics "otel_service_metric list"
  | R_metricHealth otel_metric_health
  | R_metricQuery metric_query_result
  | R_quantiles "otel_histogram_quantiles option"
  | R_points "otel_metric_point list"
  | R_logs "log_entry rows"
  | R_requests "api_request rows"
  | R_histogram "log_histogram_bucket list"
  | R_logSummary "log_service_summary list"
  | R_logPatterns "log_pattern list"
  | R_traces "trace_summary list"
  | R_trace trace_detail
  | R_stats api_request_stats
  | R_statusSummary api_request_status_summary
  | R_checks "uptime_monitor_metric list"
  | R_summary uptime_monitor_summary
  | R_uptime uptime_monitor_history
  | R_history "service_history_point list option"
  | R_uptimeDays "service_uptime_day list option"
  | R_timeline "timeline_incident list"
  | R_incidents "agent_incident list"
  | R_events "agent_event list"
  | R_channels "notification_channel list"
  | R_systemInfo system_info
  | R_systemMetrics system_metrics_history
  | R_rule alert_rule
  | R_rules "alert_rule list"
  | R_notifications "notification_history rows" "rat option" "rat option"
  | R_notificationStats notification_stats
  | R_settings app_settings

definition reply_or_null :: "('a \<Rightarrow> mock_reply) \<Rightarrow> 'a option \<Rightarrow> mock_reply" where
  "reply_or_null f v = (case v of Some x \<Rightarrow> f x | None \<Rightarrow> Null)"

definition reply_or_undefined :: "('a \<Rightarrow> mock_reply) \<Rightarrow> 'a option \<Rightarrow> mock_reply" where
  "reply_or_undefined f v = (case v of Some x \<Rightarrow> f x | None \<Rightarrow> Undefined)"

text \<open>\<open>JSON.parse(typeof body === 'string' ? body : '{}')\<close>.\<close>

definition parsed_body :: "json option \<Rightarrow> json" where
  "parsed_body body = (case body of Some j \<Rightarrow> j | None \<Rightarrow> JObj [])"

definition get_str :: "json \<Rightarrow> string \<Rightarrow> string option" where
  "get_str j k = (case jget j k of Some (JStr s) \<Rightarrow> Some s | _ \<Rightarrow> None)"

definition get_int :: "json \<Rightarrow> string \<Rightarrow> int option" where
  "get_int j k = (case jget j k of Some (JInt i) \<Rightarrow> Some i | _ \<Rightarrow> None)"

definition get_bool :: "json \<Rightarrow> string \<Rightarrow> bool option" where
  "get_bool j k = (case jget j k of Some (JBool b) \<Rightarrow> Some b | _ \<Rightarrow> None)"

definition get_strings :: "json \<Rightarrow> string \<Rightarrow> string list option" where
  "get_strings j k = (case jget j k of Some (JArr xs) \<Rightarrow> Some (map js_string xs) | _ \<Rightarrow> None)"

text \<open>
  The values \<open>Object.assign\<close> copies into typed properties: a text, an integer, a truth value, a
  number, and lists of them. \<open>copied\<close> is a property's value after the copy: the body's when it names
  the property, else the old one; \<open>copied_opt\<close> is that of an optional property.
\<close>

definition as_str :: "json \<Rightarrow> string option" where
  "as_str j = (case j of JStr s \<Rightarrow> Some s | _ \<Rightarrow> None)"

definition as_int :: "json \<Rightarrow> int option" where
  "as_int j = (case j of JInt i \<Rightarrow> Some i | _ \<Rightarrow> None)"

definition as_bool :: "json \<Rightarrow> bool option" where
  "as_bool j = (case j of JBool b \<Rightarrow> Some b | _ \<Rightarrow> None)"

definition as_rat :: "json \<Rightarrow> rat option" where
  "as_rat j = (case j of JInt i \<Rightarrow> Some (of_int i) | JDec t \<Rightarrow> js_number t | _ \<Rightarrow> None)"

definition as_list :: "(json \<Rightarrow> 'a option) \<Rightarrow> json \<Rightarrow> 'a list option" where
  "as_list rd j = (case j of JArr xs \<Rightarrow> those (map rd xs) | _ \<Rightarrow> None)"

definition as_member :: "('a \<Rightarrow> string) \<Rightarrow> 'a list \<Rightarrow> json \<Rightarrow> 'a option" where
  "as_member show vs j = Option.bind (as_str j) (\<lambda>t. find (\<lambda>v. show v = t) vs)"

definition copied :: "(json \<Rightarrow> 'a option) \<Rightarrow> json \<Rightarrow> string \<Rightarrow> 'a \<Rightarrow> 'a" where
  "copied rd j k old = (case jget j k of Some v \<Rightarrow> or_default (rd v) old | None \<Rightarrow> old)"

definition copied_opt :: "(json \<Rightarrow> 'a option) \<Rightarrow> json \<Rightarrow> string \<Rightarrow> 'a option \<Rightarrow> 'a option" where
  "copied_opt rd j k old =
     (case jget j k of
        Some v \<Rightarrow> if v = JNull then None else (case rd v of Some x \<Rightarrow> Some x | None \<Rightarrow> old)
      | None \<Rightarrow> old)"

definition names_no_id :: "json \<Rightarrow> bool" where
  "names_no_id j \<longleftrightarrow> jget j ''id'' = None"

lemma copied_id [simp]: "names_no_id j \<Longrightarrow> copied rd j ''id'' old = old"
  by (simp add: copied_def names_no_id_def)

lemma copied_obj [simp]:
  "copied rd (JObj ps) k old = (case map_of ps k of Some v \<Rightarrow> or_default (rd v) old | None \<Rightarrow> old)"
  by (simp add: copied_def)

lemma copied_opt_obj [simp]:
  "copied_opt rd (JObj ps) k old =
     (case map_of ps k of
        Some v \<Rightarrow> if v = JNull then None else (case rd v of Some x \<Rightarrow> Some x | None \<Rightarrow> old)
      | None \<Rightarrow> old)"
  by (simp add: copied_opt_def)

lemma as_values [simp]:
  "as_str (JStr s) = Some s" "as_int (JInt i) = Some i" "as_bool (JBool b) = Some b"
  by (simp_all add: as_str_def as_int_def as_bool_def)

lemma as_member_str [simp]: "as_member sh vs (JStr t) = find (\<lambda>v. sh v = t) vs"
  by (simp add: as_member_def)

text \<open>No body the client writes names an id.\<close>

lemma client_bodies_no_id [simp]:
  "names_no_id (project_input_json pp)" "names_no_id (uptime_monitor_input_json mm)"
  "names_no_id (observed_service_input_json ss)" "names_no_id (infrastructure_resource_input_json rr)"
  by (simp_all add: names_no_id_def project_input_json_def uptime_monitor_input_json_def
      observed_service_input_json_def infrastructure_resource_input_json_def jopt_def split: option.split)

text \<open>\<open>v || undefined\<close>.\<close>

definition nonempty :: "string option \<Rightarrow> string option" where
  "nonempty v = (if truthy v then v else None)"

definition new_id :: "string \<Rightarrow> ctx \<Rightarrow> string" where
  "new_id p c = p @ show_int (ctx_now c)"

definition now_iso :: "ctx \<Rightarrow> string" where
  "now_iso c = iso_string (ctx_now c)"

lemma get_str_obj [simp]: "get_str (JObj ps) k = (case map_of ps k of Some (JStr s) \<Rightarrow> Some s | _ \<Rightarrow> None)"
  by (simp add: get_str_def)

section \<open>Runs and profiles\<close>

definition run_of :: "ctx \<Rightarrow> string \<Rightarrow> json \<Rightarrow> string list \<Rightarrow> db \<Rightarrow> instrumentation_run" where
  "run_of c agentId input keys d =
     \<lparr>run_id = new_id ''run-'' c, run_agentId = agentId, run_project = or_default (get_str input ''project'') [],
      run_targets = map (\<lambda>key.
        let service = find (\<lambda>s. sv_agentId s = agentId \<and> sv_key s = key) (db_services d) in
        \<lparr>rt_key = key, rt_name = (case service of Some s \<Rightarrow> sv_name s | None \<Rightarrow> key),
         rt_runtime = or_default (Option.bind service sv_runtime) ''node''\<rparr>) keys,
      run_captureBodies = or_default (get_bool input ''captureBodies'') False,
      run_status = Run_planned, run_reason = [], run_createdAt = now_iso c, run_updatedAt = now_iso c,
      run_startedAt = None, run_signals = []\<rparr>"

text \<open>A body without \<open>keys\<close> throws at \<open>input.keys.map\<close>.\<close>

definition create_run :: "ctx \<Rightarrow> string \<Rightarrow> json \<Rightarrow> db \<Rightarrow> db \<times> (thrown + mock_reply)" where
  "create_run c agentId input d =
     (case get_strings input ''keys'' of
        None \<Rightarrow> (d, Inl (type_error ''map''))
      | Some keys \<Rightarrow>
          let run = run_of c agentId input keys d in
          (d\<lparr>db_runs := AList.update (run_id run) run (db_runs d)\<rparr>, Inr (R_run run)))"

definition profile_of_json :: "json \<Rightarrow> profile_input" where
  "profile_of_json j = \<lparr>pin_kind = get_str j ''kind'', pin_capabilities = get_strings j ''capabilities''\<rparr>"

definition environment_missing :: thrown where
  "environment_missing = JsError ''Error'' (''Docker '' @ [CHR 0xED, CHR 0x99, CHR 0x98, CHR 0xEA, CHR 0xB2, CHR 0xBD, CHR 0xEC, CHR 0x9D, CHR 0x84] @ '' '' @ [CHR 0xEC, CHR 0xB0, CHR 0xBE, CHR 0xEC, CHR 0x9D, CHR 0x84] @ '' '' @ [CHR 0xEC, CHR 0x88, CHR 0x98] @ '' '' @ [CHR 0xEC, CHR 0x97, CHR 0x86, CHR 0xEC, CHR 0x8A, CHR 0xB5, CHR 0xEB, CHR 0x8B, CHR 0x88, CHR 0xEB, CHR 0x8B, CHR 0xA4])"

definition set_profile :: "string \<Rightarrow> json \<Rightarrow> db \<Rightarrow> db \<times> (thrown + mock_reply)" where
  "set_profile i input d =
     (case find (\<lambda>a. ag_id a = i) (db_agents d) of
        None \<Rightarrow> (d, Inl environment_missing)
      | Some agent \<Rightarrow>
          let p = normalizeMockAgentProfile (Some (profile_of_json input)) in
          (d\<lparr>db_agents := update_first (\<lambda>a. ag_id a = i) (\<lambda>a. a\<lparr>ag_profile := Some p\<rparr>) (db_agents d),
             db_pendingProfiles := (if ag_id agent \<in> set (db_pendingProfiles d) then db_pendingProfiles d
                                    else db_pendingProfiles d @ [ag_id agent])\<rparr>, Inr (R_profile p)))"

section \<open>Infrastructure resources\<close>

definition with_key :: "infrastructure_resource \<Rightarrow> string \<Rightarrow> infrastructure_resource_setup" where
  "with_key r key = infrastructure_resource.extend r (infrastructure_resource_setup.fields key)"

definition create_resource :: "ctx \<Rightarrow> json \<Rightarrow> db \<Rightarrow> db \<times> mock_reply" where
  "create_resource c parsed d =
     (let r = \<lparr>ir_id = new_id ''infra_mock_'' c, ir_name = or_default (get_str parsed ''name'') [],
               ir_projectId = get_str parsed ''projectId'', ir_adapter = Ad_otel_collector, ir_isActive = True,
               ir_apiKeyMasked = Some ''everyup_ab.....demo'', ir_lastSeenAt = None, ir_cpuUsage = None,
               ir_memoryUsage = None, ir_diskUsage = None, ir_createdAt = now_iso c, ir_updatedAt = now_iso c\<rparr>
      in (d\<lparr>db_infrastructure := db_infrastructure d @ [r]\<rparr>, R_resourceSetup (with_key r (''everyup_'' @ ctx_random c 32))))"

definition rotate_resource :: "ctx \<Rightarrow> string \<Rightarrow> db \<Rightarrow> db \<times> mock_reply" where
  "rotate_resource c i d =
     (let f = (\<lambda>r. r\<lparr>ir_isActive := True, ir_apiKeyMasked := Some ''everyup_ab.....new1''\<rparr>) in
      case find (\<lambda>r. ir_id r = i) (db_infrastructure d) of
        None \<Rightarrow> (d, Null)
      | Some r \<Rightarrow> (d\<lparr>db_infrastructure := update_first (\<lambda>r. ir_id r = i) f (db_infrastructure d)\<rparr>,
                   R_resourceSetup (with_key (f r) (''everyup_'' @ ctx_random c 32))))"

definition revoke_resource :: "string \<Rightarrow> db \<Rightarrow> db \<times> mock_reply" where
  "revoke_resource i d =
     (let f = (\<lambda>r. r\<lparr>ir_isActive := False\<rparr>) in
      (d\<lparr>db_infrastructure := update_first (\<lambda>r. ir_id r = i) f (db_infrastructure d)\<rparr>,
       reply_or_undefined R_resource (map_option f (find (\<lambda>r. ir_id r = i) (db_infrastructure d)))))"

text \<open>\<open>Object.assign(resource, parsed, { projectId: parsed.projectId || undefined, updatedAt })\<close>.\<close>

definition assign_resource :: "ctx \<Rightarrow> json \<Rightarrow> infrastructure_resource \<Rightarrow> infrastructure_resource" where
  "assign_resource c parsed r =
     r\<lparr>ir_id := copied as_str parsed ''id'' (ir_id r),
       ir_name := copied as_str parsed ''name'' (ir_name r),
       ir_projectId := nonempty (get_str parsed ''projectId''),
       ir_adapter := copied (as_member infrastructure_adapter_text [Ad_everyup_agent, Ad_otel_collector]) parsed ''adapter'' (ir_adapter r),
       ir_isActive := copied as_bool parsed ''isActive'' (ir_isActive r),
       ir_apiKeyMasked := copied_opt as_str parsed ''apiKeyMasked'' (ir_apiKeyMasked r),
       ir_lastSeenAt := copied_opt as_str parsed ''lastSeenAt'' (ir_lastSeenAt r),
       ir_cpuUsage := copied_opt as_rat parsed ''cpuUsage'' (ir_cpuUsage r),
       ir_memoryUsage := copied_opt as_rat parsed ''memoryUsage'' (ir_memoryUsage r),
       ir_diskUsage := copied_opt as_rat parsed ''diskUsage'' (ir_diskUsage r),
       ir_createdAt := copied as_str parsed ''createdAt'' (ir_createdAt r), ir_updatedAt := now_iso c\<rparr>"

definition update_resource :: "ctx \<Rightarrow> string \<Rightarrow> json \<Rightarrow> db \<Rightarrow> db \<times> mock_reply" where
  "update_resource c i parsed d =
     (d\<lparr>db_infrastructure := update_first (\<lambda>r. ir_id r = i) (assign_resource c parsed) (db_infrastructure d)\<rparr>,
      reply_or_undefined R_resource (map_option (assign_resource c parsed) (find (\<lambda>r. ir_id r = i) (db_infrastructure d))))"

definition delete_resource :: "string \<Rightarrow> db \<Rightarrow> db \<times> mock_reply" where
  "delete_resource i d = (d\<lparr>db_infrastructure := splice_first (\<lambda>r. ir_id r = i) (db_infrastructure d)\<rparr>, Undefined)"

section \<open>Observed services\<close>

definition with_api_key :: "observed_service \<Rightarrow> string \<Rightarrow> observed_service_setup" where
  "with_api_key s key = observed_service.extend s (observed_service_setup.fields key)"

definition parse_signal :: "string \<Rightarrow> telemetry_signal option" where
  "parse_signal s = find (\<lambda>t. telemetry_signal_text t = s) [Sig_logs, Sig_metrics, Sig_traces]"

definition get_signals :: "json \<Rightarrow> telemetry_signal list option" where
  "get_signals j = map_option (\<lambda>ss. List.map_filter parse_signal ss) (get_strings j ''signals'')"

definition DEFAULT_LEVELS :: "string list" where
  "DEFAULT_LEVELS = [''error'', ''warn'', ''info'']"

definition create_observed :: "ctx \<Rightarrow> json \<Rightarrow> db \<Rightarrow> db \<times> mock_reply" where
  "create_observed c parsed d =
     (let s = \<lparr>os_id = new_id ''observed_mock_'' c, os_name = or_default (get_str parsed ''name'') [],
               os_projectId = get_str parsed ''projectId'', os_signals = or_default (get_signals parsed) [],
               os_logLevelFilter = Some [L_error, L_warn, L_info], os_apiExcludePaths = None, os_isActive = True,
               os_apiKeyMasked = Some ''evup_****demo'', os_lastSeenAt = None,
               os_createdAt = now_iso c, os_updatedAt = now_iso c\<rparr>
      in (d\<lparr>db_observed := db_observed d @ [s],
            db_logFilters := AList.update (os_id s) DEFAULT_LEVELS (db_logFilters d),
            db_apiExclusions := AList.update (os_id s) [] (db_apiExclusions d)\<rparr>,
          R_observedSetup (with_api_key s (''evup_direct_'' @ ctx_random c 24))))"

definition rotate_observed :: "ctx \<Rightarrow> string \<Rightarrow> db \<Rightarrow> db \<times> mock_reply" where
  "rotate_observed c i d =
     (let f = (\<lambda>s. s\<lparr>os_isActive := True, os_apiKeyMasked := Some ''evup_****new1''\<rparr>) in
      case find (\<lambda>s. os_id s = i) (db_observed d) of
        None \<Rightarrow> (d, Null)
      | Some s \<Rightarrow> (d\<lparr>db_observed := update_first (\<lambda>s. os_id s = i) f (db_observed d)\<rparr>,
                   R_observedSetup (with_api_key (f s) (''evup_direct_'' @ ctx_random c 24))))"

definition revoke_observed :: "string \<Rightarrow> db \<Rightarrow> db \<times> mock_reply" where
  "revoke_observed i d =
     (let f = (\<lambda>s. s\<lparr>os_isActive := False\<rparr>) in
      (d\<lparr>db_observed := update_first (\<lambda>s. os_id s = i) f (db_observed d)\<rparr>,
       reply_or_undefined R_observed (map_option f (find (\<lambda>s. os_id s = i) (db_observed d)))))"

definition set_log_filter :: "string \<Rightarrow> json \<Rightarrow> db \<Rightarrow> db \<times> mock_reply" where
  "set_log_filter i parsed d =
     (let levels = or_default (get_strings parsed ''levels'') [] in
      (d\<lparr>db_logFilters := AList.update i levels (db_logFilters d)\<rparr>, R_levels levels))"

definition set_api_exclusions :: "string \<Rightarrow> json \<Rightarrow> db \<Rightarrow> db \<times> mock_reply" where
  "set_api_exclusions i parsed d =
     (let paths = filter (\<lambda>p. p \<noteq> []) (or_default (get_strings parsed ''paths'') []) in
      (d\<lparr>db_apiExclusions := AList.update i paths (db_apiExclusions d),
         db_observed := update_first (\<lambda>s. os_id s = i) (\<lambda>s. s\<lparr>os_apiExcludePaths := Some paths\<rparr>) (db_observed d)\<rparr>,
       R_paths paths))"

definition assign_observed :: "ctx \<Rightarrow> json \<Rightarrow> observed_service \<Rightarrow> observed_service" where
  "assign_observed c parsed s =
     s\<lparr>os_id := copied as_str parsed ''id'' (os_id s),
       os_name := copied as_str parsed ''name'' (os_name s),
       os_projectId := nonempty (get_str parsed ''projectId''),
       os_signals := or_default (get_signals parsed) (os_signals s),
       os_logLevelFilter := copied_opt (as_list (as_member log_level_text [L_error, L_warn, L_info, L_debug, L_trace])) parsed ''logLevelFilter''
         (os_logLevelFilter s),
       os_apiExcludePaths := copied_opt (as_list as_str) parsed ''apiExcludePaths'' (os_apiExcludePaths s),
       os_isActive := copied as_bool parsed ''isActive'' (os_isActive s),
       os_apiKeyMasked := copied_opt as_str parsed ''apiKeyMasked'' (os_apiKeyMasked s),
       os_lastSeenAt := copied_opt as_str parsed ''lastSeenAt'' (os_lastSeenAt s),
       os_createdAt := copied as_str parsed ''createdAt'' (os_createdAt s), os_updatedAt := now_iso c\<rparr>"

definition update_observed :: "ctx \<Rightarrow> string \<Rightarrow> json \<Rightarrow> db \<Rightarrow> db \<times> mock_reply" where
  "update_observed c i parsed d =
     (d\<lparr>db_observed := update_first (\<lambda>s. os_id s = i) (assign_observed c parsed) (db_observed d)\<rparr>,
      reply_or_undefined R_observed (map_option (assign_observed c parsed) (find (\<lambda>s. os_id s = i) (db_observed d))))"

definition delete_observed :: "string \<Rightarrow> db \<Rightarrow> db \<times> mock_reply" where
  "delete_observed i d =
     (d\<lparr>db_observed := splice_first (\<lambda>s. os_id s = i) (db_observed d),
        db_logFilters := AList.delete i (db_logFilters d),
        db_apiExclusions := AList.delete i (db_apiExclusions d)\<rparr>, Undefined)"

section \<open>Projects\<close>

definition create_project :: "ctx \<Rightarrow> json \<Rightarrow> db \<Rightarrow> db \<times> mock_reply" where
  "create_project c parsed d =
     (let p = \<lparr>pr_id = new_id ''project_mock_'' c, pr_name = or_default (get_str parsed ''name'') ([CHR 0xEC, CHR 0x83, CHR 0x88] @ '' Project''),
               pr_description = get_str parsed ''description'', pr_agentCount = 0, pr_monitorCount = 0,
               pr_observedServiceCount = 0, pr_infrastructureResourceCount = 0,
               pr_createdAt = now_iso c, pr_updatedAt = now_iso c\<rparr>
      in (d\<lparr>db_projects := db_projects d @ [p]\<rparr>, R_project p))"

definition assign_member :: "string \<Rightarrow> string \<Rightarrow> string option \<Rightarrow> db \<Rightarrow> db \<times> mock_reply" where
  "assign_member kind memberId projectId d =
     (if kind = ''agents''
      then (d\<lparr>db_agents := update_first (\<lambda>a. ag_id a = memberId) (\<lambda>a. a\<lparr>ag_projectId := projectId\<rparr>) (db_agents d)\<rparr>, Undefined)
      else (d\<lparr>db_monitors := update_first (\<lambda>m. um_id m = memberId) (\<lambda>m. m\<lparr>um_projectId := projectId\<rparr>) (db_monitors d)\<rparr>, Undefined))"

definition assign_project :: "ctx \<Rightarrow> json \<Rightarrow> project \<Rightarrow> project" where
  "assign_project c parsed p =
     p\<lparr>pr_id := copied as_str parsed ''id'' (pr_id p),
       pr_name := copied as_str parsed ''name'' (pr_name p),
       pr_description := copied_opt as_str parsed ''description'' (pr_description p),
       pr_agentCount := copied as_int parsed ''agentCount'' (pr_agentCount p),
       pr_monitorCount := copied as_int parsed ''monitorCount'' (pr_monitorCount p),
       pr_observedServiceCount := copied as_int parsed ''observedServiceCount'' (pr_observedServiceCount p),
       pr_infrastructureResourceCount := copied as_int parsed ''infrastructureResourceCount'' (pr_infrastructureResourceCount p),
       pr_createdAt := copied as_str parsed ''createdAt'' (pr_createdAt p), pr_updatedAt := now_iso c\<rparr>"

definition update_project :: "ctx \<Rightarrow> string \<Rightarrow> json \<Rightarrow> db \<Rightarrow> db \<times> mock_reply" where
  "update_project c i parsed d =
     (d\<lparr>db_projects := update_first (\<lambda>p. pr_id p = i) (assign_project c parsed) (db_projects d)\<rparr>,
      reply_or_undefined R_project (map_option (assign_project c parsed) (find (\<lambda>p. pr_id p = i) (db_projects d))))"

definition unassigned :: "string \<Rightarrow> string option \<Rightarrow> string option" where
  "unassigned i p = (if p = Some i then None else p)"

definition delete_project :: "string \<Rightarrow> db \<Rightarrow> db \<times> mock_reply" where
  "delete_project i d =
     (d\<lparr>db_projects := splice_first (\<lambda>p. pr_id p = i) (db_projects d),
        db_agents := map (\<lambda>a. a\<lparr>ag_projectId := unassigned i (ag_projectId a)\<rparr>) (db_agents d),
        db_monitors := map (\<lambda>m. m\<lparr>um_projectId := unassigned i (um_projectId m)\<rparr>) (db_monitors d),
        db_observed := map (\<lambda>s. s\<lparr>os_projectId := unassigned i (os_projectId s)\<rparr>) (db_observed d),
        db_infrastructure := map (\<lambda>r. r\<lparr>ir_projectId := unassigned i (ir_projectId r)\<rparr>) (db_infrastructure d)\<rparr>, Undefined)"

section \<open>Uptime monitors\<close>

definition create_monitor :: "ctx \<Rightarrow> json \<Rightarrow> db \<Rightarrow> db \<times> mock_reply" where
  "create_monitor c parsed d =
     (let m = \<lparr>um_id = new_id ''uptime_mock_'' c, um_name = or_default (get_str parsed ''name'') ([CHR 0xEC, CHR 0x83, CHR 0x88] @ '' '' @ [CHR 0xEC, CHR 0x97, CHR 0x85, CHR 0xED, CHR 0x83, CHR 0x80, CHR 0xEC, CHR 0x9E, CHR 0x84]),
               um_projectId = None, um_type = (if get_str parsed ''type'' = Some ''tcp'' then M_tcp else M_http),
               um_isActive = or_default (get_bool parsed ''isActive'') True,
               um_url = (case get_str parsed ''url'' of Some u \<Rightarrow> u | None \<Rightarrow> or_default (get_str parsed ''host'') []),
               um_port = get_int parsed ''port'', um_method = or_default (get_str parsed ''method'') ''GET'',
               um_expectedStatus = or_default (get_int parsed ''expectedStatus'') 200,
               um_timeout = or_default (get_int parsed ''timeout'') 5000,
               um_interval = or_default (get_int parsed ''interval'') 30,
               um_status = S_unknown, um_lastCheckAt = None, um_uptime = None, um_responseTime = None,
               um_latencyHistory = None, um_certExpiresAt = None\<rparr>
      in (d\<lparr>db_monitors := db_monitors d @ [m]\<rparr>, R_monitor m))"

text \<open>\<open>Object.assign(monitor, parsed)\<close>: a \<open>host\<close> property is no property of a monitor's type.\<close>

definition assign_monitor :: "json \<Rightarrow> uptime_monitor \<Rightarrow> uptime_monitor" where
  "assign_monitor parsed m =
     m\<lparr>um_id := copied as_str parsed ''id'' (um_id m),
       um_name := copied as_str parsed ''name'' (um_name m),
       um_projectId := copied_opt as_str parsed ''projectId'' (um_projectId m),
       um_type := copied (as_member uptime_monitor_type_text [M_http, M_tcp]) parsed ''type'' (um_type m),
       um_isActive := copied as_bool parsed ''isActive'' (um_isActive m),
       um_url := copied as_str parsed ''url'' (um_url m),
       um_port := copied_opt as_int parsed ''port'' (um_port m),
       um_method := copied as_str parsed ''method'' (um_method m),
       um_expectedStatus := copied as_int parsed ''expectedStatus'' (um_expectedStatus m),
       um_timeout := copied as_int parsed ''timeout'' (um_timeout m),
       um_interval := copied as_int parsed ''interval'' (um_interval m),
       um_status := copied (as_member uptime_monitor_status_text [S_healthy, S_unhealthy, S_unknown]) parsed ''status'' (um_status m),
       um_lastCheckAt := copied_opt as_str parsed ''lastCheckAt'' (um_lastCheckAt m),
       um_uptime := copied_opt as_rat parsed ''uptime'' (um_uptime m),
       um_responseTime := copied_opt as_rat parsed ''responseTime'' (um_responseTime m),
       um_latencyHistory := copied_opt (as_list as_rat) parsed ''latencyHistory'' (um_latencyHistory m),
       um_certExpiresAt := copied_opt as_str parsed ''certExpiresAt'' (um_certExpiresAt m)\<rparr>"

definition update_monitor :: "string \<Rightarrow> json \<Rightarrow> db \<Rightarrow> db \<times> mock_reply" where
  "update_monitor i parsed d =
     (d\<lparr>db_monitors := update_first (\<lambda>m. um_id m = i) (assign_monitor parsed) (db_monitors d)\<rparr>,
      reply_or_undefined R_monitor (map_option (assign_monitor parsed) (find (\<lambda>m. um_id m = i) (db_monitors d))))"

definition delete_monitor :: "string \<Rightarrow> db \<Rightarrow> db \<times> mock_reply" where
  "delete_monitor i d = (d\<lparr>db_monitors := splice_first (\<lambda>m. um_id m = i) (db_monitors d)\<rparr>, Undefined)"

section \<open>Agents\<close>

definition join_code :: "ctx \<Rightarrow> agent_join_code" where
  "join_code c = \<lparr>jc_joinCode = ''evup_join_'' @ ctx_random c 16, jc_expiresAt = iso_string (ctx_now c + 10 * 60000)\<rparr>"

definition create_agent :: "ctx \<Rightarrow> json \<Rightarrow> db \<Rightarrow> db \<times> mock_reply" where
  "create_agent c parsed d =
     (let name = (if truthy (get_str parsed ''name'') then the (get_str parsed ''name'') else ''new-service'');
          profile = normalizeMockAgentProfile (map_option profile_of_json (jget parsed ''profile''));
          i = new_id ''agent_mock_'' c;
          a = \<lparr>ag_id = i, ag_name = name, ag_projectId = None, ag_version = None, ag_lastSeenAt = now_iso c,
               ag_createdAt = now_iso c, ag_updatedAt = now_iso c, ag_profile = Some profile, ag_capabilities = None\<rparr>
      in (d\<lparr>db_agents := db_agents d @ [a]\<rparr>,
          R_createdAgent (agent_join_code.extend (join_code c) (created_agent.fields i name profile))))"

definition delete_agent :: "string \<Rightarrow> db \<Rightarrow> db \<times> mock_reply" where
  "delete_agent i d = (d\<lparr>db_agents := splice_first (\<lambda>a. ag_id a = i) (db_agents d)\<rparr>, Null)"

definition delete_service :: "string \<Rightarrow> string \<Rightarrow> db \<Rightarrow> db \<times> (thrown + mock_reply)" where
  "delete_service a k d =
     (case decode_key k of
        Inl e \<Rightarrow> (d, Inl e)
      | Inr key \<Rightarrow> (d\<lparr>db_services := splice_first (\<lambda>s. sv_agentId s = a \<and> sv_key s = key) (db_services d)\<rparr>, Inr Null))"

definition echo_levels :: "json \<Rightarrow> mock_reply" where
  "echo_levels parsed = R_levels (or_default (get_strings parsed ''levels'') [])"

section \<open>Dispatch\<close>

text \<open>\<open>const m = endpoint.match(pat); if (guard && m) return k(m);\<close> and then \<open>rest\<close>.\<close>

definition on_match :: "bool \<Rightarrow> string list option \<Rightarrow> (string list \<Rightarrow> 'r) \<Rightarrow> 'r \<Rightarrow> 'r" where
  "on_match guard m k rest = (if guard then (case m of Some cs \<Rightarrow> k cs | None \<Rightarrow> rest) else rest)"

lemma on_match_simps [simp]:
  "on_match False m k rest = rest" "on_match g None k rest = rest" "on_match True (Some cs) k rest = k cs"
  by (simp_all add: on_match_def)

definition ok :: "db \<times> mock_reply \<Rightarrow> db \<times> (thrown + mock_reply)" where
  "ok r = (fst r, Inr (snd r))"

definition project_pat :: "path_item list" where
  "project_pat = [Lit ''/projects/'', seg, End]"

definition project_member_pat :: "path_item list" where
  "project_member_pat = [Lit ''/projects/'', seg, Lit ''/'', Alt [''agents'', ''monitors''], Lit ''/'', seg, End]"

definition observed_pat :: "path_item list" where
  "observed_pat = [Lit ''/observed-services/'', seg, End]"

definition observed_filter_pat :: "path_item list" where
  "observed_filter_pat = [Lit ''/observed-services/'', seg, Lit ''/log-filter'', End]"

definition observed_exclusions_pat :: "path_item list" where
  "observed_exclusions_pat = [Lit ''/observed-services/'', seg, Lit ''/api-exclusions'', End]"

definition observed_rotate_pat :: "path_item list" where
  "observed_rotate_pat = [Lit ''/observed-services/'', seg, Lit ''/rotate-key'', End]"

definition observed_revoke_pat :: "path_item list" where
  "observed_revoke_pat = [Lit ''/observed-services/'', seg, Lit ''/revoke-key'', End]"

definition infrastructure_pat :: "path_item list" where
  "infrastructure_pat = [Lit ''/infrastructure-resources/'', seg, End]"

definition infrastructure_rotate_pat :: "path_item list" where
  "infrastructure_rotate_pat = [Lit ''/infrastructure-resources/'', seg, Lit ''/rotate-key'', End]"

definition infrastructure_revoke_pat :: "path_item list" where
  "infrastructure_revoke_pat = [Lit ''/infrastructure-resources/'', seg, Lit ''/revoke-key'', End]"

definition monitor_pat :: "path_item list" where
  "monitor_pat = [Lit ''/services/'', seg, End]"

definition agent_pat :: "path_item list" where
  "agent_pat = [Lit ''/agents/'', seg, End]"

definition join_code_pat :: "path_item list" where
  "join_code_pat = [Lit ''/agents/'', seg, Lit ''/join-code'', End]"

definition agent_rotate_pat :: "path_item list" where
  "agent_rotate_pat = [Lit ''/agents/'', seg, Lit ''/rotate-key'', End]"

definition agent_service_pat :: "path_item list" where
  "agent_service_pat = [Lit ''/agents/'', seg, Lit ''/services/'', seg, End]"

definition service_filter_pat :: "path_item list" where
  "service_filter_pat = [Lit ''/agents/'', seg, Lit ''/services/'', seg, Lit ''/log-filter'', End]"

lemmas path_pats = project_pat_def project_member_pat_def observed_pat_def observed_filter_pat_def observed_exclusions_pat_def observed_rotate_pat_def observed_revoke_pat_def infrastructure_pat_def infrastructure_rotate_pat_def infrastructure_revoke_pat_def monitor_pat_def agent_pat_def join_code_pat_def agent_rotate_pat_def agent_service_pat_def service_filter_pat_def

definition mutation :: "ctx \<Rightarrow> string \<Rightarrow> string \<Rightarrow> json option \<Rightarrow> db \<Rightarrow> db \<times> (thrown + mock_reply)" where
  "mutation c method e body d =
     (let j = parsed_body body in
      if method = ''POST'' \<and> e = ''/infrastructure-resources'' then ok (create_resource c j d) else
      on_match (method = ''POST'') (path_match infrastructure_rotate_pat e) (\<lambda>cs. ok (rotate_resource c (cs ! 0) d)) (
      on_match (method = ''POST'') (path_match infrastructure_revoke_pat e) (\<lambda>cs. ok (revoke_resource (cs ! 0) d)) (
      on_match (method = ''PUT'') (path_match infrastructure_pat e) (\<lambda>cs. ok (update_resource c (cs ! 0) j d)) (
      on_match (method = ''DELETE'') (path_match infrastructure_pat e) (\<lambda>cs. ok (delete_resource (cs ! 0) d)) (
      if method = ''POST'' \<and> e = ''/observed-services'' then ok (create_observed c j d) else
      on_match (method = ''POST'') (path_match observed_rotate_pat e) (\<lambda>cs. ok (rotate_observed c (cs ! 0) d)) (
      on_match (method = ''POST'') (path_match observed_revoke_pat e) (\<lambda>cs. ok (revoke_observed (cs ! 0) d)) (
      on_match (method = ''PUT'') (path_match observed_filter_pat e) (\<lambda>cs. ok (set_log_filter (cs ! 0) j d)) (
      on_match (method = ''PUT'') (path_match observed_exclusions_pat e) (\<lambda>cs. ok (set_api_exclusions (cs ! 0) j d)) (
      on_match (method = ''PUT'') (path_match observed_pat e) (\<lambda>cs. ok (update_observed c (cs ! 0) j d)) (
      on_match (method = ''DELETE'') (path_match observed_pat e) (\<lambda>cs. ok (delete_observed (cs ! 0) d)) (
      if method = ''POST'' \<and> e = ''/projects'' then ok (create_project c j d) else
      on_match (method = ''PUT'') (path_match project_member_pat e) (\<lambda>cs. ok (assign_member (cs ! 1) (cs ! 2) (Some (cs ! 0)) d)) (
      on_match (method = ''DELETE'') (path_match project_member_pat e) (\<lambda>cs. ok (assign_member (cs ! 1) (cs ! 2) None d)) (
      on_match (method = ''PUT'') (path_match project_pat e) (\<lambda>cs. ok (update_project c (cs ! 0) j d)) (
      on_match (method = ''DELETE'') (path_match project_pat e) (\<lambda>cs. ok (delete_project (cs ! 0) d)) (
      if method = ''POST'' \<and> e = ''/services'' then ok (create_monitor c j d) else
      on_match (method = ''PUT'') (path_match monitor_pat e) (\<lambda>cs. ok (update_monitor (cs ! 0) j d)) (
      on_match (method = ''DELETE'') (path_match monitor_pat e) (\<lambda>cs. ok (delete_monitor (cs ! 0) d)) (
      if method = ''POST'' \<and> e = ''/agents'' then ok (create_agent c j d) else
      on_match (method = ''POST'') (path_match join_code_pat e) (\<lambda>cs. (d, Inr (R_joinCode (join_code c)))) (
      on_match (method = ''POST'') (path_match agent_rotate_pat e) (\<lambda>cs. (d, Inr (R_apiKey (''evup_svc_'' @ ctx_random c 24)))) (
      on_match (method = ''DELETE'') (path_match agent_pat e) (\<lambda>cs. ok (delete_agent (cs ! 0) d)) (
      on_match (method = ''DELETE'') (path_match agent_service_pat e) (\<lambda>cs. delete_service (cs ! 0) (cs ! 1) d) (
      on_match (method = ''PUT'') (path_match service_filter_pat e) (\<lambda>cs. (d, Inr (echo_levels j))) (
      (d, Inr Null)))))))))))))))))))))))"

end
