(* ===== verification/EU_RouterGet.thy ===== *)
theory EU_RouterGet imports EU_Router
begin

text \<open>
  The demo server as a whole, \<open>mockRouter\<close> in \<open>services/mockRouter.ts\<close> lines 1115-1636:
  instrumentation runs, setup status, the requests of \<open>EU_Router\<close>, and the reads.

  A read is a definition from the fixtures, the request's context and the state to the value
  returned or thrown. \<open>when_path p e\<close> is \<open>p.test(e)\<close>, \<open>on_match\<close> an \<open>endpoint.match\<close>; the
  reads follow in the code's order, in four groups (collectors and targets, direct services,
  monitors and traces, Docker services), each taking what follows it as its last argument.
\<close>

section \<open>Helpers\<close>

definition when_path :: "path_item list \<Rightarrow> string \<Rightarrow> bool" where
  "when_path p e \<longleftrightarrow> path_match p e \<noteq> None"

definition ends_with :: "string \<Rightarrow> string \<Rightarrow> bool" where
  "ends_with e s \<longleftrightarrow> drop (length e - length s) e = s"

definition reply :: "('a \<Rightarrow> mock_reply) \<Rightarrow> thrown + 'a \<Rightarrow> thrown + mock_reply" where
  "reply f r = and_then r (\<lambda>x. Inr (f x))"

definition telemetry_names :: "demo_telemetry option \<Rightarrow> otel_metric_name list" where
  "telemetry_names d = (case d of Some t \<Rightarrow> dt_metricNames t | None \<Rightarrow> [])"

text \<open>\<open>data?.metricPoints[new URLSearchParams(...).get('name') ?? ''] ?? []\<close>.\<close>

definition named_points :: "demo_telemetry option \<Rightarrow> string \<Rightarrow> otel_metric_point list" where
  "named_points d e =
     (case d of None \<Rightarrow> []
      | Some t \<Rightarrow> or_default (map_of (dt_metricPoints t) (or_default (sp_get (endpoint_query e) ''name'') [])) [])"

definition metric_query_at :: "fixtures \<Rightarrow> string \<Rightarrow> thrown + mock_reply" where
  "metric_query_at fx e =
     and_then (endpointTelemetry fx e) (\<lambda>d. reply R_metricQuery (mockMetricQuery (named_points d e) (endpoint_query e)))"

definition quantiles_at :: "fixtures \<Rightarrow> string \<Rightarrow> thrown + mock_reply" where
  "quantiles_at fx e =
     and_then (endpointTelemetry fx e) (\<lambda>d. case d of
         None \<Rightarrow> Inr Null
       | Some t \<Rightarrow> reply R_quantiles
           (telemetryQuantiles t (or_default (sp_get (endpoint_query e) ''name'') []) (endpoint_query e)))"

definition points_at :: "fixtures \<Rightarrow> string \<Rightarrow> thrown + mock_reply" where
  "points_at fx e = reply (\<lambda>d. R_points (named_points d e)) (endpointTelemetry fx e)"

definition names_at :: "fixtures \<Rightarrow> string \<Rightarrow> thrown + mock_reply" where
  "names_at fx e = reply (\<lambda>d. R_metricNames (telemetry_names d)) (endpointTelemetry fx e)"

definition logs_at :: "fixtures \<Rightarrow> string \<Rightarrow> thrown + mock_reply" where
  "logs_at fx e = reply (\<lambda>d. R_logs (pageMockRows (filterMockLogs (telemetry_logs d) e) e)) (endpointTelemetry fx e)"

definition histogram_at :: "fixtures \<Rightarrow> string \<Rightarrow> thrown + mock_reply" where
  "histogram_at fx e = reply (\<lambda>d. R_histogram (mockLogHistogram fx (telemetry_logs d) e)) (endpointTelemetry fx e)"

definition traces_at :: "fixtures \<Rightarrow> string \<Rightarrow> thrown + mock_reply" where
  "traces_at fx e = reply R_traces (scopedTraceList fx e)"

definition requests_at :: "fixtures \<Rightarrow> db \<Rightarrow> string \<Rightarrow> thrown + mock_reply" where
  "requests_at fx d e = reply (\<lambda>rows. R_requests (pageMockRows rows e)) (endpointRequests fx d e)"

definition stats_at :: "fixtures \<Rightarrow> db \<Rightarrow> string \<Rightarrow> thrown + mock_reply" where
  "stats_at fx d e = and_then (endpointRequests fx d e) (\<lambda>rows. reply R_stats (mockRequestStats fx rows e))"

definition status_summary_at :: "fixtures \<Rightarrow> db \<Rightarrow> string \<Rightarrow> thrown + mock_reply" where
  "status_summary_at fx d e = reply R_statusSummary (mockRequestStatusSummary fx d e)"

text \<open>\<open>points[name].slice(-1)[0]?.value ?? 0\<close>: no entry for the name throws.\<close>

definition latest_value :: "demo_telemetry \<Rightarrow> string \<Rightarrow> thrown + rat" where
  "latest_value t name =
     (case map_of (dt_metricPoints t) name of
        None \<Rightarrow> Inl (type_error ''slice'')
      | Some ps \<Rightarrow> Inr (if ps = [] then 0 else mp_value (last ps)))"

definition service_metric :: "string option \<Rightarrow> string \<Rightarrow> demo_telemetry \<Rightarrow> otel_metric_name \<Rightarrow> thrown + otel_service_metric" where
  "service_metric i name t m =
     and_then (latest_value t (mn_metricName m)) (\<lambda>v.
       Inr \<lparr>sm_serviceId = i, sm_serviceName = name, sm_metricName = mn_metricName m,
            sm_metricType = metric_type_text (mn_metricType m), sm_unit = mn_unit m, sm_value = v\<rparr>)"

definition service_metrics :: "(string option \<times> string \<times> demo_telemetry option) list \<Rightarrow> thrown + otel_service_metric list" where
  "service_metrics rows =
     map_try (\<lambda>(i, name, t, m). service_metric i name t m)
       (concat (map (\<lambda>(i, name, data).
          case data of None \<Rightarrow> [] | Some t \<Rightarrow> map (\<lambda>m. (i, name, t, m)) (dt_metricNames t)) rows))"

section \<open>Collectors and targets\<close>

definition latest_run :: "string \<Rightarrow> string \<Rightarrow> db \<Rightarrow> mock_reply" where
  "latest_run agentId i d =
     reply_or_null R_run
       (if i = ''latest'' then find (\<lambda>r. run_agentId r = agentId) (rev (map snd (db_runs d))) else map_of (db_runs d) i)"

text \<open>\<open>[...capabilities].sort().join(',')\<close> of \<open>setup-status\<close>.\<close>

definition profile_hash :: "agent_profile \<Rightarrow> string" where
  "profile_hash p = join_with '','' (sort_by (by_key (\<lambda>x. x)) (map agent_collection_capability_text (pf_capabilities p)))"

definition input_of_profile :: "agent_profile \<Rightarrow> profile_input" where
  "input_of_profile p =
     \<lparr>pin_kind = Some (agent_profile_kind_text (pf_kind p)),
      pin_capabilities = Some (map agent_collection_capability_text (pf_capabilities p))\<rparr>"

definition setup_status :: "ctx \<Rightarrow> db \<Rightarrow> connected_agent \<Rightarrow> collector_setup_status" where
  "setup_status c d agent =
     (let profile = normalizeMockAgentProfile (map_option input_of_profile (ag_profile agent));
          known = truthy (ag_version agent);
          connected = (known \<and> (case date_parse (ag_lastSeenAt agent) of Some t \<Rightarrow> ctx_now c - t < 120000 | None \<Rightarrow> False));
          desired = profile_hash profile;
          applied = (if known \<and> ag_id agent \<notin> set (db_pendingProfiles d) then desired else [])
      in \<lparr>css_connected = connected, css_lastContactAt = (if known then Some (ag_lastSeenAt agent) else None),
          css_lastEnrolledAt = None, css_desiredHash = desired, css_appliedHash = applied,
          css_configApplied = (connected \<and> desired = applied), css_profile = profile,
          css_signals = (if known then map (\<lambda>cap.
              \<lparr>sr_serviceName = ''api'',
               sr_signal = (if cap = Cap_api then ''traces'' else agent_collection_capability_text cap),
               sr_firstReceivedAt = ag_createdAt agent, sr_lastReceivedAt = ag_lastSeenAt agent\<rparr>) (pf_capabilities profile)
            else [])\<rparr>)"

definition collector_setup :: "fixtures \<Rightarrow> ctx \<Rightarrow> db \<Rightarrow> string \<Rightarrow> thrown + mock_reply" where
  "collector_setup fx c d i =
     and_then (scenarioAgents fx d (ctx_now c) (ctx_scenario c)) (\<lambda>agents.
       case find (\<lambda>a. ag_id a = i) agents of
         None \<Rightarrow> Inl environment_missing
       | Some agent \<Rightarrow> Inr (R_setup (setup_status c d agent)))"

definition receipts :: "string option \<Rightarrow> string \<Rightarrow> string list \<Rightarrow> string \<Rightarrow> signal_receipt list" where
  "receipts seen name signals created =
     (if truthy seen
      then map (\<lambda>s. \<lparr>sr_serviceName = name, sr_signal = s, sr_firstReceivedAt = created, sr_lastReceivedAt = the seen\<rparr>) signals
      else [])"

definition direct_setup :: "fixtures \<Rightarrow> ctx \<Rightarrow> db \<Rightarrow> string \<Rightarrow> string \<Rightarrow> thrown + mock_reply" where
  "direct_setup fx c d kind i =
     (if kind = ''infrastructure-resources''
      then reply (\<lambda>rs. R_receipts (case find (\<lambda>r. ir_id r = i) rs of None \<Rightarrow> []
             | Some r \<Rightarrow> receipts (ir_lastSeenAt r) (ir_name r) [''infrastructure''] (ir_createdAt r)))
           (scenarioInfrastructureResources fx d (ctx_now c) (ctx_scenario c))
      else reply (\<lambda>ss. R_receipts (case find (\<lambda>s. os_id s = i) ss of None \<Rightarrow> []
             | Some s \<Rightarrow> receipts (os_lastSeenAt s) (os_name s)
                 (case find (\<lambda>s. os_id s = i) (db_observed d) of
                    Some s \<Rightarrow> map telemetry_signal_text (os_signals s) | None \<Rightarrow> []) (os_createdAt s)))
           (scenarioObservedServices fx d (ctx_now c) (ctx_scenario c)))"

definition assigned :: "('a \<Rightarrow> string option) \<Rightarrow> string \<Rightarrow> 'a list \<Rightarrow> int" where
  "assigned projectId i xs = int (length (filter (\<lambda>x. projectId x = Some i) xs))"

definition project_counts ::
  "connected_agent list \<Rightarrow> uptime_monitor list \<Rightarrow> observed_service list \<Rightarrow> infrastructure_resource list \<Rightarrow> project \<Rightarrow> project" where
  "project_counts agents monitors observed infrastructure p =
     p\<lparr>pr_agentCount := assigned ag_projectId (pr_id p) agents,
       pr_monitorCount := assigned um_projectId (pr_id p) monitors,
       pr_observedServiceCount := assigned os_projectId (pr_id p) observed,
       pr_infrastructureResourceCount := assigned ir_projectId (pr_id p) infrastructure\<rparr>"

definition get_projects :: "fixtures \<Rightarrow> ctx \<Rightarrow> db \<Rightarrow> thrown + mock_reply" where
  "get_projects fx c d =
     (if ctx_scenario c = Scen_empty then Inr (R_projects [])
      else and_then (scenarioAgents fx d (ctx_now c) (ctx_scenario c)) (\<lambda>agents.
           and_then (scenarioObservedServices fx d (ctx_now c) (ctx_scenario c)) (\<lambda>observed.
           and_then (scenarioInfrastructureResources fx d (ctx_now c) (ctx_scenario c)) (\<lambda>infrastructure.
           Inr (R_projects (map (project_counts agents (scenarioMonitors fx d (ctx_scenario c)) observed infrastructure)
                             (db_projects d)))))))"

definition agent_resource :: "fixtures \<Rightarrow> db \<Rightarrow> connected_agent \<Rightarrow> infrastructure_resource" where
  "agent_resource fx d a =
     (let info = mockHostInfo fx d (ag_id a) in
      \<lparr>ir_id = ag_id a, ir_name = ag_name a, ir_projectId = ag_projectId a, ir_adapter = Ad_everyup_agent,
       ir_isActive = True, ir_apiKeyMasked = None, ir_lastSeenAt = Some (ag_lastSeenAt a),
       ir_cpuUsage = Some (cpu_usage (si_cpu info)), ir_memoryUsage = Some (mem_usage (si_memory info)),
       ir_diskUsage = Some (disk_usage (si_disk info)), ir_createdAt = ag_createdAt a, ir_updatedAt = ag_updatedAt a\<rparr>)"

definition collects_infrastructure :: "connected_agent \<Rightarrow> bool" where
  "collects_infrastructure a \<longleftrightarrow>
     truthy (ag_version a) \<and> (case ag_profile a of Some p \<Rightarrow> Cap_infrastructure \<in> set (pf_capabilities p) | None \<Rightarrow> False)"

definition get_infrastructure :: "fixtures \<Rightarrow> ctx \<Rightarrow> db \<Rightarrow> thrown + mock_reply" where
  "get_infrastructure fx c d =
     and_then (scenarioAgents fx d (ctx_now c) (ctx_scenario c)) (\<lambda>agents.
     and_then (scenarioInfrastructureResources fx d (ctx_now c) (ctx_scenario c)) (\<lambda>rs.
       Inr (R_resources (rs @ map (agent_resource fx d) (filter collects_infrastructure agents)))))"

definition find_reply :: "('a \<Rightarrow> mock_reply) \<Rightarrow> ('a \<Rightarrow> bool) \<Rightarrow> thrown + 'a list \<Rightarrow> thrown + mock_reply" where
  "find_reply f p r = reply (\<lambda>xs. reply_or_null f (find p xs)) r"

definition observed_in :: "fixtures \<Rightarrow> ctx \<Rightarrow> db \<Rightarrow> thrown + observed_service list" where
  "observed_in fx c d = scenarioObservedServices fx d (ctx_now c) (ctx_scenario c)"

definition services_in :: "fixtures \<Rightarrow> ctx \<Rightarrow> db \<Rightarrow> thrown + agent_service_flat list" where
  "services_in fx c d = scenarioServices fx d (ctx_now c) (ctx_scenario c)"

definition metric_observed :: "fixtures \<Rightarrow> observed_service list \<Rightarrow> (string option \<times> string \<times> demo_telemetry option) list" where
  "metric_observed fx xs =
     map (\<lambda>s. (Some (os_id s), os_name s, map_of (fx_telemetry fx) (os_id s)))
       (filter (\<lambda>s. Sig_metrics \<in> set (os_signals s)) xs)"

definition catalog_of :: "(string option \<times> string \<times> demo_telemetry option) list \<Rightarrow> observed_service_metric_name list" where
  "catalog_of rows =
     concat (map (\<lambda>(i, _, data).
       map (\<lambda>m. otel_metric_name.extend (m\<lparr>mn_lastReceivedAt := Some (mn_lastAt m)\<rparr>)
                  (observed_service_metric_name.fields (or_default i []))) (telemetry_names data)) rows)"

section \<open>Direct services\<close>

definition observed_tail :: "path_item list \<Rightarrow> path_item list" where
  "observed_tail items = Lit ''/observed-services/'' # seg # items"

definition metric_health :: "ctx \<Rightarrow> demo_telemetry option \<Rightarrow> otel_metric_health" where
  "metric_health c data =
     \<lparr>mh_metrics = map (\<lambda>m. m\<lparr>mn_lastReceivedAt := Some (mn_lastAt m), mn_freshSeries := Some 1\<rparr>) (telemetry_names data),
      mh_checkedAt = now_iso c, mh_freshnessSeconds = 300\<rparr>"

definition observed_reads ::
  "fixtures \<Rightarrow> ctx \<Rightarrow> db \<Rightarrow> string \<Rightarrow> thrown + mock_reply \<Rightarrow> thrown + mock_reply" where
  "observed_reads fx c d e rest =
     (if e = ''/observed-services/metric-catalog''
      then reply (\<lambda>xs. R_catalog (catalog_of (metric_observed fx xs))) (observed_in fx c d)
      else if e = ''/observed-services/service-metrics''
      then and_then (observed_in fx c d) (\<lambda>xs. reply R_serviceMetrics (service_metrics (metric_observed fx xs)))
      else if when_path (observed_tail [Lit ''/logs'', EndOrQuery]) e then logs_at fx e
      else if when_path (observed_tail [Lit ''/log-histogram'']) e then histogram_at fx e
      else on_match True (path_match (observed_tail [Lit ''/log-filter'', End]) e)
        (\<lambda>cs. Inr (R_levels (or_default (map_of (db_logFilters d) (cs ! 0)) []))) (
      if when_path (observed_tail [Lit ''/traces'']) e then traces_at fx e
      else if ends_with e ''/otel-metrics/health'' then reply (\<lambda>t. R_metricHealth (metric_health c t)) (endpointTelemetry fx e)
      else if when_path (observed_tail [Lit ''/otel-metrics/query'']) e then metric_query_at fx e
      else if when_path (observed_tail [Lit ''/otel-metrics/quantiles'']) e then quantiles_at fx e
      else if when_path (observed_tail [Lit ''/otel-metrics/points'']) e then points_at fx e
      else if when_path (observed_tail [Lit ''/otel-metrics'']) e then names_at fx e
      else if when_path (observed_tail [Lit ''/requests'', EndOrQuery]) e then requests_at fx d e
      else if when_path (observed_tail [Lit ''/request-stats'']) e then stats_at fx d e
      else if when_path (observed_tail [Lit ''/request-status-summary'']) e then status_summary_at fx d e
      else on_match True (path_match (observed_tail [Lit ''/api-exclusions'', End]) e)
        (\<lambda>cs. Inr (R_paths (or_default (map_of (db_apiExclusions d) (cs ! 0)) []))) (
      on_match True (path_match [Lit ''/observed-services/'', segq, End] e)
        (\<lambda>cs. find_reply R_observed (\<lambda>s. os_id s = cs ! 0) (observed_in fx c d)) (
      if starts_with ''/observed-services'' e
      then reply (\<lambda>xs. R_observedList (filter (\<lambda>s.
             when_set (sp_get (endpoint_query e) ''signal'') (\<lambda>v. v \<in> telemetry_signal_text ` set (os_signals s))) xs))
             (observed_in fx c d)
      else rest))))"

section \<open>Monitors and traces\<close>

definition uptime_pat :: "path_item list" where
  "uptime_pat = [Lit ''/services/'', seg, Lit ''/'',
     Alt [''metrics/summary'', ''metrics/history'', ''metrics'', ''uptime'', ''failures'', ''incidents''], EndOrQuery]"

definition uptime_data :: "fixtures \<Rightarrow> string \<Rightarrow> string \<Rightarrow> string \<Rightarrow> thrown + mock_reply" where
  "uptime_data fx e i part =
     (let data = map_of (fx_monitorData fx) i;
          metrics = (case data of Some md \<Rightarrow> md_metrics md | None \<Rightarrow> [])
      in if part = ''metrics/summary''
         then Inr (if metrics \<noteq> [] then R_summary (md_summary (the data)) else Null)
         else if part = ''metrics/history''
         then reply R_history (and_then (mockUptimeBuckets fx (or_default (sp_get (endpoint_query e) ''range'') ''24h'') metrics)
                                 (\<lambda>ps. Inr (Some ps)))
         else if part = ''metrics'' then Inr (R_checks metrics)
         else if part = ''uptime''
         then Inr (R_uptime (case data of Some md \<Rightarrow> md_history md | None \<Rightarrow> \<lparr>umh_percentage = 100, umh_days = []\<rparr>))
         else if part = ''failures'' then Inr (R_checks (case data of Some md \<Rightarrow> md_failures md | None \<Rightarrow> []))
         else Inr (R_timeline (case data of Some md \<Rightarrow> md_incidents md | None \<Rightarrow> [])))"

definition trace_at :: "fixtures \<Rightarrow> string \<Rightarrow> thrown + mock_reply" where
  "trace_at fx raw =
     and_then (decode_key raw) (\<lambda>i.
       Inr (R_trace (case find (\<lambda>t. td_traceId t = i) (concat (map (\<lambda>(_, t). dt_traces t) (fx_telemetry fx))) of
              Some t \<Rightarrow> t
            | None \<Rightarrow> \<lparr>td_traceId = i, td_spans = [], td_logs = [], td_apiRequests = []\<rparr>)))"

definition overview_in :: "fixtures \<Rightarrow> ctx \<Rightarrow> agent_overview list" where
  "overview_in fx c =
     (if ctx_scenario c = Scen_empty then []
      else map (\<lambda>r. r\<lparr>ao_activeIncidents := (if ctx_scenario c = Scen_normal then 0 else ao_activeIncidents r)\<rparr>) (fx_overview fx))"

definition log_scopes_in :: "fixtures \<Rightarrow> ctx \<Rightarrow> db \<Rightarrow> thrown + log_scope list" where
  "log_scopes_in fx c d =
     and_then (services_in fx c d) (\<lambda>ss. and_then (observed_in fx c d) (\<lambda>os. Inr (mockLogScopes fx ss os)))"

definition monitor_reads ::
  "fixtures \<Rightarrow> ctx \<Rightarrow> db \<Rightarrow> string \<Rightarrow> thrown + mock_reply \<Rightarrow> thrown + mock_reply" where
  "monitor_reads fx c d e rest =
     (if e = ''/services?type=http,tcp'' then Inr (R_monitors (scenarioMonitors fx d (ctx_scenario c)))
      else if e = ''/logs/summary'' then reply (\<lambda>s. R_logSummary (mockLogSummary fx s)) (log_scopes_in fx c d)
      else if starts_with ''/logs/patterns'' e
      then reply (\<lambda>s. R_logPatterns (mockLogPatterns fx s (or_default (sp_get (endpoint_query e) ''agentId'') [])))
             (log_scopes_in fx c d)
      else on_match True (path_match uptime_pat e) (\<lambda>cs. uptime_data fx e (cs ! 0) (cs ! 1)) (
      on_match True (path_match [Lit ''/services/'', segq, End] e)
        (\<lambda>cs. Inr (reply_or_null R_monitor (find (\<lambda>m. um_id m = cs ! 0) (db_monitors d)))) (
      on_match True (path_match [Lit ''/traces/'', segq] e) (\<lambda>cs. trace_at fx (cs ! 0)) (
      if starts_with ''/incidents/timeline'' e
      then reply R_timeline (scenarioTimeline fx d (ctx_now c) (ctx_scenario c))
      else if e = ''/agents/services/all'' then reply R_services (services_in fx c d)
      else if e = ''/agents/overview'' then Inr (R_overview (overview_in fx c))
      else rest))))"

section \<open>Docker services\<close>

definition agent_tail :: "path_item list \<Rightarrow> path_item list" where
  "agent_tail items = Lit ''/agents/'' # seg # items"

definition service_tail :: "path_item list \<Rightarrow> path_item list" where
  "service_tail items = Lit ''/agents/'' # seg # Lit ''/services/'' # seg # items"

definition service_events :: "fixtures \<Rightarrow> string \<Rightarrow> thrown + mock_reply" where
  "service_events fx e =
     (let own = filter (\<lambda>r. ae_agentId r = endpoint_part e 2) (fx_events fx) in
      if own = [] then Inr (R_events [])
      else reply (\<lambda>t. R_events (filter (\<lambda>r. ae_serviceName r =
             (case telemetry_logs t of l # _ \<Rightarrow> log_serviceName l | [] \<Rightarrow> None)) own)) (endpointTelemetry fx e))"

definition services_of :: "fixtures \<Rightarrow> ctx \<Rightarrow> db \<Rightarrow> string \<Rightarrow> thrown + mock_reply" where
  "services_of fx c d raw =
     and_then (decode_key raw) (\<lambda>a. reply (\<lambda>ss. R_services (filter (\<lambda>s. sv_agentId s = a) ss)) (services_in fx c d))"

definition agent_events_of :: "agent_event list \<Rightarrow> string \<Rightarrow> mock_reply" where
  "agent_events_of rows e = R_events (filter (\<lambda>r. ae_agentId r = endpoint_part e 2) rows)"

definition agent_incidents :: "fixtures \<Rightarrow> ctx \<Rightarrow> string \<Rightarrow> thrown + mock_reply" where
  "agent_incidents fx c e =
     reply R_incidents (map_try (\<lambda>i.
         and_then (fixtureTime fx (ctx_now c) (ai_startedAt i)) (\<lambda>s.
         and_then (fixture_opt fx (ctx_now c) (ai_endedAt i)) (\<lambda>t.
         Inr (i\<lparr>ai_startedAt := s, ai_endedAt := t\<rparr>))))
       (filter (\<lambda>i. ai_agentId i = Some (endpoint_part e 2) \<and> (ctx_scenario c \<noteq> Scen_normal \<or> \<not> ai_active i)) (fx_incidents fx)))"

definition agent_service_metrics :: "fixtures \<Rightarrow> ctx \<Rightarrow> db \<Rightarrow> string \<Rightarrow> thrown + mock_reply" where
  "agent_service_metrics fx c d e =
     and_then (services_in fx c d) (\<lambda>ss.
       reply R_serviceMetrics (service_metrics (map (\<lambda>s. (None, sv_name s, map_of (fx_telemetry fx) (sv_agentId s @ ''/'' @ sv_key s)))
         (filter (\<lambda>s. sv_agentId s = endpoint_part e 2) ss))))"

definition agent_reads ::
  "fixtures \<Rightarrow> ctx \<Rightarrow> db \<Rightarrow> string \<Rightarrow> thrown + mock_reply \<Rightarrow> thrown + mock_reply" where
  "agent_reads fx c d e rest =
     (if when_path (agent_tail [Lit ''/key'', End]) e
      then Inr (R_apiKeyAvailable ''evup_svc_3f9c4a1b8e3d6f0a5c7b9d2e4f6a8c0b1d3e5f7a9c2b4d6e'' True)
      else if when_path service_filter_pat e then Inr (R_levels [''error'', ''warn'', ''info''])
      else if when_path (service_tail [Lit ''/log-histogram'']) e then histogram_at fx e
      else if when_path (service_tail [Lit ''/logs'']) e then logs_at fx e
      else if when_path (service_tail [Lit ''/request-stats'']) e then stats_at fx d e
      else if when_path (agent_tail [Lit ''/request-stats'']) e then stats_at fx d e
      else if when_path (service_tail [Lit ''/request-status-summary'']) e
              \<or> when_path (agent_tail [Lit ''/request-status-summary'']) e then status_summary_at fx d e
      else if when_path (service_tail [Lit ''/requests'']) e then requests_at fx d e
      else if when_path (service_tail [Lit ''/traces'']) e then traces_at fx e
      else if when_path (service_tail [Lit ''/otel-metrics/query'']) e then metric_query_at fx e
      else if when_path (service_tail [Lit ''/otel-metrics/quantiles'']) e then quantiles_at fx e
      else if when_path (service_tail [Lit ''/otel-metrics/points'']) e then points_at fx e
      else if when_path (service_tail [Lit ''/otel-metrics'']) e then names_at fx e
      else if when_path (service_tail [Lit ''/history'']) e
      then reply R_history (serviceHistory fx d (ctx_now c) e (ctx_scenario c))
      else if when_path (service_tail [Lit ''/uptime'']) e
      then reply R_uptimeDays (serviceUptime fx (ctx_now c) e (ctx_scenario c))
      else if when_path (service_tail [Lit ''/events'']) e then service_events fx e
      else on_match True (path_match (agent_tail [Lit ''/services'', EndOrQuery]) e) (\<lambda>cs. services_of fx c d (cs ! 0)) (
      if when_path (agent_tail [Lit ''/events'']) e then Inr (agent_events_of (fx_events fx) e)
      else if when_path (agent_tail [Lit ''/deploys'']) e then Inr (agent_events_of (fx_deploys fx) e)
      else if when_path (agent_tail [Lit ''/uptime'']) e then Inr (R_uptimeDays (Some (fx_agentUptime fx)))
      else if when_path (agent_tail [Lit ''/incidents'']) e then agent_incidents fx c e
      else if when_path (agent_tail [Lit ''/service-metrics'']) e then agent_service_metrics fx c d e
      else if starts_with ''/agents'' e then reply R_agents (scenarioAgents fx d (ctx_now c) (ctx_scenario c))
      else rest))"

section \<open>Hosts, alert rules and notifications\<close>

definition filter_notifications :: "notification_history list \<Rightarrow> string \<Rightarrow> notification_history list" where
  "filter_notifications rows e =
     (let query = endpoint_query e in
      filter (\<lambda>r.
        when_set (sp_get query ''channel_id'') (\<lambda>v. nh_channelId r = v)
        \<and> when_set (sp_get query ''alert_type'') (\<lambda>v. notification_alert_type_text (nh_alertType r) = v)
        \<and> when_set (sp_get query ''status'') (\<lambda>v. notification_status_text (nh_status r) = v)
        \<and> when_set (sp_get query ''q'') (\<lambda>v. str_includes (to_lower v) (to_lower (nh_message r)))
        \<and> when_set (sp_get query ''from'') (\<lambda>v. v \<le> nh_createdAt r)
        \<and> when_set (sp_get query ''to'') (\<lambda>v. nh_createdAt r \<le> v)) rows)"

definition alert_rule_at :: "fixtures \<Rightarrow> string \<Rightarrow> thrown + mock_reply" where
  "alert_rule_at fx raw =
     and_then (decode_key raw) (\<lambda>i. Inr (reply_or_null R_rule (find (\<lambda>r. ar_id r = i) (fx_alertRules fx))))"

definition other_reads :: "fixtures \<Rightarrow> db \<Rightarrow> string \<Rightarrow> thrown + mock_reply" where
  "other_reads fx d e =
     (if starts_with ''/notifications'' e then Inr (R_channels (fx_channels fx))
      else if when_path [Lit ''/hosts/'', seg, Lit ''/system/info'', End] e
      then Inr (R_systemInfo (mockHostInfo fx d (endpoint_part e 2)))
      else if when_path [Lit ''/hosts/'', seg, Lit ''/system/metrics''] e
      then Inr (R_systemMetrics (mockHostMetrics fx d (endpoint_part e 2) e))
      else on_match True (path_match [Lit ''/alert-rules/'', segq, End] e) (\<lambda>cs. alert_rule_at fx (cs ! 0)) (
      if e = ''/alert-rules'' then Inr (R_rules (fx_alertRules fx))
      else if starts_with ''/notification-history/stats'' e then Inr (R_notificationStats (fx_stats fx))
      else if starts_with ''/notification-history'' e
      then Inr (R_notifications (pageMockRows (filter_notifications (fx_history fx) e) e)
                 (number_or 100 (sp_get (endpoint_query e) ''limit'')) (number_or 0 (sp_get (endpoint_query e) ''offset'')))
      else if starts_with ''/settings'' e then Inr (R_settings (fx_settings fx))
      else Inr Null))"

section \<open>The router\<close>

definition reads :: "fixtures \<Rightarrow> ctx \<Rightarrow> db \<Rightarrow> string \<Rightarrow> thrown + mock_reply" where
  "reads fx c d e =
     (if e = ''/projects'' then get_projects fx c d
      else if e = ''/infrastructure-resources'' then get_infrastructure fx c d
      else on_match True (path_match [Lit ''/infrastructure-resources/'', segq, End] e)
        (\<lambda>cs. find_reply R_resource (\<lambda>r. ir_id r = cs ! 0)
                (scenarioInfrastructureResources fx d (ctx_now c) (ctx_scenario c))) (
      observed_reads fx c d e (monitor_reads fx c d e (agent_reads fx c d e (other_reads fx d e)))))"

definition run_pat :: "path_item list" where
  "run_pat = [Lit ''/agents/'', seg, Lit ''/instrumentation-runs/'', seg, End]"

definition runs_pat :: "path_item list" where
  "runs_pat = [Lit ''/agents/'', seg, Lit ''/instrumentation-runs'', End]"

definition collector_setup_pat :: "path_item list" where
  "collector_setup_pat = [Lit ''/agents/'', seg, Lit ''/setup-status'', End]"

definition direct_setup_pat :: "path_item list" where
  "direct_setup_pat = [Lit ''/'', Alt [''observed-services'', ''infrastructure-resources''], Lit ''/'', seg, Lit ''/setup-status'', End]"

definition profile_pat :: "path_item list" where
  "profile_pat = [Lit ''/agents/'', seg, Lit ''/profile'', End]"

definition source_unavailable :: thrown where
  "source_unavailable = JsError ''Error'' ''Demo scenario: telemetry source is temporarily unavailable''"

definition mockRouter ::
  "fixtures \<Rightarrow> ctx \<Rightarrow> string \<Rightarrow> string option \<Rightarrow> json option \<Rightarrow> db \<Rightarrow> db \<times> (thrown + mock_reply)" where
  "mockRouter fx c e meth body d =
     (let m = or_default meth ''GET'' in
      on_match (m = ''POST'') (path_match runs_pat e) (\<lambda>cs. create_run c (cs ! 0) (parsed_body body) d) (
      on_match (m = ''GET'') (path_match run_pat e) (\<lambda>cs. (d, Inr (latest_run (cs ! 0) (cs ! 1) d))) (
      if m = ''GET'' \<and> e = ''/settings/connection'' then (d, Inr (R_publicUrl ''https://monitor.example.com'')) else
      on_match (m = ''GET'') (path_match collector_setup_pat e) (\<lambda>cs. (d, collector_setup fx c d (cs ! 0))) (
      on_match (m = ''GET'') (path_match direct_setup_pat e) (\<lambda>cs. (d, direct_setup fx c d (cs ! 0) (cs ! 1))) (
      on_match (m = ''PUT'') (path_match profile_pat e) (\<lambda>cs. set_profile (cs ! 0) (parsed_body body) d) (
      if m = ''GET'' \<and> ctx_scenario c = Scen_partial_failure \<and> (e = ''/agents/services/all'' \<or> e = ''/observed-services'')
      then (d, Inl source_unavailable)
      else if m \<noteq> ''GET'' then mutation c m e body d
      else (d, reads fx c d e)))))))"

end
