(* ===== verification/EU_RouterFacts.thy ===== *)
theory EU_RouterFacts imports EU_RouterGet
begin

text \<open>
  What holds of the demo server's state under its requests.

  The five kinds of target the server stores (projects, collectors, monitors, direct
  services, infrastructure resources) share one contract, the locales \<open>target_table\<close> and
  \<open>editable_table\<close>: a lookup by id, the list of ids, a removal and an update by id. Each is
  interpreted on the state's table and the model's own delete and update operations.
  \<open>ids_ok\<close> is the invariant of these tables: no two targets of a kind share an id. Every request
  keeps it but an update whose body names an \<open>id\<close>, which \<open>Object.assign\<close> copies
  (\<open>names_no_id\<close> excludes it).
\<close>

section \<open>The contract of a table of targets\<close>

locale target_table =
  fixes look :: "'s \<Rightarrow> string \<Rightarrow> 'a option"
    and ids :: "'s \<Rightarrow> string list"
    and remove :: "string \<Rightarrow> 's \<Rightarrow> 's"
  assumes look_ids: "look s i = None \<longleftrightarrow> i \<notin> set (ids s)"
    and ids_remove: "distinct (ids s) \<Longrightarrow> ids (remove i s) = filter (\<lambda>j. j \<noteq> i) (ids s)"
    and look_remove: "j \<noteq> i \<Longrightarrow> look (remove i s) j = look s j"
begin

lemma removed: "distinct (ids s) \<Longrightarrow> look (remove i s) i = None"
  by (simp add: look_ids ids_remove)

lemma remove_distinct: "distinct (ids s) \<Longrightarrow> distinct (ids (remove i s))"
  by (simp add: ids_remove)

lemma look_after_remove: "distinct (ids s) \<Longrightarrow> look (remove i s) j = (if j = i then None else look s j)"
  by (simp add: removed look_remove)

lemma remove_twice: "distinct (ids s) \<Longrightarrow> ids (remove i (remove i s)) = ids (remove i s)"
  by (simp add: ids_remove remove_distinct)

lemma remove_swap: "distinct (ids s) \<Longrightarrow> ids (remove i (remove j s)) = ids (remove j (remove i s))"
  by (simp add: ids_remove remove_distinct conj_commute)

end

locale editable_table = target_table +
  fixes edit :: "string \<Rightarrow> 'p \<Rightarrow> 's \<Rightarrow> 's"
    and change :: "'p \<Rightarrow> 'a \<Rightarrow> 'a"
    and keeps :: "'p \<Rightarrow> bool"
  assumes ids_edit: "keeps p \<Longrightarrow> ids (edit i p s) = ids s"
    and look_edit: "keeps p \<Longrightarrow> look (edit i p s) j = (if j = i then map_option (change p) (look s i) else look s j)"
begin

lemma edit_distinct: "keeps p \<Longrightarrow> distinct (ids s) \<Longrightarrow> distinct (ids (edit i p s))"
  by (simp add: ids_edit)

lemma edit_missing: "keeps p \<Longrightarrow> i \<notin> set (ids s) \<Longrightarrow> look (edit i p s) j = look s j"
  using look_ids [of s i] by (simp add: look_edit)

lemma edit_then_remove: "keeps p \<Longrightarrow> distinct (ids s) \<Longrightarrow> look (remove i (edit i p s)) j = look (remove i s) j"
  by (simp add: look_after_remove edit_distinct look_edit)

end

section \<open>The state's tables\<close>

lemma find_none_ids: "find (\<lambda>x. k x = i) xs = None \<longleftrightarrow> i \<notin> k ` set xs"
  by (auto simp: find_None_iff)

lemma find_splice_other: "j \<noteq> i \<Longrightarrow> find (\<lambda>x. k x = j) (splice_first (\<lambda>x. k x = i) xs) = find (\<lambda>x. k x = j) xs"
  by (induction xs) auto

lemma splice_first_ids: "distinct (map k xs) \<Longrightarrow> map k (splice_first (\<lambda>x. k x = i) xs) = filter (\<lambda>j. j \<noteq> i) (map k xs)"
  by (simp add: splice_first_distinct filter_map comp_def)

lemma find_update_other:
  "j \<noteq> i \<Longrightarrow> (\<And>x. k (f x) = k x) \<Longrightarrow> find (\<lambda>x. k x = j) (update_first (\<lambda>x. k x = i) f xs) = find (\<lambda>x. k x = j) xs"
  by (induction xs) auto

lemma find_update_id:
  "(\<And>x. k (f x) = k x) \<Longrightarrow>
   find (\<lambda>x. k x = j) (update_first (\<lambda>x. k x = i) f xs)
     = (if j = i then map_option f (find (\<lambda>x. k x = i) xs) else find (\<lambda>x. k x = j) xs)"
  by (simp add: find_update_other find_update_first)

definition find_by :: "('a \<Rightarrow> string) \<Rightarrow> 'a list \<Rightarrow> string \<Rightarrow> 'a option" where
  "find_by k xs i = find (\<lambda>x. k x = i) xs"

lemmas table_rules = find_by_def find_none_ids find_splice_other splice_first_ids find_update_id map_update_first

text \<open>An update whose body names no id leaves the target's id as it was.\<close>

lemma assign_id [simp]:
  "names_no_id p \<Longrightarrow> pr_id (assign_project c p x1) = pr_id x1"
  "names_no_id p \<Longrightarrow> um_id (assign_monitor p x2) = um_id x2"
  "names_no_id p \<Longrightarrow> os_id (assign_observed c p x3) = os_id x3"
  "names_no_id p \<Longrightarrow> ir_id (assign_resource c p x4) = ir_id x4"
  by (simp_all add: assign_project_def assign_monitor_def assign_observed_def assign_resource_def)

interpretation projects: editable_table
  "\<lambda>d. find_by pr_id (db_projects d)" "\<lambda>d. map pr_id (db_projects d)" "\<lambda>i d. fst (delete_project i d)"
  "\<lambda>i (c, p) d. fst (update_project c i p d)" "\<lambda>(c, p). assign_project c p" "\<lambda>(c, p). names_no_id p"
  by unfold_locales (auto simp: table_rules delete_project_def update_project_def)

text \<open>A collector is edited through its profile.\<close>

definition put_profile :: "json \<Rightarrow> connected_agent \<Rightarrow> connected_agent" where
  "put_profile p a = a\<lparr>ag_profile := Some (normalizeMockAgentProfile (Some (profile_of_json p)))\<rparr>"

lemma set_profile_agents:
  "db_agents (fst (set_profile i p d)) = update_first (\<lambda>a. ag_id a = i) (put_profile p) (db_agents d)"
  by (auto simp: set_profile_def put_profile_def [abs_def] update_first_none Let_def split: option.split)

lemma put_profile_id [simp]: "ag_id (put_profile p a) = ag_id a"
  by (simp add: put_profile_def)

interpretation agents: editable_table
  "\<lambda>d. find_by ag_id (db_agents d)" "\<lambda>d. map ag_id (db_agents d)" "\<lambda>i d. fst (delete_agent i d)"
  "\<lambda>i p d. fst (set_profile i p d)" put_profile "\<lambda>_. True"
  by unfold_locales (auto simp: table_rules delete_agent_def set_profile_agents)

interpretation monitors: editable_table
  "\<lambda>d. find_by um_id (db_monitors d)" "\<lambda>d. map um_id (db_monitors d)" "\<lambda>i d. fst (delete_monitor i d)"
  "\<lambda>i p d. fst (update_monitor i p d)" assign_monitor names_no_id
  by unfold_locales (auto simp: table_rules delete_monitor_def update_monitor_def)

interpretation observed: editable_table
  "\<lambda>d. find_by os_id (db_observed d)" "\<lambda>d. map os_id (db_observed d)" "\<lambda>i d. fst (delete_observed i d)"
  "\<lambda>i (c, p) d. fst (update_observed c i p d)" "\<lambda>(c, p). assign_observed c p" "\<lambda>(c, p). names_no_id p"
  by unfold_locales (auto simp: table_rules delete_observed_def update_observed_def)

interpretation infrastructure: editable_table
  "\<lambda>d. find_by ir_id (db_infrastructure d)" "\<lambda>d. map ir_id (db_infrastructure d)" "\<lambda>i d. fst (delete_resource i d)"
  "\<lambda>i (c, p) d. fst (update_resource c i p d)" "\<lambda>(c, p). assign_resource c p" "\<lambda>(c, p). names_no_id p"
  by unfold_locales (auto simp: table_rules delete_resource_def update_resource_def)

section \<open>Identifiers stay unique\<close>

definition ids_ok :: "db \<Rightarrow> bool" where
  "ids_ok d \<longleftrightarrow> distinct (map pr_id (db_projects d)) \<and> distinct (map ag_id (db_agents d))
     \<and> distinct (map um_id (db_monitors d)) \<and> distinct (map os_id (db_observed d))
     \<and> distinct (map ir_id (db_infrastructure d))"

text \<open>The ids the server makes from its clock are not taken yet.\<close>

definition fresh_ids :: "ctx \<Rightarrow> db \<Rightarrow> bool" where
  "fresh_ids c d \<longleftrightarrow> new_id ''project_mock_'' c \<notin> pr_id ` set (db_projects d)
     \<and> new_id ''agent_mock_'' c \<notin> ag_id ` set (db_agents d)
     \<and> new_id ''uptime_mock_'' c \<notin> um_id ` set (db_monitors d)
     \<and> new_id ''observed_mock_'' c \<notin> os_id ` set (db_observed d)
     \<and> new_id ''infra_mock_'' c \<notin> ir_id ` set (db_infrastructure d)"

lemma map_unassigned [simp]:
  "map ag_id (map (\<lambda>a. a\<lparr>ag_projectId := unassigned i (ag_projectId a)\<rparr>) as) = map ag_id as"
  "map um_id (map (\<lambda>a. a\<lparr>um_projectId := unassigned i (um_projectId a)\<rparr>) ms) = map um_id ms"
  "map os_id (map (\<lambda>a. a\<lparr>os_projectId := unassigned i (os_projectId a)\<rparr>) ss) = map os_id ss"
  "map ir_id (map (\<lambda>a. a\<lparr>ir_projectId := unassigned i (ir_projectId a)\<rparr>) rs) = map ir_id rs"
  by (simp_all add: comp_def)

named_theorems ids_rules \<open>every operation of the demo server keeps the ids unique\<close>

lemma ids_create_run [ids_rules]: "ids_ok d \<Longrightarrow> ids_ok (fst (create_run c a j d))"
  by (simp add: ids_ok_def create_run_def Let_def split: option.split)

lemma ids_set_profile [ids_rules]: "ids_ok d \<Longrightarrow> ids_ok (fst (set_profile i j d))"
  by (auto simp: ids_ok_def set_profile_def Let_def map_update_first split: option.split)

lemma ids_resource [ids_rules]:
  "ids_ok d \<Longrightarrow> fresh_ids c d \<Longrightarrow> ids_ok (fst (create_resource c j d))"
  "ids_ok d \<Longrightarrow> ids_ok (fst (rotate_resource c i d))"
  "ids_ok d \<Longrightarrow> ids_ok (fst (revoke_resource i d))"
  "ids_ok d \<Longrightarrow> names_no_id j \<Longrightarrow> ids_ok (fst (update_resource c i j d))"
  "ids_ok d \<Longrightarrow> ids_ok (fst (delete_resource i d))"
  by (auto simp: ids_ok_def fresh_ids_def create_resource_def rotate_resource_def revoke_resource_def update_resource_def
      delete_resource_def Let_def map_update_first distinct_map_splice split: option.split)

lemma ids_observed [ids_rules]:
  "ids_ok d \<Longrightarrow> fresh_ids c d \<Longrightarrow> ids_ok (fst (create_observed c j d))"
  "ids_ok d \<Longrightarrow> ids_ok (fst (rotate_observed c i d))"
  "ids_ok d \<Longrightarrow> ids_ok (fst (revoke_observed i d))"
  "ids_ok d \<Longrightarrow> ids_ok (fst (set_log_filter i j d))"
  "ids_ok d \<Longrightarrow> ids_ok (fst (set_api_exclusions i j d))"
  "ids_ok d \<Longrightarrow> names_no_id j \<Longrightarrow> ids_ok (fst (update_observed c i j d))"
  "ids_ok d \<Longrightarrow> ids_ok (fst (delete_observed i d))"
  by (auto simp: ids_ok_def fresh_ids_def create_observed_def rotate_observed_def revoke_observed_def update_observed_def
      set_log_filter_def set_api_exclusions_def delete_observed_def Let_def map_update_first
      distinct_map_splice split: option.split)

lemma ids_project [ids_rules]:
  "ids_ok d \<Longrightarrow> fresh_ids c d \<Longrightarrow> ids_ok (fst (create_project c j d))"
  "ids_ok d \<Longrightarrow> ids_ok (fst (assign_member k i p d))"
  "ids_ok d \<Longrightarrow> names_no_id j \<Longrightarrow> ids_ok (fst (update_project c i j d))"
  "ids_ok d \<Longrightarrow> ids_ok (fst (delete_project i d))"
     apply (auto simp: ids_ok_def fresh_ids_def create_project_def Let_def)[1]
    apply (auto simp: ids_ok_def assign_member_def map_update_first)[1]
   apply (auto simp: ids_ok_def update_project_def map_update_first)[1]
  by (simp add: ids_ok_def delete_project_def distinct_map_splice del: map_map)

lemma ids_monitor [ids_rules]:
  "ids_ok d \<Longrightarrow> fresh_ids c d \<Longrightarrow> ids_ok (fst (create_monitor c j d))"
  "ids_ok d \<Longrightarrow> names_no_id j \<Longrightarrow> ids_ok (fst (update_monitor i j d))"
  "ids_ok d \<Longrightarrow> ids_ok (fst (delete_monitor i d))"
    apply (auto simp: ids_ok_def fresh_ids_def create_monitor_def Let_def)[1]
   apply (auto simp: ids_ok_def update_monitor_def map_update_first)[1]
  by (auto simp: ids_ok_def delete_monitor_def distinct_map_splice)

lemma ids_agent [ids_rules]:
  "ids_ok d \<Longrightarrow> fresh_ids c d \<Longrightarrow> ids_ok (fst (create_agent c j d))"
  "ids_ok d \<Longrightarrow> ids_ok (fst (delete_agent i d))"
  "ids_ok d \<Longrightarrow> ids_ok (fst (delete_service a k d))"
    apply (auto simp: ids_ok_def fresh_ids_def create_agent_def Let_def)[1]
   apply (auto simp: ids_ok_def delete_agent_def distinct_map_splice)[1]
  by (auto simp: ids_ok_def delete_service_def split: sum.split)

text \<open>A dispatch keeps what each of its branches keeps.\<close>

lemma on_match_keeps:
  "(\<And>cs. g \<Longrightarrow> P (fst (k cs))) \<Longrightarrow> P (fst rest) \<Longrightarrow> P (fst (on_match g m k rest))"
  by (simp add: on_match_def split: option.split)

lemma if_keeps: "(g \<Longrightarrow> P (fst a)) \<Longrightarrow> P (fst b) \<Longrightarrow> P (fst (if g then a else b))"
  by simp

lemma fst_ok [simp]: "fst (ok r) = fst r"
  by (simp add: ok_def)

lemma mutation_ids:
  assumes "ids_ok d" "fresh_ids c d" "m = ''PUT'' \<Longrightarrow> names_no_id (parsed_body body)"
  shows "ids_ok (fst (mutation c m e body d))"
  unfolding mutation_def Let_def
  by (intro on_match_keeps [where P = ids_ok] if_keeps [where P = ids_ok]; simp add: ids_rules assms)

end
