(* ===== verification/EU_Serve.thy ===== *)
theory EU_Serve imports EU_RouterFacts
begin

text \<open>
  The API client against the demo server: \<open>serve\<close> is what \<open>request\<close> does with a client
  method's call when \<open>VITE_USE_MOCK\<close> is on. Each method of \<open>services/api\<close> that changes a
  target reaches the operation of \<open>EU_Router\<close> it is meant to, with the id it was given, and
  each read reaches its query (\<open>serve_rules\<close>); ids are segments, as the server's are.
\<close>

definition serve :: "fixtures \<Rightarrow> ctx \<Rightarrow> 'a api_call \<Rightarrow> db \<Rightarrow> db \<times> (thrown + mock_reply)" where
  "serve fx c call d = mockRouter fx c (ac_endpoint call) (ac_method call) (ac_body call) d"

lemma seg_match:
  assumes "is_segment x"
  shows "path_match (seg # ps) (x @ CHR ''/'' # s) = map_option (\<lambda>r. x # r) (path_match ps (CHR ''/'' # s))"
    and "path_match (seg # ps) x = map_option (\<lambda>r. x # r) (path_match ps [])"
    and "path_match (segq # ps) x = map_option (\<lambda>r. x # r) (path_match ps [])"
    and "path_match (segq # ps) (x @ CHR ''?'' # s) = map_option (\<lambda>r. x # r) (path_match ps (CHR ''?'' # s))"
    and "path_match (segq # ps) (x @ CHR ''/'' # s) = map_option (\<lambda>r. x # r) (path_match ps (CHR ''/'' # s))"
  using assms by (rule path_match_seg)+

lemma parsed_body_Some [simp]: "parsed_body (Some j) = j" "parsed_body None = JObj []"
  by (simp_all add: parsed_body_def)

lemmas router_patterns = path_pats runs_pat_def run_pat_def collector_setup_pat_def direct_setup_pat_def profile_pat_def

lemmas serve_simps = mockRouter_def mutation_def router_patterns Let_def service_base_def is_segment_encode

text \<open>Reading back the fields of a request body.\<close>

lemma map_of_jopt [simp]:
  "map_of (jopt k v) j = (if j = k then v else None)"
  "map_of (jopt k v @ ps) j = (if j = k \<and> v \<noteq> None then v else map_of ps j)"
  by (cases v; simp)+

lemma get_case [simp]:
  "(case map_option JStr v of Some (JStr s) \<Rightarrow> Some s | _ \<Rightarrow> None) = v"
  "(case map_option JInt w of Some (JInt i) \<Rightarrow> Some i | _ \<Rightarrow> None) = w"
  "(case map_option JBool b of Some (JBool x) \<Rightarrow> Some x | _ \<Rightarrow> None) = b"
  by ((cases v; simp), (cases w; simp), (cases b; simp))

named_theorems serve_rules \<open>the operation each client method reaches\<close>

section \<open>Requests that change a target\<close>

lemma serve_createProject [serve_rules]:
  "serve fx c (createProject p) d = ok (create_project c (project_input_json p) d)"
  by (simp add: serve_def createProject_def serve_simps)

lemma serve_updateProject [serve_rules]:
  "is_segment i \<Longrightarrow> serve fx c (updateProject i p) d = ok (update_project c i (project_input_json p) d)"
  by (simp add: serve_def updateProject_def serve_simps seg_match)

lemma serve_deleteProject [serve_rules]:
  "is_segment i \<Longrightarrow> serve fx c (deleteProject i) d = ok (delete_project i d)"
  by (simp add: serve_def deleteProject_def serve_simps seg_match)

lemma serve_assignAgent [serve_rules]:
  "is_segment p \<Longrightarrow> is_segment i \<Longrightarrow> serve fx c (assignAgent p i) d = ok (assign_member ''agents'' i (Some p) d)"
  by (simp add: serve_def assignAgent_def serve_simps seg_match)

lemma serve_unassignAgent [serve_rules]:
  "is_segment p \<Longrightarrow> is_segment i \<Longrightarrow> serve fx c (unassignAgent p i) d = ok (assign_member ''agents'' i None d)"
  by (simp add: serve_def unassignAgent_def serve_simps seg_match)

lemma serve_assignMonitor [serve_rules]:
  "is_segment p \<Longrightarrow> is_segment i \<Longrightarrow> serve fx c (assignMonitor p i) d = ok (assign_member ''monitors'' i (Some p) d)"
  by (simp add: serve_def assignMonitor_def serve_simps seg_match)

lemma serve_unassignMonitor [serve_rules]:
  "is_segment p \<Longrightarrow> is_segment i \<Longrightarrow> serve fx c (unassignMonitor p i) d = ok (assign_member ''monitors'' i None d)"
  by (simp add: serve_def unassignMonitor_def serve_simps seg_match)

lemma serve_createMonitor [serve_rules]:
  "serve fx c (createUptimeMonitor p) d = ok (create_monitor c (uptime_monitor_input_json p) d)"
  by (simp add: serve_def createUptimeMonitor_def serve_simps)

lemma serve_updateMonitor [serve_rules]:
  "is_segment i \<Longrightarrow> serve fx c (updateUptimeMonitor i p) d = ok (update_monitor i (uptime_monitor_input_json p) d)"
  by (simp add: serve_def updateUptimeMonitor_def serve_simps seg_match)

lemma serve_deleteMonitor [serve_rules]:
  "is_segment i \<Longrightarrow> serve fx c (deleteUptimeMonitor i) d = ok (delete_monitor i d)"
  by (simp add: serve_def deleteUptimeMonitor_def serve_simps seg_match)

lemma serve_createResource [serve_rules]:
  "serve fx c (createInfrastructureResource p) d = ok (create_resource c (infrastructure_resource_input_json p) d)"
  by (simp add: serve_def createInfrastructureResource_def serve_simps)

lemma serve_updateResource [serve_rules]:
  "is_segment i \<Longrightarrow> serve fx c (updateInfrastructureResource i p) d = ok (update_resource c i (infrastructure_resource_input_json p) d)"
  by (simp add: serve_def updateInfrastructureResource_def serve_simps seg_match)

lemma serve_rotateResource [serve_rules]:
  "is_segment i \<Longrightarrow> serve fx c (rotateInfrastructureResourceKey i) d = ok (rotate_resource c i d)"
  by (simp add: serve_def rotateInfrastructureResourceKey_def serve_simps seg_match)

lemma serve_revokeResource [serve_rules]:
  "is_segment i \<Longrightarrow> serve fx c (revokeInfrastructureResourceKey i) d = ok (revoke_resource i d)"
  by (simp add: serve_def revokeInfrastructureResourceKey_def serve_simps seg_match)

lemma serve_deleteResource [serve_rules]:
  "is_segment i \<Longrightarrow> serve fx c (deleteInfrastructureResource i) d = ok (delete_resource i d)"
  by (simp add: serve_def deleteInfrastructureResource_def serve_simps seg_match)

lemma serve_createObserved [serve_rules]:
  "serve fx c (createObservedService p) d = ok (create_observed c (observed_service_input_json p) d)"
  by (simp add: serve_def createObservedService_def serve_simps)

lemma serve_updateObserved [serve_rules]:
  "is_segment i \<Longrightarrow> serve fx c (updateObservedService i p) d = ok (update_observed c i (observed_service_input_json p) d)"
  by (simp add: serve_def updateObservedService_def serve_simps seg_match)

lemma serve_rotateObserved [serve_rules]:
  "is_segment i \<Longrightarrow> serve fx c (rotateObservedServiceKey i) d = ok (rotate_observed c i d)"
  by (simp add: serve_def rotateObservedServiceKey_def serve_simps seg_match)

lemma serve_revokeObserved [serve_rules]:
  "is_segment i \<Longrightarrow> serve fx c (revokeObservedServiceKey i) d = ok (revoke_observed i d)"
  by (simp add: serve_def revokeObservedServiceKey_def serve_simps seg_match)

lemma serve_deleteObserved [serve_rules]:
  "is_segment i \<Longrightarrow> serve fx c (deleteObservedService i) d = ok (delete_observed i d)"
  by (simp add: serve_def deleteObservedService_def serve_simps seg_match)

lemma serve_setLogFilter [serve_rules]:
  "is_segment i \<Longrightarrow> serve fx c (setObservedServiceLogFilter i ls) d = ok (set_log_filter i (levels_json (map log_level_text ls)) d)"
  by (simp add: serve_def setObservedServiceLogFilter_def serve_simps seg_match)

lemma serve_setApiExclusions [serve_rules]:
  "is_segment i \<Longrightarrow> serve fx c (setObservedServiceApiExclusions i ps) d = ok (set_api_exclusions i (paths_json ps) d)"
  by (simp add: serve_def setObservedServiceApiExclusions_def serve_simps seg_match)

lemma serve_createAgent [serve_rules]:
  "serve fx c (createAgent nm p) d = ok (create_agent c (JObj [(''name'', JStr nm), (''profile'', agent_profile_json p)]) d)"
  by (simp add: serve_def createAgent_def serve_simps)

lemma serve_deleteAgent [serve_rules]:
  "is_segment i \<Longrightarrow> serve fx c (deleteAgent i) d = ok (delete_agent i d)"
  by (simp add: serve_def deleteAgent_def serve_simps seg_match)

lemma serve_updateProfile [serve_rules]:
  "is_segment i \<Longrightarrow> serve fx c (updateAgentProfile i p) d = set_profile i (agent_profile_json p) d"
  by (simp add: serve_def updateAgentProfile_def serve_simps seg_match)

lemma serve_createRun [serve_rules]:
  "is_segment i \<Longrightarrow> serve fx c (createInstrumentationRun i p ks b) d = create_run c i (JObj [(''project'', JStr p), (''keys'', JArr (map JStr ks)), (''captureBodies'', JBool b)]) d"
  by (simp add: serve_def createInstrumentationRun_def serve_simps seg_match)

lemma serve_rotateAgentKey [serve_rules]:
  "is_segment i \<Longrightarrow> serve fx c (rotateAgentKey i) d = (d, Inr (R_apiKey (''evup_svc_'' @ ctx_random c 24)))"
  by (simp add: serve_def rotateAgentKey_def serve_simps seg_match)

lemma serve_createJoinCode [serve_rules]:
  "is_segment i \<Longrightarrow> serve fx c (createAgentJoinCode i) d = (d, Inr (R_joinCode (join_code c)))"
  by (simp add: serve_def createAgentJoinCode_def serve_simps seg_match)

lemma serve_setServiceLogFilter [serve_rules]:
  "is_segment i \<Longrightarrow> k \<noteq> [] \<Longrightarrow> serve fx c (setAgentServiceLogFilter i k ls) d = (d, Inr (echo_levels (levels_json ls)))"
  by (simp add: serve_def setAgentServiceLogFilter_def serve_simps seg_match)

section \<open>Reads\<close>

lemma ends_with_rev: "ends_with e s \<longleftrightarrow> starts_with (rev s) (rev e)"
proof -
  have "drop (length e - length s) e = s \<longleftrightarrow> take (length s) (rev e) = rev s"
    by (simp add: take_rev rev_swap)
  then show ?thesis by (simp add: ends_with_def starts_with_def)
qed

lemma separated_eq: "c \<notin> set a \<Longrightarrow> c \<notin> set b \<Longrightarrow> a @ c # x = b @ c # y \<longleftrightarrow> a = b \<and> x = y"
proof (induction a arbitrary: b)
  case Nil
  then show ?case by (cases b) auto
next
  case (Cons e a)
  then show ?case by (cases b) auto
qed

lemma starts_with_split:
  assumes "c \<notin> set a" "c \<notin> set i"
  shows "starts_with (a @ c # b) (i @ c # r) \<longleftrightarrow> a = i \<and> starts_with b r"
  using separated_eq [OF assms(2,1)] by (auto simp: starts_with_prefix prefix_def)

text \<open>A one-segment detail endpoint is not the metrics health endpoint.\<close>

lemma detail_not_health:
  assumes "is_segment i"
  shows "starts_with (rev ''/otel-metrics/health'') (rev i @ CHR ''/'' # r) \<longleftrightarrow> i = ''health'' \<and> starts_with ''scirtem-leto/'' r"
proof -
  have "''htlaeh'' = rev i \<longleftrightarrow> i = ''health''" by (auto simp: rev_swap [symmetric])
  then show ?thesis
    using starts_with_split [of "CHR ''/''" "''htlaeh''" "rev i" "''scirtem-leto/''" r] assms
    by (simp add: is_segment_def del: starts_with_Cons)
qed

lemmas health_endpoint = ends_with_rev detail_not_health [simplified]

lemmas read_simps = serve_simps reads_def observed_reads_def monitor_reads_def agent_reads_def other_reads_def when_path_def health_endpoint observed_tail_def agent_tail_def service_tail_def uptime_pat_def find_by_def

lemma serve_getProjects [serve_rules]:
  "serve fx c (getProjects) d = (d, get_projects fx c d)"
  by (simp add: serve_def getProjects_def read_simps)

lemma serve_getMonitors [serve_rules]:
  "serve fx c (getUptimeMonitors) d = (d, Inr (R_monitors (scenarioMonitors fx d (ctx_scenario c))))"
  by (simp add: serve_def getUptimeMonitors_def read_simps)

lemma serve_getMonitor [serve_rules]:
  "is_segment i \<Longrightarrow> serve fx c (getUptimeMonitor i) d = (d, Inr (reply_or_null R_monitor (find_by um_id (db_monitors d) i)))"
  by (simp add: serve_def getUptimeMonitor_def read_simps seg_match)

lemma serve_getResource [serve_rules]:
  "is_segment i \<Longrightarrow> serve fx c (getInfrastructureResource i) d = (d, find_reply R_resource (\<lambda>r. ir_id r = i) (scenarioInfrastructureResources fx d (ctx_now c) (ctx_scenario c)))"
  by (simp add: serve_def getInfrastructureResource_def read_simps seg_match)

lemma serve_getObserved [serve_rules]:
  "is_segment i \<Longrightarrow> i \<noteq> ''metric-catalog'' \<Longrightarrow> i \<noteq> ''service-metrics'' \<Longrightarrow> serve fx c (getObservedService i) d = (d, find_reply R_observed (\<lambda>s. os_id s = i) (observed_in fx c d))"
  by (simp add: serve_def getObservedService_def read_simps seg_match)

lemma serve_getSetup [serve_rules]:
  "is_segment i \<Longrightarrow> serve fx c (getCollectorSetupStatus i) d = (d, collector_setup fx c d i)"
  by (simp add: serve_def getCollectorSetupStatus_def read_simps seg_match)

lemma serve_getLogFilter [serve_rules]:
  "is_segment i \<Longrightarrow> serve fx c (getObservedServiceLogFilter i) d = (d, Inr (R_levels (or_default (map_of (db_logFilters d) i) [])))"
  by (simp add: serve_def getObservedServiceLogFilter_def read_simps seg_match)

lemma serve_getApiExclusions [serve_rules]:
  "is_segment i \<Longrightarrow> serve fx c (getObservedServiceApiExclusions i) d = (d, Inr (R_paths (or_default (map_of (db_apiExclusions d) i) [])))"
  by (simp add: serve_def getObservedServiceApiExclusions_def read_simps seg_match)

end
