(* ===== verification/EU_Example.thy ===== *)
theory EU_Example imports EU_Serve
begin

text \<open>
  A small instance of the demo data, cut from the arrays of \<open>mockRouter.ts\<close>, on which the
  theorems about the demo server are applied: one collector with one service and its
  telemetry, one project, one monitor, one direct service and one infrastructure resource.
\<close>

definition demo_log :: "int \<Rightarrow> log_level \<Rightarrow> string \<Rightarrow> string \<Rightarrow> log_entry" where
  "demo_log i l m t =
     \<lparr>log_id = i, log_serviceId = [], log_agentId = None, log_serviceName = Some ''api'', log_level = l,
      log_message = m, log_metadata = None, log_source = Some LS_otlp, log_fingerprint = None, log_traceId = None,
      log_spanId = None, log_createdAt = t, log_linkedRequest = None\<rparr>"

definition demo_request :: "int \<Rightarrow> int \<Rightarrow> rat \<Rightarrow> string \<Rightarrow> api_request" where
  "demo_request i status ms t =
     \<lparr>req_id = i, req_serviceId = [], req_requestId = ''r01'', req_method = ''POST'', req_path = ''/api/v1/payments'',
      req_pathTemplate = ''/api/v1/payments'', req_route = None, req_serviceName = Some ''api'', req_traceId = None,
      req_spanId = None, req_statusCode = status, req_durationMs = ms, req_clientIp = None, req_error = None,
      req_isError = (status \<ge> 500), req_createdAt = t\<rparr>"

definition demo_data :: demo_telemetry where
  "demo_data =
     \<lparr>dt_logs = [demo_log 101 L_error ''Connection timeout after 5000ms'' ''2026-09-24T09:59:00.000Z'',
                 demo_log 102 L_warn ''Rate limit exceeded'' ''2026-09-24T09:57:00.000Z'',
                 demo_log 103 L_info ''Server listening on :8080'' ''2026-09-24T09:50:00.000Z''],
      dt_requests = [demo_request 201 200 42 ''2026-09-24T09:59:30.000Z'', demo_request 203 503 5001 ''2026-09-24T09:53:20.000Z''],
      dt_traces = [], dt_metricNames = [], dt_metricPoints = []\<rparr>"

definition demo_fx :: fixtures where
  "demo_fx =
     \<lparr>fx_nowAgent = 1790244000000, fx_telemetry = [(''agent_demo_01/web/api'', demo_data)], fx_monitorData = [],
      fx_alertRules = [], fx_channels = [], fx_incidents = [], fx_events = [], fx_deploys = [], fx_agentUptime = [],
      fx_overview = [],
      fx_settings = \<lparr>as_alerts = \<lparr>sa_consecutiveFailures = 3\<rparr>, as_retention = \<lparr>sret_metrics = ''30d'', sret_logs = ''90d''\<rparr>,
                     as_system = \<lparr>ssys_collectInterval = 30\<rparr>\<rparr>,
      fx_history = [],
      fx_stats = \<lparr>ns_totalSent = 0, ns_totalFailed = 0, ns_successRate = 0, ns_byChannel = [], ns_byAlertType = []\<rparr>,
      fx_systemInfo = \<lparr>si_hostname = ''demo'', si_os = ''linux'', si_platform = ''debian'', si_kernel = None, si_uptime = 0,
        si_ip = ''10.0.0.1'', si_cpu = \<lparr>cpu_cores = 4, cpu_usage = 25\<rparr>,
        si_memory = \<lparr>mem_total = 16, mem_used = 8, mem_usage = 50\<rparr>,
        si_disk = \<lparr>disk_total = 500, disk_used = 100, disk_usage = 20, disk_readSpeed = 0, disk_writeSpeed = 0\<rparr>,
        si_network = \<lparr>net_in = 1, net_out = 1\<rparr>\<rparr>,
      fx_systemPoints = [], fx_initialAgents = [''agent_demo_01''], fx_initialMonitors = [''uptime_mock_store''],
      fx_initialObserved = [''observed_mock_checkout''], fx_initialInfrastructure = [''infra_mock_db''],
      fx_sin = (\<lambda>_. 0), fx_cos = (\<lambda>_. 1)\<rparr>"

definition demo_ctx :: ctx where
  "demo_ctx = \<lparr>ctx_now = 1790244000000, ctx_scenario = Scen_attention, ctx_random = (\<lambda>n. replicate (2 * n) CHR ''a'')\<rparr>"

definition demo_agent :: connected_agent where
  "demo_agent =
     \<lparr>ag_id = ''agent_demo_01'', ag_name = ''prod-web'', ag_projectId = Some ''project_mock_production'',
      ag_version = Some ''1.4.0'', ag_lastSeenAt = ''2026-09-24T09:59:40.000Z'', ag_createdAt = ''2026-09-01T00:00:00.000Z'',
      ag_updatedAt = ''2026-09-24T09:59:40.000Z'', ag_profile = None, ag_capabilities = None\<rparr>"

definition demo_service :: agent_service_flat where
  "demo_service =
     \<lparr>sv_agentId = ''agent_demo_01'', sv_key = ''web/api'', sv_name = ''api'', sv_checkType = ''http'',
      sv_endpoint = ''http://api:8080/health'', sv_runtime = Some ''node'', sv_image = None, sv_restartCount = None,
      sv_startedAt = None, sv_healthy = True, sv_seen = True, sv_silenced = False, sv_lastError = None,
      sv_lastStatus = Some 200, sv_lastLatency = Some ''42ms'', sv_updatedAt = None,
      sv_observedAt = ''2026-09-24T09:59:40.000Z'', sf_agentName = ''prod-web''\<rparr>"

definition demo_monitor :: uptime_monitor where
  "demo_monitor =
     \<lparr>um_id = ''uptime_mock_store'', um_name = ''Storefront'', um_projectId = Some ''project_mock_production'',
      um_type = M_http, um_isActive = True, um_url = ''https://store.example.com/health'', um_port = None,
      um_method = ''GET'', um_expectedStatus = 200, um_timeout = 5000, um_interval = 30, um_status = S_healthy,
      um_lastCheckAt = None, um_uptime = None, um_responseTime = None, um_latencyHistory = None, um_certExpiresAt = None\<rparr>"

definition demo_observed :: observed_service where
  "demo_observed =
     \<lparr>os_id = ''observed_mock_checkout'', os_name = ''checkout-api'', os_projectId = Some ''project_mock_production'',
      os_signals = [Sig_logs], os_logLevelFilter = Some [L_error, L_warn, L_info], os_apiExcludePaths = None,
      os_isActive = True, os_apiKeyMasked = Some ''evup_****9f2a'', os_lastSeenAt = Some ''2026-09-24T09:59:35.000Z'',
      os_createdAt = ''2026-09-20T00:00:00.000Z'', os_updatedAt = ''2026-09-24T09:59:35.000Z''\<rparr>"

definition demo_resource :: infrastructure_resource where
  "demo_resource =
     \<lparr>ir_id = ''infra_mock_db'', ir_name = ''db-01'', ir_projectId = Some ''project_mock_production'',
      ir_adapter = Ad_otel_collector, ir_isActive = True, ir_apiKeyMasked = None,
      ir_lastSeenAt = Some ''2026-09-24T09:59:35.000Z'', ir_cpuUsage = Some 40, ir_memoryUsage = Some 60,
      ir_diskUsage = Some 70, ir_createdAt = ''2026-09-20T00:00:00.000Z'', ir_updatedAt = ''2026-09-24T09:59:35.000Z''\<rparr>"

definition demo_project :: project where
  "demo_project =
     \<lparr>pr_id = ''project_mock_production'', pr_name = ''Production'', pr_description = None, pr_agentCount = 0,
      pr_monitorCount = 0, pr_observedServiceCount = 0, pr_infrastructureResourceCount = 0,
      pr_createdAt = ''2026-09-17T10:00:00.000Z'', pr_updatedAt = ''2026-09-24T10:00:00.000Z''\<rparr>"

definition demo_db :: db where
  "demo_db =
     \<lparr>db_agents = [demo_agent], db_services = [demo_service], db_monitors = [demo_monitor], db_observed = [demo_observed],
      db_infrastructure = [demo_resource], db_projects = [demo_project],
      db_logFilters = [(''observed_mock_checkout'', [''error'', ''warn'', ''info''])], db_apiExclusions = [],
      db_pendingProfiles = [], db_runs = []\<rparr>"

lemmas demo_simps = demo_db_def demo_agent_def demo_monitor_def demo_observed_def demo_resource_def demo_project_def

lemma demo_ids_ok [simp]: "ids_ok demo_db"
  by (simp add: ids_ok_def demo_simps)

lemma show_int_not_word: "0 \<le> n \<Longrightarrow> \<not> is_digit c \<Longrightarrow> show_int n \<noteq> c # s"
  using show_nat_digits [of "nat n"] by (auto simp: show_int_def)

lemma demo_fresh [simp]: "fresh_ids demo_ctx demo_db"
  by (simp add: fresh_ids_def demo_simps new_id_def demo_ctx_def show_int_not_word digit_values)

lemma demo_segments [simp]:
  "is_segment ''project_mock_production''" "is_segment ''uptime_mock_store''" "is_segment ''agent_demo_01''"
  "is_segment ''observed_mock_checkout''" "is_segment ''infra_mock_db''"
  by (simp_all add: is_segment_def)

lemma demo_telemetry_at [simp]: "map_of (fx_telemetry demo_fx) ''agent_demo_01/web/api'' = Some demo_data"
  by (simp add: demo_fx_def)

end
