(* ===== verification/EU_EndToEnd.thy ===== *)
theory EU_EndToEnd imports EU_Example
begin

text \<open>
  What a caller of the API client observes when the demo server answers: a service's logs and
  requests are filtered and paged as the parameters say, whatever characters the service's
  key has; a target that was created, edited, revoked or deleted reads back accordingly; no
  read changes the state.
\<close>

section \<open>Reads of one service\<close>

lemma when_set_simps [simp]: "when_set None p" "when_set (Some s) p = (s \<noteq> [] \<longrightarrow> p s)"
  by (simp_all add: when_set_def truthy_def)

text \<open>A keyed endpoint with parameters: the telemetry, and no health endpoint.\<close>

lemma endpointTelemetry_service:
  assumes "is_segment a" "k \<noteq> []"
  shows "endpointTelemetry fx (with_query (service_base a k @ ''/'' @ t) ps) = Inr (map_of (fx_telemetry fx) (a @ ''/'' @ k))"
  using assms by (simp add: endpointTelemetry_def service_base_def with_query_def seg_match is_segment_encode)

lemma query_not_health:
  assumes "CHR ''/'' \<notin> set t"
  shows "\<not> ends_with (with_query (b @ ''/'' @ t) ps) ''/otel-metrics/health''"
proof -
  let ?l = "rev (t @ CHR ''?'' # sp_to_string ps)"
  have "CHR ''?'' \<in> set ?l" by simp
  moreover have "CHR ''?'' \<notin> set ''htlaeh''" by simp
  ultimately have "?l \<noteq> ''htlaeh''" by metis
  then show ?thesis
    using starts_with_split [of "CHR ''/''" "''htlaeh''" ?l "''scirtem-leto/''" "rev b"] assms
    by (auto simp: ends_with_rev with_query_def sp_to_string_no_slash simp del: starts_with_Cons)
qed

lemma service_base_no_question: "is_segment a \<Longrightarrow> CHR ''?'' \<notin> set (service_base a k)"
  using encode_no_delimiter [of "CHR ''?''" k] by (auto simp: service_base_def is_segment_def url_delimiters_def)

lemma serve_service_logs:
  assumes "is_segment a" "k \<noteq> []"
  shows "reads fx c d (with_query (service_base a k @ ''/logs'') ps) = logs_at fx (with_query (service_base a k @ ''/logs'') ps)"
proof -
  have h: "\<not> ends_with (with_query (service_base a k @ ''/logs'') ps) ''/otel-metrics/health''"
    using query_not_health [of "''logs''" "service_base a k" ps] by simp
  have e: "with_query (service_base a k @ ''/logs'') ps
     = ''/agents/'' @ a @ ''/services/'' @ encodeURIComponent k @ ''/logs?'' @ sp_to_string ps"
    by (simp add: with_query_def service_base_def)
  show ?thesis
    using assms h unfolding e
    by (simp add: reads_def observed_reads_def monitor_reads_def agent_reads_def when_path_def observed_tail_def agent_tail_def
      service_tail_def uptime_pat_def path_pats seg_match is_segment_encode)
qed

lemma serve_service_requests:
  assumes "is_segment a" "k \<noteq> []"
  shows "reads fx c d (with_query (service_base a k @ ''/requests'') ps)
     = requests_at fx d (with_query (service_base a k @ ''/requests'') ps)"
proof -
  have h: "\<not> ends_with (with_query (service_base a k @ ''/requests'') ps) ''/otel-metrics/health''"
    using query_not_health [of "''requests''" "service_base a k" ps] by simp
  have e: "with_query (service_base a k @ ''/requests'') ps
     = ''/agents/'' @ a @ ''/services/'' @ encodeURIComponent k @ ''/requests?'' @ sp_to_string ps"
    by (simp add: with_query_def service_base_def)
  show ?thesis
    using assms h unfolding e
    by (simp add: reads_def observed_reads_def monitor_reads_def agent_reads_def when_path_def observed_tail_def agent_tail_def
      service_tail_def uptime_pat_def path_pats seg_match is_segment_encode)
qed

text \<open>A read with an endpoint of this form is not one of the requests answered before the reads.\<close>

lemma segment_not_all:
  assumes "is_segment a"
  shows "a @ CHR ''/'' # r = ''services/all'' \<longleftrightarrow> a = ''services'' \<and> r = ''all''"
  using separated_eq [of "CHR ''/''" a "''services''" r "''all''"] assms by (simp add: is_segment_def)

lemma get_service:
  assumes "is_segment a" "k \<noteq> []"
  shows "mockRouter fx c (with_query (service_base a k @ ''/'' @ t) ps) None None d
     = (d, reads fx c d (with_query (service_base a k @ ''/'' @ t) ps))"
  using assms
  by (simp add: mockRouter_def with_query_def service_base_def router_patterns seg_match is_segment_encode segment_not_all [simplified])

definition page_of :: "int option \<Rightarrow> int option \<Rightarrow> 'a list \<Rightarrow> 'a rows" where
  "page_of limit offset xs =
     \<lparr>rows_data = take (nat (or_default limit 100)) (drop (nat (or_default offset 0)) xs), rows_total = int (length xs)\<rparr>"

lemma pageMockRows_page:
  assumes "endpoint_query e = ps" "sp_get ps ''limit'' = Some (show_int (or_default limit 100))"
    and "sp_get ps ''offset'' = (case offset of Some n \<Rightarrow> if n \<noteq> 0 then Some (show_int n) else None | None \<Rightarrow> None)"
    and "0 \<le> or_default limit 100" "0 \<le> or_default offset 0"
  shows "pageMockRows xs e = page_of limit offset xs"
proof -
  let ?l = "or_default limit 100" and ?o = "or_default offset 0"
  have l: "number_or 100 (sp_get ps ''limit'') = Some (of_int ?l)"
    using assms(2,4) by (simp add: js_number_show_int)
  have o: "number_or 0 (sp_get ps ''offset'') = Some (of_int ?o)"
    using assms(3,5) by (auto simp: js_number_show_int split: option.splits if_splits)
  have "(of_int ?o :: rat) + of_int ?l = of_int (?o + ?l)" by simp
  then have "to_integer (Some (of_int ?o + of_int ?l)) = ?o + ?l" by (simp only: to_integer_of_int)
  then show ?thesis
    using js_slice_nonneg [of ?o ?l xs] assms(1,4,5)
    by (simp add: pageMockRows_def page_of_def l o Let_def)
qed

text \<open>The rows a log or request query asks for.\<close>

definition log_wanted :: "agent_log_params \<Rightarrow> log_entry \<Rightarrow> bool" where
  "log_wanted q r \<longleftrightarrow>
     when_set (al_level q) (\<lambda>l. log_level_text (log_level r) = l)
     \<and> when_set (map_option to_lower (al_search q)) (\<lambda>t. str_includes t (to_lower (log_message r)))
     \<and> when_set (al_traceId q) (\<lambda>t. log_traceId r = Some t)
     \<and> when_set (al_fingerprint q) (\<lambda>f. mockFingerprint (log_level r) (log_message r) = f)
     \<and> matches_attribute (al_attrKey q) (or_default (al_attrValue q) []) r
     \<and> when_set (al_from q) (\<lambda>t. t \<le> log_createdAt r)
     \<and> when_set (al_to q) (\<lambda>t. log_createdAt r \<le> t)"

lemma log_wanted_open:
  "log_wanted (q\<lparr>al_to := None\<rparr>) r \<longleftrightarrow>
     when_set (al_level q) (\<lambda>l. log_level_text (log_level r) = l)
     \<and> when_set (map_option to_lower (al_search q)) (\<lambda>t. str_includes t (to_lower (log_message r)))
     \<and> when_set (al_traceId q) (\<lambda>t. log_traceId r = Some t)
     \<and> when_set (al_fingerprint q) (\<lambda>f. mockFingerprint (log_level r) (log_message r) = f)
     \<and> matches_attribute (al_attrKey q) (or_default (al_attrValue q) []) r
     \<and> when_set (al_from q) (\<lambda>t. t \<le> log_createdAt r)"
  by (simp add: log_wanted_def)

lemma log_wanted_end:
  "log_wanted q r \<longleftrightarrow> log_wanted (q\<lparr>al_to := None\<rparr>) r \<and> when_set (al_to q) (\<lambda>t. log_createdAt r \<le> t)"
  by (auto simp: log_wanted_def)

lemma filter_eq_iff: "filter P xs = filter Q xs \<longleftrightarrow> (\<forall>x\<in>set xs. P x = Q x)"
proof
  assume "filter P xs = filter Q xs"
  then have "{x \<in> set xs. P x} = {x \<in> set xs. Q x}" by (metis set_filter)
  then show "\<forall>x\<in>set xs. P x = Q x" by blast
qed (auto intro: filter_cong)

definition request_wanted :: "agent_request_params \<Rightarrow> api_request \<Rightarrow> bool" where
  "request_wanted q r \<longleftrightarrow>
     (arq_errorsOnly q = Some True \<longrightarrow> req_isError r)
     \<and> when_set (arq_traceId q) (\<lambda>t. req_traceId r = Some t)
     \<and> when_set (map_option to_lower (arq_search q)) (\<lambda>t. str_includes t (to_lower (req_path r)))
     \<and> when_set (arq_from q) (\<lambda>t. t \<le> req_createdAt r)
     \<and> when_set (arq_to q) (\<lambda>t. req_createdAt r \<le> t)"

lemma to_lower_Nil [simp]: "to_lower s = [] \<longleftrightarrow> s = []"
  by (simp add: to_lower_def)

lemma when_set_if:
  "when_set (if truthy v then v else None) p = when_set v p"
  "when_set (map_option to_lower (if truthy v then v else None)) p = when_set (map_option to_lower v) p"
  by (cases v; simp)+

lemma matches_attribute_if [simp]:
  "matches_attribute (if truthy v then v else None) (or_default (if truthy v then Some x else None) []) r = matches_attribute v x r"
  by (auto simp: matches_attribute_def split: option.splits)

text \<open>C3: Reading a Docker service's logs through the client gives, for any key (slashes, spaces
  and percent signs included), exactly the service's own log lines that satisfy every filter
  given but the end of the window, the requested page of them and their total number, and
  leaves the state as it was. The client sends the end of the window too and the demo server
  ignores it: the answer is that of the query without it, and it is the answer the query asks for
  exactly when every line the other filters keep was written by that end.\<close>

theorem service_logs_exact:
  fixes fx a k q
  assumes "is_segment a" "k \<noteq> []" "0 \<le> or_default (al_limit q) 100" "0 \<le> or_default (al_offset q) 0"
  defines "own \<equiv> telemetry_logs (map_of (fx_telemetry fx) (a @ ''/'' @ k))"
  shows "serve fx c (getAgentServiceLogs a k (Some q)) d =
      (d, Inr (R_logs (page_of (al_limit q) (al_offset q) (filter (log_wanted (q\<lparr>al_to := None\<rparr>)) own))))
    \<and> (filter (log_wanted (q\<lparr>al_to := None\<rparr>)) own = filter (log_wanted q) own
       \<longleftrightarrow> (\<forall>r\<in>set own. log_wanted (q\<lparr>al_to := None\<rparr>) r \<longrightarrow> when_set (al_to q) (\<lambda>t. log_createdAt r \<le> t)))"
proof -
  define e where "e = ac_endpoint (getAgentServiceLogs a k (Some q))"
  obtain ps where e: "e = with_query (service_base a k @ ''/logs'') ps" and
    ps: "ps = build [sp_set ''limit'' (show_int (or_default (al_limit q) 100)), set_num ''offset'' (al_offset q),
      set_str ''level'' (al_level q), set_str ''search'' (al_search q), set_attr (al_attrKey q) (al_attrValue q),
      set_str ''traceId'' (al_traceId q), set_str ''fingerprint'' (al_fingerprint q), set_str ''from'' (al_from q),
      set_str ''to'' (al_to q)]"
    by (simp add: e_def getAgentServiceLogs_def)
  have eq: "endpoint_query e = ps"
    using service_base_no_question [OF assms(1)] by (simp add: e endpoint_query_with)
  have g: "sp_get ps j = sp_get (foldl (\<lambda>ps f. f ps) [] [sp_set ''limit'' (show_int (or_default (al_limit q) 100)),
      set_num ''offset'' (al_offset q), set_str ''level'' (al_level q), set_str ''search'' (al_search q),
      set_attr (al_attrKey q) (al_attrValue q), set_str ''traceId'' (al_traceId q),
      set_str ''fingerprint'' (al_fingerprint q), set_str ''from'' (al_from q), set_str ''to'' (al_to q)]) j" for j
    by (simp only: ps build_get)
  have page: "pageMockRows rows e = page_of (al_limit q) (al_offset q) rows" for rows :: "log_entry list"
    by (rule pageMockRows_page [OF eq]) (use assms in \<open>simp_all add: g split: option.split\<close>)
  have gets: "sp_get ps ''level'' = (if truthy (al_level q) then al_level q else None)"
    "sp_get ps ''search'' = (if truthy (al_search q) then al_search q else None)"
    "sp_get ps ''traceId'' = (if truthy (al_traceId q) then al_traceId q else None)"
    "sp_get ps ''fingerprint'' = (if truthy (al_fingerprint q) then al_fingerprint q else None)"
    "sp_get ps ''from'' = (if truthy (al_from q) then al_from q else None)"
    "sp_get ps ''attrKey'' = (if truthy (al_attrKey q) then al_attrKey q else None)"
    "sp_get ps ''attrValue'' = (if truthy (al_attrKey q) then Some (or_default (al_attrValue q) []) else None)"
    by (simp_all add: g)
  have "filterMockLogs rows e = filter (log_wanted (q\<lparr>al_to := None\<rparr>)) rows" for rows
    unfolding filterMockLogs_def eq Let_def
    by (rule filter_cong [OF refl])
      (simp only: gets log_wanted_open when_set_if matches_attribute_if)
  then have "serve fx c (getAgentServiceLogs a k (Some q)) d =
      (d, Inr (R_logs (page_of (al_limit q) (al_offset q) (filter (log_wanted (q\<lparr>al_to := None\<rparr>)) own))))"
    using get_service [of a k fx c "''logs''" ps d] serve_service_logs [of a k fx c d ps]
      endpointTelemetry_service [of a k fx "''logs''" ps] assms
    by (simp add: serve_def getAgentServiceLogs_def own_def flip: ps e add: logs_at_def reply_def page)
  then show ?thesis
    using log_wanted_end [of q] by (auto simp: filter_eq_iff)
qed

lemma str_includes_here: "str_includes p (p @ s)"
  by (cases "p @ s") (auto simp: starts_with_prefix simp del: starts_with_Cons, metis prefixI)

lemma str_includes_append: "str_includes p (x @ p @ s)"
  by (induction x) (simp_all add: str_includes_here)

text \<open>C4: Reading a Docker service's requests gives exactly the service's requests that satisfy
  every filter given, the requested page of them and their total number.\<close>

theorem service_requests_exact:
  assumes "is_segment a" "k \<noteq> []" "0 \<le> or_default (arq_limit q) 100" "0 \<le> or_default (arq_offset q) 0"
  shows "serve fx c (getAgentServiceRequests a k (Some q)) d =
    (d, Inr (R_requests (page_of (arq_limit q) (arq_offset q)
      (filter (request_wanted q) (case map_of (fx_telemetry fx) (a @ ''/'' @ k) of Some t \<Rightarrow> dt_requests t | None \<Rightarrow> [])))))"
proof -
  define e where "e = ac_endpoint (getAgentServiceRequests a k (Some q))"
  obtain ps where e: "e = with_query (service_base a k @ ''/requests'') ps" and
    ps: "ps = build [sp_set ''limit'' (show_int (or_default (arq_limit q) 100)), set_num ''offset'' (arq_offset q),
      set_str ''search'' (arq_search q), set_flag ''errorsOnly'' (arq_errorsOnly q), set_str ''traceId'' (arq_traceId q),
      set_str ''from'' (arq_from q), set_str ''to'' (arq_to q)]"
    by (simp add: e_def getAgentServiceRequests_def)
  have eq: "endpoint_query e = ps"
    using service_base_no_question [OF assms(1)] by (simp add: e endpoint_query_with)
  have g: "sp_get ps j = sp_get (foldl (\<lambda>ps f. f ps) [] [sp_set ''limit'' (show_int (or_default (arq_limit q) 100)),
      set_num ''offset'' (arq_offset q), set_str ''search'' (arq_search q), set_flag ''errorsOnly'' (arq_errorsOnly q),
      set_str ''traceId'' (arq_traceId q), set_str ''from'' (arq_from q), set_str ''to'' (arq_to q)]) j" for j
    by (simp only: ps build_get)
  have page: "pageMockRows rows e = page_of (arq_limit q) (arq_offset q) rows" for rows :: "api_request list"
    by (rule pageMockRows_page [OF eq]) (use assms in \<open>simp_all add: g split: option.split\<close>)
  have gets: "sp_get ps ''search'' = (if truthy (arq_search q) then arq_search q else None)"
    "sp_get ps ''traceId'' = (if truthy (arq_traceId q) then arq_traceId q else None)"
    "sp_get ps ''from'' = (if truthy (arq_from q) then arq_from q else None)"
    "sp_get ps ''to'' = (if truthy (arq_to q) then arq_to q else None)"
    "(sp_get ps ''errorsOnly'' = Some ''true'') = (arq_errorsOnly q = Some True)"
    "sp_get ps ''minStatus'' = None" "sp_get ps ''maxStatus'' = None"
    by (simp_all add: g)
  have f: "filterMockRequests rows e = filter (request_wanted q) rows" for rows
    unfolding filterMockRequests_def eq Let_def
    by (rule filter_cong [OF refl])
      (simp only: gets request_wanted_def when_set_if status_bound_def number_or_Some option.case if_False HOL.simp_thms imp_conv_disj)
  have "str_includes ''/services/'' e"
    using str_includes_append [of "''/services/''" "''/agents/'' @ a"] by (simp add: e with_query_def service_base_def)
  then have r: "endpointRequests fx d e = Inr (filter (request_wanted q)
      (case map_of (fx_telemetry fx) (a @ ''/'' @ k) of Some t \<Rightarrow> dt_requests t | None \<Rightarrow> []))"
    using endpointTelemetry_service [of a k fx "''requests''" ps] assms
    by (simp add: endpointRequests_def f flip: e split: option.split)
  show ?thesis
    using get_service [of a k fx c "''requests''" ps d] serve_service_requests [of a k fx c d ps] assms r
    by (simp add: serve_def getAgentServiceRequests_def flip: ps e add: requests_at_def reply_def page)
qed

definition demo_log_query :: agent_log_params where
  "demo_log_query = \<lparr>al_level = Some ''error'', al_search = Some ''TIMEOUT'', al_attrKey = None, al_attrValue = None,
     al_traceId = None, al_fingerprint = None, al_from = None, al_to = Some ''2026-09-24T09:30:00.000Z'', al_limit = Some 20, al_offset = None\<rparr>"

lemma demo_lower:
  "to_lower ''TIMEOUT'' = ''timeout''" "to_lower ''Connection timeout after 5000ms'' = ''connection timeout after 5000ms''"
  by code_simp+

text \<open>The line is written after the end asked for, and is answered all the same.\<close>

lemma service_logs_exact_witness:
  "snd (serve demo_fx demo_ctx (getAgentServiceLogs ''agent_demo_01'' ''web/api'' (Some demo_log_query)) demo_db)
     = Inr (R_logs \<lparr>rows_data = [demo_log 101 L_error ''Connection timeout after 5000ms'' ''2026-09-24T09:59:00.000Z''], rows_total = 1\<rparr>)
   \<and> \<not> log_wanted demo_log_query (demo_log 101 L_error ''Connection timeout after 5000ms'' ''2026-09-24T09:59:00.000Z'')"
proof
  show "snd (serve demo_fx demo_ctx (getAgentServiceLogs ''agent_demo_01'' ''web/api'' (Some demo_log_query)) demo_db)
     = Inr (R_logs \<lparr>rows_data = [demo_log 101 L_error ''Connection timeout after 5000ms'' ''2026-09-24T09:59:00.000Z''], rows_total = 1\<rparr>)"
    by (subst service_logs_exact [THEN conjunct1])
      (simp_all add: demo_log_query_def page_of_def telemetry_logs_def demo_data_def demo_log_def log_wanted_def
        matches_attribute_def demo_lower)
  have "\<not> ''2026-09-24T09:59:00.000Z'' \<le> ''2026-09-24T09:30:00.000Z''" by code_simp
  then show "\<not> log_wanted demo_log_query (demo_log 101 L_error ''Connection timeout after 5000ms'' ''2026-09-24T09:59:00.000Z'')"
    by (simp add: log_wanted_def demo_log_query_def demo_log_def)
qed

definition demo_request_query :: agent_request_params where
  "demo_request_query = \<lparr>arq_search = None, arq_errorsOnly = Some True, arq_traceId = None, arq_from = None, arq_to = None,
     arq_limit = None, arq_offset = None\<rparr>"

lemma service_requests_exact_witness:
  "snd (serve demo_fx demo_ctx (getAgentServiceRequests ''agent_demo_01'' ''web/api'' (Some demo_request_query)) demo_db)
     = Inr (R_requests \<lparr>rows_data = [demo_request 203 503 5001 ''2026-09-24T09:53:20.000Z''], rows_total = 1\<rparr>)"
  by (subst service_requests_exact)
    (simp_all add: demo_request_query_def page_of_def demo_data_def demo_request_def request_wanted_def)

section \<open>The state under requests\<close>

text \<open>A request without a method, or with GET, never changes the demo server's state.\<close>

theorem read_keeps_state:
  "meth \<in> {None, Some ''GET''} \<Longrightarrow> fst (mockRouter fx c e meth body d) = d"
  by (auto simp: mockRouter_def on_match_def Let_def split: option.split)

lemma read_keeps_state_witness:
  "fst (mockRouter demo_fx demo_ctx ''/projects'' None None demo_db) = demo_db"
  by (rule read_keeps_state) simp

definition demo_form :: uptime_monitor_input where
  "demo_form = \<lparr>ui_name = ''Mail relay'', ui_type = M_tcp, ui_url = None, ui_host = Some ''smtp.example.com'',
     ui_port = Some 587, ui_method = None, ui_expectedStatus = None, ui_timeout = Some 3000, ui_interval = Some 60,
     ui_isActive = None\<rparr>"

text \<open>C1: Whatever the request, no two projects, collectors, monitors, direct services or
  infrastructure resources come to share an id, given that the id the clock would give a new
  target is not taken and that the body of a PUT names no id, which the server would copy into
  the target; no body that the client writes for an update names one.\<close>

theorem ids_stay_unique:
  assumes "ids_ok d" "fresh_ids c d" "meth = Some ''PUT'' \<Longrightarrow> names_no_id (parsed_body body)"
  shows "ids_ok (fst (mockRouter fx c e meth body d))
    \<and> names_no_id (project_input_json pp) \<and> names_no_id (uptime_monitor_input_json mm)
    \<and> names_no_id (observed_service_input_json ss) \<and> names_no_id (infrastructure_resource_input_json rr)"
proof -
  have "meth = Some ''PUT'' \<or> or_default meth ''GET'' \<noteq> ''PUT''" by (cases meth) auto
  then have m: "or_default meth ''GET'' = ''PUT'' \<Longrightarrow> names_no_id (parsed_body body)" using assms(3) by blast
  have "ids_ok (fst (mockRouter fx c e meth body d))"
    unfolding mockRouter_def Let_def
    by (intro on_match_keeps [where P = ids_ok] if_keeps [where P = ids_ok]; simp add: ids_rules mutation_ids assms(1,2) m)
  then show ?thesis by simp
qed

lemma ids_stay_unique_witness:
  "ids_ok (fst (mockRouter demo_fx demo_ctx ''/services/uptime_mock_store'' (Some ''PUT'')
     (Some (uptime_monitor_input_json demo_form)) demo_db))"
  by (rule ids_stay_unique [THEN conjunct1]) (simp_all add: parsed_body_def)

text \<open>The exception is real: a PUT whose body names another monitor's id makes two monitors share it.\<close>

lemma put_copies_id:
  assumes "db_monitors d = [m\<lparr>um_id := ''a''\<rparr>, m\<lparr>um_id := ''b''\<rparr>]"
  shows "map um_id (db_monitors (fst (mockRouter fx c ''/services/a'' (Some ''PUT'') (Some (JObj [(''id'', JStr ''b'')])) d)))
    = [''b'', ''b'']"
  using assms by (simp add: mockRouter_def mutation_def router_patterns seg_match update_monitor_def assign_monitor_def
      parsed_body_def ok_def is_segment_def Let_def)

lemma unassigned_other [simp]: "unassigned i p \<noteq> Some i" "Some i \<noteq> unassigned i p"
  by (simp_all add: unassigned_def)

text \<open>C2: Deleting a project through the client removes that project and no other, and leaves no
  collector, monitor, direct service or infrastructure resource assigned to it; every other
  assignment stays.\<close>

theorem project_deleted:
  assumes "is_segment i" "ids_ok d" and d': "d' = fst (serve fx c (deleteProject i) d)"
  shows "find_by pr_id (db_projects d') j = (if j = i then None else find_by pr_id (db_projects d) j)
    \<and> map ag_projectId (db_agents d') = map (\<lambda>a. unassigned i (ag_projectId a)) (db_agents d)
    \<and> map um_projectId (db_monitors d') = map (\<lambda>m. unassigned i (um_projectId m)) (db_monitors d)
    \<and> map os_projectId (db_observed d') = map (\<lambda>s. unassigned i (os_projectId s)) (db_observed d)
    \<and> map ir_projectId (db_infrastructure d') = map (\<lambda>r. unassigned i (ir_projectId r)) (db_infrastructure d)
    \<and> Some i \<notin> ag_projectId ` set (db_agents d') \<union> um_projectId ` set (db_monitors d')
      \<union> os_projectId ` set (db_observed d') \<union> ir_projectId ` set (db_infrastructure d')"
proof -
  have e: "d' = fst (delete_project i d)" using assms by (simp add: serve_rules)
  have "find_by pr_id (db_projects d') j = (if j = i then None else find_by pr_id (db_projects d) j)"
    unfolding e using projects.look_after_remove assms(2) by (simp add: ids_ok_def)
  then show ?thesis by (auto simp: e delete_project_def)
qed

lemma project_deleted_witness:
  "ag_projectId ` set (db_agents (fst (serve demo_fx demo_ctx (deleteProject ''project_mock_production'') demo_db))) = {None}"
  using project_deleted [OF demo_segments(1) demo_ids_ok refl, of demo_fx demo_ctx]
  by (simp flip: set_map add: demo_simps unassigned_def)

text \<open>Deleting a monitor, collector, direct service or infrastructure resource through the
  client removes the target with that id and no other; a deleted monitor reads back as null.\<close>

theorem target_deleted:
  assumes "is_segment i" "ids_ok d"
  shows "find_by um_id (db_monitors (fst (serve fx c (deleteUptimeMonitor i) d))) j
      = (if j = i then None else find_by um_id (db_monitors d) j)
    \<and> find_by ag_id (db_agents (fst (serve fx c (deleteAgent i) d))) j
      = (if j = i then None else find_by ag_id (db_agents d) j)
    \<and> find_by os_id (db_observed (fst (serve fx c (deleteObservedService i) d))) j
      = (if j = i then None else find_by os_id (db_observed d) j)
    \<and> find_by ir_id (db_infrastructure (fst (serve fx c (deleteInfrastructureResource i) d))) j
      = (if j = i then None else find_by ir_id (db_infrastructure d) j)
    \<and> snd (serve fx c' (getUptimeMonitor i) (fst (serve fx c (deleteUptimeMonitor i) d))) = Inr Null"
  using assms monitors.look_after_remove [of d i] agents.look_after_remove [of d i]
    observed.look_after_remove [of d i] infrastructure.look_after_remove [of d i]
  by (simp add: serve_rules ids_ok_def reply_or_null_def)

lemma target_deleted_witness:
  "snd (serve demo_fx demo_ctx (getUptimeMonitor ''uptime_mock_store'')
     (fst (serve demo_fx demo_ctx (deleteUptimeMonitor ''uptime_mock_store'') demo_db))) = Inr Null"
  using target_deleted [of "''uptime_mock_store''" demo_db] by simp

section \<open>A target's life\<close>

text \<open>The monitor a create request asks for, with the server's defaults.\<close>

definition monitor_of :: "ctx \<Rightarrow> uptime_monitor_input \<Rightarrow> uptime_monitor" where
  "monitor_of c p =
     \<lparr>um_id = ''uptime_mock_'' @ show_int (ctx_now c), um_name = ui_name p, um_projectId = None, um_type = ui_type p,
      um_isActive = or_default (ui_isActive p) True,
      um_url = (case ui_url p of Some u \<Rightarrow> u | None \<Rightarrow> or_default (ui_host p) []), um_port = ui_port p,
      um_method = or_default (ui_method p) ''GET'', um_expectedStatus = or_default (ui_expectedStatus p) 200,
      um_timeout = or_default (ui_timeout p) 5000, um_interval = or_default (ui_interval p) 30,
      um_status = S_unknown, um_lastCheckAt = None, um_uptime = None, um_responseTime = None, um_latencyHistory = None,
      um_certExpiresAt = None\<rparr>"

lemma find_new: "i \<notin> k ` set xs \<Longrightarrow> k y = i \<Longrightarrow> find (\<lambda>x. k x = i) (xs @ [y]) = Some y"
  by (induction xs) auto

text \<open>What the server reads from the body the client writes.\<close>

lemma monitor_json_get:
  fixes p defines "j \<equiv> uptime_monitor_input_json p"
  shows "get_str j ''name'' = Some (ui_name p)" "get_str j ''type'' = Some (uptime_monitor_type_text (ui_type p))"
    "get_str j ''url'' = ui_url p" "get_str j ''host'' = ui_host p" "get_int j ''port'' = ui_port p"
    "get_str j ''method'' = ui_method p" "get_int j ''expectedStatus'' = ui_expectedStatus p"
    "get_int j ''timeout'' = ui_timeout p" "get_int j ''interval'' = ui_interval p" "get_bool j ''isActive'' = ui_isActive p"
  by (simp_all add: j_def uptime_monitor_input_json_def get_int_def get_bool_def del: map_of_append case_map_option)

lemma find_old: "k y \<noteq> i \<Longrightarrow> find (\<lambda>x. k x = i) (xs @ [y]) = find (\<lambda>x. k x = i) xs"
  by (induction xs) auto

lemma create_monitor_of:
  "create_monitor c (uptime_monitor_input_json p) d = (d\<lparr>db_monitors := db_monitors d @ [monitor_of c p]\<rparr>, R_monitor (monitor_of c p))"
  by (cases "ui_type p"; cases "ui_url p") (simp_all add: create_monitor_def monitor_json_get monitor_of_def new_id_def Let_def)

text \<open>A monitor created through the client is answered and reads back with every property the
  form gave and the server's defaults for the others, under the id the server chose; the
  monitors that were there read back as before.\<close>

theorem monitor_created:
  assumes "um_id (monitor_of c p) \<notin> um_id ` set (db_monitors d)" "0 \<le> ctx_now c"
    and "is_segment i" "i \<noteq> um_id (monitor_of c p)"
  shows "snd (serve fx c (createUptimeMonitor p) d) = Inr (R_monitor (monitor_of c p))
    \<and> snd (serve fx c' (getUptimeMonitor (um_id (monitor_of c p))) (fst (serve fx c (createUptimeMonitor p) d)))
      = Inr (R_monitor (monitor_of c p))
    \<and> snd (serve fx c' (getUptimeMonitor i) (fst (serve fx c (createUptimeMonitor p) d)))
      = snd (serve fx c' (getUptimeMonitor i) d)"
proof (rule conj3)
  have s: "is_segment (um_id (monitor_of c p))"
    using show_nat_digits [of "nat (ctx_now c)"] assms(2)
    by (auto simp: monitor_of_def is_segment_def show_int_def list_all_iff digit_values)
  show "snd (serve fx c (createUptimeMonitor p) d) = Inr (R_monitor (monitor_of c p))"
    by (simp add: serve_rules create_monitor_of ok_def)
  show "snd (serve fx c' (getUptimeMonitor (um_id (monitor_of c p))) (fst (serve fx c (createUptimeMonitor p) d)))
      = Inr (R_monitor (monitor_of c p))"
    using find_new [OF assms(1)] by (simp add: serve_rules s create_monitor_of find_by_def reply_or_null_def)
  show "snd (serve fx c' (getUptimeMonitor i) (fst (serve fx c (createUptimeMonitor p) d)))
      = snd (serve fx c' (getUptimeMonitor i) d)"
    using assms(3,4) by (simp add: serve_rules create_monitor_of find_by_def find_old)
qed

lemma monitor_created_witness:
  "snd (serve demo_fx demo_ctx (getUptimeMonitor ''uptime_mock_store'')
      (fst (serve demo_fx demo_ctx (createUptimeMonitor demo_form) demo_db))) = Inr (R_monitor demo_monitor)"
proof -
  have f: "show_int (ctx_now demo_ctx) \<noteq> ''store''"
    by (simp add: demo_ctx_def show_int_not_word digit_values)
  have "snd (serve demo_fx demo_ctx (getUptimeMonitor ''uptime_mock_store'')
      (fst (serve demo_fx demo_ctx (createUptimeMonitor demo_form) demo_db)))
    = snd (serve demo_fx demo_ctx (getUptimeMonitor ''uptime_mock_store'') demo_db)"
    by (rule monitor_created [THEN conjunct2, THEN conjunct2]) (use f in \<open>simp_all add: monitor_of_def demo_simps demo_ctx_def\<close>)
  then show ?thesis by (simp add: serve_rules demo_db_def demo_monitor_def find_by_def reply_or_null_def)
qed

text \<open>Revoking a direct service's key makes that service inactive and rotating it makes it
  active again with a new key, both keep everything else of the service, and no other direct
  service changes.\<close>

theorem observed_key_life:
  assumes "is_segment i" "find_by os_id (db_observed d) i = Some s"
    and "d1 = fst (serve fx c (revokeObservedServiceKey i) d)" and "d2 = fst (serve fx c (rotateObservedServiceKey i) d1)"
  shows "find_by os_id (db_observed d1) j = (if j = i then Some (s\<lparr>os_isActive := False\<rparr>) else find_by os_id (db_observed d) j)
    \<and> find_by os_id (db_observed d2) j
      = (if j = i then Some (s\<lparr>os_isActive := True, os_apiKeyMasked := Some ''evup_****new1''\<rparr>) else find_by os_id (db_observed d) j)
    \<and> (\<exists>t. snd (serve fx c (rotateObservedServiceKey i) d1) = Inr (R_observedSetup t) \<and> oss_apiKey t = ''evup_direct_'' @ ctx_random c 24)"
proof (rule conj3)
  have f: "find (\<lambda>s. os_id s = i) (db_observed d) = Some s" using assms(2) by (simp add: find_by_def)
  have d1: "db_observed d1 = update_first (\<lambda>s. os_id s = i) (\<lambda>s. s\<lparr>os_isActive := False\<rparr>) (db_observed d)"
    using assms by (simp add: serve_rules revoke_observed_def Let_def)
  show 1: "find_by os_id (db_observed d1) j = (if j = i then Some (s\<lparr>os_isActive := False\<rparr>) else find_by os_id (db_observed d) j)" for j
    by (simp add: d1 find_by_def find_update_id f)
  have f1: "find (\<lambda>s. os_id s = i) (db_observed d1) = Some (s\<lparr>os_isActive := False\<rparr>)"
    using 1 [of i] by (simp add: find_by_def)
  then have d2: "db_observed d2 = update_first (\<lambda>s. os_id s = i)
      (\<lambda>s. s\<lparr>os_isActive := True, os_apiKeyMasked := Some ''evup_****new1''\<rparr>) (db_observed d1)"
    using assms(1,4) by (simp add: serve_rules rotate_observed_def Let_def)
  show "find_by os_id (db_observed d2) j
      = (if j = i then Some (s\<lparr>os_isActive := True, os_apiKeyMasked := Some ''evup_****new1''\<rparr>) else find_by os_id (db_observed d) j)"
    using 1 [of j] f1 by (simp add: d2 find_by_def find_update_id)
  show "\<exists>t. snd (serve fx c (rotateObservedServiceKey i) d1) = Inr (R_observedSetup t) \<and> oss_apiKey t = ''evup_direct_'' @ ctx_random c 24"
    using assms(1) f1 by (simp add: serve_rules rotate_observed_def ok_def with_api_key_def observed_service.defs observed_service_setup.defs Let_def)
qed

lemma observed_key_life_witness:
  "find_by os_id (db_observed (fst (serve demo_fx demo_ctx (revokeObservedServiceKey ''observed_mock_checkout'') demo_db)))
     ''observed_mock_checkout'' = Some (demo_observed\<lparr>os_isActive := False\<rparr>)"
  using observed_key_life [of "''observed_mock_checkout''" demo_db demo_observed _ demo_fx demo_ctx _ "''observed_mock_checkout''"]
  by (simp add: demo_db_def demo_observed_def find_by_def)

section \<open>Collector profiles\<close>

lemma all_capabilities [simp]: "set ALL_CAPABILITIES = UNIV"
  using agent_collection_capability.exhaust by (auto simp: ALL_CAPABILITIES_def)

lemma capability_text_inject [simp]:
  "agent_collection_capability_text a = agent_collection_capability_text b \<longleftrightarrow> a = b"
  by (cases a; cases b) simp_all

text \<open>A custom selection \<open>S\<close> wants what it names, and uptime with logs or requests.\<close>

definition wants :: "string set \<Rightarrow> agent_collection_capability \<Rightarrow> bool" where
  "wants S c \<longleftrightarrow> agent_collection_capability_text c \<in> S \<or> (c = Cap_uptime \<and> (''logs'' \<in> S \<or> ''api'' \<in> S))"

lemma normalize_custom:
  "normalizeMockAgentProfile (Some \<lparr>pin_kind = Some ''custom'', pin_capabilities = caps\<rparr>)
     = \<lparr>pf_kind = PK_custom, pf_capabilities = filter (wants (set (or_default caps []))) ALL_CAPABILITIES\<rparr>"
  by (auto simp: normalizeMockAgentProfile_def wants_def ALL_CAPABILITIES_def Let_def)

lemma wants_again: "wants (agent_collection_capability_text ` Collect (wants S)) = wants S"
proof
  fix c
  have t: "agent_collection_capability_text x \<in> agent_collection_capability_text ` Collect (wants S) \<longleftrightarrow> wants S x" for x
    by auto
  show "wants (agent_collection_capability_text ` Collect (wants S)) c = wants S c"
    using t [of Cap_logs] t [of Cap_api] by (auto simp: wants_def [of _ c] t) (auto simp: wants_def)
qed

lemma capability_text_nonempty [simp]: "agent_collection_capability_text x \<noteq> []" "[] \<noteq> agent_collection_capability_text x"
  by (cases x; simp)+

definition profile_closed :: "agent_profile \<Rightarrow> bool" where
  "profile_closed p \<longleftrightarrow> (Cap_logs \<in> set (pf_capabilities p) \<or> Cap_api \<in> set (pf_capabilities p) \<longrightarrow> Cap_uptime \<in> set (pf_capabilities p))
     \<and> subseq (pf_capabilities p) ALL_CAPABILITIES"

lemma profile_cases:
  obtains (custom) caps where "p = Some \<lparr>pin_kind = Some ''custom'', pin_capabilities = caps\<rparr>"
    | (fixed) "Option.bind p pin_kind \<noteq> Some ''custom''"
proof (cases p)
  case (Some a)
  then show thesis using that by (cases a) auto
qed (simp add: that)

lemma normalize_fixed:
  "Option.bind p pin_kind \<noteq> Some ''custom'' \<Longrightarrow> normalizeMockAgentProfile p =
     (if Option.bind p pin_kind = Some ''basic'' then \<lparr>pf_kind = PK_basic, pf_capabilities = [Cap_uptime, Cap_logs]\<rparr>
      else \<lparr>pf_kind = PK_all_in_one, pf_capabilities = ALL_CAPABILITIES\<rparr>)"
  by (simp add: normalizeMockAgentProfile_def)

lemma normalize_again:
  "normalizeMockAgentProfile (Some (input_of_profile (normalizeMockAgentProfile p))) = normalizeMockAgentProfile p"
proof (cases rule: profile_cases [of p])
  case (custom caps)
  then show ?thesis by (simp add: normalize_custom input_of_profile_def wants_again)
next
  case fixed
  then show ?thesis by (simp add: normalize_fixed input_of_profile_def)
qed

lemma normalize_closed: "profile_closed (normalizeMockAgentProfile p)"
proof (cases rule: profile_cases [of p])
  case (custom caps)
  then show ?thesis by (simp add: normalize_custom profile_closed_def wants_def subseq_filter_left)
next
  case fixed
  then show ?thesis by (simp add: normalize_fixed profile_closed_def) (simp add: ALL_CAPABILITIES_def)
qed

text \<open>C6: A collector's normal profile lists its capabilities without repetition in the fixed
  order, has uptime whenever it has logs or requests, and normalizing it again changes nothing.\<close>

theorem profile_normal:
  "profile_closed (normalizeMockAgentProfile p)
    \<and> normalizeMockAgentProfile (Some (input_of_profile (normalizeMockAgentProfile p))) = normalizeMockAgentProfile p"
  by (intro conjI normalize_closed normalize_again)

lemma join_empty: "[] \<notin> set xs \<Longrightarrow> join_with sep xs = [] \<longleftrightarrow> xs = []"
  by (cases xs; cases "tl xs") auto

lemma profile_hash_empty: "profile_hash p = [] \<longleftrightarrow> pf_capabilities p = []"
proof -
  let ?t = "map agent_collection_capability_text (pf_capabilities p)"
  have "[] \<notin> set ?t" by auto
  then have "profile_hash p = [] \<longleftrightarrow> sort_by (by_key (\<lambda>x. x)) ?t = []"
    unfolding profile_hash_def by (intro join_empty) simp
  also have "\<dots> \<longleftrightarrow> ?t = []" by (metis mset_sort_by mset_zero_iff)
  finally show ?thesis by simp
qed

lemma set_profile_found:
  assumes "find_by ag_id (db_agents d) i = Some a"
  shows "set_profile i j d = (fst (set_profile i j d), Inr (R_profile (normalizeMockAgentProfile (Some (profile_of_json j)))))"
    and "i \<in> set (db_pendingProfiles (fst (set_profile i j d)))"
  using assms find_Some_iff_set [of _ "db_agents d" a] by (auto simp: set_profile_def find_by_def Let_def)

text \<open>C5: A collector whose profile was just changed through the client is answered with the normal
  form of what was sent, that form is what is stored, and its setup status reports it as not
  applied (the applied hash is empty), unless the stored profile selects nothing.\<close>

theorem profile_change_pending:
  assumes "is_segment i" "find_by ag_id (db_agents d) i = Some a"
    and n: "n = normalizeMockAgentProfile (Some (input_of_profile p))"
    and "(d', r) = serve fx c (updateAgentProfile i p) d"
    and b: "ag_id b = i" "ag_profile b = Some n"
  shows "r = Inr (R_profile n) \<and> find_by ag_id (db_agents d') i = Some (a\<lparr>ag_profile := Some n\<rparr>)
    \<and> css_profile (setup_status c' d' b) = n \<and> css_appliedHash (setup_status c' d' b) = []
    \<and> (css_configApplied (setup_status c' d' b) \<longrightarrow> pf_capabilities n = [])"
proof -
  let ?j = "agent_profile_json p"
  have j: "profile_of_json ?j = input_of_profile p"
    by (simp add: profile_of_json_def input_of_profile_def agent_profile_json_def get_strings_def comp_def)
  have s: "d' = fst (set_profile i ?j d)" "r = snd (set_profile i ?j d)"
    using assms(1,4) by (simp_all add: serve_rules prod_eq_iff)
  have "r = Inr (R_profile n)"
    using arg_cong [OF set_profile_found(1) [OF assms(2), of ?j], of snd] by (simp add: s j n)
  moreover have "find_by ag_id (db_agents d') i = Some (a\<lparr>ag_profile := Some n\<rparr>)"
    using agents.look_edit [of i ?j d i] assms(2) by (simp add: s put_profile_def j n)
  moreover have shown: "css_profile (setup_status c' d' b) = n \<and> css_appliedHash (setup_status c' d' b) = []"
    using set_profile_found(2) [OF assms(2), of ?j] by (simp add: setup_status_def s b n normalize_again Let_def)
  moreover have "css_configApplied (setup_status c' d' b) \<longrightarrow> pf_capabilities n = []"
    using shown by (auto simp: setup_status_def profile_hash_empty Let_def split: if_splits)
  ultimately show ?thesis by blast
qed

lemma profile_change_pending_witness:
  "css_appliedHash (setup_status demo_ctx (fst (serve demo_fx demo_ctx
      (updateAgentProfile ''agent_demo_01'' \<lparr>pf_kind = PK_basic, pf_capabilities = []\<rparr>) demo_db))
     (demo_agent\<lparr>ag_profile := Some \<lparr>pf_kind = PK_basic, pf_capabilities = [Cap_uptime, Cap_logs]\<rparr>\<rparr>)) = []"
  by (rule profile_change_pending [OF demo_segments(3) _ refl prod.collapse, THEN conjunct2, THEN conjunct2, THEN conjunct2, THEN conjunct1])
    (simp_all add: demo_db_def demo_agent_def find_by_def normalizeMockAgentProfile_def input_of_profile_def)

end
