(* ===== verification/EU_Status.thy ===== *)
theory EU_Status imports EU_Time EU_TelemetryTypes EU_ServiceTypes EU_AgentTypes EU_AlertTypes
begin

text \<open>
  The judgements of state the pages share, and the labels beside them:
  \<open>utils/operationalStatus.ts\<close> (is a collector fresh, the state of a Docker service),
  \<open>features/uptime/uptimeState.ts\<close>, \<open>features/metrics/metricPresentation.ts\<close> (a metric's
  collection status and flags), \<open>utils/incidentFormat.ts\<close> and the small label tables of
  alerts, settings and runtimes. \<open>now\<close> is the argument that stands for \<open>Date.now()\<close>; a
  timestamp that does not parse is \<open>NaN\<close>, and every comparison with it is false.
\<close>

datatype status_tone = T_healthy | T_warn | T_error | T_idle

section \<open>Freshness and the state of a Docker service\<close>

definition COLLECTOR_FRESH_FOR_MS :: int where
  "COLLECTOR_FRESH_FOR_MS = 2 * 60 * 1000"

definition isCollectorFresh :: "int \<Rightarrow> string option \<Rightarrow> bool" where
  "isCollectorFresh now ts =
     (if \<not> truthy ts then False
      else case date_parse (the ts) of
          None \<Rightarrow> False
        | Some observedAt \<Rightarrow> now - observedAt < COLLECTOR_FRESH_FOR_MS)"

datatype docker_uptime_state = DU_paused | DU_waiting | DU_stale | DU_up | DU_down

definition dockerUptimeState :: "int \<Rightarrow> 'a agent_service_snapshot_scheme \<Rightarrow> docker_uptime_state" where
  "dockerUptimeState now s =
     (if sv_silenced s then DU_paused
      else if \<not> sv_seen s then DU_waiting
      else if \<not> isCollectorFresh now (Some (sv_observedAt s)) then DU_stale
      else if sv_healthy s then DU_up else DU_down)"

lemma date_parse_Nil [simp]: "date_parse [] = None"
  by (simp add: date_parse_def)

lemma isCollectorFresh_iff:
  "isCollectorFresh now ts \<longleftrightarrow> (\<exists>s t. ts = Some s \<and> date_parse s = Some t \<and> now - t < COLLECTOR_FRESH_FOR_MS)"
  by (cases ts; cases "ts = Some []") (auto simp: isCollectorFresh_def split: option.splits)

lemma isCollectorFresh_None [simp]: "\<not> isCollectorFresh now None"
  by (simp add: isCollectorFresh_def)

lemma isCollectorFresh_iso:
  "iso_range t \<Longrightarrow> isCollectorFresh now (Some (iso_string t)) \<longleftrightarrow> now - t < COLLECTOR_FRESH_FOR_MS"
  by (simp add: isCollectorFresh_iff date_parse_iso)

text \<open>Once a collector stops sending, it does not become fresh again by time passing.\<close>

lemma fresh_antimono: "isCollectorFresh now' ts \<Longrightarrow> now \<le> now' \<Longrightarrow> isCollectorFresh now ts"
  by (auto simp: isCollectorFresh_iff)

lemma dockerUptimeState_verdict:
  "dockerUptimeState now s \<in> {DU_up, DU_down} \<longleftrightarrow>
   \<not> sv_silenced s \<and> sv_seen s \<and> isCollectorFresh now (Some (sv_observedAt s))"
  by (simp add: dockerUptimeState_def)

section \<open>Uptime monitors\<close>

datatype uptime_state = U_up | U_down | U_waiting | U_paused

definition uptimeState :: "uptime_monitor \<Rightarrow> uptime_state" where
  "uptimeState m =
     (if \<not> um_isActive m then U_paused
      else if um_status m = S_healthy then U_up
      else if um_status m = S_unhealthy then U_down
      else U_waiting)"

fun UPTIME_STATE_LIGHT :: "uptime_state \<Rightarrow> status_tone \<times> string" where
  "UPTIME_STATE_LIGHT U_up = (T_healthy, [CHR 0xEC, CHR 0xA0, CHR 0x95, CHR 0xEC, CHR 0x83, CHR 0x81])"
| "UPTIME_STATE_LIGHT U_down = (T_error, [CHR 0xEC, CHR 0x9E, CHR 0xA5, CHR 0xEC, CHR 0x95, CHR 0xA0])"
| "UPTIME_STATE_LIGHT U_waiting = (T_idle, ([CHR 0xED, CHR 0x99, CHR 0x95, CHR 0xEC, CHR 0x9D, CHR 0xB8] @ '' '' @ [CHR 0xEB, CHR 0x8C, CHR 0x80, CHR 0xEA, CHR 0xB8, CHR 0xB0]))"
| "UPTIME_STATE_LIGHT U_paused = (T_idle, [CHR 0xEC, CHR 0x9D, CHR 0xBC, CHR 0xEC, CHR 0x8B, CHR 0x9C, CHR 0xEC, CHR 0xA0, CHR 0x95, CHR 0xEC, CHR 0xA7, CHR 0x80])"

section \<open>Metrics\<close>

definition metricIdentity :: "'a otel_metric_name_scheme \<Rightarrow> string" where
  "metricIdentity m = stringify (JArr
     [JStr (mn_metricName m), JStr (metric_type_text (mn_metricType m)),
      JStr (case mn_unit m of Some u \<Rightarrow> u | None \<Rightarrow> [])])"

definition METRIC_TITLES :: "(string \<times> string) list" where
  "METRIC_TITLES =
     [(''http.server.request.duration'', ([CHR 0xEC, CHR 0x9D, CHR 0x91, CHR 0xEB, CHR 0x8B, CHR 0xB5] @ '' '' @ [CHR 0xEC, CHR 0x8B, CHR 0x9C, CHR 0xEA, CHR 0xB0, CHR 0x84])),
      (''http.server.duration'', ([CHR 0xEC, CHR 0x9D, CHR 0x91, CHR 0xEB, CHR 0x8B, CHR 0xB5] @ '' '' @ [CHR 0xEC, CHR 0x8B, CHR 0x9C, CHR 0xEA, CHR 0xB0, CHR 0x84])),
      (''http.server.active_requests'', ([CHR 0xEC, CHR 0xB2, CHR 0x98, CHR 0xEB, CHR 0xA6, CHR 0xAC] @ '' '' @ [CHR 0xEC, CHR 0xA4, CHR 0x91, CHR 0xEC, CHR 0x9D, CHR 0xB8] @ '' '' @ [CHR 0xEC, CHR 0x9A, CHR 0x94, CHR 0xEC, CHR 0xB2, CHR 0xAD])),
      (''http.server.active_requests.count'', ([CHR 0xEC, CHR 0xB2, CHR 0x98, CHR 0xEB, CHR 0xA6, CHR 0xAC] @ '' '' @ [CHR 0xEC, CHR 0xA4, CHR 0x91, CHR 0xEC, CHR 0x9D, CHR 0xB8] @ '' '' @ [CHR 0xEC, CHR 0x9A, CHR 0x94, CHR 0xEC, CHR 0xB2, CHR 0xAD])),
      (''jvm.memory.used'', (''JVM '' @ [CHR 0xEB, CHR 0xA9, CHR 0x94, CHR 0xEB, CHR 0xAA, CHR 0xA8, CHR 0xEB, CHR 0xA6, CHR 0xAC] @ '' '' @ [CHR 0xEC, CHR 0x82, CHR 0xAC, CHR 0xEC, CHR 0x9A, CHR 0xA9, CHR 0xEB, CHR 0x9F, CHR 0x89])),
      (''process.memory.usage'', ([CHR 0xED, CHR 0x94, CHR 0x84, CHR 0xEB, CHR 0xA1, CHR 0x9C, CHR 0xEC, CHR 0x84, CHR 0xB8, CHR 0xEC, CHR 0x8A, CHR 0xA4] @ '' '' @ [CHR 0xEB, CHR 0xA9, CHR 0x94, CHR 0xEB, CHR 0xAA, CHR 0xA8, CHR 0xEB, CHR 0xA6, CHR 0xAC] @ '' '' @ [CHR 0xEC, CHR 0x82, CHR 0xAC, CHR 0xEC, CHR 0x9A, CHR 0xA9, CHR 0xEB, CHR 0x9F, CHR 0x89])),
      (''messaging.process.duration'', ([CHR 0xEB, CHR 0xA9, CHR 0x94, CHR 0xEC, CHR 0x8B, CHR 0x9C, CHR 0xEC, CHR 0xA7, CHR 0x80] @ '' '' @ [CHR 0xEC, CHR 0xB2, CHR 0x98, CHR 0xEB, CHR 0xA6, CHR 0xAC] @ '' '' @ [CHR 0xEC, CHR 0x8B, CHR 0x9C, CHR 0xEA, CHR 0xB0, CHR 0x84])),
      (''queue.messages.pending'', ([CHR 0xEB, CHR 0x8C, CHR 0x80, CHR 0xEA, CHR 0xB8, CHR 0xB0] @ '' '' @ [CHR 0xEC, CHR 0xA4, CHR 0x91, CHR 0xEC, CHR 0x9D, CHR 0xB8] @ '' '' @ [CHR 0xEB, CHR 0xA9, CHR 0x94, CHR 0xEC, CHR 0x8B, CHR 0x9C, CHR 0xEC, CHR 0xA7, CHR 0x80])),
      (''billing.jobs.completed'', ([CHR 0xEC, CHR 0x99, CHR 0x84, CHR 0xEB, CHR 0xA3, CHR 0x8C, CHR 0xEB, CHR 0x90, CHR 0x9C] @ '' '' @ [CHR 0xEC, CHR 0x9E, CHR 0x91, CHR 0xEC, CHR 0x97, CHR 0x85]))]"

definition metricTitle :: "'a otel_metric_name_scheme \<Rightarrow> string" where
  "metricTitle m = (case map_of METRIC_TITLES (mn_metricName m) of Some t \<Rightarrow> t | None \<Rightarrow> mn_metricName m)"

definition has_root :: "string list \<Rightarrow> string \<Rightarrow> bool" where
  "has_root rs n \<longleftrightarrow> list_ex (\<lambda>r. starts_with (r @ ''.'') n) rs"

definition metricGroup :: "'a otel_metric_name_scheme \<Rightarrow> string" where
  "metricGroup m =
     (if has_root [''http'', ''rpc''] (mn_metricName m) then ([CHR 0xEC, CHR 0x9A, CHR 0x94, CHR 0xEC, CHR 0xB2, CHR 0xAD, CHR 0xEA, CHR 0xB3, CHR 0xBC] @ '' '' @ [CHR 0xEC, CHR 0x9D, CHR 0x91, CHR 0xEB, CHR 0x8B, CHR 0xB5])
      else if has_root [''messaging'', ''queue'', ''billing''] (mn_metricName m) then ([CHR 0xEC, CHR 0x9E, CHR 0x91, CHR 0xEC, CHR 0x97, CHR 0x85, CHR 0xEA, CHR 0xB3, CHR 0xBC] @ '' '' @ [CHR 0xEB, CHR 0xA9, CHR 0x94, CHR 0xEC, CHR 0x8B, CHR 0x9C, CHR 0xEC, CHR 0xA7, CHR 0x80])
      else if has_root [''jvm'', ''process'', ''runtime'', ''go'', ''dotnet'', ''system''] (mn_metricName m)
        then ([CHR 0xEB, CHR 0x9F, CHR 0xB0, CHR 0xED, CHR 0x83, CHR 0x80, CHR 0xEC, CHR 0x9E, CHR 0x84, CHR 0xEA, CHR 0xB3, CHR 0xBC] @ '' '' @ [CHR 0xEB, CHR 0xA6, CHR 0xAC, CHR 0xEC, CHR 0x86, CHR 0x8C, CHR 0xEC, CHR 0x8A, CHR 0xA4])
      else ([CHR 0xEC, CHR 0x82, CHR 0xAC, CHR 0xEC, CHR 0x9A, CHR 0xA9, CHR 0xEC, CHR 0x9E, CHR 0x90] @ '' '' @ [CHR 0xEC, CHR 0xA0, CHR 0x95, CHR 0xEC, CHR 0x9D, CHR 0x98] @ '' '' @ [CHR 0xEC, CHR 0xA7, CHR 0x80, CHR 0xED, CHR 0x91, CHR 0x9C]))"

record metric_status =
  mst_tone :: status_tone
  mst_label :: string

definition metricCollection :: "bool \<Rightarrow> string option \<Rightarrow> string option \<Rightarrow> int \<Rightarrow> metric_status" where
  "metricCollection active receivedAt measuredAt now =
     (if \<not> active then \<lparr>mst_tone = T_idle, mst_label = ([CHR 0xEC, CHR 0x88, CHR 0x98, CHR 0xEC, CHR 0xA7, CHR 0x91] @ '' '' @ [CHR 0xEC, CHR 0xA4, CHR 0x91, CHR 0xEC, CHR 0xA7, CHR 0x80])\<rparr>
      else if \<not> truthy receivedAt
        then \<lparr>mst_tone = T_idle, mst_label = (if truthy measuredAt then ([CHR 0xEC, CHR 0x88, CHR 0x98, CHR 0xEC, CHR 0x8B, CHR 0xA0] @ '' '' @ [CHR 0xEC, CHR 0x8B, CHR 0x9C, CHR 0xEA, CHR 0xB0, CHR 0x81] @ '' '' @ [CHR 0xEB, CHR 0xAF, CHR 0xB8, CHR 0xED, CHR 0x99, CHR 0x95, CHR 0xEC, CHR 0x9D, CHR 0xB8]) else ([CHR 0xEC, CHR 0x88, CHR 0x98, CHR 0xEC, CHR 0x8B, CHR 0xA0] @ '' '' @ [CHR 0xEB, CHR 0x8C, CHR 0x80, CHR 0xEA, CHR 0xB8, CHR 0xB0]))\<rparr>
      else if (case date_parse (the receivedAt) of Some r \<Rightarrow> now - r > 300000 | None \<Rightarrow> False)
        then \<lparr>mst_tone = T_warn, mst_label = (''5'' @ [CHR 0xEB, CHR 0xB6, CHR 0x84] @ '' '' @ [CHR 0xEC, CHR 0x9D, CHR 0xB4, CHR 0xEC, CHR 0x83, CHR 0x81] @ '' '' @ [CHR 0xEC, CHR 0x88, CHR 0x98, CHR 0xEC, CHR 0x8B, CHR 0xA0] @ '' '' @ [CHR 0xEC, CHR 0x97, CHR 0x86, CHR 0xEC, CHR 0x9D, CHR 0x8C])\<rparr>
      else if truthy measuredAt \<and> (case date_parse (the measuredAt) of Some m \<Rightarrow> m > now + 60000 | None \<Rightarrow> False)
        then \<lparr>mst_tone = T_warn, mst_label = ([CHR 0xEC, CHR 0xB8, CHR 0xA1, CHR 0xEC, CHR 0xA0, CHR 0x95] @ '' '' @ [CHR 0xEC, CHR 0x8B, CHR 0x9C, CHR 0xEA, CHR 0xB0, CHR 0x81] @ '' '' @ [CHR 0xED, CHR 0x99, CHR 0x95, CHR 0xEC, CHR 0x9D, CHR 0xB8] @ '' '' @ [CHR 0xED, CHR 0x95, CHR 0x84, CHR 0xEC, CHR 0x9A, CHR 0x94])\<rparr>
      else if truthy measuredAt \<and> (case date_parse (the measuredAt) of Some m \<Rightarrow> now - m > 300000 | None \<Rightarrow> False)
        then \<lparr>mst_tone = T_warn, mst_label = ([CHR 0xEC, CHR 0xB8, CHR 0xA1, CHR 0xEC, CHR 0xA0, CHR 0x95] @ '' '' @ [CHR 0xEC, CHR 0xA7, CHR 0x80, CHR 0xEC, CHR 0x97, CHR 0xB0])\<rparr>
      else \<lparr>mst_tone = T_healthy, mst_label = ([CHR 0xEC, CHR 0x88, CHR 0x98, CHR 0xEC, CHR 0xA7, CHR 0x91] @ '' '' @ [CHR 0xEC, CHR 0xA4, CHR 0x91])\<rparr>)"

definition metricFlags :: "'a otel_metric_name_scheme \<Rightarrow> int \<Rightarrow> metric_status list" where
  "metricFlags m now =
     (let flags = (if mn_conflicting m = Some True then [\<lparr>mst_tone = T_warn, mst_label = ([CHR 0xED, CHR 0x83, CHR 0x80, CHR 0xEC, CHR 0x9E, CHR 0x85, CHR 0xC2, CHR 0xB7, CHR 0xEB, CHR 0x8B, CHR 0xA8, CHR 0xEC, CHR 0x9C, CHR 0x84] @ '' '' @ [CHR 0xEC, CHR 0xB6, CHR 0xA9, CHR 0xEB, CHR 0x8F, CHR 0x8C])\<rparr>] else []);
          flags = (if mn_breached m = Some True then flags @ [\<lparr>mst_tone = T_error, mst_label = ([CHR 0xEC, CHR 0x9E, CHR 0x84, CHR 0xEA, CHR 0xB3, CHR 0x84, CHR 0xEA, CHR 0xB0, CHR 0x92] @ '' '' @ [CHR 0xEC, CHR 0xB4, CHR 0x88, CHR 0xEA, CHR 0xB3, CHR 0xBC])\<rparr>] else flags);
          collection = metricCollection True (mn_lastReceivedAt m) (Some (mn_lastAt m)) now
      in if mst_tone collection \<noteq> T_healthy then flags @ [collection] else flags)"

definition flaggedMetrics :: "bool \<Rightarrow> 'a otel_metric_name_scheme list \<Rightarrow> int \<Rightarrow> 'a otel_metric_name_scheme list" where
  "flaggedMetrics active ms now = (if active then filter (\<lambda>m. length (metricFlags m now) > 0) ms else [])"

text \<open>
  The specification of a collecting metric, on the parsed instants: received at most five
  minutes ago, and, when the measuring time is known, measured between five minutes ago and
  a minute from now.
\<close>

definition collecting :: "int \<Rightarrow> int \<Rightarrow> int \<Rightarrow> bool" where
  "collecting now received measured \<longleftrightarrow>
     now - received \<le> 300000 \<and> measured \<le> now + 60000 \<and> now - measured \<le> 300000"

lemma metricCollection_healthy:
  assumes "date_parse r = Some tr" and "date_parse m = Some tm"
  shows "mst_tone (metricCollection active (Some r) (Some m) now) = T_healthy \<longleftrightarrow> active \<and> collecting now tr tm"
proof -
  have "r \<noteq> []" "m \<noteq> []" using assms by auto
  with assms show ?thesis by (auto simp: metricCollection_def collecting_def)
qed

lemma metricCollection_never_error: "mst_tone (metricCollection a r m now) \<noteq> T_error"
  by (simp add: metricCollection_def)

lemma metricFlags_empty:
  "metricFlags m now = [] \<longleftrightarrow>
   mn_conflicting m \<noteq> Some True \<and> mn_breached m \<noteq> Some True \<and>
   mst_tone (metricCollection True (mn_lastReceivedAt m) (Some (mn_lastAt m)) now) = T_healthy"
  by (auto simp: metricFlags_def Let_def)

lemma metricFlags_error: "T_error \<in> mst_tone ` set (metricFlags m now) \<longleftrightarrow> mn_breached m = Some True"
  using metricCollection_never_error [of True "mn_lastReceivedAt m" "Some (mn_lastAt m)" now]
  by (auto simp: metricFlags_def Let_def)

section \<open>Durations and labels\<close>

definition formatDuration :: "int \<Rightarrow> string" where
  "formatDuration sec =
     (if sec < 60 then show_int sec @ [CHR 0xEC, CHR 0xB4, CHR 0x88]
      else let m = sec div 60 in
        if m < 60 then show_int m @ [CHR 0xEB, CHR 0xB6, CHR 0x84]
        else let h = m div 60 in
          if h < 24 then show_int h @ [CHR 0xEC, CHR 0x8B, CHR 0x9C, CHR 0xEA, CHR 0xB0, CHR 0x84] @ '' '' @ show_int (m mod 60) @ [CHR 0xEB, CHR 0xB6, CHR 0x84]
          else show_int (h div 24) @ [CHR 0xEC, CHR 0x9D, CHR 0xBC] @ '' '' @ show_int (h mod 24) @ [CHR 0xEC, CHR 0x8B, CHR 0x9C, CHR 0xEA, CHR 0xB0, CHR 0x84])"

definition SEVERITY_LABELS :: "(string \<times> string) list" where
  "SEVERITY_LABELS = [(''critical'', [CHR 0xEC, CHR 0x8B, CHR 0xAC, CHR 0xEA, CHR 0xB0, CHR 0x81]), (''warning'', [CHR 0xEA, CHR 0xB2, CHR 0xBD, CHR 0xEA, CHR 0xB3, CHR 0xA0]), (''info'', [CHR 0xEC, CHR 0xA0, CHR 0x95, CHR 0xEB, CHR 0xB3, CHR 0xB4])]"

definition severityLabel :: "string \<Rightarrow> string" where
  "severityLabel s = (case map_of SEVERITY_LABELS s of Some l \<Rightarrow> l | None \<Rightarrow> s)"

text \<open>\<open>parseInt(v, 10)\<close> of a text that starts with digits; \<open>NaN\<close> otherwise.\<close>

definition parse_int_prefix :: "string \<Rightarrow> nat option" where
  "parse_int_prefix v = parse_nat (takeWhile is_digit v)"

definition retentionLabel :: "string \<Rightarrow> string" where
  "retentionLabel v =
     (if v = ''1y'' then (''1'' @ [CHR 0xEB, CHR 0x85, CHR 0x84])
      else (case parse_int_prefix v of Some n \<Rightarrow> show_nat n | None \<Rightarrow> ''NaN'') @ [CHR 0xEC, CHR 0x9D, CHR 0xBC])"

text \<open>The interval options are whole seconds below a minute and whole minutes above.\<close>

definition intervalLabel :: "(rat \<Rightarrow> string) \<Rightarrow> int \<Rightarrow> string" where
  "intervalLabel num_text seconds =
     (if seconds < 60 then show_int seconds @ [CHR 0xEC, CHR 0xB4, CHR 0x88]
      else (if 60 dvd seconds then show_int (seconds div 60) else num_text (of_int seconds / 60)) @ [CHR 0xEB, CHR 0xB6, CHR 0x84])"

definition RUNTIME_LABELS :: "(string \<times> string) list" where
  "RUNTIME_LABELS = [(''java'', ''Java''), (''node'', ''Node.js''), (''python'', ''Python''), (''go'', ''Go''), (''dotnet'', ''.NET'')]"

definition runtimeLabel :: "string option \<Rightarrow> string" where
  "runtimeLabel r =
     (if \<not> truthy r then []
      else case map_of RUNTIME_LABELS (the r) of Some l \<Rightarrow> l | None \<Rightarrow> the r)"

record channel_style =
  chs_bg :: string
  chs_text :: string

definition channelStyles :: "(string \<times> channel_style) list" where
  "channelStyles =
     [(''telegram'', \<lparr>chs_bg = ''bg-sky-500/10'', chs_text = ''text-sky-500''\<rparr>),
      (''discord'', \<lparr>chs_bg = ''bg-indigo-500/10'', chs_text = ''text-indigo-400''\<rparr>),
      (''slack'', \<lparr>chs_bg = ''bg-purple-500/10'', chs_text = ''text-purple-500''\<rparr>)]"

definition getChannelStyle :: "string \<Rightarrow> channel_style" where
  "getChannelStyle t = (case map_of channelStyles t of Some s \<Rightarrow> s
     | None \<Rightarrow> \<lparr>chs_bg = ''bg-slate-500/10'', chs_text = ''text-slate-500''\<rparr>)"

definition getChannelName :: "string \<Rightarrow> string" where
  "getChannelName t =
     (case map_of [(''telegram'', ''Telegram''), (''discord'', ''Discord''), (''slack'', ''Slack'')] t of
        Some n \<Rightarrow> n | None \<Rightarrow> t)"

definition getChannelSubtitle :: "string \<Rightarrow> string" where
  "getChannelSubtitle t =
     (case map_of [(''telegram'', (''Telegram '' @ [CHR 0xC2, CHR 0xB7] @ '' Bot API'')), (''discord'', (''Discord '' @ [CHR 0xC2, CHR 0xB7] @ '' Webhook'')), (''slack'', (''Slack '' @ [CHR 0xC2, CHR 0xB7] @ '' Webhook''))] t of
        Some n \<Rightarrow> n | None \<Rightarrow> t)"

lemma runtimeLabel_known: "(r, l) \<in> set RUNTIME_LABELS \<Longrightarrow> runtimeLabel (Some r) = l"
  by (auto simp: RUNTIME_LABELS_def runtimeLabel_def)

lemma show_int_head_digit: "0 \<le> n \<Longrightarrow> list_all is_digit (show_int n)"
  by (simp add: show_int_def show_nat_digits)

lemma show_int_inject: "0 \<le> m \<Longrightarrow> 0 \<le> n \<Longrightarrow> show_int m = show_int n \<longleftrightarrow> m = n"
  by (simp add: show_int_def show_nat_inject eq_nat_nat_iff)

text \<open>A number followed by a unit that does not start with a digit is read back.\<close>

lemma number_unit_inject:
  assumes "0 \<le> m" "0 \<le> n" and "u \<noteq> []" "v \<noteq> []" and "\<not> is_digit (hd u)" "\<not> is_digit (hd v)"
    and "show_int m @ u = show_int n @ v"
  shows "m = n \<and> u = v"
proof -
  have t: "takeWhile is_digit (show_int k @ w) = show_int k" "dropWhile is_digit (show_int k @ w) = w"
    if "0 \<le> k" "w \<noteq> []" "\<not> is_digit (hd w)" for k w
  proof -
    have "\<forall>c\<in>set (show_int k). is_digit c" using show_int_head_digit [OF that(1)] by (simp add: list_all_iff)
    then show "takeWhile is_digit (show_int k @ w) = show_int k" "dropWhile is_digit (show_int k @ w) = w"
      using that by (cases w; simp add: takeWhile_append2 dropWhile_append2)+
  qed
  have "show_int m = show_int n" "u = v" using assms t [of m u] t [of n v] by metis+
  then show ?thesis using assms by (simp add: show_int_inject)
qed

text \<open>What a formatted duration keeps: seconds below a minute, minutes below a day, then hours.\<close>

definition duration_grain :: "int \<Rightarrow> int" where
  "duration_grain sec =
     (if sec < 60 then sec else if sec < 86400 then 60 * (sec div 60) else 3600 * (sec div 3600))"

text \<open>The text's units, its two numbers and their units.\<close>

datatype duration_unit = Seconds | Minutes | Hours | Days

fun unit_text :: "duration_unit \<Rightarrow> string" where
  "unit_text Seconds = [CHR 0xEC, CHR 0xB4, CHR 0x88]"
| "unit_text Minutes = [CHR 0xEB, CHR 0xB6, CHR 0x84]"
| "unit_text Hours = [CHR 0xEC, CHR 0x8B, CHR 0x9C, CHR 0xEA, CHR 0xB0, CHR 0x84]"
| "unit_text Days = [CHR 0xEC, CHR 0x9D, CHR 0xBC]"

definition duration_parts :: "int \<Rightarrow> int \<times> duration_unit \<times> (int \<times> duration_unit) option" where
  "duration_parts sec =
     (if sec < 60 then (sec, Seconds, None)
      else if sec < 3600 then (sec div 60, Minutes, None)
      else if sec < 86400 then (sec div 3600, Hours, Some (sec div 60 mod 60, Minutes))
      else (sec div 86400, Days, Some (sec div 3600 mod 24, Hours)))"

fun parts_text :: "int \<times> duration_unit \<times> (int \<times> duration_unit) option \<Rightarrow> string" where
  "parts_text (n, u, None) = show_int n @ unit_text u"
| "parts_text (n, u, Some (m, v)) = show_int n @ unit_text u @ '' '' @ show_int m @ unit_text v"

lemma unit_text_prefix [simp]: "unit_text u @ s = unit_text v @ t \<longleftrightarrow> u = v \<and> s = t"
  by (cases u; cases v; simp)

lemma unit_text_inject [simp]: "unit_text u = unit_text v @ t \<longleftrightarrow> u = v \<and> t = []" "unit_text u = unit_text v \<longleftrightarrow> u = v"
  using unit_text_prefix [of u "[]" v t] unit_text_prefix [of u "[]" v "[]"] by auto

lemma unit_text_nonempty [simp]: "unit_text u \<noteq> []"
  by (cases u) simp_all

lemma unit_no_digit [simp]: "\<not> is_digit (hd (unit_text u @ s))" "\<not> is_digit (hd (unit_text u))"
proof -
  have "\<not> is_digit CHR 0xEC" "\<not> is_digit CHR 0xEB"
    by (simp_all add: is_digit_def less_eq_char_def)
  then show "\<not> is_digit (hd (unit_text u @ s))" "\<not> is_digit (hd (unit_text u))" by (cases u; simp)+
qed

lemma duration_divs:
  fixes sec :: int
  shows "sec div 60 div 60 = sec div 3600" "sec div 3600 div 24 = sec div 86400"
    "sec div 60 < 60 \<longleftrightarrow> sec < 3600" "sec div 3600 < 24 \<longleftrightarrow> sec < 86400"
  by (simp_all add: zdiv_zmult2_eq [symmetric]) linarith+

lemma formatDuration_parts: "formatDuration sec = parts_text (duration_parts sec)"
  by (simp only: formatDuration_def Let_def duration_divs) (simp add: duration_parts_def)

lemma duration_parts_grain:
  assumes "duration_parts a = duration_parts b"
  shows "duration_grain a = duration_grain b"
proof -
  have h: "x div 3600 = 24 * (x div 86400) + x div 3600 mod 24" for x :: int
    by (simp add: duration_divs(2) [of x, symmetric])
  have m: "x div 60 = 60 * (x div 3600) + x div 60 mod 60" for x :: int
    by (simp add: duration_divs(1) [of x, symmetric])
  have c: "a < 60 \<longleftrightarrow> b < 60" "a < 3600 \<longleftrightarrow> b < 3600" "a < 86400 \<longleftrightarrow> b < 86400"
    using assms by (simp_all add: duration_parts_def split: if_split_asm)
  consider "a < 60" | "\<not> a < 60" "a < 3600" | "\<not> a < 3600" "a < 86400" | "\<not> a < 86400" by linarith
  then show ?thesis
  proof cases
    case 3
    then have "a div 3600 = b div 3600" "a div 60 mod 60 = b div 60 mod 60"
      using assms c by (simp_all add: duration_parts_def)
    then have "a div 60 = b div 60" by (subst m [of a], subst m [of b]) simp
    then show ?thesis using 3 c by (simp add: duration_grain_def)
  next
    case 4
    then have "a div 86400 = b div 86400" "a div 3600 mod 24 = b div 3600 mod 24"
      using assms c by (simp_all add: duration_parts_def)
    then have "a div 3600 = b div 3600" by (subst h [of a], subst h [of b]) simp
    then show ?thesis using 4 c by (simp add: duration_grain_def)
  qed (use assms c in \<open>simp_all add: duration_parts_def duration_grain_def\<close>)
qed

lemma duration_nonneg:
  assumes "0 \<le> a" and "duration_parts a = (n, u, r)"
  shows "0 \<le> n" and "r = Some (m, v) \<Longrightarrow> 0 \<le> m"
  using assms by (auto simp: duration_parts_def split: if_splits)

lemma number_unit_text:
  assumes "0 \<le> m" "0 \<le> n" and "show_int m @ unit_text u @ s = show_int n @ unit_text v @ t"
  shows "m = n \<and> u = v \<and> s = t"
  using number_unit_inject [OF assms(1,2) _ _ unit_no_digit(1) unit_no_digit(1) assms(3)] by simp

lemma parts_text_inject:
  assumes "0 \<le> a" "0 \<le> b" and "parts_text (duration_parts a) = parts_text (duration_parts b)"
  shows "duration_parts a = duration_parts b"
proof -
  obtain n u r where a: "duration_parts a = (n, u, r)" by (cases "duration_parts a")
  obtain m v q where b: "duration_parts b = (m, v, q)" by (cases "duration_parts b")
  let ?tail = "\<lambda>r. case r of None \<Rightarrow> [] | Some (k, w) \<Rightarrow> '' '' @ show_int k @ unit_text w"
  have "show_int n @ unit_text u @ ?tail r = show_int m @ unit_text v @ ?tail q"
    using assms(3) by (cases r; cases q; auto simp: a b)
  then have nu: "n = m" "u = v" and tail: "?tail r = ?tail q"
    using number_unit_text [OF duration_nonneg(1) [OF assms(1) a] duration_nonneg(1) [OF assms(2) b]] by blast+
  have "r = q"
  proof (cases r; cases q)
    fix p p' assume r: "r = Some p" and q: "q = Some p'"
    obtain k w k' w' where p: "p = (k, w)" "p' = (k', w')" by (cases p; cases p')
    have "0 \<le> k" "0 \<le> k'"
      using duration_nonneg(2) [OF assms(1) a] duration_nonneg(2) [OF assms(2) b] r q p by auto
    with number_unit_text [of k k' w "[]" w' "[]"] tail r q p show ?thesis by simp
  qed (use tail in auto)
  with nu a b show ?thesis by simp
qed

section \<open>The statuses as a whole\<close>

text \<open>A metric reads as collecting exactly when its service is active and the metric was
  received at most five minutes ago and measured between five minutes ago and a minute ahead;
  an unknown reception is never shown as an error or as collecting.\<close>

theorem metric_collecting:
  assumes "date_parse r = Some tr" "date_parse m = Some tm"
  shows "(mst_tone (metricCollection active (Some r) (Some m) now) = T_healthy \<longleftrightarrow> active \<and> collecting now tr tm)
    \<and> mst_tone (metricCollection active None (Some m) now) = T_idle"
  using metricCollection_healthy [OF assms, of active now] by (simp add: metricCollection_def)

lemma demo_instants [simp]:
  "date_parse (iso_string 1790244000000) = Some 1790244000000" "date_parse (iso_string 1790243900000) = Some 1790243900000"
  by (simp_all add: date_parse_iso iso_range_def epoch_day_def ms_per_day_def year_start_def)

lemma metric_collecting_witness:
  "mst_tone (metricCollection True (Some (iso_string 1790244000000)) (Some (iso_string 1790243900000)) 1790244060000) = T_healthy"
  using metric_collecting [OF demo_instants, of True 1790244060000] by (simp add: collecting_def)

text \<open>C14: A Docker service is reported up or down only from a fresh observation: it is not
  silenced, has been seen, and was observed less than two minutes ago; once the observation is
  stale, letting time pass never brings the verdict back.\<close>

theorem docker_verdict_fresh:
  assumes "date_parse (sv_observedAt s) = Some t"
  shows "(dockerUptimeState now s \<in> {DU_up, DU_down} \<longleftrightarrow> \<not> sv_silenced s \<and> sv_seen s \<and> now - t < 120000)
    \<and> (dockerUptimeState now s = DU_stale \<and> now \<le> now' \<longrightarrow> dockerUptimeState now' s = DU_stale)"
  using assms fresh_antimono [of now' "Some (sv_observedAt s)" now]
  by (auto simp: dockerUptimeState_verdict isCollectorFresh_iff COLLECTOR_FRESH_FOR_MS_def dockerUptimeState_def split: if_splits)

definition demo_snapshot :: agent_service_snapshot where
  "demo_snapshot =
     \<lparr>sv_agentId = ''agent_demo_01'', sv_key = ''web/api'', sv_name = ''api'', sv_checkType = ''http'',
      sv_endpoint = ''http://api:8080/health'', sv_runtime = None, sv_image = None, sv_restartCount = None,
      sv_startedAt = None, sv_healthy = False, sv_seen = True, sv_silenced = False, sv_lastError = None,
      sv_lastStatus = Some 503, sv_lastLatency = None, sv_updatedAt = None, sv_observedAt = iso_string 1790244000000\<rparr>"

lemma docker_verdict_fresh_witness: "dockerUptimeState 1790244060000 demo_snapshot \<in> {DU_up, DU_down}"
  using docker_verdict_fresh [of demo_snapshot 1790244000000 1790244060000] by (simp add: demo_snapshot_def)

text \<open>The text of an outage's duration determines the duration up to what the text leaves out:
  two durations with the same text agree to the second below a minute, to the minute below a
  day, to the hour above.\<close>

theorem duration_text_grain:
  assumes "0 \<le> a" "0 \<le> b" "formatDuration a = formatDuration b"
  shows "duration_grain a = duration_grain b"
  using assms by (metis formatDuration_parts parts_text_inject duration_parts_grain)

lemma duration_text_grain_witness: "duration_grain 7260 = duration_grain 7319"
  by (rule duration_text_grain) (simp_all add: formatDuration_parts duration_parts_def)

end
