(* ===== verification/EU_Charts.thy ===== *)
theory EU_Charts imports EU_Prelude "HOL-Library.Monad_Syntax"
begin

text \<open>
  \<open>components/charts/chartTheme.ts\<close>: the axes, ticks, gaps, buckets, number formats and
  style objects every chart uses. Values are exact rationals, and \<open>toPrecision(12)\<close>, which
  the code applies against floating-point noise, is \<open>to_precision\<close>: it changes no multiple of a nice
  step (\<open>tick_exact\<close>). Logarithms are their exact floors. Instants are integers, the browser's
  \<open>getTimezoneOffset\<close> and CSS variables are arguments. A \<open>for\<close> loop is
  \<open>for_from\<close>, undefined (\<open>None\<close>) where the loop would not end.
\<close>

section \<open>Series colours and style objects\<close>

record chart_theme =
  th_gridColor :: string
  th_tickColor :: string
  th_tooltipBg :: string
  th_tooltipBorder :: string
  th_primaryColor :: string
  th_errorColor :: string

record series_hex =
  hex_primary :: string
  hex_emerald :: string
  hex_amber :: string
  hex_violet :: string
  hex_red :: string
  hex_teal :: string

definition SERIES_HEX :: series_hex where
  "SERIES_HEX = \<lparr>hex_primary = ''#3e63dd'', hex_emerald = ''#059669'', hex_amber = ''#d97706'',
     hex_violet = ''#7c3aed'', hex_red = ''#dc2626'', hex_teal = ''#0d9488''\<rparr>"

definition getSeriesPalette :: "chart_theme \<Rightarrow> string list" where
  "getSeriesPalette theme = [th_primaryColor theme, hex_emerald SERIES_HEX, hex_amber SERIES_HEX,
     hex_violet SERIES_HEX, hex_red SERIES_HEX, hex_teal SERIES_HEX]"

definition DASH_PATTERNS :: "string list" where
  "DASH_PATTERNS = [''6 3'', ''2 2'', ''8 3 2 3'']"

definition getSeriesDash :: "nat \<Rightarrow> string option" where
  "getSeriesDash i = (if i < 3 then None else Some (DASH_PATTERNS ! ((i - 3) mod length DASH_PATTERNS)))"

definition or_hex :: "string \<Rightarrow> string \<Rightarrow> string" where
  "or_hex v d = (if v \<noteq> [] then v else d)"

definition getChartTheme :: "(string \<Rightarrow> string) \<Rightarrow> chart_theme" where
  "getChartTheme css =
     \<lparr>th_gridColor = or_hex (css ''--color-chart-border'') ''#e0e1e6'',
      th_tickColor = or_hex (css ''--color-text-muted'') ''#60646c'',
      th_tooltipBg = or_hex (css ''--color-bg-surface'') ''#ffffff'',
      th_tooltipBorder = or_hex (css ''--color-chart-border'') ''#e0e1e6'',
      th_primaryColor = or_hex (css ''--color-primary'') (hex_primary SERIES_HEX),
      th_errorColor = or_hex (css ''--color-status-error'') ''#c4282d''\<rparr>"

record tick_style =
  tk_fill :: string
  tk_fontSize :: int
  tk_fontWeight :: int

record grid_props =
  gp_stroke :: string
  gp_strokeOpacity :: rat
  gp_vertical :: bool

definition gridProps :: "chart_theme \<Rightarrow> grid_props" where
  "gridProps theme = \<lparr>gp_stroke = th_gridColor theme, gp_strokeOpacity = 55 / 100, gp_vertical = False\<rparr>"

definition tick_of :: "chart_theme \<Rightarrow> tick_style" where
  "tick_of theme = \<lparr>tk_fill = th_tickColor theme, tk_fontSize = 12, tk_fontWeight = 500\<rparr>"

record x_axis_props =
  xa_tick :: tick_style
  xa_tickLine :: bool
  xa_axisLine :: bool
  xa_tickMargin :: int
  xa_interval :: string

definition xAxisProps :: "chart_theme \<Rightarrow> x_axis_props" where
  "xAxisProps theme = \<lparr>xa_tick = tick_of theme, xa_tickLine = False, xa_axisLine = False,
     xa_tickMargin = 8, xa_interval = ''preserveStartEnd''\<rparr>"

record y_axis_props =
  ya_tick :: tick_style
  ya_tickLine :: bool
  ya_axisLine :: bool
  ya_width :: int

definition yAxisProps :: "chart_theme \<Rightarrow> int option \<Rightarrow> y_axis_props" where
  "yAxisProps theme w = \<lparr>ya_tick = tick_of theme, ya_tickLine = False, ya_axisLine = False,
     ya_width = (case w of Some x \<Rightarrow> x | None \<Rightarrow> 44)\<rparr>"

record cursor_props =
  cu_stroke :: string
  cu_strokeWidth :: int
  cu_strokeDasharray :: string

definition tooltipCursor :: "chart_theme \<Rightarrow> cursor_props" where
  "tooltipCursor theme = \<lparr>cu_stroke = th_gridColor theme, cu_strokeWidth = 1, cu_strokeDasharray = ''4 4''\<rparr>"

record active_dot =
  dot_r :: int
  dot_stroke :: string
  dot_strokeWidth :: int
  dot_fill :: string

record line_props =
  ln_type :: string
  ln_stroke :: string
  ln_strokeWidth :: rat
  ln_strokeLinecap :: string
  ln_strokeLinejoin :: string
  ln_dot :: bool
  ln_activeDot :: active_dot
  ln_connectNulls :: bool
  ln_isAnimationActive :: bool

definition lineProps :: "string \<Rightarrow> chart_theme \<Rightarrow> line_props" where
  "lineProps color theme = \<lparr>ln_type = ''monotoneX'', ln_stroke = color, ln_strokeWidth = 3 / 2,
     ln_strokeLinecap = ''round'', ln_strokeLinejoin = ''round'', ln_dot = False,
     ln_activeDot = \<lparr>dot_r = 4, dot_stroke = th_tooltipBg theme, dot_strokeWidth = 2, dot_fill = color\<rparr>,
     ln_connectNulls = False, ln_isAnimationActive = False\<rparr>"

record area_props =
  ap_type :: string
  ap_stroke :: string
  ap_fill :: string
  ap_tooltipType :: string
  ap_isAnimationActive :: bool

definition areaProps :: "string \<Rightarrow> area_props" where
  "areaProps gradientId = \<lparr>ap_type = ''monotoneX'', ap_stroke = ''none'', ap_fill = ''url(#'' @ gradientId @ '')'',
     ap_tooltipType = ''none'', ap_isAnimationActive = False\<rparr>"

lemma series_palette_distinct:
  "th_primaryColor theme \<notin> set [hex_emerald SERIES_HEX, hex_amber SERIES_HEX, hex_violet SERIES_HEX,
     hex_red SERIES_HEX, hex_teal SERIES_HEX] \<Longrightarrow> distinct (getSeriesPalette theme)"
  by (simp add: getSeriesPalette_def SERIES_HEX_def)

section \<open>Loops\<close>

text \<open>\<open>for (let t = t0; t <= to; t += step) out.push(t)\<close>.\<close>

partial_function (option) for_from :: "int \<Rightarrow> int \<Rightarrow> int \<Rightarrow> int list option" where
  "for_from to step t =
     (if t \<le> to then do { ts \<leftarrow> for_from to step (t + step); Some (t # ts) } else Some [])"

definition progression :: "int \<Rightarrow> int \<Rightarrow> int \<Rightarrow> int list" where
  "progression to step t = map (\<lambda>i. t + int i * step) [0..<nat ((to - t) div step + 1)]"

lemma progression_stop: "0 < step \<Longrightarrow> to < t \<Longrightarrow> progression to step t = []"
  using div_neg_pos_less0 [of "to - t" step] by (simp add: progression_def)

lemma progression_step:
  assumes "0 < step" "t \<le> to"
  shows "progression to step t = t # progression to step (t + step)"
proof -
  have d: "(to - t) div step = (to - (t + step)) div step + 1"
    using assms div_add_self1 [of step "to - (t + step)"] by (simp add: algebra_simps)
  have nn: "0 \<le> (to - t) div step" using assms by (simp add: pos_imp_zdiv_nonneg_iff)
  have "nat ((to - t) div step + 1) = Suc (nat ((to - (t + step)) div step + 1))"
    using nn by (simp add: d)
  then show ?thesis
    by (simp add: progression_def upt_conv_Cons map_Suc_upt [symmetric] comp_def algebra_simps del: upt_Suc)
qed

lemma for_from_progression: "0 < step \<Longrightarrow> for_from to step t = Some (progression to step t)"
proof (induction "nat (to + 1 - t)" arbitrary: t rule: less_induct)
  case less
  show ?case
  proof (cases "t \<le> to")
    case True
    have "for_from to step (t + step) = Some (progression to step (t + step))"
      using less.prems True by (intro less.hyps) simp_all
    with True less.prems show ?thesis by (simp add: for_from.simps [of to step t] progression_step)
  next
    case False
    with less.prems show ?thesis by (simp add: for_from.simps [of to step t] progression_stop)
  qed
qed

text \<open>With a step that is not positive the loop ends only when it never starts.\<close>

lemma for_from_stuck:
  assumes "for_from to step t = Some ts" and "step \<le> 0"
  shows "to < t"
proof -
  have "step \<le> 0 \<longrightarrow> to < t"
    using assms(1)
    by (rule for_from.raw_induct [of _ to step t ts, rotated]) (fastforce split: if_splits bind_splits)
  with assms(2) show ?thesis by simp
qed

lemma set_progression:
  "0 < step \<Longrightarrow> x \<in> set (progression to step t) \<longleftrightarrow> t \<le> x \<and> x \<le> to \<and> step dvd (x - t)"
proof -
  assume s: "0 < step"
  show ?thesis
  proof
    assume "x \<in> set (progression to step t)"
    then obtain i where i: "i < nat ((to - t) div step + 1)" and x: "x = t + int i * step"
      by (auto simp: progression_def)
    then have "int i \<le> (to - t) div step" by linarith
    then have "int i * step \<le> (to - t) div step * step" using s by (simp add: mult_right_mono)
    also have "\<dots> \<le> to - t" using s by (metis add.commute div_mult_mod_eq le_add_same_cancel2 pos_mod_sign)
    finally show "t \<le> x \<and> x \<le> to \<and> step dvd (x - t)" using s by (simp add: x)
  next
    assume a: "t \<le> x \<and> x \<le> to \<and> step dvd (x - t)"
    then obtain k where k: "x - t = step * k" by auto
    with a s have "0 \<le> k" by (smt (verit) mult_pos_neg)
    moreover have "k \<le> (to - t) div step"
    proof -
      have "step * k \<le> to - t" using a k by simp
      then show ?thesis using s zdiv_mono1 [of "step * k" "to - t" step] by simp
    qed
    ultimately show "x \<in> set (progression to step t)"
      using k by (auto simp: progression_def image_iff algebra_simps intro!: bexI [of _ "nat k"])
  qed
qed

lemma sorted_progression: "0 < step \<Longrightarrow> sorted_wrt (<) (progression to step t)"
  unfolding progression_def sorted_wrt_map
  by (rule sorted_wrt_mono_rel [OF _ sorted_wrt_upt]) simp

lemma length_progression: "length (progression to step t) = nat ((to - t) div step + 1)"
  by (simp add: progression_def)

section \<open>The Y axis: nice ticks\<close>

text \<open>\<open>Math.floor(Math.log10(x))\<close> and \<open>Math.floor(Math.log(x) / Math.log(b))\<close> for positive \<open>x\<close>.\<close>

function floor_log :: "rat \<Rightarrow> rat \<Rightarrow> int" where
  "floor_log b x =
     (if b < 2 \<or> x \<le> 0 then 0
      else if b \<le> x then floor_log b (x / b) + 1
      else if x < 1 then floor_log b (x * b) - 1 else 0)"
  by pat_completeness auto
termination
proof (relation "measures [\<lambda>(b, x). if x < 1 then nat \<lceil>1 / x\<rceil> else 0, \<lambda>(b, x). nat \<lceil>x\<rceil>]")
  fix b x :: rat
  assume "\<not> (b < 2 \<or> x \<le> 0)" "b \<le> x"
  then have b: "2 \<le> b" and x: "2 \<le> x" and y: "1 \<le> x / b" by auto
  have "x / b \<le> x / 2" using b x by (intro divide_left_mono) auto
  then have "\<lceil>x / b + 1\<rceil> \<le> \<lceil>x\<rceil>" using x by (intro ceiling_mono) linarith
  then show "((b, x / b), (b, x)) \<in> measures [\<lambda>(b, x). if x < 1 then nat \<lceil>1 / x\<rceil> else 0, \<lambda>(b, x). nat \<lceil>x\<rceil>]"
    using x y by auto
next
  fix b x :: rat
  assume "\<not> (b < 2 \<or> x \<le> 0)" "\<not> b \<le> x" "x < 1"
  then have b: "2 \<le> b" and x: "0 < x" "x < 1" by auto
  have halve: "1 < u \<Longrightarrow> u \<le> w / 2 \<Longrightarrow> u + 1 \<le> w" for u w :: rat by linarith
  have "\<lceil>1 / (x * b)\<rceil> < \<lceil>1 / x\<rceil>" if "x * b < 1"
  proof -
    have "0 < x * b" using b x by simp
    then have "1 < 1 / (x * b)" using that by (simp add: less_divide_eq)
    moreover have "1 / (x * b) \<le> 1 / x / 2"
    proof -
      have "1 / x / b \<le> 1 / x / 2" using b x by (intro divide_left_mono) auto
      then show ?thesis by simp
    qed
    ultimately have "1 / (x * b) + 1 \<le> 1 / x" using halve [of "1 / (x * b)" "1 / x"] by blast
    then have "\<lceil>1 / (x * b) + 1\<rceil> \<le> \<lceil>1 / x\<rceil>" by (rule ceiling_mono)
    then show ?thesis by simp
  qed
  moreover have "0 < \<lceil>1 / x\<rceil>" using x by simp
  ultimately show "((b, x * b), (b, x)) \<in> measures [\<lambda>(b, x). if x < 1 then nat \<lceil>1 / x\<rceil> else 0, \<lambda>(b, x). nat \<lceil>x\<rceil>]"
    using x by auto
qed simp

declare floor_log.simps [simp del]

lemma floor_log_bounds:
  assumes "2 \<le> b" "0 < x"
  shows "b powi floor_log b x \<le> x \<and> x < b powi (floor_log b x + 1)"
  using assms
proof (induction b x rule: floor_log.induct)
  case (1 b x)
  have b: "b \<noteq> 0" "0 < b" using "1.prems" by auto
  consider "b \<le> x" | "\<not> b \<le> x" "x < 1" | "\<not> b \<le> x" "\<not> x < 1" by blast
  then show ?case
  proof cases
    case 1
    have "b powi floor_log b (x / b) \<le> x / b \<and> x / b < b powi (floor_log b (x / b) + 1)"
      using "1.IH"(1) "1.prems" 1 b by simp
    with 1 "1.prems" b show ?thesis
      by (simp add: floor_log.simps [of b x] power_int_add field_simps power2_eq_square)
  next
    case 2
    have "b powi floor_log b (x * b) \<le> x * b \<and> x * b < b powi (floor_log b (x * b) + 1)"
      using "1.IH"(2) "1.prems" 2 b by simp
    with 2 "1.prems" b show ?thesis
      by (simp add: floor_log.simps [of b x] power_int_diff power_int_add field_simps)
  next
    case 3
    with "1.prems" show ?thesis by (simp add: floor_log.simps [of b x])
  qed
qed

definition nice_step :: "rat \<Rightarrow> nat \<Rightarrow> rat" where
  "nice_step mx cnt =
     (let raw = mx / of_nat cnt; magnitude = 10 powi floor_log 10 raw
      in case find (\<lambda>s. raw \<le> s) (map (\<lambda>m. m * magnitude) [1, 2, 5 / 2, 5, 10]) of
           Some s \<Rightarrow> s | None \<Rightarrow> 10 * magnitude)"

text \<open>
  \<open>Number(x.toPrecision(p))\<close>: \<open>x\<close> at \<open>p\<close> significant digits, a tie going away from 0.
\<close>

definition to_precision :: "nat \<Rightarrow> rat \<Rightarrow> rat" where
  "to_precision p x =
     (if x = 0 then 0
      else let q = 10 powi (floor_log 10 \<bar>x\<bar> + 1 - int p)
           in sgn x * (of_int \<lfloor>\<bar>x\<bar> / q + 1 / 2\<rfloor> * q))"

definition niceTicks :: "rat \<Rightarrow> nat \<Rightarrow> rat list" where
  "niceTicks mx cnt =
     (if \<not> mx > 0 then [0, 1]
      else let step = nice_step mx cnt; steps = nat \<lceil>mx / step - 1 / 10 ^ 9\<rceil>
           in map (\<lambda>i. to_precision 12 (of_nat i * step)) [0..<steps + 1])"

record nice_axis =
  na_domain :: "rat \<times> rat"
  na_ticks :: "rat list"
  na_interval :: int

definition niceYAxis :: "rat \<Rightarrow> nice_axis" where
  "niceYAxis mx =
     (let ticks = niceTicks mx 4
      in \<lparr>na_domain = (0, ticks ! (length ticks - 1)), na_ticks = ticks, na_interval = 0\<rparr>)"

lemma nice_step_bounds:
  assumes "0 < mx" "0 < cnt"
  shows "mx / of_nat cnt \<le> nice_step mx cnt" "nice_step mx cnt < 5 / 2 * (mx / of_nat cnt) \<or> nice_step mx cnt = mx / of_nat cnt"
    "0 < nice_step mx cnt"
proof -
  define raw where "raw = mx / of_nat cnt"
  define mag where "mag = (10 :: rat) powi floor_log 10 raw"
  have raw: "0 < raw" using assms by (simp add: raw_def)
  have m: "mag \<le> raw" "raw < 10 * mag" "0 < mag"
    using floor_log_bounds [of 10 raw] raw by (simp_all add: mag_def power_int_add)
  have "nice_step mx cnt =
    (if raw \<le> mag then mag else if raw \<le> 2 * mag then 2 * mag else if raw \<le> 5 / 2 * mag then 5 / 2 * mag
     else if raw \<le> 5 * mag then 5 * mag else 10 * mag)"
    by (simp add: nice_step_def raw_def [symmetric] mag_def [symmetric] Let_def)
  then show "mx / of_nat cnt \<le> nice_step mx cnt"
    "nice_step mx cnt < 5 / 2 * (mx / of_nat cnt) \<or> nice_step mx cnt = mx / of_nat cnt"
    "0 < nice_step mx cnt"
    using m by (auto simp: raw_def [symmetric])
qed

text \<open>A number with at most \<open>p\<close> digits keeps its value, and a multiple of a nice step is one.\<close>

lemma to_precision_exact:
  assumes "j < 10 ^ p"
  shows "to_precision p (of_nat j * 10 powi k) = of_nat j * 10 powi k"
proof (cases "j = 0")
  case True
  then show ?thesis by (simp add: to_precision_def)
next
  case False
  define x where "x = (of_nat j * 10 powi k :: rat)"
  define e where "e = floor_log 10 x"
  have x: "0 < x" using False by (simp add: x_def)
  have "10 powi e \<le> x" using floor_log_bounds [of 10 x] x by (simp add: e_def)
  also have "x < 10 ^ p * 10 powi k"
  proof -
    have "(of_nat j :: rat) < of_nat (10 ^ p)" using assms by (simp only: of_nat_less_iff)
    then show ?thesis by (simp add: x_def)
  qed
  also have "\<dots> = (10 :: rat) powi (int p + k)" by (simp add: power_int_add)
  finally have "(10 :: rat) powi e < 10 powi (int p + k)" .
  then have "e < int p + k" by (meson linorder_not_less one_le_numeral power_int_increasing)
  then have "0 \<le> k - (e + 1 - int p)" by simp
  then obtain i where "k - (e + 1 - int p) = int i" by (rule nonneg_int_cases)
  then have i: "k = (e + 1 - int p) + int i" by simp
  define q where "q = (10 :: rat) powi (e + 1 - int p)"
  have q: "0 < q" by (simp add: q_def)
  have "x = of_nat (j * 10 ^ i) * q" by (simp add: x_def i q_def power_int_add)
  then have d: "x / q = of_int (int (j * 10 ^ i))" using q by simp
  have "\<lfloor>x / q + 1 / 2\<rfloor> = int (j * 10 ^ i)" unfolding d by (rule floor_unique) simp_all
  then have "of_int \<lfloor>x / q + 1 / 2\<rfloor> * q = x" using d q by (simp add: field_simps)
  then show ?thesis
    using x by (simp add: to_precision_def e_def [symmetric] q_def [symmetric] x_def [symmetric] Let_def)
qed

lemma nice_step_digits:
  assumes "0 < mx" "0 < cnt"
  obtains m k where "m \<le> 100" "nice_step mx cnt = of_nat m * 10 powi k"
proof -
  define k where "k = floor_log 10 (mx / of_nat cnt)"
  have e: "(10 :: rat) powi k = of_nat 10 * 10 powi (k - 1)" by (simp add: power_int_diff)
  have "nice_step mx cnt \<in> (\<lambda>m. of_nat m * 10 powi (k - 1)) ` {10, 20, 25, 50, 100}"
    by (simp add: nice_step_def Let_def k_def [symmetric] e)
  then obtain m where "m \<in> {10, 20, 25, 50, 100}" "nice_step mx cnt = of_nat m * 10 powi (k - 1)" by blast
  then show ?thesis by (intro that [of m "k - 1"]) auto
qed

lemma tick_exact:
  assumes "0 < mx" "0 < cnt" "cnt \<le> 10 ^ 9" "i \<le> cnt"
  shows "to_precision 12 (of_nat i * nice_step mx cnt) = of_nat i * nice_step mx cnt"
proof -
  obtain m k where m: "m \<le> 100" "nice_step mx cnt = of_nat m * 10 powi k"
    using nice_step_digits [OF assms(1,2)] .
  have "i * m \<le> 10 ^ 9 * 100" using assms(3,4) m(1) by (intro mult_le_mono) auto
  then have "i * m < 10 ^ 12" by simp
  from to_precision_exact [OF this, of k] show ?thesis by (simp add: m(2) mult.assoc)
qed

lemma real_nat_ceiling_rat: "(x :: rat) \<le> of_nat (nat \<lceil>x\<rceil>)"
proof (cases "0 \<le> \<lceil>x\<rceil>")
  case True
  then show ?thesis by (simp add: le_of_int_ceiling)
next
  case False
  then have "x \<le> 0" by linarith
  also have "0 \<le> (of_nat (nat \<lceil>x\<rceil>) :: rat)" by (rule of_nat_0_le_iff)
  finally show ?thesis .
qed

lemma niceTicks_nonempty [simp]: "niceTicks mx cnt \<noteq> []"
  by (simp add: niceTicks_def Let_def)

lemma niceYAxis_top: "snd (na_domain (niceYAxis mx)) = last (niceTicks mx 4)"
  by (simp add: niceYAxis_def Let_def last_conv_nth)

lemma niceTicks_spec:
  assumes "0 < mx" "0 < cnt" "cnt \<le> 10 ^ 9"
  defines "s \<equiv> nice_step mx cnt"
  shows "hd (niceTicks mx cnt) = 0" "length (niceTicks mx cnt) \<le> cnt + 1"
    "mx - s / 10 ^ 9 \<le> last (niceTicks mx cnt)" "last (niceTicks mx cnt) < mx + s"
    "sorted_wrt (<) (niceTicks mx cnt)"
    "niceTicks mx cnt = map (\<lambda>i. of_nat i * s) [0..<length (niceTicks mx cnt)]"
proof -
  define n where "n = nat \<lceil>mx / s - 1 / 10 ^ 9\<rceil>"
  have s: "0 < s" "mx / of_nat cnt \<le> s" using nice_step_bounds [OF assms(1,2)] by (simp_all add: s_def)
  have q: "mx / s \<le> of_nat cnt" using s assms by (simp add: field_simps)
  have c: "\<lceil>mx / s - 1 / 10 ^ 9\<rceil> \<le> int cnt"
  proof -
    have "mx / s - 1 / 10 ^ 9 \<le> of_int (int cnt)" using q by simp
    then show ?thesis by (simp only: ceiling_le_iff)
  qed
  then have "i \<le> cnt" if "i \<le> n" for i using that by (simp add: n_def)
  then have "map (\<lambda>i. to_precision 12 (of_nat i * s)) [0..<Suc n] = map (\<lambda>i. of_nat i * s) [0..<Suc n]"
    using tick_exact [OF assms(1-3)] by (intro map_cong [OF refl]) (simp add: s_def less_Suc_eq_le del: upt_Suc)
  then have t: "niceTicks mx cnt = map (\<lambda>i. of_nat i * s) [0..<Suc n]"
    using assms(1) by (simp add: niceTicks_def s_def [symmetric] n_def Let_def)
  then show "niceTicks mx cnt = map (\<lambda>i. of_nat i * s) [0..<length (niceTicks mx cnt)]" by simp
  have l: "last (niceTicks mx cnt) = of_nat n * s" by (simp add: t)
  show "hd (niceTicks mx cnt) = 0" by (simp add: t upt_conv_Cons del: upt_Suc)
  show "length (niceTicks mx cnt) \<le> cnt + 1" using c by (simp add: t n_def)
  have "mx / s - 1 / 10 ^ 9 \<le> of_nat n" unfolding n_def by (rule real_nat_ceiling_rat)
  then have "(mx / s - 1 / 10 ^ 9) * s \<le> of_nat n * s" using s by (intro mult_right_mono) auto
  then show "mx - s / 10 ^ 9 \<le> last (niceTicks mx cnt)" using s by (simp add: l left_diff_distrib)
  have "of_nat n < mx / s + 1"
  proof (cases "n = 0")
    case True
    then show ?thesis using s assms(1) by (simp add: add_pos_pos)
  next
    case False
    then have "(of_nat n :: rat) = of_int \<lceil>mx / s - 1 / 10 ^ 9\<rceil>" by (simp add: n_def)
    also have "\<dots> < mx / s - 1 / 10 ^ 9 + 1" by linarith
    finally show ?thesis by simp
  qed
  then have "of_nat n * s < (mx / s + 1) * s" using s by (intro mult_strict_right_mono)
  then show "last (niceTicks mx cnt) < mx + s" using s by (simp add: l distrib_right)
  show "sorted_wrt (<) (niceTicks mx cnt)"
    unfolding t sorted_wrt_map
    by (rule sorted_wrt_mono_rel [OF _ sorted_wrt_upt]) (use s in \<open>simp add: mult_strict_right_mono\<close>)
qed

section \<open>The X axis: time ticks\<close>

definition MINUTE :: int where
  "MINUTE = 60000"

definition TICK_STEPS :: "int list" where
  "TICK_STEPS = map (\<lambda>m. m * MINUTE) [5, 10, 15, 30, 60, 120, 180, 360, 720, 1440]"

definition tick_step :: "int \<Rightarrow> int \<Rightarrow> int" where
  "tick_step frm to = (case find (\<lambda>s. to - frm \<le> 8 * s) TICK_STEPS of
     Some s \<Rightarrow> s | None \<Rightarrow> TICK_STEPS ! (length TICK_STEPS - 1))"

text \<open>\<open>Math.ceil(x / s)\<close> on integers; \<open>tz\<close> is \<open>getTimezoneOffset\<close> in minutes.\<close>

definition ceil_div :: "int \<Rightarrow> int \<Rightarrow> int" where
  "ceil_div x s = - ((- x) div s)"

definition timeTicks :: "(int \<Rightarrow> int) \<Rightarrow> int \<Rightarrow> int \<Rightarrow> int list option" where
  "timeTicks tz frm to =
     (let step = tick_step frm to; local = - tz frm * MINUTE
      in for_from to step (ceil_div (frm + local) step * step - local))"

lemma tick_step_pos: "0 < tick_step frm to"
proof -
  have p: "list_all (\<lambda>s. 0 < s) TICK_STEPS" by (simp add: TICK_STEPS_def MINUTE_def)
  have "TICK_STEPS ! (length TICK_STEPS - 1) \<in> set TICK_STEPS" by (simp add: TICK_STEPS_def)
  then show ?thesis using p by (auto simp: tick_step_def list_all_iff dest!: find_Some_iff_set split: option.split)
qed

lemma tick_step_enough: "to - frm \<le> 8 * 1440 * MINUTE \<Longrightarrow> to - frm \<le> 8 * tick_step frm to"
  by (auto simp: tick_step_def TICK_STEPS_def MINUTE_def)

lemma ceil_div_first:
  assumes "0 < s"
  shows "x \<le> ceil_div x s * s" "ceil_div x s * s < x + s"
proof -
  have "(- x) div s * s + (- x) mod s = - x" by (rule div_mult_mod_eq)
  moreover have "0 \<le> (- x) mod s" "(- x) mod s < s" using assms by simp_all
  moreover have "ceil_div x s * s = - ((- x) div s * s)" by (simp add: ceil_div_def)
  ultimately show "x \<le> ceil_div x s * s" "ceil_div x s * s < x + s" by linarith+
qed

lemma timeTicks_set:
  assumes "timeTicks tz frm to = Some ts"
  shows "t \<in> set ts \<longleftrightarrow> frm \<le> t \<and> t \<le> to \<and> tick_step frm to dvd (t - tz frm * MINUTE)"
proof -
  define s where "s = tick_step frm to"
  define l where "l = - tz frm * MINUTE"
  define t0 where "t0 = ceil_div (frm + l) s * s - l"
  have s: "0 < s" by (simp add: s_def tick_step_pos)
  have ts: "ts = progression to s t0"
    using assms by (simp add: timeTicks_def Let_def for_from_progression tick_step_pos t0_def l_def s_def)
  have t0: "frm \<le> t0" "t0 < frm + s" using ceil_div_first [OF s, of "frm + l"] by (simp_all add: t0_def)
  have d0: "s dvd (t0 + l)" by (simp add: t0_def)
  have "(t0 \<le> t \<and> s dvd (t - t0)) \<longleftrightarrow> (frm \<le> t \<and> s dvd (t + l))"
  proof -
    have e: "s dvd (t - t0) \<longleftrightarrow> s dvd (t + l)"
      using dvd_diff_right_iff [of s "t + l" "t0 + l"] d0 dvd_diff_commute by (smt (verit) dvd_add_right_iff)
    have "t0 \<le> t" if "frm \<le> t" "s dvd (t - t0)"
    proof (rule ccontr)
      assume "\<not> t0 \<le> t"
      then have "0 < t0 - t" "t0 - t < s" using that t0 by auto
      moreover have "s dvd (t0 - t)" using that(2) by (simp add: dvd_diff_commute)
      ultimately show False using zdvd_not_zless by blast
    qed
    then show ?thesis using e t0(1) by auto
  qed
  moreover have "t \<in> set ts \<longleftrightarrow> t0 \<le> t \<and> t \<le> to \<and> s dvd (t - t0)"
    by (simp only: ts set_progression [OF s])
  ultimately show ?thesis by (auto simp: s_def l_def)
qed

lemma timeTicks_total: "\<exists>ts. timeTicks tz frm to = Some ts"
  by (simp add: timeTicks_def Let_def for_from_progression tick_step_pos)

lemma timeTicks_length:
  assumes "timeTicks tz frm to = Some ts" and "to - frm \<le> 8 * 1440 * MINUTE"
  shows "length ts \<le> 9"
proof -
  define s where "s = tick_step frm to"
  define l where "l = - tz frm * MINUTE"
  define t0 where "t0 = ceil_div (frm + l) s * s - l"
  have s: "0 < s" by (simp add: s_def tick_step_pos)
  have ts: "ts = progression to s t0"
    using assms by (simp add: timeTicks_def Let_def for_from_progression tick_step_pos t0_def l_def s_def)
  have "frm \<le> t0" using ceil_div_first [OF s, of "frm + l"] by (simp add: t0_def)
  then have "to - t0 \<le> 8 * s" using tick_step_enough [OF assms(2)] by (simp add: s_def)
  then have "(to - t0) div s \<le> 8 * s div s" using s by (intro zdiv_mono1)
  then show ?thesis using s by (simp add: ts length_progression)
qed

lemma timeTicks_nine: "map_option length (timeTicks (\<lambda>_. 0) 0 (8 * 5 * MINUTE)) = Some 9"
  by (simp add: timeTicks_def tick_step_def TICK_STEPS_def MINUTE_def for_from_progression length_progression ceil_div_def)

record time_axis = x_axis_props +
  ta_dataKey :: string
  ta_type :: string
  ta_scale :: string
  ta_domain :: "int \<times> int"
  ta_allowDataOverflow :: bool
  ta_ticks :: "int list option"

definition timeXAxisProps :: "(int \<Rightarrow> int) \<Rightarrow> chart_theme \<Rightarrow> int \<times> int \<Rightarrow> time_axis" where
  "timeXAxisProps tz theme w =
     x_axis_props.extend (xAxisProps theme)
       (time_axis.fields ''t'' ''number'' ''time'' w True (timeTicks tz (fst w) (snd w)))"

section \<open>Gaps\<close>

definition medianStep :: "int list \<Rightarrow> int" where
  "medianStep ts =
     (let diffs = sort_by (by_key (\<lambda>x. x)) (map2 (\<lambda>t prev. t - prev) (drop 1 ts) ts)
      in if length diffs div 2 < length diffs then diffs ! (length diffs div 2) else 0)"

text \<open>A row of the chart, or the valueless row \<open>{ t }\<close> that breaks the line.\<close>

datatype 'a gap_row = Row 'a | Break int

fun split_gaps_from :: "('a \<Rightarrow> int) \<Rightarrow> int \<Rightarrow> 'a option \<Rightarrow> 'a list \<Rightarrow> 'a gap_row list \<times> (int \<times> int) list" where
  "split_gaps_from t step prev [] = ([], [])"
| "split_gaps_from t step prev (row # rows) =
     (let (out, gaps) = split_gaps_from t step (Some row) rows in
      case prev of
        Some p \<Rightarrow> if step > 0 \<and> t row - t p > 2 * step
                  then (Break (t p + step) # Row row # out, (t p, t row) # gaps) else (Row row # out, gaps)
      | None \<Rightarrow> (Row row # out, gaps))"

definition splitGaps :: "('a \<Rightarrow> int) \<Rightarrow> 'a list \<Rightarrow> int option \<Rightarrow> 'a gap_row list \<times> (int \<times> int) list" where
  "splitGaps t rows step =
     split_gaps_from t (case step of Some s \<Rightarrow> s | None \<Rightarrow> medianStep (map t rows)) None rows"

fun gap_row_time :: "('a \<Rightarrow> int) \<Rightarrow> 'a gap_row \<Rightarrow> int" where
  "gap_row_time t (Row r) = t r"
| "gap_row_time t (Break x) = x"

fun data_rows :: "'a gap_row list \<Rightarrow> 'a list" where
  "data_rows [] = []"
| "data_rows (Row r # gs) = r # data_rows gs"
| "data_rows (Break x # gs) = data_rows gs"

lemma split_gaps_data: "data_rows (fst (split_gaps_from t step prev rows)) = rows"
proof (induction rows arbitrary: prev)
  case (Cons row rows)
  then show ?case
    using Cons.IH [of "Some row"]
    by (cases prev; cases "split_gaps_from t step (Some row) rows") auto
qed simp

text \<open>The intervals reported are the consecutive rows more than twice the step apart.\<close>

definition wide_pairs :: "('a \<Rightarrow> int) \<Rightarrow> int \<Rightarrow> 'a list \<Rightarrow> (int \<times> int) list" where
  "wide_pairs t step rows =
     filter (\<lambda>(a, b). step > 0 \<and> b - a > 2 * step) (zip (map t rows) (map t (drop 1 rows)))"

lemma split_gaps_gaps:
  "snd (split_gaps_from t step prev rows) =
     wide_pairs t step (case prev of None \<Rightarrow> rows | Some p \<Rightarrow> p # rows)"
proof (induction rows arbitrary: prev)
  case (Cons row rows)
  show ?case
    by (cases prev; cases "split_gaps_from t step (Some row) rows")
       (use Cons.IH [of "Some row"] in \<open>auto simp: wide_pairs_def\<close>)
qed (auto simp: wide_pairs_def split: option.split)

text \<open>Where the rows are in time order, so is the output: every break falls inside its gap.\<close>

lemma split_gaps_sorted:
  assumes "sorted (map t (case prev of None \<Rightarrow> rows | Some p \<Rightarrow> p # rows))"
  shows "sorted (map (gap_row_time t) (fst (split_gaps_from t step prev rows))) \<and>
    (\<forall>g \<in> set (fst (split_gaps_from t step prev rows)). \<forall>p. prev = Some p \<longrightarrow> t p \<le> gap_row_time t g)"
  using assms
proof (induction rows arbitrary: prev)
  case (Cons row rows)
  obtain out gaps where e: "split_gaps_from t step (Some row) rows = (out, gaps)"
    by (cases "split_gaps_from t step (Some row) rows")
  have s: "sorted (map t (row # rows))" using Cons.prems by (auto split: option.splits)
  have ih: "sorted (map (gap_row_time t) out)" "\<forall>g \<in> set out. t row \<le> gap_row_time t g"
    using Cons.IH [of "Some row"] s by (simp_all add: e)
  show ?case using Cons.prems ih by (cases prev) (auto simp: e)
qed simp

section \<open>Buckets\<close>

definition slot_of :: "int \<Rightarrow> int \<Rightarrow> int" where
  "slot_of step t = t div step * step"

text \<open>\<open>{ ...row, t }\<close> is \<open>put t row\<close>.\<close>

definition fillBuckets ::
  "('a \<Rightarrow> int) \<Rightarrow> (int \<Rightarrow> 'a \<Rightarrow> 'a) \<Rightarrow> 'a list \<Rightarrow> int \<times> int \<Rightarrow> int \<Rightarrow> (int \<Rightarrow> 'a) \<Rightarrow> 'a list option" where
  "fillBuckets t put rows w step blank =
     (let bySlot = map_from (map (\<lambda>row. (slot_of step (t row), row)) rows) in
      do { ts \<leftarrow> for_from (snd w) step (slot_of step (fst w));
           Some (map (\<lambda>x. case map_of bySlot x of Some row \<Rightarrow> put x row | None \<Rightarrow> blank x) ts) })"

lemma slot_of_bounds:
  assumes "0 < step"
  shows "slot_of step t \<le> t" "t < slot_of step t + step"
proof -
  have "t div step * step + t mod step = t" by (rule div_mult_mod_eq)
  moreover have "0 \<le> t mod step" "t mod step < step" using assms by simp_all
  ultimately show "slot_of step t \<le> t" "t < slot_of step t + step" unfolding slot_of_def by linarith+
qed

lemma slot_of_idem [simp]: "0 < step \<Longrightarrow> slot_of step (slot_of step t) = slot_of step t"
  by (simp add: slot_of_def)

lemma step_dvd_slot: "step dvd slot_of step t"
  by (simp add: slot_of_def)

definition window_slots :: "int \<times> int \<Rightarrow> int \<Rightarrow> int list" where
  "window_slots w step = progression (snd w) step (slot_of step (fst w))"

lemma fillBuckets_eq:
  "0 < step \<Longrightarrow> fillBuckets t put rows w step blank =
     Some (map (\<lambda>x. case map_of (map_from (map (\<lambda>row. (slot_of step (t row), row)) rows)) x of
                     Some row \<Rightarrow> put x row | None \<Rightarrow> blank x) (window_slots w step))"
  by (simp add: fillBuckets_def for_from_progression window_slots_def Let_def)

lemma window_slots_mem:
  "0 < step \<Longrightarrow> x \<in> set (window_slots w step) \<longleftrightarrow> slot_of step (fst w) \<le> x \<and> x \<le> snd w \<and> step dvd x"
  using step_dvd_slot [of step "fst w"]
  by (auto simp: window_slots_def set_progression dvd_diff dest: dvd_add [of step _ "slot_of step (fst w)"])

lemma window_slots_distinct: "0 < step \<Longrightarrow> distinct (window_slots w step)"
  using sorted_progression [of step "snd w" "slot_of step (fst w)"]
  by (simp add: window_slots_def strict_sorted_iff)

lemma slot_in_window:
  assumes "0 < step" "fst w \<le> t" "t \<le> snd w"
  shows "slot_of step t \<in> set (window_slots w step)"
proof -
  have "slot_of step (fst w) \<le> slot_of step t"
    using assms by (simp add: slot_of_def zdiv_mono1 mult_right_mono)
  with assms slot_of_bounds [OF assms(1), of t] step_dvd_slot [of step t]
  show ?thesis by (simp add: window_slots_mem)
qed

text \<open>A row is found under its slot when no other row shares it.\<close>

lemma by_slot_lookup:
  assumes "distinct (map k rows)"
  shows "map_of (map_from (map (\<lambda>row. (k row, row)) rows)) x = find (\<lambda>row. k row = x) rows"
proof -
  have "map_of (map (\<lambda>row. (k row, row)) rows) x = find (\<lambda>row. k row = x) rows"
    by (induction rows) auto
  moreover have "map_of (map_from (map (\<lambda>row. (k row, row)) rows)) x = map_of (rev (map (\<lambda>row. (k row, row)) rows)) x"
    by (simp add: map_from_def foldl_update_lookup split: option.split)
  moreover have "map_of (rev (map (\<lambda>row. (k row, row)) rows)) = map_of (map (\<lambda>row. (k row, row)) rows)"
    using assms by (subst map_of_inject_set) (auto simp: comp_def rev_map [symmetric])
  ultimately show ?thesis by simp
qed

lemma sum_over_slots:
  assumes "distinct xs" and "\<forall>r \<in> set rows. k r \<in> set xs" and "distinct (map k rows)"
  shows "sum_list (map (\<lambda>x. case find (\<lambda>r. k r = x) rows of Some r \<Rightarrow> f r | None \<Rightarrow> (0 :: int)) xs) = sum_list (map f rows)"
  using assms(2,3)
proof (induction rows)
  case (Cons r rows)
  have "sum_list (map (\<lambda>x. case find (\<lambda>r. k r = x) (r # rows) of Some r \<Rightarrow> f r | None \<Rightarrow> 0) xs)
      = sum_list (map (\<lambda>x. (if x = k r then f r else 0) + (case find (\<lambda>r. k r = x) rows of Some r \<Rightarrow> f r | None \<Rightarrow> 0)) xs)"
  proof (intro arg_cong [where f = sum_list] map_cong refl)
    fix x
    have "find (\<lambda>q. k q = k r) rows = None"
      using Cons.prems(2) by (simp add: find_None_iff) (metis image_eqI)
    then show "(case find (\<lambda>r. k r = x) (r # rows) of Some r \<Rightarrow> f r | None \<Rightarrow> 0)
        = (if x = k r then f r else 0) + (case find (\<lambda>r. k r = x) rows of Some r \<Rightarrow> f r | None \<Rightarrow> 0)"
      by auto
  qed
  also have "\<dots> = sum_list (map (\<lambda>x. if x = k r then f r else 0) xs) + sum_list (map f rows)"
    using Cons by (simp add: sum_list_addf)
  also have "sum_list (map (\<lambda>x. if x = k r then f r else 0) xs) = f r"
    using assms(1) Cons.prems(1) by (simp add: sum_list_distinct_conv_sum_set)
  finally show ?case by simp
qed simp

lemma fillBuckets_sum:
  assumes "0 < step" and "distinct (map (\<lambda>r. slot_of step (t r)) rows)"
    and "\<forall>r \<in> set rows. fst w \<le> t r \<and> t r \<le> snd w"
    and "\<And>x r. f (put x r) = f r" and "\<And>x. f (blank x) = (0 :: int)"
  shows "map_option (\<lambda>out. sum_list (map f out)) (fillBuckets t put rows w step blank) = Some (sum_list (map f rows))"
proof -
  have "\<forall>r \<in> set rows. slot_of step (t r) \<in> set (window_slots w step)"
    using assms(1,3) by (auto intro: slot_in_window)
  from sum_over_slots [OF window_slots_distinct [OF assms(1)] this assms(2), of f]
  show ?thesis
    by (simp add: fillBuckets_eq [OF assms(1)] by_slot_lookup [OF assms(2)] comp_def assms(4,5)
        option.case_distrib [of f] cong: option.case_cong)
qed

section \<open>Numbers and units\<close>

definition is_integer :: "rat \<Rightarrow> bool" where
  "is_integer x \<longleftrightarrow> of_int \<lfloor>x\<rfloor> = x"

definition formatAxisValue :: "rat \<Rightarrow> string option \<Rightarrow> string" where
  "formatAxisValue v unit =
     (if unit = Some ''%'' then show_int (math_round v)
      else if \<bar>v\<bar> \<ge> 1000 then to_fixed 1 (v / 1000) @ ''k''
      else if is_integer v then show_int \<lfloor>v\<rfloor>
      else if \<bar>v\<bar> \<ge> 100 then show_int (math_round v)
      else if \<bar>v\<bar> \<ge> 10 then to_fixed 0 v
      else if \<bar>v\<bar> \<ge> 1 then to_fixed 1 v
      else to_fixed 2 v)"

definition formatMetricValue :: "rat \<Rightarrow> string" where
  "formatMetricValue v =
     (if v \<ge> 100 then show_int (math_round v)
      else if v \<ge> 10 then to_fixed 1 v else to_fixed 2 v)"

definition BYTE_UNITS :: "string list" where
  "BYTE_UNITS = [''B'', ''KB'', ''MB'', ''GB'', ''TB'']"

record display_unit =
  du_unit :: string
  du_factor :: rat

text \<open>\<open>/^\{.*\}$/\<close>: braces around anything without a line terminator.\<close>

definition line_terminators :: "string list" where
  "line_terminators = [[CHR 0x0A], [CHR 0x0D], [CHR 0xE2, CHR 0x80, CHR 0xA8], [CHR 0xE2, CHR 0x80, CHR 0xA9]]"

definition ucum_annotation :: "string \<Rightarrow> bool" where
  "ucum_annotation u \<longleftrightarrow> 2 \<le> length u \<and> hd u = CHR ''{'' \<and> last u = CHR ''}'' \<and>
     list_all (\<lambda>l. \<not> str_includes l u) line_terminators"

definition metricDisplayUnit :: "string \<Rightarrow> rat \<Rightarrow> display_unit" where
  "metricDisplayUnit unit mx =
     (if unit = ''By''
      then let i = min (int (length BYTE_UNITS) - 1) (floor_log 1024 (max mx 1))
           in \<lparr>du_unit = BYTE_UNITS ! nat i, du_factor = 1024 powi (- i)\<rparr>
      else if unit = ''s'' \<and> mx < 1 then \<lparr>du_unit = ''ms'', du_factor = 1000\<rparr>
      else if unit = ''ms'' \<and> mx \<ge> 1000 then \<lparr>du_unit = ''s'', du_factor = 1 / 1000\<rparr>
      else if unit = ''1'' \<or> ucum_annotation unit then \<lparr>du_unit = [], du_factor = 1\<rparr>
      else \<lparr>du_unit = unit, du_factor = 1\<rparr>)"

lemma floor_log_nonneg: "2 \<le> b \<Longrightarrow> 1 \<le> x \<Longrightarrow> 0 \<le> floor_log b x"
proof (rule ccontr)
  assume b: "2 \<le> b" "1 \<le> x" and n: "\<not> 0 \<le> floor_log b x"
  have "x < b powi (floor_log b x + 1)" using floor_log_bounds [of b x] b by simp
  also have "b powi (floor_log b x + 1) \<le> b powi 0"
    using n b by (intro power_int_increasing) auto
  finally show False using b by simp
qed

text \<open>Bytes are shown in the largest unit that keeps the maximum at least 1, up to TB.\<close>

lemma byte_display:
  assumes "1 \<le> mx"
  defines "d \<equiv> metricDisplayUnit ''By'' mx"
  shows "1 \<le> mx * du_factor d" and "du_unit d \<noteq> ''TB'' \<Longrightarrow> mx * du_factor d < 1024" and "du_unit d \<in> set BYTE_UNITS"
proof -
  define k where "k = floor_log 1024 mx"
  have k: "0 \<le> k" "1024 powi k \<le> mx" "mx < 1024 powi (k + 1)"
    using floor_log_nonneg [of 1024 mx] floor_log_bounds [of 1024 mx] assms(1) by (simp_all add: k_def)
  have d: "d = \<lparr>du_unit = BYTE_UNITS ! nat (min 4 k), du_factor = 1024 powi (- min 4 k)\<rparr>"
    using assms(1) by (simp add: d_def metricDisplayUnit_def k_def BYTE_UNITS_def Let_def max_def)
  have p: "(0 :: rat) < 1024 powi j" for j by simp
  have f: "mx * du_factor d = mx / 1024 powi (min 4 k)"
    by (simp add: d power_int_minus divide_inverse)
  have "(1024 :: rat) powi (min 4 k) \<le> 1024 powi k" by (intro power_int_increasing) auto
  with k show "1 \<le> mx * du_factor d" using p [of "min 4 k"] by (simp add: f le_divide_eq)
  show "mx * du_factor d < 1024" if "du_unit d \<noteq> ''TB''"
  proof -
    have "k < 4"
    proof (rule ccontr)
      assume "\<not> k < 4"
      then have "min 4 k = 4" by simp
      with that show False by (simp add: d BYTE_UNITS_def)
    qed
    then show ?thesis using k(3) p [of k] by (simp add: f min_def divide_less_eq power_int_add)
  qed
  have "nat (min 4 k) < length BYTE_UNITS" by (simp add: BYTE_UNITS_def)
  then show "du_unit d \<in> set BYTE_UNITS" unfolding d by (simp only: display_unit.simps nth_mem)
qed

section \<open>Axes and gaps as a whole\<close>

text \<open>C10: For a positive maximum the axis starts at 0 and rises in equal steps of the chosen step
  (rounding the ticks to twelve digits changes none of them), has at most one tick more than asked
  for, and its last tick covers the maximum (to a billionth of a step) without exceeding it by a
  whole step.\<close>

theorem nice_axis_covers:
  assumes "0 < mx" "0 < cnt" "cnt \<le> 10 ^ 9"
  shows "niceTicks mx cnt = map (\<lambda>i. of_nat i * nice_step mx cnt) [0..<length (niceTicks mx cnt)]
    \<and> hd (niceTicks mx cnt) = 0 \<and> length (niceTicks mx cnt) \<le> cnt + 1 \<and> sorted_wrt (<) (niceTicks mx cnt)
    \<and> mx - nice_step mx cnt / 10 ^ 9 \<le> last (niceTicks mx cnt) \<and> last (niceTicks mx cnt) < mx + nice_step mx cnt"
  using niceTicks_spec [OF assms] by blast

lemma nice_axis_covers_witness:
  "niceTicks 87 4 = [0, 25, 50, 75, 100] \<and> nice_step 87 4 = 25 \<and> last (niceTicks 87 4) < 87 + 25"
proof -
  have f: "floor_log 10 (87 / 4) = 1" by (simp add: floor_log.simps)
  have s: "nice_step 87 4 = 25" by (simp add: nice_step_def f Let_def)
  have "\<lceil>3479999999 / 1000000000 :: rat\<rceil> = 4" by (rule ceiling_unique) simp_all
  then have "length (niceTicks 87 4) = 5" by (simp add: niceTicks_def s Let_def)
  then show ?thesis using nice_axis_covers [of 87 4] by (simp add: s upt_rec)
qed

text \<open>C11: The time axis always gets its ticks, and they are exactly the instants of the window on
  the local grid of the chosen step; a window of at most eight days gets at most nine.\<close>

theorem time_ticks_exact:
  "\<exists>ts. timeTicks tz frm to = Some ts
     \<and> (\<forall>t. (t \<in> set ts) = (frm \<le> t \<and> t \<le> to \<and> tick_step frm to dvd (t - tz frm * MINUTE)))
     \<and> (8 * 1440 * MINUTE < to - frm \<or> length ts \<le> 9)"
proof -
  obtain ts where ts: "timeTicks tz frm to = Some ts" using timeTicks_total by blast
  show ?thesis
  proof (intro exI conjI allI)
    show "timeTicks tz frm to = Some ts" by (rule ts)
    show "(t \<in> set ts) = (frm \<le> t \<and> t \<le> to \<and> tick_step frm to dvd (t - tz frm * MINUTE))" for t
      by (rule timeTicks_set [OF ts])
    show "8 * 1440 * MINUTE < to - frm \<or> length ts \<le> 9" using timeTicks_length [OF ts] by linarith
  qed
qed

text \<open>Breaking a line at collection gaps keeps every row in order and adds only empty rows; the
  gaps reported are exactly the neighbouring rows more than twice the usual step apart, and
  rows in time order stay in time order.\<close>

theorem gaps_split:
  assumes "splitGaps t rows step = (out, gaps)"
  shows "data_rows out = rows
    \<and> gaps = wide_pairs t (case step of Some s \<Rightarrow> s | None \<Rightarrow> medianStep (map t rows)) rows
    \<and> (sorted (map t rows) \<longrightarrow> sorted (map (gap_row_time t) out))"
proof -
  define s where "s = (case step of Some s \<Rightarrow> s | None \<Rightarrow> medianStep (map t rows))"
  have "split_gaps_from t s None rows = (out, gaps)" using assms by (simp add: splitGaps_def s_def)
  then have "out = fst (split_gaps_from t s None rows)" "gaps = snd (split_gaps_from t s None rows)" by simp_all
  then show ?thesis
    using split_gaps_sorted [where prev = None and t = t and rows = rows and step = s]
    by (simp add: split_gaps_data split_gaps_gaps flip: s_def)
qed

lemma gaps_split_witness:
  "data_rows [Row (0 :: int), Row 10, Break 20, Row 50] = [0, 10, 50]"
  using gaps_split [of "\<lambda>x. x" "[0, 10, 50]" "Some 10" "[Row 0, Row 10, Break 20, Row 50]" "[(10, 50)]"]
  by (simp add: splitGaps_def)

text \<open>Filling the empty buckets of a count chart loses and invents nothing: over any window the
  counts shown add up to the counts of the rows, when each row has its own slot.\<close>

theorem buckets_conserve:
  assumes "0 < step" and "distinct (map (\<lambda>r. slot_of step (t r)) rows)"
    and "list_all (\<lambda>r. fst w \<le> t r \<and> t r \<le> snd w) rows"
    and "\<And>x r. f (put x r) = f r" and "\<And>x. f (blank x) = (0 :: int)"
  shows "\<exists>out. fillBuckets t put rows w step blank = Some out \<and> sum_list (map f out) = sum_list (map f rows)"
  using fillBuckets_sum [of step t rows w f put blank] assms by (auto simp: list_all_iff)

lemma buckets_conserve_witness:
  "\<exists>out. fillBuckets fst (\<lambda>x r. (x, snd r)) [(0 :: int, 3 :: int), (65, 4)] (0, 120) 60 (\<lambda>x. (x, 0)) = Some out
     \<and> sum_list (map snd out) = sum_list (map snd [(0 :: int, 3 :: int), (65, 4)])"
  by (rule buckets_conserve) (simp_all add: slot_of_def)

text \<open>A byte metric is shown in a binary unit in which its maximum is at least 1 and, short of
  terabytes, below 1024.\<close>

theorem byte_unit_fits:
  assumes "1 \<le> mx"
  shows "1 \<le> mx * du_factor (metricDisplayUnit ''By'' mx)
    \<and> (du_unit (metricDisplayUnit ''By'' mx) = ''TB'' \<or> mx * du_factor (metricDisplayUnit ''By'' mx) < 1024)
    \<and> du_unit (metricDisplayUnit ''By'' mx) \<in> set BYTE_UNITS"
  using byte_display [OF assms] by auto

lemma byte_unit_fits_witness: "1 \<le> 3000000 * du_factor (metricDisplayUnit ''By'' 3000000)"
  using byte_unit_fits [of 3000000] by simp

end
