(* ===== verification/EU_Metrics.thy ===== *)
theory EU_Metrics imports EU_Charts EU_Time EU_TelemetryTypes EU_Json
begin

text \<open>
  \<open>features/metrics/metricSeries.ts\<close>: the identity of a metric series, the rates of
  cumulative sums and the series a metric chart draws. A point's value is a number
  (JSON has no \<open>NaN\<close>); a rate that is \<open>NaN\<close> is \<open>None\<close>. \<open>JSON.parse(JSON.stringify(v))\<close> is
  \<open>v\<close>. A JavaScript object's properties are in the engine's order: array-index keys first,
  ascending, then the others as inserted (\<open>from_entries\<close>).
\<close>

section \<open>Canonical attributes\<close>

definition index_key :: "string \<Rightarrow> nat option" where
  "index_key k = (case parse_nat k of Some n \<Rightarrow> if show_nat n = k \<and> n < 2 ^ 32 - 1 then Some n else None | None \<Rightarrow> None)"

definition from_entries :: "(string \<times> 'v) list \<Rightarrow> (string \<times> 'v) list" where
  "from_entries es =
     sort_by (by_key (\<lambda>e. the (index_key (fst e)))) (filter (\<lambda>e. index_key (fst e) \<noteq> None) es)
     @ filter (\<lambda>e. index_key (fst e) = None) es"

lemma size_list_mem [termination_simp]: "x \<in> set xs \<Longrightarrow> size x \<le> size_list size xs"
  by (simp add: size_list_estimation')

lemma size_entry_mem [termination_simp]:
  "(k, v) \<in> set ps \<Longrightarrow> size v < Suc (size_list (size_prod (\<lambda>x. 0) size) ps)"
  by (induction ps) auto

function canonicalValue :: "json \<Rightarrow> json" where
  "canonicalValue (JArr xs) = JArr (map canonicalValue xs)"
| "canonicalValue (JObj ps) =
     JObj (from_entries (map (\<lambda>(k, v). (k, canonicalValue v)) (sort_by (by_key fst) ps)))"
| "canonicalValue JNull = JNull"
| "canonicalValue (JBool b) = JBool b"
| "canonicalValue (JInt i) = JInt i"
| "canonicalValue (JDec t) = JDec t"
| "canonicalValue (JStr s) = JStr s"
  by pat_completeness auto
termination
  by (relation "measure size") (auto simp: less_Suc_eq_le size_list_mem dest!: size_entry_mem)

definition metricSeriesIdentity :: "(string \<times> json) list option \<Rightarrow> string" where
  "metricSeriesIdentity attrs = stringify (canonicalValue (JObj (case attrs of Some a \<Rightarrow> a | None \<Rightarrow> [])))"

text \<open>\<open>Object.entries(JSON.parse(metricSeriesIdentity(attributes)))\<close>.\<close>

definition canonical_entries :: "(string \<times> json) list \<Rightarrow> (string \<times> json) list" where
  "canonical_entries attrs = (case canonicalValue (JObj attrs) of JObj es \<Rightarrow> es | _ \<Rightarrow> [])"

definition metricSeriesLabel :: "(string \<times> json) list \<Rightarrow> string option \<Rightarrow> string option \<Rightarrow> string" where
  "metricSeriesLabel attrs streamKey streamLabel =
     (let joined = join_with '', '' (map (\<lambda>(k, v). k @ CHR ''='' # stringify v) (canonical_entries attrs));
          label = (if joined \<noteq> [] then joined else (''attribute '' @ [CHR 0xEC, CHR 0x97, CHR 0x86, CHR 0xEC, CHR 0x9D, CHR 0x8C]));
          sk = (case streamKey of Some k \<Rightarrow> k | None \<Rightarrow> []);
          sl = (case streamLabel of Some l \<Rightarrow> l | None \<Rightarrow> [])
      in if sk \<noteq> [] then (if sl \<noteq> [] then sl else ''stream'') @ '' ['' @ slice 0 8 sk @ ''], '' @ label else label)"

definition pointIdentity :: "'a otel_metric_point_scheme \<Rightarrow> string" where
  "pointIdentity p = (case mp_streamKey p of Some k \<Rightarrow> k | None \<Rightarrow> []) @ CHR ''|'' # metricSeriesIdentity (mp_attributes p)"

text \<open>The same JSON value with the properties of its objects written in any order.\<close>

inductive same_json :: "json \<Rightarrow> json \<Rightarrow> bool" where
  same_refl: "same_json j j"
| same_arr: "list_all2 same_json xs ys \<Longrightarrow> same_json (JArr xs) (JArr ys)"
| same_obj: "distinct (map fst ps) \<Longrightarrow> mset ps = mset qs \<Longrightarrow>
    list_all2 (\<lambda>p q. fst p = fst q \<and> same_json (snd p) (snd q)) qs rs \<Longrightarrow> same_json (JObj ps) (JObj rs)"

inductive_cases same_objE: "same_json (JObj ps) j"

lemma sorted_unique:
  fixes f :: "'a \<Rightarrow> 'k :: linorder"
  assumes "mset xs = mset ys" and "distinct (map f xs)"
  shows "sort_by (by_key f) xs = sort_by (by_key f) ys"
proof -
  have inj: "inj_on f (set (sort_by (by_key f) xs) \<union> set (sort_by (by_key f) ys))"
    using assms by (metis distinct_map mset_eq_setD set_sort_by sup.idem)
  have m: "mset (sort_by (by_key f) xs) = mset (sort_by (by_key f) ys)" using assms(1) by simp
  have "map f (sort_by (by_key f) xs) = map f (sort_by (by_key f) ys)"
  proof -
    have s: "sorted (map f (sort_by (by_key f) zs))" for zs
      using asc.sorted_sort [of f zs] by (simp add: sorted_map by_key_def [abs_def])
    have "mset (map f (sort_by (by_key f) xs)) = mset (map f (sort_by (by_key f) ys))"
      using m by (simp only: mset_map)
    with s show ?thesis by (metis properties_for_sort)
  qed
  then show ?thesis using inj by (rule map_inj_on)
qed

lemma map_insert_by:
  "(\<And>x y. le' (g x) (g y) = le x y) \<Longrightarrow> map g (insert_by le x xs) = insert_by le' (g x) (map g xs)"
  by (induction xs) auto

lemma map_sort_by:
  "(\<And>x y. le' (g x) (g y) = le x y) \<Longrightarrow> map g (sort_by le xs) = sort_by le' (map g xs)"
  by (induction xs) (simp_all add: map_insert_by [of le' g le])

text \<open>Two objects with the same attributes, nested ones too, have one identity.\<close>

lemma canonical_same: "same_json a b \<Longrightarrow> canonicalValue a = canonicalValue b"
proof (induction rule: same_json.induct)
  case (same_arr xs ys)
  then show ?case by (simp add: list_all2_conv_all_nth map_equality_iff)
next
  case (same_obj ps qs rs)
  let ?g = "\<lambda>(k, v). (k, canonicalValue v)"
  have m: "map ?g (sort_by (by_key fst) zs) = sort_by (by_key fst) (map ?g zs)" for zs
    by (rule map_sort_by) (auto simp: by_key_def)
  have "map ?g qs = map ?g rs"
    using same_obj(3) by (auto simp: list_all2_conv_all_nth map_equality_iff case_prod_beta)
  moreover have "sort_by (by_key fst) ps = sort_by (by_key fst) qs"
    using same_obj(1,2) by (intro sorted_unique) auto
  ultimately show ?case by (simp only: canonicalValue.simps m)
qed simp

section \<open>Rates\<close>

text \<open>
  The comparator \<open>Date.parse(a.createdAt) - Date.parse(b.createdAt) || a.id - b.id\<close>: a
  difference that is zero or \<open>NaN\<close> leaves the ids to decide.
\<close>

definition rate_le :: "otel_metric_point \<Rightarrow> otel_metric_point \<Rightarrow> bool" where
  "rate_le x y \<longleftrightarrow>
     (case (date_parse (mp_createdAt x), date_parse (mp_createdAt y)) of
        (Some tx, Some ty) \<Rightarrow> if tx - ty \<noteq> 0 then tx - ty \<le> 0 else mp_id x - mp_id y \<le> 0
      | _ \<Rightarrow> mp_id x - mp_id y \<le> 0)"

definition start_ms :: "otel_metric_point \<Rightarrow> rat" where
  "start_ms p = of_int (case mp_startTimeUnixNano p of Some s \<Rightarrow> s | None \<Rightarrow> 0) / 1000000"

definition point_rate :: "otel_metric_point option \<Rightarrow> otel_metric_point \<Rightarrow> rat option" where
  "point_rate prev p =
     (case date_parse (mp_createdAt p) of
        None \<Rightarrow> None
      | Some ms \<Rightarrow>
          let t = of_int ms; start = start_ms p;
              last_t = Option.bind prev (\<lambda>l. map_option of_int (date_parse (mp_createdAt l)))
          in if mp_metricType p = ''sum'' \<and> mp_isMonotonic p = Some True \<and> start > 0 \<and> start < t \<and> mp_value p \<ge> 0
             then if mp_temporality p = Some 1 \<and>
                     (case prev of None \<Rightarrow> True | Some _ \<Rightarrow> (case last_t of Some lt \<Rightarrow> start \<ge> lt | None \<Rightarrow> False))
                  then Some (mp_value p / ((t - start) / 1000))
                  else (case (prev, last_t) of
                     (Some l, Some lt) \<Rightarrow>
                       if mp_temporality p = Some 2 \<and> mp_isMonotonic l = Some True \<and> mp_temporality l = Some 2
                          \<and> mp_startTimeUnixNano l = mp_startTimeUnixNano p \<and> mp_value l \<ge> 0
                          \<and> mp_value p \<ge> mp_value l \<and> lt < t
                       then Some ((mp_value p - mp_value l) / ((t - lt) / 1000)) else None
                   | _ \<Rightarrow> None)
             else None)"

fun rates_from :: "(string \<times> otel_metric_point) list \<Rightarrow> otel_metric_point list \<Rightarrow> (otel_metric_point \<times> rat option) list" where
  "rates_from previous [] = []"
| "rates_from previous (p # ps) =
     (p, point_rate (map_of previous (pointIdentity p)) p)
     # rates_from (AList.update (pointIdentity p) p previous) ps"

text \<open>The points in time order, each with the rate that replaces its value.\<close>

definition metricRates :: "otel_metric_point list \<Rightarrow> (otel_metric_point \<times> rat option) list" where
  "metricRates points = rates_from [] (sort_by rate_le points)"

lemma point_rate_nonneg: "point_rate prev p = Some r \<Longrightarrow> 0 \<le> r"
  by (auto simp: point_rate_def Let_def split: option.splits if_splits)

lemma rates_from_points [simp]: "map fst (rates_from m ps) = ps"
  by (induction ps arbitrary: m) auto

lemma rates_from_nonneg: "(p, Some r) \<in> set (rates_from m ps) \<Longrightarrow> 0 \<le> r"
proof (induction ps arbitrary: m)
  case (Cons q ps)
  then show ?case by (auto dest: point_rate_nonneg [OF sym])
qed simp

text \<open>
  An uninterrupted cumulative stream: one identity and start, monotonic, times increasing,
  values not decreasing.
\<close>

fun cumulative :: "(int \<times> otel_metric_point) list \<Rightarrow> bool" where
  "cumulative [] = True"
| "cumulative [(t, p)] =
     (mp_metricType p = ''sum'' \<and> mp_isMonotonic p = Some True \<and> mp_temporality p = Some 2 \<and> mp_value p \<ge> 0
      \<and> date_parse (mp_createdAt p) = Some t \<and> start_ms p > 0 \<and> start_ms p < of_int t)"
| "cumulative ((t, p) # (u, q) # ps) =
     (cumulative [(t, p)] \<and> t < u \<and> mp_value p \<le> mp_value q \<and> pointIdentity p = pointIdentity q
      \<and> mp_startTimeUnixNano p = mp_startTimeUnixNano q \<and> cumulative ((u, q) # ps))"

text \<open>What the rates of a stream add up to over its intervals, in units per second times seconds.\<close>

fun rate_sum :: "(int \<times> otel_metric_point) list \<Rightarrow> (otel_metric_point \<times> rat option) list \<Rightarrow> rat" where
  "rate_sum ((t, p) # (u, q) # tps) ((_, r) # rs) =
     (case r of Some x \<Rightarrow> x * (of_int (u - t) / 1000) | None \<Rightarrow> 0) + rate_sum ((u, q) # tps) rs"
| "rate_sum _ _ = 0"

lemma cumulative_head: "cumulative ((t, p) # ps) \<Longrightarrow> cumulative [(t, p)]"
  by (cases ps) auto

lemma cumulative_rate:
  assumes "cumulative ((t, p) # (u, q) # ps)"
  shows "point_rate (Some p) q = Some ((mp_value q - mp_value p) / (of_int (u - t) / 1000))"
  using assms cumulative_head [of u q ps] by (auto simp: point_rate_def Let_def)

lemma rates_from_cumulative:
  assumes "cumulative ((t, p) # tps)" and "map_of m (pointIdentity p) = Some p"
  shows "rate_sum ((t, p) # tps) (rates_from m (map snd tps)) = mp_value (last (p # map snd tps)) - mp_value p
    \<and> list_all (\<lambda>(_, r). r \<noteq> None) (rates_from m (map snd tps))"
  using assms
proof (induction tps arbitrary: t p m)
  case (Cons uq tps)
  obtain u q where uq: "uq = (u, q)" by (cases uq)
  have pr: "point_rate (Some p) q = Some ((mp_value q - mp_value p) / (of_int (u - t) / 1000))"
    and tu: "t < u" and id: "pointIdentity q = pointIdentity p"
    using cumulative_rate Cons.prems(1) uq by auto
  have "cumulative ((u, q) # tps)" using Cons.prems(1) uq by auto
  from Cons.IH [OF this, of "AList.update (pointIdentity q) q m"]
  show ?case using pr tu id Cons.prems(2) uq by (simp del: cumulative.simps) (simp add: field_simps)
qed simp

section \<open>The series of a chart\<close>

definition MAX_METRIC_SERIES :: nat where
  "MAX_METRIC_SERIES = 6"

datatype metric_mode = Mode_raw | Mode_rate

record chart_series =
  cs_signature :: string
  cs_key :: string
  cs_label :: string

text \<open>A chart row: its time and, per series key, the value (\<open>None\<close> for \<open>NaN\<close>).\<close>

record chart_row =
  row_t :: int
  row_values :: "(string \<times> rat option) list"

record metric_chart =
  mc_chartData :: "chart_row list"
  mc_series :: "chart_series list"
  mc_truncatedSeries :: int
  mc_gaps :: "(int \<times> int) list"
  mc_display :: display_unit
  mc_skippedRatePoints :: nat

definition resolved_points :: "metric_mode \<Rightarrow> otel_metric_point list \<Rightarrow> (otel_metric_point \<times> rat option) list" where
  "resolved_points mode points =
     (if mode = Mode_rate then metricRates points else map (\<lambda>p. (p, Some (mp_value p))) points)"

definition finite_max :: "rat option list \<Rightarrow> rat" where
  "finite_max vs = foldl (\<lambda>m v. case v of Some x \<Rightarrow> max m \<bar>x\<bar> | None \<Rightarrow> m) 0 vs"

definition metric_display :: "string option \<Rightarrow> metric_mode \<Rightarrow> rat option list \<Rightarrow> display_unit" where
  "metric_display unit mode vs =
     (let d = metricDisplayUnit (case unit of Some u \<Rightarrow> u | None \<Rightarrow> []) (finite_max vs)
      in if mode = Mode_rate then d\<lparr>du_unit := (if du_unit d \<noteq> [] then du_unit d @ ''/s'' else ''/s'')\<rparr> else d)"

definition series_key :: "nat \<Rightarrow> string" where
  "series_key i = ''series_'' @ show_nat i"

definition chart_series_of :: "(string \<times> otel_metric_point) list \<Rightarrow> string list \<Rightarrow> chart_series list" where
  "chart_series_of examples identities =
     map (\<lambda>(i, sig). case map_of examples sig of
            Some e \<Rightarrow> \<lparr>cs_signature = sig, cs_key = series_key i,
                       cs_label = metricSeriesLabel (case mp_attributes e of Some a \<Rightarrow> a | None \<Rightarrow> [])
                                    (mp_streamKey e) (mp_streamLabel e)\<rparr>
          | None \<Rightarrow> \<lparr>cs_signature = sig, cs_key = series_key i, cs_label = []\<rparr>)
       (enumerate 0 (take MAX_METRIC_SERIES identities))"

text \<open>The row's time; exports a few milliseconds apart share a second.\<close>

definition row_time :: "metric_mode \<Rightarrow> int \<Rightarrow> int" where
  "row_time mode ms = (if mode = Mode_rate then ms else math_round (of_int ms / 1000) * 1000)"

definition put_point ::
  "metric_mode \<Rightarrow> rat \<Rightarrow> (string \<times> string) list \<Rightarrow> (int \<times> chart_row) list
   \<Rightarrow> (otel_metric_point \<times> int) \<times> rat option \<Rightarrow> (int \<times> chart_row) list" where
  "put_point mode factor byIdentity byTime pv =
     (case pv of ((p, ms), v) \<Rightarrow>
        case map_of byIdentity (pointIdentity p) of
          None \<Rightarrow> byTime
        | Some key \<Rightarrow>
            let t = row_time mode ms;
                row = (case map_of byTime t of Some r \<Rightarrow> r | None \<Rightarrow> \<lparr>row_t = t, row_values = []\<rparr>)
            in AList.update t (row\<lparr>row_values := AList.update key (map_option (\<lambda>x. x * factor) v) (row_values row)\<rparr>) byTime)"

text \<open>Every time of the points, or \<open>None\<close> when one is no date (its row would be at \<open>NaN\<close>).\<close>

fun point_times :: "(otel_metric_point \<times> rat option) list \<Rightarrow> ((otel_metric_point \<times> int) \<times> rat option) list option" where
  "point_times [] = Some []"
| "point_times ((p, v) # ps) =
     (case (date_parse (mp_createdAt p), point_times ps) of
        (Some ms, Some r) \<Rightarrow> Some (((p, ms), v) # r) | _ \<Rightarrow> None)"

definition buildMetricSeries :: "otel_metric_point list \<Rightarrow> string option \<Rightarrow> metric_mode \<Rightarrow> metric_chart option" where
  "buildMetricSeries points unit mode =
     (let resolved = resolved_points mode points;
          display = metric_display unit mode (map snd resolved);
          examples = map_from (map (\<lambda>(p, v). (pointIdentity p, p)) resolved);
          identities = sort_by (by_key (\<lambda>k. k)) (map fst examples);
          series = chart_series_of examples identities;
          byIdentity = map_from (map (\<lambda>s. (cs_signature s, cs_key s)) series)
      in map_option (\<lambda>timed.
           let byTime = foldl (put_point mode (du_factor display) byIdentity) [] timed;
               chartData = sort_by (by_key row_t) (map snd byTime)
           in \<lparr>mc_chartData = chartData, mc_series = series,
               mc_truncatedSeries = int (length identities) - int (length series),
               mc_gaps = snd (splitGaps row_t chartData None), mc_display = display,
               mc_skippedRatePoints = (if mode = Mode_rate then length (filter (\<lambda>(p, v). v = None) resolved) else 0)\<rparr>)
           (point_times resolved))"

lemma series_key_inject [simp]: "series_key i = series_key j \<longleftrightarrow> i = j"
  by (simp add: series_key_def show_nat_inject)

lemma map_pair_parts: "map (\<lambda>(i, x). g i) zs = map g (map fst zs)" "map (\<lambda>(i, x). h x) zs = map h (map snd zs)"
  by (induction zs) auto

lemma map_enumerate_fst: "map (\<lambda>(i, x). g i) (enumerate 0 xs) = map g [0..<length xs]"
  unfolding map_pair_parts by simp

lemma map_enumerate_snd: "map (\<lambda>(i, x). g x) (enumerate n xs) = map g xs"
  unfolding map_pair_parts by simp

lemma chart_series_keys: "map cs_key (chart_series_of ex ids) = map series_key [0..<min MAX_METRIC_SERIES (length ids)]"
proof -
  have "map cs_key (chart_series_of ex ids) = map (\<lambda>(i, sig). series_key i) (enumerate 0 (take MAX_METRIC_SERIES ids))"
    unfolding chart_series_of_def map_map comp_def
    by (intro map_cong refl) (auto split: option.split)
  then show ?thesis by (simp add: map_enumerate_fst min.commute)
qed

lemma chart_series_signatures: "map cs_signature (chart_series_of ex ids) = take MAX_METRIC_SERIES ids"
proof -
  have "map cs_signature (chart_series_of ex ids) = map (\<lambda>(i, sig). sig) (enumerate 0 (take MAX_METRIC_SERIES ids))"
    unfolding chart_series_of_def map_map comp_def
    by (intro map_cong refl) (auto split: option.split)
  then show ?thesis by (simp add: map_enumerate_snd)
qed

lemma foldl_update_values:
  "snd ` set (foldl (\<lambda>m (k, v). AList.update k v m) m ps) \<subseteq> snd ` set m \<union> snd ` set ps"
proof (induction ps arbitrary: m)
  case (Cons p ps)
  have "snd ` set (AList.update k v m) \<subseteq> insert v (snd ` set m)" for k v
    by (induction m) auto
  then have "snd ` set (AList.update (fst p) (snd p) m) \<subseteq> insert (snd p) (snd ` set m)" .
  with Cons [of "AList.update (fst p) (snd p) m"] show ?case by (cases p) auto
qed simp

lemma map_from_values: "snd ` set (map_from ps) \<subseteq> snd ` set ps"
  using foldl_update_values [of "[]" ps] by (simp add: map_from_def)

text \<open>The rows under construction: one per time, holding only shown series.\<close>

definition rows_ok :: "(string \<times> string) list \<Rightarrow> (int \<times> chart_row) list \<Rightarrow> bool" where
  "rows_ok ids m \<longleftrightarrow> distinct (map fst m) \<and>
     list_all (\<lambda>(t, r). row_t r = t \<and> fst ` set (row_values r) \<subseteq> snd ` set ids) m"

lemma list_all_update:
  "list_all P m \<Longrightarrow> P (k, v) \<Longrightarrow> list_all P (AList.update k v m)"
  by (induction m) auto

lemma put_point_ok:
  assumes "rows_ok ids m"
  shows "rows_ok ids (put_point mode f ids m pv)"
proof -
  obtain p ms v where pv: "pv = ((p, ms), v)" by (cases pv) auto
  show ?thesis
  proof (cases "map_of ids (pointIdentity p)")
    case None
    then show ?thesis using assms by (simp add: put_point_def pv)
  next
    case (Some key)
    then have key: "key \<in> snd ` set ids" by (auto dest: map_of_SomeD intro: rev_image_eqI)
    define t where "t = row_time mode ms"
    define row where "row = (case map_of m t of Some r \<Rightarrow> r | None \<Rightarrow> \<lparr>row_t = t, row_values = []\<rparr>)"
    have "row_t row = t \<and> fst ` set (row_values row) \<subseteq> snd ` set ids"
    proof (cases "map_of m t")
      case (Some r)
      then have "(t, r) \<in> set m" by (rule map_of_SomeD)
      then have "row_t r = t" "fst ` set (row_values r) \<subseteq> snd ` set ids"
        using assms unfolding rows_ok_def list_all_iff by blast+
      with Some show ?thesis by (simp add: row_def)
    qed (simp add: row_def)
    moreover have "put_point mode f ids m pv =
        AList.update t (row\<lparr>row_values := AList.update key (map_option (\<lambda>x. x * f) v) (row_values row)\<rparr>) m"
      unfolding row_def t_def by (simp add: put_point_def pv Let_def Some)
    ultimately show ?thesis
      using assms key by (simp add: rows_ok_def list_all_update fst_update)
  qed
qed

lemma put_points_ok: "rows_ok ids m \<Longrightarrow> rows_ok ids (foldl (put_point mode f ids) m pvs)"
  by (induction pvs arbitrary: m) (simp_all add: put_point_ok)

lemma rows_ok_sorted:
  assumes "rows_ok ids m"
  shows "sorted_wrt (<) (map row_t (sort_by (by_key row_t) (map snd m)))"
proof -
  have "map row_t (map snd m) = map fst m"
    using assms by (auto simp: rows_ok_def list_all_iff)
  then have "distinct (map row_t (map snd m))" using assms unfolding rows_ok_def by metis
  then have "distinct (map row_t (sort_by (by_key row_t) (map snd m)))"
    by (metis distinct_map distinct_sort_by set_sort_by)
  moreover have "sorted (map row_t (sort_by (by_key row_t) (map snd m)))"
    using asc.sorted_sort [of row_t "map snd m"] by (simp add: sorted_map by_key_def [abs_def])
  ultimately show ?thesis by (simp add: strict_sorted_iff)
qed

lemma buildMetricSeries_fields:
  assumes "buildMetricSeries points unit mode = Some c"
  shows "\<exists>ids byTime. rows_ok ids byTime \<and> snd ` set ids \<subseteq> cs_key ` set (mc_series c)
    \<and> mc_chartData c = sort_by (by_key row_t) (map snd byTime)"
proof -
  define series where "series = mc_series c"
  define ids where "ids = map_from (map (\<lambda>s. (cs_signature s, cs_key s)) series)"
  obtain timed f where d: "mc_chartData c = sort_by (by_key row_t) (map snd (foldl (put_point mode f ids) [] timed))"
    using assms by (auto simp: buildMetricSeries_def Let_def ids_def series_def)
  have "rows_ok ids (foldl (put_point mode f ids) [] timed)"
    by (intro put_points_ok) (simp add: rows_ok_def)
  moreover have "snd ` set ids \<subseteq> cs_key ` set series"
    using map_from_values [of "map (\<lambda>s. (cs_signature s, cs_key s)) series"] by (force simp: ids_def)
  ultimately show ?thesis using d series_def by blast
qed

lemma buildMetricSeries_series:
  assumes "buildMetricSeries points unit mode = Some c"
  shows "\<exists>ids. distinct ids \<and> set ids = (\<lambda>p. pointIdentity p) ` set points \<and> sorted ids
    \<and> map cs_signature (mc_series c) = take MAX_METRIC_SERIES ids
    \<and> map cs_key (mc_series c) = map series_key [0..<min MAX_METRIC_SERIES (length ids)]
    \<and> mc_truncatedSeries c = int (length ids) - int (min MAX_METRIC_SERIES (length ids))"
proof -
  define resolved where "resolved = resolved_points mode points"
  define examples where "examples = map_from (map (\<lambda>(p, v :: rat option). (pointIdentity p, p)) resolved)"
  define ids where "ids = sort_by (by_key (\<lambda>k. k)) (map fst examples)"
  have "set (map fst resolved) = set points"
  proof (cases mode)
    case Mode_rate
    then show ?thesis by (simp only: resolved_def resolved_points_def metricRates_def rates_from_points set_sort_by simp_thms if_True)
  qed (force simp: resolved_def resolved_points_def)
  moreover have "set ids = pointIdentity ` set (map fst resolved)"
    by (force simp: ids_def examples_def map_from_keys)
  ultimately have "set ids = pointIdentity ` set points" by simp
  moreover have "distinct ids" by (simp add: ids_def examples_def)
  moreover have "sorted ids"
    using asc.sorted_sort [of "\<lambda>k. k" "map fst examples"] by (simp add: ids_def by_key_def [abs_def])
  moreover have "mc_series c = chart_series_of examples ids"
    "mc_truncatedSeries c = int (length ids) - int (length (chart_series_of examples ids))"
    using assms by (auto simp: buildMetricSeries_def Let_def ids_def examples_def resolved_def)
  moreover have "length (chart_series_of examples ids) = min MAX_METRIC_SERIES (length ids)"
    using chart_series_signatures [of examples ids] by (metis length_map length_take min.commute)
  ultimately show ?thesis by (auto simp: chart_series_keys chart_series_signatures)
qed

section \<open>Charts as a whole\<close>

text \<open>Two points whose attribute objects differ only in the order of keys, at any depth, and
  that have the same stream belong to one series.\<close>

theorem identity_ignores_key_order:
  assumes "mp_attributes p = Some as" "mp_attributes q = Some bs" "same_json (JObj as) (JObj bs)"
    and "mp_streamKey p = mp_streamKey q"
  shows "pointIdentity p = pointIdentity q"
  using canonical_same [OF assms(3)] assms by (simp add: pointIdentity_def metricSeriesIdentity_def)

definition demo_point :: "(string \<times> json) list \<Rightarrow> int \<Rightarrow> rat \<Rightarrow> otel_metric_point" where
  "demo_point attrs t v =
     \<lparr>mp_id = t, mp_metricName = ''billing.jobs.completed'', mp_metricType = ''sum'', mp_unit = None, mp_attributes = Some attrs,
      mp_value = v, mp_count = None, mp_total = None, mp_createdAt = iso_string t, mp_receivedAt = None,
      mp_description = None, mp_resource = None, mp_scope = None, mp_streamKey = None, mp_streamLabel = None,
      mp_temporality = Some 2, mp_isMonotonic = Some True, mp_startTimeUnixNano = Some 1790240000000000000\<rparr>"

lemma identity_ignores_key_order_witness:
  "pointIdentity (demo_point [(''route'', JStr ''/pay''), (''host'', JStr ''a'')] 1 0)
     = pointIdentity (demo_point [(''host'', JStr ''a''), (''route'', JStr ''/pay'')] 2 5)"
  by (rule identity_ignores_key_order)
    (auto simp: demo_point_def intro!: same_obj [where qs = "[(''host'', JStr ''a''), (''route'', JStr ''/pay'')]"] same_refl)

text \<open>C9: The rates of an uninterrupted cumulative counter, each multiplied by the seconds it
  covers, add up to the counter's total increase, and no interval of it is left without a rate.\<close>

theorem cumulative_rates_conserve:
  assumes "cumulative ((t, p) # tps)"
  shows "rate_sum ((t, p) # tps) (tl (rates_from [] (p # map snd tps))) = mp_value (last (p # map snd tps)) - mp_value p
    \<and> list_all (\<lambda>(_, r). r \<noteq> None) (tl (rates_from [] (p # map snd tps)))"
  using rates_from_cumulative [OF assms, of "[(pointIdentity p, p)]"] by simp

lemma cumulative_rates_conserve_witness:
  "rate_sum [(1790244000000, demo_point [] 1790244000000 4), (1790244060000, demo_point [] 1790244060000 10)]
     (tl (rates_from [] [demo_point [] 1790244000000 4, demo_point [] 1790244060000 10])) = 6"
proof -
  have "date_parse (iso_string 1790244000000) = Some 1790244000000" "date_parse (iso_string 1790244060000) = Some 1790244060000"
    by (simp_all add: date_parse_iso iso_range_def epoch_day_def ms_per_day_def year_start_def)
  then show ?thesis
    using cumulative_rates_conserve [of 1790244000000 "demo_point [] 1790244000000 4"
        "[(1790244060000, demo_point [] 1790244060000 10)]"]
    by (simp add: demo_point_def start_ms_def pointIdentity_def)
qed

lemma rows_ok_keys: "rows_ok ids m \<Longrightarrow> (t, r) \<in> set m \<Longrightarrow> fst ` set (row_values r) \<subseteq> snd ` set ids"
  unfolding rows_ok_def list_all_iff by blast

text \<open>C8: The chart of a metric has its rows at strictly increasing times, draws at most six
  series, the first of the sorted identities, each under its own key, counts the series it
  leaves out, and every value in a row belongs to a drawn series.\<close>

theorem chart_well_formed:
  assumes "buildMetricSeries points unit mode = Some c"
  shows "sorted_wrt (<) (map row_t (mc_chartData c))
    \<and> length (mc_series c) \<le> 6 \<and> distinct (map cs_key (mc_series c)) \<and> distinct (map cs_signature (mc_series c))
    \<and> set (map cs_signature (mc_series c)) \<subseteq> pointIdentity ` set points
    \<and> mc_truncatedSeries c = int (card (pointIdentity ` set points)) - int (length (mc_series c))
    \<and> list_all (\<lambda>row. fst ` set (row_values row) \<subseteq> cs_key ` set (mc_series c)) (mc_chartData c)"
proof -
  obtain ids m where f: "rows_ok ids m" "snd ` set ids \<subseteq> cs_key ` set (mc_series c)"
    "mc_chartData c = sort_by (by_key row_t) (map snd m)"
    using buildMetricSeries_fields [OF assms] by blast
  have rows: "sorted_wrt (<) (map row_t (mc_chartData c))" using rows_ok_sorted [OF f(1)] by (simp add: f(3))
  have drawn: "list_all (\<lambda>row. fst ` set (row_values row) \<subseteq> cs_key ` set (mc_series c)) (mc_chartData c)"
    using order_trans [OF rows_ok_keys [OF f(1)] f(2)] by (simp add: f(3) list_all_iff) (metis prod.collapse)
  obtain js where i: "distinct js" "set js = pointIdentity ` set points"
    "map cs_signature (mc_series c) = take MAX_METRIC_SERIES js"
    "map cs_key (mc_series c) = map series_key [0..<min MAX_METRIC_SERIES (length js)]"
    "mc_truncatedSeries c = int (length js) - int (min MAX_METRIC_SERIES (length js))"
    using buildMetricSeries_series [OF assms] by blast
  have l: "length (mc_series c) = min MAX_METRIC_SERIES (length js)" using arg_cong [OF i(3), of length] by simp
  have "length (mc_series c) \<le> 6" "distinct (map cs_key (mc_series c))" "distinct (map cs_signature (mc_series c))"
    by (simp_all add: l i MAX_METRIC_SERIES_def distinct_map inj_on_def)
  moreover have "set (map cs_signature (mc_series c)) \<subseteq> pointIdentity ` set points"
    unfolding i(3) i(2) [symmetric] by (rule set_take_subset)
  moreover have "mc_truncatedSeries c = int (card (pointIdentity ` set points)) - int (length (mc_series c))"
    by (simp add: i(5) l distinct_card [OF i(1)] flip: i(2))
  ultimately show ?thesis using rows drawn by blast
qed

lemma chart_well_formed_witness:
  "\<exists>c. buildMetricSeries [demo_point [] 1790244000000 4] None Mode_raw = Some c \<and> sorted_wrt (<) (map row_t (mc_chartData c))"
proof -
  have "date_parse (iso_string 1790244000000) = Some 1790244000000"
    by (simp add: date_parse_iso iso_range_def epoch_day_def ms_per_day_def year_start_def)
  then obtain c where "buildMetricSeries [demo_point [] 1790244000000 4] None Mode_raw = Some c"
    by (auto simp: buildMetricSeries_def resolved_points_def demo_point_def Let_def)
  with chart_well_formed [OF this] show ?thesis by blast
qed

end
