(* ===== verification/EU_Groups.thy ===== *)
theory EU_Groups imports EU_Status EU_Client
begin

text \<open>
  \<open>pages/projects/projectMembers.ts\<close>: the members of a group (project), the order they
  are listed in, the one-line summary of the group list, and the assignment of a target to
  a group. \<open>now\<close> stands for \<open>Date.now()\<close>, \<open>locale\<close> for \<open>toLocaleString()\<close> of a
  timestamp.
\<close>

section \<open>Members and sources\<close>

datatype assignable_target =
    Target_agent connected_agent
  | Target_monitor uptime_monitor
  | Target_direct observed_service
  | Target_infra infrastructure_resource

record member =
  me_key :: string
  me_to :: string
  me_icon :: string
  me_type :: string
  me_name :: string
  me_detail :: string
  me_state :: status_tone
  me_assignment :: "assignable_target option"

record project_sources =
  src_agents :: "connected_agent list"
  src_services :: "agent_service_flat list"
  src_monitors :: "uptime_monitor list"
  src_observedServices :: "observed_service list"
  src_infrastructure :: "infrastructure_resource list"

fun STATE_ORDER :: "status_tone \<Rightarrow> nat" where
  "STATE_ORDER T_error = 0"
| "STATE_ORDER T_warn = 1"
| "STATE_ORDER T_idle = 2"
| "STATE_ORDER T_healthy = 3"

definition STATES :: "status_tone list" where
  "STATES = [T_error, T_warn, T_idle, T_healthy]"

definition sourcesForProject :: "string \<Rightarrow> project_sources \<Rightarrow> project_sources" where
  "sourcesForProject projectId all =
     (let agents = filter (\<lambda>a. ag_projectId a = Some projectId) (src_agents all);
          agentIds = set_from (map ag_id agents)
      in \<lparr>src_agents = agents,
          src_services = filter (\<lambda>s. sv_agentId s \<in> set agentIds) (src_services all),
          src_monitors = filter (\<lambda>m. um_projectId m = Some projectId) (src_monitors all),
          src_observedServices = filter (\<lambda>s. os_projectId s = Some projectId) (src_observedServices all),
          src_infrastructure = filter (\<lambda>r. ir_projectId r = Some projectId) (src_infrastructure all)\<rparr>)"

record direct_kind =
  dk_to :: string
  dk_icon :: string
  dk_type :: string

definition directKind :: "observed_service \<Rightarrow> direct_kind" where
  "directKind s =
     (if Sig_logs \<in> set (os_signals s)
      then \<lparr>dk_to = ''/logs/'' @ os_id s, dk_icon = ''article'', dk_type = [CHR 0xEB, CHR 0xA1, CHR 0x9C, CHR 0xEA, CHR 0xB7, CHR 0xB8]\<rparr>
      else if Sig_metrics \<in> set (os_signals s)
      then \<lparr>dk_to = ''/metrics/'' @ os_id s, dk_icon = ''monitoring'', dk_type = [CHR 0xEB, CHR 0xA9, CHR 0x94, CHR 0xED, CHR 0x8A, CHR 0xB8, CHR 0xEB, CHR 0xA6, CHR 0xAD]\<rparr>
      else \<lparr>dk_to = ''/api/'' @ os_id s, dk_icon = ''api'', dk_type = (''API '' @ [CHR 0xEC, CHR 0x9A, CHR 0x94, CHR 0xEC, CHR 0xB2, CHR 0xAD])\<rparr>)"

definition isDirectInfrastructure :: "infrastructure_resource \<Rightarrow> bool" where
  "isDirectInfrastructure r \<longleftrightarrow> ir_adapter r = Ad_otel_collector"

definition agent_member :: "int \<Rightarrow> connected_agent \<Rightarrow> member" where
  "agent_member now a =
     \<lparr>me_key = ''agent-'' @ ag_id a, me_to = ''/agents/'' @ ag_id a, me_icon = ''dns'', me_type = (''Docker '' @ [CHR 0xED, CHR 0x99, CHR 0x98, CHR 0xEA, CHR 0xB2, CHR 0xBD]),
      me_name = ag_name a,
      me_detail = (if isCollectorFresh now (Some (ag_lastSeenAt a)) then ([CHR 0xEB, CHR 0x8D, CHR 0xB0, CHR 0xEC, CHR 0x9D, CHR 0xB4, CHR 0xED, CHR 0x84, CHR 0xB0] @ '' '' @ [CHR 0xEC, CHR 0x9C, CHR 0xA0, CHR 0xEC, CHR 0x9E, CHR 0x85] @ '' '' @ [CHR 0xEC, CHR 0xA4, CHR 0x91]) else ([CHR 0xEB, CHR 0x8D, CHR 0xB0, CHR 0xEC, CHR 0x9D, CHR 0xB4, CHR 0xED, CHR 0x84, CHR 0xB0] @ '' '' @ [CHR 0xEC, CHR 0xA7, CHR 0x80, CHR 0xEC, CHR 0x97, CHR 0xB0])),
      me_state = (if isCollectorFresh now (Some (ag_lastSeenAt a)) then T_healthy else T_warn),
      me_assignment = Some (Target_agent a)\<rparr>"

definition service_member :: "agent_service_flat \<Rightarrow> member" where
  "service_member s =
     \<lparr>me_key = ''service-'' @ sv_agentId s @ ''-'' @ sv_key s,
      me_to = ''/services/'' @ sv_agentId s @ ''/'' @ encodeURIComponent (sv_key s) @ ''?tab=uptime'',
      me_icon = ''deployed_code'', me_type = (''Docker '' @ [CHR 0xEC, CHR 0x84, CHR 0x9C, CHR 0xEB, CHR 0xB9, CHR 0x84, CHR 0xEC, CHR 0x8A, CHR 0xA4]), me_name = sv_name s, me_detail = [CHR 0xEC, CHR 0x9E, CHR 0xA5, CHR 0xEC, CHR 0x95, CHR 0xA0],
      me_state = T_error, me_assignment = None\<rparr>"

definition monitor_member :: "uptime_monitor \<Rightarrow> member" where
  "monitor_member m =
     \<lparr>me_key = ''monitor-'' @ um_id m, me_to = ''/uptime/'' @ um_id m, me_icon = ''monitor_heart'', me_type = [CHR 0xEC, CHR 0x97, CHR 0x85, CHR 0xED, CHR 0x83, CHR 0x80, CHR 0xEC, CHR 0x9E, CHR 0x84],
      me_name = um_name m,
      me_detail = (if um_status m = S_unhealthy then [CHR 0xEC, CHR 0x9E, CHR 0xA5, CHR 0xEC, CHR 0x95, CHR 0xA0] else if um_status m = S_healthy then [CHR 0xEC, CHR 0xA0, CHR 0x95, CHR 0xEC, CHR 0x83, CHR 0x81] else ([CHR 0xEC, CHR 0x83, CHR 0x81, CHR 0xED, CHR 0x83, CHR 0x9C] @ '' '' @ [CHR 0xED, CHR 0x99, CHR 0x95, CHR 0xEC, CHR 0x9D, CHR 0xB8] @ '' '' @ [CHR 0xEC, CHR 0xA4, CHR 0x91])),
      me_state = (if um_status m = S_unhealthy then T_error else if um_status m = S_healthy then T_healthy else T_idle),
      me_assignment = Some (Target_monitor m)\<rparr>"

definition direct_member :: "(string \<Rightarrow> string) \<Rightarrow> observed_service \<Rightarrow> member" where
  "direct_member locale s =
     \<lparr>me_key = ''direct-'' @ os_id s, me_to = dk_to (directKind s), me_icon = dk_icon (directKind s),
      me_type = dk_type (directKind s), me_name = os_name s,
      me_detail = (if os_isActive s
        then (if truthy (os_lastSeenAt s) then ([CHR 0xEB, CHR 0xA7, CHR 0x88, CHR 0xEC, CHR 0xA7, CHR 0x80, CHR 0xEB, CHR 0xA7, CHR 0x89] @ '' '' @ [CHR 0xEC, CHR 0x88, CHR 0x98, CHR 0xEC, CHR 0x8B, CHR 0xA0]) @ '' '' @ locale (the (os_lastSeenAt s)) else ([CHR 0xEB, CHR 0x8D, CHR 0xB0, CHR 0xEC, CHR 0x9D, CHR 0xB4, CHR 0xED, CHR 0x84, CHR 0xB0] @ '' '' @ [CHR 0xEB, CHR 0x8C, CHR 0x80, CHR 0xEA, CHR 0xB8, CHR 0xB0] @ '' '' @ [CHR 0xEC, CHR 0xA4, CHR 0x91]))
        else ([CHR 0xEC, CHR 0x97, CHR 0xB0, CHR 0xEA, CHR 0xB2, CHR 0xB0] @ '' '' @ [CHR 0xEB, CHR 0xB9, CHR 0x84, CHR 0xED, CHR 0x99, CHR 0x9C, CHR 0xEC, CHR 0x84, CHR 0xB1, CHR 0xED, CHR 0x99, CHR 0x94, CHR 0xEB, CHR 0x90, CHR 0xA8])),
      me_state = (if os_isActive s then (if truthy (os_lastSeenAt s) then T_healthy else T_warn) else T_idle),
      me_assignment = Some (Target_direct s)\<rparr>"

definition infra_member :: "int \<Rightarrow> infrastructure_resource \<Rightarrow> member" where
  "infra_member now r =
     \<lparr>me_key = ''infra-'' @ ir_id r, me_to = ''/infrastructure/'' @ ir_id r, me_icon = ''memory'', me_type = [CHR 0xEC, CHR 0x9D, CHR 0xB8, CHR 0xED, CHR 0x94, CHR 0x84, CHR 0xEB, CHR 0x9D, CHR 0xBC],
      me_name = ir_name r,
      me_detail = (if ir_isActive r
        then (if isCollectorFresh now (ir_lastSeenAt r) then ([CHR 0xEB, CHR 0x8D, CHR 0xB0, CHR 0xEC, CHR 0x9D, CHR 0xB4, CHR 0xED, CHR 0x84, CHR 0xB0] @ '' '' @ [CHR 0xEC, CHR 0x9C, CHR 0xA0, CHR 0xEC, CHR 0x9E, CHR 0x85] @ '' '' @ [CHR 0xEC, CHR 0xA4, CHR 0x91]) else ([CHR 0xEB, CHR 0x8D, CHR 0xB0, CHR 0xEC, CHR 0x9D, CHR 0xB4, CHR 0xED, CHR 0x84, CHR 0xB0] @ '' '' @ [CHR 0xED, CHR 0x99, CHR 0x95, CHR 0xEC, CHR 0x9D, CHR 0xB8] @ '' '' @ [CHR 0xED, CHR 0x95, CHR 0x84, CHR 0xEC, CHR 0x9A, CHR 0x94]))
        else (''Collector '' @ [CHR 0xEB, CHR 0xB9, CHR 0x84, CHR 0xED, CHR 0x99, CHR 0x9C, CHR 0xEC, CHR 0x84, CHR 0xB1, CHR 0xED, CHR 0x99, CHR 0x94, CHR 0xEB, CHR 0x90, CHR 0xA8])),
      me_state = (if ir_isActive r then (if isCollectorFresh now (ir_lastSeenAt r) then T_healthy else T_warn) else T_idle),
      me_assignment = (if isDirectInfrastructure r then Some (Target_infra r) else None)\<rparr>"

text \<open>The members in the order the kinds are listed, before the sort.\<close>

definition member_rows :: "(string \<Rightarrow> string) \<Rightarrow> int \<Rightarrow> project_sources \<Rightarrow> member list" where
  "member_rows locale now src =
     map (agent_member now) (src_agents src)
     @ map service_member (filter (\<lambda>s. \<not> sv_healthy s) (src_services src))
     @ map monitor_member (src_monitors src)
     @ map (direct_member locale) (src_observedServices src)
     @ map (infra_member now) (src_infrastructure src)"

definition projectMembers :: "(string \<Rightarrow> string) \<Rightarrow> int \<Rightarrow> project_sources \<Rightarrow> member list" where
  "projectMembers locale now src = sort_by (by_key (\<lambda>m. STATE_ORDER (me_state m))) (member_rows locale now src)"

fun STATE_LABEL :: "status_tone \<Rightarrow> string" where
  "STATE_LABEL T_error = [CHR 0xEC, CHR 0x9E, CHR 0xA5, CHR 0xEC, CHR 0x95, CHR 0xA0]"
| "STATE_LABEL T_warn = ([CHR 0xED, CHR 0x99, CHR 0x95, CHR 0xEC, CHR 0x9D, CHR 0xB8] @ '' '' @ [CHR 0xED, CHR 0x95, CHR 0x84, CHR 0xEC, CHR 0x9A, CHR 0x94])"
| "STATE_LABEL T_idle = [CHR 0xEB, CHR 0x8C, CHR 0x80, CHR 0xEA, CHR 0xB8, CHR 0xB0]"
| "STATE_LABEL T_healthy = [CHR 0xEC, CHR 0xA0, CHR 0x95, CHR 0xEC, CHR 0x83, CHR 0x81]"

definition state_count :: "member list \<Rightarrow> status_tone \<Rightarrow> nat" where
  "state_count ms s = foldl (\<lambda>n m. if me_state m = s then n + 1 else n) 0 ms"

record member_summary =
  mes_tone :: status_tone
  mes_label :: string

definition summarizeMembers :: "member list \<Rightarrow> member_summary" where
  "summarizeMembers ms =
     (if length ms = 0 then \<lparr>mes_tone = T_idle, mes_label = ([CHR 0xEB, CHR 0x8C, CHR 0x80, CHR 0xEC, CHR 0x83, CHR 0x81] @ '' '' @ [CHR 0xEC, CHR 0x97, CHR 0x86, CHR 0xEC, CHR 0x9D, CHR 0x8C])\<rparr>
      else let states = filter (\<lambda>s. state_count ms s > 0) STATES
           in \<lparr>mes_tone = hd states,
               mes_label = join_with '', '' (map (\<lambda>s. STATE_LABEL s @ '' '' @ show_nat (state_count ms s)) states)\<rparr>)"

section \<open>Assignment\<close>

datatype target_kind = Kind_agent | Kind_monitor | Kind_direct | Kind_infra

fun target_kind_text :: "target_kind \<Rightarrow> string" where
  "target_kind_text Kind_agent = ''agent''"
| "target_kind_text Kind_monitor = ''monitor''"
| "target_kind_text Kind_direct = ''direct''"
| "target_kind_text Kind_infra = ''infra''"

definition TARGET_KINDS :: "(target_kind \<times> string) list" where
  "TARGET_KINDS = [(Kind_agent, (''Docker '' @ [CHR 0xED, CHR 0x99, CHR 0x98, CHR 0xEA, CHR 0xB2, CHR 0xBD])), (Kind_monitor, ([CHR 0xEC, CHR 0x97, CHR 0x85, CHR 0xED, CHR 0x83, CHR 0x80, CHR 0xEC, CHR 0x9E, CHR 0x84] @ '' '' @ [CHR 0xEB, CHR 0xAA, CHR 0xA8, CHR 0xEB, CHR 0x8B, CHR 0x88, CHR 0xED, CHR 0x84, CHR 0xB0])),
     (Kind_direct, ([CHR 0xEC, CHR 0xA7, CHR 0x81, CHR 0xEC, CHR 0xA0, CHR 0x91] @ '' '' @ [CHR 0xEC, CHR 0x97, CHR 0xB0, CHR 0xEA, CHR 0xB2, CHR 0xB0] @ '' '' @ [CHR 0xEC, CHR 0x84, CHR 0x9C, CHR 0xEB, CHR 0xB9, CHR 0x84, CHR 0xEC, CHR 0x8A, CHR 0xA4])), (Kind_infra, ''Collector'')]"

fun target_kind_of :: "assignable_target \<Rightarrow> target_kind" where
  "target_kind_of (Target_agent a) = Kind_agent"
| "target_kind_of (Target_monitor m) = Kind_monitor"
| "target_kind_of (Target_direct s) = Kind_direct"
| "target_kind_of (Target_infra r) = Kind_infra"

fun target_id :: "assignable_target \<Rightarrow> string" where
  "target_id (Target_agent a) = ag_id a"
| "target_id (Target_monitor m) = um_id m"
| "target_id (Target_direct s) = os_id s"
| "target_id (Target_infra r) = ir_id r"

fun target_project :: "assignable_target \<Rightarrow> string option" where
  "target_project (Target_agent a) = ag_projectId a"
| "target_project (Target_monitor m) = um_projectId m"
| "target_project (Target_direct s) = os_projectId s"
| "target_project (Target_infra r) = ir_projectId r"

definition targetKey :: "assignable_target \<Rightarrow> string" where
  "targetKey t = target_kind_text (target_kind_of t) @ ''-'' @ target_id t"

definition assignableTargets :: "project_sources \<Rightarrow> assignable_target list" where
  "assignableTargets all =
     map Target_agent (src_agents all) @ map Target_monitor (src_monitors all)
     @ map Target_direct (src_observedServices all)
     @ map Target_infra (filter isDirectInfrastructure (src_infrastructure all))"

definition untyped :: "'a api_call \<Rightarrow> unit api_call" where
  "untyped c = ApiCall (ac_endpoint c) (ac_method c) (ac_body c)"

fun setTargetGroup :: "assignable_target \<Rightarrow> string option \<Rightarrow> unit api_call" where
  "setTargetGroup (Target_agent a) p =
     (if truthy p then untyped (assignAgent (the p) (ag_id a))
      else untyped (unassignAgent (or_default (ag_projectId a) []) (ag_id a)))"
| "setTargetGroup (Target_monitor m) p =
     (if truthy p then untyped (assignMonitor (the p) (um_id m))
      else untyped (unassignMonitor (or_default (um_projectId m) []) (um_id m)))"
| "setTargetGroup (Target_direct s) p =
     untyped (updateObservedService (os_id s) \<lparr>osi_name = os_name s, osi_projectId = p, osi_signals = os_signals s\<rparr>)"
| "setTargetGroup (Target_infra r) p =
     untyped (updateInfrastructureResource (ir_id r) \<lparr>iri_name = ir_name r, iri_projectId = p\<rparr>)"

section \<open>Lemmas\<close>

lemma STATE_ORDER_inject [simp]: "STATE_ORDER s = STATE_ORDER t \<longleftrightarrow> s = t"
  by (cases s; cases t) simp_all

lemma state_count_filter: "state_count ms s = length (filter (\<lambda>m. me_state m = s) ms)"
proof -
  have "foldl (\<lambda>n m. if me_state m = s then n + 1 else n) k ms = k + length (filter (\<lambda>m. me_state m = s) ms)" for k
    by (induction ms arbitrary: k) auto
  then show ?thesis by (simp add: state_count_def)
qed

lemma state_count_pos: "0 < state_count ms s \<longleftrightarrow> s \<in> me_state ` set ms"
  by (auto simp: state_count_filter filter_empty_conv)

lemma state_counts_total: "sum_list (map (state_count ms) STATES) = length ms"
proof (induction ms)
  case (Cons m ms)
  then show ?case by (cases "me_state m") (simp_all add: STATES_def state_count_filter)
qed (simp add: STATES_def state_count_filter)

lemma state_count_mset: "mset ms = mset ns \<Longrightarrow> state_count ms = state_count ns"
  by (rule ext) (metis mset_filter size_mset state_count_filter)

text \<open>The tone of a summary is the least state present, in the order of the list.\<close>

lemma summary_tone_least:
  assumes "m \<in> set ms"
  shows "mes_tone (summarizeMembers ms) \<in> me_state ` set ms \<and>
    STATE_ORDER (mes_tone (summarizeMembers ms)) \<le> STATE_ORDER (me_state m)"
proof -
  have ne: "ms \<noteq> []" using assms by auto
  have t: "mes_tone (summarizeMembers ms) = hd (filter (\<lambda>s. state_count ms s > 0) STATES)"
    using ne by (simp add: summarizeMembers_def Let_def)
  have p: "state_count ms (me_state m) > 0" using assms by (simp add: state_count_pos)
  have "hd (filter P STATES) = (if P T_error then T_error else if P T_warn then T_warn else if P T_idle then T_idle else hd (filter P [T_healthy]))" for P
    by (simp add: STATES_def)
  then show ?thesis using p by (cases "me_state m") (auto simp: t state_count_pos)
qed

lemma projectMembers_order:
  "sorted_wrt (\<lambda>m n. STATE_ORDER (me_state m) \<le> STATE_ORDER (me_state n)) (projectMembers locale now src)"
  using asc.sorted_sort [of "\<lambda>m. STATE_ORDER (me_state m)" "member_rows locale now src"]
  by (simp add: projectMembers_def by_key_def [abs_def])

lemma projectMembers_mset: "mset (projectMembers locale now src) = mset (member_rows locale now src)"
  by (simp add: projectMembers_def)

lemma projectMembers_stable:
  "filter (\<lambda>m. me_state m = s) (projectMembers locale now src) = filter (\<lambda>m. me_state m = s) (member_rows locale now src)"
proof (cases "\<exists>m. m \<in> set (member_rows locale now src) \<and> me_state m = s")
  case True
  then obtain m :: member where m: "me_state m = s" by auto
  have "total_preorder.tied (by_key (\<lambda>m :: member. STATE_ORDER (me_state m))) m = (\<lambda>n. me_state n = s)"
    using m by (auto simp: asc.tied_def by_key_def fun_eq_iff dest: antisym)
  with asc.sort_stable [of "\<lambda>m. STATE_ORDER (me_state m)" m "member_rows locale now src"]
  show ?thesis by (simp add: projectMembers_def)
next
  case False
  then show ?thesis by (auto simp: projectMembers_def filter_empty_conv filter_False)
qed

text \<open>A group's sources hold a target exactly when the target carries the group's id.\<close>

lemma sources_disjoint:
  assumes "p \<noteq> q" and "distinct (map ag_id (src_agents all))"
  shows "set (src_services (sourcesForProject p all)) \<inter> set (src_services (sourcesForProject q all)) = {}"
  using assms by (auto simp: sourcesForProject_def Let_def distinct_map inj_on_def)

section \<open>Groups as a whole\<close>

text \<open>A group's summary shows the worst state any of its members is in, and the counts in its
  label are of all of its members.\<close>

theorem summary_worst:
  assumes "ms \<noteq> []"
  shows "mes_tone (summarizeMembers ms) \<in> me_state ` set ms
    \<and> list_all (\<lambda>m. STATE_ORDER (mes_tone (summarizeMembers ms)) \<le> STATE_ORDER (me_state m)) ms
    \<and> sum_list (map (state_count ms) STATES) = length ms"
  using summary_tone_least [of _ ms] summary_tone_least [OF list.set_sel(1) [OF assms]]
  by (simp add: list_all_iff state_counts_total)

definition demo_member :: "status_tone \<Rightarrow> member" where
  "demo_member s = \<lparr>me_key = ''agent-a'', me_to = ''/agents/a'', me_icon = ''dns'', me_type = ''Docker'', me_name = ''a'',
     me_detail = [], me_state = s, me_assignment = None\<rparr>"

lemma summary_worst_witness: "mes_tone (summarizeMembers [demo_member T_healthy, demo_member T_warn]) = T_warn"
  using summary_worst [of "[demo_member T_healthy, demo_member T_warn]"] by (auto simp: demo_member_def)

text \<open>The member list of a group is the group's members, worst state first, members in one
  state in the order their kinds are listed.\<close>

theorem members_listed:
  "sorted_wrt (\<lambda>m n. STATE_ORDER (me_state m) \<le> STATE_ORDER (me_state n)) (projectMembers locale now src)
    \<and> mset (projectMembers locale now src) = mset (member_rows locale now src)
    \<and> filter (\<lambda>m. me_state m = s) (projectMembers locale now src) = filter (\<lambda>m. me_state m = s) (member_rows locale now src)"
  by (intro conjI projectMembers_order projectMembers_mset projectMembers_stable)

end
