(* ===== verification/EU_RuleForm.thy ===== *)
theory EU_RuleForm imports EU_Client EU_Status EU_Number
begin

text \<open>
  The alert rule form, \<open>features/alerts/components/AlertRuleForm.tsx\<close>: its schema, the condition
  presets, the state of the form, one step per event handler, the request it submits and the
  live preview.

  The state is \<open>rule_form\<close>: the fields of \<open>useForm\<close> and the three \<open>useState\<close> values beside them.
  A number field is \<open>None\<close> when the input is empty (\<open>valueAsNumber\<close> gives \<open>NaN\<close>).  An
  \<open>rule_event\<close> is an event of a control; \<open>rule_offers\<close> says which controls the form renders in a
  state, and \<open>rule_edit\<close> is one edit by a rendered control.  \<open>nt\<close> is \<open>Number.prototype.toString\<close>.
\<close>

section \<open>Schema\<close>

datatype rule_category = RC_resource | RC_endpoint | RC_request | RC_log | RC_metric

record rule_values =
  rv_name :: string
  rv_category :: rule_category
  rv_metric :: alert_metric
  rv_metricName :: "string option"
  rv_agentId :: "string option"
  rv_serviceKey :: "string option"
  rv_serviceId :: "string option"
  rv_operator :: alert_operator
  rv_threshold :: "rat option"
  rv_duration :: "rat option"
  rv_severity :: alert_severity
  rv_cooldown :: "rat option"
  rv_channelIds :: "string list"



section \<open>Condition presets\<close>

datatype condition_preset = CP_normal | CP_error | CP_custom

record preset_values =
  pv_operator :: alert_operator
  pv_threshold :: rat
  pv_duration :: "rat option"

abbreviation preset :: "alert_operator \<Rightarrow> rat \<Rightarrow> rat option \<Rightarrow> preset_values option" where
  "preset p t d \<equiv> Some \<lparr>pv_operator = p, pv_threshold = t, pv_duration = d\<rparr>"

fun getPresetValues :: "alert_metric \<Rightarrow> condition_preset \<Rightarrow> preset_values option" where
  "getPresetValues m CP_custom = None"
| "getPresetValues m CP_normal =
     (if m = Me_http_status then preset Op_lte 299 None
      else if m = Me_response_time then preset Op_lt 1000 None
      else if m = Me_log_level then preset Op_eq 4 None
      else if m = Me_api_status_code then preset Op_lt 400 None
      else if m = Me_error_rate then preset Op_lt 1 (Some 5)
      else if m = Me_latency_p95 then preset Op_lt 500 (Some 5)
      else if m = Me_latency_p99 then preset Op_lt 1000 (Some 5)
      else preset Op_lt 70 (Some 1))"
| "getPresetValues m CP_error =
     (if m = Me_http_status then preset Op_gte 400 None
      else if m = Me_response_time then preset Op_gt 3000 None
      else if m = Me_log_level then preset Op_gte 3 None
      else if m = Me_api_status_code then preset Op_gte 500 None
      else if m = Me_otel_metric then preset Op_gt 0 None
      else if m = Me_error_rate then preset Op_gt 5 (Some 5)
      else if m = Me_latency_p95 then preset Op_gt 1000 (Some 5)
      else if m = Me_latency_p99 then preset Op_gt 2000 (Some 5)
      else preset Op_gt 80 (Some 3))"

definition preset_fits :: "preset_values option \<Rightarrow> alert_operator \<Rightarrow> rat \<Rightarrow> rat \<Rightarrow> bool" where
  "preset_fits p operator threshold duration \<longleftrightarrow>
     (case p of None \<Rightarrow> False
      | Some v \<Rightarrow> operator = pv_operator v \<and> threshold = pv_threshold v
          \<and> (pv_duration v = None \<or> pv_duration v = Some duration))"

definition detectConditionPreset :: "alert_metric \<Rightarrow> alert_operator \<Rightarrow> rat \<Rightarrow> rat \<Rightarrow> condition_preset" where
  "detectConditionPreset m operator threshold duration =
     (if preset_fits (getPresetValues m CP_normal) operator threshold duration then CP_normal
      else if preset_fits (getPresetValues m CP_error) operator threshold duration then CP_error
      else CP_custom)"

section \<open>The default message\<close>

fun OPERATOR_SYMBOLS :: "alert_operator \<Rightarrow> string" where
  "OPERATOR_SYMBOLS Op_gt = ''>''"
| "OPERATOR_SYMBOLS Op_gte = ''>=''"
| "OPERATOR_SYMBOLS Op_lt = ''<''"
| "OPERATOR_SYMBOLS Op_lte = ''<=''"
| "OPERATOR_SYMBOLS Op_eq = ''=''"

definition number_text :: "(rat \<Rightarrow> string) \<Rightarrow> rat option \<Rightarrow> string" where
  "number_text nt v = (case v of None \<Rightarrow> ''NaN'' | Some x \<Rightarrow> nt x)"

definition to_upper :: "string \<Rightarrow> string" where
  "to_upper s = map (\<lambda>c. if CHR ''a'' \<le> c \<and> c \<le> CHR ''z'' then char_of (of_char c - 32 :: nat) else c) s"

definition buildDefaultMessage ::
  "(rat \<Rightarrow> string) \<Rightarrow> alert_metric \<Rightarrow> alert_operator \<Rightarrow> rat option \<Rightarrow> rat option \<Rightarrow> string" where
  "buildDefaultMessage nt m operator threshold duration =
     (let sym = OPERATOR_SYMBOLS operator; t = number_text nt threshold; d = number_text nt duration in
      if m = Me_http_status then ''HTTP Status '' @ sym @ '' '' @ t @ '' detected''
      else if m = Me_response_time then ''Response Time '' @ sym @ '' '' @ t @ ''ms detected''
      else if m = Me_log_level then ''Log {level}: {message}''
      else if m = Me_api_status_code then (''{method} {path} '' @ [CHR 0xE2, CHR 0x86, CHR 0x92] @ '' {status} ({duration}ms)'')
      else if m = Me_otel_metric then ''{service_name} {metric} = {value} (threshold '' @ sym @ '' {threshold})''
      else if m = Me_error_rate \<or> m = Me_latency_p95 \<or> m = Me_latency_p99
      then ''{service_name}: ''
        @ (if m = Me_error_rate then ''error rate'' else if m = Me_latency_p95 then ''p95 latency'' else ''p99 latency'')
        @ '' {value} over the last '' @ d @ ''min (threshold '' @ sym @ '' {threshold})''
      else (if m = Me_cpu then ''CPU'' else if m = Me_memory then ''Memory'' else if m = Me_disk then ''Disk''
            else to_upper (alert_metric_text m))
        @ '' usage '' @ sym @ '' '' @ t @ ''%, sustained for '' @ d @ ''min on {host_name}'')"

section \<open>State and handlers\<close>

record rule_form =
  rf_values :: rule_values
  rf_preset :: condition_preset
  rf_message :: string
  rf_customThreshold :: string

definition new_rule_form :: rule_form where
  "new_rule_form =
     \<lparr>rf_values = \<lparr>rv_name = [], rv_category = RC_endpoint, rv_metric = Me_http_status, rv_metricName = None,
        rv_agentId = Some [], rv_serviceKey = Some [], rv_serviceId = Some [], rv_operator = Op_gte,
        rv_threshold = Some 400, rv_duration = Some 1, rv_severity = Sev_warning, rv_cooldown = Some 300,
        rv_channelIds = []\<rparr>,
      rf_preset = CP_error, rf_message = [], rf_customThreshold = []\<rparr>"

definition nullable :: "string option option \<Rightarrow> string option" where
  "nullable v = Some (or_default (Option.bind v (\<lambda>x. x)) [])"



definition preset_applied :: "preset_values \<Rightarrow> rule_values \<Rightarrow> rule_values" where
  "preset_applied p v =
     v\<lparr>rv_operator := pv_operator p, rv_threshold := Some (pv_threshold p),
       rv_duration := (if pv_duration p = None then rv_duration v else pv_duration p)\<rparr>"

definition applyPreset :: "condition_preset \<Rightarrow> alert_metric \<Rightarrow> rule_form \<Rightarrow> rule_form" where
  "applyPreset p m f =
     (case getPresetValues m p of
        None \<Rightarrow> f\<lparr>rf_preset := p\<rparr>
      | Some x \<Rightarrow> f\<lparr>rf_preset := p, rf_values := preset_applied x (rf_values f)\<rparr>)"

fun category_metric :: "rule_category \<Rightarrow> alert_metric" where
  "category_metric RC_resource = Me_cpu"
| "category_metric RC_log = Me_log_level"
| "category_metric RC_metric = Me_otel_metric"
| "category_metric RC_request = Me_error_rate"
| "category_metric RC_endpoint = Me_http_status"



definition handleConditionPreset :: "(rat \<Rightarrow> string) \<Rightarrow> condition_preset \<Rightarrow> rule_form \<Rightarrow> rule_form" where
  "handleConditionPreset nt p f =
     (applyPreset p (rv_metric (rf_values f)) f)
       \<lparr>rf_customThreshold := (if p \<noteq> CP_custom then [] else number_text nt (rv_threshold (rf_values f)))\<rparr>"

text \<open>\<open>current.includes(id) ? current.filter(x => x !== id) : [...current, id]\<close>.\<close>

definition toggle :: "'a \<Rightarrow> 'a list \<Rightarrow> 'a list" where
  "toggle x xs = (if x \<in> set xs then filter (\<lambda>y. y \<noteq> x) xs else xs @ [x])"

text \<open>\<open>const [scope, key] = val.split(':::')\<close>.\<close>

fun cut_sep :: "string \<Rightarrow> string \<Rightarrow> (string \<times> string) option" where
  "cut_sep sep [] = None"
| "cut_sep sep (c # r) =
     (if starts_with sep (c # r) then Some ([], drop (length sep) (c # r))
      else map_option (\<lambda>(a, b). (c # a, b)) (cut_sep sep r))"

definition split_pair :: "string \<Rightarrow> string \<Rightarrow> string \<times> string option" where
  "split_pair sep s =
     (case cut_sep sep s of
        None \<Rightarrow> (s, None)
      | Some (a, r) \<Rightarrow> (a, Some (case cut_sep sep r of None \<Rightarrow> r | Some (b, _) \<Rightarrow> b)))"

definition select_target :: "string \<Rightarrow> rule_values \<Rightarrow> rule_values" where
  "select_target val v =
     (if val = [] then v\<lparr>rv_agentId := Some [], rv_serviceKey := Some [], rv_serviceId := Some []\<rparr>
      else case split_pair '':::'' val of (scope, key) \<Rightarrow>
        if scope = ''direct'' then v\<lparr>rv_serviceId := key, rv_agentId := Some [], rv_serviceKey := Some []\<rparr>
        else v\<lparr>rv_agentId := Some scope, rv_serviceKey := key, rv_serviceId := Some []\<rparr>)"



section \<open>What the form shows\<close>

fun category_metrics :: "rule_category \<Rightarrow> alert_metric list" where
  "category_metrics RC_log = [Me_log_level, Me_api_status_code]"
| "category_metrics RC_request = [Me_error_rate, Me_latency_p95, Me_latency_p99]"
| "category_metrics RC_endpoint = [Me_http_status, Me_response_time]"
| "category_metrics RC_resource = [Me_cpu, Me_memory, Me_disk]"
| "category_metrics RC_metric = []"




definition target_value :: "rule_values \<Rightarrow> string" where
  "target_value v =
     (if truthy (rv_serviceId v) then ''direct:::'' @ the (rv_serviceId v)
      else if truthy (rv_agentId v) \<and> truthy (rv_serviceKey v) then the (rv_agentId v) @ '':::'' @ the (rv_serviceKey v)
      else [])"

record rule_lists =
  rl_agents :: "connected_agent list"
  rl_services :: "agent_service_flat list"
  rl_direct :: "observed_service list"
  rl_infrastructure :: "infrastructure_resource list"
  rl_channels :: "notification_channel list"



section \<open>Submission\<close>


definition or_null :: "string option \<Rightarrow> string option" where
  "or_null v = (if truthy v then v else None)"




section \<open>The live preview\<close>

fun rule_metric_name :: "alert_metric \<Rightarrow> string" where
  "rule_metric_name Me_cpu = ''CPU''"
| "rule_metric_name Me_memory = ''Memory''"
| "rule_metric_name Me_disk = ''Disk''"
| "rule_metric_name Me_http_status = ''HTTP Status''"
| "rule_metric_name Me_response_time = ''Response Time''"
| "rule_metric_name Me_log_level = ''Log Level''"
| "rule_metric_name Me_api_status_code = ''API Status''"
| "rule_metric_name Me_otel_metric = ''Metric''"
| "rule_metric_name Me_error_rate = ''Error Rate''"
| "rule_metric_name Me_latency_p95 = ''p95''"
| "rule_metric_name Me_latency_p99 = ''p99''"
| "rule_metric_name Me_status_change = ''status_change''"

fun rule_metric_button :: "alert_metric \<Rightarrow> string" where
  "rule_metric_button Me_log_level = ([CHR 0xEB, CHR 0xA1, CHR 0x9C, CHR 0xEA, CHR 0xB7, CHR 0xB8] @ '' '' @ [CHR 0xEB, CHR 0xA0, CHR 0x88, CHR 0xEB, CHR 0xB2, CHR 0xA8])"
| "rule_metric_button Me_api_status_code = (''API '' @ [CHR 0xEC, CHR 0x9A, CHR 0x94, CHR 0xEC, CHR 0xB2, CHR 0xAD])"
| "rule_metric_button Me_error_rate = [CHR 0xEC, CHR 0x97, CHR 0x90, CHR 0xEB, CHR 0x9F, CHR 0xAC, CHR 0xEC, CHR 0x9C, CHR 0xA8]"
| "rule_metric_button Me_latency_p95 = (''p95 '' @ [CHR 0xEC, CHR 0xA7, CHR 0x80, CHR 0xEC, CHR 0x97, CHR 0xB0])"
| "rule_metric_button Me_latency_p99 = (''p99 '' @ [CHR 0xEC, CHR 0xA7, CHR 0x80, CHR 0xEC, CHR 0x97, CHR 0xB0])"
| "rule_metric_button Me_cpu = ''CPU''"
| "rule_metric_button Me_memory = [CHR 0xEB, CHR 0xA9, CHR 0x94, CHR 0xEB, CHR 0xAA, CHR 0xA8, CHR 0xEB, CHR 0xA6, CHR 0xAC]"
| "rule_metric_button Me_disk = [CHR 0xEB, CHR 0x94, CHR 0x94, CHR 0xEC, CHR 0x8A, CHR 0xA4, CHR 0xED, CHR 0x81, CHR 0xAC]"
| "rule_metric_button Me_http_status = ''http status''"
| "rule_metric_button Me_response_time = ''response time''"
| "rule_metric_button Me_otel_metric = ''otel metric''"
| "rule_metric_button Me_status_change = ''status change''"

definition rule_threshold_unit :: "rule_values \<Rightarrow> string" where
  "rule_threshold_unit v =
     (if rv_metric v \<in> {Me_response_time, Me_latency_p95, Me_latency_p99} then ''ms''
      else if rv_metric v \<in> {Me_http_status, Me_log_level, Me_api_status_code} \<or> rv_category v = RC_metric then []
      else ''%'')"

definition rule_target_label :: "rule_lists \<Rightarrow> rule_values \<Rightarrow> string" where
  "rule_target_label l v =
     (let agentId = or_default (rv_agentId v) []; key = or_default (rv_serviceKey v) []; cat = rv_category v;
          service = find (\<lambda>s. sv_agentId s = agentId \<and> sv_key s = key) (rl_services l);
          agent = find (\<lambda>a. ag_id a = agentId) (rl_agents l);
          resource = find (\<lambda>r. ir_id r = agentId) (rl_infrastructure l);
          direct = find (\<lambda>s. os_id s = or_default (rv_serviceId v) []) (rl_direct l);
          agent_name = (case agent of Some a \<Rightarrow> ag_name a | None \<Rightarrow> agentId)
      in if cat \<in> {RC_endpoint, RC_log, RC_request}
         then (case direct of
             Some s \<Rightarrow> os_name s
           | None \<Rightarrow>
               if agentId \<noteq> [] \<and> key \<noteq> []
               then (case service of Some s \<Rightarrow> sf_agentName s @ '' / '' @ sv_name s | None \<Rightarrow> key)
               else if cat = RC_request then ([CHR 0xEC, CHR 0x84, CHR 0x9C, CHR 0xEB, CHR 0xB9, CHR 0x84, CHR 0xEC, CHR 0x8A, CHR 0xA4] @ '' '' @ [CHR 0xEC, CHR 0x84, CHR 0xA0, CHR 0xED, CHR 0x83, CHR 0x9D] @ '' '' @ [CHR 0xED, CHR 0x95, CHR 0x84, CHR 0xEC, CHR 0x9A, CHR 0x94])
               else if cat = RC_log then ([CHR 0xEC, CHR 0xA0, CHR 0x84, CHR 0xEC, CHR 0xB2, CHR 0xB4] @ '' '' @ [CHR 0xEB, CHR 0xA1, CHR 0x9C, CHR 0xEA, CHR 0xB7, CHR 0xB8] @ '' '' @ [CHR 0xEC, CHR 0x84, CHR 0x9C, CHR 0xEB, CHR 0xB9, CHR 0x84, CHR 0xEC, CHR 0x8A, CHR 0xA4]) else ([CHR 0xEC, CHR 0xA0, CHR 0x84, CHR 0xEC, CHR 0xB2, CHR 0xB4] @ '' '' @ [CHR 0xED, CHR 0x97, CHR 0xAC, CHR 0xEC, CHR 0x8A, CHR 0xA4, CHR 0xEC, CHR 0xB2, CHR 0xB4, CHR 0xED, CHR 0x81, CHR 0xAC]))
         else if cat = RC_metric \<and> direct \<noteq> None then os_name (the direct)
         else if cat = RC_resource \<and> agentId \<noteq> []
         then (case resource of Some r \<Rightarrow> ir_name r | None \<Rightarrow> agent_name)
         else if agentId \<noteq> [] then agent_name else ([CHR 0xEC, CHR 0xA0, CHR 0x84, CHR 0xEC, CHR 0xB2, CHR 0xB4] @ '' '' @ [CHR 0xEC, CHR 0x9D, CHR 0xB8, CHR 0xED, CHR 0x94, CHR 0x84, CHR 0xEB, CHR 0x9D, CHR 0xBC]))"

definition rule_preview :: "(rat \<Rightarrow> string) \<Rightarrow> rule_lists \<Rightarrow> rule_values \<Rightarrow> string list" where
  "rule_preview nt l v =
     (let endpoint = (rv_category v = RC_endpoint); log_rule = (rv_category v = RC_log);
          request = (rv_category v = RC_request); d = number_text nt (rv_duration v)
      in [''IF '' @ rule_metric_name (rv_metric v) @ '' '' @ OPERATOR_SYMBOLS (rv_operator v) @ '' ''
            @ number_text nt (rv_threshold v) @ rule_threshold_unit v]
         @ (if endpoint then [''FAILS '' @ d @ [CHR 0xC3, CHR 0x97]] else [])
         @ (if \<not> endpoint \<and> \<not> log_rule
            then [if request then ''OVER last '' @ d @ '' min'' else ''FOR '' @ d @ '' min''] else [])
         @ (if log_rule then [''PER event (immediate)''] else [])
         @ [''ON '' @ rule_target_label l v]
         @ (if \<not> endpoint \<and> \<not> log_rule then [''COOLDOWN '' @ number_text nt (rv_cooldown v) @ ''s''] else []))"

definition rule_preview_message :: "(rat \<Rightarrow> string) \<Rightarrow> rule_form \<Rightarrow> string" where
  "rule_preview_message nt f =
     (let v = rf_values f in
      if rf_message f \<noteq> [] then rf_message f
      else buildDefaultMessage nt (rv_metric v) (rv_operator v) (rv_threshold v) (rv_duration v))"

definition previewChannels :: "notification_channel list \<Rightarrow> rule_values \<Rightarrow> notification_channel list" where
  "previewChannels channels v =
     (if rv_channelIds v = [] then channels else filter (\<lambda>c. nc_id c \<in> set (rv_channelIds v)) channels)"

definition preview_channel_names :: "notification_channel list \<Rightarrow> rule_values \<Rightarrow> string list" where
  "preview_channel_names channels v =
     (let shown = previewChannels channels v in
      map nc_name (take 5 shown)
      @ (if length shown > 5 then [''+'' @ show_nat (length shown - 5) @ ([CHR 0xEA, CHR 0xB0, CHR 0x9C] @ '' '' @ [CHR 0xEB, CHR 0x8D, CHR 0x94])] else []))"

definition rule_variables :: "rule_values \<Rightarrow> string list" where
  "rule_variables v =
     (if rv_category v = RC_request then [''{service_name}'', ''{value}'', ''{threshold}'', ''{duration}'']
      else if rv_metric v = Me_api_status_code
      then [''{service_name}'', ''{method}'', ''{path}'', ''{status}'', ''{duration}'']
      else if rv_category v = RC_log then [''{service_name}'', ''{level}'', ''{message}'']
      else if rv_category v = RC_endpoint then [''{service_name}'', ''{value}'', ''{threshold}'', ''{metric}'']
      else [''{host_name}'', ''{value}'', ''{threshold}'', ''{metric}'', ''{duration}''])"

section \<open>System rules\<close>

text \<open>A system rule lets only its message and channels be edited.\<close>

record system_rule_form =
  sy_message :: string
  sy_channels :: "string list"

datatype system_rule_event = SE_message string | SE_channel string

definition system_rule_form_of :: "alert_rule \<Rightarrow> system_rule_form" where
  "system_rule_form_of r = \<lparr>sy_message = or_default (ar_message r) [], sy_channels = ar_channelIds r\<rparr>"

fun system_rule_step :: "system_rule_event \<Rightarrow> system_rule_form \<Rightarrow> system_rule_form" where
  "system_rule_step (SE_message s) f = f\<lparr>sy_message := s\<rparr>"
| "system_rule_step (SE_channel i) f = f\<lparr>sy_channels := toggle i (sy_channels f)\<rparr>"

definition system_rule_update :: "system_rule_form \<Rightarrow> update_alert_rule_data" where
  "system_rule_update f =
     \<lparr>uar_name = None, uar_agentId = None, uar_serviceKey = None, uar_serviceId = None, uar_metric = None,
      uar_metricName = None, uar_operator = None, uar_threshold = None, uar_duration = None, uar_severity = None,
      uar_isEnabled = None, uar_cooldown = None, uar_message = Some (sy_message f), uar_channelIds = Some (sy_channels f)\<rparr>"

definition effectiveChannelCount :: "notification_channel list \<Rightarrow> system_rule_form \<Rightarrow> nat" where
  "effectiveChannelCount channels f =
     (if length (sy_channels f) = 0 then length channels else length (sy_channels f))"

section \<open>The invariant of the form\<close>

definition metric_fits :: "rule_category \<Rightarrow> alert_metric \<Rightarrow> bool" where
  "metric_fits cat m \<longleftrightarrow> m \<in> set (category_metrics cat) \<or> cat = RC_metric \<and> m = Me_otel_metric"

definition one_target :: "rule_values \<Rightarrow> bool" where
  "one_target v \<longleftrightarrow>
     (truthy (rv_serviceId v) \<longrightarrow> \<not> truthy (rv_agentId v) \<and> \<not> truthy (rv_serviceKey v))
     \<and> (rv_category v = RC_resource \<longrightarrow> \<not> truthy (rv_serviceKey v) \<and> \<not> truthy (rv_serviceId v))"

definition preset_shown :: "rule_form \<Rightarrow> bool" where
  "preset_shown f \<longleftrightarrow>
     pred_option (\<lambda>p. rv_operator (rf_values f) = pv_operator p \<and> rv_threshold (rf_values f) = Some (pv_threshold p))
       (getPresetValues (rv_metric (rf_values f)) (rf_preset f))"


lemma getPresetValues_None [simp]: "getPresetValues m p = None \<longleftrightarrow> p = CP_custom"
  by (cases p) auto

lemma preset_shown_apply [simp]:
  "rv_metric (rf_values f) = m \<Longrightarrow> preset_shown (applyPreset p m f)"
  by (auto simp: applyPreset_def preset_shown_def preset_applied_def split: option.splits)

lemma applyPreset_fields [simp]:
  "rv_category (rf_values (applyPreset p m f)) = rv_category (rf_values f)"
  "rv_metric (rf_values (applyPreset p m f)) = rv_metric (rf_values f)"
  "rv_channelIds (rf_values (applyPreset p m f)) = rv_channelIds (rf_values f)"
  "one_target (rf_values (applyPreset p m f)) = one_target (rf_values f)"
  by (simp_all add: applyPreset_def preset_applied_def one_target_def split: option.splits)


lemma select_target_fields [simp]:
  "rv_category (select_target val v) = rv_category v" "rv_metric (select_target val v) = rv_metric v"
  "rv_operator (select_target val v) = rv_operator v" "rv_threshold (select_target val v) = rv_threshold v"
  "rv_channelIds (select_target val v) = rv_channelIds v"
  by (simp_all add: select_target_def split: prod.splits)

lemma preset_shown_beside [simp]:
  "preset_shown (f\<lparr>rf_customThreshold := s\<rparr>) = preset_shown f"
  "preset_shown (f\<lparr>rf_message := s\<rparr>) = preset_shown f"
  "preset_shown (f\<lparr>rf_values := select_target val (rf_values f)\<rparr>) = preset_shown f"
  "preset_shown (f\<lparr>rf_values := (rf_values f)\<lparr>rv_agentId := a, rv_serviceKey := k\<rparr>\<rparr>) = preset_shown f"
  "preset_shown (f\<lparr>rf_values := (rf_values f)\<lparr>rv_name := x0\<rparr>\<rparr>) = preset_shown f"
  "preset_shown (f\<lparr>rf_values := (rf_values f)\<lparr>rv_metricName := x1\<rparr>\<rparr>) = preset_shown f"
  "preset_shown (f\<lparr>rf_values := (rf_values f)\<lparr>rv_duration := x2\<rparr>\<rparr>) = preset_shown f"
  "preset_shown (f\<lparr>rf_values := (rf_values f)\<lparr>rv_cooldown := x3\<rparr>\<rparr>) = preset_shown f"
  "preset_shown (f\<lparr>rf_values := (rf_values f)\<lparr>rv_severity := x4\<rparr>\<rparr>) = preset_shown f"
  "preset_shown (f\<lparr>rf_values := (rf_values f)\<lparr>rv_channelIds := x5\<rparr>\<rparr>) = preset_shown f"
  by (simp_all add: preset_shown_def)

lemma one_target_beside [simp]:
  "one_target (v\<lparr>rv_name := x0\<rparr>) = one_target v"
  "one_target (v\<lparr>rv_metricName := x1\<rparr>) = one_target v"
  "one_target (v\<lparr>rv_duration := x2\<rparr>) = one_target v"
  "one_target (v\<lparr>rv_cooldown := x3\<rparr>) = one_target v"
  "one_target (v\<lparr>rv_severity := x4\<rparr>) = one_target v"
  "one_target (v\<lparr>rv_channelIds := x5\<rparr>) = one_target v"
  "one_target (v\<lparr>rv_operator := x6\<rparr>) = one_target v"
  "one_target (v\<lparr>rv_threshold := x7\<rparr>) = one_target v"
  "one_target (v\<lparr>rv_metric := x8\<rparr>) = one_target v"
  by (simp_all add: one_target_def)

lemma preset_shown_custom [simp]: "rf_preset f = CP_custom \<Longrightarrow> preset_shown f"
  by (simp add: preset_shown_def)


lemma toggle_member: "y \<in> set (toggle x xs) \<longleftrightarrow> (if y = x then x \<notin> set xs else y \<in> set xs)"
  by (auto simp: toggle_def)

lemma category_metric_fits [simp]: "metric_fits cat (category_metric cat)"
  by (cases cat) (simp_all add: metric_fits_def)




section \<open>Stored rules\<close>

text \<open>What the server stores: a rule of the kind its metric belongs to, for one target at most.\<close>

definition stored_id :: "string option option \<Rightarrow> string option" where
  "stored_id v = or_null (Option.bind v (\<lambda>x. x))"


lemma truthy_nullable [simp]: "truthy (nullable v) \<longleftrightarrow> stored_id v \<noteq> None"
  by (cases v; cases "the v") (simp_all add: or_null_def nullable_def stored_id_def)

lemma or_null_nullable [simp]: "or_null (nullable v) = stored_id v"
  by (cases v; cases "the v") (simp_all add: or_null_def nullable_def stored_id_def)




section \<open>Submitted requests\<close>



lemma or_null_None [simp]: "or_null v = None \<longleftrightarrow> \<not> truthy v" "None = or_null v \<longleftrightarrow> \<not> truthy v"
  by (cases v; auto simp: or_null_def)+

lemma js_trim_Nil [simp]: "js_trim [] = []"
  by (simp add: js_trim_def)












lemma detect_preset:
  assumes "p \<noteq> CP_custom" "getPresetValues m p = Some x" "pv_duration x \<noteq> None \<Longrightarrow> pv_duration x = Some d"
  shows "detectConditionPreset m (pv_operator x) (pv_threshold x) d = p"
proof -
  have "p = CP_normal \<or> p = CP_error" using assms(1) by (cases p) auto
  then show ?thesis
    using assms(2,3) by (cases m) (auto simp: detectConditionPreset_def preset_fits_def)
qed

text \<open>A preset chosen in the form is the one the form shows when the rule is opened again.\<close>

theorem preset_reopens:
  assumes "p \<noteq> CP_custom" "f' = handleConditionPreset nt p f"
    and "rv_threshold (rf_values f') = Some t" "rv_duration (rf_values f') = Some d"
  shows "detectConditionPreset (rv_metric (rf_values f')) (rv_operator (rf_values f')) t d = p"
proof -
  obtain x where x: "getPresetValues (rv_metric (rf_values f)) p = Some x" using assms(1) by fastforce
  then have "rv_operator (rf_values f') = pv_operator x" "t = pv_threshold x" "rv_metric (rf_values f') = rv_metric (rf_values f)"
    "pv_duration x \<noteq> None \<Longrightarrow> pv_duration x = Some d"
    using assms(2-) by (auto simp: handleConditionPreset_def applyPreset_def preset_applied_def)
  then show ?thesis using detect_preset [OF assms(1) x] by simp
qed

lemma preset_reopens_witness: "detectConditionPreset Me_http_status Op_lte 299 1 = CP_normal"
  using preset_reopens [of CP_normal _ "\<lambda>_. []" new_rule_form 299 1, OF _ refl]
  by (simp add: handleConditionPreset_def applyPreset_def preset_applied_def new_rule_form_def)

lemma starts_with_seg: "CHR '':'' \<notin> set a \<Longrightarrow> cut_sep '':::'' (a @ '':::'' @ r) = Some (a, r)"
  by (induction a) (auto simp: starts_with_def)

text \<open>Choosing a target in the list shows that target as chosen, whatever was chosen before, as
  long as a Docker service's collector id has no colon and its key no triple colon.\<close>

theorem target_reselected:
  assumes "val = [] \<or> (\<exists>i. i \<noteq> [] \<and> cut_sep '':::'' i = None \<and> val = ''direct:::'' @ i)
      \<or> (\<exists>a k. a \<noteq> [] \<and> a \<noteq> ''direct'' \<and> CHR '':'' \<notin> set a \<and> k \<noteq> [] \<and> cut_sep '':::'' k = None \<and> val = a @ '':::'' @ k)"
  shows "target_value (select_target val v) = val"
  using assms starts_with_seg [of "''direct''"] starts_with_seg
  by (auto simp: target_value_def select_target_def split_pair_def)

lemma target_reselected_witness:
  "target_value (select_target ''agent_demo_01:::jobs:worker'' (rf_values new_rule_form)) = ''agent_demo_01:::jobs:worker''"
  by (rule target_reselected) (rule disjI2, rule disjI2, rule exI [of _ "''agent_demo_01''"], rule exI [of _ "''jobs:worker''"],
    simp add: starts_with_def)

end
