(* ===== verification/EU_Answers.thy ===== *)
theory EU_Answers imports EU_Errors EU_Nav EU_TelemetryTypes EU_ObservedTypes
begin

text \<open>
  The hooks that load data: \<open>hooks/useDataFetch.ts\<close>, \<open>features/services/useSetupStatus.ts\<close> and
  \<open>features/api-requests/useApiTargets.ts\<close>, as state machines over the events a browser can
  deliver in any order: a changed dependency, an answer to one of the requests in flight (with
  success or failure), a timer, a click.

  A state holds the hook's \<open>useState\<close> and \<open>useRef\<close> values and the requests in flight; an effect's
  closure variable \<open>active\<close> is the run number: the flag of a run is true while its number is the
  current one, since the cleanup that clears it starts the next run.  \<open>fits k d\<close> says that the
  value \<open>d\<close> is an answer to the request \<open>k\<close>; a step delivers answers that fit the request made.

  The locale \<open>answers\<close> is the contract of such a hook: the value it shows answers the request
  it is asked for now.  \<open>useSetupStatus\<close> and \<open>useApiTargets\<close> keep it, \<open>useDataFetch\<close> does not.
\<close>

section \<open>The contract of a loading hook\<close>

locale answers =
  fixes fits :: "'k \<Rightarrow> 'd \<Rightarrow> bool"
    and step :: "'s \<Rightarrow> 's \<Rightarrow> bool"
    and key :: "'s \<Rightarrow> 'k"
    and shown :: "'s \<Rightarrow> 'd option"
    and good :: "'s \<Rightarrow> bool"
  assumes good_step: "good s \<Longrightarrow> step s s' \<Longrightarrow> good s'"
    and good_shown: "good s \<Longrightarrow> shown s = Some d \<Longrightarrow> fits (key s) d"
begin

lemma reach_good: "step\<^sup>*\<^sup>* s s' \<Longrightarrow> good s \<Longrightarrow> good s'"
  by (induction rule: rtranclp_induct) (auto intro: good_step)

lemma reach_shown: "step\<^sup>*\<^sup>* s s' \<Longrightarrow> good s \<Longrightarrow> shown s' = Some d \<Longrightarrow> fits (key s') d"
  using reach_good good_shown by blast

end

section \<open>Polling a setup status (useSetupStatus)\<close>

record 'd setup_poll =
  po_path :: "string option"
  po_run :: nat
  po_timer :: bool
  po_inflight :: "(nat \<times> string) list"
  po_result :: "(string \<times> 'd) option"
  po_failure :: "(string \<times> string) option"

text \<open>The effect for a new path: the cleanup of the previous run, and a first poll if there is a path.\<close>

definition poll_path :: "string option \<Rightarrow> 'd setup_poll \<Rightarrow> 'd setup_poll" where
  "poll_path p s =
     (let r = Suc (po_run s) in
      s\<lparr>po_path := p, po_run := r, po_timer := False,
        po_inflight := (if truthy p then po_inflight s @ [(r, the p)] else po_inflight s)\<rparr>)"

definition poll_mounted :: "string option \<Rightarrow> 'd setup_poll" where
  "poll_mounted p =
     poll_path p \<lparr>po_path = None, po_run = 0, po_timer = False, po_inflight = [], po_result = None, po_failure = None\<rparr>"

definition poll_answer :: "nat \<times> string \<Rightarrow> thrown + 'd \<Rightarrow> 'd setup_poll \<Rightarrow> 'd setup_poll" where
  "poll_answer q r s =
     (let s = s\<lparr>po_inflight := remove1 q (po_inflight s)\<rparr> in
      if fst q \<noteq> po_run s then s
      else (case r of
          Inr d \<Rightarrow> s\<lparr>po_result := Some (snd q, d), po_failure := None, po_timer := True\<rparr>
        | Inl e \<Rightarrow> s\<lparr>po_failure := Some (snd q, getErrorMessage e), po_timer := True\<rparr>))"

definition poll_fire :: "'d setup_poll \<Rightarrow> 'd setup_poll" where
  "poll_fire s = s\<lparr>po_timer := False, po_inflight := po_inflight s @ [(po_run s, the (po_path s))]\<rparr>"

definition poll_data :: "'d setup_poll \<Rightarrow> 'd option" where
  "poll_data s = (case po_result s of Some (p, d) \<Rightarrow> if Some p = po_path s then Some d else None | None \<Rightarrow> None)"

definition poll_error :: "'d setup_poll \<Rightarrow> string" where
  "poll_error s = (case po_failure s of Some (p, m) \<Rightarrow> if Some p = po_path s then m else [] | None \<Rightarrow> [])"

inductive poll_step :: "(string \<Rightarrow> 'd \<Rightarrow> bool) \<Rightarrow> 'd setup_poll \<Rightarrow> 'd setup_poll \<Rightarrow> bool" for fits where
  path: "p \<noteq> po_path s \<Longrightarrow> poll_step fits s (poll_path p s)"
| answer: "q \<in> set (po_inflight s) \<Longrightarrow> (\<And>d. r = Inr d \<Longrightarrow> fits (snd q) d) \<Longrightarrow> poll_step fits s (poll_answer q r s)"
| fire: "po_timer s \<Longrightarrow> poll_step fits s (poll_fire s)"

text \<open>Polls of the current run, in flight or due.\<close>

definition polls_due :: "'d setup_poll \<Rightarrow> nat" where
  "polls_due s = length (filter (\<lambda>q. fst q = po_run s) (po_inflight s)) + (if po_timer s then 1 else 0)"

definition poll_good :: "(string \<Rightarrow> 'd \<Rightarrow> bool) \<Rightarrow> 'd setup_poll \<Rightarrow> bool" where
  "poll_good fits s \<longleftrightarrow>
     polls_due s = (if truthy (po_path s) then 1 else 0)
     \<and> list_all (\<lambda>q. fst q \<le> po_run s \<and> (fst q = po_run s \<longrightarrow> po_path s = Some (snd q))) (po_inflight s)
     \<and> pred_option (\<lambda>(p, d). fits p d) (po_result s)"

lemma poll_good_mounted: "poll_good fits (poll_mounted p)"
  by (cases p) (simp_all add: poll_good_def poll_mounted_def poll_path_def polls_due_def Let_def)

lemma older_runs: "list_all (\<lambda>q. fst q \<le> n \<and> P q) qs \<Longrightarrow> filter (\<lambda>q. fst q = Suc n) qs = []"
  by (auto simp: list_all_iff filter_empty_conv)

lemma poll_good_step:
  assumes "poll_good fits s" "poll_step fits s s'"
  shows "poll_good fits s'"
  using assms(2)
proof cases
  case (path p)
  then show ?thesis
    using assms(1) older_runs [of "po_run s" _ "po_inflight s"]
    by (cases p) (auto simp: poll_good_def poll_path_def polls_due_def Let_def list_all_iff)
next
  case (answer q r)
  then have "list_all P (po_inflight s) \<Longrightarrow> list_all P (remove1 q (po_inflight s))" for P
    by (auto simp: list_all_iff dest: notin_set_remove1)
  moreover have "fst q = po_run s \<Longrightarrow> 0 < length (filter (\<lambda>q. fst q = po_run s) (po_inflight s))"
    using answer by (auto simp: filter_empty_conv)
  ultimately show ?thesis
    using answer assms(1)
    by (cases r) (auto simp: poll_good_def poll_answer_def polls_due_def filter_remove1 length_remove1 Let_def split: if_splits)
next
  case fire
  then show ?thesis
    using assms(1) by (cases "po_path s") (auto simp: poll_good_def poll_fire_def polls_due_def split: if_splits)
qed

interpretation polled: answers "\<lambda>p d. pred_option (\<lambda>q. fits q d) p" "poll_step fits" po_path poll_data "poll_good fits"
  for fits :: "string \<Rightarrow> 'd \<Rightarrow> bool"
proof unfold_locales
  show "poll_good fits s \<Longrightarrow> poll_data s = Some d \<Longrightarrow> pred_option (\<lambda>q. fits q d) (po_path s)" for s d
    by (cases "po_path s") (auto simp: poll_good_def poll_data_def split: option.splits if_splits)
qed (rule poll_good_step)

section \<open>Targets of the API page (useApiTargets)\<close>

record api_target =
  at_service :: observed_service
  at_summary :: "api_request_status_summary option"
  at_error :: "string option"
  at_loading :: "bool option"

record api_targets =
  tg_window :: request_window
  tg_rows :: "api_target list"
  tg_loading :: bool
  tg_error :: "string option"
  tg_generation :: nat
  tg_run :: nat
  tg_loads :: "(nat \<times> request_window) list"
  tg_retries :: "(string \<times> nat \<times> request_window) list"

text \<open>The effect for a new window or refresh: the cleanup and the next load each advance the generation.\<close>

definition targets_restart :: "request_window \<Rightarrow> api_targets \<Rightarrow> api_targets" where
  "targets_restart w s =
     s\<lparr>tg_window := w, tg_run := Suc (tg_run s), tg_generation := tg_generation s + 2, tg_loading := True,
       tg_error := None, tg_loads := tg_loads s @ [(Suc (tg_run s), w)]\<rparr>"

definition targets_mounted :: "request_window \<Rightarrow> api_targets" where
  "targets_mounted w =
     \<lparr>tg_window = w, tg_rows = [], tg_loading = True, tg_error = None, tg_generation = 1, tg_run = 0,
      tg_loads = [(0, w)], tg_retries = []\<rparr>"

text \<open>One row of a load: the summary, or the message of its failure.\<close>

definition target_row :: "observed_service \<Rightarrow> thrown + api_request_status_summary \<Rightarrow> api_target" where
  "target_row service r =
     (case r of
        Inr x \<Rightarrow> \<lparr>at_service = service, at_summary = Some x, at_error = None, at_loading = None\<rparr>
      | Inl e \<Rightarrow> \<lparr>at_service = service, at_summary = None, at_error = Some (getErrorMessage e), at_loading = None\<rparr>)"

definition targets_loaded ::
  "nat \<times> request_window \<Rightarrow> thrown + (observed_service \<times> (thrown + api_request_status_summary)) list \<Rightarrow> api_targets \<Rightarrow> api_targets" where
  "targets_loaded q r s =
     (let s = s\<lparr>tg_loads := remove1 q (tg_loads s)\<rparr> in
      if fst q \<noteq> tg_run s then s
      else (case r of
          Inr xs \<Rightarrow> s\<lparr>tg_rows := map (\<lambda>(service, x). target_row service x) xs, tg_loading := False\<rparr>
        | Inl e \<Rightarrow> s\<lparr>tg_error := Some (getErrorMessage e), tg_loading := False\<rparr>))"

definition on_target :: "string \<Rightarrow> (api_target \<Rightarrow> api_target) \<Rightarrow> api_target list \<Rightarrow> api_target list" where
  "on_target i f rows = map (\<lambda>r. if os_id (at_service r) = i then f r else r) rows"

definition retryTarget :: "string \<Rightarrow> api_targets \<Rightarrow> api_targets" where
  "retryTarget i s =
     s\<lparr>tg_rows := on_target i (\<lambda>r. r\<lparr>at_error := None, at_loading := Some True\<rparr>) (tg_rows s),
       tg_retries := tg_retries s @ [(i, tg_generation s, tg_window s)]\<rparr>"

definition target_retried ::
  "string \<times> nat \<times> request_window \<Rightarrow> thrown + api_request_status_summary \<Rightarrow> api_targets \<Rightarrow> api_targets" where
  "target_retried q r s =
     (let s = s\<lparr>tg_retries := remove1 q (tg_retries s)\<rparr> in
      if tg_generation s = fst (snd q)
      then s\<lparr>tg_rows := on_target (fst q) (\<lambda>row. target_row (at_service row) r) (tg_rows s)\<rparr> else s)"

inductive targets_step ::
  "(request_window \<Rightarrow> string \<Rightarrow> api_request_status_summary \<Rightarrow> bool) \<Rightarrow> api_targets \<Rightarrow> api_targets \<Rightarrow> bool" for fits where
  restart: "targets_step fits s (targets_restart w s)"
| loaded: "q \<in> set (tg_loads s) \<Longrightarrow>
    (\<And>xs service x. r = Inr xs \<Longrightarrow> (service, Inr x) \<in> set xs \<Longrightarrow> fits (snd q) (os_id service) x) \<Longrightarrow>
    targets_step fits s (targets_loaded q r s)"
| retry: "targets_step fits s (retryTarget i s)"
| retried: "q \<in> set (tg_retries s) \<Longrightarrow> (\<And>x. r = Inr x \<Longrightarrow> fits (snd (snd q)) (fst q) x) \<Longrightarrow>
    targets_step fits s (target_retried q r s)"

definition row_fits ::
  "(request_window \<Rightarrow> string \<Rightarrow> api_request_status_summary \<Rightarrow> bool) \<Rightarrow> request_window \<Rightarrow> api_target \<Rightarrow> bool" where
  "row_fits fits w r \<longleftrightarrow> pred_option (fits w (os_id (at_service r))) (at_summary r)"

text \<open>The rows the page shows as the result: no load is running and none has failed.\<close>

definition targets_shown :: "api_targets \<Rightarrow> api_target list option" where
  "targets_shown s = (if tg_loading s \<or> tg_error s \<noteq> None then None else Some (tg_rows s))"

definition targets_good ::
  "(request_window \<Rightarrow> string \<Rightarrow> api_request_status_summary \<Rightarrow> bool) \<Rightarrow> api_targets \<Rightarrow> bool" where
  "targets_good fits s \<longleftrightarrow>
     length (filter (\<lambda>q. fst q = tg_run s) (tg_loads s)) = (if tg_loading s then 1 else 0)
     \<and> list_all (\<lambda>q. fst q \<le> tg_run s \<and> (fst q = tg_run s \<longrightarrow> snd q = tg_window s)) (tg_loads s)
     \<and> list_all (\<lambda>(i, v, w). v \<le> tg_generation s \<and> (v = tg_generation s \<longrightarrow> w = tg_window s)) (tg_retries s)
     \<and> pred_option (list_all (row_fits fits (tg_window s))) (targets_shown s)"

lemma targets_good_mounted: "targets_good fits (targets_mounted w)"
  by (simp add: targets_good_def targets_mounted_def targets_shown_def)

lemma list_all_remove1: "list_all P xs \<Longrightarrow> list_all P (remove1 x xs)"
  by (auto simp: list_all_iff dest: notin_set_remove1)

lemma target_row_fits [simp]:
  "row_fits fits w (target_row service r) \<longleftrightarrow> (case r of Inr x \<Rightarrow> fits w (os_id service) x | Inl e \<Rightarrow> True)"
  by (cases r) (simp_all add: row_fits_def target_row_def)

lemma on_target_fits:
  "list_all (row_fits fits w) rows \<Longrightarrow>
   (\<And>r. os_id (at_service r) = i \<Longrightarrow> row_fits fits w r \<Longrightarrow> row_fits fits w (f r)) \<Longrightarrow>
   list_all (row_fits fits w) (on_target i f rows)"
  by (auto simp: on_target_def list_all_iff)

lemma targets_good_step:
  assumes "targets_good fits s" "targets_step fits s s'"
  shows "targets_good fits s'"
  using assms(2)
proof cases
  case (restart w)
  then show ?thesis
    using assms(1) older_runs [of "tg_run s" _ "tg_loads s"]
    by (auto simp: targets_good_def targets_restart_def targets_shown_def list_all_iff)
next
  case (loaded q r)
  have g: "list_all (\<lambda>q. fst q \<le> tg_run s \<and> (fst q = tg_run s \<longrightarrow> snd q = tg_window s)) (remove1 q (tg_loads s))"
    using assms(1) by (simp add: targets_good_def list_all_remove1)
  show ?thesis
  proof (cases "fst q = tg_run s")
    case True
    then have w: "snd q = tg_window s" using assms(1) loaded by (auto simp: targets_good_def list_all_iff)
    have "0 < length (filter (\<lambda>q. fst q = tg_run s) (tg_loads s))" using loaded True by (auto simp: filter_empty_conv)
    then have one: "length (filter (\<lambda>q. fst q = tg_run s) (tg_loads s)) = 1"
      using assms(1) by (simp add: targets_good_def split: if_splits)
    show ?thesis
    proof (cases r)
      case (Inl e)
      then show ?thesis using g one True assms(1) loaded
        by (simp add: targets_good_def targets_loaded_def targets_shown_def filter_remove1 length_remove1 Let_def)
    next
      case (Inr xs)
      have "list_all (\<lambda>(service, x). row_fits fits (tg_window s) (target_row service x)) xs"
        using loaded Inr w by (auto simp: list_all_iff split: sum.split)
      then show ?thesis using g one True assms(1) loaded Inr
        by (simp add: targets_good_def targets_loaded_def targets_shown_def filter_remove1 length_remove1 Let_def
            list.pred_map comp_def case_prod_unfold)
    qed
  next
    case False
    then show ?thesis using g assms(1) loaded
      by (simp add: targets_good_def targets_loaded_def targets_shown_def filter_remove1 length_remove1 Let_def split: if_splits)
  qed
next
  case (retry i)
  then show ?thesis
    using assms(1)
    by (auto simp: targets_good_def retryTarget_def targets_shown_def row_fits_def intro!: on_target_fits)
next
  case (retried q r)
  obtain i v w where q: "q = (i, v, w)" by (cases q) auto
  have "w = tg_window s" if "v = tg_generation s"
    using assms(1) retried q that by (auto simp: targets_good_def list_all_iff)
  then show ?thesis
    using assms(1) retried q
    by (auto simp: targets_good_def target_retried_def targets_shown_def list_all_remove1 Let_def split: sum.splits intro!: on_target_fits)
qed

interpretation targets: answers "\<lambda>w. list_all (row_fits fits w)" "targets_step fits" tg_window targets_shown "targets_good fits"
  for fits :: "request_window \<Rightarrow> string \<Rightarrow> api_request_status_summary \<Rightarrow> bool"
proof unfold_locales
  show "targets_good fits s \<Longrightarrow> targets_shown s = Some d \<Longrightarrow> list_all (row_fits fits (tg_window s)) d" for s d
    by (simp add: targets_good_def)
qed (rule targets_good_step)

section \<open>Data fetching without a guard (useDataFetch)\<close>

record ('k, 'd) data_fetch =
  df_key :: 'k
  df_data :: "'d option"
  df_loading :: bool
  df_error :: "thrown option"
  df_done :: bool
  df_pending :: "'k list"

text \<open>\<open>fetch\<close> when \<open>env.useMock\<close> is false; the closure reads the dependencies of the last commit.\<close>

definition fetch_start :: "('k, 'd) data_fetch \<Rightarrow> ('k, 'd) data_fetch" where
  "fetch_start s =
     s\<lparr>df_loading := (if \<not> df_done s then True else df_loading s), df_error := None, df_pending := df_pending s @ [df_key s]\<rparr>"

definition fetch_mock :: "'d \<Rightarrow> ('k, 'd) data_fetch \<Rightarrow> ('k, 'd) data_fetch" where
  "fetch_mock mockData s = s\<lparr>df_data := Some mockData, df_loading := False\<rparr>"

definition fetch_initial :: "bool \<Rightarrow> 'd \<Rightarrow> 'k \<Rightarrow> ('k, 'd) data_fetch" where
  "fetch_initial mock mockData k =
     \<lparr>df_key = k, df_data = (if mock then Some mockData else None), df_loading = (\<not> mock), df_error = None,
      df_done = False, df_pending = []\<rparr>"

definition fetch_mounted :: "bool \<Rightarrow> 'd \<Rightarrow> 'k \<Rightarrow> ('k, 'd) data_fetch" where
  "fetch_mounted mock mockData k =
     (if mock then fetch_mock mockData else fetch_start) (fetch_initial mock mockData k)"

definition as_error :: "thrown \<Rightarrow> thrown" where
  "as_error e = (if e = ThrownValue then JsError ''Error'' ''Unknown error'' else e)"

definition fetch_answer :: "'k \<Rightarrow> thrown + 'd \<Rightarrow> ('k, 'd) data_fetch \<Rightarrow> ('k, 'd) data_fetch" where
  "fetch_answer k r s =
     (let s = s\<lparr>df_pending := remove1 k (df_pending s), df_loading := False, df_done := True\<rparr> in
      case r of Inr d \<Rightarrow> s\<lparr>df_data := Some d\<rparr> | Inl e \<Rightarrow> s\<lparr>df_error := Some (as_error e)\<rparr>)"

inductive fetch_step :: "('k \<Rightarrow> 'd \<Rightarrow> bool) \<Rightarrow> ('k, 'd) data_fetch \<Rightarrow> ('k, 'd) data_fetch \<Rightarrow> bool" for fits where
  deps: "k \<noteq> df_key s \<Longrightarrow> fetch_step fits s (fetch_start (s\<lparr>df_key := k\<rparr>))"
| refetch: "fetch_step fits s (fetch_start s)"
| answer: "k \<in> set (df_pending s) \<Longrightarrow> (\<And>d. r = Inr d \<Longrightarrow> fits k d) \<Longrightarrow> fetch_step fits s (fetch_answer k r s)"

lemma fetch_loading_step: "fetch_step fits s s' \<Longrightarrow> df_loading s = (\<not> df_done s) \<Longrightarrow> df_loading s' = (\<not> df_done s')"
  by (induction rule: fetch_step.induct) (auto simp: fetch_start_def fetch_answer_def Let_def split: sum.split)

lemma fetch_loading: "(fetch_step fits)\<^sup>*\<^sup>* s s' \<Longrightarrow> df_loading s = (\<not> df_done s) \<Longrightarrow> df_loading s' = (\<not> df_done s')"
proof (induction rule: rtranclp_induct)
  case (step y z)
  then show ?case using fetch_loading_step [of fits y z] by blast
qed

section \<open>The hooks as a whole\<close>

text \<open>C17: While a path is set, exactly one poll of its setup status is in flight or due, however
  paths change and answers arrive or fail, and the data shown is an answer for that path.\<close>

theorem setup_poll_lives:
  assumes "(poll_step fits)\<^sup>*\<^sup>* (poll_mounted p) s" "po_path s = Some q" "q \<noteq> []"
  shows "polls_due s = 1 \<and> (po_timer s \<or> (\<exists>r. (r, q) \<in> set (po_inflight s) \<and> r = po_run s))
    \<and> pred_option (fits q) (poll_data s)"
proof -
  have g: "poll_good fits s" using polled.reach_good [OF assms(1) poll_good_mounted] .
  then have one: "polls_due s = 1" using assms(2,3) by (simp add: poll_good_def)
  have "\<exists>r. (r, q) \<in> set (po_inflight s) \<and> r = po_run s" if "\<not> po_timer s"
  proof -
    have "filter (\<lambda>q. fst q = po_run s) (po_inflight s) \<noteq> []" using one that by (auto simp: polls_due_def)
    then show ?thesis using g assms(2) by (fastforce simp: filter_empty_conv poll_good_def list_all_iff)
  qed
  moreover have "pred_option (fits q) (poll_data s)"
    using polled.good_shown [OF g] assms(2) by (cases "poll_data s") auto
  ultimately show ?thesis using one by blast
qed

lemma setup_poll_lives_witness:
  "polls_due (poll_answer (1, ''/agents/a/setup-status'') (Inl ThrownValue) (poll_mounted (Some ''/agents/a/setup-status'') :: int setup_poll)) = 1"
proof -
  let ?p = "''/agents/a/setup-status''" and ?fits = "\<lambda>_ _. True"
  have "(poll_step ?fits)\<^sup>*\<^sup>* (poll_mounted (Some ?p)) (poll_answer (1, ?p) (Inl ThrownValue) (poll_mounted (Some ?p) :: int setup_poll))"
    by (rule r_into_rtranclp, rule poll_step.answer) (simp_all add: poll_mounted_def poll_path_def Let_def)
  from setup_poll_lives [OF this, of ?p] show ?thesis
    by (simp add: poll_answer_def poll_mounted_def poll_path_def Let_def)
qed

text \<open>C18: When the API page is neither loading nor shows an error, every summary it shows is an answer
  for the window chosen now, in whatever order loads and retries of earlier windows answer.\<close>

theorem api_targets_current:
  assumes "(targets_step fits)\<^sup>*\<^sup>* (targets_mounted w) s" "\<not> tg_loading s" "tg_error s = None"
  shows "list_all (row_fits fits (tg_window s)) (tg_rows s)"
  using targets.reach_shown [OF assms(1) targets_good_mounted] assms(2,3) by (simp add: targets_shown_def)

definition early_window :: request_window where "early_window = \<lparr>rw_from = ''a'', rw_to = ''b''\<rparr>"
definition late_window :: request_window where "late_window = \<lparr>rw_from = ''c'', rw_to = ''d''\<rparr>"

lemma api_targets_current_witness:
  "list_all (row_fits (\<lambda>w _ _. w = late_window) late_window)
    (tg_rows (targets_loaded (0, early_window) (Inl ThrownValue)
      (targets_loaded (1, late_window) (Inr []) (targets_restart late_window (targets_mounted early_window)))))"
proof -
  let ?f = "\<lambda>w _ _. w = late_window"
  let ?s1 = "targets_restart late_window (targets_mounted early_window)"
  let ?s2 = "targets_loaded (1, late_window) (Inr []) ?s1"
  have "targets_step ?f (targets_mounted early_window) ?s1" by (rule targets_step.restart)
  moreover have "targets_step ?f ?s1 ?s2"
    by (rule targets_step.loaded) (simp_all add: targets_restart_def targets_mounted_def)
  moreover have "targets_step ?f ?s2 (targets_loaded (0, early_window) (Inl ThrownValue) ?s2)"
    by (rule targets_step.loaded) (simp_all add: targets_loaded_def targets_restart_def targets_mounted_def Let_def)
  ultimately have "(targets_step ?f)\<^sup>*\<^sup>* (targets_mounted early_window) (targets_loaded (0, early_window) (Inl ThrownValue) ?s2)"
    by (meson rtranclp.rtrancl_refl rtranclp.rtrancl_into_rtrancl)
  from api_targets_current [OF this] show ?thesis
    by (simp add: targets_loaded_def targets_restart_def targets_mounted_def Let_def)
qed

text \<open>The general data hook has no such guard: after its dependencies change, a late answer to the
  earlier request replaces the newer one's and stays shown, with nothing in flight and no error.\<close>

theorem data_fetch_stale:
  assumes "k \<noteq> k'" "fits k d" "fits k' d'"
  shows "\<exists>s. (fetch_step fits)\<^sup>*\<^sup>* (fetch_mounted False m k) s \<and> df_key s = k' \<and> df_data s = Some d
    \<and> df_pending s = [] \<and> \<not> df_loading s \<and> df_error s = None"
proof (intro exI conjI)
  let ?s0 = "fetch_mounted False m k"
  let ?s1 = "fetch_start (?s0\<lparr>df_key := k'\<rparr>)"
  let ?s2 = "fetch_answer k' (Inr d') ?s1"
  have "fetch_step fits ?s0 ?s1"
    by (rule fetch_step.deps) (simp add: assms(1) [symmetric] fetch_mounted_def fetch_initial_def fetch_start_def)
  moreover have "fetch_step fits ?s1 ?s2"
    by (rule fetch_step.answer) (simp_all add: assms fetch_mounted_def fetch_initial_def fetch_start_def)
  moreover have "fetch_step fits ?s2 (fetch_answer k (Inr d) ?s2)"
    by (rule fetch_step.answer) (simp_all add: assms fetch_answer_def fetch_mounted_def fetch_initial_def fetch_start_def)
  ultimately show "(fetch_step fits)\<^sup>*\<^sup>* ?s0 (fetch_answer k (Inr d) ?s2)"
    by (meson rtranclp.rtrancl_refl rtranclp.rtrancl_into_rtrancl)
qed (use assms(1) in \<open>simp_all add: fetch_answer_def fetch_mounted_def fetch_initial_def fetch_start_def\<close>)

lemma data_fetch_stale_witness:
  "\<exists>s. (fetch_step (=))\<^sup>*\<^sup>* (fetch_mounted False 0 (6 :: int)) s \<and> df_key s = 24 \<and> df_data s = Some 6
    \<and> df_pending s = [] \<and> \<not> df_loading s \<and> df_error s = None"
  by (rule data_fetch_stale) simp_all

end
