(* ===== verification/EU_MetricRead.thy ===== *)
theory EU_MetricRead imports EU_Answers EU_Client EU_Json
begin

text \<open>
  The reads of the metric pages: \<open>features/metrics/useMetricRead.ts\<close> (one chart's query, then its
  quantiles) as a state machine in the manner of \<open>EU_Answers\<close>, and the rows of
  \<open>features/metrics/useMetricServices.ts\<close>.

  The hook compares requests by their JSON text; the texts are those of arrays and objects of
  strings, equal exactly when the values are, so the model compares the values.
\<close>

section \<open>One chart's read\<close>

datatype metric_source = Source_agent string string | Source_direct string

record metric_selection =
  ms_name :: string
  ms_type :: metric_type
  ms_unit :: string
  ms_attributes :: string
  ms_series :: string

record read_key =
  rk_source :: metric_source
  rk_selection :: metric_selection
  rk_from :: string
  rk_to :: string
  rk_expanded :: bool
  rk_refreshKey :: int
  rk_retryKey :: nat

definition selection_of :: "otel_metric_name \<Rightarrow> string \<Rightarrow> string \<Rightarrow> metric_selection" where
  "selection_of meta attributes series =
     \<lparr>ms_name = mn_metricName meta, ms_type = mn_metricType meta, ms_unit = or_default (mn_unit meta) [],
      ms_attributes = attributes, ms_series = series\<rparr>"

definition nonempty_param :: "string \<Rightarrow> string option" where
  "nonempty_param s = (if s \<noteq> [] then Some s else None)"

definition read_params :: "read_key \<Rightarrow> metric_query" where
  "read_params k =
     (let x = rk_selection k in
      \<lparr>mq_name = ms_name x, mq_from = Some (rk_from k), mq_to = Some (rk_to k), mq_type = Some (metric_type_text (ms_type x)),
       mq_unit = Some (ms_unit x), mq_attributes = nonempty_param (ms_attributes x), mq_series = nonempty_param (ms_series x)\<rparr>)"

definition read_query :: "read_key \<Rightarrow> metric_query_result api_call" where
  "read_query k =
     (case rk_source k of
        Source_direct i \<Rightarrow> queryObservedServiceMetric i (read_params k)
      | Source_agent a key \<Rightarrow> queryAgentServiceMetric a key (read_params k))"

definition scoped_params :: "read_key \<Rightarrow> metric_query_result \<Rightarrow> metric_query" where
  "scoped_params k d = (read_params k)\<lparr>mq_series := Some (stringify (JArr (map JStr (mr_selectedSeries d))))\<rparr>"

definition read_quantiles :: "read_key \<Rightarrow> metric_query_result \<Rightarrow> otel_histogram_quantiles option api_call" where
  "read_quantiles k d =
     (case rk_source k of
        Source_direct i \<Rightarrow> getObservedServiceOtelMetricQuantiles i (scoped_params k d)
      | Source_agent a key \<Rightarrow> getAgentServiceOtelMetricQuantiles a key (scoped_params k d))"

record metric_read =
  md_key :: read_key
  md_window :: metric_window
  md_snapshot :: "(read_key \<times> metric_window \<times> metric_query_result) option"
  md_error :: "(read_key \<times> string) option"
  md_distribution :: "(read_key \<times> otel_histogram_quantiles option \<times> string option) option"
  md_pending :: bool
  md_run :: nat
  md_queries :: "(nat \<times> read_key \<times> metric_window) list"
  md_quantiles :: "(nat \<times> read_key) list"

text \<open>The effect for a new key or window: the cleanup of the previous run, and the first part of \<open>load\<close>.\<close>

definition read_start :: "read_key \<Rightarrow> metric_window \<Rightarrow> metric_read \<Rightarrow> metric_read" where
  "read_start k w s =
     s\<lparr>md_key := k, md_window := w, md_run := Suc (md_run s), md_pending := True, md_error := None,
       md_queries := md_queries s @ [(Suc (md_run s), k, w)]\<rparr>"

definition read_mounted :: "read_key \<Rightarrow> metric_window \<Rightarrow> metric_read" where
  "read_mounted k w =
     read_start k w \<lparr>md_key = k, md_window = w, md_snapshot = None, md_error = None, md_distribution = None,
       md_pending = False, md_run = 0, md_queries = [], md_quantiles = []\<rparr>"

definition wants_quantiles :: "read_key \<Rightarrow> bool" where
  "wants_quantiles k \<longleftrightarrow> rk_expanded k \<and> ms_type (rk_selection k) = MT_histogram"

definition query_answered :: "nat \<times> read_key \<times> metric_window \<Rightarrow> thrown + metric_query_result \<Rightarrow> metric_read \<Rightarrow> metric_read" where
  "query_answered q r s =
     (let s = s\<lparr>md_queries := remove1 q (md_queries s)\<rparr>; k = fst (snd q) in
      if fst q \<noteq> md_run s then s
      else (case r of
          Inl e \<Rightarrow> s\<lparr>md_error := Some (k, getErrorMessage e), md_pending := False\<rparr>
        | Inr d \<Rightarrow>
            let s = s\<lparr>md_snapshot := Some (k, snd (snd q), d)\<rparr> in
            if wants_quantiles k then s\<lparr>md_quantiles := md_quantiles s @ [(fst q, k)]\<rparr> else s\<lparr>md_pending := False\<rparr>))"

definition quantiles_answered :: "nat \<times> read_key \<Rightarrow> thrown + otel_histogram_quantiles option \<Rightarrow> metric_read \<Rightarrow> metric_read" where
  "quantiles_answered q r s =
     (let s = s\<lparr>md_quantiles := remove1 q (md_quantiles s)\<rparr> in
      if fst q \<noteq> md_run s then s
      else s\<lparr>md_distribution := Some (snd q, case r of Inr x \<Rightarrow> (x, None) | Inl e \<Rightarrow> (None, Some (getErrorMessage e))),
             md_pending := False\<rparr>)"

definition read_retry :: "metric_read \<Rightarrow> metric_read" where
  "read_retry s = read_start ((md_key s)\<lparr>rk_retryKey := Suc (rk_retryKey (md_key s))\<rparr>) (md_window s) s"

section \<open>What the chart shows\<close>

definition read_shown :: "metric_read \<Rightarrow> (read_key \<times> metric_window \<times> metric_query_result) option" where
  "read_shown s =
     (case md_snapshot s of
        Some (k, w, d) \<Rightarrow>
          if rk_selection k = rk_selection (md_key s) \<and> mw_range w = mw_range (md_window s) then Some (k, w, d) else None
      | None \<Rightarrow> None)"

definition read_data :: "metric_read \<Rightarrow> metric_query_result option" where
  "read_data s = map_option (\<lambda>(k, w, d). d) (read_shown s)"

definition read_options :: "metric_read \<Rightarrow> metric_query_result option" where
  "read_options s = map_option (\<lambda>(k, w, d). d) (md_snapshot s)"

definition displayedWindow :: "metric_read \<Rightarrow> metric_window" where
  "displayedWindow s = (case read_shown s of Some (k, w, d) \<Rightarrow> w | None \<Rightarrow> md_window s)"

definition read_error :: "metric_read \<Rightarrow> string option" where
  "read_error s = (case md_error s of Some (k, m) \<Rightarrow> if k = md_key s then Some m else None | None \<Rightarrow> None)"

definition snapshot_current :: "metric_read \<Rightarrow> bool" where
  "snapshot_current s \<longleftrightarrow> map_option fst (md_snapshot s) = Some (md_key s)"

definition distribution_current :: "metric_read \<Rightarrow> (otel_histogram_quantiles option \<times> string option) option" where
  "distribution_current s =
     (case md_distribution s of Some (k, x) \<Rightarrow> if k = md_key s then Some x else None | None \<Rightarrow> None)"

definition quantiles_shown :: "metric_read \<Rightarrow> otel_histogram_quantiles option" where
  "quantiles_shown s = (if snapshot_current s then Option.bind (distribution_current s) fst else None)"

definition quantilesError :: "metric_read \<Rightarrow> string option" where
  "quantilesError s = Option.bind (distribution_current s) snd"

definition quantilesLoading :: "metric_read \<Rightarrow> bool" where
  "quantilesLoading s \<longleftrightarrow> wants_quantiles (md_key s) \<and> snapshot_current s \<and> distribution_current s = None"

section \<open>Steps\<close>

text \<open>\<open>fits k d\<close> and \<open>qfits k x\<close>: a result of the query and of the quantiles for the request \<open>k\<close>.\<close>

inductive read_step ::
  "(read_key \<Rightarrow> metric_query_result \<Rightarrow> bool) \<Rightarrow> (read_key \<Rightarrow> otel_histogram_quantiles option \<Rightarrow> bool)
   \<Rightarrow> metric_read \<Rightarrow> metric_read \<Rightarrow> bool" for fits qfits where
  change: "rk_from k = mw_from w \<Longrightarrow> rk_to k = mw_to w \<Longrightarrow>
    read_step fits qfits s (read_start k w s)"
| retry: "read_step fits qfits s (read_retry s)"
| answered: "q \<in> set (md_queries s) \<Longrightarrow> (\<And>d. r = Inr d \<Longrightarrow> fits (fst (snd q)) d) \<Longrightarrow>
    read_step fits qfits s (query_answered q r s)"
| quantiles: "q \<in> set (md_quantiles s) \<Longrightarrow> (\<And>x. r = Inr x \<Longrightarrow> qfits (snd q) x) \<Longrightarrow>
    read_step fits qfits s (quantiles_answered q r s)"

text \<open>The requests of the current run in flight.\<close>

definition reads_due :: "metric_read \<Rightarrow> nat" where
  "reads_due s =
     length (filter (\<lambda>q. fst q = md_run s) (md_queries s)) + length (filter (\<lambda>q. fst q = md_run s) (md_quantiles s))"

text \<open>Why nothing is pending: the current key has its error, or its data and, if wanted, its quantiles.\<close>

definition snapshot_settled :: "metric_read \<Rightarrow> bool" where
  "snapshot_settled s \<longleftrightarrow> map_option (\<lambda>(k, w, d). (k, w)) (md_snapshot s) = Some (md_key s, md_window s)"

definition read_settled :: "metric_read \<Rightarrow> bool" where
  "read_settled s \<longleftrightarrow>
     read_error s \<noteq> None
     \<or> snapshot_settled s \<and> (if wants_quantiles (md_key s) then distribution_current s \<noteq> None else True)"

definition read_good ::
  "(read_key \<Rightarrow> metric_query_result \<Rightarrow> bool) \<Rightarrow> (read_key \<Rightarrow> otel_histogram_quantiles option \<Rightarrow> bool) \<Rightarrow> metric_read \<Rightarrow> bool" where
  "read_good fits qfits s \<longleftrightarrow>
     reads_due s = (if md_pending s then 1 else 0)
     \<and> (if md_pending s then True else read_settled s)
     \<and> list_all (\<lambda>(n, k, w). n \<le> md_run s \<and> (n = md_run s \<longrightarrow> k = md_key s \<and> w = md_window s)) (md_queries s)
     \<and> list_all (\<lambda>(n, k). n \<le> md_run s \<and> (n = md_run s \<longrightarrow> k = md_key s \<and> snapshot_settled s)) (md_quantiles s)
     \<and> pred_option (\<lambda>(k, w, d). fits k d) (md_snapshot s)
     \<and> pred_option (\<lambda>(k, x, m). if m = None then qfits k x else x = None) (md_distribution s)"

lemma newer_run: "list_all (\<lambda>(n, x). n \<le> N \<and> P n x) qs \<Longrightarrow> filter (\<lambda>q. fst q = Suc N) qs = []"
  by (auto simp: list_all_iff filter_empty_conv)

lemma list_all_older:
  "list_all (\<lambda>(n, x). n \<le> N \<and> P n x) qs \<Longrightarrow> (\<And>n x. n \<le> N \<Longrightarrow> Q n x) \<Longrightarrow> list_all (\<lambda>(n, x). n \<le> Suc N \<and> Q n x) qs"
  by (auto simp: list_all_iff)

lemma read_good_start:
  assumes "read_good fits qfits s"
  shows "read_good fits qfits (read_start k w s)"
proof -
  have "filter (\<lambda>q. fst q = Suc (md_run s)) (md_queries s) = []" "filter (\<lambda>q. fst q = Suc (md_run s)) (md_quantiles s) = []"
    using assms by (auto simp: read_good_def list_all_iff filter_empty_conv)
  moreover have "list_all (\<lambda>(n, k', w'). n \<le> Suc (md_run s) \<and> (n = Suc (md_run s) \<longrightarrow> k' = k \<and> w' = w)) (md_queries s)"
    "list_all (\<lambda>(n, k'). n \<le> Suc (md_run s) \<and> (n = Suc (md_run s) \<longrightarrow> k' = k \<and> R)) (md_quantiles s)" for R
    using assms by (auto simp: read_good_def list_all_iff)
  ultimately show ?thesis
    using assms by (simp add: read_good_def read_start_def reads_due_def)
qed

lemma read_good_mounted: "read_good fits qfits (read_mounted k w)"
  by (simp add: read_good_def read_mounted_def read_start_def reads_due_def)

lemma sole: "length xs + length ys = (if b then 1 else 0) \<Longrightarrow> x \<in> set xs \<Longrightarrow> xs = [x] \<and> ys = [] \<and> b"
  by (cases xs; cases ys) (auto split: if_splits)

lemma read_beside [simp]:
  "read_settled (s\<lparr>md_queries := qs\<rparr>) = read_settled s" "read_settled (s\<lparr>md_quantiles := xs\<rparr>) = read_settled s"
  "snapshot_settled (s\<lparr>md_queries := qs\<rparr>) = snapshot_settled s" "snapshot_settled (s\<lparr>md_quantiles := xs\<rparr>) = snapshot_settled s"
  by (cases "md_error s"; cases "md_distribution s";
      simp add: read_settled_def snapshot_settled_def read_error_def distribution_current_def split_beta)+

lemma one_due:
  assumes "read_good fits qfits s" "q \<in> set (md_queries s)" "fst q = md_run s"
  shows "filter (\<lambda>q. fst q = md_run s) (md_queries s) = [q]" "filter (\<lambda>q. fst q = md_run s) (md_quantiles s) = []"
    "md_pending s" "snd q = (md_key s, md_window s)"
proof -
  have "q \<in> set (filter (\<lambda>q. fst q = md_run s) (md_queries s))" using assms(2,3) by simp
  from sole [OF _ this, of "filter (\<lambda>q. fst q = md_run s) (md_quantiles s)" "md_pending s"] show "filter (\<lambda>q. fst q = md_run s) (md_queries s) = [q]"
    "filter (\<lambda>q. fst q = md_run s) (md_quantiles s) = []" "md_pending s"
    using assms(1) by (simp_all add: read_good_def reads_due_def add.commute)
  show "snd q = (md_key s, md_window s)" using assms by (cases q) (auto simp: read_good_def list_all_iff)
qed

lemma one_quantiles_due:
  assumes "read_good fits qfits s" "q \<in> set (md_quantiles s)" "fst q = md_run s"
  shows "filter (\<lambda>q. fst q = md_run s) (md_quantiles s) = [q]" "filter (\<lambda>q. fst q = md_run s) (md_queries s) = []"
    "md_pending s" "snd q = md_key s" "snapshot_settled s"
proof -
  have "q \<in> set (filter (\<lambda>q. fst q = md_run s) (md_quantiles s))" using assms(2,3) by simp
  from sole [OF _ this, of "filter (\<lambda>q. fst q = md_run s) (md_queries s)" "md_pending s"] show "filter (\<lambda>q. fst q = md_run s) (md_quantiles s) = [q]"
    "filter (\<lambda>q. fst q = md_run s) (md_queries s) = []" "md_pending s"
    using assms(1) by (simp_all add: read_good_def reads_due_def add.commute)
  have "list_all (\<lambda>(n, k). n \<le> md_run s \<and> (n = md_run s \<longrightarrow> k = md_key s \<and> snapshot_settled s)) (md_quantiles s)"
    using assms(1) by (simp add: read_good_def)
  then show "snd q = md_key s" "snapshot_settled s" using assms(2,3) by (auto simp: list_all_iff)
qed

lemma quantiles_none_current:
  assumes "list_all (\<lambda>(n, k). n \<le> N \<and> (n = N \<longrightarrow> P k)) qs" "filter (\<lambda>q. fst q = N) qs = []"
  shows "list_all (\<lambda>(n, k). n \<le> N \<and> (n = N \<longrightarrow> Q k)) qs"
  using assms by (auto simp: list_all_iff filter_empty_conv)

lemma read_good_answered:
  assumes g: "read_good fits qfits s" and q: "q \<in> set (md_queries s)" and r: "\<And>d. r = Inr d \<Longrightarrow> fits (fst (snd q)) d"
  shows "read_good fits qfits (query_answered q r s)"
proof (cases "fst q = md_run s")
  case False
  then show ?thesis using g
    by (simp add: read_good_def query_answered_def reads_due_def filter_remove1 list_all_remove1 Let_def)
next
  case True
  note due = one_due [OF g q True]
  have rest: "list_all (\<lambda>(n, k). n \<le> md_run s \<and> (n = md_run s \<longrightarrow> Q k)) (md_quantiles s)" for Q
    by (rule quantiles_none_current [OF _ due(2)]) (use g in \<open>auto simp: read_good_def list_all_iff\<close>)
  have k: "fst (snd q) = md_key s" "snd (snd q) = md_window s" using due(4) by simp_all
  show ?thesis
  proof (cases r)
    case (Inl e)
    then show ?thesis using g True due k rest
      by (simp add: read_good_def query_answered_def reads_due_def read_settled_def read_error_def filter_remove1 length_remove1
          list_all_remove1 q Let_def)
  next
    case (Inr d)
    then show ?thesis using g True due k rest r
      by (simp add: read_good_def query_answered_def reads_due_def read_settled_def snapshot_settled_def filter_remove1
          length_remove1 list_all_remove1 q Let_def)
  qed
qed

lemma read_good_quantiles:
  assumes g: "read_good fits qfits s" and q: "q \<in> set (md_quantiles s)" and r: "\<And>x. r = Inr x \<Longrightarrow> qfits (snd q) x"
  shows "read_good fits qfits (quantiles_answered q r s)"
proof (cases "fst q = md_run s")
  case False
  then show ?thesis using g
    by (simp add: read_good_def quantiles_answered_def reads_due_def filter_remove1 list_all_remove1 Let_def)
next
  case True
  note due = one_quantiles_due [OF g q True]
  then show ?thesis using g r
    by (cases r) (simp_all add: read_good_def quantiles_answered_def reads_due_def read_settled_def snapshot_settled_def
        distribution_current_def filter_remove1 length_remove1 list_all_remove1 True q Let_def)
qed

lemma read_good_step: "read_good fits qfits s \<Longrightarrow> read_step fits qfits s s' \<Longrightarrow> read_good fits qfits s'"
  by (erule read_step.cases) (simp_all add: read_retry_def read_good_start read_good_answered read_good_quantiles)

interpretation chart_read: answers
    "\<lambda>k (k', d). fits k' d \<and> rk_selection k' = rk_selection k" "read_step fits qfits" md_key
    "\<lambda>s. map_option (\<lambda>(k, w, d). (k, d)) (read_shown s)" "read_good fits qfits"
  for fits :: "read_key \<Rightarrow> metric_query_result \<Rightarrow> bool" and qfits :: "read_key \<Rightarrow> otel_histogram_quantiles option \<Rightarrow> bool"
proof unfold_locales
  show "read_good fits qfits s \<Longrightarrow> map_option (\<lambda>(k, w, d). (k, d)) (read_shown s) = Some x
      \<Longrightarrow> (case x of (k', d) \<Rightarrow> fits k' d \<and> rk_selection k' = rk_selection (md_key s))" for s x
    by (auto simp: read_good_def read_shown_def split: option.splits if_splits)
qed (rule read_good_step)

section \<open>The services of the metrics page (useMetricServices)\<close>

record metric_service_row =
  mv_id :: string
  mv_name :: string
  mv_active :: bool
  mv_metricNames :: "string list"
  mv_metrics :: "observed_service_metric_name list"
  mv_lastMetricAt :: "string option"
  mv_lastReceivedAt :: "string option"

record service_entry =
  se_names :: "string list"
  se_metrics :: "observed_service_metric_name list"
  se_lastAt :: "string option"
  se_lastReceivedAt :: "string option"

text \<open>\<open>Date.parse(a) > Date.parse(b)\<close>, false when either is \<open>NaN\<close>.\<close>

definition later :: "string \<Rightarrow> string \<Rightarrow> bool" where
  "later a b \<longleftrightarrow> (case (date_parse a, date_parse b) of (Some x, Some y) \<Rightarrow> x > y | _ \<Rightarrow> False)"

definition latest_of :: "string option \<Rightarrow> string \<Rightarrow> string option" where
  "latest_of old new = (if \<not> truthy old \<or> later new (the old) then Some new else old)"

definition entry_with :: "service_entry option \<Rightarrow> observed_service_metric_name \<Rightarrow> service_entry" where
  "entry_with old m =
     (let e = (case old of Some e \<Rightarrow> e | None \<Rightarrow> \<lparr>se_names = [], se_metrics = [], se_lastAt = None, se_lastReceivedAt = None\<rparr>) in
      e\<lparr>se_names := (if mn_metricName m \<in> set (se_names e) then se_names e else se_names e @ [mn_metricName m]),
        se_metrics := se_metrics e @ [m],
        se_lastAt := latest_of (se_lastAt e) (mn_lastAt m),
        se_lastReceivedAt := (if truthy (mn_lastReceivedAt m) then latest_of (se_lastReceivedAt e) (the (mn_lastReceivedAt m))
                              else se_lastReceivedAt e)\<rparr>)"

definition byService :: "observed_service_metric_name list \<Rightarrow> (string \<times> service_entry) list" where
  "byService catalog =
     foldl (\<lambda>M m. AList.update (om_serviceId m) (entry_with (map_of M (om_serviceId m)) m) M) [] catalog"

text \<open>\<open>coll\<close> is the sort key of a string in the reader's locale, by which \<open>localeCompare\<close> compares.\<close>

definition service_row :: "(string \<Rightarrow> string) \<Rightarrow> (string \<times> service_entry) list \<Rightarrow> observed_service \<Rightarrow> metric_service_row" where
  "service_row coll M service =
     (let e = map_of M (os_id service) in
      \<lparr>mv_id = os_id service, mv_name = os_name service, mv_active = os_isActive service,
       mv_metricNames = sort_by (by_key coll) (case e of Some e \<Rightarrow> se_names e | None \<Rightarrow> []),
       mv_metrics = (case e of Some e \<Rightarrow> se_metrics e | None \<Rightarrow> []),
       mv_lastMetricAt = Option.bind e se_lastAt, mv_lastReceivedAt = Option.bind e se_lastReceivedAt\<rparr>)"

definition metric_service_rows ::
  "(string \<Rightarrow> string) \<Rightarrow> observed_service list \<Rightarrow> observed_service_metric_name list \<Rightarrow> metric_service_row list" where
  "metric_service_rows coll services catalog =
     sort_by (by_key (\<lambda>r. coll (mv_name r))) (map (service_row coll (byService catalog)) services)"

lemma foldl_grouped:
  "map_of (foldl (\<lambda>M x. AList.update (k x) (g (map_of M (k x)) x) M) M xs) j
   = foldl (\<lambda>e x. Some (g e x)) (map_of M j) (filter (\<lambda>x. k x = j) xs)"
  by (induction xs arbitrary: M) auto

lemma byService_lookup:
  "map_of (byService catalog) i = foldl (\<lambda>e m. Some (entry_with e m)) None (filter (\<lambda>m. om_serviceId m = i) catalog)"
  unfolding byService_def by (subst foldl_grouped) simp

text \<open>The latest of some instants that all parse.\<close>

definition latest_among :: "string list \<Rightarrow> string option \<Rightarrow> bool" where
  "latest_among ts a \<longleftrightarrow>
     (case a of None \<Rightarrow> ts = []
      | Some a \<Rightarrow> a \<in> set ts \<and> list_all (\<lambda>t. the (date_parse t) \<le> the (date_parse a)) ts)"

lemma latest_among_snoc:
  assumes "latest_among ts a" "list_all (\<lambda>t. date_parse t \<noteq> None) (ts @ [t])"
  shows "latest_among (ts @ [t]) (latest_of a t)"
proof (cases a)
  case None
  then show ?thesis using assms by (simp add: latest_among_def latest_of_def)
next
  case (Some b)
  then have "date_parse b \<noteq> None" "b \<noteq> []"
    using assms by (auto simp: latest_among_def list_all_iff date_parse_def)
  then show ?thesis
    using assms Some by (fastforce simp: latest_among_def latest_of_def later_def list_all_iff)
qed

definition received :: "observed_service_metric_name list \<Rightarrow> string list" where
  "received ms = map (\<lambda>m. the (mn_lastReceivedAt m)) (filter (\<lambda>m. truthy (mn_lastReceivedAt m)) ms)"

definition dated :: "observed_service_metric_name list \<Rightarrow> bool" where
  "dated ms \<longleftrightarrow> list_all (\<lambda>t. date_parse t \<noteq> None) (map mn_lastAt ms @ received ms)"

lemma entry_of_metrics:
  assumes "ms \<noteq> []" "dated ms"
  shows "\<exists>e. foldl (\<lambda>e m. Some (entry_with e m)) None ms = Some e \<and> se_metrics e = ms \<and> distinct (se_names e)
    \<and> set (se_names e) = mn_metricName ` set ms \<and> latest_among (map mn_lastAt ms) (se_lastAt e)
    \<and> latest_among (received ms) (se_lastReceivedAt e)"
  using assms
proof (induction ms rule: rev_induct)
  case (snoc m ms)
  show ?case
  proof (cases "ms = []")
    case True
    then show ?thesis
      by (auto simp: entry_with_def latest_among_def latest_of_def received_def Let_def)
  next
    case False
    then obtain e where e: "foldl (\<lambda>e m. Some (entry_with e m)) None ms = Some e" "se_metrics e = ms" "distinct (se_names e)"
      "set (se_names e) = mn_metricName ` set ms" "latest_among (map mn_lastAt ms) (se_lastAt e)"
      "latest_among (received ms) (se_lastReceivedAt e)"
      using snoc by (auto simp: dated_def received_def)
    have "list_all (\<lambda>t. date_parse t \<noteq> None) (map mn_lastAt ms @ [mn_lastAt m])" using snoc.prems by (simp add: dated_def)
    note last = latest_among_snoc [OF e(5) this]
    show ?thesis
    proof (cases "truthy (mn_lastReceivedAt m)")
      case True
      then have "list_all (\<lambda>t. date_parse t \<noteq> None) (received ms @ [the (mn_lastReceivedAt m)])"
        using snoc.prems by (simp add: dated_def received_def)
      from latest_among_snoc [OF e(6) this] show ?thesis
        using e last True by (auto simp: entry_with_def received_def Let_def)
    next
      case False
      then show ?thesis using e last by (auto simp: entry_with_def received_def Let_def)
    qed
  qed
qed simp

definition row_exact :: "(string \<Rightarrow> string) \<Rightarrow> observed_service_metric_name list \<Rightarrow> metric_service_row \<Rightarrow> bool" where
  "row_exact coll catalog r \<longleftrightarrow>
     mv_metrics r = filter (\<lambda>m. om_serviceId m = mv_id r) catalog
     \<and> set (mv_metricNames r) = mn_metricName ` set (mv_metrics r) \<and> distinct (mv_metricNames r)
     \<and> sorted_wrt (by_key coll) (mv_metricNames r)
     \<and> latest_among (map mn_lastAt (mv_metrics r)) (mv_lastMetricAt r)
     \<and> latest_among (received (mv_metrics r)) (mv_lastReceivedAt r)"

lemma service_row_exact:
  assumes "dated catalog"
  shows "row_exact coll catalog (service_row coll (byService catalog) service)"
proof -
  let ?ms = "filter (\<lambda>m. om_serviceId m = os_id service) catalog"
  have d: "dated ?ms" using assms by (auto simp: dated_def received_def list_all_iff)
  show ?thesis
  proof (cases "?ms = []")
    case True
    then have "map_of (byService catalog) (os_id service) = None" by (simp add: byService_lookup)
    then show ?thesis using True by (simp add: row_exact_def service_row_def latest_among_def received_def Let_def)
  next
    case False
    from entry_of_metrics [OF False d] show ?thesis
      by (auto simp: row_exact_def service_row_def byService_lookup asc.sorted_sort Let_def)
  qed
qed

text \<open>The load behind the rows: an answer counts while its run is the current one.\<close>

record metric_services =
  sv_services :: "observed_service list"
  sv_catalog :: "observed_service_metric_name list"
  sv_loading :: bool
  sv_error :: "string option"
  sv_reloadKey :: nat
  sv_checkedAt :: int
  sv_loads :: "nat list"

definition services_load :: "metric_services \<Rightarrow> metric_services" where
  "services_load s = s\<lparr>sv_loading := True, sv_error := None, sv_loads := sv_loads s @ [sv_reloadKey s]\<rparr>"

definition services_mounted :: metric_services where
  "services_mounted =
     services_load \<lparr>sv_services = [], sv_catalog = [], sv_loading = True, sv_error = None, sv_reloadKey = 0,
       sv_checkedAt = 0, sv_loads = []\<rparr>"

definition services_reload :: "metric_services \<Rightarrow> metric_services" where
  "services_reload s = services_load (s\<lparr>sv_reloadKey := Suc (sv_reloadKey s)\<rparr>)"

definition services_answered ::
  "int \<Rightarrow> nat \<Rightarrow> thrown + observed_service list option \<times> observed_service_metric_name list option \<Rightarrow> metric_services \<Rightarrow> metric_services" where
  "services_answered now n r s =
     (let s = s\<lparr>sv_loads := remove1 n (sv_loads s)\<rparr> in
      if n \<noteq> sv_reloadKey s then s
      else (case r of
          Inr (services, catalog) \<Rightarrow>
            s\<lparr>sv_services := (case services of Some x \<Rightarrow> x | None \<Rightarrow> []), sv_catalog := (case catalog of Some x \<Rightarrow> x | None \<Rightarrow> []),
              sv_checkedAt := now, sv_loading := False\<rparr>
        | Inl e \<Rightarrow> s\<lparr>sv_error := Some (getErrorMessage e), sv_loading := False\<rparr>))"

section \<open>The metric pages as a whole\<close>

text \<open>C19: A chart is loading exactly while one request of its current run is out; when it is not, it
  shows the error of the current request or its data, with the quantiles if they are wanted; and
  what it draws always has the selection chosen now, its quantiles belonging to the very request.\<close>

theorem metric_read_settles:
  assumes "(read_step fits qfits)\<^sup>*\<^sup>* (read_mounted k w) s"
  shows "reads_due s = (if md_pending s then 1 else 0) \<and> (md_pending s \<or> read_settled s)
    \<and> pred_option (\<lambda>(k, w, d). fits k d \<and> rk_selection k = rk_selection (md_key s)) (read_shown s)
    \<and> pred_option (\<lambda>x. qfits (md_key s) (Some x)) (quantiles_shown s)"
proof -
  have g: "read_good fits qfits s" by (rule chart_read.reach_good [OF assms read_good_mounted])
  then have "pred_option (\<lambda>x. qfits (md_key s) (Some x)) (quantiles_shown s)"
    by (cases "md_distribution s"; cases "quantiles_shown s")
      (auto simp: read_good_def quantiles_shown_def distribution_current_def split: if_splits)
  moreover have "pred_option (\<lambda>(k, w, d). fits k d \<and> rk_selection k = rk_selection (md_key s)) (read_shown s)"
    using chart_read.good_shown [OF g] by (cases "read_shown s") auto
  ultimately show ?thesis using g by (auto simp: read_good_def split: if_splits)
qed

definition sample_window :: metric_window where
  "sample_window = \<lparr>mw_range = GR_1h, mw_from = ''a'', mw_to = ''b''\<rparr>"

definition sample_key :: read_key where
  "sample_key =
     \<lparr>rk_source = Source_direct ''s1'',
      rk_selection = \<lparr>ms_name = ''m'', ms_type = MT_histogram, ms_unit = [], ms_attributes = [], ms_series = []\<rparr>,
      rk_from = ''a'', rk_to = ''b'', rk_expanded = True, rk_refreshKey = 0, rk_retryKey = 0\<rparr>"

lemma metric_read_settles_witness:
  "read_settled (query_answered (1, sample_key, sample_window) (Inl ThrownValue) (read_mounted sample_key sample_window))"
proof -
  let ?s = "query_answered (1, sample_key, sample_window) (Inl ThrownValue) (read_mounted sample_key sample_window)"
  have "(read_step (\<lambda>_ _. False) (\<lambda>_ _. False))\<^sup>*\<^sup>* (read_mounted sample_key sample_window) ?s"
    by (rule r_into_rtranclp, rule read_step.answered) (simp_all add: read_mounted_def read_start_def)
  moreover have "\<not> md_pending ?s" by (simp add: query_answered_def read_mounted_def read_start_def)
  ultimately show ?thesis using metric_read_settles by blast
qed

text \<open>C20: The metrics page lists every direct service once, ordered by name, with exactly its metrics,
  their distinct names in order, and the latest instants at which one was measured and received.\<close>

theorem metric_rows_exact:
  assumes "dated catalog"
  shows "mset (map (\<lambda>r. (mv_id r, mv_name r, mv_active r)) (metric_service_rows coll services catalog))
      = mset (map (\<lambda>x. (os_id x, os_name x, os_isActive x)) services)
    \<and> sorted_wrt (by_key (\<lambda>r. coll (mv_name r))) (metric_service_rows coll services catalog)
    \<and> list_all (row_exact coll catalog) (metric_service_rows coll services catalog)"
proof (intro conj3)
  show "mset (map (\<lambda>r. (mv_id r, mv_name r, mv_active r)) (metric_service_rows coll services catalog))
      = mset (map (\<lambda>x. (os_id x, os_name x, os_isActive x)) services)"
    by (simp add: metric_service_rows_def service_row_def multiset.map_comp Let_def comp_def)
qed (simp_all add: metric_service_rows_def asc.sorted_sort list_all_iff service_row_exact assms)

definition sample_service :: "string \<Rightarrow> string \<Rightarrow> observed_service" where
  "sample_service i n =
     \<lparr>os_id = i, os_name = n, os_projectId = None, os_signals = [], os_logLevelFilter = None, os_apiExcludePaths = None,
      os_isActive = True, os_apiKeyMasked = None, os_lastSeenAt = None, os_createdAt = [], os_updatedAt = []\<rparr>"

definition sample_metric :: "string \<Rightarrow> string \<Rightarrow> int \<Rightarrow> int option \<Rightarrow> observed_service_metric_name" where
  "sample_metric i n t r =
     \<lparr>mn_metricName = n, mn_metricType = MT_gauge, mn_unit = None, mn_lastAt = iso_string t, mn_lastReceivedAt = map_option iso_string r,
      mn_description = None, mn_breached = None, mn_conflicting = None, mn_freshSeries = None, om_serviceId = i\<rparr>"

definition sample_catalog :: "observed_service_metric_name list" where
  "sample_catalog =
     [sample_metric ''s1'' ''mem'' 1000 (Some 2000), sample_metric ''s2'' ''hits'' 0 None,
      sample_metric ''s1'' ''cpu'' 2000 (Some 1000), sample_metric ''s1'' ''mem'' 0 None]"

lemma sample_instants:
  "date_parse (iso_string 0) = Some 0" "date_parse (iso_string 1000) = Some 1000" "date_parse (iso_string 2000) = Some 2000"
  by (rule date_parse_iso, simp add: iso_range_def epoch_day_def ms_per_day_def year_start_def)+

lemma sample_texts: "iso_string 0 \<noteq> []" "iso_string 1000 \<noteq> []" "iso_string 2000 \<noteq> []"
  using sample_instants by (auto simp: date_parse_def)

lemma metric_rows_exact_witness:
  "(let rows = metric_service_rows id [sample_service ''s1'' ''web'', sample_service ''s2'' ''api''] sample_catalog in
    map mv_name rows = [''api'', ''web''] \<and> map mv_metricNames rows = [[''hits''], [''cpu'', ''mem'']]
    \<and> map mv_lastMetricAt rows = [Some (iso_string 0), Some (iso_string 2000)]
    \<and> map mv_lastReceivedAt rows = [None, Some (iso_string 2000)] \<and> list_all (row_exact id sample_catalog) rows)"
proof -
  let ?rows = "metric_service_rows id [sample_service ''s1'' ''web'', sample_service ''s2'' ''api''] sample_catalog"
  have d: "dated sample_catalog"
    by (simp add: dated_def received_def sample_catalog_def sample_metric_def sample_instants sample_texts)
  have "list_all (row_exact id sample_catalog) ?rows" using metric_rows_exact [OF d] by blast
  moreover have "map_of (byService sample_catalog) ''s1'' = Some \<lparr>se_names = [''mem'', ''cpu''],
      se_metrics = [sample_metric ''s1'' ''mem'' 1000 (Some 2000), sample_metric ''s1'' ''cpu'' 2000 (Some 1000), sample_metric ''s1'' ''mem'' 0 None],
      se_lastAt = Some (iso_string 2000), se_lastReceivedAt = Some (iso_string 2000)\<rparr>"
    and "map_of (byService sample_catalog) ''s2'' = Some \<lparr>se_names = [''hits''],
      se_metrics = [sample_metric ''s2'' ''hits'' 0 None], se_lastAt = Some (iso_string 0), se_lastReceivedAt = None\<rparr>"
    by (simp_all add: byService_lookup sample_catalog_def sample_metric_def entry_with_def latest_of_def later_def
        sample_instants sample_texts Let_def)
  ultimately show ?thesis
    by (simp add: Let_def) (simp add: metric_service_rows_def service_row_def sample_service_def by_key_def Let_def)
qed

end
