(* ===== verification/EU_JsonText.thy ===== *)
theory EU_JsonText imports EU_Number
begin

text \<open>
  \<open>JSON.parse\<close> undoes \<open>JSON.stringify\<close>: the texts the application keeps in \<open>localStorage\<close>,
  compares as keys of its effects or sends as a body determine the values they were made from.
  The fuel of the reader, twice the length of the text, is enough: a value needs no more than the
  length of its own text.
\<close>

section \<open>Strings\<close>

lemma hex_digit [simp]: "d < 10 \<Longrightarrow> hex_val (digit_char d) = Some d"
  by (simp add: hex_val_def of_char_digit)

lemma hex_letter: "10 \<le> d \<Longrightarrow> d < 16 \<Longrightarrow> hex_val (char_of (87 + d)) = Some d"
  by (simp add: hex_val_def is_digit_def less_eq_char_def)

lemma parse_escaped:
  "parse_chars (json_escape_char c @ s) = map_option (\<lambda>(t, z). (c # t, z)) (parse_chars s)"
proof -
  show ?thesis
  proof (cases "c \<in> set [CHR 0x22, CHR 0x5C, CHR 0x08, CHR 0x0C, CHR 0x0A, CHR 0x0D, CHR 0x09]")
    case True
    then show ?thesis by (auto simp: json_escape_char_def unescape_def)
  next
    case ordinary: False
    show ?thesis
    proof (cases "(of_char c :: nat) < 32")
      case True
      define h l where "h = of_char c div (16 :: nat)" and "l = of_char c mod (16 :: nat)"
      have hl: "of_char c = 16 * h + l" "h < 2" "l < 16" using True by (simp_all add: h_def l_def less_mult_imp_div_less)
      have "hex_val (digit_char h) = Some h" using hl by simp
      moreover have "hex_val (if l < 10 then digit_char l else char_of (87 + l)) = Some l"
        using hl by (simp add: hex_letter)
      moreover have "hex_val CHR ''0'' = Some 0" by (simp add: hex_val_def digit_values)
      moreover have "utf8 (16 * h + l) = [c]" using hl True by (simp add: utf8_def flip: hl(1))
      moreover have "json_escape_char c = [CHR 0x5C, CHR ''u'', CHR ''0'', CHR ''0'', digit_char h,
          if l < 10 then digit_char l else char_of (87 + l)]"
        using ordinary True by (simp add: json_escape_char_def h_def l_def)
      ultimately show ?thesis by simp
    next
      case False
      then show ?thesis using ordinary by (simp add: json_escape_char_def)
    qed
  qed
qed

lemma parse_quoted [simp]: "parse_chars (concat (map json_escape_char s) @ CHR 0x22 # z) = Some (s, z)"
  by (induction s) (simp_all add: parse_escaped)

section \<open>Numbers\<close>

lemma show_nat_head: "1 < length (show_nat n) \<Longrightarrow> hd (show_nat n) \<noteq> CHR ''0''"
proof (induction n rule: show_nat.induct)
  case (1 n)
  show ?case
  proof (cases "n < 10")
    case False
    then have h: "hd (show_nat n) = hd (show_nat (n div 10))" by (simp add: show_nat.simps [of n])
    show ?thesis
    proof (cases "n div 10 < 10")
      case True
      then have "show_nat (n div 10) = [digit_char (n div 10)]" by (simp add: show_nat.simps [of "n div 10"])
      moreover have "digit_char (n div 10) \<noteq> CHR ''0''"
        using True False digit_val_char [of "n div 10"] by (auto simp: digit_val_def div_eq_0_iff)
      ultimately show ?thesis by (simp add: h)
    next
      case big: False
      then have "1 < length (show_nat (n div 10))"
        by (simp add: show_nat.simps [of "n div 10"] Suc_lessI)
      then show ?thesis using 1 False h by simp
    qed
  next
    case True
    then show ?thesis using "1.prems" by (simp add: show_nat.simps [of n])
  qed
qed

lemma digit_number: "is_digit c \<Longrightarrow> number_char c"
  by (simp add: number_char_def)

lemma parse_number_nat: "parse_number (show_nat n) = Some (JInt (int n))"
proof -
  have d: "list_all is_digit (show_nat n)" by (rule show_nat_digits)
  then have "hd (show_nat n) \<noteq> CHR ''-''" by (cases "show_nat n") (auto simp: digit_values)
  moreover have "\<not> (1 < length (show_nat n) \<and> hd (show_nat n) = CHR ''0'')" using show_nat_head by blast
  ultimately show ?thesis
    by (simp add: parse_number_def js_decimal_digits [OF d] Let_def takeWhile_eq_all_conv [THEN iffD2] d [unfolded list_all_iff])
qed

lemma parse_number_neg: "parse_number (CHR ''-'' # show_nat n) = Some (JInt (- int n))"
proof -
  have d: "list_all is_digit (show_nat n)" by (rule show_nat_digits)
  have "\<not> (1 < length (show_nat n) \<and> hd (show_nat n) = CHR ''0'')" using show_nat_head by blast
  then show ?thesis by (simp add: parse_number_def js_decimal_digits [OF d] Let_def takeWhile_eq_all_conv [THEN iffD2] d [unfolded list_all_iff])
qed

lemma parse_number_int: "parse_number (show_int i) = Some (JInt i)"
  by (simp add: show_int_def parse_number_nat parse_number_neg)

lemma show_int_number: "list_all number_char (show_int i) \<and> show_int i \<noteq> [] \<and> (is_digit (hd (show_int i)) \<or> hd (show_int i) = CHR ''-'')"
proof -
  have "list_all number_char (show_nat n)" "is_digit (hd (show_nat n))" for n
    using show_nat_digits [of n] by (auto simp: list_all_iff digit_number)
  then show ?thesis by (simp add: show_int_def number_char_def)
qed

section \<open>Values\<close>

text \<open>A value as JavaScript has it: names occur once, a fraction is the text that prints it.\<close>

fun json_ok :: "json \<Rightarrow> bool" where
  "json_ok (JDec t) \<longleftrightarrow> list_all number_char t \<and> parse_number t = Some (JDec t)"
| "json_ok (JArr xs) \<longleftrightarrow> list_all json_ok xs"
| "json_ok (JObj ps) \<longleftrightarrow> distinct (map fst ps) \<and> list_all (\<lambda>p. json_ok (snd p)) ps"
| "json_ok _ \<longleftrightarrow> True"

text \<open>What can follow a value in a text.\<close>

definition ended :: "string \<Rightarrow> bool" where
  "ended z \<longleftrightarrow> (case z of [] \<Rightarrow> True | c # _ \<Rightarrow> c \<in> set [CHR '','', CHR '']'', CHR ''}''])"

lemma ended_number: "ended z \<Longrightarrow> list_all number_char t \<Longrightarrow> takeWhile number_char (t @ z) = t \<and> dropWhile number_char (t @ z) = z"
  by (cases z) (auto simp: ended_def number_char_def list_all_iff digit_values takeWhile_append2 dropWhile_append2)

lemma parse_value_number:
  assumes "parse_number t = Some v" "list_all number_char t" "ended z"
  shows "parse_value (Suc n) (t @ z) = Some (v, z)"
proof -
  have "t \<noteq> []" using assms(1) by (auto simp: parse_number_def)
  then obtain c r where t: "t = c # r" by (cases t) auto
  then have c: "number_char c" using assms(2) by simp
  then have "\<not> json_space c \<and> c \<notin> set [CHR 0x22, CHR ''['', CHR ''{'', CHR ''n'', CHR ''t'', CHR ''f'']"
    by (auto simp: number_char_def digit_values json_space_def)
  then show ?thesis
    using assms ended_number [OF assms(3,2)] t by (auto simp: skip_space_def starts_with_def)
qed

lemma quote_append: "json_quote k @ z = CHR 0x22 # concat (map json_escape_char k) @ CHR 0x22 # z"
  by (simp add: json_quote_def)

lemma stringify_head:
  "json_ok j \<Longrightarrow> \<exists>c r. stringify j = c # r \<and> \<not> json_space c \<and> c \<noteq> CHR '']''"
proof (cases j)
  case (JInt i)
  then show ?thesis using show_int_number [of i]
    by (cases "show_int i") (auto simp: digit_values json_space_def)
next
  case (JDec t)
  assume "json_ok j"
  then have "list_all number_char t" "t \<noteq> []" using JDec by (auto simp: parse_number_def)
  then show ?thesis using JDec by (cases t) (auto simp: number_char_def digit_values json_space_def)
qed (auto simp: json_space_def json_quote_def)

definition reads :: "json \<Rightarrow> bool" where
  "reads j \<longleftrightarrow> (\<forall>n z. length (stringify j) \<le> n \<longrightarrow> ended z \<longrightarrow> parse_value n (stringify j @ z) = Some (j, z))"

lemma readsD: "reads j \<Longrightarrow> length (stringify j) \<le> n \<Longrightarrow> ended z \<Longrightarrow> parse_value n (stringify j @ z) = Some (j, z)"
  by (simp add: reads_def)

lemma ended_simps [simp]: "ended (CHR '','' # z)" "ended (CHR '']'' # z)" "ended (CHR ''}'' # z)" "ended []"
  by (simp_all add: ended_def)

lemma skip_simps [simp]: "\<not> json_space c \<Longrightarrow> skip_space (c # s) = c # s"
  by (simp add: skip_space_def)

lemma not_spaces [simp]: "\<not> json_space CHR '',''" "\<not> json_space CHR '']''" "\<not> json_space CHR ''}''" "\<not> json_space CHR '':''"
  "\<not> json_space CHR 0x22" "\<not> json_space CHR ''[''" "\<not> json_space CHR ''{''"
  by (simp_all add: json_space_def)

lemma parse_items_join:
  assumes "xs \<noteq> []" "list_all reads xs" "length (join_with '','' (map stringify xs)) < n"
  shows "parse_items n (join_with '','' (map stringify xs) @ CHR '']'' # z) = Some (xs, z)"
  using assms
proof (induction xs arbitrary: n)
  case (Cons x xs)
  then obtain m where n: "n = Suc m" by (cases n) auto
  show ?case
  proof (cases xs)
    case Nil
    then show ?thesis using Cons.prems n by (simp add: readsD)
  next
    case (Cons y ys)
    then have "parse_items m (join_with '','' (map stringify xs) @ CHR '']'' # z) = Some (xs, z)"
      using Cons.IH Cons.prems n by simp
    moreover have "parse_value m (stringify x @ CHR '','' # join_with '','' (map stringify xs) @ CHR '']'' # z)
        = Some (x, CHR '','' # join_with '','' (map stringify xs) @ CHR '']'' # z)"
      using Cons.prems n Cons by (intro readsD) simp_all
    ultimately show ?thesis using n Cons by simp
  qed
qed simp

definition member_text :: "string \<times> json \<Rightarrow> string" where
  "member_text p = json_quote (fst p) @ CHR '':'' # stringify (snd p)"

lemma parse_members_join:
  assumes "ps \<noteq> []" "list_all (\<lambda>p. reads (snd p)) ps" "length (join_with '','' (map member_text ps)) < n"
  shows "parse_members n (join_with '','' (map member_text ps) @ CHR ''}'' # z) = Some (ps, z)"
  using assms
proof (induction ps arbitrary: n)
  case (Cons p ps)
  then obtain m where n: "n = Suc m" by (cases n) auto
  obtain k v where p: "p = (k, v)" by (cases p)
  show ?case
  proof (cases ps)
    case Nil
    then show ?thesis using Cons.prems n p by (simp add: readsD member_text_def quote_append)
  next
    case (Cons q qs)
    then have "parse_members m (join_with '','' (map member_text ps) @ CHR ''}'' # z) = Some (ps, z)"
      using Cons.IH Cons.prems n by simp
    moreover have "parse_value m (stringify v @ CHR '','' # join_with '','' (map member_text ps) @ CHR ''}'' # z)
        = Some (v, CHR '','' # join_with '','' (map member_text ps) @ CHR ''}'' # z)"
      using Cons.prems n Cons p by (intro readsD) (simp_all add: member_text_def)
    ultimately show ?thesis using n Cons p by (simp add: member_text_def [of "(k, v)"] quote_append)
  qed
qed simp

lemma map_from_id: "distinct (map fst ps) \<Longrightarrow> map_from ps = ps"
proof -
  have "distinct (map fst (m @ ps)) \<Longrightarrow> foldl (\<lambda>m (k, v). AList.update k v m) m ps = m @ ps" for m
  proof (induction ps arbitrary: m)
    case (Cons p ps)
    have "AList.update k v m = m @ [(k, v)]" if "k \<notin> fst ` set m" for k v
      using that by (induction m) auto
    then show ?case using Cons.IH [of "m @ [p]"] Cons.prems by (cases p) auto
  qed simp
  from this [of "[]"] show "distinct (map fst ps) \<Longrightarrow> map_from ps = ps" by (simp add: map_from_def)
qed

lemma stringify_obj: "stringify (JObj ps) = CHR ''{'' # join_with '','' (map member_text ps) @ ''}''"
  by (simp add: member_text_def [abs_def] case_prod_unfold)

lemma reads_ok: "json_ok j \<Longrightarrow> reads j"
proof (induction j)
  case (JDec t)
  then have "t \<noteq> []" by (auto simp: parse_number_def)
  with JDec show ?case unfolding reads_def
    by (metis parse_value_number json_ok.simps(1) stringify.simps(4) Suc_le_D length_Suc_conv neq_Nil_conv)
next
  case (JInt i)
  show ?case unfolding reads_def
    by (metis parse_value_number parse_number_int show_int_number stringify.simps(3) Suc_le_D length_Suc_conv neq_Nil_conv)
next
  case (JStr s)
  show ?case unfolding reads_def
  proof (intro allI impI)
    fix n z assume "length (stringify (JStr s)) \<le> n"
    then obtain m where "n = Suc m" by (cases n) (auto simp: json_quote_def)
    then show "parse_value n (stringify (JStr s) @ z) = Some (JStr s, z)" by (simp add: quote_append)
  qed
next
  case (JArr xs)
  then have r: "list_all reads xs" by (auto simp: list_all_iff)
  show ?case unfolding reads_def
  proof (intro allI impI)
    fix n z assume n: "length (stringify (JArr xs)) \<le> n"
    then obtain m where m: "n = Suc m" by (cases n) auto
    show "parse_value n (stringify (JArr xs) @ z) = Some (JArr xs, z)"
    proof (cases xs)
      case Nil
      then show ?thesis by (simp add: m)
    next
      case (Cons x ys)
      with JArr.prems obtain c t where "stringify x = c # t" "\<not> json_space c" "c \<noteq> CHR '']''"
        using stringify_head [of x] by auto
      then have "\<exists>t. join_with '','' (map stringify xs) = c # t" using Cons by (cases ys) auto
      then obtain t' where t': "join_with '','' (map stringify xs) = c # t'" ..
      have "parse_items m (join_with '','' (map stringify xs) @ CHR '']'' # z) = Some (xs, z)"
        by (rule parse_items_join) (use Cons r n m in simp_all)
      then show ?thesis using t' \<open>\<not> json_space c\<close> \<open>c \<noteq> CHR '']''\<close> by (simp add: m)
    qed
  qed
next
  case (JObj ps)
  then have r: "list_all (\<lambda>p. reads (snd p)) ps"
    by (auto simp: list_all_iff snds.simps)
  show ?case unfolding reads_def
  proof (intro allI impI)
    fix n z assume n: "length (stringify (JObj ps)) \<le> n"
    then obtain m where m: "n = Suc m" by (cases n) auto
    show "parse_value n (stringify (JObj ps) @ z) = Some (JObj ps, z)"
    proof (cases ps)
      case Nil
      then show ?thesis by (simp add: m)
    next
      case (Cons p qs)
      then have "\<exists>t. join_with '','' (map member_text ps) = CHR 0x22 # t"
        by (cases qs) (auto simp: member_text_def json_quote_def)
      then obtain t' where t': "join_with '','' (map member_text ps) = CHR 0x22 # t'" ..
      have "parse_members m (join_with '','' (map member_text ps) @ CHR ''}'' # z) = Some (ps, z)"
        by (rule parse_members_join) (use Cons r n m in \<open>simp_all add: stringify_obj del: stringify.simps\<close>)
      then show ?thesis using t' JObj.prems by (simp add: m stringify_obj map_from_id del: stringify.simps)
    qed
  qed
next
  case (JBool b)
  show ?case unfolding reads_def
    by (intro allI impI, case_tac n) (auto simp: starts_with_def json_space_def split: if_splits)
next
  case JNull
  show ?case unfolding reads_def
    by (intro allI impI, case_tac n) (auto simp: starts_with_def json_space_def)
qed

theorem json_round_trip: "json_ok j \<Longrightarrow> json_parse (stringify j) = Some j"
  using readsD [OF reads_ok, of j "2 * length (stringify j) + 2" "[]"] by (simp add: json_parse_def skip_space_def)

corollary stringify_inject: "json_ok x \<Longrightarrow> json_ok y \<Longrightarrow> stringify x = stringify y \<longleftrightarrow> x = y"
  using json_round_trip by (metis option.inject)

end
