(* ===== verification/EU_Session.thy ===== *)
theory EU_Session imports EU_JsonText EU_Request
begin

text \<open>
  What outlives a page: the signed-in user (\<open>contexts/AuthContext.tsx\<close>, \<open>pages/auth/LoginPage.tsx\<close>
  and \<open>ProtectedRoute\<close> of \<open>App.tsx\<close>), the theme (\<open>contexts/ThemeContext.tsx\<close>) and the reload flag
  of \<open>utils/lazyWithRetry.ts\<close>.

  \<open>browser\<close> is the state \<open>request\<close> works on (\<open>EU_Request\<close>).  The locale \<open>persistent\<close> is the contract
  of a value kept in a store: what the page holds is at any time what a reload would restore.
\<close>

locale persistent =
  fixes restore :: "'e \<Rightarrow> 'v"
    and env :: "'s \<Rightarrow> 'e"
    and val :: "'s \<Rightarrow> 'v"
    and step :: "'s \<Rightarrow> 's \<Rightarrow> bool"
  assumes step_restores: "step s s' \<Longrightarrow> val s = restore (env s) \<Longrightarrow> val s' = restore (env s')"
begin

lemma reach_restores: "step\<^sup>*\<^sup>* s s' \<Longrightarrow> val s = restore (env s) \<Longrightarrow> val s' = restore (env s')"
  by (induction rule: rtranclp_induct) (auto intro: step_restores)

end

section \<open>The signed-in user (AuthContext)\<close>

definition USER_STORAGE_KEY :: string where "USER_STORAGE_KEY = ''everyup_user''"
definition LEGACY_TOKEN_KEY :: string where "LEGACY_TOKEN_KEY = ''everyup_jwt_token''"

record user =
  us_user_id :: int
  us_username :: string
  us_role :: string

definition user_json :: "user \<Rightarrow> json" where
  "user_json u = JObj [(''user_id'', JInt (us_user_id u)), (''username'', JStr (us_username u)), (''role'', JStr (us_role u))]"

record session =
  ss_browser :: browser
  ss_user :: json
  ss_sent :: "(string \<times> string) list"

text \<open>The initial value: the stored text, parsed; \<open>null\<close> without one or when it is no JSON.\<close>

definition stored_user :: "browser \<Rightarrow> json" where
  "stored_user b =
     (case map_of (localStorage b) USER_STORAGE_KEY of
        None \<Rightarrow> JNull
      | Some t \<Rightarrow> if t = [] then JNull else (case json_parse t of Some j \<Rightarrow> j | None \<Rightarrow> JNull))"

definition session_start :: "browser \<Rightarrow> session" where
  "session_start b = \<lparr>ss_browser = b, ss_user = stored_user b, ss_sent = []\<rparr>"

definition setItem :: "string \<Rightarrow> string \<Rightarrow> browser \<Rightarrow> browser" where
  "setItem k v b = b\<lparr>localStorage := AList.update k v (localStorage b)\<rparr>"

definition removeItem :: "string \<Rightarrow> browser \<Rightarrow> browser" where
  "removeItem k b = b\<lparr>localStorage := AList.delete k (localStorage b)\<rparr>"

text \<open>\<open>login\<close> with the reply's \<open>data\<close>; without one \<open>setItem\<close> stores the text of \<open>undefined\<close>.\<close>

definition login :: "json option \<Rightarrow> session \<Rightarrow> session" where
  "login newUser s =
     s\<lparr>ss_browser := removeItem LEGACY_TOKEN_KEY
         (setItem USER_STORAGE_KEY (case newUser of Some u \<Rightarrow> stringify u | None \<Rightarrow> ''undefined'') (ss_browser s)),
       ss_user := (case newUser of Some u \<Rightarrow> u | None \<Rightarrow> JNull)\<rparr>"

definition logout :: "env \<Rightarrow> session \<Rightarrow> session" where
  "logout e s =
     s\<lparr>ss_browser := removeItem LEGACY_TOKEN_KEY (removeItem USER_STORAGE_KEY (ss_browser s)),
       ss_sent := ss_sent s @ [(''POST'', apiBaseUrl e @ ''/auth/logout'')], ss_user := JNull\<rparr>"

fun js_truthy :: "json \<Rightarrow> bool" where
  "js_truthy JNull \<longleftrightarrow> False"
| "js_truthy (JBool b) \<longleftrightarrow> b"
| "js_truthy (JInt i) \<longleftrightarrow> i \<noteq> 0"
| "js_truthy (JStr t) \<longleftrightarrow> t \<noteq> []"
| "js_truthy _ \<longleftrightarrow> True"

definition isAuthenticated :: "session \<Rightarrow> bool" where
  "isAuthenticated s \<longleftrightarrow> js_truthy (ss_user s)"

section \<open>The guarded routes (App) and the login page\<close>

datatype route_view = Shown | Redirect string "string option"

definition ProtectedRoute :: "env \<Rightarrow> session \<Rightarrow> string \<Rightarrow> route_view" where
  "ProtectedRoute e s pathname =
     (if isDemoMode e then Shown
      else if isAuthenticated s then Shown else Redirect ''/login'' (Some pathname))"

definition login_route :: "env \<Rightarrow> route_view" where
  "login_route e = (if isDemoMode e then Redirect ''/'' None else Shown)"

definition login_target :: "string option \<Rightarrow> string" where
  "login_target rawFrom =
     (if truthy rawFrom \<and> starts_with ''/'' (the rawFrom) \<and> \<not> starts_with ''//'' (the rawFrom) then the rawFrom else ''/'')"

record login_form =
  lf_from :: string
  lf_needsSetup :: "json option"
  lf_username :: string
  lf_password :: string
  lf_loading :: bool
  lf_error :: string
  lf_showForgot :: bool

definition login_opened :: "string option \<Rightarrow> login_form" where
  "login_opened rawFrom =
     \<lparr>lf_from = login_target rawFrom, lf_needsSetup = Some JNull, lf_username = [], lf_password = [], lf_loading = False,
      lf_error = [], lf_showForgot = False\<rparr>"

definition NO_SERVER :: string where
  "NO_SERVER = ([CHR 0xEC, CHR 0x84, CHR 0x9C, CHR 0xEB, CHR 0xB2, CHR 0x84, CHR 0xEC, CHR 0x97, CHR 0x90] @ '' '' @ [CHR 0xEC, CHR 0x97, CHR 0xB0, CHR 0xEA, CHR 0xB2, CHR 0xB0, CHR 0xED, CHR 0x95, CHR 0xA0] @ '' '' @ [CHR 0xEC, CHR 0x88, CHR 0x98] @ '' '' @ [CHR 0xEC, CHR 0x97, CHR 0x86, CHR 0xEC, CHR 0x8A, CHR 0xB5, CHR 0xEB, CHR 0x8B, CHR 0x88, CHR 0xEB, CHR 0x8B, CHR 0xA4] @ ''. '' @ [CHR 0xEB, CHR 0xB0, CHR 0xB1, CHR 0xEC, CHR 0x97, CHR 0x94, CHR 0xEB, CHR 0x93, CHR 0x9C, CHR 0xEA, CHR 0xB0, CHR 0x80] @ '' '' @ [CHR 0xEC, CHR 0x8B, CHR 0xA4, CHR 0xED, CHR 0x96, CHR 0x89] @ '' '' @ [CHR 0xEC, CHR 0xA4, CHR 0x91, CHR 0xEC, CHR 0x9D, CHR 0xB8, CHR 0xEC, CHR 0xA7, CHR 0x80] @ '' '' @ [CHR 0xED, CHR 0x99, CHR 0x95, CHR 0xEC, CHR 0x9D, CHR 0xB8, CHR 0xED, CHR 0x95, CHR 0x98, CHR 0xEC, CHR 0x84, CHR 0xB8, CHR 0xEC, CHR 0x9A, CHR 0x94] @ ''.'')"

definition LOGIN_FAILED :: string where
  "LOGIN_FAILED = ([CHR 0xEC, CHR 0x98, CHR 0xA4, CHR 0xEB, CHR 0xA5, CHR 0x98, CHR 0xEA, CHR 0xB0, CHR 0x80] @ '' '' @ [CHR 0xEB, CHR 0xB0, CHR 0x9C, CHR 0xEC, CHR 0x83, CHR 0x9D, CHR 0xED, CHR 0x96, CHR 0x88, CHR 0xEC, CHR 0x8A, CHR 0xB5, CHR 0xEB, CHR 0x8B, CHR 0x88, CHR 0xEB, CHR 0x8B, CHR 0xA4])"

definition given :: "json option \<Rightarrow> bool" where
  "given v \<longleftrightarrow> (case v of Some j \<Rightarrow> js_truthy j | None \<Rightarrow> False)"

text \<open>
  The first-run check: what \<open>r.json()\<close> resolves to, or its failure; a property of \<open>null\<close> or
  \<open>undefined\<close> throws, which the handler catches.
\<close>

definition needs_setup_loaded :: "thrown + json \<Rightarrow> login_form \<Rightarrow> login_form" where
  "needs_setup_loaded r f =
     (case r of
        Inl _ \<Rightarrow> f\<lparr>lf_error := NO_SERVER\<rparr>
      | Inr j \<Rightarrow>
          if j = JNull then f\<lparr>lf_error := NO_SERVER\<rparr>
          else if \<not> given (jget j ''success'') then f
          else (case jget j ''data'' of
              None \<Rightarrow> f\<lparr>lf_error := NO_SERVER\<rparr>
            | Some d \<Rightarrow> if d = JNull then f\<lparr>lf_error := NO_SERVER\<rparr> else f\<lparr>lf_needsSetup := jget d ''needs_setup''\<rparr>))"

definition login_waits :: "login_form \<Rightarrow> bool" where
  "login_waits f \<longleftrightarrow> lf_needsSetup f = Some JNull \<and> lf_error f = []"

definition isSetup :: "login_form \<Rightarrow> bool" where
  "isSetup f \<longleftrightarrow> lf_needsSetup f = Some (JBool True)"

datatype login_event = Type_username string | Type_password string | Toggle_forgot

fun login_edit :: "login_event \<Rightarrow> login_form \<Rightarrow> login_form" where
  "login_edit (Type_username v) f = f\<lparr>lf_username := v, lf_error := []\<rparr>"
| "login_edit (Type_password v) f = f\<lparr>lf_password := v, lf_error := []\<rparr>"
| "login_edit Toggle_forgot f = f\<lparr>lf_showForgot := \<not> lf_showForgot f\<rparr>"

text \<open>\<open>handleSubmit\<close>: the request it sends, and what its reply does to the form, the session and the place.\<close>

definition login_submit :: "env \<Rightarrow> login_form \<Rightarrow> login_form \<times> string \<times> fetch_init" where
  "login_submit e f =
     (f\<lparr>lf_loading := True, lf_error := []\<rparr>,
      apiBaseUrl e @ (if given (lf_needsSetup f) then ''/auth/setup'' else ''/auth/login''),
      \<lparr>fi_credentials = ''include'', fi_headers = [(''Content-Type'', ''application/json'')], fi_method = Some ''POST'',
       fi_body = Some (JObj [(''username'', JStr (lf_username f)), (''password'', JStr (lf_password f))])\<rparr>)"

definition reply_message :: "json \<Rightarrow> string" where
  "reply_message j =
     (case jget j ''error'' of
        None \<Rightarrow> LOGIN_FAILED
      | Some x \<Rightarrow> (case jget x ''message'' of Some (JStr m) \<Rightarrow> if m \<noteq> [] then m else LOGIN_FAILED | _ \<Rightarrow> LOGIN_FAILED))"

definition login_answered :: "thrown + json \<Rightarrow> login_form \<times> session \<Rightarrow> login_form \<times> session \<times> string option" where
  "login_answered r fs =
     (let (f, s) = fs in
      case r of
        Inl _ \<Rightarrow> (f\<lparr>lf_error := NO_SERVER, lf_loading := False\<rparr>, s, None)
      | Inr j \<Rightarrow>
          if j = JNull then (f\<lparr>lf_error := NO_SERVER, lf_loading := False\<rparr>, s, None)
          else if given (jget j ''success'') then (f, login (jget j ''data'') s, Some (lf_from f))
          else (f\<lparr>lf_error := reply_message j, lf_loading := False\<rparr>, s, None))"

section \<open>The life of a session\<close>

text \<open>
  A 401 sends the browser to the login page, which starts the application anew; other replies
  leave the page running.
\<close>

inductive session_step :: "env \<Rightarrow> session \<Rightarrow> session \<Rightarrow> bool" for e where
  login: "pred_option json_ok u \<Longrightarrow> session_step e s (login u s)"
| logout: "session_step e s (logout e s)"
| expired: "rp_status (r :: json http_reply) = 401 \<Longrightarrow> session_step e s (session_start (fst (handle_reply (ss_browser s) r)))"
| replied: "rp_status (r :: json http_reply) \<noteq> 401 \<Longrightarrow> session_step e s (s\<lparr>ss_browser := fst (handle_reply (ss_browser s) r)\<rparr>)"
| reload: "session_step e s (session_start (ss_browser s))"

lemma stored_user_login [simp]:
  "json_ok u \<Longrightarrow> stored_user (ss_browser (login (Some u) s)) = u"
proof -
  assume ok: "json_ok u"
  then obtain c r where "stringify u = c # r" using stringify_head by blast
  then show ?thesis
    using json_round_trip [OF ok]
    by (simp add: login_def stored_user_def setItem_def removeItem_def USER_STORAGE_KEY_def LEGACY_TOKEN_KEY_def)
qed

lemma stored_user_undefined [simp]: "stored_user (ss_browser (login None s)) = JNull"
proof -
  have "json_parse ''undefined'' = None" by (code_simp)
  then show ?thesis
    by (simp add: login_def stored_user_def setItem_def removeItem_def USER_STORAGE_KEY_def LEGACY_TOKEN_KEY_def)
qed

lemma stored_user_logout [simp]: "stored_user (ss_browser (logout e s)) = JNull"
  by (simp add: logout_def stored_user_def removeItem_def USER_STORAGE_KEY_def LEGACY_TOKEN_KEY_def)

lemma stored_user_expired [simp]: "rp_status r = 401 \<Longrightarrow> stored_user (fst (handle_reply b r)) = JNull"
  by (simp add: handle_reply_401 stored_user_def USER_STORAGE_KEY_def)

lemma login_user [simp]: "ss_user (login u s) = (case u of Some u \<Rightarrow> u | None \<Rightarrow> JNull)" "ss_user (logout e s) = JNull"
  by (simp_all add: login_def logout_def)

lemma session_start_fields [simp]: "ss_user (session_start b) = stored_user b" "ss_browser (session_start b) = b"
  by (simp_all add: session_start_def)

interpretation signed_in: persistent stored_user ss_browser ss_user "session_step e" for e
proof unfold_locales
  fix s s' assume "session_step e s s'" "ss_user s = stored_user (ss_browser s)"
  then show "ss_user s' = stored_user (ss_browser s')"
  proof cases
    case (login u)
    then show ?thesis by (cases u) simp_all
  next
    case (replied r)
    then show ?thesis using \<open>ss_user s = _\<close> by (simp add: handle_reply_browser)
  qed simp_all
qed

lemma login_target_local: "starts_with ''/'' (login_target p) \<and> \<not> starts_with ''//'' (login_target p)"
  by (cases p) (auto simp: login_target_def starts_with_def)

section \<open>The theme (ThemeContext)\<close>

record theme_state =
  th_stored :: "string option"
  th_systemDark :: bool
  th_theme :: string
  th_darkClass :: bool

definition system_theme :: "bool \<Rightarrow> string" where
  "system_theme dark = (if dark then ''dark'' else ''light'')"

definition initial_theme :: "string option \<times> bool \<Rightarrow> string" where
  "initial_theme = (\<lambda>(stored, dark). if truthy stored then the stored else system_theme dark)"

text \<open>A render with a new theme, and the effect that puts it on the document.\<close>

definition with_theme :: "string \<Rightarrow> theme_state \<Rightarrow> theme_state" where
  "with_theme t s = s\<lparr>th_theme := t, th_darkClass := (t = ''dark'')\<rparr>"

definition theme_start :: "string option \<Rightarrow> bool \<Rightarrow> theme_state" where
  "theme_start stored dark =
     with_theme (initial_theme (stored, dark)) \<lparr>th_stored = stored, th_systemDark = dark, th_theme = [], th_darkClass = False\<rparr>"

definition followSystem :: "bool \<Rightarrow> theme_state \<Rightarrow> theme_state" where
  "followSystem dark s =
     (let s = s\<lparr>th_systemDark := dark\<rparr> in if \<not> truthy (th_stored s) then with_theme (system_theme dark) s else s)"

definition setTheme :: "string \<Rightarrow> theme_state \<Rightarrow> theme_state" where
  "setTheme t s = with_theme t (s\<lparr>th_stored := Some t\<rparr>)"

definition toggleTheme :: "theme_state \<Rightarrow> theme_state" where
  "toggleTheme s = setTheme (if th_theme s = ''light'' then ''dark'' else ''light'') s"

inductive theme_step :: "theme_state \<Rightarrow> theme_state \<Rightarrow> bool" where
  system: "theme_step s (followSystem dark s)"
| set: "t \<in> {''light'', ''dark''} \<Longrightarrow> theme_step s (setTheme t s)"
| toggle: "theme_step s (toggleTheme s)"
| reload: "theme_step s (theme_start (th_stored s) (th_systemDark s))"

interpretation theme_kept: persistent
    "\<lambda>(stored, dark). (initial_theme (stored, dark), initial_theme (stored, dark) = ''dark'')"
    "\<lambda>s. (th_stored s, th_systemDark s)" "\<lambda>s. (th_theme s, th_darkClass s)" theme_step
proof unfold_locales
  fix s s' assume "theme_step s s'"
    and "(th_theme s, th_darkClass s)
      = (case (th_stored s, th_systemDark s) of (stored, dark) \<Rightarrow> (initial_theme (stored, dark), initial_theme (stored, dark) = ''dark''))"
  then show "(th_theme s', th_darkClass s')
      = (case (th_stored s', th_systemDark s') of (stored, dark) \<Rightarrow> (initial_theme (stored, dark), initial_theme (stored, dark) = ''dark''))"
    by cases (auto simp: followSystem_def setTheme_def toggleTheme_def theme_start_def with_theme_def initial_theme_def Let_def)
qed

section \<open>Reloading for a missing chunk (lazyWithRetry)\<close>

definition RELOAD_FLAG :: string where "RELOAD_FLAG = ''chunk-reload-attempted''"

definition chunk_messages :: "string list" where
  "chunk_messages =
     [''Loading chunk'', ''Failed to fetch dynamically imported module'',
      ''error loading dynamically imported module'', ''Importing a module script failed'']"

definition isChunkLoadError :: "thrown \<Rightarrow> bool" where
  "isChunkLoadError e =
     (case e of
        JsError name msg \<Rightarrow> name = ''ChunkLoadError'' \<or> list_ex (\<lambda>m. str_includes (to_lower m) (to_lower msg)) chunk_messages
      | ApiError msg _ _ \<Rightarrow> list_ex (\<lambda>m. str_includes (to_lower m) (to_lower msg)) chunk_messages
      | ThrownValue \<Rightarrow> False)"

text \<open>The page waits (\<open>None\<close>) once it has asked for its reload.\<close>

record tab =
  tab_storage :: "(string \<times> string) list"
  tab_reloads :: nat

definition lazyWithRetry :: "thrown + 'm \<Rightarrow> tab \<Rightarrow> tab \<times> (thrown + 'm) option" where
  "lazyWithRetry r s =
     (case r of
        Inr m \<Rightarrow> (s\<lparr>tab_storage := AList.delete RELOAD_FLAG (tab_storage s)\<rparr>, Some (Inr m))
      | Inl e \<Rightarrow>
          if \<not> isChunkLoadError e then (s, Some (Inl e))
          else if truthy (map_of (tab_storage s) RELOAD_FLAG) then (s, Some (Inl e))
          else (s\<lparr>tab_storage := AList.update RELOAD_FLAG ''1'' (tab_storage s), tab_reloads := Suc (tab_reloads s)\<rparr>, None))"

definition load_all :: "(thrown + 'm) list \<Rightarrow> tab \<Rightarrow> tab" where
  "load_all rs s = foldl (\<lambda>s r. fst (lazyWithRetry r s)) s rs"

definition flag_up :: "tab \<Rightarrow> bool" where
  "flag_up s \<longleftrightarrow> truthy (map_of (tab_storage s) RELOAD_FLAG)"

definition loaded :: "(thrown + 'm) list \<Rightarrow> nat" where
  "loaded rs = length (filter (\<lambda>r. case r of Inr _ \<Rightarrow> True | Inl _ \<Rightarrow> False) rs)"

lemma load_step:
  "flag_up (fst (lazyWithRetry r s)) = (case r of Inr _ \<Rightarrow> False | Inl e \<Rightarrow> flag_up s \<or> isChunkLoadError e)"
  "tab_reloads (fst (lazyWithRetry r s))
   = tab_reloads s + (case r of Inr _ \<Rightarrow> 0 | Inl e \<Rightarrow> if isChunkLoadError e \<and> \<not> flag_up s then 1 else 0)"
  by (auto simp: lazyWithRetry_def flag_up_def split: sum.splits)

lemma reloads_bound:
  "tab_reloads (load_all rs s) + (if flag_up s then 1 else 0)
   \<le> tab_reloads s + loaded rs + (if flag_up (load_all rs s) then 1 else 0)"
proof (induction rs arbitrary: s)
  case (Cons r rs)
  from Cons.IH [of "fst (lazyWithRetry r s)"] show ?case
    by (cases r) (auto simp: load_all_def loaded_def load_step split: if_splits)
qed (simp add: load_all_def)

section \<open>Sessions, themes and reloads as a whole\<close>

text \<open>C24: However one signs in and out, replies arrive, sessions expire and pages reload, a reload keeps
  exactly the user the page shows; signing in gives the user the server named, and after signing
  out or an expired session neither the page nor a reload is signed in.\<close>

theorem session_kept:
  assumes "(session_step e)\<^sup>*\<^sup>* (session_start b) s" "json_ok u" "rp_status (r :: json http_reply) = 401"
  shows "ss_user (session_start (ss_browser s)) = ss_user s
    \<and> ss_user (session_start (ss_browser (login (Some u) s))) = u
    \<and> (let s' = session_start (ss_browser (logout e s)); s'' = session_start (fst (handle_reply (ss_browser s) r)) in
        \<not> isAuthenticated (logout e s) \<and> \<not> isAuthenticated s' \<and> \<not> isAuthenticated s'')"
  using signed_in.reach_restores [OF assms(1)] assms(2,3) by (simp add: isAuthenticated_def)

lemma session_kept_witness:
  "ss_user (session_start (ss_browser (login (Some (user_json \<lparr>us_user_id = 1, us_username = ''admin'', us_role = ''admin''\<rparr>))
     (session_start \<lparr>localStorage = [], location_href = ''/''\<rparr>))))
   = user_json \<lparr>us_user_id = 1, us_username = ''admin'', us_role = ''admin''\<rparr>"
proof -
  let ?e = "make_env \<lparr>VITE_USE_MOCK = None, VITE_DEMO_MODE = None, VITE_API_BASE_URL = None\<rparr>"
  have "json_ok (user_json \<lparr>us_user_id = 1, us_username = ''admin'', us_role = ''admin''\<rparr>)" by (simp add: user_json_def)
  with session_kept [where e = ?e and r = "\<lparr>rp_status = 401, rp_json = None\<rparr>", OF rtranclp.rtrancl_refl] show ?thesis by simp
qed

text \<open>The theme shown, and the class on the document, are at any time the one the user chose last,
  or the system's while none has been chosen.\<close>

theorem theme_kept_or_system:
  assumes "theme_step\<^sup>*\<^sup>* (theme_start stored dark) s"
  shows "th_theme s = (if truthy (th_stored s) then the (th_stored s) else if th_systemDark s then ''dark'' else ''light'')
    \<and> th_darkClass s = (th_theme s = ''dark'')"
  using theme_kept.reach_restores [OF assms]
  by (auto simp: theme_start_def with_theme_def initial_theme_def system_theme_def)

text \<open>Loading pages never reloads the tab more often than once plus once per page that did load, and a
  chunk missing after a reload is reported instead of reloading again.\<close>

theorem reloads_bounded:
  "tab_reloads (load_all rs \<lparr>tab_storage = st, tab_reloads = 0\<rparr>) \<le> loaded rs + 1
    \<and> (let s = fst (lazyWithRetry (Inl x) s\<^sub>0) in
        if isChunkLoadError x then lazyWithRetry (Inl y :: thrown + 'm) s = (s, Some (Inl y)) else s = s\<^sub>0)"
proof
  show "tab_reloads (load_all rs \<lparr>tab_storage = st, tab_reloads = 0\<rparr>) \<le> loaded rs + 1"
    using reloads_bound [of rs "\<lparr>tab_storage = st, tab_reloads = 0\<rparr>"] by (simp split: if_splits)
qed (simp add: lazyWithRetry_def Let_def)

end
