(* ===== verification/EU_Shell.thy ===== *)
theory EU_Shell imports EU_Nav EU_AgentTypes EU_Url EU_Errors
begin

text \<open>
  The frame around every page: breadcrumbs (\<open>contexts/BreadcrumbContext.tsx\<close>), the command palette
  (\<open>components/layout/CommandPalette.tsx\<close>), the keyboard behaviour of dialogs
  (\<open>hooks/useOverlay.ts\<close>, \<open>hooks/useModalDialog.ts\<close>), and the small hooks \<open>useAutoRefresh\<close>,
  \<open>useNetworkStatus\<close>, \<open>useSpinAction\<close> and \<open>useClipboardCopy\<close>.
\<close>

section \<open>Breadcrumbs\<close>

record crumb =
  cr_label :: string
  cr_to :: "string option"

definition crumb_key :: "crumb list \<Rightarrow> string" where
  "crumb_key crumbs =
     join_with [CHR 0x01] (map (\<lambda>c. cr_label c @ CHR 0x00 # (case cr_to c of Some t \<Rightarrow> t | None \<Rightarrow> [])) crumbs)"

definition crumb_of :: "string \<Rightarrow> crumb" where
  "crumb_of part =
     (case split_on CHR 0x00 part of
        label # to # _ \<Rightarrow> \<lparr>cr_label = label, cr_to = (if to \<noteq> [] then Some to else None)\<rparr>
      | [label] \<Rightarrow> \<lparr>cr_label = label, cr_to = None\<rparr>
      | [] \<Rightarrow> \<lparr>cr_label = [], cr_to = None\<rparr>)"

definition applied_crumbs :: "string \<Rightarrow> crumb list" where
  "applied_crumbs key = (if key = [] then [] else map crumb_of (split_on CHR 0x01 key))"

text \<open>The trail the header reads: what a mounted page declared, nothing once it is unmounted.\<close>

definition useBreadcrumb :: "crumb list \<Rightarrow> crumb list option" where
  "useBreadcrumb crumbs = Some (applied_crumbs (crumb_key crumbs))"

definition leave_page :: "crumb list option \<Rightarrow> crumb list option" where
  "leave_page trail = None"

definition crumb_plain :: "crumb \<Rightarrow> bool" where
  "crumb_plain c \<longleftrightarrow>
     CHR 0x00 \<notin> set (cr_label c) \<and> CHR 0x01 \<notin> set (cr_label c)
     \<and> pred_option (\<lambda>t. t \<noteq> [] \<and> CHR 0x00 \<notin> set t \<and> CHR 0x01 \<notin> set t) (cr_to c)"

lemma crumb_round: "crumb_plain c \<Longrightarrow> crumb_of (cr_label c @ CHR 0x00 # (case cr_to c of Some t \<Rightarrow> t | None \<Rightarrow> [])) = c"
  by (cases c; cases "cr_to c") (auto simp: crumb_plain_def crumb_of_def split_on_append split_on_free)

lemma crumb_text: "crumb_plain c \<Longrightarrow> CHR 0x01 \<notin> set (cr_label c @ CHR 0x00 # (case cr_to c of Some t \<Rightarrow> t | None \<Rightarrow> []))"
  by (cases "cr_to c") (auto simp: crumb_plain_def)

theorem breadcrumb_kept:
  assumes "list_all crumb_plain crumbs"
  shows "useBreadcrumb crumbs = Some crumbs"
proof (cases "crumbs = []")
  case True
  then show ?thesis by (simp add: useBreadcrumb_def crumb_key_def applied_crumbs_def)
next
  case False
  let ?f = "\<lambda>c :: crumb. cr_label c @ CHR 0x00 # (case cr_to c of Some t \<Rightarrow> t | None \<Rightarrow> [])"
  have "list_all (\<lambda>x. CHR 0x01 \<notin> set x) (map ?f crumbs)"
    using assms crumb_text by (auto simp: list_all_iff)
  then have "split_on CHR 0x01 (crumb_key crumbs) = map ?f crumbs"
    unfolding crumb_key_def using False by (intro split_join) simp_all
  moreover have "crumb_key crumbs \<noteq> []"
    using False by (cases crumbs rule: list.exhaust; cases "tl crumbs") (auto simp: crumb_key_def)
  moreover have "map (crumb_of \<circ> ?f) crumbs = crumbs"
    using assms by (intro map_idI) (auto simp: list_all_iff crumb_round)
  ultimately show ?thesis by (simp add: useBreadcrumb_def applied_crumbs_def)
qed

section \<open>Focus in a dialog\<close>

datatype key = Escape | Tab | Other_key

datatype 'e reaction = Closes | Focuses 'e | Browser

text \<open>The controls are what the query selector finds, in document order.\<close>

definition trap_tab :: "bool \<Rightarrow> 'e list \<Rightarrow> 'e \<Rightarrow> 'e \<Rightarrow> 'e reaction" where
  "trap_tab shift controls dialog active =
     (if controls = [] then Focuses dialog
      else if shift \<and> active = hd controls then Focuses (last controls)
      else if \<not> shift \<and> active = last controls then Focuses (hd controls)
      else Browser)"

definition overlay_key :: "key \<Rightarrow> bool \<Rightarrow> 'e list \<Rightarrow> 'e option \<Rightarrow> 'e \<Rightarrow> 'e reaction" where
  "overlay_key k shift controls overlay active =
     (if k = Escape then Closes
      else (case overlay of Some d \<Rightarrow> if k = Tab then trap_tab shift controls d active else Browser | None \<Rightarrow> Browser))"

definition modal_key :: "key \<Rightarrow> bool \<Rightarrow> 'e list \<Rightarrow> 'e \<Rightarrow> 'e \<Rightarrow> 'e reaction" where
  "modal_key k shift controls dialog active = (if k = Tab then trap_tab shift controls dialog active else Browser)"

definition focusFirst :: "'e list \<Rightarrow> 'e \<Rightarrow> 'e" where
  "focusFirst controls overlay = (case controls of [] \<Rightarrow> overlay | c # _ \<Rightarrow> c)"

text \<open>The browser's own move along the tab order of the page.\<close>

fun after_in :: "'e list \<Rightarrow> 'e \<Rightarrow> 'e" where
  "after_in (x # y # ys) a = (if x = a then y else after_in (y # ys) a)"
| "after_in _ a = a"

definition tab_moves :: "bool \<Rightarrow> 'e list \<Rightarrow> 'e \<Rightarrow> 'e" where
  "tab_moves shift order a = (if shift then after_in (rev order) a else after_in order a)"

definition focus_after :: "bool \<Rightarrow> 'e list \<Rightarrow> 'e list \<Rightarrow> 'e \<Rightarrow> 'e \<Rightarrow> 'e" where
  "focus_after shift order controls dialog a =
     (case trap_tab shift controls dialog a of Focuses e \<Rightarrow> e | _ \<Rightarrow> tab_moves shift order a)"

lemma after_in_inner:
  "distinct (xs @ ys @ zs) \<Longrightarrow> a \<in> set ys \<Longrightarrow> a \<noteq> last ys \<Longrightarrow> after_in (xs @ ys @ zs) a \<in> set ys"
proof (induction xs)
  case Nil
  then show ?case
  proof (induction ys)
    case (Cons y ys)
    then show ?case by (cases ys) auto
  qed simp
next
  case (Cons x xs)
  then have "x \<noteq> a" "ys \<noteq> []" by auto
  then show ?case using Cons by (cases "xs @ ys @ zs") auto
qed

theorem focus_stays:
  assumes "distinct (before @ controls @ after)" "a \<in> set controls"
  shows "focus_after shift (before @ controls @ after) controls dialog a \<in> set controls"
proof -
  have ne: "controls \<noteq> []" using assms(2) by auto
  consider "shift" "a = hd controls" | "\<not> shift" "a = last controls" | "shift" "a \<noteq> hd controls" | "\<not> shift" "a \<noteq> last controls" by blast
  then show ?thesis
  proof cases
    case 3
    then have "a \<noteq> last (rev controls)" using ne by (simp add: last_rev)
    with assms after_in_inner [of "rev after" "rev controls" "rev before" a] 3 ne show ?thesis
      by (auto simp: focus_after_def trap_tab_def tab_moves_def)
  next
    case 4
    with assms after_in_inner [of before controls after a] ne show ?thesis
      by (simp add: focus_after_def trap_tab_def tab_moves_def)
  qed (use ne in \<open>simp_all add: focus_after_def trap_tab_def\<close>)
qed

section \<open>The command palette\<close>

record palette_item =
  pi_id :: string
  pi_icon :: string
  pi_label :: string
  pi_meta :: "string option"
  pi_to :: string
  pi_healthy :: "bool option"

datatype data_status = DS_idle | DS_loading | DS_error

record palette =
  pl_open :: bool
  pl_query :: string
  pl_index :: int
  pl_agents :: "connected_agent list"
  pl_services :: "agent_service_flat list"
  pl_dataStatus :: data_status
  pl_timer :: bool
  pl_loads :: nat

definition palette_initial :: palette where
  "palette_initial =
     \<lparr>pl_open = False, pl_query = [], pl_index = 0, pl_agents = [], pl_services = [], pl_dataStatus = DS_idle,
      pl_timer = False, pl_loads = 0\<rparr>"

definition section_item :: "nav_section \<Rightarrow> palette_item" where
  "section_item s =
     \<lparr>pi_id = ''page-'' @ (if tl (nt_to s) \<noteq> [] then tl (nt_to s) else ''home''), pi_icon = nt_icon s, pi_label = nt_label s,
      pi_meta = (if nt_to s = ''/'' then Some [CHR 0xED, CHR 0x99, CHR 0x88] else None), pi_to = nt_to s, pi_healthy = None\<rparr>"

definition agent_item :: "connected_agent \<Rightarrow> palette_item" where
  "agent_item a =
     \<lparr>pi_id = ''agent-'' @ ag_id a, pi_icon = ''folder_open'', pi_label = ag_name a, pi_meta = Some (''Docker '' @ [CHR 0xED, CHR 0x99, CHR 0x98, CHR 0xEA, CHR 0xB2, CHR 0xBD]),
      pi_to = ''/agents/'' @ ag_id a, pi_healthy = None\<rparr>"

definition service_item :: "agent_service_flat \<Rightarrow> palette_item" where
  "service_item s =
     \<lparr>pi_id = ''svc-'' @ sv_agentId s @ ''-'' @ sv_key s, pi_icon = [], pi_label = sv_name s, pi_meta = Some (sf_agentName s),
      pi_to = ''/services/'' @ sv_agentId s @ ''/'' @ encodeURIComponent (sv_key s), pi_healthy = Some (sv_healthy s)\<rparr>"

definition palette_items :: "palette \<Rightarrow> palette_item list" where
  "palette_items s = map section_item NAV_SECTIONS @ map agent_item (pl_agents s) @ map service_item (pl_services s)"

definition item_matches :: "string \<Rightarrow> palette_item \<Rightarrow> bool" where
  "item_matches query i \<longleftrightarrow>
     (let q = to_lower query in
      str_includes q (to_lower (pi_label i)) \<or> pred_option (\<lambda>m. str_includes q (to_lower m)) (pi_meta i) \<and> pi_meta i \<noteq> None)"

definition palette_filtered :: "palette \<Rightarrow> palette_item list" where
  "palette_filtered s =
     (if pl_query s = [] then palette_items s else filter (item_matches (pl_query s)) (palette_items s))"

text \<open>Opening schedules a load of the targets, closing cancels one not yet started.\<close>

definition showPalette :: "palette \<Rightarrow> palette" where
  "showPalette s =
     s\<lparr>pl_query := [], pl_index := 0, pl_open := True, pl_timer := (if pl_open s then pl_timer s else True)\<rparr>"

definition closePalette :: "palette \<Rightarrow> palette" where
  "closePalette s = s\<lparr>pl_open := False, pl_timer := False\<rparr>"

definition palette_shortcut :: "palette \<Rightarrow> palette" where
  "palette_shortcut s = (if pl_open s then closePalette s else showPalette s)"

definition palette_load :: "palette \<Rightarrow> palette" where
  "palette_load s = s\<lparr>pl_timer := False, pl_dataStatus := DS_loading, pl_loads := Suc (pl_loads s)\<rparr>"

definition palette_loaded ::
  "thrown + connected_agent list option \<times> agent_service_flat list option \<Rightarrow> palette \<Rightarrow> palette" where
  "palette_loaded r s =
     (let s = s\<lparr>pl_loads := pl_loads s - 1\<rparr> in
      case r of
        Inr (agts, svcs) \<Rightarrow>
          s\<lparr>pl_agents := (case agts of Some x \<Rightarrow> x | None \<Rightarrow> []), pl_services := (case svcs of Some x \<Rightarrow> x | None \<Rightarrow> []),
            pl_dataStatus := DS_idle\<rparr>
      | Inl _ \<Rightarrow> s\<lparr>pl_dataStatus := DS_error\<rparr>)"

definition palette_typed :: "string \<Rightarrow> palette \<Rightarrow> palette" where
  "palette_typed v s = s\<lparr>pl_query := v, pl_index := 0\<rparr>"

definition palette_hover :: "int \<Rightarrow> palette \<Rightarrow> palette" where
  "palette_hover i s = s\<lparr>pl_index := i\<rparr>"

definition item_at :: "'a list \<Rightarrow> int \<Rightarrow> 'a option" where
  "item_at xs i = (if 0 \<le> i \<and> i < int (length xs) then Some (xs ! nat i) else None)"

datatype palette_input = Arrow_down | Arrow_up | Enter_key

text \<open>\<open>onInputKeyDown\<close>: the new state, and the page to go to.\<close>

definition palette_keydown :: "palette_input \<Rightarrow> palette \<Rightarrow> palette \<times> string option" where
  "palette_keydown k s =
     (case k of
        Arrow_down \<Rightarrow> (s\<lparr>pl_index := min (pl_index s + 1) (int (length (palette_filtered s)) - 1)\<rparr>, None)
      | Arrow_up \<Rightarrow> (s\<lparr>pl_index := max (pl_index s - 1) 0\<rparr>, None)
      | Enter_key \<Rightarrow>
          (case item_at (palette_filtered s) (pl_index s) of
             Some i \<Rightarrow> (closePalette s, Some (pi_to i)) | None \<Rightarrow> (s, None)))"

inductive palette_step :: "palette \<Rightarrow> palette \<Rightarrow> bool" where
  shortcut: "palette_step s (palette_shortcut s)"
| opened: "palette_step s (showPalette s)"
| closed: "palette_step s (closePalette s)"
| load: "pl_timer s \<Longrightarrow> palette_step s (palette_load s)"
| loaded: "0 < pl_loads s \<Longrightarrow> palette_step s (palette_loaded r s)"
| typed: "pl_open s \<Longrightarrow> palette_step s (palette_typed v s)"
| hover: "i < length (palette_filtered s) \<Longrightarrow> palette_step s (palette_hover (int i) s)"
| keydown: "pl_open s \<Longrightarrow> palette_step s (fst (palette_keydown k s))"

text \<open>
  Enter only goes to a listed target, and loads are due only while the palette is open.  The index
  is \<open>-1\<close> after an arrow down in an empty list, and then stays without a row until the next key.
\<close>

lemma palette_enter: "snd (palette_keydown k s) = Some to \<Longrightarrow> k = Enter_key \<and> to \<in> pi_to ` set (palette_filtered s)"
  by (auto simp: palette_keydown_def item_at_def split: palette_input.splits option.splits if_splits)

lemma palette_listed: "i \<in> set (palette_filtered s) \<Longrightarrow> pl_query s = [] \<or> item_matches (pl_query s) i"
  by (auto simp: palette_filtered_def split: if_splits)

definition palette_ok :: "palette \<Rightarrow> bool" where
  "palette_ok s \<longleftrightarrow> - 1 \<le> pl_index s \<and> (pl_timer s \<longrightarrow> pl_open s)"

lemma palette_step_ok: "palette_step s s' \<Longrightarrow> palette_ok s \<Longrightarrow> palette_ok s'"
  by (induction rule: palette_step.induct)
    (auto simp: palette_ok_def palette_shortcut_def showPalette_def closePalette_def palette_load_def palette_loaded_def
      palette_typed_def palette_hover_def palette_keydown_def Let_def split: sum.splits palette_input.splits option.splits)

lemma palette_reach_ok: "palette_step\<^sup>*\<^sup>* palette_initial s \<Longrightarrow> palette_ok s"
proof (induction rule: rtranclp_induct)
  case (step y z)
  then show ?case using palette_step_ok by blast
qed (simp add: palette_ok_def palette_initial_def)

section \<open>Refreshing, connection, spinning, copying\<close>

datatype refresh_event = Timer_tick | Visibility bool | Refresh_click

text \<open>\<open>useAutoRefresh\<close>: whether the tab is hidden, and how often the callback has run.\<close>

definition autoRefresh :: "bool \<Rightarrow> refresh_event \<Rightarrow> bool \<times> nat \<Rightarrow> bool \<times> nat" where
  "autoRefresh enabled e = (\<lambda>(hidden, n).
     case e of
       Timer_tick \<Rightarrow> (hidden, if enabled \<and> \<not> hidden then Suc n else n)
     | Visibility h \<Rightarrow> (h, if enabled \<and> \<not> h then Suc n else n)
     | Refresh_click \<Rightarrow> (hidden, Suc n))"

lemma hidden_never_refreshes:
  "list_all (\<lambda>e. e = Timer_tick \<or> e = Visibility True) es \<Longrightarrow>
   foldl (\<lambda>s e. autoRefresh enabled e s) (True, n) es = (True, n)"
proof (induction es)
  case (Cons e es)
  then have "autoRefresh enabled e (True, n) = (True, n)" by (auto simp: autoRefresh_def)
  with Cons show ?case by simp
qed simp

record network_status =
  nw_isOnline :: bool
  nw_isReconnecting :: bool

definition network_start :: "bool \<Rightarrow> network_status" where
  "network_start onLine = \<lparr>nw_isOnline = onLine, nw_isReconnecting = False\<rparr>"

definition handleOnline :: "network_status \<Rightarrow> network_status" where
  "handleOnline s = s\<lparr>nw_isOnline := True, nw_isReconnecting := False\<rparr>"

definition handleOffline :: "network_status \<Rightarrow> network_status" where
  "handleOffline s = s\<lparr>nw_isOnline := False, nw_isReconnecting := True\<rparr>"

record spin_action =
  sp_spinning :: bool
  sp_timer :: "nat option"
  sp_running :: "nat list"
  sp_next :: nat

definition spin_start :: spin_action where
  "spin_start = \<lparr>sp_spinning = False, sp_timer = None, sp_running = [], sp_next = 0\<rparr>"

definition spin_trigger :: "spin_action \<Rightarrow> spin_action" where
  "spin_trigger s =
     (let running = (case sp_timer s of Some t \<Rightarrow> removeAll t (sp_running s) | None \<Rightarrow> sp_running s) in
      s\<lparr>sp_spinning := True, sp_timer := Some (sp_next s), sp_running := running @ [sp_next s], sp_next := Suc (sp_next s)\<rparr>)"

definition spin_fired :: "nat \<Rightarrow> spin_action \<Rightarrow> spin_action" where
  "spin_fired t s = s\<lparr>sp_running := removeAll t (sp_running s), sp_spinning := False\<rparr>"

inductive spin_step :: "spin_action \<Rightarrow> spin_action \<Rightarrow> bool" where
  trigger: "spin_step s (spin_trigger s)"
| fired: "t \<in> set (sp_running s) \<Longrightarrow> spin_step s (spin_fired t s)"

text \<open>The button spins exactly while its one timer runs.\<close>

lemma spin_one_timer:
  "spin_step\<^sup>*\<^sup>* spin_start s \<Longrightarrow> sp_running s = (if sp_spinning s then [the (sp_timer s)] else [])
    \<and> (sp_spinning s \<longrightarrow> sp_timer s \<noteq> None)"
proof (induction rule: rtranclp_induct)
  case (step y z)
  from step.hyps(2) step.IH show ?case
    by cases (auto simp: spin_trigger_def spin_fired_def Let_def split: if_splits option.splits)
qed (simp add: spin_start_def)

text \<open>
  \<open>copyTextToClipboard\<close>: \<open>write\<close> is the answer of the clipboard interface where the page may use it,
  \<open>exec\<close> of the fallback's command; the fallback's text area is in the page only while it runs.
\<close>

definition copyWithClipboardApi :: "bool \<Rightarrow> (thrown + unit) option \<Rightarrow> thrown + unit" where
  "copyWithClipboardApi secure write =
     (case write of
        Some r \<Rightarrow> if secure then r else Inl (JsError ''Error'' ''Clipboard API is unavailable outside a secure context.'')
      | None \<Rightarrow> Inl (JsError ''Error'' ''Clipboard API is unavailable outside a secure context.''))"

definition copyWithTextareaFallback :: "thrown + bool \<Rightarrow> string list \<Rightarrow> string list \<times> (thrown + unit)" where
  "copyWithTextareaFallback exec body =
     (let body' = body @ [''textarea''] in
      (butlast body',
       case exec of
         Inr copied \<Rightarrow> if copied then Inr () else Inl (JsError ''Error'' ''Fallback copy command was rejected.'')
       | Inl e \<Rightarrow> Inl e))"

definition copyTextToClipboard ::
  "bool \<Rightarrow> (thrown + unit) option \<Rightarrow> thrown + bool \<Rightarrow> string list \<Rightarrow> string list \<times> (thrown + unit)" where
  "copyTextToClipboard secure write exec body =
     (case copyWithClipboardApi secure write of
        Inr _ \<Rightarrow> (body, Inr ()) | Inl _ \<Rightarrow> copyWithTextareaFallback exec body)"

lemma copy_outcome:
  "fst (copyTextToClipboard secure write exec body) = body"
  "snd (copyTextToClipboard secure write exec body) = Inr () \<longleftrightarrow> secure \<and> write = Some (Inr ()) \<or> exec = Inr True"
  by (auto simp: copyTextToClipboard_def copyWithClipboardApi_def copyWithTextareaFallback_def split: option.splits sum.splits)

end
