(* ===== verification/EU_Loader.thy ===== *)
theory EU_Loader imports EU_Answers
begin

text \<open>
  The effect most pages load with: it raises \<open>loading\<close> and clears the error, awaits one request, and
  stores its result or the message of its failure unless the effect has been cleaned up since.
  \<open>('k, 'd) loader\<close> is the state of such a component, \<open>'k\<close> what its request depends on.  A
  component that loads this way names its own operations as instances of these, and inherits that what
  it shows, when it neither loads nor shows an error, answers what it is asked for now.
\<close>

record ('k, 'd) loader =
  ld_key :: 'k
  ld_data :: "'d option"
  ld_loading :: bool
  ld_error :: "string option"
  ld_run :: nat
  ld_pending :: "(nat \<times> 'k) list"

definition loader_start :: "'k \<Rightarrow> ('k, 'd) loader \<Rightarrow> ('k, 'd) loader" where
  "loader_start k s =
     s\<lparr>ld_key := k, ld_loading := True, ld_error := None, ld_run := Suc (ld_run s),
       ld_pending := ld_pending s @ [(Suc (ld_run s), k)]\<rparr>"

definition loader_mounted :: "'k \<Rightarrow> ('k, 'd) loader" where
  "loader_mounted k =
     loader_start k \<lparr>ld_key = k, ld_data = None, ld_loading = True, ld_error = None, ld_run = 0, ld_pending = []\<rparr>"

definition loader_answered :: "nat \<times> 'k \<Rightarrow> thrown + 'd \<Rightarrow> ('k, 'd) loader \<Rightarrow> ('k, 'd) loader" where
  "loader_answered q r s =
     (let s = s\<lparr>ld_pending := remove1 q (ld_pending s)\<rparr> in
      if fst q \<noteq> ld_run s then s
      else (case r of
          Inr d \<Rightarrow> s\<lparr>ld_data := Some d, ld_loading := False\<rparr>
        | Inl e \<Rightarrow> s\<lparr>ld_error := Some (getErrorMessage e), ld_loading := False\<rparr>))"

inductive loader_step :: "('k \<Rightarrow> 'd \<Rightarrow> bool) \<Rightarrow> ('k, 'd) loader \<Rightarrow> ('k, 'd) loader \<Rightarrow> bool" for fits where
  start: "loader_step fits s (loader_start k s)"
| answered: "q \<in> set (ld_pending s) \<Longrightarrow> (\<And>d. r = Inr d \<Longrightarrow> fits (snd q) d) \<Longrightarrow> loader_step fits s (loader_answered q r s)"

definition loader_shown :: "('k, 'd) loader \<Rightarrow> 'd option" where
  "loader_shown s = (if ld_loading s \<or> ld_error s \<noteq> None then None else ld_data s)"

definition loader_good :: "('k \<Rightarrow> 'd \<Rightarrow> bool) \<Rightarrow> ('k, 'd) loader \<Rightarrow> bool" where
  "loader_good fits s \<longleftrightarrow>
     length (filter (\<lambda>q. fst q = ld_run s) (ld_pending s)) = (if ld_loading s then 1 else 0)
     \<and> list_all (\<lambda>q. fst q \<le> ld_run s \<and> (fst q = ld_run s \<longrightarrow> snd q = ld_key s)) (ld_pending s)
     \<and> pred_option (fits (ld_key s)) (loader_shown s)
     \<and> (if ld_loading s \<or> ld_error s \<noteq> None then True else ld_data s \<noteq> None)"

lemma loader_good_mounted: "loader_good fits (loader_mounted k)"
  by (simp add: loader_good_def loader_mounted_def loader_start_def loader_shown_def)

lemma loader_good_step:
  assumes "loader_step fits s s'" "loader_good fits s"
  shows "loader_good fits s'"
  using assms(1)
proof cases
  case (start k)
  then show ?thesis
    using assms(2) older_runs [of "ld_run s" _ "ld_pending s"]
    by (auto simp: loader_good_def loader_start_def loader_shown_def list_all_iff)
next
  case (answered q r)
  have rest: "list_all (\<lambda>q. fst q \<le> ld_run s \<and> (fst q = ld_run s \<longrightarrow> snd q = ld_key s)) (remove1 q (ld_pending s))"
    using assms(2) by (simp add: loader_good_def list_all_remove1)
  show ?thesis
  proof (cases "fst q = ld_run s")
    case True
    have k: "snd q = ld_key s" using assms(2) answered(2) True by (auto simp: loader_good_def list_all_iff)
    have "0 < length (filter (\<lambda>q. fst q = ld_run s) (ld_pending s))" using answered True by (auto simp: filter_empty_conv)
    then have "length (filter (\<lambda>q. fst q = ld_run s) (ld_pending s)) = 1"
      using assms(2) by (simp add: loader_good_def split: if_splits)
    then show ?thesis using answered True k rest
      by (cases r) (simp_all add: loader_good_def loader_answered_def loader_shown_def filter_remove1 length_remove1 Let_def)
  next
    case False
    then show ?thesis using answered rest assms(2)
      by (simp add: loader_good_def loader_answered_def loader_shown_def filter_remove1 length_remove1 Let_def split: if_splits)
  qed
qed

interpretation loads: answers fits "loader_step fits" ld_key loader_shown "loader_good fits"
  for fits :: "'k \<Rightarrow> 'd \<Rightarrow> bool"
proof unfold_locales
  show "loader_good fits s \<Longrightarrow> loader_shown s = Some d \<Longrightarrow> fits (ld_key s) d" for s d
    by (simp add: loader_good_def)
qed (rule loader_good_step)

text \<open>Once nothing of the current run is in flight, the component shows an error or the data asked for.\<close>

lemma loader_settles:
  assumes "(loader_step fits)\<^sup>*\<^sup>* (loader_mounted k) s" "filter (\<lambda>q. fst q = ld_run s) (ld_pending s) = []"
  shows "\<not> ld_loading s" "ld_error s \<noteq> None \<or> (\<exists>d. loader_shown s = Some d \<and> fits (ld_key s) d)"
proof -
  have g: "loader_good fits s" by (rule loads.reach_good [OF assms(1) loader_good_mounted])
  then show n: "\<not> ld_loading s" using assms(2) by (simp add: loader_good_def split: if_splits)
  show "ld_error s \<noteq> None \<or> (\<exists>d. loader_shown s = Some d \<and> fits (ld_key s) d)"
    using g n by (auto simp: loader_good_def loader_shown_def split: if_splits)
qed

end
