(* ===== verification/EU_Trace.thy ===== *)
theory EU_Trace imports EU_Loader EU_Number EU_Url EU_ServiceTypes
begin

text \<open>
  The trace panel (\<open>features/traces/components/TracePanel.tsx\<close>): what it loads, the headers and bodies
  it extracts from the spans, the sections it shows, the waterfall bars and the texts it copies.
  \<open>nt\<close> is the text of a number in a template, \<open>coll\<close> the sort key of the reader's locale, \<open>clock\<close>
  the locale's time of an instant.  Instants in nanoseconds are exact integers and their shares exact
  rationals; the code computes them in doubles, which hold such instants to some hundred nanoseconds.
\<close>

section \<open>Loading a trace\<close>

definition trace_load :: "string \<Rightarrow> (string, trace_detail) loader \<Rightarrow> (string, trace_detail) loader" where
  "trace_load = loader_start"

definition trace_opened :: "string \<Rightarrow> (string, trace_detail) loader" where
  "trace_opened = loader_mounted"

definition trace_answered ::
  "nat \<times> string \<Rightarrow> thrown + trace_detail \<Rightarrow> (string, trace_detail) loader \<Rightarrow> (string, trace_detail) loader" where
  "trace_answered = loader_answered"

datatype trace_target = Trace_agent string string | Trace_direct string

datatype trace_tab = Tab_logs | Tab_requests

definition traceTargetPath :: "trace_target \<Rightarrow> trace_tab \<Rightarrow> string \<Rightarrow> string" where
  "traceTargetPath target tab traceId =
     (let query = ''traceId='' @ encodeURIComponent traceId in
      case target of
        Trace_agent agentId serviceKey \<Rightarrow>
          ''/services/'' @ agentId @ ''/'' @ encodeURIComponent serviceKey
          @ ''?tab='' @ (case tab of Tab_logs \<Rightarrow> ''logs'' | Tab_requests \<Rightarrow> ''requests'') @ ''&'' @ query
      | Trace_direct i \<Rightarrow> (case tab of Tab_logs \<Rightarrow> ''/logs/'' | Tab_requests \<Rightarrow> ''/api/'') @ i @ ''?'' @ query)"

section \<open>Texts\<close>

definition formatSpanDuration :: "(rat \<Rightarrow> string) \<Rightarrow> rat \<Rightarrow> string" where
  "formatSpanDuration nt ms =
     (if ms < 1 then ''<1ms'' else if ms < 1000 then nt ms @ ''ms'' else to_fixed 2 (ms / 1000) @ ''s'')"

definition GREY_BADGE :: string where "GREY_BADGE = ''bg-slate-500/10 text-text-muted''"

definition spanKindBadge :: "string \<Rightarrow> string" where
  "spanKindBadge kind =
     (if kind = ''SERVER'' then ''bg-emerald-500/10 text-emerald-600 dark:text-emerald-400''
      else if kind = ''CLIENT'' then ''bg-sky-500/10 text-sky-600 dark:text-sky-400''
      else if kind = ''PRODUCER'' \<or> kind = ''CONSUMER'' then ''bg-amber-500/10 text-amber-600 dark:text-amber-400''
      else GREY_BADGE)"

definition statusBadge :: "string option \<Rightarrow> string" where
  "statusBadge code =
     (if code = Some ''ERROR'' then ''bg-status-error/10 text-status-error''
      else if code = Some ''OK'' then ''bg-status-healthy/10 text-status-healthy'' else GREY_BADGE)"

fun logLevelBadge :: "log_level \<Rightarrow> string" where
  "logLevelBadge l =
     (let t = log_level_text l in
      if t = ''error'' then ''bg-red-500/10 text-red-600 dark:text-red-400''
      else if t = ''warn'' then ''bg-amber-500/10 text-amber-600 dark:text-amber-400''
      else if t = ''info'' then ''bg-sky-500/10 text-sky-600 dark:text-sky-400''
      else if t = ''trace'' then ''bg-slate-500/10 text-text-dim'' else GREY_BADGE)"

definition spanBarColor :: "trace_span \<Rightarrow> string" where
  "spanBarColor s =
     (if sp_statusCode s = Some ''ERROR'' then ''bg-status-error''
      else if sp_kind s = ''SERVER'' then ''bg-emerald-500''
      else if sp_kind s = ''CLIENT'' then ''bg-sky-500''
      else if sp_kind s = ''PRODUCER'' \<or> sp_kind s = ''CONSUMER'' then ''bg-amber-500''
      else ''bg-slate-400'')"

text \<open>\<open>[...].filter(Boolean).join(sep)\<close>, a part that may be \<open>null\<close> being a possibly empty list.\<close>

definition join_parts :: "string \<Rightarrow> string list \<Rightarrow> string" where
  "join_parts sep ps = join_with sep (filter (\<lambda>p. p \<noteq> []) ps)"

definition part :: "string \<Rightarrow> string option \<Rightarrow> string list" where
  "part label v = (if truthy v then [label @ the v] else [])"

definition span_name :: "trace_span \<Rightarrow> string" where
  "span_name s = (if sp_name s \<noteq> [] then sp_name s else ''(unnamed)'')"

definition formatSpanCopy :: "(rat \<Rightarrow> string) \<Rightarrow> trace_span \<Rightarrow> string" where
  "formatSpanCopy nt s =
     join_parts '' ''
       ([''kind='' @ sp_kind s, ''name='' @ span_name s] @ part ''service='' (sp_serviceName s)
        @ (if sp_statusCode s \<noteq> Some ''UNSET'' then part ''status='' (sp_statusCode s) else [])
        @ [''duration='' @ formatSpanDuration nt (sp_durationMs s), ''traceId='' @ sp_traceId s, ''spanId='' @ sp_spanId s])"

definition formatApiRequestCopy :: "(rat \<Rightarrow> string) \<Rightarrow> api_request \<Rightarrow> string" where
  "formatApiRequestCopy nt r =
     join_parts '' ''
       ([''method='' @ req_method r, ''path='' @ req_path r, ''status='' @ show_int (req_statusCode r),
         ''duration='' @ formatSpanDuration nt (req_durationMs r)]
        @ part ''service='' (req_serviceName r) @ part ''traceId='' (req_traceId r) @ part ''spanId='' (req_spanId r))"

definition formatLogCopy :: "log_entry \<Rightarrow> string" where
  "formatLogCopy l =
     join_parts '' ''
       ([''time='' @ log_createdAt l, ''level='' @ log_level_text (log_level l), ''message='' @ log_message l]
        @ part ''service='' (log_serviceName l) @ part ''traceId='' (log_traceId l) @ part ''spanId='' (log_spanId l))"

section \<open>Captured bodies and headers\<close>

definition attr_of :: "(string \<times> json) list option \<Rightarrow> string \<Rightarrow> json option" where
  "attr_of attrs k = Option.bind attrs (\<lambda>ps. map_of ps k)"

definition attrString :: "(string \<times> json) list option \<Rightarrow> string \<Rightarrow> string" where
  "attrString attrs k = (case attr_of attrs k of Some (JStr s) \<Rightarrow> s | _ \<Rightarrow> [])"

definition attrNumber :: "(string \<times> json) list option \<Rightarrow> string \<Rightarrow> json option" where
  "attrNumber attrs k = (case attr_of attrs k of Some (JInt i) \<Rightarrow> Some (JInt i) | Some (JDec t) \<Rightarrow> Some (JDec t) | _ \<Rightarrow> None)"

definition attrBool :: "(string \<times> json) list option \<Rightarrow> string \<Rightarrow> bool" where
  "attrBool attrs k \<longleftrightarrow> attr_of attrs k = Some (JBool True)"

record captured_body =
  cb_id :: string
  cb_label :: string
  cb_body :: string
  cb_spanName :: string
  cb_serviceName :: "string option"
  cb_size :: "json option"
  cb_truncated :: bool

definition capturedBodyLabel :: "string \<Rightarrow> string" where
  "capturedBodyLabel eventName =
     (if eventName = ''request_body_masked'' then [CHR 0xEC, CHR 0x9A, CHR 0x94, CHR 0xEC, CHR 0xB2, CHR 0xAD] else if eventName = ''response_body_masked'' then [CHR 0xEC, CHR 0x9D, CHR 0x91, CHR 0xEB, CHR 0x8B, CHR 0xB5] else [CHR 0xEB, CHR 0xB0, CHR 0x94, CHR 0xEB, CHR 0x94, CHR 0x94])"

definition body_event :: "trace_span_event \<Rightarrow> bool" where
  "body_event e \<longleftrightarrow> ev_name e = ''request_body_masked'' \<or> ev_name e = ''response_body_masked''"

definition span_events :: "trace_span \<Rightarrow> trace_span_event list" where
  "span_events s = (case sp_events s of Some es \<Rightarrow> es | None \<Rightarrow> [])"

definition captured_of :: "trace_span \<Rightarrow> trace_span_event \<Rightarrow> captured_body" where
  "captured_of s e =
     \<lparr>cb_id = sp_traceId s @ ''-'' @ sp_spanId s @ ''-'' @ ev_name e @ ''-''
        @ show_int (case ev_timeUnixNano e of Some t \<Rightarrow> t | None \<Rightarrow> 0),
      cb_label = capturedBodyLabel (ev_name e), cb_body = attrString (ev_attributes e) ''body'',
      cb_spanName = span_name s, cb_serviceName = sp_serviceName s, cb_size = attrNumber (ev_attributes e) ''body_size'',
      cb_truncated = attrBool (ev_attributes e) ''body_truncated''\<rparr>"

definition extractCapturedBodies :: "trace_span list \<Rightarrow> captured_body list" where
  "extractCapturedBodies spans =
     concat (map (\<lambda>s. filter (\<lambda>i. cb_body i \<noteq> []) (map (captured_of s) (filter body_event (span_events s)))) spans)"

definition countRedactedBodies :: "trace_span list \<Rightarrow> nat" where
  "countRedactedBodies spans =
     foldl (\<lambda>n s. n + length (filter (\<lambda>e. body_event e \<and> attrBool (ev_attributes e) ''body_redacted'') (span_events s))) 0 spans"

text \<open>\<open>toLowerCase\<close> leaves the Korean labels as they are.\<close>

definition formatCapturedBodyCopy :: "captured_body \<Rightarrow> string" where
  "formatCapturedBodyCopy i =
     join_parts [CHR 0x0A]
       ([to_lower (cb_label i) @ '' body''] @ part ''service='' (cb_serviceName i) @ [''span='' @ cb_spanName i]
        @ (if cb_truncated i then [''truncated=true''] else []) @ [cb_body i])"

record captured_headers =
  ch_id :: string
  ch_spanName :: string
  ch_serviceName :: "string option"
  ch_request :: "(string \<times> string) list"
  ch_response :: "(string \<times> string) list"

definition headerValue :: "json \<Rightarrow> string" where
  "headerValue v =
     (case v of JArr xs \<Rightarrow> join_with '', '' (map js_string xs) | JNull \<Rightarrow> [] | _ \<Rightarrow> js_string v)"

definition REQUEST_HEADER :: string where "REQUEST_HEADER = ''http.request.header.''"
definition RESPONSE_HEADER :: string where "RESPONSE_HEADER = ''http.response.header.''"

definition headers_under :: "string \<Rightarrow> (string \<times> json) list \<Rightarrow> (string \<times> string) list" where
  "headers_under p attrs = map (\<lambda>(k, v). (drop (length p) k, headerValue v)) (filter (\<lambda>(k, v). starts_with p k) attrs)"

definition span_headers :: "(string \<Rightarrow> string) \<Rightarrow> trace_span \<Rightarrow> captured_headers list" where
  "span_headers coll s =
     (let attrs = (case sp_attributes s of Some a \<Rightarrow> a | None \<Rightarrow> []);
          request = headers_under REQUEST_HEADER attrs;
          response = headers_under RESPONSE_HEADER (filter (\<lambda>(k, v). \<not> starts_with REQUEST_HEADER k) attrs) in
      if request = [] \<and> response = [] then []
      else [\<lparr>ch_id = sp_traceId s @ ''-'' @ sp_spanId s @ ''-headers'', ch_spanName = span_name s,
             ch_serviceName = sp_serviceName s, ch_request = sort_by (by_key (\<lambda>h. coll (fst h))) request,
             ch_response = sort_by (by_key (\<lambda>h. coll (fst h))) response\<rparr>])"

definition extractCapturedHeaders :: "(string \<Rightarrow> string) \<Rightarrow> trace_span list \<Rightarrow> captured_headers list" where
  "extractCapturedHeaders coll spans = concat (map (span_headers coll) spans)"

definition header_lines :: "string \<Rightarrow> (string \<times> string) list \<Rightarrow> string list" where
  "header_lines title hs = (if hs \<noteq> [] then title # map (\<lambda>(n, v). n @ '': '' @ v) hs else [])"

definition formatCapturedHeadersCopy :: "captured_headers \<Rightarrow> string" where
  "formatCapturedHeadersCopy i =
     join_parts [CHR 0x0A]
       (part ''service='' (ch_serviceName i) @ [''span='' @ ch_spanName i]
        @ header_lines ''[request headers]'' (ch_request i) @ header_lines ''[response headers]'' (ch_response i))"

text \<open>A masked value is set apart in the list.\<close>

definition header_masked :: "string \<times> string \<Rightarrow> bool" where
  "header_masked h \<longleftrightarrow> snd h = ''***''"

section \<open>The waterfall\<close>

definition span_bounds :: "trace_span list \<Rightarrow> int \<times> int" where
  "span_bounds spans = (Min (set (map sp_startUnixNano spans)), Max (set (map sp_endUnixNano spans)))"

definition span_bar :: "trace_span list \<Rightarrow> trace_span \<Rightarrow> rat \<times> rat" where
  "span_bar spans s =
     (let (traceStart, traceEnd) = span_bounds spans;
          total = of_int (max (traceEnd - traceStart) 1);
          leftPct = min (max (of_int (sp_startUnixNano s - traceStart) / total * 100) 0) 100;
          widthPct = min (max (of_int (sp_endUnixNano s - sp_startUnixNano s) / total * 100) (3 / 4)) (100 - leftPct)
      in (leftPct, widthPct))"

text \<open>C22: Every bar of the waterfall lies inside its track; it starts exactly where the span's share of the
  trace's time puts it, and ends there too unless the span is too short to be seen.\<close>

theorem waterfall_exact:
  assumes "s \<in> set spans" "list_all (\<lambda>x. sp_startUnixNano x \<le> sp_endUnixNano x) spans"
    and bounds: "span_bounds spans = (a, b)"
  shows "(case span_bar spans s of (l, w) \<Rightarrow>
      0 \<le> l \<and> 0 \<le> w \<and> l + w \<le> 100
      \<and> l * of_int (max (b - a) 1) = of_int (sp_startUnixNano s - a) * 100
      \<and> (if w > 3 / 4 then w * of_int (max (b - a) 1) = of_int (sp_endUnixNano s - sp_startUnixNano s) * 100
         else (of_int (sp_endUnixNano s - sp_startUnixNano s) :: rat) * 100 \<le> 3 / 4 * of_int (max (b - a) 1)))"
proof -
  have mem: "sp_startUnixNano s \<in> set (map sp_startUnixNano spans)" "sp_endUnixNano s \<in> set (map sp_endUnixNano spans)"
    using assms(1) by auto
  have o: "a \<le> sp_startUnixNano s" "sp_startUnixNano s \<le> sp_endUnixNano s" "sp_endUnixNano s \<le> b"
    using assms(1,2) bounds Min_le [OF _ mem(1)] Max_ge [OF _ mem(2)] by (auto simp: span_bounds_def list_all_iff)
  define T p q where "T = (of_int (max (b - a) 1) :: rat)" and "p = of_int (sp_startUnixNano s - a) / T * 100"
    and "q = of_int (sp_endUnixNano s - sp_startUnixNano s) / T * 100"
  have T: "0 < T" by (simp add: T_def)
  have "of_int (sp_endUnixNano s - a) \<le> T" unfolding T_def of_int_le_iff using o by simp
  then have "of_int (sp_endUnixNano s - a) / T \<le> 1" using T by (simp add: divide_le_eq)
  then have "of_int (sp_endUnixNano s - a) / T * 100 \<le> 1 * 100" by (rule mult_right_mono) simp
  moreover have "p + q = of_int (sp_endUnixNano s - a) / T * 100"
    by (simp add: p_def q_def flip: add_divide_distrib distrib_right)
  ultimately have pq: "p + q \<le> 100" by (simp only: mult_1)
  have "0 \<le> p" "0 \<le> q" using o T by (simp_all add: p_def q_def)
  have undo: "of_int (sp_startUnixNano s - a) * 100 = p * T" "of_int (sp_endUnixNano s - sp_startUnixNano s) * 100 = q * T"
    using T by (simp_all add: p_def q_def)
  have bar: "span_bar spans s = (min (max p 0) 100, min (max q (3 / 4)) (100 - min (max p 0) 100))"
    by (simp add: span_bar_def bounds p_def q_def T_def Let_def)
  have l: "min (max p 0) 100 = p" using \<open>0 \<le> p\<close> \<open>0 \<le> q\<close> pq by simp
  have "q \<le> 3 / 4 \<Longrightarrow> q * T \<le> 3 / 4 * T" using T by simp
  then show ?thesis
    unfolding bar l T_def [symmetric] prod.case undo
    using \<open>0 \<le> p\<close> \<open>0 \<le> q\<close> pq by (auto simp: min_def max_def)
qed

definition span_sample :: "string \<Rightarrow> int \<Rightarrow> int \<Rightarrow> trace_span" where
  "span_sample i a b =
     \<lparr>sp_id = 1, sp_serviceId = None, sp_serviceName = None, sp_traceId = ''t'', sp_spanId = i, sp_parentSpanId = None,
      sp_name = [], sp_kind = ''SERVER'', sp_startUnixNano = a, sp_endUnixNano = b, sp_durationMs = 1, sp_statusCode = None,
      sp_statusMessage = None, sp_attributes = None, sp_events = None, sp_resource = None, sp_createdAt = []\<rparr>"

lemma waterfall_exact_witness:
  "(case span_bar [span_sample ''a'' 100 300, span_sample ''b'' 150 200] (span_sample ''b'' 150 200) of
      (l, w) \<Rightarrow> l * 200 = 5000 \<and> w * 200 = 5000)"
proof -
  let ?ss = "[span_sample ''a'' 100 300, span_sample ''b'' 150 200]"
  have b: "span_bounds ?ss = (100, 300)" by (simp add: span_bounds_def span_sample_def)
  have m: "span_sample ''b'' 150 200 \<in> set ?ss" by simp
  have "span_bar ?ss (span_sample ''b'' 150 200) = (25, 25)" by (simp add: span_bar_def b Let_def) (simp add: span_sample_def)
  with waterfall_exact [OF m _ b] show ?thesis by (simp add: span_sample_def)
qed

section \<open>What the panel shows\<close>

datatype trace_section =
    Section_loading | Section_error string | Section_empty | Section_jump nat nat
  | Section_spans "trace_span list" | Section_headers "captured_headers list" | Section_bodies "captured_body list"
  | Section_restricted nat | Section_requests "api_request list" | Section_logs "log_entry list"

definition trace_parts :: "trace_detail option \<Rightarrow> trace_span list \<times> log_entry list \<times> api_request list" where
  "trace_parts d = (case d of Some x \<Rightarrow> (td_spans x, td_logs x, td_apiRequests x) | None \<Rightarrow> ([], [], []))"

definition trace_sections :: "(string \<Rightarrow> string) \<Rightarrow> (string, trace_detail) loader \<Rightarrow> trace_section list" where
  "trace_sections coll s =
     (let (spans, logs, requests) = trace_parts (ld_data s);
          bodies = extractCapturedBodies spans; redacted = countRedactedBodies spans;
          headers = extractCapturedHeaders coll spans in
      (if ld_loading s then [Section_loading] else [])
      @ (case ld_error s of Some m \<Rightarrow> if m \<noteq> [] then [Section_error m] else [] | None \<Rightarrow> [])
      @ (if ld_loading s \<or> truthy (ld_error s) then []
         else (if spans = [] \<and> logs = [] \<and> requests = [] then [Section_empty] else [])
           @ (if logs \<noteq> [] \<or> requests \<noteq> [] then [Section_jump (length logs) (length requests)] else [])
           @ (if spans \<noteq> [] then [Section_spans spans] else [])
           @ (if headers \<noteq> [] then [Section_headers headers] else [])
           @ (if bodies \<noteq> [] then [Section_bodies bodies] else [])
           @ (if bodies = [] \<and> 0 < redacted then [Section_restricted redacted] else [])
           @ (if requests \<noteq> [] then [Section_requests requests] else [])
           @ (if logs \<noteq> [] then [Section_logs logs] else [])))"

lemma no_captured_body:
  "extractCapturedBodies spans = [] \<longleftrightarrow>
   list_all (\<lambda>s. list_all (\<lambda>e. body_event e \<longrightarrow> attrString (ev_attributes e) ''body'' = []) (span_events s)) spans"
  by (auto simp: extractCapturedBodies_def list_all_iff filter_empty_conv captured_of_def)

text \<open>The content of a panel: spans with their bars, requests and logs of the trace it was opened for.\<close>

definition section_of :: "trace_detail \<Rightarrow> trace_section \<Rightarrow> bool" where
  "section_of d x \<longleftrightarrow>
     (case x of
        Section_spans ss \<Rightarrow> ss = td_spans d
      | Section_headers hs \<Rightarrow> (\<exists>coll. hs = extractCapturedHeaders coll (td_spans d))
      | Section_bodies bs \<Rightarrow> bs = extractCapturedBodies (td_spans d)
      | Section_restricted n \<Rightarrow> n = countRedactedBodies (td_spans d) \<and> extractCapturedBodies (td_spans d) = []
      | Section_requests rs \<Rightarrow> rs = td_apiRequests d
      | Section_logs ls \<Rightarrow> ls = td_logs d
      | Section_jump l r \<Rightarrow> l = length (td_logs d) \<and> r = length (td_apiRequests d)
      | Section_empty \<Rightarrow> td_spans d = [] \<and> td_logs d = [] \<and> td_apiRequests d = []
      | Section_loading \<Rightarrow> False | Section_error _ \<Rightarrow> False)"

lemma sections_of_data:
  "\<not> ld_loading s \<Longrightarrow> ld_error s = None \<Longrightarrow> ld_data s = Some d \<Longrightarrow> list_all (section_of d) (trace_sections coll s)"
  by (auto simp: trace_sections_def trace_parts_def section_of_def Let_def)

lemma sections_without_data:
  "ld_loading s \<or> truthy (ld_error s) \<Longrightarrow>
   trace_sections coll s = (if ld_loading s then [Section_loading] else [])
     @ (case ld_error s of Some m \<Rightarrow> if m \<noteq> [] then [Section_error m] else [] | None \<Rightarrow> [])"
  by (simp add: trace_sections_def Let_def split_beta)

text \<open>C23: When a trace panel is neither loading nor shows an error, all it shows is taken from the trace it
  was asked for last, in whatever order answers for earlier traces arrive; otherwise it shows
  only that it loads or why it failed.\<close>

theorem trace_panel_exact:
  assumes "(loader_step fits)\<^sup>*\<^sup>* (trace_opened t) s" "ld_error s \<noteq> Some []"
  shows "(case loader_shown s of
      Some d \<Rightarrow> fits (ld_key s) d \<and> list_all (section_of d) (trace_sections coll s)
    | None \<Rightarrow> set (trace_sections coll s) \<subseteq> {Section_loading} \<union> range Section_error \<and> trace_sections coll s \<noteq> [])"
proof -
  have g: "loader_good fits s" using loads.reach_good assms(1) loader_good_mounted by (metis trace_opened_def)
  show ?thesis
  proof (cases "loader_shown s")
    case (Some d)
    then show ?thesis using loads.good_shown [OF g Some] sections_of_data [of s d coll]
      by (simp add: loader_shown_def split: if_splits)
  next
    case None
    then have "ld_loading s \<or> ld_error s \<noteq> None" using g by (auto simp: loader_good_def loader_shown_def split: if_splits)
    then have "ld_loading s \<or> truthy (ld_error s)" using assms(2) by (cases "ld_error s") auto
    then show ?thesis using None by (cases "ld_error s") (auto simp: sections_without_data)
  qed
qed

lemma trace_panel_exact_witness:
  "set (trace_sections id (trace_answered (2, ''u'') (Inl ThrownValue) (trace_load ''u'' (trace_opened ''t''))))
     \<subseteq> {Section_loading} \<union> range Section_error"
proof -
  let ?s = "trace_answered (2, ''u'') (Inl ThrownValue) (trace_load ''u'' (trace_opened ''t''))"
  let ?fits = "\<lambda>t d. td_traceId d = t"
  have "loader_step ?fits (trace_opened ''t'') (trace_load ''u'' (trace_opened ''t''))"
    unfolding trace_load_def by (rule loader_step.start)
  moreover have "loader_step ?fits (trace_load ''u'' (trace_opened ''t'')) ?s"
    unfolding trace_answered_def
    by (rule loader_step.answered) (simp_all add: trace_load_def trace_opened_def loader_start_def loader_mounted_def)
  ultimately have "(loader_step ?fits)\<^sup>*\<^sup>* (trace_opened ''t'') ?s" by (meson rtranclp.rtrancl_refl rtranclp.rtrancl_into_rtrancl)
  moreover have e: "ld_error ?s = Some unknown_error_message"
    by (simp add: trace_answered_def trace_load_def trace_opened_def loader_answered_def loader_start_def loader_mounted_def getErrorMessage_def)
  moreover have "unknown_error_message \<noteq> []" using error_messages_nonempty unknown_error_message_known by blast
  ultimately show ?thesis using trace_panel_exact [of ?fits "''t''" ?s id] by (simp add: loader_shown_def)
qed

end
