(* ===== verification/EU_RuleList.thy ===== *)
theory EU_RuleList imports EU_RuleForm EU_Nav EU_AgentTypes EU_HostTypes
begin

text \<open>
  The list of alert rules, \<open>features/alerts/components/AlertRulesTab.tsx\<close>: its labels, filters and
  order, and the state of the tab with its handlers and the requests they have in flight.
  \<open>nt\<close> is the text of a number in a template, \<open>coll\<close> the sort key of the reader's locale.
\<close>

section \<open>Labels\<close>

definition SEVERITY_ORDER :: "alert_severity \<Rightarrow> nat" where
  "SEVERITY_ORDER s = (case s of Sev_critical \<Rightarrow> 0 | Sev_warning \<Rightarrow> 1 | Sev_info \<Rightarrow> 2)"

datatype category_key = CK_endpoint | CK_request | CK_log | CK_resource | CK_system

definition ruleCategory :: "alert_rule \<Rightarrow> category_key" where
  "ruleCategory r =
     (if ar_isSystem r then CK_system
      else case ar_type r of RT_service \<Rightarrow> CK_endpoint | RT_request \<Rightarrow> CK_request | RT_log \<Rightarrow> CK_log | _ \<Rightarrow> CK_resource)"

text \<open>A field that is present and not empty.\<close>

definition present :: "string option option \<Rightarrow> string option" where
  "present v = (case v of Some (Some s) \<Rightarrow> if s \<noteq> [] then Some s else None | _ \<Rightarrow> None)"

record rule_targets =
  tl_agentServices :: "agent_service_flat list"
  tl_agents :: "connected_agent list"
  tl_directServices :: "observed_service list"
  tl_infrastructure :: "infrastructure_resource list"

definition name_in :: "('a \<Rightarrow> string) \<Rightarrow> ('a \<Rightarrow> string) \<Rightarrow> string \<Rightarrow> 'a list \<Rightarrow> string option" where
  "name_in key name i xs = map_option name (find (\<lambda>x. key x = i) xs)"

definition service_label :: "string \<Rightarrow> string \<Rightarrow> agent_service_flat list \<Rightarrow> string" where
  "service_label a k xs =
     (case find (\<lambda>s. sv_agentId s = a \<and> sv_key s = k) xs of
        Some s \<Rightarrow> sf_agentName s @ '' / '' @ sv_name s | None \<Rightarrow> k)"

definition targetLabel :: "rule_targets \<Rightarrow> alert_rule \<Rightarrow> string" where
  "targetLabel t r =
     (if ar_type r \<in> {RT_service, RT_log, RT_request} then
        (case present (ar_serviceId r) of
           Some i \<Rightarrow> or_default (name_in os_id os_name i (tl_directServices t)) i
         | None \<Rightarrow>
             (case (present (ar_agentId r), present (ar_serviceKey r)) of
                (Some a, Some k) \<Rightarrow> service_label a k (tl_agentServices t)
              | (Some a, None) \<Rightarrow>
                  if ar_type r = RT_request then or_default (name_in ag_id ag_name a (tl_agents t)) a
                  else if ar_type r = RT_log then ([CHR 0xEC, CHR 0xA0, CHR 0x84, CHR 0xEC, CHR 0xB2, CHR 0xB4] @ '' '' @ [CHR 0xEB, CHR 0xA1, CHR 0x9C, CHR 0xEA, CHR 0xB7, CHR 0xB8] @ '' '' @ [CHR 0xEC, CHR 0x84, CHR 0x9C, CHR 0xEB, CHR 0xB9, CHR 0x84, CHR 0xEC, CHR 0x8A, CHR 0xA4]) else ([CHR 0xEC, CHR 0xA0, CHR 0x84, CHR 0xEC, CHR 0xB2, CHR 0xB4] @ '' '' @ [CHR 0xED, CHR 0x97, CHR 0xAC, CHR 0xEC, CHR 0x8A, CHR 0xA4, CHR 0xEC, CHR 0xB2, CHR 0xB4, CHR 0xED, CHR 0x81, CHR 0xAC])
              | (None, _) \<Rightarrow> if ar_type r = RT_log then ([CHR 0xEC, CHR 0xA0, CHR 0x84, CHR 0xEC, CHR 0xB2, CHR 0xB4] @ '' '' @ [CHR 0xEB, CHR 0xA1, CHR 0x9C, CHR 0xEA, CHR 0xB7, CHR 0xB8] @ '' '' @ [CHR 0xEC, CHR 0x84, CHR 0x9C, CHR 0xEB, CHR 0xB9, CHR 0x84, CHR 0xEC, CHR 0x8A, CHR 0xA4]) else ([CHR 0xEC, CHR 0xA0, CHR 0x84, CHR 0xEC, CHR 0xB2, CHR 0xB4] @ '' '' @ [CHR 0xED, CHR 0x97, CHR 0xAC, CHR 0xEC, CHR 0x8A, CHR 0xA4, CHR 0xEC, CHR 0xB2, CHR 0xB4, CHR 0xED, CHR 0x81, CHR 0xAC])))
      else (case present (ar_agentId r) of
          Some a \<Rightarrow>
            (case name_in ir_id ir_name a (tl_infrastructure t) of
               Some n \<Rightarrow> n | None \<Rightarrow> or_default (name_in ag_id ag_name a (tl_agents t)) a)
        | None \<Rightarrow> ([CHR 0xEC, CHR 0xA0, CHR 0x84, CHR 0xEC, CHR 0xB2, CHR 0xB4] @ '' '' @ [CHR 0xEC, CHR 0x9D, CHR 0xB8, CHR 0xED, CHR 0x94, CHR 0x84, CHR 0xEB, CHR 0x9D, CHR 0xBC])))"

definition categoryLabel :: "category_key \<Rightarrow> string" where
  "categoryLabel c =
     (case c of CK_endpoint \<Rightarrow> [CHR 0xED, CHR 0x97, CHR 0xAC, CHR 0xEC, CHR 0x8A, CHR 0xA4, CHR 0xEC, CHR 0xB2, CHR 0xB4, CHR 0xED, CHR 0x81, CHR 0xAC] | CK_request \<Rightarrow> (''API '' @ [CHR 0xEC, CHR 0x9A, CHR 0x94, CHR 0xEC, CHR 0xB2, CHR 0xAD]) | CK_log \<Rightarrow> [CHR 0xEB, CHR 0xA1, CHR 0x9C, CHR 0xEA, CHR 0xB7, CHR 0xB8] | CK_resource \<Rightarrow> [CHR 0xEC, CHR 0x9D, CHR 0xB8, CHR 0xED, CHR 0x94, CHR 0x84, CHR 0xEB, CHR 0x9D, CHR 0xBC]
      | CK_system \<Rightarrow> [CHR 0xEC, CHR 0x8B, CHR 0x9C, CHR 0xEC, CHR 0x8A, CHR 0xA4, CHR 0xED, CHR 0x85, CHR 0x9C])"

definition category_text :: "category_key \<Rightarrow> string" where
  "category_text c =
     (case c of CK_endpoint \<Rightarrow> ''endpoint'' | CK_request \<Rightarrow> ''request'' | CK_log \<Rightarrow> ''log'' | CK_resource \<Rightarrow> ''resource''
      | CK_system \<Rightarrow> ''system'')"

definition METRIC_LABELS :: "(string \<times> string) list" where
  "METRIC_LABELS =
     [(''cpu'', ''CPU''), (''memory'', [CHR 0xEB, CHR 0xA9, CHR 0x94, CHR 0xEB, CHR 0xAA, CHR 0xA8, CHR 0xEB, CHR 0xA6, CHR 0xAC]), (''disk'', [CHR 0xEB, CHR 0x94, CHR 0x94, CHR 0xEC, CHR 0x8A, CHR 0xA4, CHR 0xED, CHR 0x81, CHR 0xAC]), (''status_change'', ([CHR 0xEC, CHR 0x83, CHR 0x81, CHR 0xED, CHR 0x83, CHR 0x9C] @ '' '' @ [CHR 0xEB, CHR 0xB3, CHR 0x80, CHR 0xEA, CHR 0xB2, CHR 0xBD])),
      (''http_status'', (''HTTP '' @ [CHR 0xEC, CHR 0x83, CHR 0x81, CHR 0xED, CHR 0x83, CHR 0x9C])), (''response_time'', ([CHR 0xEC, CHR 0x9D, CHR 0x91, CHR 0xEB, CHR 0x8B, CHR 0xB5] @ '' '' @ [CHR 0xEC, CHR 0x8B, CHR 0x9C, CHR 0xEA, CHR 0xB0, CHR 0x84])), (''log_level'', ([CHR 0xEB, CHR 0xA1, CHR 0x9C, CHR 0xEA, CHR 0xB7, CHR 0xB8] @ '' '' @ [CHR 0xEB, CHR 0xA0, CHR 0x88, CHR 0xEB, CHR 0xB2, CHR 0xA8])),
      (''api_status_code'', (''API '' @ [CHR 0xEC, CHR 0x83, CHR 0x81, CHR 0xED, CHR 0x83, CHR 0x9C])), (''error_rate'', [CHR 0xEC, CHR 0x97, CHR 0x90, CHR 0xEB, CHR 0x9F, CHR 0xAC, CHR 0xEC, CHR 0x9C, CHR 0xA8]), (''latency_p95'', (''p95 '' @ [CHR 0xEC, CHR 0xA7, CHR 0x80, CHR 0xEC, CHR 0x97, CHR 0xB0])), (''latency_p99'', (''p99 '' @ [CHR 0xEC, CHR 0xA7, CHR 0x80, CHR 0xEC, CHR 0x97, CHR 0xB0]))]"

definition OPERATOR_WORDS :: "alert_operator \<Rightarrow> string" where
  "OPERATOR_WORDS oper =
     (case oper of Op_gt \<Rightarrow> [CHR 0xEC, CHR 0xB4, CHR 0x88, CHR 0xEA, CHR 0xB3, CHR 0xBC] | Op_gte \<Rightarrow> [CHR 0xEC, CHR 0x9D, CHR 0xB4, CHR 0xEC, CHR 0x83, CHR 0x81] | Op_lt \<Rightarrow> [CHR 0xEB, CHR 0xAF, CHR 0xB8, CHR 0xEB, CHR 0xA7, CHR 0x8C] | Op_lte \<Rightarrow> [CHR 0xEC, CHR 0x9D, CHR 0xB4, CHR 0xED, CHR 0x95, CHR 0x98] | Op_eq \<Rightarrow> [CHR 0xEA, CHR 0xB0, CHR 0x99, CHR 0xEC, CHR 0x9D, CHR 0x8C])"

definition metricLabel :: "alert_metric \<Rightarrow> string" where
  "metricLabel m = or_default (map_of METRIC_LABELS (alert_metric_text m)) (alert_metric_text m)"

definition threshold_unit :: "alert_metric \<Rightarrow> string" where
  "threshold_unit m =
     (if m \<in> {Me_response_time, Me_latency_p95, Me_latency_p99} then ''ms''
      else if m \<in> {Me_http_status, Me_response_time, Me_log_level, Me_api_status_code} then [] else ''%'')"

definition thresholdValue :: "(rat \<Rightarrow> string) \<Rightarrow> alert_rule \<Rightarrow> string" where
  "thresholdValue nt r = nt (ar_threshold r) @ threshold_unit (ar_metric r)"

definition conditionExpr :: "(rat \<Rightarrow> string) \<Rightarrow> alert_rule \<Rightarrow> string" where
  "conditionExpr nt r =
     metricLabel (ar_metric r) @ '' '' @ thresholdValue nt r @ '' '' @ OPERATOR_WORDS (ar_operator r)"

text \<open>A quotient of a number that is a multiple of the divisor.\<close>

definition formatMinutes :: "int \<Rightarrow> string" where
  "formatMinutes m =
     (if 60 \<le> m \<and> m mod 60 = 0 then show_int (m div 60) @ [CHR 0xEC, CHR 0x8B, CHR 0x9C, CHR 0xEA, CHR 0xB0, CHR 0x84] else show_int m @ [CHR 0xEB, CHR 0xB6, CHR 0x84])"

definition formatSeconds :: "int \<Rightarrow> string" where
  "formatSeconds s =
     (if 3600 \<le> s \<and> s mod 3600 = 0 then show_int (s div 3600) @ [CHR 0xEC, CHR 0x8B, CHR 0x9C, CHR 0xEA, CHR 0xB0, CHR 0x84]
      else if 60 \<le> s \<and> s mod 60 = 0 then show_int (s div 60) @ [CHR 0xEB, CHR 0xB6, CHR 0x84]
      else show_int s @ [CHR 0xEC, CHR 0xB4, CHR 0x88])"

definition evaluationSummary :: "alert_rule \<Rightarrow> string" where
  "evaluationSummary r =
     (if ar_type r = RT_service then ([CHR 0xED, CHR 0x97, CHR 0xAC, CHR 0xEC, CHR 0x8A, CHR 0xA4, CHR 0xEC, CHR 0xB2, CHR 0xB4, CHR 0xED, CHR 0x81, CHR 0xAC] @ '' '' @ [CHR 0xEA, CHR 0xB2, CHR 0xB0, CHR 0xEA, CHR 0xB3, CHR 0xBC, CHR 0xEA, CHR 0xB0, CHR 0x80] @ '' '' @ [CHR 0xEC, CHR 0xA1, CHR 0xB0, CHR 0xEA, CHR 0xB1, CHR 0xB4, CHR 0xEC, CHR 0x97, CHR 0x90] @ '' '' @ [CHR 0xEB, CHR 0xA7, CHR 0x9E, CHR 0xEC, CHR 0x9D, CHR 0x84] @ '' '' @ [CHR 0xEB, CHR 0x95, CHR 0x8C, CHR 0xEB, CHR 0xA7, CHR 0x88, CHR 0xEB, CHR 0x8B, CHR 0xA4] @ '' '' @ [CHR 0xED, CHR 0x8F, CHR 0x89, CHR 0xEA, CHR 0xB0, CHR 0x80])
      else if ar_type r = RT_log then ([CHR 0xEB, CHR 0xA1, CHR 0x9C, CHR 0xEA, CHR 0xB7, CHR 0xB8] @ ''/API '' @ [CHR 0xEC, CHR 0x9D, CHR 0xB4, CHR 0xEB, CHR 0xB2, CHR 0xA4, CHR 0xED, CHR 0x8A, CHR 0xB8, CHR 0xEB, CHR 0xA7, CHR 0x88, CHR 0xEB, CHR 0x8B, CHR 0xA4] @ '' '' @ [CHR 0xED, CHR 0x8F, CHR 0x89, CHR 0xEA, CHR 0xB0, CHR 0x80])
      else if ar_type r = RT_request
      then ([CHR 0xEC, CHR 0xB5, CHR 0x9C, CHR 0xEA, CHR 0xB7, CHR 0xBC] @ '' '') @ formatMinutes (ar_duration r) @ ('' '' @ [CHR 0xEA, CHR 0xB5, CHR 0xAC, CHR 0xEA, CHR 0xB0, CHR 0x84, CHR 0xEC, CHR 0x9D, CHR 0x84] @ '' 1'' @ [CHR 0xEB, CHR 0xB6, CHR 0x84, CHR 0xEB, CHR 0xA7, CHR 0x88, CHR 0xEB, CHR 0x8B, CHR 0xA4] @ '' '' @ [CHR 0xED, CHR 0x8F, CHR 0x89, CHR 0xEA, CHR 0xB0, CHR 0x80] @ '' '' @ [CHR 0xC2, CHR 0xB7] @ '' '') @ formatSeconds (ar_cooldown r) @ ('' '' @ [CHR 0xEC, CHR 0xBF, CHR 0xA8, CHR 0xEB, CHR 0x8B, CHR 0xA4, CHR 0xEC, CHR 0x9A, CHR 0xB4])
      else if ar_isSystem r then ([CHR 0xEC, CHR 0x8B, CHR 0x9C, CHR 0xEC, CHR 0x8A, CHR 0xA4, CHR 0xED, CHR 0x85, CHR 0x9C, CHR 0xEC, CHR 0x97, CHR 0x90, CHR 0xEC, CHR 0x84, CHR 0x9C] @ '' '' @ [CHR 0xEC, CHR 0x9E, CHR 0x90, CHR 0xEB, CHR 0x8F, CHR 0x99] @ '' '' @ [CHR 0xED, CHR 0x8F, CHR 0x89, CHR 0xEA, CHR 0xB0, CHR 0x80])
      else formatMinutes (ar_duration r) @ ('' '' @ [CHR 0xEB, CHR 0x8F, CHR 0x99, CHR 0xEC, CHR 0x95, CHR 0x88] @ '' '' @ [CHR 0xEC, CHR 0xA7, CHR 0x80, CHR 0xEC, CHR 0x86, CHR 0x8D] @ '' '' @ [CHR 0xC2, CHR 0xB7] @ '' '') @ formatSeconds (ar_cooldown r) @ ('' '' @ [CHR 0xEC, CHR 0xBF, CHR 0xA8, CHR 0xEB, CHR 0x8B, CHR 0xA4, CHR 0xEC, CHR 0x9A, CHR 0xB4]))"

definition compactTrigger :: "(rat \<Rightarrow> string) \<Rightarrow> alert_rule \<Rightarrow> string" where
  "compactTrigger nt r =
     (if ar_isSystem r then ([CHR 0xEC, CHR 0x8B, CHR 0x9C, CHR 0xEC, CHR 0x8A, CHR 0xA4, CHR 0xED, CHR 0x85, CHR 0x9C, CHR 0xEC, CHR 0x97, CHR 0x90, CHR 0xEC, CHR 0x84, CHR 0x9C] @ '' '' @ [CHR 0xEC, CHR 0x9E, CHR 0x90, CHR 0xEB, CHR 0x8F, CHR 0x99] @ '' '' @ [CHR 0xED, CHR 0x8F, CHR 0x89, CHR 0xEA, CHR 0xB0, CHR 0x80])
      else if ar_type r = RT_log then conditionExpr nt r @ ('' '' @ [CHR 0xC2, CHR 0xB7] @ '' '' @ [CHR 0xEC, CHR 0xA6, CHR 0x89, CHR 0xEC, CHR 0x8B, CHR 0x9C])
      else if ar_type r = RT_request then conditionExpr nt r @ ('' '' @ [CHR 0xC2, CHR 0xB7] @ '' '' @ [CHR 0xEC, CHR 0xB5, CHR 0x9C, CHR 0xEA, CHR 0xB7, CHR 0xBC] @ '' '') @ formatMinutes (ar_duration r)
      else if ar_type r = RT_service then conditionExpr nt r @ ('' '' @ [CHR 0xC2, CHR 0xB7] @ '' '') @ show_int (ar_duration r) @ ([CHR 0xED, CHR 0x9A, CHR 0x8C] @ '' '' @ [CHR 0xEC, CHR 0x97, CHR 0xB0, CHR 0xEC, CHR 0x86, CHR 0x8D])
      else conditionExpr nt r @ ('' '' @ [CHR 0xC2, CHR 0xB7] @ '' '') @ formatMinutes (ar_duration r) @ ('' '' @ [CHR 0xEC, CHR 0xA7, CHR 0x80, CHR 0xEC, CHR 0x86, CHR 0x8D]))"

definition MAX_CHANNEL_AVATARS :: nat where "MAX_CHANNEL_AVATARS = 4"

definition rule_channels :: "notification_channel list \<Rightarrow> alert_rule \<Rightarrow> notification_channel list" where
  "rule_channels channels r =
     (if ar_channelIds r = [] then channels
      else List.map_filter (\<lambda>i. find (\<lambda>c. nc_id c = i) channels) (ar_channelIds r))"

text \<open>The channels drawn, and how many more there are.\<close>

definition ChannelAvatars :: "notification_channel list \<Rightarrow> alert_rule \<Rightarrow> notification_channel list \<times> nat" where
  "ChannelAvatars channels r =
     (let xs = rule_channels channels r; visible = take MAX_CHANNEL_AVATARS xs in (visible, length xs - length visible))"

section \<open>Filters and order\<close>

datatype enabled_filter = EF_all | EF_on | EF_off

datatype sort_key = SK_severity | SK_name | SK_target | SK_category

record rule_view =
  rw_category :: "category_key option"
  rw_severity :: "alert_severity option"
  rw_enabled :: enabled_filter
  rw_search :: string
  rw_sortKey :: sort_key
  rw_desc :: bool

definition view_initial :: rule_view where
  "view_initial =
     \<lparr>rw_category = None, rw_severity = None, rw_enabled = EF_all, rw_search = [], rw_sortKey = SK_severity, rw_desc = False\<rparr>"

definition onSort :: "sort_key \<Rightarrow> rule_view \<Rightarrow> rule_view" where
  "onSort k v = (if rw_sortKey v = k then v\<lparr>rw_desc := \<not> rw_desc v\<rparr> else v\<lparr>rw_sortKey := k, rw_desc := False\<rparr>)"

definition clearFilters :: "rule_view \<Rightarrow> rule_view" where
  "clearFilters v = v\<lparr>rw_category := None, rw_severity := None, rw_enabled := EF_all, rw_search := []\<rparr>"

definition rule_passes :: "rule_targets \<Rightarrow> alert_target option \<Rightarrow> rule_view \<Rightarrow> alert_rule \<Rightarrow> bool" where
  "rule_passes t target v r \<longleftrightarrow>
     (if target \<noteq> None \<and> \<not> matchesAlertTarget r (the target) then False
      else if rw_category v \<noteq> None \<and> ruleCategory r \<noteq> the (rw_category v) then False
      else if rw_severity v \<noteq> None \<and> ar_severity r \<noteq> the (rw_severity v) then False
      else if rw_enabled v \<noteq> EF_all \<and> (if rw_enabled v = EF_on then \<not> ar_isEnabled r else ar_isEnabled r) then False
      else if rw_search v \<noteq> [] then
        (let q = to_lower (rw_search v) in
         \<not> (\<not> str_includes q (to_lower (ar_name r)) \<and> \<not> str_includes q (to_lower (targetLabel t r))))
      else True)"

text \<open>The comparator of a sort key as a less-or-equal relation, by the text or rank it compares.\<close>

definition sort_text :: "(string \<Rightarrow> string) \<Rightarrow> rule_targets \<Rightarrow> sort_key \<Rightarrow> alert_rule \<Rightarrow> nat \<times> string" where
  "sort_text coll t k r =
     (case k of
        SK_severity \<Rightarrow> (SEVERITY_ORDER (ar_severity r), [])
      | SK_name \<Rightarrow> (0, coll (ar_name r))
      | SK_target \<Rightarrow> (0, coll (targetLabel t r))
      | SK_category \<Rightarrow> (0, coll (category_text (ruleCategory r))))"

definition rule_le :: "(string \<Rightarrow> string) \<Rightarrow> rule_targets \<Rightarrow> sort_key \<Rightarrow> bool \<Rightarrow> alert_rule \<Rightarrow> alert_rule \<Rightarrow> bool" where
  "rule_le coll t k desc x y \<longleftrightarrow>
     (let (a, b) = sort_text coll t k x; (c, d) = sort_text coll t k y in
      if desc then c < a \<or> c = a \<and> d \<le> b else a < c \<or> a = c \<and> b \<le> d)"

definition filteredRules ::
  "(string \<Rightarrow> string) \<Rightarrow> rule_targets \<Rightarrow> alert_target option \<Rightarrow> rule_view \<Rightarrow> alert_rule list \<Rightarrow> alert_rule list" where
  "filteredRules coll t target v rules =
     sort_by (rule_le coll t (rw_sortKey v) (rw_desc v)) (filter (rule_passes t target v) rules)"

interpretation rule_order: total_preorder "rule_le coll t k desc" for coll t k desc
  by unfold_locales (auto simp: rule_le_def Let_def split: prod.splits)

definition selectedTargetLabel :: "rule_targets \<Rightarrow> alert_target option \<Rightarrow> string option" where
  "selectedTargetLabel t target =
     (case target of
        None \<Rightarrow> None
      | Some (AT_direct i) \<Rightarrow> Some (or_default (name_in os_id os_name i (tl_directServices t)) i)
      | Some (AT_infrastructure i) \<Rightarrow> Some (or_default (name_in ir_id ir_name i (tl_infrastructure t)) i)
      | Some (AT_agent a k) \<Rightarrow> Some (service_label a k (tl_agentServices t)))"

section \<open>The tab\<close>

record rules_tab =
  rt_rules :: "alert_rule list"
  rt_channels :: "notification_channel list"
  rt_targets :: rule_targets
  rt_isLoading :: bool
  rt_toggling :: "string list"
  rt_deleteTarget :: "string option"
  rt_isDeleting :: bool
  rt_formOpen :: bool
  rt_formRule :: "alert_rule option"
  rt_formLoading :: bool
  rt_view :: rule_view
  rt_loads :: nat
  rt_toggles :: "string list"
  rt_deletes :: "string list"
  rt_edits :: "string list"

definition loadData :: "rules_tab \<Rightarrow> rules_tab" where
  "loadData s = s\<lparr>rt_loads := Suc (rt_loads s)\<rparr>"

definition tab_mounted :: rules_tab where
  "tab_mounted =
     loadData \<lparr>rt_rules = [], rt_channels = [],
       rt_targets = \<lparr>tl_agentServices = [], tl_agents = [], tl_directServices = [], tl_infrastructure = []\<rparr>,
       rt_isLoading = True, rt_toggling = [], rt_deleteTarget = None, rt_isDeleting = False, rt_formOpen = False,
       rt_formRule = None, rt_formLoading = False, rt_view = view_initial, rt_loads = 0, rt_toggles = [], rt_deletes = [],
       rt_edits = []\<rparr>"

definition data_loaded ::
  "thrown + alert_rule list \<times> notification_channel list \<times> rule_targets \<Rightarrow> rules_tab \<Rightarrow> rules_tab" where
  "data_loaded r s =
     (let s = s\<lparr>rt_loads := rt_loads s - 1, rt_isLoading := False\<rparr> in
      case r of Inr (rules, channels, t) \<Rightarrow> s\<lparr>rt_rules := rules, rt_channels := channels, rt_targets := t\<rparr> | Inl _ \<Rightarrow> s)"

definition handleToggle :: "string \<Rightarrow> rules_tab \<Rightarrow> rules_tab" where
  "handleToggle i s =
     s\<lparr>rt_toggling := (if i \<in> set (rt_toggling s) then rt_toggling s else rt_toggling s @ [i]), rt_toggles := rt_toggles s @ [i]\<rparr>"

definition toggle_answered :: "string \<Rightarrow> thrown + bool \<Rightarrow> rules_tab \<Rightarrow> rules_tab" where
  "toggle_answered i r s =
     (let s = s\<lparr>rt_toggles := remove1 i (rt_toggles s), rt_toggling := removeAll i (rt_toggling s)\<rparr> in
      case r of
        Inr enabled \<Rightarrow> s\<lparr>rt_rules := map (\<lambda>x. if ar_id x = i then x\<lparr>ar_isEnabled := enabled\<rparr> else x) (rt_rules s)\<rparr>
      | Inl _ \<Rightarrow> s)"

definition askDelete :: "alert_rule \<Rightarrow> rules_tab \<Rightarrow> rules_tab" where
  "askDelete r s = (if \<not> ar_isSystem r then s\<lparr>rt_deleteTarget := Some (ar_id r)\<rparr> else s)"

definition cancelDelete :: "rules_tab \<Rightarrow> rules_tab" where
  "cancelDelete s = s\<lparr>rt_deleteTarget := None\<rparr>"

definition handleDeleteConfirm :: "rules_tab \<Rightarrow> rules_tab" where
  "handleDeleteConfirm s =
     (case rt_deleteTarget s of
        Some i \<Rightarrow> if i = [] then s else s\<lparr>rt_isDeleting := True, rt_deletes := rt_deletes s @ [i]\<rparr>
      | None \<Rightarrow> s)"

definition delete_answered :: "string \<Rightarrow> thrown + unit \<Rightarrow> rules_tab \<Rightarrow> rules_tab" where
  "delete_answered i r s =
     (let s = s\<lparr>rt_deletes := remove1 i (rt_deletes s), rt_isDeleting := False\<rparr> in
      case r of Inr _ \<Rightarrow> loadData (s\<lparr>rt_deleteTarget := None\<rparr>) | Inl _ \<Rightarrow> s)"

definition closeForm :: "rules_tab \<Rightarrow> rules_tab" where
  "closeForm s = s\<lparr>rt_formOpen := False, rt_formRule := None\<rparr>"

definition onFormSuccess :: "rules_tab \<Rightarrow> rules_tab" where
  "onFormSuccess s = loadData (closeForm s)"

definition handleAddRule :: "rules_tab \<Rightarrow> rules_tab" where
  "handleAddRule s = s\<lparr>rt_formRule := None, rt_formLoading := False, rt_formOpen := True\<rparr>"

definition handleEdit :: "alert_rule \<Rightarrow> rules_tab \<Rightarrow> rules_tab" where
  "handleEdit r s = s\<lparr>rt_formRule := None, rt_formOpen := True, rt_formLoading := True, rt_edits := rt_edits s @ [ar_id r]\<rparr>"

definition edit_answered :: "string \<Rightarrow> thrown + alert_rule \<Rightarrow> rules_tab \<Rightarrow> rules_tab" where
  "edit_answered i r s =
     (let s = s\<lparr>rt_edits := remove1 i (rt_edits s), rt_formLoading := False\<rparr> in
      case r of Inr rule \<Rightarrow> s\<lparr>rt_formRule := Some rule\<rparr> | Inl _ \<Rightarrow> closeForm s)"

inductive tab_step :: "rules_tab \<Rightarrow> rules_tab \<Rightarrow> bool" where
  loaded: "0 < rt_loads s \<Longrightarrow> tab_step s (data_loaded r s)"
| toggle: "x \<in> set (rt_rules s) \<Longrightarrow> ar_id x \<notin> set (rt_toggling s) \<Longrightarrow> tab_step s (handleToggle (ar_id x) s)"
| toggled: "i \<in> set (rt_toggles s) \<Longrightarrow> tab_step s (toggle_answered i r s)"
| ask: "x \<in> set (rt_rules s) \<Longrightarrow> \<not> rt_isDeleting s \<Longrightarrow> tab_step s (askDelete x s)"
| cancel: "tab_step s (cancelDelete s)"
| confirm: "\<not> rt_isDeleting s \<Longrightarrow> tab_step s (handleDeleteConfirm s)"
| deleted: "i \<in> set (rt_deletes s) \<Longrightarrow> tab_step s (delete_answered i r s)"
| add: "tab_step s (handleAddRule s)"
| edit: "x \<in> set (rt_rules s) \<Longrightarrow> tab_step s (handleEdit x s)"
| edited: "i \<in> set (rt_edits s) \<Longrightarrow> (\<And>x. r = Inr x \<Longrightarrow> ar_id x = i) \<Longrightarrow> tab_step s (edit_answered i r s)"
| close: "tab_step s (closeForm s)"
| saved: "tab_step s (onFormSuccess s)"
| view: "tab_step s (s\<lparr>rt_view := v\<rparr>)"

text \<open>A rule's switch is locked exactly while a request to toggle it is in flight, and one at most is.\<close>

definition toggles_ok :: "rules_tab \<Rightarrow> bool" where
  "toggles_ok s \<longleftrightarrow> distinct (rt_toggles s) \<and> rt_toggling s = rt_toggles s"

lemma toggles_beside [simp]:
  "toggles_ok (loadData s) = toggles_ok s" "toggles_ok (closeForm s) = toggles_ok s"
  by (simp_all add: toggles_ok_def loadData_def closeForm_def)

lemma toggles_ok_step: "tab_step s s' \<Longrightarrow> toggles_ok s \<Longrightarrow> toggles_ok s'"
  by (induction rule: tab_step.induct)
    (auto simp: toggles_ok_def data_loaded_def handleToggle_def toggle_answered_def askDelete_def cancelDelete_def
      handleDeleteConfirm_def delete_answered_def onFormSuccess_def handleAddRule_def handleEdit_def edit_answered_def
      loadData_def closeForm_def distinct_remove1_removeAll distinct_removeAll Let_def split: sum.splits option.splits)

lemma toggles_ok_reach: "tab_step\<^sup>*\<^sup>* tab_mounted s \<Longrightarrow> toggles_ok s"
proof (induction rule: rtranclp_induct)
  case (step y z)
  then show ?case using toggles_ok_step by blast
qed (simp add: toggles_ok_def tab_mounted_def loadData_def)

section \<open>The list as a whole\<close>

text \<open>The list shows exactly the rules that pass the target and every filter set, each once, in the
  chosen order and direction, rules that tie in the order they came.\<close>

theorem rules_listed:
  "mset (filteredRules coll t target v rules) = filter_mset (rule_passes t target v) (mset rules)
    \<and> sorted_wrt (rule_le coll t (rw_sortKey v) (rw_desc v)) (filteredRules coll t target v rules)
    \<and> filter (\<lambda>y. sort_text coll t (rw_sortKey v) x = sort_text coll t (rw_sortKey v) y) (filteredRules coll t target v rules)
      = filter (\<lambda>y. rule_passes t target v y \<and> sort_text coll t (rw_sortKey v) x = sort_text coll t (rw_sortKey v) y) rules"
proof (intro conj3)
  have "rule_order.tied coll t (rw_sortKey v) (rw_desc v) x
      = (\<lambda>y. sort_text coll t (rw_sortKey v) x = sort_text coll t (rw_sortKey v) y)"
    by (auto simp: fun_eq_iff rule_order.tied_def rule_le_def Let_def split: prod.splits)
  from rule_order.sort_stable [of coll t "rw_sortKey v" "rw_desc v" x "filter (rule_passes t target v) rules", unfolded this]
  show "filter (\<lambda>y. sort_text coll t (rw_sortKey v) x = sort_text coll t (rw_sortKey v) y) (filteredRules coll t target v rules)
      = filter (\<lambda>y. rule_passes t target v y \<and> sort_text coll t (rw_sortKey v) x = sort_text coll t (rw_sortKey v) y) rules"
    by (simp add: filteredRules_def conj_commute)
qed (simp_all add: filteredRules_def rule_order.sorted_sort)

text \<open>The answer to an edit is not tied to the form it was asked for: after an edit is closed and a new
  rule begun, a late answer turns the open form into the edit of the old rule.\<close>

theorem edit_lands_in_new_form:
  assumes "x \<in> set (rt_rules s)" "ar_id y = ar_id x"
  shows "tab_step\<^sup>*\<^sup>* s (edit_answered (ar_id x) (Inr y) (handleAddRule (closeForm (handleEdit x s))))
    \<and> rt_formRule (handleAddRule (closeForm (handleEdit x s))) = None
    \<and> rt_formOpen (edit_answered (ar_id x) (Inr y) (handleAddRule (closeForm (handleEdit x s))))
    \<and> rt_formRule (edit_answered (ar_id x) (Inr y) (handleAddRule (closeForm (handleEdit x s)))) = Some y"
proof (intro conjI)
  have "tab_step s (handleEdit x s)" by (rule tab_step.edit) (rule assms(1))
  moreover have "tab_step (handleEdit x s) (closeForm (handleEdit x s))" by (rule tab_step.close)
  moreover have "tab_step (closeForm (handleEdit x s)) (handleAddRule (closeForm (handleEdit x s)))" by (rule tab_step.add)
  moreover have "tab_step (handleAddRule (closeForm (handleEdit x s)))
      (edit_answered (ar_id x) (Inr y) (handleAddRule (closeForm (handleEdit x s))))"
    by (rule tab_step.edited) (simp_all add: assms handleAddRule_def closeForm_def handleEdit_def)
  ultimately show "tab_step\<^sup>*\<^sup>* s (edit_answered (ar_id x) (Inr y) (handleAddRule (closeForm (handleEdit x s))))"
    by (meson rtranclp.rtrancl_refl rtranclp.rtrancl_into_rtrancl)
qed (simp_all add: edit_answered_def handleAddRule_def closeForm_def handleEdit_def Let_def)

definition listed_rule :: alert_rule where
  "listed_rule =
     \<lparr>ar_id = ''r1'', ar_name = ''cpu'', ar_type = RT_resource, ar_agentId = None, ar_serviceKey = None, ar_serviceId = None,
      ar_metric = Me_cpu, ar_metricName = None, ar_operator = Op_gt, ar_threshold = 80, ar_duration = 5,
      ar_severity = Sev_warning, ar_isEnabled = True, ar_isSystem = False, ar_cooldown = 300, ar_message = None,
      ar_channelIds = [], ar_lastTriggeredAt = None, ar_createdAt = [], ar_updatedAt = []\<rparr>"

lemma edit_lands_in_new_form_witness:
  "rt_formRule (edit_answered ''r1'' (Inr listed_rule)
     (handleAddRule (closeForm (handleEdit listed_rule (tab_mounted\<lparr>rt_rules := [listed_rule]\<rparr>))))) = Some listed_rule"
  using edit_lands_in_new_form [of listed_rule "tab_mounted\<lparr>rt_rules := [listed_rule]\<rparr>" listed_rule]
  by (simp add: listed_rule_def [THEN arg_cong, of ar_id, simplified])

end
