(* ===== verification/EU_ChannelForm.thy ===== *)
theory EU_ChannelForm imports EU_JsonText EU_Client
begin

text \<open>
  The notification channel form, \<open>features/alerts/components/ChannelForm.tsx\<close>: its schema, what it
  opens a stored channel with, the request it sends, the test of unsaved values, and the preview;
  and the Go server's side of it, which answers a channel with its secrets redacted.

  A field holds what \<open>reset\<close> put there, any value the stored JSON has or \<open>undefined\<close>, or the text
  typed since.  Tokens and addresses are ASCII, so that their bytes are their UTF-16 units; names are
  measured in UTF-16 units.
\<close>

section \<open>Schema\<close>

text \<open>UTF-16 units of a UTF-8 text: one per character, two where its first byte is at least \<open>F0\<close>.\<close>

definition utf16_length :: "string \<Rightarrow> nat" where
  "utf16_length s =
     sum_list (map (\<lambda>c. let n = (of_char c :: nat) in if 128 \<le> n \<and> n < 192 then 0 else if 240 \<le> n then 2 else 1) s)"

record channel_form =
  cf_name :: "json option"
  cf_type :: channel_type
  cf_botToken :: "json option"
  cf_chatId :: "json option"
  cf_webhookUrl :: "json option"

definition field_text :: "json option \<Rightarrow> string" where
  "field_text v = (case v of Some (JStr s) \<Rightarrow> s | _ \<Rightarrow> [])"

definition is_text :: "json option \<Rightarrow> bool" where
  "is_text v \<longleftrightarrow> (case v of Some (JStr _) \<Rightarrow> True | _ \<Rightarrow> False)"

definition web_address :: "string \<Rightarrow> bool" where
  "web_address s \<longleftrightarrow>
     (\<exists>p \<in> set [''http://'', ''https://'']. starts_with p s \<and> drop (length p) s \<noteq> [] \<and> hd (drop (length p) s) \<notin> set [CHR 0x0A, CHR 0x0D])"

definition channel_valid :: "channel_form \<Rightarrow> bool" where
  "channel_valid f \<longleftrightarrow>
     is_text (cf_name f) \<and> 2 \<le> utf16_length (js_trim (field_text (cf_name f)))
     \<and> list_all (\<lambda>v. v = None \<or> is_text v) [cf_botToken f, cf_chatId f, cf_webhookUrl f]
     \<and> (if cf_type f = Ch_telegram
        then js_trim (field_text (cf_botToken f)) \<noteq> [] \<and> js_trim (field_text (cf_chatId f)) \<noteq> []
        else js_trim (field_text (cf_webhookUrl f)) \<noteq> [] \<and> web_address (field_text (cf_webhookUrl f)))"

section \<open>Opening\<close>

definition empty_channel_form :: channel_form where
  "empty_channel_form =
     \<lparr>cf_name = Some (JStr []), cf_type = Ch_telegram, cf_botToken = Some (JStr []), cf_chatId = Some (JStr []),
      cf_webhookUrl = Some (JStr [])\<rparr>"

definition stored_config :: "string \<Rightarrow> json" where
  "stored_config t = (case json_parse t of Some j \<Rightarrow> j | None \<Rightarrow> JNull)"

definition config_truthy :: "json \<Rightarrow> bool" where
  "config_truthy j \<longleftrightarrow> j \<notin> {JNull, JBool False, JInt 0, JStr []}"

definition load_channel :: "notification_channel option \<Rightarrow> channel_form" where
  "load_channel c =
     (case c of
        None \<Rightarrow> empty_channel_form
      | Some c \<Rightarrow>
          let config = stored_config (nc_config c); tele = (nc_type c = Ch_telegram \<and> config_truthy config);
              web = (nc_type c \<in> {Ch_discord, Ch_slack} \<and> config_truthy config) in
          \<lparr>cf_name = Some (JStr (nc_name c)), cf_type = nc_type c,
           cf_botToken = (if tele then jget config ''botToken'' else Some (JStr [])),
           cf_chatId = (if tele then jget config ''chatId'' else Some (JStr [])),
           cf_webhookUrl = (if web then jget config ''webhookUrl'' else Some (JStr []))\<rparr>)"

datatype channel_event = Ev_name string | Ev_type channel_type | Ev_botToken string | Ev_chatId string | Ev_webhookUrl string

fun channel_edit :: "channel_event \<Rightarrow> channel_form \<Rightarrow> channel_form" where
  "channel_edit (Ev_name v) f = f\<lparr>cf_name := Some (JStr v)\<rparr>"
| "channel_edit (Ev_type t) f = f\<lparr>cf_type := t\<rparr>"
| "channel_edit (Ev_botToken v) f = f\<lparr>cf_botToken := Some (JStr v)\<rparr>"
| "channel_edit (Ev_chatId v) f = f\<lparr>cf_chatId := Some (JStr v)\<rparr>"
| "channel_edit (Ev_webhookUrl v) f = f\<lparr>cf_webhookUrl := Some (JStr v)\<rparr>"

section \<open>Sending\<close>

definition buildPayload :: "string \<Rightarrow> channel_form \<Rightarrow> create_notification_channel_data" where
  "buildPayload name f =
     \<lparr>cnc_name = name, cnc_type = cf_type f,
      cnc_config = (case cf_type f of
          Ch_telegram \<Rightarrow> Telegram_config \<lparr>tg_botToken = field_text (cf_botToken f), tg_chatId = field_text (cf_chatId f)\<rparr>
        | Ch_discord \<Rightarrow> Discord_config \<lparr>dc_webhookUrl = field_text (cf_webhookUrl f)\<rparr>
        | Ch_slack \<Rightarrow> Slack_config \<lparr>sl_webhookUrl = field_text (cf_webhookUrl f)\<rparr>)\<rparr>"

text \<open>The resolver hands \<open>onSubmit\<close> the parsed values, where the name is trimmed.\<close>

definition submit_channel :: "notification_channel option \<Rightarrow> channel_form \<Rightarrow> notification_channel api_call option" where
  "submit_channel c f =
     (if \<not> channel_valid f then None
      else let d = buildPayload (js_trim (field_text (cf_name f))) f in
        Some (case c of Some c \<Rightarrow> updateNotificationChannel (nc_id c) d | None \<Rightarrow> createNotificationChannel d))"

datatype test_state = TS_idle | TS_loading | TS_success | TS_error

record channel_test =
  ct_state :: test_state
  ct_error :: string
  ct_time :: string

definition test_initial :: channel_test where
  "test_initial = \<lparr>ct_state = TS_idle, ct_error = [], ct_time = []\<rparr>"

definition FILL_FIRST :: string where "FILL_FIRST = ([CHR 0xED, CHR 0x95, CHR 0x84, CHR 0xEC, CHR 0x88, CHR 0x98] @ '' '' @ [CHR 0xED, CHR 0x95, CHR 0xAD, CHR 0xEB, CHR 0xAA, CHR 0xA9, CHR 0xEC, CHR 0x9D, CHR 0x84] @ '' '' @ [CHR 0xEB, CHR 0xA8, CHR 0xBC, CHR 0xEC, CHR 0xA0, CHR 0x80] @ '' '' @ [CHR 0xEC, CHR 0x9E, CHR 0x85, CHR 0xEB, CHR 0xA0, CHR 0xA5, CHR 0xED, CHR 0x95, CHR 0x98, CHR 0xEC, CHR 0x84, CHR 0xB8, CHR 0xEC, CHR 0x9A, CHR 0x94])"

text \<open>The test sends the values as typed, the name not trimmed.\<close>

definition handleTest :: "channel_form \<Rightarrow> channel_test \<Rightarrow> channel_test \<times> string api_call option" where
  "handleTest f s =
     (if \<not> channel_valid f then (s\<lparr>ct_state := TS_error, ct_error := FILL_FIRST\<rparr>, None)
      else (s\<lparr>ct_state := TS_loading, ct_error := []\<rparr>, Some (testNotificationChannelConfig (buildPayload (field_text (cf_name f)) f))))"

definition test_answered :: "string \<Rightarrow> thrown + string \<Rightarrow> channel_test \<Rightarrow> channel_test" where
  "test_answered now r s =
     (case r of
        Inr _ \<Rightarrow> s\<lparr>ct_state := TS_success, ct_time := now\<rparr>
      | Inl e \<Rightarrow> s\<lparr>ct_state := TS_error, ct_error := getErrorMessage e\<rparr>)"

section \<open>Preview\<close>

definition DOTS :: string where "DOTS = [CHR 0xE2, CHR 0x80, CHR 0xA2, CHR 0xE2, CHR 0x80, CHR 0xA2, CHR 0xE2, CHR 0x80, CHR 0xA2, CHR 0xE2, CHR 0x80, CHR 0xA2]"

definition maskToken :: "string \<Rightarrow> string" where
  "maskToken v =
     (if 8 < length v then take 6 v @ DOTS @ drop (length v - 4) v
      else if v \<noteq> [] then [CHR 0xE2, CHR 0x80, CHR 0xA2, CHR 0xE2, CHR 0x80, CHR 0xA2, CHR 0xE2, CHR 0x80, CHR 0xA2, CHR 0xE2, CHR 0x80, CHR 0xA2, CHR 0xE2, CHR 0x80, CHR 0xA2, CHR 0xE2, CHR 0x80, CHR 0xA2] else [])"

definition webhook_preview :: "string \<Rightarrow> string" where
  "webhook_preview v =
     (let rest = (if starts_with ''http://'' v then drop 7 v else if starts_with ''https://'' v then drop 8 v else v) in
      take 32 rest @ (if 40 < length v then [CHR 0xE2, CHR 0x80, CHR 0xA6] else []))"

lemma mask_hides:
  assumes "8 < length v"
  shows "maskToken v = take 6 v @ DOTS @ drop (length v - 4) v"
    and "length v \<le> 10 \<Longrightarrow> take 6 v @ drop (6 - (length v - 4)) (drop (length v - 4) v) = v"
  using assms by (simp_all add: maskToken_def)

section \<open>What the server keeps and answers\<close>

text \<open>
  The Go server's handlers of a channel (\<open>internal/api/handlers/notifications.go\<close>,
  \<open>internal/models/notification.go\<close>): a channel is stored with the configuration as sent, replaced as
  a whole by an update, and every answer holds \<open>MaskConfig\<close> of it. \<open>marshal\<close> is Go's \<open>json.Marshal\<close>, of
  which only that its texts parse to the value they were made from is used; \<open>webhook_ok\<close> stands for the
  check of a web address's host.
\<close>

definition accepts_channel :: "(channel_type \<Rightarrow> string \<Rightarrow> bool) \<Rightarrow> create_notification_channel_data \<Rightarrow> bool" where
  "accepts_channel webhook_ok d \<longleftrightarrow>
     cnc_name d \<noteq> []
     \<and> (case cnc_config d of
          Telegram_config t \<Rightarrow> tg_botToken t \<noteq> [] \<and> tg_chatId t \<noteq> []
        | Discord_config x \<Rightarrow> dc_webhookUrl x \<noteq> [] \<and> webhook_ok Ch_discord (dc_webhookUrl x)
        | Slack_config x \<Rightarrow> sl_webhookUrl x \<noteq> [] \<and> webhook_ok Ch_slack (sl_webhookUrl x))"

definition stored_channel :: "(json \<Rightarrow> string) \<Rightarrow> string \<Rightarrow> string \<Rightarrow> create_notification_channel_data \<Rightarrow> notification_channel" where
  "stored_channel marshal i now d =
     \<lparr>nc_id = i, nc_name = cnc_name d, nc_type = cnc_type d, nc_config = marshal (channel_config_json (cnc_config d)),
      nc_isEnabled = True, nc_createdAt = now\<rparr>"

definition updated_channel ::
  "(json \<Rightarrow> string) \<Rightarrow> (channel_type \<Rightarrow> string \<Rightarrow> bool) \<Rightarrow> create_notification_channel_data \<Rightarrow> notification_channel \<Rightarrow> notification_channel" where
  "updated_channel marshal webhook_ok d c =
     (if accepts_channel webhook_ok d
      then c\<lparr>nc_name := cnc_name d, nc_type := cnc_type d, nc_config := marshal (channel_config_json (cnc_config d))\<rparr> else c)"

text \<open>\<open>json.Unmarshal\<close> into a struct of texts: an absent or null field is empty, another value an error.\<close>

definition go_field :: "json \<Rightarrow> string \<Rightarrow> string option" where
  "go_field j k = (case jget j k of None \<Rightarrow> Some [] | Some JNull \<Rightarrow> Some [] | Some (JStr s) \<Rightarrow> Some s | Some _ \<Rightarrow> None)"

definition go_struct :: "string \<Rightarrow> string list \<Rightarrow> string list option" where
  "go_struct t ks =
     (case json_parse t of
        Some (JObj ps) \<Rightarrow> those (map (go_field (JObj ps)) ks)
      | Some JNull \<Rightarrow> Some (map (\<lambda>_. []) ks)
      | _ \<Rightarrow> None)"

definition redacted :: "string \<Rightarrow> string" where
  "redacted s = (if s \<noteq> [] then ''***'' else [])"

definition MaskConfig :: "(json \<Rightarrow> string) \<Rightarrow> notification_channel \<Rightarrow> notification_channel" where
  "MaskConfig marshal ch =
     ch\<lparr>nc_config :=
        (case nc_type ch of
           Ch_telegram \<Rightarrow>
             (case go_struct (nc_config ch) [''botToken'', ''chatId''] of
                Some [t, c] \<Rightarrow> marshal (JObj [(''botToken'', JStr (redacted t)), (''chatId'', JStr c)])
              | _ \<Rightarrow> nc_config ch)
         | _ \<Rightarrow>
             (case go_struct (nc_config ch) [''webhookUrl''] of
                Some [u] \<Rightarrow> marshal (JObj [(''webhookUrl'', JStr (redacted u))])
              | _ \<Rightarrow> nc_config ch))\<rparr>"

section \<open>The form as a whole\<close>

lemma js_trim_idem [simp]: "js_trim (js_trim s) = js_trim s"
proof -
  let ?u = "dropWhile js_space s" and ?w = "js_trim s"
  have "rev ?u = takeWhile js_space (rev ?u) @ dropWhile js_space (rev ?u)" by simp
  then have u: "?u = ?w @ rev (takeWhile js_space (rev ?u))" by (metis js_trim_def rev_append rev_rev_ident)
  have "dropWhile js_space ?w = ?w"
  proof (cases ?w)
    case (Cons x xs)
    then have "hd ?u = x" "?u \<noteq> []" using u by (metis append_Cons list.sel(1), metis append_is_Nil_conv list.distinct(1))
    then have "\<not> js_space x" using hd_dropWhile [of js_space s] by simp
    then show ?thesis using Cons by simp
  qed simp
  moreover have "dropWhile js_space (rev ?w) = rev ?w"
    by (simp add: js_trim_def)
  ultimately show ?thesis by (simp add: js_trim_def [of "js_trim s"])
qed

text \<open>What the documentation of \<open>json.Marshal\<close> promises of the texts used here.\<close>

definition marshals :: "(json \<Rightarrow> string) \<Rightarrow> bool" where
  "marshals marshal \<longleftrightarrow> (\<forall>c. json_parse (marshal (channel_config_json c)) = Some (channel_config_json c))"

lemma stringify_marshals: "marshals stringify"
proof -
  have "json_ok (channel_config_json c)" for c by (cases c) simp_all
  then show ?thesis by (simp add: marshals_def json_round_trip)
qed

lemma marshal_values:
  assumes "marshals marshal"
  shows "json_parse (marshal (JObj [(''botToken'', JStr t), (''chatId'', JStr c)])) = Some (JObj [(''botToken'', JStr t), (''chatId'', JStr c)])"
    and "json_parse (marshal (JObj [(''webhookUrl'', JStr u)])) = Some (JObj [(''webhookUrl'', JStr u)])"
  using assms [unfolded marshals_def, THEN spec, of "Telegram_config \<lparr>tg_botToken = t, tg_chatId = c\<rparr>"]
    assms [unfolded marshals_def, THEN spec, of "Discord_config \<lparr>dc_webhookUrl = u\<rparr>"]
  by simp_all

definition redacted_config :: "channel_config \<Rightarrow> channel_config" where
  "redacted_config c =
     (case c of
        Telegram_config t \<Rightarrow> Telegram_config (t\<lparr>tg_botToken := redacted (tg_botToken t)\<rparr>)
      | Discord_config x \<Rightarrow> Discord_config (x\<lparr>dc_webhookUrl := redacted (dc_webhookUrl x)\<rparr>)
      | Slack_config x \<Rightarrow> Slack_config (x\<lparr>sl_webhookUrl := redacted (sl_webhookUrl x)\<rparr>))"

definition of_type :: "create_notification_channel_data \<Rightarrow> bool" where
  "of_type d \<longleftrightarrow> cnc_type d = (case cnc_config d of Telegram_config _ \<Rightarrow> Ch_telegram | Discord_config _ \<Rightarrow> Ch_discord | Slack_config _ \<Rightarrow> Ch_slack)"

lemma buildPayload_type [simp]: "of_type (buildPayload n f)"
  by (cases "cf_type f") (simp_all add: of_type_def buildPayload_def)

text \<open>A stored channel is answered with its configuration redacted and all else as stored.\<close>

lemma answered_channel:
  assumes "marshals marshal" "of_type d"
  shows "MaskConfig marshal (stored_channel marshal i now d)
    = (stored_channel marshal i now d)\<lparr>nc_config := marshal (channel_config_json (redacted_config (cnc_config d)))\<rparr>"
  using assms(2)
  by (cases "cnc_config d")
    (simp_all add: MaskConfig_def stored_channel_def of_type_def go_struct_def go_field_def redacted_config_def
      marshal_values [OF assms(1)])

lemma stored_config_marshal: "marshals marshal \<Longrightarrow> stored_config (marshal (channel_config_json c)) = channel_config_json c"
  by (simp add: marshals_def stored_config_def)

lemma reopened:
  assumes "marshals marshal"
  shows "load_channel (Some (MaskConfig marshal (stored_channel marshal i now (buildPayload n f))))
    = \<lparr>cf_name = Some (JStr n), cf_type = cf_type f,
       cf_botToken = Some (JStr (if cf_type f = Ch_telegram then redacted (field_text (cf_botToken f)) else [])),
       cf_chatId = Some (JStr (if cf_type f = Ch_telegram then field_text (cf_chatId f) else [])),
       cf_webhookUrl = Some (JStr (if cf_type f = Ch_telegram then [] else redacted (field_text (cf_webhookUrl f))))\<rparr>"
  unfolding answered_channel [OF assms buildPayload_type]
  by (cases "cf_type f")
    (simp_all add: load_channel_def stored_channel_def stored_config_def marshal_values [OF assms] buildPayload_def redacted_config_def
      config_truthy_def Let_def)

lemma updated_config:
  assumes "marshals marshal" "accepts_channel webhook_ok d"
  shows "stored_config (nc_config (updated_channel marshal webhook_ok d c)) = channel_config_json (cnc_config d)"
  using assms(2) by (simp add: updated_channel_def stored_config_marshal [OF assms(1)])

lemma redacted_trim: "js_trim ''***'' = ''***''" "\<not> web_address ''***''"
  by (simp_all add: js_trim_def js_space_def web_address_def starts_with_def)

text \<open>C21: Whatever is typed, a submitted channel has a trimmed name of at least two units and, for
  its type, a token and chat or a web address. Opened again from the server's answer, the form holds
  three asterisks in the secret's place. A webhook channel then cannot be saved until its address is typed
  again. A Telegram channel can: saved as it is, it is sent with the asterisks as its token, and the
  server accepts it and keeps them in place of the token. With the secret typed again, either sends the
  channel as it was.\<close>

theorem channel_reopens:
  fixes marshal webhook_ok i now f
  defines "d \<equiv> buildPayload (js_trim (field_text (cf_name f))) f"
  defines "c \<equiv> stored_channel marshal i now d"
  defines "answered \<equiv> MaskConfig marshal c"
  defines "g \<equiv> load_channel (Some answered)"
  assumes "channel_valid f" "marshals marshal"
  shows "submit_channel None f = Some (createNotificationChannel d)
    \<and> 2 \<le> utf16_length (cnc_name d) \<and> js_trim (cnc_name d) = cnc_name d
    \<and> (case cnc_config d of
        Telegram_config t \<Rightarrow>
          let d' = d\<lparr>cnc_config := Telegram_config \<lparr>tg_botToken = ''***'', tg_chatId = tg_chatId t\<rparr>\<rparr> in
          cnc_type d = Ch_telegram \<and> js_trim (tg_botToken t) \<noteq> [] \<and> js_trim (tg_chatId t) \<noteq> []
          \<and> submit_channel (Some answered) g = Some (updateNotificationChannel i d')
          \<and> jget (stored_config (nc_config (updated_channel marshal webhook_ok d' c))) ''botToken'' = Some (JStr ''***'')
          \<and> submit_channel (Some answered) (channel_edit (Ev_botToken (tg_botToken t)) g) = Some (updateNotificationChannel i d)
      | Discord_config x \<Rightarrow>
          cnc_type d = Ch_discord \<and> web_address (dc_webhookUrl x) \<and> submit_channel (Some answered) g = None
          \<and> submit_channel (Some answered) (channel_edit (Ev_webhookUrl (dc_webhookUrl x)) g) = Some (updateNotificationChannel i d)
      | Slack_config x \<Rightarrow>
          cnc_type d = Ch_slack \<and> web_address (sl_webhookUrl x) \<and> submit_channel (Some answered) g = None
          \<and> submit_channel (Some answered) (channel_edit (Ev_webhookUrl (sl_webhookUrl x)) g) = Some (updateNotificationChannel i d))"
proof -
  let ?n = "js_trim (field_text (cf_name f))"
  note v = assms(5) [unfolded channel_valid_def]
  have i: "nc_id answered = i" by (simp add: answered_def MaskConfig_def c_def stored_channel_def)
  note g = g_def [unfolded answered_def c_def d_def reopened [OF assms(6)]]
  have ne: "js_trim s \<noteq> [] \<Longrightarrow> s \<noteq> []" for s by (auto simp: js_trim_def)
  show ?thesis
  proof (cases "cf_type f")
    case Ch_telegram
    let ?t = "field_text (cf_botToken f)" and ?c = "field_text (cf_chatId f)"
    have t: "js_trim ?t \<noteq> []" "js_trim ?c \<noteq> []" "?t \<noteq> []" "?c \<noteq> []" "?n \<noteq> []"
      using v Ch_telegram ne by (auto simp: utf16_length_def)
    have u: "jget (stored_config (nc_config (updated_channel marshal webhook_ok
        (d\<lparr>cnc_config := Telegram_config \<lparr>tg_botToken = ''***'', tg_chatId = ?c\<rparr>\<rparr>) c))) ''botToken'' = Some (JStr ''***'')"
      by (subst updated_config [OF assms(6)]) (use t in \<open>simp_all add: accepts_channel_def d_def buildPayload_def\<close>)
    show ?thesis
      using u v t i Ch_telegram
      by (simp add: d_def g submit_channel_def channel_valid_def buildPayload_def is_text_def field_text_def redacted_def
          redacted_trim Let_def)
  next
    case Ch_discord
    then show ?thesis
      using v i ne
      by (auto simp: d_def g submit_channel_def channel_valid_def buildPayload_def is_text_def field_text_def redacted_def
          redacted_trim Let_def)
  next
    case Ch_slack
    then show ?thesis
      using v i ne
      by (auto simp: d_def g submit_channel_def channel_valid_def buildPayload_def is_text_def field_text_def redacted_def
          redacted_trim Let_def)
  qed
qed

definition demo_telegram :: channel_form where
  "demo_telegram = foldr channel_edit [Ev_name '' ops '', Ev_botToken ''123:abc'', Ev_chatId ''-42''] empty_channel_form"

lemma channel_reopens_witness:
  "submit_channel (Some (MaskConfig stringify (stored_channel stringify ''c1'' [] (buildPayload ''ops'' demo_telegram))))
     (load_channel (Some (MaskConfig stringify (stored_channel stringify ''c1'' [] (buildPayload ''ops'' demo_telegram)))))
   = Some (updateNotificationChannel ''c1'' \<lparr>cnc_name = ''ops'', cnc_type = Ch_telegram,
       cnc_config = Telegram_config \<lparr>tg_botToken = ''***'', tg_chatId = ''-42''\<rparr>\<rparr>)"
proof -
  have f: "cf_name demo_telegram = Some (JStr '' ops '')" "cf_type demo_telegram = Ch_telegram"
    "cf_botToken demo_telegram = Some (JStr ''123:abc'')" "cf_chatId demo_telegram = Some (JStr ''-42'')"
    "cf_webhookUrl demo_telegram = Some (JStr [])"
    by (simp_all add: demo_telegram_def empty_channel_form_def)
  have t: "js_trim (field_text (cf_name demo_telegram)) = ''ops''"
    by (simp add: f field_text_def js_trim_def js_space_def)
  have "channel_valid demo_telegram"
    by (simp add: channel_valid_def t)
      (simp add: f is_text_def field_text_def utf16_length_def js_trim_def js_space_def Let_def)
  from channel_reopens [OF this stringify_marshals, of "''c1''" "[]" "\<lambda>_ _. True", unfolded t] show ?thesis
    by (simp add: buildPayload_def f field_text_def Let_def)
qed

end
