(* ===== verification/EU_Setup.thy ===== *)
theory EU_Setup imports EU_MockScenario EU_Client EU_Errors
begin

text \<open>
  Connecting a Docker host: the address agents reach the server under
  (\<open>features/services/connectionAddress.ts\<close>, \<open>useConnectionAddress.ts\<close>) and the dialog that adds a
  host, chooses what is collected and shows the install command
  (\<open>features/services/components/AddServiceModal.tsx\<close>).

  The browser's URL parser is a parameter: \<open>parse\<close> gives the parts of an absolute address, or nothing
  where \<open>new URL\<close> throws, and \<open>resolve\<close> the \<open>href\<close> of an address against the page's origin.
\<close>

section \<open>The connection address\<close>

record url_parts =
  url_protocol :: string
  url_hostname :: string
  url_username :: string
  url_password :: string
  url_search :: string
  url_hash :: string

definition validConnectionUrl :: "(string \<Rightarrow> url_parts option) \<Rightarrow> string \<Rightarrow> bool" where
  "validConnectionUrl parse value =
     (case parse value of
        Some u \<Rightarrow>
          url_protocol u \<in> {''http:'', ''https:''} \<and> url_hostname u \<noteq> []
          \<and> url_username u = [] \<and> url_password u = [] \<and> url_search u = [] \<and> url_hash u = []
          \<and> url_hostname u \<notin> {''localhost'', ''127.0.0.1'', ''[::1]'', ''::1''}
      | None \<Rightarrow> False)"

text \<open>\<open>replace(/\/+$/, '')\<close> and \<open>replace(/\/api\/v1\/?$/, '')\<close>.\<close>

definition strip_slashes :: "string \<Rightarrow> string" where
  "strip_slashes s = rev (dropWhile (\<lambda>c. c = CHR ''/'') (rev s))"

definition ends_with :: "string \<Rightarrow> string \<Rightarrow> bool" where
  "ends_with p s \<longleftrightarrow> starts_with (rev p) (rev s)"

definition strip_api :: "string \<Rightarrow> string" where
  "strip_api s =
     (if ends_with ''/api/v1'' s then take (length s - 7) s
      else if ends_with ''/api/v1/'' s then take (length s - 8) s else s)"

definition connectionBaseUrl ::
  "(string \<Rightarrow> url_parts option) \<Rightarrow> (string \<Rightarrow> string \<Rightarrow> string option) \<Rightarrow> string \<Rightarrow> string \<Rightarrow> string \<Rightarrow> string" where
  "connectionBaseUrl parse resolve publicUrl api origin =
     (let finish = (\<lambda>base. if validConnectionUrl parse base then strip_slashes base else []) in
      if js_trim publicUrl \<noteq> [] then finish (js_trim publicUrl)
      else (case resolve api origin of Some href \<Rightarrow> finish (strip_api href) | None \<Rightarrow> []))"

record connection_address =
  ca_baseUrl :: string
  ca_error :: string
  ca_edited :: bool

definition address_mounted ::
  "(string \<Rightarrow> url_parts option) \<Rightarrow> (string \<Rightarrow> string \<Rightarrow> string option) \<Rightarrow> string \<Rightarrow> string \<Rightarrow> connection_address" where
  "address_mounted parse resolve api origin =
     \<lparr>ca_baseUrl = connectionBaseUrl parse resolve [] api origin, ca_error = [], ca_edited = False\<rparr>"

definition address_answered ::
  "(string \<Rightarrow> url_parts option) \<Rightarrow> (string \<Rightarrow> string \<Rightarrow> string option) \<Rightarrow> string \<Rightarrow> string
   \<Rightarrow> thrown + string \<Rightarrow> connection_address \<Rightarrow> connection_address" where
  "address_answered parse resolve api origin r s =
     (case r of
        Inr publicUrl \<Rightarrow>
          if ca_edited s then s else s\<lparr>ca_baseUrl := connectionBaseUrl parse resolve publicUrl api origin\<rparr>
      | Inl e \<Rightarrow> s\<lparr>ca_error := getErrorMessage e\<rparr>)"

definition address_edited :: "string \<Rightarrow> connection_address \<Rightarrow> connection_address" where
  "address_edited v s = s\<lparr>ca_edited := True, ca_baseUrl := v\<rparr>"

definition address_endpoint :: "(string \<Rightarrow> url_parts option) \<Rightarrow> connection_address \<Rightarrow> string" where
  "address_endpoint parse s =
     (if validConnectionUrl parse (ca_baseUrl s) then strip_slashes (ca_baseUrl s) @ ''/api/v1/otlp'' else [])"

text \<open>What the user typed stays, whenever the settings arrive.\<close>

lemma edit_stays: "ca_edited s \<Longrightarrow> ca_baseUrl (address_answered parse resolve api origin r s) = ca_baseUrl s"
  by (simp add: address_answered_def split: sum.split)

lemma strip_slashes_end: "strip_slashes s \<noteq> [] \<Longrightarrow> last (strip_slashes s) \<noteq> CHR ''/''"
proof -
  assume "strip_slashes s \<noteq> []"
  then have "dropWhile (\<lambda>c. c = CHR ''/'') (rev s) \<noteq> []" by (simp add: strip_slashes_def)
  then show ?thesis using hd_dropWhile [of "\<lambda>c. c = CHR ''/''" "rev s"] by (simp add: strip_slashes_def last_rev)
qed

section \<open>The install command\<close>

definition shellQuote :: "string \<Rightarrow> string" where
  "shellQuote v =
     [CHR 0x27] @ concat (map (\<lambda>c. if c = CHR 0x27 then [CHR 0x27, CHR 0x22, CHR 0x27, CHR 0x22, CHR 0x27] else [c]) v) @ [CHR 0x27]"

definition install_base :: "string \<Rightarrow> string" where
  "install_base webBaseUrl =
     (let b = strip_slashes (js_trim webBaseUrl) in if b \<noteq> [] then b else ''http://EVERYUP_WEB_SERVER:3001'')"

definition buildInstallCommand :: "string \<Rightarrow> string \<Rightarrow> string" where
  "buildInstallCommand webBaseUrl joinCode =
     (let b = install_base webBaseUrl in
      ''curl -fsSL '' @ shellQuote (b @ ''/api/v1/agents/install.sh'') @ '' | sudo sh -s -- '' @ shellQuote b @ '' '' @ shellQuote joinCode)"

text \<open>
  The words a POSIX shell reads: single quotes keep everything up to the next one, double quotes
  everything but the characters that expand, a blank ends a word and a bar begins the next command.
  Nothing is read where an unquoted character has another meaning to the shell.
\<close>

datatype sh_mode = Sh_plain | Sh_single | Sh_double

datatype sh_token = Sh_word string | Sh_pipe

definition sh_ordinary :: "char \<Rightarrow> bool" where
  "sh_ordinary c \<longleftrightarrow> c \<in> set ''abcdefghijklmnopqrstuvwxyzABCDEFGHIJKLMNOPQRSTUVWXYZ0123456789-_./:''"

fun sh_read :: "sh_mode \<Rightarrow> string option \<Rightarrow> string \<Rightarrow> sh_token list option" where
  "sh_read Sh_plain w [] = Some (case w of Some t \<Rightarrow> [Sh_word t] | None \<Rightarrow> [])"
| "sh_read m w [] = None"
| "sh_read Sh_plain w (c # s) =
     (let t = (case w of Some t \<Rightarrow> t | None \<Rightarrow> []); done' = (case w of Some t \<Rightarrow> [Sh_word t] | None \<Rightarrow> []) in
      if c = CHR 0x27 then sh_read Sh_single (Some t) s
      else if c = CHR 0x22 then sh_read Sh_double (Some t) s
      else if c = CHR '' '' then map_option ((@) done') (sh_read Sh_plain None s)
      else if c = CHR ''|'' then map_option ((@) (done' @ [Sh_pipe])) (sh_read Sh_plain None s)
      else if sh_ordinary c then sh_read Sh_plain (Some (t @ [c])) s else None)"
| "sh_read Sh_single w (c # s) =
     (if c = CHR 0x27 then sh_read Sh_plain w s else sh_read Sh_single (map_option (\<lambda>t. t @ [c]) w) s)"
| "sh_read Sh_double w (c # s) =
     (if c = CHR 0x22 then sh_read Sh_plain w s
      else if c \<in> set [CHR ''$'', CHR 0x60, CHR 0x5C] then None
      else sh_read Sh_double (map_option (\<lambda>t. t @ [c]) w) s)"

definition sh_tokens :: "string \<Rightarrow> sh_token list option" where
  "sh_tokens s = sh_read Sh_plain None s"

lemma sh_quoted_chars:
  "sh_read Sh_single (Some t)
     (concat (map (\<lambda>c. if c = CHR 0x27 then [CHR 0x27, CHR 0x22, CHR 0x27, CHR 0x22, CHR 0x27] else [c]) v) @ z)
   = sh_read Sh_single (Some (t @ v)) z"
  by (induction v arbitrary: t) (simp_all add: Let_def)

lemma sh_quoted:
  "sh_read Sh_plain None (shellQuote v @ z) = sh_read Sh_plain (Some v) z"
  "sh_read Sh_plain None (shellQuote v) = Some [Sh_word v]"
proof -
  show q: "sh_read Sh_plain None (shellQuote v @ z) = sh_read Sh_plain (Some v) z" for z
    using sh_quoted_chars [of "[]" v "CHR 0x27 # z"] by (simp add: shellQuote_def)
  show "sh_read Sh_plain None (shellQuote v) = Some [Sh_word v]" using q [of "[]"] by simp
qed

lemma sh_word:
  "list_all sh_ordinary v \<Longrightarrow> sh_read Sh_plain (Some t) (v @ z) = sh_read Sh_plain (Some (t @ v)) z"
  by (induction v arbitrary: t) (auto simp: sh_ordinary_def Let_def)

text \<open>Whatever the server address and the join code contain, a shell reads the install command as the two
  commands meant, with the address and the code as single words: neither can inject a command.\<close>

theorem install_command_words:
  "sh_tokens (buildInstallCommand webBaseUrl joinCode) =
     (let b = install_base webBaseUrl in
      Some [Sh_word ''curl'', Sh_word ''-fsSL'', Sh_word (b @ ''/api/v1/agents/install.sh''), Sh_pipe,
        Sh_word ''sudo'', Sh_word ''sh'', Sh_word ''-s'', Sh_word ''--'', Sh_word b, Sh_word joinCode])"
  by (simp add: sh_tokens_def buildInstallCommand_def sh_quoted sh_ordinary_def Let_def)

section \<open>What is collected\<close>

definition CAPABILITY_OPTIONS :: "agent_collection_capability list" where
  "CAPABILITY_OPTIONS = [Cap_uptime, Cap_logs, Cap_infrastructure, Cap_api, Cap_metrics]"

definition toggleCapability ::
  "agent_collection_capability \<Rightarrow> bool \<Rightarrow> agent_collection_capability list \<Rightarrow> agent_collection_capability list" where
  "toggleCapability c enabled caps =
     (let next = (if enabled then insert c (set caps) else set caps - {c});
          next = (if c = Cap_logs \<or> c = Cap_api then insert Cap_uptime next else next)
      in filter (\<lambda>x. x \<in> next) CAPABILITY_OPTIONS)"

definition uptimeRequired :: "agent_collection_capability list \<Rightarrow> bool" where
  "uptimeRequired caps \<longleftrightarrow> Cap_logs \<in> set caps \<or> Cap_api \<in> set caps"

definition capability_locked :: "agent_collection_capability list \<Rightarrow> agent_collection_capability \<Rightarrow> bool" where
  "capability_locked caps c \<longleftrightarrow> c = Cap_uptime \<and> uptimeRequired caps"

text \<open>The capabilities a user can reach from the initial choice with the switches that are not locked.\<close>

inductive capability_step :: "agent_collection_capability list \<Rightarrow> agent_collection_capability list \<Rightarrow> bool" where
  switch: "\<not> capability_locked caps c \<Longrightarrow> enabled \<noteq> (c \<in> set caps) \<Longrightarrow> capability_step caps (toggleCapability c enabled caps)"

definition capabilities_closed :: "agent_collection_capability list \<Rightarrow> bool" where
  "capabilities_closed caps \<longleftrightarrow>
     filter (\<lambda>x. x \<in> set caps) CAPABILITY_OPTIONS = caps \<and> (if uptimeRequired caps then Cap_uptime \<in> set caps else True)"

lemma set_capability_options: "set CAPABILITY_OPTIONS = UNIV"
proof -
  have "c \<in> set CAPABILITY_OPTIONS" for c by (cases c) (simp_all add: CAPABILITY_OPTIONS_def)
  then show ?thesis by blast
qed

lemma capability_step_closed:
  assumes "capability_step caps caps'" "capabilities_closed caps"
  shows "capabilities_closed caps'"
  using assms(1)
proof cases
  case (switch c enabled)
  show ?thesis
    using switch assms(2) by (cases c; cases enabled)
      (auto simp: capabilities_closed_def toggleCapability_def uptimeRequired_def capability_locked_def set_capability_options Let_def)
qed

lemma capabilities_reach_closed: "capability_step\<^sup>*\<^sup>* [Cap_uptime] caps \<Longrightarrow> capabilities_closed caps"
proof (induction rule: rtranclp_induct)
  case (step y z)
  then show ?case using capability_step_closed by blast
qed (simp add: capabilities_closed_def CAPABILITY_OPTIONS_def uptimeRequired_def)

section \<open>The dialog\<close>

datatype setup_view = View_form | View_install

record setup_dialog =
  sd_existing :: "(string \<times> string) option"
  sd_step :: setup_view
  sd_name :: string
  sd_profileKind :: agent_profile_kind
  sd_custom :: "agent_collection_capability list"
  sd_submitting :: bool
  sd_refreshingCode :: bool
  sd_agentId :: string
  sd_joinCode :: string
  sd_expiresAt :: string
  sd_codeExpired :: bool
  sd_status :: "collector_setup_status option"
  sd_error :: string
  sd_agent :: "connected_agent option"
  sd_services :: "agent_service_snapshot list"
  sd_checking :: bool
  sd_announced :: bool
  sd_checkedOnce :: bool
  sd_created :: nat
  sd_toasts :: "string list"

definition dialog_opened :: "(string \<times> string) option \<Rightarrow> setup_dialog" where
  "dialog_opened ex =
     \<lparr>sd_existing = ex, sd_step = (if ex \<noteq> None then View_install else View_form),
      sd_name = (case ex of Some (i, n) \<Rightarrow> n | None \<Rightarrow> []), sd_profileKind = PK_all_in_one, sd_custom = [Cap_uptime],
      sd_submitting = False, sd_refreshingCode = (ex \<noteq> None), sd_agentId = (case ex of Some (i, n) \<Rightarrow> i | None \<Rightarrow> []),
      sd_joinCode = [], sd_expiresAt = [], sd_codeExpired = False, sd_status = None, sd_error = [], sd_agent = None,
      sd_services = [], sd_checking = False, sd_announced = False, sd_checkedOnce = False, sd_created = 0, sd_toasts = []\<rparr>"

definition dialog_toast :: "string \<Rightarrow> setup_dialog \<Rightarrow> setup_dialog" where
  "dialog_toast m s = s\<lparr>sd_toasts := sd_toasts s @ [m]\<rparr>"

lemma toast_fields [simp]: "sd_created (dialog_toast m s) = sd_created s" "sd_announced (dialog_toast m s) = sd_announced s"
  by (simp_all add: dialog_toast_def)

text \<open>A new expiry restarts the effect that marks the code expired; a text that is no date never expires.\<close>

definition with_code :: "int \<Rightarrow> string \<Rightarrow> string \<Rightarrow> setup_dialog \<Rightarrow> setup_dialog" where
  "with_code now code ends s =
     s\<lparr>sd_joinCode := code, sd_expiresAt := ends,
       sd_codeExpired := (if ends = sd_expiresAt s then sd_codeExpired s
                          else ends \<noteq> [] \<and> (case date_parse ends of Some t \<Rightarrow> t - now \<le> 0 | None \<Rightarrow> False))\<rparr>"

definition code_timeout :: "setup_dialog \<Rightarrow> setup_dialog" where
  "code_timeout s = s\<lparr>sd_codeExpired := True\<rparr>"

definition submit_enabled :: "setup_dialog \<Rightarrow> bool" where
  "submit_enabled s \<longleftrightarrow> js_trim (sd_name s) \<noteq> [] \<and> \<not> (sd_profileKind s = PK_custom \<and> sd_custom s = [])"

definition setup_profile :: "setup_dialog \<Rightarrow> agent_profile" where
  "setup_profile s = \<lparr>pf_kind = sd_profileKind s, pf_capabilities = (if sd_profileKind s = PK_custom then sd_custom s else [])\<rparr>"

definition handleCreate :: "setup_dialog \<Rightarrow> setup_dialog \<times> (string \<times> agent_profile) option" where
  "handleCreate s =
     (if js_trim (sd_name s) = [] then (s, None)
      else (s\<lparr>sd_submitting := True\<rparr>, Some (js_trim (sd_name s), setup_profile s)))"

definition create_answered :: "int \<Rightarrow> thrown + string \<times> string \<times> string \<Rightarrow> setup_dialog \<Rightarrow> setup_dialog" where
  "create_answered now r s =
     (case r of
        Inr (i, code, ends) \<Rightarrow>
          (with_code now code ends (s\<lparr>sd_agentId := i\<rparr>))\<lparr>sd_step := View_install, sd_created := Suc (sd_created s), sd_submitting := False\<rparr>
      | Inl e \<Rightarrow> dialog_toast (getErrorMessage e) (s\<lparr>sd_submitting := False\<rparr>))"

definition handleRefreshCode :: "setup_dialog \<Rightarrow> setup_dialog" where
  "handleRefreshCode s = (if sd_agentId s = [] then s else s\<lparr>sd_refreshingCode := True\<rparr>)"

definition code_answered :: "int \<Rightarrow> thrown + string \<times> string \<Rightarrow> setup_dialog \<Rightarrow> setup_dialog" where
  "code_answered now r s =
     (case r of
        Inr (code, ends) \<Rightarrow> (with_code now code ends s)\<lparr>sd_refreshingCode := False\<rparr>
      | Inl e \<Rightarrow> dialog_toast (getErrorMessage e) (s\<lparr>sd_refreshingCode := False\<rparr>))"

text \<open>Whether the agent enrolled with this code: at most ten minutes before the code expires.\<close>

definition enrolled_since :: "string \<Rightarrow> string option \<Rightarrow> bool" where
  "enrolled_since expiresAt enrolled \<longleftrightarrow>
     expiresAt \<noteq> [] \<and> truthy enrolled
     \<and> (case (date_parse (the enrolled), date_parse expiresAt) of (Some e, Some x) \<Rightarrow> x - 600000 \<le> e | _ \<Rightarrow> False)"

definition reinstalled :: "setup_dialog \<Rightarrow> bool" where
  "reinstalled s \<longleftrightarrow> sd_existing s = None \<or> enrolled_since (sd_expiresAt s) (Option.bind (sd_status s) css_lastEnrolledAt)"

definition connection_start :: "bool \<Rightarrow> setup_dialog \<Rightarrow> setup_dialog" where
  "connection_start showLoading s = (if sd_agentId s \<noteq> [] \<and> showLoading then s\<lparr>sd_checking := True\<rparr> else s)"

definition CONNECTED :: string where "CONNECTED = (''Docker Collector '' @ [CHR 0xEC, CHR 0x97, CHR 0xB0, CHR 0xEA, CHR 0xB2, CHR 0xB0, CHR 0xEC, CHR 0x9D, CHR 0x84] @ '' '' @ [CHR 0xED, CHR 0x99, CHR 0x95, CHR 0xEC, CHR 0x9D, CHR 0xB8, CHR 0xED, CHR 0x96, CHR 0x88, CHR 0xEC, CHR 0x8A, CHR 0xB5, CHR 0xEB, CHR 0x8B, CHR 0x88, CHR 0xEB, CHR 0x8B, CHR 0xA4])"

text \<open>\<open>agentId\<close> and \<open>expiresAt\<close> are those of the render the check was started in.\<close>

definition connection_answered ::
  "bool \<Rightarrow> string \<Rightarrow> string \<Rightarrow> thrown + connected_agent list option \<times> agent_service_snapshot list option \<times> collector_setup_status
   \<Rightarrow> setup_dialog \<Rightarrow> setup_dialog" where
  "connection_answered showLoading agentId expiresAt r s =
     (let s = (case r of
        Inl e \<Rightarrow> (if showLoading then dialog_toast (getErrorMessage e) else id) (s\<lparr>sd_error := getErrorMessage e\<rparr>)
      | Inr (agents, services, status) \<Rightarrow>
          let current = find (\<lambda>a. ag_id a = agentId) (case agents of Some x \<Rightarrow> x | None \<Rightarrow> []); first = \<not> sd_checkedOnce s;
              s = s\<lparr>sd_status := Some status, sd_error := [], sd_checkedOnce := True\<rparr> in
          case current of
            None \<Rightarrow> s\<lparr>sd_agent := None\<rparr>
          | Some a \<Rightarrow>
              let s = s\<lparr>sd_agent := Some a, sd_services := (case services of Some x \<Rightarrow> x | None \<Rightarrow> [])\<rparr>;
                  confirmed = (sd_existing s = None \<or> enrolled_since expiresAt (css_lastEnrolledAt status)) in
              if css_connected status \<and> css_configApplied status \<and> confirmed \<and> \<not> sd_announced s
              then (if first then id else dialog_toast CONNECTED)
                     (s\<lparr>sd_announced := True, sd_created := Suc (sd_created s)\<rparr>)
              else s) in
      if showLoading then s\<lparr>sd_checking := False\<rparr> else s)"

definition codeUnavailable :: "setup_dialog \<Rightarrow> bool" where
  "codeUnavailable s \<longleftrightarrow> sd_joinCode s = [] \<or> sd_refreshingCode s \<or> sd_codeExpired s"

definition setup_connected :: "setup_dialog \<Rightarrow> bool" where
  "setup_connected s \<longleftrightarrow>
     sd_error s = [] \<and> (case sd_status s of Some x \<Rightarrow> css_connected x \<and> css_configApplied x | None \<Rightarrow> False) \<and> reinstalled s"

definition setup_diagnosed :: "setup_dialog \<Rightarrow> bool" where
  "setup_diagnosed s \<longleftrightarrow>
     setup_connected s
     \<and> (case sd_status s of
          Some x \<Rightarrow> list_all (\<lambda>c. list_ex (\<lambda>g. sr_signal g = (if c = Cap_api then ''traces'' else agent_collection_capability_text c))
                       (css_signals x)) (pf_capabilities (css_profile x))
        | None \<Rightarrow> False)"

definition injectableCount :: "setup_dialog \<Rightarrow> nat" where
  "injectableCount s = length (filter (\<lambda>x. sv_runtime x \<in> {Some ''java'', Some ''node''}) (sd_services s))"

record progress_step =
  ps_label :: string
  ps_complete :: bool
  ps_active :: bool

definition SetupProgress :: "setup_view \<Rightarrow> bool \<Rightarrow> bool \<Rightarrow> progress_step list" where
  "SetupProgress v isUp diagnosed =
     [\<lparr>ps_label = (''Docker '' @ [CHR 0xED, CHR 0x99, CHR 0x98, CHR 0xEA, CHR 0xB2, CHR 0xBD]), ps_complete = (v = View_install), ps_active = (v = View_form)\<rparr>,
      \<lparr>ps_label = (''Collector '' @ [CHR 0xEC, CHR 0x84, CHR 0xA4, CHR 0xEC, CHR 0xB9, CHR 0x98]), ps_complete = isUp, ps_active = (v = View_install \<and> \<not> isUp)\<rparr>,
      \<lparr>ps_label = ([CHR 0xEA, CHR 0xB8, CHR 0xB0, CHR 0xEB, CHR 0x8A, CHR 0xA5] @ '' '' @ [CHR 0xED, CHR 0x99, CHR 0x95, CHR 0xEC, CHR 0x9D, CHR 0xB8]), ps_complete = diagnosed, ps_active = (isUp \<and> \<not> diagnosed)\<rparr>,
      \<lparr>ps_label = ([CHR 0xEC, CHR 0x83, CHR 0x81, CHR 0xEC, CHR 0x84, CHR 0xB8] @ '' '' @ [CHR 0xEC, CHR 0x88, CHR 0x98, CHR 0xEC, CHR 0xA7, CHR 0x91]), ps_complete = False, ps_active = diagnosed\<rparr>]"

text \<open>
  While the dialog installs, exactly one step is active, every step before it is complete and none
  after it.
\<close>

lemma one_step_active:
  assumes "diagnosed \<longrightarrow> isUp"
  shows "length (filter ps_active (SetupProgress View_install isUp diagnosed)) = 1"
    and "list_all (\<lambda>p. \<not> ps_active p) (takeWhile ps_complete (SetupProgress View_install isUp diagnosed))"
  using assms by (cases isUp; cases diagnosed; simp add: SetupProgress_def)+

lemma diagnosed_connected: "setup_diagnosed s \<Longrightarrow> setup_connected s"
  by (simp add: setup_diagnosed_def)

text \<open>The owner is told of a connection once, however many checks confirm it.\<close>

lemma announced_once:
  "sd_created (connection_answered b i x r s) + (if sd_announced s then 1 else 0)
   = sd_created s + (if sd_announced (connection_answered b i x r s) then 1 else 0)"
proof (cases r)
  case (Inr b)
  obtain agents services status where b: "b = (agents, services, status)" by (cases b) auto
  show ?thesis
  proof (cases "find (\<lambda>a. ag_id a = i) (case agents of Some x \<Rightarrow> x | None \<Rightarrow> [])")
    case (Some a)
    show ?thesis unfolding connection_answered_def Inr b sum.case prod.case Let_def Some option.case by simp
  qed (simp add: connection_answered_def Inr b Let_def)
qed (simp add: connection_answered_def Let_def)

section \<open>The profile that is sent\<close>

definition sent_profile :: "agent_profile \<Rightarrow> profile_input" where
  "sent_profile p =
     \<lparr>pin_kind = Some (agent_profile_kind_text (pf_kind p)),
      pin_capabilities = Some (map agent_collection_capability_text (pf_capabilities p))\<rparr>"

lemma capability_text_inj: "agent_collection_capability_text x = agent_collection_capability_text y \<longleftrightarrow> x = y"
  by (cases x; cases y) simp_all

text \<open>Whatever is switched, the capabilities chosen contain uptime with logs or API requests and are in the
  order of the options, so the server stores a custom profile exactly as the dialog sends it.\<close>

theorem custom_profile_kept:
  assumes "capability_step\<^sup>*\<^sup>* [Cap_uptime] (sd_custom s)" "sd_profileKind s = PK_custom"
  shows "normalizeMockAgentProfile (Some (sent_profile (setup_profile s))) = setup_profile s
    \<and> (if uptimeRequired (sd_custom s) then Cap_uptime \<in> set (sd_custom s) else True)"
proof
  let ?c = "sd_custom s" and ?t = "agent_collection_capability_text"
  have c: "capabilities_closed ?c" by (rule capabilities_reach_closed [OF assms(1)])
  then show "if uptimeRequired ?c then Cap_uptime \<in> set ?c else True" by (simp add: capabilities_closed_def split: if_splits)
  have m: "?t x \<in> set (map ?t ?c) \<longleftrightarrow> x \<in> set ?c" for x by (auto simp: capability_text_inj)
  have "''uptime'' \<in> set (map ?t ?c)" if "''logs'' \<in> set (map ?t ?c) \<or> ''api'' \<in> set (map ?t ?c)"
    using that c m [of Cap_logs] m [of Cap_api] m [of Cap_uptime]
    by (simp add: capabilities_closed_def uptimeRequired_def del: set_map split: if_splits)
  then have "pf_capabilities (normalizeMockAgentProfile (Some (sent_profile (setup_profile s)))) = filter (\<lambda>x. x \<in> set ?c) ALL_CAPABILITIES"
    using m by (auto simp: normalizeMockAgentProfile_def sent_profile_def setup_profile_def assms(2) Let_def simp del: set_map intro!: filter_cong)
  moreover have "filter (\<lambda>x. x \<in> set ?c) ALL_CAPABILITIES = ?c"
    using c by (simp add: capabilities_closed_def ALL_CAPABILITIES_def CAPABILITY_OPTIONS_def)
  ultimately show "normalizeMockAgentProfile (Some (sent_profile (setup_profile s))) = setup_profile s"
    by (simp add: normalizeMockAgentProfile_def sent_profile_def setup_profile_def assms(2) Let_def)
qed

lemma custom_profile_kept_witness:
  "normalizeMockAgentProfile (Some (sent_profile (setup_profile
     ((dialog_opened None)\<lparr>sd_profileKind := PK_custom, sd_custom := toggleCapability Cap_api True [Cap_uptime]\<rparr>))))
   = \<lparr>pf_kind = PK_custom, pf_capabilities = [Cap_uptime, Cap_api]\<rparr>"
proof -
  let ?s = "(dialog_opened None)\<lparr>sd_profileKind := PK_custom, sd_custom := toggleCapability Cap_api True [Cap_uptime]\<rparr>"
  have "capability_step\<^sup>*\<^sup>* [Cap_uptime] (sd_custom ?s)"
    by (simp, rule r_into_rtranclp, rule capability_step.switch) (simp_all add: capability_locked_def)
  from custom_profile_kept [OF this] show ?thesis
    by (simp add: setup_profile_def toggleCapability_def CAPABILITY_OPTIONS_def Let_def)
qed

end
