(* ===== verification/EU_Logs.thy ===== *)
theory EU_Logs imports EU_Client EU_Charts EU_Nav
begin

text \<open>
  The logs of one service, \<open>features/healthcheck/components/AgentServiceLogsTab.tsx\<close>, and the page
  controls it shows, \<open>components/common/Pagination.tsx\<close>.  A panel is a state machine like those of
  \<open>EU_Answers\<close>: its \<open>useState\<close> values, its props, and the list and histogram requests in flight;
  after every event the effects of the commit run, which ask again for what depends on a changed value.
  An answer without \<open>data\<close> or \<open>total\<close> reads as the empty list and 0.
\<close>

section \<open>Page controls (Pagination)\<close>

definition pages_shown :: "int \<Rightarrow> int \<Rightarrow> int list" where
  "pages_shown current totalPages =
     sort (filter (\<lambda>p. 1 \<le> p \<and> p \<le> totalPages) (set_from [1, totalPages, current - 1, current, current + 1]))"

text \<open>\<open>None\<close> is the ellipsis of a gap.\<close>

fun page_items_from :: "int \<Rightarrow> int list \<Rightarrow> int option list" where
  "page_items_from prev [] = []"
| "page_items_from prev (p # ps) = (if p - prev > 1 then [None] else []) @ Some p # page_items_from p ps"

definition pageItems :: "int \<Rightarrow> int \<Rightarrow> int option list" where
  "pageItems current totalPages = page_items_from 0 (pages_shown current totalPages)"

definition page_previous :: "int \<Rightarrow> int option" where
  "page_previous page = (if page = 1 then None else Some (max 1 (page - 1)))"

definition page_next :: "int \<Rightarrow> int \<Rightarrow> int option" where
  "page_next page totalPages = (if page \<ge> totalPages then None else Some (min totalPages (page + 1)))"

text \<open>The pages a reader can choose.\<close>

definition page_choices :: "int \<Rightarrow> int \<Rightarrow> int set" where
  "page_choices page totalPages =
     set (pages_shown page totalPages) \<union> set_option (page_previous page) \<union> set_option (page_next page totalPages)"

lemma page_items_pages [simp]: "List.map_filter (\<lambda>x. x) (page_items_from prev ps) = ps"
  by (induction ps arbitrary: prev) (simp_all add: map_filter_def)

lemma set_pages_shown [simp]:
  "set (pages_shown c n) = {p \<in> {1, n, c - 1, c, c + 1}. 1 \<le> p \<and> p \<le> n}"
  by (auto simp: pages_shown_def)

lemma sorted_pages_shown: "sorted_wrt (<) (pages_shown c n)"
  by (simp add: pages_shown_def strict_sorted_iff)

lemma pageItems_length: "length (pages_shown c n) \<le> 5"
proof -
  have "length (pages_shown c n) \<le> length (set_from [1, n, c - 1, c, c + 1])"
    by (simp add: pages_shown_def)
  also have "\<dots> \<le> 5" using card_length [of "[1, n, c - 1, c, c + 1]"] distinct_card [of "set_from [1, n, c - 1, c, c + 1]"]
    by simp
  finally show ?thesis .
qed

text \<open>An ellipsis stands exactly where a page is left out.\<close>

definition page_gaps :: "int list \<Rightarrow> nat" where
  "page_gaps ps = length (filter (\<lambda>(a, b). b - a > 1) (zip (0 # ps) ps))"

lemma page_items_length:
  "length (page_items_from prev ps) = length ps + length (filter (\<lambda>(a, b). b - a > 1) (zip (prev # ps) ps))"
  by (induction ps arbitrary: prev) auto

section \<open>The panel (ServiceLogsPanel)\<close>

datatype logs_source = Agent_logs string string | Direct_logs string

definition RANGE_BUCKET_mins :: "global_time_range \<Rightarrow> int" where
  "RANGE_BUCKET_mins r = (case r of GR_1h \<Rightarrow> 2 | GR_6h \<Rightarrow> 10 | GR_24h \<Rightarrow> 30)"

definition bucketMs :: "global_time_range \<Rightarrow> int" where
  "bucketMs r = RANGE_BUCKET_mins r * 60000"

definition PAGE_SIZE :: int where "PAGE_SIZE = 25"

definition rangeFrom :: "int \<Rightarrow> global_time_range \<Rightarrow> string" where
  "rangeFrom now r = iso_string (now - range_hours r * 3600 * 1000)"

record list_request =
  lq_silent :: bool
  lq_page :: int
  lq_call :: "log_entry rows api_call"

record histogram_request =
  hq_window :: "int \<times> int"
  hq_call :: "log_histogram_bucket list api_call"

text \<open>\<open>attrFilter\<close> is an object: its number is its identity, which the effects compare.\<close>

record logs_panel =
  lp_source :: logs_source
  lp_refreshKey :: nat
  lp_range :: global_time_range
  lp_traceId :: "string option"
  lp_address :: search_params
  lp_logs :: "log_entry list"
  lp_activeTraceId :: "string option"
  lp_total :: int
  lp_loading :: bool
  lp_level :: "log_level option"
  lp_search :: string
  lp_input :: string
  lp_attrFilter :: "(nat \<times> string \<times> string) option"
  lp_histogram :: "log_histogram_bucket list \<times> (int \<times> int)"
  lp_picked :: "(int \<times> global_time_range) option"
  lp_live :: bool
  lp_page :: int
  lp_toasts :: "string list"
  lp_lists :: "list_request list"
  lp_histograms :: "histogram_request list"

definition lp_pattern :: "logs_panel \<Rightarrow> string option" where
  "lp_pattern s = sp_get (lp_address s) ''pattern''"

definition activeBucket :: "logs_panel \<Rightarrow> int option" where
  "activeBucket s = (case lp_picked s of Some (from, r) \<Rightarrow> if r = lp_range s then Some from else None | None \<Rightarrow> None)"

record log_filters =
  lf_level :: "log_level option"
  lf_search :: "string option"
  lf_attrKey :: "string option"
  lf_attrValue :: "string option"
  lf_traceId :: "string option"
  lf_fingerprint :: "string option"

definition panel_filters :: "logs_panel \<Rightarrow> log_filters" where
  "panel_filters s =
     \<lparr>lf_level = lp_level s, lf_search = (if lp_search s \<noteq> [] then Some (lp_search s) else None),
      lf_attrKey = map_option (\<lambda>(_, k, _). k) (lp_attrFilter s), lf_attrValue = map_option (\<lambda>(_, _, v). v) (lp_attrFilter s),
      lf_traceId = lp_traceId s, lf_fingerprint = lp_pattern s\<rparr>"

text \<open>The bounds of the list: none for a trace, the picked bucket, or the header range.\<close>

definition list_from :: "int \<Rightarrow> logs_panel \<Rightarrow> string option" where
  "list_from now s =
     (if truthy (lp_traceId s) then None
      else (case activeBucket s of None \<Rightarrow> Some (rangeFrom now (lp_range s)) | Some b \<Rightarrow> Some (iso_string b)))"

definition list_to :: "logs_panel \<Rightarrow> string option" where
  "list_to s =
     (if truthy (lp_traceId s) then None
      else (case activeBucket s of None \<Rightarrow> None | Some b \<Rightarrow> Some (iso_string (b + bucketMs (lp_range s)))))"

definition list_call :: "int \<Rightarrow> logs_panel \<Rightarrow> log_entry rows api_call" where
  "list_call now s =
     (let f = panel_filters s; offset = (lp_page s - 1) * PAGE_SIZE in
      case lp_source s of
        Direct_logs i \<Rightarrow>
          getObservedServiceLogs i (Some \<lparr>dl_level = lf_level f, dl_search = lf_search f, dl_attrKey = lf_attrKey f,
            dl_attrValue = lf_attrValue f, dl_traceId = lf_traceId f, dl_fingerprint = lf_fingerprint f,
            dl_from = list_from now s, dl_to = list_to s, dl_limit = Some PAGE_SIZE, dl_offset = Some offset\<rparr>)
      | Agent_logs a k \<Rightarrow>
          getAgentServiceLogs a k (Some \<lparr>al_level = map_option log_level_text (lf_level f), al_search = lf_search f,
            al_attrKey = lf_attrKey f, al_attrValue = lf_attrValue f, al_traceId = lf_traceId f,
            al_fingerprint = lf_fingerprint f, al_from = list_from now s, al_to = list_to s,
            al_limit = Some PAGE_SIZE, al_offset = Some offset\<rparr>))"

definition histogram_call :: "int \<Rightarrow> logs_panel \<Rightarrow> log_histogram_bucket list api_call" where
  "histogram_call now s =
     (let f = panel_filters s; from = Some (rangeFrom now (lp_range s)); mins = Some (RANGE_BUCKET_mins (lp_range s)) in
      case lp_source s of
        Direct_logs i \<Rightarrow>
          getObservedServiceLogHistogram i (Some (\<lparr>dl_level = lf_level f, dl_search = lf_search f, dl_attrKey = lf_attrKey f,
            dl_attrValue = lf_attrValue f, dl_traceId = lf_traceId f, dl_fingerprint = lf_fingerprint f,
            dl_from = from, dl_to = None, dl_limit = None, dl_offset = None\<rparr>, mins))
      | Agent_logs a k \<Rightarrow>
          getAgentServiceLogHistogram a k (Some \<lparr>ah_level = map_option log_level_text (lf_level f), ah_search = lf_search f,
            ah_attrKey = lf_attrKey f, ah_attrValue = lf_attrValue f, ah_fingerprint = lf_fingerprint f,
            ah_from = from, ah_to = None, ah_bucketMins = mins\<rparr>))"

definition list_start :: "bool \<Rightarrow> int \<Rightarrow> logs_panel \<Rightarrow> logs_panel" where
  "list_start silent now s =
     s\<lparr>lp_loading := (if silent then lp_loading s else True),
       lp_lists := lp_lists s @ [\<lparr>lq_silent = silent, lq_page = lp_page s, lq_call = list_call now s\<rparr>]\<rparr>"

definition fetchHistogram :: "int \<Rightarrow> logs_panel \<Rightarrow> logs_panel" where
  "fetchHistogram now s =
     (let w = (now - range_hours (lp_range s) * 3600 * 1000, now) in
      if truthy (lp_traceId s) then s\<lparr>lp_histogram := ([], w)\<rparr>
      else s\<lparr>lp_histograms := lp_histograms s @ [\<lparr>hq_window = w, hq_call = histogram_call now s\<rparr>]\<rparr>)"

text \<open>The dependencies of the two effects, and the effects of a commit that turned \<open>s\<close> into \<open>s'\<close>.\<close>

definition histogram_deps where
  "histogram_deps s =
     (lp_source s, lp_level s, lp_search s, lp_attrFilter s, lp_pattern s, lp_traceId s, lp_range s, lp_refreshKey s)"

definition list_deps where
  "list_deps s = (histogram_deps s, lp_page s, activeBucket s)"

definition committed :: "int \<Rightarrow> logs_panel \<Rightarrow> logs_panel \<Rightarrow> logs_panel" where
  "committed now s s' =
     (let s1 = (if list_deps s' \<noteq> list_deps s then list_start False now s' else s') in
      if histogram_deps s' \<noteq> histogram_deps s then fetchHistogram now s1 else s1)"

definition panel_mounted :: "int \<Rightarrow> logs_source \<Rightarrow> global_time_range \<Rightarrow> search_params \<Rightarrow> logs_panel" where
  "panel_mounted now src r ps =
     fetchHistogram now (list_start False now
       \<lparr>lp_source = src, lp_refreshKey = 0, lp_range = r, lp_traceId = sp_get ps ''traceId'', lp_address = ps, lp_logs = [],
        lp_activeTraceId = None, lp_total = 0, lp_loading = True, lp_level = None, lp_search = [], lp_input = [],
        lp_attrFilter = None, lp_histogram = ([], (0, 1)), lp_picked = None, lp_live = False, lp_page = 1,
        lp_toasts = [], lp_lists = [], lp_histograms = []\<rparr>)"

text \<open>An answer to a list request; an empty page past the first falls back to the first.\<close>

definition list_answered :: "list_request \<Rightarrow> thrown + log_entry rows \<Rightarrow> logs_panel \<Rightarrow> logs_panel" where
  "list_answered q r s =
     (let s = s\<lparr>lp_lists := remove1 q (lp_lists s), lp_loading := False\<rparr> in
      case r of
        Inr res \<Rightarrow>
          if rows_data res = [] \<and> rows_total res > 0 \<and> lq_page q > 1 then s\<lparr>lp_page := 1\<rparr>
          else s\<lparr>lp_logs := rows_data res, lp_total := rows_total res\<rparr>
      | Inl e \<Rightarrow> if lq_silent q then s else s\<lparr>lp_toasts := lp_toasts s @ [getErrorMessage e]\<rparr>)"

definition histogram_answered ::
  "histogram_request \<Rightarrow> thrown + log_histogram_bucket list \<Rightarrow> logs_panel \<Rightarrow> logs_panel" where
  "histogram_answered q r s =
     s\<lparr>lp_histograms := remove1 q (lp_histograms s),
       lp_histogram := (case r of Inr b \<Rightarrow> b | Inl _ \<Rightarrow> [], hq_window q)\<rparr>"

text \<open>A tick of the live interval.\<close>

definition live_tick :: "int \<Rightarrow> logs_panel \<Rightarrow> logs_panel" where
  "live_tick now s = fetchHistogram now (list_start True now s)"

definition totalPages :: "logs_panel \<Rightarrow> int" where
  "totalPages s = max 1 \<lceil>rat_of_int (lp_total s) / rat_of_int PAGE_SIZE\<rceil>"

subsection \<open>Handlers\<close>

definition setLevel :: "log_level option \<Rightarrow> logs_panel \<Rightarrow> logs_panel" where
  "setLevel v s = s\<lparr>lp_level := v, lp_page := 1\<rparr>"

definition handleSearchSubmit :: "logs_panel \<Rightarrow> logs_panel" where
  "handleSearchSubmit s = s\<lparr>lp_search := lp_input s, lp_page := 1\<rparr>"

definition clear_search :: "logs_panel \<Rightarrow> logs_panel" where
  "clear_search s = s\<lparr>lp_search := [], lp_input := [], lp_page := 1\<rparr>"

definition filterAttribute :: "nat \<Rightarrow> string \<Rightarrow> string \<Rightarrow> logs_panel \<Rightarrow> logs_panel" where
  "filterAttribute i k v s = s\<lparr>lp_attrFilter := Some (i, k, v), lp_page := 1\<rparr>"

definition clear_attribute :: "logs_panel \<Rightarrow> logs_panel" where
  "clear_attribute s = s\<lparr>lp_attrFilter := None, lp_page := 1\<rparr>"

text \<open>The page passes the address's \<open>traceId\<close> down as a prop.\<close>

definition clearParam :: "string \<Rightarrow> logs_panel \<Rightarrow> logs_panel" where
  "clearParam name s =
     (let ps = sp_delete name (lp_address s) in
      s\<lparr>lp_address := ps, lp_traceId := sp_get ps ''traceId'', lp_page := 1\<rparr>)"

definition pick_bucket :: "int \<Rightarrow> logs_panel \<Rightarrow> logs_panel" where
  "pick_bucket from s = s\<lparr>lp_picked := Some (from, lp_range s), lp_page := 1\<rparr>"

definition clear_bucket :: "logs_panel \<Rightarrow> logs_panel" where
  "clear_bucket s = s\<lparr>lp_picked := None, lp_page := 1\<rparr>"

definition toggle_live :: "logs_panel \<Rightarrow> logs_panel" where
  "toggle_live s = s\<lparr>lp_live := \<not> lp_live s, lp_page := 1\<rparr>"

definition change_page :: "int \<Rightarrow> logs_panel \<Rightarrow> logs_panel" where
  "change_page p s = s\<lparr>lp_page := p, lp_live := (if p > 1 then False else lp_live s)\<rparr>"

text \<open>New props: the source, the refresh key, the range and the address with its \<open>traceId\<close>.\<close>

definition new_props :: "logs_source \<Rightarrow> nat \<Rightarrow> global_time_range \<Rightarrow> search_params \<Rightarrow> logs_panel \<Rightarrow> logs_panel" where
  "new_props src key r ps s =
     s\<lparr>lp_source := src, lp_refreshKey := key, lp_range := r, lp_address := ps, lp_traceId := sp_get ps ''traceId''\<rparr>"

datatype logs_event =
    Ev_level "log_level option" | Ev_typed string | Ev_submit | Ev_clear_search
  | Ev_attribute nat string string | Ev_clear_attribute | Ev_clear_param string
  | Ev_pick int | Ev_clear_bucket | Ev_live | Ev_page int | Ev_trace "string option"
  | Ev_props logs_source nat global_time_range search_params

fun panel_event :: "logs_event \<Rightarrow> logs_panel \<Rightarrow> logs_panel" where
  "panel_event (Ev_level v) s = setLevel v s"
| "panel_event (Ev_typed t) s = s\<lparr>lp_input := t\<rparr>"
| "panel_event Ev_submit s = handleSearchSubmit s"
| "panel_event Ev_clear_search s = clear_search s"
| "panel_event (Ev_attribute i k v) s = filterAttribute i k v s"
| "panel_event Ev_clear_attribute s = clear_attribute s"
| "panel_event (Ev_clear_param name) s = clearParam name s"
| "panel_event (Ev_pick from) s = pick_bucket from s"
| "panel_event Ev_clear_bucket s = clear_bucket s"
| "panel_event Ev_live s = toggle_live s"
| "panel_event (Ev_page p) s = change_page p s"
| "panel_event (Ev_trace t) s = s\<lparr>lp_activeTraceId := t\<rparr>"
| "panel_event (Ev_props src key r ps) s = new_props src key r ps s"

text \<open>The page controls are shown with a loaded list of more than one page.\<close>

definition event_possible :: "logs_panel \<Rightarrow> logs_event \<Rightarrow> bool" where
  "event_possible s e \<longleftrightarrow>
     (case e of
        Ev_page p \<Rightarrow> \<not> lp_loading s \<and> lp_logs s \<noteq> [] \<and> totalPages s > 1 \<and> p \<in> page_choices (lp_page s) (totalPages s)
      | Ev_pick _ \<Rightarrow> fst (lp_histogram s) \<noteq> []
      | Ev_attribute i _ _ \<Rightarrow> lp_logs s \<noteq> [] \<and> map_option fst (lp_attrFilter s) \<noteq> Some i
      | _ \<Rightarrow> True)"

inductive logs_step ::
  "(log_entry rows api_call \<Rightarrow> log_entry rows \<Rightarrow> bool) \<Rightarrow> logs_panel \<Rightarrow> logs_panel \<Rightarrow> bool" for fits where
  event: "event_possible s e \<Longrightarrow> logs_step fits s (committed now s (panel_event e s))"
| tick: "lp_live s \<Longrightarrow> logs_step fits s (live_tick now s)"
| listed: "q \<in> set (lp_lists s) \<Longrightarrow> (\<And>d. r = Inr d \<Longrightarrow> fits (lq_call q) d) \<Longrightarrow>
    logs_step fits s (committed now s (list_answered q r s))"
| counted: "h \<in> set (lp_histograms s) \<Longrightarrow> logs_step fits s (committed now s (histogram_answered h b s))"

definition panel_good :: "logs_panel \<Rightarrow> bool" where
  "panel_good s \<longleftrightarrow>
     (if lp_live s then lp_page s = 1 else 1 \<le> lp_page s)
     \<and> (if lp_loading s then lp_lists s \<noteq> [] else True)
     \<and> list_all (\<lambda>q. 1 \<le> lq_page q) (lp_lists s)"

lemma list_start_sel [simp]:
  "lp_live (list_start b now s) = lp_live s" "lp_page (list_start b now s) = lp_page s"
  "lp_loading (list_start b now s) = (if b then lp_loading s else True)"
  "lp_lists (list_start b now s) = lp_lists s @ [\<lparr>lq_silent = b, lq_page = lp_page s, lq_call = list_call now s\<rparr>]"
  by (simp_all add: list_start_def)

lemma fetchHistogram_sel [simp]:
  "lp_live (fetchHistogram now s) = lp_live s" "lp_page (fetchHistogram now s) = lp_page s"
  "lp_loading (fetchHistogram now s) = lp_loading s" "lp_lists (fetchHistogram now s) = lp_lists s"
  by (simp_all add: fetchHistogram_def Let_def)

lemma panel_good_start [intro]: "panel_good s \<Longrightarrow> panel_good (list_start b now s)"
  by (simp add: panel_good_def split: if_splits)

lemma panel_good_histogram [simp]: "panel_good (fetchHistogram now s) = panel_good s"
  by (simp add: panel_good_def)

lemma panel_good_committed [intro]: "panel_good s' \<Longrightarrow> panel_good (committed now s s')"
  by (auto simp: committed_def Let_def)

lemma panel_good_mounted: "panel_good (panel_mounted now src r ps)"
  by (simp add: panel_mounted_def panel_good_def)

lemma page_choice_positive: "p \<in> page_choices c n \<Longrightarrow> 1 < n \<Longrightarrow> 1 \<le> c \<Longrightarrow> 1 \<le> p"
  by (auto simp: page_choices_def page_previous_def page_next_def split: if_splits)

lemma panel_good_event: "panel_good s \<Longrightarrow> event_possible s e \<Longrightarrow> panel_good (panel_event e s)"
  using page_choice_positive [of _ "lp_page s" "totalPages s"]
  by (cases e) (fastforce simp: panel_good_def event_possible_def setLevel_def handleSearchSubmit_def clear_search_def
      filterAttribute_def clear_attribute_def clearParam_def pick_bucket_def clear_bucket_def toggle_live_def
      change_page_def new_props_def Let_def split: if_splits)+

lemma panel_good_listed: "panel_good s \<Longrightarrow> panel_good (list_answered q r s)"
  by (cases r) (auto simp: panel_good_def list_answered_def Let_def list_all_iff dest: notin_set_remove1 split: if_splits)

lemma panel_good_counted [simp]: "panel_good (histogram_answered h b s) = panel_good s"
  by (simp add: panel_good_def histogram_answered_def)

lemma panel_good_step: "logs_step fits s s' \<Longrightarrow> panel_good s \<Longrightarrow> panel_good s'"
  by (induction rule: logs_step.induct)
    (auto simp: live_tick_def panel_good_event panel_good_listed intro: panel_good_committed panel_good_start)

lemma panel_good_reach: "(logs_step fits)\<^sup>*\<^sup>* s s' \<Longrightarrow> panel_good s \<Longrightarrow> panel_good s'"
  by (induction rule: rtranclp_induct) (auto intro: panel_good_step)

section \<open>The volume histogram (LogVolumeHistogram)\<close>

definition LEVEL_BAR :: "log_level list" where
  "LEVEL_BAR = [L_error, L_warn, L_info, L_debug, L_trace]"

fun level_of :: "log_level \<Rightarrow> log_histogram_bucket \<Rightarrow> int" where
  "level_of L_error b = hb_error b"
| "level_of L_warn b = hb_warn b"
| "level_of L_info b = hb_info b"
| "level_of L_debug b = hb_debug b"
| "level_of L_trace b = hb_trace b"

text \<open>A bucket without a readable time has no slot a window shows.\<close>

definition timed_buckets :: "log_histogram_bucket list \<Rightarrow> (int \<times> log_histogram_bucket) list" where
  "timed_buckets = List.map_filter (\<lambda>b. map_option (\<lambda>t. (t, b)) (date_parse (hb_time b)))"

definition no_logs :: log_histogram_bucket where
  "no_logs = \<lparr>hb_time = [], hb_error = 0, hb_warn = 0, hb_info = 0, hb_debug = 0, hb_trace = 0\<rparr>"

definition volume_rows ::
  "log_histogram_bucket list \<Rightarrow> int \<times> int \<Rightarrow> int \<Rightarrow> (int \<times> log_histogram_bucket) list option" where
  "volume_rows buckets w step =
     fillBuckets fst (\<lambda>t row. (t, snd row)) (timed_buckets buckets) w step (\<lambda>t. (t, no_logs))"

definition level_total :: "(int \<times> log_histogram_bucket) list \<Rightarrow> log_level \<Rightarrow> int" where
  "level_total rows l = sum_list (map (\<lambda>b. level_of l (snd b)) rows)"

definition legend_items :: "(int \<times> log_histogram_bucket) list \<Rightarrow> (log_level \<times> int) list" where
  "legend_items rows = filter (\<lambda>l. snd l > 0) (map (\<lambda>l. (l, level_total rows l)) LEVEL_BAR)"

definition stack_height :: "log_histogram_bucket \<Rightarrow> int" where
  "stack_height b = sum_list (map (\<lambda>l. level_of l b) LEVEL_BAR)"

definition volume_peak :: "(int \<times> log_histogram_bucket) list \<Rightarrow> int" where
  "volume_peak rows = fold max (map (\<lambda>b. stack_height (snd b)) rows) 0"

text \<open>A click or Enter picks the bucket under the pointer, if there is one.\<close>

definition pick_hovered :: "int option \<Rightarrow> logs_panel \<Rightarrow> logs_panel" where
  "pick_hovered hovered s = (case hovered of Some t \<Rightarrow> pick_bucket t s | None \<Rightarrow> s)"

lemma fold_max_le: "(m :: int) \<le> fold max xs m" "x \<in> set xs \<Longrightarrow> x \<le> fold max xs m"
proof -
  have f: "fold max xs m = Max (insert m (set xs))" by (simp add: Max.set_eq_fold [symmetric])
  show "m \<le> fold max xs m" "x \<in> set xs \<Longrightarrow> x \<le> fold max xs m" by (simp_all add: f)
qed

lemma peak_covers: "b \<in> set rows \<Longrightarrow> stack_height (snd b) \<le> volume_peak rows" "0 \<le> volume_peak rows"
  by (auto simp: volume_peak_def intro: fold_max_le)

lemma slot_start_same: "0 < step \<Longrightarrow> fillBuckets t put rows (slot_of step a, b) step blank = fillBuckets t put rows (a, b) step blank"
  by (simp add: fillBuckets_def)

lemma sum_timed:
  "list_all (\<lambda>b. date_parse (hb_time b) \<noteq> None) bs \<Longrightarrow>
   sum_list (map (\<lambda>b. f (snd b)) (timed_buckets bs)) = sum_list (map f bs)"
  by (induction bs) (auto simp: timed_buckets_def map_filter_simps)

lemma timed_mem: "r \<in> set (timed_buckets bs) \<Longrightarrow> snd r \<in> set bs \<and> date_parse (hb_time (snd r)) = Some (fst r)"
  by (auto simp: timed_buckets_def map_filter_def)

lemma timed_slots:
  "distinct (map (\<lambda>b. map_option (slot_of step) (date_parse (hb_time b))) bs) \<Longrightarrow>
   distinct (map (\<lambda>r. slot_of step (fst r)) (timed_buckets bs))"
proof (induction bs)
  case (Cons b bs)
  then show ?case
    by (cases "date_parse (hb_time b)")
      (auto simp: timed_buckets_def map_filter_simps dest!: timed_mem [unfolded timed_buckets_def], force simp: image_iff)
qed (simp add: timed_buckets_def map_filter_simps)

section \<open>Rows (LogRow)\<close>

definition is_scalar :: "json \<Rightarrow> bool" where
  "is_scalar j = (case j of JStr _ \<Rightarrow> True | JInt _ \<Rightarrow> True | JDec _ \<Rightarrow> True | JBool _ \<Rightarrow> True | _ \<Rightarrow> False)"

text \<open>A section of the metadata is an object, as its type says.\<close>

definition scalarEntries :: "log_entry \<Rightarrow> string \<Rightarrow> (string \<times> string) list" where
  "scalarEntries entry sec =
     (case Option.bind (log_metadata entry) (\<lambda>m. map_of m sec) of
        Some (JObj kvs) \<Rightarrow> map (\<lambda>(k, v). (k, js_string v)) (filter (\<lambda>(_, v). is_scalar v) kvs)
      | _ \<Rightarrow> [])"

definition hasMeta :: "log_entry \<Rightarrow> bool" where
  "hasMeta entry = (case log_metadata entry of Some m \<Rightarrow> m \<noteq> [] | None \<Rightarrow> False)"

text \<open>What the panel shows: placeholders, a message, or the rows with their controls.\<close>

datatype logs_view = Placeholders | No_logs bool | Log_rows "log_entry list" bool

definition logs_shown :: "logs_panel \<Rightarrow> logs_view" where
  "logs_shown s =
     (if lp_loading s then Placeholders
      else if lp_logs s = []
      then No_logs (lp_search s \<noteq> [] \<or> lp_level s \<noteq> None \<or> lp_attrFilter s \<noteq> None \<or> truthy (lp_pattern s) \<or> truthy (lp_traceId s))
      else Log_rows (lp_logs s) (totalPages s > 1))"

text \<open>The count line: the first and last row shown, and their total.\<close>

definition count_line :: "logs_panel \<Rightarrow> (int \<times> int \<times> int) option" where
  "count_line s =
     (if \<not> lp_loading s \<and> lp_total s > 0
      then Some ((lp_page s - 1) * PAGE_SIZE + 1, min (lp_page s * PAGE_SIZE) (lp_total s), lp_total s) else None)"

text \<open>A bucket picked in one range is not in force in another, and is again back in the first.\<close>

lemma picked_per_range:
  "r \<noteq> lp_range s \<Longrightarrow> activeBucket (new_props src k r ps (pick_bucket b s)) = None"
  "activeBucket (new_props src k' (lp_range s) ps' (new_props src k r ps (pick_bucket b s))) = Some b"
  by (simp_all add: activeBucket_def new_props_def pick_bucket_def Let_def)

text \<open>An empty page past the first falls back to the first, which is asked for at once.\<close>

lemma falls_back:
  assumes "rows_data d = []" "0 < rows_total d" "1 < lq_page q" "lp_page s = lq_page q"
  shows "lp_page (committed now s (list_answered q (Inr d) s)) = 1"
    "\<exists>q'. lp_lists (committed now s (list_answered q (Inr d) s)) = remove1 q (lp_lists s) @ [q'] \<and> lq_page q' = 1 \<and> \<not> lq_silent q'"
  using assms by (simp_all add: committed_def list_answered_def list_deps_def Let_def)

section \<open>The panel as a whole\<close>

definition shared_keys :: "string list" where
  "shared_keys = [''level'', ''search'', ''attrKey'', ''attrValue'', ''fingerprint'']"

definition source_clean :: "logs_source \<Rightarrow> bool" where
  "source_clean src = (case src of Direct_logs i \<Rightarrow> CHR ''?'' \<notin> set i | Agent_logs a k \<Rightarrow> CHR ''?'' \<notin> set a)"

lemma activeBucket_cong: "lp_picked s = lp_picked s' \<Longrightarrow> lp_range s = lp_range s' \<Longrightarrow> activeBucket s = activeBucket s'"
  by (simp add: activeBucket_def split: option.split)

lemma list_start_more [simp]:
  "histogram_deps (list_start b now s) = histogram_deps s" "lp_level (list_start b now s) = lp_level s"
  "lp_toasts (list_start b now s) = lp_toasts s" "activeBucket (list_start b now s) = activeBucket s"
  by (simp_all add: list_start_def histogram_deps_def lp_pattern_def cong: activeBucket_cong)

lemma fetchHistogram_more [simp]:
  "histogram_deps (fetchHistogram now s) = histogram_deps s" "lp_level (fetchHistogram now s) = lp_level s"
  "lp_toasts (fetchHistogram now s) = lp_toasts s" "activeBucket (fetchHistogram now s) = activeBucket s"
  by (simp_all add: fetchHistogram_def histogram_deps_def lp_pattern_def Let_def cong: activeBucket_cong)

lemma list_call_cong:
  assumes "lp_source s = lp_source s'" "histogram_deps s = histogram_deps s'" "lp_page s = lp_page s'" "activeBucket s = activeBucket s'"
  shows "list_call now s = list_call now s'"
proof -
  have f: "panel_filters s = panel_filters s'" "list_from now s = list_from now s'" "list_to s = list_to s'"
    using assms by (simp_all add: panel_filters_def list_from_def list_to_def histogram_deps_def split: option.split)
  show ?thesis by (simp only: list_call_def f assms)
qed

lemma list_call_effects [simp]:
  "list_call now (fetchHistogram m s) = list_call now s" "list_call now (list_start b m s) = list_call now s"
proof -
  have "lp_source (fetchHistogram m s) = lp_source s" "lp_source (list_start b m s) = lp_source s"
    by (simp_all add: fetchHistogram_def list_start_def Let_def)
  then show "list_call now (fetchHistogram m s) = list_call now s" "list_call now (list_start b m s) = list_call now s"
    by (simp_all cong: list_call_cong)
qed

lemma mounted_sel [simp]:
  "lp_lists (panel_mounted now src r ps) =
     [\<lparr>lq_silent = False, lq_page = 1, lq_call = list_call now (panel_mounted now src r ps)\<rparr>]"
  "lp_level (panel_mounted now src r ps) = None" "lp_page (panel_mounted now src r ps) = 1"
  "lp_toasts (panel_mounted now src r ps) = []"
  by (simp_all add: panel_mounted_def)

lemma service_path_clean: "CHR ''?'' \<notin> set a \<Longrightarrow> CHR ''?'' \<notin> set (service_base a k)"
  using encode_no_delimiter [of "CHR ''?''" k] by (auto simp: service_base_def url_delimiters_def)

text \<open>On the first page an answer changes no dependency.\<close>

lemma committed_first:
  "lp_page s = 1 \<Longrightarrow> lq_page q = 1 \<Longrightarrow> committed now s (list_answered q (Inr d) s) =
     s\<lparr>lp_lists := remove1 q (lp_lists s), lp_loading := False, lp_logs := rows_data d, lp_total := rows_total d\<rparr>"
  by (simp add: committed_def list_answered_def list_deps_def histogram_deps_def lp_pattern_def Let_def cong: activeBucket_cong)

text \<open>The page controls show at most five pages, in order, within bounds, with the first, the last and
  the current one among them, and an ellipsis exactly where pages are left out after another.\<close>

theorem page_controls_exact:
  assumes "1 \<le> c" "c \<le> n"
  shows "let ps = List.map_filter (\<lambda>x. x) (pageItems c n) in
    sorted_wrt (<) ps \<and> length ps \<le> 5 \<and> {1, c, n} \<subseteq> set ps \<and> set ps \<subseteq> {1..n}
    \<and> length (pageItems c n) = length ps + page_gaps ps"
  using assms by (auto simp: Let_def pageItems_def page_items_length page_gaps_def sorted_pages_shown pageItems_length)

lemma page_controls_exact_witness: "pageItems 6 12 = [Some 1, None, Some 5, Some 6, Some 7, None, Some 12]"
  using page_controls_exact [of 6 12]
  by (simp add: pageItems_def pages_shown_def set_from_def page_gaps_def)

text \<open>C25: In the log panel, whatever is clicked and in whatever order answers arrive, live tailing is
  only on with the first page asked for, the page is never below 1, and it shows itself loading only
  while a list request is in flight.\<close>

theorem log_panel_states:
  assumes "(logs_step fits)\<^sup>*\<^sup>* (panel_mounted now src r ps) s"
  shows "(lp_live s \<longrightarrow> lp_page s = 1) \<and> 1 \<le> lp_page s \<and> (lp_loading s \<longrightarrow> lp_lists s \<noteq> [])"
  using panel_good_reach [OF assms panel_good_mounted] by (auto simp: panel_good_def split: if_splits)

lemma log_panel_states_witness:
  "1 \<le> lp_page (live_tick 0 (committed 0 (panel_mounted 0 (Direct_logs ''d'') GR_1h [])
     (toggle_live (panel_mounted 0 (Direct_logs ''d'') GR_1h []))))"
proof -
  let ?s0 = "panel_mounted 0 (Direct_logs ''d'') GR_1h []"
  let ?s1 = "committed 0 ?s0 (panel_event Ev_live ?s0)"
  have "logs_step (\<lambda>_ _. True) ?s0 ?s1" by (rule logs_step.event) (simp add: event_possible_def)
  moreover have "logs_step (\<lambda>_ _. True) ?s1 (live_tick 0 ?s1)"
    by (rule logs_step.tick) (simp add: committed_def toggle_live_def panel_mounted_def Let_def)
  ultimately have "(logs_step (\<lambda>_ _. True))\<^sup>*\<^sup>* ?s0 (live_tick 0 ?s1)"
    by (meson rtranclp.rtrancl_refl rtranclp.rtrancl_into_rtrancl)
  from log_panel_states [OF this] show ?thesis by simp
qed

text \<open>The list and the histogram of the log panel are asked for with the same filters.\<close>

theorem log_filters_shared:
  assumes "source_clean (lp_source s)" "\<not> truthy (lp_traceId s)" "key \<in> set shared_keys"
  shows "sp_get (endpoint_query (ac_endpoint (list_call now s))) key
    = sp_get (endpoint_query (ac_endpoint (histogram_call now' s))) key"
proof -
  have keys: "key = ''level'' \<or> key = ''search'' \<or> key = ''attrKey'' \<or> key = ''attrValue'' \<or> key = ''fingerprint''"
    using assms(3) by (simp add: shared_keys_def)
  show ?thesis
  proof (cases "lp_source s")
    case (Agent_logs a k)
    then have "CHR ''?'' \<notin> set (service_base a k)" using assms(1) by (simp add: source_clean_def service_path_clean)
    with keys Agent_logs show ?thesis
      by (elim disjE) (simp_all add: list_call_def histogram_call_def getAgentServiceLogs_def getAgentServiceLogHistogram_def
          panel_filters_def Let_def endpoint_query_with build_get)
  next
    case (Direct_logs i)
    then have "CHR ''?'' \<notin> set i" using assms(1) by (simp add: source_clean_def)
    with keys Direct_logs show ?thesis
      by (elim disjE) (simp_all add: list_call_def histogram_call_def getObservedServiceLogs_def getObservedServiceLogHistogram_def
          panel_filters_def Let_def endpoint_query_with build_get logQuery_def direct_histogram_params_def)
  qed
qed

lemma log_filters_shared_witness:
  "sp_get (endpoint_query (ac_endpoint (list_call 5 (setLevel (Some L_warn) (panel_mounted 0 (Direct_logs ''d'') GR_1h []))))) ''level''
    = sp_get (endpoint_query (ac_endpoint (histogram_call 7 (setLevel (Some L_warn) (panel_mounted 0 (Direct_logs ''d'') GR_1h []))))) ''level''"
  by (rule log_filters_shared)
    (simp_all add: source_clean_def shared_keys_def setLevel_def panel_mounted_def fetchHistogram_def list_start_def Let_def)

text \<open>The legend of the histogram counts every log of its buckets, once each, and no bar is taller
  than the peak its axis is made for.\<close>

theorem log_volume_counted:
  assumes "0 < step" "list_all (\<lambda>b. date_parse (hb_time b) \<noteq> None) bs"
    "distinct (map (\<lambda>b. map_option (slot_of step) (date_parse (hb_time b))) bs)"
    "list_all (\<lambda>b. pred_option (\<lambda>t. slot_of step (fst w) \<le> t \<and> t \<le> snd w) (date_parse (hb_time b))) bs"
  shows "\<exists>rows. volume_rows bs w step = Some rows
    \<and> (\<forall>l. level_total rows l = sum_list (map (level_of l) bs))
    \<and> list_all (\<lambda>b. stack_height (snd b) \<le> volume_peak rows) rows"
proof -
  let ?w = "(slot_of step (fst w), snd w)" and ?rows = "timed_buckets bs"
  have v: "volume_rows bs w step =
      fillBuckets fst (\<lambda>t row. (t, snd row)) ?rows ?w step (\<lambda>t. (t, no_logs))"
    by (simp add: volume_rows_def slot_start_same [OF assms(1)])
  have inw: "\<forall>r \<in> set ?rows. fst ?w \<le> fst r \<and> fst r \<le> snd ?w"
    using assms(4) timed_mem by (fastforce simp: list_all_iff)
  have sums: "map_option (\<lambda>out. sum_list (map (\<lambda>b. level_of l (snd b)) out)) (volume_rows bs w step)
      = Some (sum_list (map (\<lambda>b. level_of l (snd b)) ?rows))" for l
    unfolding v by (rule fillBuckets_sum [OF assms(1) timed_slots [OF assms(3)] inw]) (cases l, simp_all add: no_logs_def)+
  obtain rows where rows: "volume_rows bs w step = Some rows" using sums [of L_error] by auto
  show ?thesis using sums assms(2)
    by (intro exI [of _ rows]) (simp add: rows level_total_def sum_timed list_all_iff peak_covers)
qed

lemma log_volume_counted_witness:
  "\<exists>rows. volume_rows [no_logs\<lparr>hb_time := iso_string 60000, hb_warn := 3\<rparr>] (90000, 600000) 120000 = Some rows
    \<and> (\<forall>l. level_total rows l = sum_list (map (level_of l) [no_logs\<lparr>hb_time := iso_string 60000, hb_warn := 3\<rparr>]))
    \<and> list_all (\<lambda>b. stack_height (snd b) \<le> volume_peak rows) rows"
proof -
  have "date_parse (iso_string 60000) = Some 60000"
    by (rule date_parse_iso) (simp add: iso_range_def epoch_day_def ms_per_day_def year_start_def)
  then show ?thesis by (intro log_volume_counted) (simp_all add: slot_of_def)
qed

text \<open>The list request has no guard against late answers: after a level is chosen, the answer to the
  request for all levels can arrive last and stay shown, with nothing in flight.\<close>

theorem late_logs_shown:
  assumes "fits (list_call now (panel_mounted now src r ps)) d" "fits (list_call now (setLevel (Some l) (panel_mounted now src r ps))) d'"
  shows "\<exists>s. (logs_step fits)\<^sup>*\<^sup>* (panel_mounted now src r ps) s \<and> lp_level s = Some l \<and> lp_lists s = []
    \<and> \<not> lp_loading s \<and> lp_logs s = rows_data d \<and> lp_toasts s = []"
proof (intro exI conjI)
  let ?s0 = "panel_mounted now src r ps"
  let ?q0 = "\<lparr>lq_silent = False, lq_page = 1, lq_call = list_call now ?s0\<rparr>"
  let ?q1 = "\<lparr>lq_silent = False, lq_page = 1, lq_call = list_call now (setLevel (Some l) ?s0)\<rparr>"
  let ?s1 = "committed now ?s0 (panel_event (Ev_level (Some l)) ?s0)"
  let ?s2 = "committed now ?s1 (list_answered ?q1 (Inr d') ?s1)"
  let ?s3 = "committed now ?s2 (list_answered ?q0 (Inr d) ?s2)"
  have l1: "lp_lists ?s1 = [?q0, ?q1]" "lp_level ?s1 = Some l" "lp_page ?s1 = 1" "lp_toasts ?s1 = []"
    by (simp_all add: committed_def setLevel_def list_deps_def histogram_deps_def [of "panel_mounted _ _ _ _"] histogram_deps_def [of "_\<lparr>lp_page := _\<rparr>"] Let_def)
  have l2: "lp_lists ?s2 = remove1 ?q1 [?q0, ?q1]" "lp_level ?s2 = Some l" "lp_page ?s2 = 1" "lp_toasts ?s2 = []"
    using l1 by (simp_all only: committed_first [OF l1(3)] list_request.simps, simp_all)
  have l3: "lp_lists ?s3 = remove1 ?q0 (remove1 ?q1 [?q0, ?q1])" "lp_level ?s3 = Some l" "lp_toasts ?s3 = []"
    "\<not> lp_loading ?s3" "lp_logs ?s3 = rows_data d"
    using l2 by (simp_all only: committed_first [OF l2(3)] list_request.simps, simp_all)
  show "lp_level ?s3 = Some l" "\<not> lp_loading ?s3" "lp_logs ?s3 = rows_data d" "lp_toasts ?s3 = []" using l3 by auto
  show "lp_lists ?s3 = []" unfolding l3(1) by simp
  have "logs_step fits ?s0 ?s1" by (rule logs_step.event) (simp add: event_possible_def)
  moreover have "logs_step fits ?s1 ?s2" by (rule logs_step.listed) (use assms(2) l1 in auto)
  moreover have "logs_step fits ?s2 ?s3" by (rule logs_step.listed) (use assms(1) l2 in auto)
  ultimately show "(logs_step fits)\<^sup>*\<^sup>* ?s0 ?s3"
    by (meson rtranclp.rtrancl_refl rtranclp.rtrancl_into_rtrancl)
qed

lemma late_logs_shown_witness:
  "\<exists>s. (logs_step (\<lambda>_ _. True))\<^sup>*\<^sup>* (panel_mounted 0 (Agent_logs ''a'' ''k'') GR_1h []) s \<and> lp_level s = Some L_error
    \<and> lp_lists s = [] \<and> \<not> lp_loading s \<and> lp_logs s = [] \<and> lp_toasts s = []"
  using late_logs_shown [of "\<lambda>_ _. True" 0 "Agent_logs ''a'' ''k''" GR_1h "[]" "\<lparr>rows_data = [], rows_total = 0\<rparr>"
      L_error "\<lparr>rows_data = [], rows_total = 0\<rparr>"] by simp

end
