(* ===== verification/EU_UptimeList.thy ===== *)
theory EU_UptimeList imports EU_Serve EU_Example EU_Status EU_Nav
begin

text \<open>
  The uptime page, \<open>pages/capabilities/AgentServiceCapabilityPage.tsx\<close>, its list
  \<open>features/uptime/components/UptimeTargets.tsx\<close> and the monitor form
  \<open>features/uptime/components/UptimeMonitorDialog.tsx\<close>: filters in the address, the selection and
  the bulk operations on it, and what the form sends.  The bulk operations and the form are composed
  with the client and the demo server.
\<close>

section \<open>Filters and order\<close>

definition STATUS_FILTERS :: "uptime_state list" where
  "STATUS_FILTERS = [U_up, U_down, U_waiting, U_paused]"

fun uptime_state_text :: "uptime_state \<Rightarrow> string" where
  "uptime_state_text U_up = ''up''"
| "uptime_state_text U_down = ''down''"
| "uptime_state_text U_waiting = ''waiting''"
| "uptime_state_text U_paused = ''paused''"

definition parseStatus :: "string option \<Rightarrow> uptime_state option" where
  "parseStatus v = find (\<lambda>s. v = Some (uptime_state_text s)) STATUS_FILTERS"

definition setParam :: "string \<Rightarrow> string option \<Rightarrow> search_params \<Rightarrow> search_params" where
  "setParam k v ps = (if truthy v then sp_set k (the v) ps else sp_delete k ps)"

definition setQuery :: "string \<Rightarrow> search_params \<Rightarrow> search_params" where
  "setQuery v = setParam ''q'' (Some v)"

definition setStatus :: "uptime_state option \<Rightarrow> search_params \<Rightarrow> search_params" where
  "setStatus v = setParam ''status'' (map_option uptime_state_text v)"

text \<open>A template writes \<open>undefined\<close> for an absent port.\<close>

definition endpoint_text :: "uptime_monitor \<Rightarrow> string" where
  "endpoint_text m =
     (if um_type m = M_tcp
      then um_url m @ '':'' @ (case um_port m of Some p \<Rightarrow> show_int p | None \<Rightarrow> ''undefined'') else um_url m)"

definition monitor_matches :: "search_params \<Rightarrow> uptime_monitor \<Rightarrow> bool" where
  "monitor_matches ps m \<longleftrightarrow>
     (let status = parseStatus (sp_get ps ''status'');
          q = to_lower (js_trim (or_default (sp_get ps ''q'') [])) in
      (status = None \<or> Some (uptimeState m) = status)
      \<and> (q = [] \<or> str_includes q (to_lower (um_name m)) \<or> str_includes q (to_lower (endpoint_text m))))"

definition filteredMonitors :: "search_params \<Rightarrow> uptime_monitor list \<Rightarrow> uptime_monitor list" where
  "filteredMonitors ps = filter (monitor_matches ps)"

definition state_counts :: "uptime_monitor list \<Rightarrow> (uptime_state \<times> nat) list" where
  "state_counts ms = map (\<lambda>k. (k, length (filter (\<lambda>m. uptimeState m = k) ms))) STATUS_FILTERS"

text \<open>The order of the list: what is down first; all alike when the list could not be read.\<close>

definition target_priority :: "bool \<Rightarrow> uptime_monitor \<Rightarrow> nat" where
  "target_priority err m =
     (if err then 1 else (case uptimeState m of U_down \<Rightarrow> 0 | U_waiting \<Rightarrow> 2 | U_up \<Rightarrow> 3 | U_paused \<Rightarrow> 4))"

definition uptime_targets :: "bool \<Rightarrow> uptime_monitor list \<Rightarrow> uptime_monitor list" where
  "uptime_targets err ms = sort_by (by_key (target_priority err)) ms"

section \<open>The selection\<close>

definition selectedMonitors :: "search_params \<Rightarrow> string set \<Rightarrow> uptime_monitor list \<Rightarrow> uptime_monitor list" where
  "selectedMonitors ps selected ms = filter (\<lambda>m. um_id m \<in> selected) (filteredMonitors ps ms)"

definition visibleSelection :: "search_params \<Rightarrow> string set \<Rightarrow> uptime_monitor list \<Rightarrow> string set" where
  "visibleSelection ps selected ms = um_id ` set (selectedMonitors ps selected ms)"

definition select_ids :: "string list \<Rightarrow> bool \<Rightarrow> string set \<Rightarrow> string set" where
  "select_ids ids checked current = foldl (\<lambda>nxt i. if checked then insert i nxt else nxt - {i}) current ids"

text \<open>The box above the list: checked, and half checked.\<close>

definition select_all_box :: "uptime_monitor list \<Rightarrow> string set \<Rightarrow> bool \<times> bool" where
  "select_all_box targets selected =
     (let n = length (filter (\<lambda>m. um_id m \<in> selected) targets) in
      (n > 0 \<and> n = length targets, n > 0 \<and> n < length targets))"

lemma select_ids_set: "select_ids ids checked s = (if checked then s \<union> set ids else s - set ids)"
  by (induction ids arbitrary: s) (auto simp: select_ids_def)

section \<open>Requests\<close>

definition withActive :: "uptime_monitor \<Rightarrow> bool \<Rightarrow> uptime_monitor_input" where
  "withActive m active =
     \<lparr>ui_name = um_name m, ui_type = um_type m, ui_url = (if um_type m = M_http then Some (um_url m) else None),
      ui_host = (if um_type m = M_tcp then Some (um_url m) else None), ui_port = um_port m, ui_method = Some (um_method m),
      ui_expectedStatus = Some (um_expectedStatus m), ui_timeout = Some (um_timeout m), ui_interval = Some (um_interval m),
      ui_isActive = Some active\<rparr>"

datatype bulk_action = Bulk_pause | Bulk_resume | Bulk_delete

definition bulk_targets :: "bulk_action \<Rightarrow> uptime_monitor list \<Rightarrow> uptime_monitor list" where
  "bulk_targets a ms =
     (case a of Bulk_pause \<Rightarrow> filter um_isActive ms | Bulk_resume \<Rightarrow> filter (\<lambda>m. \<not> um_isActive m) ms | Bulk_delete \<Rightarrow> ms)"

text \<open>The two result types of the calls are not looked at.\<close>

datatype bulk_call = Bulk_update "uptime_monitor api_call" | Bulk_remove "unit api_call"

definition bulk_run :: "bulk_action \<Rightarrow> uptime_monitor \<Rightarrow> bulk_call" where
  "bulk_run a m =
     (case a of
        Bulk_pause \<Rightarrow> Bulk_update (updateUptimeMonitor (um_id m) (withActive m False))
      | Bulk_resume \<Rightarrow> Bulk_update (updateUptimeMonitor (um_id m) (withActive m True))
      | Bulk_delete \<Rightarrow> Bulk_remove (deleteUptimeMonitor (um_id m)))"

text \<open>The ids left selected, and the message, when the requests have ended with \<open>results\<close>.\<close>

definition bulk_failed :: "uptime_monitor list \<Rightarrow> (thrown + 'r) list \<Rightarrow> string list" where
  "bulk_failed targets results = map (\<lambda>(m, _). um_id m) (filter (\<lambda>(_, r). isl r) (zip targets results))"

definition bulk_toast :: "string \<Rightarrow> uptime_monitor list \<Rightarrow> (thrown + 'r) list \<Rightarrow> string option" where
  "bulk_toast verb targets results =
     (let failed = bulk_failed targets results in
      if failed = [] then None
      else Some (show_nat (length failed) @ ([CHR 0xEA, CHR 0xB0, CHR 0x9C, CHR 0xEB, CHR 0xA5, CHR 0xBC] @ '' '') @ verb @ ([CHR 0xED, CHR 0x95, CHR 0x98, CHR 0xEC, CHR 0xA7, CHR 0x80] @ '' '' @ [CHR 0xEB, CHR 0xAA, CHR 0xBB, CHR 0xED, CHR 0x96, CHR 0x88, CHR 0xEC, CHR 0x8A, CHR 0xB5, CHR 0xEB, CHR 0x8B, CHR 0x88, CHR 0xEB, CHR 0x8B, CHR 0xA4] @ ''. '')
        @ (case find (\<lambda>r. isl r) results of Some (Inl e) \<Rightarrow> getErrorMessage e | _ \<Rightarrow> [])))"

section \<open>The page\<close>

record uptime_page =
  ul_monitors :: "uptime_monitor list"
  ul_params :: search_params
  ul_loading :: bool
  ul_error :: "string option"
  ul_changing :: "string option"
  ul_selected :: "string set"
  ul_bulk :: bool
  ul_confirming :: bool
  ul_toasts :: "string list"

definition uptime_page_mounted :: "search_params \<Rightarrow> uptime_page" where
  "uptime_page_mounted ps =
     \<lparr>ul_monitors = [], ul_params = ps, ul_loading = True, ul_error = None, ul_changing = None, ul_selected = {},
      ul_bulk = False, ul_confirming = False, ul_toasts = []\<rparr>"

definition uptime_load :: "uptime_page \<Rightarrow> uptime_page" where
  "uptime_load s = s\<lparr>ul_loading := True\<rparr>"

definition uptime_loaded :: "thrown + uptime_monitor list \<Rightarrow> uptime_page \<Rightarrow> uptime_page" where
  "uptime_loaded r s =
     (case r of Inr ms \<Rightarrow> s\<lparr>ul_monitors := ms, ul_error := None, ul_loading := False\<rparr>
      | Inl e \<Rightarrow> s\<lparr>ul_error := Some (getErrorMessage e), ul_loading := False\<rparr>)"

text \<open>\<open>setActive\<close>: the request, if none is running, and its answer.\<close>

definition setActive :: "uptime_monitor \<Rightarrow> uptime_page \<Rightarrow> (uptime_page \<times> uptime_monitor api_call) option" where
  "setActive m s =
     (if truthy (ul_changing s) then None
      else Some (s\<lparr>ul_changing := Some (um_id m)\<rparr>, updateUptimeMonitor (um_id m) (withActive m (\<not> um_isActive m))))"

definition active_failed :: "thrown \<Rightarrow> uptime_page \<Rightarrow> uptime_page" where
  "active_failed e s = s\<lparr>ul_changing := None, ul_toasts := ul_toasts s @ [getErrorMessage e]\<rparr>"

definition bulkDisabled :: "uptime_page \<Rightarrow> bool" where
  "bulkDisabled s \<longleftrightarrow> ul_bulk s \<or> ul_loading s \<or> truthy (ul_error s) \<or> ul_changing s \<noteq> None"

definition page_selection :: "uptime_page \<Rightarrow> uptime_monitor list" where
  "page_selection s = selectedMonitors (ul_params s) (ul_selected s) (ul_monitors s)"

text \<open>\<open>runBulk\<close> starts the requests of all its targets at once; the dialog confirms a deletion.\<close>

definition runBulk :: "bulk_action \<Rightarrow> uptime_page \<Rightarrow> uptime_page \<times> bulk_call list" where
  "runBulk a s = (s\<lparr>ul_bulk := True, ul_confirming := False\<rparr>, map (bulk_run a) (bulk_targets a (page_selection s)))"

definition bulk_answered :: "string \<Rightarrow> uptime_monitor list \<Rightarrow> (thrown + 'r) list \<Rightarrow> uptime_page \<Rightarrow> uptime_page" where
  "bulk_answered verb targets results s =
     s\<lparr>ul_selected := set (bulk_failed targets results), ul_bulk := False, ul_loading := True,
       ul_toasts := ul_toasts s @ (case bulk_toast verb targets results of Some m \<Rightarrow> [m] | None \<Rightarrow> [])\<rparr>"

datatype uptime_list_view = UL_skeleton | UL_nothing | UL_none_in uptime_state | UL_no_match | UL_empty
  | UL_list "uptime_monitor list"

definition uptime_list_view :: "uptime_page \<Rightarrow> uptime_list_view" where
  "uptime_list_view s =
     (let shown = filteredMonitors (ul_params s) (ul_monitors s); hasTargets = ul_monitors s \<noteq> [];
          status = parseStatus (sp_get (ul_params s) ''status'');
          q = to_lower (js_trim (or_default (sp_get (ul_params s) ''q'') [])) in
      if ul_loading s \<and> \<not> hasTargets then UL_skeleton
      else if shown = []
      then (if truthy (ul_error s) then UL_nothing
            else (case status of
                Some k \<Rightarrow> if hasTargets then UL_none_in k else UL_empty
              | None \<Rightarrow> if q \<noteq> [] \<and> hasTargets then UL_no_match else UL_empty))
      else UL_list (uptime_targets (truthy (ul_error s)) shown))"

section \<open>The monitor form (UptimeMonitorDialog)\<close>

record monitor_draft =
  md_name :: string
  md_type :: uptime_monitor_type
  md_target :: string
  md_port :: string
  md_expectedStatus :: string
  md_interval :: string
  md_timeout :: string

definition EMPTY_DRAFT :: monitor_draft where
  "EMPTY_DRAFT =
     \<lparr>md_name = [], md_type = M_http, md_target = [], md_port = ''443'', md_expectedStatus = ''200'', md_interval = ''30'',
      md_timeout = ''5''\<rparr>"

text \<open>\<open>nt\<close> is \<open>String(x)\<close> of a number that need not be an integer.\<close>

definition draft_of :: "(rat \<Rightarrow> string) \<Rightarrow> uptime_monitor option \<Rightarrow> monitor_draft" where
  "draft_of nt monitor =
     (case monitor of
        None \<Rightarrow> EMPTY_DRAFT
      | Some m \<Rightarrow>
          \<lparr>md_name = um_name m, md_type = um_type m, md_target = um_url m, md_port = show_int (or_default (um_port m) 443),
           md_expectedStatus = show_int (if um_expectedStatus m = 0 then 200 else um_expectedStatus m),
           md_interval = show_int (um_interval m), md_timeout = nt (rat_of_int (um_timeout m) / 1000)\<rparr>)"

text \<open>
  The browser submits the form only when its constraints hold: required fields, the patterns, and the
  bounds and steps of the number inputs; \<open>valid_url\<close> is the browser's check of a \<open>url\<close> input.
\<close>

definition not_blank :: "string \<Rightarrow> bool" where
  "not_blank v \<longleftrightarrow> list_ex (\<lambda>c. \<not> js_space c) v"

definition number_input :: "bool \<Rightarrow> rat \<Rightarrow> rat option \<Rightarrow> string \<Rightarrow> bool" where
  "number_input whole lo hi v \<longleftrightarrow>
     v \<noteq> [] \<and> (case js_number v of
        Some x \<Rightarrow> lo \<le> x \<and> pred_option (\<lambda>h. x \<le> h) hi \<and> (if whole then of_int \<lfloor>x\<rfloor> = x else True)
      | None \<Rightarrow> False)"

definition http_pattern :: "string \<Rightarrow> bool" where
  "http_pattern v \<longleftrightarrow>
     (let l = to_lower (take 8 v) in
      (starts_with l ''http://'' \<and> 7 < length v) \<or> (starts_with l ''https://'' \<and> 8 < length v))"

definition draft_valid :: "(string \<Rightarrow> bool) \<Rightarrow> monitor_draft \<Rightarrow> bool" where
  "draft_valid valid_url d \<longleftrightarrow>
     not_blank (md_name d)
     \<and> (if md_type d = M_http
        then valid_url (md_target d) \<and> http_pattern (md_target d) \<and> number_input True 100 (Some 599) (md_expectedStatus d)
        else not_blank (md_target d) \<and> number_input True 1 (Some 65535) (md_port d))
     \<and> number_input True 5 None (md_interval d) \<and> number_input False (1 / 10) None (md_timeout d)"

text \<open>\<open>Number(v)\<close> of a field that holds a number.\<close>

definition field_number :: "string \<Rightarrow> rat" where
  "field_number v = (case js_number v of Some x \<Rightarrow> x | None \<Rightarrow> 0)"

definition draft_input :: "monitor_draft \<Rightarrow> uptime_monitor_input" where
  "draft_input d =
     \<lparr>ui_name = js_trim (md_name d), ui_type = md_type d,
      ui_url = (if md_type d = M_http then Some (js_trim (md_target d)) else None),
      ui_host = (if md_type d = M_http then None else Some (js_trim (md_target d))),
      ui_port = (if md_type d = M_http then None else Some \<lfloor>field_number (md_port d)\<rfloor>),
      ui_method = None,
      ui_expectedStatus = (if md_type d = M_http then Some \<lfloor>field_number (md_expectedStatus d)\<rfloor> else None),
      ui_timeout = Some (math_round (field_number (md_timeout d) * 1000)),
      ui_interval = Some \<lfloor>field_number (md_interval d)\<rfloor>, ui_isActive = None\<rparr>"

definition submit_draft :: "(string \<Rightarrow> bool) \<Rightarrow> monitor_draft \<Rightarrow> uptime_monitor_input option" where
  "submit_draft valid_url d = (if draft_valid valid_url d then Some (draft_input d) else None)"

text \<open>What a monitor's own page adds to the form's values (\<open>updateMonitor\<close>).\<close>

definition updateMonitor_input :: "uptime_monitor \<Rightarrow> uptime_monitor_input \<Rightarrow> uptime_monitor_input" where
  "updateMonitor_input m i =
     i\<lparr>ui_method := Some (um_method m),
       ui_expectedStatus := Some (or_default (ui_expectedStatus i) (um_expectedStatus m)),
       ui_isActive := Some (um_isActive m)\<rparr>"

text \<open>A monitor as a valid form makes it.\<close>

definition monitor_ok :: "(string \<Rightarrow> bool) \<Rightarrow> uptime_monitor \<Rightarrow> bool" where
  "monitor_ok valid_url m \<longleftrightarrow>
     not_blank (um_name m) \<and> js_trim (um_name m) = um_name m \<and> js_trim (um_url m) = um_url m
     \<and> (if um_type m = M_http
        then valid_url (um_url m) \<and> http_pattern (um_url m) \<and> 100 \<le> um_expectedStatus m \<and> um_expectedStatus m \<le> 599
        else not_blank (um_url m) \<and> um_port m \<noteq> None \<and> pred_option (\<lambda>p. 1 \<le> p \<and> p \<le> 65535) (um_port m))
     \<and> 5 \<le> um_interval m \<and> 100 \<le> um_timeout m"

section \<open>What the list shows\<close>

lemma parseStatus_text [simp]: "parseStatus (Some (uptime_state_text k)) = Some k"
  by (cases k) (simp_all add: parseStatus_def STATUS_FILTERS_def)

lemma uptime_state_text_nonempty [simp]: "uptime_state_text k \<noteq> []"
  by (cases k) simp_all

lemma setStatus_read [simp]: "parseStatus (sp_get (setStatus v ps) ''status'') = v"
  by (cases v) (simp_all add: setStatus_def setParam_def, simp add: parseStatus_def STATUS_FILTERS_def)

text \<open>The counts partition the monitors.\<close>

lemma state_counts_sum: "sum_list (map snd (state_counts ms)) = length ms"
proof (induction ms)
  case (Cons m ms)
  then show ?case by (cases "uptimeState m") (simp_all add: state_counts_def STATUS_FILTERS_def)
qed (simp add: state_counts_def STATUS_FILTERS_def)

lemma uptime_targets_listed:
  "mset (uptime_targets err ms) = mset ms" "sorted_wrt (by_key (target_priority err)) (uptime_targets err ms)"
  by (simp_all add: uptime_targets_def asc.sorted_sort)

lemma selected_shown: "set (selectedMonitors ps sel ms) \<subseteq> set (filteredMonitors ps ms)"
  by (auto simp: selectedMonitors_def)

text \<open>Ticking the box above the list selects all that is shown and keeps what is hidden as it was.\<close>

lemma select_all_shown:
  assumes "targets \<noteq> []"
  shows "select_all_box targets (select_ids (map um_id targets) True sel) = (True, False)"
    "select_all_box targets (select_ids (map um_id targets) False sel) = (False, False)"
    "um_id m \<notin> um_id ` set targets \<Longrightarrow> um_id m \<in> select_ids (map um_id targets) b sel \<longleftrightarrow> um_id m \<in> sel"
  using assms by (auto simp: select_all_box_def select_ids_set Let_def filter_empty_conv intro: image_eqI)

text \<open>After a bulk operation exactly the targets whose requests failed are selected.\<close>

lemma bulk_left:
  assumes "length results = length targets" "distinct (map um_id targets)" "i < length targets"
  shows "um_id (targets ! i) \<in> set (bulk_failed targets results) \<longleftrightarrow> isl (results ! i)"
proof -
  have "um_id (targets ! i) \<in> set (bulk_failed targets results)
      \<longleftrightarrow> (\<exists>j < length targets. isl (results ! j) \<and> um_id (targets ! j) = um_id (targets ! i))"
    using assms(1) by (auto simp: bulk_failed_def set_zip image_iff) metis
  moreover have "um_id (targets ! j) = um_id (targets ! i) \<longleftrightarrow> j = i" if "j < length targets" for j
    using that assms(2,3) nth_eq_iff_index_eq [of "map um_id targets" j i] by simp
  ultimately show ?thesis using assms(3) by auto
qed

section \<open>The page on the demo server\<close>

definition serve_bulk :: "fixtures \<Rightarrow> ctx \<Rightarrow> bulk_call \<Rightarrow> db \<Rightarrow> db" where
  "serve_bulk fx c call d = (case call of Bulk_update u \<Rightarrow> fst (serve fx c u d) | Bulk_remove r \<Rightarrow> fst (serve fx c r d))"

definition bulk_effect :: "bulk_action \<Rightarrow> uptime_monitor list \<Rightarrow> uptime_monitor list \<Rightarrow> uptime_monitor list" where
  "bulk_effect a chosen ms =
     (case a of
        Bulk_delete \<Rightarrow> filter (\<lambda>m. m \<notin> set chosen) ms
      | Bulk_pause \<Rightarrow> map (\<lambda>m. if m \<in> set chosen then m\<lparr>um_isActive := False\<rparr> else m) ms
      | Bulk_resume \<Rightarrow> map (\<lambda>m. if m \<in> set chosen then m\<lparr>um_isActive := True\<rparr> else m) ms)"

text \<open>A request that pauses or resumes keeps every setting of the monitor.\<close>

lemma assign_withActive: "assign_monitor (uptime_monitor_input_json (withActive m b)) m = m\<lparr>um_isActive := b\<rparr>"
  by (cases "um_type m"; cases "um_port m") (simp_all add: assign_monitor_def uptime_monitor_input_json_def withActive_def get_int_def get_bool_def)

lemma update_first_at:
  "distinct (map k xs) \<Longrightarrow> m \<in> set xs \<Longrightarrow> update_first (\<lambda>x. k x = k m) g xs = map (\<lambda>x. if x = m then g x else x) xs"
proof (induction xs)
  case (Cons y ys)
  show ?case
  proof (cases "y = m")
    case True
    then have "m \<notin> set ys" using Cons.prems(1) by auto
    then show ?thesis using True by (auto intro!: map_idI [symmetric])
  next
    case False
    then have "k y \<noteq> k m" using Cons.prems by (auto simp: image_iff)
    then show ?thesis using Cons False by simp
  qed
qed simp

lemma fold_update:
  assumes "distinct (map k xs)" "set ms \<subseteq> set xs" "distinct ms" "\<And>m. k (f m m) = k m"
  shows "fold (\<lambda>m. update_first (\<lambda>x. k x = k m) (f m)) ms xs = map (\<lambda>x. if x \<in> set ms then f x x else x) xs"
  using assms(1,2,3)
proof (induction ms arbitrary: xs)
  case (Cons m ms)
  let ?g = "\<lambda>x. if x = m then f m x else x"
  have up: "update_first (\<lambda>x. k x = k m) (f m) xs = map ?g xs"
    using Cons.prems(1,2) by (simp add: update_first_at)
  have keys: "map k (map ?g xs) = map k xs" using assms(4) by simp
  have sub: "set ms \<subseteq> set (map ?g xs)" using Cons.prems(2,3) by force
  have new: "f m m \<notin> set ms"
  proof
    assume "f m m \<in> set ms"
    moreover have "inj_on k (set xs)" using Cons.prems(1) by (simp add: distinct_map)
    ultimately have "f m m = m" using Cons.prems(2) assms(4) [of m] by (auto dest: inj_onD)
    with \<open>f m m \<in> set ms\<close> Cons.prems(3) show False by simp
  qed
  have "fold (\<lambda>m. update_first (\<lambda>x. k x = k m) (f m)) ms (map ?g xs)
      = map (\<lambda>x. if x \<in> set ms then f x x else x) (map ?g xs)"
    using Cons.IH [of "map ?g xs"] Cons.prems(1,3) sub by (simp only: keys distinct.simps)
  also have "\<dots> = map (\<lambda>x. if x \<in> set (m # ms) then f x x else x) xs" using new by auto
  finally show ?case by (simp only: fold_simps comp_def up)
qed simp

lemma fold_splice:
  "distinct (map k xs) \<Longrightarrow> fold (\<lambda>m. splice_first (\<lambda>x. k x = k m)) ms xs = filter (\<lambda>x. k x \<notin> k ` set ms) xs"
proof (induction ms arbitrary: xs)
  case (Cons m ms)
  have "distinct (map k (filter (\<lambda>x. k x \<noteq> k m) xs))" using Cons.prems by (simp add: distinct_map_filter)
  then show ?case using Cons by (simp add: splice_first_distinct conj_commute cong: filter_cong)
qed simp

lemma serve_bulk_monitors:
  assumes "is_segment (um_id m)"
  shows "db_monitors (serve_bulk fx c (bulk_run Bulk_delete m) d) = splice_first (\<lambda>x. um_id x = um_id m) (db_monitors d)"
    "db_monitors (serve_bulk fx c (bulk_run Bulk_pause m) d)
      = update_first (\<lambda>x. um_id x = um_id m) (assign_monitor (uptime_monitor_input_json (withActive m False))) (db_monitors d)"
    "db_monitors (serve_bulk fx c (bulk_run Bulk_resume m) d)
      = update_first (\<lambda>x. um_id x = um_id m) (assign_monitor (uptime_monitor_input_json (withActive m True))) (db_monitors d)"
  using assms by (simp_all add: serve_bulk_def bulk_run_def serve_rules delete_monitor_def update_monitor_def)

lemma db_monitors_fold:
  assumes "\<And>m d. m \<in> set ms \<Longrightarrow> db_monitors (g m d) = h m (db_monitors d)"
  shows "db_monitors (fold g ms d) = fold h ms (db_monitors d)"
  using assms by (induction ms arbitrary: d) simp_all

text \<open>C26: A bulk operation of the uptime page, run against the demo server, deletes, pauses or resumes exactly
  the selected monitors that are shown; hidden and unselected ones keep all their settings.\<close>

theorem bulk_exact:
  assumes "ids_ok d" "ul_monitors s = db_monitors d" "list_all (\<lambda>m. is_segment (um_id m)) (db_monitors d)"
  shows "db_monitors (fold (serve_bulk fx c) (snd (runBulk a s)) d) = bulk_effect a (page_selection s) (db_monitors d)
    \<and> list_all (\<lambda>m. monitor_matches (ul_params s) m \<and> um_id m \<in> ul_selected s) (page_selection s)"
proof
  let ?ms = "bulk_targets a (page_selection s)"
  have ids: "distinct (map um_id (db_monitors d))" using assms(1) by (simp add: ids_ok_def)
  then have dis: "distinct (db_monitors d)" by (simp add: distinct_map)
  have sub: "set ?ms \<subseteq> set (db_monitors d)" "distinct ?ms"
    using assms(2) dis by (auto simp: bulk_targets_def page_selection_def selectedMonitors_def filteredMonitors_def split: bulk_action.split)
  have seg: "is_segment (um_id m)" if "m \<in> set ?ms" for m using that sub(1) assms(3) by (auto simp: list_all_iff)
  have run: "db_monitors (fold (serve_bulk fx c) (snd (runBulk a s)) d) = db_monitors (fold (\<lambda>m. serve_bulk fx c (bulk_run a m)) ?ms d)"
    by (simp add: runBulk_def fold_map comp_def)
  have set_active: "fold (\<lambda>m. update_first (\<lambda>x. um_id x = um_id m) (assign_monitor (uptime_monitor_input_json (withActive m b)))) ?ms
      (db_monitors d) = map (\<lambda>x. if x \<in> set ?ms then x\<lparr>um_isActive := b\<rparr> else x) (db_monitors d)" for b
    by (subst fold_update [where f = "\<lambda>m. assign_monitor (uptime_monitor_input_json (withActive m b))", OF ids sub])
      (simp_all add: assign_withActive)
  show "db_monitors (fold (serve_bulk fx c) (snd (runBulk a s)) d) = bulk_effect a (page_selection s) (db_monitors d)"
  proof (cases a)
    case Bulk_delete
    have "db_monitors (fold (\<lambda>m. serve_bulk fx c (bulk_run a m)) ?ms d) = filter (\<lambda>x. um_id x \<notin> um_id ` set ?ms) (db_monitors d)"
      using seg Bulk_delete by (subst db_monitors_fold [where h = "\<lambda>m. splice_first (\<lambda>x. um_id x = um_id m)"])
        (simp_all add: serve_bulk_monitors fold_splice [OF ids])
    also have "\<dots> = filter (\<lambda>x. x \<notin> set ?ms) (db_monitors d)"
      using ids sub(1) by (intro filter_cong) (auto simp: distinct_map dest: inj_onD)
    finally show ?thesis unfolding run by (simp add: Bulk_delete bulk_effect_def bulk_targets_def)
  next
    case Bulk_pause
    have "db_monitors (fold (\<lambda>m. serve_bulk fx c (bulk_run a m)) ?ms d)
        = map (\<lambda>x. if x \<in> set ?ms then x\<lparr>um_isActive := False\<rparr> else x) (db_monitors d)"
      using seg set_active [of False] Bulk_pause by (subst db_monitors_fold) (simp_all add: serve_bulk_monitors)
    then show ?thesis unfolding run by (simp add: Bulk_pause bulk_effect_def bulk_targets_def)
  next
    case Bulk_resume
    have "db_monitors (fold (\<lambda>m. serve_bulk fx c (bulk_run a m)) ?ms d)
        = map (\<lambda>x. if x \<in> set ?ms then x\<lparr>um_isActive := True\<rparr> else x) (db_monitors d)"
      using seg set_active [of True] Bulk_resume by (subst db_monitors_fold) (simp_all add: serve_bulk_monitors)
    then show ?thesis unfolding run by (simp add: Bulk_resume bulk_effect_def bulk_targets_def)
  qed
qed (auto simp: list_all_iff page_selection_def selectedMonitors_def filteredMonitors_def)

lemma bulk_exact_witness:
  "db_monitors (fold (serve_bulk demo_fx demo_ctx) (snd (runBulk Bulk_delete
      (uptime_page_mounted []\<lparr>ul_monitors := db_monitors demo_db, ul_selected := {''uptime_mock_store''}\<rparr>))) demo_db)
    = bulk_effect Bulk_delete (page_selection
      (uptime_page_mounted []\<lparr>ul_monitors := db_monitors demo_db, ul_selected := {''uptime_mock_store''}\<rparr>)) (db_monitors demo_db)"
  by (rule conjunct1 [OF bulk_exact]) (simp_all add: uptime_page_mounted_def, simp add: demo_db_def demo_monitor_def is_segment_def)

text \<open>C27: Opened on a valid monitor and submitted unchanged, the monitor form is accepted, and what the
  monitor's page then sends leaves the monitor as it is on the demo server.\<close>

theorem edit_unchanged:
  assumes "monitor_ok valid_url m" "js_number (nt (rat_of_int (um_timeout m) / 1000)) = Some (rat_of_int (um_timeout m) / 1000)"
    "nt (rat_of_int (um_timeout m) / 1000) \<noteq> []"
  shows "\<exists>i. submit_draft valid_url (draft_of nt (Some m)) = Some i
    \<and> assign_monitor (uptime_monitor_input_json (updateMonitor_input m i)) m = m"
proof -
  have round: "math_round (rat_of_int n) = n" for n unfolding math_round_def by (rule floor_unique) simp_all
  have num: "0 \<le> n \<Longrightarrow> js_number (show_int n) = Some (of_int n)" "0 \<le> n \<Longrightarrow> show_int n \<noteq> []" for n
    by (simp_all add: js_number_show_int) (simp add: show_int_def)
  have v: "draft_valid valid_url (draft_of nt (Some m))"
    using assms by (auto simp: draft_valid_def draft_of_def monitor_ok_def number_input_def num)
  have "assign_monitor (uptime_monitor_input_json (updateMonitor_input m (draft_input (draft_of nt (Some m))))) m = m"
  proof (cases "um_type m")
    case M_http
    then show ?thesis using assms
      by (simp add: draft_input_def draft_of_def field_number_def monitor_ok_def num round updateMonitor_input_def
          assign_monitor_def uptime_monitor_input_json_def get_int_def get_bool_def)
  next
    case M_tcp
    then show ?thesis using assms
      by (auto simp: draft_input_def draft_of_def field_number_def monitor_ok_def num round updateMonitor_input_def
          assign_monitor_def uptime_monitor_input_json_def get_int_def get_bool_def)
  qed
  then show ?thesis using v by (simp add: submit_draft_def)
qed

definition demo_tcp :: uptime_monitor where
  "demo_tcp =
     demo_monitor\<lparr>um_name := ''db'', um_type := M_tcp, um_url := ''db.example.com'', um_port := Some 5432, um_timeout := 5000,
       um_interval := 30\<rparr>"

lemma edit_unchanged_witness:
  "\<exists>i. submit_draft (\<lambda>_. True) (draft_of (\<lambda>x. if x = 5 then ''5'' else ''1'') (Some demo_tcp)) = Some i
    \<and> assign_monitor (uptime_monitor_input_json (updateMonitor_input demo_tcp i)) demo_tcp = demo_tcp"
proof (rule edit_unchanged)
  show "monitor_ok (\<lambda>_. True) demo_tcp" by (code_simp, simp)
qed (simp_all add: demo_tcp_def, code_simp)

end
