(* ===== verification/EU_UptimeDetail.thy ===== *)
theory EU_UptimeDetail imports EU_UptimeList EU_Charts
begin

text \<open>
  The page of one uptime monitor: \<open>features/uptime/useUptimeMonitorDetail.ts\<close>,
  \<open>pages/uptime/UptimeMonitorDetailPage.tsx\<close> and the cards it draws, \<open>ResponseTimeCard.tsx\<close>,
  \<open>BucketedResponseTimeChart.tsx\<close> and \<open>UptimeOverview.tsx\<close>.  The hook runs one load at a time and
  keeps what a failed request would have replaced; the page writes only while no load is in flight.
  The server's monitor is part of the state, so that what the page shows can be compared with it.
\<close>

section \<open>The hook (useUptimeMonitorDetail)\<close>

record detail_errors =
  de_monitor :: "string option"
  de_metrics :: "string option"
  de_summary :: "string option"
  de_history :: "string option"
  de_incidents :: "string option"
  de_failures :: "string option"

record monitor_detail =
  dt_monitor :: "uptime_monitor option"
  dt_metrics :: "uptime_monitor_metric list option"
  dt_summary :: "uptime_monitor_summary option"
  dt_history :: "uptime_monitor_history option"
  dt_incidents :: "timeline_incident list option"
  dt_failures :: "uptime_monitor_metric list option"
  dt_errors :: detail_errors
  dt_notFound :: bool
  dt_loading :: bool
  dt_refreshing :: bool
  dt_pending :: bool

record detail_answers =
  da_monitor :: "thrown + uptime_monitor"
  da_metrics :: "thrown + uptime_monitor_metric list"
  da_summary :: "thrown + uptime_monitor_summary option"
  da_history :: "thrown + uptime_monitor_history"
  da_incidents :: "thrown + timeline_incident list"
  da_failures :: "thrown + uptime_monitor_metric list"

definition detail_initial :: monitor_detail where
  "detail_initial =
     \<lparr>dt_monitor = None, dt_metrics = None, dt_summary = None, dt_history = None, dt_incidents = None, dt_failures = None,
      dt_errors = \<lparr>de_monitor = None, de_metrics = None, de_summary = None, de_history = None, de_incidents = None,
        de_failures = None\<rparr>,
      dt_notFound = False, dt_loading = True, dt_refreshing = False, dt_pending = False\<rparr>"

text \<open>The six requests of a load, made together.\<close>

definition detail_calls :: "string \<Rightarrow> string list" where
  "detail_calls i =
     [ac_endpoint (getUptimeMonitor i), ac_endpoint (getUptimeMonitorMetrics i (Some 100)),
      ac_endpoint (getUptimeMonitorSummary i (Some ''30d'')), ac_endpoint (getUptimeMonitorHistory i (Some 90)),
      ac_endpoint (getUptimeMonitorIncidents i (Some 90) None), ac_endpoint (getUptimeMonitorFailures i (Some 90) None)]"

definition detail_load :: "monitor_detail \<Rightarrow> monitor_detail" where
  "detail_load s = (if dt_pending s then s else s\<lparr>dt_refreshing := True, dt_pending := True\<rparr>)"

definition not_found :: "thrown + 'a \<Rightarrow> bool" where
  "not_found r = (case r of Inl (ApiError m c st) \<Rightarrow> st = Some 404 | _ \<Rightarrow> False)"

definition kept :: "thrown + 'a \<Rightarrow> 'a option \<Rightarrow> 'a option" where
  "kept r current = (case r of Inr x \<Rightarrow> Some x | Inl _ \<Rightarrow> current)"

definition failure_text :: "thrown + 'a \<Rightarrow> string option" where
  "failure_text r = (case r of Inl e \<Rightarrow> Some (getErrorMessage e) | Inr _ \<Rightarrow> None)"

definition detail_settled :: "detail_answers \<Rightarrow> monitor_detail \<Rightarrow> monitor_detail" where
  "detail_settled a s =
     \<lparr>dt_monitor = (if not_found (da_monitor a) then None else kept (da_monitor a) (dt_monitor s)),
      dt_metrics = kept (da_metrics a) (dt_metrics s), dt_summary = (case da_summary a of Inr x \<Rightarrow> x | Inl _ \<Rightarrow> dt_summary s),
      dt_history = kept (da_history a) (dt_history s), dt_incidents = kept (da_incidents a) (dt_incidents s),
      dt_failures = kept (da_failures a) (dt_failures s),
      dt_errors = \<lparr>de_monitor = failure_text (da_monitor a), de_metrics = failure_text (da_metrics a),
        de_summary = failure_text (da_summary a), de_history = failure_text (da_history a),
        de_incidents = failure_text (da_incidents a), de_failures = failure_text (da_failures a)\<rparr>,
      dt_notFound = not_found (da_monitor a), dt_loading = False, dt_refreshing = False, dt_pending = False\<rparr>"

section \<open>The page's writes (UptimeMonitorDetail)\<close>

datatype detail_write = Write_settings uptime_monitor_input | Write_delete

text \<open>
  \<open>dp_write\<close> is the write in flight.  \<open>dp_server\<close> is the monitor as the server has it, which only
  this page changes, and \<open>dp_read\<close> what the pending load has read of it.
\<close>

record detail_page =
  dp_hook :: monitor_detail
  dp_editing :: bool
  dp_saving :: bool
  dp_deleting :: bool
  dp_processing :: bool
  dp_write :: "detail_write option"
  dp_toasts :: "string list"
  dp_left :: bool
  dp_server :: uptime_monitor
  dp_read :: "(thrown + uptime_monitor) option"

definition page_load :: "detail_page \<Rightarrow> detail_page" where
  "page_load s =
     s\<lparr>dp_hook := detail_load (dp_hook s), dp_read := (if dt_pending (dp_hook s) then dp_read s else None)\<rparr>"

definition page_mounted :: "uptime_monitor \<Rightarrow> detail_page" where
  "page_mounted m =
     page_load \<lparr>dp_hook = detail_initial, dp_editing = False, dp_saving = False, dp_deleting = False, dp_processing = False,
       dp_write = None, dp_toasts = [], dp_left = False, dp_server = m, dp_read = None\<rparr>"

definition actionsDisabled :: "detail_page \<Rightarrow> bool" where
  "actionsDisabled s \<longleftrightarrow>
     dp_processing s \<or> dt_refreshing (dp_hook s) \<or> truthy (de_monitor (dt_errors (dp_hook s)))"

text \<open>The two dialogs are modal: while one is open, nothing behind it can be clicked.\<close>

definition page_clickable :: "detail_page \<Rightarrow> bool" where
  "page_clickable s \<longleftrightarrow> \<not> dp_editing s \<and> \<not> dp_deleting s \<and> \<not> dp_left s"

definition open_edit :: "detail_page \<Rightarrow> detail_page" where
  "open_edit s = s\<lparr>dp_editing := True\<rparr>"

definition close_edit :: "detail_page \<Rightarrow> detail_page" where
  "close_edit s = (if dp_saving s then s else s\<lparr>dp_editing := False\<rparr>)"

definition updateMonitor :: "uptime_monitor_input \<Rightarrow> detail_page \<Rightarrow> detail_page" where
  "updateMonitor i s =
     (case dt_monitor (dp_hook s) of
        None \<Rightarrow> s\<lparr>dp_editing := False\<rparr>
      | Some m \<Rightarrow> s\<lparr>dp_saving := True, dp_write := Some (Write_settings (updateMonitor_input m i))\<rparr>)"

definition toggleActive :: "detail_page \<Rightarrow> detail_page" where
  "toggleActive s =
     (case dt_monitor (dp_hook s) of
        None \<Rightarrow> s
      | Some m \<Rightarrow>
          if actionsDisabled s then s
          else s\<lparr>dp_processing := True, dp_write := Some (Write_settings (withActive m (\<not> um_isActive m)))\<rparr>)"

definition open_delete :: "detail_page \<Rightarrow> detail_page" where
  "open_delete s = s\<lparr>dp_deleting := True\<rparr>"

definition close_delete :: "detail_page \<Rightarrow> detail_page" where
  "close_delete s = (if dp_processing s then s else s\<lparr>dp_deleting := False\<rparr>)"

definition deleteMonitor :: "detail_page \<Rightarrow> detail_page" where
  "deleteMonitor s =
     (if dt_monitor (dp_hook s) = None \<or> actionsDisabled s then s
      else s\<lparr>dp_processing := True, dp_write := Some Write_delete\<rparr>)"

text \<open>The answer to a write: settings are written and loaded again, a deletion leaves the page.\<close>

definition write_done :: "detail_page \<Rightarrow> detail_page" where
  "write_done s =
     (let s' = s\<lparr>dp_write := None\<rparr> in
      case dp_write s of
        Some (Write_settings i) \<Rightarrow> page_load (s'\<lparr>dp_server := assign_monitor (uptime_monitor_input_json i) (dp_server s)\<rparr>)
      | Some Write_delete \<Rightarrow> s'\<lparr>dp_left := True, dp_processing := False\<rparr>
      | None \<Rightarrow> s)"

definition write_failed :: "thrown \<Rightarrow> detail_page \<Rightarrow> detail_page" where
  "write_failed e s =
     s\<lparr>dp_write := None, dp_saving := False, dp_processing := False, dp_toasts := dp_toasts s @ [getErrorMessage e]\<rparr>"

text \<open>When a load settles, a save or a toggle that waited for it ends, and the form closes after a save.\<close>

definition load_settled :: "detail_answers \<Rightarrow> detail_page \<Rightarrow> detail_page" where
  "load_settled a s =
     s\<lparr>dp_hook := detail_settled a (dp_hook s), dp_read := None,
       dp_editing := (if dp_saving s then False else dp_editing s), dp_saving := False, dp_processing := False\<rparr>"

inductive detail_step :: "detail_page \<Rightarrow> detail_page \<Rightarrow> bool" where
  refresh: "page_clickable s \<Longrightarrow> \<not> dp_processing s \<Longrightarrow> detail_step s (page_load s)"
| read: "dt_pending (dp_hook s) \<Longrightarrow> dp_read s = None \<Longrightarrow> r = Inr (dp_server s) \<or> isl r \<Longrightarrow> detail_step s (s\<lparr>dp_read := Some r\<rparr>)"
| settled: "dp_read s = Some (da_monitor a) \<Longrightarrow> detail_step s (load_settled a s)"
| edit: "page_clickable s \<Longrightarrow> dt_monitor (dp_hook s) \<noteq> None \<Longrightarrow> \<not> actionsDisabled s \<Longrightarrow> detail_step s (open_edit s)"
| close: "dp_editing s \<Longrightarrow> detail_step s (close_edit s)"
| submit: "dp_editing s \<Longrightarrow> \<not> dp_saving s \<Longrightarrow> detail_step s (updateMonitor i s)"
| toggle: "page_clickable s \<Longrightarrow> detail_step s (toggleActive s)"
| ask: "page_clickable s \<Longrightarrow> dt_monitor (dp_hook s) \<noteq> None \<Longrightarrow> \<not> actionsDisabled s \<Longrightarrow> detail_step s (open_delete s)"
| cancel: "dp_deleting s \<Longrightarrow> detail_step s (close_delete s)"
| delete: "dp_deleting s \<Longrightarrow> detail_step s (deleteMonitor s)"
| written: "dp_write s \<noteq> None \<Longrightarrow> detail_step s (write_done s)"
| refused: "dp_write s \<noteq> None \<Longrightarrow> detail_step s (write_failed e s)"

text \<open>
  What holds throughout: a load is in flight exactly while the page refreshes; a write is in flight or
  a dialog open only when no load is, unless the load is the one after the write; and the page is up
  to date whenever nothing is in flight and the monitor could be read.
\<close>

definition quiet :: "detail_page \<Rightarrow> bool" where
  "quiet s \<longleftrightarrow> \<not> dt_pending (dp_hook s) \<and> \<not> dt_loading (dp_hook s) \<and> de_monitor (dt_errors (dp_hook s)) = None"

definition detail_ok :: "detail_page \<Rightarrow> bool" where
  "detail_ok s \<longleftrightarrow>
     dt_refreshing (dp_hook s) = dt_pending (dp_hook s)
     \<and> (if dt_pending (dp_hook s) then dp_write s = None \<and> \<not> dp_deleting s \<and> dp_editing s = dp_saving s
        else dp_read s = None \<and> (dp_saving s \<or> dp_processing s) = (dp_write s \<noteq> None))
     \<and> (if dp_saving s then dp_editing s \<and> dp_write s \<noteq> Some Write_delete else True)
     \<and> (if dp_editing s then \<not> dp_processing s \<and> \<not> dp_deleting s else True)
     \<and> (if dp_deleting s then dp_write s = None \<or> dp_write s = Some Write_delete else True)
     \<and> (case dp_read s of Some (Inr m) \<Rightarrow> m = dp_server s | _ \<Rightarrow> True)
     \<and> (if quiet s then dt_monitor (dp_hook s) = Some (dp_server s) else True)"

lemma load_sel [simp]:
  "dt_pending (detail_load h)" "dt_loading (detail_load h) = dt_loading h"
  "dt_refreshing (detail_load h) = (if dt_pending h then dt_refreshing h else True)"
  "dt_errors (detail_load h) = dt_errors h" "dt_monitor (detail_load h) = dt_monitor h"
  by (simp_all add: detail_load_def)

lemma settled_sel [simp]:
  "\<not> dt_pending (detail_settled a h)" "\<not> dt_loading (detail_settled a h)" "\<not> dt_refreshing (detail_settled a h)"
  "de_monitor (dt_errors (detail_settled a h)) = failure_text (da_monitor a)"
  "da_monitor a = Inr m \<Longrightarrow> dt_monitor (detail_settled a h) = Some m"
  by (simp_all add: detail_settled_def not_found_def kept_def)

lemma failure_text_None [simp]: "failure_text r = None \<longleftrightarrow> \<not> isl r"
  by (cases r) (simp_all add: failure_text_def)

lemma detail_ok_mounted: "detail_ok (page_mounted m)"
  by (simp add: detail_ok_def page_mounted_def page_load_def quiet_def detail_initial_def detail_load_def)

lemma detail_ok_step: "detail_step s s' \<Longrightarrow> detail_ok s \<Longrightarrow> detail_ok s'"
proof (induction rule: detail_step.induct)
  case (refresh s)
  then show ?case by (auto simp: detail_ok_def page_load_def quiet_def page_clickable_def split: if_splits option.split sum.split)
next
  case (read s r)
  then show ?case by (cases r) (auto simp: detail_ok_def quiet_def)
next
  case (settled s a)
  then show ?case
    by (cases "da_monitor a") (auto simp: detail_ok_def load_settled_def quiet_def split: if_splits)
next
  case (edit s)
  then show ?case by (auto simp: detail_ok_def open_edit_def quiet_def actionsDisabled_def page_clickable_def split: if_splits)
next
  case (close s)
  then show ?case by (auto simp: detail_ok_def close_edit_def quiet_def split: if_splits)
next
  case (submit s i)
  then show ?case by (auto simp: detail_ok_def updateMonitor_def quiet_def split: if_splits option.splits)
next
  case (toggle s)
  then show ?case by (auto simp: detail_ok_def toggleActive_def quiet_def actionsDisabled_def page_clickable_def split: if_splits option.splits)
next
  case (ask s)
  then show ?case by (auto simp: detail_ok_def open_delete_def quiet_def actionsDisabled_def page_clickable_def split: if_splits)
next
  case (cancel s)
  then show ?case by (auto simp: detail_ok_def close_delete_def quiet_def split: if_splits)
next
  case (delete s)
  then show ?case by (auto simp: detail_ok_def deleteMonitor_def quiet_def actionsDisabled_def split: if_splits)
next
  case (written s)
  then obtain w where w: "dp_write s = Some w" by auto
  then show ?case using written
    by (cases w) (auto simp: detail_ok_def write_done_def page_load_def quiet_def Let_def split: if_splits)
next
  case (refused s e)
  then show ?case by (auto simp: detail_ok_def write_failed_def quiet_def split: if_splits)
qed

lemma detail_ok_reach: "detail_step\<^sup>*\<^sup>* (page_mounted m) s \<Longrightarrow> detail_ok s"
  by (induction rule: rtranclp_induct) (auto intro: detail_ok_mounted detail_ok_step)

text \<open>C28: The page of a monitor never starts a write while it loads, and after every write it loads again:
  once nothing is in flight and the monitor could be read, it shows the monitor the server has, and so
  a toggle sends the server's own settings with only the activity changed.\<close>

theorem detail_current:
  assumes "detail_step\<^sup>*\<^sup>* (page_mounted m) s" "quiet s"
  shows "dt_monitor (dp_hook s) = Some (dp_server s) \<and> dp_read s = None
    \<and> (dp_write s = None \<longrightarrow> \<not> dp_saving s \<and> \<not> dp_processing s)
    \<and> (page_clickable s \<and> \<not> dp_processing s \<longrightarrow>
        dp_server (write_done (toggleActive s)) = (dp_server s)\<lparr>um_isActive := \<not> um_isActive (dp_server s)\<rparr>
        \<and> dt_pending (dp_hook (write_done (toggleActive s))))"
proof -
  have ok: "detail_ok s" by (rule detail_ok_reach [OF assms(1)])
  then have cur: "dt_monitor (dp_hook s) = Some (dp_server s)" and np: "\<not> dt_pending (dp_hook s)"
    using assms(2) by (simp_all add: detail_ok_def quiet_def)
  have "dp_server (write_done (toggleActive s)) = (dp_server s)\<lparr>um_isActive := \<not> um_isActive (dp_server s)\<rparr>
      \<and> dt_pending (dp_hook (write_done (toggleActive s)))" if "\<not> dp_processing s"
  proof -
    have "\<not> actionsDisabled s" using that ok np assms(2) by (simp add: actionsDisabled_def detail_ok_def quiet_def)
    then show ?thesis using cur
      by (simp add: toggleActive_def write_done_def page_load_def assign_withActive Let_def)
  qed
  then show ?thesis using ok cur np by (auto simp: detail_ok_def split: if_splits)
qed

text \<open>A failed request leaves what was loaded before, and its message; a missing monitor is not kept.\<close>

lemma settled_keeps:
  "da_metrics a = Inl e \<Longrightarrow> dt_metrics (detail_settled a h) = dt_metrics h"
  "da_history a = Inl e \<Longrightarrow> dt_history (detail_settled a h) = dt_history h"
  "da_monitor a = Inl e \<Longrightarrow> dt_monitor (detail_settled a h)
    = (if not_found (da_monitor a) then None else dt_monitor h)"
  by (simp_all add: detail_settled_def kept_def)

definition some_answers :: "uptime_monitor \<Rightarrow> detail_answers" where
  "some_answers m =
     \<lparr>da_monitor = Inr m, da_metrics = Inr [], da_summary = Inr None, da_history = Inl ThrownValue, da_incidents = Inr [],
      da_failures = Inl ThrownValue\<rparr>"

lemma detail_current_witness:
  "dt_monitor (dp_hook (load_settled (some_answers demo_tcp) (page_mounted demo_tcp\<lparr>dp_read := Some (Inr demo_tcp)\<rparr>)))
    = Some demo_tcp"
proof -
  let ?s1 = "page_mounted demo_tcp\<lparr>dp_read := Some (Inr demo_tcp)\<rparr>"
  let ?s2 = "load_settled (some_answers demo_tcp) ?s1"
  have m: "dt_pending (dp_hook (page_mounted demo_tcp))" "dp_read (page_mounted demo_tcp) = None"
    "dp_server (page_mounted demo_tcp) = demo_tcp"
    by (simp_all add: page_mounted_def page_load_def detail_initial_def)
  have "detail_step (page_mounted demo_tcp) ?s1" by (rule detail_step.read) (simp_all add: m)
  moreover have "detail_step ?s1 ?s2" by (rule detail_step.settled) (simp add: some_answers_def)
  ultimately have "detail_step\<^sup>*\<^sup>* (page_mounted demo_tcp) ?s2"
    by (meson rtranclp.rtrancl_refl rtranclp.rtrancl_into_rtrancl)
  from detail_current [OF this] show ?thesis
    by (simp add: quiet_def load_settled_def some_answers_def m)
qed

section \<open>What the page draws\<close>

datatype slot_state = Slot_up | Slot_partial | Slot_down

record 't response_slot =
  sl_t :: 't
  sl_latency :: "rat option"
  sl_state :: slot_state
  sl_detail :: string

definition join_present :: "string list \<Rightarrow> string" where
  "join_present xs = join_with '', '' (filter (\<lambda>x. x \<noteq> []) xs)"

definition http_code :: "int option \<Rightarrow> string" where
  "http_code c = (case c of Some n \<Rightarrow> if n \<noteq> 0 then ''HTTP '' @ show_int n else [] | None \<Rightarrow> [])"

text \<open>A failed check has no latency: its time is how long it waited.  An unreadable time is \<open>None\<close>.\<close>

definition recent_slots :: "uptime_monitor_metric list \<Rightarrow> int option response_slot list" where
  "recent_slots metrics = map (\<lambda>m.
     let ok = (umm_status m = Check_success); code = http_code (umm_statusCode m);
         detail = join_present [if code \<noteq> [] then code else if ok then ([CHR 0xEC, CHR 0xA0, CHR 0x95, CHR 0xEC, CHR 0x83, CHR 0x81] @ '' '' @ [CHR 0xEC, CHR 0x9D, CHR 0x91, CHR 0xEB, CHR 0x8B, CHR 0xB5]) else [],
                                if ok then [] else or_default (umm_errorMessage m) []] in
     \<lparr>sl_t = date_parse (umm_checkedAt m), sl_latency = (if ok then Some (umm_responseTime m) else None),
      sl_state = (if ok then Slot_up else Slot_down), sl_detail = (if detail \<noteq> [] then detail else ([CHR 0xEC, CHR 0xB2, CHR 0xB4, CHR 0xED, CHR 0x81, CHR 0xAC] @ '' '' @ [CHR 0xEC, CHR 0x8B, CHR 0xA4, CHR 0xED, CHR 0x8C, CHR 0xA8]))\<rparr>) (rev metrics)"

definition failed_slots :: "'t response_slot list \<Rightarrow> nat" where
  "failed_slots slots = length (filter (\<lambda>s. sl_latency s = None) slots)"

definition recent_caption :: "int response_slot list \<Rightarrow> string" where
  "recent_caption slots =
     (let hours = (if length slots > 1 then math_round (rat_of_int (sl_t (last slots) - sl_t (hd slots)) / 3600000) else 0) in
      join_present [([CHR 0xEC, CHR 0xB2, CHR 0xB4, CHR 0xED, CHR 0x81, CHR 0xAC] @ '' '') @ show_nat (length slots) @ [CHR 0xED, CHR 0x9A, CHR 0x8C], if hours > 0 then ([CHR 0xEC, CHR 0xB5, CHR 0x9C, CHR 0xEA, CHR 0xB7, CHR 0xBC] @ '' '') @ show_int hours @ [CHR 0xEC, CHR 0x8B, CHR 0x9C, CHR 0xEA, CHR 0xB0, CHR 0x84] else [], ''ms''])"

datatype history_kind = HK_outage | HK_failure

record history_row =
  hr_key :: string
  hr_at :: string
  hr_kind :: history_kind
  hr_active :: bool
  hr_durationSec :: "int option"
  hr_message :: string

definition outage_row :: "timeline_incident \<Rightarrow> history_row" where
  "outage_row i =
     \<lparr>hr_key = ''outage-'' @ ti_startedAt i, hr_at = ti_startedAt i, hr_kind = HK_outage, hr_active = ti_active i,
      hr_durationSec = Some (ti_durationSec i), hr_message = or_default (ti_message i) []\<rparr>"

definition failure_row :: "uptime_monitor_metric \<Rightarrow> history_row" where
  "failure_row f =
     \<lparr>hr_key = ''failure-'' @ show_int (umm_id f), hr_at = umm_checkedAt f, hr_kind = HK_failure, hr_active = False,
      hr_durationSec = None, hr_message = join_present [http_code (umm_statusCode f), or_default (umm_errorMessage f) []]\<rparr>"

text \<open>A difference with an unreadable time is \<open>NaN\<close>, which a sort takes for a tie.\<close>

definition later_first :: "history_row \<Rightarrow> history_row \<Rightarrow> bool" where
  "later_first a b \<longleftrightarrow> (case (date_parse (hr_at a), date_parse (hr_at b)) of (Some x, Some y) \<Rightarrow> y \<le> x | _ \<Rightarrow> True)"

definition historyRows :: "timeline_incident list \<Rightarrow> uptime_monitor_metric list \<Rightarrow> history_row list" where
  "historyRows incidents failures = sort_by later_first (map outage_row incidents @ map failure_row failures)"

definition ROW_LIGHT :: "history_row \<Rightarrow> status_tone \<times> string" where
  "ROW_LIGHT r =
     (if hr_kind r = HK_failure then (T_warn, [CHR 0xEC, CHR 0x8B, CHR 0xA4, CHR 0xED, CHR 0x8C, CHR 0xA8])
      else if hr_active r then (T_error, ([CHR 0xEC, CHR 0x9E, CHR 0xA5, CHR 0xEC, CHR 0x95, CHR 0xA0] @ '' '' @ [CHR 0xEC, CHR 0xA7, CHR 0x84, CHR 0xED, CHR 0x96, CHR 0x89] @ '' '' @ [CHR 0xEC, CHR 0xA4, CHR 0x91])) else (T_healthy, ([CHR 0xEC, CHR 0x9E, CHR 0xA5, CHR 0xEC, CHR 0x95, CHR 0xA0] @ '' '' @ [CHR 0xEB, CHR 0xB3, CHR 0xB5, CHR 0xEA, CHR 0xB5, CHR 0xAC])))"

definition HISTORY_ROWS :: nat where "HISTORY_ROWS = 10"

text \<open>\<open>day\<close> is the local date of an instant.\<close>

definition history_visible :: "(string \<Rightarrow> string) \<Rightarrow> history_kind option \<Rightarrow> string option \<Rightarrow> history_row list \<Rightarrow> history_row list" where
  "history_visible day flt selectedDate rows =
     filter (\<lambda>r. (flt = None \<or> flt = Some (hr_kind r)) \<and> (\<not> truthy selectedDate \<or> Some (day (hr_at r)) = selectedDate)) rows"

definition history_shown :: "bool \<Rightarrow> history_row list \<Rightarrow> history_row list \<times> nat" where
  "history_shown expanded visible = (if expanded then visible else take HISTORY_ROWS visible, length visible - HISTORY_ROWS)"

definition CERT_WARN_DAYS :: int where "CERT_WARN_DAYS = 14"

definition daysUntil :: "int \<Rightarrow> string \<Rightarrow> int option" where
  "daysUntil now v = map_option (\<lambda>t. \<lceil>rat_of_int (t - now) / 86400000\<rceil>) (date_parse v)"

definition certStat :: "int \<Rightarrow> string \<Rightarrow> string \<times> status_tone option" where
  "certStat now v =
     (case daysUntil now v of
        None \<Rightarrow> (''D-NaN'', None)
      | Some days \<Rightarrow>
          (if days < 0 then [CHR 0xEB, CHR 0xA7, CHR 0x8C, CHR 0xEB, CHR 0xA3, CHR 0x8C, CHR 0xEB, CHR 0x90, CHR 0xA8] else ''D-'' @ show_int days,
           if days < 0 then Some T_error else if days \<le> CERT_WARN_DAYS then Some T_warn else None))"

definition failedSources :: "detail_errors \<Rightarrow> string list" where
  "failedSources e = filter (\<lambda>x. x \<noteq> [])
     [if truthy (de_monitor e) then [CHR 0xEB, CHR 0xAA, CHR 0xA8, CHR 0xEB, CHR 0x8B, CHR 0x88, CHR 0xED, CHR 0x84, CHR 0xB0] else [], if truthy (de_metrics e) then ([CHR 0xEC, CHR 0xB5, CHR 0x9C, CHR 0xEA, CHR 0xB7, CHR 0xBC] @ '' '' @ [CHR 0xEC, CHR 0xB2, CHR 0xB4, CHR 0xED, CHR 0x81, CHR 0xAC]) else [],
      if truthy (de_summary e) then (''30'' @ [CHR 0xEC, CHR 0x9D, CHR 0xBC] @ '' '' @ [CHR 0xEC, CHR 0x9A, CHR 0x94, CHR 0xEC, CHR 0x95, CHR 0xBD]) else [], if truthy (de_history e) then (''90'' @ [CHR 0xEC, CHR 0x9D, CHR 0xBC] @ '' '' @ [CHR 0xEC, CHR 0x9D, CHR 0xB4, CHR 0xEB, CHR 0xA0, CHR 0xA5]) else [],
      if truthy (de_incidents e) \<or> truthy (de_failures e) then ([CHR 0xEC, CHR 0x9E, CHR 0xA5, CHR 0xEC, CHR 0x95, CHR 0xA0] @ '' '' @ [CHR 0xEC, CHR 0x9D, CHR 0xB4, CHR 0xEB, CHR 0xA0, CHR 0xA5]) else []]"

lemma later_first_sorted:
  assumes "list_all (\<lambda>r. date_parse (hr_at r) \<noteq> None) rows"
  shows "sorted_wrt (\<lambda>a b. the (date_parse (hr_at b)) \<le> the (date_parse (hr_at a))) (sort_by later_first rows)"
proof -
  have "sort_by later_first rows = sort_by (by_key_desc (\<lambda>r. the (date_parse (hr_at r)))) rows"
    using assms
  proof (induction rows)
    case (Cons r rows)
    have "insert_by later_first r xs = insert_by (by_key_desc (\<lambda>r. the (date_parse (hr_at r)))) r xs"
      if "list_all (\<lambda>r. date_parse (hr_at r) \<noteq> None) xs" for xs
      using that Cons.prems by (induction xs) (auto simp: later_first_def by_key_desc_def)
    moreover have "list_all (\<lambda>r. date_parse (hr_at r) \<noteq> None) (sort_by later_first rows)"
      using Cons.prems by (simp add: list_all_iff)
    ultimately show ?case using Cons by simp
  qed simp
  then show ?thesis using desc.sorted_sort [of "\<lambda>r. the (date_parse (hr_at r))" rows]
    by (simp add: by_key_desc_def [abs_def])
qed

text \<open>The history lists every outage and every failed check once, the latest first.\<close>

lemma historyRows_complete:
  assumes "list_all (\<lambda>i. date_parse (ti_startedAt i) \<noteq> None) incidents" "list_all (\<lambda>f. date_parse (umm_checkedAt f) \<noteq> None) failures"
  shows "mset (historyRows incidents failures) = mset (map outage_row incidents) + mset (map failure_row failures)"
    "sorted_wrt (\<lambda>a b. the (date_parse (hr_at b)) \<le> the (date_parse (hr_at a))) (historyRows incidents failures)"
proof -
  show "mset (historyRows incidents failures) = mset (map outage_row incidents) + mset (map failure_row failures)"
    by (simp add: historyRows_def del: mset_map)
  show "sorted_wrt (\<lambda>a b. the (date_parse (hr_at b)) \<le> the (date_parse (hr_at a))) (historyRows incidents failures)"
    unfolding historyRows_def by (rule later_first_sorted) (use assms in \<open>auto simp: list_all_iff outage_row_def failure_row_def\<close>)
qed

section \<open>The response time card (ResponseTimeCard)\<close>

definition median_step :: "int list \<Rightarrow> int option" where
  "median_step ts =
     (let steps = sort_by (by_key (\<lambda>x. x)) (map2 (\<lambda>t prev. t - prev) (drop 1 ts) ts)
      in if length steps > 0 then Some (steps ! (length steps div 2)) else None)"

definition card_step :: "int response_slot list \<Rightarrow> int" where
  "card_step slots = or_default (median_step (map sl_t slots)) 3600000"

definition card_window :: "(int \<times> int) option \<Rightarrow> int response_slot list \<Rightarrow> rat \<times> rat" where
  "card_window window slots =
     (case window of
        Some (a, b) \<Rightarrow> (of_int a, of_int b)
      | None \<Rightarrow>
          if slots = [] then (0, 1)
          else (of_int (sl_t (hd slots)) - of_int (card_step slots) / 2, of_int (sl_t (last slots)) + of_int (card_step slots) / 2))"

definition card_span :: "rat \<times> rat \<Rightarrow> rat" where
  "card_span w = max (snd w - fst w) 1"

definition card_pct :: "rat \<times> rat \<Rightarrow> rat \<Rightarrow> rat" where
  "card_pct w t = (t - fst w) / card_span w * 100"

definition slotWidth :: "(int \<times> int) option \<Rightarrow> int response_slot list \<Rightarrow> rat" where
  "slotWidth window slots = min 100 (of_int (card_step slots) / card_span (card_window window slots) * 100)"

definition card_latencies :: "'t response_slot list \<Rightarrow> rat list" where
  "card_latencies = List.map_filter sl_latency"

definition card_ticks :: "'t response_slot list \<Rightarrow> rat list \<Rightarrow> rat list" where
  "card_ticks slots thresholds = niceTicks (fold max (card_latencies slots @ thresholds) 0) 4"

definition card_top :: "'t response_slot list \<Rightarrow> rat list \<Rightarrow> rat" where
  "card_top slots thresholds = last (card_ticks slots thresholds)"

text \<open>The height of a bar: a percentage of the plot, or a stub of six pixels.\<close>

datatype bar_height = Stub | Percent rat

definition card_bar :: "'t response_slot list \<Rightarrow> rat list \<Rightarrow> 't response_slot \<Rightarrow> bar_height" where
  "card_bar slots thresholds s =
     (case sl_latency s of None \<Rightarrow> Stub | Some v \<Rightarrow> Percent (v / card_top slots thresholds * 100))"

definition card_focus :: "string \<Rightarrow> nat \<Rightarrow> nat option \<Rightarrow> nat option" where
  "card_focus key n hovered =
     (let lst = int n - 1; current = (case hovered of Some h \<Rightarrow> int h | None \<Rightarrow> lst);
          nxt = (if key = ''ArrowLeft'' then Some (current - 1) else if key = ''ArrowRight'' then Some (current + 1)
                 else if key = ''Home'' then Some 0 else if key = ''End'' then Some lst else None) in
      case nxt of None \<Rightarrow> hovered | Some x \<Rightarrow> Some (nat (max 0 (min lst x))))"

text \<open>The line below the chart: the mean and the largest latency in whole milliseconds.\<close>

definition card_summary :: "'t response_slot list \<Rightarrow> (int \<times> int) option" where
  "card_summary slots =
     (let ls = card_latencies slots in
      case ls of [] \<Rightarrow> None
      | l # rest \<Rightarrow> Some (math_round (sum_list ls / of_nat (length ls)), math_round (fold max rest l)))"

lemma fold_max_rat: "(m :: rat) \<le> fold max xs m" "x \<in> set xs \<Longrightarrow> x \<le> fold max xs m"
proof -
  have f: "fold max xs m = Max (insert m (set xs))" by (simp add: Max.set_eq_fold [symmetric])
  show "m \<le> fold max xs m" "x \<in> set xs \<Longrightarrow> x \<le> fold max xs m" by (simp_all add: f)
qed

lemma clamped: "0 < n \<Longrightarrow> nat (max 0 (min (int n - 1) x)) < n"
  by linarith

lemma card_focus_in:
  assumes "0 < n" "pred_option (\<lambda>h. h < n) hovered"
  shows "pred_option (\<lambda>h. h < n) (card_focus key n hovered)"
proof -
  have "\<exists>r. card_focus key n hovered = (case r of None \<Rightarrow> hovered | Some x \<Rightarrow> Some (nat (max 0 (min (int n - 1) x))))"
    unfolding card_focus_def Let_def by blast
  then obtain r where r: "card_focus key n hovered = (case r of None \<Rightarrow> hovered | Some x \<Rightarrow> Some (nat (max 0 (min (int n - 1) x))))" ..
  show ?thesis unfolding r using clamped [OF assms(1)] assms(2) by (cases r) simp_all
qed

text \<open>Without a window of its own the card shows every slot, and no bar is taller than the axis but for
  the tolerance of its ticks.\<close>

lemma card_step_nonneg:
  assumes "sorted (map sl_t slots)"
  shows "0 \<le> card_step slots"
proof -
  let ?ts = "map sl_t slots"
  have diffs: "0 \<le> x" if "x \<in> set (map2 (\<lambda>t prev. t - prev) (drop 1 ?ts) ?ts)" for x
  proof -
    let ?ds = "map2 (\<lambda>t prev. t - prev) (drop 1 ?ts) ?ts"
    from iffD1 [OF in_set_conv_nth that] obtain i where "i < length ?ds \<and> ?ds ! i = x" ..
    then have "x = ?ts ! Suc i - ?ts ! i" "Suc i < length ?ts" by auto
    then show ?thesis using sorted_nth_mono [OF assms, of i "Suc i"] by simp
  qed
  then have "0 \<le> y" if "median_step ?ts = Some y" for y
    using that nth_mem [of "length (sort_by (by_key (\<lambda>x. x)) (map2 (\<lambda>t prev. t - prev) (drop 1 ?ts) ?ts)) div 2"
        "sort_by (by_key (\<lambda>x. x)) (map2 (\<lambda>t prev. t - prev) (drop 1 ?ts) ?ts)"]
    by (auto simp: median_step_def Let_def split: if_splits)
  then show ?thesis by (cases "median_step ?ts") (simp_all add: card_step_def)
qed

lemma card_slots_inside:
  assumes "sorted (map sl_t slots)" "s \<in> set slots"
  shows "0 \<le> card_pct (card_window None slots) (of_int (sl_t s))" "card_pct (card_window None slots) (of_int (sl_t s)) \<le> 100"
proof -
  let ?w = "card_window None slots" and ?t = "rat_of_int (sl_t s)"
  obtain i where i: "i < length slots" "s = slots ! i" using assms(2) by (auto simp: in_set_conv_nth)
  have ne: "slots \<noteq> []" using assms(2) by auto
  have h: "hd slots = slots ! 0" "last slots = slots ! (length slots - 1)"
    using ne by (simp_all add: hd_conv_nth last_conv_nth)
  have "sl_t (hd slots) \<le> sl_t s" "sl_t s \<le> sl_t (last slots)"
    using i h ne sorted_nth_mono [OF assms(1), of 0 i] sorted_nth_mono [OF assms(1), of i "length slots - 1"] by simp_all
  then have b: "fst ?w \<le> ?t" "?t \<le> snd ?w"
    using card_step_nonneg [OF assms(1)] assms(2) by (auto simp: card_window_def intro: order_trans [of _ "rat_of_int _"])
  have sp: "0 < card_span ?w" "snd ?w - fst ?w \<le> card_span ?w" by (simp_all add: card_span_def)
  show "0 \<le> card_pct ?w ?t" using b sp by (simp add: card_pct_def)
  have "?t - fst ?w \<le> card_span ?w" using b sp by linarith
  then show "card_pct ?w ?t \<le> 100" using sp by (simp add: card_pct_def divide_le_eq)
qed

lemma card_bars_fit:
  assumes "s \<in> set slots" "sl_latency s = Some v" "mx = fold max (card_latencies slots @ thresholds) 0"
  shows "v \<le> card_top slots thresholds + nice_step mx 4 / 10 ^ 9 \<or> v \<le> 0"
proof -
  have "v \<in> set (card_latencies slots @ thresholds)" using assms(1,2) by (force simp: card_latencies_def map_filter_def)
  then have le: "v \<le> mx" unfolding assms(3) by (rule fold_max_rat)
  show ?thesis
  proof (cases "0 < mx")
    case True
    then show ?thesis using le niceTicks_spec(3) [of mx 4] by (simp only: card_top_def card_ticks_def assms(3) [symmetric]) simp
  qed (use le in simp)
qed

section \<open>Buckets (BucketedResponseTimeChart)\<close>

record bucket_chart =
  bc_points :: "service_history_point list"
  bc_loadedAt :: int
  bc_loading :: bool
  bc_error :: bool
  bc_run :: nat
  bc_pending :: "nat list"

definition bucket_start :: "bucket_chart \<Rightarrow> bucket_chart" where
  "bucket_start s = s\<lparr>bc_run := Suc (bc_run s), bc_pending := bc_pending s @ [Suc (bc_run s)]\<rparr>"

definition bucket_mounted :: bucket_chart where
  "bucket_mounted =
     bucket_start \<lparr>bc_points = [], bc_loadedAt = 0, bc_loading = True, bc_error = False, bc_run = 0, bc_pending = []\<rparr>"

definition bucket_answered :: "int \<Rightarrow> nat \<Rightarrow> thrown + service_history_point list \<Rightarrow> bucket_chart \<Rightarrow> bucket_chart" where
  "bucket_answered now q r s =
     (let s = s\<lparr>bc_pending := remove1 q (bc_pending s)\<rparr> in
      if q \<noteq> bc_run s then s
      else (case r of Inr d \<Rightarrow> s\<lparr>bc_points := d, bc_error := False, bc_loadedAt := now, bc_loading := False\<rparr>
            | Inl _ \<Rightarrow> s\<lparr>bc_error := True, bc_loading := False\<rparr>))"

definition bucket_failed :: "service_history_point \<Rightarrow> int" where
  "bucket_failed p = math_round (of_int (hp_total p) * (1 - hp_uptimePct p / 100))"

text \<open>A point with an unreadable time is in no window.\<close>

definition window_points :: "int \<Rightarrow> bucket_chart \<Rightarrow> (int \<times> service_history_point) list" where
  "window_points windowMs s =
     filter (\<lambda>(t, _). t \<ge> bc_loadedAt s - windowMs)
       (List.map_filter (\<lambda>p. map_option (\<lambda>t. (t, p)) (date_parse (hp_time p))) (bc_points s))"

definition bucket_slot :: "int \<times> service_history_point \<Rightarrow> int response_slot" where
  "bucket_slot b =
     (let p = snd b; failed = bucket_failed p in
      \<lparr>sl_t = fst b, sl_latency = (if hp_uptimePct p > 0 then Some (of_int (math_round (hp_latencyMs p))) else None),
       sl_state = (if failed = 0 then Slot_up else if hp_uptimePct p > 0 then Slot_partial else Slot_down),
       sl_detail = (if failed = 0 then show_int (hp_total p) @ ([CHR 0xED, CHR 0x9A, CHR 0x8C] @ '' '' @ [CHR 0xEC, CHR 0xA0, CHR 0x95, CHR 0xEC, CHR 0x83, CHR 0x81])
                    else show_int (hp_total p) @ ([CHR 0xED, CHR 0x9A, CHR 0x8C] @ '' '' @ [CHR 0xEC, CHR 0xA4, CHR 0x91] @ '' '') @ show_int failed @ ([CHR 0xED, CHR 0x9A, CHR 0x8C] @ '' '' @ [CHR 0xEC, CHR 0x8B, CHR 0xA4, CHR 0xED, CHR 0x8C, CHR 0xA8]))\<rparr>)"

definition bucket_card :: "int \<Rightarrow> bucket_chart \<Rightarrow> int response_slot list \<times> int \<times> (int \<times> int)" where
  "bucket_card windowMs s =
     (map bucket_slot (window_points windowMs s), sum_list (map (\<lambda>b. bucket_failed (snd b)) (window_points windowMs s)),
      (bc_loadedAt s - windowMs, bc_loadedAt s))"

definition bucket_card_shown :: "bucket_chart \<Rightarrow> bool" where
  "bucket_card_shown s \<longleftrightarrow> \<not> bc_error s \<or> bc_loadedAt s > 0"

lemma bucket_failed_bounds:
  assumes "0 \<le> hp_uptimePct p" "hp_uptimePct p \<le> 100" "0 \<le> hp_total p"
  shows "0 \<le> bucket_failed p" "bucket_failed p \<le> hp_total p"
proof -
  have "0 \<le> of_int (hp_total p) * (1 - hp_uptimePct p / 100)" using assms by simp
  then show "0 \<le> bucket_failed p" using math_round_mono [of 0] by (simp add: bucket_failed_def math_round_def)
  have "of_int (hp_total p) * (1 - hp_uptimePct p / 100) \<le> of_int (hp_total p) * 1"
    using assms by (intro mult_left_mono) simp_all
  then show "bucket_failed p \<le> hp_total p"
    using math_round_mono [of "of_int (hp_total p) * (1 - hp_uptimePct p / 100)" "of_int (hp_total p)"] by (simp add: bucket_failed_def)
qed

section \<open>The 90 days (UptimeOverview)\<close>

definition HISTORY_DAYS :: nat where "HISTORY_DAYS = 90"

text \<open>\<open>day_key k\<close> is the local date \<open>k\<close> days before today.\<close>

definition day_slots :: "(nat \<Rightarrow> string) \<Rightarrow> (string \<times> rat) list \<Rightarrow> (string \<times> rat option) list" where
  "day_slots day_key days =
     map (\<lambda>i. let key = day_key (HISTORY_DAYS - 1 - i) in (key, map_of (map_from days) key)) [0..<HISTORY_DAYS]"

definition recordedDays :: "(string \<times> rat option) list \<Rightarrow> nat" where
  "recordedDays slots = length (filter (\<lambda>(_, d). d \<noteq> None) slots)"

definition partialDays :: "(string \<times> rat option) list \<Rightarrow> nat" where
  "partialDays slots = length (filter (\<lambda>(_, d). case d of Some u \<Rightarrow> u < 199 / 2 \<and> u \<ge> 50 | None \<Rightarrow> False) slots)"

definition downDays :: "(string \<times> rat option) list \<Rightarrow> nat" where
  "downDays slots = length (filter (\<lambda>(_, d). case d of Some u \<Rightarrow> u < 50 | None \<Rightarrow> False) slots)"

definition day_tone :: "rat option \<Rightarrow> status_tone" where
  "day_tone d = (case d of None \<Rightarrow> T_idle | Some u \<Rightarrow> if u \<ge> 199 / 2 then T_healthy else if u \<ge> 50 then T_warn else T_error)"

definition select_day :: "(string \<times> rat option) list \<Rightarrow> nat \<Rightarrow> string option \<Rightarrow> string option" where
  "select_day slots i selectedDate = (if Some (fst (slots ! i)) = selectedDate then None else Some (fst (slots ! i)))"

definition day_key_pressed :: "(string \<times> rat option) list \<Rightarrow> bool \<Rightarrow> string \<Rightarrow> nat option \<times> string option \<Rightarrow> nat option \<times> string option" where
  "day_key_pressed slots selectable key s =
     (let current = (case fst s of Some i \<Rightarrow> i | None \<Rightarrow> HISTORY_DAYS - 1) in
      if selectable \<and> key \<in> {''Enter'', '' ''} then (fst s, select_day slots current (snd s))
      else (card_focus key HISTORY_DAYS (fst s), snd s))"

text \<open>The counts above the strip are those of its colours.\<close>

lemma day_counts:
  "partialDays slots = length (filter (\<lambda>(_, d). day_tone d = T_warn) slots)"
  "downDays slots = length (filter (\<lambda>(_, d). day_tone d = T_error) slots)"
  "recordedDays slots = partialDays slots + downDays slots + length (filter (\<lambda>(_, d). day_tone d = T_healthy) slots)"
proof -
  have w: "(case d of Some u \<Rightarrow> u < 199 / 2 \<and> u \<ge> 50 | None \<Rightarrow> False) = (day_tone d = T_warn)"
    and e: "(case d of Some u \<Rightarrow> u < 50 | None \<Rightarrow> False) = (day_tone d = T_error)" for d
    by (simp_all add: day_tone_def split: option.split)
  show p: "partialDays slots = length (filter (\<lambda>(_, d). day_tone d = T_warn) slots)"
    and q: "downDays slots = length (filter (\<lambda>(_, d). day_tone d = T_error) slots)"
    by (simp_all add: partialDays_def downDays_def w e)
  have r: "d \<noteq> None \<longleftrightarrow> day_tone d \<in> {T_warn, T_error, T_healthy}" for d
    by (simp add: day_tone_def split: option.split)
  show "recordedDays slots = partialDays slots + downDays slots + length (filter (\<lambda>(_, d). day_tone d = T_healthy) slots)"
    unfolding p q recordedDays_def r by (induction slots) auto
qed

text \<open>Choosing the same day again clears the choice; the focus stays on the strip.\<close>

lemma day_strip:
  "fst (slots ! i) = d \<Longrightarrow> select_day slots i (select_day slots i None) = None"
  "pred_option (\<lambda>h. h < HISTORY_DAYS) (fst s) \<Longrightarrow> pred_option (\<lambda>h. h < HISTORY_DAYS) (fst (day_key_pressed slots b key s))"
proof -
  show "pred_option (\<lambda>h. h < HISTORY_DAYS) (fst s) \<Longrightarrow> pred_option (\<lambda>h. h < HISTORY_DAYS) (fst (day_key_pressed slots b key s))"
    unfolding day_key_pressed_def Let_def using card_focus_in [of HISTORY_DAYS "fst s" key] by (simp add: HISTORY_DAYS_def)
qed (simp add: select_day_def)

end
