(* ===== verification/EU_Overview.thy ===== *)
theory EU_Overview imports EU_Status EU_Client EU_Nav
begin

text \<open>
  The overview, \<open>pages/overview/OverviewPage.tsx\<close>: its single-flight load of six sources, the list of
  what needs attention, and the verdict it gives.  \<open>ftime\<close> is \<open>formatIncidentTime\<close>, whose text depends
  on the reader's locale and today's date, and \<open>coll\<close> the sort key of \<open>localeCompare\<close>.
\<close>

section \<open>State and loads\<close>

datatype overview_source = Ov_agents | Ov_services | Ov_monitors | Ov_observed | Ov_infrastructure | Ov_timeline

fun SOURCE_LABELS :: "overview_source \<Rightarrow> string" where
  "SOURCE_LABELS Ov_agents = (''Docker '' @ [CHR 0xED, CHR 0x99, CHR 0x98, CHR 0xEA, CHR 0xB2, CHR 0xBD])"
| "SOURCE_LABELS Ov_services = (''Docker '' @ [CHR 0xEC, CHR 0x84, CHR 0x9C, CHR 0xEB, CHR 0xB9, CHR 0x84, CHR 0xEC, CHR 0x8A, CHR 0xA4] @ '' '' @ [CHR 0xEC, CHR 0x83, CHR 0x81, CHR 0xED, CHR 0x83, CHR 0x9C])"
| "SOURCE_LABELS Ov_monitors = ([CHR 0xEC, CHR 0x97, CHR 0x85, CHR 0xED, CHR 0x83, CHR 0x80, CHR 0xEC, CHR 0x9E, CHR 0x84] @ '' '' @ [CHR 0xEB, CHR 0xAA, CHR 0xA8, CHR 0xEB, CHR 0x8B, CHR 0x88, CHR 0xED, CHR 0x84, CHR 0xB0])"
| "SOURCE_LABELS Ov_observed = ([CHR 0xEC, CHR 0xA7, CHR 0x81, CHR 0xEC, CHR 0xA0, CHR 0x91] @ '' '' @ [CHR 0xEC, CHR 0x97, CHR 0xB0, CHR 0xEA, CHR 0xB2, CHR 0xB0] @ '' '' @ [CHR 0xEC, CHR 0x84, CHR 0x9C, CHR 0xEB, CHR 0xB9, CHR 0x84, CHR 0xEC, CHR 0x8A, CHR 0xA4])"
| "SOURCE_LABELS Ov_infrastructure = ([CHR 0xEC, CHR 0x9D, CHR 0xB8, CHR 0xED, CHR 0x94, CHR 0x84, CHR 0xEB, CHR 0x9D, CHR 0xBC] @ '' '' @ [CHR 0xEB, CHR 0xA6, CHR 0xAC, CHR 0xEC, CHR 0x86, CHR 0x8C, CHR 0xEC, CHR 0x8A, CHR 0xA4])"
| "SOURCE_LABELS Ov_timeline = ([CHR 0xEC, CHR 0x9E, CHR 0xA5, CHR 0xEC, CHR 0x95, CHR 0xA0] @ '' '' @ [CHR 0xEC, CHR 0x9D, CHR 0xB4, CHR 0xEB, CHR 0xA0, CHR 0xA5])"

record overview_answers =
  oa_agents :: "thrown + connected_agent list"
  oa_services :: "thrown + agent_service_flat list"
  oa_monitors :: "thrown + uptime_monitor list"
  oa_observed :: "thrown + observed_service list"
  oa_infrastructure :: "thrown + infrastructure_resource list"
  oa_timeline :: "thrown + timeline_incident list"

record overview =
  ov_agents :: "connected_agent list"
  ov_services :: "agent_service_flat list"
  ov_monitors :: "uptime_monitor list"
  ov_observed :: "observed_service list"
  ov_infrastructure :: "infrastructure_resource list"
  ov_timeline :: "timeline_incident list"
  ov_failed :: "overview_source list"
  ov_showAll :: bool
  ov_updatedAt :: "int option"
  ov_retrying :: bool
  ov_pending :: bool
  ov_requests :: nat

definition overview_initial :: overview where
  "overview_initial =
     \<lparr>ov_agents = [], ov_services = [], ov_monitors = [], ov_observed = [], ov_infrastructure = [], ov_timeline = [],
      ov_failed = [], ov_showAll = False, ov_updatedAt = None, ov_retrying = False, ov_pending = False, ov_requests = 0\<rparr>"

definition overview_calls :: "string list" where
  "overview_calls =
     [ac_endpoint getAgents, ac_endpoint getAllAgentServicesFlat, ac_endpoint getUptimeMonitors,
      ac_endpoint (getObservedServices None), ac_endpoint getInfrastructureResources,
      ac_endpoint (getIncidentTimeline (Some 7) (Some 6))]"

text \<open>\<open>ov_requests\<close> counts the loads begun.\<close>

definition overview_load :: "overview \<Rightarrow> overview" where
  "overview_load s = (if ov_pending s then s else s\<lparr>ov_pending := True, ov_requests := Suc (ov_requests s)\<rparr>)"

definition overview_retry :: "overview \<Rightarrow> overview" where
  "overview_retry s = overview_load (s\<lparr>ov_retrying := True\<rparr>)"

definition failed_of :: "overview_source \<Rightarrow> thrown + 'a \<Rightarrow> overview_source list" where
  "failed_of src r = (if isl r then [src] else [])"

definition taken :: "thrown + 'a list \<Rightarrow> 'a list \<Rightarrow> 'a list" where
  "taken r current = (case r of Inr x \<Rightarrow> x | Inl _ \<Rightarrow> current)"

definition overview_loaded :: "int \<Rightarrow> overview_answers \<Rightarrow> overview \<Rightarrow> overview" where
  "overview_loaded now a s =
     s\<lparr>ov_agents := taken (oa_agents a) (ov_agents s), ov_services := taken (oa_services a) (ov_services s),
       ov_monitors := taken (oa_monitors a) (ov_monitors s), ov_observed := taken (oa_observed a) (ov_observed s),
       ov_infrastructure := taken (oa_infrastructure a) (ov_infrastructure s), ov_timeline := taken (oa_timeline a) (ov_timeline s),
       ov_failed := failed_of Ov_agents (oa_agents a) @ failed_of Ov_services (oa_services a)
         @ failed_of Ov_monitors (oa_monitors a) @ failed_of Ov_observed (oa_observed a)
         @ failed_of Ov_infrastructure (oa_infrastructure a) @ failed_of Ov_timeline (oa_timeline a),
       ov_updatedAt := Some now, ov_pending := False, ov_retrying := False\<rparr>"

section \<open>What needs attention\<close>

record attention_item =
  at_id :: string
  at_title :: string
  at_detail :: string
  at_to :: string
  at_error :: bool
  at_icon :: string
  at_observedAt :: "string option"
  at_timeLabel :: "string option"

definition staleAgents :: "int \<Rightarrow> overview \<Rightarrow> connected_agent list" where
  "staleAgents now s = filter (\<lambda>a. \<not> isCollectorFresh now (Some (ag_lastSeenAt a))) (ov_agents s)"

definition unhealthyServices :: "overview \<Rightarrow> agent_service_flat list" where
  "unhealthyServices s = filter (\<lambda>v. \<not> sv_healthy v) (ov_services s)"

definition unhealthyMonitors :: "overview \<Rightarrow> uptime_monitor list" where
  "unhealthyMonitors s = filter (\<lambda>m. um_status m = S_unhealthy) (ov_monitors s)"

definition directAwaitingData :: "overview \<Rightarrow> observed_service list" where
  "directAwaitingData s = filter (\<lambda>d. os_isActive d \<and> \<not> truthy (os_lastSeenAt d)) (ov_observed s)"

definition inactiveInfrastructure :: "int \<Rightarrow> overview \<Rightarrow> infrastructure_resource list" where
  "inactiveInfrastructure now s =
     filter (\<lambda>r. ir_isActive r \<and> \<not> isCollectorFresh now (ir_lastSeenAt r)) (ov_infrastructure s)"

definition last_received :: "(string \<Rightarrow> string) \<Rightarrow> string option \<Rightarrow> string" where
  "last_received ftime v = (if truthy v then ([CHR 0xEB, CHR 0xA7, CHR 0x88, CHR 0xEC, CHR 0xA7, CHR 0x80, CHR 0xEB, CHR 0xA7, CHR 0x89] @ '' '' @ [CHR 0xEC, CHR 0x88, CHR 0x98, CHR 0xEC, CHR 0x8B, CHR 0xA0] @ '' '') @ ftime (the v) else ([CHR 0xEC, CHR 0x88, CHR 0x98, CHR 0xEC, CHR 0x8B, CHR 0xA0] @ '' '' @ [CHR 0xEA, CHR 0xB8, CHR 0xB0, CHR 0xEB, CHR 0xA1, CHR 0x9D] @ '' '' @ [CHR 0xEC, CHR 0x97, CHR 0x86, CHR 0xEC, CHR 0x9D, CHR 0x8C]))"

definition service_item :: "agent_service_flat \<Rightarrow> attention_item" where
  "service_item v =
     \<lparr>at_id = ''service-'' @ sv_agentId v @ ''-'' @ sv_key v, at_title = sv_name v,
      at_detail = (if truthy (sv_lastError v) then the (sv_lastError v) else ([CHR 0xEC, CHR 0x83, CHR 0x81, CHR 0xED, CHR 0x83, CHR 0x9C] @ '' '' @ [CHR 0xEC, CHR 0xB2, CHR 0xB4, CHR 0xED, CHR 0x81, CHR 0xAC, CHR 0xEC, CHR 0x97, CHR 0x90] @ '' '' @ [CHR 0xEC, CHR 0x8B, CHR 0xA4, CHR 0xED, CHR 0x8C, CHR 0xA8, CHR 0xED, CHR 0x96, CHR 0x88, CHR 0xEC, CHR 0x8A, CHR 0xB5, CHR 0xEB, CHR 0x8B, CHR 0x88, CHR 0xEB, CHR 0x8B, CHR 0xA4])),
      at_to = ''/services/'' @ sv_agentId v @ ''/'' @ encodeURIComponent (sv_key v) @ ''?tab=uptime'', at_error = True,
      at_icon = ''error_outline'', at_observedAt = Some (sv_observedAt v), at_timeLabel = None\<rparr>"

definition monitor_item :: "uptime_monitor \<Rightarrow> attention_item" where
  "monitor_item m =
     \<lparr>at_id = ''monitor-'' @ um_id m, at_title = um_name m, at_detail = ([CHR 0xEC, CHR 0x97, CHR 0x85, CHR 0xED, CHR 0x83, CHR 0x80, CHR 0xEC, CHR 0x9E, CHR 0x84] @ '' '' @ [CHR 0xEB, CHR 0xAA, CHR 0xA8, CHR 0xEB, CHR 0x8B, CHR 0x88, CHR 0xED, CHR 0x84, CHR 0xB0, CHR 0xEA, CHR 0xB0, CHR 0x80] @ '' '' @ [CHR 0xEC, CHR 0x9E, CHR 0xA5, CHR 0xEC, CHR 0x95, CHR 0xA0, CHR 0xEB, CHR 0xA5, CHR 0xBC] @ '' '' @ [CHR 0xEB, CHR 0xB3, CHR 0xB4, CHR 0xEA, CHR 0xB3, CHR 0xA0, CHR 0xED, CHR 0x96, CHR 0x88, CHR 0xEC, CHR 0x8A, CHR 0xB5, CHR 0xEB, CHR 0x8B, CHR 0x88, CHR 0xEB, CHR 0x8B, CHR 0xA4]),
      at_to = ''/uptime/'' @ um_id m, at_error = True, at_icon = ''error_outline'', at_observedAt = um_lastCheckAt m,
      at_timeLabel = None\<rparr>"

definition agent_item :: "(string \<Rightarrow> string) \<Rightarrow> connected_agent \<Rightarrow> attention_item" where
  "agent_item ftime a =
     \<lparr>at_id = ''agent-'' @ ag_id a, at_title = ag_name a, at_detail = (''Docker Collector '' @ [CHR 0xEB, CHR 0x8D, CHR 0xB0, CHR 0xEC, CHR 0x9D, CHR 0xB4, CHR 0xED, CHR 0x84, CHR 0xB0, CHR 0xEA, CHR 0xB0, CHR 0x80] @ '' '' @ [CHR 0xEC, CHR 0xA7, CHR 0x80, CHR 0xEC, CHR 0x97, CHR 0xB0, CHR 0xEB, CHR 0x90, CHR 0x98, CHR 0xEC, CHR 0x97, CHR 0x88, CHR 0xEA, CHR 0xB1, CHR 0xB0, CHR 0xEB, CHR 0x82, CHR 0x98] @ '' '' @ [CHR 0xEB, CHR 0x81, CHR 0x8A, CHR 0xEA, CHR 0xB2, CHR 0xBC, CHR 0xEC, CHR 0x8A, CHR 0xB5, CHR 0xEB, CHR 0x8B, CHR 0x88, CHR 0xEB, CHR 0x8B, CHR 0xA4]),
      at_to = ''/agents/'' @ ag_id a, at_error = False, at_icon = ''sensors_off'', at_observedAt = Some (ag_lastSeenAt a),
      at_timeLabel = Some (last_received ftime (Some (ag_lastSeenAt a)))\<rparr>"

definition observed_item :: "(string \<Rightarrow> string) \<Rightarrow> observed_service \<Rightarrow> attention_item" where
  "observed_item ftime d =
     \<lparr>at_id = ''observed-'' @ os_id d, at_title = os_name d,
      at_detail = ([CHR 0xEC, CHR 0xA7, CHR 0x81, CHR 0xEC, CHR 0xA0, CHR 0x91] @ '' '' @ [CHR 0xEC, CHR 0x97, CHR 0xB0, CHR 0xEA, CHR 0xB2, CHR 0xB0, CHR 0xED, CHR 0x95, CHR 0x9C] @ '' '' @ [CHR 0xEC, CHR 0x84, CHR 0x9C, CHR 0xEB, CHR 0xB9, CHR 0x84, CHR 0xEC, CHR 0x8A, CHR 0xA4, CHR 0xEC, CHR 0x97, CHR 0x90, CHR 0xEC, CHR 0x84, CHR 0x9C] @ '' '' @ [CHR 0xEC, CHR 0x95, CHR 0x84, CHR 0xEC, CHR 0xA7, CHR 0x81] @ '' '' @ [CHR 0xEB, CHR 0x8D, CHR 0xB0, CHR 0xEC, CHR 0x9D, CHR 0xB4, CHR 0xED, CHR 0x84, CHR 0xB0, CHR 0xEA, CHR 0xB0, CHR 0x80] @ '' '' @ [CHR 0xED, CHR 0x99, CHR 0x95, CHR 0xEC, CHR 0x9D, CHR 0xB8, CHR 0xEB, CHR 0x90, CHR 0x98, CHR 0xEC, CHR 0xA7, CHR 0x80] @ '' '' @ [CHR 0xEC, CHR 0x95, CHR 0x8A, CHR 0xEC, CHR 0x95, CHR 0x98, CHR 0xEC, CHR 0x8A, CHR 0xB5, CHR 0xEB, CHR 0x8B, CHR 0x88, CHR 0xEB, CHR 0x8B, CHR 0xA4]), at_to = ''/logs/'' @ os_id d, at_error = False,
      at_icon = ''schedule'', at_observedAt = Some (os_createdAt d),
      at_timeLabel = Some (ftime (os_createdAt d) @ ('' '' @ [CHR 0xEC, CHR 0x97, CHR 0xB0, CHR 0xEA, CHR 0xB2, CHR 0xB0]))\<rparr>"

definition infrastructure_item :: "(string \<Rightarrow> string) \<Rightarrow> infrastructure_resource \<Rightarrow> attention_item" where
  "infrastructure_item ftime r =
     \<lparr>at_id = ''infrastructure-'' @ ir_id r, at_title = ir_name r,
      at_detail = ([CHR 0xEC, CHR 0x9D, CHR 0xB8, CHR 0xED, CHR 0x94, CHR 0x84, CHR 0xEB, CHR 0x9D, CHR 0xBC] @ '' Collector '' @ [CHR 0xEB, CHR 0x8D, CHR 0xB0, CHR 0xEC, CHR 0x9D, CHR 0xB4, CHR 0xED, CHR 0x84, CHR 0xB0, CHR 0xEA, CHR 0xB0, CHR 0x80] @ '' '' @ [CHR 0xEC, CHR 0xA7, CHR 0x80, CHR 0xEC, CHR 0x97, CHR 0xB0, CHR 0xEB, CHR 0x90, CHR 0x98, CHR 0xEC, CHR 0x97, CHR 0x88, CHR 0xEA, CHR 0xB1, CHR 0xB0, CHR 0xEB, CHR 0x82, CHR 0x98] @ '' '' @ [CHR 0xEB, CHR 0x81, CHR 0x8A, CHR 0xEA, CHR 0xB2, CHR 0xBC, CHR 0xEC, CHR 0x8A, CHR 0xB5, CHR 0xEB, CHR 0x8B, CHR 0x88, CHR 0xEB, CHR 0x8B, CHR 0xA4]), at_to = ''/infrastructure/'' @ ir_id r,
      at_error = False, at_icon = ''sensors_off'', at_observedAt = ir_lastSeenAt r,
      at_timeLabel = Some (last_received ftime (ir_lastSeenAt r))\<rparr>"

definition episode_message :: "timeline_incident \<Rightarrow> string" where
  "episode_message e =
     (if truthy (ti_message e) then the (ti_message e)
      else if ti_source e = Src_uptime then ([CHR 0xEC, CHR 0x97, CHR 0x85, CHR 0xED, CHR 0x83, CHR 0x80, CHR 0xEC, CHR 0x9E, CHR 0x84] @ '' '' @ [CHR 0xEC, CHR 0xB2, CHR 0xB4, CHR 0xED, CHR 0x81, CHR 0xAC] @ '' '' @ [CHR 0xEC, CHR 0x8B, CHR 0xA4, CHR 0xED, CHR 0x8C, CHR 0xA8]) else (''Docker '' @ [CHR 0xEC, CHR 0x84, CHR 0x9C, CHR 0xEB, CHR 0xB9, CHR 0x84, CHR 0xEC, CHR 0x8A, CHR 0xA4] @ '' '' @ [CHR 0xEC, CHR 0x83, CHR 0x81, CHR 0xED, CHR 0x83, CHR 0x9C] @ '' '' @ [CHR 0xEC, CHR 0x9D, CHR 0xB4, CHR 0xEC, CHR 0x83, CHR 0x81]))"

definition episode_item :: "timeline_incident \<Rightarrow> attention_item" where
  "episode_item e =
     \<lparr>at_id = ''episode-'' @ incident_source_text (ti_source e) @ ''-'' @ ti_targetPath e, at_title = ti_targetName e,
      at_detail = episode_message e, at_to = ti_targetPath e, at_error = True, at_icon = ''error_outline'',
      at_observedAt = Some (ti_startedAt e), at_timeLabel = None\<rparr>"

definition item_path :: "attention_item \<Rightarrow> string" where
  "item_path i = hd (split_on CHR ''?'' (at_to i))"

text \<open>Episodes in progress whose source could not be listed and whose target is not listed yet.\<close>

definition unlistedActive :: "overview \<Rightarrow> attention_item list \<Rightarrow> timeline_incident list" where
  "unlistedActive s items =
     filter (\<lambda>e. ti_active e
       \<and> (if ti_source e = Src_uptime then Ov_monitors else Ov_services) \<in> set (ov_failed s)
       \<and> ti_targetPath e \<notin> item_path ` set items) (ov_timeline s)"

definition listed_items :: "(string \<Rightarrow> string) \<Rightarrow> int \<Rightarrow> overview \<Rightarrow> attention_item list" where
  "listed_items ftime now s =
     map service_item (unhealthyServices s) @ map monitor_item (unhealthyMonitors s)
     @ map (agent_item ftime) (staleAgents now s) @ map (observed_item ftime) (directAwaitingData s)
     @ map (infrastructure_item ftime) (inactiveInfrastructure now s)"

definition attention_items :: "(string \<Rightarrow> string) \<Rightarrow> int \<Rightarrow> overview \<Rightarrow> attention_item list" where
  "attention_items ftime now s =
     (let items = listed_items ftime now s in items @ map episode_item (unlistedActive s items))"

definition item_time :: "attention_item \<Rightarrow> int option" where
  "item_time i = date_parse (or_default (at_observedAt i) [])"

text \<open>\<open>compare(a, b) <= 0\<close>: errors first, the latest first, then by id; a difference that is not a number is skipped.\<close>

definition attention_le :: "(string \<Rightarrow> 'k :: linorder) \<Rightarrow> attention_item \<Rightarrow> attention_item \<Rightarrow> bool" where
  "attention_le coll a b \<longleftrightarrow>
     (if at_error a \<noteq> at_error b then at_error a
      else case (item_time a, item_time b) of
          (Some x, Some y) \<Rightarrow> if x \<noteq> y then y < x else coll (at_id a) \<le> coll (at_id b)
        | _ \<Rightarrow> coll (at_id a) \<le> coll (at_id b))"

definition attention :: "(string \<Rightarrow> 'k :: linorder) \<Rightarrow> (string \<Rightarrow> string) \<Rightarrow> int \<Rightarrow> overview \<Rightarrow> attention_item list" where
  "attention coll ftime now s = sort_by (attention_le coll) (attention_items ftime now s)"

section \<open>What the page says\<close>

definition statusUnknown :: "overview \<Rightarrow> bool" where
  "statusUnknown s \<longleftrightarrow> list_ex (\<lambda>src. src \<noteq> Ov_timeline) (ov_failed s)"

definition timelineFailed :: "overview \<Rightarrow> bool" where
  "timelineFailed s \<longleftrightarrow> Ov_timeline \<in> set (ov_failed s)"

definition errorCount :: "attention_item list \<Rightarrow> nat" where
  "errorCount items = length (filter at_error items)"

definition tab_title :: "nat \<Rightarrow> string \<Rightarrow> string" where
  "tab_title n previous = (if n = 0 then previous else ''('' @ show_nat n @ ('') '' @ [CHR 0xEC, CHR 0x9E, CHR 0xA5, CHR 0xEC, CHR 0x95, CHR 0xA0] @ '' '' @ [CHR 0xC2, CHR 0xB7] @ '' '') @ previous)"

definition totalTargets :: "overview \<Rightarrow> nat" where
  "totalTargets s = length (ov_agents s) + length (ov_monitors s) + length (ov_observed s) + length (ov_infrastructure s)"

datatype overview_verdict = Skeleton | Onboarding | Partly_unknown | All_clear | Listed "attention_item list"

definition overview_verdict :: "(string \<Rightarrow> 'k :: linorder) \<Rightarrow> (string \<Rightarrow> string) \<Rightarrow> int \<Rightarrow> overview \<Rightarrow> overview_verdict" where
  "overview_verdict coll ftime now s =
     (let items = attention coll ftime now s in
      if ov_updatedAt s = None then Skeleton
      else if totalTargets s = 0 \<and> \<not> statusUnknown s then Onboarding
      else if items = [] \<and> statusUnknown s then Partly_unknown
      else if items = [] then All_clear
      else Listed (if ov_showAll s then items else take 6 items))"

text \<open>The episode shown beside an error: \<open>new Map\<close> keeps the last of those with one path.\<close>

definition activeEpisodes :: "overview \<Rightarrow> (string \<times> timeline_incident) list" where
  "activeEpisodes s = map_from (map (\<lambda>e. (ti_targetPath e, e)) (filter ti_active (ov_timeline s)))"

definition item_episode :: "overview \<Rightarrow> attention_item \<Rightarrow> timeline_incident option" where
  "item_episode s i = (if at_error i then map_of (activeEpisodes s) (item_path i) else None)"

definition item_text :: "overview \<Rightarrow> attention_item \<Rightarrow> string" where
  "item_text s i =
     (case Option.bind (item_episode s i) ti_message of Some m \<Rightarrow> if m \<noteq> [] then m else at_detail i | None \<Rightarrow> at_detail i)"

text \<open>The counts beside the list: a source that failed has none.\<close>

definition scope_counts :: "overview \<Rightarrow> (overview_source \<times> nat option) list" where
  "scope_counts s =
     map (\<lambda>(src, n). (src, if src \<in> set (ov_failed s) then None else Some n))
       [(Ov_agents, length (ov_agents s)), (Ov_monitors, length (ov_monitors s)), (Ov_observed, length (ov_observed s)),
        (Ov_infrastructure, length (ov_infrastructure s))]"

text \<open>A run of the page, with the answers of its last completed load.\<close>

inductive overview_run :: "overview \<Rightarrow> overview_answers option \<Rightarrow> bool" where
  mounted: "overview_run overview_initial None"
| load: "overview_run s l \<Longrightarrow> overview_run (overview_load s) l"
| retry: "overview_run s l \<Longrightarrow> ov_failed s \<noteq> [] \<Longrightarrow> overview_run (overview_retry s) l"
| loaded: "overview_run s l \<Longrightarrow> ov_pending s \<Longrightarrow> overview_run (overview_loaded now a s) (Some a)"
| toggle: "overview_run s l \<Longrightarrow> overview_run (s\<lparr>ov_showAll := \<not> ov_showAll s\<rparr>) l"

definition held :: "overview_source \<Rightarrow> thrown + 'a list \<Rightarrow> overview \<Rightarrow> 'a list \<Rightarrow> bool" where
  "held src r s xs \<longleftrightarrow> (case r of Inr ys \<Rightarrow> xs = ys \<and> src \<notin> set (ov_failed s) | Inl _ \<Rightarrow> src \<in> set (ov_failed s))"

definition overview_ok :: "overview \<Rightarrow> overview_answers option \<Rightarrow> bool" where
  "overview_ok s l \<longleftrightarrow>
     (ov_updatedAt s = None) = (l = None) \<and> (if ov_retrying s then ov_pending s else True)
     \<and> pred_option (\<lambda>a. held Ov_agents (oa_agents a) s (ov_agents s) \<and> held Ov_services (oa_services a) s (ov_services s)
       \<and> held Ov_monitors (oa_monitors a) s (ov_monitors s) \<and> held Ov_observed (oa_observed a) s (ov_observed s)
       \<and> held Ov_infrastructure (oa_infrastructure a) s (ov_infrastructure s)) l"

lemma held_failed: "ov_failed s = ov_failed s' \<Longrightarrow> held src r s xs = held src r s' xs"
  by (simp add: held_def split: sum.split)

lemma load_fields [simp]:
  "ov_agents (overview_load s) = ov_agents s" "ov_services (overview_load s) = ov_services s"
  "ov_monitors (overview_load s) = ov_monitors s" "ov_observed (overview_load s) = ov_observed s"
  "ov_infrastructure (overview_load s) = ov_infrastructure s" "ov_failed (overview_load s) = ov_failed s"
  "ov_updatedAt (overview_load s) = ov_updatedAt s" "ov_retrying (overview_load s) = ov_retrying s" "ov_pending (overview_load s)"
  by (simp_all add: overview_load_def)

lemma overview_run_ok: "overview_run s l \<Longrightarrow> overview_ok s l"
proof (induction rule: overview_run.induct)
  case (loaded s l now a)
  then show ?case
    by (simp add: overview_ok_def) (simp add: overview_loaded_def failed_of_def held_def taken_def split: sum.split)
qed (simp_all add: overview_ok_def overview_initial_def overview_retry_def held_failed [of "overview_load _"] held_failed [of "_\<lparr>ov_retrying := _\<rparr>"]
    held_failed [of "_\<lparr>ov_showAll := _\<rparr>"])

lemma isl_cases: "(case r of Inr x \<Rightarrow> P x | Inl _ \<Rightarrow> False) \<longleftrightarrow> \<not> isl r \<and> P (projr r)"
  by (cases r) simp_all

section \<open>The page as a whole\<close>

text \<open>C29: The overview says that nothing needs attention only when every status source answered in its last
  load and the answers hold no failing service or monitor, no silent collector and no direct service
  that is still waiting for its first data; a retry button that spins has a load in flight.\<close>

theorem all_clear_sound:
  assumes "overview_run s l" "overview_verdict coll ftime now s = All_clear"
  shows "(\<exists>a. l = Some a
      \<and> (case oa_services a of Inr vs \<Rightarrow> list_all sv_healthy vs | Inl _ \<Rightarrow> False)
      \<and> (case oa_monitors a of Inr ms \<Rightarrow> list_all (\<lambda>m. um_status m \<noteq> S_unhealthy) ms | Inl _ \<Rightarrow> False)
      \<and> (case oa_agents a of Inr xs \<Rightarrow> list_all (\<lambda>x. isCollectorFresh now (Some (ag_lastSeenAt x))) xs | Inl _ \<Rightarrow> False)
      \<and> (case oa_observed a of Inr ds \<Rightarrow> list_all (\<lambda>d. os_isActive d \<longrightarrow> truthy (os_lastSeenAt d)) ds | Inl _ \<Rightarrow> False)
      \<and> (case oa_infrastructure a of Inr rs \<Rightarrow> list_all (\<lambda>r. ir_isActive r \<longrightarrow> isCollectorFresh now (ir_lastSeenAt r)) rs
           | Inl _ \<Rightarrow> False))
    \<and> (ov_retrying s \<longrightarrow> ov_pending s)"
proof
  have ok: "overview_ok s l" by (rule overview_run_ok [OF assms(1)])
  then show "ov_retrying s \<longrightarrow> ov_pending s" by (simp add: overview_ok_def split: if_splits)
  have none: "attention_items ftime now s = []" and up: "ov_updatedAt s \<noteq> None" and known: "\<not> statusUnknown s"
    using assms(2) by (auto simp: overview_verdict_def attention_def Let_def split: if_splits)
  then obtain a where a: "l = Some a" using ok by (auto simp: overview_ok_def)
  have f: "src \<notin> set (ov_failed s)" if "src \<noteq> Ov_timeline" for src
    using known that by (auto simp: statusUnknown_def list_ex_iff)
  have h: "oa_services a = Inr (ov_services s)" "oa_monitors a = Inr (ov_monitors s)" "oa_agents a = Inr (ov_agents s)"
    "oa_observed a = Inr (ov_observed s)" "oa_infrastructure a = Inr (ov_infrastructure s)"
    using ok a f by (simp_all add: overview_ok_def held_def split: sum.splits)
  have "unhealthyServices s = []" "unhealthyMonitors s = []" "staleAgents now s = []" "directAwaitingData s = []"
    "inactiveInfrastructure now s = []"
    using none by (simp_all add: attention_items_def listed_items_def Let_def)
  then show "\<exists>a. l = Some a
      \<and> (case oa_services a of Inr vs \<Rightarrow> list_all sv_healthy vs | Inl _ \<Rightarrow> False)
      \<and> (case oa_monitors a of Inr ms \<Rightarrow> list_all (\<lambda>m. um_status m \<noteq> S_unhealthy) ms | Inl _ \<Rightarrow> False)
      \<and> (case oa_agents a of Inr xs \<Rightarrow> list_all (\<lambda>x. isCollectorFresh now (Some (ag_lastSeenAt x))) xs | Inl _ \<Rightarrow> False)
      \<and> (case oa_observed a of Inr ds \<Rightarrow> list_all (\<lambda>d. os_isActive d \<longrightarrow> truthy (os_lastSeenAt d)) ds | Inl _ \<Rightarrow> False)
      \<and> (case oa_infrastructure a of Inr rs \<Rightarrow> list_all (\<lambda>r. ir_isActive r \<longrightarrow> isCollectorFresh now (ir_lastSeenAt r)) rs
           | Inl _ \<Rightarrow> False)"
    using a h by (auto simp: unhealthyServices_def unhealthyMonitors_def staleAgents_def directAwaitingData_def
        inactiveInfrastructure_def filter_empty_conv list_all_iff)
qed

definition healthy_monitor :: uptime_monitor where
  "healthy_monitor =
     \<lparr>um_id = ''m1'', um_name = ''shop'', um_projectId = None, um_type = M_http, um_isActive = True, um_url = ''https://shop'',
      um_port = None, um_method = ''GET'', um_expectedStatus = 200, um_timeout = 5000, um_interval = 30,
      um_status = S_healthy, um_lastCheckAt = None, um_uptime = None, um_responseTime = None, um_latencyHistory = None,
      um_certExpiresAt = None\<rparr>"

definition calm_answers :: overview_answers where
  "calm_answers =
     \<lparr>oa_agents = Inr [], oa_services = Inr [], oa_monitors = Inr [healthy_monitor], oa_observed = Inr [],
      oa_infrastructure = Inr [], oa_timeline = Inl ThrownValue\<rparr>"

lemma all_clear_sound_witness:
  "\<exists>a. Some calm_answers = Some a \<and> (case oa_monitors a of Inr ms \<Rightarrow> list_all (\<lambda>m. um_status m \<noteq> S_unhealthy) ms | Inl _ \<Rightarrow> False)"
proof -
  let ?s = "overview_loaded 0 calm_answers (overview_load overview_initial)"
  have "overview_run ?s (Some calm_answers)" by (rule overview_run.loaded [OF overview_run.load [OF overview_run.mounted]]) simp
  moreover have "overview_verdict length id 0 ?s = All_clear"
    by (simp add: overview_verdict_def overview_loaded_def calm_answers_def healthy_monitor_def overview_initial_def overview_load_def
        taken_def failed_of_def statusUnknown_def totalTargets_def attention_def attention_items_def listed_items_def
        unhealthyServices_def unhealthyMonitors_def staleAgents_def directAwaitingData_def inactiveInfrastructure_def unlistedActive_def)
  ultimately show ?thesis using all_clear_sound by blast
qed

lemma preorder_two:
  "total_preorder (or_else (by_key f) (or_else (by_key_desc g) (by_key h)))"
  by unfold_locales (auto simp: or_else_def by_key_def by_key_desc_def)

lemma attention_le_known:
  assumes "item_time a \<noteq> None" "item_time b \<noteq> None"
  shows "attention_le coll a b =
    or_else (by_key (\<lambda>i. \<not> at_error i)) (or_else (by_key_desc (\<lambda>i. the (item_time i))) (by_key (\<lambda>i. coll (at_id i)))) a b"
  using assms by (auto simp: attention_le_def or_else_def by_key_def by_key_desc_def)

lemma sort_by_cong:
  assumes "\<And>a b. a \<in> set xs \<Longrightarrow> b \<in> set xs \<Longrightarrow> le a b = le' a b"
  shows "sort_by le xs = sort_by le' xs"
  using assms
proof (induction xs)
  case (Cons x xs)
  have "insert_by le x ys = insert_by le' x ys" if "set ys \<subseteq> set (x # xs)" for ys
    using that Cons.prems by (induction ys) auto
  from this [of "sort_by le' xs"] show ?case using Cons by auto
qed simp

lemma attention_sorted:
  assumes "list_all (\<lambda>i. item_time i \<noteq> None) (attention_items ftime now s)"
  shows "sorted_wrt (\<lambda>a b. at_error b \<longrightarrow> at_error a) (attention coll ftime now s)"
    and "sorted_wrt (\<lambda>a b. at_error a = at_error b \<longrightarrow> the (item_time b) \<le> the (item_time a)) (attention coll ftime now s)"
proof -
  let ?le = "or_else (by_key (\<lambda>i. \<not> at_error i)) (or_else (by_key_desc (\<lambda>i. the (item_time i))) (by_key (\<lambda>i. coll (at_id i))))"
  have "attention coll ftime now s = sort_by ?le (attention_items ftime now s)"
    unfolding attention_def using assms by (intro sort_by_cong attention_le_known) (auto simp: list_all_iff)
  then have "sorted_wrt ?le (attention coll ftime now s)"
    using total_preorder.sorted_sort [OF preorder_two] by metis
  then show "sorted_wrt (\<lambda>a b. at_error b \<longrightarrow> at_error a) (attention coll ftime now s)"
    "sorted_wrt (\<lambda>a b. at_error a = at_error b \<longrightarrow> the (item_time b) \<le> the (item_time a)) (attention coll ftime now s)"
    by (auto elim!: sorted_wrt_mono_rel [rotated] simp: or_else_def by_key_def by_key_desc_def)
qed

text \<open>C30: Whatever the page holds, its attention list has exactly one entry, leading to its page, for
  every service whose check failed, every monitor that is down, every collector and every active
  infrastructure resource with no readable sighting in the last two minutes, and every active direct
  service never seen; and one for every episode in progress whose own list could not be loaded and
  whose page no other entry leads to. Failed services, monitors and episodes are the errors. When all
  the times can be read, the errors come first, and the latest first among errors and among the rest.\<close>

theorem attention_exact:
  fixes now s
  defines "silent t \<equiv> \<not> (\<exists>u. date_parse t = Some u \<and> now - u < 2 * 60 * 1000)"
  defines "due \<equiv>
      map (\<lambda>v. (''service-'' @ sv_agentId v @ ''-'' @ sv_key v,
        ''/services/'' @ sv_agentId v @ ''/'' @ encodeURIComponent (sv_key v) @ ''?tab=uptime'', True))
        (filter (\<lambda>v. \<not> sv_healthy v) (ov_services s))
      @ map (\<lambda>m. (''monitor-'' @ um_id m, ''/uptime/'' @ um_id m, True)) (filter (\<lambda>m. um_status m = S_unhealthy) (ov_monitors s))
      @ map (\<lambda>a. (''agent-'' @ ag_id a, ''/agents/'' @ ag_id a, False)) (filter (\<lambda>a. silent (ag_lastSeenAt a)) (ov_agents s))
      @ map (\<lambda>d. (''observed-'' @ os_id d, ''/logs/'' @ os_id d, False))
          (filter (\<lambda>d. os_isActive d \<and> os_lastSeenAt d \<in> {None, Some []}) (ov_observed s))
      @ map (\<lambda>r. (''infrastructure-'' @ ir_id r, ''/infrastructure/'' @ ir_id r, False))
          (filter (\<lambda>r. ir_isActive r \<and> silent (or_default (ir_lastSeenAt r) [])) (ov_infrastructure s))"
  defines "episodes \<equiv>
      map (\<lambda>e. (''episode-'' @ incident_source_text (ti_source e) @ ''-'' @ ti_targetPath e, ti_targetPath e, True))
        (filter (\<lambda>e. ti_active e \<and> (if ti_source e = Src_uptime then Ov_monitors else Ov_services) \<in> set (ov_failed s)
           \<and> ti_targetPath e \<notin> (\<lambda>(_, to, _). hd (split_on CHR ''?'' to)) ` set due) (ov_timeline s))"
  shows "mset (map (\<lambda>i. (at_id i, at_to i, at_error i)) (attention coll ftime now s)) = mset (due @ episodes)
    \<and> (list_all (\<lambda>i. item_time i \<noteq> None) (attention coll ftime now s) \<longrightarrow>
       sorted_wrt (\<lambda>a b. at_error b \<longrightarrow> at_error a) (attention coll ftime now s)
       \<and> sorted_wrt (\<lambda>a b. at_error a = at_error b \<longrightarrow> the (item_time b) \<le> the (item_time a)) (attention coll ftime now s))"
proof
  let ?key = "\<lambda>i :: attention_item. (at_id i, at_to i, at_error i)" and ?listed = "listed_items ftime now s"
  have fresh: "(\<not> isCollectorFresh now t) = silent (or_default t [])" for t
    by (cases t) (auto simp: isCollectorFresh_iff silent_def COLLECTOR_FRESH_FOR_MS_def or_default_def)
  have truthy_none: "(\<not> truthy t) = (t \<in> {None, Some []})" for t by (cases t) simp_all
  have due: "map ?key ?listed = due"
    by (simp add: listed_items_def due_def unhealthyServices_def unhealthyMonitors_def staleAgents_def directAwaitingData_def
        inactiveInfrastructure_def service_item_def monitor_item_def agent_item_def observed_item_def infrastructure_item_def
        fresh truthy_none comp_def)
  have "item_path ` set ?listed = (\<lambda>(_, to, _). hd (split_on CHR ''?'' to)) ` set due"
    unfolding due [symmetric] by (simp add: image_image item_path_def)
  then have "map ?key (map episode_item (unlistedActive s ?listed)) = episodes"
    by (simp add: unlistedActive_def episodes_def episode_item_def comp_def)
  then have "map ?key (attention_items ftime now s) = due @ episodes"
    by (simp add: attention_items_def Let_def due [symmetric])
  moreover have "mset (map ?key (attention coll ftime now s)) = mset (map ?key (attention_items ftime now s))"
    by (simp add: attention_def)
  ultimately show "mset (map ?key (attention coll ftime now s)) = mset (due @ episodes)" by (simp only:)
  show "list_all (\<lambda>i. item_time i \<noteq> None) (attention coll ftime now s) \<longrightarrow>
       sorted_wrt (\<lambda>a b. at_error b \<longrightarrow> at_error a) (attention coll ftime now s)
       \<and> sorted_wrt (\<lambda>a b. at_error a = at_error b \<longrightarrow> the (item_time b) \<le> the (item_time a)) (attention coll ftime now s)"
    using attention_sorted [of ftime now s coll] by (simp add: attention_def list_all_iff)
qed

definition silent_resource :: "string \<Rightarrow> string option \<Rightarrow> infrastructure_resource" where
  "silent_resource i seen =
     \<lparr>ir_id = i, ir_name = i, ir_projectId = None, ir_adapter = Ad_otel_collector, ir_isActive = True, ir_apiKeyMasked = None,
      ir_lastSeenAt = seen, ir_cpuUsage = None, ir_memoryUsage = None, ir_diskUsage = None, ir_createdAt = [],
      ir_updatedAt = []\<rparr>"

text \<open>A down monitor, a later one, a healthy one, a silent resource, a revoked one, and a failing service's episode.\<close>

definition troubled :: overview where
  "troubled = overview_initial\<lparr>
     ov_monitors := [healthy_monitor, healthy_monitor\<lparr>um_id := ''m2'', um_status := S_unhealthy, um_lastCheckAt := Some (iso_string 0)\<rparr>,
       healthy_monitor\<lparr>um_id := ''m3'', um_status := S_unhealthy, um_lastCheckAt := Some (iso_string 1000)\<rparr>],
     ov_infrastructure := [silent_resource ''r1'' (Some (iso_string 1000)),
       (silent_resource ''r2'' (Some (iso_string 0)))\<lparr>ir_isActive := False\<rparr>],
     ov_failed := [Ov_services],
     ov_timeline := [\<lparr>ti_source = Src_docker, ti_targetName = ''api'', ti_targetPath = ''/services/a/api'', ti_startedAt = iso_string 0,
       ti_endedAt = None, ti_durationSec = 60, ti_active = True, ti_message = None\<rparr>]\<rparr>"

lemma overview_instants:
  "date_parse (iso_string 0) = Some 0" "date_parse (iso_string 1000) = Some 1000"
  by (rule date_parse_iso, simp add: iso_range_def epoch_day_def ms_per_day_def year_start_def)+

lemma attention_exact_witness:
  "map at_id (attention length id 1000000 troubled)
     = [''monitor-m3'', ''monitor-m2'', ''episode-docker-/services/a/api'', ''infrastructure-r1'']
   \<and> mset (map at_to (attention length id 1000000 troubled))
     = {#''/uptime/m2'', ''/uptime/m3'', ''/infrastructure/r1'', ''/services/a/api''#}
   \<and> sorted_wrt (\<lambda>a b. at_error b \<longrightarrow> at_error a) (attention length id 1000000 troubled)
   \<and> sorted_wrt (\<lambda>a b. at_error a = at_error b \<longrightarrow> the (item_time b) \<le> the (item_time a)) (attention length id 1000000 troubled)"
proof -
  let ?A = "attention length id 1000000 troubled"
  have fields: "ov_services troubled = []" "ov_agents troubled = []" "ov_observed troubled = []" "ov_failed troubled = [Ov_services]"
    "ov_monitors troubled = [healthy_monitor, healthy_monitor\<lparr>um_id := ''m2'', um_status := S_unhealthy, um_lastCheckAt := Some (iso_string 0)\<rparr>,
       healthy_monitor\<lparr>um_id := ''m3'', um_status := S_unhealthy, um_lastCheckAt := Some (iso_string 1000)\<rparr>]"
    "ov_infrastructure troubled = [silent_resource ''r1'' (Some (iso_string 1000)), (silent_resource ''r2'' (Some (iso_string 0)))\<lparr>ir_isActive := False\<rparr>]"
    "ov_timeline troubled = [\<lparr>ti_source = Src_docker, ti_targetName = ''api'', ti_targetPath = ''/services/a/api'',
       ti_startedAt = iso_string 0, ti_endedAt = None, ti_durationSec = 60, ti_active = True, ti_message = None\<rparr>]"
    by (simp_all add: troubled_def overview_initial_def)
  have h: "um_status healthy_monitor = S_healthy" by (simp add: healthy_monitor_def)
  have i: "attention_items id 1000000 troubled =
      [monitor_item (healthy_monitor\<lparr>um_id := ''m2'', um_status := S_unhealthy, um_lastCheckAt := Some (iso_string 0)\<rparr>),
       monitor_item (healthy_monitor\<lparr>um_id := ''m3'', um_status := S_unhealthy, um_lastCheckAt := Some (iso_string 1000)\<rparr>),
       infrastructure_item id (silent_resource ''r1'' (Some (iso_string 1000))),
       episode_item (hd (ov_timeline troubled))]"
    by (simp add: attention_items_def listed_items_def unlistedActive_def unhealthyServices_def unhealthyMonitors_def staleAgents_def
        directAwaitingData_def inactiveInfrastructure_def fields h silent_resource_def isCollectorFresh_iff overview_instants
        COLLECTOR_FRESH_FOR_MS_def item_path_def monitor_item_def infrastructure_item_def Let_def)
  have ids: "map at_id ?A = [''monitor-m3'', ''monitor-m2'', ''episode-docker-/services/a/api'', ''infrastructure-r1'']"
    unfolding attention_def i
    by (simp add: attention_le_def monitor_item_def infrastructure_item_def episode_item_def item_time_def silent_resource_def
        fields overview_instants)
  have "list_all (\<lambda>x. item_time x \<noteq> None) ?A"
    by (simp add: attention_def list_all_iff i)
      (simp add: monitor_item_def infrastructure_item_def episode_item_def item_time_def silent_resource_def fields overview_instants)
  with attention_exact [of length id 1000000 troubled]
  have t: "mset (map (\<lambda>x. (at_id x, at_to x, at_error x)) ?A) =
      {#(''monitor-m2'', ''/uptime/m2'', True), (''monitor-m3'', ''/uptime/m3'', True),
        (''infrastructure-r1'', ''/infrastructure/r1'', False), (''episode-docker-/services/a/api'', ''/services/a/api'', True)#}"
    and o: "sorted_wrt (\<lambda>a b. at_error b \<longrightarrow> at_error a) ?A"
      "sorted_wrt (\<lambda>a b. at_error a = at_error b \<longrightarrow> the (item_time b) \<le> the (item_time a)) ?A"
    by (simp_all add: fields h silent_resource_def overview_instants)
  have "mset (map at_to ?A) = image_mset (\<lambda>(_, to, _). to) (mset (map (\<lambda>x. (at_id x, at_to x, at_error x)) ?A))"
    by (simp add: image_mset.compositionality comp_def)
  also have "\<dots> = {#''/uptime/m2'', ''/uptime/m3'', ''/infrastructure/r1'', ''/services/a/api''#}" unfolding t by simp
  finally show ?thesis using ids o by blast
qed

text \<open>With a resource that was never seen, the order of the attention list is no order: of three silent
  resources the first precedes the second and the second the third by id, the third the first by time.\<close>

theorem attention_order_cycles:
  assumes "date_parse u = Some x" "date_parse v = Some y" "x < y"
    "ir_lastSeenAt r1 = Some u" "ir_lastSeenAt r2 = None" "ir_lastSeenAt r3 = Some v"
    "coll (''infrastructure-'' @ ir_id r1) \<le> coll (''infrastructure-'' @ ir_id r2)"
    "coll (''infrastructure-'' @ ir_id r2) \<le> coll (''infrastructure-'' @ ir_id r3)"
  shows "attention_le coll (infrastructure_item ftime r1) (infrastructure_item ftime r2)
    \<and> attention_le coll (infrastructure_item ftime r2) (infrastructure_item ftime r3)
    \<and> \<not> attention_le coll (infrastructure_item ftime r1) (infrastructure_item ftime r3)"
  using assms by (simp add: attention_le_def infrastructure_item_def item_time_def)

lemma attention_order_cycles_witness:
  "\<not> attention_le length (infrastructure_item id (silent_resource ''a'' (Some (iso_string 0))))
     (infrastructure_item id (silent_resource ''ccc'' (Some (iso_string 1000))))"
proof -
  have "date_parse (iso_string 0) = Some 0" "date_parse (iso_string 1000) = Some 1000"
    by (rule date_parse_iso, simp add: iso_range_def epoch_day_def ms_per_day_def year_start_def)+
  from attention_order_cycles [OF this, of "silent_resource ''a'' (Some (iso_string 0))" "silent_resource ''bb'' None"
      "silent_resource ''ccc'' (Some (iso_string 1000))" length id]
  show ?thesis by (simp add: silent_resource_def)
qed

end
