(* ===== verification/EU_LogOverview.thy ===== *)
theory EU_LogOverview imports EU_Logs EU_Answers
begin

text \<open>
  The log overview: the rows of \<open>features/logs/logServiceRows.ts\<close>, the cards of
  \<open>features/logs/components/LogServiceOverview.tsx\<close> and the page \<open>pages/capabilities/LogsPage.tsx\<close>.
\<close>

section \<open>Rows and patterns\<close>

definition WINDOW_MS :: int where
  "WINDOW_MS = 24 * 60 * 60 * 1000"

text \<open>A template writes an absent value as \<open>undefined\<close>.\<close>

definition logScopeKey :: "string option \<Rightarrow> string option \<Rightarrow> string option \<Rightarrow> string" where
  "logScopeKey serviceId agentId serviceName =
     (if truthy agentId then ''agent:'' @ the agentId @ '':'' @ or_default serviceName ''undefined''
      else ''direct:'' @ or_default serviceId ''undefined'')"

record log_service_row =
  lw_key :: string
  lw_name :: string
  lw_subtitle :: "string option"
  lw_stopped :: bool
  lw_to :: string
  lw_summary :: "log_service_summary option"

record log_pattern_row =
  pw_pattern :: log_pattern
  pw_row :: log_service_row

definition summary_key :: "log_service_summary \<Rightarrow> string" where
  "summary_key s = logScopeKey (lss_serviceId s) (lss_agentId s) (Some (lss_serviceName s))"

definition pattern_key :: "log_pattern \<Rightarrow> string" where
  "pattern_key p = logScopeKey (lp_serviceId p) (lp_agentId p) (Some (lp_serviceName p))"

definition row_errors :: "log_service_row \<Rightarrow> int" where
  "row_errors row = (case lw_summary row of Some s \<Rightarrow> lss_error s | None \<Rightarrow> 0)"

definition row_warns :: "log_service_row \<Rightarrow> int" where
  "row_warns row = (case lw_summary row of Some s \<Rightarrow> lss_warn s | None \<Rightarrow> 0)"

definition log_row_le :: "log_service_row \<Rightarrow> log_service_row \<Rightarrow> bool" where
  "log_row_le = or_else (by_key_desc row_errors) (by_key_desc row_warns)"

definition with_summary :: "log_service_summary list \<Rightarrow> log_service_row \<Rightarrow> log_service_row" where
  "with_summary summaries row =
     row\<lparr>lw_summary := map_of (map_from (map (\<lambda>s. (summary_key s, s)) summaries)) (lw_key row)\<rparr>"

definition log_rows :: "log_service_row list \<Rightarrow> log_service_summary list \<Rightarrow> log_service_row list" where
  "log_rows baseRows summaries = sort_by log_row_le (map (with_summary summaries) baseRows)"

definition pattern_rows :: "log_service_row list \<Rightarrow> log_pattern list \<Rightarrow> log_pattern_row list" where
  "pattern_rows rows ps =
     (let rowByKey = map_from (map (\<lambda>row. (lw_key row, row)) rows) in
      List.map_filter (\<lambda>p. map_option (\<lambda>row. \<lparr>pw_pattern = p, pw_row = row\<rparr>) (map_of rowByKey (pattern_key p))) ps)"

definition withLogSummaries ::
  "int \<Rightarrow> log_service_row list \<Rightarrow> log_service_summary list \<Rightarrow> log_pattern list
    \<Rightarrow> log_service_row list \<times> log_pattern_row list \<times> (int \<times> int)" where
  "withLogSummaries now baseRows summaries ps =
     (let rows = log_rows baseRows summaries in (rows, pattern_rows rows ps, (now - WINDOW_MS, now)))"

section \<open>Cards\<close>

definition HOUR_MS :: int where
  "HOUR_MS = 60 * 60 * 1000"

definition SPARKLINE_MIN_SCALE :: int where
  "SPARKLINE_MIN_SCALE = 10"

definition spark_count :: "int \<times> log_histogram_bucket \<Rightarrow> int" where
  "spark_count slot = hb_error (snd slot) + hb_warn (snd slot)"

definition spark_slots :: "log_histogram_bucket list \<Rightarrow> int \<times> int \<Rightarrow> (int \<times> log_histogram_bucket) list option" where
  "spark_slots buckets win = volume_rows buckets win HOUR_MS"

definition spark_peak :: "(int \<times> log_histogram_bucket) list \<Rightarrow> int" where
  "spark_peak slots = fold max (map spark_count slots) 0"

definition spark_scale :: "(int \<times> log_histogram_bucket) list \<Rightarrow> int" where
  "spark_scale slots = max (spark_peak slots) SPARKLINE_MIN_SCALE"

text \<open>The height of one level's bar, in percent of the card's track.\<close>

definition spark_bar :: "(int \<times> log_histogram_bucket) list \<Rightarrow> int \<Rightarrow> rat" where
  "spark_bar slots n = of_int n / of_int (spark_scale slots) * 100"

definition spark_label :: "(int \<times> log_histogram_bucket) list \<Rightarrow> string option" where
  "spark_label slots =
     (if spark_peak slots > 0 then Some (([CHR 0xEC, CHR 0xB5, CHR 0x9C, CHR 0xEA, CHR 0xB7, CHR 0xBC] @ '' 24'' @ [CHR 0xEC, CHR 0x8B, CHR 0x9C, CHR 0xEA, CHR 0xB0, CHR 0x84] @ '' '' @ [CHR 0xEC, CHR 0x98, CHR 0xA4, CHR 0xEB, CHR 0xA5, CHR 0x98, CHR 0xC2, CHR 0xB7, CHR 0xEA, CHR 0xB2, CHR 0xBD, CHR 0xEA, CHR 0xB3, CHR 0xA0] @ '' '' @ [CHR 0xEC, CHR 0xB6, CHR 0x94, CHR 0xEC, CHR 0x9D, CHR 0xB4] @ '', '' @ [CHR 0xEA, CHR 0xB0, CHR 0x80, CHR 0xEC, CHR 0x9E, CHR 0xA5] @ '' '' @ [CHR 0xEB, CHR 0xA7, CHR 0x8E, CHR 0xEC, CHR 0x9D, CHR 0x80] @ '' '' @ [CHR 0xEC, CHR 0x8B, CHR 0x9C, CHR 0xEA, CHR 0xB0, CHR 0x84, CHR 0xEB, CHR 0x8C, CHR 0x80] @ '' '') @ show_int (spark_peak slots) @ [CHR 0xEA, CHR 0xB1, CHR 0xB4]) else None)"

datatype collection_status = Collecting | Partial | Delayed | Waiting | Not_configured

definition collectionOf :: "log_service_summary option \<Rightarrow> int \<Rightarrow> collection_status" where
  "collectionOf summary windowStart =
     (let lastReceived = Option.bind summary lss_lastReceivedAt in
      if (case summary of Some s \<Rightarrow> lss_error s | None \<Rightarrow> 0) + (case summary of Some s \<Rightarrow> lss_warn s | None \<Rightarrow> 0) > 0 then Collecting
      else if \<not> truthy lastReceived then Waiting
      else case date_parse (the lastReceived) of
          Some t \<Rightarrow> if windowStart \<le> t then Collecting else Delayed
        | None \<Rightarrow> Delayed)"

text \<open>A card's counts, \<open>None\<close> where the card shows a dash, and its last line.\<close>

definition level_count :: "collection_status \<Rightarrow> int \<Rightarrow> int option" where
  "level_count c n = (if c = Collecting then Some n else None)"

datatype latest_line = Latest_log log_sample | Never_received | Quiet_since string bool

definition LatestLine :: "log_service_summary option \<Rightarrow> bool \<Rightarrow> latest_line" where
  "LatestLine summary known =
     (case Option.bind summary lss_latest of
        Some l \<Rightarrow> Latest_log l
      | None \<Rightarrow> (let lastReceived = Option.bind summary lss_lastReceivedAt in
          if truthy lastReceived then Quiet_since (the lastReceived) known else Never_received))"

datatype log_status = Log_stopped | Log_collection collection_status

definition LogStatus :: "log_service_row \<Rightarrow> int \<Rightarrow> log_status" where
  "LogStatus row windowStart = (if lw_stopped row then Log_stopped else Log_collection (collectionOf (lw_summary row) windowStart))"

definition pattern_is_new :: "log_pattern \<Rightarrow> int \<Rightarrow> bool" where
  "pattern_is_new p windowStart = (case date_parse (lp_firstSeen p) of Some t \<Rightarrow> windowStart \<le> t | None \<Rightarrow> False)"

definition pattern_to :: "log_pattern_row \<Rightarrow> string" where
  "pattern_to x = lw_to (pw_row x) @ ''&pattern='' @ encodeURIComponent (lp_fingerprint (pw_pattern x))"

datatype pattern_section = Patterns_failed | Patterns_hidden | Patterns_shown "log_pattern_row list"

definition pattern_section :: "log_pattern_row list option \<Rightarrow> pattern_section" where
  "pattern_section ps =
     (case ps of None \<Rightarrow> Patterns_failed | Some xs \<Rightarrow> if xs = [] then Patterns_hidden else Patterns_shown xs)"

section \<open>The page\<close>

text \<open>What the three requests gave: the first two decide, the patterns only add.\<close>

type_synonym logs_answer = "thrown + (observed_service list \<times> log_service_summary list \<times> log_pattern list option)"

record logs_page =
  gp_rows :: "log_service_row list"
  gp_patterns :: "log_pattern_row list option"
  gp_span :: "int \<times> int"
  gp_loading :: bool
  gp_error :: "string option"
  gp_reloadKey :: nat
  gp_pending :: "nat list"

definition logs_page_calls :: "string list" where
  "logs_page_calls =
     [ac_endpoint (getObservedServices (Some Sig_logs)), ac_endpoint getLogSummary, ac_endpoint (getLogPatterns None None)]"

definition direct_row :: "observed_service \<Rightarrow> log_service_row" where
  "direct_row service =
     \<lparr>lw_key = logScopeKey (Some (os_id service)) None None, lw_name = os_name service, lw_subtitle = None,
      lw_stopped = (\<not> os_isActive service), lw_to = ''/logs/'' @ os_id service @ ''?range=24h'', lw_summary = None\<rparr>"

definition logs_mounted :: logs_page where
  "logs_mounted =
     \<lparr>gp_rows = [], gp_patterns = Some [], gp_span = (0, 0), gp_loading = True, gp_error = None, gp_reloadKey = 0,
      gp_pending = [0]\<rparr>"

definition logs_reload :: "logs_page \<Rightarrow> logs_page" where
  "logs_reload s = s\<lparr>gp_reloadKey := Suc (gp_reloadKey s), gp_pending := gp_pending s @ [Suc (gp_reloadKey s)]\<rparr>"

definition logs_answered :: "int \<Rightarrow> nat \<Rightarrow> logs_answer \<Rightarrow> logs_page \<Rightarrow> logs_page" where
  "logs_answered now q r s =
     (let s = s\<lparr>gp_pending := remove1 q (gp_pending s)\<rparr> in
      if q \<noteq> gp_reloadKey s then s
      else case r of
          Inl e \<Rightarrow> s\<lparr>gp_error := Some (getErrorMessage e), gp_loading := False\<rparr>
        | Inr (directServices, summaries, patternRows) \<Rightarrow>
            (let (rows, ps, win) = withLogSummaries now (map direct_row directServices) summaries (or_default patternRows [])
             in s\<lparr>gp_error := None, gp_span := win, gp_rows := rows,
                  gp_patterns := (case patternRows of None \<Rightarrow> None | Some _ \<Rightarrow> Some ps), gp_loading := False\<rparr>))"

datatype logs_view = Logs_loading | Logs_failed string | Logs_empty
  | Logs_shown "log_service_row list" "log_pattern_row list option" "int \<times> int"

definition logs_view :: "logs_page \<Rightarrow> logs_view" where
  "logs_view s =
     (if gp_loading s then Logs_loading
      else if truthy (gp_error s) then Logs_failed (the (gp_error s))
      else if gp_rows s = [] then Logs_empty
      else Logs_shown (gp_rows s) (gp_patterns s) (gp_span s))"

text \<open>A run of the page, with the time and the result of the last answer it took.\<close>

inductive logs_run :: "logs_page \<Rightarrow> (int \<times> logs_answer) option \<Rightarrow> bool" where
  mounted: "logs_run logs_mounted None"
| reload: "logs_run s l \<Longrightarrow> logs_run (logs_reload s) l"
| answered: "logs_run s l \<Longrightarrow> q \<in> set (gp_pending s) \<Longrightarrow>
    logs_run (logs_answered now q r s) (if q = gp_reloadKey s then Some (now, r) else l)"

definition logs_view_of :: "int \<Rightarrow> logs_answer \<Rightarrow> logs_view \<Rightarrow> bool" where
  "logs_view_of now r v =
     (case r of
        Inl e \<Rightarrow> getErrorMessage e \<noteq> [] \<longrightarrow> v = Logs_failed (getErrorMessage e)
      | Inr (ds, summaries, ps) \<Rightarrow>
          (let rows = log_rows (map direct_row ds) summaries in
           v = (if ds = [] then Logs_empty
                else Logs_shown rows (map_option (pattern_rows rows) ps) (now - WINDOW_MS, now))))"

definition logs_ok :: "logs_page \<Rightarrow> (int \<times> logs_answer) option \<Rightarrow> bool" where
  "logs_ok s l \<longleftrightarrow>
     gp_loading s = (l = None) \<and> (if gp_loading s then gp_reloadKey s \<in> set (gp_pending s) else True)
     \<and> list_all (\<lambda>q. q \<le> gp_reloadKey s) (gp_pending s) \<and> distinct (gp_pending s)
     \<and> pred_option (\<lambda>a. logs_view_of (fst a) (snd a) (logs_view s)) l"

lemma log_rows_empty [simp]: "log_rows base summaries = [] \<longleftrightarrow> base = []"
  by (simp add: log_rows_def)

lemma logs_ok_step: "logs_run s l \<Longrightarrow> logs_ok s l"
proof (induction rule: logs_run.induct)
  case mounted
  then show ?case by (simp add: logs_ok_def logs_mounted_def)
next
  case (reload s l)
  then show ?case by (auto simp: logs_ok_def logs_reload_def logs_view_def list_all_iff)
next
  case (answered s l q now r)
  have frame: "logs_view (s\<lparr>gp_pending := ps\<rparr>) = logs_view s" for ps by (simp add: logs_view_def)
  have le: "list_all (\<lambda>q. q \<le> gp_reloadKey s) (remove1 q (gp_pending s))"
    using answered.IH by (simp add: logs_ok_def list_all_remove1)
  show ?case
  proof (cases "q = gp_reloadKey s")
    case False
    then show ?thesis using answered le by (auto simp: logs_ok_def logs_answered_def Let_def frame)
  next
    case True
    show ?thesis using True answered.IH le
      by (cases r) (auto simp: logs_ok_def logs_answered_def Let_def logs_view_of_def logs_view_def withLogSummaries_def
          split: option.splits)
  qed
qed

section \<open>What the overview shows\<close>

lemma map_of_keyed: "map_of (map (\<lambda>x. (f x, x)) xs) k = find (\<lambda>x. f x = k) xs"
  by (induction xs) auto

text \<open>\<open>new Map(xs.map(x => [key(x), x])).get(k)\<close> is the last element with that key.\<close>

lemma map_from_keyed: "map_of (map_from (map (\<lambda>x. (f x, x)) xs)) k = find (\<lambda>x. f x = k) (rev xs)"
  by (simp add: map_of_map_from rev_map map_of_keyed)

lemma find_last_distinct: "distinct (map f xs) \<Longrightarrow> x \<in> set xs \<Longrightarrow> find (\<lambda>y. f y = f x) (rev xs) = Some x"
  using map_from_keyed [of f xs "f x"] map_of_is_SomeI [of "rev (map (\<lambda>x. (f x, x)) xs)" "f x" x]
  by (simp add: map_of_map_from comp_def rev_map [symmetric])

lemma pattern_rows_eq:
  "pattern_rows rows ps =
     List.map_filter (\<lambda>p. map_option (\<lambda>row. \<lparr>pw_pattern = p, pw_row = row\<rparr>) (find (\<lambda>row. lw_key row = pattern_key p) (rev rows))) ps"
  by (simp add: pattern_rows_def map_from_keyed Let_def)

lemma with_summary_key [simp]: "lw_key (with_summary summaries row) = lw_key row"
  by (simp add: with_summary_def)

text \<open>The overview lists every service of the list once with the last summary given for it, the most
  errors first, then the most warnings, ties as listed; a pattern is shown exactly when its service
  is listed, in the order given, and leads to that service.\<close>

theorem log_rows_exact:
  "case withLogSummaries now base summaries ps of (rows, found, win) \<Rightarrow>
      mset (map (\<lambda>row. row\<lparr>lw_summary := None\<rparr>) rows) = mset (map (\<lambda>row. row\<lparr>lw_summary := None\<rparr>) base)
      \<and> list_all (\<lambda>row. lw_summary row = find (\<lambda>s. summary_key s = lw_key row) (rev summaries)) rows
      \<and> sorted_wrt log_row_le rows
      \<and> (\<forall>e w. filter (\<lambda>row. row_errors row = e \<and> row_warns row = w) rows
           = filter (\<lambda>row. row_errors row = e \<and> row_warns row = w) (map (with_summary summaries) base))
      \<and> map pw_pattern found = filter (\<lambda>p. pattern_key p \<in> lw_key ` set base) ps
      \<and> list_all (\<lambda>x. pw_row x \<in> set rows \<and> lw_key (pw_row x) = pattern_key (pw_pattern x)) found"
proof -
  let ?rows = "log_rows base summaries"
  have set: "set ?rows = with_summary summaries ` set base" by (simp add: log_rows_def)
  have keys: "lw_key ` set ?rows = lw_key ` set base" by (simp add: set image_image)
  have 1: "mset (map (\<lambda>row. row\<lparr>lw_summary := None\<rparr>) ?rows) = mset (map (\<lambda>row. row\<lparr>lw_summary := None\<rparr>) base)"
    by (simp add: log_rows_def multiset.map_comp comp_def with_summary_def)
  have 2: "list_all (\<lambda>row. lw_summary row = find (\<lambda>s. summary_key s = lw_key row) (rev summaries)) ?rows"
    by (simp add: list_all_iff set with_summary_def map_from_keyed)
  have 3: "sorted_wrt log_row_le ?rows"
    unfolding log_rows_def log_row_le_def by (rule lex_desc.sorted_sort)
  have 4: "filter (\<lambda>row. row_errors row = e \<and> row_warns row = w) ?rows
      = filter (\<lambda>row. row_errors row = e \<and> row_warns row = w) (map (with_summary summaries) base)" for e w
  proof (cases "\<exists>a \<in> set ?rows. row_errors a = e \<and> row_warns a = w")
    case True
    then obtain a where a: "row_errors a = e" "row_warns a = w" by blast
    have "total_preorder.tied log_row_le a = (\<lambda>row. row_errors row = e \<and> row_warns row = w)"
      unfolding log_row_le_def using a by (auto simp: fun_eq_iff lex_desc.tied_def or_else_def by_key_desc_def)
    then show ?thesis
      using lex_desc.sort_stable [of row_errors row_warns a "map (with_summary summaries) base"]
      by (simp add: log_rows_def log_row_le_def)
  next
    case False
    then have "filter (\<lambda>row. row_errors row = e \<and> row_warns row = w) ?rows = []"
      "filter (\<lambda>row. row_errors row = e \<and> row_warns row = w) (map (with_summary summaries) base) = []"
      by (auto simp: filter_empty_conv log_rows_def)
    then show ?thesis by simp
  qed
  have find: "find (\<lambda>row. lw_key row = k) (rev ?rows) = None \<longleftrightarrow> k \<notin> lw_key ` set base" for k
    unfolding keys [symmetric] by (auto simp: find_None_iff)
  have 5: "map pw_pattern (pattern_rows ?rows ps) = filter (\<lambda>p. pattern_key p \<in> lw_key ` set base) ps"
    unfolding pattern_rows_eq
  proof (induction ps)
    case (Cons p ps)
    then show ?case using find [of "pattern_key p"]
      by (cases "find (\<lambda>row. lw_key row = pattern_key p) (rev ?rows)") (simp_all add: map_filter_simps)
  qed (simp add: map_filter_simps)
  have 6: "list_all (\<lambda>x. pw_row x \<in> set ?rows \<and> lw_key (pw_row x) = pattern_key (pw_pattern x)) (pattern_rows ?rows ps)"
    unfolding pattern_rows_eq
  proof (induction ps)
    case (Cons p ps)
    then show ?case
      by (cases "find (\<lambda>row. lw_key row = pattern_key p) (rev ?rows)") (auto simp: map_filter_simps dest: find_Some_iff_set)
  qed (simp add: map_filter_simps)
  show ?thesis using 1 2 3 4 5 6 by (simp add: withLogSummaries_def Let_def)
qed

text \<open>Scopes with different agents or services have different keys, unless an agent id contains a colon.\<close>

lemma logScopeKey_inject:
  assumes "logScopeKey (Some i) (Some a) (Some n) = logScopeKey (Some i') (Some a') (Some n')"
    and "CHR '':'' \<notin> set a" "CHR '':'' \<notin> set a'"
  shows "a = a'" "if a = [] then i = i' else n = n'"
proof -
  have cut: "takeWhile (\<lambda>c. c \<noteq> CHR '':'') (x @ CHR '':'' # y) = x" if "CHR '':'' \<notin> set x" for x y :: string
    using that by (induction x) auto
  have split: "a = a' \<and> n = n'" if "a @ CHR '':'' # n = a' @ CHR '':'' # n'"
  proof -
    have "a = a'" using arg_cong [OF that, of "takeWhile (\<lambda>c. c \<noteq> CHR '':'')"] unfolding cut [OF assms(2)] cut [OF assms(3)] .
    then show ?thesis using that by simp
  qed
  show "a = a'" "if a = [] then i = i' else n = n'"
    using assms(1) split by (auto simp: logScopeKey_def split: if_splits)
qed

text \<open>The bars of an hour fit their track, and on a quiet day a bar stays low: ten percent per line.\<close>

theorem spark_bars_fit:
  assumes "slot \<in> set slots" "list_all (\<lambda>b. 0 \<le> hb_error (snd b) \<and> 0 \<le> hb_warn (snd b)) slots"
  shows "0 \<le> spark_bar slots (hb_error (snd slot)) \<and> 0 \<le> spark_bar slots (hb_warn (snd slot))
    \<and> spark_bar slots (hb_error (snd slot)) + spark_bar slots (hb_warn (snd slot)) \<le> 100
    \<and> spark_bar slots (hb_warn (snd slot)) \<le> 10 * of_int (hb_warn (snd slot))"
proof -
  have nn: "0 \<le> hb_error (snd slot)" "0 \<le> hb_warn (snd slot)" using assms by (auto simp: list_all_iff)
  have s: "(10 :: rat) \<le> of_int (spark_scale slots)" by (simp add: spark_scale_def SPARKLINE_MIN_SCALE_def)
  have "spark_count slot \<le> spark_scale slots"
    using assms(1) fold_max_le(2) [of "spark_count slot" "map spark_count slots" 0]
    by (auto simp: spark_scale_def spark_peak_def)
  then have sum: "of_int (hb_error (snd slot)) + of_int (hb_warn (snd slot)) \<le> (of_int (spark_scale slots) :: rat)"
    by (simp add: spark_count_def flip: of_int_add)
  have w: "(0 :: rat) \<le> of_int (hb_warn (snd slot))" "(0 :: rat) \<le> of_int (hb_error (snd slot))" using nn by simp_all
  have "of_int (hb_warn (snd slot)) / of_int (spark_scale slots) \<le> (of_int (hb_warn (snd slot)) / 10 :: rat)"
    by (rule divide_left_mono [OF s w(1)]) (use s in simp)
  then show ?thesis using w sum s by (simp add: spark_bar_def field_simps)
qed

text \<open>A card shows a count, not a dash, exactly when errors or warnings were counted or a log came in the window.\<close>

theorem count_known:
  assumes "0 \<le> lss_error x" "0 \<le> lss_warn x"
  shows "level_count (collectionOf (Some x) from) n \<noteq> None
    \<longleftrightarrow> lss_error x > 0 \<or> lss_warn x > 0 \<or> pred_option (\<lambda>r. r \<noteq> [] \<and> date_parse r \<noteq> None \<and> from \<le> the (date_parse r))
          (Some (or_default (lss_lastReceivedAt x) []))"
  using assms by (cases "lss_lastReceivedAt x") (auto simp: level_count_def collectionOf_def Let_def split: option.splits)

text \<open>Whatever is reloaded and whatever order answers come in, the page loads until an answer to its
  latest reload came, and then shows what the last answer taken gave; that answer was to the reload
  latest at its time.\<close>

theorem logs_page_current:
  assumes "logs_run s l"
  shows "(logs_view s = Logs_loading \<longleftrightarrow> l = None)
    \<and> pred_option (\<lambda>a. logs_view_of (fst a) (snd a) (logs_view s)) l
    \<and> (l = None \<longrightarrow> gp_reloadKey s \<in> set (gp_pending s))"
  using logs_ok_step [OF assms] by (auto simp: logs_ok_def logs_view_def)

end
