(* ===== verification/EU_Environments.thy ===== *)
theory EU_Environments imports EU_LogOverview EU_MetricRead EU_Status EU_Nav
begin

text \<open>
  The Docker environments: the list \<open>pages/services/ServiceGridPage.tsx\<close> and the page of one
  environment, \<open>pages/services/ProjectDetailPage.tsx\<close>.  \<open>nt\<close> is the text of a number.
\<close>

section \<open>The list of environments\<close>

definition agentOnline :: "int \<Rightarrow> connected_agent \<Rightarrow> bool" where
  "agentOnline now agent = (case date_parse (ag_lastSeenAt agent) of Some t \<Rightarrow> now - t < 2 * 60 * 1000 | None \<Rightarrow> False)"

type_synonym named_agent = "string \<times> string"

record environments =
  en_services :: "agent_service_flat list"
  en_agents :: "connected_agent list"
  en_overview :: "(string \<times> agent_overview) list"
  en_loading :: bool
  en_error :: "string option"
  en_params :: "search_params"
  en_showAdd :: bool
  en_install :: "named_agent option"
  en_instrumentation :: "string option"
  en_key :: "named_agent option"
  en_deleteTarget :: "named_agent option"
  en_deleting :: "string list"
  en_rollups :: nat
  en_lists :: nat

definition en_search :: "environments \<Rightarrow> string" where
  "en_search s = or_default (sp_get (en_params s) ''q'') []"

definition set_search :: "string \<Rightarrow> environments \<Rightarrow> environments" where
  "set_search v s = s\<lparr>en_params := (if v \<noteq> [] then sp_set ''q'' v (en_params s) else sp_delete ''q'' (en_params s))\<rparr>"

text \<open>\<open>en_rollups\<close> and \<open>en_lists\<close> count the requests in flight; a load begins one of each.\<close>

definition environments_load :: "environments \<Rightarrow> environments" where
  "environments_load s = s\<lparr>en_rollups := Suc (en_rollups s), en_lists := Suc (en_lists s)\<rparr>"

text \<open>Mounting reads \<open>?connect=docker\<close>, removes it from the address and loads.\<close>

definition environments_mounted :: "search_params \<Rightarrow> environments" where
  "environments_mounted params =
     environments_load
       \<lparr>en_services = [], en_agents = [], en_overview = [], en_loading = True, en_error = None,
        en_params = (if sp_get params ''connect'' \<noteq> None then sp_delete ''connect'' params else params),
        en_showAdd = (sp_get params ''connect'' = Some ''docker''), en_install = None, en_instrumentation = None,
        en_key = None, en_deleteTarget = None, en_deleting = [], en_rollups = 0, en_lists = 0\<rparr>"

definition rollup_answered :: "thrown + agent_overview list \<Rightarrow> environments \<Rightarrow> environments" where
  "rollup_answered r s =
     (let s = s\<lparr>en_rollups := en_rollups s - 1\<rparr> in
      case r of Inr rows \<Rightarrow> s\<lparr>en_overview := map_from (map (\<lambda>o'. (ao_agentId o', o')) rows)\<rparr> | Inl _ \<Rightarrow> s)"

definition lists_answered ::
  "thrown + (agent_service_flat list \<times> connected_agent list) \<Rightarrow> environments \<Rightarrow> environments" where
  "lists_answered r s =
     (let s = s\<lparr>en_lists := en_lists s - 1, en_loading := False\<rparr> in
      case r of
        Inr (svcs, agts) \<Rightarrow> s\<lparr>en_services := svcs, en_agents := agts, en_error := None\<rparr>
      | Inl e \<Rightarrow> s\<lparr>en_error := Some (getErrorMessage e)\<rparr>)"

definition handleDelete :: "string \<Rightarrow> environments \<Rightarrow> environments" where
  "handleDelete agentId s =
     s\<lparr>en_deleteTarget := Some (agentId, case find (\<lambda>a. ag_id a = agentId) (en_agents s) of Some a \<Rightarrow> ag_name a | None \<Rightarrow> agentId)\<rparr>"

text \<open>Confirming sends \<open>api.deleteAgent\<close>; its answer closes the dialog and, if it succeeded, loads.\<close>

definition confirmDelete :: "environments \<Rightarrow> environments" where
  "confirmDelete s =
     (case en_deleteTarget s of Some (i, _) \<Rightarrow> s\<lparr>en_deleting := en_deleting s @ [i]\<rparr> | None \<Rightarrow> s)"

definition delete_answered :: "string \<Rightarrow> thrown + unit \<Rightarrow> environments \<Rightarrow> environments" where
  "delete_answered i r s =
     (let s = s\<lparr>en_deleting := remove1 i (en_deleting s)\<rparr> in
      (case r of Inr _ \<Rightarrow> environments_load s | Inl _ \<Rightarrow> s)\<lparr>en_deleteTarget := None\<rparr>)"

text \<open>The dialogs: connecting a host, installing on a known one, its instrumentation and its key.\<close>

datatype grid_event = Connect_opened | Connect_closed | Install_opened named_agent | Install_closed
  | Connect_instruments string | Install_instruments string | Instrument_closed | Key_opened named_agent | Key_closed
  | Delete_closed

fun grid_dialog :: "grid_event \<Rightarrow> environments \<Rightarrow> environments" where
  "grid_dialog Connect_opened s = s\<lparr>en_showAdd := True\<rparr>"
| "grid_dialog Connect_closed s = s\<lparr>en_showAdd := False\<rparr>"
| "grid_dialog (Install_opened a) s = s\<lparr>en_install := Some a\<rparr>"
| "grid_dialog Install_closed s = s\<lparr>en_install := None\<rparr>"
| "grid_dialog (Connect_instruments i) s = s\<lparr>en_showAdd := False, en_instrumentation := Some i\<rparr>"
| "grid_dialog (Install_instruments i) s = s\<lparr>en_install := None, en_instrumentation := Some i\<rparr>"
| "grid_dialog Instrument_closed s = s\<lparr>en_instrumentation := None\<rparr>"
| "grid_dialog (Key_opened a) s = s\<lparr>en_key := Some a\<rparr>"
| "grid_dialog Key_closed s = s\<lparr>en_key := None\<rparr>"
| "grid_dialog Delete_closed s = s\<lparr>en_deleteTarget := None\<rparr>"

section \<open>Groups\<close>

record project_group =
  pg_agentId :: string
  pg_agent :: "connected_agent option"
  pg_agentName :: string
  pg_services :: "agent_service_flat list"

definition reportingAgentIds :: "environments \<Rightarrow> string set" where
  "reportingAgentIds s = sv_agentId ` set (en_services s)"

definition pendingAgents :: "environments \<Rightarrow> connected_agent list" where
  "pendingAgents s = filter (\<lambda>a. ag_id a \<notin> reportingAgentIds s) (en_agents s)"

definition connectedAgents :: "environments \<Rightarrow> connected_agent list" where
  "connectedAgents s = filter (\<lambda>a. ag_id a \<in> reportingAgentIds s) (en_agents s)"

definition byAgent :: "agent_service_flat list \<Rightarrow> (string \<times> agent_service_flat list) list" where
  "byAgent services = foldl (\<lambda>m s. AList.update (sv_agentId s) (or_default (map_of m (sv_agentId s)) [] @ [s]) m) [] services"

text \<open>The loop over the connected agents takes each one's services out of the map; what is left has no agent.\<close>

definition take_group ::
  "(string \<times> agent_service_flat list) list \<times> project_group list \<Rightarrow> connected_agent
    \<Rightarrow> (string \<times> agent_service_flat list) list \<times> project_group list" where
  "take_group acc agent =
     (AList.delete (ag_id agent) (fst acc),
      snd acc @ [\<lparr>pg_agentId = ag_id agent, pg_agent = Some agent, pg_agentName = ag_name agent,
                  pg_services = or_default (map_of (fst acc) (ag_id agent)) []\<rparr>])"

definition orphan_group :: "string \<times> agent_service_flat list \<Rightarrow> project_group" where
  "orphan_group e =
     \<lparr>pg_agentId = fst e, pg_agent = None,
      pg_agentName = (case snd e of s # _ \<Rightarrow> sf_agentName s | [] \<Rightarrow> fst e), pg_services = snd e\<rparr>"

definition allGroups :: "environments \<Rightarrow> project_group list" where
  "allGroups s =
     (let (left, groups) = foldl take_group (byAgent (en_services s), []) (connectedAgents s)
      in groups @ map orphan_group left)"

definition group_matches :: "string \<Rightarrow> project_group \<Rightarrow> bool" where
  "group_matches search g =
     (search = []
      \<or> (let q = to_lower search in
         str_includes q (to_lower (pg_agentName g))
         \<or> list_ex (\<lambda>s. str_includes q (to_lower (sv_name s)) \<or> str_includes q (to_lower (sv_endpoint s))) (pg_services g)))"

definition environment_groups :: "environments \<Rightarrow> project_group list" where
  "environment_groups s = filter (group_matches (en_search s)) (allGroups s)"

definition visiblePending :: "environments \<Rightarrow> connected_agent list" where
  "visiblePending s =
     filter (\<lambda>a. en_search s = [] \<or> str_includes (to_lower (en_search s)) (to_lower (ag_name a))) (pendingAgents s)"

record environment_row = project_group +
  er_pending :: bool
  er_rollup :: "agent_overview option"

definition environmentRows :: "environments \<Rightarrow> environment_row list" where
  "environmentRows s =
     map (\<lambda>g. project_group.extend g \<lparr>er_pending = False, er_rollup = map_of (en_overview s) (pg_agentId g)\<rparr>) (environment_groups s)
     @ map (\<lambda>a. \<lparr>pg_agentId = ag_id a, pg_agent = Some a, pg_agentName = ag_name a, pg_services = [],
                  er_pending = True, er_rollup = map_of (en_overview s) (ag_id a)\<rparr>) (visiblePending s)"

definition failing :: "agent_service_flat list \<Rightarrow> agent_service_flat list" where
  "failing services = filter (\<lambda>s. \<not> sv_healthy s) services"

definition card_collection :: "int \<Rightarrow> project_group \<Rightarrow> collection_status" where
  "card_collection now g = (if (case pg_agent g of Some a \<Rightarrow> agentOnline now a | None \<Rightarrow> True) then Collecting else Delayed)"

text \<open>The table shows \<open>None\<close> for an agent still to be installed.\<close>

definition row_collection :: "int \<Rightarrow> environment_row \<Rightarrow> collection_status option" where
  "row_collection now r =
     (if er_pending r then None
      else Some (if (case pg_agent r of Some a \<Rightarrow> agentOnline now a | None \<Rightarrow> False) then Collecting else Delayed))"

datatype environments_view = En_loading | En_none | En_no_match | En_listed

definition environments_view :: "environments \<Rightarrow> environments_view" where
  "environments_view s =
     (if en_loading s then En_loading
      else if \<not> truthy (en_error s) \<and> en_services s = [] \<and> en_agents s = [] then En_none
      else if environment_groups s = [] \<and> visiblePending s = [] then En_no_match
      else En_listed)"

section \<open>The page of one environment\<close>

definition formatMetricValue :: "(rat \<Rightarrow> string) \<Rightarrow> rat \<Rightarrow> string option \<Rightarrow> string" where
  "formatMetricValue nt v unit =
     (if unit = Some ''By''
      then (if \<bar>v\<bar> \<ge> 1024 ^ 3 then to_fixed 1 (v / 1024 ^ 3) @ ''GB''
            else if \<bar>v\<bar> \<ge> 1024 ^ 2 then to_fixed 1 (v / 1024 ^ 2) @ ''MB''
            else if \<bar>v\<bar> \<ge> 1024 then to_fixed 1 (v / 1024) @ ''KB''
            else show_int (math_round v) @ ''B'')
      else (let r = of_int (math_round (v * 100)) / 100 in
            if truthy unit \<and> unit \<noteq> Some ''1'' then nt r @ the unit else nt r))"

definition metricLabel :: "string \<Rightarrow> string" where
  "metricLabel name = (let parts = split_on CHR ''.'' name in join_with ''.'' (drop (length parts - 2) parts))"

text \<open>The requests of one load; each belongs to the environment it was begun for.\<close>

datatype project_request = Pr_logs | Pr_incidents | Pr_metrics | Pr_events | Pr_lists

record project_page =
  pj_agentId :: string
  pj_agent :: "connected_agent option"
  pj_services :: "agent_service_flat list"
  pj_loading :: bool
  pj_loadError :: "string option"
  pj_showKey :: bool
  pj_showInstall :: bool
  pj_showInstrumentation :: bool
  pj_addingCapability :: "agent_collection_capability option"
  pj_deleteConfirm :: bool
  pj_incidents :: "agent_incident list"
  pj_events :: "agent_event list"
  pj_metrics :: "(string \<times> otel_service_metric) list"
  pj_logData :: "(log_service_summary list \<times> log_pattern list) option"
  pj_refreshKey :: nat
  pj_pending :: "(project_request \<times> string) list"
  pj_deletes :: "string list"

definition project_calls :: "string \<Rightarrow> project_request \<Rightarrow> string list" where
  "project_calls agentId r =
     (case r of
        Pr_logs \<Rightarrow> [ac_endpoint getLogSummary, ac_endpoint (getLogPatterns (Some agentId) None)]
      | Pr_incidents \<Rightarrow> [ac_endpoint (getAgentIncidents agentId None None)]
      | Pr_metrics \<Rightarrow> [ac_endpoint (getAgentServiceMetrics agentId)]
      | Pr_events \<Rightarrow> [ac_endpoint (getAgentEvents agentId (Some 8))]
      | Pr_lists \<Rightarrow> [ac_endpoint getAgents, ac_endpoint getAllAgentServicesFlat])"

definition project_load :: "project_page \<Rightarrow> project_page" where
  "project_load s =
     (if pj_agentId s = [] then s
      else s\<lparr>pj_loadError := None,
             pj_pending := pj_pending s @ map (\<lambda>r. (r, pj_agentId s)) [Pr_logs, Pr_incidents, Pr_metrics, Pr_events, Pr_lists]\<rparr>)"

definition project_mounted :: "string \<Rightarrow> project_page" where
  "project_mounted agentId =
     project_load
       \<lparr>pj_agentId = agentId, pj_agent = None, pj_services = [], pj_loading = True, pj_loadError = None,
        pj_showKey = False, pj_showInstall = False, pj_showInstrumentation = False, pj_addingCapability = None,
        pj_deleteConfirm = False, pj_incidents = [], pj_events = [], pj_metrics = [], pj_logData = None,
        pj_refreshKey = 0, pj_pending = [], pj_deletes = []\<rparr>"

text \<open>A link to another environment keeps the page mounted: only the parameter changes and the effect loads.\<close>

definition project_navigate :: "string \<Rightarrow> project_page \<Rightarrow> project_page" where
  "project_navigate agentId s = (if agentId = pj_agentId s then s else project_load (s\<lparr>pj_agentId := agentId\<rparr>))"

definition project_refresh :: "project_page \<Rightarrow> project_page" where
  "project_refresh s = project_load (s\<lparr>pj_refreshKey := Suc (pj_refreshKey s)\<rparr>)"

definition settle_request :: "project_request \<Rightarrow> string \<Rightarrow> project_page \<Rightarrow> project_page" where
  "settle_request r a s = s\<lparr>pj_pending := remove1 (r, a) (pj_pending s)\<rparr>"

definition logs_of_project ::
  "string \<Rightarrow> thrown + (log_service_summary list \<times> log_pattern list) \<Rightarrow> project_page \<Rightarrow> project_page" where
  "logs_of_project a r s =
     (let s = settle_request Pr_logs a s in case r of Inr d \<Rightarrow> s\<lparr>pj_logData := Some d\<rparr> | Inl _ \<Rightarrow> s)"

definition incidents_of_project :: "string \<Rightarrow> thrown + agent_incident list \<Rightarrow> project_page \<Rightarrow> project_page" where
  "incidents_of_project a r s =
     (let s = settle_request Pr_incidents a s in case r of Inr d \<Rightarrow> s\<lparr>pj_incidents := d\<rparr> | Inl _ \<Rightarrow> s)"

definition metrics_of_project :: "string \<Rightarrow> thrown + otel_service_metric list \<Rightarrow> project_page \<Rightarrow> project_page" where
  "metrics_of_project a r s =
     (let s = settle_request Pr_metrics a s in
      case r of Inr rows \<Rightarrow> s\<lparr>pj_metrics := map_from (map (\<lambda>m. (sm_serviceName m, m)) rows)\<rparr> | Inl _ \<Rightarrow> s)"

definition events_of_project :: "string \<Rightarrow> thrown + agent_event list \<Rightarrow> project_page \<Rightarrow> project_page" where
  "events_of_project a r s =
     (let s = settle_request Pr_events a s in case r of Inr d \<Rightarrow> s\<lparr>pj_events := d\<rparr> | Inl _ \<Rightarrow> s)"

definition lists_of_project ::
  "string \<Rightarrow> thrown + (connected_agent list \<times> agent_service_flat list) \<Rightarrow> project_page \<Rightarrow> project_page" where
  "lists_of_project a r s =
     (let s = (settle_request Pr_lists a s)\<lparr>pj_loading := False\<rparr> in
      case r of
        Inr (agents, all) \<Rightarrow>
          s\<lparr>pj_agent := find (\<lambda>x. ag_id x = a) agents, pj_services := filter (\<lambda>v. sv_agentId v = a) all\<rparr>
      | Inl e \<Rightarrow> s\<lparr>pj_loadError := Some (getErrorMessage e)\<rparr>)"

text \<open>Confirming deletes the environment of the address; its answer closes the dialog, and a success leaves the page.\<close>

definition handleConfirmDelete :: "project_page \<Rightarrow> project_page" where
  "handleConfirmDelete s =
     (if \<not> pj_deleteConfirm s \<or> pj_agentId s = [] then s else s\<lparr>pj_deletes := pj_deletes s @ [pj_agentId s]\<rparr>)"

text \<open>The toolbar with the delete button is there only for a known agent.\<close>

definition delete_pressed :: "project_page \<Rightarrow> project_page" where
  "delete_pressed s = (if pj_loading s \<or> pj_agent s = None then s else s\<lparr>pj_deleteConfirm := True\<rparr>)"

definition delete_failed :: "string \<Rightarrow> project_page \<Rightarrow> project_page" where
  "delete_failed a s = s\<lparr>pj_deletes := remove1 a (pj_deletes s), pj_deleteConfirm := False\<rparr>"

definition close_confirm :: "project_page \<Rightarrow> project_page" where
  "close_confirm s = s\<lparr>pj_deleteConfirm := False\<rparr>"

text \<open>The other dialogs of the toolbar; a new capability is applied by installing, and the page loads.\<close>

datatype project_event = Pe_key bool | Pe_install bool | Pe_instrumentation bool | Pe_capability "agent_collection_capability option"
  | Pe_install_instruments | Pe_capability_applied

fun project_dialog :: "project_event \<Rightarrow> project_page \<Rightarrow> project_page" where
  "project_dialog (Pe_key b) s = s\<lparr>pj_showKey := b\<rparr>"
| "project_dialog (Pe_install b) s = s\<lparr>pj_showInstall := b\<rparr>"
| "project_dialog (Pe_instrumentation b) s = s\<lparr>pj_showInstrumentation := b\<rparr>"
| "project_dialog (Pe_capability c) s = s\<lparr>pj_addingCapability := c\<rparr>"
| "project_dialog Pe_install_instruments s = s\<lparr>pj_showInstall := False, pj_showInstrumentation := True\<rparr>"
| "project_dialog Pe_capability_applied s = project_load (s\<lparr>pj_addingCapability := None, pj_showInstall := True\<rparr>)"

definition collects :: "project_page \<Rightarrow> agent_collection_capability \<Rightarrow> bool" where
  "collects s c =
     (case Option.bind (pj_agent s) ag_profile of
        None \<Rightarrow> True
      | Some p \<Rightarrow> pf_capabilities p = [] \<or> c \<in> set (pf_capabilities p))"

definition service_log_row :: "string \<Rightarrow> agent_service_flat \<Rightarrow> log_service_row" where
  "service_log_row agentId s =
     \<lparr>lw_key = logScopeKey None (Some agentId) (Some (sv_name s)), lw_name = sv_name s,
      lw_subtitle = Some (or_default (sv_runtime s) (sv_checkType s)), lw_stopped = False,
      lw_to = ''/services/'' @ agentId @ ''/'' @ encodeURIComponent (sv_key s) @ ''?tab=logs&range=24h'', lw_summary = None\<rparr>"

definition logOverview ::
  "int \<Rightarrow> project_page \<Rightarrow> (log_service_row list \<times> log_pattern_row list \<times> (int \<times> int)) option" where
  "logOverview now s =
     (if pj_agentId s = [] then None
      else map_option (\<lambda>(summaries, ps). withLogSummaries now (map (service_log_row (pj_agentId s)) (pj_services s)) summaries ps) (pj_logData s))"

definition project_name :: "project_page \<Rightarrow> string" where
  "project_name s =
     (case pj_agent s of
        Some a \<Rightarrow> ag_name a
      | None \<Rightarrow> (case pj_services s of v # _ \<Rightarrow> sf_agentName v | [] \<Rightarrow> pj_agentId s))"

definition project_collection :: "int \<Rightarrow> project_page \<Rightarrow> collection_status" where
  "project_collection now s =
     (if (case pj_agent s of Some a \<Rightarrow> agentOnline now a | None \<Rightarrow> True) then Collecting else Delayed)"

definition healthy_count :: "project_page \<Rightarrow> nat" where
  "healthy_count s = length (filter sv_healthy (pj_services s))"

definition activeIncidents :: "project_page \<Rightarrow> agent_incident list" where
  "activeIncidents s = filter ai_active (pj_incidents s)"

text \<open>The banner names the first incident in progress and how many more there are.\<close>

definition incident_banner :: "project_page \<Rightarrow> (string \<times> agent_incident \<times> nat) option" where
  "incident_banner s =
     (case activeIncidents s of
        [] \<Rightarrow> None
      | i # others \<Rightarrow> Some (''/services/'' @ pj_agentId s @ ''/'' @ encodeURIComponent (ai_key i), i, length others))"

definition delete_message :: "project_page \<Rightarrow> string" where
  "delete_message s =
     [CHR 0x27] @ (case pj_agent s of Some a \<Rightarrow> ag_name a | None \<Rightarrow> pj_agentId s) @ [CHR 0x27] @ ('' Docker '' @ [CHR 0xED, CHR 0x99, CHR 0x98, CHR 0xEA, CHR 0xB2, CHR 0xBD, CHR 0xEC, CHR 0x9D, CHR 0x84] @ '' '' @ [CHR 0xEB, CHR 0xB9, CHR 0x84, CHR 0xED, CHR 0x99, CHR 0x9C, CHR 0xEC, CHR 0x84, CHR 0xB1, CHR 0xED, CHR 0x99, CHR 0x94, CHR 0xED, CHR 0x95, CHR 0x98, CHR 0xEC, CHR 0x8B, CHR 0x9C, CHR 0xEA, CHR 0xB2, CHR 0xA0, CHR 0xEC, CHR 0x8A, CHR 0xB5, CHR 0xEB, CHR 0x8B, CHR 0x88, CHR 0xEA, CHR 0xB9, CHR 0x8C] @ ''?'')"

inductive project_step :: "project_page \<Rightarrow> project_page \<Rightarrow> bool" where
  navigate: "project_step s (project_navigate a s)"
| refresh: "project_step s (project_refresh s)"
| load: "project_step s (project_load s)"
| logs: "(Pr_logs, a) \<in> set (pj_pending s) \<Longrightarrow> project_step s (logs_of_project a r s)"
| incidents: "(Pr_incidents, a) \<in> set (pj_pending s) \<Longrightarrow> project_step s (incidents_of_project a r' s)"
| metrics: "(Pr_metrics, a) \<in> set (pj_pending s) \<Longrightarrow> project_step s (metrics_of_project a r'' s)"
| events: "(Pr_events, a) \<in> set (pj_pending s) \<Longrightarrow> project_step s (events_of_project a r''' s)"
| lists: "(Pr_lists, a) \<in> set (pj_pending s) \<Longrightarrow> project_step s (lists_of_project a r'''' s)"
| dialog: "project_step s (project_dialog e s)"
| press: "project_step s (delete_pressed s)"
| confirm: "project_step s (handleConfirmDelete s)"
| failed: "a \<in> set (pj_deletes s) \<Longrightarrow> project_step s (delete_failed a s)"
| close: "project_step s (close_confirm s)"

section \<open>Groups hold every service once\<close>

lemma byAgent_lookup:
  "map_of (byAgent vs) k = (let own = filter (\<lambda>v. sv_agentId v = k) vs in if own = [] then None else Some own)"
proof -
  have "foldl (\<lambda>e x. Some (or_default e [] @ [x])) e xs = (if xs = [] then e else Some (or_default e [] @ xs))" for e and xs :: "agent_service_flat list"
    by (induction xs arbitrary: e) auto
  then show ?thesis by (simp add: byAgent_def foldl_grouped [where g = "\<lambda>e x. or_default e [] @ [x]"] Let_def)
qed

lemma byAgent_distinct: "distinct (map fst (byAgent vs))"
proof -
  have "distinct (map fst (foldl (\<lambda>m s. AList.update (sv_agentId s) (or_default (map_of m (sv_agentId s)) [] @ [s]) m) m vs))"
    if "distinct (map fst m)" for m :: "(string \<times> agent_service_flat list) list"
    using that by (induction vs arbitrary: m) auto
  then show ?thesis by (simp add: byAgent_def)
qed

lemma byAgent_entry: "e \<in> set (byAgent vs) \<Longrightarrow> snd e = filter (\<lambda>v. sv_agentId v = fst e) vs \<and> snd e \<noteq> []"
  using map_of_is_SomeI [OF byAgent_distinct, of "fst e" "snd e" vs] by (auto simp: byAgent_lookup Let_def split: if_splits)

lemma byAgent_keys: "fst ` set (byAgent vs) = sv_agentId ` set vs"
proof -
  have "k \<in> fst ` set (byAgent vs) \<longleftrightarrow> k \<in> sv_agentId ` set vs" for k
    using map_of_eq_None_iff [of "byAgent vs" k] by (auto simp: byAgent_lookup Let_def filter_empty_conv split: if_splits)
  then show ?thesis by blast
qed

lemma take_groups:
  assumes "distinct (map ag_id as)"
  shows "foldl take_group (m, gs) as =
    (filter (\<lambda>e. fst e \<notin> ag_id ` set as) m,
     gs @ map (\<lambda>a. \<lparr>pg_agentId = ag_id a, pg_agent = Some a, pg_agentName = ag_name a,
                     pg_services = or_default (map_of m (ag_id a)) []\<rparr>) as)"
  using assms
proof (induction as arbitrary: m gs)
  case (Cons a as)
  have "map_of (AList.delete (ag_id a) m) (ag_id b) = map_of m (ag_id b)" if "b \<in> set as" for b
    using Cons.prems that by (auto simp: rev_image_eqI)
  then show ?case using Cons by (auto simp: take_group_def AList.delete_eq intro: filter_cong)
qed simp

text \<open>Splitting a list by its keys loses nothing.\<close>

lemma mset_by_keys:
  assumes "distinct ks"
  shows "mset (concat (map (\<lambda>k. filter (\<lambda>v. f v = k) vs) ks)) = mset (filter (\<lambda>v. f v \<in> set ks) vs)"
  using assms
proof (induction ks)
  case (Cons k ks)
  have "mset (filter (\<lambda>v. f v = k) vs) + mset (filter (\<lambda>v. f v \<in> set ks) vs) = mset (filter (\<lambda>v. f v \<in> set (k # ks)) vs)"
    using Cons.prems by (induction vs) auto
  then show ?case using Cons by simp
qed simp

lemma allGroups_eq:
  assumes "distinct (map ag_id (en_agents s))"
  shows "allGroups s =
    map (\<lambda>a. \<lparr>pg_agentId = ag_id a, pg_agent = Some a, pg_agentName = ag_name a,
              pg_services = filter (\<lambda>v. sv_agentId v = ag_id a) (en_services s)\<rparr>) (connectedAgents s)
    @ map orphan_group (filter (\<lambda>e. fst e \<notin> ag_id ` set (connectedAgents s)) (byAgent (en_services s)))"
proof -
  have "distinct (map ag_id (connectedAgents s))" using assms by (simp add: connectedAgents_def distinct_map_filter)
  then show ?thesis
    by (simp add: allGroups_def take_groups byAgent_lookup Let_def)
qed

text \<open>C33: The list of environments shows every service in exactly one group, the group of its agent with all
  of that agent's services in order, and every agent exactly once, as a group or as still to be
  installed; services of an agent that is not listed form a group of their own.\<close>

theorem environments_exact:
  assumes "distinct (map ag_id (en_agents s))"
  shows "mset (concat (map pg_services (allGroups s))) = mset (en_services s)
    \<and> list_all (\<lambda>g. pg_services g = filter (\<lambda>v. sv_agentId v = pg_agentId g) (en_services s) \<and> pg_services g \<noteq> []
        \<and> pg_agent g = find (\<lambda>a. ag_id a = pg_agentId g) (en_agents s)) (allGroups s)
    \<and> distinct (map pg_agentId (allGroups s) @ map ag_id (pendingAgents s))
    \<and> set (map pg_agentId (allGroups s) @ map ag_id (pendingAgents s))
        = ag_id ` set (en_agents s) \<union> sv_agentId ` set (en_services s)"
proof -
  let ?orphans = "filter (\<lambda>e. fst e \<notin> ag_id ` set (connectedAgents s)) (byAgent (en_services s))"
  note eq = allGroups_eq [OF assms]
  have ids: "map pg_agentId (allGroups s) = map ag_id (connectedAgents s) @ map fst ?orphans"
    by (simp add: eq orphan_group_def comp_def)
  have found: "Some a = find (\<lambda>x. ag_id x = k) (en_agents s)" if "a \<in> set (en_agents s)" "ag_id a = k" for a k
    using find_last_distinct [of ag_id "rev (en_agents s)" a] assms that by (simp add: rev_map [symmetric])
  have orphan: "find (\<lambda>a. ag_id a = fst e) (en_agents s) = None" if "e \<in> set ?orphans" for e
  proof -
    have "fst e \<in> sv_agentId ` set (en_services s)" using that by (simp flip: byAgent_keys)
    then have "a \<in> set (connectedAgents s)" if "a \<in> set (en_agents s)" "ag_id a = fst e" for a
      using that by (simp add: connectedAgents_def reportingAgentIds_def)
    then show ?thesis using that by (simp add: find_None_iff image_iff) metis
  qed
  have own: "list_all (\<lambda>g. pg_services g = filter (\<lambda>v. sv_agentId v = pg_agentId g) (en_services s) \<and> pg_services g \<noteq> []
        \<and> pg_agent g = find (\<lambda>a. ag_id a = pg_agentId g) (en_agents s)) (allGroups s)"
    using orphan byAgent_entry
    by (auto simp: eq list_all_iff orphan_group_def connectedAgents_def reportingAgentIds_def filter_empty_conv intro!: found)
  have d: "distinct (map pg_agentId (allGroups s))"
    using assms byAgent_distinct [of "en_services s"]
    by (auto simp: ids connectedAgents_def distinct_map_filter)
  have all: "set (map pg_agentId (allGroups s)) = sv_agentId ` set (en_services s)"
  proof -
    have "fst ` set ?orphans = fst ` set (byAgent (en_services s)) - ag_id ` set (connectedAgents s)" by auto
    moreover have "ag_id ` set (connectedAgents s) \<subseteq> sv_agentId ` set (en_services s)"
      by (auto simp: connectedAgents_def reportingAgentIds_def)
    ultimately show ?thesis unfolding ids by (auto simp: byAgent_keys)
  qed
  have "concat (map pg_services (allGroups s)) = concat (map (\<lambda>k. filter (\<lambda>v. sv_agentId v = k) (en_services s)) (map pg_agentId (allGroups s)))"
    using own by (simp add: list_all_iff comp_def cong: map_cong)
  then have "mset (concat (map pg_services (allGroups s))) = mset (en_services s)"
    using all by (simp only: mset_by_keys [OF d]) (simp add: filter_True)
  moreover have "distinct (map ag_id (pendingAgents s))" using assms by (simp add: pendingAgents_def distinct_map_filter)
  moreover have "set (map ag_id (pendingAgents s)) = ag_id ` set (en_agents s) - sv_agentId ` set (en_services s)"
    by (auto simp: pendingAgents_def reportingAgentIds_def)
  ultimately show ?thesis using own d all by auto
qed

definition silent_agent :: "string \<Rightarrow> connected_agent" where
  "silent_agent i =
     \<lparr>ag_id = i, ag_name = i, ag_projectId = None, ag_version = None, ag_lastSeenAt = [], ag_createdAt = [], ag_updatedAt = [],
      ag_profile = None, ag_capabilities = None\<rparr>"

lemma environments_exact_witness:
  "mset (concat (map pg_services (allGroups ((environments_mounted [])\<lparr>en_agents := [silent_agent ''a'', silent_agent ''b'']\<rparr>)))) = {#}"
  using environments_exact [of "(environments_mounted [])\<lparr>en_agents := [silent_agent ''a'', silent_agent ''b'']\<rparr>"]
  by (simp add: silent_agent_def environments_mounted_def environments_load_def)

text \<open>A group whose agent is not listed is shown as collecting on its card and as delayed in the table.\<close>

lemma orphan_shown_twice:
  assumes "pg_agent g = None"
  shows "card_collection now g = Collecting"
    "row_collection now (project_group.extend g \<lparr>er_pending = False, er_rollup = r\<rparr>) = Some Delayed"
  using assms by (simp_all add: card_collection_def row_collection_def project_group.defs)

section \<open>One environment at a time\<close>

definition own_data :: "string \<Rightarrow> project_page \<Rightarrow> bool" where
  "own_data a s \<longleftrightarrow>
     pj_agentId s = a \<and> list_all (\<lambda>q. snd q = a) (pj_pending s) \<and> list_all (\<lambda>v. sv_agentId v = a) (pj_services s)
     \<and> pred_option (\<lambda>x. ag_id x = a) (pj_agent s) \<and> list_all (\<lambda>i. i = a) (pj_deletes s)"

lemma own_data_load: "own_data a s \<Longrightarrow> own_data a (project_load s)"
  by (auto simp: own_data_def project_load_def)

lemma own_data_mounted: "own_data a (project_mounted a)"
  unfolding project_mounted_def by (rule own_data_load) (simp add: own_data_def)

lemma own_data_settle: "own_data a s \<Longrightarrow> own_data a (settle_request r b s)"
  by (simp add: own_data_def settle_request_def list_all_remove1)

lemma own_data_step:
  assumes "project_step s s'" "pj_agentId s' = a" "own_data a s"
  shows "own_data a s'"
  using assms(1)
proof cases
  case (navigate b)
  then have "b = a" using assms(2) by (auto simp: project_navigate_def project_load_def split: if_splits)
  then show ?thesis using navigate assms(3) by (simp add: project_navigate_def own_data_def)
next
  case refresh
  have "own_data a (s\<lparr>pj_refreshKey := Suc (pj_refreshKey s)\<rparr>)" using assms(3) by (simp add: own_data_def)
  then show ?thesis unfolding refresh project_refresh_def by (rule own_data_load)
next
  case load
  then show ?thesis using assms(3) by (simp add: own_data_load)
next
  case (dialog e)
  have "own_data a (s\<lparr>pj_addingCapability := None, pj_showInstall := True\<rparr>)" using assms(3) by (simp add: own_data_def)
  from own_data_load [OF this] show ?thesis using assms(3) by (cases e) (simp_all add: dialog own_data_def)
next
  case (lists b r)
  have "b = a" using lists(2) assms(3) by (auto simp: own_data_def list_all_iff)
  moreover have "list_all (\<lambda>v. sv_agentId v = a) (filter (\<lambda>v. sv_agentId v = a) all)" for all :: "agent_service_flat list"
    by (simp add: list_all_iff)
  moreover have "pred_option (\<lambda>x. ag_id x = a) (find (\<lambda>x. ag_id x = a) agents)" for agents :: "connected_agent list"
    by (auto simp: option.pred_set dest: find_Some_iff_set)
  ultimately show ?thesis using own_data_settle [OF assms(3), of Pr_lists a]
    by (cases r) (auto simp: lists(1) lists_of_project_def own_data_def Let_def)
qed (use assms(3) own_data_settle [OF assms(3)] in \<open>auto simp: own_data_def logs_of_project_def incidents_of_project_def metrics_of_project_def
    events_of_project_def delete_pressed_def handleConfirmDelete_def delete_failed_def close_confirm_def list_all_remove1 Let_def
    split: sum.split\<close>)

text \<open>While the page of an environment is not led to another one, whatever is refreshed and in whatever
  order answers come, the agent, the services and what is deleted are that environment's.\<close>

theorem project_own_data:
  assumes "(\<lambda>s s'. project_step s s' \<and> pj_agentId s' = a)\<^sup>*\<^sup>* (project_mounted a) s"
  shows "list_all (\<lambda>v. sv_agentId v = a) (pj_services s) \<and> pred_option (\<lambda>x. ag_id x = a) (pj_agent s)
    \<and> list_all (\<lambda>i. i = a) (pj_deletes s)"
proof -
  have "own_data a s" using assms by (induction rule: rtranclp_induct) (auto intro: own_data_mounted own_data_step)
  then show ?thesis by (simp add: own_data_def)
qed

lemma project_own_data_witness:
  "list_all (\<lambda>v. sv_agentId v = ''a'') (pj_services (project_refresh (project_mounted ''a'')))"
proof -
  have "project_step (project_mounted ''a'') (project_refresh (project_mounted ''a''))
      \<and> pj_agentId (project_refresh (project_mounted ''a'')) = ''a''"
    by (rule conjI, rule project_step.refresh) (simp add: project_refresh_def project_mounted_def project_load_def)
  from r_into_rtranclp [of "\<lambda>s s'. project_step s s' \<and> pj_agentId s' = ''a''", OF this]
  show ?thesis using project_own_data by blast
qed

text \<open>C34: A link from one environment to another does not begin a new page, and answers are taken whatever
  they were asked for: the late answer to the first environment's request leaves its name on the
  second one's page with nothing of the lists in flight, and confirming its deletion there deletes
  the second.\<close>

theorem delete_names_other:
  fixes vs :: "agent_service_flat list"
  assumes "a \<noteq> []" "b \<noteq> []" "a \<noteq> b" "ag_id x = a" "ag_id y = b"
  defines "arrived \<equiv> lists_of_project a (Inr ([x, y], vs)) (lists_of_project b (Inr ([x, y], vs))
      (project_navigate b (project_mounted a)))"
  shows "project_step\<^sup>*\<^sup>* (project_mounted a) arrived \<and> Pr_lists \<notin> fst ` set (pj_pending arrived)
    \<and> pj_agentId arrived = b \<and> project_name arrived = ag_name x
    \<and> pj_deleteConfirm (delete_pressed arrived)
    \<and> pj_deletes (handleConfirmDelete (delete_pressed arrived)) = [b]"
proof -
  let ?s1 = "project_navigate b (project_mounted a)"
  let ?s2 = "lists_of_project b (Inr ([x, y], vs)) ?s1"
  have p1: "pj_pending ?s1 = map (\<lambda>r. (r, a)) [Pr_logs, Pr_incidents, Pr_metrics, Pr_events, Pr_lists]
      @ map (\<lambda>r. (r, b)) [Pr_logs, Pr_incidents, Pr_metrics, Pr_events, Pr_lists]"
    using assms(1-3) by (simp add: project_navigate_def project_mounted_def project_load_def)
  have p2: "(Pr_lists, a) \<in> set (pj_pending ?s2)"
    using assms(3) by (simp add: lists_of_project_def settle_request_def p1 Let_def)
  have "project_step (project_mounted a) ?s1" "project_step ?s1 ?s2" "project_step ?s2 arrived"
    using p1 p2 unfolding arrived_def by (auto intro: project_step.intros)
  then have "project_step\<^sup>*\<^sup>* (project_mounted a) arrived" by (meson converse_rtranclp_into_rtranclp r_into_rtranclp)
  moreover have "pj_pending arrived = [(Pr_logs, a), (Pr_incidents, a), (Pr_metrics, a), (Pr_events, a),
      (Pr_logs, b), (Pr_incidents, b), (Pr_metrics, b), (Pr_events, b)]"
    using assms(3) by (simp add: arrived_def lists_of_project_def settle_request_def p1 Let_def)
  moreover have "pj_agentId arrived = b" "pj_agent arrived = Some x" "\<not> pj_loading arrived" "pj_deletes arrived = []"
    using assms(1-5) by (simp_all add: arrived_def lists_of_project_def settle_request_def Let_def project_navigate_def
        project_mounted_def project_load_def)
  ultimately show ?thesis using assms(2)
    by (simp add: project_name_def delete_pressed_def handleConfirmDelete_def)
qed

lemma delete_names_other_witness:
  "project_name (lists_of_project ''a'' (Inr ([silent_agent ''a'', silent_agent ''b''], []))
     (lists_of_project ''b'' (Inr ([silent_agent ''a'', silent_agent ''b''], [])) (project_navigate ''b'' (project_mounted ''a''))))
   = ''a''"
  using delete_names_other [of "''a''" "''b''" "silent_agent ''a''" "silent_agent ''b''" "[]"] by (simp add: silent_agent_def)

end
