(* ===== verification/EU_Instrument.thy ===== *)
theory EU_Instrument imports EU_Setup EU_JsonText EU_Answers
begin

text \<open>
  The dialog that attaches OpenTelemetry to running Compose services
  (\<open>features/services/components/InstrumentationOverrideModal.tsx\<close>) and the state of its last run
  (\<open>InstrumentationRunStatus.tsx\<close>): what can be instrumented, the run recorded on the server, and
  the commands the user is given to paste.
\<close>

section \<open>What can be instrumented\<close>

definition INJECTABLE :: "string list" where
  "INJECTABLE = [''java'', ''node'']"

text \<open>A key is \<open>project:service\<close>, cut at the first colon.\<close>

definition composeTargetOf :: "string \<Rightarrow> (string \<times> string) option" where
  "composeTargetOf key =
     (case find_index (\<lambda>c. c = CHR '':'') key of
        None \<Rightarrow> None
      | Some i \<Rightarrow> if i = 0 \<or> i = length key - 1 then None else Some (take i key, drop (Suc i) key))"

record compose_target =
  ct_composeService :: string
  ct_runtime :: string
  ct_name :: string

definition injectable :: "agent_service_snapshot \<Rightarrow> bool" where
  "injectable v \<longleftrightarrow> (case sv_runtime v of Some r \<Rightarrow> r \<noteq> [] \<and> r \<in> set INJECTABLE | None \<Rightarrow> False)"

definition target_of :: "agent_service_snapshot \<Rightarrow> string \<Rightarrow> compose_target" where
  "target_of v service = \<lparr>ct_composeService = service, ct_runtime = or_default (sv_runtime v) [], ct_name = sv_name v\<rparr>"

type_synonym project_targets = "(string \<times> (string \<times> compose_target) list) list"

definition add_target :: "project_targets \<Rightarrow> agent_service_snapshot \<Rightarrow> project_targets" where
  "add_target m v =
     (if \<not> injectable v then m
      else case composeTargetOf (sv_key v) of
          None \<Rightarrow> m
        | Some (project, service) \<Rightarrow>
            (let projectTargets = or_default (map_of m project) [];
                 projectTargets = (if map_of projectTargets service = None
                                   then AList.update service (target_of v service) projectTargets else projectTargets)
             in AList.update project projectTargets m))"

definition targetsByProject :: "agent_service_snapshot list \<Rightarrow> project_targets" where
  "targetsByProject services = foldl add_target [] services"

definition composeProjects :: "agent_service_snapshot list \<Rightarrow> string list" where
  "composeProjects services = sort_by (by_key (\<lambda>x. x)) (map fst (targetsByProject services))"

section \<open>Commands\<close>

definition compose_path :: "string \<Rightarrow> string" where
  "compose_path p = (let t = js_trim p in if t \<noteq> [] then t else ''./docker-compose.yml'')"

definition install_cli :: "string \<Rightarrow> string" where
  "install_cli b =
     join_with '' && ''
       [''tmp='' @ [CHR 0x22] @ ''$(mktemp)'' @ [CHR 0x22],
        ''trap '' @ [CHR 0x27] @ ''rm -f '' @ [CHR 0x22] @ ''$tmp'' @ [CHR 0x22, CHR 0x27] @ '' EXIT'',
        ''curl -fsSL '' @ shellQuote (b @ ''/api/v1/agents/otel.sh'') @ '' -o '' @ [CHR 0x22] @ ''$tmp'' @ [CHR 0x22],
        ''sudo install -m 0755 '' @ [CHR 0x22] @ ''$tmp'' @ [CHR 0x22] @ '' /usr/local/bin/everyup-otel'']"

definition target_word :: "compose_target \<Rightarrow> string" where
  "target_word t = ct_composeService t @ ''='' @ ct_runtime t"

datatype otel_command = Plan | Apply

fun otel_command_text :: "otel_command \<Rightarrow> string" where
  "otel_command_text Plan = ''plan''"
| "otel_command_text Apply = ''apply''"

definition buildApplyCommand ::
  "string \<Rightarrow> string \<Rightarrow> compose_target list \<Rightarrow> bool \<Rightarrow> string \<Rightarrow> otel_command \<Rightarrow> string option \<Rightarrow> string" where
  "buildApplyCommand webBaseUrl composePath targets captureBodies project command reportRef =
     ''('' @ install_cli (install_base webBaseUrl) @ '') && sudo everyup-otel '' @ otel_command_text command @ '' ''
     @ shellQuote (compose_path composePath) @ '' --project='' @ shellQuote project
     @ (if truthy reportRef then '' --report='' @ shellQuote (the reportRef) else [])
     @ (if captureBodies then '' --capture-bodies'' else []) @ '' ''
     @ join_with '' '' (map (\<lambda>t. shellQuote (target_word t)) targets)"

definition manage_command :: "string \<Rightarrow> string \<Rightarrow> string" where
  "manage_command what composePath = ''sudo everyup-otel '' @ what @ '' '' @ shellQuote (compose_path composePath)"

section \<open>The dialog\<close>

text \<open>\<open>im_preparing\<close> holds the requests in flight, each with the signature of the form that began it.\<close>

type_synonym run_request = "string \<times> string list \<times> bool"

record instrument =
  im_services :: "agent_service_snapshot list"
  im_loading :: bool
  im_captureBodies :: bool
  im_baseUrl :: string
  im_composePath :: string
  im_composeProject :: string
  im_selectedKeys :: "string list"
  im_preparing :: "(string \<times> run_request) list"
  im_prepared :: "(instrumentation_run \<times> string) option"

definition instrument_opened :: "string \<Rightarrow> instrument" where
  "instrument_opened baseUrl =
     \<lparr>im_services = [], im_loading = True, im_captureBodies = False, im_baseUrl = baseUrl,
      im_composePath = ''./docker-compose.yml'', im_composeProject = [], im_selectedKeys = [], im_preparing = [],
      im_prepared = None\<rparr>"

definition services_answered :: "thrown + agent_service_snapshot list \<Rightarrow> instrument \<Rightarrow> instrument" where
  "services_answered r s = s\<lparr>im_services := (case r of Inr l \<Rightarrow> l | Inl _ \<Rightarrow> []), im_loading := False\<rparr>"

definition selectedProject :: "instrument \<Rightarrow> string" where
  "selectedProject s =
     (let ps = composeProjects (im_services s) in
      if im_composeProject s \<in> set ps then im_composeProject s else case ps of p # _ \<Rightarrow> p | [] \<Rightarrow> [])"

definition candidates :: "instrument \<Rightarrow> compose_target list" where
  "candidates s = map snd (or_default (map_of (targetsByProject (im_services s)) (selectedProject s)) [])"

definition target_key :: "string \<Rightarrow> compose_target \<Rightarrow> string" where
  "target_key project t = project @ '':'' @ ct_composeService t"

definition chosen :: "instrument \<Rightarrow> compose_target list" where
  "chosen s = filter (\<lambda>t. target_key (selectedProject s) t \<in> set (im_selectedKeys s)) (candidates s)"

definition skipped :: "instrument \<Rightarrow> agent_service_snapshot list" where
  "skipped s = filter (\<lambda>v. injectable v \<and> composeTargetOf (sv_key v) = None) (im_services s)"

definition hasJava :: "instrument \<Rightarrow> bool" where
  "hasJava s = list_ex (\<lambda>t. ct_runtime t = ''java'') (chosen s)"

definition run_keys :: "instrument \<Rightarrow> string list" where
  "run_keys s = map (target_key (selectedProject s)) (chosen s)"

definition toggle_key :: "string \<Rightarrow> bool \<Rightarrow> instrument \<Rightarrow> instrument" where
  "toggle_key k on s =
     s\<lparr>im_selectedKeys := (if on then im_selectedKeys s @ [k] else filter (\<lambda>x. x \<noteq> k) (im_selectedKeys s))\<rparr>"

definition signature_json :: "instrument \<Rightarrow> json" where
  "signature_json s =
     JArr [JStr (im_baseUrl s), JStr (im_composePath s), JStr (selectedProject s), JArr (map JStr (run_keys s)),
           JBool (im_captureBodies s)]"

definition signature :: "instrument \<Rightarrow> string" where
  "signature s = stringify (signature_json s)"

definition shown_plan :: "int \<Rightarrow> instrument \<Rightarrow> instrumentation_run option" where
  "shown_plan now s =
     (case im_prepared s of
        Some (run, sig) \<Rightarrow>
          if sig = signature s \<and> (case date_parse (run_createdAt run) of Some t \<Rightarrow> now - t < 3600000 | None \<Rightarrow> False)
          then Some run else None
      | None \<Rightarrow> None)"

definition planCommand :: "instrument \<Rightarrow> string" where
  "planCommand s =
     buildApplyCommand (im_baseUrl s) (im_composePath s) (chosen s) (im_captureBodies s) (selectedProject s) Plan None"

definition applyCommand :: "string \<Rightarrow> int \<Rightarrow> instrument \<Rightarrow> string" where
  "applyCommand agentId now s =
     (case shown_plan now s of
        Some run \<Rightarrow> buildApplyCommand (im_baseUrl s) (im_composePath s) (chosen s) (im_captureBodies s) (selectedProject s) Apply
          (Some (agentId @ ''/'' @ run_id run))
      | None \<Rightarrow> [])"

text \<open>The button is disabled without a target, an address or a path, and while it loads.\<close>

definition prepare_enabled :: "(string \<Rightarrow> url_parts option) \<Rightarrow> instrument \<Rightarrow> bool" where
  "prepare_enabled parse s \<longleftrightarrow>
     chosen s \<noteq> [] \<and> validConnectionUrl parse (im_baseUrl s) \<and> js_trim (im_composePath s) \<noteq> [] \<and> im_preparing s = []"

definition prepare :: "instrument \<Rightarrow> instrument" where
  "prepare s =
     s\<lparr>im_preparing := im_preparing s @ [(signature s, (selectedProject s, run_keys s, im_captureBodies s))]\<rparr>"

definition prepared :: "string \<times> run_request \<Rightarrow> thrown + instrumentation_run \<Rightarrow> instrument \<Rightarrow> instrument" where
  "prepared q r s =
     (let s = s\<lparr>im_preparing := remove1 q (im_preparing s)\<rparr> in
      case r of Inr run \<Rightarrow> s\<lparr>im_prepared := Some (run, fst q)\<rparr> | Inl _ \<Rightarrow> s)"

inductive instrument_step ::
  "(string \<Rightarrow> url_parts option) \<Rightarrow> (run_request \<Rightarrow> instrumentation_run \<Rightarrow> bool) \<Rightarrow> instrument \<Rightarrow> instrument \<Rightarrow> bool"
  for parse fits where
  services: "instrument_step parse fits s (services_answered r s)"
| toggle: "instrument_step parse fits s (toggle_key k on s)"
| project: "instrument_step parse fits s (s\<lparr>im_composeProject := p\<rparr>)"
| path: "instrument_step parse fits s (s\<lparr>im_composePath := p\<rparr>)"
| address: "instrument_step parse fits s (s\<lparr>im_baseUrl := b\<rparr>)"
| bodies: "instrument_step parse fits s (s\<lparr>im_captureBodies := c\<rparr>)"
| prepare: "prepare_enabled parse s \<Longrightarrow> instrument_step parse fits s (prepare s)"
| prepared: "q \<in> set (im_preparing s) \<Longrightarrow> (\<And>run. r = Inr run \<Longrightarrow> fits (snd q) run) \<Longrightarrow>
    instrument_step parse fits s (prepared q r s)"

section \<open>The last run\<close>

definition RECENT_MS :: int where
  "RECENT_MS = 60 * 60 * 1000"

definition isHistory :: "int \<Rightarrow> instrumentation_run \<Rightarrow> bool \<Rightarrow> bool" where
  "isHistory now run current \<longleftrightarrow>
     \<not> current \<and> (case date_parse (run_updatedAt run) of Some t \<Rightarrow> now - t > RECENT_MS | None \<Rightarrow> False)"

definition run_path :: "string \<Rightarrow> string option \<Rightarrow> string" where
  "run_path agentId runId = ''/agents/'' @ agentId @ ''/instrumentation-runs/'' @ or_default runId ''latest''"

datatype run_view = Run_hidden | Run_failed string | Run_shown instrumentation_run

definition run_view :: "int \<Rightarrow> string option \<Rightarrow> instrumentation_run option \<Rightarrow> string option \<Rightarrow> run_view" where
  "run_view now runId data failure =
     (case data of
        None \<Rightarrow> if truthy failure then Run_failed (the failure) else Run_hidden
      | Some run \<Rightarrow>
          if isHistory now run (truthy runId) then Run_hidden
          else if truthy failure then Run_failed (the failure) else Run_shown run)"

definition target_received :: "instrumentation_run \<Rightarrow> run_target \<Rightarrow> bool" where
  "target_received run t \<longleftrightarrow> list_ex (\<lambda>receipt. sr_serviceName receipt = rt_name t) (run_signals run)"

section \<open>The apply command is the planned one\<close>

definition request_of :: "instrument \<Rightarrow> run_request" where
  "request_of s = (selectedProject s, run_keys s, im_captureBodies s)"

definition recorded :: "(run_request \<Rightarrow> instrumentation_run \<Rightarrow> bool) \<Rightarrow> instrument \<Rightarrow> bool" where
  "recorded fits s \<longleftrightarrow>
     list_all (\<lambda>q. \<exists>t. fst q = signature t \<and> snd q = request_of t) (im_preparing s)
     \<and> pred_option (\<lambda>p. \<exists>t. snd p = signature t \<and> fits (request_of t) (fst p)) (im_prepared s)"

lemma signature_request: "signature s = signature t \<longleftrightarrow> signature_json s = signature_json t"
  unfolding signature_def by (rule stringify_inject) (simp_all add: signature_json_def list_all_iff)

lemma map_jstr_inject: "map JStr xs = map JStr ys \<longleftrightarrow> xs = ys"
  by (simp add: inj_map_eq_map inj_def)

lemma recorded_step:
  assumes "instrument_step parse fits s s'" "recorded fits s"
  shows "recorded fits s'"
  using assms(1)
proof cases
  case prepare
  then show ?thesis using assms(2) by (auto simp: recorded_def prepare_def request_of_def)
next
  case (prepared q r)
  obtain t where t: "fst q = signature t" "snd q = request_of t"
    using prepared(2) assms(2) by (auto simp: recorded_def list_all_iff)
  have l: "list_all (\<lambda>q. \<exists>t. fst q = signature t \<and> snd q = request_of t) (remove1 q (im_preparing s))"
    using assms(2) by (simp add: recorded_def list_all_remove1)
  show ?thesis using prepared(3) assms(2) t l
    by (cases r) (auto simp: prepared(1) recorded_def EU_Instrument.prepared_def Let_def)
qed (use assms(2) in \<open>simp_all add: recorded_def services_answered_def toggle_key_def\<close>)

lemma recorded_opened: "recorded fits (instrument_opened b)"
  by (simp add: recorded_def instrument_opened_def)

interpretation plans: answers fits "instrument_step parse fits" request_of "shown_plan now" "recorded fits"
  for parse fits now
proof unfold_locales
  show "recorded fits s \<Longrightarrow> shown_plan now s = Some run \<Longrightarrow> fits (request_of s) run" for s run
    by (auto simp: recorded_def shown_plan_def signature_request signature_json_def request_of_def map_jstr_inject
        split: option.splits if_splits)
qed (rule recorded_step)

text \<open>C35: Whatever is edited and whenever answers arrive, the apply command is shown only for a run that the
  server recorded for exactly the project, the services and the body option the command names, less
  than an hour ago; the command carries that run's id.\<close>

theorem apply_is_planned:
  assumes "(instrument_step parse fits)\<^sup>*\<^sup>* (instrument_opened b) s" "applyCommand agentId now s \<noteq> []"
  shows "\<exists>run t. shown_plan now s = Some run \<and> fits (request_of s) run
    \<and> date_parse (run_createdAt run) = Some t \<and> now - t < 3600000
    \<and> applyCommand agentId now s = buildApplyCommand (im_baseUrl s) (im_composePath s) (chosen s) (im_captureBodies s)
        (selectedProject s) Apply (Some (agentId @ ''/'' @ run_id run))"
proof -
  from assms(2) obtain run where run: "shown_plan now s = Some run" by (auto simp: applyCommand_def split: option.splits)
  moreover obtain t where "date_parse (run_createdAt run) = Some t" "now - t < 3600000"
    using run by (auto simp: shown_plan_def split: option.splits if_splits)
  ultimately show ?thesis using plans.reach_shown [OF assms(1) recorded_opened run] by (auto simp: applyCommand_def)
qed

definition planned_run :: "run_request \<Rightarrow> instrumentation_run" where
  "planned_run q =
     \<lparr>run_id = ''run_1'', run_agentId = ''a'', run_project = fst q, run_targets = map (\<lambda>k. \<lparr>rt_key = k, rt_name = k, rt_runtime = ''node''\<rparr>) (fst (snd q)),
      run_captureBodies = snd (snd q), run_status = Run_planned, run_reason = [], run_createdAt = iso_string 0,
      run_updatedAt = iso_string 0, run_startedAt = None, run_signals = []\<rparr>"

definition node_service :: "string \<Rightarrow> agent_service_snapshot" where
  "node_service k =
     \<lparr>sv_agentId = ''a'', sv_key = k, sv_name = k, sv_checkType = ''http'', sv_endpoint = [], sv_runtime = Some ''node'',
      sv_image = None, sv_restartCount = None, sv_startedAt = None, sv_healthy = True, sv_seen = True, sv_silenced = False,
      sv_lastError = None, sv_lastStatus = None, sv_lastLatency = None, sv_updatedAt = None, sv_observedAt = []\<rparr>"

lemma request_kept [simp]:
  "signature (prepare s) = signature s" "signature (prepared q r s) = signature s"
  by (cases r; simp add: signature_def signature_json_def prepare_def prepared_def selectedProject_def run_keys_def chosen_def
      candidates_def Let_def)+

lemma apply_is_planned_witness:
  "let s1 = toggle_key ''p:api'' True (services_answered (Inr [node_service ''p:api'']) (instrument_opened ''https://e''));
       run = planned_run (''p'', [''p:api''], False); s = prepared (signature s1, request_of s1) (Inr run) (prepare s1)
   in \<exists>t. date_parse (run_createdAt run) = Some t \<and> 0 - t < 3600000 \<and> shown_plan 0 s = Some run"
proof -
  let ?parse = "\<lambda>_. Some \<lparr>url_protocol = ''https:'', url_hostname = ''e'', url_username = [], url_password = [], url_search = [], url_hash = []\<rparr>"
  let ?fits = "\<lambda>q run. run = planned_run q"
  let ?s1 = "toggle_key ''p:api'' True (services_answered (Inr [node_service ''p:api'']) (instrument_opened ''https://e''))"
  let ?s = "prepared (signature ?s1, request_of ?s1) (Inr (planned_run (request_of ?s1))) (prepare ?s1)"
  have sel: "selectedProject ?s1 = ''p''" "chosen ?s1 = [\<lparr>ct_composeService = ''api'', ct_runtime = ''node'', ct_name = ''p:api''\<rparr>]"
    by (simp_all add: chosen_def candidates_def selectedProject_def composeProjects_def targetsByProject_def
      add_target_def node_service_def injectable_def INJECTABLE_def composeTargetOf_def find_index_def target_of_def
      target_key_def instrument_opened_def services_answered_def toggle_key_def Let_def)
  have req: "request_of ?s1 = (''p'', [''p:api''], False)"
    by (simp add: request_of_def run_keys_def sel target_key_def) (simp add: toggle_key_def services_answered_def instrument_opened_def)
  have "prepare_enabled ?parse ?s1"
    by (simp add: prepare_enabled_def sel validConnectionUrl_def)
      (simp add: toggle_key_def services_answered_def instrument_opened_def js_trim_def js_space_def)
  then have "instrument_step ?parse ?fits ?s1 (prepare ?s1)" by (rule instrument_step.prepare)
  moreover have "instrument_step ?parse ?fits (prepare ?s1) ?s"
    by (rule instrument_step.prepared) (simp_all add: prepare_def request_of_def)
  moreover have "instrument_step ?parse ?fits (instrument_opened ''https://e'') (services_answered (Inr [node_service ''p:api'']) (instrument_opened ''https://e''))"
    "instrument_step ?parse ?fits (services_answered (Inr [node_service ''p:api'']) (instrument_opened ''https://e'')) ?s1"
    by (rule instrument_step.services, rule instrument_step.toggle)
  ultimately have run: "(instrument_step ?parse ?fits)\<^sup>*\<^sup>* (instrument_opened ''https://e'') ?s"
    by (meson converse_rtranclp_into_rtranclp r_into_rtranclp)
  have "date_parse (iso_string 0) = Some 0"
    by (rule date_parse_iso, simp add: iso_range_def epoch_day_def ms_per_day_def year_start_def)
  then have shown: "shown_plan 0 ?s = Some (planned_run (request_of ?s1))"
    unfolding shown_plan_def request_kept by (simp add: prepared_def planned_run_def)
  then have "applyCommand ''a'' 0 ?s \<noteq> []" by (simp add: applyCommand_def buildApplyCommand_def)
  from apply_is_planned [OF run this] obtain r t
    where "shown_plan 0 ?s = Some r" "date_parse (run_createdAt r) = Some t" "0 - t < 3600000" by blast
  then show ?thesis using shown by (simp add: req Let_def)
qed

section \<open>What is offered\<close>

definition targets_in :: "project_targets \<Rightarrow> string \<Rightarrow> (string \<times> compose_target) list" where
  "targets_in m p = or_default (map_of m p) []"

definition compose_service :: "string \<Rightarrow> string \<Rightarrow> agent_service_snapshot \<Rightarrow> bool" where
  "compose_service p service v \<longleftrightarrow> injectable v \<and> composeTargetOf (sv_key v) = Some (p, service)"

lemma targets_in_add:
  "targets_in (add_target m v) p =
     (case composeTargetOf (sv_key v) of
        Some (q, service) \<Rightarrow> if injectable v \<and> q = p \<and> map_of (targets_in m p) service = None
          then AList.update service (target_of v service) (targets_in m p) else targets_in m p
      | None \<Rightarrow> targets_in m p)"
  by (auto simp: targets_in_def add_target_def Let_def split: option.split)

lemma find_snoc: "find P (xs @ [x]) = (case find P xs of Some y \<Rightarrow> Some y | None \<Rightarrow> if P x then Some x else None)"
  by (induction xs) auto

lemma targets_lookup:
  "map_of (targets_in (targetsByProject vs) p) service = map_option (\<lambda>v. target_of v service) (find (compose_service p service) vs)"
proof (induction vs rule: rev_induct)
  case (snoc v vs)
  then show ?case
    by (cases "find (compose_service p service) vs")
      (auto simp: targetsByProject_def targets_in_add find_snoc compose_service_def split: option.split)
qed (simp add: targetsByProject_def targets_in_def)

lemma targets_distinct: "distinct (map fst (targets_in (targetsByProject vs) p))"
proof (induction vs rule: rev_induct)
  case (snoc v vs)
  then show ?case by (auto simp: targetsByProject_def targets_in_add split: option.split)
qed (simp add: targetsByProject_def targets_in_def)

lemma targets_entry:
  assumes "e \<in> set (targets_in (targetsByProject vs) p)"
  shows "\<exists>v. find (compose_service p (fst e)) vs = Some v \<and> snd e = target_of v (fst e)"
  using map_of_is_SomeI [OF targets_distinct, of "fst e" "snd e" vs p] assms by (auto simp: targets_lookup)

text \<open>The services offered are the Java and Node.js services of the chosen Compose project, each service
  name once, with the runtime first seen for it.\<close>

theorem candidates_exact:
  "distinct (map ct_composeService (candidates s))
    \<and> set (candidates s) = {target_of v c | v c. find (compose_service (selectedProject s) c) (im_services s) = Some v}"
proof
  let ?in = "targets_in (targetsByProject (im_services s)) (selectedProject s)"
  have c: "candidates s = map snd ?in" by (simp add: candidates_def targets_in_def)
  have k: "ct_composeService (snd e) = fst e" if "e \<in> set ?in" for e
    using targets_entry [OF that] by (auto simp: target_of_def)
  have "map ct_composeService (candidates s) = map fst ?in" using k by (simp add: c)
  then show "distinct (map ct_composeService (candidates s))" by (simp add: targets_distinct)
  show "set (candidates s) = {target_of v c | v c. find (compose_service (selectedProject s) c) (im_services s) = Some v}"
  proof (intro set_eqI iffI)
    show "t \<in> {target_of v c | v c. find (compose_service (selectedProject s) c) (im_services s) = Some v}"
      if "t \<in> set (candidates s)" for t
      using that targets_entry [of _ "im_services s" "selectedProject s"] unfolding c by fastforce
    show "t \<in> set (candidates s)"
      if t: "t \<in> {target_of v c | v c. find (compose_service (selectedProject s) c) (im_services s) = Some v}" for t
    proof -
      obtain v d where "t = target_of v d" "find (compose_service (selectedProject s) d) (im_services s) = Some v" using t by blast
      then have "map_of ?in d = Some t" by (simp add: targets_lookup)
      then show ?thesis unfolding c by (force dest: map_of_SomeD)
    qed
  qed
qed

section \<open>The words of the commands\<close>

text \<open>
  A reader for the whole command: a word is its characters, each literal or one at which the shell
  expands something (\<open>Exp\<close>, only inside double quotes here); operators stand for themselves.
  Nothing is read where an unquoted character would expand or split otherwise.
\<close>

datatype sh_part = Chr char | Exp char

datatype sh_item = Item "sh_part list" | Op char

definition sh_plain_char :: "char \<Rightarrow> bool" where
  "sh_plain_char c \<longleftrightarrow> sh_ordinary c \<or> c = CHR ''=''"

fun sh_items_from :: "sh_mode \<Rightarrow> sh_part list option \<Rightarrow> string \<Rightarrow> sh_item list option" where
  "sh_items_from Sh_plain w [] = Some (case w of Some t \<Rightarrow> [Item t] | None \<Rightarrow> [])"
| "sh_items_from m w [] = None"
| "sh_items_from Sh_plain w (c # s) =
     (let t = (case w of Some t \<Rightarrow> t | None \<Rightarrow> []); done' = (case w of Some t \<Rightarrow> [Item t] | None \<Rightarrow> []) in
      if c = CHR 0x27 then sh_items_from Sh_single (Some t) s
      else if c = CHR 0x22 then sh_items_from Sh_double (Some t) s
      else if c = CHR '' '' then map_option ((@) done') (sh_items_from Sh_plain None s)
      else if c \<in> set ''|&()'' then map_option ((@) (done' @ [Op c])) (sh_items_from Sh_plain None s)
      else if sh_plain_char c then sh_items_from Sh_plain (Some (t @ [Chr c])) s else None)"
| "sh_items_from Sh_single w (c # s) =
     (if c = CHR 0x27 then sh_items_from Sh_plain w s else sh_items_from Sh_single (map_option (\<lambda>t. t @ [Chr c]) w) s)"
| "sh_items_from Sh_double w (c # s) =
     (if c = CHR 0x22 then sh_items_from Sh_plain w s
      else if c = CHR 0x5C then None
      else sh_items_from Sh_double (map_option (\<lambda>t. t @ [if c \<in> {CHR ''$'', CHR 0x60} then Exp c else Chr c]) w) s)"

definition sh_items :: "string \<Rightarrow> sh_item list option" where
  "sh_items s = sh_items_from Sh_plain None s"

definition lit :: "string \<Rightarrow> sh_item" where
  "lit v = Item (map Chr v)"

lemma items_quoted_chars:
  "sh_items_from Sh_single (Some t)
     (concat (map (\<lambda>c. if c = CHR 0x27 then [CHR 0x27, CHR 0x22, CHR 0x27, CHR 0x22, CHR 0x27] else [c]) v) @ z)
   = sh_items_from Sh_single (Some (t @ map Chr v)) z"
  by (induction v arbitrary: t) (simp_all add: Let_def)

text \<open>A quoted text is part of one word, literally, wherever it stands.\<close>

lemma items_quoted:
  "sh_items_from Sh_plain w (shellQuote v @ z) = sh_items_from Sh_plain (Some (or_default w [] @ map Chr v)) z"
  "sh_items_from Sh_plain w (shellQuote v) = Some [Item (or_default w [] @ map Chr v)]"
proof -
  show q: "sh_items_from Sh_plain w (shellQuote v @ z) = sh_items_from Sh_plain (Some (or_default w [] @ map Chr v)) z" for z
    using items_quoted_chars [of "or_default w []" v "CHR 0x27 # z"]
    by (cases w) (simp_all add: shellQuote_def)
  show "sh_items_from Sh_plain w (shellQuote v) = Some [Item (or_default w [] @ map Chr v)]" using q [of "[]"] by simp
qed

lemma items_words:
  "sh_items_from Sh_plain None (join_with '' '' (map shellQuote vs)) = Some (map lit vs)"
proof (induction vs)
  case (Cons v vs)
  then show ?case by (cases vs) (simp_all add: items_quoted lit_def)
qed simp

lemma items_install_cli:
  "sh_items_from Sh_plain None (install_cli b @ CHR '')'' # z) =
     map_option (\<lambda>rest.
       [Item (map Chr ''tmp='' @ Exp CHR ''$'' # map Chr ''(mktemp)''), Op CHR ''&'', Op CHR ''&'',
         lit ''trap'', lit (''rm -f '' @ [CHR 0x22] @ ''$tmp'' @ [CHR 0x22]), lit ''EXIT'', Op CHR ''&'', Op CHR ''&'',
         lit ''curl'', lit ''-fsSL'', lit (b @ ''/api/v1/agents/otel.sh''), lit ''-o'', Item (Exp CHR ''$'' # map Chr ''tmp''),
         Op CHR ''&'', Op CHR ''&'',
         lit ''sudo'', lit ''install'', lit ''-m'', lit ''0755'', Item (Exp CHR ''$'' # map Chr ''tmp''), lit ''/usr/local/bin/everyup-otel'',
         Op CHR '')''] @ rest)
       (sh_items_from Sh_plain None z)"
  by (simp add: install_cli_def items_quoted lit_def sh_plain_char_def sh_ordinary_def Let_def option.map_comp comp_def)

text \<open>C36: Whatever the addresses, paths, project and service names contain, a shell reads the command as the
  fixed steps that fetch and install the tool and one call of it, with the file, the project, the run
  and each target as one literal word: none of them can inject a command or an expansion.\<close>

theorem apply_command_words:
  "sh_items (buildApplyCommand webBaseUrl path targets bodies project command ref) =
     Some ([Op CHR ''('', Item (map Chr ''tmp='' @ Exp CHR ''$'' # map Chr ''(mktemp)''), Op CHR ''&'', Op CHR ''&'',
         lit ''trap'', lit (''rm -f '' @ [CHR 0x22] @ ''$tmp'' @ [CHR 0x22]), lit ''EXIT'', Op CHR ''&'', Op CHR ''&'',
         lit ''curl'', lit ''-fsSL'', lit (install_base webBaseUrl @ ''/api/v1/agents/otel.sh''), lit ''-o'',
         Item (Exp CHR ''$'' # map Chr ''tmp''), Op CHR ''&'', Op CHR ''&'',
         lit ''sudo'', lit ''install'', lit ''-m'', lit ''0755'', Item (Exp CHR ''$'' # map Chr ''tmp''), lit ''/usr/local/bin/everyup-otel'',
         Op CHR '')'', Op CHR ''&'', Op CHR ''&'']
       @ map lit ([''sudo'', ''everyup-otel'', otel_command_text command, compose_path path, ''--project='' @ project]
         @ (if truthy ref then [''--report='' @ the ref] else []) @ (if bodies then [''--capture-bodies''] else [])
         @ map target_word targets))"
proof -
  have w: "sh_items_from Sh_plain None (join_with '' '' (map (\<lambda>t. shellQuote (target_word t)) targets)) = Some (map lit (map target_word targets))"
    using items_words [of "map target_word targets"] by (simp add: comp_def)
  show ?thesis
    by (cases command; cases "truthy ref"; cases bodies)
      (simp_all add: sh_items_def buildApplyCommand_def items_install_cli items_quoted w sh_plain_char_def sh_ordinary_def Let_def lit_def)
qed

end
