(* ===== verification/EU_SetupPanel.thy ===== *)
theory EU_SetupPanel imports EU_EndToEnd EU_Environments
begin

text \<open>
  How far a Docker host's monitoring is set up: the four steps of
  \<open>features/services/components/MonitoringSetupPanel.tsx\<close>, the receipts of
  \<open>TelemetryReceiptStatus.tsx\<close>, and the dialog that adds one capability,
  \<open>CollectorCapabilityDialog.tsx\<close>, composed with the demo server.
\<close>

section \<open>Capabilities\<close>

definition PROFILE_CAPABILITIES :: "(agent_collection_capability \<times> string) list" where
  "PROFILE_CAPABILITIES =
     [(Cap_uptime, [CHR 0xEC, CHR 0x97, CHR 0x85, CHR 0xED, CHR 0x83, CHR 0x80, CHR 0xEC, CHR 0x9E, CHR 0x84]), (Cap_logs, [CHR 0xEB, CHR 0xA1, CHR 0x9C, CHR 0xEA, CHR 0xB7, CHR 0xB8]), (Cap_infrastructure, [CHR 0xEC, CHR 0x9D, CHR 0xB8, CHR 0xED, CHR 0x94, CHR 0x84, CHR 0xEB, CHR 0x9D, CHR 0xBC]), (Cap_api, ''API''), (Cap_metrics, [CHR 0xEB, CHR 0xA9, CHR 0x94, CHR 0xED, CHR 0x8A, CHR 0xB8, CHR 0xEB, CHR 0xA6, CHR 0xAD])]"

datatype setup_state = Ready | Pending_data | Issue | Optional_step

definition capabilityState :: "agent_capability_status option \<Rightarrow> setup_state" where
  "capabilityState status =
     (case status of None \<Rightarrow> Pending_data | Some s \<Rightarrow> if cs_state s = St_available then Ready else Issue)"

definition capabilityLabel :: "agent_capability_status option \<Rightarrow> string" where
  "capabilityLabel status =
     (case status of
        None \<Rightarrow> ([CHR 0xED, CHR 0x99, CHR 0x95, CHR 0xEC, CHR 0x9D, CHR 0xB8] @ '' '' @ [CHR 0xEC, CHR 0xA4, CHR 0x91])
      | Some s \<Rightarrow> (case cs_state s of
            St_available \<Rightarrow> [CHR 0xEC, CHR 0x99, CHR 0x84, CHR 0xEB, CHR 0xA3, CHR 0x8C] | St_degraded \<Rightarrow> ([CHR 0xED, CHR 0x99, CHR 0x95, CHR 0xEC, CHR 0x9D, CHR 0xB8] @ '' '' @ [CHR 0xED, CHR 0x95, CHR 0x84, CHR 0xEC, CHR 0x9A, CHR 0x94]) | St_unavailable \<Rightarrow> ([CHR 0xEC, CHR 0x82, CHR 0xAC, CHR 0xEC, CHR 0x9A, CHR 0xA9] @ '' '' @ [CHR 0xEB, CHR 0xB6, CHR 0x88, CHR 0xEA, CHR 0xB0, CHR 0x80])))"

definition capabilityReasons :: "(string \<times> string) list" where
  "capabilityReasons =
     [(''disabled'', ([CHR 0xEC, CHR 0x84, CHR 0xA4, CHR 0xEC, CHR 0xA0, CHR 0x95, CHR 0xEC, CHR 0x97, CHR 0x90, CHR 0xEC, CHR 0x84, CHR 0x9C] @ '' '' @ [CHR 0xEA, CHR 0xBA, CHR 0xBC, CHR 0xEC, CHR 0xA0, CHR 0xB8] @ '' '' @ [CHR 0xEC, CHR 0x9E, CHR 0x88, CHR 0xEC, CHR 0x8A, CHR 0xB5, CHR 0xEB, CHR 0x8B, CHR 0x88, CHR 0xEB, CHR 0x8B, CHR 0xA4])),
      (''docker_unreachable'', (''Docker '' @ [CHR 0xEC, CHR 0x86, CHR 0x8C, CHR 0xEC, CHR 0xBC, CHR 0x93, CHR 0xEC, CHR 0x97, CHR 0x90] @ '' '' @ [CHR 0xEC, CHR 0x97, CHR 0xB0, CHR 0xEA, CHR 0xB2, CHR 0xB0, CHR 0xED, CHR 0x95, CHR 0xA0] @ '' '' @ [CHR 0xEC, CHR 0x88, CHR 0x98] @ '' '' @ [CHR 0xEC, CHR 0x97, CHR 0x86, CHR 0xEC, CHR 0x8A, CHR 0xB5, CHR 0xEB, CHR 0x8B, CHR 0x88, CHR 0xEB, CHR 0x8B, CHR 0xA4])),
      (''hostfs_unavailable'', ([CHR 0xED, CHR 0x98, CHR 0xB8, CHR 0xEC, CHR 0x8A, CHR 0xA4, CHR 0xED, CHR 0x8A, CHR 0xB8] @ '' '' @ [CHR 0xED, CHR 0x8C, CHR 0x8C, CHR 0xEC, CHR 0x9D, CHR 0xBC, CHR 0xEC, CHR 0x8B, CHR 0x9C, CHR 0xEC, CHR 0x8A, CHR 0xA4, CHR 0xED, CHR 0x85, CHR 0x9C] @ '' '' @ [CHR 0xEB, CHR 0xA7, CHR 0x88, CHR 0xEC, CHR 0x9A, CHR 0xB4, CHR 0xED, CHR 0x8A, CHR 0xB8, CHR 0xEB, CHR 0xA5, CHR 0xBC] @ '' '' @ [CHR 0xED, CHR 0x99, CHR 0x95, CHR 0xEC, CHR 0x9D, CHR 0xB8, CHR 0xED, CHR 0x95, CHR 0x98, CHR 0xEC, CHR 0x84, CHR 0xB8, CHR 0xEC, CHR 0x9A, CHR 0x94])),
      (''unsupported_arch'', ([CHR 0xEC, CHR 0xA7, CHR 0x80, CHR 0xEC, CHR 0x9B, CHR 0x90, CHR 0xED, CHR 0x95, CHR 0x98, CHR 0xEC, CHR 0xA7, CHR 0x80] @ '' '' @ [CHR 0xEC, CHR 0x95, CHR 0x8A, CHR 0xEB, CHR 0x8A, CHR 0x94] @ '' CPU '' @ [CHR 0xEC, CHR 0x95, CHR 0x84, CHR 0xED, CHR 0x82, CHR 0xA4, CHR 0xED, CHR 0x85, CHR 0x8D, CHR 0xEC, CHR 0xB2, CHR 0x98, CHR 0xEC, CHR 0x9E, CHR 0x85, CHR 0xEB, CHR 0x8B, CHR 0x88, CHR 0xEB, CHR 0x8B, CHR 0xA4])),
      (''kernel_unknown'', ([CHR 0xED, CHR 0x98, CHR 0xB8, CHR 0xEC, CHR 0x8A, CHR 0xA4, CHR 0xED, CHR 0x8A, CHR 0xB8] @ '' '' @ [CHR 0xEC, CHR 0xBB, CHR 0xA4, CHR 0xEB, CHR 0x84, CHR 0x90, CHR 0xEC, CHR 0x9D, CHR 0x84] @ '' '' @ [CHR 0xED, CHR 0x99, CHR 0x95, CHR 0xEC, CHR 0x9D, CHR 0xB8, CHR 0xED, CHR 0x95, CHR 0xA0] @ '' '' @ [CHR 0xEC, CHR 0x88, CHR 0x98] @ '' '' @ [CHR 0xEC, CHR 0x97, CHR 0x86, CHR 0xEC, CHR 0x8A, CHR 0xB5, CHR 0xEB, CHR 0x8B, CHR 0x88, CHR 0xEB, CHR 0x8B, CHR 0xA4])),
      (''unsupported_kernel'', (''eBPF'' @ [CHR 0xEB, CHR 0xA5, CHR 0xBC] @ '' '' @ [CHR 0xEC, CHR 0xA7, CHR 0x80, CHR 0xEC, CHR 0x9B, CHR 0x90, CHR 0xED, CHR 0x95, CHR 0x98, CHR 0xEC, CHR 0xA7, CHR 0x80] @ '' '' @ [CHR 0xEC, CHR 0x95, CHR 0x8A, CHR 0xEB, CHR 0x8A, CHR 0x94] @ '' '' @ [CHR 0xEC, CHR 0xBB, CHR 0xA4, CHR 0xEB, CHR 0x84, CHR 0x90, CHR 0xEC, CHR 0x9E, CHR 0x85, CHR 0xEB, CHR 0x8B, CHR 0x88, CHR 0xEB, CHR 0x8B, CHR 0xA4])),
      (''btf_missing'', ([CHR 0xEC, CHR 0xBB, CHR 0xA4, CHR 0xEB, CHR 0x84, CHR 0x90] @ '' BTF '' @ [CHR 0xEC, CHR 0xA0, CHR 0x95, CHR 0xEB, CHR 0xB3, CHR 0xB4, CHR 0xEA, CHR 0xB0, CHR 0x80] @ '' '' @ [CHR 0xEC, CHR 0x97, CHR 0x86, CHR 0xEC, CHR 0x8A, CHR 0xB5, CHR 0xEB, CHR 0x8B, CHR 0x88, CHR 0xEB, CHR 0x8B, CHR 0xA4])),
      (''docker_required'', (''Docker '' @ [CHR 0xEC, CHR 0x9E, CHR 0x90, CHR 0xEB, CHR 0x8F, CHR 0x99] @ '' '' @ [CHR 0xED, CHR 0x83, CHR 0x90, CHR 0xEC, CHR 0x83, CHR 0x89, CHR 0xEC, CHR 0x9D, CHR 0xB4] @ '' '' @ [CHR 0xED, CHR 0x95, CHR 0x84, CHR 0xEC, CHR 0x9A, CHR 0x94, CHR 0xED, CHR 0x95, CHR 0xA9, CHR 0xEB, CHR 0x8B, CHR 0x88, CHR 0xEB, CHR 0x8B, CHR 0xA4])),
      (''observer_not_running'', (''eBPF Observer'' @ [CHR 0xEA, CHR 0xB0, CHR 0x80] @ '' '' @ [CHR 0xEC, CHR 0x8B, CHR 0xA4, CHR 0xED, CHR 0x96, CHR 0x89] @ '' '' @ [CHR 0xEC, CHR 0xA4, CHR 0x91, CHR 0xEC, CHR 0x9D, CHR 0xB4] @ '' '' @ [CHR 0xEC, CHR 0x95, CHR 0x84, CHR 0xEB, CHR 0x8B, CHR 0x99, CHR 0xEB, CHR 0x8B, CHR 0x88, CHR 0xEB, CHR 0x8B, CHR 0xA4])),
      (''automatic_tracing_unavailable'', (''API '' @ [CHR 0xEC, CHR 0x9A, CHR 0x94, CHR 0xEC, CHR 0xB2, CHR 0xAD] @ '' '' @ [CHR 0xEC, CHR 0x9E, CHR 0x90, CHR 0xEB, CHR 0x8F, CHR 0x99] @ '' '' @ [CHR 0xEC, CHR 0x88, CHR 0x98, CHR 0xEC, CHR 0xA7, CHR 0x91, CHR 0xEC, CHR 0x9D, CHR 0x84] @ '' '' @ [CHR 0xEB, CHR 0xA8, CHR 0xBC, CHR 0xEC, CHR 0xA0, CHR 0x80] @ '' '' @ [CHR 0xEC, CHR 0x82, CHR 0xAC, CHR 0xEC, CHR 0x9A, CHR 0xA9, CHR 0xED, CHR 0x95, CHR 0xA0] @ '' '' @ [CHR 0xEC, CHR 0x88, CHR 0x98] @ '' '' @ [CHR 0xEC, CHR 0x9E, CHR 0x88, CHR 0xEC, CHR 0x96, CHR 0xB4, CHR 0xEC, CHR 0x95, CHR 0xBC] @ '' '' @ [CHR 0xED, CHR 0x95, CHR 0xA9, CHR 0xEB, CHR 0x8B, CHR 0x88, CHR 0xEB, CHR 0x8B, CHR 0xA4])),
      (''not_enabled'', ([CHR 0xEA, CHR 0xB3, CHR 0xA0, CHR 0xEA, CHR 0xB8, CHR 0x89] @ '' '' @ [CHR 0xEB, CHR 0xB6, CHR 0x84, CHR 0xEC, CHR 0x82, CHR 0xB0] @ '' '' @ [CHR 0xED, CHR 0x8A, CHR 0xB8, CHR 0xEB, CHR 0xA0, CHR 0x88, CHR 0xEC, CHR 0x9D, CHR 0xB4, CHR 0xEC, CHR 0x8B, CHR 0xB1] @ '' '' @ [CHR 0xEC, CHR 0x98, CHR 0xB5, CHR 0xEC, CHR 0x85, CHR 0x98, CHR 0xEC, CHR 0x9D, CHR 0xB4] @ '' '' @ [CHR 0xEA, CHR 0xBA, CHR 0xBC, CHR 0xEC, CHR 0xA0, CHR 0xB8] @ '' '' @ [CHR 0xEC, CHR 0x9E, CHR 0x88, CHR 0xEC, CHR 0x8A, CHR 0xB5, CHR 0xEB, CHR 0x8B, CHR 0x88, CHR 0xEB, CHR 0x8B, CHR 0xA4])),
      (''kernel_too_old'', (''Linux 5.17 '' @ [CHR 0xEC, CHR 0x9D, CHR 0xB4, CHR 0xEC, CHR 0x83, CHR 0x81, CHR 0xEC, CHR 0x9D, CHR 0xB4] @ '' '' @ [CHR 0xED, CHR 0x95, CHR 0x84, CHR 0xEC, CHR 0x9A, CHR 0x94, CHR 0xED, CHR 0x95, CHR 0xA9, CHR 0xEB, CHR 0x8B, CHR 0x88, CHR 0xEB, CHR 0x8B, CHR 0xA4])),
      (''kernel_lockdown'', ([CHR 0xEC, CHR 0xBB, CHR 0xA4, CHR 0xEB, CHR 0x84, CHR 0x90] @ '' Lockdown '' @ [CHR 0xEC, CHR 0xA0, CHR 0x95, CHR 0xEC, CHR 0xB1, CHR 0x85, CHR 0xEC, CHR 0x9D, CHR 0xB4] @ '' eBPF '' @ [CHR 0xEC, CHR 0x93, CHR 0xB0, CHR 0xEA, CHR 0xB8, CHR 0xB0, CHR 0xEB, CHR 0xA5, CHR 0xBC] @ '' '' @ [CHR 0xEC, CHR 0xB0, CHR 0xA8, CHR 0xEB, CHR 0x8B, CHR 0xA8, CHR 0xED, CHR 0x95, CHR 0xA9, CHR 0xEB, CHR 0x8B, CHR 0x88, CHR 0xEB, CHR 0x8B, CHR 0xA4])),
      (''lockdown_unknown'', ([CHR 0xEC, CHR 0xBB, CHR 0xA4, CHR 0xEB, CHR 0x84, CHR 0x90] @ '' Lockdown '' @ [CHR 0xEC, CHR 0x83, CHR 0x81, CHR 0xED, CHR 0x83, CHR 0x9C, CHR 0xEB, CHR 0xA5, CHR 0xBC] @ '' '' @ [CHR 0xED, CHR 0x99, CHR 0x95, CHR 0xEC, CHR 0x9D, CHR 0xB8, CHR 0xED, CHR 0x95, CHR 0xB4, CHR 0xEC, CHR 0x95, CHR 0xBC] @ '' '' @ [CHR 0xED, CHR 0x95, CHR 0xA9, CHR 0xEB, CHR 0x8B, CHR 0x88, CHR 0xEB, CHR 0x8B, CHR 0xA4]))]"

definition capabilityDetail :: "agent_capability_status option \<Rightarrow> string option" where
  "capabilityDetail status =
     (case status of
        None \<Rightarrow> None
      | Some s \<Rightarrow>
          if \<not> truthy (cs_reason s) then cs_detail s
          else (case map_of capabilityReasons (the (cs_reason s)) of
              Some text \<Rightarrow> Some text
            | None \<Rightarrow> (case cs_detail s of Some d \<Rightarrow> Some d | None \<Rightarrow> cs_reason s)))"

definition combineCapabilityState :: "agent_capability_state option list \<Rightarrow> setup_state" where
  "combineCapabilityState states =
     (if list_all (\<lambda>x. x = Some St_available) states then Ready
      else if list_ex (\<lambda>x. x = Some St_degraded \<or> x = Some St_unavailable) states then Issue
      else Pending_data)"

section \<open>The panel\<close>

text \<open>\<open>status\<close> is the setup status read last and \<open>error\<close> the message of the last failed read, empty if none.\<close>

definition enabledCapabilities :: "connected_agent \<Rightarrow> agent_collection_capability list" where
  "enabledCapabilities agent =
     (case ag_profile agent of
        Some p \<Rightarrow> if pf_capabilities p \<noteq> [] then pf_capabilities p else map fst PROFILE_CAPABILITIES
      | None \<Rightarrow> map fst PROFILE_CAPABILITIES)"

definition enabledCapabilityLabels :: "connected_agent \<Rightarrow> string list" where
  "enabledCapabilityLabels agent =
     map snd (filter (\<lambda>i. fst i \<in> set (enabledCapabilities agent)) PROFILE_CAPABILITIES)"

definition unavailableCapabilities :: "connected_agent \<Rightarrow> (agent_collection_capability \<times> string) list" where
  "unavailableCapabilities agent = filter (\<lambda>i. fst i \<notin> set (enabledCapabilities agent)) PROFILE_CAPABILITIES"

definition panel_connected :: "collector_setup_status option \<Rightarrow> string \<Rightarrow> bool" where
  "panel_connected status error \<longleftrightarrow> (case status of Some st \<Rightarrow> css_connected st | None \<Rightarrow> False) \<and> error = []"

definition received :: "collector_setup_status option \<Rightarrow> string \<Rightarrow> bool" where
  "received status signal \<longleftrightarrow>
     (case status of Some st \<Rightarrow> list_ex (\<lambda>i. sr_signal i = signal) (css_signals st) | None \<Rightarrow> False)"

definition containerCollectionEnabled :: "connected_agent \<Rightarrow> bool" where
  "containerCollectionEnabled agent \<longleftrightarrow>
     Cap_uptime \<in> set (enabledCapabilities agent) \<or> Cap_logs \<in> set (enabledCapabilities agent)"

definition infrastructureEnabled :: "connected_agent \<Rightarrow> bool" where
  "infrastructureEnabled agent \<longleftrightarrow> Cap_infrastructure \<in> set (enabledCapabilities agent)"

definition apiEnabled :: "connected_agent \<Rightarrow> bool" where
  "apiEnabled agent \<longleftrightarrow> Cap_api \<in> set (enabledCapabilities agent)"

definition metricsEnabled :: "connected_agent \<Rightarrow> bool" where
  "metricsEnabled agent \<longleftrightarrow> Cap_metrics \<in> set (enabledCapabilities agent)"

definition basic_reports :: "connected_agent \<Rightarrow> agent_capability_status option list" where
  "basic_reports agent =
     (if containerCollectionEnabled agent then [map_option cr_containerMonitoring (ag_capabilities agent)] else [])
     @ (if infrastructureEnabled agent then [map_option cr_hostMetrics (ag_capabilities agent)] else [])"

definition basicCapabilityState :: "connected_agent \<Rightarrow> setup_state" where
  "basicCapabilityState agent =
     (if containerCollectionEnabled agent \<or> infrastructureEnabled agent
      then combineCapabilityState (map (map_option cs_state) (basic_reports agent)) else Optional_step)"

definition basicDataReady :: "connected_agent \<Rightarrow> collector_setup_status option \<Rightarrow> bool" where
  "basicDataReady agent status \<longleftrightarrow>
     (Cap_uptime \<notin> set (enabledCapabilities agent) \<or> received status ''uptime'')
     \<and> (Cap_logs \<notin> set (enabledCapabilities agent) \<or> received status ''logs'')
     \<and> (\<not> infrastructureEnabled agent \<or> received status ''infrastructure'')"

definition basicState :: "connected_agent \<Rightarrow> collector_setup_status option \<Rightarrow> string \<Rightarrow> setup_state" where
  "basicState agent status error =
     (if basicCapabilityState agent = Ready \<and> (\<not> panel_connected status error \<or> \<not> basicDataReady agent status)
      then Pending_data else basicCapabilityState agent)"

definition traceCapabilityState :: "connected_agent \<Rightarrow> setup_state" where
  "traceCapabilityState agent =
     (if apiEnabled agent then capabilityState (map_option cr_automaticTracing (ag_capabilities agent)) else Optional_step)"

definition tracingState :: "connected_agent \<Rightarrow> collector_setup_status option \<Rightarrow> string \<Rightarrow> setup_state" where
  "tracingState agent status error =
     (if traceCapabilityState agent = Ready \<and> (\<not> panel_connected status error \<or> \<not> received status ''traces'')
      then Pending_data else traceCapabilityState agent)"

definition requiredTotal :: "connected_agent \<Rightarrow> nat" where
  "requiredTotal agent =
     1 + of_bool (containerCollectionEnabled agent \<or> infrastructureEnabled agent) + of_bool (apiEnabled agent)
     + of_bool (metricsEnabled agent)"

definition requiredReady :: "connected_agent \<Rightarrow> collector_setup_status option \<Rightarrow> string \<Rightarrow> nat" where
  "requiredReady agent status error =
     of_bool (panel_connected status error \<and> (case status of Some st \<Rightarrow> css_configApplied st | None \<Rightarrow> False))
     + of_bool (basicState agent status error = Ready) + of_bool (tracingState agent status error = Ready)
     + of_bool (metricsEnabled agent \<and> panel_connected status error \<and> received status ''metrics'')"

definition requiredComplete :: "connected_agent \<Rightarrow> collector_setup_status option \<Rightarrow> string \<Rightarrow> bool" where
  "requiredComplete agent status error \<longleftrightarrow> requiredReady agent status error = requiredTotal agent"

definition basicProblem :: "connected_agent \<Rightarrow> agent_capability_status option" where
  "basicProblem agent =
     Option.bind (find (\<lambda>r. case r of Some s \<Rightarrow> cs_state s \<noteq> St_available | None \<Rightarrow> False) (basic_reports agent)) (\<lambda>r. r)"

definition basicIssue :: "connected_agent \<Rightarrow> collector_setup_status option \<Rightarrow> string \<Rightarrow> string option" where
  "basicIssue agent status error =
     (if basicState agent status error = Optional_step then Some ([CHR 0xED, CHR 0x98, CHR 0x84, CHR 0xEC, CHR 0x9E, CHR 0xAC] @ '' '' @ [CHR 0xED, CHR 0x94, CHR 0x84, CHR 0xEB, CHR 0xA1, CHR 0x9C, CHR 0xED, CHR 0x95, CHR 0x84, CHR 0xEC, CHR 0x97, CHR 0x90, CHR 0xEC, CHR 0x84, CHR 0x9C] @ '' '' @ [CHR 0xEC, CHR 0x88, CHR 0x98, CHR 0xEC, CHR 0xA7, CHR 0x91, CHR 0xED, CHR 0x95, CHR 0x98, CHR 0xEC, CHR 0xA7, CHR 0x80] @ '' '' @ [CHR 0xEC, CHR 0x95, CHR 0x8A, CHR 0xEC, CHR 0x8A, CHR 0xB5, CHR 0xEB, CHR 0x8B, CHR 0x88, CHR 0xEB, CHR 0x8B, CHR 0xA4] @ ''.'')
      else capabilityDetail (basicProblem agent))"

definition panel_injectable :: "agent_service_snapshot list \<Rightarrow> agent_service_snapshot list" where
  "panel_injectable services = filter (\<lambda>v. sv_runtime v = Some ''java'' \<or> sv_runtime v = Some ''node'') services"

section \<open>Receipts\<close>

definition DELAYED_AFTER_MS :: int where
  "DELAYED_AFTER_MS = 10 * 60 * 1000"

definition receiptState :: "int \<Rightarrow> string option \<Rightarrow> collection_status" where
  "receiptState now last_at =
     (if \<not> truthy last_at then Waiting
      else case date_parse (the last_at) of
          Some t \<Rightarrow> if now - t > DELAYED_AFTER_MS then Delayed else Collecting
        | None \<Rightarrow> Collecting)"

definition last_receipt :: "signal_receipt list \<Rightarrow> string \<Rightarrow> string option" where
  "last_receipt signals signal =
     (let times = sort_by (by_key (\<lambda>x. x)) (map sr_lastReceivedAt (filter (\<lambda>i. sr_signal i = signal) signals))
      in if times = [] then None else Some (last times))"

definition ReceiptList :: "int \<Rightarrow> signal_receipt list \<Rightarrow> string list \<Rightarrow> (string \<times> collection_status) list" where
  "ReceiptList now signals expected = map (\<lambda>s. (s, receiptState now (last_receipt signals s))) expected"

definition signal_of :: "agent_collection_capability \<Rightarrow> string" where
  "signal_of c = (if c = Cap_api then ''traces'' else agent_collection_capability_text c)"

section \<open>Adding a capability\<close>

record capability_dialog =
  cd_saving :: bool
  cd_open :: bool
  cd_applied :: bool

text \<open>What the apply button sends after the status it read: nothing when the capability is selected already.\<close>

definition apply_update :: "agent_collection_capability \<Rightarrow> collector_setup_status \<Rightarrow> agent_profile option" where
  "apply_update c current =
     (if c \<in> set (pf_capabilities (css_profile current)) then None
      else Some \<lparr>pf_kind = PK_custom, pf_capabilities = pf_capabilities (css_profile current) @ [c]\<rparr>)"

definition apply_start :: "capability_dialog \<Rightarrow> capability_dialog" where
  "apply_start s = s\<lparr>cd_saving := True\<rparr>"

text \<open>When both requests succeeded the dialog hands over to the install command.\<close>

definition apply_settled :: "thrown + unit \<Rightarrow> capability_dialog \<Rightarrow> capability_dialog" where
  "apply_settled r s = (if isl r then s else s\<lparr>cd_applied := True\<rparr>)\<lparr>cd_saving := False\<rparr>"

definition cancel_dialog :: "capability_dialog \<Rightarrow> capability_dialog" where
  "cancel_dialog s = (if cd_saving s then s else s\<lparr>cd_open := False\<rparr>)"

definition apply_offered :: "agent_collection_capability \<Rightarrow> collector_setup_status option \<Rightarrow> string \<Rightarrow> bool" where
  "apply_offered c status error \<longleftrightarrow>
     error = []
     \<and> (case status of
          Some st \<Rightarrow> c \<notin> set (pf_capabilities (css_profile st)) \<or> \<not> css_configApplied st \<or> \<not> css_connected st
        | None \<Rightarrow> False)"

text \<open>\<open>apply\<close> against the demo server: read, then update.\<close>

definition apply_on_server ::
  "fixtures \<Rightarrow> ctx \<Rightarrow> string \<Rightarrow> agent_collection_capability \<Rightarrow> db \<Rightarrow> db \<times> (thrown + unit)" where
  "apply_on_server fx c i cap d =
     (case snd (serve fx c (getCollectorSetupStatus i) d) of
        Inr (R_setup current) \<Rightarrow>
          (case apply_update cap current of
             None \<Rightarrow> (d, Inr ())
           | Some p \<Rightarrow> (let (d', r) = serve fx c (updateAgentProfile i p) d in (d', case r of Inl e \<Rightarrow> Inl e | Inr _ \<Rightarrow> Inr ())))
      | Inr _ \<Rightarrow> (d, Inl ThrownValue)
      | Inl e \<Rightarrow> (d, Inl e))"

section \<open>The panel counts what is needed\<close>

definition capability_report :: "connected_agent \<Rightarrow> agent_collection_capability \<Rightarrow> agent_capability_status option" where
  "capability_report agent c =
     (case c of
        Cap_infrastructure \<Rightarrow> map_option cr_hostMetrics (ag_capabilities agent)
      | Cap_api \<Rightarrow> map_option cr_automaticTracing (ag_capabilities agent)
      | _ \<Rightarrow> map_option cr_containerMonitoring (ag_capabilities agent))"

text \<open>An enabled capability works when its data arrived and, metrics apart, the host reports it as available.\<close>

definition capability_works :: "connected_agent \<Rightarrow> collector_setup_status option \<Rightarrow> agent_collection_capability \<Rightarrow> bool" where
  "capability_works agent status c \<longleftrightarrow>
     received status (signal_of c)
     \<and> (c = Cap_metrics \<or> map_option cs_state (capability_report agent c) = Some St_available)"

lemma enabled_all: "list_all P (enabledCapabilities agent) \<longleftrightarrow>
   (Cap_uptime \<in> set (enabledCapabilities agent) \<longrightarrow> P Cap_uptime) \<and> (Cap_logs \<in> set (enabledCapabilities agent) \<longrightarrow> P Cap_logs)
   \<and> (Cap_infrastructure \<in> set (enabledCapabilities agent) \<longrightarrow> P Cap_infrastructure)
   \<and> (Cap_api \<in> set (enabledCapabilities agent) \<longrightarrow> P Cap_api) \<and> (Cap_metrics \<in> set (enabledCapabilities agent) \<longrightarrow> P Cap_metrics)"
proof -
  have "(\<forall>c. Q c) \<longleftrightarrow> Q Cap_uptime \<and> Q Cap_logs \<and> Q Cap_infrastructure \<and> Q Cap_api \<and> Q Cap_metrics" for Q
  proof
    assume "Q Cap_uptime \<and> Q Cap_logs \<and> Q Cap_infrastructure \<and> Q Cap_api \<and> Q Cap_metrics"
    then show "\<forall>c. Q c" by (intro allI) (case_tac c, simp_all)
  qed simp
  from this [of "\<lambda>c. c \<in> set (enabledCapabilities agent) \<longrightarrow> P c"] show ?thesis by (simp only: list_all_iff Ball_def)
qed

lemma basic_ready: "basicState agent status error = Ready \<longleftrightarrow>
   (containerCollectionEnabled agent \<or> infrastructureEnabled agent) \<and> panel_connected status error \<and> basicDataReady agent status
   \<and> list_all (\<lambda>x. map_option cs_state x = Some St_available) (basic_reports agent)"
  by (auto simp: basicState_def basicCapabilityState_def combineCapabilityState_def list_all_iff)

lemma tracing_ready: "tracingState agent status error = Ready \<longleftrightarrow>
   apiEnabled agent \<and> panel_connected status error \<and> received status ''traces''
   \<and> map_option cs_state (map_option cr_automaticTracing (ag_capabilities agent)) = Some St_available"
  by (auto simp: tracingState_def traceCapabilityState_def capabilityState_def split: option.split)

lemma steps_counted:
  assumes "b \<longrightarrow> b'" "c \<longrightarrow> c'" "m \<longrightarrow> m'"
  shows "of_bool a + of_bool b + of_bool c + of_bool m \<le> (1 + of_bool b' + of_bool c' + of_bool m' :: nat)"
    "of_bool a + of_bool b + of_bool c + of_bool m = (1 + of_bool b' + of_bool c' + of_bool m' :: nat)
      \<longleftrightarrow> a \<and> (b' \<longrightarrow> b) \<and> (c' \<longrightarrow> c) \<and> (m' \<longrightarrow> m)"
  using assms by (cases a; cases b; cases b'; cases c; cases c'; cases m; cases m'; simp)+

text \<open>C37: The guide never counts more steps done than it requires, and it says that the setup is complete
  exactly when the collector is connected, its configuration is applied and every enabled capability
  is available on the host and has delivered data.\<close>

theorem setup_complete_exact:
  "requiredReady agent status error \<le> requiredTotal agent
    \<and> (requiredComplete agent status error \<longleftrightarrow>
        panel_connected status error \<and> (case status of Some st \<Rightarrow> css_configApplied st | None \<Rightarrow> False)
        \<and> list_all (capability_works agent status) (enabledCapabilities agent))"
proof
  let ?a = "panel_connected status error \<and> (case status of Some st \<Rightarrow> css_configApplied st | None \<Rightarrow> False)"
  let ?m = "metricsEnabled agent \<and> panel_connected status error \<and> received status ''metrics''"
  let ?b = "basicState agent status error = Ready" and ?b' = "containerCollectionEnabled agent \<or> infrastructureEnabled agent"
  let ?c = "tracingState agent status error = Ready"
  have imp: "?b \<longrightarrow> ?b'" "?c \<longrightarrow> apiEnabled agent" "?m \<longrightarrow> metricsEnabled agent"
    by (simp_all add: basic_ready tracing_ready)
  note counted = steps_counted [OF imp, of ?a, folded requiredReady_def requiredTotal_def requiredComplete_def]
  show "requiredReady agent status error \<le> requiredTotal agent" by (rule counted(1))
  have "requiredComplete agent status error \<longleftrightarrow> ?a \<and> (?b' \<longrightarrow> ?b) \<and> (apiEnabled agent \<longrightarrow> ?c) \<and> (metricsEnabled agent \<longrightarrow> ?m)"
    by (rule counted(2))
  also have "\<dots> \<longleftrightarrow> ?a \<and> list_all (capability_works agent status) (enabledCapabilities agent)"
    unfolding enabled_all
    by (auto simp: basic_ready tracing_ready capability_works_def capability_report_def signal_of_def basicDataReady_def
        basic_reports_def containerCollectionEnabled_def infrastructureEnabled_def apiEnabled_def metricsEnabled_def)
  finally show "requiredComplete agent status error \<longleftrightarrow>
        panel_connected status error \<and> (case status of Some st \<Rightarrow> css_configApplied st | None \<Rightarrow> False)
        \<and> list_all (capability_works agent status) (enabledCapabilities agent)"
    by simp
qed

section \<open>An added capability\<close>

definition refreshed :: "fixtures \<Rightarrow> ctx \<Rightarrow> connected_agent \<Rightarrow> connected_agent" where
  "refreshed fx c a =
     (if ag_id a \<in> set (fx_initialAgents fx)
      then a\<lparr>ag_lastSeenAt := fresh_time (ctx_now c), ag_updatedAt := fresh_time (ctx_now c)\<rparr> else a)"

lemma refreshed_fields [simp]: "ag_id (refreshed fx c a) = ag_id a" "ag_profile (refreshed fx c a) = ag_profile a"
  by (simp_all add: refreshed_def)

lemma setup_normal:
  assumes "ctx_scenario c = Scen_normal"
  shows "collector_setup fx c d i =
    (case find_by ag_id (db_agents d) i of None \<Rightarrow> Inl environment_missing | Some a \<Rightarrow> Inr (R_setup (setup_status c d (refreshed fx c a))))"
proof -
  have "scenarioAgents fx d (ctx_now c) (ctx_scenario c) = Inr (map (refreshed fx c) (db_agents d))"
    unfolding scenarioAgents_def assms by (simp, rule map_try_total) (simp add: refreshed_def)
  moreover have "find (\<lambda>a. ag_id a = i) (map (refreshed fx c) xs) = map_option (refreshed fx c) (find (\<lambda>a. ag_id a = i) xs)" for xs
    by (induction xs) auto
  ultimately show ?thesis
    by (simp add: collector_setup_def find_by_def split: option.split)
qed

lemma custom_of:
  assumes "profile_closed p"
  shows "set (pf_capabilities (normalizeMockAgentProfile (Some (input_of_profile \<lparr>pf_kind = PK_custom, pf_capabilities = pf_capabilities p @ [cap]\<rparr>))))
    = set (pf_capabilities p) \<union> {cap} \<union> (if cap = Cap_logs \<or> cap = Cap_api then {Cap_uptime} else {})"
proof -
  have t: "''logs'' = agent_collection_capability_text x \<longleftrightarrow> x = Cap_logs" "''api'' = agent_collection_capability_text x \<longleftrightarrow> x = Cap_api" for x
    by (cases x; simp)+
  have "''logs'' \<in> agent_collection_capability_text ` S \<longleftrightarrow> Cap_logs \<in> S" "''api'' \<in> agent_collection_capability_text ` S \<longleftrightarrow> Cap_api \<in> S" for S
    by (auto simp: t image_iff)
  moreover have "agent_collection_capability_text x \<in> agent_collection_capability_text ` S \<longleftrightarrow> x \<in> S" for x S by auto
  ultimately show ?thesis using assms
    by (auto simp: input_of_profile_def normalize_custom wants_def profile_closed_def t)
qed

text \<open>C38: Adding a capability through the dialog, against the demo server: the next status read has everything
  that was selected before and the new capability, with uptime when it needs that, and no more; no
  other collector's profile changes.\<close>

theorem capability_added:
  assumes "is_segment i" "ctx_scenario c = Scen_normal"
    and old: "snd (serve fx c (getCollectorSetupStatus i) d) = Inr (R_setup old)"
    and run: "(d', r) = apply_on_server fx c i cap d"
  shows "r = Inr ()
    \<and> (\<exists>new. snd (serve fx c (getCollectorSetupStatus i) d') = Inr (R_setup new)
        \<and> set (pf_capabilities (css_profile new)) = set (pf_capabilities (css_profile old)) \<union> {cap}
            \<union> (if cap = Cap_logs \<or> cap = Cap_api then {Cap_uptime} else {}))
    \<and> (\<forall>j. j \<noteq> i \<longrightarrow> find_by ag_id (db_agents d') j = find_by ag_id (db_agents d) j)"
proof -
  have read: "snd (serve fx c (getCollectorSetupStatus i) s) =
      (case find_by ag_id (db_agents s) i of None \<Rightarrow> Inl environment_missing | Some a \<Rightarrow> Inr (R_setup (setup_status c s (refreshed fx c a))))" for s
    by (simp add: serve_rules assms(1) setup_normal [OF assms(2)])
  obtain a where a: "find_by ag_id (db_agents d) i = Some a" and o: "old = setup_status c d (refreshed fx c a)"
    using old unfolding read by (auto split: option.splits)
  have p: "css_profile (setup_status c s (refreshed fx c b)) = normalizeMockAgentProfile (map_option input_of_profile (ag_profile b))" for s b
    by (simp add: setup_status_def Let_def)
  let ?p = "css_profile old"
  have closed: "profile_closed ?p" unfolding o p by (rule normalize_closed)
  show ?thesis
  proof (cases "cap \<in> set (pf_capabilities ?p)")
    case True
    then have "d' = d" "r = Inr ()" using run by (simp_all add: apply_on_server_def old apply_update_def)
    then show ?thesis using True closed old by (auto simp: profile_closed_def)
  next
    case False
    let ?q = "\<lparr>pf_kind = PK_custom, pf_capabilities = pf_capabilities ?p @ [cap]\<rparr>"
    let ?n = "normalizeMockAgentProfile (Some (input_of_profile ?q))" and ?j = "agent_profile_json ?q"
    have j: "profile_of_json ?j = input_of_profile ?q"
      by (simp add: profile_of_json_def input_of_profile_def agent_profile_json_def get_strings_def comp_def)
    have "apply_on_server fx c i cap d = (fst (set_profile i ?j d), case snd (set_profile i ?j d) of Inl e \<Rightarrow> Inl e | Inr _ \<Rightarrow> Inr ())"
      using False by (simp add: apply_on_server_def old apply_update_def serve_updateProfile [OF assms(1)] case_prod_unfold Let_def)
    moreover have "snd (set_profile i ?j d) = Inr (R_profile (normalizeMockAgentProfile (Some (profile_of_json ?j))))"
      using arg_cong [OF set_profile_found(1) [OF a, of ?j], of snd] by simp
    ultimately have s: "d' = fst (set_profile i ?j d)" "r = Inr ()" using run by simp_all
    have look: "find_by ag_id (db_agents d') k = (if k = i then Some (a\<lparr>ag_profile := Some ?n\<rparr>) else find_by ag_id (db_agents d) k)" for k
      using agents.look_edit [of i ?j d k] a by (simp add: s put_profile_def j)
    have "css_profile (setup_status c d' (refreshed fx c (a\<lparr>ag_profile := Some ?n\<rparr>))) = ?n"
      unfolding p by (simp add: normalize_again)
    then show ?thesis using look custom_of [OF closed] by (simp add: s(2) read)
  qed
qed

lemma capability_added_witness:
  "\<exists>new. snd (serve demo_fx (demo_ctx\<lparr>ctx_scenario := Scen_normal\<rparr>) (getCollectorSetupStatus ''agent_demo_01'')
       (fst (apply_on_server demo_fx (demo_ctx\<lparr>ctx_scenario := Scen_normal\<rparr>) ''agent_demo_01'' Cap_infrastructure demo_db))) = Inr (R_setup new)
     \<and> Cap_infrastructure \<in> set (pf_capabilities (css_profile new))"
proof -
  let ?c = "demo_ctx\<lparr>ctx_scenario := Scen_normal\<rparr>"
  have "find_by ag_id (db_agents demo_db) ''agent_demo_01'' = Some demo_agent" by (simp add: demo_db_def demo_agent_def find_by_def)
  then have "snd (serve demo_fx ?c (getCollectorSetupStatus ''agent_demo_01'') demo_db) = Inr (R_setup (setup_status ?c demo_db (refreshed demo_fx ?c demo_agent)))"
    by (simp add: serve_rules demo_segments setup_normal)
  from capability_added [OF demo_segments(3) _ this prod.collapse [of "apply_on_server demo_fx ?c ''agent_demo_01'' Cap_infrastructure demo_db"]]
  show ?thesis by auto
qed

end
