(* ===== verification/EU_RequestTrends.thy ===== *)
theory EU_RequestTrends imports EU_Charts EU_Mock EU_Nav EU_Answers
begin

text \<open>
  The request trends of a service or environment,
  \<open>features/healthcheck/components/AgentServiceRequestTrends.tsx\<close>: four reads per window (the chart,
  the same hours a week earlier, rollouts, the status classes), the chart's rows, tiles and tooltips,
  and how they count the requests of the demo server's answer.
  \<open>ltime\<close> is the locale's text of a time of day.
\<close>

section \<open>Reads\<close>

fun bucket_mins :: "global_time_range \<Rightarrow> int" where
  "bucket_mins GR_1h = 2"
| "bucket_mins GR_6h = 10"
| "bucket_mins GR_24h = 30"

definition bucket_ms :: "global_time_range \<Rightarrow> int" where
  "bucket_ms r = bucket_mins r * 60000"

definition WEEK_MS :: int where
  "WEEK_MS = 7 * 24 * 3600000"

datatype trend_source = Trend_agent string "string option" | Trend_direct string

record trend_key =
  tk_source :: trend_source
  tk_range :: global_time_range
  tk_window :: request_window

definition time_window :: "request_window \<Rightarrow> (int \<times> int) option" where
  "time_window w =
     (case (date_parse (rw_from w), date_parse (rw_to w)) of (Some a, Some b) \<Rightarrow> Some (a, b) | _ \<Rightarrow> None)"

definition stats_call :: "trend_source \<Rightarrow> window_params \<Rightarrow> api_request_stats api_call" where
  "stats_call src q =
     (case src of
        Trend_direct i \<Rightarrow> getObservedServiceRequestStats i (Some q)
      | Trend_agent a k \<Rightarrow> if truthy k then getAgentServiceRequestStats a (the k) (Some q) else getAgentRequestStats a (Some q))"

definition current_call :: "trend_key \<Rightarrow> api_request_stats api_call" where
  "current_call k =
     stats_call (tk_source k) \<lparr>wp_from = Some (rw_from (tk_window k)), wp_to = Some (rw_to (tk_window k)), wp_bucketMins = Some (bucket_mins (tk_range k))\<rparr>"

text \<open>The earlier week's window; \<open>toISOString\<close> throws where the window cannot be read.\<close>

definition previous_call :: "trend_key \<Rightarrow> api_request_stats api_call option" where
  "previous_call k =
     map_option (\<lambda>(a, b). stats_call (tk_source k)
       \<lparr>wp_from = Some (iso_string (a - WEEK_MS)), wp_to = Some (iso_string (b - WEEK_MS)), wp_bucketMins = Some (bucket_mins (tk_range k))\<rparr>)
       (time_window (tk_window k))"

definition deploys_call :: "trend_key \<Rightarrow> agent_event list api_call option" where
  "deploys_call k =
     (case tk_source k of
        Trend_agent a key \<Rightarrow> Some (getAgentDeploys a (rw_from (tk_window k)) key)
      | Trend_direct _ \<Rightarrow> None)"

definition summary_call :: "trend_key \<Rightarrow> api_request_status_summary api_call" where
  "summary_call k =
     (let q = \<lparr>spn_from = Some (rw_from (tk_window k)), spn_to = Some (rw_to (tk_window k))\<rparr> in
      case tk_source k of
        Trend_direct i \<Rightarrow> getObservedServiceRequestStatusSummary i (Some q)
      | Trend_agent a key \<Rightarrow> getRequestStatusSummary a key (Some q))"

datatype trend_read = Read_current | Read_previous | Read_deploys | Read_summary

datatype trend_metric = Tm_count | Tm_error | Tm_latency

record trends =
  tq_key :: trend_key
  tq_buckets :: "api_request_stat_bucket list"
  tq_prevBuckets :: "api_request_stat_bucket list"
  tq_deploys :: "agent_event list"
  tq_summary :: "api_request_status_summary option"
  tq_loading :: bool
  tq_error :: "string option"
  tq_summaryError :: bool
  tq_truncated :: bool
  tq_metric :: trend_metric
  tq_run :: nat
  tq_pending :: "(nat \<times> trend_read \<times> trend_key) list"

text \<open>The reads of one run; where the window cannot be read the function throws before it awaits any.\<close>

definition trend_reads :: "trend_key \<Rightarrow> trend_read list" where
  "trend_reads k =
     (if previous_call k = None then []
      else [Read_current, Read_previous] @ (if deploys_call k = None then [] else [Read_deploys]) @ [Read_summary])"

definition trends_start :: "trend_key \<Rightarrow> trends \<Rightarrow> trends" where
  "trends_start k s =
     s\<lparr>tq_key := k, tq_error := None, tq_summaryError := False, tq_run := Suc (tq_run s),
       tq_pending := tq_pending s @ map (\<lambda>r. (Suc (tq_run s), r, k)) (trend_reads k)\<rparr>"

definition trends_mounted :: "trend_key \<Rightarrow> trends" where
  "trends_mounted k =
     trends_start k
       \<lparr>tq_key = k, tq_buckets = [], tq_prevBuckets = [], tq_deploys = [], tq_summary = None, tq_loading = True, tq_error = None,
        tq_summaryError = False, tq_truncated = False, tq_metric = Tm_count, tq_run = 0, tq_pending = []\<rparr>"

text \<open>The retry of a failed chart shows the skeleton again; the one beside the status classes does not.\<close>

definition trends_retry :: "trends \<Rightarrow> trends" where
  "trends_retry s = trends_start (tq_key s) (s\<lparr>tq_loading := True\<rparr>)"

definition summary_retry :: "trends \<Rightarrow> trends" where
  "summary_retry s = trends_start (tq_key s) s"

definition drop_read :: "nat \<times> trend_read \<times> trend_key \<Rightarrow> trends \<Rightarrow> trends" where
  "drop_read q s = s\<lparr>tq_pending := remove1 q (tq_pending s)\<rparr>"

definition current_answered :: "nat \<times> trend_read \<times> trend_key \<Rightarrow> thrown + api_request_stats \<Rightarrow> trends \<Rightarrow> trends" where
  "current_answered q r s =
     (let s = drop_read q s in
      if fst q \<noteq> tq_run s then s
      else case r of
          Inr d \<Rightarrow> s\<lparr>tq_buckets := rs_buckets d, tq_truncated := rs_truncated d, tq_loading := False\<rparr>
        | Inl e \<Rightarrow> s\<lparr>tq_error := Some (getErrorMessage e), tq_loading := False\<rparr>)"

definition previous_answered :: "nat \<times> trend_read \<times> trend_key \<Rightarrow> thrown + api_request_stats \<Rightarrow> trends \<Rightarrow> trends" where
  "previous_answered q r s =
     (let s = drop_read q s in
      if fst q \<noteq> tq_run s then s
      else s\<lparr>tq_prevBuckets := (case r of Inr d \<Rightarrow> if rs_truncated d then [] else rs_buckets d | Inl _ \<Rightarrow> [])\<rparr>)"

definition deploys_answered :: "nat \<times> trend_read \<times> trend_key \<Rightarrow> thrown + agent_event list \<Rightarrow> trends \<Rightarrow> trends" where
  "deploys_answered q r s =
     (let s = drop_read q s in
      if fst q \<noteq> tq_run s then s else s\<lparr>tq_deploys := (case r of Inr d \<Rightarrow> d | Inl _ \<Rightarrow> [])\<rparr>)"

definition summary_answered :: "nat \<times> trend_read \<times> trend_key \<Rightarrow> thrown + api_request_status_summary \<Rightarrow> trends \<Rightarrow> trends" where
  "summary_answered q r s =
     (let s = drop_read q s in
      if fst q \<noteq> tq_run s then s
      else case r of
          Inr d \<Rightarrow> s\<lparr>tq_summary := Some d\<rparr>
        | Inl _ \<Rightarrow> s\<lparr>tq_summary := None, tq_summaryError := True\<rparr>)"

section \<open>The rows of the chart\<close>

record chart_point =
  cp_t :: int
  cp_count :: int
  cp_success :: int
  cp_errors :: int
  cp_errorRate :: "rat option"
  cp_p50 :: "rat option"
  cp_p95 :: "rat option"
  cp_p99 :: "rat option"
  cp_prevCount :: "int option"
  cp_prevErrorRate :: "rat option"
  cp_prevP99 :: "rat option"

definition errorRatePct :: "api_request_stat_bucket \<Rightarrow> rat" where
  "errorRatePct b = of_int (math_round (of_int (sb_errorCount b) / of_int (sb_count b) * 1000)) / 10"

definition point_of :: "int \<Rightarrow> api_request_stat_bucket \<Rightarrow> chart_point" where
  "point_of t b =
     \<lparr>cp_t = t, cp_count = sb_count b, cp_success = sb_count b - sb_errorCount b, cp_errors = sb_errorCount b,
      cp_errorRate = (if sb_count b > 0 then Some (errorRatePct b) else None),
      cp_p50 = (if sb_timed b > 0 then Some (sb_p50 b) else None), cp_p95 = (if sb_timed b > 0 then Some (sb_p95 b) else None),
      cp_p99 = (if sb_timed b > 0 then Some (sb_p99 b) else None), cp_prevCount = None, cp_prevErrorRate = None, cp_prevP99 = None\<rparr>"

definition no_requests :: "int \<Rightarrow> chart_point" where
  "no_requests t =
     \<lparr>cp_t = t, cp_count = 0, cp_success = 0, cp_errors = 0, cp_errorRate = None, cp_p50 = None, cp_p95 = None, cp_p99 = None,
      cp_prevCount = None, cp_prevErrorRate = None, cp_prevP99 = None\<rparr>"

text \<open>A bucket whose time cannot be read has the slot \<open>NaN\<close>, which no slot of the window is.\<close>

definition timed_stats :: "api_request_stat_bucket list \<Rightarrow> (int \<times> api_request_stat_bucket) list" where
  "timed_stats = List.map_filter (\<lambda>b. map_option (\<lambda>t. (t, b)) (date_parse (sb_time b)))"

definition prevBySlot :: "int \<Rightarrow> api_request_stat_bucket list \<Rightarrow> (int \<times> api_request_stat_bucket) list" where
  "prevBySlot step prev = map_from (map (\<lambda>(t, b). (slot_of step (t + WEEK_MS), b)) (timed_stats prev))"

definition with_previous :: "int \<Rightarrow> api_request_stat_bucket list \<Rightarrow> chart_point \<Rightarrow> chart_point" where
  "with_previous step prev row =
     (let p = map_of (prevBySlot step prev) (cp_t row) in
      row\<lparr>cp_prevCount := (if prev \<noteq> [] then Some (case p of Some b \<Rightarrow> sb_count b | None \<Rightarrow> 0) else None),
          cp_prevErrorRate := (case p of Some b \<Rightarrow> if sb_count b > 0 then Some (errorRatePct b) else None | None \<Rightarrow> None),
          cp_prevP99 := (case p of Some b \<Rightarrow> if sb_timed b > 0 then Some (sb_p99 b) else None | None \<Rightarrow> None)\<rparr>)"

definition trend_rows ::
  "api_request_stat_bucket list \<Rightarrow> api_request_stat_bucket list \<Rightarrow> int \<times> int \<Rightarrow> int \<Rightarrow> chart_point list option" where
  "trend_rows buckets prev w step =
     map_option (map (with_previous step prev))
       (fillBuckets cp_t (\<lambda>t row. row\<lparr>cp_t := t\<rparr>) (map (\<lambda>(t, b). point_of t b) (timed_stats buckets)) w step no_requests)"

definition trend_data :: "trends \<Rightarrow> chart_point list" where
  "trend_data s =
     (case time_window (tk_window (tq_key s)) of
        Some w \<Rightarrow> or_default (trend_rows (tq_buckets s) (tq_prevBuckets s) w (bucket_ms (tk_range (tq_key s)))) []
      | None \<Rightarrow> [])"

section \<open>Tiles, axis and tooltip\<close>

datatype trend_view = Tv_loading | Tv_failed string | Tv_truncated | Tv_nothing | Tv_chart

definition trend_view :: "trends \<Rightarrow> trend_view" where
  "trend_view s =
     (if tq_loading s then Tv_loading
      else if truthy (tq_error s) then Tv_failed (the (tq_error s))
      else if tq_truncated s then Tv_truncated
      else if tq_buckets s = [] then Tv_nothing else Tv_chart)"

definition anyLatency :: "trends \<Rightarrow> bool" where
  "anyLatency s \<longleftrightarrow> list_ex (\<lambda>b. sb_timed b > 0) (tq_buckets s)"

definition shown_metric :: "trends \<Rightarrow> trend_metric" where
  "shown_metric s = (if tq_metric s = Tm_latency \<and> \<not> anyLatency s then Tm_count else tq_metric s)"

definition totalCount :: "trends \<Rightarrow> int" where
  "totalCount s = sum_list (map sb_count (tq_buckets s))"

definition totalErrors :: "trends \<Rightarrow> int" where
  "totalErrors s = sum_list (map sb_errorCount (tq_buckets s))"

definition latestPoint :: "trends \<Rightarrow> chart_point option" where
  "latestPoint s = find (\<lambda>d. cp_p95 d \<noteq> None) (rev (trend_data s))"

definition latestP95 :: "trends \<Rightarrow> rat" where
  "latestP95 s = or_default (Option.bind (latestPoint s) cp_p95) 0"

definition trend_tiles :: "(int \<Rightarrow> string) \<Rightarrow> trends \<Rightarrow> (trend_metric \<times> string \<times> string) list" where
  "trend_tiles ntext s =
     [(Tm_count, ntext (totalCount s), [CHR 0xEA, CHR 0xB1, CHR 0xB4]),
      (Tm_error, to_fixed 1 (if totalCount s > 0 then of_int (totalErrors s) / of_int (totalCount s) * 100 else 0), ''%'')]
     @ (if anyLatency s then [(Tm_latency, show_int (math_round (latestP95 s)), ''ms'')] else [])"

definition some_values :: "(chart_point \<Rightarrow> rat option) \<Rightarrow> chart_point list \<Rightarrow> rat list" where
  "some_values f rows = List.map_filter f rows"

definition rat_count :: "chart_point \<Rightarrow> rat option" where
  "rat_count p = Some (of_int (cp_count p))"

definition rat_prevCount :: "chart_point \<Rightarrow> rat option" where
  "rat_prevCount p = map_option of_int (cp_prevCount p)"

definition drawn_values :: "trend_metric \<Rightarrow> chart_point list \<Rightarrow> rat list" where
  "drawn_values m rows =
     (case m of
        Tm_count \<Rightarrow> some_values rat_count rows
      | Tm_error \<Rightarrow> some_values cp_errorRate rows
      | Tm_latency \<Rightarrow> some_values cp_p99 rows @ some_values cp_p95 rows @ some_values cp_p50 rows)"

definition prevValues :: "trend_metric \<Rightarrow> chart_point list \<Rightarrow> rat list" where
  "prevValues m rows =
     (case m of
        Tm_count \<Rightarrow> some_values rat_prevCount rows
      | Tm_error \<Rightarrow> some_values cp_prevErrorRate rows
      | Tm_latency \<Rightarrow> some_values cp_prevP99 rows)"

text \<open>The maximum the axis is made for.\<close>

definition axis_max :: "trend_metric \<Rightarrow> chart_point list \<Rightarrow> rat" where
  "axis_max m rows = fold max (prevValues m rows) (fold max (drawn_values m rows) 0)"

definition trend_legend :: "trend_metric \<Rightarrow> chart_point list \<Rightarrow> agent_event list \<Rightarrow> string list" where
  "trend_legend m rows deploys =
     (case m of Tm_count \<Rightarrow> [[CHR 0xEC, CHR 0x84, CHR 0xB1, CHR 0xEA, CHR 0xB3, CHR 0xB5], [CHR 0xEC, CHR 0x97, CHR 0x90, CHR 0xEB, CHR 0x9F, CHR 0xAC]] | Tm_error \<Rightarrow> [] | Tm_latency \<Rightarrow> [''p50'', ''p95'', ''p99''])
     @ (if prevValues m rows \<noteq> [] then [if m = Tm_latency then (''p99 '' @ [CHR 0xC2, CHR 0xB7] @ '' '' @ [CHR 0xEC, CHR 0xA7, CHR 0x80, CHR 0xEB, CHR 0x82, CHR 0x9C, CHR 0xEC, CHR 0xA3, CHR 0xBC]) else [CHR 0xEC, CHR 0xA7, CHR 0x80, CHR 0xEB, CHR 0x82, CHR 0x9C, CHR 0xEC, CHR 0xA3, CHR 0xBC]] else [])
     @ (if deploys \<noteq> [] then [[CHR 0xEB, CHR 0xB0, CHR 0xB0, CHR 0xED, CHR 0x8F, CHR 0xAC]] else [])"

text \<open>The status classes with their shares in percent; nothing when there was no request.\<close>

definition status_total :: "api_request_status_summary \<Rightarrow> int" where
  "status_total x = ss_count2xx x + ss_count3xx x + ss_count4xx x + ss_count5xx x + ss_countOther x"

definition status_classes :: "api_request_status_summary \<Rightarrow> (string \<times> int) list" where
  "status_classes x =
     filter (\<lambda>c. snd c > 0)
       [(''2xx'', ss_count2xx x), (''3xx'', ss_count3xx x), (''4xx'', ss_count4xx x), (''5xx'', ss_count5xx x), ([CHR 0xEA, CHR 0xB8, CHR 0xB0, CHR 0xED, CHR 0x83, CHR 0x80], ss_countOther x)]"

definition class_share :: "api_request_status_summary \<Rightarrow> int \<Rightarrow> rat" where
  "class_share x n = of_int n / of_int (status_total x) * 100"

definition status_bar :: "api_request_status_summary option \<Rightarrow> (string \<times> rat) list" where
  "status_bar v =
     (case v of
        Some x \<Rightarrow> if status_total x > 0 then map (\<lambda>c. (fst c, class_share x (snd c))) (status_classes x) else []
      | None \<Rightarrow> [])"

definition deploy_hits :: "chart_point \<Rightarrow> agent_event list \<Rightarrow> int \<Rightarrow> agent_event list" where
  "deploy_hits row deploys step =
     filter (\<lambda>d. case date_parse (ae_time d) of Some t \<Rightarrow> cp_t row \<le> t \<and> t < cp_t row + step | None \<Rightarrow> False) deploys"

definition previous_image :: "agent_event \<Rightarrow> string" where
  "previous_image d =
     (case Option.bind (ae_metadata d) (\<lambda>m. map_of m ''previousImage'') of Some (JStr s) \<Rightarrow> s | _ \<Rightarrow> [])"

definition deploy_text :: "(string \<Rightarrow> string) \<Rightarrow> bool \<Rightarrow> agent_event \<Rightarrow> string" where
  "deploy_text ltime withService d =
     ltime (ae_time d) @ '' ''
     @ (if withService \<and> truthy (ae_serviceName d) then the (ae_serviceName d) @ ('' '' @ [CHR 0xC2, CHR 0xB7] @ '' '') else [])
     @ (if previous_image d \<noteq> [] \<and> ae_message d \<noteq> Some (previous_image d)
        then ([CHR 0xEB, CHR 0xB0, CHR 0xB0, CHR 0xED, CHR 0x8F, CHR 0xAC] @ '' '') @ previous_image d @ ('' '' @ [CHR 0xE2, CHR 0x86, CHR 0x92] @ '' '') @ or_default (ae_message d) ''undefined''
        else ([CHR 0xEC, CHR 0x9E, CHR 0xAC, CHR 0xEC, CHR 0x8B, CHR 0x9C, CHR 0xEC, CHR 0x9E, CHR 0x91] @ '' '') @ or_default (ae_message d) [])"

definition bucketRows :: "(rat \<Rightarrow> string) \<Rightarrow> chart_point \<Rightarrow> trend_metric \<Rightarrow> (string \<times> rat \<times> string) list" where
  "bucketRows nt row m =
     [([CHR 0xEC, CHR 0x9A, CHR 0x94, CHR 0xEC, CHR 0xB2, CHR 0xAD], of_int (cp_count row), [CHR 0xEA, CHR 0xB1, CHR 0xB4]),
      ([CHR 0xEC, CHR 0x97, CHR 0x90, CHR 0xEB, CHR 0x9F, CHR 0xAC], of_int (cp_errors row), case cp_errorRate row of None \<Rightarrow> [CHR 0xEA, CHR 0xB1, CHR 0xB4] | Some r \<Rightarrow> ([CHR 0xEA, CHR 0xB1, CHR 0xB4] @ '' '' @ [CHR 0xC2, CHR 0xB7] @ '' '') @ nt r @ ''%'')]
     @ (case cp_p50 row of Some v \<Rightarrow> [(''p50'', v, ''ms'')] | None \<Rightarrow> [])
     @ (case cp_p95 row of Some v \<Rightarrow> [(''p95'', v, ''ms'')] | None \<Rightarrow> [])
     @ (case cp_p99 row of Some v \<Rightarrow> [(''p99'', v, ''ms'')] | None \<Rightarrow> [])
     @ (case m of
          Tm_count \<Rightarrow> (case cp_prevCount row of Some v \<Rightarrow> [(([CHR 0xEC, CHR 0x9A, CHR 0x94, CHR 0xEC, CHR 0xB2, CHR 0xAD] @ '' '' @ [CHR 0xC2, CHR 0xB7] @ '' '' @ [CHR 0xEC, CHR 0xA7, CHR 0x80, CHR 0xEB, CHR 0x82, CHR 0x9C, CHR 0xEC, CHR 0xA3, CHR 0xBC]), of_int v, [CHR 0xEA, CHR 0xB1, CHR 0xB4])] | None \<Rightarrow> [])
        | Tm_error \<Rightarrow> (case cp_prevErrorRate row of Some v \<Rightarrow> [(([CHR 0xEC, CHR 0x97, CHR 0x90, CHR 0xEB, CHR 0x9F, CHR 0xAC, CHR 0xEC, CHR 0x9C, CHR 0xA8] @ '' '' @ [CHR 0xC2, CHR 0xB7] @ '' '' @ [CHR 0xEC, CHR 0xA7, CHR 0x80, CHR 0xEB, CHR 0x82, CHR 0x9C, CHR 0xEC, CHR 0xA3, CHR 0xBC]), v, ''%'')] | None \<Rightarrow> [])
        | Tm_latency \<Rightarrow> (case cp_prevP99 row of Some v \<Rightarrow> [((''p99 '' @ [CHR 0xC2, CHR 0xB7] @ '' '' @ [CHR 0xEC, CHR 0xA7, CHR 0x80, CHR 0xEB, CHR 0x82, CHR 0x9C, CHR 0xEC, CHR 0xA3, CHR 0xBC]), v, ''ms'')] | None \<Rightarrow> []))"

section \<open>What is shown answers the window chosen\<close>

inductive trends_step ::
  "(trend_key \<Rightarrow> api_request_stats \<Rightarrow> bool) \<Rightarrow> (trend_key \<Rightarrow> api_request_stats \<Rightarrow> bool)
    \<Rightarrow> (trend_key \<Rightarrow> api_request_status_summary \<Rightarrow> bool) \<Rightarrow> trends \<Rightarrow> trends \<Rightarrow> bool" for fits past totals where
  start: "trends_step fits past totals s (trends_start k s)"
| retry: "trends_step fits past totals s (trends_retry s)"
| summary_retry: "trends_step fits past totals s (summary_retry s)"
| metric: "trends_step fits past totals s (s\<lparr>tq_metric := m\<rparr>)"
| current: "q \<in> set (tq_pending s) \<Longrightarrow> fst (snd q) = Read_current \<Longrightarrow> (\<And>d. r = Inr d \<Longrightarrow> fits (snd (snd q)) d) \<Longrightarrow>
    trends_step fits past totals s (current_answered q r s)"
| previous: "q \<in> set (tq_pending s) \<Longrightarrow> fst (snd q) = Read_previous \<Longrightarrow> (\<And>d. r = Inr d \<Longrightarrow> past (snd (snd q)) d) \<Longrightarrow>
    trends_step fits past totals s (previous_answered q r s)"
| deploys: "q \<in> set (tq_pending s) \<Longrightarrow> fst (snd q) = Read_deploys \<Longrightarrow> trends_step fits past totals s (deploys_answered q r' s)"
| summary: "q \<in> set (tq_pending s) \<Longrightarrow> fst (snd q) = Read_summary \<Longrightarrow> (\<And>d. r'' = Inr d \<Longrightarrow> totals (snd (snd q)) d) \<Longrightarrow>
    trends_step fits past totals s (summary_answered q r'' s)"

text \<open>The reads of the current run still in flight.\<close>

definition due :: "trend_read \<Rightarrow> trends \<Rightarrow> (nat \<times> trend_read \<times> trend_key) list" where
  "due r s = filter (\<lambda>q. fst q = tq_run s \<and> fst (snd q) = r) (tq_pending s)"

fun summary_fits ::
  "(trend_key \<Rightarrow> api_request_status_summary \<Rightarrow> bool) \<Rightarrow> trend_key \<Rightarrow> 'r list \<Rightarrow> bool \<Rightarrow> api_request_status_summary option \<Rightarrow> bool" where
  "summary_fits totals k [] True v = (v = None)"
| "summary_fits totals k [] False (Some x) = totals k x"
| "summary_fits totals k [] False None = False"
| "summary_fits totals k (q # qs) failed v = (\<not> failed)"

definition trends_good ::
  "(trend_key \<Rightarrow> api_request_stats \<Rightarrow> bool) \<Rightarrow> (trend_key \<Rightarrow> api_request_stats \<Rightarrow> bool)
    \<Rightarrow> (trend_key \<Rightarrow> api_request_status_summary \<Rightarrow> bool) \<Rightarrow> trends \<Rightarrow> bool" where
  "trends_good fits past totals s \<longleftrightarrow>
     list_all (\<lambda>q. fst q \<le> tq_run s \<and> (fst q = tq_run s \<longrightarrow> snd (snd q) = tq_key s)) (tq_pending s)
     \<and> (\<forall>r. length (due r s) \<le> 1)
     \<and> (previous_call (tq_key s) = None
         \<or> (due Read_current s \<noteq> []
             \<or> \<not> tq_loading s \<and> (tq_error s \<noteq> None \<or> fits (tq_key s) \<lparr>rs_buckets = tq_buckets s, rs_truncated = tq_truncated s\<rparr>))
           \<and> (due Read_previous s \<noteq> []
             \<or> tq_prevBuckets s = [] \<or> past (tq_key s) \<lparr>rs_buckets = tq_prevBuckets s, rs_truncated = False\<rparr>)
           \<and> summary_fits totals (tq_key s) (due Read_summary s) (tq_summaryError s) (tq_summary s))"

lemma due_drop: "due r (drop_read q s) = remove1 q (due r s)"
  by (simp add: due_def drop_read_def filter_remove1)

lemma due_other: "r \<noteq> fst (snd q) \<or> fst q \<noteq> tq_run s \<Longrightarrow> remove1 q (due r s) = due r s"
  by (rule remove1_idem) (auto simp: due_def)

lemma due_same:
  assumes "q \<in> set (tq_pending s)" "fst q = tq_run s" "length (due (fst (snd q)) s) \<le> 1"
  shows "remove1 q (due (fst (snd q)) s) = []"
proof -
  have "q \<in> set (due (fst (snd q)) s)" using assms(1,2) by (simp add: due_def)
  then show ?thesis using assms(3) by (cases "due (fst (snd q)) s") (auto simp: length_Suc_conv le_Suc_eq)
qed

lemma due_started: "list_all (\<lambda>q. fst q \<le> tq_run s) (tq_pending s) \<Longrightarrow>
   due r (trends_start k s) = map (\<lambda>r. (Suc (tq_run s), r, k)) (filter (\<lambda>x. x = r) (trend_reads k))"
  by (auto simp: due_def trends_start_def filter_map comp_def filter_empty_conv list_all_iff)

lemma trends_good_start:
  assumes "list_all (\<lambda>q. fst q \<le> tq_run s) (tq_pending s)"
  shows "trends_good fits past totals (trends_start k s)"
proof -
  have "list_all (\<lambda>q. fst q \<le> tq_run (trends_start k s) \<and> (fst q = tq_run (trends_start k s) \<longrightarrow> snd (snd q) = tq_key (trends_start k s)))
      (tq_pending (trends_start k s))"
    using assms by (auto simp: trends_start_def list_all_iff)
  moreover have "length (due r (trends_start k s)) \<le> 1" for r
    by (cases r) (auto simp: due_started [OF assms] trend_reads_def)
  moreover have "tq_key (trends_start k s) = k" by (simp add: trends_start_def)
  moreover have "\<not> tq_summaryError (trends_start k s)" by (simp add: trends_start_def)
  ultimately show ?thesis by (simp add: trends_good_def due_started [OF assms]) (simp add: trend_reads_def)
qed

lemma dropped:
  assumes "trends_good fits past totals s" "q \<in> set (tq_pending s)"
  shows "list_all (\<lambda>q. fst q \<le> tq_run s \<and> (fst q = tq_run s \<longrightarrow> snd (snd q) = tq_key s)) (remove1 q (tq_pending s))"
    "length (remove1 q (due r s)) \<le> 1" "fst q = tq_run s \<Longrightarrow> snd (snd q) = tq_key s"
    "fst q = tq_run s \<Longrightarrow> remove1 q (due (fst (snd q)) s) = []"
proof -
  show "list_all (\<lambda>q. fst q \<le> tq_run s \<and> (fst q = tq_run s \<longrightarrow> snd (snd q) = tq_key s)) (remove1 q (tq_pending s))"
    using assms(1) by (simp add: trends_good_def list_all_remove1)
  have l: "length (due r s) \<le> 1" for r using assms(1) by (simp add: trends_good_def)
  have "length (remove1 q xs) \<le> length xs" for xs by (simp add: length_remove1)
  from order_trans [OF this l] show "length (remove1 q (due r s)) \<le> 1" .
  show "fst q = tq_run s \<Longrightarrow> snd (snd q) = tq_key s" using assms by (auto simp: trends_good_def list_all_iff)
  show "fst q = tq_run s \<Longrightarrow> remove1 q (due (fst (snd q)) s) = []" by (rule due_same [OF assms(2) _ l])
qed

lemma current_answered_fields [simp]:
  "tq_pending (current_answered q r s) = remove1 q (tq_pending s)" "tq_run (current_answered q r s) = tq_run s"
  "tq_key (current_answered q r s) = tq_key s"
  by (cases r; simp add: current_answered_def drop_read_def Let_def)+

lemma previous_answered_fields [simp]:
  "tq_pending (previous_answered q r s) = remove1 q (tq_pending s)" "tq_run (previous_answered q r s) = tq_run s"
  "tq_key (previous_answered q r s) = tq_key s"
  by (cases r; simp add: previous_answered_def drop_read_def Let_def)+

lemma deploys_answered_fields [simp]:
  "tq_pending (deploys_answered q r s) = remove1 q (tq_pending s)" "tq_run (deploys_answered q r s) = tq_run s"
  "tq_key (deploys_answered q r s) = tq_key s"
  by (cases r; simp add: deploys_answered_def drop_read_def Let_def)+

lemma summary_answered_fields [simp]:
  "tq_pending (summary_answered q r s) = remove1 q (tq_pending s)" "tq_run (summary_answered q r s) = tq_run s"
  "tq_key (summary_answered q r s) = tq_key s"
  by (cases r; simp add: summary_answered_def drop_read_def Let_def)+

lemma due_answered [simp]:
  "due r (current_answered q c s) = remove1 q (due r s)" "due r (previous_answered q c s) = remove1 q (due r s)"
  "due r (deploys_answered q d s) = remove1 q (due r s)" "due r (summary_answered q m s) = remove1 q (due r s)"
  by (simp_all add: due_def filter_remove1)

lemma good_runs: "trends_good fits past totals s \<Longrightarrow> list_all (\<lambda>q. fst q \<le> tq_run s) (tq_pending s)"
  unfolding trends_good_def by (elim conjE) (rule list.pred_mono_strong, assumption, simp)

lemma stats_eta: "\<lparr>rs_buckets = rs_buckets b, rs_truncated = rs_truncated b\<rparr> = b"
  "\<not> rs_truncated b \<Longrightarrow> \<lparr>rs_buckets = rs_buckets b, rs_truncated = False\<rparr> = b"
  by (cases b; simp)+

lemma trends_good_step:
  assumes "trends_step fits past totals s s'" "trends_good fits past totals s"
  shows "trends_good fits past totals s'"
  using assms(1)
proof cases
  case (start k)
  show ?thesis unfolding start by (rule trends_good_start [OF good_runs [OF assms(2)]])
next
  case retry
  show ?thesis unfolding retry trends_retry_def using good_runs [OF assms(2)] by (intro trends_good_start) simp
next
  case summary_retry
  show ?thesis unfolding summary_retry summary_retry_def by (rule trends_good_start [OF good_runs [OF assms(2)]])
next
  case (metric m)
  have "due r (s\<lparr>tq_metric := m\<rparr>) = due r s" for r by (simp add: due_def)
  then show ?thesis using assms(2) by (simp add: metric trends_good_def)
next
  case (current q r)
  note d = dropped [OF assms(2) current(2)]
  show ?thesis
  proof (cases "fst q = tq_run s")
    case False
    then show ?thesis using assms(2) d(1,2)
      by (simp add: current(1) trends_good_def due_other) (simp add: current_answered_def drop_read_def Let_def)
  next
    case True
    have o: "remove1 q (due Read_previous s) = due Read_previous s" "remove1 q (due Read_summary s) = due Read_summary s"
      by (rule due_other, simp add: current(3))+
    show ?thesis using True assms(2) d(1,2) d(3,4) [OF True] current(3,4)
      by (cases r) (simp_all add: current(1) trends_good_def o, simp_all add: current_answered_def drop_read_def Let_def stats_eta, blast+)
  qed
next
  case (previous q r)
  note d = dropped [OF assms(2) previous(2)]
  show ?thesis
  proof (cases "fst q = tq_run s")
    case False
    then show ?thesis using assms(2) d(1,2)
      by (simp add: previous(1) trends_good_def due_other) (simp add: previous_answered_def drop_read_def Let_def)
  next
    case True
    have o: "remove1 q (due Read_current s) = due Read_current s" "remove1 q (due Read_summary s) = due Read_summary s"
      by (rule due_other, simp add: previous(3))+
    show ?thesis using True assms(2) d(1,2) d(3,4) [OF True] previous(3,4)
      by (cases r) (simp_all add: previous(1) trends_good_def o, simp_all add: previous_answered_def drop_read_def Let_def stats_eta, blast+)
  qed
next
  case (deploys q r)
  note d = dropped [OF assms(2) deploys(2)]
  have o: "remove1 q (due Read_current s) = due Read_current s" "remove1 q (due Read_summary s) = due Read_summary s"
    "remove1 q (due Read_previous s) = due Read_previous s"
    by (rule due_other, simp add: deploys(3))+
  show ?thesis using assms(2) d(1,2)
    by (simp add: deploys(1) trends_good_def o) (simp add: deploys_answered_def drop_read_def Let_def)
next
  case (summary q r)
  note d = dropped [OF assms(2) summary(2)]
  show ?thesis
  proof (cases "fst q = tq_run s")
    case False
    then show ?thesis using assms(2) d(1,2)
      by (simp add: summary(1) trends_good_def due_other) (simp add: summary_answered_def drop_read_def Let_def)
  next
    case True
    have o: "remove1 q (due Read_current s) = due Read_current s" "remove1 q (due Read_previous s) = due Read_previous s"
      by (rule due_other, simp add: summary(3))+
    obtain p ps where "due Read_summary s = p # ps"
      using summary(2,3) True by (cases "due Read_summary s") (auto simp: due_def filter_empty_conv)
    then show ?thesis using True assms(2) d(1,2) d(3,4) [OF True] summary(3,4)
      by (cases r) (simp_all add: summary(1) trends_good_def o, simp_all add: summary_answered_def drop_read_def Let_def stats_eta, (blast | cases "tq_summaryError s"; simp; blast)+)
  qed
qed

text \<open>The chart read keeps the contract of a loading hook: without an error, the buckets drawn answer
  the window chosen once its read has ended.\<close>

definition trend_stats :: "trends \<Rightarrow> api_request_stats option" where
  "trend_stats s =
     (if previous_call (tq_key s) = None \<or> due Read_current s \<noteq> [] \<or> tq_error s \<noteq> None then None
      else Some \<lparr>rs_buckets = tq_buckets s, rs_truncated = tq_truncated s\<rparr>)"

interpretation trend_reads: answers fits "trends_step fits past totals" tq_key trend_stats "trends_good fits past totals"
  for fits past totals
proof unfold_locales
  show "trends_good fits past totals s \<Longrightarrow> trend_stats s = Some d \<Longrightarrow> fits (tq_key s) d" for s d
    by (auto simp: trends_good_def trend_stats_def split: if_splits)
qed (rule trends_good_step)

lemma trends_mounted_good: "trends_good fits past totals (trends_mounted k)"
  unfolding trends_mounted_def by (rule trends_good_start) simp

text \<open>Whatever is clicked, chosen or answered in any order, once no read of the window chosen is in
  flight the chart is its answer or an error is shown, the line of the week before is that week's
  or missing, and the status classes are the window's or replaced by a notice.\<close>

theorem trends_current:
  assumes "(trends_step fits past totals)\<^sup>*\<^sup>* (trends_mounted k) s"
    and "previous_call (tq_key s) \<noteq> None" and "list_all (\<lambda>r. due r s = []) [Read_current, Read_previous, Read_summary]"
  shows "\<not> tq_loading s \<and> (tq_error s \<noteq> None \<or> fits (tq_key s) \<lparr>rs_buckets = tq_buckets s, rs_truncated = tq_truncated s\<rparr>)"
    "tq_prevBuckets s = [] \<or> past (tq_key s) \<lparr>rs_buckets = tq_prevBuckets s, rs_truncated = False\<rparr>"
    "if tq_summaryError s then tq_summary s = None else \<exists>x. tq_summary s = Some x \<and> totals (tq_key s) x"
proof -
  have g: "trends_good fits past totals s" by (rule trend_reads.reach_good [OF assms(1) trends_mounted_good])
  show "\<not> tq_loading s \<and> (tq_error s \<noteq> None \<or> fits (tq_key s) \<lparr>rs_buckets = tq_buckets s, rs_truncated = tq_truncated s\<rparr>)"
    "tq_prevBuckets s = [] \<or> past (tq_key s) \<lparr>rs_buckets = tq_prevBuckets s, rs_truncated = False\<rparr>"
    using g assms(2,3) by (simp_all add: trends_good_def)
  have "summary_fits totals (tq_key s) ([] :: (nat \<times> trend_read \<times> trend_key) list) (tq_summaryError s) (tq_summary s)"
    using g assms(2,3) by (simp add: trends_good_def)
  then show "if tq_summaryError s then tq_summary s = None else \<exists>x. tq_summary s = Some x \<and> totals (tq_key s) x"
    by (cases "tq_summaryError s"; cases "tq_summary s") simp_all
qed

section \<open>The rows add up\<close>

lemma bucket_ms_pos [simp]: "0 < bucket_ms r"
  by (cases r) (simp_all add: bucket_ms_def)

text \<open>
  Buckets in slots of their own, from the slot the window begins in to the window's end: bucket starts
  are floored to the width, so the first may lie before an unaligned window.
\<close>

definition one_per_slot :: "int \<times> int \<Rightarrow> int \<Rightarrow> api_request_stat_bucket list \<Rightarrow> bool" where
  "one_per_slot w step bs \<longleftrightarrow>
     list_all (\<lambda>b. case date_parse (sb_time b) of Some t \<Rightarrow> slot_of step (fst w) \<le> t \<and> t \<le> snd w | None \<Rightarrow> False) bs
     \<and> distinct (map (\<lambda>(t, b). slot_of step t) (timed_stats bs))"

lemma timed_stats_all:
  "list_all (\<lambda>b. case date_parse (sb_time b) of Some t \<Rightarrow> x \<le> t \<and> t \<le> y | None \<Rightarrow> False) bs
    \<Longrightarrow> map snd (timed_stats bs) = bs \<and> (\<forall>(t, b) \<in> set (timed_stats bs). x \<le> t \<and> t \<le> y)"
  unfolding timed_stats_def by (induction bs) (auto simp: map_filter_simps split: option.splits)

lemma with_previous_fields [simp]:
  "cp_t (with_previous step prev row) = cp_t row" "cp_count (with_previous step prev row) = cp_count row"
  "cp_errors (with_previous step prev row) = cp_errors row" "cp_success (with_previous step prev row) = cp_success row"
  by (simp_all add: with_previous_def Let_def)

lemma trend_data_sum:
  assumes "time_window (tk_window (tq_key s)) = Some w" "one_per_slot w (bucket_ms (tk_range (tq_key s))) (tq_buckets s)"
    and f: "\<And>x r. f (r\<lparr>cp_t := x\<rparr>) = f r" "\<And>step prev r. f (with_previous step prev r) = f r" "\<And>x. f (no_requests x) = (0 :: int)"
    and g: "\<And>t b. f (point_of t b) = g b"
  shows "sum_list (map f (trend_data s)) = sum_list (map g (tq_buckets s))"
proof -
  let ?ts = "timed_stats (tq_buckets s)" and ?step = "bucket_ms (tk_range (tq_key s))"
  let ?rows = "map (\<lambda>(t, b). point_of t b) ?ts"
  let ?w = "(slot_of ?step (fst w), snd w)"
  have a: "map snd ?ts = tq_buckets s" "\<forall>(t, b) \<in> set ?ts. fst ?w \<le> t \<and> t \<le> snd ?w"
    using timed_stats_all [of "slot_of ?step (fst w)" "snd w" "tq_buckets s"] assms(2) by (simp_all add: one_per_slot_def)
  have t: "cp_t (point_of t b) = t" for t b by (simp add: point_of_def)
  have d: "distinct (map (\<lambda>r. slot_of ?step (cp_t r)) ?rows)"
    using assms(2) by (simp add: one_per_slot_def comp_def case_prod_unfold t)
  have i: "\<forall>r \<in> set ?rows. fst ?w \<le> cp_t r \<and> cp_t r \<le> snd ?w" using a(2) by (auto simp: t)
  have "map f ?rows = map g (map snd ?ts)" by (simp add: case_prod_unfold g)
  then have "map f ?rows = map g (tq_buckets s)" by (simp add: a(1))
  moreover have "fillBuckets cp_t (\<lambda>t row. row\<lparr>cp_t := t\<rparr>) ?rows ?w ?step no_requests
      = fillBuckets cp_t (\<lambda>t row. row\<lparr>cp_t := t\<rparr>) ?rows w ?step no_requests" by (simp add: fillBuckets_def)
  moreover note fillBuckets_sum [of ?step cp_t ?rows ?w f "\<lambda>t row. row\<lparr>cp_t := t\<rparr>" no_requests, OF bucket_ms_pos d i f(1) f(3)]
  ultimately show ?thesis
    by (auto simp: trend_data_def assms(1) trend_rows_def comp_def f(2))
qed

lemma trend_data_rows:
  assumes "time_window (tk_window (tq_key s)) = Some w"
  shows "map cp_t (trend_data s) = window_slots w (bucket_ms (tk_range (tq_key s)))"
    "row \<in> set (trend_data s) \<Longrightarrow> cp_success row + cp_errors row = cp_count row"
proof -
  let ?step = "bucket_ms (tk_range (tq_key s))"
  define m where "m = map_of (map_from (map (\<lambda>r. (slot_of ?step (cp_t r), r)) (map (\<lambda>(t, b). point_of t b) (timed_stats (tq_buckets s)))))"
  have e: "trend_data s = map (\<lambda>x. with_previous ?step (tq_prevBuckets s) (case m x of Some r \<Rightarrow> r\<lparr>cp_t := x\<rparr> | None \<Rightarrow> no_requests x)) (window_slots w ?step)"
    by (simp add: trend_data_def assms trend_rows_def fillBuckets_eq m_def)
  show "map cp_t (trend_data s) = window_slots w ?step"
    unfolding e by (rule nth_equalityI) (simp_all add: no_requests_def split: option.split)
  have "m x = Some r \<Longrightarrow> cp_success r + cp_errors r = cp_count r" for x r
    unfolding m_def map_of_map_from by (drule map_of_SomeD) (auto simp: point_of_def)
  then show "row \<in> set (trend_data s) \<Longrightarrow> cp_success row + cp_errors row = cp_count row"
    unfolding e by (auto simp: no_requests_def split: option.split)
qed

section \<open>The server's buckets\<close>

lemma group_by_step:
  "group_by key (xs @ [x]) = AList.update (key x) ((case map_of (group_by key xs) (key x) of Some g \<Rightarrow> g | None \<Rightarrow> []) @ [x]) (group_by key xs)"
  by (simp add: group_by_def)

lemma group_by_lookup:
  "map_of (group_by key xs) k = (if k \<in> key ` set xs then Some (filter (\<lambda>x. key x = k) xs) else None)"
proof (induction xs arbitrary: k rule: rev_induct)
  case Nil
  then show ?case by (simp add: group_by_def)
next
  case (snoc x xs)
  have "filter (\<lambda>y. key y = key x) xs = []" if "key x \<notin> key ` set xs"
    by (rule filter_False) (metis image_eqI that)
  then show ?case by (auto simp: group_by_step snoc map_of_update split: if_splits)
qed

lemma group_by_distinct: "distinct (map fst (group_by key xs))"
  by (induction xs rule: rev_induct) (simp add: group_by_def, simp add: group_by_step distinct_update)

lemma group_by_keys: "fst ` set (group_by key xs) = key ` set xs"
proof -
  have "k \<in> fst ` set (group_by key xs) \<longleftrightarrow> k \<in> key ` set xs" for k
  proof -
    have "k \<in> fst ` set (group_by key xs) \<longleftrightarrow> map_of (group_by key xs) k \<noteq> None" by (simp add: map_of_eq_None_iff)
    then show ?thesis by (simp add: group_by_lookup)
  qed
  then show ?thesis by blast
qed

lemma group_by_member: "(k, g) \<in> set (group_by key xs) \<Longrightarrow> g = filter (\<lambda>x. key x = k) xs"
proof -
  assume "(k, g) \<in> set (group_by key xs)"
  then have "map_of (group_by key xs) k = Some g" using group_by_distinct [of key xs] by (rule map_of_is_SomeI [rotated])
  then show ?thesis by (simp add: group_by_lookup split: if_splits)
qed

text \<open>A sum over the groups is the sum over the rows.\<close>

lemma sum_by_key:
  assumes "distinct ks" "key ` set xs \<subseteq> set ks"
  shows "sum_list (map (\<lambda>k. sum_list (map h (filter (\<lambda>x. key x = k) xs))) ks) = (sum_list (map h xs) :: int)"
  using assms(2)
proof (induction xs)
  case (Cons x xs)
  have "sum_list (map (\<lambda>k. sum_list (map h (filter (\<lambda>y. key y = k) (x # xs)))) ks)
      = sum_list (map (\<lambda>k. (if k = key x then h x else 0) + sum_list (map h (filter (\<lambda>y. key y = k) xs))) ks)"
    by (intro arg_cong [where f = sum_list] map_cong refl) simp
  also have "\<dots> = sum_list (map (\<lambda>k. if k = key x then h x else 0) ks) + sum_list (map h xs)"
    using Cons by (simp add: sum_list_addf)
  also have "sum_list (map (\<lambda>k. if k = key x then h x else 0) ks) = h x"
    using assms(1) Cons.prems by (simp add: sum_list_distinct_conv_sum_set)
  finally show ?case by simp
qed simp

lemma group_by_sum: "sum_list (map (\<lambda>(k, g). sum_list (map h g)) (group_by key xs)) = (sum_list (map h xs) :: int)"
proof -
  have "sum_list (map (\<lambda>(k, g). sum_list (map h g)) (group_by key xs))
      = sum_list (map (\<lambda>(k, g). sum_list (map h (filter (\<lambda>x. key x = k) xs))) (group_by key xs))"
    by (intro arg_cong [where f = sum_list] map_cong refl) (auto dest: group_by_member)
  also have "\<dots> = sum_list (map (\<lambda>k. sum_list (map h (filter (\<lambda>x. key x = k) xs))) (map fst (group_by key xs)))"
    by (simp add: case_prod_unfold comp_def)
  also have "\<dots> = sum_list (map h xs)" by (rule sum_by_key [OF group_by_distinct]) (simp add: group_by_keys)
  finally show ?thesis .
qed

text \<open>The width of the buckets the client asks for is the width it draws them with.\<close>

fun source_ok :: "trend_source \<Rightarrow> bool" where
  "source_ok (Trend_agent a k) \<longleftrightarrow> is_segment a"
| "source_ok (Trend_direct i) \<longleftrightarrow> is_segment i"

lemma asked_width:
  assumes "source_ok (tk_source k)"
  shows "bs_width (mockBucketStart fx (ac_endpoint (current_call k)) 5) = of_int (bucket_ms (tk_range k))"
proof -
  define q where "q = window_query (Some \<lparr>wp_from = Some (rw_from (tk_window k)), wp_to = Some (rw_to (tk_window k)),
    wp_bucketMins = Some (bucket_mins (tk_range k))\<rparr>)"
  have e: "endpoint_query (ac_endpoint (current_call k)) = q"
  proof (cases "tk_source k")
    case (Trend_agent a key)
    then have "CHR ''?'' \<notin> set (service_base a (the key) @ ''/request-stats'')" "CHR ''?'' \<notin> set (''/agents/'' @ a @ ''/request-stats'')"
      using assms encode_no_delimiter [of "CHR ''?''" "the key"] by (auto simp: service_base_def is_segment_def url_delimiters_def)
    then show ?thesis
      using Trend_agent by (simp add: current_call_def stats_call_def getAgentServiceRequestStats_def getAgentRequestStats_def
          endpoint_query_with flip: q_def)
  next
    case (Trend_direct i)
    then have "CHR ''?'' \<notin> set (''/observed-services/'' @ i @ ''/request-stats'')" using assms by (auto simp: is_segment_def)
    then show ?thesis
      using Trend_direct by (simp add: current_call_def stats_call_def getObservedServiceRequestStats_def endpoint_query_with flip: q_def)
  qed
  have "sp_get q ''bucketMins'' = Some (show_int (bucket_mins (tk_range k)))"
    by (cases "tk_range k") (simp_all add: q_def window_query_def build_get)
  moreover have "0 \<le> bucket_mins (tk_range k)" "bucket_mins (tk_range k) \<noteq> 0" by (cases "tk_range k"; simp)+
  ultimately show ?thesis
    by (simp add: mockBucketStart_def e js_number_show_int nonzero_or_def bucket_ms_def Let_def)
qed

lemma row_start_slot:
  assumes "0 < step" "date_parse (req_createdAt r) = Some t"
  shows "row_start (of_int step) r = Some (of_int (slot_of step t))"
proof -
  have "\<lfloor>(of_int t :: rat) / of_int step\<rfloor> = t div step" by (simp add: floor_divide_of_int_eq)
  then show ?thesis by (simp add: row_start_def assms(2) slot_of_def)
qed

lemma stat_bucket_fields [simp]:
  "sb_time (stat_bucket x g) = iso_of x" "sb_count (stat_bucket x g) = int (length g)"
  "sb_errorCount (stat_bucket x g) = int (length (filter req_isError g))"
  by (simp_all add: stat_bucket_def Let_def)

text \<open>The requests an answer counts: readable instants of the window.\<close>

definition requests_in :: "int \<times> int \<Rightarrow> api_request list \<Rightarrow> bool" where
  "requests_in w rows \<longleftrightarrow>
     list_all (\<lambda>r. case date_parse (req_createdAt r) of Some t \<Rightarrow> fst w \<le> t \<and> t \<le> snd w | None \<Rightarrow> False) rows"

lemma server_buckets:
  assumes "mockRequestStats fx rows e = Inr \<lparr>rs_buckets = bs, rs_truncated = False\<rparr>"
    and "bs_width (mockBucketStart fx e 5) = of_int step" "0 < step" "requests_in w rows" "0 \<le> fst w" "iso_range (snd w)"
  shows "one_per_slot w step bs" "sum_list (map sb_count bs) = int (length rows)"
    "sum_list (map sb_errorCount bs) = int (length (filter req_isError rows))"
proof -
  let ?G = "group_by (row_start (of_int step)) rows"
  define E where "E = sort_by (by_key (\<lambda>x. the (fst x))) ?G"
  have bs: "bs = map (\<lambda>(x, g). stat_bucket (the x) g) E"
    using assms(1) by (auto simp: mockRequestStats_def assms(2) E_def Let_def split: if_splits)
  have slot: "\<exists>t. k = Some (of_int (slot_of step t)) \<and> fst w \<le> t \<and> t \<le> snd w" if "k \<in> fst ` set E" for k
  proof -
    have "k \<in> row_start (of_int step) ` set rows" using that group_by_keys [of "row_start (of_int step)" rows] by (simp add: E_def)
    then obtain r where r: "r \<in> set rows" "k = row_start (of_int step) r" by blast
    with assms(4) obtain t where "date_parse (req_createdAt r) = Some t" "fst w \<le> t" "t \<le> snd w"
      by (fastforce simp: requests_in_def list_all_iff split: option.splits)
    with r(2) row_start_slot [OF assms(3)] show ?thesis by blast
  qed
  have t: "date_parse (iso_of (the k)) = Some \<lfloor>the k\<rfloor> \<and> Some (of_int \<lfloor>the k\<rfloor>) = k \<and> slot_of step \<lfloor>the k\<rfloor> = \<lfloor>the k\<rfloor>
      \<and> slot_of step (fst w) \<le> \<lfloor>the k\<rfloor> \<and> \<lfloor>the k\<rfloor> \<le> snd w" if k: "k \<in> fst ` set E" for k
  proof -
    obtain t where t: "k = Some (of_int (slot_of step t))" "fst w \<le> t" "t \<le> snd w" using slot [OF k] by blast
    have b: "slot_of step (fst w) \<le> slot_of step t" "slot_of step t \<le> t"
      using t(2) assms(3) slot_of_bounds(1) [OF assms(3)] by (simp_all add: slot_of_def zdiv_mono1 mult_right_mono)
    have "0 \<le> slot_of step t" using t(2) assms(3,5) by (simp add: slot_of_def pos_imp_zdiv_nonneg_iff)
    then have "iso_range (slot_of step t)"
      using b(2) t(3) assms(6) by (auto simp: iso_range_def epoch_day_def ms_per_day_def)
    then show ?thesis using b t assms(3) by (simp add: iso_of_def date_parse_iso)
  qed
  have ts: "timed_stats (map (\<lambda>(x, g). stat_bucket (the x) g) E') = map (\<lambda>(x, g). (\<lfloor>the x\<rfloor>, stat_bucket (the x) g)) E'"
    if "set E' \<subseteq> set E" for E'
    using that by (induction E') (auto simp: timed_stats_def map_filter_simps dest!: t [OF imageI])
  have "distinct (map fst E)" using group_by_distinct [of "row_start (of_int step)" rows]
    by (metis E_def distinct_map distinct_sort_by set_sort_by)
  moreover have "map (\<lambda>(x, b). slot_of step x) (timed_stats bs) = map (\<lambda>k. \<lfloor>the k\<rfloor>) (map fst E)"
    unfolding bs ts [OF order_refl] map_map by (intro map_cong refl) (simp add: case_prod_unfold t)
  moreover have "inj_on (\<lambda>k. \<lfloor>the k\<rfloor>) (fst ` set E)" by (rule inj_onI) (metis t)
  ultimately have "distinct (map (\<lambda>(x, b). slot_of step x) (timed_stats bs))" by (simp add: distinct_map comp_inj_on)
  moreover have "date_parse (iso_of (the k)) = Some \<lfloor>the k\<rfloor> \<and> slot_of step (fst w) \<le> \<lfloor>the k\<rfloor> \<and> \<lfloor>the k\<rfloor> \<le> snd w"
    if "(k, g) \<in> set E" for k g
    using t [OF imageI, OF that] by simp
  ultimately show "one_per_slot w step bs" by (auto simp: one_per_slot_def bs list_all_iff)
  have sum: "sum_list (map (\<lambda>(x, g). sum_list (map h g)) E) = (sum_list (map h rows) :: int)" for h
  proof -
    have "mset (map (\<lambda>(x, g). sum_list (map h g)) E) = mset (map (\<lambda>(x, g). sum_list (map h g)) ?G)" by (simp add: E_def)
    then show ?thesis by (metis sum_mset_sum_list group_by_sum)
  qed
  show "sum_list (map sb_count bs) = int (length rows)"
    using sum [of "\<lambda>_. 1"] by (simp add: bs case_prod_unfold comp_def sum_list_triv)
  have n: "sum_list (map (\<lambda>r. if req_isError r then 1 else 0) g) = int (length (filter req_isError g))" for g :: "api_request list"
    by (induction g) auto
  show "sum_list (map sb_errorCount bs) = int (length (filter req_isError rows))"
    using sum [of "\<lambda>r. if req_isError r then 1 else 0"] by (simp add: bs case_prod_unfold comp_def n)
qed

text \<open>C39: When the buckets shown are the demo server's answer to the request for the chosen window, the
  bars of the chart count every request of the answer once, the failed ones apart, as the tiles do,
  wherever the window begins and ends: the bucket an unaligned window begins in included.\<close>

theorem trend_counts:
  assumes "time_window (tk_window (tq_key s)) = Some w" "0 \<le> fst w" "iso_range (snd w)" "source_ok (tk_source (tq_key s))"
    and "requests_in w rows"
    and "mockRequestStats fx rows (ac_endpoint (current_call (tq_key s))) = Inr \<lparr>rs_buckets = tq_buckets s, rs_truncated = False\<rparr>"
  shows "sum_list (map cp_count (trend_data s)) = int (length rows) \<and> totalCount s = int (length rows)
    \<and> sum_list (map cp_errors (trend_data s)) = int (length (filter req_isError rows))
    \<and> totalErrors s = int (length (filter req_isError rows))
    \<and> (\<forall>row \<in> set (trend_data s). cp_success row + cp_errors row = cp_count row)"
proof -
  note b = server_buckets [OF assms(6) asked_width [OF assms(4)] bucket_ms_pos assms(5,2,3)]
  have "sum_list (map cp_count (trend_data s)) = sum_list (map sb_count (tq_buckets s))"
    "sum_list (map cp_errors (trend_data s)) = sum_list (map sb_errorCount (tq_buckets s))"
    by (rule trend_data_sum [OF assms(1) b(1)]; simp add: point_of_def no_requests_def)+
  then show ?thesis using b(2,3) trend_data_rows(2) [OF assms(1)] by (simp add: totalCount_def totalErrors_def)
qed


text \<open>A window of an hour that does not begin at a bucket: the first bucket begins before it.\<close>

definition trend_request :: "int \<Rightarrow> int \<Rightarrow> bool \<Rightarrow> api_request" where
  "trend_request i t failed =
     \<lparr>req_id = i, req_serviceId = [], req_requestId = [], req_method = ''GET'', req_path = ''/'', req_pathTemplate = ''/'',
      req_route = None, req_serviceName = None, req_traceId = None, req_spanId = None,
      req_statusCode = (if failed then 500 else 200), req_durationMs = 20, req_clientIp = None, req_error = None,
      req_isError = failed, req_createdAt = iso_string t\<rparr>"

definition hour_requests :: "api_request list" where
  "hour_requests = [trend_request 1 130000 True, trend_request 2 200000 False, trend_request 3 370000 False]"

definition hour_key :: trend_key where
  "hour_key = \<lparr>tk_source = Trend_direct ''svc'', tk_range = GR_1h, tk_window = \<lparr>rw_from = iso_string 130000, rw_to = iso_string 3730000\<rparr>\<rparr>"

definition hour_trends :: trends where
  "hour_trends =
     current_answered (1, Read_current, hour_key)
       (Inr \<lparr>rs_buckets = [stat_bucket 120000 [trend_request 1 130000 True, trend_request 2 200000 False],
          stat_bucket 360000 [trend_request 3 370000 False]], rs_truncated = False\<rparr>)
       (trends_mounted hour_key)"

lemma hour_instants:
  "date_parse (iso_string 130000) = Some 130000" "date_parse (iso_string 200000) = Some 200000"
  "date_parse (iso_string 370000) = Some 370000" "date_parse (iso_string 3730000) = Some 3730000"
  by (rule date_parse_iso, simp add: iso_range_def epoch_day_def ms_per_day_def year_start_def)+

lemma trend_counts_witness:
  "sum_list (map cp_count (trend_data hour_trends)) = 3 \<and> totalCount hour_trends = 3
   \<and> sum_list (map cp_errors (trend_data hour_trends)) = 1"
proof -
  have k: "tq_key hour_trends = hour_key" by (simp add: hour_trends_def trends_mounted_def trends_start_def)
  have w: "time_window (tk_window (tq_key hour_trends)) = Some (130000, 3730000)"
    by (simp add: k hour_key_def time_window_def hour_instants)
  have o: "source_ok (tk_source (tq_key hour_trends))" by (simp add: k hour_key_def is_segment_def)
  have r: "iso_range (snd (130000, 3730000))" by (simp add: iso_range_def epoch_day_def ms_per_day_def year_start_def)
  have i: "requests_in (130000, 3730000) hour_requests"
    by (simp add: requests_in_def hour_requests_def trend_request_def hour_instants)
  have bs: "bs_width (mockBucketStart fx (ac_endpoint (current_call (tq_key hour_trends))) 5) = 120000" for fx
    using asked_width [OF o, of fx] by (simp add: k hour_key_def bucket_ms_def)
  have st: "row_start 120000 (trend_request 1 130000 True) = Some 120000" "row_start 120000 (trend_request 2 200000 False) = Some 120000"
    "row_start 120000 (trend_request 3 370000 False) = Some 360000"
    using row_start_slot [of 120000] by (simp_all add: trend_request_def hour_instants slot_of_def)
  have "tq_buckets hour_trends = [stat_bucket 120000 [trend_request 1 130000 True, trend_request 2 200000 False],
      stat_bucket 360000 [trend_request 3 370000 False]]"
    by (simp add: hour_trends_def current_answered_def drop_read_def trends_mounted_def trends_start_def)
  then have "mockRequestStats fx hour_requests (ac_endpoint (current_call (tq_key hour_trends)))
      = Inr \<lparr>rs_buckets = tq_buckets hour_trends, rs_truncated = False\<rparr>" for fx
    by (simp add: mockRequestStats_def bs hour_requests_def group_by_def st by_key_def Let_def)
  from trend_counts [OF w _ r o i this] show ?thesis by (simp add: hour_requests_def) (simp add: trend_request_def)
qed

lemma filter_one: "distinct xs \<Longrightarrow> y \<in> set xs \<Longrightarrow> filter (\<lambda>x. x = y) xs = [y]"
  by (induction xs) (auto simp: filter_empty_conv)

lemma slot_unique:
  assumes "(0 :: int) < step" "step dvd x"
  shows "x \<le> t \<and> t < x + step \<longleftrightarrow> x = slot_of step t"
proof
  assume "x \<le> t \<and> t < x + step"
  moreover obtain k where k: "x = step * k" using assms(2) by auto
  ultimately have "t div step = k" by (intro int_div_pos_eq [of t step k "t - step * k"]) simp_all
  then show "x = slot_of step t" by (simp add: slot_of_def k)
next
  assume "x = slot_of step t"
  then show "x \<le> t \<and> t < x + step" using slot_of_bounds [OF assms(1), of t] by simp
qed

lemma only_slot:
  assumes "0 < step" "fst w \<le> t" "t \<le> snd w"
  shows "filter (\<lambda>x. x \<le> t \<and> t < x + step) (window_slots w step) = [slot_of step t]"
proof -
  have "filter (\<lambda>x. x \<le> t \<and> t < x + step) (window_slots w step) = filter (\<lambda>x. x = slot_of step t) (window_slots w step)"
    using assms(1) by (intro filter_cong refl) (auto simp: window_slots_mem slot_unique)
  then show ?thesis
    by (simp add: filter_one slot_in_window [OF assms] window_slots_distinct [OF assms(1)])
qed

text \<open>Hovering the chart shows a rollout inside the window under exactly one bar, the one of its slot.\<close>

theorem deploy_under_one_bar:
  assumes "time_window (tk_window (tq_key s)) = Some w" "date_parse (ae_time d) = Some t" "fst w \<le> t" "t \<le> snd w" "d \<in> set ds"
  shows "map cp_t (filter (\<lambda>row. d \<in> set (deploy_hits row ds (bucket_ms (tk_range (tq_key s))))) (trend_data s))
    = [slot_of (bucket_ms (tk_range (tq_key s))) t]"
proof -
  let ?step = "bucket_ms (tk_range (tq_key s))"
  have "filter (\<lambda>row. d \<in> set (deploy_hits row ds ?step)) (trend_data s)
      = filter ((\<lambda>x. x \<le> t \<and> t < x + ?step) \<circ> cp_t) (trend_data s)"
    using assms(2,5) by (simp add: deploy_hits_def comp_def)
  then show ?thesis
    using only_slot [OF bucket_ms_pos assms(3,4)] by (simp add: filter_map [symmetric] trend_data_rows(1) [OF assms(1)])
qed

section \<open>The week before\<close>

lemma week_slots: "slot_of (bucket_ms r) (t + WEEK_MS) = slot_of (bucket_ms r) t + WEEK_MS"
proof -
  have "bucket_ms r dvd WEEK_MS" by (cases r) (simp_all add: bucket_ms_def WEEK_MS_def)
  then show ?thesis by (simp add: slot_of_def div_plus_div_distrib_dvd_right distrib_right)
qed

text \<open>A bar carries the count of the bucket a week before its own: a week is a whole number of
  buckets of every range.\<close>

theorem week_overlay:
  assumes "one_per_slot w (bucket_ms r) prev" "b \<in> set prev" "date_parse (sb_time b) = Some t"
    and "cp_t row = slot_of (bucket_ms r) t + WEEK_MS"
  shows "cp_prevCount (with_previous (bucket_ms r) prev row) = Some (sb_count b)"
proof -
  let ?ps = "map (\<lambda>(t, b). (slot_of (bucket_ms r) (t + WEEK_MS), b)) (timed_stats prev)"
  have "(t, b) \<in> set (timed_stats prev)" using assms(2,3) by (force simp: timed_stats_def map_filter_def)
  then have "(cp_t row, b) \<in> set ?ps" by (force simp: assms(4) week_slots)
  moreover have "distinct (map fst ?ps)"
  proof -
    have "map fst ?ps = map (\<lambda>x. x + WEEK_MS) (map (\<lambda>(t, b). slot_of (bucket_ms r) t) (timed_stats prev))"
      by (simp add: case_prod_unfold comp_def week_slots)
    moreover have "distinct (map (\<lambda>x. x + WEEK_MS) xs)" if "distinct xs" for xs
      using that by (simp add: distinct_map inj_on_def)
    ultimately show ?thesis using assms(1) unfolding one_per_slot_def by metis
  qed
  ultimately have "map_of (prevBySlot (bucket_ms r) prev) (cp_t row) = Some b"
    unfolding prevBySlot_def map_of_map_from by (intro map_of_is_SomeI) (simp_all add: rev_map [symmetric])
  moreover have "prev \<noteq> []" using assms(2) by auto
  ultimately show ?thesis by (simp add: with_previous_def Let_def)
qed

text \<open>The segments of the status bar fill it.\<close>

theorem status_bar_full:
  assumes "0 < status_total x" "list_all (\<lambda>n. 0 \<le> n) [ss_count2xx x, ss_count3xx x, ss_count4xx x, ss_count5xx x, ss_countOther x]"
  shows "sum_list (map snd (status_bar (Some x))) = 100 \<and> list_all (\<lambda>c. 0 < snd c) (status_bar (Some x))"
proof -
  let ?all = "[(''2xx'', ss_count2xx x), (''3xx'', ss_count3xx x), (''4xx'', ss_count4xx x), (''5xx'', ss_count5xx x), ([CHR 0xEA, CHR 0xB8, CHR 0xB0, CHR 0xED, CHR 0x83, CHR 0x80], ss_countOther x)]"
  have "sum_list (map (\<lambda>c. class_share x (snd c)) (filter (\<lambda>c. snd c > 0) ?all)) = sum_list (map (\<lambda>c. class_share x (snd c)) ?all)"
    using assms(2) by (intro sum_list_map_filter) (auto simp: class_share_def)
  also have "\<dots> = 100"
  proof -
    define d where "d = rat_of_int (status_total x)"
    have d: "0 < d" using assms(1) by (simp add: d_def)
    have "of_int (ss_count2xx x) + of_int (ss_count3xx x) + of_int (ss_count4xx x) + of_int (ss_count5xx x) + of_int (ss_countOther x) = d"
      by (simp add: d_def status_total_def)
    then show ?thesis using d by (simp add: class_share_def flip: d_def) (simp add: field_simps)
  qed
  finally have "sum_list (map snd (status_bar (Some x))) = 100"
    using assms(1) by (simp add: status_bar_def status_classes_def comp_def cong: map_cong)
  moreover have "list_all (\<lambda>c. 0 < snd c) (status_bar (Some x))"
    using assms(1) by (auto simp: status_bar_def status_classes_def class_share_def list_all_iff)
  ultimately show ?thesis by blast
qed

section \<open>A change of range\<close>

text \<open>Until the answer for a new range lands, the buckets of the range before are drawn in the slots
  of the new one.  Of two buckets that share a slot there, the chart counts only the later, while
  the tile above it still counts both.\<close>

theorem range_change_drops:
  assumes "tq_buckets s = [a, b]" "\<not> tq_loading s" "\<not> tq_truncated s"
    and "date_parse (sb_time a) = Some ta" "date_parse (sb_time b) = Some tb"
    and "slot_of (bucket_ms (tk_range k)) ta = slot_of (bucket_ms (tk_range k)) tb"
    and "time_window (tk_window k) = Some w" "fst w \<le> tb" "tb \<le> snd w"
  shows "trend_view (trends_start k s) = Tv_chart
    \<and> sum_list (map cp_count (trend_data (trends_start k s))) = sb_count b
    \<and> totalCount (trends_start k s) = sb_count a + sb_count b"
proof -
  let ?step = "bucket_ms (tk_range k)"
  let ?s = "(trends_start k s)\<lparr>tq_buckets := [b]\<rparr>"
  have k: "tq_key (trends_start k s) = k" "tq_buckets (trends_start k s) = [a, b]" "tq_prevBuckets (trends_start k s) = tq_prevBuckets s"
    using assms(1) by (simp_all add: trends_start_def)
  have t: "timed_stats [a, b] = [(ta, a), (tb, b)]" "timed_stats [b] = [(tb, b)]"
    using assms(4,5) by (simp_all add: timed_stats_def map_filter_simps)
  have p: "cp_t (point_of t b) = t" for t b by (simp add: point_of_def)
  have "trend_data (trends_start k s) = trend_data ?s"
    by (simp add: trend_data_def k trend_rows_def t fillBuckets_eq map_of_map_from p assms(6,7))
  moreover have "sum_list (map cp_count (trend_data ?s)) = sum_list (map sb_count (tq_buckets ?s))"
    using assms(5,7,8,9) slot_of_bounds(1) [of ?step "fst w"]
    by (intro trend_data_sum [where w = w]) (simp_all add: k one_per_slot_def t point_of_def no_requests_def)
  ultimately have "sum_list (map cp_count (trend_data (trends_start k s))) = sb_count b" by simp
  then show ?thesis
    using assms(1,2,3) by (simp add: totalCount_def k(2)) (simp add: trend_view_def trends_start_def)
qed

end
