(* ===== verification/EU_History.thy ===== *)
theory EU_History imports EU_Logs EU_Serve EU_EndToEnd EU_Answers EU_Status
begin

text \<open>
  The log of notifications sent, \<open>features/alerts/components/NotificationHistoryTab.tsx\<close>: filters with
  a debounced search, a page of the log, and the counts of a period.  \<open>day\<close> and \<open>day_label\<close> are the
  locale's texts of the day of an instant, never empty; \<open>today\<close> and \<open>yesterday\<close> compare it with the clock.
\<close>

section \<open>The log read\<close>

definition HISTORY_TYPE_LABELS :: "(string \<times> string) list" where
  "HISTORY_TYPE_LABELS =
     [(''resource'', [CHR 0xEB, CHR 0xA6, CHR 0xAC, CHR 0xEC, CHR 0x86, CHR 0x8C, CHR 0xEC, CHR 0x8A, CHR 0xA4]), (''healthcheck'', [CHR 0xED, CHR 0x97, CHR 0xAC, CHR 0xEC, CHR 0x8A, CHR 0xA4, CHR 0xEC, CHR 0xB2, CHR 0xB4, CHR 0xED, CHR 0x81, CHR 0xAC]), (''endpoint'', ''Endpoint''), (''log'', [CHR 0xEB, CHR 0xA1, CHR 0x9C, CHR 0xEA, CHR 0xB7, CHR 0xB8]),
      (''scheduled'', [CHR 0xEC, CHR 0x8A, CHR 0xA4, CHR 0xEC, CHR 0xBC, CHR 0x80, CHR 0xEC, CHR 0xA4, CHR 0x84]), (''system'', [CHR 0xEC, CHR 0x8B, CHR 0x9C, CHR 0xEC, CHR 0x8A, CHR 0xA4, CHR 0xED, CHR 0x85, CHR 0x9C])]"

text \<open>\<open>capital\<close> puts the first letter of a type without a label in upper case.\<close>

definition typeLabel :: "(string \<Rightarrow> string) \<Rightarrow> string \<Rightarrow> string" where
  "typeLabel capital t = or_default (map_of HISTORY_TYPE_LABELS t) (capital t)"

definition HISTORY_PAGE_SIZE :: int where
  "HISTORY_PAGE_SIZE = 25"

datatype status_filter = Sf_all | Sf_sent | Sf_failed

fun status_filter_text :: "status_filter \<Rightarrow> string" where
  "status_filter_text Sf_all = ''all''"
| "status_filter_text Sf_sent = ''sent''"
| "status_filter_text Sf_failed = ''failed''"

record history_key =
  hk_status :: status_filter
  hk_type :: string
  hk_channel :: string
  hk_days :: int
  hk_q :: string
  hk_page :: int

definition unless_all :: "string \<Rightarrow> string option" where
  "unless_all v = (if v = ''all'' then None else Some v)"

definition history_filter :: "int \<Rightarrow> history_key \<Rightarrow> notification_history_filter" where
  "history_filter now k =
     \<lparr>nhf_channel_id = unless_all (hk_channel k), nhf_alert_type = unless_all (hk_type k),
      nhf_status = unless_all (status_filter_text (hk_status k)), nhf_q = (if hk_q k = [] then None else Some (hk_q k)),
      nhf_from = Some (iso_string (now - hk_days k * 86400000)), nhf_to = None, nhf_limit = Some HISTORY_PAGE_SIZE,
      nhf_offset = Some ((hk_page k - 1) * HISTORY_PAGE_SIZE)\<rparr>"

section \<open>The tab as a state machine\<close>

record history_tab =
  ht_history :: "notification_history list"
  ht_stats :: "notification_stats option"
  ht_total :: int
  ht_loading :: bool
  ht_status :: status_filter
  ht_type :: string
  ht_channel :: string
  ht_days :: int
  ht_search :: string
  ht_debounced :: string
  ht_page :: int
  ht_timer :: "string option"
  ht_run :: nat
  ht_pending :: "(nat \<times> history_key) list"
  ht_statsPending :: "int list"

definition key_of :: "history_tab \<Rightarrow> history_key" where
  "key_of s =
     \<lparr>hk_status = ht_status s, hk_type = ht_type s, hk_channel = ht_channel s, hk_days = ht_days s, hk_q = ht_debounced s,
      hk_page = ht_page s\<rparr>"

definition fetch_history :: "history_tab \<Rightarrow> history_tab" where
  "fetch_history s =
     s\<lparr>ht_loading := True, ht_run := Suc (ht_run s), ht_pending := ht_pending s @ [(Suc (ht_run s), key_of s)]\<rparr>"

definition go_page :: "int \<Rightarrow> history_tab \<Rightarrow> history_tab" where
  "go_page p s = (if p = ht_page s then s else fetch_history (s\<lparr>ht_page := p\<rparr>))"

text \<open>A changed filter: the fetch of that commit still has the old page; the reset to page 1 fetches again.\<close>

definition filters_changed :: "history_tab \<Rightarrow> history_tab" where
  "filters_changed s = go_page 1 (fetch_history s)"

definition set_status :: "status_filter \<Rightarrow> history_tab \<Rightarrow> history_tab" where
  "set_status v s = (if v = ht_status s then s else filters_changed (s\<lparr>ht_status := v\<rparr>))"

definition set_type :: "string \<Rightarrow> history_tab \<Rightarrow> history_tab" where
  "set_type v s = (if v = ht_type s then s else filters_changed (s\<lparr>ht_type := v\<rparr>))"

definition set_channel :: "string \<Rightarrow> history_tab \<Rightarrow> history_tab" where
  "set_channel v s = (if v = ht_channel s then s else filters_changed (s\<lparr>ht_channel := v\<rparr>))"

definition set_days :: "int \<Rightarrow> history_tab \<Rightarrow> history_tab" where
  "set_days v s =
     (if v = ht_days s then s
      else let s = filters_changed (s\<lparr>ht_days := v\<rparr>) in s\<lparr>ht_statsPending := ht_statsPending s @ [v]\<rparr>)"

definition type_search :: "string \<Rightarrow> history_tab \<Rightarrow> history_tab" where
  "type_search v s = (if v = ht_search s then s else s\<lparr>ht_search := v, ht_timer := Some v\<rparr>)"

definition search_fires :: "string \<Rightarrow> history_tab \<Rightarrow> history_tab" where
  "search_fires v s =
     (let s = s\<lparr>ht_timer := None\<rparr> in
      if js_trim v = ht_debounced s then s else filters_changed (s\<lparr>ht_debounced := js_trim v\<rparr>))"

definition history_mounted :: "status_filter option \<Rightarrow> history_tab" where
  "history_mounted initial =
     fetch_history
       \<lparr>ht_history = [], ht_stats = None, ht_total = 0, ht_loading = True, ht_status = or_default initial Sf_all,
        ht_type = ''all'', ht_channel = ''all'', ht_days = 7, ht_search = [], ht_debounced = [], ht_page = 1,
        ht_timer = Some [], ht_run = 0, ht_pending = [], ht_statsPending = [7]\<rparr>"

definition history_answered :: "nat \<times> history_key \<Rightarrow> thrown + notification_history_response \<Rightarrow> history_tab \<Rightarrow> history_tab" where
  "history_answered q r s =
     (let s = s\<lparr>ht_pending := remove1 q (ht_pending s)\<rparr> in
      if fst q \<noteq> ht_run s then s
      else case r of
          Inr d \<Rightarrow> s\<lparr>ht_history := nhr_items d, ht_total := nhr_total d, ht_loading := False\<rparr>
        | Inl _ \<Rightarrow> s\<lparr>ht_loading := False\<rparr>)"

text \<open>The stats of a period carry no flag of their own.\<close>

definition stats_answered :: "int \<Rightarrow> thrown + notification_stats \<Rightarrow> history_tab \<Rightarrow> history_tab" where
  "stats_answered days r s =
     (let s = s\<lparr>ht_statsPending := remove1 days (ht_statsPending s)\<rparr> in
      case r of Inr d \<Rightarrow> s\<lparr>ht_stats := Some d\<rparr> | Inl _ \<Rightarrow> s)"

section \<open>What the tab shows\<close>

definition totalSent :: "history_tab \<Rightarrow> int" where
  "totalSent s = (case ht_stats s of Some x \<Rightarrow> ns_totalSent x | None \<Rightarrow> 0)"

definition totalFailed :: "history_tab \<Rightarrow> int" where
  "totalFailed s = (case ht_stats s of Some x \<Rightarrow> ns_totalFailed x | None \<Rightarrow> 0)"

definition history_pages :: "history_tab \<Rightarrow> int" where
  "history_pages s = max 1 (- ((- ht_total s) div HISTORY_PAGE_SIZE))"

definition status_options :: "history_tab \<Rightarrow> (status_filter \<times> string) list" where
  "status_options s =
     [(Sf_all, ([CHR 0xEC, CHR 0xA0, CHR 0x84, CHR 0xEC, CHR 0xB2, CHR 0xB4] @ '' '') @ show_int (totalSent s + totalFailed s)), (Sf_sent, ([CHR 0xEC, CHR 0x84, CHR 0xB1, CHR 0xEA, CHR 0xB3, CHR 0xB5] @ '' '') @ show_int (totalSent s)),
      (Sf_failed, ([CHR 0xEC, CHR 0x8B, CHR 0xA4, CHR 0xED, CHR 0x8C, CHR 0xA8] @ '' '') @ show_int (totalFailed s))]"

definition page_text :: "history_tab \<Rightarrow> string option" where
  "page_text s =
     (if \<not> ht_loading s \<and> ht_total s > 0
      then Some (([CHR 0xEC, CHR 0xB4, CHR 0x9D] @ '' '') @ show_int (ht_total s) @ ([CHR 0xEA, CHR 0xB1, CHR 0xB4] @ '' '' @ [CHR 0xEC, CHR 0xA4, CHR 0x91] @ '' '') @ show_int ((ht_page s - 1) * HISTORY_PAGE_SIZE + 1) @ ''~''
        @ show_int (min (ht_page s * HISTORY_PAGE_SIZE) (ht_total s)))
      else None)"

definition dateGroupLabel :: "(int \<Rightarrow> string) \<Rightarrow> (int \<Rightarrow> bool) \<Rightarrow> (int \<Rightarrow> bool) \<Rightarrow> int \<Rightarrow> string" where
  "dateGroupLabel day_label today yesterday t =
     (if today t then ([CHR 0xEC, CHR 0x98, CHR 0xA4, CHR 0xEB, CHR 0x8A, CHR 0x98] @ '' '' @ [CHR 0xC2, CHR 0xB7] @ '' '') @ day_label t else if yesterday t then ([CHR 0xEC, CHR 0x96, CHR 0xB4, CHR 0xEC, CHR 0xA0, CHR 0x9C] @ '' '' @ [CHR 0xC2, CHR 0xB7] @ '' '') @ day_label t else day_label t)"

datatype log_row = Hr_group string string | Hr_item notification_history

text \<open>A time that cannot be read makes \<open>format\<close> throw.\<close>

fun group_rows :: "(int \<Rightarrow> string) \<Rightarrow> (int \<Rightarrow> string) \<Rightarrow> string \<Rightarrow> notification_history list \<Rightarrow> log_row list option" where
  "group_rows day label prevDay [] = Some []"
| "group_rows day label prevDay (item # items) =
     (case date_parse (nh_createdAt item) of
        None \<Rightarrow> None
      | Some t \<Rightarrow>
          map_option (\<lambda>rows. (if day t \<noteq> prevDay then [Hr_group (label t) (day t)] else []) @ Hr_item item # rows)
            (group_rows day label (day t) items))"

definition groupedRows :: "(int \<Rightarrow> string) \<Rightarrow> (int \<Rightarrow> string) \<Rightarrow> history_tab \<Rightarrow> log_row list option" where
  "groupedRows day label s = group_rows day label [] (ht_history s)"

definition sent_tone :: "notification_status \<Rightarrow> string" where
  "sent_tone v = (case v of NS_sent \<Rightarrow> ''healthy'' | NS_failed \<Rightarrow> ''error'' | NS_pending \<Rightarrow> ''warn'')"

definition failed_text :: "notification_history \<Rightarrow> string option" where
  "failed_text n =
     (if truthy (nh_errorMessage n)
      then Some (the (nh_errorMessage n) @ (if nh_retryCount n > 0 then ('' '' @ [CHR 0xC2, CHR 0xB7] @ '' '') @ show_int (nh_retryCount n) @ ([CHR 0xED, CHR 0x9A, CHR 0x8C] @ '' '' @ [CHR 0xEC, CHR 0x9E, CHR 0xAC, CHR 0xEC, CHR 0x8B, CHR 0x9C, CHR 0xEB, CHR 0x8F, CHR 0x84]) else []))
      else None)"

section \<open>Rows by day\<close>

definition row_items :: "log_row list \<Rightarrow> notification_history list" where
  "row_items = List.map_filter (\<lambda>r. case r of Hr_item n \<Rightarrow> Some n | Hr_group _ _ \<Rightarrow> None)"

definition row_days :: "log_row list \<Rightarrow> string list" where
  "row_days = List.map_filter (\<lambda>r. case r of Hr_group _ d \<Rightarrow> Some d | Hr_item _ \<Rightarrow> None)"

lemma row_simps [simp]:
  "row_items [] = []" "row_items (Hr_item n # rs) = n # row_items rs" "row_items (Hr_group l d # rs) = row_items rs"
  "row_days [] = []" "row_days (Hr_item n # rs) = row_days rs" "row_days (Hr_group l d # rs) = d # row_days rs"
  by (simp_all add: row_items_def row_days_def map_filter_simps)

definition item_days :: "(int \<Rightarrow> string) \<Rightarrow> notification_history list \<Rightarrow> string list" where
  "item_days day xs = map (\<lambda>n. day (the (date_parse (nh_createdAt n)))) xs"

lemma group_rows_exact:
  assumes "group_rows day label prev xs = Some rs"
  shows "row_items rs = xs \<and> list_all (\<lambda>n. date_parse (nh_createdAt n) \<noteq> None) xs
    \<and> prev # row_days rs = remdups_adj (prev # item_days day xs)"
  using assms
proof (induction xs arbitrary: prev rs)
  case (Cons x xs)
  from Cons.prems obtain t rs' where t: "date_parse (nh_createdAt x) = Some t" "group_rows day label (day t) xs = Some rs'"
    "rs = (if day t \<noteq> prev then [Hr_group (label t) (day t)] else []) @ Hr_item x # rs'"
    by (auto split: option.splits)
  from Cons.IH [OF t(2)] show ?case
    by (cases "day t = prev") (auto simp: t(1,3) item_days_def)
qed (simp add: item_days_def)

lemma group_rows_total:
  "list_all (\<lambda>n. date_parse (nh_createdAt n) \<noteq> None) xs \<Longrightarrow> group_rows day label prev xs \<noteq> None"
  by (induction xs arbitrary: prev) auto

text \<open>The table holds the page of the log in its order, with one header where the day changes;
  a notification whose time cannot be read makes the whole table fail.\<close>

theorem rows_by_day:
  assumes "\<And>t. day t \<noteq> []"
  shows "(groupedRows day label s = None \<longleftrightarrow> \<not> list_all (\<lambda>n. date_parse (nh_createdAt n) \<noteq> None) (ht_history s))
    \<and> (\<forall>rs. groupedRows day label s = Some rs \<longrightarrow>
          row_items rs = ht_history s \<and> row_days rs = remdups_adj (item_days day (ht_history s)))"
proof -
  have "row_days rs = remdups_adj (item_days day (ht_history s))" if "groupedRows day label s = Some rs" for rs
    using group_rows_exact [of day label "[]" "ht_history s" rs] that assms [THEN not_sym]
    by (cases "item_days day (ht_history s)") (auto simp: groupedRows_def item_days_def)
  then show ?thesis
    using group_rows_exact [of day label "[]" "ht_history s"] group_rows_total [of "ht_history s" day label "[]"]
    by (cases "groupedRows day label s") (auto simp: groupedRows_def)
qed

section \<open>What the tab shows answers its filters\<close>

text \<open>With \<open>failing\<close> false no read of the log fails.\<close>

inductive history_step :: "(history_key \<Rightarrow> notification_history_response \<Rightarrow> bool) \<Rightarrow> bool \<Rightarrow> history_tab \<Rightarrow> history_tab \<Rightarrow> bool"
  for fits failing where
  status: "history_step fits failing s (set_status v s)"
| type: "history_step fits failing s (set_type w s)"
| channel: "history_step fits failing s (set_channel w s)"
| days: "d \<in> {1, 7, 30} \<Longrightarrow> history_step fits failing s (set_days d s)"
| search: "history_step fits failing s (type_search w s)"
| fires: "ht_timer s = Some w \<Longrightarrow> history_step fits failing s (search_fires w s)"
| page: "\<not> ht_loading s \<Longrightarrow> 0 < ht_total s \<Longrightarrow> p \<in> page_choices (ht_page s) (history_pages s) \<Longrightarrow>
    history_step fits failing s (go_page p s)"
| answer: "q \<in> set (ht_pending s) \<Longrightarrow> (\<And>d. r = Inr d \<Longrightarrow> fits (snd q) d) \<Longrightarrow> failing \<or> \<not> isl r \<Longrightarrow>
    history_step fits failing s (history_answered q r s)"
| stats: "d \<in> set (ht_statsPending s) \<Longrightarrow> history_step fits failing s (stats_answered d r' s)"

definition history_good :: "(history_key \<Rightarrow> notification_history_response \<Rightarrow> bool) \<Rightarrow> bool \<Rightarrow> history_tab \<Rightarrow> bool" where
  "history_good fits failing s \<longleftrightarrow>
     distinct (map fst (ht_pending s)) \<and> list_all (\<lambda>q. fst q \<le> ht_run s) (ht_pending s)
     \<and> (\<forall>k. (ht_run s, k) \<in> set (ht_pending s) \<longrightarrow> k = key_of s)
     \<and> (ht_loading s \<longleftrightarrow> (ht_run s, key_of s) \<in> set (ht_pending s))
     \<and> (ht_timer s = None \<longrightarrow> ht_debounced s = js_trim (ht_search s)) \<and> (\<forall>w. ht_timer s = Some w \<longrightarrow> w = ht_search s)
     \<and> (failing \<or> ht_loading s \<or> (\<exists>limit offset. fits (key_of s)
          \<lparr>nhr_items = ht_history s, nhr_total = ht_total s, nhr_limit = limit, nhr_offset = offset\<rparr>))"

text \<open>What a fetch needs: the requests in flight are of earlier runs, the search is settled or due.\<close>

definition fetch_ready :: "history_tab \<Rightarrow> bool" where
  "fetch_ready s \<longleftrightarrow>
     distinct (map fst (ht_pending s)) \<and> list_all (\<lambda>q. fst q \<le> ht_run s) (ht_pending s)
     \<and> (ht_timer s = None \<longrightarrow> ht_debounced s = js_trim (ht_search s)) \<and> (\<forall>w. ht_timer s = Some w \<longrightarrow> w = ht_search s)"

lemma good_ready: "history_good fits failing s \<Longrightarrow> fetch_ready s"
  by (simp add: history_good_def fetch_ready_def)

lemma fetch_good: "fetch_ready s \<Longrightarrow> history_good fits failing (fetch_history s)"
  by (auto simp: fetch_ready_def history_good_def fetch_history_def key_of_def sorted_wrt_append list_all_iff)

lemma ready_page [simp]: "fetch_ready (s\<lparr>ht_page := p\<rparr>) = fetch_ready s"
  by (simp add: fetch_ready_def)

lemma changed_good:
  assumes "fetch_ready s"
  shows "history_good fits failing (filters_changed s)"
proof -
  have g: "history_good fits failing (fetch_history s)" by (rule fetch_good [OF assms])
  then have "fetch_ready (fetch_history s)" by (rule good_ready)
  then show ?thesis using g by (auto simp: filters_changed_def go_page_def intro!: fetch_good)
qed

lemma ready_filters [simp]:
  "fetch_ready (s\<lparr>ht_status := v\<rparr>) = fetch_ready s" "fetch_ready (s\<lparr>ht_type := w\<rparr>) = fetch_ready s"
  "fetch_ready (s\<lparr>ht_channel := w\<rparr>) = fetch_ready s" "fetch_ready (s\<lparr>ht_days := d\<rparr>) = fetch_ready s"
  by (simp_all add: fetch_ready_def)

lemma good_beside [simp]:
  "history_good fits failing (s\<lparr>ht_statsPending := ds\<rparr>) = history_good fits failing s"
  "history_good fits failing (s\<lparr>ht_stats := x\<rparr>) = history_good fits failing s"
  by (simp_all add: history_good_def key_of_def)

lemma search_good:
  assumes "history_good fits failing s"
  shows "history_good fits failing (type_search w s)"
  using assms by (auto simp: type_search_def history_good_def key_of_def)

lemma fires_good:
  assumes "history_good fits failing s" "ht_timer s = Some w"
  shows "history_good fits failing (search_fires w s)"
proof (cases "js_trim w = ht_debounced s")
  case True
  then show ?thesis using assms by (auto simp: search_fires_def history_good_def key_of_def)
next
  case False
  have "fetch_ready (s\<lparr>ht_timer := None, ht_debounced := js_trim w\<rparr>)"
    using assms by (simp add: history_good_def fetch_ready_def)
  with False show ?thesis by (simp add: search_fires_def changed_good)
qed

lemma pending_once:
  assumes "distinct (map fst qs)" "q \<in> set qs"
  shows "set (remove1 q qs) = set qs - {q}" "distinct (map fst (remove1 q qs))" "(fst q, k) \<in> set qs \<Longrightarrow> k = snd q"
proof -
  show "set (remove1 q qs) = set qs - {q}" using assms(1) by (simp add: distinct_map set_remove1_eq)
  have "set (remove1 q qs) \<subseteq> set qs" by (rule set_remove1_subset)
  with assms(1) show "distinct (map fst (remove1 q qs))"
    by (auto simp: distinct_map distinct_remove1 intro: inj_on_subset)
  show "(fst q, k) \<in> set qs \<Longrightarrow> k = snd q" using assms by (metis eq_key_imp_eq_value prod.collapse)
qed

lemma answered_good:
  assumes "history_good fits failing s" "q \<in> set (ht_pending s)" "\<And>d. r = Inr d \<Longrightarrow> fits (snd q) d" "failing \<or> \<not> isl r"
  shows "history_good fits failing (history_answered q r s)"
proof -
  note p = pending_once [OF _ assms(2)]
  have s: "distinct (map fst (ht_pending s))" using assms(1) by (simp add: history_good_def)
  show ?thesis
  proof (cases "fst q = ht_run s")
    case False
    then have "(ht_run s, k) \<noteq> q" for k by auto
    then show ?thesis using False assms(1) p(1,2) [OF s]
      by (auto simp: history_answered_def history_good_def key_of_def Let_def list_all_iff)
  next
    case True
    have q: "q = (ht_run s, key_of s)"
      using True assms(1,2) by (cases q) (auto simp: history_good_def)
    have n: "(ht_run s, k) \<notin> set (remove1 q (ht_pending s))" for k
      using p(3) [OF s, of k] unfolding p(1) [OF s] by (auto simp: q)
    obtain d where d: "failing \<or> r = Inr d" using assms(4) by (cases r) auto
    have "fits (key_of s) \<lparr>nhr_items = nhr_items d, nhr_total = nhr_total d, nhr_limit = nhr_limit d, nhr_offset = nhr_offset d\<rparr>"
      if "r = Inr d" for d
      using assms(3) [OF that] by (cases d) (simp add: q)
    then show ?thesis using True assms(1) p(2) [OF s] n d
      by (cases r) (simp_all add: history_answered_def history_good_def key_of_def Let_def list_all_remove1, blast+)
  qed
qed

lemma history_good_step:
  assumes "history_good fits failing s" "history_step fits failing s s'"
  shows "history_good fits failing s'"
  using assms(2)
proof cases
  case (status v)
  then show ?thesis using assms(1) good_ready [OF assms(1)] by (simp add: set_status_def changed_good)
next
  case (type w)
  then show ?thesis using assms(1) good_ready [OF assms(1)] by (simp add: set_type_def changed_good)
next
  case (channel w)
  then show ?thesis using assms(1) good_ready [OF assms(1)] by (simp add: set_channel_def changed_good)
next
  case (days d)
  then show ?thesis using assms(1) good_ready [OF assms(1)] by (simp add: set_days_def changed_good Let_def)
next
  case (search w)
  then show ?thesis using search_good [OF assms(1)] by simp
next
  case (fires w)
  then show ?thesis using fires_good [OF assms(1)] by simp
next
  case (page p)
  then show ?thesis using assms(1) good_ready [OF assms(1)] by (simp add: go_page_def fetch_good)
next
  case (answer q r)
  then show ?thesis using answered_good [OF assms(1), of q r] by simp
next
  case (stats d r')
  have "history_good fits failing (s\<lparr>ht_statsPending := remove1 d (ht_statsPending s)\<rparr>)" using assms(1) by simp
  then show ?thesis using stats by (cases r') (simp_all add: stats_answered_def Let_def)
qed

lemma good_answered:
  "history_good fits False s \<Longrightarrow> \<not> ht_loading s \<Longrightarrow>
    \<exists>limit offset. fits (key_of s) \<lparr>nhr_items = ht_history s, nhr_total = ht_total s, nhr_limit = limit, nhr_offset = offset\<rparr>"
  by (simp add: history_good_def)

definition log_shown :: "history_tab \<Rightarrow> (notification_history list \<times> int) option" where
  "log_shown s = (if ht_loading s then None else Some (ht_history s, ht_total s))"

definition answers_key :: "(history_key \<Rightarrow> notification_history_response \<Rightarrow> bool) \<Rightarrow> history_key \<Rightarrow> notification_history list \<times> int \<Rightarrow> bool" where
  "answers_key fits k v \<longleftrightarrow> (\<exists>d. nhr_items d = fst v \<and> nhr_total d = snd v \<and> fits k d)"

text \<open>Where no read fails the log keeps the contract of a loading hook.\<close>

interpretation history_reads: answers "answers_key fits" "history_step fits False" key_of log_shown "history_good fits False"
  for fits
proof unfold_locales
  show "history_good fits False s \<Longrightarrow> log_shown s = Some v \<Longrightarrow> answers_key fits (key_of s) v" for s v
  proof -
    assume "history_good fits False s" "log_shown s = Some v"
    moreover from this have "\<not> ht_loading s" "v = (ht_history s, ht_total s)" by (simp_all add: log_shown_def split: if_splits)
    ultimately obtain limit offset where
      "fits (key_of s) \<lparr>nhr_items = fst v, nhr_total = snd v, nhr_limit = limit, nhr_offset = offset\<rparr>"
      using good_answered by fastforce
    then show "answers_key fits (key_of s) v" unfolding answers_key_def by (metis notification_history_response.select_convs(1,2))
  qed
qed (rule history_good_step)

lemma history_mounted_good: "history_good fits failing (history_mounted initial)"
  unfolding history_mounted_def by (rule fetch_good) (simp add: fetch_ready_def js_trim_def)

text \<open>However filters, pages and the search are changed and in whatever order answers come, a settled
  log is the answer to the filters shown, the text typed included, as long as no read fails.\<close>

theorem history_current:
  assumes "(history_step fits False)\<^sup>*\<^sup>* (history_mounted initial) s" "\<not> ht_loading s" "ht_timer s = None"
  shows "answers_key fits (key_of s) (ht_history s, ht_total s) \<and> hk_q (key_of s) = js_trim (ht_search s)"
proof -
  note r = history_reads.reach_good [OF assms(1) history_mounted_good]
  have "ht_debounced s = js_trim (ht_search s)" using r assms(3) by (simp add: history_good_def)
  moreover have "answers_key fits (key_of s) (ht_history s, ht_total s)"
    by (rule history_reads.reach_shown [OF assms(1) history_mounted_good]) (simp add: log_shown_def assms(2))
  ultimately show ?thesis by (simp add: key_of_def)
qed

text \<open>A read that fails is only logged: the rows of the filters before stay, no longer loading,
  under the new filter.\<close>

theorem failed_history_kept:
  fixes e :: thrown
  assumes "v \<noteq> ht_status s" "ht_page s = 1"
  defines "s1 \<equiv> set_status v s"
  defines "s2 \<equiv> history_answered (ht_run s1, key_of s1) (Inl e) s1"
  shows "ht_status s2 = v \<and> hk_status (key_of s1) = v \<and> \<not> ht_loading s2 \<and> ht_history s2 = ht_history s \<and> ht_total s2 = ht_total s"
  using assms(1,2)
  by (simp add: s2_def s1_def set_status_def filters_changed_def go_page_def history_answered_def fetch_history_def key_of_def Let_def)

text \<open>The counts of the period before can replace those of the period chosen: their reads are not
  told apart.\<close>

theorem stats_of_other_period:
  "\<exists>s. (history_step fits False)\<^sup>*\<^sup>* (history_mounted None) s \<and> ht_days s = 30 \<and> ht_statsPending s = [] \<and> ht_stats s = Some week"
proof -
  let ?s0 = "history_mounted None"
  let ?s1 = "set_days 30 ?s0"
  let ?s2 = "stats_answered 30 (Inr month) ?s1"
  let ?s3 = "stats_answered 7 (Inr week) ?s2"
  have s0: "ht_days ?s0 = 7" "ht_statsPending ?s0 = [7]" "ht_page ?s0 = 1" by (simp_all add: history_mounted_def fetch_history_def)
  then have p: "ht_days ?s1 = 30" "ht_statsPending ?s1 = [7, 30]"
    by (simp_all add: set_days_def filters_changed_def go_page_def fetch_history_def Let_def)
  have "history_step fits False ?s0 ?s1" by (rule history_step.days) simp
  moreover have "history_step fits False ?s1 ?s2" by (rule history_step.stats) (simp add: p)
  moreover have "history_step fits False ?s2 ?s3" by (rule history_step.stats) (simp add: stats_answered_def p Let_def)
  ultimately have "(history_step fits False)\<^sup>*\<^sup>* ?s0 ?s3" by (meson converse_rtranclp_into_rtranclp r_into_rtranclp)
  moreover have "ht_days ?s3 = 30 \<and> ht_statsPending ?s3 = [] \<and> ht_stats ?s3 = Some week"
    by (simp add: stats_answered_def p Let_def)
  ultimately show ?thesis by blast
qed

section \<open>Against the demo server\<close>

definition notification_wanted :: "int \<Rightarrow> history_key \<Rightarrow> notification_history \<Rightarrow> bool" where
  "notification_wanted now k r \<longleftrightarrow>
     (hk_channel k = ''all'' \<or> hk_channel k = [] \<or> nh_channelId r = hk_channel k)
     \<and> (hk_type k = ''all'' \<or> hk_type k = [] \<or> notification_alert_type_text (nh_alertType r) = hk_type k)
     \<and> (hk_status k = Sf_all \<or> notification_status_text (nh_status r) = status_filter_text (hk_status k))
     \<and> (hk_q k = [] \<or> str_includes (to_lower (hk_q k)) (to_lower (nh_message r)))
     \<and> iso_string (now - hk_days k * 86400000) \<le> nh_createdAt r"

lemma sp_get_sp_append: "sp_get (sp_append k v ps) j = (case sp_get ps j of Some x \<Rightarrow> Some x | None \<Rightarrow> if j = k then Some v else None)"
  unfolding sp_append_def by (induction ps) auto

lemma sp_get_appended:
  "sp_get (append_str k v ps) j = (case sp_get ps j of Some x \<Rightarrow> Some x | None \<Rightarrow> if j = k \<and> truthy v then v else None)"
  "sp_get (append_num k w ps) j =
     (case sp_get ps j of Some x \<Rightarrow> Some x
      | None \<Rightarrow> if j = k then (case w of Some n \<Rightarrow> if n \<noteq> 0 then Some (show_int n) else None | None \<Rightarrow> None) else None)"
  by (cases v; auto simp: append_str_def sp_get_sp_append split: option.split)
    (auto simp: append_num_def sp_get_sp_append split: option.split)

lemma option_same: "(case v of None \<Rightarrow> None | Some x \<Rightarrow> Some x) = v"
  by (cases v) simp_all

lemma serve_history_read:
  "serve fx c (get (with_query ''/notification-history'' ps)) d =
     (let e = with_query ''/notification-history'' ps in
      (d, Inr (R_notifications (pageMockRows (filter_notifications (fx_history fx) e) e)
        (number_or 100 (sp_get (endpoint_query e) ''limit'')) (number_or 0 (sp_get (endpoint_query e) ''offset'')))))"
  using query_not_health [of "''notification-history''" "[]" ps]
  by (simp add: serve_def get_def read_simps with_query_def)

text \<open>The log shows exactly the page of the notifications that pass every filter, newest and oldest
  included, and their number.\<close>

theorem history_page_exact:
  assumes "1 \<le> hk_page k"
  shows "serve fx c (getNotificationHistory (Some (history_filter now k))) d =
    (d, Inr (R_notifications (page_of (Some HISTORY_PAGE_SIZE) (Some ((hk_page k - 1) * HISTORY_PAGE_SIZE))
      (filter (notification_wanted now k) (fx_history fx))) (Some 25) (Some (of_int ((hk_page k - 1) * HISTORY_PAGE_SIZE)))))"
proof -
  let ?f = "history_filter now k"
  define ps where "ps = build [append_str ''channel_id'' (nhf_channel_id ?f), append_str ''alert_type'' (nhf_alert_type ?f),
    append_str ''status'' (nhf_status ?f), append_str ''q'' (nhf_q ?f), append_str ''from'' (nhf_from ?f), append_str ''to'' (nhf_to ?f),
    append_num ''limit'' (nhf_limit ?f), append_num ''offset'' (nhf_offset ?f)]"
  let ?e = "with_query ''/notification-history'' ps"
  have g: "sp_get ps j = sp_get (foldl (\<lambda>ps f. f ps) [] [append_str ''channel_id'' (nhf_channel_id ?f), append_str ''alert_type'' (nhf_alert_type ?f),
    append_str ''status'' (nhf_status ?f), append_str ''q'' (nhf_q ?f), append_str ''from'' (nhf_from ?f), append_str ''to'' (nhf_to ?f),
    append_num ''limit'' (nhf_limit ?f), append_num ''offset'' (nhf_offset ?f)]) j" for j
    by (simp only: ps_def build_get)
  have eq: "endpoint_query ?e = ps" by (rule endpoint_query_with) simp
  have gets: "sp_get ps ''channel_id'' = (if truthy (nhf_channel_id ?f) then nhf_channel_id ?f else None)"
    "sp_get ps ''alert_type'' = (if truthy (nhf_alert_type ?f) then nhf_alert_type ?f else None)"
    "sp_get ps ''status'' = (if truthy (nhf_status ?f) then nhf_status ?f else None)"
    "sp_get ps ''q'' = (if truthy (nhf_q ?f) then nhf_q ?f else None)"
    "sp_get ps ''from'' = (if truthy (nhf_from ?f) then nhf_from ?f else None)" "sp_get ps ''to'' = None"
    "sp_get ps ''limit'' = Some (show_int 25)"
    "sp_get ps ''offset'' = (if hk_page k = 1 then None else Some (show_int ((hk_page k - 1) * HISTORY_PAGE_SIZE)))"
    by (simp_all add: g sp_get_appended option_same history_filter_def HISTORY_PAGE_SIZE_def)
  have call: "getNotificationHistory (Some ?f) = get ?e"
  proof -
    have "ps \<noteq> []" using gets(7) by auto
    moreover have "sp_parse [] = []" by (simp add: sp_parse_def)
    ultimately have "sp_to_string ps \<noteq> []" by (metis sp_parse_to_string)
    then show ?thesis by (simp add: getNotificationHistory_def with_query_def flip: ps_def)
  qed
  have "filter_notifications xs ?e = filter (notification_wanted now k) xs" for xs
    unfolding filter_notifications_def eq Let_def gets when_set_if notification_wanted_def
    by (rule filter_cong [OF refl]) (cases "hk_status k"; auto simp: when_set_def history_filter_def unless_all_def)
  moreover have "pageMockRows xs ?e = page_of (Some HISTORY_PAGE_SIZE) (Some ((hk_page k - 1) * HISTORY_PAGE_SIZE)) xs" for xs :: "notification_history list"
    by (rule pageMockRows_page [OF eq]) (use assms gets(7,8) in \<open>simp_all add: HISTORY_PAGE_SIZE_def\<close>)
  moreover have "number_or 100 (sp_get ps ''limit'') = Some 25"
    by (simp add: gets(7) number_or_def js_number_show_int)
  moreover have "number_or 0 (sp_get ps ''offset'') = Some (of_int ((hk_page k - 1) * HISTORY_PAGE_SIZE))"
    using assms by (simp add: gets(8) number_or_def js_number_show_int HISTORY_PAGE_SIZE_def)
  ultimately show ?thesis unfolding call by (simp add: serve_history_read eq Let_def)
qed

end
