(* ===== verification/EU_AlertsPage.thy ===== *)
theory EU_AlertsPage imports EU_History EU_RuleList
begin

text \<open>
  The alerts page, \<open>pages/alerts/AlertsPage.tsx\<close>, with what its desktop and mobile views decide
  (\<open>features/alerts/components/AlertsDesktopView.tsx\<close>, \<open>AlertsMobileView.tsx\<close>, \<open>ChannelHealthMeta.tsx\<close>).
  The rule list and the log that the desktop view shows are \<open>EU_RuleList\<close> and \<open>EU_History\<close>.
  \<open>ap_calls\<close> holds the requests in flight.
\<close>

section \<open>State and handlers\<close>

datatype alerts_tab = At_channels | At_rules | At_history

definition parseTabParam :: "string option \<Rightarrow> alerts_tab" where
  "parseTabParam v = (if v = Some ''rules'' then At_rules else if v = Some ''history'' then At_history else At_channels)"

fun alerts_tab_text :: "alerts_tab \<Rightarrow> string" where
  "alerts_tab_text At_channels = ''channels''"
| "alerts_tab_text At_rules = ''rules''"
| "alerts_tab_text At_history = ''history''"

datatype page_call = Pc_channels | Pc_health | Pc_rules | Pc_history | Pc_stats
  | Pc_toggle string | Pc_toggleRule string | Pc_test string | Pc_delete string

record alerts_page =
  ap_address :: search_params
  ap_activeTab :: alerts_tab
  ap_channels :: "notification_channel list"
  ap_rules :: "alert_rule list"
  ap_history :: "notification_history list"
  ap_stats :: "notification_stats option"
  ap_health :: "(string \<times> notification_channel_health) list"
  ap_isLoading :: bool
  ap_rulesLoading :: bool
  ap_historyLoading :: bool
  ap_ruleFormOpen :: bool
  ap_toggling :: "string list"
  ap_testing :: "string list"
  ap_channelsError :: "string option"
  ap_rulesError :: "string option"
  ap_historyError :: "string option"
  ap_addTrigger :: nat
  ap_pendingDelete :: "string option"
  ap_isDeleting :: bool
  ap_toasts :: "string list"
  ap_calls :: "page_call list"

definition calls :: "page_call \<Rightarrow> alerts_page \<Rightarrow> alerts_page" where
  "calls c s = s\<lparr>ap_calls := ap_calls s @ [c]\<rparr>"

definition settles :: "page_call \<Rightarrow> alerts_page \<Rightarrow> alerts_page" where
  "settles c s = s\<lparr>ap_calls := remove1 c (ap_calls s)\<rparr>"

definition toast :: "string \<Rightarrow> alerts_page \<Rightarrow> alerts_page" where
  "toast m s = s\<lparr>ap_toasts := ap_toasts s @ [m]\<rparr>"

definition loadChannels :: "alerts_page \<Rightarrow> alerts_page" where
  "loadChannels s = calls Pc_channels (s\<lparr>ap_channelsError := None\<rparr>)"

definition channels_loaded :: "thrown + notification_channel list \<Rightarrow> alerts_page \<Rightarrow> alerts_page" where
  "channels_loaded r s =
     (let s = (settles Pc_channels s)\<lparr>ap_isLoading := False\<rparr> in
      case r of Inr d \<Rightarrow> s\<lparr>ap_channels := d\<rparr> | Inl e \<Rightarrow> s\<lparr>ap_channelsError := Some (getErrorMessage e)\<rparr>)"

definition loadChannelHealth :: "alerts_page \<Rightarrow> alerts_page" where
  "loadChannelHealth s = calls Pc_health s"

definition health_loaded :: "thrown + notification_channel_health list \<Rightarrow> alerts_page \<Rightarrow> alerts_page" where
  "health_loaded r s =
     (let s = settles Pc_health s in
      case r of Inr d \<Rightarrow> s\<lparr>ap_health := map_from (map (\<lambda>h. (nch_channelId h, h)) d)\<rparr> | Inl _ \<Rightarrow> s)"

definition loadRules :: "alerts_page \<Rightarrow> alerts_page" where
  "loadRules s = calls Pc_rules (s\<lparr>ap_rulesError := None\<rparr>)"

definition rules_loaded :: "thrown + alert_rule list \<Rightarrow> alerts_page \<Rightarrow> alerts_page" where
  "rules_loaded r s =
     (let s = (settles Pc_rules s)\<lparr>ap_rulesLoading := False\<rparr> in
      case r of Inr d \<Rightarrow> s\<lparr>ap_rules := d\<rparr> | Inl e \<Rightarrow> s\<lparr>ap_rulesError := Some (getErrorMessage e)\<rparr>)"

definition loadHistory :: "alerts_page \<Rightarrow> alerts_page" where
  "loadHistory s = calls Pc_history (s\<lparr>ap_historyError := None\<rparr>)"

definition history_loaded :: "thrown + notification_history_response \<Rightarrow> alerts_page \<Rightarrow> alerts_page" where
  "history_loaded r s =
     (let s = (settles Pc_history s)\<lparr>ap_historyLoading := False\<rparr> in
      case r of Inr d \<Rightarrow> s\<lparr>ap_history := nhr_items d\<rparr> | Inl e \<Rightarrow> s\<lparr>ap_historyError := Some (getErrorMessage e)\<rparr>)"

definition loadStats :: "alerts_page \<Rightarrow> alerts_page" where
  "loadStats s = calls Pc_stats s"

definition stats_loaded :: "thrown + notification_stats \<Rightarrow> alerts_page \<Rightarrow> alerts_page" where
  "stats_loaded r s =
     (let s = settles Pc_stats s in case r of Inr d \<Rightarrow> s\<lparr>ap_stats := Some d\<rparr> | Inl _ \<Rightarrow> s)"

definition alerts_mounted :: "search_params \<Rightarrow> alerts_page" where
  "alerts_mounted ps =
     loadStats (loadHistory (loadRules (loadChannelHealth (loadChannels
       \<lparr>ap_address = ps, ap_activeTab = parseTabParam (sp_get ps ''tab''), ap_channels = [], ap_rules = [], ap_history = [],
        ap_stats = None, ap_health = [], ap_isLoading = True, ap_rulesLoading = True, ap_historyLoading = True,
        ap_ruleFormOpen = False, ap_toggling = [], ap_testing = [], ap_channelsError = None, ap_rulesError = None,
        ap_historyError = None, ap_addTrigger = 0, ap_pendingDelete = None, ap_isDeleting = False, ap_toasts = [], ap_calls = []\<rparr>))))"

definition address_changed :: "search_params \<Rightarrow> alerts_page \<Rightarrow> alerts_page" where
  "address_changed ps s = s\<lparr>ap_address := ps, ap_activeTab := parseTabParam (sp_get ps ''tab'')\<rparr>"

definition handleSetActiveTab :: "alerts_tab \<Rightarrow> alerts_page \<Rightarrow> alerts_page" where
  "handleSetActiveTab tab s = address_changed (sp_set ''tab'' (alerts_tab_text tab) (ap_address s)) (s\<lparr>ap_activeTab := tab\<rparr>)"

text \<open>The sets of ids keep the order of insertion.\<close>

definition insert_id :: "string \<Rightarrow> string list \<Rightarrow> string list" where
  "insert_id i xs = (if i \<in> set xs then xs else xs @ [i])"

definition set_enabled :: "string \<Rightarrow> bool \<Rightarrow> notification_channel list \<Rightarrow> notification_channel list" where
  "set_enabled i b = map (\<lambda>ch. if nc_id ch = i then ch\<lparr>nc_isEnabled := b\<rparr> else ch)"

definition handleToggleChannel :: "string \<Rightarrow> alerts_page \<Rightarrow> alerts_page" where
  "handleToggleChannel i s = calls (Pc_toggle i) (s\<lparr>ap_toggling := insert_id i (ap_toggling s)\<rparr>)"

definition channel_toggled :: "string \<Rightarrow> thrown + bool \<Rightarrow> alerts_page \<Rightarrow> alerts_page" where
  "channel_toggled i r s =
     (let s = (settles (Pc_toggle i) s)\<lparr>ap_toggling := removeAll i (ap_toggling s)\<rparr> in
      case r of
        Inr b \<Rightarrow> toast (if b then ([CHR 0xEC, CHR 0xB1, CHR 0x84, CHR 0xEB, CHR 0x84, CHR 0x90, CHR 0xEC, CHR 0x9D, CHR 0xB4] @ '' '' @ [CHR 0xED, CHR 0x99, CHR 0x9C, CHR 0xEC, CHR 0x84, CHR 0xB1, CHR 0xED, CHR 0x99, CHR 0x94, CHR 0xEB, CHR 0x90, CHR 0x98, CHR 0xEC, CHR 0x97, CHR 0x88, CHR 0xEC, CHR 0x8A, CHR 0xB5, CHR 0xEB, CHR 0x8B, CHR 0x88, CHR 0xEB, CHR 0x8B, CHR 0xA4]) else ([CHR 0xEC, CHR 0xB1, CHR 0x84, CHR 0xEB, CHR 0x84, CHR 0x90, CHR 0xEC, CHR 0x9D, CHR 0xB4] @ '' '' @ [CHR 0xEB, CHR 0xB9, CHR 0x84, CHR 0xED, CHR 0x99, CHR 0x9C, CHR 0xEC, CHR 0x84, CHR 0xB1, CHR 0xED, CHR 0x99, CHR 0x94, CHR 0xEB, CHR 0x90, CHR 0x98, CHR 0xEC, CHR 0x97, CHR 0x88, CHR 0xEC, CHR 0x8A, CHR 0xB5, CHR 0xEB, CHR 0x8B, CHR 0x88, CHR 0xEB, CHR 0x8B, CHR 0xA4]))
                   (s\<lparr>ap_channels := set_enabled i b (ap_channels s)\<rparr>)
      | Inl e \<Rightarrow> toast (getErrorMessage e) s)"

definition handleDeleteChannel :: "string \<Rightarrow> alerts_page \<Rightarrow> alerts_page" where
  "handleDeleteChannel i s = s\<lparr>ap_pendingDelete := Some i\<rparr>"

definition close_delete :: "alerts_page \<Rightarrow> alerts_page" where
  "close_delete s = s\<lparr>ap_pendingDelete := None\<rparr>"

definition refreshChannels :: "alerts_page \<Rightarrow> alerts_page" where
  "refreshChannels s = loadChannelHealth (loadChannels s)"

definition confirmDeleteChannel :: "alerts_page \<Rightarrow> alerts_page" where
  "confirmDeleteChannel s =
     (case ap_pendingDelete s of
        Some i \<Rightarrow> if i = [] then s else calls (Pc_delete i) (s\<lparr>ap_isDeleting := True\<rparr>)
      | None \<Rightarrow> s)"

definition channel_deleted :: "string \<Rightarrow> thrown + unit \<Rightarrow> alerts_page \<Rightarrow> alerts_page" where
  "channel_deleted i r s =
     (let s = settles (Pc_delete i) s in
      (case r of
         Inr _ \<Rightarrow> refreshChannels ((toast ([CHR 0xEC, CHR 0xB1, CHR 0x84, CHR 0xEB, CHR 0x84, CHR 0x90, CHR 0xEC, CHR 0x9D, CHR 0xB4] @ '' '' @ [CHR 0xEC, CHR 0x82, CHR 0xAD, CHR 0xEC, CHR 0xA0, CHR 0x9C, CHR 0xEB, CHR 0x90, CHR 0x98, CHR 0xEC, CHR 0x97, CHR 0x88, CHR 0xEC, CHR 0x8A, CHR 0xB5, CHR 0xEB, CHR 0x8B, CHR 0x88, CHR 0xEB, CHR 0x8B, CHR 0xA4]) s)\<lparr>ap_pendingDelete := None\<rparr>)
       | Inl e \<Rightarrow> toast (getErrorMessage e) s)\<lparr>ap_isDeleting := False\<rparr>)"

definition pendingDeleteChannel :: "alerts_page \<Rightarrow> notification_channel option" where
  "pendingDeleteChannel s =
     (if truthy (ap_pendingDelete s) then find (\<lambda>c. nc_id c = the (ap_pendingDelete s)) (ap_channels s) else None)"

definition handleTestChannel :: "string \<Rightarrow> alerts_page \<Rightarrow> alerts_page" where
  "handleTestChannel i s = calls (Pc_test i) (s\<lparr>ap_testing := insert_id i (ap_testing s)\<rparr>)"

definition channel_tested :: "string \<Rightarrow> thrown + string \<Rightarrow> alerts_page \<Rightarrow> alerts_page" where
  "channel_tested i r s =
     toast (case r of Inr _ \<Rightarrow> ([CHR 0xED, CHR 0x85, CHR 0x8C, CHR 0xEC, CHR 0x8A, CHR 0xA4, CHR 0xED, CHR 0x8A, CHR 0xB8] @ '' '' @ [CHR 0xEC, CHR 0x95, CHR 0x8C, CHR 0xEB, CHR 0xA6, CHR 0xBC, CHR 0xEC, CHR 0x9D, CHR 0xB4] @ '' '' @ [CHR 0xEC, CHR 0xA0, CHR 0x84, CHR 0xEC, CHR 0x86, CHR 0xA1, CHR 0xEB, CHR 0x90, CHR 0x98, CHR 0xEC, CHR 0x97, CHR 0x88, CHR 0xEC, CHR 0x8A, CHR 0xB5, CHR 0xEB, CHR 0x8B, CHR 0x88, CHR 0xEB, CHR 0x8B, CHR 0xA4] @ ''!'') | Inl e \<Rightarrow> getErrorMessage e)
       ((settles (Pc_test i) s)\<lparr>ap_testing := removeAll i (ap_testing s)\<rparr>)"

definition handleToggleRule :: "string \<Rightarrow> alerts_page \<Rightarrow> alerts_page" where
  "handleToggleRule i s = calls (Pc_toggleRule i) (s\<lparr>ap_toggling := insert_id i (ap_toggling s)\<rparr>)"

definition rule_toggled :: "string \<Rightarrow> thrown + bool \<Rightarrow> alerts_page \<Rightarrow> alerts_page" where
  "rule_toggled i r s =
     (let s = (settles (Pc_toggleRule i) s)\<lparr>ap_toggling := removeAll i (ap_toggling s)\<rparr> in
      case r of
        Inr b \<Rightarrow> toast (if b then ([CHR 0xEA, CHR 0xB7, CHR 0x9C, CHR 0xEC, CHR 0xB9, CHR 0x99, CHR 0xEC, CHR 0x9D, CHR 0xB4] @ '' '' @ [CHR 0xED, CHR 0x99, CHR 0x9C, CHR 0xEC, CHR 0x84, CHR 0xB1, CHR 0xED, CHR 0x99, CHR 0x94, CHR 0xEB, CHR 0x90, CHR 0x98, CHR 0xEC, CHR 0x97, CHR 0x88, CHR 0xEC, CHR 0x8A, CHR 0xB5, CHR 0xEB, CHR 0x8B, CHR 0x88, CHR 0xEB, CHR 0x8B, CHR 0xA4]) else ([CHR 0xEA, CHR 0xB7, CHR 0x9C, CHR 0xEC, CHR 0xB9, CHR 0x99, CHR 0xEC, CHR 0x9D, CHR 0xB4] @ '' '' @ [CHR 0xEB, CHR 0xB9, CHR 0x84, CHR 0xED, CHR 0x99, CHR 0x9C, CHR 0xEC, CHR 0x84, CHR 0xB1, CHR 0xED, CHR 0x99, CHR 0x94, CHR 0xEB, CHR 0x90, CHR 0x98, CHR 0xEC, CHR 0x97, CHR 0x88, CHR 0xEC, CHR 0x8A, CHR 0xB5, CHR 0xEB, CHR 0x8B, CHR 0x88, CHR 0xEB, CHR 0x8B, CHR 0xA4]))
                   (s\<lparr>ap_rules := map (\<lambda>x. if ar_id x = i then x\<lparr>ar_isEnabled := b\<rparr> else x) (ap_rules s)\<rparr>)
      | Inl e \<Rightarrow> toast (getErrorMessage e) s)"

definition loadWarning :: "alerts_page \<Rightarrow> bool" where
  "loadWarning s \<longleftrightarrow> truthy (ap_channelsError s) \<or> truthy (ap_rulesError s) \<or> truthy (ap_historyError s)"

definition retry_all :: "alerts_page \<Rightarrow> alerts_page" where
  "retry_all s = loadHistory (loadRules (loadChannels s))"

definition rule_form_saved :: "alerts_page \<Rightarrow> alerts_page" where
  "rule_form_saved s = loadRules (s\<lparr>ap_ruleFormOpen := False\<rparr>)"

section \<open>The desktop view\<close>

text \<open>The log is mounted while its tab is shown, anew for another \<open>key\<close>.\<close>

record desktop_view =
  dk_formOpen :: bool
  dk_formTarget :: "notification_channel option"
  dk_historyStatus :: "status_filter option"
  dk_log :: "history_tab option"

definition openChannelForm :: "notification_channel option \<Rightarrow> desktop_view \<Rightarrow> desktop_view" where
  "openChannelForm c s = s\<lparr>dk_formTarget := c, dk_formOpen := True\<rparr>"

definition closeChannelForm :: "desktop_view \<Rightarrow> desktop_view" where
  "closeChannelForm s = s\<lparr>dk_formOpen := False, dk_formTarget := None\<rparr>"

text \<open>Rendering with a tab and a status: the log stays where it was mounted with the same key.\<close>

definition desktop_rendered :: "alerts_tab \<Rightarrow> status_filter option \<Rightarrow> desktop_view \<Rightarrow> desktop_view" where
  "desktop_rendered tab status s =
     s\<lparr>dk_historyStatus := status,
       dk_log := (if tab \<noteq> At_history then None
                  else if dk_log s \<noteq> None \<and> dk_historyStatus s = status then dk_log s
                  else Some (history_mounted status))\<rparr>"

definition selectTab :: "alerts_tab \<Rightarrow> desktop_view \<Rightarrow> desktop_view" where
  "selectTab tab s = desktop_rendered tab None s"

definition viewFailedLogs :: "desktop_view \<Rightarrow> desktop_view" where
  "viewFailedLogs s = desktop_rendered At_history (Some Sf_failed) s"

definition log_event :: "(history_tab \<Rightarrow> history_tab) \<Rightarrow> desktop_view \<Rightarrow> desktop_view" where
  "log_event f s = s\<lparr>dk_log := map_option f (dk_log s)\<rparr>"

definition page_sent :: "alerts_page \<Rightarrow> int" where
  "page_sent s = (case ap_stats s of Some x \<Rightarrow> ns_totalSent x | None \<Rightarrow> 0)"

definition page_failed :: "alerts_page \<Rightarrow> int" where
  "page_failed s = (case ap_stats s of Some x \<Rightarrow> ns_totalFailed x | None \<Rightarrow> 0)"

definition page_successRate :: "alerts_page \<Rightarrow> int option" where
  "page_successRate s = map_option (\<lambda>x. math_round (ns_successRate x)) (ap_stats s)"

definition rate_tone :: "int option \<Rightarrow> string" where
  "rate_tone r =
     (case r of None \<Rightarrow> ''none'' | Some n \<Rightarrow> if n \<ge> 95 then ''healthy'' else if n \<ge> 80 then ''warn'' else ''error'')"

definition desktop_tabs :: "alerts_page \<Rightarrow> (alerts_tab \<times> string \<times> int option) list" where
  "desktop_tabs s =
     (let total = page_sent s + page_failed s in
      [(At_channels, ([CHR 0xEC, CHR 0x95, CHR 0x8C, CHR 0xEB, CHR 0xA6, CHR 0xBC] @ '' '' @ [CHR 0xEC, CHR 0xB1, CHR 0x84, CHR 0xEB, CHR 0x84, CHR 0x90]), Some (int (length (ap_channels s)))), (At_rules, ([CHR 0xEC, CHR 0x95, CHR 0x8C, CHR 0xEB, CHR 0xA6, CHR 0xBC] @ '' '' @ [CHR 0xEA, CHR 0xB7, CHR 0x9C, CHR 0xEC, CHR 0xB9, CHR 0x99]), Some (int (length (ap_rules s)))),
       (At_history, ([CHR 0xEC, CHR 0x95, CHR 0x8C, CHR 0xEB, CHR 0xA6, CHR 0xBC] @ '' '' @ [CHR 0xEB, CHR 0xA1, CHR 0x9C, CHR 0xEA, CHR 0xB7, CHR 0xB8]), if total \<noteq> 0 then Some total else None)])"

section \<open>The health of a channel\<close>

definition health_of :: "alerts_page \<Rightarrow> string \<Rightarrow> notification_channel_health option" where
  "health_of s i = map_of (ap_health s) i"

definition health_sent :: "notification_channel_health option \<Rightarrow> int" where
  "health_sent h = (case h of Some x \<Rightarrow> nch_successCount x | None \<Rightarrow> 0)"

definition health_failed :: "notification_channel_health option \<Rightarrow> int" where
  "health_failed h = (case h of Some x \<Rightarrow> nch_failedCount x | None \<Rightarrow> 0)"

definition health_rules :: "notification_channel_health option \<Rightarrow> int" where
  "health_rules h = (case h of Some x \<Rightarrow> nch_ruleCount x | None \<Rightarrow> 0)"

definition health_rate :: "notification_channel_health option \<Rightarrow> int option" where
  "health_rate h =
     (let total = health_sent h + health_failed h in
      if total > 0 then Some (math_round (of_int (health_sent h) / of_int total * 100)) else None)"

definition ChannelHealthMeta :: "(string \<Rightarrow> string) \<Rightarrow> notification_channel_health option \<Rightarrow> string \<times> string \<times> string" where
  "ChannelHealthMeta ago h =
     (let last_sent = Option.bind h nch_lastSentAt in
      (if truthy last_sent then ago (the last_sent) else ([CHR 0xEB, CHR 0xB0, CHR 0x9C, CHR 0xEC, CHR 0x86, CHR 0xA1] @ '' '' @ [CHR 0xEC, CHR 0x9D, CHR 0xB4, CHR 0xEB, CHR 0xA0, CHR 0xA5] @ '' '' @ [CHR 0xEC, CHR 0x97, CHR 0x86, CHR 0xEC, CHR 0x9D, CHR 0x8C]),
       case health_rate h of
         Some r \<Rightarrow> show_int r @ ''% ('' @ show_int (health_sent h) @ ''/'' @ show_int (health_sent h + health_failed h) @ '')''
       | None \<Rightarrow> ([CHR 0xED, CHR 0x99, CHR 0x9C, CHR 0xEB, CHR 0x8F, CHR 0x99] @ '' '' @ [CHR 0xEC, CHR 0x97, CHR 0x86, CHR 0xEC, CHR 0x9D, CHR 0x8C]),
       ([CHR 0xEA, CHR 0xB7, CHR 0x9C, CHR 0xEC, CHR 0xB9, CHR 0x99] @ '' '') @ show_int (health_rules h) @ [CHR 0xEA, CHR 0xB0, CHR 0x9C]))"

text \<open>A row of the channel table: what was sent, the rules, the last sending, whether a test can be sent.\<close>

definition channel_row :: "(string \<Rightarrow> string) \<Rightarrow> alerts_page \<Rightarrow> notification_channel \<Rightarrow> string \<times> string \<times> string \<times> bool \<times> bool" where
  "channel_row ago s ch =
     (let h = health_of s (nc_id ch); sent = health_sent h; failed = health_failed h; last_sent = Option.bind h nch_lastSentAt in
      (if sent + failed > 0 then show_int sent @ (if failed > 0 then ('' '' @ [CHR 0xC2, CHR 0xB7] @ '' '' @ [CHR 0xEC, CHR 0x8B, CHR 0xA4, CHR 0xED, CHR 0x8C, CHR 0xA8] @ '' '') @ show_int failed else []) else ([CHR 0xEC, CHR 0x9D, CHR 0xB4, CHR 0xEB, CHR 0xA0, CHR 0xA5] @ '' '' @ [CHR 0xEC, CHR 0x97, CHR 0x86, CHR 0xEC, CHR 0x9D, CHR 0x8C]),
       ([CHR 0xEA, CHR 0xB7, CHR 0x9C, CHR 0xEC, CHR 0xB9, CHR 0x99] @ '' '') @ show_int (health_rules h) @ [CHR 0xEA, CHR 0xB0, CHR 0x9C],
       if truthy last_sent then ago (the last_sent) else ([CHR 0xED, CHR 0x85, CHR 0x8C, CHR 0xEC, CHR 0x8A, CHR 0xA4, CHR 0xED, CHR 0x8A, CHR 0xB8, CHR 0xEB, CHR 0xA1, CHR 0x9C] @ '' '' @ [CHR 0xED, CHR 0x99, CHR 0x95, CHR 0xEC, CHR 0x9D, CHR 0xB8]),
       nc_isEnabled ch, nc_id ch \<in> set (ap_toggling s)))"

section \<open>The mobile view\<close>

definition visibleRules :: "alerts_page \<Rightarrow> alert_rule list" where
  "visibleRules s =
     (case parseAlertTarget (ap_address s) of
        Some t \<Rightarrow> filter (\<lambda>r. matchesAlertTarget r t) (ap_rules s)
      | None \<Rightarrow> ap_rules s)"

definition targetDescription :: "alert_target option \<Rightarrow> string option" where
  "targetDescription t =
     (case t of
        Some (AT_direct i) \<Rightarrow> Some (([CHR 0xEC, CHR 0xA7, CHR 0x81, CHR 0xEC, CHR 0xA0, CHR 0x91] @ '' '' @ [CHR 0xEC, CHR 0x84, CHR 0x9C, CHR 0xEB, CHR 0xB9, CHR 0x84, CHR 0xEC, CHR 0x8A, CHR 0xA4] @ '' '') @ i)
      | Some (AT_infrastructure r) \<Rightarrow> Some (([CHR 0xEC, CHR 0x9D, CHR 0xB8, CHR 0xED, CHR 0x94, CHR 0x84, CHR 0xEB, CHR 0x9D, CHR 0xBC] @ '' '') @ r)
      | Some (AT_agent _ k) \<Rightarrow> Some ((''Docker '' @ [CHR 0xEC, CHR 0x84, CHR 0x9C, CHR 0xEB, CHR 0xB9, CHR 0x84, CHR 0xEC, CHR 0x8A, CHR 0xA4] @ '' '') @ k)
      | None \<Rightarrow> None)"

definition mobile_tabs :: "alerts_page \<Rightarrow> (alerts_tab \<times> string \<times> int option) list" where
  "mobile_tabs s =
     [(At_channels, ([CHR 0xEC, CHR 0x95, CHR 0x8C, CHR 0xEB, CHR 0xA6, CHR 0xBC] @ '' '' @ [CHR 0xEC, CHR 0xB1, CHR 0x84, CHR 0xEB, CHR 0x84, CHR 0x90]), Some (int (length (ap_channels s)))), (At_rules, ([CHR 0xEC, CHR 0x95, CHR 0x8C, CHR 0xEB, CHR 0xA6, CHR 0xBC] @ '' '' @ [CHR 0xEA, CHR 0xB7, CHR 0x9C, CHR 0xEC, CHR 0xB9, CHR 0x99]), Some (int (length (visibleRules s)))),
      (At_history, ([CHR 0xEC, CHR 0x95, CHR 0x8C, CHR 0xEB, CHR 0xA6, CHR 0xBC] @ '' '' @ [CHR 0xEB, CHR 0xA1, CHR 0x9C, CHR 0xEA, CHR 0xB7, CHR 0xB8]), None)]"

datatype mobile_list = Ml_skeleton | Ml_nothing | Ml_rows nat

definition mobile_list :: "bool \<Rightarrow> 'a list \<Rightarrow> mobile_list" where
  "mobile_list loading xs = (if loading then Ml_skeleton else if xs = [] then Ml_nothing else Ml_rows (length xs))"

definition mobile_panel :: "alerts_page \<Rightarrow> string option \<times> mobile_list" where
  "mobile_panel s =
     (case ap_activeTab s of
        At_channels \<Rightarrow> (ap_channelsError s, mobile_list (ap_isLoading s) (ap_channels s))
      | At_rules \<Rightarrow> (ap_rulesError s, mobile_list (ap_rulesLoading s) (visibleRules s))
      | At_history \<Rightarrow> (ap_historyError s, mobile_list (ap_historyLoading s) (ap_history s)))"

definition mobile_retry :: "alerts_page \<Rightarrow> alerts_page" where
  "mobile_retry s =
     (case ap_activeTab s of At_channels \<Rightarrow> refreshChannels s | At_rules \<Rightarrow> loadRules s | At_history \<Rightarrow> loadHistory s)"

definition notification_title :: "notification_history \<Rightarrow> string" where
  "notification_title n =
     (if truthy (nh_hostName n) then the (nh_hostName n)
      else if truthy (nh_serviceName n) then the (nh_serviceName n) else nh_channelName n)"

text \<open>On a phone a test in flight locks the button, on the desktop only a disabled channel does.\<close>

definition mobile_test_offered :: "alerts_page \<Rightarrow> notification_channel \<Rightarrow> bool" where
  "mobile_test_offered s ch \<longleftrightarrow> nc_isEnabled ch \<and> nc_id ch \<notin> set (ap_testing s)"

definition desktop_test_offered :: "notification_channel \<Rightarrow> bool" where
  "desktop_test_offered ch \<longleftrightarrow> nc_isEnabled ch"

section \<open>The failed-log link\<close>

text \<open>The link opens the log with failed notifications only, except where the log was opened by the
  link before and its filter then changed: the key is the same, so nothing happens.\<close>

theorem failed_link:
  "dk_historyStatus s \<noteq> Some Sf_failed \<or> dk_log s = None \<Longrightarrow> dk_log (viewFailedLogs s) = Some (history_mounted (Some Sf_failed))"
  "dk_log (selectTab At_channels s) = None"
  "dk_log (viewFailedLogs (log_event (set_status Sf_all) (viewFailedLogs s))) = map_option (set_status Sf_all) (dk_log (viewFailedLogs s))"
  by (auto simp: viewFailedLogs_def selectTab_def desktop_rendered_def log_event_def)

lemma set_status_status [simp]: "ht_status (set_status v s) = v"
  by (simp add: set_status_def filters_changed_def go_page_def fetch_history_def)

theorem failed_link_dead:
  assumes "dk_log s = None"
  shows "map_option ht_status (dk_log (viewFailedLogs s)) = Some Sf_failed
    \<and> map_option ht_status (dk_log (viewFailedLogs (log_event (set_status Sf_all) (viewFailedLogs s)))) = Some Sf_all"
  using failed_link [of s] assms by (simp add: history_mounted_def fetch_history_def)

section \<open>The page and the server\<close>

text \<open>
  The page beside a server that keeps the channels: a toggle flips the flag and answers it, a delete
  removes the channel, a read answers the list.  A request reaches the server before its answer is
  delivered; \<open>aw_flags\<close>, \<open>aw_gone\<close> and \<open>aw_lists\<close> are the answers on the way back.  A
  request that fails never reached the server.  With \<open>prompt\<close> no other request overtakes a read.
\<close>

record alerts_world =
  aw_page :: alerts_page
  aw_server :: "notification_channel list"
  aw_flags :: "(string \<times> bool) list"
  aw_gone :: "string list"
  aw_lists :: "notification_channel list list"

definition server_flag :: "string \<Rightarrow> notification_channel list \<Rightarrow> bool option" where
  "server_flag i xs = map_option nc_isEnabled (find (\<lambda>c. nc_id c = i) xs)"

text \<open>Handlers beside the channels: the other reads, rules, tests, tabs.\<close>

inductive aside :: "alerts_page \<Rightarrow> alerts_page \<Rightarrow> bool" where
  "aside s (health_loaded r1 s)"
| "aside s (rules_loaded r2 s)"
| "aside s (history_loaded r3 s)"
| "aside s (stats_loaded r4 s)"
| "aside s (address_changed ps s)"
| "aside s (handleSetActiveTab tab s)"
| "aside s (handleTestChannel i s)"
| "aside s (channel_tested i r5 s)"
| "aside s (rule_toggled i r6 s)"
| "aside s (rule_form_saved s)"
| "i \<notin> set (ap_toggling s) \<Longrightarrow> aside s (handleToggleRule i s)"

inductive alerts_step :: "bool \<Rightarrow> alerts_world \<Rightarrow> alerts_world \<Rightarrow> bool" for prompt where
  aside: "aside (aw_page w) p \<Longrightarrow> alerts_step prompt w (w\<lparr>aw_page := p\<rparr>)"
| toggle: "nc_id ch \<notin> set (ap_toggling (aw_page w)) \<Longrightarrow> ch \<in> set (ap_channels (aw_page w)) \<Longrightarrow>
    alerts_step prompt w (w\<lparr>aw_page := handleToggleChannel (nc_id ch) (aw_page w)\<rparr>)"
| toggle_reaches: "Pc_toggle i \<in> set (ap_calls (aw_page w)) \<Longrightarrow> i \<notin> fst ` set (aw_flags w) \<Longrightarrow> server_flag i (aw_server w) = Some b \<Longrightarrow>
    alerts_step prompt w (w\<lparr>aw_server := set_enabled i (\<not> b) (aw_server w), aw_flags := aw_flags w @ [(i, \<not> b)]\<rparr>)"
| toggle_answered: "(i, b) \<in> set (aw_flags w) \<Longrightarrow>
    alerts_step prompt w (w\<lparr>aw_page := channel_toggled i (Inr b) (aw_page w), aw_flags := remove1 (i, b) (aw_flags w)\<rparr>)"
| toggle_fails: "Pc_toggle i \<in> set (ap_calls (aw_page w)) \<Longrightarrow> i \<notin> fst ` set (aw_flags w) \<Longrightarrow>
    alerts_step prompt w (w\<lparr>aw_page := channel_toggled i (Inl e) (aw_page w)\<rparr>)"
| ask: "alerts_step prompt w (w\<lparr>aw_page := handleDeleteChannel i (aw_page w)\<rparr>)"
| cancel: "\<not> ap_isDeleting (aw_page w) \<Longrightarrow> alerts_step prompt w (w\<lparr>aw_page := close_delete (aw_page w)\<rparr>)"
| confirm: "\<not> ap_isDeleting (aw_page w) \<Longrightarrow> pendingDeleteChannel (aw_page w) \<noteq> None \<Longrightarrow>
    alerts_step prompt w (w\<lparr>aw_page := confirmDeleteChannel (aw_page w)\<rparr>)"
| delete_reaches: "Pc_delete i \<in> set (ap_calls (aw_page w)) \<Longrightarrow> i \<notin> set (aw_gone w) \<Longrightarrow>
    alerts_step prompt w (w\<lparr>aw_server := filter (\<lambda>c. nc_id c \<noteq> i) (aw_server w), aw_gone := aw_gone w @ [i]\<rparr>)"
| delete_answered: "i \<in> set (aw_gone w) \<Longrightarrow>
    alerts_step prompt w (w\<lparr>aw_page := channel_deleted i (Inr ()) (aw_page w), aw_gone := remove1 i (aw_gone w)\<rparr>)"
| delete_fails: "Pc_delete i \<in> set (ap_calls (aw_page w)) \<Longrightarrow> i \<notin> set (aw_gone w) \<Longrightarrow>
    alerts_step prompt w (w\<lparr>aw_page := channel_deleted i (Inl e) (aw_page w)\<rparr>)"
| created: "nc_id ch \<notin> nc_id ` set (aw_server w) \<union> fst ` set (aw_flags w) \<union> set (aw_gone w) \<Longrightarrow>
    alerts_step prompt w (w\<lparr>aw_server := aw_server w @ [ch], aw_page := refreshChannels (aw_page w)\<rparr>)"
| read_prompt: "Pc_channels \<in> set (ap_calls (aw_page w)) \<Longrightarrow>
    alerts_step prompt w (w\<lparr>aw_page := channels_loaded (Inr (aw_server w)) (aw_page w)\<rparr>)"
| read_reaches: "\<not> prompt \<Longrightarrow> length (aw_lists w) < count_list (ap_calls (aw_page w)) Pc_channels \<Longrightarrow>
    alerts_step prompt w (w\<lparr>aw_lists := aw_lists w @ [aw_server w]\<rparr>)"
| read_answered: "xs \<in> set (aw_lists w) \<Longrightarrow>
    alerts_step prompt w (w\<lparr>aw_page := channels_loaded (Inr xs) (aw_page w), aw_lists := remove1 xs (aw_lists w)\<rparr>)"
| read_fails: "Pc_channels \<in> set (ap_calls (aw_page w)) \<Longrightarrow>
    alerts_step prompt w (w\<lparr>aw_page := channels_loaded (Inl e) (aw_page w)\<rparr>)"
| retry: "alerts_step prompt w (w\<lparr>aw_page := retry_all (aw_page w)\<rparr>)"
| refresh: "alerts_step prompt w (w\<lparr>aw_page := refreshChannels (aw_page w)\<rparr>)"

definition world_mounted :: "search_params \<Rightarrow> notification_channel list \<Rightarrow> alerts_world" where
  "world_mounted ps xs = \<lparr>aw_page = alerts_mounted ps, aw_server = xs, aw_flags = [], aw_gone = [], aw_lists = []\<rparr>"

text \<open>What the page will show once the answers on the way back are in.\<close>

definition apply_flags :: "(string \<times> bool) list \<Rightarrow> notification_channel list \<Rightarrow> notification_channel list" where
  "apply_flags fs xs = foldl (\<lambda>xs (i, b). set_enabled i b xs) xs fs"

definition awaited :: "alerts_world \<Rightarrow> notification_channel list" where
  "awaited w = filter (\<lambda>c. nc_id c \<notin> set (aw_gone w)) (apply_flags (aw_flags w) (ap_channels (aw_page w)))"

definition flags_on :: "(string \<times> bool) list \<Rightarrow> notification_channel list \<Rightarrow> bool" where
  "flags_on fs xs \<longleftrightarrow> (\<forall>i b. (i, b) \<in> set fs \<longrightarrow> (\<forall>c \<in> set xs. nc_id c = i \<longrightarrow> nc_isEnabled c = b))"

definition world_good :: "alerts_world \<Rightarrow> bool" where
  "world_good w \<longleftrightarrow>
     distinct (map fst (aw_flags w)) \<and> flags_on (aw_flags w) (aw_server w)
     \<and> (\<forall>c \<in> set (aw_server w). nc_id c \<notin> set (aw_gone w)) \<and> aw_lists w = []
     \<and> (Pc_channels \<in> set (ap_calls (aw_page w)) \<or> ap_channelsError (aw_page w) \<noteq> None \<or> awaited w = aw_server w)"

lemma set_enabled_simps [simp]:
  "set_enabled i b [] = []" "nc_id ` set (set_enabled i b xs) = nc_id ` set xs"
  "filter (\<lambda>c. nc_id c \<notin> A) (set_enabled i b xs) = set_enabled i b (filter (\<lambda>c. nc_id c \<notin> A) xs)"
  by (simp add: set_enabled_def, induction xs, auto simp: set_enabled_def, induction xs, auto simp: set_enabled_def)

lemma set_enabled_mem:
  "x \<in> set (set_enabled i b xs) \<Longrightarrow> nc_id x = i \<and> nc_isEnabled x = b \<or> nc_id x \<noteq> i \<and> x \<in> set xs"
proof -
  assume "x \<in> set (set_enabled i b xs)"
  then obtain ch where "ch \<in> set xs" and x: "x = (if nc_id ch = i then ch\<lparr>nc_isEnabled := b\<rparr> else ch)"
    unfolding set_enabled_def set_map by (rule imageE)
  then show ?thesis unfolding x by (cases "nc_id ch = i") simp_all
qed

lemma set_enabled_commute: "i \<noteq> j \<Longrightarrow> set_enabled i b (set_enabled j c xs) = set_enabled j c (set_enabled i b xs)"
  by (simp add: set_enabled_def)

lemma set_enabled_same: "(\<forall>c \<in> set xs. nc_id c = i \<longrightarrow> nc_isEnabled c = b) \<Longrightarrow> set_enabled i b xs = xs"
  by (auto simp: set_enabled_def intro!: map_idI)

lemma apply_flags_simps [simp]:
  "apply_flags [] xs = xs" "apply_flags (f # fs) xs = apply_flags fs (set_enabled (fst f) (snd f) xs)"
  "apply_flags (fs @ gs) xs = apply_flags gs (apply_flags fs xs)"
  by (simp_all add: apply_flags_def case_prod_unfold)

lemma apply_flags_other: "i \<notin> fst ` set fs \<Longrightarrow> apply_flags fs (set_enabled i b xs) = set_enabled i b (apply_flags fs xs)"
proof (induction fs arbitrary: xs)
  case (Cons f fs)
  moreover from Cons.prems have "fst f \<noteq> i" by auto
  ultimately show ?case by (simp add: set_enabled_commute [of "fst f" i])
qed simp

lemma apply_flags_remove:
  "distinct (map fst fs) \<Longrightarrow> (i, b) \<in> set fs \<Longrightarrow> apply_flags (remove1 (i, b) fs) (set_enabled i b xs) = apply_flags fs xs"
proof (induction fs arbitrary: xs)
  case (Cons f fs)
  show ?case
  proof (cases "f = (i, b)")
    case False
    with Cons.prems have m: "(i, b) \<in> set fs" by auto
    moreover have "fst f \<noteq> i" using Cons.prems(1) imageI [OF m, of fst] by auto
    ultimately show ?thesis using False Cons by (simp add: set_enabled_commute [of "fst f" i])
  qed simp
qed simp

lemma flags_on_subset: "set gs \<subseteq> set fs \<Longrightarrow> flags_on fs xs \<Longrightarrow> flags_on gs xs"
  unfolding flags_on_def by blast

lemma apply_flags_same: "flags_on fs xs \<Longrightarrow> apply_flags fs xs = xs"
proof (induction fs)
  case (Cons f fs)
  then have "flags_on fs xs" using flags_on_subset [of fs "f # fs"] by auto
  moreover have "\<forall>c \<in> set xs. nc_id c = fst f \<longrightarrow> nc_isEnabled c = snd f"
    using Cons.prems unfolding flags_on_def by (cases f) auto
  ultimately show ?case using Cons.IH by (simp add: set_enabled_same)
qed simp

lemma flags_on_flip:
  assumes "flags_on fs xs" "i \<notin> fst ` set fs"
  shows "flags_on (fs @ [(i, b)]) (set_enabled i b xs)"
  unfolding flags_on_def
proof (intro allI impI ballI)
  fix j c x assume f: "(j, c) \<in> set (fs @ [(i, b)])" and x: "x \<in> set (set_enabled i b xs)" and j: "nc_id x = j"
  show "nc_isEnabled x = c"
  proof (cases "j = i")
    case True
    then have "(j, c) \<notin> set fs" using assms(2) imageI [of "(j, c)" "set fs" fst] by auto
    then have "c = b" using f by simp
    then show ?thesis using set_enabled_mem [OF x] True j by simp
  next
    case False
    then have "(j, c) \<in> set fs" "x \<in> set xs" using f set_enabled_mem [OF x] j by simp_all
    then show ?thesis using assms(1) j unfolding flags_on_def by blast
  qed
qed

lemma ids_apply_flags [simp]: "nc_id ` set (apply_flags fs xs) = nc_id ` set xs"
  by (induction fs arbitrary: xs) auto

lemma server_flag_id: "server_flag i xs = Some b \<Longrightarrow> i \<in> nc_id ` set xs"
  by (auto simp: server_flag_def find_Some_iff)

text \<open>Steps that keep the channels, their error and the reads of channels in flight.\<close>

definition keeps :: "alerts_page \<Rightarrow> alerts_page \<Rightarrow> bool" where
  "keeps s s' \<longleftrightarrow> ap_channels s' = ap_channels s \<and> ap_channelsError s' = ap_channelsError s
     \<and> (Pc_channels \<in> set (ap_calls s) \<longrightarrow> Pc_channels \<in> set (ap_calls s'))"

lemma good_keeps: "world_good w \<Longrightarrow> keeps (aw_page w) p \<Longrightarrow> world_good (w\<lparr>aw_page := p\<rparr>)"
  by (auto simp: world_good_def keeps_def awaited_def)

lemma good_reading:
  assumes "world_good w" "Pc_channels \<in> set (ap_calls p)"
  shows "world_good (w\<lparr>aw_page := p\<rparr>)"
  using assms by (simp add: world_good_def)

lemmas alerts_defs = calls_def settles_def toast_def Let_def

lemma in_remove1_other: "x \<noteq> y \<Longrightarrow> x \<in> set (remove1 y xs) \<longleftrightarrow> x \<in> set xs"
  by (simp add: in_set_remove1)

lemma health_keeps: "keeps s (health_loaded r s)"
  by (cases r) (simp_all add: keeps_def alerts_defs health_loaded_def in_remove1_other)

lemma rules_keeps: "keeps s (rules_loaded r s)"
  by (cases r) (simp_all add: keeps_def alerts_defs rules_loaded_def in_remove1_other)

lemma history_keeps: "keeps s (history_loaded r s)"
  by (cases r) (simp_all add: keeps_def alerts_defs history_loaded_def in_remove1_other)

lemma stats_keeps: "keeps s (stats_loaded r s)"
  by (cases r) (simp_all add: keeps_def alerts_defs stats_loaded_def in_remove1_other)

lemma clicks_keep:
  "keeps s (address_changed ps s)" "keeps s (handleSetActiveTab tab s)" "keeps s (handleTestChannel i s)"
  "keeps s (channel_tested i r5 s)" "keeps s (rule_form_saved s)" "keeps s (handleToggleRule i s)"
  by (simp_all add: keeps_def alerts_defs address_changed_def handleSetActiveTab_def handleTestChannel_def channel_tested_def
      rule_form_saved_def loadRules_def handleToggleRule_def in_remove1_other)

lemma rule_toggled_keeps: "keeps s (rule_toggled i r s)"
  by (cases r) (simp_all add: keeps_def alerts_defs rule_toggled_def in_remove1_other)

lemma aside_keeps: "aside s p \<Longrightarrow> keeps s p"
  by (induction rule: aside.induct) (rule health_keeps rules_keeps history_keeps stats_keeps clicks_keep rule_toggled_keeps)+

lemma own_keeps:
  "keeps s (handleToggleChannel i s)" "keeps s (channel_toggled i (Inl e) s)" "keeps s (handleDeleteChannel i s)"
  "keeps s (close_delete s)" "keeps s (confirmDeleteChannel s)" "keeps s (channel_deleted i (Inl e) s)"
  by (simp_all add: keeps_def alerts_defs handleToggleChannel_def channel_toggled_def handleDeleteChannel_def close_delete_def
      confirmDeleteChannel_def channel_deleted_def in_remove1_other split: option.split)

lemma reading [simp]:
  "Pc_channels \<in> set (ap_calls (refreshChannels s))" "Pc_channels \<in> set (ap_calls (retry_all s))"
  "Pc_channels \<in> set (ap_calls (channel_deleted i (Inr u) s))"
  by (simp_all add: alerts_defs refreshChannels_def retry_all_def channel_deleted_def loadChannels_def loadChannelHealth_def
      loadRules_def loadHistory_def)

lemma world_good_step:
  assumes "alerts_step True w w'" "world_good w"
  shows "world_good w'"
  using assms(1)
proof cases
  case (aside p)
  then show ?thesis using good_keeps [OF assms(2)] aside_keeps by simp
next
  case (toggle ch)
  then show ?thesis using good_keeps [OF assms(2)] own_keeps(1) by simp
next
  case (toggle_reaches i b)
  have a: "awaited w' = set_enabled i (\<not> b) (awaited w)" by (simp add: toggle_reaches(1) awaited_def)
  have "flags_on (aw_flags w') (aw_server w')"
    using assms(2) flags_on_flip [OF _ toggle_reaches(3)] by (simp add: toggle_reaches(1) world_good_def)
  moreover have "\<forall>c \<in> set (aw_server w'). nc_id c \<notin> set (aw_gone w)"
    using assms(2) by (auto simp: toggle_reaches(1) world_good_def set_enabled_def)
  ultimately show ?thesis using assms(2) toggle_reaches(3) a
    by (simp add: world_good_def) (simp add: toggle_reaches(1), auto)
next
  case (toggle_answered i b)
  have "ap_channels (aw_page w') = set_enabled i b (ap_channels (aw_page w))"
    by (simp add: toggle_answered(1) channel_toggled_def alerts_defs)
  then have a: "awaited w' = awaited w"
    using apply_flags_remove [of "aw_flags w" i b] assms(2) toggle_answered(2)
    by (simp add: toggle_answered(1) awaited_def world_good_def)
  have "distinct (map fst (remove1 (i, b) (aw_flags w)))" "flags_on (remove1 (i, b) (aw_flags w)) (aw_server w)"
    using assms(2) pending_once(2) [OF _ toggle_answered(2)] flags_on_subset [OF set_remove1_subset]
    by (simp_all add: world_good_def)
  then show ?thesis using assms(2) a
    by (simp add: world_good_def) (simp add: toggle_answered(1) channel_toggled_def alerts_defs in_remove1_other)
next
  case (toggle_fails i e)
  then show ?thesis using good_keeps [OF assms(2)] own_keeps(2) by simp
next
  case (ask i)
  then show ?thesis using good_keeps [OF assms(2)] own_keeps(3) by simp
next
  case cancel
  then show ?thesis using good_keeps [OF assms(2)] own_keeps(4) by simp
next
  case confirm
  then show ?thesis using good_keeps [OF assms(2)] own_keeps(5) by simp
next
  case (delete_reaches i)
  have "awaited w' = filter (\<lambda>c. nc_id c \<noteq> i) (awaited w)"
    by (simp add: delete_reaches(1) awaited_def) (rule filter_cong; auto)
  then show ?thesis using assms(2) by (auto simp: world_good_def delete_reaches(1) flags_on_def)
next
  case (delete_answered i)
  then have "Pc_channels \<in> set (ap_calls (aw_page w'))" by simp
  then show ?thesis using assms(2) by (auto simp: world_good_def delete_answered(1) dest: notin_set_remove1 set_mp [OF set_remove1_subset])
next
  case (delete_fails i e)
  then show ?thesis using good_keeps [OF assms(2)] own_keeps(6) by simp
next
  case (created ch)
  then show ?thesis using assms(2) by (auto simp: world_good_def flags_on_def image_iff)
next
  case read_prompt
  have "ap_channels (aw_page w') = aw_server w" by (simp add: read_prompt(1) channels_loaded_def alerts_defs)
  then have "awaited w' = aw_server w'"
    using assms(2) by (simp add: awaited_def read_prompt(1) apply_flags_same world_good_def)
  then show ?thesis using assms(2) by (simp add: world_good_def) (simp add: read_prompt(1))
next
  case read_reaches
  then show ?thesis by simp
next
  case (read_answered xs)
  then show ?thesis using assms(2) by (simp add: world_good_def)
next
  case (read_fails e)
  then show ?thesis using assms(2) by (simp add: world_good_def channels_loaded_def alerts_defs)
next
  case retry
  then show ?thesis using good_reading [OF assms(2)] by simp
next
  case refresh
  then show ?thesis using good_reading [OF assms(2)] by simp
qed

lemma world_mounted_good: "world_good (world_mounted ps xs)"
  by (simp add: world_good_def world_mounted_def flags_on_def alerts_mounted_def alerts_defs loadStats_def loadHistory_def
      loadRules_def loadChannelHealth_def loadChannels_def)

text \<open>The channels shown, once no read of them and no answer is on its way.\<close>

definition channels_shown :: "alerts_world \<Rightarrow> notification_channel list option" where
  "channels_shown w =
     (if Pc_channels \<in> set (ap_calls (aw_page w)) \<or> ap_channelsError (aw_page w) \<noteq> None \<or> aw_flags w \<noteq> [] \<or> aw_gone w \<noteq> []
      then None else Some (ap_channels (aw_page w)))"

interpretation channel_reads: answers "\<lambda>server shown. shown = server" "alerts_step True" aw_server channels_shown world_good
proof unfold_locales
  show "world_good w \<Longrightarrow> alerts_step True w w' \<Longrightarrow> world_good w'" for w w' by (rule world_good_step)
  show "world_good w \<Longrightarrow> channels_shown w = Some d \<Longrightarrow> d = aw_server w" for w d
    by (auto simp: world_good_def channels_shown_def awaited_def split: if_splits)
qed

text \<open>C40: Whatever channels are toggled, deleted or added at once and whichever requests fail, a settled
  page without an error shows exactly the server's channels with their flags, as long as no read
  is overtaken.\<close>

theorem channels_settled:
  assumes "(alerts_step True)\<^sup>*\<^sup>* (world_mounted ps xs) w" "Pc_channels \<notin> set (ap_calls (aw_page w))"
    and "aw_flags w = []" "aw_gone w = []" "ap_channelsError (aw_page w) = None"
  shows "ap_channels (aw_page w) = aw_server w"
  by (rule channel_reads.reach_shown [OF assms(1) world_mounted_good]) (simp add: channels_shown_def assms(2-5))

definition demo_channel :: notification_channel where
  "demo_channel = \<lparr>nc_id = ''c1'', nc_name = ''ops'', nc_type = Ch_slack, nc_config = ''{}'', nc_isEnabled = True, nc_createdAt = []\<rparr>"

lemma channels_settled_witness:
  "ap_channels (channels_loaded (Inr [demo_channel]) (alerts_mounted [])) = [demo_channel]"
proof -
  define w where "w = (world_mounted [] [demo_channel])\<lparr>aw_page := channels_loaded (Inr (aw_server (world_mounted [] [demo_channel])))
    (aw_page (world_mounted [] [demo_channel]))\<rparr>"
  have s: "aw_page w = channels_loaded (Inr [demo_channel]) (alerts_mounted [])" "aw_server w = [demo_channel]" "aw_flags w = []" "aw_gone w = []"
    by (simp_all add: w_def world_mounted_def)
  have "alerts_step True (world_mounted [] [demo_channel]) w" unfolding w_def
    by (rule alerts_step.read_prompt) (simp add: world_mounted_def alerts_mounted_def alerts_defs loadStats_def loadHistory_def
        loadRules_def loadChannelHealth_def loadChannels_def)
  then have "(alerts_step True)\<^sup>*\<^sup>* (world_mounted [] [demo_channel]) w" by simp
  from channels_settled [OF this] show ?thesis
    by (simp add: s channels_loaded_def alerts_mounted_def alerts_defs loadStats_def loadHistory_def loadRules_def
        loadChannelHealth_def loadChannels_def)
qed

text \<open>Confirming deletes the channel the dialog names.\<close>

theorem delete_named:
  assumes "pendingDeleteChannel s = Some c"
  shows "c \<in> set (ap_channels s) \<and> ap_calls (confirmDeleteChannel s) = ap_calls s @ [Pc_delete (nc_id c)]"
proof -
  have t: "truthy (ap_pendingDelete s)" and f: "find (\<lambda>c. nc_id c = the (ap_pendingDelete s)) (ap_channels s) = Some c"
    using assms by (simp_all add: pendingDeleteChannel_def split: if_splits)
  from t obtain i where i: "ap_pendingDelete s = Some i" "i \<noteq> []" by (cases "ap_pendingDelete s") auto
  from f have "c \<in> set (ap_channels s)" "nc_id c = i" by (auto simp: find_Some_iff i)
  then show ?thesis by (simp add: confirmDeleteChannel_def i calls_def)
qed

text \<open>A read that a toggle overtakes puts the flag of before back on the page, with no error and
  nothing in flight.\<close>

theorem stale_channels:
  fixes ch :: notification_channel
  assumes "nc_isEnabled ch"
  shows "\<exists>w. (alerts_step False)\<^sup>*\<^sup>* (world_mounted ps [ch]) w \<and> Pc_channels \<notin> set (ap_calls (aw_page w)) \<and> aw_lists w = []
    \<and> aw_flags w = [] \<and> aw_gone w = [] \<and> ap_channelsError (aw_page w) = None
    \<and> ap_channels (aw_page w) = [ch] \<and> aw_server w = [ch\<lparr>nc_isEnabled := False\<rparr>]"
proof -
  let ?i = "nc_id ch" and ?off = "ch\<lparr>nc_isEnabled := False\<rparr>"
  define w0 where "w0 = world_mounted ps [ch]"
  define w1 where "w1 = w0\<lparr>aw_page := channels_loaded (Inr (aw_server w0)) (aw_page w0)\<rparr>"
  define w2 where "w2 = w1\<lparr>aw_page := refreshChannels (aw_page w1)\<rparr>"
  define w3 where "w3 = w2\<lparr>aw_lists := aw_lists w2 @ [aw_server w2]\<rparr>"
  define w4 where "w4 = w3\<lparr>aw_page := handleToggleChannel ?i (aw_page w3)\<rparr>"
  define w5 where "w5 = w4\<lparr>aw_server := set_enabled ?i (\<not> True) (aw_server w4), aw_flags := aw_flags w4 @ [(?i, \<not> True)]\<rparr>"
  define w6 where "w6 = w5\<lparr>aw_page := channel_toggled ?i (Inr False) (aw_page w5), aw_flags := remove1 (?i, False) (aw_flags w5)\<rparr>"
  define w7 where "w7 = w6\<lparr>aw_page := channels_loaded (Inr [ch]) (aw_page w6), aw_lists := remove1 [ch] (aw_lists w6)\<rparr>"
  have s0: "aw_server w0 = [ch]" "aw_flags w0 = []" "aw_gone w0 = []" "aw_lists w0 = []" "ap_toggling (aw_page w0) = []"
    "ap_calls (aw_page w0) = [Pc_channels, Pc_health, Pc_rules, Pc_history, Pc_stats]" "ap_channelsError (aw_page w0) = None"
    by (simp_all add: w0_def world_mounted_def alerts_mounted_def alerts_defs loadStats_def loadHistory_def loadRules_def
        loadChannelHealth_def loadChannels_def)
  have s1: "aw_server w1 = [ch]" "aw_flags w1 = []" "aw_gone w1 = []" "aw_lists w1 = []" "ap_toggling (aw_page w1) = []"
    "ap_calls (aw_page w1) = [Pc_health, Pc_rules, Pc_history, Pc_stats]" "ap_channels (aw_page w1) = [ch]" "ap_channelsError (aw_page w1) = None"
    by (simp_all add: w1_def s0 channels_loaded_def alerts_defs)
  have s3: "aw_server w3 = [ch]" "aw_flags w3 = []" "aw_gone w3 = []" "aw_lists w3 = [[ch]]" "ap_toggling (aw_page w3) = []"
    "ap_calls (aw_page w3) = [Pc_health, Pc_rules, Pc_history, Pc_stats, Pc_channels, Pc_health]" "ap_channels (aw_page w3) = [ch]"
    "ap_channelsError (aw_page w3) = None"
    by (simp_all add: w3_def w2_def s1 refreshChannels_def loadChannels_def loadChannelHealth_def alerts_defs)
  have s4: "ap_calls (aw_page w4) = [Pc_health, Pc_rules, Pc_history, Pc_stats, Pc_channels, Pc_health, Pc_toggle ?i]"
    "aw_server w4 = [ch]" "aw_flags w4 = []" "aw_gone w4 = []" "aw_lists w4 = [[ch]]" "ap_channelsError (aw_page w4) = None"
    by (simp_all add: w4_def s3 handleToggleChannel_def alerts_defs)
  have s6: "ap_calls (aw_page w6) = [Pc_health, Pc_rules, Pc_history, Pc_stats, Pc_channels, Pc_health]"
    "aw_server w6 = [?off]" "aw_flags w6 = []" "aw_gone w6 = []" "aw_lists w6 = [[ch]]" "ap_channelsError (aw_page w6) = None"
    by (simp_all add: w6_def w5_def s4 channel_toggled_def alerts_defs set_enabled_def)
  have s7: "ap_calls (aw_page w7) = [Pc_health, Pc_rules, Pc_history, Pc_stats, Pc_health]" "ap_channels (aw_page w7) = [ch]"
    "aw_server w7 = [?off]" "aw_flags w7 = []" "aw_gone w7 = []" "aw_lists w7 = []" "ap_channelsError (aw_page w7) = None"
    by (simp_all add: w7_def s6 channels_loaded_def alerts_defs)
  have "alerts_step False w0 w1" unfolding w1_def by (rule alerts_step.read_prompt) (simp add: s0)
  moreover have "alerts_step False w1 w2" unfolding w2_def by (rule alerts_step.refresh)
  moreover have "alerts_step False w2 w3" unfolding w3_def
    by (rule alerts_step.read_reaches) (simp_all add: w2_def s1 refreshChannels_def loadChannels_def loadChannelHealth_def alerts_defs)
  moreover have "alerts_step False w3 w4" unfolding w4_def by (rule alerts_step.toggle) (simp_all add: s3)
  moreover have "alerts_step False w4 w5" unfolding w5_def
    by (rule alerts_step.toggle_reaches) (simp_all add: s4 server_flag_def assms)
  moreover have "alerts_step False w5 w6" unfolding w6_def by (rule alerts_step.toggle_answered) (simp add: w5_def)
  moreover have "alerts_step False w6 w7" unfolding w7_def by (rule alerts_step.read_answered) (simp add: s6)
  ultimately have "(alerts_step False)\<^sup>*\<^sup>* w0 w7" by (meson converse_rtranclp_into_rtranclp r_into_rtranclp)
  then show ?thesis using s7 by (auto simp: w0_def)
qed

end
