(* ===== verification/EU_GroupPages.thy ===== *)
theory EU_GroupPages imports EU_UptimeList EU_Groups
begin

text \<open>
  The group pages: \<open>pages/projects/AddTargetsDialog.tsx\<close>, \<open>ProjectOverviewPage.tsx\<close> and
  \<open>ProjectsPage.tsx\<close>, over the members of \<open>EU_Groups\<close>, and what they do to the demo server.
\<close>

section \<open>Adding targets to a group (AddTargetsDialog)\<close>

fun target_name :: "assignable_target \<Rightarrow> string" where
  "target_name (Target_agent a) = ag_name a"
| "target_name (Target_monitor m) = um_name m"
| "target_name (Target_direct s) = os_name s"
| "target_name (Target_infra r) = ir_name r"

record add_dialog =
  ad_query :: string
  ad_selected :: "string set"
  ad_saving :: bool
  ad_open :: bool
  ad_toasts :: "string list"

definition add_mounted :: add_dialog where
  "add_mounted = \<lparr>ad_query = [], ad_selected = {}, ad_saving = False, ad_open = True, ad_toasts = []\<rparr>"

definition groupName :: "project list \<Rightarrow> string option \<Rightarrow> string option" where
  "groupName projects i = Option.bind i (\<lambda>i. map_option pr_name (find (\<lambda>p. pr_id p = i) projects))"

definition addable_targets :: "string \<Rightarrow> assignable_target list \<Rightarrow> assignable_target list" where
  "addable_targets p targets =
     sort_by (by_key (\<lambda>t. truthy (target_project t))) (filter (\<lambda>t. target_project t \<noteq> Some p) targets)"

definition visible_targets :: "string \<Rightarrow> assignable_target list \<Rightarrow> add_dialog \<Rightarrow> assignable_target list" where
  "visible_targets p targets s =
     (let needle = to_lower (js_trim (ad_query s)) in
      if needle \<noteq> [] then filter (\<lambda>t. str_includes needle (to_lower (target_name t))) (addable_targets p targets)
      else addable_targets p targets)"

definition chosen_targets :: "string \<Rightarrow> assignable_target list \<Rightarrow> add_dialog \<Rightarrow> assignable_target list" where
  "chosen_targets p targets s = filter (\<lambda>t. targetKey t \<in> ad_selected s) (addable_targets p targets)"

definition moving :: "string \<Rightarrow> assignable_target list \<Rightarrow> add_dialog \<Rightarrow> nat" where
  "moving p targets s = length (filter (\<lambda>t. truthy (target_project t)) (chosen_targets p targets s))"

definition toggle_target :: "string \<Rightarrow> bool \<Rightarrow> add_dialog \<Rightarrow> add_dialog" where
  "toggle_target key checked s =
     s\<lparr>ad_selected := (if checked then insert key (ad_selected s) else ad_selected s - {key})\<rparr>"

definition close_add :: "add_dialog \<Rightarrow> add_dialog" where
  "close_add s = (if ad_saving s then s else s\<lparr>ad_open := False\<rparr>)"

definition add_submit :: "string \<Rightarrow> assignable_target list \<Rightarrow> add_dialog \<Rightarrow> add_dialog \<times> unit api_call list" where
  "add_submit p targets s = (s\<lparr>ad_saving := True\<rparr>, map (\<lambda>t. setTargetGroup t (Some p)) (chosen_targets p targets s))"

text \<open>After all requests have settled and the page has loaded again; \<open>chosen\<close> is what was submitted.\<close>

definition failed_targets :: "assignable_target list \<Rightarrow> (thrown + 'r) list \<Rightarrow> assignable_target list" where
  "failed_targets chosen results = map fst (filter (\<lambda>(t, r). isl r) (zip chosen results))"

definition add_settled :: "assignable_target list \<Rightarrow> (thrown + 'r) list \<Rightarrow> add_dialog \<Rightarrow> add_dialog" where
  "add_settled chosen results s =
     (let failed = failed_targets chosen results; s = s\<lparr>ad_saving := False\<rparr> in
      if failed = [] then s\<lparr>ad_open := False\<rparr>
      else s\<lparr>ad_selected := targetKey ` set failed,
             ad_toasts := ad_toasts s @ [show_nat (length failed) @ ([CHR 0xEA, CHR 0xB0, CHR 0x9C, CHR 0xEB, CHR 0xA5, CHR 0xBC] @ '' '' @ [CHR 0xEC, CHR 0xB6, CHR 0x94, CHR 0xEA, CHR 0xB0, CHR 0x80, CHR 0xED, CHR 0x95, CHR 0x98, CHR 0xEC, CHR 0xA7, CHR 0x80] @ '' '' @ [CHR 0xEB, CHR 0xAA, CHR 0xBB, CHR 0xED, CHR 0x96, CHR 0x88, CHR 0xEC, CHR 0x8A, CHR 0xB5, CHR 0xEB, CHR 0x8B, CHR 0x88, CHR 0xEB, CHR 0x8B, CHR 0xA4] @ '': '')
               @ getErrorMessage (projl (the (find isl results)))]\<rparr>)"

definition target_sections :: "string \<Rightarrow> assignable_target list \<Rightarrow> add_dialog \<Rightarrow> (string \<times> assignable_target list) list" where
  "target_sections p targets s =
     filter (\<lambda>(l, rows). rows \<noteq> [])
       (map (\<lambda>(k, l). (l, filter (\<lambda>t. target_kind_of t = k) (visible_targets p targets s))) TARGET_KINDS)"

definition current_group_text :: "project list \<Rightarrow> assignable_target \<Rightarrow> string" where
  "current_group_text projects t =
     (let current = groupName projects (target_project t) in
      if truthy current then ([CHR 0xED, CHR 0x98, CHR 0x84, CHR 0xEC, CHR 0x9E, CHR 0xAC] @ '' '' @ [CHR 0xEA, CHR 0xB7, CHR 0xB8, CHR 0xEB, CHR 0xA3, CHR 0xB9] @ '': '') @ the current else [CHR 0xEB, CHR 0xAF, CHR 0xB8, CHR 0xEB, CHR 0xB6, CHR 0x84, CHR 0xEB, CHR 0xA5, CHR 0x98])"

definition chosen_text :: "string \<Rightarrow> assignable_target list \<Rightarrow> add_dialog \<Rightarrow> string" where
  "chosen_text p targets s =
     (let n = length (chosen_targets p targets s) in
      if n = 0 then ([CHR 0xEC, CHR 0xB6, CHR 0x94, CHR 0xEA, CHR 0xB0, CHR 0x80, CHR 0xED, CHR 0x95, CHR 0xA0] @ '' '' @ [CHR 0xEB, CHR 0x8C, CHR 0x80, CHR 0xEC, CHR 0x83, CHR 0x81, CHR 0xEC, CHR 0x9D, CHR 0x84] @ '' '' @ [CHR 0xEA, CHR 0xB3, CHR 0xA0, CHR 0xEB, CHR 0xA5, CHR 0xB4, CHR 0xEC, CHR 0x84, CHR 0xB8, CHR 0xEC, CHR 0x9A, CHR 0x94])
      else if moving p targets s > 0 then show_nat n @ ([CHR 0xEA, CHR 0xB0, CHR 0x9C] @ '' '' @ [CHR 0xEC, CHR 0x84, CHR 0xA0, CHR 0xED, CHR 0x83, CHR 0x9D] @ '', '') @ show_nat (moving p targets s) @ ([CHR 0xEA, CHR 0xB0, CHR 0x9C, CHR 0xEB, CHR 0x8A, CHR 0x94] @ '' '' @ [CHR 0xEB, CHR 0x8B, CHR 0xA4, CHR 0xEB, CHR 0xA5, CHR 0xB8] @ '' '' @ [CHR 0xEA, CHR 0xB7, CHR 0xB8, CHR 0xEB, CHR 0xA3, CHR 0xB9, CHR 0xEC, CHR 0x97, CHR 0x90, CHR 0xEC, CHR 0x84, CHR 0x9C] @ '' '' @ [CHR 0xEC, CHR 0x98, CHR 0xAE, CHR 0xEA, CHR 0xB2, CHR 0xA8, CHR 0xEC, CHR 0xA7, CHR 0x91, CHR 0xEB, CHR 0x8B, CHR 0x88, CHR 0xEB, CHR 0x8B, CHR 0xA4])
      else show_nat n @ ([CHR 0xEA, CHR 0xB0, CHR 0x9C] @ '' '' @ [CHR 0xEC, CHR 0x84, CHR 0xA0, CHR 0xED, CHR 0x83, CHR 0x9D]))"

section \<open>The dialog of a group (ProjectDialog)\<close>

record group_dialog =
  gd_name :: string
  gd_description :: string
  gd_saving :: bool
  gd_open :: bool
  gd_toasts :: "string list"

definition group_dialog_of :: "project option \<Rightarrow> group_dialog" where
  "group_dialog_of p =
     \<lparr>gd_name = (case p of Some x \<Rightarrow> pr_name x | None \<Rightarrow> []),
      gd_description = (case p of Some x \<Rightarrow> or_default (pr_description x) [] | None \<Rightarrow> []), gd_saving = False, gd_open = True,
      gd_toasts = []\<rparr>"

definition group_submit :: "group_dialog \<Rightarrow> group_dialog \<times> project_input" where
  "group_submit s = (s\<lparr>gd_saving := True\<rparr>, \<lparr>pri_name = gd_name s, pri_description = Some (gd_description s)\<rparr>)"

definition group_saved :: "thrown + 'r \<Rightarrow> group_dialog \<Rightarrow> group_dialog" where
  "group_saved r s =
     (case r of
        Inr _ \<Rightarrow> s\<lparr>gd_open := False, gd_saving := False\<rparr>
      | Inl e \<Rightarrow> s\<lparr>gd_toasts := gd_toasts s @ [getErrorMessage e], gd_saving := False\<rparr>)"

definition close_group_dialog :: "group_dialog \<Rightarrow> group_dialog" where
  "close_group_dialog s = (if gd_saving s then s else s\<lparr>gd_open := False\<rparr>)"

section \<open>The list of groups (ProjectsPage)\<close>

record group_list =
  gl_projects :: "project list"
  gl_sources :: project_sources
  gl_servicesKnown :: bool
  gl_loading :: bool
  gl_error :: "string option"
  gl_editing :: "project option option"
  gl_deleting :: "project option"
  gl_deletingProject :: bool
  gl_toasts :: "string list"

definition list_load :: "group_list \<Rightarrow> group_list" where
  "list_load s = s\<lparr>gl_loading := True, gl_error := None\<rparr>"

text \<open>All but the services must load; services that fail are unknown.\<close>

definition list_loaded :: "thrown + project list \<times> project_sources \<times> bool \<Rightarrow> group_list \<Rightarrow> group_list" where
  "list_loaded r s =
     (case r of
        Inr (ps, src, known) \<Rightarrow> s\<lparr>gl_projects := ps, gl_sources := src, gl_servicesKnown := known, gl_loading := False\<rparr>
      | Inl e \<Rightarrow> s\<lparr>gl_error := Some (getErrorMessage e), gl_loading := False\<rparr>)"

definition COUNTS :: "(target_kind \<times> string) list" where
  "COUNTS = [(Kind_agent, (''Docker '' @ [CHR 0xED, CHR 0x99, CHR 0x98, CHR 0xEA, CHR 0xB2, CHR 0xBD])), (Kind_monitor, [CHR 0xEC, CHR 0x97, CHR 0x85, CHR 0xED, CHR 0x83, CHR 0x80, CHR 0xEC, CHR 0x9E, CHR 0x84]), (Kind_direct, ([CHR 0xEC, CHR 0xA7, CHR 0x81, CHR 0xEC, CHR 0xA0, CHR 0x91] @ '' '' @ [CHR 0xEC, CHR 0x84, CHR 0x9C, CHR 0xEB, CHR 0xB9, CHR 0x84, CHR 0xEC, CHR 0x8A, CHR 0xA4])), (Kind_infra, ''Collector'')]"

definition countsOf :: "group_list \<Rightarrow> project \<Rightarrow> (string \<times> nat) list" where
  "countsOf s p =
     (let own = assignableTargets (sourcesForProject (pr_id p) ((gl_sources s)\<lparr>src_services := []\<rparr>)) in
      map (\<lambda>(k, l). (l, length (filter (\<lambda>t. target_kind_of t = k) own))) COUNTS)"

definition renderStatus :: "(string \<Rightarrow> string) \<Rightarrow> int \<Rightarrow> group_list \<Rightarrow> project \<Rightarrow> status_tone \<times> string" where
  "renderStatus locale now s p =
     (if \<not> gl_servicesKnown s then (T_idle, ([CHR 0xEC, CHR 0x83, CHR 0x81, CHR 0xED, CHR 0x83, CHR 0x9C] @ '' '' @ [CHR 0xED, CHR 0x99, CHR 0x95, CHR 0xEC, CHR 0x9D, CHR 0xB8] @ '' '' @ [CHR 0xEB, CHR 0xB6, CHR 0x88, CHR 0xEA, CHR 0xB0, CHR 0x80]))
      else let m = summarizeMembers (projectMembers locale now (sourcesForProject (pr_id p) (gl_sources s)))
           in (mes_tone m, mes_label m))"

datatype save_effect = Save_update string project_input | Save_create project_input

definition saveProject :: "group_list \<Rightarrow> project_input \<Rightarrow> save_effect" where
  "saveProject s input = (case gl_editing s of Some (Some p) \<Rightarrow> Save_update (pr_id p) input | _ \<Rightarrow> Save_create input)"

definition list_delete :: "group_list \<Rightarrow> group_list \<times> string option" where
  "list_delete s =
     (case gl_deleting s of Some p \<Rightarrow> (s\<lparr>gl_deletingProject := True\<rparr>, Some (pr_id p)) | None \<Rightarrow> (s, None))"

definition list_deleted :: "thrown + unit \<Rightarrow> group_list \<Rightarrow> group_list" where
  "list_deleted r s =
     (case r of
        Inr _ \<Rightarrow> list_load (s\<lparr>gl_deleting := None\<rparr>)
      | Inl e \<Rightarrow> s\<lparr>gl_toasts := gl_toasts s @ [getErrorMessage e], gl_deletingProject := False\<rparr>)"

text \<open>The \<open>finally\<close> of a deletion runs after its reload.\<close>

definition list_delete_done :: "group_list \<Rightarrow> group_list" where
  "list_delete_done s = s\<lparr>gl_deletingProject := False\<rparr>"

datatype list_of_groups = Lg_skeleton | Lg_failed string | Lg_none | Lg_rows "project list"

definition group_list_view :: "group_list \<Rightarrow> list_of_groups" where
  "group_list_view s =
     (if gl_loading s then Lg_skeleton
      else if truthy (gl_error s) then Lg_failed (the (gl_error s))
      else if gl_projects s = [] then Lg_none else Lg_rows (gl_projects s))"

section \<open>The page of a group (ProjectOverviewPage)\<close>

record group_results =
  gr_projects :: "thrown + project list"
  gr_agents :: "thrown + connected_agent list"
  gr_services :: "thrown + agent_service_flat list"
  gr_monitors :: "thrown + uptime_monitor list"
  gr_observed :: "thrown + observed_service list"
  gr_infrastructure :: "thrown + infrastructure_resource list"

record group_data =
  gp_project :: "project option"
  gp_projects :: "project list"
  gp_all :: project_sources
  gp_own :: project_sources

definition EMPTY_SOURCES :: project_sources where
  "EMPTY_SOURCES = \<lparr>src_agents = [], src_services = [], src_monitors = [], src_observedServices = [], src_infrastructure = []\<rparr>"

definition fulfilled :: "thrown + 'a list \<Rightarrow> 'a list" where
  "fulfilled r = (case r of Inr xs \<Rightarrow> xs | Inl _ \<Rightarrow> [])"

definition all_sources :: "group_results \<Rightarrow> project_sources" where
  "all_sources r =
     \<lparr>src_agents = fulfilled (gr_agents r), src_services = fulfilled (gr_services r), src_monitors = fulfilled (gr_monitors r),
      src_observedServices = fulfilled (gr_observed r), src_infrastructure = fulfilled (gr_infrastructure r)\<rparr>"

definition failed_sources :: "group_results \<Rightarrow> string list" where
  "failed_sources r =
     (if isl (gr_agents r) then [(''Docker '' @ [CHR 0xED, CHR 0x99, CHR 0x98, CHR 0xEA, CHR 0xB2, CHR 0xBD])] else []) @ (if isl (gr_services r) then [(''Docker '' @ [CHR 0xEC, CHR 0x84, CHR 0x9C, CHR 0xEB, CHR 0xB9, CHR 0x84, CHR 0xEC, CHR 0x8A, CHR 0xA4])] else [])
     @ (if isl (gr_monitors r) then [([CHR 0xEC, CHR 0x97, CHR 0x85, CHR 0xED, CHR 0x83, CHR 0x80, CHR 0xEC, CHR 0x9E, CHR 0x84] @ '' '' @ [CHR 0xEB, CHR 0xAA, CHR 0xA8, CHR 0xEB, CHR 0x8B, CHR 0x88, CHR 0xED, CHR 0x84, CHR 0xB0])] else []) @ (if isl (gr_observed r) then [([CHR 0xEC, CHR 0xA7, CHR 0x81, CHR 0xEC, CHR 0xA0, CHR 0x91] @ '' '' @ [CHR 0xEC, CHR 0x97, CHR 0xB0, CHR 0xEA, CHR 0xB2, CHR 0xB0] @ '' '' @ [CHR 0xEC, CHR 0x84, CHR 0x9C, CHR 0xEB, CHR 0xB9, CHR 0x84, CHR 0xEC, CHR 0x8A, CHR 0xA4])] else [])
     @ (if isl (gr_infrastructure r) then [[CHR 0xEC, CHR 0x9D, CHR 0xB8, CHR 0xED, CHR 0x94, CHR 0x84, CHR 0xEB, CHR 0x9D, CHR 0xBC]] else [])"

datatype group_outcome = Go_failed string | Go_elsewhere string | Go_data group_data "string list"

definition group_outcome :: "string \<Rightarrow> group_results \<Rightarrow> group_outcome" where
  "group_outcome projectId r =
     (case gr_projects r of
        Inl e \<Rightarrow> Go_failed (getErrorMessage e)
      | Inr projects \<Rightarrow>
          (let project = find (\<lambda>p. pr_id p = projectId) projects in
           if project = None \<and> \<not> isl (gr_agents r) \<and> list_ex (\<lambda>a. ag_id a = projectId) (fulfilled (gr_agents r))
           then Go_elsewhere (''/agents/'' @ projectId)
           else if project = None \<and> isl (gr_agents r) then Go_failed (getErrorMessage (projl (gr_agents r)))
           else Go_data \<lparr>gp_project = project, gp_projects = projects, gp_all = all_sources r,
                          gp_own = sourcesForProject projectId (all_sources r)\<rparr> (failed_sources r)))"

record group_page =
  gp_id :: string
  gp_data :: group_data
  gp_loading :: bool
  gp_error :: "string option"
  gp_failed :: "string list"
  gp_toasts :: "string list"
  gp_address :: "string option"
  gp_loads :: "string list"

definition group_load :: "bool \<Rightarrow> group_page \<Rightarrow> group_page" where
  "group_load background s =
     (if gp_id s = [] then s
      else let s = (if background then s else s\<lparr>gp_loading := True, gp_error := None, gp_failed := []\<rparr>)
           in s\<lparr>gp_loads := gp_loads s @ [gp_id s]\<rparr>)"

definition group_mounted :: "string \<Rightarrow> group_page" where
  "group_mounted i =
     group_load False \<lparr>gp_id = i, gp_data = \<lparr>gp_project = None, gp_projects = [], gp_all = EMPTY_SOURCES, gp_own = EMPTY_SOURCES\<rparr>,
       gp_loading = True, gp_error = None, gp_failed = [], gp_toasts = [], gp_address = None, gp_loads = []\<rparr>"

definition group_navigated :: "string \<Rightarrow> group_page \<Rightarrow> group_page" where
  "group_navigated i s = (if i = gp_id s then s else group_load False (s\<lparr>gp_id := i\<rparr>))"

definition group_loaded :: "string \<Rightarrow> group_results \<Rightarrow> group_page \<Rightarrow> group_page" where
  "group_loaded i r s =
     (let s = s\<lparr>gp_loads := remove1 i (gp_loads s), gp_loading := False\<rparr> in
      case group_outcome i r of
        Go_failed m \<Rightarrow> s\<lparr>gp_error := Some m\<rparr>
      | Go_elsewhere path \<Rightarrow> s\<lparr>gp_address := Some path\<rparr>
      | Go_data d failed \<Rightarrow> s\<lparr>gp_error := None, gp_data := d, gp_failed := failed\<rparr>)"

definition group_targets :: "group_page \<Rightarrow> nat" where
  "group_targets s =
     (let own = gp_own (gp_data s) in
      length (src_agents own) + length (src_monitors own) + length (src_observedServices own) + length (src_infrastructure own))"

datatype page_of_group = Gp_skeleton | Gp_failed string | Gp_unknown | Gp_empty project | Gp_members project "member list"

definition group_page_view :: "(string \<Rightarrow> string) \<Rightarrow> int \<Rightarrow> group_page \<Rightarrow> page_of_group" where
  "group_page_view locale now s =
     (if gp_loading s then Gp_skeleton
      else if truthy (gp_error s) then Gp_failed (the (gp_error s))
      else case gp_project (gp_data s) of
          None \<Rightarrow> Gp_unknown
        | Some p \<Rightarrow> if group_targets s = 0 then Gp_empty p else Gp_members p (projectMembers locale now (gp_own (gp_data s))))"

text \<open>The group a deletion on the page deletes, and the request that takes a member out.\<close>

definition page_deletes :: "group_page \<Rightarrow> string option" where
  "page_deletes s = map_option pr_id (gp_project (gp_data s))"

definition removeMember :: "member \<Rightarrow> unit api_call option" where
  "removeMember m = map_option (\<lambda>t. setTargetGroup t None) (me_assignment m)"

text \<open>A removal loads again in the background the group \<open>i\<close> of the page it was clicked on.\<close>

definition member_removed :: "string \<Rightarrow> member \<Rightarrow> thrown + unit \<Rightarrow> group_page \<Rightarrow> group_page" where
  "member_removed i m r s =
     (case r of
        Inr _ \<Rightarrow> s\<lparr>gp_loads := gp_loads s @ [i], gp_toasts := gp_toasts s @ [([CHR 0xEA, CHR 0xB7, CHR 0xB8, CHR 0xEB, CHR 0xA3, CHR 0xB9, CHR 0xEC, CHR 0x97, CHR 0x90, CHR 0xEC, CHR 0x84, CHR 0x9C] @ '' '' @ [CHR 0xEB, CHR 0xBA, CHR 0x90, CHR 0xEC, CHR 0x8A, CHR 0xB5, CHR 0xEB, CHR 0x8B, CHR 0x88, CHR 0xEB, CHR 0x8B, CHR 0xA4] @ '': '') @ me_name m]\<rparr>
      | Inl e \<Rightarrow> s\<lparr>gp_toasts := gp_toasts s @ [getErrorMessage e]\<rparr>)"

section \<open>Candidates and selections\<close>

text \<open>Offered are exactly the targets of other groups and of none, those of none first, each part in
  the order of the targets.\<close>

theorem candidates_of_group:
  "set (addable_targets p targets) = {t \<in> set targets. target_project t \<noteq> Some p}"
  "sorted_wrt (\<lambda>t u. truthy (target_project t) \<longrightarrow> truthy (target_project u)) (addable_targets p targets)"
  "distinct targets \<Longrightarrow> distinct (addable_targets p targets)"
proof -
  show "set (addable_targets p targets) = {t \<in> set targets. target_project t \<noteq> Some p}" by (auto simp: addable_targets_def)
  show "sorted_wrt (\<lambda>t u. truthy (target_project t) \<longrightarrow> truthy (target_project u)) (addable_targets p targets)"
    using asc.sorted_sort [of "\<lambda>t. truthy (target_project t)" "filter (\<lambda>t. target_project t \<noteq> Some p) targets"]
    by (simp add: addable_targets_def by_key_def [abs_def] le_bool_def)
  show "distinct (addable_targets p targets)" if "distinct targets"
    using that mset_sort_by [of "by_key (\<lambda>t. truthy (target_project t))" "filter (\<lambda>t. target_project t \<noteq> Some p) targets"]
    by (metis addable_targets_def distinct_filter mset_eq_imp_distinct_iff)
qed

text \<open>After a submission in which some requests failed, what stays selected is exactly what failed.\<close>

lemma failed_targets_mem:
  "length results = length ts \<Longrightarrow> t \<in> set (failed_targets ts results) \<longleftrightarrow> (\<exists>n < length ts. ts ! n = t \<and> isl (results ! n))"
  by (auto simp: failed_targets_def in_set_zip image_iff Bex_def)

theorem failed_stay_selected:
  assumes "length results = length chosen" "failed_targets chosen results \<noteq> []"
  shows "ad_open (add_settled chosen results s) = ad_open s \<and> \<not> ad_saving (add_settled chosen results s)
    \<and> ad_selected (add_settled chosen results s) = {targetKey (chosen ! n) |n. n < length chosen \<and> isl (results ! n)}"
  using assms failed_targets_mem [OF assms(1)] by (auto simp: add_settled_def Let_def image_def)

section \<open>Against the demo server\<close>

definition serve_targets :: "fixtures \<Rightarrow> ctx \<Rightarrow> unit api_call list \<Rightarrow> db \<Rightarrow> db" where
  "serve_targets fx c cs d = fold (\<lambda>call d. fst (serve fx c call d)) cs d"

lemma serve_untyped [simp]: "serve fx c (untyped call) d = serve fx c call d"
  by (simp add: serve_def untyped_def)

fun agent_of :: "assignable_target \<Rightarrow> connected_agent option" where
  "agent_of (Target_agent a) = Some a" | "agent_of _ = None"

fun monitor_target :: "assignable_target \<Rightarrow> uptime_monitor option" where
  "monitor_target (Target_monitor m) = Some m" | "monitor_target _ = None"

fun direct_of :: "assignable_target \<Rightarrow> observed_service option" where
  "direct_of (Target_direct s) = Some s" | "direct_of _ = None"

fun infra_of :: "assignable_target \<Rightarrow> infrastructure_resource option" where
  "infra_of (Target_infra r) = Some r" | "infra_of _ = None"

lemma of_iff [simp]:
  "agent_of t = Some a \<longleftrightarrow> t = Target_agent a" "monitor_target t = Some m \<longleftrightarrow> t = Target_monitor m"
  "direct_of t = Some s \<longleftrightarrow> t = Target_direct s" "infra_of t = Some r \<longleftrightarrow> t = Target_infra r"
  by (cases t; simp; blast)+

lemma signals_back [simp]: "List.map_filter parse_signal (map telemetry_signal_text ss) = ss"
proof (induction ss)
  case (Cons s ss)
  then show ?case by (cases s) (simp_all add: map_filter_simps parse_signal_def)
qed (simp add: map_filter_simps)

text \<open>What one assignment does to each table.\<close>

definition on_kind :: "'r option \<Rightarrow> ('r \<Rightarrow> 'x list \<Rightarrow> 'x list) \<Rightarrow> 'x list \<Rightarrow> 'x list" where
  "on_kind r f xs = (case r of Some r \<Rightarrow> f r xs | None \<Rightarrow> xs)"

lemma on_kind_simps [simp]: "on_kind (Some r) f xs = f r xs" "on_kind None f xs = xs"
  by (simp_all add: on_kind_def)

lemma serve_target:
  fixes fx :: fixtures and c :: ctx and d :: db
  assumes "is_segment (target_id t)" "is_segment p"
  defines "d' \<equiv> fst (serve fx c (setTargetGroup t (Some p)) d)"
  shows "db_agents d' = on_kind (agent_of t) (\<lambda>a. update_first (\<lambda>x. ag_id x = ag_id a) (\<lambda>x. x\<lparr>ag_projectId := Some p\<rparr>)) (db_agents d)"
    "db_monitors d' = on_kind (monitor_target t) (\<lambda>m. update_first (\<lambda>x. um_id x = um_id m) (\<lambda>x. x\<lparr>um_projectId := Some p\<rparr>)) (db_monitors d)"
    "db_observed d' = on_kind (direct_of t) (\<lambda>s. update_first (\<lambda>x. os_id x = os_id s)
       (\<lambda>x. x\<lparr>os_name := os_name s, os_projectId := Some p, os_signals := os_signals s, os_updatedAt := now_iso c\<rparr>)) (db_observed d)"
    "db_infrastructure d' = on_kind (infra_of t) (\<lambda>r. update_first (\<lambda>x. ir_id x = ir_id r)
       (\<lambda>x. x\<lparr>ir_name := ir_name r, ir_projectId := Some p, ir_updatedAt := now_iso c\<rparr>)) (db_infrastructure d)"
proof -
  have p: "p \<noteq> []" using assms(2) by (simp add: is_segment_def)
  have j: "assign_observed c (observed_service_input_json \<lparr>osi_name = os_name s, osi_projectId = Some p, osi_signals = os_signals s\<rparr>)
      = (\<lambda>x. x\<lparr>os_name := os_name s, os_projectId := Some p, os_signals := os_signals s, os_updatedAt := now_iso c\<rparr>)" for s
    using p by (simp add: fun_eq_iff assign_observed_def observed_service_input_json_def get_signals_def get_strings_def comp_def nonempty_def)
  have r: "assign_resource c (infrastructure_resource_input_json \<lparr>iri_name = ir_name x, iri_projectId = Some p\<rparr>)
      = (\<lambda>y. y\<lparr>ir_name := ir_name x, ir_projectId := Some p, ir_updatedAt := now_iso c\<rparr>)" for x
    using p by (simp add: fun_eq_iff assign_resource_def infrastructure_resource_input_json_def nonempty_def)
  show "db_agents d' = on_kind (agent_of t) (\<lambda>a. update_first (\<lambda>x. ag_id x = ag_id a) (\<lambda>x. x\<lparr>ag_projectId := Some p\<rparr>)) (db_agents d)"
    "db_monitors d' = on_kind (monitor_target t) (\<lambda>m. update_first (\<lambda>x. um_id x = um_id m) (\<lambda>x. x\<lparr>um_projectId := Some p\<rparr>)) (db_monitors d)"
    "db_observed d' = on_kind (direct_of t) (\<lambda>s. update_first (\<lambda>x. os_id x = os_id s)
       (\<lambda>x. x\<lparr>os_name := os_name s, os_projectId := Some p, os_signals := os_signals s, os_updatedAt := now_iso c\<rparr>)) (db_observed d)"
    "db_infrastructure d' = on_kind (infra_of t) (\<lambda>r. update_first (\<lambda>x. ir_id x = ir_id r)
       (\<lambda>x. x\<lparr>ir_name := ir_name r, ir_projectId := Some p, ir_updatedAt := now_iso c\<rparr>)) (db_infrastructure d)"
    using assms(1,2) p unfolding d'_def
    by (cases t; simp add: serve_rules assign_member_def update_observed_def update_resource_def j r)+
qed

text \<open>An assignment touches the four tables of targets and no other.\<close>

definition same_besides :: "db \<Rightarrow> db \<Rightarrow> bool" where
  "same_besides d d' \<longleftrightarrow>
     d' = d\<lparr>db_agents := db_agents d', db_monitors := db_monitors d', db_observed := db_observed d', db_infrastructure := db_infrastructure d'\<rparr>"

lemma same_besides_trans: "same_besides d d' \<Longrightarrow> same_besides d' d'' \<Longrightarrow> same_besides d d''"
  unfolding same_besides_def by (cases d; cases d'; cases d'') simp

lemma serve_target_besides:
  assumes "is_segment (target_id t)" "is_segment p"
  shows "same_besides d (fst (serve fx c (setTargetGroup t (Some p)) d))"
  using assms by (cases t) (simp_all add: is_segment_def serve_rules assign_member_def update_observed_def update_resource_def same_besides_def)

lemma fold_table:
  assumes "\<And>t d. t \<in> set ts \<Longrightarrow> tbl (step t d) = on_kind (sel t) f (tbl d)"
  shows "tbl (fold step ts d) = fold f (List.map_filter sel ts) (tbl d)"
  using assms by (induction ts arbitrary: d) (auto simp: map_filter_simps split: option.split)

lemma map_filter_sel:
  assumes "\<And>t r. sel t = Some r \<longleftrightarrow> t = C r"
  shows "set (List.map_filter sel ts) = {r. C r \<in> set ts}" "distinct ts \<Longrightarrow> distinct (List.map_filter sel ts)"
proof -
  have a: "sel (C r) = Some r" and b: "sel t = Some r \<Longrightarrow> t = C r" for t r using assms by blast+
  show s: "set (List.map_filter sel ts) = {r. C r \<in> set ts}" for ts
  proof (intro set_eqI iffI)
    fix r assume "r \<in> set (List.map_filter sel ts)"
    then obtain t where "t \<in> set ts" "sel t = Some r" by (auto simp: map_filter_def)
    then show "r \<in> {r. C r \<in> set ts}" using b by auto
  next
    fix r assume "r \<in> {r. C r \<in> set ts}"
    then show "r \<in> set (List.map_filter sel ts)" using a [of r] by (force simp: map_filter_def)
  qed
  show "distinct ts \<Longrightarrow> distinct (List.map_filter sel ts)"
  proof (induction ts)
    case (Cons t ts)
    then show ?case using b by (cases "sel t") (auto simp: map_filter_simps s)
  qed (simp add: map_filter_simps)
qed

lemma assigned_table:
  assumes "\<And>t d. t \<in> set ts \<Longrightarrow> tbl (step t d) = on_kind (sel t) (\<lambda>m. update_first (\<lambda>x. k x = k m) (f m)) (tbl d)"
    and "\<And>t r. sel t = Some r \<longleftrightarrow> t = C r" and "distinct (map k (tbl d))" and "distinct ts"
    and "\<And>r. C r \<in> set ts \<Longrightarrow> r \<in> set (tbl d)" and "\<And>m. k (f m m) = k m"
  shows "tbl (fold step ts d) = map (\<lambda>x. if C x \<in> set ts then f x x else x) (tbl d)"
proof -
  note m = map_filter_sel [OF assms(2), where ts = ts]
  have "tbl (fold step ts d) = fold (\<lambda>m. update_first (\<lambda>x. k x = k m) (f m)) (List.map_filter sel ts) (tbl d)"
    by (rule fold_table) (rule assms(1))
  also have "\<dots> = map (\<lambda>x. if x \<in> set (List.map_filter sel ts) then f x x else x) (tbl d)"
    using assms(3-6) m by (intro fold_update) auto
  finally show ?thesis by (simp add: m(1))
qed

definition db_sources :: "db \<Rightarrow> project_sources" where
  "db_sources d =
     \<lparr>src_agents = db_agents d, src_services = [], src_monitors = db_monitors d, src_observedServices = db_observed d,
      src_infrastructure = db_infrastructure d\<rparr>"

lemma assignable_distinct: "ids_ok d \<Longrightarrow> distinct (assignableTargets (db_sources d))"
  by (auto simp: ids_ok_def assignableTargets_def db_sources_def distinct_map inj_on_def)

text \<open>C31: Adding the selected targets to a group, run against the demo server, puts exactly the selected
  targets that are offered into the group; every other target, every other setting and every other
  table stays as it was.\<close>

theorem add_targets_exact:
  fixes fx :: fixtures and c :: ctx and d :: db and s :: add_dialog
  assumes "ids_ok d" "is_segment p" "list_all (\<lambda>t. is_segment (target_id t)) (assignableTargets (db_sources d))"
  defines "added t \<equiv> t \<in> set (assignableTargets (db_sources d)) \<and> target_project t \<noteq> Some p \<and> targetKey t \<in> ad_selected s"
  shows "serve_targets fx c (snd (add_submit p (assignableTargets (db_sources d)) s)) d =
    d\<lparr>db_agents := map (\<lambda>x. if added (Target_agent x) then x\<lparr>ag_projectId := Some p\<rparr> else x) (db_agents d),
      db_monitors := map (\<lambda>x. if added (Target_monitor x) then x\<lparr>um_projectId := Some p\<rparr> else x) (db_monitors d),
      db_observed := map (\<lambda>x. if added (Target_direct x)
        then x\<lparr>os_projectId := Some p, os_updatedAt := now_iso c\<rparr> else x) (db_observed d),
      db_infrastructure := map (\<lambda>x. if added (Target_infra x)
        then x\<lparr>ir_projectId := Some p, ir_updatedAt := now_iso c\<rparr> else x) (db_infrastructure d)\<rparr>"
proof -
  let ?all = "assignableTargets (db_sources d)"
  define ts where "ts = chosen_targets p ?all s"
  have added: "added t \<longleftrightarrow> t \<in> set ts" for t
    by (auto simp: added_def ts_def chosen_targets_def candidates_of_group(1))
  define step where "step = (\<lambda>t d. fst (serve fx c (setTargetGroup t (Some p)) d))"
  have sub: "set ts \<subseteq> set ?all" using candidates_of_group(1) [of p ?all] by (auto simp: ts_def chosen_targets_def)
  have dist: "distinct ts" using candidates_of_group(3) [OF assignable_distinct [OF assms(1)]] by (simp add: ts_def chosen_targets_def)
  have seg: "is_segment (target_id t)" if "t \<in> set ts" for t using sub that assms(3) by (auto simp: list_all_iff)
  have run: "serve_targets fx c (snd (add_submit p ?all s)) d = fold step ts d"
    by (simp add: serve_targets_def add_submit_def fold_map comp_def step_def ts_def)
  have ids: "distinct (map ag_id (db_agents d))" "distinct (map um_id (db_monitors d))" "distinct (map os_id (db_observed d))"
    "distinct (map ir_id (db_infrastructure d))"
    using assms(1) by (simp_all add: ids_ok_def)
  have mem: "Target_agent a \<in> set ts \<Longrightarrow> a \<in> set (db_agents d)" "Target_monitor m \<in> set ts \<Longrightarrow> m \<in> set (db_monitors d)"
    "Target_direct o' \<in> set ts \<Longrightarrow> o' \<in> set (db_observed d)" "Target_infra r \<in> set ts \<Longrightarrow> r \<in> set (db_infrastructure d)" for a m o' r
    using sub by (auto simp: assignableTargets_def db_sources_def)
  have "db_agents (fold step ts d) = map (\<lambda>x. if Target_agent x \<in> set ts then x\<lparr>ag_projectId := Some p\<rparr> else x) (db_agents d)"
    by (rule assigned_table [where f = "\<lambda>m x. x\<lparr>ag_projectId := Some p\<rparr>" and k = ag_id and sel = agent_of and C = Target_agent])
      (simp_all add: serve_target(1) step_def seg assms(2) ids dist mem)
  moreover have "db_monitors (fold step ts d) = map (\<lambda>x. if Target_monitor x \<in> set ts then x\<lparr>um_projectId := Some p\<rparr> else x) (db_monitors d)"
    by (rule assigned_table [where f = "\<lambda>m x. x\<lparr>um_projectId := Some p\<rparr>" and k = um_id and sel = monitor_target and C = Target_monitor])
      (simp_all add: serve_target(2) step_def seg assms(2) ids dist mem)
  moreover have "db_observed (fold step ts d) = map (\<lambda>x. if Target_direct x \<in> set ts then x\<lparr>os_projectId := Some p, os_updatedAt := now_iso c\<rparr> else x) (db_observed d)"
    by (subst assigned_table [where f = "\<lambda>s x. x\<lparr>os_name := os_name s, os_projectId := Some p, os_signals := os_signals s, os_updatedAt := now_iso c\<rparr>"
        and k = os_id and sel = direct_of and C = Target_direct])
      (simp_all add: serve_target(3) step_def seg assms(2) ids dist mem)
  moreover have "db_infrastructure (fold step ts d) = map (\<lambda>x. if Target_infra x \<in> set ts then x\<lparr>ir_projectId := Some p, ir_updatedAt := now_iso c\<rparr> else x) (db_infrastructure d)"
    by (subst assigned_table [where f = "\<lambda>r x. x\<lparr>ir_name := ir_name r, ir_projectId := Some p, ir_updatedAt := now_iso c\<rparr>"
        and k = ir_id and sel = infra_of and C = Target_infra])
      (simp_all add: serve_target(4) step_def seg assms(2) ids dist mem)
  moreover have "same_besides d (fold step us d)" if "set us \<subseteq> set ts" for us
    using that
  proof (induction us rule: rev_induct)
    case (snoc t us)
    have "same_besides (fold step us d) (step t (fold step us d))"
      unfolding step_def using snoc.prems by (intro serve_target_besides seg assms(2)) simp
    then show ?case using snoc same_besides_trans by simp
  qed (simp add: same_besides_def)
  then have "fold step ts d = d\<lparr>db_agents := db_agents (fold step ts d), db_monitors := db_monitors (fold step ts d),
      db_observed := db_observed (fold step ts d), db_infrastructure := db_infrastructure (fold step ts d)\<rparr>"
    unfolding same_besides_def by blast
  ultimately show ?thesis unfolding run added by simp
qed

definition demo_selection :: add_dialog where
  "demo_selection = toggle_target ''monitor-uptime_mock_store'' True add_mounted"

lemma add_targets_exact_witness:
  "db_monitors (serve_targets demo_fx demo_ctx
      (snd (add_submit ''p9'' (assignableTargets (db_sources demo_db)) demo_selection)) demo_db)
    = map (\<lambda>x. if targetKey (Target_monitor x) \<in> ad_selected demo_selection then x\<lparr>um_projectId := Some ''p9''\<rparr> else x) (db_monitors demo_db)"
  by (subst add_targets_exact)
    (simp_all, simp_all add: demo_db_def demo_monitor_def demo_agent_def demo_observed_def demo_resource_def
      is_segment_def assignableTargets_def db_sources_def)

text \<open>Taking a target out of its group leaves it without one and changes no other target.\<close>

theorem removal_exact:
  fixes fx :: fixtures and c :: ctx and d :: db
  assumes "ids_ok d" "t \<in> set (assignableTargets (db_sources d))" "is_segment (target_id t)"
    and "target_project t = Some q" "is_segment q"
  shows "fst (serve fx c (setTargetGroup t None) d) =
    d\<lparr>db_agents := map (\<lambda>x. if t = Target_agent x then x\<lparr>ag_projectId := None\<rparr> else x) (db_agents d),
      db_monitors := map (\<lambda>x. if t = Target_monitor x then x\<lparr>um_projectId := None\<rparr> else x) (db_monitors d),
      db_observed := map (\<lambda>x. if t = Target_direct x then x\<lparr>os_projectId := None, os_updatedAt := now_iso c\<rparr> else x) (db_observed d),
      db_infrastructure := map (\<lambda>x. if t = Target_infra x then x\<lparr>ir_projectId := None, ir_updatedAt := now_iso c\<rparr> else x) (db_infrastructure d)\<rparr>"
proof -
  have ids: "distinct (map ag_id (db_agents d))" "distinct (map um_id (db_monitors d))" "distinct (map os_id (db_observed d))"
    "distinct (map ir_id (db_infrastructure d))"
    using assms(1) by (simp_all add: ids_ok_def)
  note at = update_first_at [OF ids(1)] update_first_at [OF ids(2)] update_first_at [OF ids(3)] update_first_at [OF ids(4)]
  have j: "assign_observed c (observed_service_input_json \<lparr>osi_name = os_name s, osi_projectId = None, osi_signals = os_signals s\<rparr>)
      = (\<lambda>x. x\<lparr>os_name := os_name s, os_projectId := None, os_signals := os_signals s, os_updatedAt := now_iso c\<rparr>)" for s
    by (simp add: fun_eq_iff assign_observed_def observed_service_input_json_def get_signals_def get_strings_def comp_def nonempty_def)
  have r: "assign_resource c (infrastructure_resource_input_json \<lparr>iri_name = ir_name x, iri_projectId = None\<rparr>)
      = (\<lambda>y. y\<lparr>ir_name := ir_name x, ir_projectId := None, ir_updatedAt := now_iso c\<rparr>)" for x
    by (simp add: fun_eq_iff assign_resource_def infrastructure_resource_input_json_def nonempty_def)
  show ?thesis
  proof (cases t)
    case (Target_agent a)
    then have "a \<in> set (db_agents d)" using assms(2) by (auto simp: assignableTargets_def db_sources_def)
    then show ?thesis using assms(3-5) Target_agent
      by (simp add: serve_rules assign_member_def at(1) eq_commute [of a] cong: if_cong)
  next
    case (Target_monitor m)
    then have "m \<in> set (db_monitors d)" using assms(2) by (auto simp: assignableTargets_def db_sources_def)
    then show ?thesis using assms(3-5) Target_monitor
      by (simp add: serve_rules assign_member_def at(2) eq_commute [of m] cong: if_cong)
  next
    case (Target_direct s)
    then have "s \<in> set (db_observed d)" using assms(2) by (auto simp: assignableTargets_def db_sources_def)
    then show ?thesis using assms(3-5) Target_direct
      by (simp add: serve_rules update_observed_def j at(3) eq_commute [of s] cong: if_cong)
  next
    case (Target_infra x)
    then have "x \<in> set (db_infrastructure d)" using assms(2) by (auto simp: assignableTargets_def db_sources_def)
    then show ?thesis using assms(3-5) Target_infra
      by (simp add: serve_rules update_resource_def r at(4) eq_commute [of x] cong: if_cong)
  qed
qed

section \<open>Loading a group\<close>

text \<open>A load that gives data gives the group asked for, with exactly its own targets.\<close>

lemma outcome_own:
  assumes "group_outcome i r = Go_data g failed"
  shows "gp_own g = sourcesForProject i (gp_all g)" "gp_project g = Some p \<Longrightarrow> pr_id p = i \<and> p \<in> set (gp_projects g)"
  using assms by (auto simp: group_outcome_def Let_def find_Some_iff split: sum.splits if_splits)

text \<open>The sources named as failed are exactly those whose read was rejected, and a rejected read of groups,
  or of agents where the group is not found, is an error, never an empty page.\<close>

theorem load_outcomes:
  "isl (gr_projects r) \<Longrightarrow> \<exists>m. group_outcome i r = Go_failed m"
  "group_outcome i r = Go_data g failed \<Longrightarrow> failed = failed_sources r \<and> (gp_project g = None \<longrightarrow> \<not> isl (gr_agents r))"
  "length (failed_sources r) = length (filter (\<lambda>b. b)
     [isl (gr_agents r), isl (gr_services r), isl (gr_monitors r), isl (gr_observed r), isl (gr_infrastructure r)])"
  by (cases "gr_projects r"; auto simp: group_outcome_def Let_def split: sum.splits if_splits)
    (auto simp: group_outcome_def Let_def failed_sources_def split: sum.splits if_splits)

text \<open>The answer for the group before can come last: the page then shows that group under the address of
  the other, with nothing in flight, and its delete button deletes it.\<close>

theorem late_group_shown:
  fixes rp rq :: group_results
  assumes "p \<noteq> q" "p \<noteq> []" "q \<noteq> []" "group_outcome p rp = Go_data g failed" "gp_project g = Some x"
  defines "s \<equiv> group_loaded p rp (group_loaded q rq (group_navigated q (group_mounted p)))"
  shows "gp_id s = q \<and> gp_loads s = [] \<and> \<not> gp_loading s \<and> gp_error s = None \<and> gp_project (gp_data s) = Some x \<and> page_deletes s = Some p"
proof -
  have "gp_id (group_loaded q rq (group_navigated q (group_mounted p))) = q"
    "gp_loads (group_loaded q rq (group_navigated q (group_mounted p))) = [p]"
    using assms(1-3) by (cases "group_outcome q rq"; simp add: group_loaded_def group_navigated_def group_mounted_def group_load_def Let_def)+
  moreover have "pr_id x = p" using outcome_own(2) [OF assms(4,5)] by simp
  ultimately show ?thesis using assms(4,5) by (simp add: s_def group_loaded_def [of p rp] page_deletes_def Let_def)
qed

text \<open>The counts of a group in the list are those of its own targets, its infrastructure without the
  Docker hosts' own.\<close>

theorem counts_of_group:
  "map snd (countsOf s p) =
    [length (filter (\<lambda>a. ag_projectId a = Some (pr_id p)) (src_agents (gl_sources s))),
     length (filter (\<lambda>m. um_projectId m = Some (pr_id p)) (src_monitors (gl_sources s))),
     length (filter (\<lambda>o'. os_projectId o' = Some (pr_id p)) (src_observedServices (gl_sources s))),
     length (filter (\<lambda>r. isDirectInfrastructure r \<and> ir_projectId r = Some (pr_id p)) (src_infrastructure (gl_sources s)))]"
  by (simp add: countsOf_def COUNTS_def assignableTargets_def sourcesForProject_def Let_def filter_map comp_def conj_commute)

end
