(* ===== verification/EU_Direct.thy ===== *)
theory EU_Direct imports EU_Answers EU_Setup EU_GroupPages
begin

text \<open>
  Directly connected targets: the pages \<open>pages/capabilities/DirectApiDetailPage.tsx\<close>,
  \<open>DirectMetricsDetailPage.tsx\<close>, \<open>DirectLogsDetailPage.tsx\<close> and \<open>DirectInfrastructureDetailPage.tsx\<close>
  of one target, which save its group, rotate or revoke its key and delete it.  The four pages have
  the same handlers; a \<open>target_page\<close> says what they differ in.  The first two guard their reads, the
  last two do not.
\<close>

section \<open>The page of one target\<close>

datatype confirm_action = Do_rotate | Do_revoke | Do_delete

text \<open>What the pages differ in: the row and the setup a rotation gives, why a row is refused, the
  requests, the texts and the list a deletion leads to.\<close>

record ('r, 'k) target_page =
  tp_id :: "'r \<Rightarrow> string"
  tp_project :: "'r \<Rightarrow> string option"
  tp_row :: "'k \<Rightarrow> 'r"
  tp_refuses :: "'r \<Rightarrow> string option"
  tp_save :: "'r \<Rightarrow> string option \<Rightarrow> 'r api_call"
  tp_rotate :: "string \<Rightarrow> 'k api_call"
  tp_revoke :: "string \<Rightarrow> 'r api_call"
  tp_delete :: "string \<Rightarrow> unit api_call"
  tp_revoked :: string
  tp_deleted :: string
  tp_list :: string

record ('r, 'k) direct_page =
  dr_id :: string
  dr_item :: "'r option"
  dr_projects :: "project list"
  dr_projectId :: string
  dr_loading :: bool
  dr_error :: "string option"
  dr_saving :: bool
  dr_projectsLoading :: bool
  dr_projectsError :: "string option"
  dr_confirm :: "confirm_action option"
  dr_processing :: bool
  dr_rotated :: "'k option"
  dr_toasts :: "string list"
  dr_address :: "string option"
  dr_run :: nat
  dr_reads :: "(nat \<times> string) list"
  dr_projectsRun :: nat
  dr_projectReads :: "nat list"
  dr_saves :: "string list"
  dr_actions :: "(confirm_action \<times> string) list"

text \<open>The two effects of a guarded page and what their answers do; \<open>active\<close> is the run.\<close>

definition target_effect :: "('r, 'k) direct_page \<Rightarrow> ('r, 'k) direct_page" where
  "target_effect s =
     s\<lparr>dr_run := Suc (dr_run s), dr_loading := True, dr_error := None, dr_reads := dr_reads s @ [(Suc (dr_run s), dr_id s)]\<rparr>"

definition target_loaded ::
  "('r, 'k) target_page \<Rightarrow> nat \<times> string \<Rightarrow> thrown + 'r \<Rightarrow> ('r, 'k) direct_page \<Rightarrow> ('r, 'k) direct_page" where
  "target_loaded K q r s =
     (let s = s\<lparr>dr_reads := remove1 q (dr_reads s)\<rparr> in
      if fst q \<noteq> dr_run s then s
      else (case r of
          Inr row \<Rightarrow>
            (case tp_refuses K row of
               Some m \<Rightarrow> s\<lparr>dr_error := Some m, dr_loading := False\<rparr>
             | None \<Rightarrow> s\<lparr>dr_item := Some row, dr_projectId := or_default (tp_project K row) [], dr_loading := False\<rparr>)
        | Inl e \<Rightarrow> s\<lparr>dr_error := Some (getErrorMessage e), dr_loading := False\<rparr>))"

definition projects_effect :: "('r, 'k) direct_page \<Rightarrow> ('r, 'k) direct_page" where
  "projects_effect s =
     s\<lparr>dr_projectsRun := Suc (dr_projectsRun s), dr_projectsLoading := True, dr_projectsError := None,
       dr_projectReads := dr_projectReads s @ [Suc (dr_projectsRun s)]\<rparr>"

definition projects_loaded :: "nat \<Rightarrow> thrown + project list \<Rightarrow> ('r, 'k) direct_page \<Rightarrow> ('r, 'k) direct_page" where
  "projects_loaded n r s =
     (let s = s\<lparr>dr_projectReads := remove1 n (dr_projectReads s)\<rparr> in
      if n \<noteq> dr_projectsRun s then s
      else (case r of
          Inr rows \<Rightarrow> s\<lparr>dr_projects := rows, dr_projectsLoading := False\<rparr>
        | Inl e \<Rightarrow> s\<lparr>dr_projectsError := Some (getErrorMessage e), dr_projectsLoading := False\<rparr>))"

text \<open>An unguarded page reads the target and the groups together and stores whatever answers.\<close>

definition both_load :: "('r, 'k) direct_page \<Rightarrow> ('r, 'k) direct_page" where
  "both_load s = s\<lparr>dr_loading := True, dr_error := None, dr_reads := dr_reads s @ [(0, dr_id s)]\<rparr>"

definition both_loaded ::
  "('r, 'k) target_page \<Rightarrow> nat \<times> string \<Rightarrow> thrown + 'r \<times> project list \<Rightarrow> ('r, 'k) direct_page \<Rightarrow> ('r, 'k) direct_page" where
  "both_loaded K q r s =
     (let s = s\<lparr>dr_reads := remove1 q (dr_reads s), dr_loading := False\<rparr> in
      case r of
        Inr (row, rows) \<Rightarrow>
          (case tp_refuses K row of
             Some m \<Rightarrow> s\<lparr>dr_error := Some m\<rparr>
           | None \<Rightarrow> s\<lparr>dr_item := Some row, dr_projectId := or_default (tp_project K row) [], dr_projects := rows\<rparr>)
      | Inl e \<Rightarrow> s\<lparr>dr_error := Some (getErrorMessage e)\<rparr>)"

definition page_blank :: "string \<Rightarrow> ('r, 'k) direct_page" where
  "page_blank i =
     \<lparr>dr_id = i, dr_item = None, dr_projects = [], dr_projectId = [], dr_loading = True, dr_error = None, dr_saving = False,
      dr_projectsLoading = True, dr_projectsError = None, dr_confirm = None, dr_processing = False, dr_rotated = None,
      dr_toasts = [], dr_address = None, dr_run = 0, dr_reads = [], dr_projectsRun = 0, dr_projectReads = [],
      dr_saves = [], dr_actions = []\<rparr>"

definition guarded_mounted :: "string \<Rightarrow> ('r, 'k) direct_page" where
  "guarded_mounted i = projects_effect (target_effect (page_blank i))"

definition guarded_navigate :: "string \<Rightarrow> ('r, 'k) direct_page \<Rightarrow> ('r, 'k) direct_page" where
  "guarded_navigate i s = (if i = dr_id s then s else projects_effect (target_effect (s\<lparr>dr_id := i\<rparr>)))"

definition late_mounted :: "string \<Rightarrow> ('r, 'k) direct_page" where
  "late_mounted i = both_load (page_blank i)"

definition late_navigate :: "string \<Rightarrow> ('r, 'k) direct_page \<Rightarrow> ('r, 'k) direct_page" where
  "late_navigate i s = (if i = dr_id s then s else both_load (s\<lparr>dr_id := i\<rparr>))"

text \<open>Saving the group and the confirmed actions; both act on the target shown when they are clicked.\<close>

definition save_group ::
  "('r, 'k) target_page \<Rightarrow> ('r, 'k) direct_page \<Rightarrow> ('r, 'k) direct_page \<times> 'r api_call option" where
  "save_group K s =
     (case dr_item s of
        None \<Rightarrow> (s, None)
      | Some row \<Rightarrow> (s\<lparr>dr_saving := True, dr_saves := dr_saves s @ [tp_id K row]\<rparr>, Some (tp_save K row (nonempty (Some (dr_projectId s))))))"

definition project_saved :: "string \<Rightarrow> thrown + 'r \<Rightarrow> ('r, 'k) direct_page \<Rightarrow> ('r, 'k) direct_page" where
  "project_saved i r s =
     (let s = s\<lparr>dr_saves := remove1 i (dr_saves s), dr_saving := False\<rparr> in
      case r of
        Inr row \<Rightarrow> s\<lparr>dr_item := Some row, dr_toasts := dr_toasts s @ [([CHR 0xEA, CHR 0xB7, CHR 0xB8, CHR 0xEB, CHR 0xA3, CHR 0xB9] @ '' '' @ [CHR 0xEB, CHR 0xB0, CHR 0xB0, CHR 0xEC, CHR 0xA0, CHR 0x95, CHR 0xEC, CHR 0x9D, CHR 0x84] @ '' '' @ [CHR 0xEC, CHR 0xA0, CHR 0x80, CHR 0xEC, CHR 0x9E, CHR 0xA5, CHR 0xED, CHR 0x96, CHR 0x88, CHR 0xEC, CHR 0x8A, CHR 0xB5, CHR 0xEB, CHR 0x8B, CHR 0x88, CHR 0xEB, CHR 0x8B, CHR 0xA4] @ ''.'')]\<rparr>
      | Inl e \<Rightarrow> s\<lparr>dr_toasts := dr_toasts s @ [getErrorMessage e]\<rparr>)"

datatype ('r, 'k) action_request = Ask_rotate "'k api_call" | Ask_revoke "'r api_call" | Ask_delete "unit api_call"

definition runConfirmedAction ::
  "('r, 'k) target_page \<Rightarrow> ('r, 'k) direct_page \<Rightarrow> ('r, 'k) direct_page \<times> ('r, 'k) action_request option" where
  "runConfirmedAction K s =
     (case (dr_item s, dr_confirm s) of
        (Some row, Some a) \<Rightarrow>
          (s\<lparr>dr_processing := True, dr_actions := dr_actions s @ [(a, tp_id K row)]\<rparr>,
           Some (case a of Do_rotate \<Rightarrow> Ask_rotate (tp_rotate K (tp_id K row)) | Do_revoke \<Rightarrow> Ask_revoke (tp_revoke K (tp_id K row))
                 | Do_delete \<Rightarrow> Ask_delete (tp_delete K (tp_id K row))))
      | _ \<Rightarrow> (s, None))"

datatype ('r, 'k) action_answer = Was_rotated 'k | Was_revoked 'r | Was_deleted

definition action_done ::
  "('r, 'k) target_page \<Rightarrow> confirm_action \<times> string \<Rightarrow> thrown + ('r, 'k) action_answer \<Rightarrow> ('r, 'k) direct_page \<Rightarrow> ('r, 'k) direct_page" where
  "action_done K q r s =
     (let s = s\<lparr>dr_actions := remove1 q (dr_actions s), dr_processing := False\<rparr> in
      case r of
        Inr (Was_rotated k) \<Rightarrow> s\<lparr>dr_item := Some (tp_row K k), dr_rotated := Some k, dr_confirm := None\<rparr>
      | Inr (Was_revoked row) \<Rightarrow> s\<lparr>dr_item := Some row, dr_toasts := dr_toasts s @ [tp_revoked K], dr_confirm := None\<rparr>
      | Inr Was_deleted \<Rightarrow>
          s\<lparr>dr_toasts := dr_toasts s @ [tp_deleted K], dr_address := Some (tp_list K), dr_confirm := None\<rparr>
      | Inl e \<Rightarrow> s\<lparr>dr_toasts := dr_toasts s @ [getErrorMessage e]\<rparr>)"

datatype 'r target_view = Tv_skeleton | Tv_failed "string option" | Tv_target 'r

definition direct_view :: "('r, 'k) direct_page \<Rightarrow> 'r target_view" where
  "direct_view s =
     (if dr_loading s then Tv_skeleton
      else if truthy (dr_error s) then Tv_failed (dr_error s)
      else case dr_item s of None \<Rightarrow> Tv_failed (dr_error s) | Some row \<Rightarrow> Tv_target row)"

section \<open>The four pages\<close>

definition observed_page :: "telemetry_signal \<Rightarrow> string \<Rightarrow> string \<Rightarrow> string \<Rightarrow> (observed_service, observed_service_setup) target_page" where
  "observed_page sig missing deleted_text to_list =
     \<lparr>tp_id = os_id, tp_project = os_projectId, tp_row = observed_service.truncate,
      tp_refuses = (\<lambda>s. if sig \<in> set (os_signals s) then None else Some missing),
      tp_save = (\<lambda>s p. updateObservedService (os_id s) \<lparr>osi_name = os_name s, osi_projectId = p, osi_signals = os_signals s\<rparr>),
      tp_rotate = rotateObservedServiceKey, tp_revoke = revokeObservedServiceKey, tp_delete = deleteObservedService,
      tp_revoked = ([CHR 0xEC, CHR 0xA7, CHR 0x81, CHR 0xEC, CHR 0xA0, CHR 0x91] @ '' '' @ [CHR 0xEC, CHR 0x88, CHR 0x98, CHR 0xEC, CHR 0xA7, CHR 0x91] @ '' '' @ [CHR 0xEC, CHR 0x97, CHR 0xB0, CHR 0xEA, CHR 0xB2, CHR 0xB0, CHR 0xEC, CHR 0x9D, CHR 0x84] @ '' '' @ [CHR 0xEC, CHR 0xA4, CHR 0x91, CHR 0xEC, CHR 0xA7, CHR 0x80, CHR 0xED, CHR 0x96, CHR 0x88, CHR 0xEC, CHR 0x8A, CHR 0xB5, CHR 0xEB, CHR 0x8B, CHR 0x88, CHR 0xEB, CHR 0x8B, CHR 0xA4] @ ''.''), tp_deleted = deleted_text, tp_list = to_list\<rparr>"

definition API_PAGE :: "(observed_service, observed_service_setup) target_page" where
  "API_PAGE = observed_page Sig_traces ([CHR 0xEC, CHR 0x9D, CHR 0xB4] @ '' '' @ [CHR 0xEC, CHR 0x84, CHR 0x9C, CHR 0xEB, CHR 0xB9, CHR 0x84, CHR 0xEC, CHR 0x8A, CHR 0xA4, CHR 0xEC, CHR 0x97, CHR 0x90, CHR 0xEB, CHR 0x8A, CHR 0x94] @ '' API '' @ [CHR 0xEA, CHR 0xB8, CHR 0xB0, CHR 0xEB, CHR 0x8A, CHR 0xA5, CHR 0xEC, CHR 0x9D, CHR 0xB4] @ '' '' @ [CHR 0xEC, CHR 0x97, CHR 0xB0, CHR 0xEA, CHR 0xB2, CHR 0xB0, CHR 0xEB, CHR 0x90, CHR 0x98, CHR 0xEC, CHR 0x96, CHR 0xB4] @ '' '' @ [CHR 0xEC, CHR 0x9E, CHR 0x88, CHR 0xEC, CHR 0xA7, CHR 0x80] @ '' '' @ [CHR 0xEC, CHR 0x95, CHR 0x8A, CHR 0xEC, CHR 0x8A, CHR 0xB5, CHR 0xEB, CHR 0x8B, CHR 0x88, CHR 0xEB, CHR 0x8B, CHR 0xA4] @ ''.'') ([CHR 0xEC, CHR 0xA7, CHR 0x81, CHR 0xEC, CHR 0xA0, CHR 0x91] @ '' API '' @ [CHR 0xEC, CHR 0x84, CHR 0x9C, CHR 0xEB, CHR 0xB9, CHR 0x84, CHR 0xEC, CHR 0x8A, CHR 0xA4, CHR 0xEB, CHR 0xA5, CHR 0xBC] @ '' '' @ [CHR 0xEC, CHR 0x82, CHR 0xAD, CHR 0xEC, CHR 0xA0, CHR 0x9C, CHR 0xED, CHR 0x96, CHR 0x88, CHR 0xEC, CHR 0x8A, CHR 0xB5, CHR 0xEB, CHR 0x8B, CHR 0x88, CHR 0xEB, CHR 0x8B, CHR 0xA4] @ ''.'') ''/api''"

definition METRICS_PAGE :: "(observed_service, observed_service_setup) target_page" where
  "METRICS_PAGE = observed_page Sig_metrics ([CHR 0xEC, CHR 0x9D, CHR 0xB4] @ '' '' @ [CHR 0xEC, CHR 0x84, CHR 0x9C, CHR 0xEB, CHR 0xB9, CHR 0x84, CHR 0xEC, CHR 0x8A, CHR 0xA4, CHR 0xEC, CHR 0x97, CHR 0x90, CHR 0xEB, CHR 0x8A, CHR 0x94] @ '' Metrics '' @ [CHR 0xEA, CHR 0xB8, CHR 0xB0, CHR 0xEB, CHR 0x8A, CHR 0xA5, CHR 0xEC, CHR 0x9D, CHR 0xB4] @ '' '' @ [CHR 0xEC, CHR 0x97, CHR 0xB0, CHR 0xEA, CHR 0xB2, CHR 0xB0, CHR 0xEB, CHR 0x90, CHR 0x98, CHR 0xEC, CHR 0x96, CHR 0xB4] @ '' '' @ [CHR 0xEC, CHR 0x9E, CHR 0x88, CHR 0xEC, CHR 0xA7, CHR 0x80] @ '' '' @ [CHR 0xEC, CHR 0x95, CHR 0x8A, CHR 0xEC, CHR 0x8A, CHR 0xB5, CHR 0xEB, CHR 0x8B, CHR 0x88, CHR 0xEB, CHR 0x8B, CHR 0xA4] @ ''.'') ([CHR 0xEC, CHR 0xA7, CHR 0x81, CHR 0xEC, CHR 0xA0, CHR 0x91] @ '' Metrics '' @ [CHR 0xEC, CHR 0x84, CHR 0x9C, CHR 0xEB, CHR 0xB9, CHR 0x84, CHR 0xEC, CHR 0x8A, CHR 0xA4, CHR 0xEB, CHR 0xA5, CHR 0xBC] @ '' '' @ [CHR 0xEC, CHR 0x82, CHR 0xAD, CHR 0xEC, CHR 0xA0, CHR 0x9C, CHR 0xED, CHR 0x96, CHR 0x88, CHR 0xEC, CHR 0x8A, CHR 0xB5, CHR 0xEB, CHR 0x8B, CHR 0x88, CHR 0xEB, CHR 0x8B, CHR 0xA4] @ ''.'') ''/metrics''"

definition LOGS_PAGE :: "(observed_service, observed_service_setup) target_page" where
  "LOGS_PAGE = observed_page Sig_logs ([CHR 0xEC, CHR 0x9D, CHR 0xB4] @ '' '' @ [CHR 0xEC, CHR 0x84, CHR 0x9C, CHR 0xEB, CHR 0xB9, CHR 0x84, CHR 0xEC, CHR 0x8A, CHR 0xA4, CHR 0xEC, CHR 0x97, CHR 0x90, CHR 0xEB, CHR 0x8A, CHR 0x94] @ '' Logs '' @ [CHR 0xEA, CHR 0xB8, CHR 0xB0, CHR 0xEB, CHR 0x8A, CHR 0xA5, CHR 0xEC, CHR 0x9D, CHR 0xB4] @ '' '' @ [CHR 0xEC, CHR 0x97, CHR 0xB0, CHR 0xEA, CHR 0xB2, CHR 0xB0, CHR 0xEB, CHR 0x90, CHR 0x98, CHR 0xEC, CHR 0x96, CHR 0xB4] @ '' '' @ [CHR 0xEC, CHR 0x9E, CHR 0x88, CHR 0xEC, CHR 0xA7, CHR 0x80] @ '' '' @ [CHR 0xEC, CHR 0x95, CHR 0x8A, CHR 0xEC, CHR 0x8A, CHR 0xB5, CHR 0xEB, CHR 0x8B, CHR 0x88, CHR 0xEB, CHR 0x8B, CHR 0xA4] @ ''.'') ([CHR 0xEC, CHR 0xA7, CHR 0x81, CHR 0xEC, CHR 0xA0, CHR 0x91] @ '' '' @ [CHR 0xEB, CHR 0xA1, CHR 0x9C, CHR 0xEA, CHR 0xB7, CHR 0xB8] @ '' '' @ [CHR 0xEC, CHR 0x84, CHR 0x9C, CHR 0xEB, CHR 0xB9, CHR 0x84, CHR 0xEC, CHR 0x8A, CHR 0xA4, CHR 0xEB, CHR 0xA5, CHR 0xBC] @ '' '' @ [CHR 0xEC, CHR 0x82, CHR 0xAD, CHR 0xEC, CHR 0xA0, CHR 0x9C, CHR 0xED, CHR 0x96, CHR 0x88, CHR 0xEC, CHR 0x8A, CHR 0xB5, CHR 0xEB, CHR 0x8B, CHR 0x88, CHR 0xEB, CHR 0x8B, CHR 0xA4] @ ''.'') ''/logs''"

definition INFRA_PAGE :: "(infrastructure_resource, infrastructure_resource_setup) target_page" where
  "INFRA_PAGE =
     \<lparr>tp_id = ir_id, tp_project = ir_projectId, tp_row = infrastructure_resource.truncate, tp_refuses = (\<lambda>_. None),
      tp_save = (\<lambda>r p. updateInfrastructureResource (ir_id r) \<lparr>iri_name = ir_name r, iri_projectId = p\<rparr>),
      tp_rotate = rotateInfrastructureResourceKey, tp_revoke = revokeInfrastructureResourceKey,
      tp_delete = deleteInfrastructureResource,
      tp_revoked = (''Collector '' @ [CHR 0xEC, CHR 0x97, CHR 0xB0, CHR 0xEA, CHR 0xB2, CHR 0xB0, CHR 0xEC, CHR 0x9D, CHR 0x84] @ '' '' @ [CHR 0xEC, CHR 0xA4, CHR 0x91, CHR 0xEC, CHR 0xA7, CHR 0x80, CHR 0xED, CHR 0x96, CHR 0x88, CHR 0xEC, CHR 0x8A, CHR 0xB5, CHR 0xEB, CHR 0x8B, CHR 0x88, CHR 0xEB, CHR 0x8B, CHR 0xA4] @ ''.''), tp_deleted = ([CHR 0xEC, CHR 0x9D, CHR 0xB8, CHR 0xED, CHR 0x94, CHR 0x84, CHR 0xEB, CHR 0x9D, CHR 0xBC] @ '' '' @ [CHR 0xEB, CHR 0xA6, CHR 0xAC, CHR 0xEC, CHR 0x86, CHR 0x8C, CHR 0xEC, CHR 0x8A, CHR 0xA4, CHR 0xEB, CHR 0xA5, CHR 0xBC] @ '' '' @ [CHR 0xEC, CHR 0x82, CHR 0xAD, CHR 0xEC, CHR 0xA0, CHR 0x9C, CHR 0xED, CHR 0x96, CHR 0x88, CHR 0xEC, CHR 0x8A, CHR 0xB5, CHR 0xEB, CHR 0x8B, CHR 0x88, CHR 0xEB, CHR 0x8B, CHR 0xA4] @ ''.''), tp_list = ''/infrastructure''\<rparr>"

text \<open>
  The handlers of a page in any order; an answer fits the id it was asked for, and an
  error has a message.  \<open>go\<close> is the address changing; the buttons are there when the target is.
\<close>

inductive page_step ::
  "('r, 'k) target_page \<Rightarrow> (string \<Rightarrow> ('r, 'k) direct_page \<Rightarrow> ('r, 'k) direct_page)
   \<Rightarrow> ('r, 'k) direct_page \<Rightarrow> ('r, 'k) direct_page \<Rightarrow> bool" for K go where
  navigate: "page_step K go s (go i s)"
| choose: "direct_view s = Tv_target row \<Longrightarrow> page_step K go s (s\<lparr>dr_projectId := p\<rparr>)"
| save: "direct_view s = Tv_target row \<Longrightarrow> page_step K go s (fst (save_group K s))"
| saved: "i \<in> set (dr_saves s) \<Longrightarrow> (\<And>row. r = Inr row \<Longrightarrow> tp_id K row = i) \<Longrightarrow> page_step K go s (project_saved i r s)"
| ask: "direct_view s = Tv_target row \<Longrightarrow> page_step K go s (s\<lparr>dr_confirm := a\<rparr>)"
| confirm: "direct_view s = Tv_target row \<Longrightarrow> page_step K go s (fst (runConfirmedAction K s))"
| acted: "q \<in> set (dr_actions s) \<Longrightarrow> (\<And>k. r = Inr (Was_rotated k) \<Longrightarrow> tp_id K (tp_row K k) = snd q)
    \<Longrightarrow> (\<And>row. r = Inr (Was_revoked row) \<Longrightarrow> tp_id K row = snd q) \<Longrightarrow> page_step K go s (action_done K q r s)"
| close_key: "page_step K go s (s\<lparr>dr_rotated := None\<rparr>)"

inductive guarded_step ::
  "('r, 'k) target_page \<Rightarrow> ('r, 'k) direct_page \<Rightarrow> ('r, 'k) direct_page \<Rightarrow> bool" for K where
  handler: "page_step K guarded_navigate s s' \<Longrightarrow> guarded_step K s s'"
| loaded: "q \<in> set (dr_reads s) \<Longrightarrow> (\<And>row. r = Inr row \<Longrightarrow> tp_id K row = snd q)
    \<Longrightarrow> (\<And>e. r = Inl e \<Longrightarrow> getErrorMessage e \<noteq> []) \<Longrightarrow> guarded_step K s (target_loaded K q r s)"
| groups: "n \<in> set (dr_projectReads s) \<Longrightarrow> guarded_step K s (projects_loaded n r s)"
| retry: "guarded_step K s (projects_effect s)"

inductive late_step ::
  "('r, 'k) target_page \<Rightarrow> ('r, 'k) direct_page \<Rightarrow> ('r, 'k) direct_page \<Rightarrow> bool" for K where
  handler: "page_step K late_navigate s s' \<Longrightarrow> late_step K s s'"
| loaded: "q \<in> set (dr_reads s) \<Longrightarrow> (\<And>row rows. r = Inr (row, rows) \<Longrightarrow> tp_id K row = snd q)
    \<Longrightarrow> (\<And>e. r = Inl e \<Longrightarrow> getErrorMessage e \<noteq> []) \<Longrightarrow> late_step K s (both_loaded K q r s)"

text \<open>The API page also takes the excluded paths its settings panel has saved.\<close>

definition exclusions_saved ::
  "string list \<Rightarrow> (observed_service, observed_service_setup) direct_page \<Rightarrow> (observed_service, observed_service_setup) direct_page" where
  "exclusions_saved paths s = s\<lparr>dr_item := map_option (\<lambda>row. row\<lparr>os_apiExcludePaths := Some paths\<rparr>) (dr_item s)\<rparr>"

inductive api_page_step ::
  "(observed_service, observed_service_setup) direct_page \<Rightarrow> (observed_service, observed_service_setup) direct_page \<Rightarrow> bool" where
  page: "guarded_step API_PAGE s s' \<Longrightarrow> api_page_step s s'"
| exclusions: "direct_view s = Tv_target row \<Longrightarrow> api_page_step s (exclusions_saved paths s)"

definition metrics_page_step where "metrics_page_step = guarded_step METRICS_PAGE"

definition logs_page_step where "logs_page_step = late_step LOGS_PAGE"

definition infra_page_step where "infra_page_step = late_step INFRA_PAGE"

section \<open>What is shown is the target of the address\<close>

text \<open>As long as the address does not change while a write is in flight.\<close>

definition calm_step :: "('r, 'k) target_page \<Rightarrow> ('r, 'k) direct_page \<Rightarrow> ('r, 'k) direct_page \<Rightarrow> bool" where
  "calm_step K s s' \<longleftrightarrow> guarded_step K s s' \<and> (dr_id s' \<noteq> dr_id s \<longrightarrow> dr_saves s = [] \<and> dr_actions s = [])"

definition shown_target :: "('r, 'k) direct_page \<Rightarrow> 'r option" where
  "shown_target s = (case direct_view s of Tv_target row \<Rightarrow> Some row | _ \<Rightarrow> None)"

definition page_good :: "('r, 'k) target_page \<Rightarrow> ('r, 'k) direct_page \<Rightarrow> bool" where
  "page_good K s \<longleftrightarrow>
     (\<forall>row. tp_refuses K row \<noteq> Some [])
     \<and> list_all (\<lambda>q. fst q \<le> dr_run s \<and> (fst q = dr_run s \<longrightarrow> snd q = dr_id s)) (dr_reads s)
     \<and> list_all (\<lambda>i. i = dr_id s) (dr_saves s) \<and> list_all (\<lambda>q. snd q = dr_id s) (dr_actions s)
     \<and> (dr_loading s \<or> truthy (dr_error s) \<or> pred_option (\<lambda>row. tp_id K row = dr_id s) (dr_item s))"

lemma view_target: "direct_view s = Tv_target row \<longleftrightarrow> \<not> dr_loading s \<and> \<not> truthy (dr_error s) \<and> dr_item s = Some row"
  by (auto simp: direct_view_def split: option.splits)

lemma all_remove1: "list_all P xs \<Longrightarrow> list_all P (remove1 x xs)"
  by (auto simp: list_all_iff dest: notin_set_remove1)

lemma page_good_handler:
  assumes "page_good K s" "page_step K guarded_navigate s s'" "dr_id s' \<noteq> dr_id s \<longrightarrow> dr_saves s = [] \<and> dr_actions s = []"
  shows "page_good K s'"
  using assms(2)
proof cases
  case (navigate i)
  show ?thesis
  proof (cases "i = dr_id s")
    case True
    then show ?thesis using navigate assms(1) by (simp add: guarded_navigate_def)
  next
    case False
    then have "dr_saves s = []" "dr_actions s = []"
      using navigate assms(3) by (simp_all add: guarded_navigate_def projects_effect_def target_effect_def)
    then show ?thesis using navigate False assms(1)
      by (simp add: page_good_def guarded_navigate_def projects_effect_def target_effect_def list_all_iff le_Suc_eq)
        (metis Suc_n_not_le_n)
  qed
next
  case (save row)
  then show ?thesis using assms(1) by (simp add: page_good_def save_group_def view_target)
next
  case (saved i r)
  then have "i = dr_id s" using assms(1) by (simp add: page_good_def list_all_iff)
  with saved show ?thesis using assms(1)
    by (cases r) (simp_all add: page_good_def project_saved_def Let_def all_remove1)
next
  case (confirm row)
  then show ?thesis using assms(1) by (cases "dr_confirm s") (simp_all add: page_good_def runConfirmedAction_def view_target)
next
  case (acted q r)
  then have q: "snd q = dr_id s" using assms(1) by (simp add: page_good_def list_all_iff)
  show ?thesis
  proof (cases r)
    case (Inl e)
    then show ?thesis using acted assms(1) by (simp add: page_good_def action_done_def Let_def all_remove1)
  next
    case (Inr a)
    then show ?thesis using acted q assms(1)
      by (cases a) (simp_all add: page_good_def action_done_def Let_def all_remove1)
  qed
qed (use assms(1) in \<open>simp_all add: page_good_def\<close>)

lemma page_good_step:
  assumes "page_good K s" "calm_step K s s'"
  shows "page_good K s'"
proof -
  have "guarded_step K s s'" using assms(2) by (simp add: calm_step_def)
  then show ?thesis
  proof cases
    case handler
    then show ?thesis using page_good_handler [OF assms(1)] assms(2) by (simp add: calm_step_def)
  next
    case (loaded q r)
    have q: "fst q = dr_run s \<Longrightarrow> snd q = dr_id s" using assms(1) loaded(2) by (simp add: page_good_def list_all_iff)
    show ?thesis
    proof (cases r)
      case (Inl e)
      then show ?thesis using loaded assms(1) by (simp add: page_good_def target_loaded_def Let_def all_remove1)
    next
      case (Inr row)
      then show ?thesis using loaded assms(1) q
        by (cases "tp_refuses K row") (simp_all add: page_good_def target_loaded_def Let_def all_remove1, metis)
    qed
  next
    case (groups n r)
    then show ?thesis using assms(1) by (cases r) (simp_all add: page_good_def projects_loaded_def Let_def)
  next
    case retry
    then show ?thesis using assms(1) by (simp add: page_good_def projects_effect_def)
  qed
qed

interpretation direct: answers "\<lambda>i row. tp_id K row = i" "calm_step K" dr_id shown_target "page_good K"
  for K :: "('r, 'k) target_page"
proof unfold_locales
  show "page_good K s \<Longrightarrow> shown_target s = Some row \<Longrightarrow> tp_id K row = dr_id s" for s row
    by (auto simp: page_good_def shown_target_def view_target split: target_view.splits)
qed (rule page_good_step)

lemma good_mounted: "\<forall>row. tp_refuses K row \<noteq> Some [] \<Longrightarrow> page_good K (guarded_mounted i)"
  by (simp add: page_good_def guarded_mounted_def page_blank_def projects_effect_def target_effect_def)

lemma refusals: "tp_refuses API_PAGE row \<noteq> Some []" "tp_refuses METRICS_PAGE row \<noteq> Some []"
  by (simp_all add: API_PAGE_def METRICS_PAGE_def observed_page_def)

theorem metrics_page_current:
  assumes "(calm_step METRICS_PAGE)\<^sup>*\<^sup>* (guarded_mounted i) s" "direct_view s = Tv_target row"
  shows "os_id row = dr_id s"
proof -
  have "page_good METRICS_PAGE (guarded_mounted i)" using refusals by (intro good_mounted) auto
  then have "tp_id METRICS_PAGE row = dr_id s"
    using direct.reach_shown [OF assms(1)] assms(2) by (simp add: shown_target_def)
  then show ?thesis by (simp add: METRICS_PAGE_def observed_page_def)
qed

lemma api_page_id: "tp_id API_PAGE = os_id"
  by (simp add: API_PAGE_def observed_page_def)

definition calm_api_step where
  "calm_api_step s s' \<longleftrightarrow> api_page_step s s' \<and> (dr_id s' \<noteq> dr_id s \<longrightarrow> dr_saves s = [] \<and> dr_actions s = [])"

lemma api_good_step:
  assumes "page_good API_PAGE s" "calm_api_step s s'"
  shows "page_good API_PAGE s'"
proof -
  have "api_page_step s s'" using assms(2) by (simp add: calm_api_step_def)
  then show ?thesis
  proof cases
    case page
    then show ?thesis using page_good_step [OF assms(1)] assms(2) by (simp add: calm_step_def calm_api_step_def)
  next
    case (exclusions row paths)
    then show ?thesis using assms(1)
      by (simp add: page_good_def exclusions_saved_def view_target API_PAGE_def observed_page_def)
  qed
qed

interpretation api_page: answers "\<lambda>i row. os_id row = i" calm_api_step dr_id shown_target "page_good API_PAGE"
proof unfold_locales
  show "page_good API_PAGE s \<Longrightarrow> shown_target s = Some row \<Longrightarrow> os_id row = dr_id s" for s row
    using direct.good_shown [of API_PAGE s row] by (simp only: api_page_id)
qed (rule api_good_step)

theorem api_page_current:
  assumes "calm_api_step\<^sup>*\<^sup>* (guarded_mounted i) s" "direct_view s = Tv_target row"
  shows "os_id row = dr_id s"
  using api_page.reach_shown [OF assms(1) good_mounted] refusals assms(2) by (simp add: shown_target_def)

text \<open>
  A write answered after the address changed shows its target under the other address, where the next
  action is asked for it; an unguarded page shows the late answer of a read in the same way.
\<close>

theorem late_write_shown:
  assumes "tp_refuses K b = None" "dr_item s = Some a" "dr_reads s = []" "dr_id s \<noteq> i" "tp_id K a = dr_id s" "tp_id K b = i"
  defines "n \<equiv> Suc (dr_run s)"
  defines "s' \<equiv> project_saved (tp_id K a) (Inr a) (target_loaded K (n, i) (Inr b) (guarded_navigate i (fst (save_group K s))))"
  shows "dr_id s' = i \<and> direct_view s' = Tv_target a \<and> dr_reads s' = []
    \<and> snd (runConfirmedAction K (s'\<lparr>dr_confirm := Some Do_delete\<rparr>)) = Some (Ask_delete (tp_delete K (tp_id K a)))"
  using assms(1-6)
  by (simp add: s'_def n_def project_saved_def target_loaded_def guarded_navigate_def projects_effect_def target_effect_def
      save_group_def direct_view_def runConfirmedAction_def Let_def)

theorem late_read_shown:
  fixes rows :: "project list"
  assumes "tp_refuses K a = None" "tp_refuses K b = None" "tp_id K a = p" "tp_id K b = q" "p \<noteq> q"
  defines "s \<equiv> both_loaded K (0, p) (Inr (a, rows)) (both_loaded K (0, q) (Inr (b, rows)) (late_navigate q (late_mounted p)))"
  shows "dr_id s = q \<and> direct_view s = Tv_target a \<and> dr_reads s = []
    \<and> snd (runConfirmedAction K (s\<lparr>dr_confirm := Some Do_delete\<rparr>)) = Some (Ask_delete (tp_delete K p))"
  using assms(1-5)
  by (simp add: s_def both_loaded_def late_navigate_def late_mounted_def both_load_def page_blank_def direct_view_def
      runConfirmedAction_def Let_def)

section \<open>The actions on the demo server\<close>

text \<open>A confirmed action run to its answer: \<open>row_of\<close> and \<open>setup_of\<close> read the reply of the server.\<close>

definition reply_of :: "('m \<Rightarrow> 'a option) \<Rightarrow> thrown + 'm \<Rightarrow> thrown + 'a" where
  "reply_of f r = and_then r (\<lambda>m. case f m of Some x \<Rightarrow> Inr x | None \<Rightarrow> Inl ThrownValue)"

definition perform ::
  "fixtures \<Rightarrow> ctx \<Rightarrow> (mock_reply \<Rightarrow> 'r option) \<Rightarrow> (mock_reply \<Rightarrow> 'k option) \<Rightarrow> ('r, 'k) target_page
   \<Rightarrow> ('r, 'k) direct_page \<times> db \<Rightarrow> ('r, 'k) direct_page \<times> db" where
  "perform fx c row_of setup_of K sd =
     (case runConfirmedAction K (fst sd) of
        (s, None) \<Rightarrow> (s, snd sd)
      | (s, Some ask) \<Rightarrow>
          (let q = last (dr_actions s) in
           case ask of
             Ask_rotate call \<Rightarrow>
               (case serve fx c call (snd sd) of (d, r) \<Rightarrow> (action_done K q (map_sum id Was_rotated (reply_of setup_of r)) s, d))
           | Ask_revoke call \<Rightarrow>
               (case serve fx c call (snd sd) of (d, r) \<Rightarrow> (action_done K q (map_sum id Was_revoked (reply_of row_of r)) s, d))
           | Ask_delete call \<Rightarrow>
               (case serve fx c call (snd sd) of (d, r) \<Rightarrow> (action_done K q (map_sum id (\<lambda>_. Was_deleted) r) s, d))))"

fun observed_reply :: "mock_reply \<Rightarrow> observed_service option" where
  "observed_reply (R_observed s) = Some s"
| "observed_reply _ = None"

fun observed_setup_reply :: "mock_reply \<Rightarrow> observed_service_setup option" where
  "observed_setup_reply (R_observedSetup s) = Some s"
| "observed_setup_reply _ = None"

lemma reply_of_simps [simp]: "f m = Some x \<Longrightarrow> reply_of f (Inr m) = Inr x" "reply_of f (Inl e) = Inl e"
  by (simp_all add: reply_of_def)

lemma truncate_setup [simp]: "observed_service.truncate (with_api_key s key) = s" "oss_apiKey (with_api_key s key) = key"
  by (simp_all add: with_api_key_def observed_service.defs observed_service_setup.defs)

text \<open>C32: A confirmed action on the page of a directly connected service, run on the demo server, acts on
  exactly that service: a rotation activates it and shows its new key, a revocation stops it, a deletion
  removes it and leads to the list; the page then shows the row the server has, and no other service changes.\<close>

theorem direct_action_exact:
  fixes s :: "(observed_service, observed_service_setup) direct_page" and fx :: fixtures and c :: ctx
    and sig :: telemetry_signal and missing deleted_text to_list :: string and d :: db
  assumes "ids_ok d" "dr_item s = Some row" "dr_confirm s = Some a" "is_segment (os_id row)" "find_by os_id (db_observed d) (os_id row) = Some row"
  defines "K \<equiv> observed_page sig missing deleted_text to_list"
  defines "s' \<equiv> fst (perform fx c observed_reply observed_setup_reply K (s, d))"
    and "d' \<equiv> snd (perform fx c observed_reply observed_setup_reply K (s, d))"
  shows "dr_confirm s' = None \<and> \<not> dr_processing s'
    \<and> (\<forall>j. j \<noteq> os_id row \<longrightarrow> find_by os_id (db_observed d') j = find_by os_id (db_observed d) j)
    \<and> (case a of
         Do_rotate \<Rightarrow> dr_item s' = find_by os_id (db_observed d') (os_id row)
           \<and> dr_item s' = Some (row\<lparr>os_isActive := True, os_apiKeyMasked := Some ''evup_****new1''\<rparr>)
           \<and> map_option oss_apiKey (dr_rotated s') = Some (''evup_direct_'' @ ctx_random c 24)
       | Do_revoke \<Rightarrow> dr_item s' = find_by os_id (db_observed d') (os_id row) \<and> dr_item s' = Some (row\<lparr>os_isActive := False\<rparr>)
       | Do_delete \<Rightarrow> find_by os_id (db_observed d') (os_id row) = None \<and> dr_address s' = Some to_list)"
proof -
  have f: "find (\<lambda>x. os_id x = os_id row) (db_observed d) = Some row" using assms(5) by (simp add: find_by_def)
  note run = s'_def d'_def K_def perform_def runConfirmedAction_def action_done_def observed_page_def serve_rules ok_def Let_def
  show ?thesis
  proof (cases a)
    case Do_rotate
    then show ?thesis using assms(2-4) f
      by (simp add: run rotate_observed_def table_rules)
  next
    case Do_revoke
    then show ?thesis using assms(2-4) f
      by (simp add: run revoke_observed_def reply_or_undefined_def table_rules)
  next
    case Do_delete
    have "os_id row \<notin> set (map os_id (splice_first (\<lambda>s. os_id s = os_id row) (db_observed d)))"
      using assms(1) by (subst splice_first_ids) (simp_all add: ids_ok_def)
    then show ?thesis using Do_delete assms(2-4) f
      by (simp add: run delete_observed_def table_rules)
  qed
qed

definition demo_direct_page :: "confirm_action \<Rightarrow> (observed_service, observed_service_setup) direct_page" where
  "demo_direct_page a = (page_blank (os_id demo_observed))\<lparr>dr_item := Some demo_observed, dr_confirm := Some a\<rparr>"

lemma direct_action_exact_witness:
  "dr_item (fst (perform demo_fx demo_ctx observed_reply observed_setup_reply
      (observed_page Sig_logs [] [] ''/logs'') (demo_direct_page Do_revoke, demo_db))) = Some (demo_observed\<lparr>os_isActive := False\<rparr>)"
proof -
  have "ids_ok demo_db" by (simp add: demo_db_def ids_ok_def)
  moreover have "dr_item (demo_direct_page Do_revoke) = Some demo_observed" "dr_confirm (demo_direct_page Do_revoke) = Some Do_revoke"
    by (simp_all add: demo_direct_page_def)
  moreover have "is_segment (os_id demo_observed)" by (simp add: demo_observed_def is_segment_def)
  moreover have "find_by os_id (db_observed demo_db) (os_id demo_observed) = Some demo_observed" by (simp add: demo_db_def find_by_def)
  ultimately show ?thesis 
    using direct_action_exact [where d = demo_db and s = "demo_direct_page Do_revoke" and row = demo_observed and a = Do_revoke
        and fx = demo_fx and c = demo_ctx and sig = Sig_logs and missing = "[]" and deleted_text = "[]" and to_list = "''/logs''"]
    unfolding confirm_action.case by blast
qed

text \<open>Saving the group sends the chosen one, and the page then shows the row the server has.\<close>

theorem group_save_exact:
  assumes "dr_item s = Some row" "is_segment (os_id row)" "find_by os_id (db_observed d) (os_id row) = Some row"
    and "snd (save_group (observed_page sig m1 m2 to_list) s) = Some call" "serve fx c call d = (d', r)"
  shows "reply_of observed_reply r = Inr (row\<lparr>os_projectId := nonempty (Some (dr_projectId s)), os_updatedAt := now_iso c\<rparr>)"
    and "dr_item (project_saved (os_id row) (reply_of observed_reply r) s) = find_by os_id (db_observed d') (os_id row)"
    and "j \<noteq> os_id row \<Longrightarrow> find_by os_id (db_observed d') j = find_by os_id (db_observed d) j"
proof -
  have f: "find (\<lambda>x. os_id x = os_id row) (db_observed d) = Some row" using assms(3) by (simp add: find_by_def)
  have j: "assign_observed c (observed_service_input_json \<lparr>osi_name = os_name row, osi_projectId = p, osi_signals = os_signals row\<rparr>) row
      = row\<lparr>os_projectId := nonempty p, os_updatedAt := now_iso c\<rparr>" for p
    by (cases p) (simp_all add: assign_observed_def observed_service_input_json_def get_signals_def get_strings_def comp_def nonempty_def)
  have call: "call = updateObservedService (os_id row) \<lparr>osi_name = os_name row, osi_projectId = nonempty (Some (dr_projectId s)), osi_signals = os_signals row\<rparr>"
    using assms(1,4) by (simp add: save_group_def observed_page_def)
  show r: "reply_of observed_reply r = Inr (row\<lparr>os_projectId := nonempty (Some (dr_projectId s)), os_updatedAt := now_iso c\<rparr>)"
    using assms(2,5) f by (auto simp: call serve_rules update_observed_def ok_def reply_or_undefined_def j nonempty_def)
  show "dr_item (project_saved (os_id row) (reply_of observed_reply r) s) = find_by os_id (db_observed d') (os_id row)"
    using assms(2,5) f unfolding r by (auto simp: project_saved_def call serve_rules update_observed_def ok_def table_rules j nonempty_def Let_def)
  show "j \<noteq> os_id row \<Longrightarrow> find_by os_id (db_observed d') j = find_by os_id (db_observed d) j"
    using assms(2,5) by (auto simp: call serve_rules update_observed_def ok_def table_rules)
qed

end
