(* ===== verification/EU_Connect.thy ===== *)
theory EU_Connect imports EU_Direct EU_ChannelForm
begin

text \<open>
  Connecting a target directly: the dialogs of \<open>features/telemetry/components/DirectTelemetrySetupDialog.tsx\<close>
  and \<open>features/infrastructure/components/InfrastructureCollectorSetupDialog.tsx\<close>, which
  \<open>features/services/components/MonitoringConnection.tsx\<close> opens, the configuration they give to paste, and the
  levels a service stores (\<open>features/logs/components/LogIngestLevels.tsx\<close>) and the paths it leaves out
  (\<open>features/api-requests/ApiExclusionsSettings.tsx\<close>).
\<close>

section \<open>Connecting a service\<close>

datatype connect_mode = Connect_new | Connect_existing

datatype connection_result =
    Issued observed_service_setup
  | Attached observed_service telemetry_signal

record connect_dialog =
  cd_mode :: connect_mode
  cd_name :: string
  cd_projectId :: string
  cd_existingId :: string
  cd_projects :: "project list"
  cd_services :: "observed_service list"
  cd_result :: "connection_result option"
  cd_submitting :: bool
  cd_optionsLoading :: bool
  cd_optionsError :: "string option"
  cd_run :: nat
  cd_reads :: "nat list"
  cd_toasts :: "string list"

definition options_effect :: "connect_dialog \<Rightarrow> connect_dialog" where
  "options_effect s =
     s\<lparr>cd_run := Suc (cd_run s), cd_optionsLoading := True, cd_optionsError := None, cd_reads := cd_reads s @ [Suc (cd_run s)]\<rparr>"

definition connect_mounted :: connect_dialog where
  "connect_mounted =
     options_effect \<lparr>cd_mode = Connect_new, cd_name = [], cd_projectId = [], cd_existingId = [], cd_projects = [], cd_services = [],
       cd_result = None, cd_submitting = False, cd_optionsLoading = True, cd_optionsError = None, cd_run = 0, cd_reads = [], cd_toasts = []\<rparr>"

definition options_loaded ::
  "telemetry_signal \<Rightarrow> nat \<Rightarrow> thrown + project list \<times> observed_service list \<Rightarrow> connect_dialog \<Rightarrow> connect_dialog" where
  "options_loaded sig n r s =
     (let s = s\<lparr>cd_reads := remove1 n (cd_reads s)\<rparr> in
      if n \<noteq> cd_run s then s
      else (case r of
          Inr (projects, services) \<Rightarrow>
            s\<lparr>cd_projects := projects, cd_services := filter (\<lambda>v. os_isActive v \<and> sig \<notin> set (os_signals v)) services,
              cd_optionsLoading := False\<rparr>
        | Inl e \<Rightarrow> s\<lparr>cd_optionsError := Some (getErrorMessage e), cd_optionsLoading := False\<rparr>))"

definition selected_service :: "connect_dialog \<Rightarrow> observed_service option" where
  "selected_service s = find (\<lambda>v. os_id v = cd_existingId s) (cd_services s)"

definition can_connect :: "connect_dialog \<Rightarrow> bool" where
  "can_connect s \<longleftrightarrow> \<not> (cd_optionsLoading s \<or> truthy (cd_optionsError s)
     \<or> (case cd_mode s of Connect_new \<Rightarrow> js_trim (cd_name s) = [] | Connect_existing \<Rightarrow> selected_service s = None))"

datatype connect_request =
    Ask_create "observed_service_setup api_call"
  | Ask_attach "observed_service api_call"

definition connect_submit :: "telemetry_signal \<Rightarrow> connect_dialog \<Rightarrow> connect_dialog \<times> connect_request option" where
  "connect_submit sig s =
     (case cd_mode s of
        Connect_new \<Rightarrow>
          (s\<lparr>cd_submitting := True\<rparr>,
           Some (Ask_create (createObservedService
             \<lparr>osi_name = js_trim (cd_name s), osi_projectId = nonempty (Some (cd_projectId s)), osi_signals = [sig]\<rparr>)))
      | Connect_existing \<Rightarrow>
          (case selected_service s of
             Some v \<Rightarrow>
               (s\<lparr>cd_submitting := True\<rparr>,
                Some (Ask_attach (updateObservedService (os_id v)
                  \<lparr>osi_name = os_name v, osi_projectId = os_projectId v, osi_signals = os_signals v @ [sig]\<rparr>)))
           | None \<Rightarrow> (s\<lparr>cd_submitting := False\<rparr>, None)))"

definition connect_settled :: "thrown + connection_result \<Rightarrow> connect_dialog \<Rightarrow> connect_dialog" where
  "connect_settled r s =
     (case r of
        Inr v \<Rightarrow> s\<lparr>cd_result := Some v, cd_submitting := False\<rparr>
      | Inl e \<Rightarrow> s\<lparr>cd_toasts := cd_toasts s @ [getErrorMessage e], cd_submitting := False\<rparr>)"

definition result_service :: "connection_result \<Rightarrow> observed_service" where
  "result_service r = (case r of Issued k \<Rightarrow> observed_service.truncate k | Attached v _ \<Rightarrow> v)"

text \<open>Whether Escape and a click on the backdrop close the dialog.\<close>

definition escape_closes :: "connect_dialog \<Rightarrow> bool" where
  "escape_closes s \<longleftrightarrow> \<not> cd_submitting s"

definition backdrop_closes :: "connect_dialog \<Rightarrow> bool" where
  "backdrop_closes s \<longleftrightarrow> \<not> cd_submitting s \<and> (case cd_result s of Some (Issued _) \<Rightarrow> False | _ \<Rightarrow> True)"

section \<open>Connecting a collector\<close>

record collector_dialog =
  ld_name :: string
  ld_projectId :: string
  ld_projects :: "project list"
  ld_setup :: "infrastructure_resource_setup option"
  ld_submitting :: bool
  ld_toasts :: "string list"

definition collector_mounted :: collector_dialog where
  "collector_mounted = \<lparr>ld_name = [], ld_projectId = [], ld_projects = [], ld_setup = None, ld_submitting = False, ld_toasts = []\<rparr>"

definition collector_projects :: "thrown + project list \<Rightarrow> collector_dialog \<Rightarrow> collector_dialog" where
  "collector_projects r s = (case r of Inr rows \<Rightarrow> s\<lparr>ld_projects := rows\<rparr> | Inl _ \<Rightarrow> s)"

definition can_add_collector :: "collector_dialog \<Rightarrow> bool" where
  "can_add_collector s \<longleftrightarrow> js_trim (ld_name s) \<noteq> []"

definition collector_submit :: "collector_dialog \<Rightarrow> collector_dialog \<times> infrastructure_resource_setup api_call" where
  "collector_submit s =
     (s\<lparr>ld_submitting := True\<rparr>,
      createInfrastructureResource \<lparr>iri_name = js_trim (ld_name s), iri_projectId = nonempty (Some (ld_projectId s))\<rparr>)"

definition collector_settled :: "thrown + infrastructure_resource_setup \<Rightarrow> collector_dialog \<Rightarrow> collector_dialog" where
  "collector_settled r s =
     (case r of
        Inr k \<Rightarrow> s\<lparr>ld_setup := Some k, ld_submitting := False\<rparr>
      | Inl e \<Rightarrow> s\<lparr>ld_toasts := ld_toasts s @ [getErrorMessage e], ld_submitting := False\<rparr>)"

definition collector_backdrop_closes :: "collector_dialog \<Rightarrow> bool" where
  "collector_backdrop_closes s \<longleftrightarrow> \<not> ld_submitting s \<and> ld_setup s = None"

section \<open>The menu that opens them\<close>

datatype connect_capability = Cc_logs | Cc_api | Cc_metrics | Cc_infrastructure

fun connect_capability_text :: "connect_capability \<Rightarrow> string" where
  "connect_capability_text Cc_logs = ''logs''"
| "connect_capability_text Cc_api = ''api''"
| "connect_capability_text Cc_metrics = ''metrics''"
| "connect_capability_text Cc_infrastructure = ''infrastructure''"

fun connect_labels :: "connect_capability \<Rightarrow> string" where
  "connect_labels Cc_logs = [CHR 0xEB, CHR 0xA1, CHR 0x9C, CHR 0xEA, CHR 0xB7, CHR 0xB8]"
| "connect_labels Cc_api = ''API''"
| "connect_labels Cc_metrics = [CHR 0xEB, CHR 0xA9, CHR 0x94, CHR 0xED, CHR 0x8A, CHR 0xB8, CHR 0xEB, CHR 0xA6, CHR 0xAD]"
| "connect_labels Cc_infrastructure = [CHR 0xEC, CHR 0x9D, CHR 0xB8, CHR 0xED, CHR 0x94, CHR 0x84, CHR 0xEB, CHR 0x9D, CHR 0xBC]"

fun connect_signal :: "connect_capability \<Rightarrow> telemetry_signal option" where
  "connect_signal Cc_logs = Some Sig_logs"
| "connect_signal Cc_api = Some Sig_traces"
| "connect_signal Cc_metrics = Some Sig_metrics"
| "connect_signal Cc_infrastructure = None"

text \<open>The menu: whether its dialog is open, how often the list was asked to load again, where it leads.\<close>

record connect_menu =
  cm_open :: bool
  cm_reloads :: nat
  cm_address :: "string option"

definition menu_close :: "connect_menu \<Rightarrow> connect_menu" where
  "menu_close s = s\<lparr>cm_open := False, cm_reloads := Suc (cm_reloads s)\<rparr>"

definition menu_view :: "connect_capability \<Rightarrow> string \<Rightarrow> connect_menu \<Rightarrow> connect_menu" where
  "menu_view c i s = s\<lparr>cm_address := Some (''/'' @ connect_capability_text c @ ''/'' @ i)\<rparr>"

definition connect_done :: "connect_capability \<Rightarrow> connect_dialog \<Rightarrow> connect_menu \<Rightarrow> connect_menu" where
  "connect_done c s m =
     menu_close (case cd_result s of Some r \<Rightarrow> menu_view c (os_id (result_service r)) m | None \<Rightarrow> m)"

definition collector_done :: "collector_dialog \<Rightarrow> connect_menu \<Rightarrow> connect_menu" where
  "collector_done s m =
     menu_close (case ld_setup s of Some k \<Rightarrow> menu_view Cc_infrastructure (ir_id k) m | None \<Rightarrow> m)"

section \<open>The configuration to paste\<close>

definition SIGNALS :: "telemetry_signal list" where
  "SIGNALS = [Sig_traces, Sig_metrics, Sig_logs]"

fun signal_upper :: "telemetry_signal \<Rightarrow> string" where
  "signal_upper Sig_traces = ''TRACES''"
| "signal_upper Sig_metrics = ''METRICS''"
| "signal_upper Sig_logs = ''LOGS''"

definition result_signals :: "connection_result \<Rightarrow> telemetry_signal list" where
  "result_signals r = (case r of Attached _ sig \<Rightarrow> [sig] | Issued k \<Rightarrow> os_signals k)"

definition otel_configuration :: "string \<Rightarrow> observed_service_setup \<Rightarrow> string" where
  "otel_configuration endpoint k =
     join_with [CHR 10]
       ([''OTEL_SERVICE_NAME='' @ os_name k, ''OTEL_EXPORTER_OTLP_ENDPOINT='' @ endpoint,
         ''OTEL_EXPORTER_OTLP_PROTOCOL=http/protobuf'',
         ''OTEL_EXPORTER_OTLP_HEADERS=Authorization=Bearer '' @ oss_apiKey k]
        @ map (\<lambda>sig. ''OTEL_'' @ signal_upper sig @ ''_EXPORTER=none'') (filter (\<lambda>sig. sig \<notin> set (os_signals k)) SIGNALS))"

definition result_configuration :: "string \<Rightarrow> connection_result \<Rightarrow> string" where
  "result_configuration endpoint r = (case r of Issued k \<Rightarrow> otel_configuration endpoint k | Attached _ _ \<Rightarrow> [])"

datatype run_mode = Run_docker | Run_binary

definition collectorConfig :: "infrastructure_resource_setup \<Rightarrow> string \<Rightarrow> run_mode \<Rightarrow> string" where
  "collectorConfig k endpoint mode =
     join_with [CHR 10]
       ([''receivers:'', ''  hostmetrics:'']
        @ (if mode = Run_docker then [''    root_path: /hostfs''] else [])
        @ [''    collection_interval: 30s'', ''    scrapers:'', ''      cpu:'', ''        metrics:'',
           ''          system.cpu.utilization:'', ''            enabled: true'', ''      memory:'', ''      filesystem:'',
           ''      network:'', ''processors:'', ''  batch:'', ''exporters:'', ''  otlphttp/everyup:'',
           ''    endpoint: '' @ endpoint, ''    headers:'',
           ''      Authorization: '' @ [CHR 0x22] @ ''Bearer '' @ irs_apiKey k @ [CHR 0x22], ''service:'', ''  pipelines:'',
           ''    metrics:'', ''      receivers: [hostmetrics]'', ''      processors: [batch]'',
           ''      exporters: [otlphttp/everyup]''])"

definition RUN_COMMAND :: "run_mode \<Rightarrow> string" where
  "RUN_COMMAND mode =
     (case mode of
        Run_docker \<Rightarrow>
          join_with [CHR 10]
            [''docker run -d --name everyup-collector --restart unless-stopped '' @ [CHR 0x5C], ''  --network host '' @ [CHR 0x5C],
             ''  -v /:/hostfs:ro '' @ [CHR 0x5C],
             ''  -v '' @ [CHR 0x22] @ ''$PWD/otelcol-contrib.yaml:/etc/otelcol-contrib/config.yaml:ro'' @ [CHR 0x22] @ '' '' @ [CHR 0x5C],
             ''  otel/opentelemetry-collector-contrib:0.164.0'']
      | Run_binary \<Rightarrow> ''otelcol-contrib --config otelcol-contrib.yaml'')"

section \<open>The levels a service stores\<close>

definition LEVELS :: "log_level list" where
  "LEVELS = [L_error, L_warn, L_info, L_debug, L_trace]"

record level_panel =
  lv_saved :: "log_level list option"
  lv_draft :: "log_level list option"
  lv_saving :: bool
  lv_toasts :: "string list"

definition levels_loaded :: "thrown + log_level list \<Rightarrow> level_panel \<Rightarrow> level_panel" where
  "levels_loaded r s = (case r of Inr ls \<Rightarrow> s\<lparr>lv_saved := Some ls\<rparr> | Inl _ \<Rightarrow> s)"

definition levels_edit :: "level_panel \<Rightarrow> level_panel" where
  "levels_edit s = (if lv_saved s = None then s else s\<lparr>lv_draft := Some (or_default (lv_saved s) [])\<rparr>)"

definition levels_toggle :: "log_level \<Rightarrow> level_panel \<Rightarrow> level_panel" where
  "levels_toggle l s =
     s\<lparr>lv_draft := map_option (\<lambda>ls. if l \<in> set ls then filter (\<lambda>x. x \<noteq> l) ls else ls @ [l]) (lv_draft s)\<rparr>"

definition levels_cancel :: "level_panel \<Rightarrow> level_panel" where
  "levels_cancel s = s\<lparr>lv_draft := None\<rparr>"

definition levels_save :: "string \<Rightarrow> level_panel \<Rightarrow> level_panel \<times> log_level list api_call option" where
  "levels_save i s =
     (case lv_draft s of
        None \<Rightarrow> (s, None)
      | Some ls \<Rightarrow> (s\<lparr>lv_saving := True\<rparr>, Some (setObservedServiceLogFilter i ls)))"

definition levels_settled :: "thrown + log_level list \<Rightarrow> level_panel \<Rightarrow> level_panel" where
  "levels_settled r s =
     (case r of
        Inr ls \<Rightarrow> s\<lparr>lv_saved := Some ls, lv_draft := None, lv_toasts := lv_toasts s @ [([CHR 0xEC, CHR 0x88, CHR 0x98, CHR 0xEC, CHR 0xA7, CHR 0x91] @ '' '' @ [CHR 0xEB, CHR 0xA0, CHR 0x88, CHR 0xEB, CHR 0xB2, CHR 0xA8, CHR 0xEC, CHR 0x9D, CHR 0x84] @ '' '' @ [CHR 0xEC, CHR 0xA0, CHR 0x80, CHR 0xEC, CHR 0x9E, CHR 0xA5, CHR 0xED, CHR 0x96, CHR 0x88, CHR 0xEC, CHR 0x8A, CHR 0xB5, CHR 0xEB, CHR 0x8B, CHR 0x88, CHR 0xEB, CHR 0x8B, CHR 0xA4] @ ''.'')], lv_saving := False\<rparr>
      | Inl e \<Rightarrow> s\<lparr>lv_toasts := lv_toasts s @ [getErrorMessage e], lv_saving := False\<rparr>)"

definition levels_text :: "level_panel \<Rightarrow> string" where
  "levels_text s =
     (case lv_saved s of
        None \<Rightarrow> ''-''
      | Some ls \<Rightarrow> if ls = [] then [CHR 0xEC, CHR 0xA0, CHR 0x84, CHR 0xEC, CHR 0xB2, CHR 0xB4] else join_with '', '' (map log_level_text (filter (\<lambda>l. l \<in> set ls) LEVELS)))"

section \<open>What the pasted configuration says\<close>

text \<open>The lines of an environment file, each a name and a value around its first equals sign.\<close>

definition env_line :: "string \<Rightarrow> string \<times> string" where
  "env_line l = (takeWhile (\<lambda>c. c \<noteq> CHR ''='') l, drop 1 (dropWhile (\<lambda>c. c \<noteq> CHR ''='') l))"

definition env_of :: "string \<Rightarrow> (string \<times> string) list" where
  "env_of text = map env_line (split_on (CHR 10) text)"

lemma no_equals [simp]:
  "takeWhile (\<lambda>c. c \<noteq> CHR ''='') (signal_upper sig @ r) = signal_upper sig @ takeWhile (\<lambda>c. c \<noteq> CHR ''='') r"
  "dropWhile (\<lambda>c. c \<noteq> CHR ''='') (signal_upper sig @ r) = dropWhile (\<lambda>c. c \<noteq> CHR ''='') r"
  by (cases sig; simp)+

lemma signal_upper_inj: "signal_upper a = signal_upper b \<longleftrightarrow> a = b"
  by (cases a; cases b; simp)

lemma exporter_plain [simp]: "CHR 10 \<notin> set (signal_upper sig)"
  by (cases sig) simp_all

lemma exporters_off:
  "map_of (map (\<lambda>sig. (''OTEL_'' @ signal_upper sig @ ''_EXPORTER'', ''none'')) sigs) (''OTEL_'' @ signal_upper sig @ ''_EXPORTER'')
     = (if sig \<in> set sigs then Some ''none'' else None)"
  by (induction sigs) (auto simp: signal_upper_inj)

text \<open>Read back line by line, the configuration names the service, the address and the key, and turns off
  exactly the exporters of the signals the key does not cover.\<close>

theorem otel_configuration_back:
  assumes "CHR 10 \<notin> set (os_name k)" "CHR 10 \<notin> set endpoint" "CHR 10 \<notin> set (oss_apiKey k)"
  shows "map_of (env_of (otel_configuration endpoint k)) ''OTEL_SERVICE_NAME'' = Some (os_name k)"
    and "map_of (env_of (otel_configuration endpoint k)) ''OTEL_EXPORTER_OTLP_ENDPOINT'' = Some endpoint"
    and "map_of (env_of (otel_configuration endpoint k)) ''OTEL_EXPORTER_OTLP_HEADERS'' = Some (''Authorization=Bearer '' @ oss_apiKey k)"
    and "map_of (env_of (otel_configuration endpoint k)) (''OTEL_'' @ signal_upper sig @ ''_EXPORTER'')
      = (if sig \<in> set (os_signals k) then None else Some ''none'')"
proof -
  have env: "env_of (otel_configuration endpoint k) =
    [(''OTEL_SERVICE_NAME'', os_name k), (''OTEL_EXPORTER_OTLP_ENDPOINT'', endpoint), (''OTEL_EXPORTER_OTLP_PROTOCOL'', ''http/protobuf''),
     (''OTEL_EXPORTER_OTLP_HEADERS'', ''Authorization=Bearer '' @ oss_apiKey k)]
    @ map (\<lambda>sig. (''OTEL_'' @ signal_upper sig @ ''_EXPORTER'', ''none'')) (filter (\<lambda>sig. sig \<notin> set (os_signals k)) SIGNALS)"
    unfolding env_of_def otel_configuration_def
    by (subst split_join) (use assms in \<open>auto simp: list_all_iff env_line_def comp_def\<close>)
  show "map_of (env_of (otel_configuration endpoint k)) ''OTEL_SERVICE_NAME'' = Some (os_name k)"
    "map_of (env_of (otel_configuration endpoint k)) ''OTEL_EXPORTER_OTLP_ENDPOINT'' = Some endpoint"
    "map_of (env_of (otel_configuration endpoint k)) ''OTEL_EXPORTER_OTLP_HEADERS'' = Some (''Authorization=Bearer '' @ oss_apiKey k)"
    by (simp_all add: env)
  have "sig \<in> set SIGNALS" by (cases sig) (simp_all add: SIGNALS_def)
  moreover have "''OTEL_'' @ signal_upper sig @ ''_EXPORTER'' \<noteq> ''OTEL_'' @ x" if "x \<in> {''SERVICE_NAME'', ''EXPORTER_OTLP_ENDPOINT'', ''EXPORTER_OTLP_PROTOCOL'', ''EXPORTER_OTLP_HEADERS''}" for x
    using that by (cases sig) auto
  ultimately show "map_of (env_of (otel_configuration endpoint k)) (''OTEL_'' @ signal_upper sig @ ''_EXPORTER'')
      = (if sig \<in> set (os_signals k) then None else Some ''none'')"
    using exporters_off [of "filter (\<lambda>sig. sig \<notin> set (os_signals k)) SIGNALS" sig]
    by (simp add: env map_add_def)
qed

text \<open>The two ways to run a collector differ in where the host is read from and in nothing else.\<close>

lemma collector_configs:
  assumes "CHR 10 \<notin> set endpoint" "CHR 10 \<notin> set (irs_apiKey k)"
  shows "split_on (CHR 10) (collectorConfig k endpoint Run_binary)
      = filter (\<lambda>l. l \<noteq> ''    root_path: /hostfs'') (split_on (CHR 10) (collectorConfig k endpoint Run_docker))"
  unfolding collectorConfig_def by (subst split_join, simp, simp add: assms, subst split_join, simp, simp add: assms, simp)

section \<open>Connecting on the demo server\<close>

text \<open>The dialog's request run to its answer.\<close>

definition connect_run ::
  "fixtures \<Rightarrow> ctx \<Rightarrow> telemetry_signal \<Rightarrow> connect_dialog \<Rightarrow> db \<Rightarrow> connect_dialog \<times> db" where
  "connect_run fx c sig s d =
     (case connect_submit sig s of
        (s', None) \<Rightarrow> (s', d)
      | (s', Some (Ask_create call)) \<Rightarrow>
          (case serve fx c call d of (d', r) \<Rightarrow> (connect_settled (map_sum id Issued (reply_of observed_setup_reply r)) s', d'))
      | (s', Some (Ask_attach call)) \<Rightarrow>
          (case serve fx c call d of (d', r) \<Rightarrow> (connect_settled (map_sum id (\<lambda>v. Attached v sig) (reply_of observed_reply r)) s', d')))"

lemma new_last: "k x = i \<Longrightarrow> i \<notin> k ` set xs \<Longrightarrow> find (\<lambda>y. k y = j) (xs @ [x]) = (if j = i then Some x else find (\<lambda>y. k y = j) xs)"
  by (induction xs) auto

lemma get_input:
  "get_str (observed_service_input_json p) ''name'' = Some (osi_name p)"
  "get_str (observed_service_input_json p) ''projectId'' = osi_projectId p"
  "get_signals (observed_service_input_json p) = Some (osi_signals p)"
  by (cases "osi_projectId p"; simp add: observed_service_input_json_def get_signals_def get_strings_def comp_def)+

text \<open>What an update the client writes makes of a direct service.\<close>

lemma assign_observed_input:
  "assign_observed c (observed_service_input_json q) x
     = x\<lparr>os_name := osi_name q, os_projectId := nonempty (osi_projectId q), os_signals := osi_signals q, os_updatedAt := now_iso c\<rparr>"
  by (cases "osi_projectId q")
    (simp_all add: assign_observed_def observed_service_input_json_def get_signals_def get_strings_def comp_def nonempty_def)

text \<open>A new service is added with the name typed, the group chosen and the signal of the menu, active and
  with a key; no other service changes.\<close>

theorem created_exact:
  fixes fx :: fixtures and c :: ctx and sig :: telemetry_signal and s :: connect_dialog and d :: db
  assumes "cd_mode s = Connect_new" "fresh_ids c d"
  defines "s' \<equiv> fst (connect_run fx c sig s d)" and "d' \<equiv> snd (connect_run fx c sig s d)"
  shows "\<exists>k. cd_result s' = Some (Issued k) \<and> os_name k = js_trim (cd_name s) \<and> os_signals k = [sig] \<and> os_isActive k
    \<and> os_projectId k = nonempty (Some (cd_projectId s)) \<and> \<not> cd_submitting s'
    \<and> (\<forall>j. find_by os_id (db_observed d') j
         = (if j = os_id k then Some (observed_service.truncate k) else find_by os_id (db_observed d) j))"
proof -
  have "new_id ''observed_mock_'' c \<notin> os_id ` set (db_observed d)" using assms(2) by (simp add: fresh_ids_def)
  then show ?thesis using assms(1)
    by (simp add: s'_def d'_def connect_run_def connect_submit_def connect_settled_def serve_rules create_observed_def ok_def
        find_by_def new_last get_input Let_def with_api_key_def observed_service.defs observed_service_setup.defs)
qed

text \<open>A service that is offered gets the signal of the menu, once, and keeps all else; no other changes.\<close>

theorem attached_exact:
  fixes fx :: fixtures and c :: ctx and sig :: telemetry_signal and s :: connect_dialog and d :: db
  assumes "cd_mode s = Connect_existing" "selected_service s = Some v" "is_segment (os_id v)"
    and "find_by os_id (db_observed d) (os_id v) = Some v"
    and "cd_services s = cd_services (options_loaded sig n (Inr (ps, vs)) s0)" "cd_run s0 = n"
  defines "s' \<equiv> fst (connect_run fx c sig s d)" and "d' \<equiv> snd (connect_run fx c sig s d)"
  shows "(\<exists>w. cd_result s' = Some (Attached w sig) \<and> w = v\<lparr>os_projectId := nonempty (os_projectId v),
        os_signals := os_signals v @ [sig], os_updatedAt := now_iso c\<rparr>
      \<and> (\<forall>j. find_by os_id (db_observed d') j = (if j = os_id v then Some w else find_by os_id (db_observed d) j)))
    \<and> sig \<notin> set (os_signals v)"
proof -
  have f: "find (\<lambda>x. os_id x = os_id v) (db_observed d) = Some v" using assms(4) by (simp add: find_by_def)
  have "v \<in> set (cd_services s)" using assms(2) by (auto simp: selected_service_def find_Some_iff)
  then have "sig \<notin> set (os_signals v)" using assms(5,6) by (simp add: options_loaded_def Let_def)
  then show ?thesis using assms(1-3) f
    by (simp add: s'_def d'_def connect_run_def connect_submit_def connect_settled_def serve_rules update_observed_def ok_def
        reply_or_undefined_def table_rules assign_observed_input)
qed

text \<open>The key of a new service cannot be clicked away, but Escape closes it.\<close>

lemma issued_stays: "cd_result s = Some (Issued k) \<Longrightarrow> \<not> backdrop_closes s \<and> (escape_closes s \<longleftrightarrow> \<not> cd_submitting s)"
  by (simp add: backdrop_closes_def escape_closes_def)

section \<open>The levels on the demo server\<close>

text \<open>The chosen levels are what the server stores and gives back; a click adds or removes one level.\<close>

theorem levels_roundtrip:
  assumes "is_segment i" "lv_draft s = Some ls" "snd (levels_save i s) = Some call" "serve fx c call d = (d', r)"
  shows "snd (serve fx c (getObservedServiceLogFilter i) d') = Inr (R_levels (map log_level_text ls))"
    and "r = Inr (R_levels (map log_level_text ls))"
    and "j \<noteq> i \<Longrightarrow> is_segment j \<Longrightarrow> snd (serve fx c (getObservedServiceLogFilter j) d') = snd (serve fx c (getObservedServiceLogFilter j) d)"
  using assms
  by (auto simp: levels_save_def serve_rules set_log_filter_def ok_def levels_json_def get_strings_def comp_def map_of_update Let_def)

lemma levels_toggled:
  assumes "lv_draft s = Some ls"
  shows "\<exists>ls'. lv_draft (levels_toggle l s) = Some ls' \<and> set ls' = (if l \<in> set ls then set ls - {l} else insert l (set ls))
    \<and> (distinct ls \<longrightarrow> distinct ls')"
  using assms by (auto simp: levels_toggle_def)

section \<open>The paths a service leaves out\<close>

record exclusions_panel =
  ex_draft :: string
  ex_saved :: string
  ex_saving :: bool
  ex_error :: "string option"
  ex_toasts :: "string list"

definition exclusions_mounted :: "string list \<Rightarrow> exclusions_panel" where
  "exclusions_mounted paths =
     \<lparr>ex_draft = join_with [CHR 10] paths, ex_saved = join_with [CHR 10] paths, ex_saving = False, ex_error = None, ex_toasts = []\<rparr>"

definition exclusion_paths :: "string \<Rightarrow> string list" where
  "exclusion_paths draft = filter (\<lambda>p. p \<noteq> []) (map js_trim (split_on (CHR 10) draft))"

definition exclusions_save :: "string \<Rightarrow> exclusions_panel \<Rightarrow> exclusions_panel \<times> string list api_call" where
  "exclusions_save i s =
     (s\<lparr>ex_saving := True, ex_error := None\<rparr>, setObservedServiceApiExclusions i (exclusion_paths (ex_draft s)))"

definition exclusions_settled :: "thrown + string list \<Rightarrow> exclusions_panel \<Rightarrow> exclusions_panel" where
  "exclusions_settled r s =
     (case r of
        Inr paths \<Rightarrow>
          s\<lparr>ex_draft := join_with [CHR 10] paths, ex_saved := join_with [CHR 10] paths,
            ex_toasts := ex_toasts s @ [(''API '' @ [CHR 0xEC, CHR 0xA0, CHR 0x9C, CHR 0xEC, CHR 0x99, CHR 0xB8] @ '' '' @ [CHR 0xEA, CHR 0xB2, CHR 0xBD, CHR 0xEB, CHR 0xA1, CHR 0x9C, CHR 0xEB, CHR 0xA5, CHR 0xBC] @ '' '' @ [CHR 0xEC, CHR 0xA0, CHR 0x80, CHR 0xEC, CHR 0x9E, CHR 0xA5, CHR 0xED, CHR 0x96, CHR 0x88, CHR 0xEC, CHR 0x8A, CHR 0xB5, CHR 0xEB, CHR 0x8B, CHR 0x88, CHR 0xEB, CHR 0x8B, CHR 0xA4] @ ''.'')], ex_saving := False\<rparr>
      | Inl e \<Rightarrow> s\<lparr>ex_error := Some (getErrorMessage e), ex_toasts := ex_toasts s @ [getErrorMessage e], ex_saving := False\<rparr>)"

definition can_save_exclusions :: "exclusions_panel \<Rightarrow> bool" where
  "can_save_exclusions s \<longleftrightarrow> ex_draft s \<noteq> ex_saved s"

lemma split_on_free_all: "x \<in> set (split_on c s) \<Longrightarrow> c \<notin> set x"
  by (induction s arbitrary: x) (auto split: if_splits list.splits)

lemma js_trim_subset: "set (js_trim s) \<subseteq> set s"
  by (auto simp: js_trim_def dest!: set_dropWhileD)

text \<open>The normal form of the paths is read back as itself.\<close>

lemma exclusion_paths_normal: "exclusion_paths (join_with [CHR 10] (exclusion_paths draft)) = exclusion_paths draft"
proof (cases "exclusion_paths draft = []")
  case True
  then show ?thesis by (simp add: exclusion_paths_def js_trim_def)
next
  case False
  have "list_all (\<lambda>x. CHR 10 \<notin> set x) (exclusion_paths draft)"
    using js_trim_subset split_on_free_all by (fastforce simp: exclusion_paths_def list_all_iff)
  then have "split_on (CHR 10) (join_with [CHR 10] (exclusion_paths draft)) = exclusion_paths draft"
    using False by (rule split_join [rotated])
  moreover have "map js_trim (exclusion_paths draft) = exclusion_paths draft"
    by (rule map_idI) (auto simp: exclusion_paths_def)
  ultimately show ?thesis by (simp add: exclusion_paths_def [of "join_with _ _"]) (auto simp: exclusion_paths_def filter_id_conv)
qed

text \<open>The demo server stores exactly the trimmed non-empty lines with the service, and the panel, saved,
  shows them and sends them again unchanged.\<close>

theorem exclusions_exact:
  assumes "is_segment i" "find_by os_id (db_observed d) i = Some row" "serve fx c (snd (exclusions_save i s)) d = (d', r)"
  shows "r = Inr (R_paths (exclusion_paths (ex_draft s)))"
    and "find_by os_id (db_observed d') j
      = (if j = i then Some (row\<lparr>os_apiExcludePaths := Some (exclusion_paths (ex_draft s))\<rparr>) else find_by os_id (db_observed d) j)"
    and "snd (serve fx c (getObservedServiceApiExclusions i) d') = r"
    and "exclusion_paths (ex_draft (exclusions_settled (Inr (exclusion_paths (ex_draft s))) s)) = exclusion_paths (ex_draft s)"
    and "\<not> can_save_exclusions (exclusions_settled (Inr (exclusion_paths (ex_draft s))) s)"
proof -
  have p: "or_default (get_strings (paths_json ps) ''paths'') [] = ps" for ps
    by (simp add: paths_json_def get_strings_def comp_def)
  have n: "filter (\<lambda>p. p \<noteq> []) (exclusion_paths (ex_draft s)) = exclusion_paths (ex_draft s)" by (simp add: exclusion_paths_def)
  have run: "(d', r) = (case set_api_exclusions i (paths_json (exclusion_paths (ex_draft s))) d of (d', m) \<Rightarrow> (d', Inr m))"
    using assms(1,3) by (cases "set_api_exclusions i (paths_json (exclusion_paths (ex_draft s))) d") (auto simp: exclusions_save_def serve_rules ok_def)
  show r: "r = Inr (R_paths (exclusion_paths (ex_draft s)))"
    using run by (simp add: set_api_exclusions_def p n Let_def)
  show "find_by os_id (db_observed d') j
      = (if j = i then Some (row\<lparr>os_apiExcludePaths := Some (exclusion_paths (ex_draft s))\<rparr>) else find_by os_id (db_observed d) j)"
    using run assms(2) by (auto simp: set_api_exclusions_def p n Let_def table_rules)
  show "snd (serve fx c (getObservedServiceApiExclusions i) d') = r"
    unfolding r using run assms(1) by (simp add: serve_rules set_api_exclusions_def p n Let_def map_of_update)
  show "exclusion_paths (ex_draft (exclusions_settled (Inr (exclusion_paths (ex_draft s))) s)) = exclusion_paths (ex_draft s)"
    by (simp add: exclusions_settled_def exclusion_paths_normal)
  show "\<not> can_save_exclusions (exclusions_settled (Inr (exclusion_paths (ex_draft s))) s)"
    by (simp add: exclusions_settled_def can_save_exclusions_def)
qed

end
