(* ===== verification/EU_Infra.thy ===== *)
theory EU_Infra imports EU_Answers EU_Status EU_Charts EU_Nav
begin

text \<open>
  The metrics of a host: \<open>utils/systemTransform.ts\<close> (gauges and charts from what the server reports),
  \<open>hooks/useInfra.ts\<close>, \<open>features/infra/components/InfraGauges.tsx\<close> and \<open>InfraTrends.tsx\<close>, and the list
  of collectors, \<open>pages/capabilities/InfrastructurePage.tsx\<close>.
\<close>

section \<open>Gauges and charts (systemTransform)\<close>

datatype resource_status = Rs_healthy | Rs_warning | Rs_critical

definition systemStatus :: "system_info \<Rightarrow> resource_status" where
  "systemStatus info =
     (let mx = max (cpu_usage (si_cpu info)) (max (mem_usage (si_memory info)) (disk_usage (si_disk info))) in
      if mx \<ge> 90 then Rs_critical else if mx \<ge> 80 then Rs_warning else Rs_healthy)"

record gauge =
  ga_label :: string
  ga_percentage :: rat
  ga_color :: string
  ga_subtitle :: string
  ga_spark :: "rat list option"
  ga_displayValue :: "string option"
  ga_displayUnit :: "string option"

definition NETWORK_FULL_SCALE_MBPS :: rat where
  "NETWORK_FULL_SCALE_MBPS = 125"

definition capacity :: "rat \<Rightarrow> rat \<Rightarrow> string" where
  "capacity used tot = (if tot > 0 then to_fixed 1 used @ '' GB / '' @ to_fixed 1 tot @ '' GB'' else [])"

definition formatThroughput :: "rat \<Rightarrow> string \<times> string" where
  "formatThroughput v =
     (if v < 0 then (''0'', ''KB/s'')
      else if v \<ge> 1024 then (to_fixed 2 (v / 1024), ''GB/s'')
      else if v \<ge> 1 then (to_fixed 2 v, ''MB/s'')
      else (to_fixed 0 (v * 1024), ''KB/s''))"

definition throughput_text :: "rat \<Rightarrow> string" where
  "throughput_text v = fst (formatThroughput v) @ '' '' @ snd (formatThroughput v)"

definition network_percentage :: "rat \<Rightarrow> int" where
  "network_percentage v = max 0 (min 100 (math_round (v / NETWORK_FULL_SCALE_MBPS * 100)))"

definition systemInfoToGauges :: "system_info \<Rightarrow> system_metrics_history option \<Rightarrow> gauge list" where
  "systemInfoToGauges info history =
     (let pts = (case history of Some h \<Rightarrow> smh_points h | None \<Rightarrow> []);
          netIn = net_in (si_network info); netOut = net_out (si_network info); total = netIn + netOut
      in [\<lparr>ga_label = ''CPU'', ga_percentage = cpu_usage (si_cpu info), ga_color = hex_primary SERIES_HEX,
           ga_subtitle = (if cpu_cores (si_cpu info) > 0 then ([CHR 0xEC, CHR 0xBD, CHR 0x94, CHR 0xEC, CHR 0x96, CHR 0xB4] @ '' '') @ show_int (cpu_cores (si_cpu info)) @ [CHR 0xEA, CHR 0xB0, CHR 0x9C] else []),
           ga_spark = Some (map smp_cpu pts), ga_displayValue = None, ga_displayUnit = None\<rparr>,
          \<lparr>ga_label = [CHR 0xEB, CHR 0xA9, CHR 0x94, CHR 0xEB, CHR 0xAA, CHR 0xA8, CHR 0xEB, CHR 0xA6, CHR 0xAC], ga_percentage = mem_usage (si_memory info), ga_color = hex_emerald SERIES_HEX,
           ga_subtitle = capacity (mem_used (si_memory info)) (mem_total (si_memory info)),
           ga_spark = None, ga_displayValue = None, ga_displayUnit = None\<rparr>,
          \<lparr>ga_label = [CHR 0xEB, CHR 0x94, CHR 0x94, CHR 0xEC, CHR 0x8A, CHR 0xA4, CHR 0xED, CHR 0x81, CHR 0xAC], ga_percentage = disk_usage (si_disk info), ga_color = hex_amber SERIES_HEX,
           ga_subtitle = capacity (disk_used (si_disk info)) (disk_total (si_disk info)),
           ga_spark = None, ga_displayValue = None, ga_displayUnit = None\<rparr>,
          \<lparr>ga_label = [CHR 0xEB, CHR 0x84, CHR 0xA4, CHR 0xED, CHR 0x8A, CHR 0xB8, CHR 0xEC, CHR 0x9B, CHR 0x8C, CHR 0xED, CHR 0x81, CHR 0xAC], ga_percentage = of_int (network_percentage total), ga_color = hex_teal SERIES_HEX,
           ga_subtitle = ''In '' @ throughput_text netIn @ ('' '' @ [CHR 0xC2, CHR 0xB7] @ '' Out '') @ throughput_text netOut,
           ga_spark = Some (map (\<lambda>p. smp_netIn p + smp_netOut p) pts),
           ga_displayValue = Some (fst (formatThroughput total)), ga_displayUnit = Some (snd (formatThroughput total))\<rparr>])"

text \<open>\<open>parseFloat(x.toFixed(2))\<close>: two decimals, ties away from zero.\<close>

definition fixed2 :: "rat \<Rightarrow> rat" where
  "fixed2 x = sgn x * of_int (math_round (\<bar>x\<bar> * 100)) / 100"

record infra_row =
  iw_t :: "int option"
  iw_cpu :: int
  iw_memUsage :: int
  iw_diskUsage :: int
  iw_netIn :: rat
  iw_netOut :: rat

definition infra_history_row :: "system_metric_point \<Rightarrow> infra_row" where
  "infra_history_row p =
     \<lparr>iw_t = date_parse (smp_timestamp p), iw_cpu = math_round (smp_cpu p), iw_memUsage = math_round (smp_memUsage p),
      iw_diskUsage = math_round (smp_diskUsage p), iw_netIn = fixed2 (smp_netIn p), iw_netOut = fixed2 (smp_netOut p)\<rparr>"

definition now_row :: "int \<Rightarrow> system_info \<Rightarrow> infra_row" where
  "now_row now info =
     \<lparr>iw_t = Some now, iw_cpu = math_round (cpu_usage (si_cpu info)), iw_memUsage = math_round (mem_usage (si_memory info)),
      iw_diskUsage = math_round (disk_usage (si_disk info)), iw_netIn = fixed2 (net_in (si_network info)),
      iw_netOut = fixed2 (net_out (si_network info))\<rparr>"

datatype infra_key = K_cpu | K_memUsage | K_diskUsage | K_netIn | K_netOut

fun row_value :: "infra_key \<Rightarrow> infra_row \<Rightarrow> rat" where
  "row_value K_cpu r = of_int (iw_cpu r)"
| "row_value K_memUsage r = of_int (iw_memUsage r)"
| "row_value K_diskUsage r = of_int (iw_diskUsage r)"
| "row_value K_netIn r = iw_netIn r"
| "row_value K_netOut r = iw_netOut r"

record infra_series =
  is_key :: infra_key
  is_label :: string
  is_color :: string

record infra_chart =
  ic_title :: string
  ic_unit :: string
  ic_yMax :: "rat option"
  ic_data :: "infra_row list"
  ic_series :: "infra_series list"

definition chart_rows :: "int \<Rightarrow> system_metrics_history \<Rightarrow> system_info option \<Rightarrow> infra_row list" where
  "chart_rows now history info =
     map infra_history_row (smh_points history) @ (case info of Some i \<Rightarrow> [now_row now i] | None \<Rightarrow> [])"

definition usage_chart :: "string \<Rightarrow> infra_key \<Rightarrow> infra_row list \<Rightarrow> infra_chart" where
  "usage_chart title k rows =
     \<lparr>ic_title = title, ic_unit = ''%'', ic_yMax = Some 100, ic_data = rows,
      ic_series = [\<lparr>is_key = k, is_label = [CHR 0xEC, CHR 0x82, CHR 0xAC, CHR 0xEC, CHR 0x9A, CHR 0xA9, CHR 0xEB, CHR 0xA5, CHR 0xA0], is_color = hex_primary SERIES_HEX\<rparr>]\<rparr>"

definition historyToCharts :: "int \<Rightarrow> system_metrics_history \<Rightarrow> system_info option \<Rightarrow> infra_chart list" where
  "historyToCharts now history info =
     (if smh_points history = [] \<and> info = None then []
      else let rows = chart_rows now history info in
        [usage_chart ''CPU'' K_cpu rows, usage_chart [CHR 0xEB, CHR 0xA9, CHR 0x94, CHR 0xEB, CHR 0xAA, CHR 0xA8, CHR 0xEB, CHR 0xA6, CHR 0xAC] K_memUsage rows, usage_chart [CHR 0xEB, CHR 0x94, CHR 0x94, CHR 0xEC, CHR 0x8A, CHR 0xA4, CHR 0xED, CHR 0x81, CHR 0xAC] K_diskUsage rows,
         \<lparr>ic_title = [CHR 0xEB, CHR 0x84, CHR 0xA4, CHR 0xED, CHR 0x8A, CHR 0xB8, CHR 0xEC, CHR 0x9B, CHR 0x8C, CHR 0xED, CHR 0x81, CHR 0xAC], ic_unit = ''MB/s'', ic_yMax = None, ic_data = rows,
          ic_series = [\<lparr>is_key = K_netIn, is_label = ''In'', is_color = hex_primary SERIES_HEX\<rparr>,
                       \<lparr>is_key = K_netOut, is_label = ''Out'', is_color = hex_emerald SERIES_HEX\<rparr>]\<rparr>])"

section \<open>Reading them (useInfraMetrics)\<close>

text \<open>Each of the three requests may fail on its own; the sparkline always shows six hours.\<close>

definition infra_requests :: "string \<Rightarrow> string list" where
  "infra_requests rng = (if rng = ''6h'' then [rng] else [rng, ''6h''])"

definition infra_metrics ::
  "int \<Rightarrow> string \<Rightarrow> thrown + system_info \<Rightarrow> (string \<Rightarrow> thrown + system_metrics_history) \<Rightarrow> gauge list \<times> infra_chart list" where
  "infra_metrics now rng info history =
     (let got = (\<lambda>r. case r of Inr x \<Rightarrow> Some x | Inl _ \<Rightarrow> None);
          info' = (case info of Inr i \<Rightarrow> Some i | Inl _ \<Rightarrow> None);
          main = got (history rng); spark = (if rng = ''6h'' then main else got (history ''6h''))
      in (case info' of Some i \<Rightarrow> systemInfoToGauges i spark | None \<Rightarrow> [],
          case main of Some h \<Rightarrow> historyToCharts now h info' | None \<Rightarrow> []))"

section \<open>What is drawn (InfraGauges, InfraTrends)\<close>

definition CRITICAL_PCT :: rat where
  "CRITICAL_PCT = 85"

definition clampPercent :: "rat \<Rightarrow> int" where
  "clampPercent v = max 0 (min 100 (math_round v))"

record gauge_card =
  gc_critical :: bool
  gc_value :: string
  gc_unit :: string
  gc_line :: bool
  gc_width :: int

definition gauge_card_of :: "gauge \<Rightarrow> gauge_card" where
  "gauge_card_of g =
     (let pct = clampPercent (ga_percentage g) in
      \<lparr>gc_critical = (of_int pct \<ge> CRITICAL_PCT), gc_value = (case ga_displayValue g of Some v \<Rightarrow> v | None \<Rightarrow> show_int pct),
       gc_unit = (case ga_displayUnit g of Some v \<Rightarrow> v | None \<Rightarrow> ''%''),
       gc_line = (case ga_spark g of Some vs \<Rightarrow> length vs > 1 | None \<Rightarrow> False), gc_width = pct\<rparr>)"

datatype trend_range = R_1h | R_6h | R_24h

fun RANGE_MS :: "trend_range \<Rightarrow> int" where
  "RANGE_MS R_1h = 3600000"
| "RANGE_MS R_6h = 21600000"
| "RANGE_MS R_24h = 86400000"

fun metricBySeries :: "infra_key \<Rightarrow> alert_metric option" where
  "metricBySeries K_cpu = Some Me_cpu"
| "metricBySeries K_memUsage = Some Me_memory"
| "metricBySeries K_diskUsage = Some Me_disk"
| "metricBySeries K_netIn = None"
| "metricBySeries K_netOut = None"

definition infra_rules :: "alert_rule list \<Rightarrow> string \<Rightarrow> alert_rule list" where
  "infra_rules all hostId = useAlertThresholds all (AT_infrastructure hostId) [Me_cpu, Me_memory, Me_disk] None"

text \<open>An unreadable instant (\<open>NaN\<close>) makes the last one, and with it the window, unreadable.\<close>

definition last_instant :: "infra_chart list \<Rightarrow> int option" where
  "last_instant charts =
     (let ts = concat (map (\<lambda>c. map iw_t (ic_data c)) charts) in
      if None \<in> set ts then None else Some (fold max (map the ts) 0))"

definition trend_domain :: "trend_range \<Rightarrow> infra_chart list \<Rightarrow> (int \<times> int) option" where
  "trend_domain rng charts = map_option (\<lambda>t. (t - RANGE_MS rng, t)) (last_instant charts)"

definition chart_thresholds :: "alert_rule list \<Rightarrow> infra_chart \<Rightarrow> alert_rule list" where
  "chart_thresholds rules chart =
     filter (\<lambda>r. Some (ar_metric r) = (case ic_series chart of s # _ \<Rightarrow> metricBySeries (is_key s) | [] \<Rightarrow> None)) rules"

definition all_values :: "infra_chart \<Rightarrow> rat list" where
  "all_values chart = concat (map (\<lambda>s. map (row_value (is_key s)) (ic_data chart)) (ic_series chart))"

definition max_value :: "infra_chart \<Rightarrow> rat" where
  "max_value chart = (case all_values chart of [] \<Rightarrow> 0 | v # vs \<Rightarrow> fold max vs v)"

definition trend_empty :: "infra_chart \<Rightarrow> bool" where
  "trend_empty chart \<longleftrightarrow> ic_data chart = [] \<or> max_value chart < 1 / 1000"

definition trend_top :: "infra_chart \<Rightarrow> rat list \<Rightarrow> rat" where
  "trend_top chart thresholds = fold max thresholds (case ic_yMax chart of Some m \<Rightarrow> m | None \<Rightarrow> max_value chart)"

definition trend_axis :: "infra_chart \<Rightarrow> rat list \<Rightarrow> nice_axis" where
  "trend_axis chart thresholds = niceYAxis (trend_top chart thresholds)"

datatype trend_head = Th_none | Th_summary "rat list" string | Th_legend "(string \<times> string) list"

definition trend_right :: "infra_chart \<Rightarrow> trend_head" where
  "trend_right chart =
     (if trend_empty chart then Th_none
      else case ic_series chart of
          [s] \<Rightarrow> Th_summary (map (row_value (is_key s)) (ic_data chart)) (ic_unit chart)
        | ss \<Rightarrow> Th_legend (map (\<lambda>s. (is_label s, is_color s)) ss))"

section \<open>The list of collectors (InfrastructurePage)\<close>

datatype collection_state = Ct_stopped | Ct_waiting | Ct_collecting | Ct_delayed

definition resourceCollectionStatus :: "int \<Rightarrow> infrastructure_resource \<Rightarrow> collection_state" where
  "resourceCollectionStatus now r =
     (if \<not> ir_isActive r then Ct_stopped
      else if \<not> truthy (ir_lastSeenAt r) then Ct_waiting
      else if isCollectorFresh now (ir_lastSeenAt r) then Ct_collecting else Ct_delayed)"

text \<open>The text of a usage value and whether it is marked as critical.\<close>

definition UsageValue :: "rat option \<Rightarrow> string \<times> bool" where
  "UsageValue v =
     (case v of
        None \<Rightarrow> (''-'', False)
      | Some x \<Rightarrow> (to_fixed 1 x @ ''%'', \<not> x < CRITICAL_PCT))"

record infra_list =
  il_resources :: "infrastructure_resource list"
  il_loading :: bool
  il_error :: "string option"
  il_run :: nat
  il_reads :: "nat list"

definition infra_list_effect :: "infra_list \<Rightarrow> infra_list" where
  "infra_list_effect s = s\<lparr>il_run := Suc (il_run s), il_reads := il_reads s @ [Suc (il_run s)]\<rparr>"

definition infra_list_mounted :: infra_list where
  "infra_list_mounted = infra_list_effect \<lparr>il_resources = [], il_loading = True, il_error = None, il_run = 0, il_reads = []\<rparr>"

definition infra_list_answered :: "nat \<Rightarrow> thrown + infrastructure_resource list \<Rightarrow> infra_list \<Rightarrow> infra_list" where
  "infra_list_answered n r s =
     (let s = s\<lparr>il_reads := remove1 n (il_reads s)\<rparr> in
      if n \<noteq> il_run s then s
      else (case r of
          Inr rows \<Rightarrow> s\<lparr>il_resources := filter (\<lambda>r. ir_adapter r = Ad_otel_collector) rows, il_loading := False\<rparr>
        | Inl e \<Rightarrow> s\<lparr>il_error := Some (getErrorMessage e), il_loading := False\<rparr>))"

inductive infra_list_step :: "infra_list \<Rightarrow> infra_list \<Rightarrow> bool" where
  reload: "infra_list_step s (infra_list_effect s)"
| answered: "n \<in> set (il_reads s) \<Longrightarrow> (\<And>e. r = Inl e \<Longrightarrow> getErrorMessage e \<noteq> []) \<Longrightarrow> infra_list_step s (infra_list_answered n r s)"

datatype infra_list_shown = Is_skeleton | Is_failed string | Is_none | Is_rows "infrastructure_resource list"

definition infra_list_view :: "infra_list \<Rightarrow> infra_list_shown" where
  "infra_list_view s =
     (if il_loading s then Is_skeleton
      else if truthy (il_error s) then Is_failed (the (il_error s))
      else if il_resources s = [] then Is_none else Is_rows (il_resources s))"

section \<open>What the charts show\<close>

lemma fold_max_ge: "(m :: 'a :: linorder) \<le> fold max xs m" "x \<in> set xs \<Longrightarrow> x \<le> fold max xs m"
proof -
  show ge: "m \<le> fold max xs m" for m :: 'a and xs
  proof (induction xs arbitrary: m)
    case (Cons y ys)
    have "m \<le> max y m" by simp
    also have "\<dots> \<le> fold max ys (max y m)" by (rule Cons)
    finally show ?case by simp
  qed simp
  show "x \<in> set xs \<Longrightarrow> x \<le> fold max xs m"
  proof (induction xs arbitrary: m)
    case (Cons y ys)
    have "y \<le> fold max ys (max y m)" using ge [of "max y m" ys] by simp
    then show ?case using Cons by auto
  qed simp
qed

lemma fold_max_in: "fold max xs (m :: 'a :: linorder) \<in> insert m (set xs)"
proof (induction xs arbitrary: m)
  case (Cons x xs)
  show ?case using Cons [of "max x m"] by (auto simp: max_def)
qed simp

lemma max_value_ge: "v \<in> set (all_values chart) \<Longrightarrow> v \<le> max_value chart"
  by (cases "all_values chart") (auto simp: max_value_def fold_max_ge)

lemma max_value_in: "all_values chart \<noteq> [] \<Longrightarrow> max_value chart \<in> set (all_values chart)"
  using fold_max_in by (cases "all_values chart") (fastforce simp: max_value_def)+

text \<open>Every threshold line, and every value of a chart without a fixed top, lies under the top of the axis,
  up to a billionth of its step.\<close>

theorem trend_covers:
  assumes "v \<in> set thresholds \<or> ic_yMax chart = None \<and> v \<in> set (all_values chart) \<or> (\<exists>m. ic_yMax chart = Some m \<and> v \<le> m)"
    and "0 < trend_top chart thresholds"
  shows "v - nice_step (trend_top chart thresholds) 4 / 10 ^ 9 \<le> snd (na_domain (trend_axis chart thresholds))"
proof -
  have "v \<le> trend_top chart thresholds"
    using assms(1) max_value_ge [of v chart] fold_max_ge [where xs = thresholds]
    unfolding trend_top_def by (auto intro: order_trans)
  moreover have "snd (na_domain (trend_axis chart thresholds)) = last (niceTicks (trend_top chart thresholds) 4)"
    by (simp add: trend_axis_def niceYAxis_top)
  ultimately show ?thesis using niceTicks_spec(3) [OF assms(2), of 4] by simp
qed

text \<open>A window of readable instants ends at the last row, and holds a row exactly when it is no older than
  the chosen range.\<close>

theorem trend_window:
  assumes "trend_domain rng charts = Some (a, b)" "chart \<in> set charts" "row \<in> set (ic_data chart)" "iw_t row = Some t"
  shows "t \<le> b" "a \<le> t \<longleftrightarrow> b - t \<le> RANGE_MS rng"
proof -
  have b: "last_instant charts = Some b" "a = b - RANGE_MS rng" using assms(1) by (auto simp: trend_domain_def)
  then have "b = fold max (map the (concat (map (\<lambda>c. map iw_t (ic_data c)) charts))) 0"
    by (simp add: last_instant_def Let_def split: if_splits)
  moreover have "t \<in> set (map the (concat (map (\<lambda>c. map iw_t (ic_data c)) charts)))"
    using assms(2-4) by (force simp: image_iff)
  ultimately show "t \<le> b" using fold_max_ge(2) by blast
  show "a \<le> t \<longleftrightarrow> b - t \<le> RANGE_MS rng" using b(2) by auto
qed

text \<open>The rows of every chart are the points of the history in their order and then the values of now.\<close>

theorem charts_exact:
  assumes "chart \<in> set (historyToCharts now h info)"
  shows "ic_data chart = map infra_history_row (smh_points h) @ map (now_row now) (case info of Some i \<Rightarrow> [i] | None \<Rightarrow> [])"
    "ic_data chart \<noteq> []" "\<And>r. r \<in> set (chart_thresholds rules chart) \<Longrightarrow> ic_unit chart = ''%''"
  using assms
  by (auto simp: historyToCharts_def chart_rows_def usage_chart_def chart_thresholds_def Let_def split: option.splits if_splits)

text \<open>The thresholds of one usage chart are exactly the enabled rules of that metric on this host.\<close>

theorem thresholds_exact:
  assumes "(k, m) \<in> {(K_cpu, Me_cpu), (K_memUsage, Me_memory), (K_diskUsage, Me_disk)}"
  shows "r \<in> set (chart_thresholds (infra_rules all hostId) (usage_chart title k rows))
    \<longleftrightarrow> r \<in> set all \<and> ar_isEnabled r \<and> ar_metric r = m \<and> matchesAlertTarget r (AT_infrastructure hostId)"
  using assms by (auto simp: chart_thresholds_def infra_rules_def useAlertThresholds_def usage_chart_def)

text \<open>Traffic under five kilobytes a second is rounded to nothing, and the chart says there is no data.\<close>

definition quiet_rate :: "rat \<Rightarrow> bool" where
  "quiet_rate x \<longleftrightarrow> 0 \<le> x \<and> x < 1 / 200"

lemma fixed2_quiet: "quiet_rate x \<Longrightarrow> fixed2 x = 0"
proof -
  assume "quiet_rate x"
  then have "\<lfloor>x * 100 + 1 / 2\<rfloor> = 0" by (simp add: quiet_rate_def floor_eq_iff)
  then show ?thesis using \<open>quiet_rate x\<close> by (simp add: fixed2_def quiet_rate_def math_round_def)
qed

theorem quiet_network_empty:
  assumes "\<forall>p \<in> set (smh_points h). quiet_rate (smp_netIn p) \<and> quiet_rate (smp_netOut p)"
    and "\<forall>i. info = Some i \<longrightarrow> quiet_rate (net_in (si_network i)) \<and> quiet_rate (net_out (si_network i))"
    and "historyToCharts now h info = [a, b, c, chart]"
  shows "trend_empty chart"
proof -
  have "v = 0" if "v \<in> set (all_values chart)" for v
    using that assms
    by (cases info) (auto simp: historyToCharts_def chart_rows_def all_values_def infra_history_row_def now_row_def fixed2_quiet Let_def split: if_splits)
  then have "max_value chart = 0"
    using max_value_in [of chart] by (cases "all_values chart = []") (auto simp: max_value_def)
  then show ?thesis by (simp add: trend_empty_def)
qed

text \<open>Network load is a percentage of the full scale, and the gauges are clamped.\<close>

lemma gauge_bounds:
  "0 \<le> network_percentage v \<and> network_percentage v \<le> 100" "0 \<le> clampPercent v \<and> clampPercent v \<le> 100"
  "v \<le> w \<Longrightarrow> network_percentage v \<le> network_percentage w"
proof -
  show "v \<le> w \<Longrightarrow> network_percentage v \<le> network_percentage w"
    using math_round_mono [of "v / 125 * 100" "w / 125 * 100"]
    by (simp add: network_percentage_def NETWORK_FULL_SCALE_MBPS_def divide_right_mono)
qed (simp_all add: network_percentage_def clampPercent_def)

text \<open>The list and the gauge do not draw the same line: from 84.5 the gauge is critical, the list from 85.\<close>

theorem critical_lines_differ:
  assumes "169 / 2 \<le> v" "v < 85" "ga_percentage g = v"
  shows "gc_critical (gauge_card_of g)" "\<not> snd (UsageValue (Some v))"
proof -
  have "\<lfloor>v + 1 / 2\<rfloor> = 85" using assms by (simp add: floor_eq_iff)
  then show "gc_critical (gauge_card_of g)" "\<not> snd (UsageValue (Some v))"
    using assms by (simp_all add: gauge_card_of_def clampPercent_def math_round_def CRITICAL_PCT_def UsageValue_def Let_def)
qed

section \<open>The list after a failure\<close>

text \<open>Nothing clears the error of the list: once a read has failed, the page shows the failure for good,
  however often it is asked to try again and whatever is answered.\<close>

lemma error_stays: "infra_list_step s s' \<Longrightarrow> truthy (il_error s) \<and> \<not> il_loading s \<Longrightarrow> truthy (il_error s') \<and> \<not> il_loading s'"
proof (induction rule: infra_list_step.induct)
  case (answered n s r)
  then show ?case by (cases r) (simp_all add: infra_list_answered_def Let_def)
qed (simp add: infra_list_effect_def)

theorem retry_never_recovers:
  assumes "infra_list_view s = Is_failed m" "infra_list_step\<^sup>*\<^sup>* s s'"
  shows "\<exists>m'. infra_list_view s' = Is_failed m'"
proof -
  have "truthy (il_error s) \<and> \<not> il_loading s" using assms(1) by (auto simp: infra_list_view_def split: if_splits)
  with assms(2) have "truthy (il_error s') \<and> \<not> il_loading s'"
    by (induction rule: rtranclp_induct) (auto dest: error_stays)
  then show ?thesis by (simp add: infra_list_view_def)
qed

lemma retry_never_recovers_example:
  "infra_list_view (infra_list_answered 2 (Inr [r]) (infra_list_effect (infra_list_answered 1 (Inl (ApiError ''x'' [] None)) infra_list_mounted)))
    = Is_failed ''x''"
  by (simp add: infra_list_view_def infra_list_answered_def infra_list_effect_def infra_list_mounted_def getErrorMessage_def Let_def)

end
