(* ===== verification/EU_MetricsTab.thy ===== *)
theory EU_MetricsTab imports EU_MetricRead EU_Metrics EU_JsonText EU_Infra
begin

text \<open>
  The metrics of one service (\<open>features/healthcheck/components/AgentServiceMetricsTab.tsx\<close>): the list read from the
  server, the pins kept in \<open>localStorage\<close>, the groups of charts, and the metric opened through the address; and
  what one chart draws (\<open>features/metrics/MetricChart.tsx\<close>); and what the list of services says of their metrics
  (\<open>features/metrics/MetricServices.tsx\<close>).  Values are exact, so \<open>toPrecision(12)\<close>, which removes rounding noise,
  changes nothing.
\<close>

section \<open>The panel\<close>

fun source_json :: "metric_source \<Rightarrow> json" where
  "source_json (Source_agent a k) = JObj [(''kind'', JStr ''agent''), (''agentId'', JStr a), (''serviceKey'', JStr k)]"
| "source_json (Source_direct i) = JObj [(''kind'', JStr ''direct''), (''observedServiceId'', JStr i)]"

definition pin_storage_key :: "metric_source \<Rightarrow> string" where
  "pin_storage_key s = ''everyup:metric-pins:'' @ stringify (source_json s)"

text \<open>The pins of a stored text (\<open>None\<close> when there is none or the storage cannot be read).\<close>

definition stored_pins :: "string option \<Rightarrow> string list" where
  "stored_pins t =
     (case json_parse (case t of Some x \<Rightarrow> x | None \<Rightarrow> ''[]'') of
        Some (JArr vs) \<Rightarrow> take 4 (concat (map (\<lambda>v. case v of JStr s \<Rightarrow> [s] | _ \<Rightarrow> []) vs))
      | _ \<Rightarrow> [])"

record metrics_panel =
  mt_source :: metric_source
  mt_health :: "otel_metric_health option"
  mt_loading :: bool
  mt_error :: "string option"
  mt_run :: nat
  mt_reads :: "nat list"
  mt_limit :: nat
  mt_hovered :: "string option"
  mt_pins :: "string list"
  mt_stored :: "string option"
  mt_address :: search_params

definition metrics_effect :: "metrics_panel \<Rightarrow> metrics_panel" where
  "metrics_effect s =
     s\<lparr>mt_loading := True, mt_error := None, mt_run := Suc (mt_run s), mt_reads := mt_reads s @ [Suc (mt_run s)]\<rparr>"

definition metrics_mounted :: "metric_source \<Rightarrow> string option \<Rightarrow> search_params \<Rightarrow> metrics_panel" where
  "metrics_mounted src stored ps = metrics_effect
     \<lparr>mt_source = src, mt_health = None, mt_loading = True, mt_error = None, mt_run = 0, mt_reads = [], mt_limit = 12,
      mt_hovered = None, mt_pins = stored_pins stored, mt_stored = stored, mt_address = ps\<rparr>"

definition health_call :: "metric_source \<Rightarrow> otel_metric_health api_call" where
  "health_call src =
     (case src of Source_agent a k \<Rightarrow> getAgentServiceMetricHealth a k | Source_direct i \<Rightarrow> getObservedServiceMetricHealth i)"

definition health_answered :: "nat \<Rightarrow> thrown + otel_metric_health \<Rightarrow> metrics_panel \<Rightarrow> metrics_panel" where
  "health_answered n r s =
     (let s = s\<lparr>mt_reads := remove1 n (mt_reads s)\<rparr> in
      if n \<noteq> mt_run s then s
      else case r of
          Inr h \<Rightarrow> s\<lparr>mt_health := Some h, mt_loading := False\<rparr>
        | Inl e \<Rightarrow> s\<lparr>mt_error := Some (getErrorMessage e), mt_loading := False\<rparr>)"

text \<open>\<open>writable\<close>: whether the storage takes the write.\<close>

definition toggled_pins :: "string \<Rightarrow> string list \<Rightarrow> string list" where
  "toggled_pins i pins = (if i \<in> set pins then filter (\<lambda>p. p \<noteq> i) pins else take 4 (pins @ [i]))"

definition togglePin :: "bool \<Rightarrow> otel_metric_name \<Rightarrow> metrics_panel \<Rightarrow> metrics_panel" where
  "togglePin writable meta s =
     (let next = toggled_pins (metricIdentity meta) (mt_pins s) in
      s\<lparr>mt_pins := next, mt_stored := (if writable then Some (stringify (JArr (map JStr next))) else mt_stored s)\<rparr>)"

definition open_metric_params :: "otel_metric_name \<Rightarrow> search_params \<Rightarrow> search_params" where
  "open_metric_params meta ps = update_params
     [(''metric'', Some (mn_metricName meta)), (''metricType'', Some (metric_type_text (mn_metricType meta))),
      (''metricUnit'', if truthy (mn_unit meta) then mn_unit meta else None), (''metricAttributes'', None), (''metricSeries'', None), (''metricMode'', None)] ps"

definition close_metric_params :: "search_params \<Rightarrow> search_params" where
  "close_metric_params ps = update_params
     [(''metric'', None), (''metricType'', None), (''metricUnit'', None), (''metricAttributes'', None),
      (''metricSeries'', None), (''metricMode'', None)] ps"

definition search_metric_params :: "string option \<Rightarrow> search_params \<Rightarrow> search_params" where
  "search_metric_params v ps = update_params [(''metricSearch'', v)] ps"

section \<open>The list\<close>

text \<open>\<open>coll\<close> is the sort key of a string in the reader's locale.  The instants are compared as \<open>Date.parse\<close> reads them;
  \<open>[...].sort\<close> by a difference that is \<open>NaN\<close> is left to the engine and is not meant here.\<close>

definition panel_names :: "(string \<Rightarrow> string) \<Rightarrow> otel_metric_health \<Rightarrow> otel_metric_name list" where
  "panel_names coll h =
     sort_by (or_else (by_key (\<lambda>m. coll (mn_metricName m))) (by_key (\<lambda>m. coll (metricIdentity m)))) (mh_metrics h)"

definition latest_text :: "string option list \<Rightarrow> string option" where
  "latest_text vs =
     (case sort_by (by_key_desc (\<lambda>v. the (date_parse v))) (map the (filter truthy vs)) of v # _ \<Rightarrow> Some v | [] \<Rightarrow> None)"

definition panel_collection :: "bool \<Rightarrow> int \<Rightarrow> otel_metric_name list \<Rightarrow> metric_status" where
  "panel_collection active now names =
     metricCollection active (latest_text (map mn_lastReceivedAt names)) (latest_text (map (\<lambda>m. Some (mn_lastAt m)) names)) now"

definition metric_unit_text :: "otel_metric_name \<Rightarrow> string" where
  "metric_unit_text m = or_default (mn_unit m) []"

definition metric_matches :: "metric_query_state \<Rightarrow> otel_metric_name list \<Rightarrow> otel_metric_name list" where
  "metric_matches q names =
     filter (\<lambda>m. Some (mn_metricName m) = mqs_metric q
                 \<and> (\<not> truthy (mqs_metricType q) \<or> Some (metric_type_text (mn_metricType m)) = mqs_metricType q)
                 \<and> (\<not> truthy (mqs_metricType q) \<or> metric_unit_text m = or_default (mqs_metricUnit q) [])) names"

definition metric_opened :: "metric_query_state \<Rightarrow> otel_metric_name list \<Rightarrow> otel_metric_name option" where
  "metric_opened q names = (case metric_matches q names of [m] \<Rightarrow> Some m | _ \<Rightarrow> None)"

definition panel_flagged :: "int \<Rightarrow> otel_metric_name list \<Rightarrow> otel_metric_name list" where
  "panel_flagged now names = filter (\<lambda>m. length (metricFlags m now) > 0) names"

definition panel_visible :: "metric_query_state \<Rightarrow> otel_metric_name list \<Rightarrow> otel_metric_name list" where
  "panel_visible q names =
     filter (\<lambda>m. str_includes (to_lower (js_trim (mqs_search q)))
                   (to_lower (mn_metricName m @ '' '' @ metricTitle m @ '' '' @ or_default (mn_description m) []))) names"

definition pinned_group :: string where
  "pinned_group = ([CHR 0xEA, CHR 0xB3, CHR 0xA0, CHR 0xEC, CHR 0xA0, CHR 0x95, CHR 0xED, CHR 0x95, CHR 0x9C] @ '' '' @ [CHR 0xEC, CHR 0xA7, CHR 0x80, CHR 0xED, CHR 0x91, CHR 0x9C])"

definition panel_groups :: "string list" where
  "panel_groups = [pinned_group, ([CHR 0xEC, CHR 0x9A, CHR 0x94, CHR 0xEC, CHR 0xB2, CHR 0xAD, CHR 0xEA, CHR 0xB3, CHR 0xBC] @ '' '' @ [CHR 0xEC, CHR 0x9D, CHR 0x91, CHR 0xEB, CHR 0x8B, CHR 0xB5]), ([CHR 0xEC, CHR 0x9E, CHR 0x91, CHR 0xEC, CHR 0x97, CHR 0x85, CHR 0xEA, CHR 0xB3, CHR 0xBC] @ '' '' @ [CHR 0xEB, CHR 0xA9, CHR 0x94, CHR 0xEC, CHR 0x8B, CHR 0x9C, CHR 0xEC, CHR 0xA7, CHR 0x80]), ([CHR 0xEB, CHR 0x9F, CHR 0xB0, CHR 0xED, CHR 0x83, CHR 0x80, CHR 0xEC, CHR 0x9E, CHR 0x84, CHR 0xEA, CHR 0xB3, CHR 0xBC] @ '' '' @ [CHR 0xEB, CHR 0xA6, CHR 0xAC, CHR 0xEC, CHR 0x86, CHR 0x8C, CHR 0xEC, CHR 0x8A, CHR 0xA4]), ([CHR 0xEC, CHR 0x82, CHR 0xAC, CHR 0xEC, CHR 0x9A, CHR 0xA9, CHR 0xEC, CHR 0x9E, CHR 0x90] @ '' '' @ [CHR 0xEC, CHR 0xA0, CHR 0x95, CHR 0xEC, CHR 0x9D, CHR 0x98] @ '' '' @ [CHR 0xEC, CHR 0xA7, CHR 0x80, CHR 0xED, CHR 0x91, CHR 0x9C])]"

definition is_pinned :: "string list \<Rightarrow> otel_metric_name \<Rightarrow> bool" where
  "is_pinned pins m \<longleftrightarrow> metricIdentity m \<in> set pins"

definition groupFor :: "string list \<Rightarrow> otel_metric_name \<Rightarrow> string" where
  "groupFor pins m = (if is_pinned pins m then pinned_group else metricGroup m)"

definition panel_displayed :: "string list \<Rightarrow> nat \<Rightarrow> otel_metric_name list \<Rightarrow> otel_metric_name list" where
  "panel_displayed pins limit visible =
     filter (is_pinned pins) visible @ filter (\<lambda>m. \<not> is_pinned pins m) (take limit visible)"

definition panel_sections :: "string list \<Rightarrow> otel_metric_name list \<Rightarrow> (string \<times> otel_metric_name list) list" where
  "panel_sections pins displayed =
     filter (\<lambda>(g, ms). ms \<noteq> []) (map (\<lambda>g. (g, filter (\<lambda>m. groupFor pins m = g) displayed)) panel_groups)"

definition pin_disabled :: "string list \<Rightarrow> otel_metric_name \<Rightarrow> bool" where
  "pin_disabled pins m \<longleftrightarrow> \<not> is_pinned pins m \<and> 4 \<le> length pins"

definition more_shown :: "nat \<Rightarrow> otel_metric_name list \<Rightarrow> bool" where
  "more_shown limit visible \<longleftrightarrow> limit < length visible"

definition show_more :: "metrics_panel \<Rightarrow> metrics_panel" where
  "show_more s = s\<lparr>mt_limit := mt_limit s + 12\<rparr>"

text \<open>The rules drawn over a chart of the panel.\<close>

fun source_alert_target :: "metric_source \<Rightarrow> alert_target" where
  "source_alert_target (Source_direct i) = AT_direct i"
| "source_alert_target (Source_agent a k) = AT_agent a k"

definition panel_chart_rules :: "alert_rule list \<Rightarrow> metric_source \<Rightarrow> otel_metric_name \<Rightarrow> alert_rule list" where
  "panel_chart_rules all src meta =
     (if mn_conflicting meta = Some True then []
      else filter (\<lambda>r. ar_metricName r = Some (mn_metricName meta))
             (useAlertThresholds all (source_alert_target src) [Me_otel_metric] None))"

datatype panel_body =
  Pb_opened otel_metric_name | Pb_choice "otel_metric_name list" | Pb_not_found
| Pb_list "(string \<times> otel_metric_name list) list" bool

datatype panel_shown = Pn_loading | Pn_failed "string option" | Pn_shown panel_body

definition panel_shown :: "(string \<Rightarrow> string) \<Rightarrow> metrics_panel \<Rightarrow> panel_shown" where
  "panel_shown coll s =
     (case mt_health s of
        None \<Rightarrow> if mt_loading s then Pn_loading else Pn_failed (mt_error s)
      | Some h \<Rightarrow>
          let names = panel_names coll h; q = useMetricQuery (mt_address s); visible = panel_visible q names in
          Pn_shown (if mqs_metric q \<noteq> None
            then (case metric_matches q names of [m] \<Rightarrow> Pb_opened m | [] \<Rightarrow> Pb_not_found | ms \<Rightarrow> Pb_choice ms)
            else Pb_list (panel_sections (mt_pins s) (panel_displayed (mt_pins s) (mt_limit s) visible)) (more_shown (mt_limit s) visible)))"

section \<open>Pins\<close>

text \<open>What is pinned is exactly what is read back, whatever the text of the storage was.\<close>

lemma stored_pins_write:
  assumes "length pins \<le> 4"
  shows "stored_pins (Some (stringify (JArr (map JStr pins)))) = pins"
proof -
  have "json_ok (JArr (map JStr pins))" by (simp add: list_all_iff)
  moreover have "concat (map (\<lambda>v. case v of JStr s \<Rightarrow> [s] | _ \<Rightarrow> []) (map JStr pins)) = pins" by (induction pins) simp_all
  ultimately show ?thesis using assms by (simp add: stored_pins_def json_round_trip del: stringify.simps map_map list.map_comp)
qed

lemma stored_pins_four: "length (stored_pins t) \<le> 4"
  by (simp add: stored_pins_def split: option.split json.split)

lemma toggled_pins_four: "length pins \<le> 4 \<Longrightarrow> length (toggled_pins i pins) \<le> 4"
  by (auto simp: toggled_pins_def intro: le_trans [OF length_filter_le])

lemma toggled_pins_set:
  assumes "length pins \<le> 4" "i \<in> set pins \<or> length pins < 4"
  shows "set (toggled_pins i pins) = (if i \<in> set pins then set pins - {i} else insert i (set pins))"
    "distinct pins \<Longrightarrow> distinct (toggled_pins i pins)"
  using assms by (auto simp: toggled_pins_def)

inductive panel_step :: "metrics_panel \<Rightarrow> metrics_panel \<Rightarrow> bool" where
  reload: "panel_step s (metrics_effect s)"
| answered: "n \<in> set (mt_reads s) \<Longrightarrow> panel_step s (health_answered n r s)"
| pin: "mt_health s = Some h \<Longrightarrow> meta \<in> set (mh_metrics h) \<Longrightarrow> \<not> pin_disabled (mt_pins s) meta \<Longrightarrow> panel_step s (togglePin True meta s)"
| opens: "panel_step s (s\<lparr>mt_address := open_metric_params meta (mt_address s)\<rparr>)"
| closes: "panel_step s (s\<lparr>mt_address := close_metric_params (mt_address s)\<rparr>)"
| searches: "panel_step s (s\<lparr>mt_address := search_metric_params v (mt_address s)\<rparr>)"
| hovers: "panel_step s (s\<lparr>mt_hovered := v\<rparr>)"
| more: "panel_step s (show_more s)"

text \<open>The pins are at most four and are what a panel opened again would read from the storage.\<close>

theorem pins_kept:
  assumes "panel_step\<^sup>*\<^sup>* (metrics_mounted src stored ps) s"
  shows "length (mt_pins s) \<le> 4 \<and> stored_pins (mt_stored s) = mt_pins s \<and> mt_source s = src"
  using assms
proof (induction rule: rtranclp_induct)
  case base
  show ?case by (simp add: metrics_mounted_def metrics_effect_def stored_pins_four)
next
  case (step s t)
  from step(2) show ?case
  proof cases
    case (pin h meta)
    have "length (toggled_pins (metricIdentity meta) (mt_pins s)) \<le> 4" using step.IH by (simp add: toggled_pins_four)
    then show ?thesis using step.IH pin by (simp add: togglePin_def stored_pins_write Let_def del: stringify.simps)
  next
    case (answered n r)
    then show ?thesis using step.IH by (simp add: health_answered_def Let_def split: sum.split)
  qed (use step.IH in \<open>simp_all add: metrics_effect_def show_more_def\<close>)
qed

text \<open>Four pins of metrics that are no longer in the list cannot be taken back: no chart shows them, and every other
  pin is disabled, however often the list is read.\<close>

theorem dead_pins_stay:
  assumes "panel_step\<^sup>*\<^sup>* s t" "length (mt_pins s) = 4"
    and gone: "\<And>u h m. panel_step\<^sup>*\<^sup>* s u \<Longrightarrow> mt_health u = Some h \<Longrightarrow> m \<in> set (mh_metrics h) \<Longrightarrow> metricIdentity m \<notin> set (mt_pins s)"
  shows "mt_pins t = mt_pins s"
  using assms(1)
proof (induction rule: rtranclp_induct)
  case (step u t)
  from step(2) show ?case
  proof cases
    case (pin h meta)
    have "metricIdentity meta \<notin> set (mt_pins s)" using gone [OF step(1) pin(2,3)] .
    then show ?thesis using pin step.IH assms(2) by (simp add: pin_disabled_def is_pinned_def)
  next
    case (answered n r)
    then show ?thesis using step.IH by (simp add: health_answered_def Let_def split: sum.split)
  qed (use step.IH in \<open>simp_all add: metrics_effect_def show_more_def\<close>)
qed simp

section \<open>What is listed\<close>

lemma metric_group_listed: "groupFor pins m \<in> set panel_groups"
  by (simp add: groupFor_def metricGroup_def panel_groups_def pinned_group_def)

lemma panel_groups_distinct: "distinct panel_groups"
  by (simp add: panel_groups_def pinned_group_def)

lemma grouped_filter:
  assumes "distinct gs"
  shows "mset (concat (map (\<lambda>g. filter (\<lambda>x. f x = g) xs) gs)) = mset (filter (\<lambda>x. f x \<in> set gs) xs)"
  using assms
proof (induction gs)
  case (Cons g gs)
  have "mset (filter (\<lambda>x. f x = g \<or> f x \<in> set gs) xs) = mset (filter (\<lambda>x. f x = g) xs) + mset (filter (\<lambda>x. f x \<in> set gs) xs)"
    using Cons.prems by (induction xs) auto
  then show ?case using Cons by simp
qed simp

lemma concat_nonempty: "concat (map snd (filter (\<lambda>(g, ms). ms \<noteq> []) ps)) = concat (map snd ps)"
  by (induction ps) (auto split: prod.split)

text \<open>Every listed metric is in exactly one section, under the group it belongs to; a section is never empty.\<close>

theorem sections_exact:
  "mset (concat (map snd (panel_sections pins displayed))) = mset displayed"
  "(g, ms) \<in> set (panel_sections pins displayed) \<Longrightarrow> ms = filter (\<lambda>m. groupFor pins m = g) displayed \<and> ms \<noteq> []"
  "distinct (map fst (panel_sections pins displayed))"
proof -
  have "concat (map snd (panel_sections pins displayed)) = concat (map (\<lambda>g. filter (\<lambda>m. groupFor pins m = g) displayed) panel_groups)"
    by (simp add: panel_sections_def concat_nonempty comp_def)
  then show "mset (concat (map snd (panel_sections pins displayed))) = mset displayed"
    using grouped_filter [OF panel_groups_distinct, of "groupFor pins" displayed] metric_group_listed
    by (simp add: filter_True)
  show "(g, ms) \<in> set (panel_sections pins displayed) \<Longrightarrow> ms = filter (\<lambda>m. groupFor pins m = g) displayed \<and> ms \<noteq> []"
    by (auto simp: panel_sections_def)
  show "distinct (map fst (panel_sections pins displayed))"
    using panel_groups_distinct by (auto simp: panel_sections_def distinct_map intro!: distinct_filter inj_onI)
qed

text \<open>Pinned metrics that match the search are always listed; the limit cuts only the others; nothing is listed twice.\<close>

theorem displayed_exact:
  "set (panel_displayed pins limit visible)
   = {m \<in> set visible. is_pinned pins m} \<union> set (take limit visible)"
  "distinct visible \<Longrightarrow> distinct (panel_displayed pins limit visible)"
  "length visible \<le> limit \<Longrightarrow> mset (panel_displayed pins limit visible) = mset visible"
proof -
  show "set (panel_displayed pins limit visible) = {m \<in> set visible. is_pinned pins m} \<union> set (take limit visible)"
    by (auto simp: panel_displayed_def dest: in_set_takeD)
  show "distinct visible \<Longrightarrow> distinct (panel_displayed pins limit visible)"
    by (auto simp: panel_displayed_def)
  show "length visible \<le> limit \<Longrightarrow> mset (panel_displayed pins limit visible) = mset visible"
    by (simp add: panel_displayed_def mset_filter multiset_partition [symmetric])
qed

text \<open>The button offers more though everything is listed, when the metrics over the limit are all pinned.\<close>

theorem more_of_nothing:
  assumes "limit < length visible" "\<forall>m \<in> set (drop limit visible). is_pinned pins m" "distinct visible"
  shows "more_shown limit visible" "mset (panel_displayed pins limit visible) = mset visible"
    "set (panel_displayed pins (limit + 12) visible) = set (panel_displayed pins limit visible)"
proof -
  show "more_shown limit visible" using assms(1) by (simp add: more_shown_def)
  have v: "set visible = set (take limit visible) \<union> set (drop limit visible)" by (metis append_take_drop_id set_append)
  have a: "set (panel_displayed pins l visible) = set visible" if "limit \<le> l" for l
  proof -
    have "set (take limit visible) \<subseteq> set (take l visible)" using that by (rule set_take_subset_set_take)
    then show ?thesis using assms(2) v by (auto simp: displayed_exact(1) dest: in_set_takeD)
  qed
  then show "set (panel_displayed pins (limit + 12) visible) = set (panel_displayed pins limit visible)" by simp
  show "mset (panel_displayed pins limit visible) = mset visible"
    using a [of limit] assms(3) displayed_exact(2) set_eq_iff_mset_eq_distinct by blast
qed

section \<open>Opening a metric\<close>

lemma metric_type_text_inject [simp]: "metric_type_text a = metric_type_text b \<longleftrightarrow> a = b"
  by (cases a; cases b) simp_all

lemma metricIdentity_inject:
  "metricIdentity m = metricIdentity n \<longleftrightarrow>
     mn_metricName m = mn_metricName n \<and> mn_metricType m = mn_metricType n \<and> metric_unit_text m = metric_unit_text n"
proof -
  have "metric_type_text a = metric_type_text b \<longleftrightarrow> a = b" for a b by (cases a; cases b) simp_all
  then show ?thesis
    unfolding metricIdentity_def by (subst stringify_inject) (auto simp: metric_unit_text_def or_default_def split: option.splits)
qed

lemma metric_type_text_truthy [simp]: "metric_type_text t \<noteq> []"
  by (cases t) simp_all

text \<open>The metric that is opened is the one clicked, also among several of the same name; its chart starts with no
  filters and the mode of its type, and going back leaves the search as it was.\<close>

lemma filter_identity:
  assumes "distinct (map f xs)" "x \<in> set xs"
  shows "filter (\<lambda>y. f y = f x) xs = [x]"
  using assms
proof (induction xs)
  case (Cons y ys)
  show ?case
  proof (cases "y = x")
    case True
    then have "filter (\<lambda>z. f z = f x) ys = []" using Cons.prems(1) by (auto simp: filter_empty_conv image_iff dest: sym)
    then show ?thesis using True by simp
  next
    case False
    then have "x \<in> set ys" "f y \<noteq> f x" using Cons.prems by (auto simp: image_iff)
    then show ?thesis using Cons by simp
  qed
qed simp

theorem opened_exact:
  fixes ps :: search_params
  assumes "m \<in> set (mh_metrics h)" "distinct (map metricIdentity (mh_metrics h))" "mn_metricName m \<noteq> []"
  defines "q \<equiv> useMetricQuery (open_metric_params m ps)"
  shows "metric_opened q (panel_names coll h) = Some m"
    "mqs_attributes q = [] \<and> mqs_series q = [] \<and> mqs_mode q = None \<and> mqs_search q = mqs_search (useMetricQuery ps)"
    "mqs_metric (useMetricQuery (close_metric_params ps)) = None
     \<and> mqs_search (useMetricQuery (close_metric_params ps)) = mqs_search (useMetricQuery ps)"
proof -
  have q: "mqs_metric q = Some (mn_metricName m)" "mqs_metricType q = Some (metric_type_text (mn_metricType m))"
    "or_default (mqs_metricUnit q) [] = metric_unit_text m"
    using assms(3) by (auto simp: q_def useMetricQuery_def open_metric_params_def update_params_get truthy_def metric_unit_text_def or_default_def split: option.split)
  have "metric_matches q ns = filter (\<lambda>n. metricIdentity n = metricIdentity m) ns" for ns
    unfolding metric_matches_def
    by (rule filter_cong [OF refl]) (auto simp: q metricIdentity_inject truthy_def)
  moreover have "distinct (map metricIdentity (panel_names coll h))" "m \<in> set (panel_names coll h)"
    using assms(1,2) by (simp_all add: panel_names_def distinct_map)
  ultimately have "metric_matches q (panel_names coll h) = [m]" using filter_identity [of metricIdentity] by simp
  then show "metric_opened q (panel_names coll h) = Some m" by (simp add: metric_opened_def)
  show "mqs_attributes q = [] \<and> mqs_series q = [] \<and> mqs_mode q = None \<and> mqs_search q = mqs_search (useMetricQuery ps)"
    by (simp add: q_def useMetricQuery_def open_metric_params_def update_params_get or_default_def)
  show "mqs_metric (useMetricQuery (close_metric_params ps)) = None
     \<and> mqs_search (useMetricQuery (close_metric_params ps)) = mqs_search (useMetricQuery ps)"
    by (simp add: useMetricQuery_def close_metric_params_def update_params_get)
qed


section \<open>One chart (MetricChart)\<close>

text \<open>The mode asked for: a sum is opened as its rate unless the address says raw.\<close>

definition auto_mode :: "bool \<Rightarrow> metric_query_state \<Rightarrow> bool" where
  "auto_mode expanded q \<longleftrightarrow> \<not> expanded \<or> mqs_mode q = None"

definition preferred_mode :: "bool \<Rightarrow> metric_query_state \<Rightarrow> otel_metric_name \<Rightarrow> metric_mode" where
  "preferred_mode expanded q meta =
     (if mn_metricType meta \<noteq> MT_sum then Mode_raw
      else if expanded then (case mqs_mode q of Some MM_raw \<Rightarrow> Mode_raw | _ \<Rightarrow> Mode_rate)
      else Mode_rate)"

definition has_finite :: "metric_chart \<Rightarrow> bool" where
  "has_finite c \<longleftrightarrow>
     list_ex (\<lambda>row. list_ex (\<lambda>s. case map_of (row_values row) (cs_key s) of Some (Some v) \<Rightarrow> True | _ \<Rightarrow> False) (mc_series c)) (mc_chartData c)"

definition last_finite :: "chart_row list \<Rightarrow> string \<Rightarrow> rat option" where
  "last_finite rows key =
     (let vs = concat (map (\<lambda>row. case map_of (row_values row) key of Some (Some v) \<Rightarrow> [v] | _ \<Rightarrow> []) rows) in
      if vs = [] then None else Some (last vs))"

text \<open>The chart and the mode it is drawn in; \<open>None\<close> when a point has no readable time.\<close>

definition chart_built ::
  "bool \<Rightarrow> metric_query_state \<Rightarrow> otel_metric_name \<Rightarrow> otel_metric_point list \<Rightarrow> (metric_chart \<times> metric_mode) option" where
  "chart_built expanded q meta points =
     (let preferred = preferred_mode expanded q meta in
      Option.bind (buildMetricSeries points (mn_unit meta) preferred) (\<lambda>built.
        if auto_mode expanded q \<and> preferred = Mode_rate \<and> points \<noteq> [] \<and> \<not> has_finite built
        then map_option (\<lambda>c. (c, Mode_raw)) (buildMetricSeries points (mn_unit meta) Mode_raw)
        else Some (built, preferred)))"

text \<open>The lines of the rules are in the unit of the chart; a rate has none.\<close>

definition metric_thresholds :: "metric_chart \<Rightarrow> metric_mode \<Rightarrow> alert_rule list \<Rightarrow> alert_rule list" where
  "metric_thresholds c mode rules =
     map (\<lambda>r. r\<lparr>ar_threshold := ar_threshold r * du_factor (mc_display c)\<rparr>) (if mode = Mode_rate then [] else rules)"

definition finite_values :: "metric_chart \<Rightarrow> rat list" where
  "finite_values c =
     concat (map (\<lambda>row. concat (map (\<lambda>s. case map_of (row_values row) (cs_key s) of Some (Some v) \<Rightarrow> [v] | _ \<Rightarrow> []) (mc_series c)))
       (mc_chartData c))"

definition chart_max :: "metric_chart \<Rightarrow> alert_rule list \<Rightarrow> rat" where
  "chart_max c thresholds = fold max (map ar_threshold thresholds @ finite_values c) 0"

definition chart_axis :: "metric_chart \<Rightarrow> metric_mode \<Rightarrow> alert_rule list \<Rightarrow> nice_axis" where
  "chart_axis c mode rules = niceYAxis (chart_max c (metric_thresholds c mode rules))"

definition put_latest :: "(string \<times> otel_metric_point) list \<Rightarrow> otel_metric_point \<Rightarrow> (string \<times> otel_metric_point) list" where
  "put_latest m p =
     (case map_of m (pointIdentity p) of
        None \<Rightarrow> AList.update (pointIdentity p) p m
      | Some old \<Rightarrow>
          (case (date_parse (mp_createdAt p), date_parse (mp_createdAt old)) of
             (Some x, Some y) \<Rightarrow> if x \<ge> y then AList.update (pointIdentity p) p m else m
           | _ \<Rightarrow> m))"

definition latest_points :: "otel_metric_point list \<Rightarrow> (string \<times> otel_metric_point) list" where
  "latest_points points = foldl put_latest [] points"

definition skip_note :: "bool \<Rightarrow> metric_chart \<Rightarrow> otel_metric_point list \<Rightarrow> bool" where
  "skip_note expanded c points \<longleftrightarrow>
     expanded \<and> length (latest_points points) < mc_skippedRatePoints c \<and> has_finite c"

datatype chart_body = Cb_failed string | Cb_loading | Cb_no_rate | Cb_empty | Cb_chart metric_chart

definition chart_body_of :: "string option \<Rightarrow> bool \<Rightarrow> metric_chart \<times> metric_mode \<Rightarrow> otel_metric_point list \<Rightarrow> chart_body" where
  "chart_body_of err read cm points =
     (if truthy err then Cb_failed (the err)
      else if \<not> read then Cb_loading
      else if \<not> has_finite (fst cm) then (if snd cm = Mode_rate \<and> points \<noteq> [] then Cb_no_rate else Cb_empty)
      else Cb_chart (fst cm))"

section \<open>What a chart draws\<close>

text \<open>Every value drawn and every line of a rule lies under the top of the axis, up to a billionth of its step.\<close>

theorem chart_covered:
  assumes "v \<in> set (finite_values c) \<or> v \<in> ar_threshold ` set (metric_thresholds c mode rules)"
    and "0 < chart_max c (metric_thresholds c mode rules)"
  shows "v - nice_step (chart_max c (metric_thresholds c mode rules)) 4 / 10 ^ 9 \<le> snd (na_domain (chart_axis c mode rules))"
proof -
  have "v \<le> chart_max c (metric_thresholds c mode rules)"
    using assms(1) fold_max_ge(2) [of v "map ar_threshold (metric_thresholds c mode rules) @ finite_values c" 0]
    by (auto simp: chart_max_def simp del: fold_append)
  moreover have "snd (na_domain (chart_axis c mode rules)) = last (niceTicks (chart_max c (metric_thresholds c mode rules)) 4)"
    by (simp add: chart_axis_def niceYAxis_top)
  ultimately show ?thesis using niceTicks_spec(3) [OF assms(2), of 4] by simp
qed

text \<open>In raw mode every point has a value, so a chart of dated points has something to draw.\<close>

definition rows_valued :: "(int \<times> chart_row) list \<Rightarrow> bool" where
  "rows_valued m \<longleftrightarrow> (\<forall>x \<in> set m. \<forall>p \<in> set (row_values (snd x)). snd p \<noteq> None)"

lemma set_alist_update: "set (AList.update k v m) \<subseteq> insert (k, v) (set m)"
  by (induction m) auto

lemma rows_valued_update:
  assumes "rows_valued m" "\<forall>p \<in> set (row_values r). snd p \<noteq> None"
  shows "rows_valued (AList.update t r m)"
  unfolding rows_valued_def
proof
  fix x assume "x \<in> set (AList.update t r m)"
  then have "x = (t, r) \<or> x \<in> set m" using set_alist_update [of t r m] by blast
  then show "\<forall>p \<in> set (row_values (snd x)). snd p \<noteq> None" using assms unfolding rows_valued_def by auto
qed

lemma put_point_valued:
  assumes "rows_valued m" "snd pv \<noteq> None"
  shows "rows_valued (put_point mode f ids m pv)"
proof -
  obtain p ms v where pv: "pv = ((p, ms), v)" by (metis prod.collapse)
  show ?thesis
  proof (cases "map_of ids (pointIdentity p)")
    case (Some key)
    define row where "row = (case map_of m (row_time mode ms) of Some r \<Rightarrow> r | None \<Rightarrow> \<lparr>row_t = row_time mode ms, row_values = []\<rparr>)"
    have old: "\<forall>p \<in> set (row_values row). snd p \<noteq> None"
      using assms(1) map_of_SomeD [of m "row_time mode ms"]
      by (cases "map_of m (row_time mode ms)") (force simp: rows_valued_def row_def)+
    have "\<forall>p \<in> set (AList.update key (map_option (\<lambda>x. x * f) v) (row_values row)). snd p \<noteq> None"
    proof
      fix p assume "p \<in> set (AList.update key (map_option (\<lambda>x. x * f) v) (row_values row))"
      then have "p = (key, map_option (\<lambda>x. x * f) v) \<or> p \<in> set (row_values row)"
        using set_alist_update [of key "map_option (\<lambda>x. x * f) v" "row_values row"] by blast
      then show "snd p \<noteq> None" using old assms(2) pv by auto
    qed
    then have "rows_valued (AList.update (row_time mode ms)
        (row\<lparr>row_values := AList.update key (map_option (\<lambda>x. x * f) v) (row_values row)\<rparr>) m)"
      by (intro rows_valued_update [OF assms(1)]) simp
    then show ?thesis by (simp only: put_point_def pv Some Let_def row_def prod.case option.case)
  qed (use assms in \<open>simp add: put_point_def pv\<close>)
qed

lemma alist_update_nonempty [simp]: "AList.update k v m \<noteq> []"
  by (cases m) auto

lemma put_point_row:
  assumes "map_of ids (pointIdentity (fst (fst pv))) \<noteq> None \<or> (\<exists>t r. map_of m t = Some r \<and> row_values r \<noteq> [])"
  shows "\<exists>t r. map_of (put_point mode f ids m pv) t = Some r \<and> row_values r \<noteq> []"
proof -
  obtain p ms v where pv: "pv = ((p, ms), v)" by (metis prod.collapse)
  show ?thesis
  proof (cases "map_of ids (pointIdentity p)")
    case (Some key)
    then show ?thesis by (intro exI [of _ "row_time mode ms"]) (simp add: put_point_def pv Let_def)
  qed (use assms in \<open>simp add: put_point_def pv\<close>)
qed

lemma put_points_row:
  assumes "\<forall>pv \<in> set timed. snd pv \<noteq> None" "rows_valued m"
    and "(\<exists>pv \<in> set timed. map_of ids (pointIdentity (fst (fst pv))) \<noteq> None) \<or> (\<exists>t r. map_of m t = Some r \<and> row_values r \<noteq> [])"
  shows "rows_valued (foldl (put_point mode f ids) m timed)
    \<and> (\<exists>t r. map_of (foldl (put_point mode f ids) m timed) t = Some r \<and> row_values r \<noteq> [])"
  using assms
proof (induction timed arbitrary: m)
  case (Cons pv timed)
  have v: "rows_valued (put_point mode f ids m pv)" using Cons.prems by (intro put_point_valued) auto
  have "(\<exists>pv \<in> set timed. map_of ids (pointIdentity (fst (fst pv))) \<noteq> None)
      \<or> (\<exists>t r. map_of (put_point mode f ids m pv) t = Some r \<and> row_values r \<noteq> [])"
    using Cons.prems(3) put_point_row [of ids pv m mode f] by auto
  then show ?case using Cons.IH [OF _ v] Cons.prems(1) by simp
qed simp

lemma point_times_points: "point_times ps = Some timed \<Longrightarrow> map (\<lambda>pv. (fst (fst pv), snd pv)) timed = ps"
  by (induction ps arbitrary: timed rule: point_times.induct) (auto split: option.splits)

lemma raw_has_finite:
  assumes "buildMetricSeries points unit Mode_raw = Some c" "points \<noteq> []"
  shows "has_finite c"
proof -
  define ids where "ids = map_from (map (\<lambda>s. (cs_signature s, cs_key s)) (mc_series c))"
  obtain timed f where timed: "point_times (map (\<lambda>p. (p, Some (mp_value p))) points) = Some timed"
    and data: "mc_chartData c = sort_by (by_key row_t) (map snd (foldl (put_point Mode_raw f ids) [] timed))"
    using assms(1) by (auto simp: buildMetricSeries_def resolved_points_def Let_def ids_def)
  have pts: "map (\<lambda>pv. (fst (fst pv), snd pv)) timed = map (\<lambda>p. (p, Some (mp_value p))) points"
    by (rule point_times_points [OF timed])
  have some: "\<forall>pv \<in> set timed. snd pv \<noteq> None"
  proof
    fix pv assume "pv \<in> set timed"
    then have "(fst (fst pv), snd pv) \<in> set (map (\<lambda>p. (p, Some (mp_value p))) points)" unfolding pts [symmetric] by force
    then show "snd pv \<noteq> None" by auto
  qed
  obtain js where js: "set js = pointIdentity ` set points" "map cs_signature (mc_series c) = take MAX_METRIC_SERIES js"
    using buildMetricSeries_series [OF assms(1)] by blast
  obtain j js' where j: "js = j # js'" using js(1) assms(2) by (cases js) auto
  then have "j \<in> pointIdentity ` set points" using js(1) by (simp flip: js(1))
  then obtain p where p: "p \<in> set points" "pointIdentity p = j" by blast
  have "j \<in> cs_signature ` set (mc_series c)" using arg_cong [OF js(2), of set] j by (auto simp: MAX_METRIC_SERIES_def)
  then have drawn: "map_of ids (pointIdentity p) \<noteq> None"
    unfolding map_of_eq_None_iff ids_def p(2) by (force simp: map_from_keys)
  have "(p, Some (mp_value p)) \<in> (\<lambda>pv. (fst (fst pv), snd pv)) ` set timed"
    using p(1) arg_cong [OF pts, of set] by auto
  then obtain pv where "pv \<in> set timed" "fst (fst pv) = p" by auto
  then have "\<exists>pv \<in> set timed. map_of ids (pointIdentity (fst (fst pv))) \<noteq> None" using drawn by blast
  then obtain t r where valued: "rows_valued (foldl (put_point Mode_raw f ids) [] timed)"
    and row: "map_of (foldl (put_point Mode_raw f ids) [] timed) t = Some r" "row_values r \<noteq> []"
    using put_points_row [OF some, of "[]" ids Mode_raw f] by (auto simp: rows_valued_def)
  then have r: "(t, r) \<in> set (foldl (put_point Mode_raw f ids) [] timed)" by (simp add: map_of_SomeD)
  then have in_data: "r \<in> set (mc_chartData c)" unfolding data by force
  obtain k v where kv: "(k, v) \<in> set (row_values r)" using row(2) by (cases "row_values r") auto
  obtain ids' m where m: "rows_ok ids' m" "snd ` set ids' \<subseteq> cs_key ` set (mc_series c)" "mc_chartData c = sort_by (by_key row_t) (map snd m)"
    using buildMetricSeries_fields [OF assms(1)] by blast
  obtain t' where "(t', r) \<in> set m" using in_data unfolding m(3) by auto
  then have "k \<in> cs_key ` set (mc_series c)" using rows_ok_keys [OF m(1)] m(2) kv by force
  then obtain s where s: "s \<in> set (mc_series c)" "cs_key s = k" by blast
  obtain w where w: "map_of (row_values r) k = Some w" using kv by (metis weak_map_of_SomeI)
  then have "(k, w) \<in> set (row_values r)" by (rule map_of_SomeD)
  then have "w \<noteq> None" using valued r unfolding rows_valued_def by fastforce
  then obtain y where "map_of (row_values r) (cs_key s) = Some (Some y)" using w s(2) by auto
  then show ?thesis
    unfolding has_finite_def list_ex_iff by (intro bexI [OF _ in_data] bexI [OF _ s(1)]) simp
qed

text \<open>A chart whose mode was not chosen in the address always draws its points: a sum without a computable rate falls
  back to its values.  A chosen mode is kept.\<close>

theorem auto_chart_draws:
  assumes "chart_built expanded q meta points = Some (c, mode)" "points \<noteq> []"
  shows "auto_mode expanded q \<Longrightarrow> has_finite c" "\<not> auto_mode expanded q \<Longrightarrow> mode = preferred_mode expanded q meta"
    "mode = Mode_rate \<Longrightarrow> mn_metricType meta = MT_sum"
    "buildMetricSeries points (mn_unit meta) mode = Some c"
proof -
  obtain b where b: "buildMetricSeries points (mn_unit meta) (preferred_mode expanded q meta) = Some b"
    using assms(1) by (auto simp: chart_built_def Let_def bind_eq_Some_conv)
  show "buildMetricSeries points (mn_unit meta) mode = Some c"
    using assms(1) b by (auto simp: chart_built_def Let_def split: if_splits)
  then show "auto_mode expanded q \<Longrightarrow> has_finite c"
    using assms b raw_has_finite [OF _ assms(2)]
    by (cases mode; cases "preferred_mode expanded q meta") (auto simp: chart_built_def Let_def split: if_splits)
  show "\<not> auto_mode expanded q \<Longrightarrow> mode = preferred_mode expanded q meta"
    using assms(1) by (auto simp: chart_built_def Let_def b)
  show "mode = Mode_rate \<Longrightarrow> mn_metricType meta = MT_sum"
    using assms(1) by (auto simp: chart_built_def preferred_mode_def Let_def bind_eq_Some_conv split: if_splits)
qed

text \<open>The lines of a rule are drawn over raw values only, at the rule's value in the unit of the chart.\<close>

lemma rate_has_no_lines: "metric_thresholds c Mode_rate rules = []"
  by (simp add: metric_thresholds_def)

lemma put_latest_keys:
  "set (map fst (put_latest m p)) = insert (pointIdentity p) (set (map fst m))"
  "distinct (map fst m) \<Longrightarrow> distinct (map fst (put_latest m p))"
proof -
  have "map_of m (pointIdentity p) = Some old \<Longrightarrow> pointIdentity p \<in> fst ` set m" for old
    by (force dest: map_of_SomeD)
  moreover have "set (map fst (AList.update k v m)) = insert k (set (map fst m))" for k :: string and v :: otel_metric_point
    by (induction m) auto
  ultimately show "set (map fst (put_latest m p)) = insert (pointIdentity p) (set (map fst m))"
    by (auto simp: put_latest_def split: option.split)
  show "distinct (map fst m) \<Longrightarrow> distinct (map fst (put_latest m p))"
    by (simp add: put_latest_def distinct_update split: option.split)
qed

text \<open>There is one latest point for every identity; what the note compares the skipped points with is only their number.\<close>

theorem latest_count: "length (latest_points points) = card (pointIdentity ` set points)"
proof -
  have "distinct (map fst m) \<Longrightarrow> distinct (map fst (foldl put_latest m ps))
      \<and> set (map fst (foldl put_latest m ps)) = set (map fst m) \<union> pointIdentity ` set ps" for m ps
  proof (induction ps arbitrary: m)
    case (Cons p ps)
    show ?case using Cons.IH [OF put_latest_keys(2) [OF Cons.prems, of p]] put_latest_keys(1) [of m p] by auto
  qed simp
  from this [of "[]" points] show ?thesis
    unfolding latest_points_def by (metis Un_empty_left distinct.simps(1) distinct_card length_map list.map(1) list.set(1))
qed

text \<open>An uninterrupted cumulative counter skips only its first point, and the chart has no note.\<close>

lemma insert_by_least: "list_all (le x) ys \<Longrightarrow> insert_by le x ys = x # ys"
  by (cases ys) simp_all

lemma sort_by_sorted: "sorted_wrt le xs \<Longrightarrow> sort_by le xs = xs"
  by (induction xs) (simp_all add: insert_by_least list_all_iff)

lemma cumulative_later:
  "cumulative ((t, p) # tps) \<Longrightarrow> (u, q) \<in> set tps \<Longrightarrow> t < u \<and> date_parse (mp_createdAt q) = Some u \<and> pointIdentity q = pointIdentity p"
proof (induction tps arbitrary: t p)
  case (Cons vr tps)
  obtain v r where vr: "vr = (v, r)" by (cases vr)
  have c: "cumulative ((v, r) # tps)" "t < v" "pointIdentity p = pointIdentity r" using Cons.prems(1) vr by auto
  show ?case
  proof (cases "(u, q) = (v, r)")
    case True
    then show ?thesis using c cumulative_head [OF c(1)] by simp
  next
    case False
    then show ?thesis using Cons.IH [OF c(1)] Cons.prems(2) vr c(2,3) by fastforce
  qed
qed simp

lemma cumulative_sorted: "cumulative tps \<Longrightarrow> sorted_wrt rate_le (map snd tps)"
proof (induction tps)
  case (Cons tp tps)
  obtain t p where tp: "tp = (t, p)" by (cases tp)
  have "cumulative tps" using Cons.prems tp by (cases tps) auto
  moreover have "rate_le p q" if "(u, q) \<in> set tps" for u q
    using cumulative_later [OF Cons.prems [unfolded tp] that] cumulative_head [OF Cons.prems [unfolded tp]]
    by (simp add: rate_le_def)
  ultimately show ?case using Cons.IH tp by auto
qed simp

theorem clean_counter_no_note:
  assumes "cumulative ((t, p) # tps)" "buildMetricSeries (p # map snd tps) unit Mode_rate = Some c"
  shows "mc_skippedRatePoints c = 1" "\<not> skip_note expanded c (p # map snd tps)"
proof -
  have s: "sort_by rate_le (p # map snd tps) = p # map snd tps"
    by (rule sort_by_sorted) (use cumulative_sorted [OF assms(1)] in simp)
  have first: "point_rate None p = None"
    using cumulative_head [OF assms(1)] by (auto simp: point_rate_def Let_def)
  have "list_all (\<lambda>(_, r). r \<noteq> None) (rates_from [(pointIdentity p, p)] (map snd tps))"
    using rates_from_cumulative [OF assms(1), of "[(pointIdentity p, p)]"] by simp
  then have "filter (\<lambda>(p, v). v = None) (rates_from [(pointIdentity p, p)] (map snd tps)) = []"
    by (auto simp: filter_empty_conv list_all_iff)
  then have f: "filter (\<lambda>(p, v). v = None) (metricRates (p # map snd tps)) = [(p, None)]"
    unfolding metricRates_def s by (simp add: first)
  have "mc_skippedRatePoints c = length (filter (\<lambda>(p, v). v = None) (metricRates (p # map snd tps)))"
    using assms(2) by (auto simp: buildMetricSeries_def resolved_points_def Let_def)
  then show one: "mc_skippedRatePoints c = 1" by (simp only: f list.size One_nat_def add_0)
  have "pointIdentity p \<in> pointIdentity ` set (p # map snd tps)" by simp
  then have "0 < card (pointIdentity ` set (p # map snd tps))" by (metis List.finite_set card_gt_0_iff empty_iff finite_imageI)
  then show "\<not> skip_note expanded c (p # map snd tps)" by (simp only: skip_note_def latest_count one) simp
qed

section \<open>The list of services (MetricServices)\<close>

definition row_flagged :: "int \<Rightarrow> metric_service_row \<Rightarrow> observed_service_metric_name list" where
  "row_flagged now r = flaggedMetrics (mv_active r) (mv_metrics r) now"

text \<open>The number of metrics to look at and how it is marked; a stopped service is not judged.\<close>

datatype attention_tone = At_error | At_warn | At_none

definition attention_count :: "int \<Rightarrow> metric_service_row \<Rightarrow> (nat \<times> attention_tone) option" where
  "attention_count now r =
     (if \<not> mv_active r then None
      else let ms = row_flagged now r in
        Some (length ms, if list_ex (\<lambda>m. mn_breached m = Some True) ms then At_error else if ms \<noteq> [] then At_warn else At_none))"

datatype attention_line =
  Al_matching "string list" | Al_none | Al_fine bool "string option"
| Al_flag "metric_status option" observed_service_metric_name bool nat

text \<open>\<open>query\<close> is the search in lower case.\<close>

definition attention_line_of :: "string \<Rightarrow> int \<Rightarrow> metric_service_row \<Rightarrow> attention_line" where
  "attention_line_of query now r =
     (let matching = (if query \<noteq> [] \<and> \<not> str_includes query (to_lower (mv_name r))
            then filter (\<lambda>n. str_includes query (to_lower n)) (mv_metricNames r) else []) in
      if matching \<noteq> [] then Al_matching matching
      else if mv_metrics r = [] then Al_none
      else case row_flagged now r of
          [] \<Rightarrow> Al_fine (mv_active r) (if truthy (mv_lastReceivedAt r) then mv_lastReceivedAt r else None)
        | m # rest \<Rightarrow> Al_flag (case metricFlags m now of f # _ \<Rightarrow> Some f | [] \<Rightarrow> None) m (mn_breached m = Some True) (length rest))"

text \<open>The first flag of a metric named on the line always exists, the line and the count agree, and the count is marked as an
  error exactly when a metric of an active service broke its threshold.\<close>

theorem attention_exact_row:
  "attention_line_of query now r = Al_flag f m b n \<Longrightarrow> \<exists>g. f = Some g \<and> g \<in> set (metricFlags m now)"
  "attention_line_of query now r = Al_flag f m b n \<Longrightarrow> \<exists>tn. attention_count now r = Some (Suc n, tn)"
  "(\<exists>k. attention_count now r = Some (k, At_error)) \<longleftrightarrow> mv_active r \<and> (\<exists>m \<in> set (mv_metrics r). mn_breached m = Some True)"
proof -
  have flags: "metricFlags m now \<noteq> []" if "m \<in> set (row_flagged now r)" for m
    using that by (auto simp: row_flagged_def flaggedMetrics_def split: if_splits)
  { assume l: "attention_line_of query now r = Al_flag f m b n"
    then obtain rest where rest: "row_flagged now r = m # rest" "n = length rest"
      "f = (case metricFlags m now of f # _ \<Rightarrow> Some f | [] \<Rightarrow> None)"
      by (auto simp: attention_line_of_def Let_def split: if_splits list.splits)
    then show "\<exists>g. f = Some g \<and> g \<in> set (metricFlags m now)" using flags [of m] by (cases "metricFlags m now") auto
    have "mv_active r" using rest(1) by (auto simp: row_flagged_def flaggedMetrics_def split: if_splits)
    then show "\<exists>tn. attention_count now r = Some (Suc n, tn)" using rest by (simp add: attention_count_def Let_def) }
  have "mn_breached m = Some True \<Longrightarrow> metricFlags m now \<noteq> []" for m :: observed_service_metric_name
    by (simp add: metricFlags_empty)
  then show "(\<exists>k. attention_count now r = Some (k, At_error)) \<longleftrightarrow> mv_active r \<and> (\<exists>m \<in> set (mv_metrics r). mn_breached m = Some True)"
    by (auto simp: attention_count_def row_flagged_def flaggedMetrics_def list_ex_iff Let_def)
qed

end
