(* ===== verification/EU_Settings.thy ===== *)
theory EU_Settings imports EU_Answers EU_Client
begin

text \<open>
  The settings page (\<open>pages/settings/SettingsPage.tsx\<close>, \<open>features/settings/components/SettingsDesktopView.tsx\<close>,
  \<open>AlertsSection.tsx\<close>): every choice is shown and saved at once and
  taken back when the save fails.  The server's side is \<open>Update\<close> of \<open>web/backend/internal/api/handlers/settings.go\<close>,
  which changes the fields it is given.
\<close>

section \<open>The page\<close>

datatype setting_undo = Undo_metrics string | Undo_logs string | Undo_interval int | Undo_failures int

record settings_page =
  st_metrics :: string
  st_logs :: string
  st_interval :: int
  st_failures :: int
  st_loading :: bool
  st_error :: "string option"
  st_confirm :: bool
  st_resetting :: bool
  st_toasts :: "string list"
  st_loads :: nat
  st_saves :: "(settings_patch \<times> setting_undo) list"
  st_address :: "string option"

definition settings_mounted :: settings_page where
  "settings_mounted =
     \<lparr>st_metrics = ''7d'', st_logs = ''3d'', st_interval = 30, st_failures = 3, st_loading = True, st_error = None,
      st_confirm = False, st_resetting = False, st_toasts = [], st_loads = 1, st_saves = [], st_address = None\<rparr>"

definition show_settings :: "app_settings \<Rightarrow> settings_page \<Rightarrow> settings_page" where
  "show_settings v s =
     s\<lparr>st_metrics := sret_metrics (as_retention v), st_logs := sret_logs (as_retention v),
       st_interval := ssys_collectInterval (as_system v), st_failures := sa_consecutiveFailures (as_alerts v)\<rparr>"

definition settings_loaded :: "thrown + app_settings \<Rightarrow> settings_page \<Rightarrow> settings_page" where
  "settings_loaded r s =
     (let s = s\<lparr>st_loads := st_loads s - 1, st_loading := False\<rparr> in
      case r of Inr v \<Rightarrow> (show_settings v s)\<lparr>st_error := None\<rparr> | Inl e \<Rightarrow> s\<lparr>st_error := Some (getErrorMessage e)\<rparr>)"

definition retry_settings :: "settings_page \<Rightarrow> settings_page" where
  "retry_settings s = s\<lparr>st_loading := True, st_loads := Suc (st_loads s)\<rparr>"

text \<open>A change is shown at once and sent; the closure keeps the value of before.\<close>

definition no_patch :: settings_patch where
  "no_patch = \<lparr>spt_alerts = None, spt_retention = None, spt_system = None\<rparr>"

definition change_failures :: "int \<Rightarrow> settings_page \<Rightarrow> settings_page" where
  "change_failures n s =
     s\<lparr>st_failures := n,
       st_saves := st_saves s @ [(no_patch\<lparr>spt_alerts := Some \<lparr>sa_consecutiveFailures = n\<rparr>\<rparr>, Undo_failures (st_failures s))]\<rparr>"

definition change_metrics :: "string \<Rightarrow> settings_page \<Rightarrow> settings_page" where
  "change_metrics v s =
     s\<lparr>st_metrics := v,
       st_saves := st_saves s @ [(no_patch\<lparr>spt_retention := Some \<lparr>sret_metrics = v, sret_logs = st_logs s\<rparr>\<rparr>, Undo_metrics (st_metrics s))]\<rparr>"

definition change_logs :: "string \<Rightarrow> settings_page \<Rightarrow> settings_page" where
  "change_logs v s =
     s\<lparr>st_logs := v,
       st_saves := st_saves s @ [(no_patch\<lparr>spt_retention := Some \<lparr>sret_metrics = st_metrics s, sret_logs = v\<rparr>\<rparr>, Undo_logs (st_logs s))]\<rparr>"

definition change_interval :: "int \<Rightarrow> settings_page \<Rightarrow> settings_page" where
  "change_interval n s =
     s\<lparr>st_interval := n,
       st_saves := st_saves s @ [(no_patch\<lparr>spt_system := Some \<lparr>ssys_collectInterval = n\<rparr>\<rparr>, Undo_interval (st_interval s))]\<rparr>"

fun undo_setting :: "setting_undo \<Rightarrow> settings_page \<Rightarrow> settings_page" where
  "undo_setting (Undo_metrics v) s = s\<lparr>st_metrics := v\<rparr>"
| "undo_setting (Undo_logs v) s = s\<lparr>st_logs := v\<rparr>"
| "undo_setting (Undo_interval n) s = s\<lparr>st_interval := n\<rparr>"
| "undo_setting (Undo_failures n) s = s\<lparr>st_failures := n\<rparr>"

definition setting_saved :: "settings_patch \<times> setting_undo \<Rightarrow> thrown + unit \<Rightarrow> settings_page \<Rightarrow> settings_page" where
  "setting_saved q r s =
     (let s = s\<lparr>st_saves := remove1 q (st_saves s)\<rparr> in
      case r of
        Inr _ \<Rightarrow> s\<lparr>st_toasts := st_toasts s @ [([CHR 0xEC, CHR 0xA0, CHR 0x80, CHR 0xEC, CHR 0x9E, CHR 0xA5, CHR 0xEB, CHR 0x90, CHR 0x98, CHR 0xEC, CHR 0x97, CHR 0x88, CHR 0xEC, CHR 0x8A, CHR 0xB5, CHR 0xEB, CHR 0x8B, CHR 0x88, CHR 0xEB, CHR 0x8B, CHR 0xA4] @ ''.'')]\<rparr>
      | Inl e \<Rightarrow> (undo_setting (snd q) s)\<lparr>st_toasts := st_toasts s @ [getErrorMessage e]\<rparr>)"

definition reset_click :: "bool \<Rightarrow> settings_page \<Rightarrow> settings_page" where
  "reset_click mock s = (if mock then s else s\<lparr>st_confirm := True\<rparr>)"

definition handleReset :: "settings_page \<Rightarrow> settings_page" where
  "handleReset s = s\<lparr>st_resetting := True\<rparr>"

text \<open>After a reset the session ends (\<open>logout\<close> of the session) and the login page opens.\<close>

definition reset_done :: "thrown + unit \<Rightarrow> settings_page \<Rightarrow> settings_page" where
  "reset_done r s =
     (case r of
        Inr _ \<Rightarrow> s\<lparr>st_toasts := st_toasts s @ [([CHR 0xEA, CHR 0xB3, CHR 0x84, CHR 0xEC, CHR 0xA0, CHR 0x95, CHR 0xEC, CHR 0x9D, CHR 0xB4] @ '' '' @ [CHR 0xEC, CHR 0xB4, CHR 0x88, CHR 0xEA, CHR 0xB8, CHR 0xB0, CHR 0xED, CHR 0x99, CHR 0x94, CHR 0xEB, CHR 0x90, CHR 0x98, CHR 0xEC, CHR 0x97, CHR 0x88, CHR 0xEC, CHR 0x8A, CHR 0xB5, CHR 0xEB, CHR 0x8B, CHR 0x88, CHR 0xEB, CHR 0x8B, CHR 0xA4] @ ''. '' @ [CHR 0xEB, CHR 0x8B, CHR 0xA4, CHR 0xEC, CHR 0x8B, CHR 0x9C] @ '' '' @ [CHR 0xEB, CHR 0xA1, CHR 0x9C, CHR 0xEA, CHR 0xB7, CHR 0xB8, CHR 0xEC, CHR 0x9D, CHR 0xB8, CHR 0xED, CHR 0x95, CHR 0xB4] @ '' '' @ [CHR 0xEC, CHR 0xA3, CHR 0xBC, CHR 0xEC, CHR 0x84, CHR 0xB8, CHR 0xEC, CHR 0x9A, CHR 0x94] @ ''.'')], st_address := Some ''/login''\<rparr>
      | Inl e \<Rightarrow> s\<lparr>st_toasts := st_toasts s @ [getErrorMessage e], st_resetting := False\<rparr>)"

section \<open>Options and labels\<close>

definition with_current :: "int list \<Rightarrow> int \<Rightarrow> int list" where
  "with_current opts v = (if v \<in> set opts then opts else sort (opts @ [v]))"

definition METRICS_RETENTION_OPTIONS :: "string list" where
  "METRICS_RETENTION_OPTIONS = [''7d'', ''30d'', ''90d'', ''1y'']"

definition LOGS_RETENTION_OPTIONS :: "string list" where
  "LOGS_RETENTION_OPTIONS = [''1d'', ''3d'', ''7d'', ''30d'']"

definition collectOptions :: "int \<Rightarrow> int list" where
  "collectOptions v = with_current [15, 30, 60, 300] v"

definition failure_options :: "int \<Rightarrow> int list" where
  "failure_options v = with_current [1, 2, 3, 5] v"

section \<open>The server\<close>

text \<open>The fields that are given, non-empty and positive replace the stored ones.\<close>

definition settings_update :: "settings_patch \<Rightarrow> app_settings \<Rightarrow> app_settings" where
  "settings_update p v =
     \<lparr>as_alerts = (case spt_alerts p of
          Some a \<Rightarrow> if sa_consecutiveFailures a > 0 then a else as_alerts v | None \<Rightarrow> as_alerts v),
      as_retention = (case spt_retention p of
          Some r \<Rightarrow> \<lparr>sret_metrics = (if sret_metrics r \<noteq> [] then sret_metrics r else sret_metrics (as_retention v)),
                    sret_logs = (if sret_logs r \<noteq> [] then sret_logs r else sret_logs (as_retention v))\<rparr>
        | None \<Rightarrow> as_retention v),
      as_system = (case spt_system p of
          Some y \<Rightarrow> if ssys_collectInterval y > 0 then y else as_system v | None \<Rightarrow> as_system v)\<rparr>"

section \<open>The page beside the server\<close>

definition shown_settings :: "settings_page \<Rightarrow> app_settings" where
  "shown_settings s =
     \<lparr>as_alerts = \<lparr>sa_consecutiveFailures = st_failures s\<rparr>,
      as_retention = \<lparr>sret_metrics = st_metrics s, sret_logs = st_logs s\<rparr>,
      as_system = \<lparr>ssys_collectInterval = st_interval s\<rparr>\<rparr>"

text \<open>The controls are there when nothing loads.\<close>

inductive settings_change :: "settings_page \<Rightarrow> settings_page \<Rightarrow> bool" where
  failures: "0 < n \<Longrightarrow> settings_change s (change_failures n s)"
| metrics: "v \<noteq> [] \<Longrightarrow> settings_change s (change_metrics v s)"
| logs: "v \<noteq> [] \<Longrightarrow> settings_change s (change_logs v s)"
| interval: "0 < n \<Longrightarrow> settings_change s (change_interval n s)"

text \<open>A save is answered once the server has taken or refused it.\<close>

inductive settings_step :: "settings_page \<times> app_settings \<Rightarrow> settings_page \<times> app_settings \<Rightarrow> bool" where
  loaded: "0 < st_loads s \<Longrightarrow> settings_step (s, v) (settings_loaded (Inr v) s, v)"
| failed: "0 < st_loads s \<Longrightarrow> settings_step (s, v) (settings_loaded (Inl e) s, v)"
| retry: "\<not> st_loading s \<Longrightarrow> st_error s \<noteq> None \<Longrightarrow> settings_step (s, v) (retry_settings s, v)"
| change: "\<not> st_loading s \<Longrightarrow> settings_change s s' \<Longrightarrow> settings_step (s, v) (s', v)"
| saved: "q \<in> set (st_saves s) \<Longrightarrow> settings_step (s, v) (setting_saved q (Inr ()) s, settings_update (fst q) v)"
| refused: "q \<in> set (st_saves s) \<Longrightarrow> settings_step (s, v) (setting_saved q (Inl e) s, v)"

text \<open>One save at a time, and no load while one is out.\<close>

definition calm_settings :: "settings_page \<times> app_settings \<Rightarrow> settings_page \<times> app_settings \<Rightarrow> bool" where
  "calm_settings p q \<longleftrightarrow> settings_step p q \<and> (st_saves (fst p) = [] \<or> length (st_saves (fst q)) < length (st_saves (fst p)))"

definition settled_settings :: "settings_page \<times> app_settings \<Rightarrow> app_settings option" where
  "settled_settings p =
     (if \<not> st_loading (fst p) \<and> st_error (fst p) = None \<and> st_saves (fst p) = [] then Some (shown_settings (fst p)) else None)"

definition settings_good :: "settings_page \<times> app_settings \<Rightarrow> bool" where
  "settings_good p \<longleftrightarrow>
     (st_loading (fst p) \<longleftrightarrow> st_loads (fst p) = 1) \<and> st_loads (fst p) \<le> 1
     \<and> (st_loading (fst p) \<longrightarrow> st_saves (fst p) = [])
     \<and> (\<not> st_loading (fst p) \<and> st_error (fst p) = None \<longrightarrow>
         (case st_saves (fst p) of
            [] \<Rightarrow> shown_settings (fst p) = snd p
          | [q] \<Rightarrow> shown_settings (fst p) = settings_update (fst q) (snd p) \<and> shown_settings (undo_setting (snd q) (fst p)) = snd p
          | _ \<Rightarrow> False))
     \<and> length (st_saves (fst p)) \<le> 1"

lemma shown_settings_eq: "shown_settings s = v \<longleftrightarrow>
    st_failures s = sa_consecutiveFailures (as_alerts v) \<and> st_metrics s = sret_metrics (as_retention v)
    \<and> st_logs s = sret_logs (as_retention v) \<and> st_interval s = ssys_collectInterval (as_system v)"
  by (cases v; cases "as_alerts v"; cases "as_retention v"; cases "as_system v") (auto simp: shown_settings_def)

lemma shown_after_load [simp]: "shown_settings (show_settings v s) = v"
  by (simp add: shown_settings_eq show_settings_def)

lemma good_change:
  assumes "settings_change s s'" "settings_good (s, v)" "st_saves s = []" "\<not> st_loading s"
  shows "settings_good (s', v)"
  using assms
  by (induction rule: settings_change.induct)
    (auto simp: settings_good_def change_failures_def change_metrics_def change_logs_def change_interval_def no_patch_def
      shown_settings_eq settings_update_def)

lemma undo_other [simp]:
  "st_loading (undo_setting u s) = st_loading s" "st_loads (undo_setting u s) = st_loads s"
  "st_error (undo_setting u s) = st_error s" "st_saves (undo_setting u s) = st_saves s"
  by (cases u; simp)+

lemma shown_other [simp]:
  "shown_settings (s\<lparr>st_saves := x\<rparr>) = shown_settings s" "shown_settings (s\<lparr>st_toasts := y\<rparr>) = shown_settings s"
  "shown_settings (s\<lparr>st_error := z\<rparr>) = shown_settings s"
  "shown_settings (undo_setting u (s\<lparr>st_saves := x\<rparr>)) = shown_settings (undo_setting u s)"
  by (simp_all add: shown_settings_def) (cases u; simp)

lemma settings_good_step:
  assumes "settings_good p" "calm_settings p p'"
  shows "settings_good p'"
proof -
  have "settings_step p p'" using assms(2) by (simp add: calm_settings_def)
  then show ?thesis
  proof cases
    case (loaded s v)
    then show ?thesis using assms(1) by (simp add: settings_good_def settings_loaded_def show_settings_def Let_def shown_settings_eq)
  next
    case (failed s e v)
    then show ?thesis using assms(1) by (simp add: settings_good_def settings_loaded_def Let_def)
  next
    case (retry s v)
    then have "st_saves s = []" using assms(2) by (simp add: calm_settings_def retry_settings_def)
    then show ?thesis using retry assms(1) by (auto simp: settings_good_def retry_settings_def)
  next
    case (change s s' v)
    then have "st_saves s = []" using assms(2)
      by (auto simp: calm_settings_def elim!: settings_change.cases)
        (auto simp: change_failures_def change_metrics_def change_logs_def change_interval_def)
    then show ?thesis using change good_change assms(1) by blast
  next
    case (saved q s v)
    then have "st_saves s = [q]" using assms(1) by (cases "st_saves s") (auto simp: settings_good_def)
    then show ?thesis using saved assms(1) by (simp add: settings_good_def setting_saved_def Let_def)
  next
    case (refused q s v e)
    then have "st_saves s = [q]" using assms(1) by (cases "st_saves s") (auto simp: settings_good_def)
    then show ?thesis using refused assms(1) by (simp add: settings_good_def setting_saved_def Let_def)
  qed
qed

interpretation settings: answers "\<lambda>k d. d = k" calm_settings snd settled_settings settings_good
proof unfold_locales
  show "settings_good p \<Longrightarrow> settled_settings p = Some d \<Longrightarrow> d = snd p" for p d
    by (auto simp: settings_good_def settled_settings_def split: if_splits)
qed (rule settings_good_step)

theorem settings_current:
  assumes "calm_settings\<^sup>*\<^sup>* (settings_mounted, v) (s, w)" "\<not> st_loading s" "st_error s = None" "st_saves s = []"
  shows "shown_settings s = w"
proof -
  have "settings_good (settings_mounted, v)" by (simp add: settings_good_def settings_mounted_def)
  then show ?thesis using settings.reach_shown [OF assms(1)] assms(2-4) by (simp add: settled_settings_def)
qed

text \<open>After a failed load the controls show the built-in values, and choosing another metrics retention
  stores the built-in three days for the logs, whatever the server had.\<close>

theorem failed_load_overwrites:
  assumes "v \<noteq> []"
  shows "\<exists>s. settings_step\<^sup>*\<^sup>* (settings_mounted, w)
    (s, w\<lparr>as_retention := \<lparr>sret_metrics = v, sret_logs = ''3d''\<rparr>\<rparr>)"
proof -
  define s1 where "s1 = settings_loaded (Inl ThrownValue) settings_mounted"
  define s2 where "s2 = change_metrics v s1"
  define q where "q = hd (st_saves s2)"
  have "settings_step (settings_mounted, w) (s1, w)"
    unfolding s1_def by (rule settings_step.failed) (simp add: settings_mounted_def)
  moreover have "settings_step (s1, w) (s2, w)"
    unfolding s2_def by (rule settings_step.change) (simp_all add: s1_def settings_loaded_def settings_mounted_def settings_change.metrics assms)
  moreover have "settings_step (s2, w) (setting_saved q (Inr ()) s2, settings_update (fst q) w)"
    by (rule settings_step.saved) (simp add: q_def s2_def s1_def change_metrics_def settings_loaded_def settings_mounted_def)
  moreover have "settings_update (fst q) w = w\<lparr>as_retention := \<lparr>sret_metrics = v, sret_logs = ''3d''\<rparr>\<rparr>"
    using assms by (simp add: q_def s2_def s1_def change_metrics_def settings_loaded_def settings_mounted_def settings_update_def no_patch_def)
  ultimately show ?thesis by (metis (no_types) rtranclp.rtrancl_refl rtranclp.rtrancl_into_rtrancl)
qed

text \<open>Two changes in a row, the first of which fails last: the page takes back the first and shows what
  the server no longer has, with nothing in flight.\<close>

theorem late_undo:
  fixes e :: thrown
  assumes "0 < a" "0 < b" "a \<noteq> b" "st_failures s \<noteq> b" "st_saves s = []"
  defines "s2 \<equiv> change_failures b (change_failures a s)"
  defines "s4 \<equiv> setting_saved (st_saves s2 ! 0) (Inl e) (setting_saved (st_saves s2 ! 1) (Inr ()) s2)"
  shows "st_saves s4 = [] \<and> st_failures s4 = st_failures s
    \<and> sa_consecutiveFailures (as_alerts (settings_update (fst (st_saves s2 ! 1)) v)) = b"
  using assms(1-5)
  by (simp add: s4_def s2_def change_failures_def setting_saved_def settings_update_def no_patch_def Let_def)

lemma options_hold_current: "v \<in> set (with_current opts v)" "sorted opts \<Longrightarrow> sorted (with_current opts v)"
  by (simp_all add: with_current_def)

end
