(* ===== verification/EU_Select.thy ===== *)
theory EU_Select imports EU_Client
begin

text \<open>
  The list box of the forms (\<open>components/common/Select.tsx\<close>): its options from the children, the value it
  shows, and what the keys and clicks choose.
\<close>

section \<open>Options\<close>

text \<open>A child: an option with its value, disabled flag and text, a group of children, or anything else.\<close>

datatype select_child = Sc_option "string option" bool string | Sc_group "select_child list" | Sc_other

record select_option =
  so_value :: string
  so_label :: string
  so_disabled :: bool

fun optionsFromChildren :: "select_child list \<Rightarrow> select_option list" where
  "optionsFromChildren [] = []"
| "optionsFromChildren (Sc_option v dis label # cs) =
     \<lparr>so_value = or_default v label, so_label = label, so_disabled = dis\<rparr> # optionsFromChildren cs"
| "optionsFromChildren (Sc_group xs # cs) = optionsFromChildren xs @ optionsFromChildren cs"
| "optionsFromChildren (Sc_other # cs) = optionsFromChildren cs"

section \<open>State and handlers\<close>

text \<open>\<open>sel_controlled\<close> is the \<open>value\<close> of the parent, \<open>sel_sent\<close> the changes the native select has told it.\<close>

record select_state =
  sel_options :: "select_option list"
  sel_controlled :: "string option"
  sel_local :: string
  sel_open :: bool
  sel_disabled :: bool
  sel_sent :: "string list"

definition select_mounted :: "select_option list \<Rightarrow> string option \<Rightarrow> string option \<Rightarrow> bool \<Rightarrow> select_state" where
  "select_mounted opts val def dis =
     \<lparr>sel_options = opts, sel_controlled = val,
      sel_local = (case def of Some d \<Rightarrow> d | None \<Rightarrow> (case opts of o1 # _ \<Rightarrow> so_value o1 | [] \<Rightarrow> [])),
      sel_open = False, sel_disabled = dis, sel_sent = []\<rparr>"

definition selectedValue :: "select_state \<Rightarrow> string" where
  "selectedValue s = or_default (sel_controlled s) (sel_local s)"

definition selected_option :: "select_state \<Rightarrow> select_option option" where
  "selected_option s =
     (case find (\<lambda>q. so_value q = selectedValue s) (sel_options s) of
        Some q \<Rightarrow> Some q
      | None \<Rightarrow> (case sel_options s of q # _ \<Rightarrow> Some q | [] \<Rightarrow> None))"

definition selectValue :: "string \<Rightarrow> select_state \<Rightarrow> select_state" where
  "selectValue v s =
     (if sel_disabled s then s else s\<lparr>sel_local := v, sel_open := False, sel_sent := sel_sent s @ [v]\<rparr>)"

definition select_toggle :: "select_state \<Rightarrow> select_state" where
  "select_toggle s = s\<lparr>sel_open := \<not> sel_open s\<rparr>"

definition select_outside :: "select_state \<Rightarrow> select_state" where
  "select_outside s = s\<lparr>sel_open := False\<rparr>"

datatype select_key = Sk_down | Sk_up | Sk_enter | Sk_space | Sk_escape | Sk_else

definition selectable :: "select_state \<Rightarrow> select_option list" where
  "selectable s = filter (\<lambda>q. \<not> so_disabled q) (sel_options s)"

text \<open>\<open>xs[n]\<close> with the remainder of a possibly negative number, which keeps its sign, and no element outside.\<close>

definition js_rem :: "int \<Rightarrow> int \<Rightarrow> int" where
  "js_rem a b = (if a < 0 then - ((- a) mod b) else a mod b)"

definition js_nth :: "'a list \<Rightarrow> int \<Rightarrow> 'a option" where
  "js_nth xs n = (if 0 \<le> n \<and> n < int (length xs) then Some (xs ! nat n) else None)"

definition arrow_option :: "int \<Rightarrow> select_state \<Rightarrow> select_option option" where
  "arrow_option offset s =
     (let currentIndex = (case find_index (\<lambda>q. so_value q = selectedValue s) (selectable s) of Some i \<Rightarrow> int i | None \<Rightarrow> -1);
          n = int (length (selectable s))
      in if n = 0 then None else js_nth (selectable s) (js_rem (currentIndex + offset + n) n))"

definition arrow :: "int \<Rightarrow> select_state \<Rightarrow> select_state" where
  "arrow offset s = (case arrow_option offset s of Some q \<Rightarrow> selectValue (so_value q) s | None \<Rightarrow> s)"

definition select_onKeyDown :: "select_key \<Rightarrow> select_state \<Rightarrow> select_state" where
  "select_onKeyDown k s =
     (case k of
        Sk_escape \<Rightarrow> if sel_open s then s\<lparr>sel_open := False\<rparr> else s
      | Sk_enter \<Rightarrow> select_toggle s
      | Sk_space \<Rightarrow> select_toggle s
      | Sk_down \<Rightarrow> arrow 1 s
      | Sk_up \<Rightarrow> arrow (-1) s
      | Sk_else \<Rightarrow> s)"

text \<open>A click on an option; a disabled one cannot be clicked.\<close>

definition option_click :: "select_option \<Rightarrow> select_state \<Rightarrow> select_state" where
  "option_click q s = (if so_disabled q then s else selectValue (so_value q) s)"

section \<open>The keys\<close>

lemma find_index_nth:
  assumes "distinct (map f xs)" "i < length xs"
  shows "find_index (\<lambda>x. f x = f (xs ! i)) xs = Some i"
proof -
  have "f (xs ! j) = f (xs ! i) \<longleftrightarrow> j = i" if "j < length xs" for j
    using assms that nth_eq_iff_index_eq [of "map f xs" j i] by simp
  then have "find (\<lambda>j. f (xs ! j) = f (xs ! i)) [0..<length xs] = find (\<lambda>j. j = i) [0..<length xs]"
    by (intro find_cong) auto
  also have "\<dots> = Some i"
  proof -
    have "[0..<length xs] ! i = i" using assms(2) by simp
    then show ?thesis using assms(2) unfolding find_Some_iff by (intro exI [of _ i]) simp
  qed
  finally show ?thesis by (simp add: find_index_def)
qed

text \<open>The arrows go round the options that can be chosen, one step at a time.\<close>

theorem arrows_go_round:
  assumes "distinct (map so_value (selectable s))" "i < length (selectable s)" "selectedValue s = so_value (selectable s ! i)"
  shows "arrow_option 1 s = Some (selectable s ! (Suc i mod length (selectable s)))"
    and "arrow_option (-1) s = Some (selectable s ! ((i + length (selectable s) - 1) mod length (selectable s)))"
proof -
  let ?n = "length (selectable s)"
  have ix: "find_index (\<lambda>q. so_value q = selectedValue s) (selectable s) = Some i"
    using find_index_nth [OF assms(1,2)] assms(3) by simp
  have "nat ((int i + 1 + int ?n) mod int ?n) = Suc i mod ?n"
    by (simp flip: of_nat_Suc of_nat_mod add: add.commute nat_mod_distrib)
  moreover have "nat ((int i + int ?n - 1) mod int ?n) = (i + ?n - 1) mod ?n"
  proof -
    have "int i + int ?n - 1 = int (i + ?n - 1)" using assms(2) by linarith
    then show ?thesis by (simp only: of_nat_mod [symmetric] nat_int)
  qed
  ultimately show "arrow_option 1 s = Some (selectable s ! (Suc i mod ?n))"
    "arrow_option (-1) s = Some (selectable s ! ((i + ?n - 1) mod ?n))"
    using assms(2) ix by (auto simp: arrow_option_def js_rem_def js_nth_def Let_def add.commute algebra_simps)
qed

text \<open>No key and no click ever sends a disabled option, and nothing is sent by a disabled box.\<close>

theorem sends_selectable:
  assumes "s' = select_onKeyDown k s \<or> s' = option_click q s \<and> q \<in> set (sel_options s)"
  shows "sel_sent s' = sel_sent s \<or> (\<exists>q \<in> set (selectable s). sel_sent s' = sel_sent s @ [so_value q] \<and> \<not> sel_disabled s)"
proof -
  have key: "q \<in> set (selectable s)" if "arrow_option off s = Some q" for off q
    using that by (auto simp: arrow_option_def js_nth_def Let_def split: if_splits)
  have arrow: "sel_sent (arrow off s) = sel_sent s \<or> (\<exists>q \<in> set (selectable s). sel_sent (arrow off s) = sel_sent s @ [so_value q] \<and> \<not> sel_disabled s)" for off
  proof (cases "arrow_option off s")
    case (Some q)
    then show ?thesis using key [OF Some] by (auto simp: arrow_def selectValue_def)
  qed (simp add: arrow_def)
  from assms show ?thesis
  proof
    assume "s' = select_onKeyDown k s"
    then show ?thesis using arrow by (cases k) (simp_all add: select_onKeyDown_def select_toggle_def)
  next
    assume "s' = option_click q s \<and> q \<in> set (sel_options s)"
    then show ?thesis by (auto simp: option_click_def selectValue_def selectable_def)
  qed
qed

text \<open>Where the value is none of the options (they are then shown with the first), down goes to the first but
  up to the last but one: the last is left out.\<close>

theorem up_skips_last:
  assumes "\<forall>q \<in> set (selectable s). so_value q \<noteq> selectedValue s" "2 \<le> length (selectable s)"
  shows "arrow_option 1 s = Some (selectable s ! 0)"
    and "arrow_option (-1) s = Some (selectable s ! (length (selectable s) - 2))"
proof -
  have "find_index (\<lambda>q. so_value q = selectedValue s) (selectable s) = None"
    using assms(1) by (auto simp: find_index_def find_None_iff)
  moreover have "nat (int n - 2) = n - 2" "(int n - 2) mod int n = int n - 2" if "2 \<le> n" for n
    using that by (simp, intro mod_pos_pos_trivial) auto
  ultimately show "arrow_option 1 s = Some (selectable s ! 0)"
    "arrow_option (-1) s = Some (selectable s ! (length (selectable s) - 2))"
    using assms(2) by (auto simp: arrow_option_def js_rem_def js_nth_def Let_def)
qed

text \<open>What was chosen is the value shown, once the parent passes back what it was sent.\<close>

lemma chosen_shown:
  "\<not> sel_disabled s \<Longrightarrow> sel_controlled s = None \<or> v' = Some v \<Longrightarrow>
   selectedValue ((selectValue v s)\<lparr>sel_controlled := if sel_controlled s = None then None else v'\<rparr>) = v"
  by (auto simp: selectedValue_def selectValue_def)

end
