(* ===== verification/EU_ServicePage.thy ===== *)
theory EU_ServicePage imports EU_EndToEnd EU_Loader
begin

text \<open>
  The page of one Docker service: \<open>pages/healthcheck/HealthCheckDetailPage.tsx\<close> (the service named by the address, its
  reads and the tab), \<open>features/healthcheck/components/AgentHealthCheckDetailView.tsx\<close> and \<open>AgentServiceTabs.tsx\<close>
  (header and tabs), \<open>AgentServiceTracesTab.tsx\<close> (the list of traces, also of a direct service) and
  \<open>features/services/components/ApiKeyModal.tsx\<close> (an environment's key).
\<close>

section \<open>The address\<close>

text \<open>\<open>pathname.replace(/\/$/, '')\<close>.\<close>

definition drop_final_slash :: "string \<Rightarrow> string" where
  "drop_final_slash p = (if p \<noteq> [] \<and> last p = CHR ''/'' then butlast p else p)"

definition serviceKeyFromPath :: "string \<Rightarrow> string option" where
  "serviceKeyFromPath pathname = decodeURIComponent (last (split_on (CHR ''/'') (drop_final_slash pathname)))"

datatype detail_tab = Dt_uptime | Dt_logs | Dt_requests | Dt_traces | Dt_metrics | Dt_infra

fun detail_tab_text :: "detail_tab \<Rightarrow> string" where
  "detail_tab_text Dt_uptime = ''uptime''"
| "detail_tab_text Dt_logs = ''logs''"
| "detail_tab_text Dt_requests = ''requests''"
| "detail_tab_text Dt_traces = ''traces''"
| "detail_tab_text Dt_metrics = ''metrics''"
| "detail_tab_text Dt_infra = ''infra''"

definition detail_tab_of :: "search_params \<Rightarrow> detail_tab" where
  "detail_tab_of ps =
     (case find (\<lambda>t. sp_get ps ''tab'' = Some (detail_tab_text t)) [Dt_logs, Dt_requests, Dt_traces, Dt_metrics, Dt_infra] of
        Some t \<Rightarrow> t | None \<Rightarrow> Dt_uptime)"

definition change_detail_tab :: "detail_tab \<Rightarrow> search_params \<Rightarrow> search_params" where
  "change_detail_tab t ps = (if t = Dt_uptime then sp_delete ''tab'' ps else sp_set ''tab'' (detail_tab_text t) ps)"

definition TABS :: "(detail_tab \<times> string) list" where
  "TABS = [(Dt_uptime, [CHR 0xEC, CHR 0x97, CHR 0x85, CHR 0xED, CHR 0x83, CHR 0x80, CHR 0xEC, CHR 0x9E, CHR 0x84]), (Dt_logs, [CHR 0xEB, CHR 0xA1, CHR 0x9C, CHR 0xEA, CHR 0xB7, CHR 0xB8]), (Dt_requests, (''API '' @ [CHR 0xEC, CHR 0x9A, CHR 0x94, CHR 0xEC, CHR 0xB2, CHR 0xAD])), (Dt_traces, [CHR 0xED, CHR 0x8A, CHR 0xB8, CHR 0xEB, CHR 0xA0, CHR 0x88, CHR 0xEC, CHR 0x9D, CHR 0xB4, CHR 0xEC, CHR 0x8A, CHR 0xA4]),
     (Dt_metrics, [CHR 0xEB, CHR 0xA9, CHR 0x94, CHR 0xED, CHR 0x8A, CHR 0xB8, CHR 0xEB, CHR 0xA6, CHR 0xAD]), (Dt_infra, [CHR 0xEC, CHR 0x9D, CHR 0xB8, CHR 0xED, CHR 0x94, CHR 0x84, CHR 0xEB, CHR 0x9D, CHR 0xBC])]"

text \<open>The tab bar with a tab given from outside or of its own: what it reports and its own state after a click.\<close>

definition active_tab :: "detail_tab option \<Rightarrow> detail_tab \<Rightarrow> detail_tab" where
  "active_tab given own = (case given of Some t \<Rightarrow> t | None \<Rightarrow> own)"

definition changeTab :: "detail_tab option \<Rightarrow> detail_tab \<Rightarrow> detail_tab \<Rightarrow> detail_tab" where
  "changeTab given nxt own = (if given = None then nxt else own)"

section \<open>Reading the service\<close>

record service_page =
  sg_agent :: string
  sg_key :: "string option"
  sg_service :: "agent_service_flat option"
  sg_loading :: bool
  sg_error :: "string option"
  sg_refreshing :: bool
  sg_pending :: bool
  sg_refreshKey :: nat

text \<open>A call while a request is in flight joins it.  Without a readable key nothing is asked.\<close>

definition fetch_service :: "service_page \<Rightarrow> service_page" where
  "fetch_service s =
     (if sg_pending s then s
      else if sg_key s = None then s\<lparr>sg_service := None, sg_loading := False, sg_refreshing := False\<rparr>
      else s\<lparr>sg_refreshing := True, sg_pending := True\<rparr>)"

definition service_page_mounted :: "string \<Rightarrow> string option \<Rightarrow> service_page" where
  "service_page_mounted a k = fetch_service
     \<lparr>sg_agent = a, sg_key = k, sg_service = None, sg_loading = True, sg_error = None, sg_refreshing = False,
      sg_pending = False, sg_refreshKey = 0\<rparr>"

definition service_fetched :: "thrown + agent_service_flat list \<Rightarrow> service_page \<Rightarrow> service_page" where
  "service_fetched r s =
     (let s = (case r of
          Inr rows \<Rightarrow> s\<lparr>sg_service := find (\<lambda>v. sv_agentId v = sg_agent s \<and> Some (sv_key v) = sg_key s) rows, sg_error := None\<rparr>
        | Inl e \<Rightarrow> s\<lparr>sg_error := Some (getErrorMessage e)\<rparr>)
      in s\<lparr>sg_loading := False, sg_refreshing := False, sg_pending := False\<rparr>)"

definition service_refresh :: "service_page \<Rightarrow> service_page" where
  "service_refresh s = (fetch_service s)\<lparr>sg_refreshKey := Suc (sg_refreshKey s)\<rparr>"

inductive service_page_step :: "service_page \<Rightarrow> service_page \<Rightarrow> bool" where
  fetch: "service_page_step s (fetch_service s)"
| refresh: "service_page_step s (service_refresh s)"
| fetched: "sg_pending s \<Longrightarrow> service_page_step s (service_fetched r s)"

datatype service_page_shown = Sp_loading | Sp_failed string | Sp_missing | Sp_service agent_service_flat "string option"

definition service_page_view :: "service_page \<Rightarrow> service_page_shown" where
  "service_page_view s =
     (if sg_loading s then Sp_loading
      else case sg_service s of
          Some v \<Rightarrow> Sp_service v (if truthy (sg_error s) then sg_error s else None)
        | None \<Rightarrow> if truthy (sg_error s) then Sp_failed (the (sg_error s)) else Sp_missing)"

section \<open>The header\<close>

text \<open>\<open>local_year\<close>: the year of an instant on the reader's calendar.\<close>

definition formatUptime :: "(int \<Rightarrow> int) \<Rightarrow> int \<Rightarrow> string option \<Rightarrow> string option" where
  "formatUptime local_year now startedAt =
     (if \<not> truthy startedAt then None
      else case date_parse (the startedAt) of
          None \<Rightarrow> None
        | Some t \<Rightarrow>
            if local_year t < 2000 then None
            else let sec = max 0 ((now - t) div 1000);
                     days = sec div 86400; hours = sec mod 86400 div 3600; mins = sec mod 3600 div 60
                 in Some (if days > 0 then show_int days @ ([CHR 0xEC, CHR 0x9D, CHR 0xBC] @ '' '') @ show_int hours @ [CHR 0xEC, CHR 0x8B, CHR 0x9C, CHR 0xEA, CHR 0xB0, CHR 0x84]
                    else if hours > 0 then show_int hours @ ([CHR 0xEC, CHR 0x8B, CHR 0x9C, CHR 0xEA, CHR 0xB0, CHR 0x84] @ '' '') @ show_int mins @ [CHR 0xEB, CHR 0xB6, CHR 0x84]
                    else show_int mins @ [CHR 0xEB, CHR 0xB6, CHR 0x84]))"

text \<open>A field of the header: its label, its text, and whether it is marked.\<close>

definition containerFields :: "(int \<Rightarrow> int) \<Rightarrow> int \<Rightarrow> agent_service_flat \<Rightarrow> (string \<times> string \<times> bool) list" where
  "containerFields local_year now v =
     (if \<not> truthy (sv_image v) then []
      else let uptime = formatUptime local_year now (sv_startedAt v); restarts = or_default (sv_restartCount v) 0 in
        [(''Image'', the (sv_image v), False)]
        @ (case uptime of Some u \<Rightarrow> [(''Uptime'', u, False)] | None \<Rightarrow> [])
        @ (if restarts > 0 then [(''Restarts'', show_int restarts @ [CHR 0xED, CHR 0x9A, CHR 0x8C], restarts \<ge> 3)] else []))"

section \<open>Traces\<close>

datatype trace_source = Ts_agent string string | Ts_direct string

record traces_key =
  tk_source :: trace_source
  tk_sort :: trace_sort
  tk_errorsOnly :: bool
  tk_window :: request_window
  tk_refreshKey :: nat
  tk_retryKey :: nat

definition TRACE_LIMIT :: int where
  "TRACE_LIMIT = 50"

definition traces_query :: "traces_key \<Rightarrow> trace_list_query" where
  "traces_query k =
     \<lparr>tq_from = Some (rw_from (tk_window k)), tq_to = Some (rw_to (tk_window k)), tq_minDurationMs = None,
      tq_errorsOnly = (if tk_errorsOnly k then Some True else None), tq_sort = Some (tk_sort k), tq_limit = Some TRACE_LIMIT\<rparr>"

definition traces_call :: "traces_key \<Rightarrow> trace_summary list api_call" where
  "traces_call k =
     (case tk_source k of
        Ts_agent a key \<Rightarrow> getAgentServiceTraces a key (Some (traces_query k))
      | Ts_direct i \<Rightarrow> getObservedServiceTraces i (Some (traces_query k)))"

type_synonym traces_panel = "(traces_key, trace_summary list) loader"

definition traces_mounted :: "traces_key \<Rightarrow> traces_panel" where
  "traces_mounted k = loader_mounted k"

definition traces_effect :: "traces_key \<Rightarrow> traces_panel \<Rightarrow> traces_panel" where
  "traces_effect k s = loader_start k s"

definition retry_traces :: "traces_panel \<Rightarrow> traces_panel" where
  "retry_traces s = traces_effect ((ld_key s)\<lparr>tk_retryKey := Suc (tk_retryKey (ld_key s))\<rparr>) s"

definition traces_answered :: "nat \<times> traces_key \<Rightarrow> thrown + trace_summary list \<Rightarrow> traces_panel \<Rightarrow> traces_panel" where
  "traces_answered q r s = loader_answered q r s"

definition toggle_trace_errors :: "bool \<Rightarrow> search_params \<Rightarrow> search_params" where
  "toggle_trace_errors errorsOnly ps = update_params [(''traceErrorsOnly'', if errorsOnly then None else Some ''true'')] ps"

definition set_trace_sort :: "trace_sort \<Rightarrow> search_params \<Rightarrow> search_params" where
  "set_trace_sort v ps = update_params [(''traceSort'', Some (case v of Sort_recent \<Rightarrow> ''recent'' | Sort_slowest \<Rightarrow> ''slowest''))] ps"

datatype traces_shown = Tr_loading | Tr_failed string | Tr_none bool | Tr_rows "trace_summary list"

definition traces_view :: "traces_panel \<Rightarrow> traces_shown" where
  "traces_view s =
     (if ld_loading s then Tr_loading
      else if truthy (ld_error s) then Tr_failed (the (ld_error s))
      else case or_default (ld_data s) [] of [] \<Rightarrow> Tr_none (tk_errorsOnly (ld_key s)) | rows \<Rightarrow> Tr_rows rows)"

datatype badge = Bg_server | Bg_client | Bg_messaging | Bg_other

definition spanKindBadge :: "string \<Rightarrow> badge" where
  "spanKindBadge k =
     (if k = ''SERVER'' then Bg_server else if k = ''CLIENT'' then Bg_client
      else if k = ''PRODUCER'' \<or> k = ''CONSUMER'' then Bg_messaging else Bg_other)"

section \<open>An environment's key\<close>

record key_modal =
  km_agent :: string
  km_loading :: bool
  km_key :: string
  km_available :: bool
  km_confirm :: bool
  km_rotating :: bool
  km_toasts :: "string list"
  km_told :: nat

definition key_modal_mounted :: "string \<Rightarrow> key_modal" where
  "key_modal_mounted a =
     \<lparr>km_agent = a, km_loading = True, km_key = [], km_available = False, km_confirm = False, km_rotating = False,
      km_toasts = [], km_told = 0\<rparr>"

definition key_loaded :: "thrown + string \<times> bool \<Rightarrow> key_modal \<Rightarrow> key_modal" where
  "key_loaded r s =
     (case r of
        Inr (k, avail) \<Rightarrow> s\<lparr>km_key := k, km_available := avail, km_loading := False\<rparr>
      | Inl e \<Rightarrow> s\<lparr>km_toasts := km_toasts s @ [getErrorMessage e], km_loading := False\<rparr>)"

definition handleRotate :: "key_modal \<Rightarrow> key_modal" where
  "handleRotate s = s\<lparr>km_confirm := False, km_rotating := True\<rparr>"

text \<open>\<open>km_told\<close> counts the calls of \<open>onRotated\<close>.\<close>

definition key_rotated :: "thrown + string \<Rightarrow> key_modal \<Rightarrow> key_modal" where
  "key_rotated r s =
     (case r of
        Inr k \<Rightarrow> s\<lparr>km_key := k, km_available := True, km_toasts := km_toasts s @ [([CHR 0xEC, CHR 0x83, CHR 0x88] @ '' API Key'' @ [CHR 0xEA, CHR 0xB0, CHR 0x80] @ '' '' @ [CHR 0xEB, CHR 0xB0, CHR 0x9C, CHR 0xEA, CHR 0xB8, CHR 0x89, CHR 0xEB, CHR 0x90, CHR 0x90, CHR 0xEC, CHR 0x8A, CHR 0xB5, CHR 0xEB, CHR 0x8B, CHR 0x88, CHR 0xEB, CHR 0x8B, CHR 0xA4])],
                  km_told := Suc (km_told s), km_rotating := False\<rparr>
      | Inl e \<Rightarrow> s\<lparr>km_toasts := km_toasts s @ [getErrorMessage e], km_rotating := False\<rparr>)"

datatype key_shown = Ks_loading | Ks_key string string | Ks_not_stored

definition key_view :: "key_modal \<Rightarrow> key_shown" where
  "key_view s =
     (if km_loading s then Ks_loading
      else if km_available s then Ks_key (km_key s) (''EVERYUP_AGENT_API_KEY='' @ km_key s) else Ks_not_stored)"

section \<open>What is shown\<close>

text \<open>The address of a service's page names its key, whatever characters it has.\<close>

theorem service_key_read:
  assumes "is_segment a" "k \<noteq> []"
  shows "serviceKeyFromPath (''/services/'' @ a @ ''/'' @ encodeURIComponent k) = Some k"
proof -
  let ?p = "''/services/'' @ a @ ''/'' @ encodeURIComponent k"
  have k: "CHR ''/'' \<notin> set (encodeURIComponent k)" by (rule encode_no_delimiter) (simp add: url_delimiters_def)
  have e: "encodeURIComponent k \<noteq> []" using assms(2) by simp
  have "?p = (''/services/'' @ a @ ''/'') @ encodeURIComponent k" by (simp only: append_assoc)
  then have "last ?p = last (encodeURIComponent k)" using last_appendR [OF e, of "''/services/'' @ a @ ''/''"] by (simp only:)
  then have "last ?p \<noteq> CHR ''/''" using last_in_set [OF e] k by metis
  then have d: "drop_final_slash ?p = ?p" by (simp add: drop_final_slash_def)
  have a: "CHR ''/'' \<notin> set a" using assms(1) by (simp add: is_segment_def)
  have "split_on (CHR ''/'') (a @ CHR ''/'' # encodeURIComponent k) = [a, encodeURIComponent k]"
    by (simp add: split_on_append [OF a] split_on_free [OF k])
  then have "last (split_on (CHR ''/'') ?p) = encodeURIComponent k" by simp
  then show ?thesis by (simp only: serviceKeyFromPath_def d decode_encode)
qed

lemma detail_tab_set [simp]: "detail_tab_of (change_detail_tab t ps) = t"
  by (cases t) (simp_all add: detail_tab_of_def change_detail_tab_def)

lemma detail_tab_keeps [simp]: "j \<noteq> ''tab'' \<Longrightarrow> sp_get (change_detail_tab t ps) j = sp_get ps j"
  by (simp add: change_detail_tab_def)

definition service_page_good :: "service_page \<Rightarrow> bool" where
  "service_page_good s \<longleftrightarrow>
     (sg_pending s \<longleftrightarrow> sg_refreshing s) \<and> (sg_loading s \<longrightarrow> sg_pending s) \<and> (sg_key s = None \<longrightarrow> \<not> sg_pending s)
     \<and> pred_option (\<lambda>v. sv_agentId v = sg_agent s \<and> Some (sv_key v) = sg_key s) (sg_service s)"

lemma service_page_good_step:
  assumes "service_page_good s" "service_page_step s s'"
  shows "service_page_good s'"
  using assms(2)
proof cases
  case (fetched r)
  then show ?thesis using assms(1)
    by (cases r) (auto simp: service_page_good_def service_fetched_def Let_def pred_option_def find_Some_iff dest!: sym [of _ "find _ _"])
qed (use assms(1) in \<open>auto simp: service_page_good_def fetch_service_def service_refresh_def\<close>)

interpretation service_page: answers "\<lambda>(a, k) v. sv_agentId v = a \<and> Some (sv_key v) = k" service_page_step
  "\<lambda>s. (sg_agent s, sg_key s)" sg_service service_page_good
proof unfold_locales
  show "service_page_good s \<Longrightarrow> sg_service s = Some v \<Longrightarrow>
      (case (sg_agent s, sg_key s) of (a, k) \<Rightarrow> \<lambda>v. sv_agentId v = a \<and> Some (sv_key v) = k) v" for s v
    by (simp add: service_page_good_def)
qed (rule service_page_good_step)

lemma service_page_key: "service_page_step s s' \<Longrightarrow> sg_agent s' = sg_agent s \<and> sg_key s' = sg_key s"
  by (induction rule: service_page_step.induct)
    (auto simp: fetch_service_def service_refresh_def service_fetched_def Let_def split: sum.split)

text \<open>The page opened from a link shows the service of the link and no other, and it waits only while a request is out.\<close>

theorem service_page_exact:
  assumes "is_segment a" "k \<noteq> []"
    and "service_page_step\<^sup>*\<^sup>* (service_page_mounted a (serviceKeyFromPath (''/services/'' @ a @ ''/'' @ encodeURIComponent k))) s"
  shows "service_page_view s = Sp_service v e \<Longrightarrow> sv_agentId v = a \<and> sv_key v = k"
    "service_page_view s = Sp_loading \<Longrightarrow> sg_pending s"
proof -
  let ?m = "service_page_mounted a (Some k)"
  have r: "service_page_step\<^sup>*\<^sup>* ?m s" using assms(3) by (simp only: service_key_read [OF assms(1,2)])
  have good: "service_page_good ?m" by (simp add: service_page_good_def service_page_mounted_def fetch_service_def)
  have key: "sg_agent s = a \<and> sg_key s = Some k" using r
  proof (induction rule: rtranclp_induct)
    case base
    show ?case by (simp add: service_page_mounted_def fetch_service_def)
  qed (use service_page_key in simp)
  show "service_page_view s = Sp_service v e \<Longrightarrow> sv_agentId v = a \<and> sv_key v = k"
    using service_page.reach_shown [OF r good, of v] key
    by (auto simp: service_page_view_def split: if_splits option.splits)
  show "service_page_view s = Sp_loading \<Longrightarrow> sg_pending s"
    using service_page.reach_good [OF r good] by (auto simp: service_page_view_def service_page_good_def split: if_splits option.splits)
qed

text \<open>A failed refresh keeps the service that was shown, marked; the next success clears the mark.\<close>

theorem failed_refresh_kept:
  assumes "sg_service s = Some v" "getErrorMessage e \<noteq> []"
  shows "service_page_view (service_fetched (Inl e) s) = Sp_service v (Some (getErrorMessage e))"
    "service_page_view (service_fetched (Inr rows) (service_fetched (Inl e) s)) = service_page_view (service_fetched (Inr rows) s)"
  using assms by (simp_all add: service_page_view_def service_fetched_def truthy_def)

section \<open>The traces that are shown\<close>

definition traces_step :: "(traces_key \<Rightarrow> trace_summary list \<Rightarrow> bool) \<Rightarrow> traces_panel \<Rightarrow> traces_panel \<Rightarrow> bool" where
  "traces_step fits = loader_step fits"

theorem traces_current:
  assumes "(traces_step fits)\<^sup>*\<^sup>* (traces_mounted k) s" "traces_view s = Tr_rows rows" "ld_error s \<noteq> Some []"
  shows "fits (ld_key s) rows"
proof -
  have r: "(loader_step fits)\<^sup>*\<^sup>* (loader_mounted k) s" using assms(1) by (simp add: traces_step_def traces_mounted_def)
  have g: "loader_good fits s" by (rule loads.reach_good [OF r loader_good_mounted])
  show ?thesis
  proof (cases "ld_error s")
    case None
    then have "loader_shown s = Some rows"
      using assms(2) by (cases "ld_data s") (auto simp: traces_view_def loader_shown_def or_default_def split: if_splits list.splits)
    then show ?thesis by (rule loads.reach_shown [OF r loader_good_mounted])
  next
    case (Some m)
    then show ?thesis using assms(2,3) by (simp add: traces_view_def truthy_def split: if_splits)
  qed
qed

text \<open>On the demo server the list is that service's traces in the window, of failures only when asked so, by the chosen
  order, the first fifty.\<close>

definition service_traces :: "fixtures \<Rightarrow> string \<Rightarrow> string \<Rightarrow> thrown + trace_summary list" where
  "service_traces fx a k = (case map_of (fx_telemetry fx) (a @ ''/'' @ k) of Some t \<Rightarrow> telemetryTraces t | None \<Rightarrow> Inr [])"

definition trace_wanted :: "traces_key \<Rightarrow> trace_summary \<Rightarrow> bool" where
  "trace_wanted k r \<longleftrightarrow>
     (tk_errorsOnly k \<longrightarrow> ts_errorCount r > 0) \<and> 0 \<le> ts_durationMs r
     \<and> (rw_from (tk_window k) \<noteq> [] \<longrightarrow> rw_from (tk_window k) \<le> ts_startTime r)
     \<and> (rw_to (tk_window k) \<noteq> [] \<longrightarrow> ts_startTime r \<le> rw_to (tk_window k))"

definition trace_order :: "traces_key \<Rightarrow> trace_summary list \<Rightarrow> trace_summary list" where
  "trace_order k rows =
     (case tk_sort k of Sort_slowest \<Rightarrow> sort_by (by_key_desc ts_durationMs) rows | Sort_recent \<Rightarrow> sort_by (by_key_desc ts_startTime) rows)"

lemma serve_service_traces:
  assumes "is_segment a" "k \<noteq> []"
  shows "reads fx c d (with_query (service_base a k @ ''/traces'') ps) = traces_at fx (with_query (service_base a k @ ''/traces'') ps)"
proof -
  have h: "\<not> ends_with (with_query (service_base a k @ ''/traces'') ps) ''/otel-metrics/health''"
    using query_not_health [of "''traces''" "service_base a k" ps] by simp
  have e: "with_query (service_base a k @ ''/traces'') ps
     = ''/agents/'' @ a @ ''/services/'' @ encodeURIComponent k @ ''/traces?'' @ sp_to_string ps"
    by (simp add: with_query_def service_base_def)
  show ?thesis
    using assms h unfolding e
    by (simp add: reads_def observed_reads_def monitor_reads_def agent_reads_def when_path_def observed_tail_def agent_tail_def
      service_tail_def uptime_pat_def path_pats seg_match is_segment_encode)
qed

theorem traces_served:
  assumes "is_segment a" "key \<noteq> []" "tk_source k = Ts_agent a key" "service_traces fx a key = Inr rows"
  shows "serve fx c (traces_call k) d = (d, Inr (R_traces (take 50 (trace_order k (filter (trace_wanted k) rows)))))"
proof -
  define ps where "ps = traceQuery (Some (traces_query k))"
  define e where "e = with_query (service_base a key @ ''/traces'') ps"
  have eq: "endpoint_query e = ps"
    using service_base_no_question [OF assms(1)] by (simp add: e_def endpoint_query_with)
  have gets: "sp_get ps ''errorsOnly'' = (if tk_errorsOnly k then Some ''true'' else None)" "sp_get ps ''minDurationMs'' = None"
    "sp_get ps ''from'' = (if rw_from (tk_window k) \<noteq> [] then Some (rw_from (tk_window k)) else None)"
    "sp_get ps ''to'' = (if rw_to (tk_window k) \<noteq> [] then Some (rw_to (tk_window k)) else None)"
    "sp_get ps ''sort'' = (if tk_sort k = Sort_slowest then Some ''slowest'' else None)"
    "sp_get ps ''limit'' = Some (show_int 50)"
    by (simp_all add: ps_def traceQuery_def traces_query_def TRACE_LIMIT_def build_get truthy_def)
  have m: "trace_matches ps = trace_wanted k"
    by (simp add: fun_eq_iff trace_matches_def trace_wanted_def gets when_set_def truthy_def)
  have tel: "endpointTelemetry fx e = Inr (map_of (fx_telemetry fx) (a @ ''/'' @ key))"
    using endpointTelemetry_service [of a key fx "''traces''" ps] assms by (simp add: e_def)
  have lim: "number_or 100 (sp_get ps ''limit'') = Some (of_int 50)"
    unfolding gets(6) number_or_Some using js_number_show_int [of 50] by simp
  have slice: "js_slice 0 (to_integer (number_or 100 (sp_get ps ''limit''))) xs = take 50 xs" for xs :: "trace_summary list"
    unfolding lim to_integer_of_int using js_slice_nonneg [of 0 50 xs] by simp
  have "scopedTraceList fx e = Inr (take 50 (trace_order k (filter (trace_wanted k) rows)))"
    using assms(4) unfolding scopedTraceList_def tel eq Let_def m slice gets(5)
    by (cases "tk_sort k") (simp_all add: service_traces_def trace_order_def)
  then have "traces_at fx e = Inr (R_traces (take 50 (trace_order k (filter (trace_wanted k) rows))))"
    by (simp add: traces_at_def reply_def)
  then show ?thesis
    using get_service [of a key fx c "''traces''" ps d] serve_service_traces [of a key fx c d ps] assms
    by (simp add: serve_def traces_call_def getAgentServiceTraces_def flip: ps_def e_def)
qed

section \<open>The key of an environment\<close>

text \<open>When the key cannot be read, the dialog says that none is stored: the failed read leaves \<open>available\<close> at its
  first value, as for an environment from before keys were stored.\<close>

theorem failed_key_not_stored:
  "key_view (key_loaded (Inl e) (key_modal_mounted a)) = Ks_not_stored"
  "key_view (key_loaded (Inr ([], False)) (key_modal_mounted a)) = Ks_not_stored"
  by (simp_all add: key_view_def key_loaded_def key_modal_mounted_def)

text \<open>After a rotation the dialog shows the key the server issued, in the setting to paste too; a failed one keeps the old.\<close>

theorem rotation_shown:
  assumes "is_segment (km_agent s)" "\<not> km_loading s"
    and "serve fx c (rotateAgentKey (km_agent s)) d = (d', Inr (R_apiKey k))"
  shows "key_view (key_rotated (Inr k) (handleRotate s)) = Ks_key k (''EVERYUP_AGENT_API_KEY='' @ k)"
    "k = ''evup_svc_'' @ ctx_random c 24" "key_view (key_rotated (Inl e) (handleRotate s)) = key_view s"
  using assms by (simp_all add: key_view_def key_rotated_def handleRotate_def serve_rules)

end
