(* ===== verification/EU_ServiceTabs.thy ===== *)
theory EU_ServiceTabs imports EU_ServicePage
begin

text \<open>
  Tabs of a service: its requests (\<open>features/healthcheck/components/AgentServiceRequestsTab.tsx\<close> with
  \<open>features/api-requests/ApiRequestResults.tsx\<close>), whose filters and page are in the address, and its uptime
  (\<open>AgentUptimeOverview.tsx\<close>, \<open>AgentFailureHistory.tsx\<close>, and \<open>AgentCheckHistoryBar.tsx\<close> of an environment).
\<close>

section \<open>Requests\<close>

record requests_key =
  qk_source :: trace_source
  qk_query :: request_query
  qk_trace :: "string option"
  qk_window :: request_window

record requests_panel =
  qp_source :: trace_source
  qp_address :: search_params
  qp_given :: "search_params \<Rightarrow> string option"
  qp_window :: request_window
  qp_rows :: "api_request list"
  qp_total :: int
  qp_loading :: bool
  qp_error :: "string option"
  qp_run :: nat
  qp_reads :: "(nat \<times> requests_key) list"

text \<open>\<open>qp_given\<close> is the \<open>traceId\<close> the page around the tab passes down from the address.\<close>

definition effective_trace :: "requests_panel \<Rightarrow> string option" where
  "effective_trace s =
     (case qp_given s (qp_address s) of Some t \<Rightarrow> Some t | None \<Rightarrow> rq_traceId (useRequestQuery (qp_address s)))"

definition requests_key_of :: "requests_panel \<Rightarrow> requests_key" where
  "requests_key_of s =
     \<lparr>qk_source = qp_source s, qk_query = useRequestQuery (qp_address s), qk_trace = effective_trace s, qk_window = qp_window s\<rparr>"

definition requests_params :: "requests_key \<Rightarrow> agent_request_params" where
  "requests_params k =
     \<lparr>arq_search = (if rq_search (qk_query k) \<noteq> [] then Some (rq_search (qk_query k)) else None),
      arq_errorsOnly = Some (rq_errorsOnly (qk_query k)), arq_traceId = qk_trace k,
      arq_from = Some (rw_from (qk_window k)), arq_to = Some (rw_to (qk_window k)),
      arq_limit = Some 25, arq_offset = Some ((rq_page (qk_query k) - 1) * 25)\<rparr>"

definition requests_call :: "requests_key \<Rightarrow> api_request rows api_call" where
  "requests_call k =
     (case qk_source k of
        Ts_agent a key \<Rightarrow> getAgentServiceRequests a key (Some (requests_params k))
      | Ts_direct i \<Rightarrow> let p = requests_params k in
          getObservedServiceRequests i (Some \<lparr>dr_search = arq_search p, dr_errorsOnly = arq_errorsOnly p, dr_traceId = arq_traceId p,
            dr_from = arq_from p, dr_to = arq_to p, dr_minStatus = None, dr_maxStatus = None, dr_limit = arq_limit p,
            dr_offset = arq_offset p\<rparr>))"

definition requests_effect :: "requests_panel \<Rightarrow> requests_panel" where
  "requests_effect s =
     s\<lparr>qp_loading := True, qp_error := None, qp_run := Suc (qp_run s),
       qp_reads := qp_reads s @ [(Suc (qp_run s), requests_key_of s)]\<rparr>"

definition requests_mounted :: "trace_source \<Rightarrow> search_params \<Rightarrow> (search_params \<Rightarrow> string option) \<Rightarrow> request_window \<Rightarrow> requests_panel" where
  "requests_mounted src ps given w = requests_effect
     \<lparr>qp_source = src, qp_address = ps, qp_given = given, qp_window = w, qp_rows = [], qp_total = 0, qp_loading = True,
      qp_error = None, qp_run = 0, qp_reads = []\<rparr>"

text \<open>A change of the address renews \<open>update\<close>, on which the effect depends.\<close>

definition requests_update :: "(string \<times> string option) list \<Rightarrow> requests_panel \<Rightarrow> requests_panel" where
  "requests_update changes s = requests_effect (s\<lparr>qp_address := update_params changes (qp_address s)\<rparr>)"

definition requests_answered :: "nat \<times> requests_key \<Rightarrow> thrown + api_request rows \<Rightarrow> requests_panel \<Rightarrow> requests_panel" where
  "requests_answered q r s =
     (let s = s\<lparr>qp_reads := remove1 q (qp_reads s)\<rparr> in
      if fst q \<noteq> qp_run s then s
      else case r of
          Inl e \<Rightarrow> s\<lparr>qp_rows := [], qp_total := 0, qp_loading := False, qp_error := Some (getErrorMessage e)\<rparr>
        | Inr d \<Rightarrow>
            if 1 < rq_page (qk_query (snd q)) \<and> rows_data d = [] then requests_update [(''page'', None)] s
            else s\<lparr>qp_rows := rows_data d, qp_total := rows_total d, qp_loading := False, qp_error := None\<rparr>)"

definition requests_filtered :: "requests_panel \<Rightarrow> bool" where
  "requests_filtered s \<longleftrightarrow>
     (let q = useRequestQuery (qp_address s) in rq_search q \<noteq> [] \<or> rq_errorsOnly q \<or> truthy (effective_trace s))"

definition clear_requests :: "requests_panel \<Rightarrow> requests_panel" where
  "clear_requests = requests_update [(''q'', None), (''errorsOnly'', None), (''traceId'', None), (''page'', None)]"

definition toggle_request_errors :: "requests_panel \<Rightarrow> requests_panel" where
  "toggle_request_errors s =
     requests_update [(''errorsOnly'', if rq_errorsOnly (useRequestQuery (qp_address s)) then None else Some ''true''), (''page'', None)] s"

definition search_requests :: "string \<Rightarrow> requests_panel \<Rightarrow> requests_panel" where
  "search_requests text = requests_update [(''q'', if js_trim text \<noteq> [] then Some (js_trim text) else None), (''page'', None)]"

definition page_requests :: "int \<Rightarrow> requests_panel \<Rightarrow> requests_panel" where
  "page_requests p = requests_update [(''page'', if p = 1 then None else Some (show_int p))]"

inductive requests_step :: "(requests_key \<Rightarrow> api_request rows \<Rightarrow> bool) \<Rightarrow> requests_panel \<Rightarrow> requests_panel \<Rightarrow> bool" for fits where
  update: "requests_step fits s (requests_update changes s)"
| rerun: "requests_step fits s (requests_effect (s\<lparr>qp_window := w\<rparr>))"
| answered: "q \<in> set (qp_reads s) \<Longrightarrow> (\<And>d. r = Inr d \<Longrightarrow> fits (snd q) d) \<Longrightarrow> requests_step fits s (requests_answered q r s)"

section \<open>The results\<close>

datatype status_class = Sc_error | Sc_warn | Sc_plain

definition statusClass :: "int \<Rightarrow> status_class" where
  "statusClass code = (if code \<ge> 500 then Sc_error else if code \<ge> 400 then Sc_warn else Sc_plain)"

definition totalPages :: "int \<Rightarrow> int" where
  "totalPages n = max 1 \<lceil>(of_int n :: rat) / 25\<rceil>"

text \<open>The line of the page: the total and the numbers of the first and last row shown, when there are several pages.\<close>

datatype results_shown = Rs_loading | Rs_failed string | Rs_none bool | Rs_rows "api_request list" "(int \<times> int \<times> int) option"

definition page_line :: "int \<Rightarrow> int \<Rightarrow> (int \<times> int \<times> int) option" where
  "page_line total_rows page =
     (if 1 < totalPages total_rows then Some (total_rows, (page - 1) * 25 + 1, min (page * 25) total_rows) else None)"

definition results_view :: "requests_panel \<Rightarrow> results_shown" where
  "results_view s =
     (if qp_loading s then Rs_loading
      else if truthy (qp_error s) then Rs_failed (the (qp_error s))
      else if qp_rows s = [] then Rs_none (requests_filtered s)
      else Rs_rows (qp_rows s) (page_line (qp_total s) (rq_page (useRequestQuery (qp_address s)))))"

section \<open>Requests shown are those asked for\<close>

definition requests_shown :: "requests_panel \<Rightarrow> api_request rows option" where
  "requests_shown s =
     (if qp_loading s \<or> qp_error s \<noteq> None then None else Some \<lparr>rows_data = qp_rows s, rows_total = qp_total s\<rparr>)"

definition requests_good :: "(requests_key \<Rightarrow> api_request rows \<Rightarrow> bool) \<Rightarrow> requests_panel \<Rightarrow> bool" where
  "requests_good fits s \<longleftrightarrow>
     list_all (\<lambda>q. fst q \<le> qp_run s \<and> (fst q = qp_run s \<longrightarrow> snd q = requests_key_of s)) (qp_reads s)
     \<and> pred_option (\<lambda>d. fits (requests_key_of s) d \<and> (rows_data d = [] \<longrightarrow> rq_page (useRequestQuery (qp_address s)) \<le> 1)) (requests_shown s)"

lemma requests_key_other [simp]:
  "requests_key_of (requests_effect s) = requests_key_of s"
  "requests_key_of (s\<lparr>qp_reads := x\<rparr>) = requests_key_of s"
  "requests_key_of (s\<lparr>qp_rows := a, qp_total := b, qp_loading := c, qp_error := e\<rparr>) = requests_key_of s"
  by (simp_all add: requests_key_of_def effective_trace_def requests_effect_def split: option.split)

lemma requests_good_effect:
  assumes "list_all (\<lambda>q. fst q \<le> qp_run s) (qp_reads s)"
  shows "requests_good fits (requests_effect s)"
  using assms unfolding requests_good_def requests_key_other
  by (auto simp: requests_effect_def requests_shown_def list_all_iff dest: bspec)

lemma requests_good_step:
  assumes "requests_good fits s" "requests_step fits s s'"
  shows "requests_good fits s'"
  using assms(2)
proof cases
  case (update changes)
  have "list_all (\<lambda>q. fst q \<le> qp_run s) (qp_reads s)" using assms(1) by (simp add: requests_good_def list_all_iff)
  then show ?thesis unfolding update requests_update_def by (intro requests_good_effect) simp
next
  case (rerun w)
  have "list_all (\<lambda>q. fst q \<le> qp_run s) (qp_reads s)" using assms(1) by (simp add: requests_good_def list_all_iff)
  then show ?thesis unfolding rerun by (intro requests_good_effect) simp
next
  case (answered q r)
  have rest: "list_all (\<lambda>q. fst q \<le> qp_run s \<and> (fst q = qp_run s \<longrightarrow> snd q = requests_key_of s)) (remove1 q (qp_reads s))"
    using assms(1) by (auto simp: requests_good_def list_all_iff dest: notin_set_remove1)
  have key: "fst q = qp_run s \<Longrightarrow> snd q = requests_key_of s" using assms(1) answered(2) by (simp add: requests_good_def list_all_iff)
  show ?thesis
  proof (cases "fst q = qp_run s")
    case False
    then show ?thesis using assms(1) rest by (cases "qp_error s") (auto simp: answered requests_answered_def requests_good_def requests_shown_def Let_def)
  next
    case True
    show ?thesis
    proof (cases r)
      case (Inl e)
      then show ?thesis using True rest by (simp add: answered requests_answered_def requests_good_def requests_shown_def Let_def)
    next
      case (Inr d)
      have page: "rq_page (qk_query (snd q)) = rq_page (useRequestQuery (qp_address s))"
        using key [OF True] by (simp add: requests_key_of_def)
      show ?thesis
      proof (cases "1 < rq_page (qk_query (snd q)) \<and> rows_data d = []")
        case fallback: True
        have "list_all (\<lambda>q. fst q \<le> qp_run s) (remove1 q (qp_reads s))" using rest by (simp add: list_all_iff)
        then show ?thesis
          using fallback True Inr
          by (simp add: answered requests_answered_def Let_def requests_update_def requests_good_effect)
      next
        case kept: False
        have "fits (requests_key_of s) \<lparr>rows_data = rows_data d, rows_total = rows_total d\<rparr>"
          using answered(3) [OF Inr] key [OF True] by (cases d) simp
        moreover have "rows_data d = [] \<Longrightarrow> rq_page (useRequestQuery (qp_address s)) \<le> 1" using kept page by auto
        moreover have "s' = s\<lparr>qp_reads := remove1 q (qp_reads s), qp_rows := rows_data d, qp_total := rows_total d, qp_loading := False, qp_error := None\<rparr>"
          using True by (simp add: answered requests_answered_def Inr Let_def if_not_P [OF kept])
        ultimately show ?thesis using rest by (simp add: requests_good_def requests_shown_def)
      qed
    qed
  qed
qed

interpretation requests: answers fits "requests_step fits" requests_key_of requests_shown "requests_good fits"
  for fits :: "requests_key \<Rightarrow> api_request rows \<Rightarrow> bool"
proof unfold_locales
  show "requests_good fits s \<Longrightarrow> requests_shown s = Some d \<Longrightarrow> fits (requests_key_of s) d" for s d
    by (simp add: requests_good_def)
qed (rule requests_good_step)

text \<open>The rows shown answer the address as it is now, and a page after the first is never shown empty.\<close>

theorem requests_current:
  assumes "(requests_step fits)\<^sup>*\<^sup>* (requests_mounted src ps given w) s" "\<not> qp_loading s" "qp_error s = None"
  shows "fits (requests_key_of s) \<lparr>rows_data = qp_rows s, rows_total = qp_total s\<rparr>"
    "qp_rows s = [] \<Longrightarrow> rq_page (useRequestQuery (qp_address s)) = 1"
proof -
  have good: "requests_good fits (requests_mounted src ps given w)"
    unfolding requests_mounted_def by (intro requests_good_effect) simp
  have g: "requests_good fits s" by (rule requests.reach_good [OF assms(1) good])
  then show "fits (requests_key_of s) \<lparr>rows_data = qp_rows s, rows_total = qp_total s\<rparr>"
    using assms(2,3) by (simp add: requests_good_def requests_shown_def)
  show "qp_rows s = [] \<Longrightarrow> rq_page (useRequestQuery (qp_address s)) = 1"
    using g assms(2,3) safe_page_pos [of "sp_get (qp_address s) ''page''"]
    by (simp add: requests_good_def requests_shown_def useRequestQuery_def)
qed

text \<open>The line of the page numbers exactly the rows below it, for every page of a list.\<close>

theorem page_line_exact:
  assumes "1 \<le> p" "page_of (Some 25) (Some ((p - 1) * 25)) xs = \<lparr>rows_data = rows, rows_total = n\<rparr>" "rows \<noteq> []"
    and "page_line n p = Some (m, lo, hi)"
  shows "m = int (length xs)" "hi - lo + 1 = int (length rows)" "1 \<le> lo \<and> hi \<le> m" "p \<le> totalPages n"
proof -
  have r: "rows = take 25 (drop (nat ((p - 1) * 25)) xs)" "n = int (length xs)" using assms(2) by (auto simp: page_of_def or_default_def)
  then have l: "int (length rows) = min 25 (n - (p - 1) * 25)" "(p - 1) * 25 < n" using assms(1,3) by auto
  have v: "m = n" "lo = (p - 1) * 25 + 1" "hi = min (p * 25) n" using assms(4) by (auto simp: page_line_def split: if_splits)
  show "m = int (length xs)" using v r by simp
  show "hi - lo + 1 = int (length rows)" using l v by (simp add: min_def algebra_simps)
  show "1 \<le> lo \<and> hi \<le> m" using v assms(1) by simp
  have "rat_of_int ((p - 1) * 25) < of_int n" using l(2) by (simp only: of_int_less_iff)
  then have "rat_of_int (p - 1) < of_int n / 25" by simp
  then have "p - 1 < \<lceil>(of_int n :: rat) / 25\<rceil>" by (simp add: less_ceiling_iff)
  then show "p \<le> totalPages n" by (simp add: totalPages_def)
qed

text \<open>Clearing leaves no filter, and every change of a filter starts at the first page.\<close>

theorem filters_start_over:
  assumes "qp_given s = (\<lambda>ps. sp_get ps ''traceId'') \<or> qp_given s = (\<lambda>ps. None)"
  shows "\<not> requests_filtered (clear_requests s)"
    "rq_page (useRequestQuery (qp_address (clear_requests s))) = 1"
    "rq_page (useRequestQuery (qp_address (toggle_request_errors s))) = 1"
    "rq_errorsOnly (useRequestQuery (qp_address (toggle_request_errors s))) \<longleftrightarrow> \<not> rq_errorsOnly (useRequestQuery (qp_address s))"
    "rq_page (useRequestQuery (qp_address (search_requests text s))) = 1"
    "rq_search (useRequestQuery (qp_address (search_requests text s))) = js_trim text"
    "1 \<le> p \<Longrightarrow> p < 2 ^ 53 \<Longrightarrow> rq_page (useRequestQuery (qp_address (page_requests p s))) = p"
proof -
  have none: "safe_page None = 1" by (simp add: safe_page_def)
  have a: "qp_address (requests_effect s) = qp_address s" "qp_given (requests_effect s) = qp_given s" for s
    by (simp_all add: requests_effect_def)
  show "\<not> requests_filtered (clear_requests s)"
    using assms by (auto simp: requests_filtered_def clear_requests_def requests_update_def a effective_trace_def useRequestQuery_def
        update_params_get or_default_def truthy_def Let_def)
  show "rq_page (useRequestQuery (qp_address (clear_requests s))) = 1"
    "rq_page (useRequestQuery (qp_address (toggle_request_errors s))) = 1"
    "rq_page (useRequestQuery (qp_address (search_requests text s))) = 1"
    by (simp_all add: clear_requests_def toggle_request_errors_def search_requests_def requests_update_def a useRequestQuery_def
        update_params_get none truthy_def)
  show "rq_errorsOnly (useRequestQuery (qp_address (toggle_request_errors s))) \<longleftrightarrow> \<not> rq_errorsOnly (useRequestQuery (qp_address s))"
    by (simp add: toggle_request_errors_def requests_update_def a useRequestQuery_def update_params_get truthy_def)
  show "rq_search (useRequestQuery (qp_address (search_requests text s))) = js_trim text"
    by (simp add: search_requests_def requests_update_def a useRequestQuery_def update_params_get truthy_def or_default_def)
  have "safe_page (Some (show_int p)) = p" if "1 \<le> p" "p < 2 ^ 53"
    using that by (simp add: safe_page_def js_number_show_int)
  then show "1 \<le> p \<Longrightarrow> p < 2 ^ 53 \<Longrightarrow> rq_page (useRequestQuery (qp_address (page_requests p s))) = p"
    by (cases "p = 1") (simp_all add: page_requests_def requests_update_def a useRequestQuery_def update_params_get none truthy_def, auto simp: show_int_def)
qed

section \<open>Uptime\<close>

definition total_checks :: "service_history_point list \<Rightarrow> int" where
  "total_checks ps = sum_list (map hp_total ps)"

text \<open>The mean over 24 hours, each point weighted by its checks.\<close>

definition uptime24h :: "service_history_point list \<Rightarrow> rat option" where
  "uptime24h ps =
     (if total_checks ps > 0 then Some (sum_list (map (\<lambda>p. of_int (hp_total p) * hp_uptimePct p) ps) / of_int (total_checks ps))
      else None)"

definition checks90d :: "service_uptime_day list \<Rightarrow> int" where
  "checks90d ds = sum_list (map sud_totalChecks ds)"

definition uptime90d :: "service_uptime_day list \<Rightarrow> rat option" where
  "uptime90d ds =
     (if checks90d ds > 0 then Some (of_int (sum_list (map sud_healthyChecks ds)) / of_int (checks90d ds) * 100) else None)"

definition incident_days :: "service_uptime_day list \<Rightarrow> nat" where
  "incident_days ds = length (filter (\<lambda>d. sud_uptimePct d < 199 / 2 \<and> sud_totalChecks d > 0) ds)"

definition listed_days :: "service_uptime_day list \<Rightarrow> service_uptime_day list" where
  "listed_days ds = filter (\<lambda>d. sud_totalChecks d > 0) ds"

datatype uptime_half = Uh_history | Uh_days

record uptime_panel =
  au_points :: "service_history_point list option"
  au_days :: "service_uptime_day list option"
  au_errors :: "uptime_half list"
  au_loading :: bool
  au_run :: nat
  au_reads :: "nat list"

definition uptime_effect :: "uptime_panel \<Rightarrow> uptime_panel" where
  "uptime_effect s = s\<lparr>au_run := Suc (au_run s), au_reads := au_reads s @ [Suc (au_run s)]\<rparr>"

definition uptime_mounted :: uptime_panel where
  "uptime_mounted = uptime_effect
     \<lparr>au_points = None, au_days = None, au_errors = [], au_loading = True, au_run = 0, au_reads = []\<rparr>"

definition uptime_answered ::
  "nat \<Rightarrow> thrown + service_history_point list \<Rightarrow> thrown + service_uptime_day list \<Rightarrow> uptime_panel \<Rightarrow> uptime_panel" where
  "uptime_answered n p d s =
     (let s = s\<lparr>au_reads := remove1 n (au_reads s)\<rparr> in
      if n \<noteq> au_run s then s
      else s\<lparr>au_points := (case p of Inr v \<Rightarrow> Some v | Inl _ \<Rightarrow> au_points s),
             au_days := (case d of Inr v \<Rightarrow> Some v | Inl _ \<Rightarrow> au_days s),
             au_errors := (case p of Inl _ \<Rightarrow> [Uh_history] | Inr _ \<Rightarrow> []) @ (case d of Inl _ \<Rightarrow> [Uh_days] | Inr _ \<Rightarrow> []),
             au_loading := False\<rparr>)"

text \<open>What the tiles say; \<open>None\<close> is the dash.\<close>

record uptime_tiles =
  ut_day :: "rat option"
  ut_quarter :: "rat option"
  ut_checks :: "int option"
  ut_incidents :: "nat option"
  ut_failed :: bool

definition uptime_tiles_of :: "uptime_panel \<Rightarrow> uptime_tiles" where
  "uptime_tiles_of s =
     (let points = or_default (au_points s) []; days = or_default (au_days s) [] in
      \<lparr>ut_day = uptime24h points, ut_quarter = uptime90d days,
       ut_checks = map_option (\<lambda>_. total_checks points) (au_points s),
       ut_incidents = (if checks90d days = 0 then None else Some (incident_days days)),
       ut_failed = (au_days s = None \<and> Uh_days \<in> set (au_errors s))\<rparr>)"

text \<open>The notifications of a service: a failed read keeps those shown and marks them.\<close>

record failure_history =
  fl_events :: "agent_event list option"
  fl_loading :: bool
  fl_error :: bool
  fl_run :: nat

definition alert_events :: "agent_event list \<Rightarrow> agent_event list" where
  "alert_events es = filter (\<lambda>e. ae_type e \<in> set [''alert_sent'', ''recovery_sent'']) es"

definition failures_answered :: "nat \<Rightarrow> thrown + agent_event list \<Rightarrow> failure_history \<Rightarrow> failure_history" where
  "failures_answered n r s =
     (if n \<noteq> fl_run s then s
      else case r of
          Inr es \<Rightarrow> s\<lparr>fl_events := Some (alert_events es), fl_error := False, fl_loading := False\<rparr>
        | Inl _ \<Rightarrow> s\<lparr>fl_error := True, fl_loading := False\<rparr>)"

section \<open>The history bar of an environment\<close>

text \<open>Its load has no guard: \<open>hb_reads\<close> are the environments asked for and not yet answered.\<close>

record history_bar =
  hb_agent :: string
  hb_days :: "service_uptime_day list"
  hb_loading :: bool
  hb_reads :: "string list"

definition bar_effect :: "string \<Rightarrow> history_bar \<Rightarrow> history_bar" where
  "bar_effect a s = s\<lparr>hb_agent := a, hb_reads := hb_reads s @ [a]\<rparr>"

definition bar_mounted :: "string \<Rightarrow> history_bar" where
  "bar_mounted a = bar_effect a \<lparr>hb_agent = a, hb_days = [], hb_loading = True, hb_reads = []\<rparr>"

definition bar_answered :: "string \<Rightarrow> thrown + service_uptime_day list \<Rightarrow> history_bar \<Rightarrow> history_bar" where
  "bar_answered a r s =
     s\<lparr>hb_days := (case r of Inr v \<Rightarrow> v | Inl _ \<Rightarrow> []), hb_loading := False, hb_reads := remove1 a (hb_reads s)\<rparr>"

definition bar_uptime :: "service_uptime_day list \<Rightarrow> rat option" where
  "bar_uptime ds = (if ds \<noteq> [] then Some (sum_list (map sud_uptimePct ds) / of_nat (length ds)) else None)"

definition bar_incidents :: "service_uptime_day list \<Rightarrow> nat" where
  "bar_incidents ds = length (filter (\<lambda>d. sud_uptimePct d < 199 / 2) ds)"

section \<open>What the uptime tiles say\<close>

lemma weighted_sum_le:
  assumes "\<forall>p \<in> set ps. 0 \<le> w p \<and> 0 \<le> v p \<and> v p \<le> (100 :: rat)"
  shows "0 \<le> sum_list (map (\<lambda>p. of_int (w p) * v p) ps) \<and> sum_list (map (\<lambda>p. of_int (w p) * v p) ps) \<le> 100 * of_int (sum_list (map w ps))"
  using assms
proof (induction ps)
  case (Cons p ps)
  have "of_int (w p) * v p \<le> of_int (w p) * 100" using Cons.prems by (intro mult_left_mono) auto
  then show ?case using Cons by (auto simp: algebra_simps intro: add_nonneg_nonneg)
qed simp

definition points_ok :: "service_history_point list \<Rightarrow> bool" where
  "points_ok ps \<longleftrightarrow> (\<forall>p \<in> set ps. 0 \<le> hp_total p \<and> 0 \<le> hp_uptimePct p \<and> hp_uptimePct p \<le> 100)"

definition days_ok :: "service_uptime_day list \<Rightarrow> bool" where
  "days_ok ds \<longleftrightarrow> (\<forall>d \<in> set ds. 0 \<le> sud_healthyChecks d \<and> sud_healthyChecks d \<le> sud_totalChecks d)"

text \<open>The tiles are percentages; a service without checks has none; the days of incidents are among the days drawn; and
  points without checks do not count.\<close>

theorem uptime_tiles_exact:
  assumes "points_ok ps" "days_ok ds"
  shows "uptime24h ps = Some u \<Longrightarrow> 0 \<le> u \<and> u \<le> 100" "uptime90d ds = Some v \<Longrightarrow> 0 \<le> v \<and> v \<le> 100"
    "incident_days ds \<le> length (listed_days ds)"
    "uptime24h (filter (\<lambda>p. hp_total p > 0) ps) = uptime24h ps"
    "uptime90d ds = None \<longleftrightarrow> listed_days ds = []"
proof -
  show "uptime24h ps = Some u \<Longrightarrow> 0 \<le> u \<and> u \<le> 100"
    using weighted_sum_le [of ps hp_total hp_uptimePct] assms(1)
    by (auto simp: uptime24h_def points_ok_def total_checks_def divide_le_eq split: if_splits)
  have h: "0 \<le> sum_list (map sud_healthyChecks ds) \<and> sum_list (map sud_healthyChecks ds) \<le> checks90d ds"
    using assms(2) unfolding days_ok_def checks90d_def by (induction ds) auto
  then have "of_int (sum_list (map sud_healthyChecks ds)) \<le> (of_int (checks90d ds) :: rat)" by (simp only: of_int_le_iff)
  moreover have "0 \<le> (of_int (sum_list (map sud_healthyChecks ds)) :: rat)" using h by simp
  ultimately show "uptime90d ds = Some v \<Longrightarrow> 0 \<le> v \<and> v \<le> 100"
    by (auto simp: uptime90d_def divide_le_eq split: if_splits)
  show "incident_days ds \<le> length (listed_days ds)"
    unfolding incident_days_def listed_days_def by (induction ds) auto
  have z: "\<forall>p \<in> set ps. 0 \<le> hp_total p \<Longrightarrow>
      sum_list (map (\<lambda>p. of_int (hp_total p) * hp_uptimePct p) (filter (\<lambda>p. hp_total p > 0) ps)) = sum_list (map (\<lambda>p. of_int (hp_total p) * hp_uptimePct p) ps)
      \<and> sum_list (map hp_total (filter (\<lambda>p. hp_total p > 0) ps)) = sum_list (map hp_total ps)" for ps
    by (induction ps) auto
  show "uptime24h (filter (\<lambda>p. hp_total p > 0) ps) = uptime24h ps"
    using z [of ps] assms(1) by (simp add: uptime24h_def total_checks_def points_ok_def)
  have n: "\<forall>d \<in> set ds. 0 \<le> sud_totalChecks d" using assms(2) unfolding days_ok_def by force
  have "0 \<le> sum_list (map sud_totalChecks ds) \<and> (sum_list (map sud_totalChecks ds) = 0 \<longleftrightarrow> filter (\<lambda>d. sud_totalChecks d > 0) ds = [])"
    using n by (induction ds) (auto simp: add_nonneg_eq_0_iff)
  then show "uptime90d ds = None \<longleftrightarrow> listed_days ds = []"
    by (simp add: uptime90d_def listed_days_def checks90d_def order_less_le)
qed

text \<open>Once a read of the current run has settled, each half is its answer or is marked as failed.\<close>

theorem uptime_marked:
  assumes "n = au_run s"
  shows "Uh_days \<notin> set (au_errors (uptime_answered n p d s)) \<Longrightarrow> \<exists>v. d = Inr v \<and> au_days (uptime_answered n p d s) = Some v"
    "Uh_history \<notin> set (au_errors (uptime_answered n p d s)) \<Longrightarrow> \<exists>v. p = Inr v \<and> au_points (uptime_answered n p d s) = Some v"
    "ut_failed (uptime_tiles_of (uptime_answered n p d s)) \<Longrightarrow> \<exists>e. d = Inl e"
  using assms by (cases p; cases d; simp add: uptime_answered_def uptime_tiles_of_def Let_def)+

text \<open>The answer for the environment visited before, when it comes last, stays in the bar of the next.\<close>

theorem bar_of_other:
  fixes v w :: "service_uptime_day list"
  assumes "a \<noteq> b"
  defines "s \<equiv> bar_answered a (Inr v) (bar_answered b (Inr w) (bar_effect b (bar_mounted a)))"
  shows "hb_agent s = b \<and> hb_days s = v \<and> hb_reads s = [] \<and> \<not> hb_loading s"
  using assms(1) by (simp add: s_def bar_answered_def bar_effect_def bar_mounted_def)

end
