(* ===== verification/EU_ChartElements.thy ===== *)
theory EU_ChartElements imports EU_Infra
begin

text \<open>
  The texts around a chart (\<open>components/charts/ChartElements.tsx\<close>): the summary of one series, the table of several, and
  the rows of a tooltip.  A number that is not finite is \<open>None\<close>.
\<close>

definition finite_only :: "rat option list \<Rightarrow> rat list" where
  "finite_only vs = map the (filter (\<lambda>v. v \<noteq> None) vs)"

definition average :: "rat list \<Rightarrow> rat" where
  "average vs = foldl (+) 0 vs / of_nat (length vs)"

text \<open>\<open>Math.max(...v)\<close> and \<open>Math.min(...v)\<close> of a non-empty list.\<close>

definition list_max :: "rat list \<Rightarrow> rat" where
  "list_max vs = fold max (tl vs) (hd vs)"

definition list_min :: "rat list \<Rightarrow> rat" where
  "list_min vs = fold min (tl vs) (hd vs)"

text \<open>The current, average and greatest value, or nothing.\<close>

definition ChartSummary :: "rat option list \<Rightarrow> (rat \<times> rat \<times> rat) option" where
  "ChartSummary values =
     (let v = finite_only values in if v = [] then None else Some (last v, average v, list_max v))"

record stats_row =
  sw_label :: string
  sw_color :: string
  sw_last :: rat
  sw_min :: rat
  sw_max :: rat
  sw_avg :: rat

definition ChartStatsLegend :: "(string \<times> string \<times> rat option list) list \<Rightarrow> stats_row list" where
  "ChartStatsLegend series =
     map (\<lambda>(label, color, v). \<lparr>sw_label = label, sw_color = color, sw_last = last v, sw_min = list_min v, sw_max = list_max v, sw_avg = average v\<rparr>)
       (filter (\<lambda>(label, color, v). v \<noteq> []) (map (\<lambda>(label, color, vs). (label, color, finite_only vs)) series))"

record tooltip_item =
  tt_dataKey :: "string option"
  tt_name :: "string option"
  tt_value :: "rat option"
  tt_unit :: "string option"

definition tooltip_key :: "tooltip_item \<Rightarrow> string" where
  "tooltip_key i = (case tt_dataKey i of Some k \<Rightarrow> k | None \<Rightarrow> or_default (tt_name i) [])"

text \<open>The first item of each key; an area and a line of one series share theirs.\<close>

fun tooltip_rows_from :: "string list \<Rightarrow> tooltip_item list \<Rightarrow> tooltip_item list" where
  "tooltip_rows_from seen [] = []"
| "tooltip_rows_from seen (i # is) =
     (if tooltip_key i = [] \<or> tooltip_key i \<in> set seen then tooltip_rows_from seen is
      else i # tooltip_rows_from (tooltip_key i # seen) is)"

definition tooltip_rows :: "bool \<Rightarrow> tooltip_item list \<Rightarrow> tooltip_item list" where
  "tooltip_rows active payload = (if \<not> active then [] else tooltip_rows_from [] payload)"

text \<open>\<open>Number(item.value) || 0\<close> and the unit of the row.\<close>

definition tooltip_value :: "string \<Rightarrow> tooltip_item \<Rightarrow> rat \<times> string" where
  "tooltip_value unit i = (or_default (tt_value i) 0, or_default (tt_unit i) unit)"

section \<open>What they show\<close>

lemma fold_min_le: "fold min xs m \<le> (m :: 'a :: linorder)" "x \<in> set xs \<Longrightarrow> fold min xs m \<le> x"
proof -
  show le: "fold min xs m \<le> m" for m :: 'a and xs
  proof (induction xs arbitrary: m)
    case (Cons y ys)
    have "fold min ys (min y m) \<le> min y m" by (rule Cons)
    also have "\<dots> \<le> m" by simp
    finally show ?case by simp
  qed simp
  show "x \<in> set xs \<Longrightarrow> fold min xs m \<le> x"
  proof (induction xs arbitrary: m)
    case (Cons y ys)
    have "fold min ys (min y m) \<le> y" using le [of ys "min y m"] by simp
    then show ?case using Cons by auto
  qed simp
qed

lemma list_max_ge: "v \<in> set vs \<Longrightarrow> v \<le> list_max vs"
  by (cases vs) (auto simp: list_max_def fold_max_ge)

lemma list_min_le: "v \<in> set vs \<Longrightarrow> list_min vs \<le> v"
  by (cases vs) (auto simp: list_min_def fold_min_le)

lemma list_max_in: "vs \<noteq> [] \<Longrightarrow> list_max vs \<in> set vs"
  using fold_max_in [of "tl vs" "hd vs"] by (cases vs) (auto simp: list_max_def)

lemma foldl_sum: "foldl (+) (a :: rat) vs = a + sum_list vs"
  by (induction vs arbitrary: a) (simp_all add: add.assoc)

lemma sum_bounds:
  assumes "\<forall>v \<in> set vs. a \<le> v \<and> v \<le> (b :: rat)"
  shows "of_nat (length vs) * a \<le> sum_list vs \<and> sum_list vs \<le> of_nat (length vs) * b"
  using assms by (induction vs) (auto simp: algebra_simps add_mono)

text \<open>The average lies between the least and the greatest value.\<close>

lemma average_between:
  assumes "vs \<noteq> []"
  shows "list_min vs \<le> average vs \<and> average vs \<le> list_max vs"
proof -
  have n: "(0 :: rat) < of_nat (length vs)" using assms by simp
  have "of_nat (length vs) * list_min vs \<le> sum_list vs \<and> sum_list vs \<le> of_nat (length vs) * list_max vs"
    by (rule sum_bounds) (simp add: list_min_le list_max_ge)
  then show ?thesis using n by (simp add: average_def foldl_sum pos_le_divide_eq pos_divide_le_eq mult.commute)
qed

text \<open>A summary is shown when some value is finite; its current value and its average do not exceed its greatest, which is
  one of the values.\<close>

theorem summary_exact:
  "ChartSummary values = None \<longleftrightarrow> set values \<subseteq> {None}"
  "ChartSummary values = Some (now, avg, peak) \<Longrightarrow>
     Some now \<in> set values \<and> Some peak \<in> set values \<and> now \<le> peak \<and> avg \<le> peak \<and> (\<forall>v. Some v \<in> set values \<longrightarrow> v \<le> peak)"
proof -
  have f: "set (finite_only values) = {v. Some v \<in> set values}" by (force simp: finite_only_def)
  have "finite_only values = [] \<longleftrightarrow> set values \<subseteq> {None}" by (auto simp: finite_only_def filter_empty_conv)
  then show "ChartSummary values = None \<longleftrightarrow> set values \<subseteq> {None}" by (simp add: ChartSummary_def Let_def)
  assume "ChartSummary values = Some (now, avg, peak)"
  then have s: "finite_only values \<noteq> []" "now = last (finite_only values)" "avg = average (finite_only values)" "peak = list_max (finite_only values)"
    by (auto simp: ChartSummary_def Let_def split: if_splits)
  have l: "now \<in> set (finite_only values)" using s by simp
  have t: "peak \<in> set (finite_only values)" using s list_max_in by simp
  show "Some now \<in> set values \<and> Some peak \<in> set values \<and> now \<le> peak \<and> avg \<le> peak \<and> (\<forall>v. Some v \<in> set values \<longrightarrow> v \<le> peak)"
    using l t average_between [OF s(1)] list_max_ge s(3,4) f by auto
qed

text \<open>Every row of the table has least, average, last and greatest value in order, and a series without a finite value has
  no row.\<close>

theorem stats_ordered:
  "r \<in> set (ChartStatsLegend series) \<Longrightarrow> sw_min r \<le> sw_avg r \<and> sw_avg r \<le> sw_max r \<and> sw_min r \<le> sw_last r \<and> sw_last r \<le> sw_max r"
  "map sw_label (ChartStatsLegend series) = map fst (filter (\<lambda>(l, c, vs). finite_only vs \<noteq> []) series)"
proof -
  show "map sw_label (ChartStatsLegend series) = map fst (filter (\<lambda>(l, c, vs). finite_only vs \<noteq> []) series)"
    unfolding ChartStatsLegend_def by (induction series) (auto split: prod.split)
  assume "r \<in> set (ChartStatsLegend series)"
  then obtain v where "v \<noteq> []" "sw_min r = list_min v" "sw_avg r = average v" "sw_max r = list_max v" "sw_last r = last v"
    by (auto simp: ChartStatsLegend_def)
  then show "sw_min r \<le> sw_avg r \<and> sw_avg r \<le> sw_max r \<and> sw_min r \<le> sw_last r \<and> sw_last r \<le> sw_max r"
    using average_between [of v] list_min_le [of "last v" v] list_max_ge [of "last v" v] by simp
qed

text \<open>A tooltip has one row for every key of its items, the first item of it.\<close>

lemma tooltip_rows_keys: "tooltip_key ` set (tooltip_rows_from seen is) = tooltip_key ` set is - insert [] (set seen)"
  by (induction seen "is" rule: tooltip_rows_from.induct) auto

theorem tooltip_rows_exact:
  "tooltip_key ` set (tooltip_rows True payload) = tooltip_key ` set payload - {[]}"
  "distinct (map tooltip_key (tooltip_rows active payload))"
  "i \<in> set (tooltip_rows active payload) \<Longrightarrow> find (\<lambda>j. tooltip_key j = tooltip_key i) payload = Some i"
proof -
  show "tooltip_key ` set (tooltip_rows True payload) = tooltip_key ` set payload - {[]}"
    by (simp add: tooltip_rows_def tooltip_rows_keys)
  have "distinct (map tooltip_key (tooltip_rows_from seen is))" for seen "is"
  proof (induction seen "is" rule: tooltip_rows_from.induct)
    case (2 seen j js)
    then show ?case using tooltip_rows_keys [of "tooltip_key j # seen" js] by auto
  qed simp
  then show "distinct (map tooltip_key (tooltip_rows active payload))" by (simp add: tooltip_rows_def)
  have "i \<in> set (tooltip_rows_from seen is) \<Longrightarrow> find (\<lambda>j. tooltip_key j = tooltip_key i) is = Some i" for seen "is"
  proof (induction seen "is" rule: tooltip_rows_from.induct)
    case (2 seen j js)
    show ?case
    proof (cases "tooltip_key j = [] \<or> tooltip_key j \<in> set seen")
      case True
      have "tooltip_key i \<in> tooltip_key ` set (tooltip_rows_from seen js)" using 2(3) True by auto
      then have "tooltip_key j \<noteq> tooltip_key i" using True unfolding tooltip_rows_keys by auto
      then show ?thesis using 2(1,3) True by simp
    next
      case False
      show ?thesis
      proof (cases "i = j")
        case ne: False
        then have i: "i \<in> set (tooltip_rows_from (tooltip_key j # seen) js)" using 2(3) False by simp
        then have "tooltip_key i \<in> tooltip_key ` set (tooltip_rows_from (tooltip_key j # seen) js)" by simp
        then have "tooltip_key j \<noteq> tooltip_key i" unfolding tooltip_rows_keys by auto
        then show ?thesis using 2(2) [OF False i] by simp
      qed simp
    qed
  qed simp
  then show "i \<in> set (tooltip_rows active payload) \<Longrightarrow> find (\<lambda>j. tooltip_key j = tooltip_key i) payload = Some i"
    by (simp add: tooltip_rows_def split: if_splits)
qed

end
