(* ===== verification/EU_ChannelPage.thy ===== *)
theory EU_ChannelPage imports EU_Answers EU_AlertTypes
begin

text \<open>
  The page that edits a notification channel (\<open>pages/alerts/ChannelFormPage.tsx\<close>): it looks the channel of its address up in
  the list, and leaves for the alerts page when there is none or the list cannot be read.
\<close>

record channel_page =
  cg_id :: "string option"
  cg_channel :: "notification_channel option"
  cg_loading :: bool
  cg_submitting :: bool
  cg_run :: nat
  cg_reads :: "(nat \<times> string) list"
  cg_left :: nat
  cg_toasts :: "string list"
  cg_mounted :: bool

text \<open>\<open>cg_left\<close> counts the navigations to the alerts page; \<open>cg_run\<close> is the run of the effect, whose cleanup cancels it.\<close>

definition channel_effect :: "string option \<Rightarrow> channel_page \<Rightarrow> channel_page" where
  "channel_effect i s =
     s\<lparr>cg_id := i, cg_run := Suc (cg_run s),
       cg_reads := (if truthy i then cg_reads s @ [(Suc (cg_run s), the i)] else cg_reads s)\<rparr>"

definition channel_mounted :: "string option \<Rightarrow> channel_page" where
  "channel_mounted i = channel_effect i
     \<lparr>cg_id = i, cg_channel = None, cg_loading = truthy i, cg_submitting = False, cg_run = 0, cg_reads = [], cg_left = 0,
      cg_toasts = [], cg_mounted = True\<rparr>"

definition channel_unmounted :: "channel_page \<Rightarrow> channel_page" where
  "channel_unmounted s = s\<lparr>cg_mounted := False, cg_run := Suc (cg_run s)\<rparr>"

definition leave_channel :: "string \<Rightarrow> channel_page \<Rightarrow> channel_page" where
  "leave_channel m s = s\<lparr>cg_toasts := cg_toasts s @ [m], cg_left := Suc (cg_left s)\<rparr>"

text \<open>The failure branch does not ask whether the run was cancelled.\<close>

definition channel_answered :: "nat \<times> string \<Rightarrow> thrown + notification_channel list \<Rightarrow> channel_page \<Rightarrow> channel_page" where
  "channel_answered q r s =
     (let s = s\<lparr>cg_reads := remove1 q (cg_reads s)\<rparr>;
          current = (fst q = cg_run s);
          s = (case r of
              Inl e \<Rightarrow> leave_channel (getErrorMessage e) s
            | Inr rows \<Rightarrow>
                if \<not> current then s
                else case find (\<lambda>c. nc_id c = snd q) rows of
                    None \<Rightarrow> leave_channel ([CHR 0xEC, CHR 0xB1, CHR 0x84, CHR 0xEB, CHR 0x84, CHR 0x90, CHR 0xEC, CHR 0x9D, CHR 0x84] @ '' '' @ [CHR 0xEC, CHR 0xB0, CHR 0xBE, CHR 0xEC, CHR 0x9D, CHR 0x84] @ '' '' @ [CHR 0xEC, CHR 0x88, CHR 0x98] @ '' '' @ [CHR 0xEC, CHR 0x97, CHR 0x86, CHR 0xEC, CHR 0x8A, CHR 0xB5, CHR 0xEB, CHR 0x8B, CHR 0x88, CHR 0xEB, CHR 0x8B, CHR 0xA4]) s
                  | Some c \<Rightarrow> s\<lparr>cg_channel := Some c\<rparr>)
      in if current then s\<lparr>cg_loading := False\<rparr> else s)"

text \<open>The form is there when nothing loads; without an id it is the form of a new channel.\<close>

datatype channel_page_shown = Cq_loading | Cq_form "notification_channel option"

definition channel_page_view :: "channel_page \<Rightarrow> channel_page_shown" where
  "channel_page_view s = (if cg_loading s then Cq_loading else Cq_form (cg_channel s))"

definition submit_disabled :: "channel_page \<Rightarrow> bool" where
  "submit_disabled s \<longleftrightarrow> cg_loading s"

text \<open>The page of one address, as long as it is open.\<close>

inductive channel_step :: "channel_page \<Rightarrow> channel_page \<Rightarrow> bool" where
  answered: "q \<in> set (cg_reads s) \<Longrightarrow> channel_step s (channel_answered q r s)"
| submitting: "channel_step s (s\<lparr>cg_submitting := b\<rparr>)"

definition channel_good :: "channel_page \<Rightarrow> bool" where
  "channel_good s \<longleftrightarrow>
     list_all (\<lambda>q. fst q = cg_run s \<and> Some (snd q) = cg_id s) (cg_reads s) \<and> length (cg_reads s) = (if cg_loading s then 1 else 0)
     \<and> (truthy (cg_id s) \<and> \<not> cg_loading s \<and> cg_left s = 0 \<longrightarrow> cg_channel s \<noteq> None)
     \<and> pred_option (\<lambda>c. Some (nc_id c) = cg_id s) (cg_channel s)"

lemma channel_good_step: "channel_good s \<Longrightarrow> channel_step s s' \<Longrightarrow> channel_good s'"
proof -
  assume good: "channel_good s" and "channel_step s s'"
  from this(2) show "channel_good s'"
  proof cases
    case (answered q r)
    then obtain q' where q: "cg_reads s = [q']" using good by (cases "cg_reads s") (auto simp: channel_good_def split: if_splits)
    then have k: "cg_reads s = [q]" "fst q = cg_run s" "Some (snd q) = cg_id s"
      using answered(2) good by (auto simp: channel_good_def)
    show ?thesis
    proof (cases r)
      case (Inl e)
      then show ?thesis using answered k good
        by (simp add: channel_good_def channel_answered_def leave_channel_def Let_def)
    next
      case (Inr rows)
      show ?thesis
      proof (cases "find (\<lambda>c. nc_id c = snd q) rows")
        case None
        then show ?thesis using answered k good Inr
          by (simp add: channel_good_def channel_answered_def leave_channel_def Let_def)
      next
        case (Some c)
        then have "nc_id c = snd q" by (auto simp: find_Some_iff)
        then show ?thesis using answered k Inr Some
          by (simp add: channel_good_def channel_answered_def Let_def)
      qed
    qed
  qed (use good in \<open>simp add: channel_good_def\<close>)
qed

interpretation channel_page: answers "\<lambda>i c. Some (nc_id c) = i" channel_step cg_id cg_channel channel_good
proof unfold_locales
  show "channel_good s \<Longrightarrow> cg_channel s = Some c \<Longrightarrow> Some (nc_id c) = cg_id s" for s c
    by (simp add: channel_good_def)
qed (rule channel_good_step)

text \<open>While the page of an address stays open, its form is the one of the channel of that address or the page has been left; it
  never shows an empty form for an existing channel.\<close>

theorem channel_page_exact:
  assumes "channel_step\<^sup>*\<^sup>* (channel_mounted (Some i)) s" "i \<noteq> []" "channel_page_view s = Cq_form f" "cg_left s = 0"
  shows "\<exists>c. f = Some c \<and> nc_id c = i"
proof -
  have good: "channel_good (channel_mounted (Some i))"
    using assms(2) by (simp add: channel_good_def channel_mounted_def channel_effect_def truthy_def)
  have g: "channel_good s" by (rule channel_page.reach_good [OF assms(1) good])
  have i: "cg_id s = Some i" using assms(1)
  proof (induction rule: rtranclp_induct)
    case base
    show ?case by (simp add: channel_mounted_def channel_effect_def)
  next
    case (step s t)
    from step(2) step(3) show ?case
      by cases (auto simp: channel_answered_def leave_channel_def Let_def split: sum.split option.split)
  qed
  show ?thesis using g i assms(2-4) by (auto simp: channel_good_def channel_page_view_def truthy_def split: if_splits)
qed

text \<open>A list that fails after the page was left takes the reader to the alerts page from wherever they are; a list that arrives
  does nothing.\<close>

theorem late_failure_leaves:
  fixes e :: thrown and rows :: "notification_channel list"
  assumes "i \<noteq> []"
  defines "s \<equiv> channel_unmounted (channel_mounted (Some i))"
  shows "cg_left (channel_answered (1, i) (Inl e) s) = 1" "cg_left (channel_answered (1, i) (Inr rows) s) = 0"
  using assms(1)
  by (simp_all add: s_def channel_unmounted_def channel_mounted_def channel_effect_def channel_answered_def leave_channel_def Let_def)

end
