(* ===== verification/Spec2Isabelle.thy ===== *)
theory Spec2Isabelle imports EU_EndToEnd EU_Request EU_Status EU_Charts EU_Metrics EU_Groups EU_Nav EU_RuleForm
  EU_MetricRead EU_Session EU_Shell EU_Trace
  EU_RuleList EU_ChannelForm EU_Setup EU_Logs EU_UptimeDetail EU_Overview EU_Environments EU_Instrument EU_SetupPanel EU_RequestTrends
  EU_AlertsPage EU_Connect EU_Infra EU_MetricsTab EU_Settings EU_Select
  EU_ServiceTabs EU_ChartElements EU_ChannelPage
begin

text \<open>
  EveryUp's web frontend (\<open>src/web/frontend/src\<close>), modelled in HOL.

  The frontend is a browser application over a REST server.  Its own logic has five layers, and
  the theories follow them.

  (1) The JavaScript base.  \<open>EU_Prelude\<close> (strings as UTF-8 byte lists, maps in insertion order,
  stable sort, rounding), \<open>EU_Url\<close> (percent coding, \<open>URLSearchParams\<close>, the path patterns of the
  demo server), \<open>EU_Time\<close> (ISO instants and \<open>Date.parse\<close>), \<open>EU_Json\<close> (values and
  \<open>JSON.stringify\<close>), \<open>EU_Number\<close> (\<open>Number(...)\<close>, \<open>slice\<close>, \<open>JSON.parse\<close>), \<open>EU_JsonText\<close>
  (\<open>JSON.parse\<close> after \<open>JSON.stringify\<close> gives the value back).  Their lemmas are the round trips and the orders the components use.

  (2) The client.  The seven \<open>...Types\<close> theories hold the records and enumerations of
  \<open>services/api/*.ts\<close>; \<open>EU_Errors\<close> is \<open>utils/errors.ts\<close>; \<open>EU_Request\<close> is \<open>request\<close> of
  \<open>services/api/base.ts\<close> (the one function that reaches the network) with \<open>config/env.ts\<close>;
  \<open>EU_Client\<close> holds every method of \<open>api\<close> as the call it makes: method, endpoint, body.

  (3) The demo server (\<open>services/mockRouter.ts\<close>), which serves the application when
  \<open>VITE_USE_MOCK\<close> is set.  \<open>EU_Mock\<close> holds its state \<open>db\<close> (the mutable module variables), the
  filters, pages and request statistics; \<open>EU_MockScenario\<close> the scenario-dependent fixtures, the
  metric queries of \<open>mocks/metricQuery.ts\<close>, checks and uptime; \<open>EU_Router\<close> the mutating
  requests, one operation each, and their dispatch \<open>mutation\<close>; \<open>EU_RouterGet\<close> the reads and
  \<open>mockRouter\<close> itself.  \<open>EU_RouterFacts\<close> states the tables as interfaces (locales
  \<open>target_table\<close> and \<open>editable_table\<close>, interpreted on the five tables of the state) and the
  invariant \<open>ids_ok\<close>, which every request keeps but an update whose body names an id; \<open>EU_Serve\<close> composes client and server (\<open>serve\<close>), which shows that every
  call of the client reaches the operation meant for it; \<open>EU_EndToEnd\<close> states what the two do
  together, on the example state of \<open>EU_Example\<close>.

  (4) The logic of the pages.  \<open>EU_Status\<close> (freshness, uptime and metric states, labels),
  \<open>EU_Charts\<close> (axes, gaps, buckets, units of \<open>components/charts/chartTheme.ts\<close>), \<open>EU_Metrics\<close>
  (series identity, rates and chart rows of \<open>features/metrics/metricSeries.ts\<close>), \<open>EU_Groups\<close>
  (members of a group, \<open>pages/projects/projectMembers.ts\<close>), \<open>EU_Nav\<close> (sections, group trail,
  return links, alert targets and the parameters kept in the address), \<open>EU_RuleForm\<close> and
  \<open>EU_RuleList\<close> (the alert rule form, what it sends and how a rule reopens in it; the rule list
  with its filters and hand-overs), \<open>EU_ChannelForm\<close> (the notification channel form, and what the
  server keeps and shows of a channel),
  \<open>EU_Setup\<close> (connection addresses, shell quoting and the commands the user is given to paste),
  \<open>EU_Trace\<close> (the waterfall and its folding in \<open>TracePanel.tsx\<close>), \<open>EU_UptimeList\<close> (the uptime
  list, its bulk operations and the monitor form, composed with the demo server), \<open>EU_Overview\<close>
  (the overview: what needs attention, in which order, and when it may say that all is well),
  \<open>EU_LogOverview\<close> (services by errors and warnings, repeated patterns, sparklines) and
  \<open>EU_Environments\<close> (the Docker environments with their services, and the page of one),
  \<open>EU_Instrument\<close> (attaching OpenTelemetry: what can be instrumented, the recorded run and the commands
  to paste), \<open>EU_SetupPanel\<close> (the setup guide, receipts, and adding a capability on the demo server),
  \<open>EU_RequestTrends\<close> (the request chart of a service with the week before, rollouts and status classes),
  \<open>EU_History\<close> (the log of notifications sent), \<open>EU_AlertsPage\<close> (the alerts page beside a server
  that keeps the channels) and \<open>EU_GroupPages\<close> (the list of groups, the page of one, and moving targets
  between groups on the demo server).  \<open>EU_Direct\<close> holds the pages of a directly connected target and
  their actions on the demo server, \<open>EU_Connect\<close> the dialogs that connect one, the configuration they give to
  paste and a service's own settings, \<open>EU_Infra\<close> the gauges and charts of a host,
  \<open>EU_MetricsTab\<close> the metrics of a service (pins, groups, the opened metric, what a chart draws), \<open>EU_Settings\<close>
  the settings saved on every choice, \<open>EU_Select\<close> the list box the forms share.  \<open>EU_ServicePage\<close> is the page of a Docker
  service with its traces, \<open>EU_ServiceTabs\<close> its requests and uptime, \<open>EU_ChartElements\<close> the texts around a chart,
  \<open>EU_ChannelPage\<close> the page of a notification channel.

  (5) State over time.  A hook or page with requests in flight is a state record (its
  \<open>useState\<close> and \<open>useRef\<close> values and the requests not yet answered), one definition per
  handler and effect, and an \<open>inductive\<close> step relation in which any request in flight may be
  answered at any time.  \<open>EU_Answers\<close> states once, as the locale \<open>answers\<close>, what it means that
  only the answer of the current run is taken, and interprets it on the polling, target and data
  hooks; \<open>EU_Loader\<close> is the guarded effect several pages share; \<open>EU_MetricRead\<close> the metric
  explorer's read; \<open>EU_Logs\<close> the log panel of a service (filters, pages, live tail, histogram);
  \<open>EU_UptimeDetail\<close> the page of a monitor, whose writes load it again; \<open>EU_Session\<close> (locale \<open>persistent\<close>) the login, theme and chunk-reload state
  kept in the browser's storage; \<open>EU_Shell\<close> breadcrumbs, focus traps, the command palette,
  automatic refresh and connectivity.

  Conventions.  A JavaScript string is its UTF-8 bytes; \<open>undefined\<close> and \<open>null\<close> are \<open>None\<close>;
  a \<open>Map\<close> is an association list in insertion order; a throw is the left value of a sum; the
  clock (\<open>Date.now()\<close>) and random digits are arguments (\<open>ctx\<close>); the demo's fixture data is an
  argument (\<open>fixtures\<close>), so what is proved holds whatever the data is; request bodies are JSON
  values, which \<open>EU_JsonText\<close> justifies.  Counts and instants
  are integers, measured values rationals, exact where JavaScript's doubles round (integers over
  \<open>2\<close> to the \<open>53\<close>, such as nanosecond instants, among them); \<open>NaN\<close> is an absent number.  Loops are structural
  recursion, or \<open>for_from\<close> (\<open>partial_function\<close> in the option monad), whose termination for a
  positive step is proved; the only fuel is the length of the text in \<open>mask_digits\<close>, each step
  of which consumes a character, and likewise in the JSON reader.

  Not modelled.  Rendering: what a component draws, and the event wiring around the handlers
  named above; the route table of \<open>App.tsx\<close>; the pages and tabs whose logic is only fetching
  and laying out what the layers above compute.  The fixture data itself; locale-dependent
  formatting (\<open>toLocaleString\<close>, a parameter where it is used); the Go server and agent
  (\<open>src/web/backend\<close>, \<open>src/agent\<close>), which the client reaches only through HTTP (the parameter
  \<open>fetch\<close> of \<open>request\<close>), apart from the update of the settings in \<open>EU_Settings\<close> and what it keeps and answers
  of a notification channel in \<open>EU_ChannelForm\<close>.
\<close>

end
